(* ===== verification/Prelude.thy ===== *)
theory Prelude
  imports
    Main
    "HOL-Library.Word"
    "HOL-Library.AList"
    "HOL-Library.Char_ord"
    "HOL-Library.List_Lexorder"
    "HOL-Library.Product_Lexorder"
begin

text \<open>
  Shared vocabulary of the development: the machine types of the Rust sources, the
  models of the standard containers (\<open>HashMap\<close> as an association list whose order is
  the iteration order, \<open>Vec::sort\<close>, \<open>Vec::dedup_by\<close>), the string functions the
  program uses, and the interfaces (locales) several components provide: normalisers,
  wire codecs, step machines and bounded first-in first-out buffers.

  Strings are \<open>char list\<close>, read as sequences of the code points U+0000 to U+00FF;
  white space is Rust's \<open>char::is_whitespace\<close> on that range.
\<close>

named_theorems ic_simps \<open>unfolding rules the component proofs share\<close>

section \<open>Machine types\<close>

type_synonym u8 = "8 word"
type_synonym u16 = "16 word"
type_synonym u32 = "32 word"
type_synonym u64 = "64 word"
type_synonym i16 = "16 word"

text \<open>Instants are nanoseconds of the monotonic clock, \<open>Duration::from_millis\<close> included.\<close>

type_synonym instant = nat

definition millis :: "nat \<Rightarrow> nat" where
  "millis n = n * 1000000"

definition u64_max :: nat where
  "u64_max = 18446744073709551615"

section \<open>Hash maps as association lists\<close>

type_synonym ('k, 'v) hash_map = "('k \<times> 'v) list"

abbreviation hm_get :: "('k, 'v) hash_map \<Rightarrow> 'k \<Rightarrow> 'v option" where
  "hm_get \<equiv> map_of"

abbreviation hm_insert :: "'k \<Rightarrow> 'v \<Rightarrow> ('k, 'v) hash_map \<Rightarrow> ('k, 'v) hash_map" where
  "hm_insert \<equiv> AList.update"

abbreviation hm_remove :: "'k \<Rightarrow> ('k, 'v) hash_map \<Rightarrow> ('k, 'v) hash_map" where
  "hm_remove \<equiv> AList.delete"

definition hm_keys :: "('k, 'v) hash_map \<Rightarrow> 'k list" where
  "hm_keys m = map fst m"

definition hm_contains :: "('k, 'v) hash_map \<Rightarrow> 'k \<Rightarrow> bool" where
  "hm_contains m k = (map_of m k \<noteq> None)"

definition hm_wf :: "('k, 'v) hash_map \<Rightarrow> bool" where
  "hm_wf m = distinct (map fst m)"

text \<open>\<open>if let Some(v) = m.get_mut(k)\<close>: change the value in place, when there is one.\<close>

definition hm_modify :: "'k \<Rightarrow> ('v \<Rightarrow> 'v) \<Rightarrow> ('k, 'v) hash_map \<Rightarrow> ('k, 'v) hash_map" where
  "hm_modify k f m = (case map_of m k of None \<Rightarrow> m | Some v \<Rightarrow> AList.update k (f v) m)"

text \<open>\<open>m.entry(k).or_insert_with(d)\<close> followed by a change of the value it returns.\<close>

definition hm_entry ::
    "'k \<Rightarrow> 'v \<Rightarrow> ('v \<Rightarrow> 'v) \<Rightarrow> ('k, 'v) hash_map \<Rightarrow> ('k, 'v) hash_map" where
  "hm_entry k d f m = AList.update k (f (case map_of m k of None \<Rightarrow> d | Some v \<Rightarrow> v)) m"

text \<open>Equality of two maps, whatever their iteration order.\<close>

definition hm_eq :: "('k, 'v) hash_map \<Rightarrow> ('k, 'v) hash_map \<Rightarrow> bool" where
  "hm_eq a b = (\<forall>k \<in> set (map fst a) \<union> set (map fst b). map_of a k = map_of b k)"

lemma hm_contains_iff [simp]: "hm_contains m k \<longleftrightarrow> k \<in> fst ` set m"
  by (simp add: hm_contains_def map_of_eq_None_iff)

lemma set_hm_keys [simp]: "set (hm_keys m) = fst ` set m"
  by (simp add: hm_keys_def)

lemma hm_get_insert [simp]: "map_of (AList.update k v m) = (map_of m)(k \<mapsto> v)"
  by (rule update_conv')

lemma hm_get_modify:
  "map_of (hm_modify k f m) j = (if j = k then map_option f (map_of m k) else map_of m j)"
  by (auto simp: hm_modify_def split: option.splits)

lemma hm_get_modify_same [simp]: "map_of (hm_modify k f m) k = map_option f (map_of m k)"
  by (simp add: hm_get_modify)

lemma hm_get_modify_other [simp]: "j \<noteq> k \<Longrightarrow> map_of (hm_modify k f m) j = map_of m j"
  by (simp add: hm_get_modify)

lemma hm_get_entry:
  "map_of (hm_entry k d f m) j =
     (if j = k then Some (f (case map_of m k of None \<Rightarrow> d | Some v \<Rightarrow> v)) else map_of m j)"
  by (simp add: hm_entry_def)

lemma keys_modify [simp]: "fst ` set (hm_modify k f m) = fst ` set m"
proof (cases "map_of m k")
  case (Some v)
  then have "k \<in> fst ` set m"
    by (metis domI dom_map_of_conv_image_fst)
  with Some show ?thesis
    by (simp add: hm_modify_def dom_update insert_absorb)
qed (simp add: hm_modify_def)

lemma keys_entry [simp]: "fst ` set (hm_entry k d f m) = insert k (fst ` set m)"
  by (simp add: hm_entry_def dom_update)

lemma keys_insert [simp]: "fst ` set (AList.update k v m) = insert k (fst ` set m)"
  by (simp add: dom_update)

lemma hm_wf_insert [intro]: "hm_wf m \<Longrightarrow> hm_wf (AList.update k v m)"
  by (simp add: hm_wf_def distinct_update)

lemma hm_wf_modify [intro]: "hm_wf m \<Longrightarrow> hm_wf (hm_modify k f m)"
  by (auto simp: hm_modify_def split: option.splits)

lemma hm_wf_entry [intro]: "hm_wf m \<Longrightarrow> hm_wf (hm_entry k d f m)"
  by (auto simp: hm_entry_def)

lemma hm_wf_remove [intro]: "hm_wf m \<Longrightarrow> hm_wf (AList.delete k m)"
  by (simp add: hm_wf_def distinct_delete)

lemma hm_wf_Nil [simp]: "hm_wf []"
  by (simp add: hm_wf_def)

lemma hm_wf_mem: "hm_wf m \<Longrightarrow> (k, v) \<in> set m \<longleftrightarrow> map_of m k = Some v"
  by (simp add: hm_wf_def)

lemma hm_eq_get: "hm_eq a b \<longleftrightarrow> map_of a = map_of b"
proof
  assume eq: "hm_eq a b"
  show "map_of a = map_of b"
  proof
    fix k
    show "map_of a k = map_of b k"
    proof (cases "k \<in> set (map fst a) \<union> set (map fst b)")
      case True
      with eq show ?thesis by (auto simp: hm_eq_def)
    next
      case False
      then have "map_of a k = None" "map_of b k = None"
        by (auto simp: map_of_eq_None_iff)
      then show ?thesis by simp
    qed
  qed
qed (simp add: hm_eq_def)

section \<open>Sorting and removing neighbours\<close>

text \<open>
  \<open>Vec::sort_by\<close> is stable; on a comparison that is a total preorder it is a stable
  insertion sort. \<open>Vec::dedup_by\<close> drops an element when it matches the last one kept.
\<close>

datatype ordering = Less | Equal | Greater

definition cmp_of :: "('a :: linorder) \<Rightarrow> 'a \<Rightarrow> ordering" where
  "cmp_of x y = (if x < y then Less else if x = y then Equal else Greater)"

fun insort_by :: "('a \<Rightarrow> 'a \<Rightarrow> ordering) \<Rightarrow> 'a \<Rightarrow> 'a list \<Rightarrow> 'a list" where
  "insort_by c x [] = [x]"
| "insort_by c x (y # ys) = (if c x y \<noteq> Greater then x # y # ys else y # insort_by c x ys)"

definition sort_by :: "('a \<Rightarrow> 'a \<Rightarrow> ordering) \<Rightarrow> 'a list \<Rightarrow> 'a list" where
  "sort_by c xs = foldr (insort_by c) xs []"

fun dedup_by :: "('a \<Rightarrow> 'a \<Rightarrow> bool) \<Rightarrow> 'a list \<Rightarrow> 'a list" where
  "dedup_by e [] = []"
| "dedup_by e [x] = [x]"
| "dedup_by e (x # y # xs) = (if e y x then dedup_by e (x # xs) else x # dedup_by e (y # xs))"

lemma cmp_of_le [simp]: "cmp_of x y \<noteq> Greater \<longleftrightarrow> x \<le> y"
  by (auto simp: cmp_of_def)

lemma cmp_of_eq [simp]: "cmp_of x y = Equal \<longleftrightarrow> x = y"
  by (auto simp: cmp_of_def)

lemma insort_by_key: "(\<And>x y. c x y = cmp_of (k x) (k y)) \<Longrightarrow> insort_by c x xs = insort_key k x xs"
  by (induction xs) auto

lemma sort_by_key:
  assumes "\<And>x y. c x y = cmp_of (k x) (k y)"
  shows "sort_by c xs = sort_key k xs"
  unfolding sort_by_def sort_key_def
  by (induction xs) (simp_all add: insort_by_key [of c k, OF assms])

lemma dedup_by_eq: "dedup_by (=) xs = remdups_adj xs"
  by (induction xs rule: remdups_adj.induct) auto

lemma set_dedup_by: "set (dedup_by e xs) \<subseteq> set xs"
  by (induction e xs rule: dedup_by.induct) auto

lemma dedup_by_Cons_nonempty: "\<exists>ys. dedup_by e (x # xs) = x # ys"
proof (induction xs arbitrary: x)
  case (Cons y xs)
  then show ?case by (cases "e y x") auto
qed simp

lemma dedup_by_no_match: "successively (\<lambda>x y. \<not> e y x) (dedup_by e xs)"
proof (induction e xs rule: dedup_by.induct)
  case (3 e x y xs)
  show ?case
  proof (cases "e y x")
    case False
    obtain ys where ys: "dedup_by e (y # xs) = y # ys"
      using dedup_by_Cons_nonempty [of e y xs] by blast
    with "3.IH"(2) [OF False] False show ?thesis by simp
  qed (use "3.IH" in simp)
qed simp_all

lemma dedup_by_id: "successively (\<lambda>x y. \<not> e y x) xs \<Longrightarrow> dedup_by e xs = xs"
  by (induction e xs rule: dedup_by.induct) auto

lemma dedup_by_idem [simp]: "dedup_by e (dedup_by e xs) = dedup_by e xs"
  by (rule dedup_by_id, rule dedup_by_no_match)

lemma sorted_dedup_by: "sorted (map k xs) \<Longrightarrow> sorted (map k (dedup_by e xs))"
proof (induction e xs rule: dedup_by.induct)
  case (3 e x y xs)
  have sub: "set (dedup_by e (y # xs)) \<subseteq> set (y # xs)" by (rule set_dedup_by)
  show ?case
  proof (cases "e y x")
    case False
    with 3 sub show ?thesis by (auto simp del: set_simps) (fastforce simp: image_iff)+
  qed (use 3 in simp)
qed simp_all

section \<open>Strings\<close>

definition is_whitespace :: "char \<Rightarrow> bool" where
  "is_whitespace c = (let n = of_char c :: nat in (9 \<le> n \<and> n \<le> 13) \<or> n = 32 \<or> n = 133 \<or> n = 160)"

definition trim_start :: "string \<Rightarrow> string" where
  "trim_start s = dropWhile is_whitespace s"

definition trim_end :: "string \<Rightarrow> string" where
  "trim_end s = rev (dropWhile is_whitespace (rev s))"

definition trim :: "string \<Rightarrow> string" where
  "trim s = trim_end (trim_start s)"

definition trimmed :: "string \<Rightarrow> bool" where
  "trimmed s = (s = [] \<or> (\<not> is_whitespace (hd s) \<and> \<not> is_whitespace (last s)))"

definition is_ascii_digit :: "char \<Rightarrow> bool" where
  "is_ascii_digit c = (let n = of_char c :: nat in 48 \<le> n \<and> n \<le> 57)"

definition is_ascii_alpha :: "char \<Rightarrow> bool" where
  "is_ascii_alpha c = (let n = of_char c :: nat in (65 \<le> n \<and> n \<le> 90) \<or> (97 \<le> n \<and> n \<le> 122))"

definition is_ascii_alphanumeric :: "char \<Rightarrow> bool" where
  "is_ascii_alphanumeric c = (is_ascii_alpha c \<or> is_ascii_digit c)"

definition is_ascii_hexdigit :: "char \<Rightarrow> bool" where
  "is_ascii_hexdigit c = (let n = of_char c :: nat in
     (48 \<le> n \<and> n \<le> 57) \<or> (65 \<le> n \<and> n \<le> 70) \<or> (97 \<le> n \<and> n \<le> 102))"

definition to_ascii_lowercase :: "string \<Rightarrow> string" where
  "to_ascii_lowercase s = map (\<lambda>c. let n = of_char c :: nat in
     if 65 \<le> n \<and> n \<le> 90 then char_of (n + 32) else c) s"

text \<open>Decimal notation, and \<open>str::parse\<close> for an unsigned integer below \<open>bound\<close>:
  an optional plus sign, at least one digit, digits only, no overflow.\<close>

fun show_nat :: "nat \<Rightarrow> string" where
  "show_nat n = (if n < 10 then [char_of (48 + n)]
                 else show_nat (n div 10) @ [char_of (48 + n mod 10)])"

declare show_nat.simps [simp del]

abbreviation show_word :: "('a :: len) word \<Rightarrow> string" where
  "show_word w \<equiv> show_nat (unat w)"

fun digits_value :: "nat \<Rightarrow> string \<Rightarrow> nat option" where
  "digits_value acc [] = Some acc"
| "digits_value acc (c # cs) =
     (if is_ascii_digit c then digits_value (acc * 10 + (of_char c - 48)) cs else None)"

definition parse_unsigned :: "nat \<Rightarrow> string \<Rightarrow> nat option" where
  "parse_unsigned bound s =
     (let ds = (case s of c # cs \<Rightarrow> if c = CHR ''+'' then cs else s | [] \<Rightarrow> s)
      in if ds = [] then None
         else case digits_value 0 ds of
                None \<Rightarrow> None
              | Some n \<Rightarrow> if n < bound then Some n else None)"

definition parse_u16 :: "string \<Rightarrow> u16 option" where
  "parse_u16 s = map_option of_nat (parse_unsigned 65536 s)"

fun split_on :: "char \<Rightarrow> string \<Rightarrow> string list" where
  "split_on d [] = [[]]"
| "split_on d (c # cs) =
     (if c = d then [] # split_on d cs
      else case split_on d cs of [] \<Rightarrow> [[c]] | p # ps \<Rightarrow> (c # p) # ps)"

definition split_whitespace :: "string \<Rightarrow> string list" where
  "split_whitespace s =
     filter (\<lambda>p. p \<noteq> [])
       (foldr (\<lambda>c ps. if is_whitespace c then [] # ps
                       else case ps of [] \<Rightarrow> [[c]] | p # qs \<Rightarrow> (c # p) # qs) s [[]])"

fun join :: "string \<Rightarrow> string list \<Rightarrow> string" where
  "join sep [] = []"
| "join sep [p] = p"
| "join sep (p # q # ps) = p @ sep @ join sep (q # ps)"

lemma dropWhile_hd: "dropWhile P xs \<noteq> [] \<Longrightarrow> \<not> P (hd (dropWhile P xs))"
  by (rule hd_dropWhile)

lemma trimmed_Nil [simp]: "trimmed []"
  by (simp add: trimmed_def)

lemma trim_end_last: "trim_end s \<noteq> [] \<Longrightarrow> \<not> is_whitespace (last (trim_end s))"
  unfolding trim_end_def by (metis Nil_is_rev_conv hd_dropWhile last_rev)

lemma trim_end_hd: "trim_end s \<noteq> [] \<Longrightarrow> hd (trim_end s) = hd s"
proof -
  assume ne: "trim_end s \<noteq> []"
  have "s = trim_end s @ rev (takeWhile is_whitespace (rev s))"
    unfolding trim_end_def
    by (metis rev_append rev_rev_ident takeWhile_dropWhile_id)
  with ne show ?thesis by (metis hd_append2)
qed

lemma trimmed_trim [simp]: "trimmed (trim s)"
proof (cases "trim s = []")
  case False
  then have ne: "trim_end (trim_start s) \<noteq> []" by (simp add: trim_def)
  then have "trim_start s \<noteq> []" by (auto simp: trim_end_def)
  then have "\<not> is_whitespace (hd (trim_start s))"
    by (simp add: trim_start_def hd_dropWhile)
  with ne show ?thesis
    by (simp add: trimmed_def trim_def trim_end_hd trim_end_last)
qed simp

lemma dropWhile_id: "xs = [] \<or> \<not> P (hd xs) \<Longrightarrow> dropWhile P xs = xs"
  by (cases xs) auto

lemma trim_id [simp]: "trimmed s \<Longrightarrow> trim s = s"
proof -
  assume t: "trimmed s"
  then have "trim_start s = s"
    unfolding trim_start_def trimmed_def by (intro dropWhile_id) auto
  moreover have "trim_end s = s"
  proof -
    have "rev s = [] \<or> \<not> is_whitespace (hd (rev s))"
      using t by (auto simp: trimmed_def hd_rev)
    then have "dropWhile is_whitespace (rev s) = rev s" by (rule dropWhile_id)
    then show ?thesis by (simp add: trim_end_def)
  qed
  ultimately show ?thesis by (simp add: trim_def)
qed

lemma trim_trim: "trim (trim s) = trim s"
  by simp

lemma set_trim: "set (trim s) \<subseteq> set s"
proof -
  have "set (dropWhile P xs) \<subseteq> set xs" for P and xs :: string
    by (induction xs) auto
  then show ?thesis
    unfolding trim_def trim_end_def trim_start_def by (metis set_rev subset_trans)
qed

end
