(* ===== verification/Interfaces.thy ===== *)
theory Interfaces
  imports Prelude
begin

text \<open>
  The contracts that several components of the program provide, each with the facts its
  clients use. Every locale is interpreted on the model's own operations in the theory of
  the component that provides them.
\<close>

section \<open>Normalisers\<close>

text \<open>
  The server stores configuration values only after a \<open>normalize_*\<close> function: its
  result satisfies the component's well-formedness predicate, and a well-formed value is
  left alone. So applying a normaliser again, as the server does on every load, every
  update and every copy to a session, changes nothing.
\<close>

locale normaliser =
  fixes norm :: "'a \<Rightarrow> 'a"
    and ok :: "'a \<Rightarrow> bool"
  assumes norm_ok: "ok (norm x)"
    and norm_fixes: "ok x \<Longrightarrow> norm x = x"
begin

lemma idem: "norm (norm x) = norm x"
  by (rule norm_fixes, rule norm_ok)

lemma fixpoint_iff: "norm x = x \<longleftrightarrow> ok x"
  by (metis norm_ok norm_fixes)

lemma map_ok: "list_all ok (map norm xs)"
  by (induction xs) (simp_all add: norm_ok)

lemma map_fixes: "list_all ok xs \<Longrightarrow> map norm xs = xs"
  by (induction xs) (simp_all add: norm_fixes)

lemma option_idem: "map_option norm (map_option norm x) = map_option norm x"
  by (cases x) (simp_all add: idem)

end

text \<open>
  The normalisers of lists of named values all drop the unnamed ones, clean each of the
  others, sort them by a key and remove neighbours with equal names.
\<close>

locale keyed_normaliser =
  fixes clean :: "'a \<Rightarrow> 'a"
    and keep :: "'a \<Rightarrow> bool"
    and key :: "'a \<Rightarrow> 'k :: linorder"
    and name :: "'a \<Rightarrow> 'i"
    and ok1 :: "'a \<Rightarrow> bool"
  assumes clean_ok: "keep x \<Longrightarrow> ok1 (clean x)"
    and clean_fixes: "ok1 x \<Longrightarrow> clean x = x"
    and ok_kept: "ok1 x \<Longrightarrow> keep x"

sublocale keyed_normaliser \<subseteq> normaliser
  "\<lambda>xs. dedup_by (\<lambda>l r. name l = name r) (sort_key key (map clean (filter keep xs)))"
  "\<lambda>xs. list_all ok1 xs \<and> sorted (map key xs) \<and> successively (\<lambda>x y. name y \<noteq> name x) xs"
proof
  fix xs
  let ?ys = "sort_key key (map clean (filter keep xs))"
  let ?zs = "dedup_by (\<lambda>l r. name l = name r) ?ys"
  have "set ?zs \<subseteq> clean ` {x \<in> set xs. keep x}"
    using set_dedup_by [of _ ?ys] by auto
  then have "list_all ok1 ?zs"
    using clean_ok by (auto simp: list_all_iff)
  then show "list_all ok1 ?zs \<and> sorted (map key ?zs) \<and> successively (\<lambda>x y. name y \<noteq> name x) ?zs"
    using dedup_by_no_match [of "\<lambda>l r. name l = name r" ?ys] by (simp add: sorted_dedup_by)
next
  fix xs
  assume ok: "list_all ok1 xs \<and> sorted (map key xs) \<and> successively (\<lambda>x y. name y \<noteq> name x) xs"
  then have "map clean xs = xs" "filter keep xs = xs"
    by (auto simp: list_all_iff clean_fixes ok_kept intro: map_idI filter_True)
  with ok show "dedup_by (\<lambda>l r. name l = name r) (sort_key key (map clean (filter keep xs))) = xs"
    by (simp add: sort_key_id_if_sorted dedup_by_id)
qed

section \<open>Wire codecs\<close>

text \<open>
  An encoder and a decoder with an error type: decoding inverts encoding on the valid
  values, and every accepted input is the encoding of the value it decodes to, so the
  wire form is canonical.
\<close>

locale wire_codec =
  fixes enc :: "'a \<Rightarrow> 'b"
    and dec :: "'b \<Rightarrow> 'e + 'a"
    and valid :: "'a \<Rightarrow> bool"
  assumes dec_enc: "valid x \<Longrightarrow> dec (enc x) = Inr x"
    and dec_valid: "dec y = Inr x \<Longrightarrow> valid x"
    and enc_dec: "dec y = Inr x \<Longrightarrow> enc x = y"
begin

lemma dec_iff: "dec y = Inr x \<longleftrightarrow> valid x \<and> enc x = y"
  using dec_enc dec_valid enc_dec by blast

lemma enc_inj: "valid x \<Longrightarrow> valid y \<Longrightarrow> enc x = enc y \<Longrightarrow> x = y"
  by (metis dec_enc sum.inject(2))

lemma dec_inj: "dec y = Inr x \<Longrightarrow> dec z = Inr x \<Longrightarrow> y = z"
  using enc_dec by blast

lemma accepted_iff: "(\<exists>x. dec y = Inr x) \<longleftrightarrow> y \<in> enc ` Collect valid"
  by (auto simp: dec_iff)

end

section \<open>Step machines\<close>

text \<open>
  A component whose state changes by events. Whatever every admissible event keeps, a
  whole run keeps, and so does every state the run passes through.
\<close>

locale step_machine =
  fixes step :: "'e \<Rightarrow> 's \<Rightarrow> 's"
    and admissible :: "'e \<Rightarrow> bool"
    and inv :: "'s \<Rightarrow> bool"
  assumes step_inv: "admissible e \<Longrightarrow> inv s \<Longrightarrow> inv (step e s)"
begin

lemma run_inv: "list_all admissible es \<Longrightarrow> inv s \<Longrightarrow> inv (fold step es s)"
  by (induction es arbitrary: s) (simp_all add: step_inv)

lemma prefix_inv: "list_all admissible (es @ fs) \<Longrightarrow> inv s \<Longrightarrow> inv (fold step es s)"
  by (rule run_inv) simp_all

end

section \<open>Bounded first-in first-out buffers\<close>

definition last_n :: "nat \<Rightarrow> 'a list \<Rightarrow> 'a list" where
  "last_n n xs = drop (length xs - n) xs"

lemma length_last_n [simp]: "length (last_n n xs) = min n (length xs)"
  by (auto simp: last_n_def)

lemma last_n_id [simp]: "length xs \<le> n \<Longrightarrow> last_n n xs = xs"
  by (simp add: last_n_def)

lemma last_n_append: "last_n n (last_n n xs @ ys) = last_n n (xs @ ys)"
proof (cases "length xs \<le> n")
  case False
  then have "last_n n (last_n n xs @ ys) = drop (length ys) (drop (length xs - n) (xs @ ys))"
    by (simp add: last_n_def)
  also have "\<dots> = last_n n (xs @ ys)"
    using False by (simp add: last_n_def add.commute del: drop_append)
  finally show ?thesis .
qed simp

text \<open>
  Audio queues drop their oldest contents when they are full: a push leaves the newest
  \<open>bound\<close> elements, a pop takes the oldest one.
\<close>

locale bounded_fifo =
  fixes push :: "'a list \<Rightarrow> 'q \<Rightarrow> 'q"
    and pop :: "'q \<Rightarrow> 'a option \<times> 'q"
    and contents :: "'q \<Rightarrow> 'a list"
    and bound :: "'q \<Rightarrow> nat"
    and wf :: "'q \<Rightarrow> bool"
    and ready :: "'q \<Rightarrow> bool"
    and chunk :: "'a list \<Rightarrow> bool"
  assumes push_contents: "wf q \<Longrightarrow> chunk xs \<Longrightarrow>
                     contents (push xs q) = last_n (bound q) (contents q @ xs)"
    and push_wf: "wf q \<Longrightarrow> chunk xs \<Longrightarrow> wf (push xs q)"
    and push_bound: "bound (push xs q) = bound q"
    and pop_wf: "wf q \<Longrightarrow> wf (snd (pop q))"
    and pop_bound: "bound (snd (pop q)) = bound q"
    and pop_empty: "wf q \<Longrightarrow> contents q = [] \<Longrightarrow>
                     fst (pop q) = None \<and> contents (snd (pop q)) = []"
    and pop_head: "wf q \<Longrightarrow> ready q \<Longrightarrow> contents q = x # xs \<Longrightarrow>
                     fst (pop q) = Some x \<and> contents (snd (pop q)) = xs"
    and pop_ready: "wf q \<Longrightarrow> ready q \<Longrightarrow> contents q \<noteq> [] \<Longrightarrow> ready (snd (pop q))"
begin

lemma push_le_bound: "wf q \<Longrightarrow> chunk xs \<Longrightarrow> length (contents (push xs q)) \<le> bound q"
  by (simp add: push_contents)

lemma pushes_bound: "bound (fold push xss q) = bound q"
  by (induction xss arbitrary: q) (simp_all add: push_bound)

lemma pushes_wf: "wf q \<Longrightarrow> list_all chunk xss \<Longrightarrow> wf (fold push xss q)"
  by (induction xss arbitrary: q) (simp_all add: push_wf)

lemma pushes_contents:
  "wf q \<Longrightarrow> list_all chunk xss \<Longrightarrow> length (contents q) \<le> bound q \<Longrightarrow>
     contents (fold push xss q) = last_n (bound q) (contents q @ concat xss)"
proof (induction xss arbitrary: q)
  case (Cons xs xss)
  then have "contents (fold push xss (push xs q)) =
      last_n (bound q) (contents (push xs q) @ concat xss)"
    by (simp add: push_bound push_contents push_wf)
  with Cons.prems show ?case by (simp add: push_contents last_n_append)
qed simp

fun drain :: "nat \<Rightarrow> 'q \<Rightarrow> 'a list \<times> 'q" where
  "drain 0 q = ([], q)"
| "drain (Suc n) q =
     (case pop q of (None, q') \<Rightarrow> ([], q')
      | (Some x, q') \<Rightarrow> (let (xs, q'') = drain n q' in (x # xs, q'')))"

lemma drain_takes:
  "wf q \<Longrightarrow> ready q \<Longrightarrow> n \<le> length (contents q) \<Longrightarrow>
     fst (drain n q) = take n (contents q) \<and> contents (snd (drain n q)) = drop n (contents q)"
proof (induction n arbitrary: q)
  case (Suc n)
  then obtain x xs where c: "contents q = x # xs" by (cases "contents q") auto
  with Suc.prems pop_head obtain q' where q': "pop q = (Some x, q')" "contents q' = xs"
    by (metis prod.collapse)
  moreover have "ready q'" using pop_ready [OF Suc.prems(1,2)] c q' by simp
  moreover have "wf q'" using pop_wf [OF Suc.prems(1)] q' by simp
  ultimately show ?case
    using Suc.IH [of q'] Suc.prems(3) c by (auto split: prod.splits)
qed simp

end

end
