(* ===== verification/Protocol.thy ===== *)
theory Protocol
  imports Interfaces
begin

text \<open>
  The UDP wire protocol of \<open>common/src/lib.rs\<close>: codecs and Opus profiles, audio targets,
  the 17-byte packet header with \<open>AudioPacket::encode\<close> and \<open>AudioPacket::decode\<close>, and
  the little-endian PCM payload. The theorems state that decoding inverts encoding, that
  an accepted datagram is the encoding of the packet it decodes to, and exactly which
  datagrams are accepted.
\<close>

unbundle bit_operations_syntax

section \<open>Constants\<close>

type_synonym user_id = u16
type_synonym channel_id = u16
type_synonym alert_id = u64
type_synonym button_id = string
type_synonym client_uid = string

definition magic :: "u8 list" where "magic = [73, 67]"
definition version :: u8 where "version = 2"
definition sample_rate :: nat where "sample_rate = 16000"
definition pcm24_sample_rate :: nat where "pcm24_sample_rate = 24000"
definition pcm48_sample_rate :: nat where "pcm48_sample_rate = 48000"
definition frame_ms :: nat where "frame_ms = 10"
definition samples_per_frame :: nat where "samples_per_frame = (sample_rate * frame_ms) div 1000"
definition mix_samples_per_frame :: nat where
  "mix_samples_per_frame = (pcm48_sample_rate * frame_ms) div 1000"
definition pcm16_bytes_per_sample :: nat where "pcm16_bytes_per_sample = 2"
definition header_len :: nat where "header_len = 17"
definition server_user_id :: user_id where "server_user_id = 0"

section \<open>Codecs\<close>

datatype codec = Pcm16 | Adpcm | Opus | Pcm48 | Pcm24

datatype opus_profile = Speech16Low | Speech24Standard | Speech48High | Music48

datatype opus_bandwidth = Wideband | Superwideband | Fullband

definition default_opus_profile :: opus_profile where
  "default_opus_profile = Speech24Standard"

fun opus_mono_bitrate :: "opus_profile \<Rightarrow> int" where
  "opus_mono_bitrate Speech16Low = 20000"
| "opus_mono_bitrate Speech24Standard = 32000"
| "opus_mono_bitrate Speech48High = 56000"
| "opus_mono_bitrate Music48 = 80000"

definition bitrate_bps :: "opus_profile \<Rightarrow> nat \<Rightarrow> int" where
  "bitrate_bps p channels =
     (let mono = opus_mono_bitrate p in if channels > 1 then mono * 2 else mono)"

fun complexity :: "opus_profile \<Rightarrow> int" where
  "complexity Speech16Low = 3"
| "complexity Speech24Standard = 5"
| "complexity Speech48High = 8"
| "complexity Music48 = 8"

fun opus_sample_rate_hz :: "opus_profile \<Rightarrow> nat" where
  "opus_sample_rate_hz Speech16Low = sample_rate"
| "opus_sample_rate_hz Speech24Standard = pcm24_sample_rate"
| "opus_sample_rate_hz Speech48High = pcm48_sample_rate"
| "opus_sample_rate_hz Music48 = pcm48_sample_rate"

definition opus_samples_per_frame :: "opus_profile \<Rightarrow> nat" where
  "opus_samples_per_frame p = (opus_sample_rate_hz p * frame_ms) div 1000"

fun max_bandwidth :: "opus_profile \<Rightarrow> opus_bandwidth" where
  "max_bandwidth Speech16Low = Wideband"
| "max_bandwidth Speech24Standard = Superwideband"
| "max_bandwidth Speech48High = Fullband"
| "max_bandwidth Music48 = Fullband"

definition frame_len_for_rate :: "nat \<Rightarrow> nat" where
  "frame_len_for_rate rate = (rate * frame_ms) div 1000"

fun codec_sample_rate :: "codec \<Rightarrow> nat" where
  "codec_sample_rate Pcm16 = sample_rate"
| "codec_sample_rate Adpcm = sample_rate"
| "codec_sample_rate Pcm24 = pcm24_sample_rate"
| "codec_sample_rate Opus = opus_sample_rate_hz default_opus_profile"
| "codec_sample_rate Pcm48 = pcm48_sample_rate"

definition codec_samples_per_frame :: "codec \<Rightarrow> nat" where
  "codec_samples_per_frame c = frame_len_for_rate (codec_sample_rate c)"

definition codec_pcm16_payload_bytes :: "codec \<Rightarrow> nat" where
  "codec_pcm16_payload_bytes c = codec_samples_per_frame c * pcm16_bytes_per_sample"

text \<open>The receive buffers of the server and of the client.\<close>

definition max_packet_bytes :: nat where
  "max_packet_bytes = header_len + 2 * codec_pcm16_payload_bytes Pcm48"

fun codec_byte :: "codec \<Rightarrow> u8" where
  "codec_byte Pcm16 = 0"
| "codec_byte Adpcm = 1"
| "codec_byte Opus = 2"
| "codec_byte Pcm48 = 3"
| "codec_byte Pcm24 = 4"

section \<open>Packet errors\<close>

datatype packet_error =
    TooShort nat
  | InvalidMagic u8 u8
  | UnsupportedVersion u8
  | UnknownCodec u8
  | UnknownTargetKind u8
  | InvalidTargetId u8 u16
  | PayloadLengthMismatch nat nat
  | PayloadTooLarge nat

definition codec_try_from :: "u8 \<Rightarrow> packet_error + codec" where
  "codec_try_from v =
     (if v = 0 then Inr Pcm16
      else if v = 1 then Inr Adpcm
      else if v = 2 then Inr Opus
      else if v = 3 then Inr Pcm48
      else if v = 4 then Inr Pcm24
      else Inl (UnknownCodec v))"

section \<open>Audio targets\<close>

datatype audio_target = Channel channel_id | Direct user_id | Mixed

fun wire_parts :: "audio_target \<Rightarrow> u8 \<times> u16" where
  "wire_parts (Channel c) = (1, c)"
| "wire_parts (Direct u) = (2, u)"
| "wire_parts Mixed = (3, 0)"

definition target_from_wire :: "u8 \<Rightarrow> u16 \<Rightarrow> packet_error + audio_target" where
  "target_from_wire kind i =
     (if kind = 1 then Inr (Channel i)
      else if kind = 2 then Inr (Direct i)
      else if kind = 3 \<and> i = 0 then Inr Mixed
      else if kind = 3 then Inl (InvalidTargetId kind i)
      else Inl (UnknownTargetKind kind))"

fun target_channel_id :: "audio_target \<Rightarrow> channel_id option" where
  "target_channel_id (Channel c) = Some c"
| "target_channel_id (Direct _) = None"
| "target_channel_id Mixed = None"

section \<open>Audio packets\<close>

record audio_packet =
  pkt_user_id :: user_id
  pkt_target :: audio_target
  pkt_codec :: codec
  pkt_seq :: u16
  pkt_timestamp :: u32
  pkt_payload :: "u8 list"

definition registration :: "user_id \<Rightarrow> codec \<Rightarrow> u16 \<Rightarrow> audio_packet" where
  "registration u c s =
     \<lparr>pkt_user_id = u, pkt_target = Mixed, pkt_codec = c, pkt_seq = s,
      pkt_timestamp = 0, pkt_payload = []\<rparr>"

definition is_registration :: "audio_packet \<Rightarrow> bool" where
  "is_registration p = (pkt_target p = Mixed \<and> pkt_payload p = [])"

definition u16_to_be :: "u16 \<Rightarrow> u8 list" where
  "u16_to_be w = [ucast (drop_bit 8 w), ucast w]"

definition u16_from_be :: "u8 \<Rightarrow> u8 \<Rightarrow> u16" where
  "u16_from_be a b = push_bit 8 (ucast a) OR ucast b"

definition u32_to_be :: "u32 \<Rightarrow> u8 list" where
  "u32_to_be w = [ucast (drop_bit 24 w), ucast (drop_bit 16 w), ucast (drop_bit 8 w), ucast w]"

definition u32_from_be :: "u8 \<Rightarrow> u8 \<Rightarrow> u8 \<Rightarrow> u8 \<Rightarrow> u32" where
  "u32_from_be a b c d =
     push_bit 24 (ucast a) OR push_bit 16 (ucast b) OR push_bit 8 (ucast c) OR ucast d"

definition packet_bytes :: "audio_packet \<Rightarrow> u8 list" where
  "packet_bytes p =
     (let (kind, i) = wire_parts (pkt_target p) in
      magic @ [version] @ u16_to_be (pkt_user_id p) @ [kind] @ u16_to_be i
        @ [codec_byte (pkt_codec p)] @ u16_to_be (pkt_seq p) @ u32_to_be (pkt_timestamp p)
        @ u16_to_be (of_nat (length (pkt_payload p))) @ pkt_payload p)"

definition packet_encode :: "audio_packet \<Rightarrow> packet_error + u8 list" where
  "packet_encode p =
     (if length (pkt_payload p) > 65535 then Inl (PayloadTooLarge (length (pkt_payload p)))
      else Inr (packet_bytes p))"

definition packet_decode :: "u8 list \<Rightarrow> packet_error + audio_packet" where
  "packet_decode b =
     (if length b < header_len then Inl (TooShort (length b))
      else if take 2 b \<noteq> magic then Inl (InvalidMagic (b ! 0) (b ! 1))
      else if b ! 2 \<noteq> version then Inl (UnsupportedVersion (b ! 2))
      else case target_from_wire (b ! 5) (u16_from_be (b ! 6) (b ! 7)) of
        Inl e \<Rightarrow> Inl e
      | Inr target \<Rightarrow>
        (case codec_try_from (b ! 8) of
          Inl e \<Rightarrow> Inl e
        | Inr codec \<Rightarrow>
          (let payload_len = unat (u16_from_be (b ! 15) (b ! 16));
               actual_len = length b - header_len
           in if payload_len \<noteq> actual_len
              then Inl (PayloadLengthMismatch payload_len actual_len)
              else Inr \<lparr>pkt_user_id = u16_from_be (b ! 3) (b ! 4), pkt_target = target,
                        pkt_codec = codec, pkt_seq = u16_from_be (b ! 9) (b ! 10),
                        pkt_timestamp = u32_from_be (b ! 11) (b ! 12) (b ! 13) (b ! 14),
                        pkt_payload = drop header_len b\<rparr>)))"

section \<open>PCM payloads\<close>

datatype pcm_error = OddByteLength nat | Resample string

definition i16_to_le :: "i16 \<Rightarrow> u8 list" where
  "i16_to_le w = [ucast w, ucast (drop_bit 8 w)]"

definition i16_from_le :: "u8 \<Rightarrow> u8 \<Rightarrow> i16" where
  "i16_from_le a b = push_bit 8 (ucast b) OR ucast a"

definition pcm16_samples_to_le_bytes :: "i16 list \<Rightarrow> u8 list" where
  "pcm16_samples_to_le_bytes samples = concat (map i16_to_le samples)"

fun pairs_le :: "u8 list \<Rightarrow> i16 list" where
  "pairs_le (a # b # bs) = i16_from_le a b # pairs_le bs"
| "pairs_le _ = []"

definition pcm16_le_bytes_to_samples :: "u8 list \<Rightarrow> pcm_error + i16 list" where
  "pcm16_le_bytes_to_samples bytes =
     (if length bytes mod pcm16_bytes_per_sample \<noteq> 0 then Inl (OddByteLength (length bytes))
      else Inr (pairs_le bytes))"

section \<open>Byte order\<close>

lemma u16_be_round [simp]: "u16_from_be (ucast (drop_bit 8 w)) (ucast w) = w"
  unfolding u16_from_be_def by (rule bit_word_eqI) (auto simp: bit_simps)

lemma u16_be_bytes [simp]:
  "ucast (drop_bit 8 (u16_from_be a b)) = a" "ucast (u16_from_be a b) = b"
  unfolding u16_from_be_def
  by (rule bit_word_eqI; auto simp: bit_simps dest: bit_imp_le_length)+

lemma u32_be_round [simp]:
  "u32_from_be (ucast (drop_bit 24 w)) (ucast (drop_bit 16 w)) (ucast (drop_bit 8 w)) (ucast w) = w"
  unfolding u32_from_be_def
proof (rule bit_word_eqI)
  fix n
  assume "n < LENGTH(32)"
  then have "n < 8 \<or> n = (n - 8) + 8 \<and> n - 8 < 8 \<or> n = (n - 16) + 16 \<and> n - 16 < 8
      \<or> n = (n - 24) + 24 \<and> n - 24 < 8"
    by simp arith
  then consider "n < 8" | m where "n = m + 8" "m < 8" | m where "n = m + 16" "m < 8"
    | m where "n = m + 24" "m < 8"
    by blast
  then show "bit (push_bit 24 (ucast (ucast (drop_bit 24 w) :: u8)) OR
      push_bit 16 (ucast (ucast (drop_bit 16 w) :: u8)) OR
      push_bit 8 (ucast (ucast (drop_bit 8 w) :: u8)) OR ucast (ucast w :: u8) :: u32) n = bit w n"
    by cases (auto simp: bit_simps add.commute)
qed

lemma u32_be_bytes [simp]:
  "ucast (drop_bit 24 (u32_from_be a b c d)) = a"
  "ucast (drop_bit 16 (u32_from_be a b c d)) = b"
  "ucast (drop_bit 8 (u32_from_be a b c d)) = c"
  "ucast (u32_from_be a b c d) = d"
  unfolding u32_from_be_def
  by (rule bit_word_eqI; auto simp: bit_simps dest: bit_imp_le_length)+

lemma i16_le_round [simp]: "i16_from_le (ucast w) (ucast (drop_bit 8 w)) = w"
  unfolding i16_from_le_def by (rule bit_word_eqI) (auto simp: bit_simps)

lemma i16_le_bytes [simp]: "i16_to_le (i16_from_le a b) = [a, b]"
  unfolding i16_from_le_def i16_to_le_def
  by (simp, intro conjI; rule bit_word_eqI; auto simp: bit_simps dest: bit_imp_le_length)

lemma length_be [simp]: "length (u16_to_be w) = 2" "length (u32_to_be v) = 4"
  by (simp_all add: u16_to_be_def u32_to_be_def)

lemma u16_be_eq: "u16_to_be w = [a, b] \<longleftrightarrow> w = u16_from_be a b"
  by (auto simp: u16_to_be_def)

lemma u32_be_eq: "u32_to_be w = [a, b, c, d] \<longleftrightarrow> w = u32_from_be a b c d"
  by (auto simp: u32_to_be_def)

lemma u16_from_be_eq_of_nat:
  "n \<le> 65535 \<Longrightarrow> unat (u16_from_be a b) = n \<longleftrightarrow> u16_to_be (of_nat n) = [a, b]"
proof -
  assume n: "n \<le> 65535"
  have "unat (u16_from_be a b) = n \<longleftrightarrow> u16_from_be a b = of_nat n"
    using n by (auto simp: unsigned_of_nat take_bit_nat_eq_self)
  then show ?thesis by (auto simp: u16_be_eq)
qed

section \<open>Interpretations of the codec interface\<close>

interpretation codec_wire: wire_codec codec_byte codec_try_from "\<lambda>_. True"
proof
  show "codec_try_from (codec_byte x) = Inr x" for x
    by (cases x) (simp_all add: codec_try_from_def)
  show "codec_try_from y = Inr x \<Longrightarrow> codec_byte x = y" for x y
    by (auto simp: codec_try_from_def split: if_splits)
qed simp

interpretation target_wire:
  wire_codec wire_parts "\<lambda>(kind, i). target_from_wire kind i" "\<lambda>_. True"
proof
  show "(case wire_parts x of (kind, i) \<Rightarrow> target_from_wire kind i) = Inr x" for x
    by (cases x) (simp_all add: target_from_wire_def)
  show "(case y of (kind, i) \<Rightarrow> target_from_wire kind i) = Inr x \<Longrightarrow> wire_parts x = y" for x y
    by (cases y) (auto simp: target_from_wire_def split: if_splits)
qed simp

lemma split17:
  assumes "17 \<le> length b"
  obtains b0 b1 b2 b3 b4 b5 b6 b7 b8 b9 b10 b11 b12 b13 b14 b15 b16 r where
    "b = b0 # b1 # b2 # b3 # b4 # b5 # b6 # b7 # b8 # b9 # b10 # b11 # b12 # b13 # b14 # b15
           # b16 # r"
  using assms by (auto simp: Suc_le_length_iff numeral_eq_Suc)

lemma packet_bytes_eq:
  "packet_bytes p = b0 # b1 # b2 # b3 # b4 # b5 # b6 # b7 # b8 # b9 # b10 # b11 # b12 # b13 # b14
      # b15 # b16 # r \<longleftrightarrow>
   [b0, b1] = magic \<and> b2 = version \<and> pkt_user_id p = u16_from_be b3 b4 \<and>
   wire_parts (pkt_target p) = (b5, u16_from_be b6 b7) \<and> codec_byte (pkt_codec p) = b8 \<and>
   pkt_seq p = u16_from_be b9 b10 \<and> pkt_timestamp p = u32_from_be b11 b12 b13 b14 \<and>
   u16_to_be (of_nat (length (pkt_payload p))) = [b15, b16] \<and> pkt_payload p = r"
  by (cases "wire_parts (pkt_target p)")
    (auto simp: packet_bytes_def u16_to_be_def u32_to_be_def magic_def)

lemma packet_decode_eq:
  "packet_decode (b0 # b1 # b2 # b3 # b4 # b5 # b6 # b7 # b8 # b9 # b10 # b11 # b12 # b13 # b14
      # b15 # b16 # r) = Inr p \<longleftrightarrow>
   [b0, b1] = magic \<and> b2 = version \<and> pkt_user_id p = u16_from_be b3 b4 \<and>
   wire_parts (pkt_target p) = (b5, u16_from_be b6 b7) \<and> codec_byte (pkt_codec p) = b8 \<and>
   pkt_seq p = u16_from_be b9 b10 \<and> pkt_timestamp p = u32_from_be b11 b12 b13 b14 \<and>
   unat (u16_from_be b15 b16) = length r \<and> pkt_payload p = r"
  (is "?L = ?R")
proof
  assume ?L
  then show ?R
    by (auto simp: packet_decode_def header_len_def Let_def codec_wire.dec_iff
        target_wire.dec_iff [of "(_, _)", simplified] split: sum.splits if_splits)
next
  assume ?R
  then have t: "target_from_wire b5 (u16_from_be b6 b7) = Inr (pkt_target p)"
    and c: "codec_try_from b8 = Inr (pkt_codec p)"
    by (auto simp: codec_wire.dec_iff target_wire.dec_iff [of "(_, _)", simplified])
  from \<open>?R\<close> show ?L
    by (simp add: packet_decode_def header_len_def Let_def t c)
qed

interpretation packet_wire:
  wire_codec packet_bytes packet_decode "\<lambda>p. length (pkt_payload p) \<le> 65535"
proof -
  have iff: "packet_decode b = Inr p \<longleftrightarrow> length (pkt_payload p) \<le> 65535 \<and> packet_bytes p = b" for b p
  proof (cases "17 \<le> length b")
    case True
    then obtain b0 b1 b2 b3 b4 b5 b6 b7 b8 b9 b10 b11 b12 b13 b14 b15 b16 r where
      b: "b = b0 # b1 # b2 # b3 # b4 # b5 # b6 # b7 # b8 # b9 # b10 # b11 # b12 # b13 # b14 # b15
           # b16 # r"
      by (rule split17)
    have "unat (u16_from_be b15 b16) \<le> 65535"
      using unsigned_less [of "u16_from_be b15 b16", where ?'a = nat] by simp
    then show ?thesis
      unfolding b packet_decode_eq packet_bytes_eq
      by (metis u16_from_be_eq_of_nat)
  next
    case False
    moreover have "17 \<le> length (packet_bytes p)"
      by (simp add: packet_bytes_def magic_def split: prod.splits)
    ultimately show ?thesis
      by (auto simp: packet_decode_def header_len_def)
  qed
  show "wire_codec packet_bytes packet_decode (\<lambda>p. length (pkt_payload p) \<le> 65535)"
    by unfold_locales (auto simp: iff)
qed

lemma pairs_le_concat [simp]: "pairs_le (concat (map i16_to_le xs)) = xs"
  by (induction xs) (simp_all add: i16_to_le_def)

lemma concat_pairs_le: "even (length bs) \<Longrightarrow> concat (map i16_to_le (pairs_le bs)) = bs"
  by (induction bs rule: pairs_le.induct) auto

lemma length_pcm_bytes [simp]: "length (pcm16_samples_to_le_bytes xs) = 2 * length xs"
  by (induction xs) (simp_all add: pcm16_samples_to_le_bytes_def i16_to_le_def)

interpretation pcm_wire:
  wire_codec pcm16_samples_to_le_bytes pcm16_le_bytes_to_samples "\<lambda>_. True"
proof
  show "pcm16_le_bytes_to_samples (pcm16_samples_to_le_bytes x) = Inr x" for x
    by (simp add: pcm16_le_bytes_to_samples_def pcm16_bytes_per_sample_def
        pcm16_samples_to_le_bytes_def [of x, symmetric])
      (simp add: pcm16_samples_to_le_bytes_def)
  show "pcm16_le_bytes_to_samples y = Inr x \<Longrightarrow> pcm16_samples_to_le_bytes x = y" for x y
    by (auto simp: pcm16_le_bytes_to_samples_def pcm16_bytes_per_sample_def
        pcm16_samples_to_le_bytes_def concat_pairs_le even_iff_mod_2_eq_zero split: if_splits)
qed simp

section \<open>Properties\<close>

text \<open>C18. Encoding and decoding a datagram are inverse to each other: \<open>encode\<close> succeeds on a
  packet with bytes \<open>b\<close> exactly when \<open>decode\<close> accepts \<open>b\<close> and returns that packet, so every
  encoded packet decodes to itself, two packets never share a wire form, and every
  accepted datagram is the canonical encoding of its packet. It fails exactly for a payload
  of more than 65535 bytes, with an error that reports the length.\<close>

theorem packet_encode_decode_inverse:
  "(packet_encode p = Inr b \<longleftrightarrow> packet_decode b = Inr p) \<and>
   (packet_encode p = Inl e \<longleftrightarrow>
      65535 < length (pkt_payload p) \<and> e = PayloadTooLarge (length (pkt_payload p)))"
  unfolding packet_encode_def packet_wire.dec_iff by auto

text \<open>Exactly which datagrams the receiver accepts: at least 17 bytes, the magic and
  version, a known target kind with id 0 for a mixed target, a known codec, and a declared
  payload length equal to the bytes that follow the header. Everything else is an error
  (and is dropped as malformed).\<close>

lemma packet_decode_accepts:
  "(\<exists>p. packet_decode b = Inr p) \<longleftrightarrow>
     header_len \<le> length b \<and> take 2 b = magic \<and> b ! 2 = version \<and>
     b ! 5 \<in> {1, 2, 3} \<and> (b ! 5 = 3 \<longrightarrow> u16_from_be (b ! 6) (b ! 7) = 0) \<and>
     b ! 8 \<in> {0, 1, 2, 3, 4} \<and>
     unat (u16_from_be (b ! 15) (b ! 16)) = length b - header_len"
  (is "?L \<longleftrightarrow> ?R")
proof
  assume ?L
  then show ?R
    by (auto simp: packet_decode_def target_from_wire_def codec_try_from_def Let_def
        split: if_splits sum.splits)
next
  assume R: ?R
  then obtain t where "target_from_wire (b ! 5) (u16_from_be (b ! 6) (b ! 7)) = Inr t"
    by (auto simp: target_from_wire_def)
  moreover from R obtain c where "codec_try_from (b ! 8) = Inr c"
    by (auto simp: codec_try_from_def)
  ultimately show ?L
    using R by (auto simp: packet_decode_def Let_def)
qed

text \<open>The PCM16 payload: every sample list round trips through its little-endian bytes,
  and a byte list is accepted exactly when it is the encoding of the samples it decodes
  to; an odd number of bytes is an error that reports the length.\<close>

lemma pcm16_payload_round_trip:
  "pcm16_le_bytes_to_samples (pcm16_samples_to_le_bytes xs) = Inr xs \<and>
   (pcm16_le_bytes_to_samples bs = Inr xs \<longleftrightarrow> pcm16_samples_to_le_bytes xs = bs) \<and>
   (pcm16_le_bytes_to_samples bs = Inl e \<longleftrightarrow> odd (length bs) \<and> e = OddByteLength (length bs))"
proof -
  have "pcm16_le_bytes_to_samples bs = Inl e \<longleftrightarrow>
      odd (length bs) \<and> e = OddByteLength (length bs)"
    by (auto simp: pcm16_le_bytes_to_samples_def pcm16_bytes_per_sample_def
        odd_iff_mod_2_eq_one)
  then show ?thesis by (simp add: pcm_wire.dec_enc pcm_wire.dec_iff)
qed

end
