(* ===== verification/Float32.thy ===== *)
theory Float32
  imports Prelude "HOL-Library.Log_Nat"
begin

text \<open>
  The IEEE 754 binary formats the program computes with (\<open>f32\<close> for gains and samples,
  \<open>f64\<close> in the meters), as exact rationals with the infinities and NaN. Comparisons,
  \<open>clamp\<close>, \<open>min\<close>, \<open>max\<close>, \<open>abs\<close> and \<open>is_finite\<close> involve no rounding; arithmetic
  rounds the exact result to nearest, ties to even, with gradual underflow and overflow to
  infinity. The two zeros are one value: no modelled operation tells them apart.
\<close>

datatype float = Fin rat | PInf | NInf | NaN

type_synonym f32 = float
type_synonym f64 = float

section \<open>Classification and comparison\<close>

fun is_finite :: "float \<Rightarrow> bool" where
  "is_finite (Fin _) = True"
| "is_finite _ = False"

fun f_lt :: "float \<Rightarrow> float \<Rightarrow> bool" where
  "f_lt (Fin x) (Fin y) = (x < y)"
| "f_lt NInf (Fin _) = True"
| "f_lt NInf PInf = True"
| "f_lt (Fin _) PInf = True"
| "f_lt _ _ = False"

definition f_gt :: "float \<Rightarrow> float \<Rightarrow> bool" where
  "f_gt a b = f_lt b a"

definition f_eq :: "float \<Rightarrow> float \<Rightarrow> bool" where
  "f_eq a b = (a \<noteq> NaN \<and> a = b)"

definition f_le :: "float \<Rightarrow> float \<Rightarrow> bool" where
  "f_le a b = (f_lt a b \<or> f_eq a b)"

definition f_ge :: "float \<Rightarrow> float \<Rightarrow> bool" where
  "f_ge a b = f_le b a"

text \<open>\<open>f32::clamp\<close>: NaN stays NaN.\<close>

definition f_clamp :: "float \<Rightarrow> float \<Rightarrow> float \<Rightarrow> float" where
  "f_clamp x lo hi = (if f_lt x lo then lo else if f_gt x hi then hi else x)"

text \<open>\<open>f32::max\<close> and \<open>f32::min\<close> ignore a NaN operand.\<close>

definition f_max :: "float \<Rightarrow> float \<Rightarrow> float" where
  "f_max a b = (if a = NaN then b else if b = NaN then a else if f_lt a b then b else a)"

definition f_min :: "float \<Rightarrow> float \<Rightarrow> float" where
  "f_min a b = (if a = NaN then b else if b = NaN then a else if f_lt b a then b else a)"

fun f_abs :: "float \<Rightarrow> float" where
  "f_abs (Fin x) = Fin \<bar>x\<bar>"
| "f_abs PInf = PInf"
| "f_abs NInf = PInf"
| "f_abs NaN = NaN"

fun f_neg :: "float \<Rightarrow> float" where
  "f_neg (Fin x) = Fin (- x)"
| "f_neg PInf = NInf"
| "f_neg NInf = PInf"
| "f_neg NaN = NaN"

section \<open>Rounding\<close>

record format =
  precision :: nat
  emin :: int
  emax :: int

definition binary32 :: format where
  "binary32 = \<lparr>precision = 24, emin = -126, emax = 127\<rparr>"

definition binary64 :: format where
  "binary64 = \<lparr>precision = 53, emin = -1022, emax = 1023\<rparr>"

definition pow2 :: "int \<Rightarrow> rat" where
  "pow2 e = (if e \<ge> 0 then 2 ^ nat e else 1 / 2 ^ nat (- e))"

definition ilog2 :: "rat \<Rightarrow> int" where
  "ilog2 x =
     (let (a, b) = quotient_of x;
          e = int (floorlog 2 (nat a)) - int (floorlog 2 (nat b))
      in if pow2 e \<le> x then e else e - 1)"

definition round_half_even :: "rat \<Rightarrow> int" where
  "round_half_even y =
     (let f = \<lfloor>y\<rfloor>; d = y - of_int f
      in if d < 1 / 2 then f else if d > 1 / 2 then f + 1 else if even f then f else f + 1)"

definition quantum :: "format \<Rightarrow> rat \<Rightarrow> rat" where
  "quantum fmt x = pow2 (max (ilog2 \<bar>x\<bar>) (emin fmt) - (int (precision fmt) - 1))"

definition rnd :: "format \<Rightarrow> rat \<Rightarrow> float" where
  "rnd fmt x =
     (if x = 0 then Fin 0
      else let q = quantum fmt x; y = of_int (round_half_even (x / q)) * q
        in if \<bar>y\<bar> \<ge> pow2 (emax fmt + 1) then (if x > 0 then PInf else NInf) else Fin y)"

section \<open>Arithmetic\<close>

fun f_add :: "format \<Rightarrow> float \<Rightarrow> float \<Rightarrow> float" where
  "f_add fmt (Fin x) (Fin y) = rnd fmt (x + y)"
| "f_add fmt PInf PInf = PInf"
| "f_add fmt PInf (Fin _) = PInf"
| "f_add fmt (Fin _) PInf = PInf"
| "f_add fmt NInf NInf = NInf"
| "f_add fmt NInf (Fin _) = NInf"
| "f_add fmt (Fin _) NInf = NInf"
| "f_add fmt _ _ = NaN"

definition f_sub :: "format \<Rightarrow> float \<Rightarrow> float \<Rightarrow> float" where
  "f_sub fmt a b = f_add fmt a (f_neg b)"

definition inf_of_sign :: "bool \<Rightarrow> float" where
  "inf_of_sign neg = (if neg then NInf else PInf)"

fun f_mul :: "format \<Rightarrow> float \<Rightarrow> float \<Rightarrow> float" where
  "f_mul fmt (Fin x) (Fin y) = rnd fmt (x * y)"
| "f_mul fmt NaN _ = NaN"
| "f_mul fmt _ NaN = NaN"
| "f_mul fmt (Fin x) i = (if x = 0 then NaN else inf_of_sign ((x < 0) \<noteq> (i = NInf)))"
| "f_mul fmt i (Fin x) = (if x = 0 then NaN else inf_of_sign ((x < 0) \<noteq> (i = NInf)))"
| "f_mul fmt i j = inf_of_sign (i \<noteq> j)"

text \<open>Division; the divisors of the modelled code are positive, so the sign of a zero
  divisor is taken as positive.\<close>

fun f_div :: "format \<Rightarrow> float \<Rightarrow> float \<Rightarrow> float" where
  "f_div fmt (Fin x) (Fin y) =
     (if y = 0 then (if x = 0 then NaN else inf_of_sign (x < 0)) else rnd fmt (x / y))"
| "f_div fmt NaN _ = NaN"
| "f_div fmt _ NaN = NaN"
| "f_div fmt (Fin x) i = Fin 0"
| "f_div fmt i (Fin y) = inf_of_sign ((y < 0) \<noteq> (i = NInf))"
| "f_div fmt i j = NaN"

text \<open>\<open>f32::round\<close>: to the nearest integer, halves away from zero.\<close>

definition round_half_away :: "rat \<Rightarrow> int" where
  "round_half_away x = (if x \<ge> 0 then \<lfloor>x + 1 / 2\<rfloor> else - \<lfloor>- x + 1 / 2\<rfloor>)"

fun f_round :: "float \<Rightarrow> float" where
  "f_round (Fin x) = Fin (of_int (round_half_away x))"
| "f_round v = v"

definition trunc :: "rat \<Rightarrow> int" where
  "trunc x = (if x \<ge> 0 then \<lfloor>x\<rfloor> else - \<lfloor>- x\<rfloor>)"

text \<open>The \<open>as\<close> conversion to a signed integer type saturates and sends NaN to 0.\<close>

fun f_as_int :: "int \<Rightarrow> int \<Rightarrow> float \<Rightarrow> int" where
  "f_as_int lo hi (Fin x) = max lo (min hi (trunc x))"
| "f_as_int lo hi PInf = hi"
| "f_as_int lo hi NInf = lo"
| "f_as_int lo hi NaN = 0"

definition f_of_int :: "format \<Rightarrow> int \<Rightarrow> float" where
  "f_of_int fmt n = rnd fmt (of_int n)"

text \<open>The narrowing cast \<open>f64 as f32\<close> rounds once more.\<close>

fun f_cast :: "format \<Rightarrow> float \<Rightarrow> float" where
  "f_cast fmt (Fin x) = rnd fmt x"
| "f_cast fmt v = v"

section \<open>Facts\<close>

lemma f_clamp_range:
  "x \<noteq> NaN \<Longrightarrow> lo \<le> hi \<Longrightarrow> \<exists>y. f_clamp x (Fin lo) (Fin hi) = Fin y \<and> lo \<le> y \<and> y \<le> hi"
  by (cases x) (auto simp: f_clamp_def f_gt_def)

lemma f_clamp_id [simp]:
  "lo \<le> y \<Longrightarrow> y \<le> hi \<Longrightarrow> f_clamp (Fin y) (Fin lo) (Fin hi) = Fin y"
  by (simp add: f_clamp_def f_gt_def)

lemma f_clamp_finite:
  "is_finite x \<Longrightarrow> lo \<le> hi \<Longrightarrow> is_finite (f_clamp x (Fin lo) (Fin hi))"
  by (cases x) (auto simp: f_clamp_def f_gt_def)

definition in_range :: "rat \<Rightarrow> rat \<Rightarrow> float \<Rightarrow> bool" where
  "in_range lo hi x = (case x of Fin y \<Rightarrow> lo \<le> y \<and> y \<le> hi | _ \<Rightarrow> False)"

lemma in_range_clamp: "is_finite x \<Longrightarrow> lo \<le> hi \<Longrightarrow> in_range lo hi (f_clamp x (Fin lo) (Fin hi))"
  by (cases x) (auto simp: f_clamp_def f_gt_def in_range_def)

lemma clamp_in_range [simp]: "in_range lo hi x \<Longrightarrow> f_clamp x (Fin lo) (Fin hi) = x"
  by (auto simp: in_range_def split: float.splits)

lemma in_range_finite [simp]: "in_range lo hi x \<Longrightarrow> is_finite x"
  by (auto simp: in_range_def split: float.splits)

lemma in_range_Fin [simp]: "in_range lo hi (Fin y) \<longleftrightarrow> lo \<le> y \<and> y \<le> hi"
  by (simp add: in_range_def)

text \<open>Rounding errs by at most half a quantum, hence by a relative \<open>2 ^ - precision\<close> in the
  normal range.\<close>

lemma round_half_even_err: "\<bar>of_int (round_half_even y) - y\<bar> \<le> 1 / 2"
  unfolding round_half_even_def Let_def
  by (auto simp: abs_if) (linarith | (use of_int_floor_le [of y] in linarith))+

lemma pow2_pos [simp]: "0 < pow2 e"
  by (simp add: pow2_def)

lemma rnd_err:
  assumes "x \<noteq> 0" "rnd fmt x = Fin y"
  shows "\<bar>y - x\<bar> \<le> quantum fmt x / 2"
proof -
  let ?q = "quantum fmt x"
  have q: "0 < ?q" by (simp add: quantum_def)
  have y: "y = of_int (round_half_even (x / ?q)) * ?q"
    using assms by (auto simp: rnd_def Let_def split: if_splits)
  have "y - x = (of_int (round_half_even (x / ?q)) - x / ?q) * ?q"
    using q by (simp add: y algebra_simps)
  then have "\<bar>y - x\<bar> = \<bar>of_int (round_half_even (x / ?q)) - x / ?q\<bar> * ?q"
    using q by (simp add: abs_mult)
  also have "\<dots> \<le> 1 / 2 * ?q"
    using round_half_even_err [of "x / ?q"] q by (intro mult_right_mono) auto
  finally show ?thesis by simp
qed

end
