(* ===== verification/Telemetry.thy ===== *)
theory Telemetry
  imports Protocol Float32
begin

text \<open>
  The telemetry a client reports with a \<open>capture_health\<close> message: the structs of
  \<open>common/src/lib.rs\<close>, field for field. The server stores the last report of each client
  and hands it on in its status; nothing in the routing core reads it.
\<close>

record capture_channel_health =
  cch_rms :: f32
  cch_peak :: f32
  cch_dc_offset :: f32

record esp32_sidetone_config =
  st_mode :: string
  st_firmware_gain_percent :: u16
  st_codec_bypass_gain_percent :: u16
  st_mic_bypass_gain_percent :: u16
  st_active_bypass_source :: string
  st_codec_bypass_preserves_dac :: bool

record esp32_codec_config =
  ec_chip :: string
  ec_active_codec :: "codec option"
  ec_server_control_enabled :: bool
  ec_audio_backend :: string
  ec_adc_input :: string
  ec_mic_pga_gain_db :: u8
  ec_capture_channel :: string
  ec_mic_software_gain_percent :: u16
  ec_speaker_software_gain_percent :: u16
  ec_notification_gain_percent :: u16
  ec_high_pass_enabled :: bool
  ec_alc_enabled :: bool
  ec_noise_gate_enabled :: bool
  ec_hardware_sample_rate_hz :: u32
  ec_hardware_channels :: u8
  ec_hardware_bits_per_sample :: u8
  ec_i2s_sample_rate_hz :: u32
  ec_i2s_format :: string
  ec_i2s_slot_width :: string
  ec_sidetone :: esp32_sidetone_config

record client_telemetry_runtime_status =
  tr_client_kind :: string
  tr_phase :: string
  tr_last_error :: "string option"

record client_telemetry_audio_status =
  ta_backend :: string
  ta_input_device :: "string option"
  ta_output_device :: "string option"
  ta_sample_format :: string
  ta_sample_rate_hz :: u32
  ta_channels :: u16
  ta_channel_mode :: string
  ta_mic_gain :: "f32 option"
  ta_speaker_gain :: "f32 option"
  ta_input :: capture_channel_health
  ta_pre_gain :: capture_channel_health
  ta_post_gain :: capture_channel_health
  ta_pre_gain_clipped_samples :: u32
  ta_post_gain_clipped_samples :: u32
  ta_dropped_frames :: u32

record client_telemetry_playback_status =
  tp_available_samples :: u64
  tp_capacity_samples :: u64
  tp_prebuffer_samples :: u64
  tp_queue_depth :: u64
  tp_channels :: u16
  tp_started :: bool
  tp_underflows :: u64
  tp_overflows :: u64
  tp_dropped_samples :: u64

record client_telemetry_transport_status =
  tt_udp_rx_packets :: u64
  tt_malformed_packets :: u64
  tt_decode_errors :: u64
  tt_codec_drops :: u64
  tt_payload_decode_errors :: u64
  tt_packet_encode_errors :: u64
  tt_tx_packets :: u64
  tt_tx_send_failures :: u64
  tt_tx_queue_drops :: u64

record esp32_wifi_health_status =
  wf_rssi_dbm :: "i16 option"
  wf_connect_count :: u32
  wf_disconnect_count :: u32
  wf_control_connect_count :: u32
  wf_control_disconnect_count :: u32

record esp32_transport_health_status =
  et_udp_rx_packets :: u32
  et_udp_decode_errors :: u32
  et_udp_codec_drops :: u32
  et_udp_sequence_gaps :: u32
  et_udp_payload_decode_errors :: u32
  et_udp_tx_send_failures :: u32
  et_audio_tx_queue_drops :: u32
  et_opus_encode_failures :: u32
  et_opus_decode_failures :: u32

record esp32_memory_health_status =
  em_free_heap_bytes :: u32
  em_min_free_heap_bytes :: u32
  em_internal_free_heap_bytes :: u32
  em_internal_largest_free_block_bytes :: u32
  em_spiram_free_heap_bytes :: u32
  em_spiram_largest_free_block_bytes :: u32

record esp32_task_stack_health_status =
  es_udp :: u32
  es_registration :: u32
  es_playback :: u32
  es_capture :: u32
  es_buttons :: u32
  es_display :: u32

record esp32_display_health_status =
  ed_enabled :: bool
  ed_initialized :: bool
  ed_framebuffer_in_psram :: bool
  ed_framebuffer_bytes :: u32

record esp32_battery_health_status =
  eb_status :: string
  eb_present :: bool
  eb_percent :: "u8 option"
  eb_millivolts :: "u16 option"
  eb_charging :: "bool option"

record desktop_capture_health_status =
  dc_backend :: string
  dc_device :: string
  dc_sample_format :: string
  dc_sample_rate_hz :: u32
  dc_channels :: u16
  dc_channel_mode :: string
  dc_mic_gain :: f32
  dc_pre_gain :: capture_channel_health
  dc_post_gain :: capture_channel_health
  dc_pre_gain_clipped_samples :: u32
  dc_post_gain_clipped_samples :: u32
  dc_dropped_frames :: u32

record capture_health_status =
  ch_runtime :: "client_telemetry_runtime_status option"
  ch_audio :: "client_telemetry_audio_status option"
  ch_playback :: "client_telemetry_playback_status option"
  ch_client_transport :: "client_telemetry_transport_status option"
  ch_codec_config :: "esp32_codec_config option"
  ch_desktop :: "desktop_capture_health_status option"
  ch_uptime_ms :: u64
  ch_wifi :: "esp32_wifi_health_status option"
  ch_transport :: "esp32_transport_health_status option"
  ch_memory :: "esp32_memory_health_status option"
  ch_task_stack_high_water_bytes :: "esp32_task_stack_health_status option"
  ch_display :: "esp32_display_health_status option"
  ch_battery :: "esp32_battery_health_status option"
  ch_playback_queue_depth :: u16
  ch_playback_underflows :: u32
  ch_playback_overflows :: u32
  ch_playback_i2s_gap_warnings :: u32
  ch_playback_i2s_slow_warnings :: u32
  ch_playback_i2s_short_warnings :: u32
  ch_free_heap_bytes :: u32
  ch_min_free_heap_bytes :: u32
  ch_tx_target_count :: u16
  ch_tx_packets_sent :: u32
  ch_tx_send_failures :: u32
  ch_adc_input :: string
  ch_mic_pga_gain_db :: u8
  ch_capture_channel :: string
  ch_software_gain_percent :: u16
  ch_high_pass_enabled :: bool
  ch_alc_enabled :: bool
  ch_noise_gate_enabled :: bool
  ch_left :: capture_channel_health
  ch_right :: capture_channel_health
  ch_selected :: capture_channel_health
  ch_raw_clipped_samples :: u32
  ch_software_clipped_samples :: u32

end
