(* ===== verification/Control_Types.thy ===== *)
theory Control_Types
  imports Telemetry
begin

text \<open>
  The configuration values and control messages of \<open>common/src/lib.rs\<close>: roles, talk modes,
  processing, buttons and their actions, IFB, stereo, ESP32 audio, lockout, alerts, calls
  and emergencies, with their defaults, and the messages clients and server exchange on
  the WebSocket control connection.
\<close>

section \<open>Client roles, kinds and capabilities\<close>

datatype client_role = RoleClient | RoleBridge

datatype bridge_mode = BridgeInput | BridgeOutput | BridgeDuplex

record bridge_status =
  br_mode :: bridge_mode
  br_input_device :: "string option"
  br_output_device :: "string option"
  br_input_gain :: f32
  br_output_gain :: f32
  br_tx :: "channel_id list"
  br_listen :: "channel_id list"
  br_note :: string

datatype enrollment_status = Enrolled | Pending | Rejected

datatype client_kind = KindUnknown | KindDesktop | KindMobile | KindPi | KindEsp32 | KindBridge

record button_capability =
  bc_id :: button_id
  bc_label :: string

record client_capabilities =
  cap_advertised :: bool
  cap_client_kind :: client_kind
  cap_supports_processing :: bool
  cap_supports_native_voice_processing :: bool
  cap_supports_esp32_audio :: bool
  cap_supports_stereo :: bool
  cap_supports_ifb :: bool
  cap_supports_local_api :: bool
  cap_supports_device_selection :: bool
  cap_button_action_types :: "string list"

definition default_client_capabilities :: client_capabilities where
  "default_client_capabilities =
     \<lparr>cap_advertised = False, cap_client_kind = KindUnknown, cap_supports_processing = False,
      cap_supports_native_voice_processing = False, cap_supports_esp32_audio = False,
      cap_supports_stereo = False, cap_supports_ifb = False, cap_supports_local_api = False,
      cap_supports_device_selection = False, cap_button_action_types = []\<rparr>"

section \<open>Talk modes and buttons\<close>

datatype talk_mode = Muted | Ptt | Open

datatype talk_button_mode = Momentary | Latching

datatype alert_target = AlertUser user_id | AlertChannel channel_id

datatype emergency_target =
    EmergencyAll
  | EmergencyUsers "user_id list"
  | EmergencyChannels "channel_id list"

datatype talk_button_action =
    Transmit "channel_id list" "user_id list" bool
  | Alert "alert_target list" "string option"
  | ApplyPreset string
  | SetTalkMode "user_id list" talk_mode
  | RouteEdit "user_id list" "channel_id list" "channel_id list" "channel_id list"
      "channel_id list" "channel_id list" "channel_id list"

record talk_button_config =
  btn_id :: button_id
  btn_label :: string
  btn_color :: "string option"
  btn_mode :: talk_button_mode
  btn_actions :: "talk_button_action list"

section \<open>Processing, IFB, stereo, ESP32 audio, lockout\<close>

datatype processing_mode = ModeAuto | ModeEnabled | ModeDisabled
datatype processing_profile = Raw | Voice | VoiceIsolation | Broadcast
datatype processing_engine = BuiltIn | WebRtc | RnNoise | DeepFilterNet
datatype deep_filter_backend = BackendAuto | BackendTract | BackendCoreMl
datatype apple_compute_units = CpuOnly | CpuAndGpu | CpuAndNeuralEngine | AllUnits

record processing_stage_config =
  psc_engine :: processing_engine
  psc_enabled :: bool

record level_normalization_config =
  ln_enabled :: bool
  ln_target_rms :: f32
  ln_max_boost :: f32
  ln_max_attenuation :: f32
  ln_adaptation_ms :: u32
  ln_noise_floor_rms :: f32

definition default_level_normalization_config :: level_normalization_config where
  "default_level_normalization_config =
     \<lparr>ln_enabled = False, ln_target_rms = rnd binary32 (14 / 100), ln_max_boost = Fin 4,
      ln_max_attenuation = Fin 8, ln_adaptation_ms = 250,
      ln_noise_floor_rms = rnd binary32 (12 / 1000)\<rparr>"

record processing_config =
  pc_mode :: processing_mode
  pc_engine :: processing_engine
  pc_profile :: processing_profile
  pc_high_pass :: bool
  pc_noise_gate :: bool
  pc_compressor :: bool
  pc_presence :: bool
  pc_vad :: bool
  pc_transient_suppression :: bool
  pc_native_voice_processing :: bool
  pc_fallback_to_builtin :: bool
  pc_deep_filter_model :: "string option"
  pc_deep_filter_backend :: deep_filter_backend
  pc_apple_compute_units :: apple_compute_units
  pc_worker_queue_frames :: nat
  pc_pipeline :: "processing_stage_config list"
  pc_normalization :: level_normalization_config

definition default_processing_config :: processing_config where
  "default_processing_config =
     \<lparr>pc_mode = ModeAuto, pc_engine = BuiltIn, pc_profile = Voice, pc_high_pass = True,
      pc_noise_gate = True, pc_compressor = True, pc_presence = True, pc_vad = True,
      pc_transient_suppression = True, pc_native_voice_processing = True,
      pc_fallback_to_builtin = True, pc_deep_filter_model = None,
      pc_deep_filter_backend = BackendAuto, pc_apple_compute_units = AllUnits,
      pc_worker_queue_frames = 12, pc_pipeline = [],
      pc_normalization = default_level_normalization_config\<rparr>"

definition default_ifb_duck_gain :: f32 where
  "default_ifb_duck_gain = Fin (1 / 8)"

record ifb_config =
  ifb_enabled :: bool
  ifb_program :: "channel_id list"
  ifb_interrupt :: "channel_id list"
  ifb_duck_gain :: f32

definition default_ifb_config :: ifb_config where
  "default_ifb_config =
     \<lparr>ifb_enabled = False, ifb_program = [], ifb_interrupt = [],
      ifb_duck_gain = default_ifb_duck_gain\<rparr>"

record ifb_status =
  is_active :: bool
  is_duck_gain :: f32

definition default_ifb_status :: ifb_status where
  "default_ifb_status = \<lparr>is_active = False, is_duck_gain = Fin 1\<rparr>"

record stereo_config =
  sc_enabled :: bool
  sc_channel_pan :: "(channel_id, f32) hash_map"

definition default_stereo_config :: stereo_config where
  "default_stereo_config = \<lparr>sc_enabled = False, sc_channel_pan = []\<rparr>"

definition stereo_active_for_codec :: "stereo_config \<Rightarrow> codec \<Rightarrow> bool" where
  "stereo_active_for_codec s c = (sc_enabled s \<and> (c = Pcm48 \<or> c = Opus))"

record stereo_status =
  ss_active :: bool
  ss_channels :: u16
  ss_warning :: "string option"

definition default_stereo_status :: stereo_status where
  "default_stereo_status = \<lparr>ss_active = False, ss_channels = 1, ss_warning = None\<rparr>"

datatype esp32_adc_input = Difference | Mic1 | Mic2 | Line1 | Line2
datatype esp32_capture_channel = CapLeft | CapRight | CapAverage
datatype esp32_sidetone_mode = SidetoneOff | SidetoneFirmware | SidetoneCodecBypass

record esp32_sidetone_control_config =
  sd_mode :: esp32_sidetone_mode
  sd_firmware_gain_percent :: u16
  sd_codec_bypass_gain_percent :: u16
  sd_mic_bypass_gain_percent :: u16

definition default_esp32_sidetone_control_config :: esp32_sidetone_control_config where
  "default_esp32_sidetone_control_config =
     \<lparr>sd_mode = SidetoneOff, sd_firmware_gain_percent = 25,
      sd_codec_bypass_gain_percent = 25, sd_mic_bypass_gain_percent = 100\<rparr>"

record esp32_audio_config =
  ea_enabled :: bool
  ea_adc_input :: esp32_adc_input
  ea_mic_pga_gain_db :: u8
  ea_capture_channel :: esp32_capture_channel
  ea_mic_software_gain_percent :: u16
  ea_speaker_software_gain_percent :: u16
  ea_notification_gain_percent :: u16
  ea_high_pass_enabled :: bool
  ea_alc_enabled :: bool
  ea_noise_gate_enabled :: bool
  ea_sidetone :: esp32_sidetone_control_config

definition default_esp32_audio_config :: esp32_audio_config where
  "default_esp32_audio_config =
     \<lparr>ea_enabled = False, ea_adc_input = Difference, ea_mic_pga_gain_db = 9,
      ea_capture_channel = CapLeft, ea_mic_software_gain_percent = 100,
      ea_speaker_software_gain_percent = 100, ea_notification_gain_percent = 50,
      ea_high_pass_enabled = True, ea_alc_enabled = True, ea_noise_gate_enabled = True,
      ea_sidetone = default_esp32_sidetone_control_config\<rparr>"

record client_lockout_policy =
  lo_allow_channels :: bool
  lo_allow_volumes :: bool
  lo_allow_codec :: bool
  lo_allow_talk_mode :: bool
  lo_allow_priority :: bool
  lo_allow_buttons :: bool
  lo_allow_ifb :: bool
  lo_allow_device_selection :: bool
  lo_allow_local_api :: bool

definition default_client_lockout_policy :: client_lockout_policy where
  "default_client_lockout_policy =
     \<lparr>lo_allow_channels = True, lo_allow_volumes = True, lo_allow_codec = True,
      lo_allow_talk_mode = True, lo_allow_priority = True, lo_allow_buttons = True,
      lo_allow_ifb = True, lo_allow_device_selection = True, lo_allow_local_api = True\<rparr>"

section \<open>Alerts, calls and emergencies as clients see them\<close>

record alert_recipient_status =
  ar_user_id :: user_id
  ar_acked_at_ms :: "nat option"

record alert_status =
  as_id :: alert_id
  as_sender :: user_id
  as_sender_name :: "string option"
  as_target :: alert_target
  as_message :: "string option"
  as_created_at_ms :: nat
  as_recipients :: "alert_recipient_status list"
  as_cancelled :: bool
  as_cancelled_at_ms :: "nat option"

record emergency_status =
  emg_active :: bool
  emg_source :: user_id
  emg_target :: emergency_target
  emg_duck_gain :: f32
  emg_mute_others :: bool
  emg_recipients :: "user_id list"

record direct_call_status =
  dcs_caller :: user_id
  dcs_caller_name :: "string option"
  dcs_target :: user_id
  dcs_target_name :: "string option"
  dcs_active :: bool
  dcs_duck :: bool

record direct_call_history_entry =
  dch_caller :: user_id
  dch_target :: user_id
  dch_started_at_ms :: nat
  dch_ended_at_ms :: "nat option"
  dch_duck :: bool

record channel_presence_member =
  cpm_user_id :: user_id
  cpm_name :: string
  cpm_present :: bool
  cpm_transmitting :: bool

record channel_presence_roster =
  cpr_channel_id :: channel_id
  cpr_name :: "string option"
  cpr_members :: "channel_presence_member list"

section \<open>Control messages and events\<close>

record config_request =
  cr_role :: "client_role option"
  cr_name :: "string option"
  cr_listen :: "channel_id list"
  cr_tx :: "channel_id list"
  cr_vol :: "(channel_id, f32) hash_map"
  cr_talker_vol :: "(user_id, f32) hash_map option"
  cr_codec :: "codec option"
  cr_opus_profile :: "opus_profile option"
  cr_talk_mode :: "talk_mode option"
  cr_priority :: "bool option"
  cr_priority_channels :: "channel_id list option"
  cr_processing :: "processing_config option"
  cr_buttons :: "talk_button_config list option"
  cr_ifb :: "ifb_config option"
  cr_stereo :: "stereo_config option"
  cr_esp32_audio :: "esp32_audio_config option"

record hello_request =
  hr_requested_user_id :: "user_id option"
  hr_client_uid :: client_uid
  hr_codecs :: "codec list"
  hr_buttons :: "button_capability list"
  hr_capabilities :: client_capabilities
  hr_role :: client_role

datatype control_message =
    Hello user_id hello_request
  | Config user_id config_request
  | AudioCodec user_id codec
  | TalkMode user_id talk_mode
  | Ping user_id
  | CaptureHealth user_id capture_health_status
  | BridgeStatus user_id bridge_status
  | Talk user_id bool
  | Priority user_id bool
  | Emergency user_id bool emergency_target f32 bool
  | Button user_id button_id bool
  | SendAlert user_id alert_target "string option"
  | AckAlert user_id alert_id
  | CancelAlert user_id alert_id
  | DirectCall user_id user_id bool bool
  | ReplyCall user_id bool bool
  | Status

record config_update =
  cu_client_uid :: client_uid
  cu_name :: string
  cu_listen :: "channel_id list"
  cu_tx :: "channel_id list"
  cu_vol :: "(channel_id, f32) hash_map"
  cu_talker_vol :: "(user_id, f32) hash_map"
  cu_codec :: codec
  cu_opus_profile :: opus_profile
  cu_talk_mode :: talk_mode
  cu_regular_talk_active :: bool
  cu_priority :: bool
  cu_priority_channels :: "channel_id list"
  cu_processing :: processing_config
  cu_buttons :: "talk_button_config list"
  cu_active_buttons :: "button_id list"
  cu_active_direct_calls :: "direct_call_status list"
  cu_last_direct_caller :: "user_id option"
  cu_direct_call_history :: "direct_call_history_entry list"
  cu_active_alerts :: "alert_status list"
  cu_recent_alerts :: "alert_status list"
  cu_emergency :: "emergency_status option"
  cu_ifb :: ifb_config
  cu_lockout :: client_lockout_policy
  cu_stereo :: stereo_config
  cu_esp32_audio :: esp32_audio_config

datatype control_event =
    ConfigUpdate user_id config_update
  | PresenceUpdate user_id client_uid "channel_presence_roster list"

end
