(* ===== verification/Normalize.thy ===== *)
theory Normalize
  imports Control_Types
begin

text \<open>
  The \<open>normalize_*\<close> functions of \<open>server/src/lib.rs\<close> (and their copies in
  \<open>clients/core/src/lib.rs\<close>). Each is shown to be a normaliser: what it returns is well
  formed and a well-formed value is a fixed point. The list normalisers share one shape
  (drop, clean, sort, drop equal neighbours), whose contract is proved once.
\<close>

section \<open>Sorted lists without repetitions\<close>

definition sorted_unique_channels :: "channel_id list \<Rightarrow> channel_id list" where
  "sorted_unique_channels channels = dedup_by (=) (sort channels)"

definition sorted_unique_users :: "user_id list \<Rightarrow> user_id list" where
  "sorted_unique_users users = dedup_by (=) (sort (filter (\<lambda>u. u > 0) users))"

fun alert_target_key :: "alert_target \<Rightarrow> nat \<times> u16" where
  "alert_target_key (AlertUser u) = (0, u)"
| "alert_target_key (AlertChannel c) = (1, c)"

fun alert_target_kept :: "alert_target \<Rightarrow> bool" where
  "alert_target_kept (AlertUser u) = (u > 0)"
| "alert_target_kept (AlertChannel _) = True"

definition sorted_unique_alert_targets :: "alert_target list \<Rightarrow> alert_target list" where
  "sorted_unique_alert_targets targets =
     dedup_by (=) (sort_key alert_target_key (filter alert_target_kept targets))"

definition same_channels :: "channel_id list \<Rightarrow> channel_id list \<Rightarrow> bool" where
  "same_channels left right = (sort left = sort right)"

section \<open>Buttons\<close>

definition compare_button_ids :: "string \<Rightarrow> string \<Rightarrow> ordering" where
  "compare_button_ids left right =
     (case (parse_u16 left, parse_u16 right) of
        (Some l, Some r) \<Rightarrow> cmp_of l r
      | (Some _, None) \<Rightarrow> Less
      | (None, Some _) \<Rightarrow> Greater
      | (None, None) \<Rightarrow> cmp_of left right)"

definition clean_button_capability :: "button_capability \<Rightarrow> button_capability" where
  "clean_button_capability b =
     (let i = trim (bc_id b)
      in b\<lparr>bc_id := i, bc_label := (if trim (bc_label b) = [] then i else trim (bc_label b))\<rparr>)"

definition normalize_button_capabilities :: "button_capability list \<Rightarrow> button_capability list" where
  "normalize_button_capabilities buttons =
     dedup_by (\<lambda>l r. bc_id l = bc_id r)
       (sort_by (\<lambda>l r. compare_button_ids (bc_id l) (bc_id r))
         (map clean_button_capability (filter (\<lambda>b. trim (bc_id b) \<noteq> []) buttons)))"

definition is_hex_button_color :: "string \<Rightarrow> bool" where
  "is_hex_button_color color =
     (color \<noteq> [] \<and> hd color = CHR ''#'' \<and> (length color = 4 \<or> length color = 7) \<and>
      list_all is_ascii_hexdigit (tl color))"

definition normalize_button_color :: "string option \<Rightarrow> string option" where
  "normalize_button_color color =
     (case color of None \<Rightarrow> None
      | Some c \<Rightarrow> (let c = trim c in if is_hex_button_color c then Some c else None))"

definition normalize_optional_message :: "string option \<Rightarrow> string option" where
  "normalize_optional_message m =
     (case map_option trim m of None \<Rightarrow> None | Some t \<Rightarrow> if t = [] then None else Some t)"

fun normalize_button_action :: "talk_button_action \<Rightarrow> talk_button_action" where
  "normalize_button_action (Transmit channels users duck) =
     Transmit (sorted_unique_channels channels) (sorted_unique_users users) duck"
| "normalize_button_action (Alert targets message) =
     Alert (sorted_unique_alert_targets targets) (normalize_optional_message message)"
| "normalize_button_action (ApplyPreset preset_id) = ApplyPreset (trim preset_id)"
| "normalize_button_action (SetTalkMode users mode) = SetTalkMode (sorted_unique_users users) mode"
| "normalize_button_action (RouteEdit users la lr lt ta tr tt) =
     RouteEdit (sorted_unique_users users)
       (sorted_unique_channels la) (sorted_unique_channels lr) (sorted_unique_channels lt)
       (sorted_unique_channels ta) (sorted_unique_channels tr) (sorted_unique_channels tt)"

definition normalize_button_actions :: "talk_button_action list \<Rightarrow> talk_button_action list" where
  "normalize_button_actions actions = map normalize_button_action actions"

definition clean_button_config :: "talk_button_config \<Rightarrow> talk_button_config" where
  "clean_button_config b =
     (let i = trim (btn_id b)
      in b\<lparr>btn_id := i,
           btn_label := (if trim (btn_label b) = [] then i else trim (btn_label b)),
           btn_color := normalize_button_color (btn_color b),
           btn_actions := normalize_button_actions (btn_actions b)\<rparr>)"

definition normalize_button_configs :: "talk_button_config list \<Rightarrow> talk_button_config list" where
  "normalize_button_configs buttons =
     dedup_by (\<lambda>l r. btn_id l = btn_id r)
       (sort_by (\<lambda>l r. compare_button_ids (btn_id l) (btn_id r))
         (map clean_button_config (filter (\<lambda>b. trim (btn_id b) \<noteq> []) buttons)))"

definition sorted_buttons :: "talk_button_config list \<Rightarrow> talk_button_config list" where
  "sorted_buttons buttons = normalize_button_configs buttons"

section \<open>Gains, IFB, stereo, ESP32 audio\<close>

definition normalize_talker_volumes ::
    "(user_id, f32) hash_map \<Rightarrow> user_id \<Rightarrow> (user_id, f32) hash_map" where
  "normalize_talker_volumes volumes listener =
     map (\<lambda>(talker, gain). (talker, f_clamp gain (Fin 0) (Fin 4)))
       (filter (\<lambda>(talker, gain). \<not> (talker = listener \<or> \<not> is_finite gain)) volumes)"

definition normalize_template_talker_volumes :: "(user_id, f32) hash_map \<Rightarrow> (user_id, f32) hash_map" where
  "normalize_template_talker_volumes volumes =
     map (\<lambda>(talker, gain). (talker, f_clamp gain (Fin 0) (Fin 4)))
       (filter (\<lambda>(talker, gain). is_finite gain) volumes)"

fun normalize_emergency_target :: "emergency_target \<Rightarrow> emergency_target" where
  "normalize_emergency_target EmergencyAll = EmergencyAll"
| "normalize_emergency_target (EmergencyUsers users) = EmergencyUsers (sorted_unique_users users)"
| "normalize_emergency_target (EmergencyChannels channels) =
     EmergencyChannels (sorted_unique_channels channels)"

definition normalize_duck_gain :: "f32 \<Rightarrow> f32" where
  "normalize_duck_gain gain =
     (if is_finite gain then f_clamp gain (Fin 0) (Fin 1) else default_ifb_duck_gain)"

definition normalize_ifb_config :: "ifb_config \<Rightarrow> ifb_config" where
  "normalize_ifb_config ifb =
     (let program = dedup_by (=) (sort (ifb_program ifb));
          interrupt = dedup_by (=) (sort (ifb_interrupt ifb))
      in ifb\<lparr>ifb_program := filter (\<lambda>c. c \<notin> set interrupt) program,
             ifb_interrupt := interrupt,
             ifb_duck_gain := (if is_finite (ifb_duck_gain ifb)
                               then f_clamp (ifb_duck_gain ifb) (Fin 0) (Fin 1)
                               else default_ifb_duck_gain)\<rparr>)"

definition normalize_stereo_config :: "stereo_config \<Rightarrow> stereo_config" where
  "normalize_stereo_config stereo =
     stereo\<lparr>sc_channel_pan :=
       map (\<lambda>(c, pan). (c, f_clamp pan (Fin (-1)) (Fin 1)))
         (filter (\<lambda>(c, pan). is_finite pan) (sc_channel_pan stereo))\<rparr>"

definition normalize_esp32_audio_config :: "esp32_audio_config \<Rightarrow> esp32_audio_config" where
  "normalize_esp32_audio_config config =
     config\<lparr>ea_mic_pga_gain_db := min (ea_mic_pga_gain_db config div 3) 8 * 3,
            ea_mic_software_gain_percent := min (ea_mic_software_gain_percent config) 400,
            ea_speaker_software_gain_percent := min (ea_speaker_software_gain_percent config) 400,
            ea_notification_gain_percent := min (ea_notification_gain_percent config) 200,
            ea_sidetone :=
              (let s = ea_sidetone config in
               s\<lparr>sd_firmware_gain_percent := min (sd_firmware_gain_percent s) 200,
                 sd_codec_bypass_gain_percent := min (sd_codec_bypass_gain_percent s) 200,
                 sd_mic_bypass_gain_percent := min (sd_mic_bypass_gain_percent s) 400\<rparr>)\<rparr>"

definition normalize_bridge_status :: "bridge_status \<Rightarrow> bridge_status" where
  "normalize_bridge_status status =
     status\<lparr>br_input_device := normalize_optional_message (br_input_device status),
            br_output_device := normalize_optional_message (br_output_device status),
            br_input_gain := (if is_finite (br_input_gain status)
                              then f_clamp (br_input_gain status) (Fin 0) (Fin 8) else Fin 1),
            br_output_gain := (if is_finite (br_output_gain status)
                               then f_clamp (br_output_gain status) (Fin 0) (Fin 8) else Fin 1),
            br_tx := sorted_unique_channels (br_tx status),
            br_listen := sorted_unique_channels (br_listen status),
            br_note := trim (br_note status)\<rparr>"

section \<open>Codecs, capabilities, identities\<close>

fun codec_supported :: "codec \<Rightarrow> bool" where
  "codec_supported Pcm16 = True"
| "codec_supported Pcm24 = True"
| "codec_supported Pcm48 = True"
| "codec_supported Adpcm = False"
| "codec_supported Opus = True"

definition normalize_supported_codecs :: "codec list \<Rightarrow> codec set" where
  "normalize_supported_codecs codecs = insert Pcm16 (set (filter codec_supported codecs))"

fun codec_rank :: "codec \<Rightarrow> nat" where
  "codec_rank Pcm16 = 0"
| "codec_rank Pcm24 = 1"
| "codec_rank Pcm48 = 2"
| "codec_rank Opus = 3"
| "codec_rank Adpcm = 4"

text \<open>Sorting a set of codecs by rank: the ranks are distinct, so the result is unique.\<close>

definition sorted_codecs :: "codec set \<Rightarrow> codec list" where
  "sorted_codecs codecs = filter (\<lambda>c. c \<in> codecs) [Pcm16, Pcm24, Pcm48, Opus, Adpcm]"

fun unique_first :: "'a set \<Rightarrow> 'a list \<Rightarrow> 'a list" where
  "unique_first seen [] = []"
| "unique_first seen (x # xs) =
     (if x \<in> seen then unique_first seen xs else x # unique_first (insert x seen) xs)"

definition normalize_client_capabilities :: "client_capabilities \<Rightarrow> client_capabilities" where
  "normalize_client_capabilities c =
     c\<lparr>cap_button_action_types :=
        unique_first {} (filter (\<lambda>a. a \<noteq> [])
          (map (\<lambda>a. to_ascii_lowercase (trim a)) (cap_button_action_types c)))\<rparr>"

definition normalize_client_uid :: "client_uid \<Rightarrow> user_id option \<Rightarrow> client_uid" where
  "normalize_client_uid client_uid requested =
     (let trimmed = trim client_uid in
      if trimmed \<noteq> [] then trimmed
      else case requested of
        Some u \<Rightarrow> if u > 0 then ''legacy-'' @ show_word u else ''legacy-unassigned''
      | None \<Rightarrow> ''legacy-unassigned'')"

datatype admin_api_error = BadRequest string | Internal string

definition normalize_config_id :: "string \<Rightarrow> string \<Rightarrow> admin_api_error + string" where
  "normalize_config_id i kind =
     (let i = trim i in
      if i = [] then Inl (BadRequest (kind @ '' id cannot be empty''))
      else if \<not> list_all (\<lambda>c. is_ascii_alphanumeric c \<or> c = CHR ''-'' \<or> c = CHR ''_'') i
      then Inl (BadRequest
        (kind @ '' id may only contain letters, numbers, dashes, and underscores''))
      else Inr i)"

section \<open>Sorted lists: contracts\<close>

text \<open>Where the sort key identifies the element, dropping equal neighbours leaves a strictly
  increasing list, and such a list is a fixed point.\<close>

lemma strict_sorted_dedup:
  "sorted (map k xs) \<Longrightarrow> inj_on k (set xs) \<Longrightarrow> sorted_wrt (<) (map k (dedup_by (=) xs))"
proof -
  assume s: "sorted (map k xs)" and inj: "inj_on k (set xs)"
  have "distinct_adj (dedup_by (=) xs)"
    using dedup_by_no_match [of "(=)" xs] by (auto simp: distinct_adj_def elim: successively_mono)
  moreover have sub: "set (dedup_by (=) xs) \<subseteq> set xs" by (rule set_dedup_by)
  ultimately have "distinct_adj (map k (dedup_by (=) xs))"
    using inj by (auto simp: distinct_adj_def successively_map inj_on_def
        elim!: successively_mono)
  moreover have "sorted (map k (dedup_by (=) xs))"
    using s by (rule sorted_dedup_by)
  ultimately have "successively (<) (map k (dedup_by (=) xs))"
    unfolding distinct_adj_def sorted_wrt_iff_nth_less successively_conv_nth
    by (metis Suc_lessD lessI order_le_imp_less_or_eq sorted_iff_nth_mono_less sorted_wrt_iff_nth_less)
  then show ?thesis
    by (simp add: successively_conv_sorted_wrt transp_on_less)
qed

lemma set_dedup_eq [simp]: "set (dedup_by (=) xs) = set xs"
  by (simp add: dedup_by_eq)

lemma dedup_distinct [simp]: "distinct xs \<Longrightarrow> dedup_by (=) xs = xs"
  by (simp add: dedup_by_eq remdups_adj_distinct)

lemma strict_sorted_dedup_sort [simp]: "sorted_wrt (<) (dedup_by (=) (sort (xs :: ('a :: linorder) list)))"
  using strict_sorted_dedup [of "\<lambda>x. x" "sort xs"] by simp

lemma strict_sorted_fixed [simp]:
  "sorted_wrt (<) (xs :: ('a :: linorder) list) \<Longrightarrow> dedup_by (=) (sort xs) = xs"
  by (simp add: strict_sorted_iff sorted_sort_id)

interpretation channels_norm: normaliser sorted_unique_channels "sorted_wrt (<)"
  by unfold_locales (simp_all add: sorted_unique_channels_def)

interpretation users_norm:
  normaliser sorted_unique_users "\<lambda>us. sorted_wrt (<) us \<and> list_all (\<lambda>u. u > 0) us"
  by unfold_locales
    (auto simp: sorted_unique_users_def list_all_iff)

lemma set_sorted_unique_channels [simp]: "set (sorted_unique_channels cs) = set cs"
  by (simp add: sorted_unique_channels_def)

lemma set_sorted_unique_users [simp]: "set (sorted_unique_users us) = {u \<in> set us. u > 0}"
  by (auto simp: sorted_unique_users_def)

lemma inj_alert_target_key: "inj alert_target_key"
proof (rule injI)
  show "x = y" if "alert_target_key x = alert_target_key y" for x y
    using that by (cases x; cases y) auto
qed

definition alert_targets_ok :: "alert_target list \<Rightarrow> bool" where
  "alert_targets_ok ts = (sorted_wrt (<) (map alert_target_key ts) \<and> list_all alert_target_kept ts)"

interpretation alert_targets_norm: normaliser sorted_unique_alert_targets alert_targets_ok
proof
  show "alert_targets_ok (sorted_unique_alert_targets x)" for x
    unfolding alert_targets_ok_def sorted_unique_alert_targets_def
    by (auto simp: list_all_iff inj_on_def injD [OF inj_alert_target_key]
        intro!: strict_sorted_dedup)
  show "alert_targets_ok x \<Longrightarrow> sorted_unique_alert_targets x = x" for x
  proof -
    assume ok: "alert_targets_ok x"
    then have "filter alert_target_kept x = x"
      by (auto simp: alert_targets_ok_def list_all_iff)
    moreover have "sorted (map alert_target_key x)" "distinct x"
      using ok by (auto simp: alert_targets_ok_def strict_sorted_iff distinct_map)
    ultimately show "sorted_unique_alert_targets x = x"
      by (simp add: sorted_unique_alert_targets_def sort_key_id_if_sorted)
  qed
qed

section \<open>Buttons: contracts\<close>

text \<open>The comparison of button ids is the order of a key: numeric ids first, by value.\<close>

definition button_key :: "string \<Rightarrow> nat \<times> u16 \<times> string" where
  "button_key i = (case parse_u16 i of Some n \<Rightarrow> (0, n, []) | None \<Rightarrow> (1, 0, i))"

lemma compare_button_ids_key: "compare_button_ids l r = cmp_of (button_key l) (button_key r)"
  by (auto simp: compare_button_ids_def button_key_def cmp_of_def split: option.splits)

definition capability_ok :: "button_capability \<Rightarrow> bool" where
  "capability_ok b = (trimmed (bc_id b) \<and> bc_id b \<noteq> [] \<and> trimmed (bc_label b) \<and> bc_label b \<noteq> [])"

lemma capability_clean_ok: "trim (bc_id b) \<noteq> [] \<Longrightarrow> capability_ok (clean_button_capability b)"
  by (simp add: capability_ok_def clean_button_capability_def Let_def)

lemma capability_ok_clean: "capability_ok b \<Longrightarrow> clean_button_capability b = b"
  by (simp add: capability_ok_def clean_button_capability_def Let_def)

definition sorted_named :: "('a \<Rightarrow> 'k :: linorder) \<Rightarrow> ('a \<Rightarrow> 'i) \<Rightarrow> 'a list \<Rightarrow> bool" where
  "sorted_named key name xs = (sorted (map key xs) \<and> successively (\<lambda>x y. name y \<noteq> name x) xs)"

lemma normalize_button_capabilities_key:
  "normalize_button_capabilities xs =
     dedup_by (\<lambda>l r. bc_id l = bc_id r) (sort_key (\<lambda>b. button_key (bc_id b))
       (map clean_button_capability (filter (\<lambda>b. trim (bc_id b) \<noteq> []) xs)))"
  unfolding normalize_button_capabilities_def
  by (subst sort_by_key [where k = "\<lambda>b. button_key (bc_id b)"])
    (simp_all add: compare_button_ids_key)

interpretation capabilities_norm: keyed_normaliser clean_button_capability
  "\<lambda>b. trim (bc_id b) \<noteq> []" "\<lambda>b. button_key (bc_id b)" bc_id capability_ok
  by unfold_locales (simp_all add: capability_clean_ok capability_ok_clean,
      simp add: capability_ok_def)

definition color_ok :: "string option \<Rightarrow> bool" where
  "color_ok color = (case color of None \<Rightarrow> True | Some c \<Rightarrow> trimmed c \<and> is_hex_button_color c)"

definition message_ok :: "string option \<Rightarrow> bool" where
  "message_ok m = (case m of None \<Rightarrow> True | Some t \<Rightarrow> trimmed t \<and> t \<noteq> [])"

definition users_ok :: "user_id list \<Rightarrow> bool" where
  "users_ok us = (sorted_wrt (<) us \<and> list_all (\<lambda>u. u > 0) us)"

fun action_ok :: "talk_button_action \<Rightarrow> bool" where
  "action_ok (Transmit channels users _) = (sorted_wrt (<) channels \<and> users_ok users)"
| "action_ok (Alert targets message) = (alert_targets_ok targets \<and> message_ok message)"
| "action_ok (ApplyPreset preset_id) = trimmed preset_id"
| "action_ok (SetTalkMode users _) = users_ok users"
| "action_ok (RouteEdit users la lr lt ta tr tt) =
     (users_ok users \<and> sorted_wrt (<) la \<and> sorted_wrt (<) lr \<and> sorted_wrt (<) lt \<and>
      sorted_wrt (<) ta \<and> sorted_wrt (<) tr \<and> sorted_wrt (<) tt)"

definition button_ok :: "talk_button_config \<Rightarrow> bool" where
  "button_ok b = (trimmed (btn_id b) \<and> btn_id b \<noteq> [] \<and> trimmed (btn_label b) \<and>
     btn_label b \<noteq> [] \<and> color_ok (btn_color b) \<and> list_all action_ok (btn_actions b))"

interpretation color_norm: normaliser normalize_button_color color_ok
  by unfold_locales (auto simp: normalize_button_color_def color_ok_def Let_def split: option.splits)

interpretation message_norm: normaliser normalize_optional_message message_ok
  by unfold_locales (auto simp: normalize_optional_message_def message_ok_def split: option.splits)

lemma users_ok_norm [simp]: "users_ok (sorted_unique_users us)"
  using users_norm.norm_ok by (simp add: users_ok_def)

lemma users_ok_fixed [simp]: "users_ok us \<Longrightarrow> sorted_unique_users us = us"
  using users_norm.norm_fixes by (simp add: users_ok_def)

lemmas norm_ok_simps =
  channels_norm.norm_ok channels_norm.norm_fixes alert_targets_norm.norm_ok
  alert_targets_norm.norm_fixes color_norm.norm_ok color_norm.norm_fixes
  message_norm.norm_ok message_norm.norm_fixes

interpretation action_norm: normaliser normalize_button_action action_ok
proof
  show "action_ok (normalize_button_action x)" for x
    by (cases x) (simp_all add: norm_ok_simps)
  show "action_ok x \<Longrightarrow> normalize_button_action x = x" for x
    by (cases x) (simp_all add: norm_ok_simps)
qed

lemma button_clean_ok: "trim (btn_id b) \<noteq> [] \<Longrightarrow> button_ok (clean_button_config b)"
  by (simp add: button_ok_def clean_button_config_def Let_def color_norm.norm_ok
      normalize_button_actions_def action_norm.map_ok)

lemma button_ok_clean: "button_ok b \<Longrightarrow> clean_button_config b = b"
  by (simp add: button_ok_def clean_button_config_def Let_def color_norm.norm_fixes
      normalize_button_actions_def action_norm.map_fixes)

interpretation buttons_norm: keyed_normaliser clean_button_config
  "\<lambda>b. trim (btn_id b) \<noteq> []" "\<lambda>b. button_key (btn_id b)" btn_id button_ok
  by unfold_locales (simp_all add: button_clean_ok button_ok_clean, simp add: button_ok_def)

lemma normalize_button_configs_key:
  "normalize_button_configs xs =
     dedup_by (\<lambda>l r. btn_id l = btn_id r) (sort_key (\<lambda>b. button_key (btn_id b))
       (map clean_button_config (filter (\<lambda>b. trim (btn_id b) \<noteq> []) xs)))"
  unfolding normalize_button_configs_def
  by (subst sort_by_key [where k = "\<lambda>b. button_key (btn_id b)"])
    (simp_all add: compare_button_ids_key)

definition buttons_ok :: "talk_button_config list \<Rightarrow> bool" where
  "buttons_ok bs = (list_all button_ok bs \<and> sorted (map (\<lambda>b. button_key (btn_id b)) bs) \<and>
     successively (\<lambda>x y. btn_id y \<noteq> btn_id x) bs)"

lemma buttons_ok_norm [simp]: "buttons_ok (normalize_button_configs xs)"
  unfolding buttons_ok_def normalize_button_configs_key by (rule buttons_norm.norm_ok)

lemma buttons_ok_fixed [simp]: "buttons_ok xs \<Longrightarrow> normalize_button_configs xs = xs"
  unfolding buttons_ok_def normalize_button_configs_key by (rule buttons_norm.norm_fixes)

interpretation button_list_norm: normaliser normalize_button_configs buttons_ok
  by unfold_locales simp_all

section \<open>Gains and the other configurations: contracts\<close>

definition duck_gain_ok :: "f32 \<Rightarrow> bool" where
  "duck_gain_ok g = in_range 0 1 g"

lemma default_duck_gain_ok [simp]: "in_range 0 1 default_ifb_duck_gain"
  by (simp add: default_ifb_duck_gain_def)

interpretation duck_gain_norm: normaliser normalize_duck_gain duck_gain_ok
  by unfold_locales (auto simp: normalize_duck_gain_def duck_gain_ok_def in_range_clamp)

definition ifb_ok :: "ifb_config \<Rightarrow> bool" where
  "ifb_ok i = (sorted_wrt (<) (ifb_program i) \<and> sorted_wrt (<) (ifb_interrupt i) \<and>
     set (ifb_program i) \<inter> set (ifb_interrupt i) = {} \<and> duck_gain_ok (ifb_duck_gain i))"

interpretation ifb_norm: normaliser normalize_ifb_config ifb_ok
proof
  show "ifb_ok (normalize_ifb_config x)" for x
    by (auto simp: normalize_ifb_config_def ifb_ok_def Let_def duck_gain_ok_def in_range_clamp
        sorted_wrt_filter)
  show "ifb_ok x \<Longrightarrow> normalize_ifb_config x = x" for x
    by (auto simp: normalize_ifb_config_def ifb_ok_def Let_def duck_gain_ok_def
        intro!: ifb_config.equality filter_True)
qed

definition stereo_ok :: "stereo_config \<Rightarrow> bool" where
  "stereo_ok s = list_all (\<lambda>(c, pan). in_range (-1) 1 pan) (sc_channel_pan s)"

interpretation stereo_norm: normaliser normalize_stereo_config stereo_ok
proof
  show "stereo_ok (normalize_stereo_config x)" for x
    by (auto simp: normalize_stereo_config_def stereo_ok_def list_all_iff in_range_clamp)
  show "stereo_ok x \<Longrightarrow> normalize_stereo_config x = x" for x
  proof -
    assume ok: "stereo_ok x"
    then have "filter (\<lambda>(c, pan). is_finite pan) (sc_channel_pan x) = sc_channel_pan x"
      by (intro filter_True) (auto simp: stereo_ok_def list_all_iff)
    moreover have "map (\<lambda>(c, pan). (c, f_clamp pan (Fin (-1)) (Fin 1))) (sc_channel_pan x) =
        sc_channel_pan x"
      using ok by (intro map_idI) (auto simp: stereo_ok_def list_all_iff)
    ultimately show "normalize_stereo_config x = x"
      by (simp add: normalize_stereo_config_def)
  qed
qed

definition volumes_ok :: "user_id \<Rightarrow> (user_id, f32) hash_map \<Rightarrow> bool" where
  "volumes_ok listener vs = list_all (\<lambda>(t, g). t \<noteq> listener \<and> in_range 0 4 g) vs"

interpretation talker_norm:
  normaliser "\<lambda>vs. normalize_talker_volumes vs listener" "volumes_ok listener" for listener
proof
  show "volumes_ok listener (normalize_talker_volumes x listener)" for x
    by (auto simp: normalize_talker_volumes_def volumes_ok_def list_all_iff in_range_clamp)
  show "volumes_ok listener x \<Longrightarrow> normalize_talker_volumes x listener = x" for x
  proof -
    assume ok: "volumes_ok listener x"
    then have "filter (\<lambda>(t, g). \<not> (t = listener \<or> \<not> is_finite g)) x = x"
      by (intro filter_True) (auto simp: volumes_ok_def list_all_iff)
    moreover have "map (\<lambda>(t, g). (t, f_clamp g (Fin 0) (Fin 4))) x = x"
      using ok by (intro map_idI) (auto simp: volumes_ok_def list_all_iff)
    ultimately show "normalize_talker_volumes x listener = x"
      by (simp add: normalize_talker_volumes_def)
  qed
qed

definition esp32_ok :: "esp32_audio_config \<Rightarrow> bool" where
  "esp32_ok c = (ea_mic_pga_gain_db c \<in> {0, 3, 6, 9, 12, 15, 18, 21, 24} \<and>
     ea_mic_software_gain_percent c \<le> 400 \<and> ea_speaker_software_gain_percent c \<le> 400 \<and>
     ea_notification_gain_percent c \<le> 200 \<and>
     sd_firmware_gain_percent (ea_sidetone c) \<le> 200 \<and>
     sd_codec_bypass_gain_percent (ea_sidetone c) \<le> 200 \<and>
     sd_mic_bypass_gain_percent (ea_sidetone c) \<le> 400)"

lemma u8_le_8: "(w :: u8) \<le> 8 \<Longrightarrow> w \<in> {0, 1, 2, 3, 4, 5, 6, 7, 8}"
proof -
  assume "w \<le> 8"
  then have "unat w \<le> 8" by (simp add: word_le_nat_alt)
  moreover have "w = of_nat (unat w)" by simp
  ultimately obtain k where "w = of_nat k" "k \<le> 8" by blast
  moreover from this have "k \<in> {0, 1, 2, 3, 4, 5, 6, 7, 8}"
    unfolding insert_iff empty_iff by arith
  ultimately show ?thesis by auto
qed

lemma pga_steps: "min (g div 3) 8 * 3 \<in> {0, 3, 6, 9, 12, 15, 18, 21, 24 :: u8}"
proof -
  have "min (g div 3) 8 \<in> {0, 1, 2, 3, 4, 5, 6, 7, 8}" by (intro u8_le_8) simp
  then show ?thesis by auto
qed

interpretation esp32_norm: normaliser normalize_esp32_audio_config esp32_ok
proof
  show "esp32_ok (normalize_esp32_audio_config x)" for x
    unfolding esp32_ok_def normalize_esp32_audio_config_def Let_def using pga_steps by simp
  show "esp32_ok x \<Longrightarrow> normalize_esp32_audio_config x = x" for x
    unfolding esp32_ok_def normalize_esp32_audio_config_def Let_def
    by (auto intro!: esp32_audio_config.equality esp32_sidetone_control_config.equality
        simp: min_absorb1)
qed

definition bridge_status_ok :: "bridge_status \<Rightarrow> bool" where
  "bridge_status_ok s = (message_ok (br_input_device s) \<and> message_ok (br_output_device s) \<and>
     in_range 0 8 (br_input_gain s) \<and> in_range 0 8 (br_output_gain s) \<and>
     sorted_wrt (<) (br_tx s) \<and> sorted_wrt (<) (br_listen s) \<and> trimmed (br_note s))"

interpretation bridge_norm: normaliser normalize_bridge_status bridge_status_ok
  by unfold_locales
    (auto simp: bridge_status_ok_def normalize_bridge_status_def norm_ok_simps in_range_clamp
      intro!: bridge_status.equality)

lemma set_sorted_codecs [simp]: "set (sorted_codecs S) = S"
proof -
  have "c \<in> set [Pcm16, Pcm24, Pcm48, Opus, Adpcm]" for c
    by (cases c) simp_all
  then show ?thesis unfolding sorted_codecs_def set_filter by blast
qed

lemma sorted_codecs_sorted: "sorted_wrt (<) (map codec_rank (sorted_codecs S))"
  by (simp add: sorted_codecs_def)

lemma set_unique_first: "set (unique_first seen xs) = set xs - seen"
  by (induction seen xs rule: unique_first.induct) auto

lemma distinct_unique_first: "distinct (unique_first seen xs)"
  by (induction seen xs rule: unique_first.induct) (auto simp: set_unique_first)

lemma unique_first_id: "distinct xs \<Longrightarrow> set xs \<inter> seen = {} \<Longrightarrow> unique_first seen xs = xs"
  by (induction seen xs rule: unique_first.induct) auto

lemma normalize_client_uid_trimmed: "trimmed (normalize_client_uid uid r)"
proof -
  have digit: "\<not> is_whitespace (last (show_nat n))" for n
    by (subst show_nat.simps) (auto simp: is_whitespace_def Let_def)
  have "show_nat n \<noteq> []" for n
    by (subst show_nat.simps) simp
  then show ?thesis
    unfolding normalize_client_uid_def Let_def
    using digit
    by (auto simp: trimmed_def [of "_ @ _"] trimmed_def [of "_ # _"] is_whitespace_def Let_def
        split: option.splits)
qed

lemma normalize_client_uid_nonempty: "normalize_client_uid uid r \<noteq> []"
  by (auto simp: normalize_client_uid_def Let_def split: option.splits)

lemma normalize_client_uid_id: "trimmed uid \<Longrightarrow> uid \<noteq> [] \<Longrightarrow> normalize_client_uid uid r = uid"
  by (simp add: normalize_client_uid_def Let_def)

lemma sorted_distinct_adj_names:
  assumes "sorted (map key xs)" "successively (\<lambda>x y. name y \<noteq> name x) xs"
    and inj: "\<And>x y. x \<in> set xs \<Longrightarrow> y \<in> set xs \<Longrightarrow> key x = key y \<Longrightarrow> name x = name y"
    and same: "\<And>x y. x \<in> set xs \<Longrightarrow> y \<in> set xs \<Longrightarrow> name x = name y \<Longrightarrow> key x = key y"
  shows "distinct (map name xs)"
proof -
  have step: "key (xs ! n) < key (xs ! Suc n)" if n: "Suc n < length xs" for n
  proof -
    have "key (xs ! n) \<le> key (xs ! Suc n)"
      using sorted_nth_mono [OF assms(1), of n "Suc n"] n by simp
    moreover have "key (xs ! n) \<noteq> key (xs ! Suc n)"
    proof
      assume "key (xs ! n) = key (xs ! Suc n)"
      then have "name (xs ! n) = name (xs ! Suc n)" using inj n by simp
      with assms(2) n show False unfolding successively_conv_nth by metis
    qed
    ultimately show ?thesis by simp
  qed
  have keys: "distinct (map key xs)"
  proof -
    have "sorted_wrt (<) (map key xs)"
      by (subst sorted_wrt_iff_nth_Suc_transp) (auto simp: step transp_on_def)
    then show ?thesis by (simp add: strict_sorted_iff)
  qed
  have "distinct xs" and inj_key: "inj_on key (set xs)" using keys by (simp_all add: distinct_map)
  moreover have "inj_on name (set xs)"
    by (rule inj_onI) (rule inj_onD [OF inj_key], rule same)
  ultimately show ?thesis by (simp add: distinct_map)
qed

section \<open>Properties\<close>

text \<open>What the server stores for a client's buttons is a normal form: ids and labels
  trimmed and not empty, colours hexadecimal or absent, every action's channel, user and
  target lists strictly increasing and free of user 0, the buttons in id order with no two
  neighbours of equal id; and normalising changes a list exactly when it is not yet of this
  form, so doing it again on load, on update and in every session changes nothing.\<close>

lemma normalize_button_configs_normal_form:
  "buttons_ok (normalize_button_configs bs) \<and>
   (normalize_button_configs bs = bs \<longleftrightarrow> buttons_ok bs) \<and>
   normalize_button_configs (normalize_button_configs bs) = normalize_button_configs bs"
  by (simp add: button_list_norm.fixpoint_iff)

text \<open>Where no two button ids denote the same number in different spellings, the stored
  buttons have pairwise different ids, so a press names at most one button.\<close>

lemma normalize_button_configs_distinct:
  assumes spelling: "\<And>i j. i \<in> trim ` btn_id ` set bs \<Longrightarrow> j \<in> trim ` btn_id ` set bs \<Longrightarrow>
      parse_u16 i = parse_u16 j \<Longrightarrow> parse_u16 i \<noteq> None \<Longrightarrow> i = j"
  shows "distinct (map btn_id (normalize_button_configs bs))"
proof (rule sorted_distinct_adj_names [where key = "\<lambda>b. button_key (btn_id b)"])
  have ok: "buttons_ok (normalize_button_configs bs)" by simp
  then show "sorted (map (\<lambda>b. button_key (btn_id b)) (normalize_button_configs bs))"
    and "successively (\<lambda>x y. btn_id y \<noteq> btn_id x) (normalize_button_configs bs)"
    by (simp_all add: buttons_ok_def)
  have ids: "btn_id ` set (normalize_button_configs bs) \<subseteq> trim ` btn_id ` set bs"
  proof -
    have "set (normalize_button_configs bs) \<subseteq> clean_button_config ` set bs"
      unfolding normalize_button_configs_key by (rule order_trans [OF set_dedup_by]) auto
    then have "btn_id ` set (normalize_button_configs bs) \<subseteq> btn_id ` clean_button_config ` set bs"
      by (rule image_mono)
    then show ?thesis by (simp add: image_image clean_button_config_def Let_def)
  qed
  show "btn_id x = btn_id y"
    if "x \<in> set (normalize_button_configs bs)" "y \<in> set (normalize_button_configs bs)"
      and "button_key (btn_id x) = button_key (btn_id y)" for x y
    using that ids spelling [of "btn_id x" "btn_id y"]
    by (auto simp: button_key_def split: option.splits)
qed simp

text \<open>A button list whose normal form still names two buttons \<open>1\<close>: the spellings 1 and 01
  compare as equal, so sorting leaves the second 1 behind the 01 and only neighbours are
  compared for equal ids.\<close>

lemma duplicate_button_ids_survive:
  "map btn_id (normalize_button_configs
     (map (\<lambda>i. \<lparr>btn_id = i, btn_label = [], btn_color = None, btn_mode = Momentary, btn_actions = []\<rparr>)
       [''1'', ''01'', ''1''])) = [''1'', ''01'', ''1'']"
proof -
  have t: "trim ''1'' = ''1''" "trim ''01'' = ''01''"
    by (simp_all add: trimmed_def is_whitespace_def)
  have p: "parse_u16 ''1'' = Some 1" "parse_u16 ''01'' = Some 1"
    by (simp_all add: parse_u16_def parse_unsigned_def is_ascii_digit_def)
  show ?thesis
    by (simp add: normalize_button_configs_def clean_button_config_def t sort_by_def
        compare_button_ids_def p cmp_of_def Let_def normalize_button_color_def
        normalize_button_actions_def)
qed

text \<open>A stored IFB configuration never ducks the channel that interrupts: program and
  interrupt channels are disjoint and strictly increasing, the interrupt channels are those
  requested, the program channels those requested minus the interrupts, and the duck gain
  is a finite number between 0 and 1 (the default when the request's is not finite).\<close>

lemma normalize_ifb_config_disjoint:
  "let n = normalize_ifb_config i in
     ifb_ok n \<and>
     set (ifb_interrupt n) = set (ifb_interrupt i) \<and>
     set (ifb_program n) = set (ifb_program i) - set (ifb_interrupt i) \<and>
     ifb_enabled n = ifb_enabled i \<and>
     ifb_duck_gain n = normalize_duck_gain (ifb_duck_gain i) \<and>
     normalize_ifb_config n = n"
  using ifb_norm.norm_ok [of i] ifb_norm.idem [of i]
  by (auto simp: Let_def normalize_ifb_config_def normalize_duck_gain_def)

end
