(* ===== verification/Server_Session.thy ===== *)
theory Server_Session
  imports Normalize
begin

text \<open>
  The live session of one client in \<open>server/src/lib.rs\<close>: the \<open>Session\<close> struct, the runtime
  records of calls, alerts and emergencies, what a client is told about them (alert, call
  and emergency statuses), and what the session's talk state authorises it to transmit
  (\<open>effective_tx_channels\<close>, \<open>active_tx_targets\<close>). Socket addresses are opaque numbers.
\<close>

type_synonym socket_addr = nat

section \<open>Runtime records\<close>

record active_direct_call =
  adc_duck :: bool

record direct_call_history =
  dh_caller :: user_id
  dh_target :: user_id
  dh_started :: instant
  dh_ended :: "instant option"
  dh_duck :: bool
  dh_source_button :: "button_id option"

record runtime_alert =
  ra_id :: alert_id
  ra_sender :: user_id
  ra_target :: alert_target
  ra_message :: "string option"
  ra_created_at_ms :: nat
  ra_recipients :: "alert_recipient_status list"
  ra_cancelled :: bool
  ra_cancelled_at_ms :: "nat option"

record runtime_emergency =
  re_source :: user_id
  re_target :: emergency_target
  re_duck_gain :: f32
  re_mute_others :: bool

record session =
  se_client_uid :: client_uid
  se_enrollment :: enrollment_status
  se_addr :: "socket_addr option"
  se_audio_last_seen :: "instant option"
  se_role :: client_role
  se_listen_channels :: "channel_id set"
  se_tx_channels :: "channel_id set"
  se_channel_volumes :: "(channel_id, f32) hash_map"
  se_talker_volumes :: "(user_id, f32) hash_map"
  se_output_codec :: codec
  se_opus_profile :: opus_profile
  se_supported_codecs :: "codec set"
  se_advertised_buttons :: "button_capability list"
  se_capabilities :: client_capabilities
  se_buttons :: "talk_button_config list"
  se_active_buttons :: "button_id set"
  se_active_direct_calls :: "(user_id, active_direct_call) hash_map"
  se_last_direct_caller :: "user_id option"
  se_direct_call_history :: "direct_call_history list"
  se_ifb :: ifb_config
  se_ifb_status :: ifb_status
  se_lockout :: client_lockout_policy
  se_stereo :: stereo_config
  se_esp32_audio :: esp32_audio_config
  se_processing :: processing_config
  se_bridge :: "bridge_status option"
  se_name :: string
  se_talk_mode :: talk_mode
  se_regular_talk_active :: bool
  se_priority :: bool
  se_priority_channels :: "channel_id set"
  se_last_seen :: instant

type_synonym sessions = "(user_id, session) hash_map"

definition session_new :: "instant \<Rightarrow> session" where
  "session_new now =
     \<lparr>se_client_uid = [], se_enrollment = Enrolled, se_addr = None, se_audio_last_seen = None,
      se_role = RoleClient, se_listen_channels = {}, se_tx_channels = {},
      se_channel_volumes = [], se_talker_volumes = [], se_output_codec = Pcm16,
      se_opus_profile = default_opus_profile, se_supported_codecs = {Pcm16},
      se_advertised_buttons = [], se_capabilities = default_client_capabilities,
      se_buttons = [], se_active_buttons = {}, se_active_direct_calls = [],
      se_last_direct_caller = None, se_direct_call_history = [], se_ifb = default_ifb_config,
      se_ifb_status = default_ifb_status, se_lockout = default_client_lockout_policy,
      se_stereo = default_stereo_config, se_esp32_audio = default_esp32_audio_config,
      se_processing = default_processing_config, se_bridge = None, se_name = [],
      se_talk_mode = Ptt, se_regular_talk_active = False, se_priority = False,
      se_priority_channels = {}, se_last_seen = now\<rparr>"

section \<open>What a session transmits\<close>

text \<open>The actions of the buttons that are held down or latched.\<close>

definition active_actions :: "session \<Rightarrow> talk_button_action list" where
  "active_actions s =
     concat (map btn_actions (filter (\<lambda>b. btn_id b \<in> se_active_buttons s) (se_buttons s)))"

fun transmit_channels :: "talk_button_action \<Rightarrow> channel_id list" where
  "transmit_channels (Transmit channels users duck) = channels"
| "transmit_channels a = []"

fun transmit_users :: "talk_button_action \<Rightarrow> user_id list" where
  "transmit_users (Transmit channels users duck) = users"
| "transmit_users a = []"

definition effective_tx_channels :: "session \<Rightarrow> channel_id set" where
  "effective_tx_channels s =
     (if se_talk_mode s = Open \<or> se_talk_mode s = Ptt \<and> se_regular_talk_active s
      then se_tx_channels s else {}) \<union>
     \<Union> (set (map (\<lambda>a. set (transmit_channels a)) (active_actions s)))"

definition active_tx_targets :: "session \<Rightarrow> audio_target set" where
  "active_tx_targets s =
     Channel ` effective_tx_channels s \<union>
     Direct ` set (hm_keys (se_active_direct_calls s)) \<union>
     \<Union> (set (map (\<lambda>a. Direct ` set (transmit_users a)) (active_actions s)))"

section \<open>Alert statuses\<close>

definition millis_since :: "instant \<Rightarrow> instant \<Rightarrow> nat" where
  "millis_since started t = (let ms = (t - started) div 1000000 in if ms \<le> u64_max then ms else u64_max)"

definition alert_status_of :: "runtime_alert \<Rightarrow> alert_status" where
  "alert_status_of a =
     \<lparr>as_id = ra_id a, as_sender = ra_sender a, as_sender_name = None, as_target = ra_target a,
      as_message = ra_message a, as_created_at_ms = ra_created_at_ms a,
      as_recipients = ra_recipients a, as_cancelled = ra_cancelled a,
      as_cancelled_at_ms = ra_cancelled_at_ms a\<rparr>"

definition alert_active_for :: "runtime_alert \<Rightarrow> user_id \<Rightarrow> bool" where
  "alert_active_for a u =
     (\<not> ra_cancelled a \<and>
      list_ex (\<lambda>r. ar_user_id r = u \<and> ar_acked_at_ms r = None) (ra_recipients a))"

definition alert_relevant_for :: "runtime_alert \<Rightarrow> user_id \<Rightarrow> bool" where
  "alert_relevant_for a u =
     (ra_sender a = u \<or> list_ex (\<lambda>r. ar_user_id r = u) (ra_recipients a))"

definition alert_active :: "runtime_alert \<Rightarrow> bool" where
  "alert_active a =
     (\<not> ra_cancelled a \<and> list_ex (\<lambda>r. ar_acked_at_ms r = None) (ra_recipients a))"

definition session_display_name :: "sessions \<Rightarrow> user_id \<Rightarrow> string option" where
  "session_display_name ss u =
     (case hm_get ss u of None \<Rightarrow> None
      | Some s \<Rightarrow> let n = trim (se_name s) in if n = [] then None else Some n)"

definition alert_status_with_sessions :: "runtime_alert \<Rightarrow> sessions \<Rightarrow> alert_status" where
  "alert_status_with_sessions a ss =
     (alert_status_of a)\<lparr>as_sender_name := session_display_name ss (ra_sender a)\<rparr>"

definition alert_statuses_for_user_with_sessions ::
    "runtime_alert list \<Rightarrow> user_id \<Rightarrow> sessions \<Rightarrow> alert_status list \<times> alert_status list" where
  "alert_statuses_for_user_with_sessions alerts u ss =
     (map (\<lambda>a. alert_status_with_sessions a ss) (filter (\<lambda>a. alert_active_for a u) alerts),
      map (\<lambda>a. alert_status_with_sessions a ss)
        (take 20 (rev (filter (\<lambda>a. alert_relevant_for a u \<and> \<not> alert_active_for a u) alerts))))"

definition admin_alert_statuses_with_sessions ::
    "runtime_alert list \<Rightarrow> sessions \<Rightarrow> alert_status list \<times> alert_status list" where
  "admin_alert_statuses_with_sessions alerts ss =
     (map (\<lambda>a. alert_status_with_sessions a ss) (filter alert_active alerts),
      map (\<lambda>a. alert_status_with_sessions a ss)
        (take 50 (rev (filter (\<lambda>a. \<not> alert_active a) alerts))))"

section \<open>Emergency recipients\<close>

definition emergency_status_of :: "runtime_emergency \<Rightarrow> user_id list \<Rightarrow> emergency_status" where
  "emergency_status_of e recipients =
     \<lparr>emg_active = True, emg_source = re_source e, emg_target = re_target e,
      emg_duck_gain = re_duck_gain e, emg_mute_others = re_mute_others e,
      emg_recipients = recipients\<rparr>"

definition emergency_recipients_for_sessions :: "runtime_emergency \<Rightarrow> sessions \<Rightarrow> user_id list" where
  "emergency_recipients_for_sessions e ss =
     remdups_adj (sort (case re_target e of
         EmergencyAll \<Rightarrow> filter (\<lambda>u. u \<noteq> re_source e) (hm_keys ss)
       | EmergencyUsers users \<Rightarrow>
           filter (\<lambda>u. u \<noteq> re_source e \<and> hm_contains ss u) users
       | EmergencyChannels channels \<Rightarrow>
           map fst (filter (\<lambda>(u, s). u \<noteq> re_source e \<and>
             list_ex (\<lambda>c. c \<in> se_listen_channels s) channels) ss)))"

definition emergency_status_for_user ::
    "runtime_emergency option \<Rightarrow> sessions \<Rightarrow> user_id \<Rightarrow> emergency_status option" where
  "emergency_status_for_user e ss u =
     (case e of None \<Rightarrow> None
      | Some e \<Rightarrow>
          let recipients = emergency_recipients_for_sessions e ss
          in if re_source e = u \<or> u \<in> set recipients then Some (emergency_status_of e recipients)
             else None)"

section \<open>Direct call statuses\<close>

definition call_key :: "direct_call_status \<Rightarrow> user_id \<times> user_id \<times> bool" where
  "call_key c = (dcs_caller c, dcs_target c, dcs_duck c)"

definition call_status :: "sessions \<Rightarrow> user_id \<Rightarrow> user_id \<Rightarrow> bool \<Rightarrow> direct_call_status" where
  "call_status ss caller target duck =
     \<lparr>dcs_caller = caller, dcs_caller_name = session_display_name ss caller,
      dcs_target = target, dcs_target_name = session_display_name ss target,
      dcs_active = True, dcs_duck = duck\<rparr>"

fun transmit_calls :: "talk_button_action \<Rightarrow> (user_id \<times> bool) list" where
  "transmit_calls (Transmit channels users duck) = map (\<lambda>u. (u, duck)) users"
| "transmit_calls a = []"

text \<open>The calls one session makes: its direct calls and the users its held buttons address.\<close>

definition session_calls :: "session \<Rightarrow> (user_id \<times> bool) list" where
  "session_calls s =
     map (\<lambda>(t, c). (t, adc_duck c)) (se_active_direct_calls s) @
     concat (map transmit_calls (active_actions s))"

definition active_direct_call_statuses_for_user :: "user_id \<Rightarrow> sessions \<Rightarrow> direct_call_status list" where
  "active_direct_call_statuses_for_user u ss =
     dedup_by (\<lambda>l r. call_key l = call_key r)
       (sort_key call_key
         (concat (map (\<lambda>(caller, s).
            map (\<lambda>(t, d). call_status ss caller t d)
              (filter (\<lambda>(t, d). caller = u \<or> t = u) (session_calls s))) ss)))"

definition direct_call_history_entries ::
    "direct_call_history list \<Rightarrow> direct_call_history_entry list" where
  "direct_call_history_entries history =
     map (\<lambda>h. \<lparr>dch_caller = dh_caller h, dch_target = dh_target h,
                dch_started_at_ms = millis_since (dh_started h) (dh_started h),
                dch_ended_at_ms = map_option (millis_since (dh_started h)) (dh_ended h),
                dch_duck = dh_duck h\<rparr>) history"

section \<open>The configuration event of a session\<close>

definition session_control_event ::
    "session \<Rightarrow> user_id \<Rightarrow> direct_call_status list \<Rightarrow> alert_status list \<Rightarrow> alert_status list \<Rightarrow>
     emergency_status option \<Rightarrow> control_event" where
  "session_control_event s u calls active recent emergency =
     ConfigUpdate u
       \<lparr>cu_client_uid = se_client_uid s, cu_name = se_name s,
        cu_listen = sorted_list_of_set (se_listen_channels s),
        cu_tx = sorted_list_of_set (se_tx_channels s),
        cu_vol = se_channel_volumes s, cu_talker_vol = se_talker_volumes s,
        cu_codec = se_output_codec s, cu_opus_profile = se_opus_profile s,
        cu_talk_mode = se_talk_mode s, cu_regular_talk_active = se_regular_talk_active s,
        cu_priority = se_priority s,
        cu_priority_channels = sorted_list_of_set (se_priority_channels s),
        cu_processing = se_processing s, cu_buttons = sorted_buttons (se_buttons s),
        cu_active_buttons = sorted_list_of_set (se_active_buttons s),
        cu_active_direct_calls = calls, cu_last_direct_caller = se_last_direct_caller s,
        cu_direct_call_history = direct_call_history_entries (se_direct_call_history s),
        cu_active_alerts = active, cu_recent_alerts = recent, cu_emergency = emergency,
        cu_ifb = se_ifb s, cu_lockout = se_lockout s, cu_stereo = se_stereo s,
        cu_esp32_audio = se_esp32_audio s\<rparr>"

definition stereo_status_for_session :: "session \<Rightarrow> stereo_status" where
  "stereo_status_for_session s =
     (if stereo_active_for_codec (se_stereo s) (se_output_codec s)
      then \<lparr>ss_active = True, ss_channels = 2, ss_warning = None\<rparr>
      else if sc_enabled (se_stereo s)
      then \<lparr>ss_active = False, ss_channels = 1,
            ss_warning = Some ''stereo receive requires pcm48 or opus''\<rparr>
      else default_stereo_status)"

end
