(* ===== verification/Admin_State.thy ===== *)
theory Admin_State
  imports Normalize
begin

text \<open>
  The administrator's persistent state of \<open>server/src/lib.rs\<close>: channels, device enrollments,
  desired client configurations, presets and client templates, the default workflow the
  server starts with, insertion into the sorted lists, and \<open>normalize_admin_state\<close>, which
  every loaded state goes through. The JSON text of the state file is not modelled.
\<close>

section \<open>Data\<close>

record channel_config =
  ch_id :: channel_id
  ch_name :: string

record device_enrollment =
  de_client_uid :: client_uid
  de_user_id :: user_id
  de_status :: enrollment_status
  de_name :: string
  de_role :: client_role
  de_first_seen_ms :: nat
  de_last_seen_ms :: nat
  de_hardware_fingerprint :: "string option"
  de_warnings :: "string list"
  de_supported_codecs :: "codec list"
  de_advertised_buttons :: "button_capability list"
  de_capabilities :: client_capabilities

record desired_client_config =
  dc_user_id :: user_id
  dc_client_uid :: "client_uid option"
  dc_role :: client_role
  dc_name :: string
  dc_listen :: "channel_id list"
  dc_tx :: "channel_id list"
  dc_vol :: "(channel_id, f32) hash_map"
  dc_talker_vol :: "(user_id, f32) hash_map"
  dc_codec :: codec
  dc_opus_profile :: opus_profile
  dc_talk_mode :: talk_mode
  dc_priority :: bool
  dc_priority_channels :: "channel_id list"
  dc_buttons :: "talk_button_config list"
  dc_ifb :: ifb_config
  dc_lockout :: client_lockout_policy
  dc_stereo :: stereo_config
  dc_esp32_audio :: esp32_audio_config
  dc_processing :: processing_config

record client_template_client_config =
  tc_role :: client_role
  tc_name :: string
  tc_listen :: "channel_id list"
  tc_tx :: "channel_id list"
  tc_vol :: "(channel_id, f32) hash_map"
  tc_talker_vol :: "(user_id, f32) hash_map"
  tc_codec :: codec
  tc_opus_profile :: opus_profile
  tc_talk_mode :: talk_mode
  tc_priority :: bool
  tc_priority_channels :: "channel_id list"
  tc_buttons :: "talk_button_config list"
  tc_ifb :: ifb_config
  tc_lockout :: client_lockout_policy
  tc_stereo :: stereo_config
  tc_esp32_audio :: esp32_audio_config
  tc_processing :: processing_config

record preset_config =
  pr_id :: string
  pr_name :: string
  pr_clients :: "desired_client_config list"

record client_template_config =
  ct_id :: string
  ct_name :: string
  ct_client :: client_template_client_config

record persisted_admin_state =
  ad_channels :: "channel_config list"
  ad_devices :: "device_enrollment list"
  ad_clients :: "desired_client_config list"
  ad_presets :: "preset_config list"
  ad_templates :: "client_template_config list"

section \<open>Constants of the default workflow\<close>

definition channel_open :: channel_id where "channel_open = 0"
definition channel_program :: channel_id where "channel_program = 1"
definition channel_production_pl :: channel_id where "channel_production_pl = 2"
definition channel_referee_pl :: channel_id where "channel_referee_pl = 3"
definition channel_director_ifb :: channel_id where "channel_director_ifb = 4"
definition channel_producer_cue :: channel_id where "channel_producer_cue = 5"
definition channel_pa :: channel_id where "channel_pa = 6"
definition channel_utility :: channel_id where "channel_utility = 7"

definition user_director :: user_id where "user_director = 1"
definition user_producer :: user_id where "user_producer = 2"
definition user_talent :: user_id where "user_talent = 10"
definition user_ref_1 :: user_id where "user_ref_1 = 20"
definition user_ref_2 :: user_id where "user_ref_2 = 21"
definition user_program_bridge :: user_id where "user_program_bridge = 90"
definition user_pa_bridge :: user_id where "user_pa_bridge = 91"

lemmas workflow_ids =
  channel_open_def channel_program_def channel_production_pl_def channel_referee_pl_def
  channel_director_ifb_def channel_producer_cue_def channel_pa_def channel_utility_def
  user_director_def user_producer_def user_talent_def user_ref_1_def user_ref_2_def
  user_program_bridge_def user_pa_bridge_def

section \<open>Desired configurations\<close>

definition desired_client_new :: "user_id \<Rightarrow> desired_client_config" where
  "desired_client_new u =
     \<lparr>dc_user_id = u, dc_client_uid = None, dc_role = RoleClient, dc_name = [],
      dc_listen = [channel_open], dc_tx = [channel_open], dc_vol = [], dc_talker_vol = [],
      dc_codec = Pcm16, dc_opus_profile = default_opus_profile, dc_talk_mode = Ptt,
      dc_priority = False, dc_priority_channels = [], dc_buttons = [],
      dc_ifb = default_ifb_config, dc_lockout = default_client_lockout_policy,
      dc_stereo = default_stereo_config, dc_esp32_audio = default_esp32_audio_config,
      dc_processing = default_processing_config\<rparr>"

definition default_template_client :: client_template_client_config where
  "default_template_client =
     \<lparr>tc_role = RoleClient, tc_name = [], tc_listen = [], tc_tx = [], tc_vol = [],
      tc_talker_vol = [], tc_codec = Pcm16, tc_opus_profile = default_opus_profile,
      tc_talk_mode = Ptt, tc_priority = False, tc_priority_channels = [], tc_buttons = [],
      tc_ifb = default_ifb_config, tc_lockout = default_client_lockout_policy,
      tc_stereo = default_stereo_config, tc_esp32_audio = default_esp32_audio_config,
      tc_processing = default_processing_config\<rparr>"

definition to_desired :: "client_template_client_config \<Rightarrow> user_id \<Rightarrow> desired_client_config" where
  "to_desired t u =
     \<lparr>dc_user_id = u, dc_client_uid = None, dc_role = tc_role t, dc_name = tc_name t,
      dc_listen = tc_listen t, dc_tx = tc_tx t, dc_vol = tc_vol t,
      dc_talker_vol = normalize_talker_volumes (tc_talker_vol t) u,
      dc_codec = tc_codec t, dc_opus_profile = tc_opus_profile t,
      dc_talk_mode = tc_talk_mode t, dc_priority = tc_priority t,
      dc_priority_channels = sorted_unique_channels (tc_priority_channels t),
      dc_buttons = normalize_button_configs (tc_buttons t),
      dc_ifb = normalize_ifb_config (tc_ifb t), dc_lockout = tc_lockout t,
      dc_stereo = normalize_stereo_config (tc_stereo t),
      dc_esp32_audio = normalize_esp32_audio_config (tc_esp32_audio t),
      dc_processing = tc_processing t\<rparr>"

section \<open>The default workflow\<close>

definition default_workflow_channels :: "channel_config list" where
  "default_workflow_channels =
     [\<lparr>ch_id = channel_open, ch_name = ''open''\<rparr>,
      \<lparr>ch_id = channel_program, ch_name = ''Program''\<rparr>,
      \<lparr>ch_id = channel_production_pl, ch_name = ''Production PL''\<rparr>,
      \<lparr>ch_id = channel_referee_pl, ch_name = ''Referee PL''\<rparr>,
      \<lparr>ch_id = channel_director_ifb, ch_name = ''Director IFB''\<rparr>,
      \<lparr>ch_id = channel_producer_cue, ch_name = ''Producer Cue''\<rparr>,
      \<lparr>ch_id = channel_pa, ch_name = ''PA''\<rparr>,
      \<lparr>ch_id = channel_utility, ch_name = ''Utility''\<rparr>]"

definition show_control_lockout :: client_lockout_policy where
  "show_control_lockout =
     \<lparr>lo_allow_channels = False, lo_allow_volumes = True, lo_allow_codec = False,
      lo_allow_talk_mode = True, lo_allow_priority = False, lo_allow_buttons = False,
      lo_allow_ifb = False, lo_allow_device_selection = True, lo_allow_local_api = False\<rparr>"

definition route_locked_lockout :: client_lockout_policy where
  "route_locked_lockout =
     \<lparr>lo_allow_channels = False, lo_allow_volumes = True, lo_allow_codec = False,
      lo_allow_talk_mode = True, lo_allow_priority = False, lo_allow_buttons = False,
      lo_allow_ifb = False, lo_allow_device_selection = True, lo_allow_local_api = False\<rparr>"

definition listen_only_lockout :: client_lockout_policy where
  "listen_only_lockout =
     \<lparr>lo_allow_channels = False, lo_allow_volumes = True, lo_allow_codec = False,
      lo_allow_talk_mode = False, lo_allow_priority = False, lo_allow_buttons = False,
      lo_allow_ifb = False, lo_allow_device_selection = True, lo_allow_local_api = False\<rparr>"

definition fully_locked_lockout :: client_lockout_policy where
  "fully_locked_lockout =
     \<lparr>lo_allow_channels = False, lo_allow_volumes = False, lo_allow_codec = False,
      lo_allow_talk_mode = False, lo_allow_priority = False, lo_allow_buttons = False,
      lo_allow_ifb = False, lo_allow_device_selection = False, lo_allow_local_api = False\<rparr>"

definition transmit_button ::
    "button_id \<Rightarrow> string \<Rightarrow> channel_id list \<Rightarrow> user_id list \<Rightarrow> bool \<Rightarrow> talk_button_config" where
  "transmit_button i label channels users duck =
     \<lparr>btn_id = i, btn_label = label, btn_color = None, btn_mode = Momentary,
      btn_actions = [Transmit channels users duck]\<rparr>"

definition director_template_client :: client_template_client_config where
  "director_template_client = default_template_client
     \<lparr>tc_name := ''Director'',
      tc_listen := [channel_program, channel_production_pl, channel_referee_pl,
                    channel_producer_cue],
      tc_tx := [channel_production_pl],
      tc_vol := [(channel_program, rnd binary32 (55 / 100)), (channel_production_pl, Fin 1),
                 (channel_referee_pl, rnd binary32 (8 / 10)),
                 (channel_producer_cue, rnd binary32 (8 / 10))],
      tc_codec := Pcm48, tc_talk_mode := Ptt,
      tc_priority_channels := [channel_production_pl, channel_director_ifb],
      tc_buttons := [transmit_button ''talent'' ''Talent'' [channel_director_ifb] [] True,
                     transmit_button ''producer'' ''Producer'' [channel_producer_cue] [] False,
                     transmit_button ''pa'' ''PA'' [channel_pa] [] False],
      tc_lockout := show_control_lockout\<rparr>"

definition producer_template_client :: client_template_client_config where
  "producer_template_client = default_template_client
     \<lparr>tc_name := ''Producer'',
      tc_listen := [channel_program, channel_production_pl, channel_producer_cue],
      tc_tx := [channel_production_pl],
      tc_vol := [(channel_program, Fin (1 / 2)), (channel_production_pl, Fin 1),
                 (channel_producer_cue, rnd binary32 (9 / 10))],
      tc_codec := Pcm48, tc_talk_mode := Ptt,
      tc_buttons := [transmit_button ''cue'' ''Cue'' [channel_producer_cue] [] True,
                     transmit_button ''director'' ''Director'' [] [user_director] False,
                     \<lparr>btn_id = ''alert-talent'', btn_label = ''Alert Talent'', btn_color = None,
                      btn_mode = Momentary,
                      btn_actions = [Alert [AlertUser user_talent] (Some ''Producer cue'')]\<rparr>],
      tc_lockout := show_control_lockout\<rparr>"

definition talent_template_client :: client_template_client_config where
  "talent_template_client = default_template_client
     \<lparr>tc_name := ''Talent'',
      tc_listen := [channel_program, channel_director_ifb, channel_producer_cue],
      tc_tx := [],
      tc_vol := [(channel_program, Fin 1), (channel_director_ifb, Fin 1),
                 (channel_producer_cue, rnd binary32 (9 / 10))],
      tc_codec := Pcm48, tc_talk_mode := Muted,
      tc_ifb := \<lparr>ifb_enabled = True, ifb_program = [channel_program],
                 ifb_interrupt = [channel_director_ifb, channel_producer_cue],
                 ifb_duck_gain = default_ifb_duck_gain\<rparr>,
      tc_stereo := \<lparr>sc_enabled = True,
                    sc_channel_pan = [(channel_program, rnd binary32 (- 6 / 10)),
                                      (channel_director_ifb, rnd binary32 (7 / 10)),
                                      (channel_producer_cue, rnd binary32 (7 / 10))]\<rparr>,
      tc_lockout := listen_only_lockout\<rparr>"

definition referee_template_client :: client_template_client_config where
  "referee_template_client = default_template_client
     \<lparr>tc_name := ''Ref'', tc_listen := [channel_referee_pl, channel_director_ifb],
      tc_tx := [channel_referee_pl], tc_codec := Pcm48, tc_talk_mode := Ptt,
      tc_buttons := [transmit_button ''director'' ''Director'' [] [user_director] False,
                     transmit_button ''pa'' ''PA'' [channel_pa] [] False,
                     \<lparr>btn_id = ''alert-director'', btn_label = ''Alert Director'',
                      btn_color = None, btn_mode = Momentary,
                      btn_actions = [Alert [AlertUser user_director] (Some ''Referee calling'')]\<rparr>],
      tc_lockout := route_locked_lockout\<rparr>"

definition program_bridge_template_client :: client_template_client_config where
  "program_bridge_template_client = default_template_client
     \<lparr>tc_role := RoleBridge, tc_name := ''Program Bridge'', tc_listen := [],
      tc_tx := [channel_program], tc_codec := Pcm48, tc_talk_mode := Open,
      tc_lockout := fully_locked_lockout\<rparr>"

definition pa_bridge_template_client :: client_template_client_config where
  "pa_bridge_template_client = default_template_client
     \<lparr>tc_role := RoleBridge, tc_name := ''PA Bridge'', tc_listen := [channel_pa], tc_tx := [],
      tc_codec := Pcm48, tc_talk_mode := Muted, tc_lockout := fully_locked_lockout\<rparr>"

definition default_workflow_templates :: "client_template_config list" where
  "default_workflow_templates =
     [\<lparr>ct_id = ''director-show-control'', ct_name = ''Director Show Control'',
       ct_client = director_template_client\<rparr>,
      \<lparr>ct_id = ''producer-cue'', ct_name = ''Producer Cue'', ct_client = producer_template_client\<rparr>,
      \<lparr>ct_id = ''talent-ifb-listen-only'', ct_name = ''Talent IFB Listen-Only'',
       ct_client = talent_template_client\<rparr>,
      \<lparr>ct_id = ''referee-field'', ct_name = ''Referee Field'', ct_client = referee_template_client\<rparr>,
      \<lparr>ct_id = ''program-bridge-input'', ct_name = ''Program Bridge Input'',
       ct_client = program_bridge_template_client\<rparr>,
      \<lparr>ct_id = ''pa-bridge-output'', ct_name = ''PA Bridge Output'',
       ct_client = pa_bridge_template_client\<rparr>]"

definition desired_from_template ::
    "user_id \<Rightarrow> string \<Rightarrow> client_template_client_config \<Rightarrow> desired_client_config" where
  "desired_from_template u name t = to_desired (t\<lparr>tc_name := name\<rparr>) u"

definition default_workflow_presets :: "preset_config list" where
  "default_workflow_presets =
     [\<lparr>pr_id = ''small-show-ifb'', pr_name = ''Small Show IFB'',
       pr_clients =
         [desired_from_template user_director ''Director'' director_template_client,
          desired_from_template user_producer ''Producer'' producer_template_client,
          desired_from_template user_talent ''Talent'' talent_template_client,
          desired_from_template user_ref_1 ''Ref 1'' referee_template_client,
          desired_from_template user_ref_2 ''Ref 2'' referee_template_client,
          desired_from_template user_program_bridge ''Program Bridge''
            program_bridge_template_client,
          desired_from_template user_pa_bridge ''PA Bridge'' pa_bridge_template_client]\<rparr>]"

section \<open>Replacing or adding in a sorted list\<close>

text \<open>\<open>iter_mut().find(p)\<close> and a change of the element found.\<close>

fun update_first :: "('a \<Rightarrow> bool) \<Rightarrow> ('a \<Rightarrow> 'a) \<Rightarrow> 'a list \<Rightarrow> 'a list" where
  "update_first p f [] = []"
| "update_first p f (x # xs) = (if p x then f x # xs else x # update_first p f xs)"

definition upsert_by :: "('a \<Rightarrow> 'k :: linorder) \<Rightarrow> 'a \<Rightarrow> 'a list \<Rightarrow> 'a list" where
  "upsert_by key x xs =
     sort_key key (if list_ex (\<lambda>y. key y = key x) xs
                   then update_first (\<lambda>y. key y = key x) (\<lambda>_. x) xs
                   else xs @ [x])"

definition upsert_desired_client ::
    "desired_client_config list \<Rightarrow> desired_client_config \<Rightarrow> desired_client_config list" where
  "upsert_desired_client clients desired = upsert_by dc_user_id desired clients"

definition upsert_preset :: "preset_config list \<Rightarrow> preset_config \<Rightarrow> preset_config list" where
  "upsert_preset presets preset = upsert_by pr_id preset presets"

definition upsert_template ::
    "client_template_config list \<Rightarrow> client_template_config \<Rightarrow> client_template_config list" where
  "upsert_template templates template = upsert_by ct_id template templates"

section \<open>Normalising the state\<close>

definition clean_desired_client :: "desired_client_config \<Rightarrow> desired_client_config" where
  "clean_desired_client c = c
     \<lparr>dc_client_uid := map_option (\<lambda>uid. normalize_client_uid uid (Some (dc_user_id c)))
                          (dc_client_uid c),
      dc_buttons := normalize_button_configs (dc_buttons c),
      dc_ifb := normalize_ifb_config (dc_ifb c),
      dc_talker_vol := normalize_talker_volumes (dc_talker_vol c) (dc_user_id c),
      dc_stereo := normalize_stereo_config (dc_stereo c),
      dc_esp32_audio := normalize_esp32_audio_config (dc_esp32_audio c),
      dc_priority_channels := sorted_unique_channels (dc_priority_channels c)\<rparr>"

definition normalize_preset_clients ::
    "desired_client_config list \<Rightarrow> desired_client_config list" where
  "normalize_preset_clients clients = sort_key dc_user_id (map clean_desired_client clients)"

definition normalize_template_client ::
    "client_template_client_config \<Rightarrow> client_template_client_config" where
  "normalize_template_client c = c
     \<lparr>tc_buttons := normalize_button_configs (tc_buttons c),
      tc_ifb := normalize_ifb_config (tc_ifb c),
      tc_talker_vol := normalize_template_talker_volumes (tc_talker_vol c),
      tc_stereo := normalize_stereo_config (tc_stereo c),
      tc_esp32_audio := normalize_esp32_audio_config (tc_esp32_audio c),
      tc_priority_channels := sorted_unique_channels (tc_priority_channels c)\<rparr>"

definition clean_channel :: "channel_config \<Rightarrow> channel_config" where
  "clean_channel c = c\<lparr>ch_name := trim (ch_name c)\<rparr>"

definition normalize_channels :: "channel_config list \<Rightarrow> channel_config list" where
  "normalize_channels channels =
     dedup_by (\<lambda>l r. ch_id l = ch_id r) (sort_key ch_id (map clean_channel channels))"

definition ensure_open_channel :: "channel_config list \<Rightarrow> channel_config list" where
  "ensure_open_channel channels =
     (if list_ex (\<lambda>c. ch_id c = channel_open) channels
      then update_first (\<lambda>c. ch_id c = channel_open)
             (\<lambda>c. if trim (ch_name c) = [] then c\<lparr>ch_name := ''open''\<rparr> else c) channels
      else channels @ [\<lparr>ch_id = channel_open, ch_name = ''open''\<rparr>])"

definition clean_device :: "device_enrollment \<Rightarrow> device_enrollment" where
  "clean_device d = d
     \<lparr>de_client_uid := normalize_client_uid (de_client_uid d) (Some (de_user_id d)),
      de_name := trim (de_name d),
      de_warnings := dedup_by (=) (sort (de_warnings d)),
      de_supported_codecs := sorted_codecs (normalize_supported_codecs (de_supported_codecs d)),
      de_advertised_buttons := normalize_button_capabilities (de_advertised_buttons d),
      de_capabilities := normalize_client_capabilities (de_capabilities d)\<rparr>"

definition device_kept :: "device_enrollment \<Rightarrow> bool" where
  "device_kept d = (de_user_id d > 0 \<and> trim (de_client_uid d) \<noteq> [])"

definition normalize_device_enrollments :: "device_enrollment list \<Rightarrow> device_enrollment list" where
  "normalize_device_enrollments devices =
     dedup_by (\<lambda>l r. de_client_uid l = de_client_uid r)
       (sort_key (\<lambda>d. (de_user_id d, de_client_uid d))
         (map clean_device (filter device_kept devices)))"

definition clean_preset :: "preset_config \<Rightarrow> preset_config" where
  "clean_preset p = \<lparr>pr_id = trim (pr_id p), pr_name = trim (pr_name p),
     pr_clients = normalize_preset_clients (pr_clients p)\<rparr>"

definition clean_template :: "client_template_config \<Rightarrow> client_template_config" where
  "clean_template t = \<lparr>ct_id = trim (ct_id t), ct_name = trim (ct_name t),
     ct_client = normalize_template_client (ct_client t)\<rparr>"

definition normalize_presets :: "preset_config list \<Rightarrow> preset_config list" where
  "normalize_presets presets =
     dedup_by (\<lambda>l r. pr_id l = pr_id r)
       (sort_key pr_id (filter (\<lambda>p. pr_id p \<noteq> []) (map clean_preset presets)))"

definition normalize_templates :: "client_template_config list \<Rightarrow> client_template_config list" where
  "normalize_templates templates =
     dedup_by (\<lambda>l r. ct_id l = ct_id r)
       (sort_key ct_id (filter (\<lambda>t. ct_id t \<noteq> []) (map clean_template templates)))"

definition normalize_admin_state :: "persisted_admin_state \<Rightarrow> persisted_admin_state" where
  "normalize_admin_state s =
     \<lparr>ad_channels = normalize_channels (ensure_open_channel
        (if ad_channels s = [] then default_workflow_channels else ad_channels s)),
      ad_devices = normalize_device_enrollments (ad_devices s),
      ad_clients = normalize_preset_clients (ad_clients s),
      ad_presets = normalize_presets
        (if ad_presets s = [] then default_workflow_presets else ad_presets s),
      ad_templates = normalize_templates
        (if ad_templates s = [] then default_workflow_templates else ad_templates s)\<rparr>"

definition default_admin_state :: persisted_admin_state where
  "default_admin_state = normalize_admin_state
     \<lparr>ad_channels = default_workflow_channels, ad_devices = [], ad_clients = [],
      ad_presets = default_workflow_presets, ad_templates = default_workflow_templates\<rparr>"

section \<open>Allocating user ids\<close>

definition used_user_ids :: "persisted_admin_state \<Rightarrow> user_id set" where
  "used_user_ids s = set (map de_user_id (ad_devices s) @ map dc_user_id (ad_clients s))"

definition next_available_user_id :: "persisted_admin_state \<Rightarrow> user_id option \<Rightarrow> user_id" where
  "next_available_user_id s requested =
     (let used = used_user_ids s;
          first_free = (case find (\<lambda>n. (of_nat n :: user_id) \<notin> used) [1..<65536] of
                          Some n \<Rightarrow> of_nat n | None \<Rightarrow> 65535)
      in case requested of
           Some u \<Rightarrow> if u > 0 \<and> u \<notin> used then u else first_free
         | None \<Rightarrow> first_free)"

section \<open>Lookup after insertion\<close>

lemma find_filter: "find p xs = (case filter p xs of [] \<Rightarrow> None | x # _ \<Rightarrow> Some x)"
  by (induction xs) (auto split: list.splits)

lemma find_sort_key [simp]: "find (\<lambda>y. key y = k) (sort_key key xs) = find (\<lambda>y. key y = k) xs"
  by (simp add: find_filter sort_key_stable)

lemma find_eq_Some: "find (\<lambda>y. key y = k) xs = Some x \<Longrightarrow> key x = k"
  by (induction xs) (auto split: if_splits)

lemma find_update_first:
  "list_ex (\<lambda>y. key y = key x) xs \<Longrightarrow>
     find (\<lambda>y. key y = k) (update_first (\<lambda>y. key y = key x) (\<lambda>_. x) xs) =
     (if k = key x then Some x else find (\<lambda>y. key y = k) xs)"
  by (induction xs) auto

lemma find_append_new:
  "\<not> list_ex (\<lambda>y. key y = key x) xs \<Longrightarrow>
     find (\<lambda>y. key y = k) (xs @ [x]) = (if k = key x then Some x else find (\<lambda>y. key y = k) xs)"
  by (induction xs) auto

lemma find_upsert_by:
  "find (\<lambda>y. key y = k) (upsert_by key x xs) = (if k = key x then Some x else find (\<lambda>y. key y = k) xs)"
  by (simp add: upsert_by_def find_update_first find_append_new)

lemma sorted_upsert_by [simp]: "sorted (map key (upsert_by key x xs))"
  by (simp add: upsert_by_def)

lemma map_update_first_key:
  "map key (update_first (\<lambda>y. key y = key x) (\<lambda>_. x) xs) = map key xs"
  by (induction xs) auto

lemma distinct_map_sort_key: "distinct (map key (sort_key key xs)) \<longleftrightarrow> distinct (map key xs)"
  by (simp add: distinct_map)

lemma distinct_upsert_by [simp]: "distinct (map key (upsert_by key x xs)) \<longleftrightarrow> distinct (map key xs)"
proof (cases "list_ex (\<lambda>y. key y = key x) xs")
  case False
  then have "key x \<notin> key ` set xs" unfolding list_ex_iff by (metis imageE)
  with False show ?thesis by (simp add: upsert_by_def distinct_map_sort_key)
qed (simp add: upsert_by_def distinct_map_sort_key map_update_first_key)

lemma set_update_first: "set (update_first p f xs) \<subseteq> set xs \<union> f ` set xs"
  by (induction xs) auto

lemma set_upsert_by: "set (upsert_by key x xs) \<subseteq> insert x (set xs)"
  using set_update_first [of "\<lambda>y. key y = key x" "\<lambda>_. x" xs]
  by (auto simp: upsert_by_def)

section \<open>Normal forms\<close>

lemma normalize_client_capabilities_idem [simp]:
  "normalize_client_capabilities (normalize_client_capabilities c) = normalize_client_capabilities c"
proof -
  let ?f = "\<lambda>a. to_ascii_lowercase (trim a)"
  let ?xs = "unique_first {} (filter (\<lambda>a. a \<noteq> []) (map ?f (cap_button_action_types c)))"
  have lower: "to_ascii_lowercase (to_ascii_lowercase a) = to_ascii_lowercase a" for a
    by (auto simp: to_ascii_lowercase_def Let_def)
  have ws: "is_whitespace (if 65 \<le> n \<and> n \<le> 90 then char_of (n + 32) else ch) = is_whitespace ch"
    if "n = (of_char ch :: nat)" for n ch
    using that by (auto simp: is_whitespace_def Let_def)
  have trim_lower: "trimmed (to_ascii_lowercase (trim a))" for a
    using trimmed_trim [of a] unfolding trimmed_def to_ascii_lowercase_def Let_def
    by (cases "trim a = []") (auto simp: hd_map last_map ws)
  have fixed: "?f a = a" if "a \<in> set ?xs" for a
    using that by (auto simp: set_unique_first trim_lower lower)
  have "map ?f ?xs = ?xs" by (rule map_idI) (rule fixed)
  moreover have "filter (\<lambda>a. a \<noteq> []) ?xs = ?xs"
    by (rule filter_True) (auto simp: set_unique_first)
  ultimately show ?thesis
    by (simp add: normalize_client_capabilities_def unique_first_id distinct_unique_first)
qed

definition uid_ok :: "client_uid \<Rightarrow> bool" where
  "uid_ok uid = (trimmed uid \<and> uid \<noteq> [])"

lemma uid_ok_norm [simp]: "uid_ok (normalize_client_uid uid r)"
  by (simp add: uid_ok_def normalize_client_uid_trimmed normalize_client_uid_nonempty)

lemma uid_ok_fixed [simp]: "uid_ok uid \<Longrightarrow> normalize_client_uid uid r = uid"
  by (simp add: uid_ok_def normalize_client_uid_id)

definition desired_ok :: "desired_client_config \<Rightarrow> bool" where
  "desired_ok c =
     ((case dc_client_uid c of None \<Rightarrow> True | Some uid \<Rightarrow> uid_ok uid) \<and>
      buttons_ok (dc_buttons c) \<and> ifb_ok (dc_ifb c) \<and>
      volumes_ok (dc_user_id c) (dc_talker_vol c) \<and> stereo_ok (dc_stereo c) \<and>
      esp32_ok (dc_esp32_audio c) \<and> sorted_wrt (<) (dc_priority_channels c))"

lemmas config_norm_simps =
  ifb_norm.norm_ok ifb_norm.norm_fixes talker_norm.norm_ok talker_norm.norm_fixes
  stereo_norm.norm_ok stereo_norm.norm_fixes esp32_norm.norm_ok esp32_norm.norm_fixes
  channels_norm.norm_ok channels_norm.norm_fixes

interpretation desired_norm: normaliser clean_desired_client desired_ok
  by unfold_locales
    (auto simp: desired_ok_def clean_desired_client_def config_norm_simps option.map_id0
      split: option.splits intro!: desired_client_config.equality)

lemma dc_user_id_clean [simp]: "dc_user_id (clean_desired_client c) = dc_user_id c"
  by (simp add: clean_desired_client_def)

definition desired_list_ok :: "desired_client_config list \<Rightarrow> bool" where
  "desired_list_ok cs = (list_all desired_ok cs \<and> sorted (map dc_user_id cs))"

interpretation preset_clients_norm: normaliser normalize_preset_clients desired_list_ok
proof
  show "desired_list_ok (normalize_preset_clients x)" for x
    by (auto simp: desired_list_ok_def normalize_preset_clients_def list_all_iff desired_norm.norm_ok)
  show "desired_list_ok x \<Longrightarrow> normalize_preset_clients x = x" for x
    by (simp add: desired_list_ok_def normalize_preset_clients_def desired_norm.map_fixes
        sort_key_id_if_sorted)
qed

definition template_client_ok :: "client_template_client_config \<Rightarrow> bool" where
  "template_client_ok c =
     (buttons_ok (tc_buttons c) \<and> ifb_ok (tc_ifb c) \<and>
      list_all (\<lambda>(t, g). in_range 0 4 g) (tc_talker_vol c) \<and> stereo_ok (tc_stereo c) \<and>
      esp32_ok (tc_esp32_audio c) \<and> sorted_wrt (<) (tc_priority_channels c))"

interpretation template_talker_norm:
  normaliser normalize_template_talker_volumes "list_all (\<lambda>(t, g). in_range 0 4 g)"
proof
  show "list_all (\<lambda>(t, g). in_range 0 4 g) (normalize_template_talker_volumes x)" for x
    by (auto simp: normalize_template_talker_volumes_def list_all_iff in_range_clamp)
  show "list_all (\<lambda>(t, g). in_range 0 4 g) x \<Longrightarrow> normalize_template_talker_volumes x = x" for x
  proof -
    assume ok: "list_all (\<lambda>(t, g). in_range 0 4 g) x"
    then have "filter (\<lambda>(t, g). is_finite g) x = x"
      by (intro filter_True) (auto simp: list_all_iff)
    moreover have "map (\<lambda>(t, g). (t, f_clamp g (Fin 0) (Fin 4))) x = x"
      using ok by (intro map_idI) (auto simp: list_all_iff)
    ultimately show "normalize_template_talker_volumes x = x"
      by (simp add: normalize_template_talker_volumes_def)
  qed
qed

interpretation template_norm: normaliser normalize_template_client template_client_ok
  by unfold_locales
    (auto simp: template_client_ok_def normalize_template_client_def config_norm_simps
      template_talker_norm.norm_ok template_talker_norm.norm_fixes
      intro!: client_template_client_config.equality)

definition channel_ok :: "channel_config \<Rightarrow> bool" where
  "channel_ok c = trimmed (ch_name c)"

interpretation channel_list_norm:
  keyed_normaliser clean_channel "\<lambda>_. True" ch_id ch_id channel_ok
  by unfold_locales (simp_all add: channel_ok_def clean_channel_def)

definition device_ok :: "device_enrollment \<Rightarrow> bool" where
  "device_ok d =
     (de_user_id d > 0 \<and> uid_ok (de_client_uid d) \<and> trimmed (de_name d) \<and>
      sorted_wrt (<) (de_warnings d) \<and>
      sorted_codecs (normalize_supported_codecs (de_supported_codecs d)) = de_supported_codecs d \<and>
      normalize_button_capabilities (de_advertised_buttons d) = de_advertised_buttons d \<and>
      normalize_client_capabilities (de_capabilities d) = de_capabilities d)"

lemma supported_codecs_idem [simp]:
  "sorted_codecs (normalize_supported_codecs (sorted_codecs (normalize_supported_codecs cs))) =
   sorted_codecs (normalize_supported_codecs cs)"
  by (rule arg_cong [where f = sorted_codecs]) (auto simp: normalize_supported_codecs_def)

lemma button_capabilities_idem [simp]:
  "normalize_button_capabilities (normalize_button_capabilities bs) = normalize_button_capabilities bs"
  unfolding normalize_button_capabilities_key by (rule capabilities_norm.idem)

interpretation device_norm:
  keyed_normaliser clean_device device_kept "\<lambda>d. (de_user_id d, de_client_uid d)" de_client_uid
    device_ok
  by unfold_locales
    (auto simp: device_ok_def clean_device_def device_kept_def uid_ok_def [symmetric],
     auto simp: uid_ok_def)

definition devices_ok :: "device_enrollment list \<Rightarrow> bool" where
  "devices_ok ds =
     (list_all device_ok ds \<and> sorted (map (\<lambda>d. (de_user_id d, de_client_uid d)) ds) \<and>
      successively (\<lambda>x y. de_client_uid y \<noteq> de_client_uid x) ds)"

interpretation device_list_norm: normaliser normalize_device_enrollments devices_ok
  unfolding normalize_device_enrollments_def [abs_def] devices_ok_def [abs_def]
  by (rule device_norm.normaliser_axioms)

definition preset_ok :: "preset_config \<Rightarrow> bool" where
  "preset_ok p = (uid_ok (pr_id p) \<and> trimmed (pr_name p) \<and> desired_list_ok (pr_clients p))"

interpretation preset_norm:
  keyed_normaliser clean_preset "\<lambda>p. trim (pr_id p) \<noteq> []" pr_id pr_id preset_ok
  by unfold_locales
    (auto simp: preset_ok_def clean_preset_def uid_ok_def preset_clients_norm.norm_ok
      preset_clients_norm.norm_fixes)

definition template_ok :: "client_template_config \<Rightarrow> bool" where
  "template_ok t = (uid_ok (ct_id t) \<and> trimmed (ct_name t) \<and> template_client_ok (ct_client t))"

interpretation template_list_norm:
  keyed_normaliser clean_template "\<lambda>t. trim (ct_id t) \<noteq> []" ct_id ct_id template_ok
  by unfold_locales
    (auto simp: template_ok_def clean_template_def uid_ok_def template_norm.norm_ok
      template_norm.norm_fixes)

lemma image_key_dedup_by [simp]: "k ` set (dedup_by (\<lambda>l r. k l = k r) xs) = k ` set xs"
proof (induction "\<lambda>l r. k l = k r" xs rule: dedup_by.induct)
  case (3 x y xs)
  then show ?case by (cases "k y = k x") (simp_all add: image_insert)
qed simp_all

lemma find_dedup_by [simp]:
  "find (\<lambda>y. k y = c) (dedup_by (\<lambda>l r. k l = k r) xs) = find (\<lambda>y. k y = c) xs"
proof (induction "\<lambda>l r. k l = k r" xs rule: dedup_by.induct)
  case (3 x y xs)
  then show ?case by (cases "k y = k x") simp_all
qed simp_all

lemma find_map_key: "(\<And>x. k (f x) = k x) \<Longrightarrow>
    find (\<lambda>y. k y = c) (map f xs) = map_option f (find (\<lambda>y. k y = c) xs)"
  by (induction xs) auto

lemma update_first_id: "find p xs = Some x \<Longrightarrow> f x = x \<Longrightarrow> update_first p f xs = xs"
  by (induction xs) (auto split: if_splits)

lemma image_update_first: "(\<And>x. k (f x) = k x) \<Longrightarrow> k ` set (update_first p f xs) = k ` set xs"
  by (induction xs) auto

lemma find_update_first_same:
  "(\<And>x. k (f x) = k x) \<Longrightarrow> find (\<lambda>y. k y = c) (update_first (\<lambda>y. k y = c) f xs) =
     map_option f (find (\<lambda>y. k y = c) xs)"
  by (induction xs) auto

definition channels_ok :: "channel_config list \<Rightarrow> bool" where
  "channels_ok cs = (list_all channel_ok cs \<and> sorted_wrt (<) (map ch_id cs))"

lemma strict_sorted_of_adj:
  "sorted (map k xs) \<Longrightarrow> successively (\<lambda>x y. k y \<noteq> k x) xs \<Longrightarrow> sorted_wrt (<) (map k xs)"
proof -
  assume s: "sorted (map k xs)" and adj: "successively (\<lambda>x y. k y \<noteq> k x) xs"
  have "distinct (map k xs)" by (rule sorted_distinct_adj_names [OF s adj])
  with s show ?thesis by (simp add: strict_sorted_iff)
qed

lemma list_ex_find: "find p xs = Some x \<Longrightarrow> list_ex p xs"
  by (induction xs) (auto split: if_splits)

lemma channels_ok_norm [simp]: "channels_ok (normalize_channels cs)"
  using channel_list_norm.norm_ok [of cs]
  by (simp add: channels_ok_def normalize_channels_def strict_sorted_of_adj)

lemma channels_ok_fixed [simp]: "channels_ok cs \<Longrightarrow> normalize_channels cs = cs"
proof -
  assume ok: "channels_ok cs"
  then have "sorted (map ch_id cs)" "distinct (map ch_id cs)"
    by (simp_all add: channels_ok_def strict_sorted_iff)
  then have "successively (\<lambda>x y. ch_id y \<noteq> ch_id x) cs"
    by (induction cs rule: induct_list012) auto
  with ok \<open>sorted (map ch_id cs)\<close> show ?thesis
    using channel_list_norm.norm_fixes [of cs] by (simp add: channels_ok_def normalize_channels_def)
qed

interpretation channels_norm': normaliser normalize_channels channels_ok
  by unfold_locales simp_all

lemma channel_ids_normalize [simp]: "ch_id ` set (normalize_channels cs) = ch_id ` set cs"
  by (simp add: normalize_channels_def image_image clean_channel_def)

lemma channel_ids_ensure [simp]:
  "ch_id ` set (ensure_open_channel cs) = insert channel_open (ch_id ` set cs)"
proof (cases "list_ex (\<lambda>c. ch_id c = channel_open) cs")
  case True
  then have "channel_open \<in> ch_id ` set cs" unfolding list_ex_iff by (metis imageI)
  with True show ?thesis by (simp add: ensure_open_channel_def image_update_first insert_absorb)
qed (simp add: ensure_open_channel_def)

lemma open_channel_named:
  "\<exists>c. find (\<lambda>c. ch_id c = channel_open) (normalize_channels (ensure_open_channel cs)) = Some c \<and>
     trim (ch_name c) \<noteq> []"
proof -
  have t: "trim ''open'' = ''open''" by (rule trim_id) (simp add: trimmed_def is_whitespace_def)
  have "\<exists>c. find (\<lambda>c. ch_id c = channel_open) (ensure_open_channel cs) = Some c \<and>
      trim (ch_name c) \<noteq> []"
  proof (cases "find (\<lambda>c. ch_id c = channel_open) cs")
    case None
    then have "\<not> list_ex (\<lambda>c. ch_id c = channel_open) cs"
      by (auto simp: find_None_iff list_ex_iff)
    with None show ?thesis
      by (simp add: ensure_open_channel_def find_append_new
          [of ch_id "\<lparr>ch_id = channel_open, ch_name = ''open''\<rparr>" cs channel_open, simplified] t)
  next
    case (Some c)
    then have "list_ex (\<lambda>c. ch_id c = channel_open) cs" by (rule list_ex_find)
    with Some show ?thesis
      by (simp add: ensure_open_channel_def find_update_first_same t)
  qed
  then show ?thesis
    by (auto simp: normalize_channels_def find_map_key clean_channel_def)
qed

lemma ensure_open_channel_fixed [simp]:
  "ensure_open_channel (normalize_channels (ensure_open_channel cs)) =
   normalize_channels (ensure_open_channel cs)"
proof -
  let ?n = "normalize_channels (ensure_open_channel cs)"
  obtain c where c: "find (\<lambda>c. ch_id c = channel_open) ?n = Some c" "trim (ch_name c) \<noteq> []"
    using open_channel_named by blast
  have "list_ex (\<lambda>c. ch_id c = channel_open) ?n" using c(1) by (rule list_ex_find)
  then show ?thesis
    unfolding ensure_open_channel_def [of ?n] using c(2) by (simp add: update_first_id [OF c(1)])
qed

definition presets_ok :: "preset_config list \<Rightarrow> bool" where
  "presets_ok ps = (list_all preset_ok ps \<and> sorted (map pr_id ps) \<and>
     successively (\<lambda>x y. pr_id y \<noteq> pr_id x) ps)"

definition templates_ok :: "client_template_config list \<Rightarrow> bool" where
  "templates_ok ts = (list_all template_ok ts \<and> sorted (map ct_id ts) \<and>
     successively (\<lambda>x y. ct_id y \<noteq> ct_id x) ts)"

lemma normalize_presets_keyed:
  "normalize_presets ps = dedup_by (\<lambda>l r. pr_id l = pr_id r)
     (sort_key pr_id (map clean_preset (filter (\<lambda>p. trim (pr_id p) \<noteq> []) ps)))"
  by (simp add: normalize_presets_def filter_map comp_def clean_preset_def)

lemma normalize_templates_keyed:
  "normalize_templates ts = dedup_by (\<lambda>l r. ct_id l = ct_id r)
     (sort_key ct_id (map clean_template (filter (\<lambda>t. trim (ct_id t) \<noteq> []) ts)))"
  by (simp add: normalize_templates_def filter_map comp_def clean_template_def)

interpretation presets_norm: normaliser normalize_presets presets_ok
  unfolding normalize_presets_keyed [abs_def] presets_ok_def [abs_def]
  by (rule preset_norm.normaliser_axioms)

interpretation templates_norm: normaliser normalize_templates templates_ok
  unfolding normalize_templates_keyed [abs_def] templates_ok_def [abs_def]
  by (rule template_list_norm.normaliser_axioms)

lemma preset_ids_normalize: "pr_id ` set (normalize_presets ps) = {i \<in> trim ` pr_id ` set ps. i \<noteq> []}"
  by (auto simp: normalize_presets_keyed image_image clean_preset_def)

lemma template_ids_normalize:
  "ct_id ` set (normalize_templates ts) = {i \<in> trim ` ct_id ` set ts. i \<noteq> []}"
  by (auto simp: normalize_templates_keyed image_image clean_template_def)

lemma default_presets_nonempty [simp]: "normalize_presets default_workflow_presets \<noteq> []"
proof -
  have "trim ''small-show-ifb'' = ''small-show-ifb''"
    by (rule trim_id) (simp add: trimmed_def is_whitespace_def)
  then have "pr_id ` set (normalize_presets default_workflow_presets) \<noteq> {}"
    by (simp add: preset_ids_normalize default_workflow_presets_def)
  then show ?thesis by auto
qed

lemma default_templates_nonempty [simp]: "normalize_templates default_workflow_templates \<noteq> []"
proof -
  have "trim ''producer-cue'' = ''producer-cue''"
    by (rule trim_id) (simp add: trimmed_def is_whitespace_def)
  then have "ct_id ` set (normalize_templates default_workflow_templates) \<noteq> {}"
    by (auto simp: template_ids_normalize default_workflow_templates_def)
  then show ?thesis by auto
qed

lemma channels_nonempty [simp]: "normalize_channels (ensure_open_channel cs) \<noteq> []"
proof
  assume "normalize_channels (ensure_open_channel cs) = []"
  then have "ch_id ` set (normalize_channels (ensure_open_channel cs)) = {}" by simp
  then show False by simp
qed

lemma unat_u16 [simp]: "n < 65536 \<Longrightarrow> unat (of_nat n :: 16 word) = n"
  by (simp add: unat_of_nat)

lemma unat_u16_less: "unat (w :: 16 word) < 65536"
  using unsigned_less [of w] by simp

lemma find_first_free:
  assumes "\<not> UNIV - {0} \<subseteq> used"
  obtains n where "find (\<lambda>n. (of_nat n :: user_id) \<notin> used) [1..<65536] = Some n"
    "0 < n" "n < 65536" "of_nat n \<notin> used" "{1..<of_nat n} \<subseteq> used"
proof -
  obtain w where w: "w \<noteq> 0" "w \<notin> used" using assms by auto
  then have "unat w \<in> set [1..<65536]"
    using unat_u16_less [of w] unat_gt_0 [of w] by simp
  moreover have "of_nat (unat w) \<notin> used" using w by simp
  ultimately have "find (\<lambda>n. (of_nat n :: user_id) \<notin> used) [1..<65536] \<noteq> None"
    unfolding find_None_iff by blast
  then obtain n where n: "find (\<lambda>n. (of_nat n :: user_id) \<notin> used) [1..<65536] = Some n" by blast
  then obtain i where i: "i < length [1..<65536]" "of_nat ([1..<65536] ! i) \<notin> used"
      "n = [1..<65536] ! i" "\<forall>j<i. (of_nat ([1..<65536] ! j) :: user_id) \<in> used"
    unfolding find_Some_iff by auto
  have "v \<in> used" if v: "1 \<le> v" "v < of_nat n" for v :: user_id
  proof -
    have "n < 65536" using i(1,3) by auto
    then have "unat v < n" using v(2) by (simp add: word_less_nat_alt)
    moreover have "0 < unat v" using v(1) by (simp add: word_le_nat_alt)
    ultimately have "unat v < n" "0 < unat v" by simp_all
    then have "unat v - 1 < i" "[1..<65536] ! (unat v - 1) = unat v"
      using i(1,3) by (auto simp del: upt_rec_numeral)
    with i(4) have "(of_nat (unat v) :: user_id) \<in> used" by metis
    then show ?thesis by simp
  qed
  then have "{1..<of_nat n} \<subseteq> used" by auto
  with n i that show ?thesis by auto
qed

section \<open>Properties\<close>

text \<open>What every load of the state file and every default start leaves: channels with
  trimmed names and strictly increasing ids that include the open channel 0, devices with
  positive user ids, trimmed uids and normal capabilities, desired configurations, presets
  and templates in normal form and in order. Loading the result again changes nothing,
  except where all presets (or all templates) had blank ids: these are dropped, and the
  next load finds none and restores the defaults.\<close>

lemma normalize_admin_state_normal_form:
  "let n = normalize_admin_state s in
     channels_ok (ad_channels n) \<and> channel_open \<in> ch_id ` set (ad_channels n) \<and>
     devices_ok (ad_devices n) \<and> desired_list_ok (ad_clients n) \<and>
     presets_ok (ad_presets n) \<and> templates_ok (ad_templates n) \<and>
     (normalize_admin_state n = n \<longleftrightarrow> ad_presets n \<noteq> [] \<and> ad_templates n \<noteq> [])"
proof -
  define n where "n = normalize_admin_state s"
  have f: "ad_channels (normalize_admin_state n) = ad_channels n"
    "ad_devices (normalize_admin_state n) = ad_devices n"
    "ad_clients (normalize_admin_state n) = ad_clients n"
    by (simp_all add: n_def normalize_admin_state_def device_list_norm.idem
        preset_clients_norm.idem)
  have p: "ad_presets (normalize_admin_state n) = ad_presets n \<longleftrightarrow> ad_presets n \<noteq> []"
    by (simp add: n_def normalize_admin_state_def presets_norm.idem)
  have t: "ad_templates (normalize_admin_state n) = ad_templates n \<longleftrightarrow> ad_templates n \<noteq> []"
    by (simp add: n_def normalize_admin_state_def templates_norm.idem)
  have "normalize_admin_state n = n \<longleftrightarrow> ad_presets n \<noteq> [] \<and> ad_templates n \<noteq> []"
    using f p t by (auto intro: persisted_admin_state.equality)
  then show ?thesis
    unfolding n_def Let_def
    by (simp add: normalize_admin_state_def device_list_norm.norm_ok preset_clients_norm.norm_ok
        presets_norm.norm_ok templates_norm.norm_ok)
qed

text \<open>A new device gets an id no device and no stored client has: the one it asked for
  when that is free and not 0, else the smallest free one. Only when all 65535 ids are
  taken is the result the id 65535 of another device.\<close>

lemma next_available_user_id_free:
  "let u = next_available_user_id s r; used = used_user_ids s in
     if UNIV - {0} \<subseteq> used then u = 65535
     else u \<notin> insert 0 used \<and> (r = Some u \<or> {1..<u} \<subseteq> used) \<and>
          (case r of None \<Rightarrow> True | Some v \<Rightarrow> v \<in> insert 0 used \<or> u = v)"
proof (cases "UNIV - {0} \<subseteq> used_user_ids s")
  case True
  have "of_nat n \<in> used_user_ids s" if "n \<in> set [1..<65536]" for n
    using that True unat_u16 [of n] unat_eq_0 [of "of_nat n :: user_id"] by auto
  then have "find (\<lambda>n. (of_nat n :: user_id) \<notin> used_user_ids s) [1..<65536] = None"
    unfolding find_None_iff by blast
  moreover have "(v > 0 \<and> v \<notin> used_user_ids s) = False" for v
    using True by auto
  ultimately show ?thesis
    using True by (cases r) (simp_all only: next_available_user_id_def Let_def option.case if_True if_False)
next
  case False
  then obtain n where n: "find (\<lambda>n. (of_nat n :: user_id) \<notin> used_user_ids s) [1..<65536] = Some n"
    "0 < n" "n < 65536" "of_nat n \<notin> used_user_ids s" "{1..<of_nat n} \<subseteq> used_user_ids s"
    by (rule find_first_free)
  then have "(of_nat n :: user_id) \<noteq> 0"
    by (simp add: unat_eq_0 [symmetric])
  with n False show ?thesis
    by (auto simp: next_available_user_id_def Let_def word_neq_0_conv split: option.splits)
qed

end
