(* ===== verification/Audio_Queues.thy ===== *)
theory Audio_Queues
  imports Interfaces Protocol
begin

text \<open>
  The audio queues of \<open>server/src/lib.rs\<close>: the bounded queue of decoded frames each sender
  has (\<open>SourceQueue\<close>, which keeps the newest six) and the virtual sources that play
  announcements frame by frame (\<open>VirtualAudioSource\<close>).
\<close>

section \<open>Data\<close>

definition max_source_queue_frames :: nat where
  "max_source_queue_frames = 6"

record queued_frame =
  qf_target :: audio_target
  qf_samples :: "i16 list"
  qf_priority :: bool
  qf_duck :: bool

record source_queue =
  sq_frames :: "queued_frame list"
  sq_last_seen :: instant

record active_source_frame =
  af_user_id :: user_id
  af_target :: audio_target
  af_samples :: "i16 list"
  af_priority :: bool
  af_duck :: bool

record virtual_audio_source =
  vs_user_id :: user_id
  vs_target :: audio_target
  vs_frames :: "i16 list list"
  vs_frame_index :: nat
  vs_priority :: bool
  vs_duck :: bool

section \<open>Source queues\<close>

definition source_queue_new :: "instant \<Rightarrow> source_queue" where
  "source_queue_new now = \<lparr>sq_frames = [], sq_last_seen = now\<rparr>"

text \<open>The result says whether the oldest frame was dropped to make room.\<close>

definition push_with_options ::
    "instant \<Rightarrow> audio_target \<Rightarrow> i16 list \<Rightarrow> bool \<Rightarrow> bool \<Rightarrow> source_queue \<Rightarrow> source_queue \<times> bool" where
  "push_with_options now target samples priority duck q =
     (let dropped = (length (sq_frames q) = max_source_queue_frames);
          kept = (if dropped then tl (sq_frames q) else sq_frames q)
      in (\<lparr>sq_frames = kept @ [\<lparr>qf_target = target, qf_samples = samples,
                                qf_priority = priority, qf_duck = duck\<rparr>],
           sq_last_seen = now\<rparr>, dropped))"

definition source_push ::
    "instant \<Rightarrow> audio_target \<Rightarrow> i16 list \<Rightarrow> source_queue \<Rightarrow> source_queue \<times> bool" where
  "source_push now target samples q = push_with_options now target samples False False q"

definition source_pop :: "source_queue \<Rightarrow> queued_frame option \<times> source_queue" where
  "source_pop q = (case sq_frames q of [] \<Rightarrow> (None, q) | f # fs \<Rightarrow> (Some f, q\<lparr>sq_frames := fs\<rparr>))"

lemma source_pop_frames:
  "sq_frames q = [] \<Longrightarrow> source_pop q = (None, q)"
  "sq_frames q = f # fs \<Longrightarrow> source_pop q = (Some f, q\<lparr>sq_frames := fs\<rparr>)"
  by (simp_all add: source_pop_def)

section \<open>Virtual sources\<close>

definition virtual_source_new ::
    "user_id \<Rightarrow> audio_target \<Rightarrow> i16 list list \<Rightarrow> bool \<Rightarrow> bool \<Rightarrow> virtual_audio_source" where
  "virtual_source_new u target frames priority duck =
     \<lparr>vs_user_id = u, vs_target = target, vs_frames = frames, vs_frame_index = 0,
      vs_priority = priority, vs_duck = duck\<rparr>"

definition next_frame ::
    "virtual_audio_source \<Rightarrow> active_source_frame option \<times> virtual_audio_source" where
  "next_frame v =
     (if vs_frame_index v < length (vs_frames v)
      then (Some \<lparr>af_user_id = vs_user_id v, af_target = vs_target v,
                  af_samples = vs_frames v ! vs_frame_index v,
                  af_priority = vs_priority v, af_duck = vs_duck v\<rparr>,
            v\<lparr>vs_frame_index := vs_frame_index v + 1\<rparr>)
      else (None, v))"

definition is_finished :: "virtual_audio_source \<Rightarrow> bool" where
  "is_finished v = (vs_frame_index v \<ge> length (vs_frames v))"

section \<open>The source queue as a bounded queue\<close>

definition source_wf :: "source_queue \<Rightarrow> bool" where
  "source_wf q = (length (sq_frames q) \<le> max_source_queue_frames)"

text \<open>Several frames pushed one after the other.\<close>

definition source_pushes :: "instant \<Rightarrow> queued_frame list \<Rightarrow> source_queue \<Rightarrow> source_queue" where
  "source_pushes now fs q =
     fold (\<lambda>f q. fst (push_with_options now (qf_target f) (qf_samples f) (qf_priority f)
                        (qf_duck f) q)) fs q"

lemma push_one:
  assumes "source_wf q"
  shows "sq_frames (fst (push_with_options now (qf_target f) (qf_samples f) (qf_priority f) (qf_duck f) q)) =
           last_n max_source_queue_frames (sq_frames q @ [f])"
    and "source_wf (fst (push_with_options now t s p d q))"
  using assms
  by (auto simp: push_with_options_def Let_def source_wf_def last_n_def max_source_queue_frames_def
      drop_Suc)

lemma push_dropped:
  "source_wf q \<Longrightarrow> snd (push_with_options now t s p d q) \<longleftrightarrow> length (sq_frames q) = max_source_queue_frames"
  by (simp add: push_with_options_def Let_def)

lemma pushes_contents_wf:
  "source_wf q \<Longrightarrow> sq_frames (source_pushes now fs q) = last_n max_source_queue_frames (sq_frames q @ fs)
     \<and> source_wf (source_pushes now fs q)"
proof (induction fs arbitrary: q)
  case Nil
  then show ?case by (simp add: source_pushes_def source_wf_def)
next
  case (Cons f fs)
  let ?q = "fst (push_with_options now (qf_target f) (qf_samples f) (qf_priority f) (qf_duck f) q)"
  have "source_wf ?q" using Cons.prems by (rule push_one)
  from Cons.IH [OF this] show ?case
    using push_one(1) [OF Cons.prems] by (simp add: source_pushes_def last_n_append)
qed

interpretation sq: bounded_fifo "source_pushes now" source_pop sq_frames
  "\<lambda>_. max_source_queue_frames" source_wf "\<lambda>_. True" "\<lambda>_. True" for now
  by unfold_locales
    (auto simp: pushes_contents_wf source_pop_def source_wf_def split: list.splits)

section \<open>Playing a virtual source\<close>

fun play :: "nat \<Rightarrow> virtual_audio_source \<Rightarrow> i16 list list \<times> virtual_audio_source" where
  "play 0 v = ([], v)"
| "play (Suc n) v =
     (case next_frame v of (None, v') \<Rightarrow> ([], v')
      | (Some f, v') \<Rightarrow> (let (fs, v'') = play n v' in (af_samples f # fs, v'')))"

lemma play_takes:
  "vs_frame_index v \<le> length (vs_frames v) \<Longrightarrow>
     fst (play n v) = take n (drop (vs_frame_index v) (vs_frames v)) \<and>
     snd (play n v) = v\<lparr>vs_frame_index := min (length (vs_frames v)) (vs_frame_index v + n)\<rparr>"
proof (induction n arbitrary: v)
  case (Suc n)
  show ?case
  proof (cases "vs_frame_index v < length (vs_frames v)")
    case True
    let ?v = "v\<lparr>vs_frame_index := vs_frame_index v + 1\<rparr>"
    have "play n ?v = (fst (play n ?v), snd (play n ?v))" by simp
    with True Suc.IH [of ?v] show ?thesis
      by (simp add: next_frame_def Cons_nth_drop_Suc [symmetric] del: prod.collapse
          split: prod.splits)
  qed (use Suc.prems in \<open>simp add: next_frame_def\<close>)
qed simp

section \<open>Properties\<close>

text \<open>A sender's queue is first in, first out and keeps the newest six frames: after any
  frames are pushed, popping yields the last six of them (with what was queued before), in
  order, and then nothing.\<close>

lemma source_queue_keeps_newest:
  "sq.drain n (source_pushes now fs (source_queue_new t)) =
     (let kept = last_n max_source_queue_frames fs
      in (take n kept, (source_pushes now fs (source_queue_new t))\<lparr>sq_frames := drop n kept\<rparr>))"
proof -
  let ?q = "source_pushes now fs (source_queue_new t)"
  have c: "sq_frames ?q = last_n max_source_queue_frames fs"
    by (simp add: pushes_contents_wf source_wf_def source_queue_new_def)
  have "sq.drain n q = (take n (sq_frames q), q\<lparr>sq_frames := drop n (sq_frames q)\<rparr>)" for q
  proof (induction n arbitrary: q)
    case (Suc n)
    have "q\<lparr>sq_frames := []\<rparr> = q" if "sq_frames q = []"
      using that by (cases q) simp
    with Suc show ?case by (cases "sq_frames q") (simp_all add: source_pop_frames)
  qed simp
  then show ?thesis by (simp add: c Let_def)
qed

text \<open>An announcement is played exactly once: the frames of \<open>n\<close> mixer ticks are the first
  \<open>n\<close> frames of the source in order, and the source reports that it is finished exactly
  when it has no next frame, which is after as many ticks as it has frames.\<close>

lemma virtual_source_plays_once:
  "fst (play n (virtual_source_new u target frames p d)) = take n frames \<and>
   (is_finished (snd (play n (virtual_source_new u target frames p d))) \<longleftrightarrow> length frames \<le> n) \<and>
   (is_finished v \<longleftrightarrow> fst (next_frame v) = None)"
  using play_takes [of "virtual_source_new u target frames p d" n]
  by (auto simp: virtual_source_new_def is_finished_def next_frame_def)

end
