(* ===== verification/Audio_Levels.thy ===== *)
theory Audio_Levels
  imports Protocol Float32
begin

text \<open>
  Level measurement and the output limiter of \<open>server/src/lib.rs\<close> (\<open>measure_i16\<close>,
  \<open>measure_f32\<close>, \<open>limit_frame\<close>, \<open>limit_stereo_frame\<close>), in \<open>f32\<close> and \<open>f64\<close> arithmetic with
  every rounding. The decibel value of the limiter's meter is computed with \<open>f32::log10\<close>,
  whose accuracy Rust leaves open: it is an argument of the limiters.
\<close>

section \<open>Square root\<close>

text \<open>The integer square root, rounded down, digit by digit in base 4.\<close>

function isqrt :: "nat \<Rightarrow> nat" where
  "isqrt n = (if n = 0 then 0
              else let r = 2 * isqrt (n div 4) in if (r + 1) * (r + 1) \<le> n then r + 1 else r)"
  by auto
termination by (relation "measure (\<lambda>n. n)") auto

declare isqrt.simps [simp del]

text \<open>IEEE square root is correctly rounded: \<open>s\<close> quanta with \<open>s\<close> the square root of
  \<open>y = x / q\<^sup>2\<close>, rounded down, is rounded up when \<open>y\<close> exceeds \<open>(s + 1 / 2)\<^sup>2\<close>. A tie cannot
  occur at a representable \<open>x\<close>; it would go to the even neighbour.\<close>

fun f_sqrt :: "format \<Rightarrow> float \<Rightarrow> float" where
  "f_sqrt fmt (Fin x) =
     (if x < 0 then NaN else if x = 0 then Fin 0
      else let q = pow2 (max (ilog2 x div 2) (emin fmt) - (int (precision fmt) - 1));
               y = x / (q * q);
               s = isqrt (nat \<lfloor>y\<rfloor>);
               mid = (of_nat s + 1 / 2) * (of_nat s + 1 / 2);
               r = (if y < mid \<or> (y = mid \<and> even s) then s else s + 1)
           in Fin (of_nat r * q))"
| "f_sqrt fmt PInf = PInf"
| "f_sqrt fmt _ = NaN"

section \<open>Meters\<close>

record frame_meter =
  fm_peak :: f32
  fm_rms :: f32

definition i16_to_f32 :: "i16 \<Rightarrow> f32" where
  "i16_to_f32 s = f_of_int binary32 (sint s)"

definition i16_max_f32 :: f32 where
  "i16_max_f32 = Fin 32767"

definition meter_step :: "f32 \<Rightarrow> f32 \<times> f64 \<Rightarrow> f32 \<times> f64" where
  "meter_step normalized = (\<lambda>(peak, sum_squares).
     (f_max peak normalized,
      f_add binary64 sum_squares (f_mul binary32 normalized normalized)))"

definition meter_of :: "f32 list \<Rightarrow> frame_meter" where
  "meter_of normalized =
     (let (peak, sum_squares) = fold meter_step normalized (Fin 0, Fin 0)
      in \<lparr>fm_peak = peak,
          fm_rms = f_cast binary32 (f_sqrt binary64
            (f_div binary64 sum_squares (f_of_int binary64 (int (length normalized)))))\<rparr>)"

definition normalize_sample :: "i16 \<Rightarrow> f32" where
  "normalize_sample s = f_min (f_abs (f_div binary32 (i16_to_f32 s) i16_max_f32)) (Fin 1)"

definition measure_i16 :: "i16 list \<Rightarrow> frame_meter" where
  "measure_i16 samples =
     (if samples = [] then \<lparr>fm_peak = Fin 0, fm_rms = Fin 0\<rparr>
      else meter_of (map normalize_sample samples))"

definition measure_f32 :: "f32 list \<Rightarrow> frame_meter" where
  "measure_f32 samples =
     (if samples = [] then \<lparr>fm_peak = Fin 0, fm_rms = Fin 0\<rparr>
      else meter_of (map f_abs samples))"

section \<open>The limiter\<close>

definition limiter_threshold :: f32 where
  "limiter_threshold = rnd binary32 (95 / 100)"

record output_meter_status =
  om_peak :: f32
  om_rms :: f32
  om_limiter_gain :: f32
  om_limiter_reduction_db :: f32
  om_limiter_events :: nat

definition default_output_meter_status :: output_meter_status where
  "default_output_meter_status =
     \<lparr>om_peak = Fin 0, om_rms = Fin 0, om_limiter_gain = Fin 0, om_limiter_reduction_db = Fin 0,
      om_limiter_events = 0\<rparr>"

definition limiter_gain_for :: "f32 \<Rightarrow> f32" where
  "limiter_gain_for peak =
     (if f_gt peak limiter_threshold then f_div binary32 limiter_threshold peak else Fin 1)"

text \<open>\<open>as i16\<close> of a rounded and clamped sample.\<close>

definition to_i16 :: "f32 \<Rightarrow> i16" where
  "to_i16 v = word_of_int (f_as_int (- 32768) 32767 v)"

definition limit_sample :: "f32 \<Rightarrow> f32 \<Rightarrow> i16" where
  "limit_sample gain s =
     to_i16 (f_clamp (f_round (f_mul binary32 (f_mul binary32 s gain) i16_max_f32))
       (Fin (- 32768)) (Fin 32767))"

definition limiter_status ::
    "(f32 \<Rightarrow> f32) \<Rightarrow> f32 \<Rightarrow> i16 list \<Rightarrow> output_meter_status" where
  "limiter_status log10 gain limited =
     (let output = measure_i16 limited
      in \<lparr>om_peak = fm_peak output, om_rms = fm_rms output, om_limiter_gain = gain,
          om_limiter_reduction_db =
            (if f_lt gain (Fin 1) then f_mul binary32 (Fin (- 20)) (log10 gain) else Fin 0),
          om_limiter_events = 0\<rparr>)"

definition limit_frame ::
    "(f32 \<Rightarrow> f32) \<Rightarrow> f32 list \<Rightarrow> i16 list \<times> output_meter_status \<times> bool" where
  "limit_frame log10 samples =
     (let gain = limiter_gain_for (fm_peak (measure_f32 samples));
          limited = map (limit_sample gain) samples
      in (limited, limiter_status log10 gain limited, f_lt gain (Fin 1)))"

fun interleave :: "'a list \<Rightarrow> 'a list \<Rightarrow> 'a list" where
  "interleave (l # ls) (r # rs) = l # r # interleave ls rs"
| "interleave _ _ = []"

definition limit_stereo_frame ::
    "(f32 \<Rightarrow> f32) \<Rightarrow> f32 list \<Rightarrow> f32 list \<Rightarrow> i16 list \<times> output_meter_status \<times> bool" where
  "limit_stereo_frame log10 left right =
     (let peak = fold (\<lambda>s m. f_max m s) (map f_abs (left @ right)) (Fin 0);
          gain = limiter_gain_for peak;
          limited = interleave (map (limit_sample gain) left) (map (limit_sample gain) right)
      in (limited, limiter_status log10 gain limited, f_lt gain (Fin 1)))"

section \<open>Rounding errors\<close>

lemma pow2_add: "pow2 (a + b) = pow2 a * pow2 b"
proof -
  have p: "pow2 x = 2 powi x" for x
    by (simp add: pow2_def power_int_def power_one_over inverse_eq_divide)
  show ?thesis by (simp add: p power_int_add)
qed

lemma pow2_mono: "a \<le> b \<Longrightarrow> pow2 a \<le> pow2 b"
proof -
  assume "a \<le> b"
  then have "pow2 b = pow2 a * pow2 (b - a)" using pow2_add [of a "b - a"] by simp
  moreover have "1 \<le> pow2 (b - a)" using \<open>a \<le> b\<close> by (simp add: pow2_def)
  ultimately show ?thesis using pow2_pos [of a] by simp
qed

lemma nat_minus_1: "nat (int n - 1) = n - 1"
  by simp

lemma pow2_ilog2: "0 < x \<Longrightarrow> pow2 (ilog2 x) \<le> x"
proof -
  assume x: "0 < x"
  obtain a b where ab: "quotient_of x = (a, b)" by fastforce
  then have b: "0 < b" and x_eq: "x = of_int a / of_int b"
    using quotient_of_denom_pos quotient_of_div by blast+
  with x have a: "0 < a" by (simp add: zero_less_divide_iff)
  let ?fa = "floorlog 2 (nat a)" and ?fb = "floorlog 2 (nat b)"
  have "2 ^ (?fa - 1) \<le> nat a" "nat b < 2 ^ ?fb" "?fa > 0"
    using a b floorlog_bounds [of "nat a" 2] floorlog_bounds [of "nat b" 2]
      floorlog_eq_zero_iff [of 2 "nat a"]
    by auto
  then have "(2 :: int) ^ (?fa - 1) \<le> a" "b \<le> 2 ^ ?fb"
    using a b by (simp_all add: le_nat_iff nat_less_iff)
  then have ab': "(2 :: rat) ^ (?fa - 1) \<le> of_int a" "of_int b \<le> (2 :: rat) ^ ?fb"
    by (metis of_int_le_iff of_int_numeral of_int_power)+
  have "pow2 (int ?fa - int ?fb - 1) = 2 ^ (?fa - 1) / 2 ^ ?fb"
    using pow2_add [of "int (?fa - 1)" "- int ?fb"] \<open>?fa > 0\<close>
    by (simp add: pow2_def of_nat_diff algebra_simps nat_minus_1)
  also have "\<dots> \<le> x"
    unfolding x_eq using ab' a b by (intro frac_le) simp_all
  finally show ?thesis
    by (simp add: ilog2_def ab Let_def)
qed

lemma quantum_bound:
  "x \<noteq> 0 \<Longrightarrow> quantum binary32 x / 2 \<le> (\<bar>x\<bar> + pow2 (- 126)) / 2 ^ 24"
proof -
  assume "x \<noteq> 0"
  then have l: "pow2 (ilog2 \<bar>x\<bar>) \<le> \<bar>x\<bar>" by (simp add: pow2_ilog2)
  have "quantum binary32 x = pow2 (max (ilog2 \<bar>x\<bar>) (- 126)) * pow2 (- 23)"
    using pow2_add [of "max (ilog2 \<bar>x\<bar>) (- 126)" "- 23"] by (simp add: quantum_def binary32_def)
  moreover have "pow2 (max (ilog2 \<bar>x\<bar>) (- 126)) \<le> \<bar>x\<bar> + pow2 (- 126)"
    using l by (auto simp: max_def add_increasing add_increasing2 pow2_pos less_imp_le)
  moreover have "pow2 (- 23) = 1 / 2 ^ 23" by (simp add: pow2_def)
  ultimately show ?thesis by simp
qed

lemma rnd_near:
  assumes "\<bar>x\<bar> \<le> 2 ^ 100"
  obtains y where "rnd binary32 x = Fin y" "\<bar>y - x\<bar> \<le> (\<bar>x\<bar> + pow2 (- 126)) / 2 ^ 24"
proof (cases "x = 0")
  case True
  then show ?thesis using that [of 0] by (simp add: rnd_def pow2_pos less_imp_le)
next
  case False
  let ?q = "quantum binary32 x"
  let ?y = "of_int (round_half_even (x / ?q)) * ?q"
  have q: "0 < ?q" by (simp add: quantum_def)
  have "?y - x = (of_int (round_half_even (x / ?q)) - x / ?q) * ?q"
    using q by (simp add: algebra_simps)
  then have "\<bar>?y - x\<bar> = \<bar>of_int (round_half_even (x / ?q)) - x / ?q\<bar> * ?q"
    using q by (simp add: abs_mult)
  also have "\<dots> \<le> 1 / 2 * ?q"
    using round_half_even_err [of "x / ?q"] q by (intro mult_right_mono) auto
  also have "\<dots> \<le> (\<bar>x\<bar> + pow2 (- 126)) / 2 ^ 24" using quantum_bound [OF False] by simp
  finally have e: "\<bar>?y - x\<bar> \<le> (\<bar>x\<bar> + pow2 (- 126)) / 2 ^ 24" .
  have "pow2 (- 126) \<le> 1" by (simp add: pow2_def)
  have "\<bar>?y\<bar> \<le> \<bar>?y - x\<bar> + \<bar>x\<bar>" by linarith
  also have "\<dots> \<le> (2 ^ 100 + 1) / 2 ^ 24 + 2 ^ 100"
    using e assms \<open>pow2 (- 126) \<le> 1\<close> by (intro add_mono order_trans [OF e] divide_right_mono) auto
  also have "\<dots> < 2 ^ 128" by simp
  finally have "\<bar>?y\<bar> < 2 ^ 128" .
  then have "\<not> \<bar>?y\<bar> \<ge> pow2 (emax binary32 + 1)" by (simp add: pow2_def binary32_def)
  then have "rnd binary32 x = Fin ?y" using False by (simp add: rnd_def Let_def)
  with e that show ?thesis by blast
qed

lemma limiter_threshold_value: "limiter_threshold = Fin (15938355 / 16777216)"
  by code_simp


section \<open>The peak bounds every sample\<close>

definition f32_value :: "f32 \<Rightarrow> bool" where
  "f32_value v = (case v of Fin x \<Rightarrow> \<bar>x\<bar> < 2 ^ 128 | _ \<Rightarrow> True)"

lemma le_fold_max:
  "a \<noteq> NaN \<Longrightarrow> fold (\<lambda>s m. f_max m s) xs a \<noteq> NaN \<and>
     (\<forall>x \<in> set (a # xs). x = NaN \<or> \<not> f_lt (fold (\<lambda>s m. f_max m s) xs a) x)"
proof (induction xs arbitrary: a)
  case Nil
  then show ?case by (cases a) auto
next
  case (Cons y ys)
  have n: "f_max a y \<noteq> NaN" using Cons.prems by (simp add: f_max_def)
  have trans: "\<not> f_lt m x" if "\<not> f_lt m k" "\<not> f_lt k x" "k \<noteq> NaN" for m k x
    using that by (cases m; cases k; cases x) auto
  have "x = NaN \<or> \<not> f_lt (f_max a y) x" if "x = a \<or> x = y" for x
    using that Cons.prems by (cases a; cases y; cases x) (auto simp: f_max_def)
  with Cons.IH [OF n] n trans show ?case by (auto; metis)
qed

lemma fst_fold_meter: "fst (fold meter_step xs (p, q)) = fold (\<lambda>s m. f_max m s) xs p"
  by (induction xs arbitrary: p q) (simp_all add: meter_step_def)

lemma peak_measure_f32:
  "fm_peak (measure_f32 xs) = fold (\<lambda>s m. f_max m s) (map f_abs xs) (Fin 0)"
  using fst_fold_meter [of "map f_abs xs" "Fin 0" "Fin 0"]
  by (cases "fold meter_step (map f_abs xs) (Fin 0, Fin 0)") (simp add: measure_f32_def meter_of_def)


lemma f32_gain:
  assumes p: "15938355 / 16777216 < p" "p < 2 ^ 128"
  obtains g where "f_div binary32 limiter_threshold (Fin p) = Fin g"
    "\<bar>g\<bar> * p \<le> 1 - 1 / 20 + 1 / 2 ^ 20"
proof -
  let ?t = "15938355 / 16777216 :: rat"
  have t: "0 < ?t / p" "?t / p < 1" using p by simp_all
  have "(1 :: rat) \<le> 2 ^ 100" by simp
  with t have "\<bar>?t / p\<bar> \<le> 2 ^ 100" by linarith
  then obtain g where g: "rnd binary32 (?t / p) = Fin g"
      "\<bar>g - ?t / p\<bar> \<le> (\<bar>?t / p\<bar> + pow2 (- 126)) / 2 ^ 24"
    by (rule rnd_near)
  have "\<bar>g\<bar> \<le> \<bar>?t / p\<bar> + \<bar>g - ?t / p\<bar>" by linarith
  then have g_le: "\<bar>g\<bar> \<le> ?t / p + (?t / p + pow2 (- 126)) / 2 ^ 24"
    using g(2) t unfolding abs_of_pos [OF t(1)] by linarith
  have "\<bar>g\<bar> * p \<le> (?t / p + (?t / p + pow2 (- 126)) / 2 ^ 24) * p"
    using p by (intro mult_right_mono g_le) simp
  also have "\<dots> = ?t + (?t + pow2 (- 126) * p) / 2 ^ 24"
    using p by (simp add: field_simps)
  also have "\<dots> \<le> ?t + (?t + pow2 (- 126) * 2 ^ 128) / 2 ^ 24"
    using p by (intro add_left_mono divide_right_mono mult_left_mono) (simp_all add: pow2_pos less_imp_le)
  also have "\<dots> \<le> 1 - 1 / 20 + 1 / 2 ^ 20" by (simp add: pow2_def)
  finally show ?thesis using that g(1) p by (simp add: limiter_threshold_value)
qed

lemma limit_small:
  assumes "\<bar>x * g\<bar> \<le> 1 - 1 / 20 + 1 / 2 ^ 20"
  shows "\<bar>sint (limit_sample (Fin g) (Fin x))\<bar> \<le> 31129"
proof -
  have p126: "pow2 (- 126) \<le> 1 / 2 ^ 60" by (simp add: pow2_def)
  have "\<bar>x * g\<bar> \<le> 2 ^ 100" using assms by (rule order_trans) simp
  then obtain y where y: "rnd binary32 (x * g) = Fin y"
      "\<bar>y - x * g\<bar> \<le> (\<bar>x * g\<bar> + pow2 (- 126)) / 2 ^ 24" by (rule rnd_near)
  have "\<bar>y\<bar> \<le> \<bar>x * g\<bar> + \<bar>y - x * g\<bar>" by linarith
  also have "\<dots> \<le> (1 - 1 / 20 + 1 / 2 ^ 20) + (1 - 1 / 20 + 1 / 2 ^ 20 + 1 / 2 ^ 60) / 2 ^ 24"
    using assms p126 by (intro add_mono order_trans [OF y(2)] divide_right_mono) simp_all
  also have "\<dots> \<le> 1 - 1 / 20 + 1 / 2 ^ 19" by simp
  finally have ye: "\<bar>y * 32767\<bar> \<le> (1 - 1 / 20 + 1 / 2 ^ 19) * 32767"
    by (simp add: abs_mult)
  then have "\<bar>y * 32767\<bar> \<le> 2 ^ 100" by (rule order_trans) simp
  then obtain z where z: "rnd binary32 (y * 32767) = Fin z"
      "\<bar>z - y * 32767\<bar> \<le> (\<bar>y * 32767\<bar> + pow2 (- 126)) / 2 ^ 24" by (rule rnd_near)
  have "\<bar>z\<bar> \<le> \<bar>y * 32767\<bar> + \<bar>z - y * 32767\<bar>" by linarith
  also have "\<dots> \<le> (1 - 1 / 20 + 1 / 2 ^ 19) * 32767 + ((1 - 1 / 20 + 1 / 2 ^ 19) * 32767 + 1 / 2 ^ 60) / 2 ^ 24"
    using ye p126 by (intro add_mono order_trans [OF z(2)] divide_right_mono) simp_all
  also have "\<dots> < 31129 + 1 / 2" by simp
  finally have ze: "\<bar>z\<bar> < 31129 + 1 / 2" .
  let ?n = "round_half_away z"
  have n: "\<bar>?n\<bar> \<le> 31129"
  proof (cases "0 \<le> z")
    case True
    then have "0 \<le> \<lfloor>z + 1 / 2\<rfloor>" by simp
    with True ze show ?thesis by (simp add: round_half_away_def floor_le_iff)
  next
    case False
    then have "0 \<le> \<lfloor>- z + 1 / 2\<rfloor>" by simp
    with False ze show ?thesis by (simp add: round_half_away_def floor_le_iff)
  qed
  have "limit_sample (Fin g) (Fin x) = word_of_int ?n"
    using n by (simp add: limit_sample_def y z i16_max_f32_def to_i16_def trunc_def abs_le_iff)
  moreover have "sint (word_of_int ?n :: i16) = ?n"
    using n unfolding int_word_sint by (auto simp: abs_le_iff)
  ultimately show ?thesis using n by simp
qed


lemma limit_sample_special:
  "s = NaN \<or> s = PInf \<and> g = Fin 0 \<or> s = NInf \<and> g = Fin 0 \<Longrightarrow> sint (limit_sample g s) = 0"
  by (auto simp: limit_sample_def i16_max_f32_def to_i16_def f_clamp_def f_gt_def)

lemma limit_sample_zero: "sint (limit_sample (Fin 0) (Fin x)) = 0"
proof -
  have "\<lfloor>1 / 2 :: rat\<rfloor> = 0" by (simp add: floor_eq_iff)
  then show ?thesis
    by (simp add: limit_sample_def i16_max_f32_def to_i16_def rnd_def round_half_away_def trunc_def)
qed

lemma limit_sample_bound:
  assumes s: "f32_value s" "s = NaN \<or> \<not> f_lt peak (f_abs s)"
    and peak: "f32_value peak" "peak \<noteq> NaN"
  shows "\<bar>sint (limit_sample (limiter_gain_for peak) s)\<bar> \<le> 31129"
proof (cases peak)
  case (Fin p)
  show ?thesis
  proof (cases s)
    case x: (Fin x)
    with s Fin have xp: "\<bar>x\<bar> \<le> p" by (simp add: not_less)
    show ?thesis
    proof (cases "15938355 / 16777216 < p")
      case True
      moreover have "p < 2 ^ 128" using peak Fin by (simp add: f32_value_def abs_less_iff)
      ultimately obtain g where g: "f_div binary32 limiter_threshold (Fin p) = Fin g"
          "\<bar>g\<bar> * p \<le> 1 - 1 / 20 + 1 / 2 ^ 20" by (rule f32_gain)
      have "\<bar>x * g\<bar> \<le> \<bar>g\<bar> * p" using xp mult_left_mono [OF xp, of "\<bar>g\<bar>"] by (simp add: abs_mult mult.commute)
      with g(2) have "\<bar>x * g\<bar> \<le> 1 - 1 / 20 + 1 / 2 ^ 20" by (rule order_trans [rotated])
      then have "\<bar>sint (limit_sample (Fin g) (Fin x))\<bar> \<le> 31129" by (rule limit_small)
      with True g(1) show ?thesis
        by (simp add: x Fin limiter_gain_for_def limiter_threshold_value f_gt_def)
    next
      case False
      then have "\<bar>x * 1\<bar> \<le> 1 - 1 / 20 + 1 / 2 ^ 20" using xp by simp
      then have "\<bar>sint (limit_sample (Fin 1) (Fin x))\<bar> \<le> 31129" by (rule limit_small)
      with False show ?thesis
        by (simp add: x Fin limiter_gain_for_def limiter_threshold_value f_gt_def)
    qed
  qed (use s Fin limit_sample_special in auto)
next
  case PInf
  then have g: "limiter_gain_for peak = Fin 0"
    by (simp add: limiter_gain_for_def limiter_threshold_value f_gt_def)
  show ?thesis unfolding g by (cases s) (simp_all add: limit_sample_zero limit_sample_special)
next
  case NInf
  then have "limiter_gain_for peak = Fin 1"
    by (simp add: limiter_gain_for_def limiter_threshold_value f_gt_def)
  with s NInf show ?thesis by (cases s) (auto simp: limit_sample_special)
qed (use peak in simp)

lemma fold_max_value:
  "f32_value a \<Longrightarrow> list_all f32_value xs \<Longrightarrow> f32_value (fold (\<lambda>s m. f_max m s) xs a)"
  by (induction xs arbitrary: a) (simp_all add: f_max_def)

lemma fold_max_peak:
  assumes "s \<in> set samples" "list_all f32_value samples"
  defines "peak \<equiv> fold (\<lambda>s m. f_max m s) (map f_abs samples) (Fin 0)"
  shows "f32_value s" "s = NaN \<or> \<not> f_lt peak (f_abs s)" "f32_value peak" "peak \<noteq> NaN"
proof -
  have abs: "f32_value (f_abs v) = f32_value v" "f_abs v = NaN \<longleftrightarrow> v = NaN" for v
    by (cases v; simp add: f32_value_def)+
  show "f32_value s" using assms by (auto simp: list_all_iff)
  show "peak \<noteq> NaN" "s = NaN \<or> \<not> f_lt peak (f_abs s)"
    using le_fold_max [of "Fin 0" "map f_abs samples"] assms(1) by (auto simp: peak_def abs)
  show "f32_value peak"
    unfolding peak_def using assms(2)
    by (intro fold_max_value) (simp_all add: list_all_iff abs, simp add: f32_value_def)
qed

text \<open>The limiter never lets a frame reach full scale: whatever samples were mixed (including
  infinities and NaN), every output sample is within 0.95 of the 16-bit range, up to rounding.\<close>

lemma limiter_bounded:
  assumes "list_all f32_value left" and "list_all f32_value right"
  shows "sint ` set (fst (limit_frame log10 left)) \<subseteq> {- 31129..31129} \<and>
         sint ` set (fst (limit_stereo_frame log10 left right)) \<subseteq> {- 31129..31129}"
proof -
  have both: "list_all f32_value (left @ right)" using assms by simp
  have inter: "set (interleave ls rs) \<subseteq> set ls \<union> set rs" for ls rs :: "i16 list"
    by (induction ls rs rule: interleave.induct) auto
  have range: "sint (limit_sample (limiter_gain_for (fold (\<lambda>s m. f_max m s) (map f_abs xs) (Fin 0))) s)
      \<in> {- 31129..31129}" if "s \<in> set xs" "list_all f32_value xs" for s xs
    using limit_sample_bound [OF fold_max_peak [OF that]] by (simp add: abs_le_iff)
  have "sint ` set (fst (limit_frame log10 left)) \<subseteq> {- 31129..31129}"
    using range assms(1) by (auto simp: limit_frame_def Let_def peak_measure_f32)
  moreover have "sint ` set (fst (limit_stereo_frame log10 left right)) \<subseteq> {- 31129..31129}"
    using range [OF _ both] inter
    by (simp only: limit_stereo_frame_def Let_def fst_conv)
      (force dest!: subsetD [OF inter])
  ultimately show ?thesis by blast
qed

lemma f32_value_rnd [simp]: "f32_value (rnd binary32 x)"
  by (auto simp: rnd_def f32_value_def Let_def binary32_def pow2_def abs_less_iff not_le)

lemma f32_value_add [simp]: "f32_value (f_add binary32 a b)"
  by (cases a; cases b) (simp_all, simp_all add: f32_value_def)

end
