(* ===== verification/Transcription.thy ===== *)
theory Transcription
  imports Audio_Levels
begin

text \<open>
  Live transcription in \<open>server/src/lib.rs\<close>: the chunker that cuts a talker's audio into
  jobs at silences (\<open>LiveTranscriptChunker\<close>), the per-user queue with its limit and its
  removal of stale jobs, and the ingest of one audio frame. A frame enters after
  \<open>resample_linear\<close> to 16 kHz: resampling is done by the \<open>rubato\<close> crate, and the Whisper
  engine that consumes the jobs is not part of the model. Counters are natural numbers.
\<close>

section \<open>Data\<close>

datatype transcription_engine_mode = EngineDisabled | BuiltinWhisper | ExternalWhisper

datatype live_transcription_mode = Fast | Balanced | Reliable

record live_transcription_mode_config =
  mc_silence_frames :: nat
  mc_max_frames :: nat
  mc_overlap_frames :: nat
  mc_min_speech_frames :: nat
  mc_stale_job_ms :: nat

fun mode_config :: "live_transcription_mode \<Rightarrow> live_transcription_mode_config" where
  "mode_config Fast = \<lparr>mc_silence_frames = 40, mc_max_frames = 400, mc_overlap_frames = 30,
     mc_min_speech_frames = 15, mc_stale_job_ms = 10000\<rparr>"
| "mode_config Balanced = \<lparr>mc_silence_frames = 70, mc_max_frames = 600, mc_overlap_frames = 50,
     mc_min_speech_frames = 20, mc_stale_job_ms = 20000\<rparr>"
| "mode_config Reliable = \<lparr>mc_silence_frames = 160, mc_max_frames = 1800,
     mc_overlap_frames = 160, mc_min_speech_frames = 30, mc_stale_job_ms = 90000\<rparr>"

definition live_transcription_queue_limit :: nat where
  "live_transcription_queue_limit = 4"

definition live_transcription_rms_threshold :: f32 where
  "live_transcription_rms_threshold = rnd binary32 (18 / 1000)"

record live_transcript_job =
  lj_user_id :: user_id
  lj_started_at_ms :: nat
  lj_ended_at_ms :: nat
  lj_contexts :: "audio_target list"
  lj_samples_16khz :: "i16 list"

record live_transcript_chunker =
  ck_buffer :: "i16 list"
  ck_contexts :: "audio_target list"
  ck_started_at_ms :: "nat option"
  ck_voiced_frames :: nat
  ck_silence_frames :: nat
  ck_total_frames :: nat

definition chunker_clear :: live_transcript_chunker where
  "chunker_clear = \<lparr>ck_buffer = [], ck_contexts = [], ck_started_at_ms = None,
     ck_voiced_frames = 0, ck_silence_frames = 0, ck_total_frames = 0\<rparr>"

record live_transcription_user_runtime =
  rt_chunker :: live_transcript_chunker
  rt_pending :: "live_transcript_job list"
  rt_worker_running :: bool
  rt_queued_jobs :: nat
  rt_dropped_jobs :: nat
  rt_dropped_frames :: nat
  rt_stale_jobs :: nat
  rt_stale_frames :: nat
  rt_completed_segments :: nat
  rt_last_contexts :: "audio_target list"
  rt_last_transcript_text :: "string option"

definition default_user_runtime :: live_transcription_user_runtime where
  "default_user_runtime =
     \<lparr>rt_chunker = chunker_clear, rt_pending = [], rt_worker_running = False, rt_queued_jobs = 0,
      rt_dropped_jobs = 0, rt_dropped_frames = 0, rt_stale_jobs = 0, rt_stale_frames = 0,
      rt_completed_segments = 0, rt_last_contexts = [], rt_last_transcript_text = None\<rparr>"

record live_transcription_state =
  lt_engine_mode :: transcription_engine_mode
  lt_active :: bool
  lt_started_at_ms :: "nat option"
  lt_users :: "user_id set option"
  lt_mode :: live_transcription_mode
  lt_max_concurrent_jobs :: nat
  lt_stale_job_ms :: nat
  lt_per_user :: "(user_id, live_transcription_user_runtime) hash_map"
  lt_last_error :: "string option"

definition default_live_transcription_state :: live_transcription_state where
  "default_live_transcription_state =
     \<lparr>lt_engine_mode = EngineDisabled, lt_active = False, lt_started_at_ms = None,
      lt_users = None, lt_mode = Balanced, lt_max_concurrent_jobs = 2, lt_stale_job_ms = 20000,
      lt_per_user = [], lt_last_error = None\<rparr>"

section \<open>The chunker\<close>

definition saturating_add :: "nat \<Rightarrow> nat \<Rightarrow> nat" where
  "saturating_add a b = min u64_max (a + b)"

definition chunker_finalize ::
    "nat \<Rightarrow> user_id \<Rightarrow> bool \<Rightarrow> live_transcription_mode_config \<Rightarrow> live_transcript_chunker \<Rightarrow>
     live_transcript_job option \<times> live_transcript_chunker" where
  "chunker_finalize now_ms u keep_overlap mode c =
     (if ck_voiced_frames c < mc_min_speech_frames mode then (None, chunker_clear)
      else
        let started = (case ck_started_at_ms c of Some s \<Rightarrow> s | None \<Rightarrow> now_ms);
            ended = saturating_add started (ck_total_frames c * frame_ms);
            job = \<lparr>lj_user_id = u, lj_started_at_ms = started, lj_ended_at_ms = ended,
                   lj_contexts = ck_contexts c, lj_samples_16khz = ck_buffer c\<rparr>;
            keep = min (mc_overlap_frames mode * samples_per_frame) (length (ck_buffer c))
        in (Some job,
            if keep_overlap
            then \<lparr>ck_buffer = drop (length (ck_buffer c) - keep) (ck_buffer c),
                  ck_contexts = ck_contexts c,
                  ck_started_at_ms = Some (ended - mc_overlap_frames mode * frame_ms),
                  ck_voiced_frames = min (mc_overlap_frames mode) (ck_total_frames c),
                  ck_silence_frames = 0,
                  ck_total_frames = min (mc_overlap_frames mode) (ck_total_frames c)\<rparr>
            else chunker_clear))"

definition chunker_voiced :: "i16 list \<Rightarrow> bool" where
  "chunker_voiced samples_16khz =
     f_ge (fm_rms (measure_i16 samples_16khz)) live_transcription_rms_threshold"

definition chunker_add ::
    "nat \<Rightarrow> audio_target \<Rightarrow> i16 list \<Rightarrow> bool \<Rightarrow> live_transcript_chunker \<Rightarrow> live_transcript_chunker" where
  "chunker_add now_ms target samples_16khz voiced c =
     (let contexts = (if target \<in> set (ck_contexts c) then ck_contexts c
                      else ck_contexts c @ [target])
      in \<lparr>ck_buffer = ck_buffer c @ samples_16khz,
          ck_contexts = (if length contexts > 16 then drop 8 contexts else contexts),
          ck_started_at_ms = (case ck_started_at_ms c of None \<Rightarrow> Some now_ms | s \<Rightarrow> s),
          ck_voiced_frames = (if voiced then ck_voiced_frames c + 1 else ck_voiced_frames c),
          ck_silence_frames = (if voiced then 0
            else if ck_voiced_frames c > 0 then ck_silence_frames c + 1 else ck_silence_frames c),
          ck_total_frames = ck_total_frames c + 1\<rparr>)"

definition chunker_push_frame ::
    "nat \<Rightarrow> user_id \<Rightarrow> audio_target \<Rightarrow> i16 list \<Rightarrow> live_transcription_mode_config \<Rightarrow>
     live_transcript_chunker \<Rightarrow> live_transcript_job option \<times> live_transcript_chunker" where
  "chunker_push_frame now_ms u target samples_16khz mode c =
     (let voiced = chunker_voiced samples_16khz
      in if ck_buffer c = [] \<and> \<not> voiced then (None, c)
         else
           let c = chunker_add now_ms target samples_16khz voiced c;
               end_for_silence = (ck_silence_frames c \<ge> mc_silence_frames mode);
               end_for_length = (ck_total_frames c \<ge> mc_max_frames mode)
           in if ck_voiced_frames c = 0 then (None, c)
              else if end_for_silence \<or> end_for_length
              then chunker_finalize now_ms u end_for_length mode c
              else (None, c))"

definition chunker_flush ::
    "nat \<Rightarrow> user_id \<Rightarrow> live_transcription_mode_config \<Rightarrow> live_transcript_chunker \<Rightarrow>
     live_transcript_job option \<times> live_transcript_chunker" where
  "chunker_flush now_ms u mode c =
     (if ck_voiced_frames c = 0 then (None, chunker_clear) else chunker_finalize now_ms u False mode c)"

section \<open>The job queue\<close>

definition frames_in_live_job :: "live_transcript_job \<Rightarrow> nat" where
  "frames_in_live_job j = length (lj_samples_16khz j) div samples_per_frame"

definition live_transcription_job_is_stale :: "live_transcript_job \<Rightarrow> nat \<Rightarrow> nat \<Rightarrow> bool" where
  "live_transcription_job_is_stale j stale_job_ms now_ms = (now_ms - lj_ended_at_ms j > stale_job_ms)"

definition count_stale ::
    "live_transcript_job \<Rightarrow> live_transcription_user_runtime \<Rightarrow> live_transcription_user_runtime" where
  "count_stale j rt = rt\<lparr>rt_stale_jobs := rt_stale_jobs rt + 1,
                         rt_stale_frames := rt_stale_frames rt + frames_in_live_job j\<rparr>"

definition drop_stale_live_transcription_jobs ::
    "nat \<Rightarrow> nat \<Rightarrow> live_transcription_user_runtime \<Rightarrow> live_transcription_user_runtime" where
  "drop_stale_live_transcription_jobs stale_job_ms now_ms rt =
     (let kept = filter (\<lambda>j. \<not> live_transcription_job_is_stale j stale_job_ms now_ms) (rt_pending rt);
          rt = fold count_stale
                 (filter (\<lambda>j. live_transcription_job_is_stale j stale_job_ms now_ms) (rt_pending rt)) rt
      in rt\<lparr>rt_pending := kept, rt_queued_jobs := length kept\<rparr>)"

text \<open>The worker takes the oldest job that is not stale, counting the stale ones it passes.\<close>

fun take_fresh ::
    "nat \<Rightarrow> nat \<Rightarrow> live_transcript_job list \<Rightarrow> live_transcription_user_runtime \<Rightarrow>
     live_transcript_job option \<times> live_transcription_user_runtime" where
  "take_fresh stale_job_ms now_ms [] rt = (None, rt\<lparr>rt_pending := [], rt_queued_jobs := 0\<rparr>)"
| "take_fresh stale_job_ms now_ms (j # js) rt =
     (if live_transcription_job_is_stale j stale_job_ms now_ms
      then take_fresh stale_job_ms now_ms js (count_stale j rt)
      else (Some j, rt\<lparr>rt_pending := js, rt_queued_jobs := length js\<rparr>))"

definition pop_next_live_transcription_job ::
    "nat \<Rightarrow> nat \<Rightarrow> live_transcription_user_runtime \<Rightarrow>
     live_transcript_job option \<times> live_transcription_user_runtime" where
  "pop_next_live_transcription_job stale_job_ms now_ms rt =
     take_fresh stale_job_ms now_ms (rt_pending rt) rt"

section \<open>Ingest of a frame and the worker\<close>

definition queue_job ::
    "user_id \<Rightarrow> live_transcript_job \<Rightarrow> live_transcription_user_runtime \<Rightarrow>
     live_transcription_user_runtime \<times> string option \<times> bool" where
  "queue_job u j rt =
     (if length (rt_pending rt) \<ge> live_transcription_queue_limit
      then (rt\<lparr>rt_dropped_jobs := rt_dropped_jobs rt + 1,
               rt_dropped_frames := rt_dropped_frames rt + frames_in_live_job j\<rparr>,
            Some (''live transcription queue full for user '' @ show_word u @ ''; dropped chunk''),
            False)
      else (rt\<lparr>rt_pending := rt_pending rt @ [j], rt_queued_jobs := length (rt_pending rt) + 1,
               rt_worker_running := True\<rparr>,
            None, \<not> rt_worker_running rt))"

definition ingest_runtime ::
    "nat \<Rightarrow> user_id \<Rightarrow> audio_target \<Rightarrow> i16 list \<Rightarrow> live_transcription_mode_config \<Rightarrow> nat \<Rightarrow>
     live_transcription_user_runtime \<Rightarrow>
     live_transcription_user_runtime \<times> string option \<times> bool" where
  "ingest_runtime now_ms u target samples_16khz mode stale_job_ms rt =
     (let rt = drop_stale_live_transcription_jobs stale_job_ms now_ms rt;
          (job, c) = chunker_push_frame now_ms u target samples_16khz mode (rt_chunker rt);
          rt = rt\<lparr>rt_chunker := c\<rparr>
      in case job of None \<Rightarrow> (rt, None, False)
         | Some j \<Rightarrow> queue_job u j
             (drop_stale_live_transcription_jobs stale_job_ms now_ms
               (rt\<lparr>rt_last_contexts := lj_contexts j\<rparr>)))"

text \<open>The result says whether a worker has to be spawned for the user.\<close>

definition transcribe_ingest_frame ::
    "nat \<Rightarrow> user_id \<Rightarrow> audio_target \<Rightarrow> i16 list \<Rightarrow> live_transcription_state \<Rightarrow>
     live_transcription_state \<times> bool" where
  "transcribe_ingest_frame now_ms u target samples_16khz lt =
     (if \<not> lt_active lt \<or> (case lt_users lt of None \<Rightarrow> False | Some us \<Rightarrow> u \<notin> us) then (lt, False)
      else
        let rt = (case hm_get (lt_per_user lt) u of Some rt \<Rightarrow> rt | None \<Rightarrow> default_user_runtime);
            (rt, err, spawn) = ingest_runtime now_ms u target samples_16khz
                                 (mode_config (lt_mode lt)) (lt_stale_job_ms lt) rt
        in (lt\<lparr>lt_per_user := hm_insert u rt (lt_per_user lt),
               lt_last_error := (case err of None \<Rightarrow> lt_last_error lt | Some e \<Rightarrow> Some e)\<rparr>,
            spawn))"

text \<open>The worker's step under the lock: the job it goes on with, if any.\<close>

definition worker_take ::
    "nat \<Rightarrow> bool \<Rightarrow> user_id \<Rightarrow> live_transcription_state \<Rightarrow>
     live_transcript_job option \<times> live_transcription_state" where
  "worker_take now_ms has_context u lt =
     (case hm_get (lt_per_user lt) u of None \<Rightarrow> (None, lt)
      | Some rt \<Rightarrow>
          let (job, rt) = pop_next_live_transcription_job (lt_stale_job_ms lt) now_ms rt;
              stop = (job = None \<or> \<not> has_context);
              rt = (if stop then rt\<lparr>rt_worker_running := False\<rparr> else rt)
          in (if stop then None else job, lt\<lparr>lt_per_user := hm_insert u rt (lt_per_user lt)\<rparr>))"

section \<open>What the chunker keeps\<close>

definition chunker_ok :: "live_transcript_chunker \<Rightarrow> bool" where
  "chunker_ok c =
     (length (ck_buffer c) = ck_total_frames c * samples_per_frame \<and>
      ck_voiced_frames c + ck_silence_frames c \<le> ck_total_frames c \<and>
      (ck_voiced_frames c = 0 \<longrightarrow> ck_total_frames c = 0) \<and>
      (ck_started_at_ms c = None \<longrightarrow> ck_total_frames c = 0) \<and>
      distinct (ck_contexts c) \<and> length (ck_contexts c) \<le> 16)"

lemma samples_per_frame_value: "samples_per_frame = 160"
  by (simp add: samples_per_frame_def sample_rate_def frame_ms_def)

lemma chunker_ok_clear [simp]: "chunker_ok chunker_clear"
  by (simp add: chunker_ok_def chunker_clear_def)

lemma chunker_add_ok:
  assumes "chunker_ok c" "length samples = samples_per_frame" "ck_buffer c \<noteq> [] \<or> voiced"
  shows "chunker_ok (chunker_add now t samples voiced c)"
    and "ck_voiced_frames (chunker_add now t samples voiced c) > 0"
  using assms
  by (auto simp: chunker_ok_def chunker_add_def Let_def samples_per_frame_value
      split: option.splits)

lemma mode_overlap: "mc_overlap_frames (mode_config m) < mc_max_frames (mode_config m)"
  "0 < mc_overlap_frames (mode_config m)" "mc_min_speech_frames (mode_config m) > 0"
  by (cases m; simp)+

lemma chunker_finalize_ok:
  assumes "chunker_ok c" "keep \<longrightarrow> ck_total_frames c \<ge> mc_max_frames (mode_config m)"
  shows "chunker_ok (snd (chunker_finalize now u keep (mode_config m) c))"
    and "ck_total_frames (snd (chunker_finalize now u keep (mode_config m) c)) < mc_max_frames (mode_config m)"
proof -
  have "0 < mc_max_frames (mode_config m)" using mode_overlap(1) [of m] by simp
  then show "ck_total_frames (snd (chunker_finalize now u keep (mode_config m) c)) < mc_max_frames (mode_config m)"
    using mode_overlap(1) [of m] by (simp add: chunker_finalize_def chunker_clear_def Let_def min_def)
  have "mc_overlap_frames (mode_config m) \<le> ck_total_frames c" if keep
    using that assms(2) mode_overlap(1) [of m] by simp
  then show "chunker_ok (snd (chunker_finalize now u keep (mode_config m) c))"
    using assms(1) mode_overlap(2) [of m]
    by (auto simp: chunker_finalize_def Let_def chunker_clear_def chunker_ok_def
        samples_per_frame_value min_def)
qed

lemma chunker_job:
  "fst (chunker_finalize now u keep mode c) = Some j \<Longrightarrow>
     lj_samples_16khz j = ck_buffer c \<and> lj_user_id j = u \<and> lj_contexts j = ck_contexts c \<and>
     mc_min_speech_frames mode \<le> ck_voiced_frames c \<and>
     lj_ended_at_ms j = saturating_add (lj_started_at_ms j) (ck_total_frames c * frame_ms)"
  by (auto simp: chunker_finalize_def Let_def split: if_splits)

section \<open>What the queue keeps\<close>

definition runtime_ok :: "live_transcription_user_runtime \<Rightarrow> bool" where
  "runtime_ok rt =
     (chunker_ok (rt_chunker rt) \<and> rt_queued_jobs rt = length (rt_pending rt) \<and>
      length (rt_pending rt) \<le> live_transcription_queue_limit \<and>
      (rt_pending rt \<noteq> [] \<longrightarrow> rt_worker_running rt))"

text \<open>Every job is waiting, dropped because the queue was full, or counted as stale.\<close>

definition jobs_accounted :: "live_transcription_user_runtime \<Rightarrow> nat" where
  "jobs_accounted rt = length (rt_pending rt) + rt_dropped_jobs rt + rt_stale_jobs rt"

lemma fold_count_stale:
  "rt_stale_jobs (fold count_stale js rt) = rt_stale_jobs rt + length js"
  "rt_pending (fold count_stale js rt) = rt_pending rt"
  "rt_dropped_jobs (fold count_stale js rt) = rt_dropped_jobs rt"
  "rt_worker_running (fold count_stale js rt) = rt_worker_running rt"
  "rt_chunker (fold count_stale js rt) = rt_chunker rt"
  by (induction js arbitrary: rt) (simp_all add: count_stale_def)

lemma drop_stale_fields [simp]:
  "rt_chunker (drop_stale_live_transcription_jobs s now rt) = rt_chunker rt"
  "rt_worker_running (drop_stale_live_transcription_jobs s now rt) = rt_worker_running rt"
  "rt_dropped_jobs (drop_stale_live_transcription_jobs s now rt) = rt_dropped_jobs rt"
  "rt_pending (drop_stale_live_transcription_jobs s now rt) =
     filter (\<lambda>j. \<not> live_transcription_job_is_stale j s now) (rt_pending rt)"
  "rt_queued_jobs (drop_stale_live_transcription_jobs s now rt) =
     length (rt_pending (drop_stale_live_transcription_jobs s now rt))"
  by (simp_all add: drop_stale_live_transcription_jobs_def Let_def fold_count_stale)

lemma drop_stale_accounted [simp]:
  "jobs_accounted (drop_stale_live_transcription_jobs s now rt) = jobs_accounted rt"
  using sum_length_filter_compl [of "\<lambda>j. live_transcription_job_is_stale j s now" "rt_pending rt"]
  by (simp add: jobs_accounted_def drop_stale_live_transcription_jobs_def Let_def fold_count_stale)

lemma drop_stale_ok [simp]:
  "runtime_ok rt \<Longrightarrow> runtime_ok (drop_stale_live_transcription_jobs s now rt)"
  by (auto simp: runtime_ok_def intro: order_trans [OF length_filter_le])

lemma queue_job_ok:
  "runtime_ok rt \<Longrightarrow> runtime_ok (fst (queue_job u j rt)) \<and>
     jobs_accounted (fst (queue_job u j rt)) = jobs_accounted rt + 1"
  by (auto simp: queue_job_def runtime_ok_def jobs_accounted_def Let_def)

lemma take_fresh_pending:
  "rt_queued_jobs (snd (take_fresh s now js rt)) = length (rt_pending (snd (take_fresh s now js rt)))"
  "length (rt_pending (snd (take_fresh s now js rt))) \<le> length js"
  "rt_worker_running (snd (take_fresh s now js rt)) = rt_worker_running rt"
  "rt_chunker (snd (take_fresh s now js rt)) = rt_chunker rt"
  "rt_dropped_jobs (snd (take_fresh s now js rt)) = rt_dropped_jobs rt"
  "fst (take_fresh s now js rt) = None \<Longrightarrow> rt_pending (snd (take_fresh s now js rt)) = []"
  by (induction js arbitrary: rt) (auto simp: count_stale_def le_SucI)

section \<open>Live transcription as a step machine\<close>

datatype transcription_event =
    Ingest nat user_id audio_target "i16 list"
  | WorkerTake nat bool user_id

fun transcription_step ::
    "transcription_event \<Rightarrow> live_transcription_state \<Rightarrow> live_transcription_state" where
  "transcription_step (Ingest now_ms u t samples) lt =
     fst (transcribe_ingest_frame now_ms u t samples lt)"
| "transcription_step (WorkerTake now_ms ctx u) lt = snd (worker_take now_ms ctx u lt)"

text \<open>Frames are 10 ms at 16 kHz; workers have a Whisper context.\<close>

fun transcription_admissible :: "transcription_event \<Rightarrow> bool" where
  "transcription_admissible (Ingest _ _ _ samples) = (length samples = samples_per_frame)"
| "transcription_admissible (WorkerTake _ ctx _) = ctx"

definition live_transcription_ok :: "live_transcription_state \<Rightarrow> bool" where
  "live_transcription_ok lt = list_all (\<lambda>(u, rt). runtime_ok rt) (lt_per_user lt)"

lemma list_all_update:
  "list_all (\<lambda>(k, v). P v) m \<Longrightarrow> P v \<Longrightarrow> list_all (\<lambda>(k, v). P v) (AList.update k v m)"
  by (induction m) auto

lemma list_all_get: "list_all (\<lambda>(k, v). P v) m \<Longrightarrow> hm_get m k = Some v \<Longrightarrow> P v"
  by (auto simp: list_all_iff dest: map_of_SomeD)

lemma chunker_push_frame_ok:
  assumes "chunker_ok c" "length samples = samples_per_frame"
  shows "chunker_ok (snd (chunker_push_frame now u t samples (mode_config m) c))"
    and "ck_total_frames (snd (chunker_push_frame now u t samples (mode_config m) c))
           < mc_max_frames (mode_config m)"
proof -
  let ?v = "chunker_voiced samples"
  let ?c = "chunker_add now t samples ?v c"
  have empty: "ck_total_frames c = 0" if "ck_buffer c = []"
    using that assms(1) by (simp add: chunker_ok_def samples_per_frame_value)
  have max: "0 < mc_max_frames (mode_config m)" using mode_overlap(1) [of m] by simp
  consider (quiet) "ck_buffer c = []" "\<not> ?v" | (add) "ck_buffer c \<noteq> [] \<or> ?v" by blast
  then have "chunker_ok (snd (chunker_push_frame now u t samples (mode_config m) c)) \<and>
      ck_total_frames (snd (chunker_push_frame now u t samples (mode_config m) c))
        < mc_max_frames (mode_config m)"
  proof cases
    case quiet
    then show ?thesis using assms(1) max empty by (simp add: chunker_push_frame_def)
  next
    case add
    then have ok: "chunker_ok ?c" and voiced: "ck_voiced_frames ?c > 0"
      using chunker_add_ok assms by blast+
    then show ?thesis
      using add chunker_finalize_ok [OF ok, of "ck_total_frames ?c \<ge> mc_max_frames (mode_config m)" m now u]
      by (auto simp: chunker_push_frame_def Let_def)
  qed
  then show "chunker_ok (snd (chunker_push_frame now u t samples (mode_config m) c))"
    and "ck_total_frames (snd (chunker_push_frame now u t samples (mode_config m) c))
           < mc_max_frames (mode_config m)" by blast+
qed

lemma ingest_runtime_ok:
  assumes "runtime_ok rt" "length samples = samples_per_frame"
  shows "runtime_ok (fst (ingest_runtime now u t samples (mode_config m) s rt))"
    and "jobs_accounted (fst (ingest_runtime now u t samples (mode_config m) s rt)) =
           jobs_accounted rt +
           (if fst (chunker_push_frame now u t samples (mode_config m) (rt_chunker rt)) = None then 0 else 1)"
proof -
  let ?rt = "drop_stale_live_transcription_jobs s now rt"
  obtain job c where p: "chunker_push_frame now u t samples (mode_config m) (rt_chunker rt) = (job, c)"
    by (cases "chunker_push_frame now u t samples (mode_config m) (rt_chunker rt)")
  have "chunker_ok (rt_chunker rt)" using assms(1) by (simp add: runtime_ok_def)
  from chunker_push_frame_ok(1) [OF this assms(2), of now u t m] have c: "chunker_ok c" by (simp add: p)
  have rt: "runtime_ok (?rt\<lparr>rt_chunker := c, rt_last_contexts := x\<rparr>)"
    "runtime_ok (?rt\<lparr>rt_chunker := c\<rparr>)"
    "jobs_accounted (?rt\<lparr>rt_chunker := c, rt_last_contexts := x\<rparr>) = jobs_accounted rt"
    "jobs_accounted (?rt\<lparr>rt_chunker := c\<rparr>) = jobs_accounted rt" for x
    using drop_stale_ok [OF assms(1), of s now] drop_stale_accounted [of s now rt] c
    by (simp_all add: runtime_ok_def jobs_accounted_def)
  have "runtime_ok (fst (ingest_runtime now u t samples (mode_config m) s rt)) \<and>
      jobs_accounted (fst (ingest_runtime now u t samples (mode_config m) s rt)) =
        jobs_accounted rt + (if job = None then 0 else 1)"
    using rt queue_job_ok [OF drop_stale_ok [OF rt(1)]]
    by (cases job) (simp_all add: ingest_runtime_def p)
  then show "runtime_ok (fst (ingest_runtime now u t samples (mode_config m) s rt))"
    and "jobs_accounted (fst (ingest_runtime now u t samples (mode_config m) s rt)) =
           jobs_accounted rt +
           (if fst (chunker_push_frame now u t samples (mode_config m) (rt_chunker rt)) = None then 0 else 1)"
    by (simp_all add: p)
qed

lemma default_user_runtime_ok [simp]: "runtime_ok default_user_runtime"
  by (simp add: runtime_ok_def default_user_runtime_def)

lemma worker_take_ok:
  "runtime_ok rt \<Longrightarrow> pop_next_live_transcription_job s now rt = (job, rt') \<Longrightarrow>
     runtime_ok (if job = None then rt'\<lparr>rt_worker_running := False\<rparr> else rt')"
  using take_fresh_pending [of s now "rt_pending rt" rt]
  by (auto simp: pop_next_live_transcription_job_def runtime_ok_def)

lemma transcription_step_ok:
  "transcription_admissible e \<Longrightarrow> live_transcription_ok lt \<Longrightarrow>
     live_transcription_ok (transcription_step e lt)"
proof (cases e)
  case (Ingest now u t samples)
  assume adm: "transcription_admissible e" and ok: "live_transcription_ok lt"
  let ?rt = "case hm_get (lt_per_user lt) u of Some rt \<Rightarrow> rt | None \<Rightarrow> default_user_runtime"
  have "runtime_ok ?rt"
    using ok by (auto simp: live_transcription_ok_def split: option.splits dest: list_all_get)
  then have "runtime_ok (fst (ingest_runtime now u t samples (mode_config (lt_mode lt)) (lt_stale_job_ms lt) ?rt))"
    using adm Ingest by (intro ingest_runtime_ok) simp_all
  then show ?thesis
    using ok by (auto simp: Ingest transcribe_ingest_frame_def live_transcription_ok_def Let_def
        intro!: list_all_update split: prod.splits)
next
  case (WorkerTake now ctx u)
  assume adm: "transcription_admissible e" and ok: "live_transcription_ok lt"
  show ?thesis
  proof (cases "hm_get (lt_per_user lt) u")
    case (Some rt)
    then have "runtime_ok rt" using ok by (auto simp: live_transcription_ok_def dest: list_all_get)
    then show ?thesis
      using ok adm worker_take_ok [of rt "lt_stale_job_ms lt" now]
      by (auto simp: WorkerTake worker_take_def Some live_transcription_ok_def
          intro!: list_all_update split: prod.splits)
  qed (use ok in \<open>simp add: WorkerTake worker_take_def\<close>)
qed

interpretation live: step_machine transcription_step transcription_admissible live_transcription_ok
  by unfold_locales (rule transcription_step_ok)

section \<open>Properties\<close>

text \<open>The chunker never overruns: fed with 10 ms frames it keeps its counters consistent
  with its buffer, holds fewer frames than the mode's maximum after every frame, and a job it
  emits carries at least the mode's minimum of voiced frames, the buffered audio with the new
  frame at its end, and an end time that is its start plus 10 ms per frame.\<close>

lemma chunker_push_frame_bounds:
  assumes "chunker_ok c" and "length samples = samples_per_frame"
  shows "let (job, c') = chunker_push_frame now u t samples (mode_config m) c in
     chunker_ok c' \<and> ck_total_frames c' < mc_max_frames (mode_config m) \<and>
     (case job of None \<Rightarrow> True | Some j \<Rightarrow>
        lj_samples_16khz j = ck_buffer c @ samples \<and>
        frames_in_live_job j = ck_total_frames c + 1 \<and>
        mc_min_speech_frames (mode_config m) \<le> ck_voiced_frames c + 1 \<and>
        lj_ended_at_ms j = saturating_add (lj_started_at_ms j) (frames_in_live_job j * frame_ms))"
proof -
  have len: "length (ck_buffer c @ samples) = (ck_total_frames c + 1) * samples_per_frame"
    using assms by (simp add: chunker_ok_def)
  have f: "lj_samples_16khz j = ck_buffer c @ samples \<and>
        frames_in_live_job j = ck_total_frames c + 1 \<and>
        mc_min_speech_frames (mode_config m) \<le> ck_voiced_frames c + 1 \<and>
        lj_ended_at_ms j = saturating_add (lj_started_at_ms j) (frames_in_live_job j * frame_ms)"
    if j: "fst (chunker_push_frame now u t samples (mode_config m) c) = Some j" for j
  proof -
    let ?c = "chunker_add now t samples (chunker_voiced samples) c"
    obtain keep where "fst (chunker_finalize now u keep (mode_config m) ?c) = Some j"
      using j by (auto simp: chunker_push_frame_def Let_def split: if_splits)
    note J = chunker_job [OF this]
    have fr: "frames_in_live_job j = ck_total_frames c + 1"
      using J len by (simp add: frames_in_live_job_def chunker_add_def Let_def samples_per_frame_value)
    show ?thesis
      using J unfolding fr by (auto simp: chunker_add_def Let_def split: if_splits)
  qed
  show ?thesis
    using chunker_push_frame_ok [OF assms, of now u t m] f
    by (auto split: prod.splits option.splits)
qed

text \<open>No audio chunk is lost unseen: when a frame completes a chunk, the number of jobs
  waiting, dropped for a full queue or discarded as stale grows by exactly one, and it does
  not change otherwise; at most four jobs wait.\<close>

lemma ingest_accounts_for_every_job:
  assumes "runtime_ok rt" and "length samples = samples_per_frame"
  shows "let rt' = fst (ingest_runtime now u t samples (mode_config m) stale_ms rt) in
     length (rt_pending rt') + rt_dropped_jobs rt' + rt_stale_jobs rt' =
       length (rt_pending rt) + rt_dropped_jobs rt + rt_stale_jobs rt +
       (case fst (chunker_push_frame now u t samples (mode_config m) (rt_chunker rt)) of
          None \<Rightarrow> 0 | Some _ \<Rightarrow> 1) \<and>
     rt_queued_jobs rt' = length (rt_pending rt') \<and> length (rt_pending rt') \<le> 4"
  using ingest_runtime_ok [OF assms, of now u t m stale_ms]
  by (auto simp: Let_def jobs_accounted_def runtime_ok_def live_transcription_queue_limit_def
      split: option.splits)

text \<open>A waiting job always has a worker: in every state that frames and workers can reach
  (workers with a Whisper context), a user with waiting jobs has a running worker, so no job
  waits for a frame to arrive.\<close>

lemma waiting_jobs_have_a_worker:
  assumes "list_all transcription_admissible events"
  shows "list_all (\<lambda>(u, rt). rt_pending rt = [] \<or> rt_worker_running rt)
     (lt_per_user (fold transcription_step events (default_live_transcription_state
        \<lparr>lt_active := True, lt_mode := mode, lt_users := users\<rparr>)))"
proof -
  let ?s = "default_live_transcription_state\<lparr>lt_active := True, lt_mode := mode, lt_users := users\<rparr>"
  have "live_transcription_ok ?s"
    by (simp add: live_transcription_ok_def default_live_transcription_state_def)
  from live.run_inv [OF assms this] show ?thesis
    by (auto simp: live_transcription_ok_def list_all_iff runtime_ok_def)
qed

end
