(* ===== verification/Server_State.thy ===== *)
theory Server_State
  imports Server_Session Admin_State Audio_Queues Transcription
begin

text \<open>
  The server's shared state (\<open>ServerState\<close>), meters, counters and health records, the
  status snapshot an administrator sees, and the events pushed to the control clients:
  \<open>push_config_update\<close>, \<open>push_presence_updates\<close> with the channel rosters, registration and
  removal of control clients.

  Each handler runs as one step on the state. Time and the state file come in as an
  environment: the monotonic and the Unix clock, and the outcome of saving a state. A
  control client is the identity of its connection; an event sent to an open connection is
  appended to the log of delivered events, sending to a closed one fails.
\<close>

section \<open>Meters, health and counters\<close>

record input_meter_status =
  im_active :: bool
  im_peak :: f32
  im_rms :: f32
  im_last_channel :: "channel_id option"
  im_last_packet_age_ms :: "nat option"

record transport_health_status =
  th_source_queue_depth :: nat
  th_source_frames_dropped :: nat
  th_decode_errors :: nat

record processing_stage_status =
  pss_engine :: processing_engine
  pss_active :: bool
  pss_bypassed :: bool
  pss_available :: bool
  pss_detail :: "string option"
  pss_backend :: "string option"
  pss_compute_units :: "string option"
  pss_inference_ms :: "f32 option"
  pss_input_rms :: f32
  pss_output_rms :: f32
  pss_gain_reduction_db :: f32

record level_normalization_status =
  lns_active :: bool
  lns_bypassed :: bool
  lns_input_rms :: f32
  lns_output_rms :: f32
  lns_target_rms :: f32
  lns_applied_gain :: f32
  lns_desired_gain :: f32
  lns_max_boost :: f32
  lns_max_attenuation :: f32
  lns_clipping_events :: u32
  lns_reason :: string

record processing_status =
  ps_active :: bool
  ps_bypassed :: bool
  ps_gate_open :: bool
  ps_engine :: processing_engine
  ps_engine_available :: bool
  ps_engine_detail :: "string option"
  ps_backend :: "string option"
  ps_compute_units :: "string option"
  ps_inference_ms :: "f32 option"
  ps_input_rms :: f32
  ps_output_rms :: f32
  ps_gain_reduction_db :: f32
  ps_stages :: "processing_stage_status list"
  ps_normalization :: level_normalization_status

record status_metrics =
  mt_audio_packets_received :: nat
  mt_malformed_packets_dropped :: nat
  mt_audio_decode_errors :: nat
  mt_audio_frames_decoded :: nat
  mt_source_frames_enqueued :: nat
  mt_source_frames_dropped :: nat
  mt_expired_source_queues :: nat
  mt_mixed_packets_sent :: nat
  mt_audio_encode_errors :: nat
  mt_audio_send_errors :: nat
  mt_control_messages_received :: nat

record user_health =
  uh_input :: input_meter_status
  uh_output :: output_meter_status
  uh_capture :: "capture_health_status option"
  uh_transport :: transport_health_status
  uh_processing :: processing_status
  uh_last_packet_seen :: "instant option"
  uh_active_until :: instant

definition default_input_meter_status :: input_meter_status where
  "default_input_meter_status =
     \<lparr>im_active = False, im_peak = Fin 0, im_rms = Fin 0, im_last_channel = None,
      im_last_packet_age_ms = None\<rparr>"

definition default_transport_health_status :: transport_health_status where
  "default_transport_health_status =
     \<lparr>th_source_queue_depth = 0, th_source_frames_dropped = 0, th_decode_errors = 0\<rparr>"

definition default_level_normalization_status :: level_normalization_status where
  "default_level_normalization_status =
     \<lparr>lns_active = False, lns_bypassed = True, lns_input_rms = Fin 0, lns_output_rms = Fin 0,
      lns_target_rms = ln_target_rms default_level_normalization_config,
      lns_applied_gain = Fin 1, lns_desired_gain = Fin 1,
      lns_max_boost = ln_max_boost default_level_normalization_config,
      lns_max_attenuation = ln_max_attenuation default_level_normalization_config,
      lns_clipping_events = 0, lns_reason = ''disabled''\<rparr>"

definition default_processing_status :: processing_status where
  "default_processing_status =
     \<lparr>ps_active = False, ps_bypassed = True, ps_gate_open = False, ps_engine = BuiltIn,
      ps_engine_available = True, ps_engine_detail = None, ps_backend = None,
      ps_compute_units = None, ps_inference_ms = None, ps_input_rms = Fin 0,
      ps_output_rms = Fin 0, ps_gain_reduction_db = Fin 0, ps_stages = [],
      ps_normalization = default_level_normalization_status\<rparr>"

definition default_metrics :: status_metrics where
  "default_metrics =
     \<lparr>mt_audio_packets_received = 0, mt_malformed_packets_dropped = 0,
      mt_audio_decode_errors = 0, mt_audio_frames_decoded = 0, mt_source_frames_enqueued = 0,
      mt_source_frames_dropped = 0, mt_expired_source_queues = 0, mt_mixed_packets_sent = 0,
      mt_audio_encode_errors = 0, mt_audio_send_errors = 0, mt_control_messages_received = 0\<rparr>"

definition active_talker_hold :: nat where
  "active_talker_hold = millis 350"

definition audio_endpoint_timeout :: nat where
  "audio_endpoint_timeout = millis 6000"

definition user_health_default :: "instant \<Rightarrow> user_health" where
  "user_health_default now =
     \<lparr>uh_input = default_input_meter_status,
      uh_output = default_output_meter_status\<lparr>om_limiter_gain := Fin 1\<rparr>,
      uh_capture = None, uh_transport = default_transport_health_status,
      uh_processing = default_processing_status\<lparr>ps_bypassed := True\<rparr>,
      uh_last_packet_seen = None, uh_active_until = now - active_talker_hold\<rparr>"

section \<open>The server state\<close>

datatype enrollment_policy = PolicyAuto | PolicyApproval | PolicyPreconfiguredOnly

text \<open>Of a running recording: whom it records (everyone, or a set) and whether it transcribes.\<close>

record active_recording =
  rc_users :: "user_id set option"
  rc_transcribe :: bool

type_synonym connection = nat

record server_state =
  st_sessions :: sessions
  st_sources :: "(user_id, source_queue) hash_map"
  st_virtual_sources :: "virtual_audio_source list"
  st_output_seq :: "(user_id, u16) hash_map"
  st_control_clients :: "(user_id, connection) hash_map"
  st_health :: "(user_id, user_health) hash_map"
  st_alerts :: "runtime_alert list"
  st_emergency :: "runtime_emergency option"
  st_recording :: "active_recording option"
  st_transcription :: live_transcription_state
  st_next_alert_id :: alert_id
  st_next_tts_id :: nat
  st_admin_state :: persisted_admin_state
  st_enrollment_policy :: enrollment_policy
  st_metrics :: status_metrics
  st_open_connections :: "connection set"
  st_delivered :: "(connection \<times> control_event) list"

record env =
  env_now :: instant
  env_unix_ms :: nat
  env_save :: "persisted_admin_state \<Rightarrow> string option"

definition server_state_new :: "persisted_admin_state \<Rightarrow> enrollment_policy \<Rightarrow> server_state" where
  "server_state_new admin policy =
     \<lparr>st_sessions = [], st_sources = [], st_virtual_sources = [], st_output_seq = [],
      st_control_clients = [], st_health = [], st_alerts = [], st_emergency = None,
      st_recording = None, st_transcription = default_live_transcription_state,
      st_next_alert_id = 1, st_next_tts_id = 1, st_admin_state = admin,
      st_enrollment_policy = policy, st_metrics = default_metrics,
      st_open_connections = {}, st_delivered = []\<rparr>"

text \<open>\<open>sessions.entry(u).or_insert_with(Session::new)\<close> and \<open>sessions.get_mut(u)\<close>.\<close>

definition with_session ::
    "env \<Rightarrow> user_id \<Rightarrow> (session \<Rightarrow> session) \<Rightarrow> server_state \<Rightarrow> server_state" where
  "with_session env u f st =
     st\<lparr>st_sessions := hm_entry u (session_new (env_now env)) f (st_sessions st)\<rparr>"

definition modify_session :: "user_id \<Rightarrow> (session \<Rightarrow> session) \<Rightarrow> server_state \<Rightarrow> server_state" where
  "modify_session u f st = st\<lparr>st_sessions := hm_modify u f (st_sessions st)\<rparr>"

definition with_health ::
    "env \<Rightarrow> user_id \<Rightarrow> (user_health \<Rightarrow> user_health) \<Rightarrow> server_state \<Rightarrow> server_state" where
  "with_health env u f st =
     st\<lparr>st_health := hm_entry u (user_health_default (env_now env)) f (st_health st)\<rparr>"

definition count_metric :: "(status_metrics \<Rightarrow> status_metrics) \<Rightarrow> server_state \<Rightarrow> server_state" where
  "count_metric f st = st\<lparr>st_metrics := f (st_metrics st)\<rparr>"

section \<open>Control clients and configuration events\<close>

definition register_control_client :: "user_id \<Rightarrow> connection \<Rightarrow> server_state \<Rightarrow> server_state" where
  "register_control_client u c st = st\<lparr>st_control_clients := hm_insert u c (st_control_clients st)\<rparr>"

definition unregister_control_client :: "user_id \<Rightarrow> connection \<Rightarrow> server_state \<Rightarrow> server_state" where
  "unregister_control_client u c st =
     (if hm_get (st_control_clients st) u = Some c
      then st\<lparr>st_control_clients := hm_remove u (st_control_clients st)\<rparr> else st)"

definition send_event :: "user_id \<Rightarrow> control_event \<Rightarrow> server_state \<Rightarrow> server_state" where
  "send_event u ev st =
     (case hm_get (st_control_clients st) u of None \<Rightarrow> st
      | Some c \<Rightarrow>
          if c \<in> st_open_connections st
          then st\<lparr>st_delivered := st_delivered st @ [(c, ev)]\<rparr>
          else st\<lparr>st_control_clients := hm_remove u (st_control_clients st)\<rparr>)"

definition config_event_snapshot :: "server_state \<Rightarrow> user_id \<Rightarrow> control_event option" where
  "config_event_snapshot st u =
     (case hm_get (st_sessions st) u of None \<Rightarrow> None
      | Some s \<Rightarrow>
          let (active, recent) =
                alert_statuses_for_user_with_sessions (st_alerts st) u (st_sessions st)
          in Some (session_control_event s u
               (active_direct_call_statuses_for_user u (st_sessions st)) active recent
               (emergency_status_for_user (st_emergency st) (st_sessions st) u)))"

definition push_config_update :: "user_id \<Rightarrow> server_state \<Rightarrow> server_state" where
  "push_config_update u st =
     (case config_event_snapshot st u of None \<Rightarrow> st | Some ev \<Rightarrow> send_event u ev st)"

definition push_config_updates :: "user_id list \<Rightarrow> server_state \<Rightarrow> server_state" where
  "push_config_updates us st = fold push_config_update us st"

section \<open>Channel rosters\<close>

definition session_audio_addr :: "session \<Rightarrow> instant \<Rightarrow> socket_addr option" where
  "session_audio_addr s now =
     (case se_addr s of None \<Rightarrow> None
      | Some addr \<Rightarrow>
          (case se_audio_last_seen s of
             Some seen \<Rightarrow> if now - seen \<le> audio_endpoint_timeout then Some addr else None
           | None \<Rightarrow> Some addr))"

definition configured_presence_channels :: "session \<Rightarrow> channel_id set" where
  "configured_presence_channels s =
     se_listen_channels s \<union> se_tx_channels s \<union>
     set (ifb_program (se_ifb s)) \<union> set (ifb_interrupt (se_ifb s)) \<union>
     \<Union> (set (map (\<lambda>a. set (transmit_channels a)) (concat (map btn_actions (se_buttons s)))))"

definition channel_names :: "server_state \<Rightarrow> (channel_id, string) hash_map" where
  "channel_names st =
     fold (\<lambda>c. hm_insert (ch_id c) (ch_name c)) (ad_channels (st_admin_state st)) []"

definition roster_members ::
    "server_state \<Rightarrow> instant \<Rightarrow> channel_id \<Rightarrow> channel_presence_member list" where
  "roster_members st now ch =
     sort_key cpm_user_id
       (map (\<lambda>(u, s). \<lparr>cpm_user_id = u, cpm_name = se_name s,
                       cpm_present = (session_audio_addr s now \<noteq> None),
                       cpm_transmitting =
                         ((case hm_get (st_health st) u of None \<Rightarrow> False
                           | Some h \<Rightarrow> now \<le> uh_active_until h) \<and>
                          Channel ch \<in> active_tx_targets s)\<rparr>)
         (filter (\<lambda>(u, s). u \<noteq> 0 \<and>
            ch \<in> configured_presence_channels s \<union> effective_tx_channels s) (st_sessions st)))"

definition channel_rosters_for_user ::
    "env \<Rightarrow> server_state \<Rightarrow> user_id \<Rightarrow> channel_presence_roster list" where
  "channel_rosters_for_user env st u =
     (case hm_get (st_sessions st) u of None \<Rightarrow> []
      | Some viewer \<Rightarrow>
          let names = channel_names st;
              configured = set (hm_keys names);
              visible = configured \<union> configured_presence_channels viewer \<union>
                        effective_tx_channels viewer
          in List.map_filter (\<lambda>ch.
               let members = roster_members st (env_now env) ch
               in if members = [] \<and> ch \<notin> configured then None
                  else Some \<lparr>cpr_channel_id = ch,
                             cpr_name = (case map_option trim (hm_get names ch) of
                                           None \<Rightarrow> None | Some n \<Rightarrow> if n = [] then None else Some n),
                             cpr_members = members\<rparr>)
             (sorted_list_of_set visible))"

definition push_presence_update :: "env \<Rightarrow> user_id \<Rightarrow> server_state \<Rightarrow> server_state" where
  "push_presence_update env u st =
     send_event u
       (PresenceUpdate u
          (case hm_get (st_sessions st) u of None \<Rightarrow> [] | Some s \<Rightarrow> se_client_uid s)
          (channel_rosters_for_user env st u)) st"

definition push_presence_updates :: "env \<Rightarrow> server_state \<Rightarrow> server_state" where
  "push_presence_updates env st =
     fold (push_presence_update env) (hm_keys (st_control_clients st)) st"

section \<open>The status snapshot\<close>

record session_status =
  sst_user_id :: user_id
  sst_client_uid :: client_uid
  sst_enrollment :: enrollment_status
  sst_role :: client_role
  sst_addr :: "socket_addr option"
  sst_listen :: "channel_id list"
  sst_tx :: "channel_id list"
  sst_talker_vol :: "(user_id, f32) hash_map"
  sst_codec :: codec
  sst_opus_profile :: opus_profile
  sst_supported_codecs :: "codec list"
  sst_advertised_buttons :: "button_capability list"
  sst_capabilities :: client_capabilities
  sst_buttons :: "talk_button_config list"
  sst_active_buttons :: "button_id list"
  sst_active_direct_calls :: "direct_call_status list"
  sst_last_direct_caller :: "user_id option"
  sst_direct_call_history :: "direct_call_history_entry list"
  sst_active_alerts :: "alert_status list"
  sst_recent_alerts :: "alert_status list"
  sst_ifb :: ifb_config
  sst_lockout :: client_lockout_policy
  sst_ifb_status :: ifb_status
  sst_stereo :: stereo_config
  sst_esp32_audio :: esp32_audio_config
  sst_stereo_status :: stereo_status
  sst_talk_mode :: talk_mode
  sst_regular_talk_active :: bool
  sst_priority :: bool
  sst_priority_channels :: "channel_id list"
  sst_processing :: processing_config
  sst_processing_status :: processing_status
  sst_emergency :: "emergency_status option"
  sst_queue_depth :: nat
  sst_age_ms :: nat
  sst_input :: input_meter_status
  sst_output :: output_meter_status
  sst_capture :: "capture_health_status option"
  sst_bridge :: "bridge_status option"
  sst_transport :: transport_health_status
  sst_recording_enabled :: bool
  sst_transcription_enabled :: bool

definition recorded :: "server_state \<Rightarrow> user_id \<Rightarrow> bool" where
  "recorded st u =
     (case st_recording st of None \<Rightarrow> False
      | Some r \<Rightarrow> (case rc_users r of None \<Rightarrow> True | Some us \<Rightarrow> u \<in> us))"

definition transcribed :: "server_state \<Rightarrow> user_id \<Rightarrow> bool" where
  "transcribed st u =
     (lt_active (st_transcription st) \<and>
        (case lt_users (st_transcription st) of None \<Rightarrow> True | Some us \<Rightarrow> u \<in> us) \<or>
      (case st_recording st of None \<Rightarrow> False | Some r \<Rightarrow> rc_transcribe r))"

definition session_status_of ::
    "instant \<Rightarrow> server_state \<Rightarrow> user_id \<Rightarrow> session \<Rightarrow> session_status" where
  "session_status_of now st u s =
     (let depth = (case hm_get (st_sources st) u of None \<Rightarrow> 0 | Some q \<Rightarrow> length (sq_frames q));
          h = hm_get (st_health st) u;
          (active_alerts, recent_alerts) =
            alert_statuses_for_user_with_sessions (st_alerts st) u (st_sessions st)
      in \<lparr>sst_user_id = u, sst_client_uid = se_client_uid s, sst_enrollment = se_enrollment s,
          sst_role = se_role s, sst_addr = session_audio_addr s now,
          sst_listen = sorted_list_of_set (se_listen_channels s),
          sst_tx = sorted_list_of_set (se_tx_channels s),
          sst_talker_vol = se_talker_volumes s, sst_codec = se_output_codec s,
          sst_opus_profile = se_opus_profile s,
          sst_supported_codecs = sorted_codecs (se_supported_codecs s),
          sst_advertised_buttons = se_advertised_buttons s,
          sst_capabilities = se_capabilities s, sst_buttons = sorted_buttons (se_buttons s),
          sst_active_buttons = sorted_list_of_set (se_active_buttons s),
          sst_active_direct_calls = active_direct_call_statuses_for_user u (st_sessions st),
          sst_last_direct_caller = se_last_direct_caller s,
          sst_direct_call_history = direct_call_history_entries (se_direct_call_history s),
          sst_active_alerts = active_alerts, sst_recent_alerts = recent_alerts,
          sst_ifb = se_ifb s, sst_lockout = se_lockout s, sst_ifb_status = se_ifb_status s,
          sst_stereo = se_stereo s, sst_esp32_audio = se_esp32_audio s,
          sst_stereo_status = stereo_status_for_session s, sst_talk_mode = se_talk_mode s,
          sst_regular_talk_active = se_regular_talk_active s, sst_priority = se_priority s,
          sst_priority_channels = sorted_list_of_set (se_priority_channels s),
          sst_processing = se_processing s,
          sst_processing_status =
            (case h of None \<Rightarrow> default_processing_status | Some h \<Rightarrow> uh_processing h),
          sst_emergency = emergency_status_for_user (st_emergency st) (st_sessions st) u,
          sst_queue_depth = depth, sst_age_ms = millis_since (se_last_seen s) now,
          sst_input = (case h of None \<Rightarrow> default_input_meter_status
             | Some h \<Rightarrow> (uh_input h)\<lparr>im_active := now \<le> uh_active_until h,
                 im_last_packet_age_ms :=
                   map_option (\<lambda>seen. millis_since seen now) (uh_last_packet_seen h)\<rparr>),
          sst_output = (case h of None \<Rightarrow> default_output_meter_status | Some h \<Rightarrow> uh_output h),
          sst_capture = (case h of None \<Rightarrow> None | Some h \<Rightarrow> uh_capture h),
          sst_bridge = se_bridge s,
          sst_transport = (case h of None \<Rightarrow> default_transport_health_status
                             | Some h \<Rightarrow> uh_transport h)\<lparr>th_source_queue_depth := depth\<rparr>,
          sst_recording_enabled = recorded st u,
          sst_transcription_enabled = transcribed st u\<rparr>)"

definition status_snapshot :: "env \<Rightarrow> server_state \<Rightarrow> session_status list \<times> status_metrics" where
  "status_snapshot env st =
     (sort_key sst_user_id (map (\<lambda>(u, s). session_status_of (env_now env) st u s) (st_sessions st)),
      st_metrics st)"

section \<open>Responses\<close>

datatype control_response =
    RespHello bool user_id client_uid enrollment_status
  | Ack
  | Error string
  | RespStatus "session_status list" status_metrics

section \<open>Desired configurations and sessions\<close>

definition save_admin_state :: "env \<Rightarrow> server_state \<Rightarrow> string option" where
  "save_admin_state env st = env_save env (st_admin_state st)"

definition desired_client :: "server_state \<Rightarrow> user_id \<Rightarrow> desired_client_config option" where
  "desired_client st u = find (\<lambda>c. dc_user_id c = u) (ad_clients (st_admin_state st))"

definition desired_of_session :: "user_id \<Rightarrow> session \<Rightarrow> desired_client_config" where
  "desired_of_session u s =
     \<lparr>dc_user_id = u,
      dc_client_uid = (if se_client_uid s = [] then None else Some (se_client_uid s)),
      dc_role = se_role s, dc_name = [],
      dc_listen = sorted_list_of_set (se_listen_channels s),
      dc_tx = sorted_list_of_set (se_tx_channels s),
      dc_vol = se_channel_volumes s, dc_talker_vol = se_talker_volumes s,
      dc_codec = se_output_codec s, dc_opus_profile = se_opus_profile s,
      dc_talk_mode = se_talk_mode s, dc_priority = se_priority s,
      dc_priority_channels = sorted_list_of_set (se_priority_channels s),
      dc_buttons = sorted_buttons (se_buttons s), dc_ifb = se_ifb s, dc_lockout = se_lockout s,
      dc_stereo = se_stereo s, dc_esp32_audio = se_esp32_audio s,
      dc_processing = se_processing s\<rparr>"

definition desired_baseline_for_user :: "server_state \<Rightarrow> user_id \<Rightarrow> desired_client_config" where
  "desired_baseline_for_user st u =
     (case desired_client st u of Some d \<Rightarrow> d
      | None \<Rightarrow> (case hm_get (st_sessions st) u of
                   None \<Rightarrow> desired_client_new u
                 | Some s \<Rightarrow> desired_of_session u s))"

definition apply_desired_to_session_fields ::
    "desired_client_config \<Rightarrow> session \<Rightarrow> session" where
  "apply_desired_to_session_fields d s =
     (let buttons = normalize_button_configs (dc_buttons d)
      in s\<lparr>se_client_uid := (case dc_client_uid d of Some uid \<Rightarrow> uid | None \<Rightarrow> se_client_uid s),
           se_role := dc_role d,
           se_listen_channels := set (dc_listen d),
           se_tx_channels := set (dc_tx d),
           se_channel_volumes := dc_vol d,
           se_talker_volumes := normalize_talker_volumes (dc_talker_vol d) (dc_user_id d),
           se_buttons := buttons,
           se_ifb := normalize_ifb_config (dc_ifb d),
           se_lockout := dc_lockout d,
           se_stereo := normalize_stereo_config (dc_stereo d),
           se_esp32_audio := normalize_esp32_audio_config (dc_esp32_audio d),
           se_processing := dc_processing d,
           se_name := dc_name d,
           se_active_buttons := se_active_buttons s \<inter> btn_id ` set buttons,
           se_output_codec := (if dc_codec d \<in> se_supported_codecs s then dc_codec d else Pcm16),
           se_opus_profile := dc_opus_profile d,
           se_talk_mode := dc_talk_mode d,
           se_priority := dc_priority d,
           se_priority_channels := set (dc_priority_channels d)\<rparr>)"

definition apply_default_operator_channels_to_session :: "session \<Rightarrow> session" where
  "apply_default_operator_channels_to_session s =
     (if se_role s \<noteq> RoleClient then s
      else s\<lparr>se_listen_channels := (if se_listen_channels s = {} then {channel_open}
                                   else se_listen_channels s),
             se_tx_channels := (if se_tx_channels s = {} then {channel_open}
                                else se_tx_channels s)\<rparr>)"

definition apply_desired_to_live_session ::
    "env \<Rightarrow> desired_client_config \<Rightarrow> server_state \<Rightarrow> server_state" where
  "apply_desired_to_live_session env d st =
     with_session env (dc_user_id d)
       (\<lambda>s. (apply_desired_to_session_fields d s)\<lparr>se_last_seen := env_now env\<rparr>) st"

definition apply_desired_to_live_session_if_any ::
    "env \<Rightarrow> user_id \<Rightarrow> server_state \<Rightarrow> server_state" where
  "apply_desired_to_live_session_if_any env u st =
     (case desired_client st u of None \<Rightarrow> st | Some d \<Rightarrow> apply_desired_to_live_session env d st)"

definition apply_regular_talk_event ::
    "env \<Rightarrow> user_id \<Rightarrow> bool \<Rightarrow> server_state \<Rightarrow> server_state \<times> control_response" where
  "apply_regular_talk_event env u active st =
     (if \<not> hm_contains (st_sessions st) u then (st, Error (''unknown client '' @ show_word u))
      else (push_config_update u (modify_session u
              (\<lambda>s. s\<lparr>se_regular_talk_active := active, se_last_seen := env_now env\<rparr>) st), Ack))"

section \<open>What pushing an event leaves alone\<close>

text \<open>Pushing changes the delivered events and drops closed control clients, nothing else.\<close>

lemma send_event_frame [simp]:
  "st_sessions (send_event u ev st) = st_sessions st"
  "st_sources (send_event u ev st) = st_sources st"
  "st_virtual_sources (send_event u ev st) = st_virtual_sources st"
  "st_output_seq (send_event u ev st) = st_output_seq st"
  "st_health (send_event u ev st) = st_health st"
  "st_alerts (send_event u ev st) = st_alerts st"
  "st_emergency (send_event u ev st) = st_emergency st"
  "st_recording (send_event u ev st) = st_recording st"
  "st_transcription (send_event u ev st) = st_transcription st"
  "st_next_alert_id (send_event u ev st) = st_next_alert_id st"
  "st_next_tts_id (send_event u ev st) = st_next_tts_id st"
  "st_admin_state (send_event u ev st) = st_admin_state st"
  "st_enrollment_policy (send_event u ev st) = st_enrollment_policy st"
  "st_metrics (send_event u ev st) = st_metrics st"
  "st_open_connections (send_event u ev st) = st_open_connections st"
  by (simp_all add: send_event_def split: option.splits)

lemma push_config_update_frame [simp]:
  "st_sessions (push_config_update u st) = st_sessions st"
  "st_sources (push_config_update u st) = st_sources st"
  "st_virtual_sources (push_config_update u st) = st_virtual_sources st"
  "st_output_seq (push_config_update u st) = st_output_seq st"
  "st_health (push_config_update u st) = st_health st"
  "st_alerts (push_config_update u st) = st_alerts st"
  "st_emergency (push_config_update u st) = st_emergency st"
  "st_recording (push_config_update u st) = st_recording st"
  "st_transcription (push_config_update u st) = st_transcription st"
  "st_next_alert_id (push_config_update u st) = st_next_alert_id st"
  "st_next_tts_id (push_config_update u st) = st_next_tts_id st"
  "st_admin_state (push_config_update u st) = st_admin_state st"
  "st_enrollment_policy (push_config_update u st) = st_enrollment_policy st"
  "st_metrics (push_config_update u st) = st_metrics st"
  "st_open_connections (push_config_update u st) = st_open_connections st"
  by (simp_all add: push_config_update_def split: option.splits)

lemma push_config_updates_frame [simp]:
  "st_sessions (push_config_updates us st) = st_sessions st"
  "st_sources (push_config_updates us st) = st_sources st"
  "st_virtual_sources (push_config_updates us st) = st_virtual_sources st"
  "st_output_seq (push_config_updates us st) = st_output_seq st"
  "st_health (push_config_updates us st) = st_health st"
  "st_alerts (push_config_updates us st) = st_alerts st"
  "st_emergency (push_config_updates us st) = st_emergency st"
  "st_recording (push_config_updates us st) = st_recording st"
  "st_transcription (push_config_updates us st) = st_transcription st"
  "st_next_alert_id (push_config_updates us st) = st_next_alert_id st"
  "st_next_tts_id (push_config_updates us st) = st_next_tts_id st"
  "st_admin_state (push_config_updates us st) = st_admin_state st"
  "st_enrollment_policy (push_config_updates us st) = st_enrollment_policy st"
  "st_metrics (push_config_updates us st) = st_metrics st"
  "st_open_connections (push_config_updates us st) = st_open_connections st"
  by (induction us arbitrary: st) (simp_all add: push_config_updates_def)

lemma push_presence_update_frame [simp]:
  "st_sessions (push_presence_update env u st) = st_sessions st"
  "st_sources (push_presence_update env u st) = st_sources st"
  "st_virtual_sources (push_presence_update env u st) = st_virtual_sources st"
  "st_output_seq (push_presence_update env u st) = st_output_seq st"
  "st_health (push_presence_update env u st) = st_health st"
  "st_alerts (push_presence_update env u st) = st_alerts st"
  "st_emergency (push_presence_update env u st) = st_emergency st"
  "st_recording (push_presence_update env u st) = st_recording st"
  "st_transcription (push_presence_update env u st) = st_transcription st"
  "st_next_alert_id (push_presence_update env u st) = st_next_alert_id st"
  "st_next_tts_id (push_presence_update env u st) = st_next_tts_id st"
  "st_admin_state (push_presence_update env u st) = st_admin_state st"
  "st_enrollment_policy (push_presence_update env u st) = st_enrollment_policy st"
  "st_metrics (push_presence_update env u st) = st_metrics st"
  "st_open_connections (push_presence_update env u st) = st_open_connections st"
  by (simp_all add: push_presence_update_def)

lemma with_session_frame [simp]:
  "st_sources (with_session env u f st) = st_sources st"
  "st_virtual_sources (with_session env u f st) = st_virtual_sources st"
  "st_output_seq (with_session env u f st) = st_output_seq st"
  "st_health (with_session env u f st) = st_health st"
  "st_alerts (with_session env u f st) = st_alerts st"
  "st_emergency (with_session env u f st) = st_emergency st"
  "st_recording (with_session env u f st) = st_recording st"
  "st_transcription (with_session env u f st) = st_transcription st"
  "st_next_alert_id (with_session env u f st) = st_next_alert_id st"
  "st_next_tts_id (with_session env u f st) = st_next_tts_id st"
  "st_admin_state (with_session env u f st) = st_admin_state st"
  "st_enrollment_policy (with_session env u f st) = st_enrollment_policy st"
  "st_metrics (with_session env u f st) = st_metrics st"
  "st_open_connections (with_session env u f st) = st_open_connections st"
  "st_control_clients (with_session env u f st) = st_control_clients st"
  "st_delivered (with_session env u f st) = st_delivered st"
  by (simp_all add: with_session_def)

lemma modify_session_frame [simp]:
  "st_sources (modify_session u f st) = st_sources st"
  "st_virtual_sources (modify_session u f st) = st_virtual_sources st"
  "st_output_seq (modify_session u f st) = st_output_seq st"
  "st_health (modify_session u f st) = st_health st"
  "st_alerts (modify_session u f st) = st_alerts st"
  "st_emergency (modify_session u f st) = st_emergency st"
  "st_recording (modify_session u f st) = st_recording st"
  "st_transcription (modify_session u f st) = st_transcription st"
  "st_next_alert_id (modify_session u f st) = st_next_alert_id st"
  "st_next_tts_id (modify_session u f st) = st_next_tts_id st"
  "st_admin_state (modify_session u f st) = st_admin_state st"
  "st_enrollment_policy (modify_session u f st) = st_enrollment_policy st"
  "st_metrics (modify_session u f st) = st_metrics st"
  "st_open_connections (modify_session u f st) = st_open_connections st"
  "st_control_clients (modify_session u f st) = st_control_clients st"
  "st_delivered (modify_session u f st) = st_delivered st"
  by (simp_all add: modify_session_def)

lemma with_health_frame [simp]:
  "st_sessions (with_health env u f st) = st_sessions st"
  "st_sources (with_health env u f st) = st_sources st"
  "st_virtual_sources (with_health env u f st) = st_virtual_sources st"
  "st_output_seq (with_health env u f st) = st_output_seq st"
  "st_alerts (with_health env u f st) = st_alerts st"
  "st_emergency (with_health env u f st) = st_emergency st"
  "st_recording (with_health env u f st) = st_recording st"
  "st_transcription (with_health env u f st) = st_transcription st"
  "st_next_alert_id (with_health env u f st) = st_next_alert_id st"
  "st_next_tts_id (with_health env u f st) = st_next_tts_id st"
  "st_admin_state (with_health env u f st) = st_admin_state st"
  "st_enrollment_policy (with_health env u f st) = st_enrollment_policy st"
  "st_metrics (with_health env u f st) = st_metrics st"
  "st_open_connections (with_health env u f st) = st_open_connections st"
  "st_control_clients (with_health env u f st) = st_control_clients st"
  "st_delivered (with_health env u f st) = st_delivered st"
  by (simp_all add: with_health_def)

lemma count_metric_frame [simp]:
  "st_sessions (count_metric f st) = st_sessions st"
  "st_sources (count_metric f st) = st_sources st"
  "st_virtual_sources (count_metric f st) = st_virtual_sources st"
  "st_output_seq (count_metric f st) = st_output_seq st"
  "st_health (count_metric f st) = st_health st"
  "st_alerts (count_metric f st) = st_alerts st"
  "st_emergency (count_metric f st) = st_emergency st"
  "st_recording (count_metric f st) = st_recording st"
  "st_transcription (count_metric f st) = st_transcription st"
  "st_next_alert_id (count_metric f st) = st_next_alert_id st"
  "st_next_tts_id (count_metric f st) = st_next_tts_id st"
  "st_admin_state (count_metric f st) = st_admin_state st"
  "st_enrollment_policy (count_metric f st) = st_enrollment_policy st"
  "st_open_connections (count_metric f st) = st_open_connections st"
  "st_control_clients (count_metric f st) = st_control_clients st"
  "st_delivered (count_metric f st) = st_delivered st"
  by (simp_all add: count_metric_def)

lemma push_presence_updates_frame [simp]:
  "st_sessions (push_presence_updates env st) = st_sessions st"
  "st_alerts (push_presence_updates env st) = st_alerts st"
  "st_admin_state (push_presence_updates env st) = st_admin_state st"
proof -
  have "st_sessions (fold (push_presence_update env) us st) = st_sessions st \<and>
      st_alerts (fold (push_presence_update env) us st) = st_alerts st \<and>
      st_admin_state (fold (push_presence_update env) us st) = st_admin_state st" for us st
    by (induction us arbitrary: st) simp_all
  then show "st_sessions (push_presence_updates env st) = st_sessions st"
    "st_alerts (push_presence_updates env st) = st_alerts st"
    "st_admin_state (push_presence_updates env st) = st_admin_state st"
    by (simp_all add: push_presence_updates_def)
qed

lemma sessions_with_session [simp]:
  "hm_get (st_sessions (with_session env u f st)) v =
     (if v = u then Some (f (case hm_get (st_sessions st) u of Some s \<Rightarrow> s
                             | None \<Rightarrow> session_new (env_now env)))
      else hm_get (st_sessions st) v)"
  by (simp add: with_session_def hm_get_entry split: option.splits)

lemma sessions_modify_session [simp]:
  "hm_get (st_sessions (modify_session u f st)) v =
     (if v = u then map_option f (hm_get (st_sessions st) u) else hm_get (st_sessions st) v)"
  by (simp add: modify_session_def hm_get_modify)

text \<open>A client whose connection is open receives the snapshot of the state.\<close>

lemma push_config_update_delivers:
  assumes "hm_get (st_sessions st) u = Some s" "hm_get (st_control_clients st) u = Some c"
    "c \<in> st_open_connections st"
  shows "\<exists>ev. config_event_snapshot st u = Some ev \<and>
     st_delivered (push_config_update u st) = st_delivered st @ [(c, ev)]"
  using assms
  by (cases "config_event_snapshot st u")
    (auto simp: push_config_update_def send_event_def config_event_snapshot_def split: prod.splits)

end
