(* ===== verification/Alerts.thy ===== *)
theory Alerts
  imports Server_State "HOL-Library.Sublist"
begin

text \<open>
  Alerts and announcements in \<open>server/src/lib.rs\<close>: who an alert reaches, its creation,
  acknowledgement and cancellation, the bounded history, and announcements, which raise
  alerts and play synthesised speech from a virtual source. Speech synthesis (the
  \<open>supertonic\<close> model) is a parameter that returns frames or an error.
\<close>

section \<open>Recipients\<close>

text \<open>Reachable: a control connection or a live audio endpoint.\<close>

definition reachable :: "env \<Rightarrow> server_state \<Rightarrow> user_id \<Rightarrow> session \<Rightarrow> bool" where
  "reachable env st u s =
     (hm_contains (st_control_clients st) u \<or> session_audio_addr s (env_now env) \<noteq> None)"

fun resolve_alert_recipients ::
    "env \<Rightarrow> server_state \<Rightarrow> user_id \<Rightarrow> alert_target \<Rightarrow> user_id list" where
  "resolve_alert_recipients env st sender (AlertUser u) =
     (case hm_get (st_sessions st) u of
        Some s \<Rightarrow> if u \<noteq> sender \<and> reachable env st u s then [u] else []
      | None \<Rightarrow> [])"
| "resolve_alert_recipients env st sender (AlertChannel ch) =
     remdups_adj (sort (map fst (filter (\<lambda>(u, s). u \<noteq> sender \<and> ch \<in> se_listen_channels s \<and>
       reachable env st u s) (st_sessions st))))"

section \<open>History\<close>

fun drop_inactive :: "nat \<Rightarrow> runtime_alert list \<Rightarrow> runtime_alert list" where
  "drop_inactive n [] = []"
| "drop_inactive n (a # as) =
     (if n > 0 \<and> \<not> alert_active a then drop_inactive (n - 1) as else a # drop_inactive n as)"

definition max_inactive_alerts :: nat where
  "max_inactive_alerts = 50"

definition trim_alert_history :: "runtime_alert list \<Rightarrow> runtime_alert list" where
  "trim_alert_history alerts =
     (let inactive = length (filter (\<lambda>a. \<not> alert_active a) alerts)
      in if inactive \<le> max_inactive_alerts then alerts
         else drop_inactive (inactive - max_inactive_alerts) alerts)"

section \<open>Sending\<close>

definition new_alert ::
    "env \<Rightarrow> server_state \<Rightarrow> user_id \<Rightarrow> alert_target \<Rightarrow> string option \<Rightarrow> user_id list \<Rightarrow> runtime_alert" where
  "new_alert env st sender target message recipients =
     \<lparr>ra_id = st_next_alert_id st, ra_sender = sender, ra_target = target,
      ra_message = normalize_optional_message message, ra_created_at_ms = env_unix_ms env,
      ra_recipients = map (\<lambda>u. \<lparr>ar_user_id = u, ar_acked_at_ms = None\<rparr>) recipients,
      ra_cancelled = False, ra_cancelled_at_ms = None\<rparr>"

definition create_runtime_alert ::
    "env \<Rightarrow> user_id \<Rightarrow> alert_target \<Rightarrow> string option \<Rightarrow> user_id list \<Rightarrow> server_state \<Rightarrow>
     server_state \<times> alert_status" where
  "create_runtime_alert env sender target message recipients st =
     (let a = new_alert env st sender target message recipients
      in (st\<lparr>st_next_alert_id := st_next_alert_id st + 1,
             st_alerts := trim_alert_history (st_alerts st @ [a])\<rparr>,
          alert_status_with_sessions a (st_sessions st)))"

definition apply_send_alert_event ::
    "env \<Rightarrow> user_id \<Rightarrow> alert_target \<Rightarrow> string option \<Rightarrow> server_state \<Rightarrow>
     server_state \<times> control_response" where
  "apply_send_alert_event env u target message st =
     (let recipients = resolve_alert_recipients env st u target
      in if recipients = [] then (st, Error ''alert has no live recipients'')
         else (push_config_updates (recipients @ [u])
                 (fst (create_runtime_alert env u target message recipients st)), Ack))"

section \<open>Acknowledging and cancelling\<close>

definition ack_recipient :: "nat \<Rightarrow> user_id \<Rightarrow> runtime_alert \<Rightarrow> runtime_alert" where
  "ack_recipient now_ms u a =
     a\<lparr>ra_recipients := update_first (\<lambda>r. ar_user_id r = u)
        (\<lambda>r. r\<lparr>ar_acked_at_ms := Some now_ms\<rparr>) (ra_recipients a)\<rparr>"

definition apply_ack_alert_event ::
    "env \<Rightarrow> user_id \<Rightarrow> alert_id \<Rightarrow> server_state \<Rightarrow> server_state \<times> control_response" where
  "apply_ack_alert_event env u i st =
     (case find (\<lambda>a. ra_id a = i) (st_alerts st) of
        None \<Rightarrow> (st, Error (''unknown alert '' @ show_word i))
      | Some a \<Rightarrow>
          if \<not> list_ex (\<lambda>r. ar_user_id r = u) (ra_recipients a)
          then (st, Error (''alert '' @ show_word i @ '' is not assigned to client '' @ show_word u))
          else (push_config_updates [u, ra_sender a]
                  (st\<lparr>st_alerts := trim_alert_history
                       (update_first (\<lambda>a. ra_id a = i) (ack_recipient (env_unix_ms env) u)
                          (st_alerts st))\<rparr>), Ack))"

definition cancel_alert :: "nat \<Rightarrow> runtime_alert \<Rightarrow> runtime_alert" where
  "cancel_alert now_ms a = a\<lparr>ra_cancelled := True, ra_cancelled_at_ms := Some now_ms\<rparr>"

definition apply_cancel_alert_event ::
    "env \<Rightarrow> user_id \<Rightarrow> alert_id \<Rightarrow> server_state \<Rightarrow> server_state \<times> control_response" where
  "apply_cancel_alert_event env u i st =
     (case find (\<lambda>a. ra_id a = i) (st_alerts st) of
        None \<Rightarrow> (st, Error (''unknown alert '' @ show_word i))
      | Some a \<Rightarrow>
          if u \<noteq> server_user_id \<and> ra_sender a \<noteq> u
          then (st, Error (''client '' @ show_word u @ '' cannot cancel alert '' @ show_word i))
          else (push_config_updates
                  (remdups_adj (sort (ra_sender a # map ar_user_id (ra_recipients a))))
                  (st\<lparr>st_alerts := trim_alert_history
                       (update_first (\<lambda>a. ra_id a = i) (cancel_alert (env_unix_ms env))
                          (st_alerts st))\<rparr>), Ack))"

section \<open>Announcements\<close>

record announcement_request =
  an_sender :: user_id
  an_targets :: "alert_target list"
  an_target :: "alert_target option"
  an_message :: string
  an_text_alert :: bool
  an_tts :: bool
  an_priority :: bool
  an_duck :: bool
  an_gain :: f32

record announcement_response =
  ap_id :: nat
  ap_sender :: user_id
  ap_targets :: "alert_target list"
  ap_recipients :: "user_id list"
  ap_message :: string
  ap_duration_ms :: "nat option"
  ap_alert_ids :: "alert_id list"

definition tts_max_message_chars :: nat where
  "tts_max_message_chars = 240"

definition normalize_tts_message :: "string \<Rightarrow> admin_api_error + string" where
  "normalize_tts_message message =
     (let m = join '' '' (split_whitespace message)
      in if m = [] then Inl (BadRequest ''announcement message cannot be empty'')
         else Inr (if length m > tts_max_message_chars
                   then take tts_max_message_chars m @ ''...'' else m))"

fun alert_target_label :: "alert_target \<Rightarrow> string" where
  "alert_target_label (AlertUser u) = ''user '' @ show_word u"
| "alert_target_label (AlertChannel c) = ''channel '' @ show_word c"

definition tts_source_user_base :: nat where "tts_source_user_base = 64000"
definition tts_source_user_count :: nat where "tts_source_user_count = 1000"

definition tts_source_user_id :: "nat \<Rightarrow> nat \<Rightarrow> user_id" where
  "tts_source_user_id announcement_id target_index =
     of_nat (tts_source_user_base + (announcement_id * 31 + target_index) mod tts_source_user_count)"

fun announcement_audio_target :: "alert_target \<Rightarrow> audio_target" where
  "announcement_audio_target (AlertUser u) = Direct u"
| "announcement_audio_target (AlertChannel c) = Channel c"

definition start_tts_source ::
    "user_id \<Rightarrow> audio_target \<Rightarrow> i16 list list \<Rightarrow> bool \<Rightarrow> bool \<Rightarrow> server_state \<Rightarrow> server_state" where
  "start_tts_source source_id target frames priority duck st =
     (if frames = [] then st
      else st\<lparr>st_virtual_sources := st_virtual_sources st @
                [virtual_source_new source_id target frames priority duck]\<rparr>)"

text \<open>The recipients of each target, or the first target nobody can be reached under.\<close>

fun resolve_targets ::
    "env \<Rightarrow> server_state \<Rightarrow> user_id \<Rightarrow> alert_target list \<Rightarrow>
     admin_api_error + (alert_target \<times> user_id list) list" where
  "resolve_targets env st sender [] = Inr []"
| "resolve_targets env st sender (t # ts) =
     (let resolved = resolve_alert_recipients env st sender t
      in if resolved = []
         then Inl (BadRequest (''announcement target '' @ alert_target_label t @
                               '' has no live recipients''))
         else case resolve_targets env st sender ts of
                Inl e \<Rightarrow> Inl e | Inr rs \<Rightarrow> Inr ((t, resolved) # rs))"

fun create_alerts ::
    "env \<Rightarrow> user_id \<Rightarrow> string \<Rightarrow> (alert_target \<times> user_id list) list \<Rightarrow> server_state \<Rightarrow>
     server_state \<times> alert_id list" where
  "create_alerts env sender message [] st = (st, [])"
| "create_alerts env sender message ((t, rs) # ts) st =
     (let (st, a) = create_runtime_alert env sender t (Some message) rs st;
          (st, ids) = create_alerts env sender message ts st
      in (st, as_id a # ids))"

fun start_tts_sources ::
    "nat \<Rightarrow> nat \<Rightarrow> i16 list list \<Rightarrow> bool \<Rightarrow> bool \<Rightarrow> alert_target list \<Rightarrow> server_state \<Rightarrow> server_state" where
  "start_tts_sources i k frames priority duck [] st = st"
| "start_tts_sources i k frames priority duck (t # ts) st =
     start_tts_sources i (k + 1) frames priority duck ts
       (start_tts_source (tts_source_user_id i k) (announcement_audio_target t) frames priority
          duck st)"

definition announcement_targets :: "announcement_request \<Rightarrow> alert_target list" where
  "announcement_targets rq = sorted_unique_alert_targets
     (an_targets rq @ (case an_target rq of None \<Rightarrow> [] | Some t \<Rightarrow> [t]))"

definition announce_text ::
    "env \<Rightarrow> announcement_request \<Rightarrow> string \<Rightarrow> (alert_target \<times> user_id list) list \<Rightarrow> server_state \<Rightarrow>
     server_state \<times> alert_id list" where
  "announce_text env rq message resolved st =
     (if an_text_alert rq then create_alerts env (an_sender rq) message resolved st else (st, []))"

definition announce ::
    "(nat \<Rightarrow> string \<Rightarrow> f32 \<Rightarrow> admin_api_error + i16 list list) \<Rightarrow> env \<Rightarrow> announcement_request \<Rightarrow>
     string \<Rightarrow> (alert_target \<times> user_id list) list \<Rightarrow> server_state \<Rightarrow>
     server_state \<times> (admin_api_error + announcement_response)" where
  "announce synth env rq message resolved st =
     (let recipients = remdups_adj (sort (concat (map snd resolved)));
          targets = map fst resolved;
          i = st_next_tts_id st;
          (st, ids) = announce_text env rq message resolved (st\<lparr>st_next_tts_id := i + 1\<rparr>);
          done = (\<lambda>st duration.
            (push_config_updates (remdups_adj (sort (recipients @ [an_sender rq]))) st,
             Inr \<lparr>ap_id = i, ap_sender = an_sender rq, ap_targets = targets,
                  ap_recipients = recipients, ap_message = message, ap_duration_ms = duration,
                  ap_alert_ids = ids\<rparr>))
      in if \<not> an_tts rq then done st None
         else case synth i message (f_clamp (an_gain rq) (rnd binary32 (2 / 100)) (Fin 1)) of
                Inl e \<Rightarrow> (st, Inl e)
              | Inr frames \<Rightarrow>
                  done (start_tts_sources i 0 frames (an_priority rq) (an_duck rq) targets st)
                    (Some (length frames * frame_ms)))"

definition apply_announcement_event ::
    "(nat \<Rightarrow> string \<Rightarrow> f32 \<Rightarrow> admin_api_error + i16 list list) \<Rightarrow> env \<Rightarrow> announcement_request \<Rightarrow>
     server_state \<Rightarrow> server_state \<times> (admin_api_error + announcement_response)" where
  "apply_announcement_event synth env rq st =
     (case normalize_tts_message (an_message rq) of
        Inl e \<Rightarrow> (st, Inl e)
      | Inr message \<Rightarrow>
          if \<not> an_text_alert rq \<and> \<not> an_tts rq
          then (st, Inl (BadRequest ''enable at least text alert or spoken announcement''))
          else if announcement_targets rq = []
          then (st, Inl (BadRequest
                 ''announcement requires at least one live user or channel target''))
          else case resolve_targets env st (an_sender rq) (announcement_targets rq) of
                 Inl e \<Rightarrow> (st, Inl e)
               | Inr resolved \<Rightarrow> announce synth env rq message resolved st)"

section \<open>The abstract view: who still has to acknowledge what\<close>

text \<open>What the alert list means: the pairs of an alert and a user it waits for.\<close>

definition pending_acks :: "runtime_alert list \<Rightarrow> (alert_id \<times> user_id) set" where
  "pending_acks alerts = {(ra_id a, u) | a u. a \<in> set alerts \<and> alert_active_for a u}"

definition alerts_ok :: "server_state \<Rightarrow> bool" where
  "alerts_ok st =
     (distinct (map ra_id (st_alerts st)) \<and>
      list_all (\<lambda>a. ra_id a < st_next_alert_id st \<and> distinct (map ar_user_id (ra_recipients a)))
        (st_alerts st))"

lemma filter_active_drop: "filter alert_active (drop_inactive n as) = filter alert_active as"
  by (induction n as rule: drop_inactive.induct) auto

lemma filter_inactive_drop:
  "filter (\<lambda>a. \<not> alert_active a) (drop_inactive n as) = drop n (filter (\<lambda>a. \<not> alert_active a) as)"
  by (induction n as rule: drop_inactive.induct) (auto simp: drop_Cons' )

lemma subseq_drop_inactive: "subseq (drop_inactive n as) as"
  by (induction n as rule: drop_inactive.induct) auto

lemma trim_facts:
  "filter alert_active (trim_alert_history as) = filter alert_active as"
  "filter (\<lambda>a. \<not> alert_active a) (trim_alert_history as) =
     last_n max_inactive_alerts (filter (\<lambda>a. \<not> alert_active a) as)"
  "subseq (trim_alert_history as) as"
  by (simp_all add: trim_alert_history_def Let_def filter_active_drop filter_inactive_drop
      subseq_drop_inactive last_n_def)

lemma alert_active_for_active: "alert_active_for a u \<Longrightarrow> alert_active a"
  by (auto simp: alert_active_for_def alert_active_def list_ex_iff)

lemma pending_acks_active:
  "pending_acks as = {(ra_id a, u) | a u. a \<in> set (filter alert_active as) \<and> alert_active_for a u}"
  by (auto simp: pending_acks_def dest: alert_active_for_active)

lemma pending_acks_trim [simp]: "pending_acks (trim_alert_history as) = pending_acks as"
  by (simp add: pending_acks_active trim_facts)

lemma subseq_distinct_map: "subseq xs ys \<Longrightarrow> distinct (map f ys) \<Longrightarrow> distinct (map f xs)"
  by (auto simp: subseq_conv_nths nths_map [symmetric] distinct_nthsI)

lemma subseq_subset: "subseq xs ys \<Longrightarrow> x \<in> set xs \<Longrightarrow> x \<in> set ys"
  by (auto simp: subseq_conv_nths dest: in_set_nthsD)

lemma alerts_ok_trim:
  "alerts_ok (st\<lparr>st_alerts := as\<rparr>) \<Longrightarrow> alerts_ok (st\<lparr>st_alerts := trim_alert_history as\<rparr>)"
  using trim_facts(3) [of as]
  by (auto simp: alerts_ok_def list_all_iff subseq_distinct_map dest: subseq_subset)

lemma pending_acks_append [simp]: "pending_acks (as @ bs) = pending_acks as \<union> pending_acks bs"
  by (auto simp: pending_acks_def)

lemma pending_acks_Nil [simp]: "pending_acks [] = {}"
  by (simp add: pending_acks_def)

lemma pending_acks_Cons:
  "pending_acks (a # as) = {ra_id a} \<times> {u. alert_active_for a u} \<union> pending_acks as"
  by (auto simp: pending_acks_def)

lemma pending_acks_new:
  "pending_acks [new_alert env st s t m rs] = {st_next_alert_id st} \<times> set rs"
  by (auto simp: pending_acks_Cons new_alert_def alert_active_for_def list_ex_iff)

lemma pending_ids: "(i, u) \<in> pending_acks as \<Longrightarrow> i \<in> ra_id ` set as"
  by (auto simp: pending_acks_def)

text \<open>Changing the one alert with id \<open>i\<close> changes its pairs only.\<close>

lemma pending_update:
  assumes "distinct (map ra_id as)" "find (\<lambda>a. ra_id a = i) as = Some a"
    and f: "\<And>b. ra_id (f b) = ra_id b"
  shows "pending_acks (update_first (\<lambda>a. ra_id a = i) f as) =
     {p \<in> pending_acks as. fst p \<noteq> i} \<union> {i} \<times> {u. alert_active_for (f a) u}"
  using assms(1,2)
proof (induction as)
  case (Cons b bs)
  show ?case
  proof (cases "ra_id b = i")
    case True
    with Cons.prems have i: "i \<notin> ra_id ` set bs" and a: "a = b" by auto
    have fresh: "fst p \<noteq> i" if "p \<in> pending_acks bs" for p
      using that i pending_ids [of "fst p" "snd p" bs] by auto
    have old: "{p \<in> pending_acks (b # bs). fst p \<noteq> i} = pending_acks bs"
      using True fresh by (auto simp: pending_acks_Cons)
    show ?thesis unfolding old using True by (simp add: pending_acks_Cons f a Un_commute)
  next
    case False
    then have "pending_acks (update_first (\<lambda>a. ra_id a = i) f (b # bs)) =
        {ra_id b} \<times> {u. alert_active_for b u} \<union>
        ({p \<in> pending_acks bs. fst p \<noteq> i} \<union> {i} \<times> {u. alert_active_for (f a) u})"
      using Cons.IH Cons.prems by (simp add: pending_acks_Cons)
    also have "\<dots> = {p \<in> pending_acks (b # bs). fst p \<noteq> i} \<union> {i} \<times> {u. alert_active_for (f a) u}"
      using False by (auto simp add: pending_acks_Cons)
    finally show ?thesis .
  qed
qed simp

lemma active_for_ack:
  assumes "distinct (map ar_user_id (ra_recipients a))"
  shows "alert_active_for (ack_recipient now u a) v \<longleftrightarrow> alert_active_for a v \<and> v \<noteq> u"
proof -
  have "list_ex (\<lambda>r. ar_user_id r = v \<and> ar_acked_at_ms r = None)
          (update_first (\<lambda>r. ar_user_id r = u) (\<lambda>r. r\<lparr>ar_acked_at_ms := Some now\<rparr>) rs) \<longleftrightarrow>
        list_ex (\<lambda>r. ar_user_id r = v \<and> ar_acked_at_ms r = None) rs \<and> v \<noteq> u"
    if "distinct (map ar_user_id rs)" for rs :: "alert_recipient_status list"
    using that
  proof (induction rs)
    case (Cons r rs)
    show ?case
    proof (cases "ar_user_id r = u")
      case True
      with Cons.prems have "\<not> list_ex (\<lambda>r. ar_user_id r = u \<and> ar_acked_at_ms r = None) rs"
        unfolding list_ex_iff by (simp; metis imageI)
      with True show ?thesis by auto
    next
      case False
      with Cons show ?thesis by auto
    qed
  qed simp
  with assms show ?thesis by (simp add: alert_active_for_def ack_recipient_def)
qed

lemma active_for_cancelled [simp]: "\<not> alert_active_for (cancel_alert now a) u"
  by (simp add: alert_active_for_def cancel_alert_def)

lemma distinct_remdups_sort: "distinct (remdups_adj (sort (xs :: ('a :: linorder) list)))"
  using strict_sorted_dedup_sort [of xs] by (simp add: dedup_by_eq strict_sorted_iff)

lemma set_resolve_alert_recipients:
  "set (resolve_alert_recipients env st sender t) =
     (case t of
        AlertUser u \<Rightarrow> {v. v = u \<and> v \<noteq> sender \<and>
           (\<exists>s. hm_get (st_sessions st) v = Some s \<and> reachable env st v s)}
      | AlertChannel ch \<Rightarrow> {v. v \<noteq> sender \<and>
           (\<exists>s. (v, s) \<in> set (st_sessions st) \<and> ch \<in> se_listen_channels s \<and> reachable env st v s)})"
  by (cases t) (force split: option.splits)+

lemma distinct_resolve_alert_recipients [simp]: "distinct (resolve_alert_recipients env st sender t)"
  by (cases t) (auto split: option.splits simp: distinct_remdups_sort)

section \<open>The handlers refine the abstract view\<close>

lemma create_alert_pending:
  "pending_acks (st_alerts (fst (create_runtime_alert env s t m rs st))) =
     pending_acks (st_alerts st) \<union> {st_next_alert_id st} \<times> set rs"
  by (simp add: create_runtime_alert_def Let_def pending_acks_new)

lemma create_alert_ok:
  assumes "alerts_ok st" "st_next_alert_id st \<noteq> - 1" "distinct rs"
  shows "alerts_ok (fst (create_runtime_alert env s t m rs st))"
proof -
  let ?a = "new_alert env st s t m rs"
  have less: "x < st_next_alert_id st + 1" if "x \<le> st_next_alert_id st" for x
  proof -
    have "1 + st_next_alert_id st \<noteq> 0"
      using assms(2) by (metis add.commute eq_neg_iff_add_eq_0)
    then have "unat (st_next_alert_id st + 1) = Suc (unat (st_next_alert_id st))"
      using unatSuc [of "st_next_alert_id st"] by (simp add: add.commute)
    with that show ?thesis by (simp add: word_less_nat_alt word_le_nat_alt)
  qed
  have "alerts_ok (st\<lparr>st_next_alert_id := st_next_alert_id st + 1, st_alerts := st_alerts st @ [?a]\<rparr>)"
    using assms(1,3) less
    by (auto simp: alerts_ok_def list_all_iff new_alert_def comp_def less_imp_le)
  from alerts_ok_trim [where st = "st\<lparr>st_next_alert_id := st_next_alert_id st + 1\<rparr>"
      and as = "st_alerts st @ [?a]"] this
  show ?thesis by (simp add: create_runtime_alert_def Let_def)
qed

lemma update_first_alert_ok:
  assumes "alerts_ok st" and f: "\<And>b. ra_id (f b) = ra_id b"
    "\<And>b. map ar_user_id (ra_recipients (f b)) = map ar_user_id (ra_recipients b)"
  shows "alerts_ok (st\<lparr>st_alerts := trim_alert_history (update_first (\<lambda>a. ra_id a = i) f (st_alerts st))\<rparr>)"
proof (rule alerts_ok_trim)
  have "map ra_id (update_first p f as) = map ra_id as" for p as
    by (induction as) (simp_all add: f)
  moreover have "list_all (\<lambda>a. ra_id a < n \<and> distinct (map ar_user_id (ra_recipients a))) (update_first p f as) =
      list_all (\<lambda>a. ra_id a < n \<and> distinct (map ar_user_id (ra_recipients a))) as" for n p as
    by (induction as) (simp_all add: f)
  ultimately show "alerts_ok (st\<lparr>st_alerts := update_first (\<lambda>a. ra_id a = i) f (st_alerts st)\<rparr>)"
    using assms(1) by (simp add: alerts_ok_def)
qed

lemma ack_recipient_fields [simp]:
  "ra_id (ack_recipient now u a) = ra_id a"
  "map ar_user_id (ra_recipients (ack_recipient now u a)) = map ar_user_id (ra_recipients a)"
proof -
  have "map ar_user_id (update_first p (\<lambda>r. r\<lparr>ar_acked_at_ms := t\<rparr>) rs) = map ar_user_id rs" for p t rs
    by (induction rs) simp_all
  then show "ra_id (ack_recipient now u a) = ra_id a"
    "map ar_user_id (ra_recipients (ack_recipient now u a)) = map ar_user_id (ra_recipients a)"
    by (simp_all add: ack_recipient_def)
qed

lemma cancel_alert_fields [simp]:
  "ra_id (cancel_alert now a) = ra_id a" "ra_recipients (cancel_alert now a) = ra_recipients a"
  by (simp_all add: cancel_alert_def)

lemma find_in_set: "find p xs = Some x \<Longrightarrow> x \<in> set xs \<and> p x"
  by (induction xs) (auto split: if_splits)

lemma alerts_ok_push [simp]: "alerts_ok (push_config_updates us st) = alerts_ok st"
  by (simp add: alerts_ok_def)

lemma alerts_ok_send:
  "alerts_ok st \<Longrightarrow> st_next_alert_id st \<noteq> - 1 \<Longrightarrow>
     alerts_ok (fst (apply_send_alert_event env u t m st))"
  by (auto simp: apply_send_alert_event_def Let_def intro: create_alert_ok)

lemma alerts_ok_ack: "alerts_ok st \<Longrightarrow> alerts_ok (fst (apply_ack_alert_event env u i st))"
  by (auto simp: apply_ack_alert_event_def intro: update_first_alert_ok split: option.splits)

lemma alerts_ok_cancel: "alerts_ok st \<Longrightarrow> alerts_ok (fst (apply_cancel_alert_event env u i st))"
  by (auto simp: apply_cancel_alert_event_def intro: update_first_alert_ok split: option.splits)

lemma send_refines:
  "case apply_send_alert_event env u t m st of
     (st', r) \<Rightarrow>
       (if resolve_alert_recipients env st u t = [] then st' = st \<and> r \<noteq> Ack
        else r = Ack \<and> u \<notin> set (resolve_alert_recipients env st u t) \<and>
          pending_acks (st_alerts st') = pending_acks (st_alerts st) \<union>
            {st_next_alert_id st} \<times> set (resolve_alert_recipients env st u t))"
proof -
  have "u \<notin> set (resolve_alert_recipients env st u t)"
    by (auto simp: set_resolve_alert_recipients split: alert_target.splits)
  then show ?thesis
    by (simp add: apply_send_alert_event_def Let_def create_alert_pending)
qed

lemma ack_refines:
  assumes "alerts_ok st"
  shows "case apply_ack_alert_event env u i st of
     (st', r) \<Rightarrow>
       (if r = Ack then pending_acks (st_alerts st') = pending_acks (st_alerts st) - {(i, u)}
        else st' = st \<and> (i, u) \<notin> pending_acks (st_alerts st))"
proof (cases "find (\<lambda>a. ra_id a = i) (st_alerts st)")
  case None
  then have "i \<notin> ra_id ` set (st_alerts st)" unfolding find_None_iff by blast
  then have "(i, u) \<notin> pending_acks (st_alerts st)" using pending_ids by blast
  with None show ?thesis by (simp add: apply_ack_alert_event_def)
next
  case (Some a)
  note a = find_in_set [OF Some]
  have dist: "distinct (map ra_id (st_alerts st))" "distinct (map ar_user_id (ra_recipients a))"
    using assms a by (auto simp: alerts_ok_def list_all_iff)
  have only: "alert_active_for a v" if "(i, v) \<in> pending_acks (st_alerts st)" for v
    using that a dist(1) by (auto simp: pending_acks_def distinct_map dest: inj_onD)
  have mem: "(i, v) \<in> pending_acks (st_alerts st)" if "alert_active_for a v" for v
    using that a by (auto simp: pending_acks_def)
  show ?thesis
  proof (cases "list_ex (\<lambda>r. ar_user_id r = u) (ra_recipients a)")
    case True
    have "pending_acks (update_first (\<lambda>a. ra_id a = i) (ack_recipient (env_unix_ms env) u) (st_alerts st)) =
        pending_acks (st_alerts st) - {(i, u)}"
      unfolding pending_update [OF dist(1) Some ack_recipient_fields(1)] active_for_ack [OF dist(2)]
      using only mem by auto
    with True Some show ?thesis by (simp add: apply_ack_alert_event_def)
  next
    case False
    then have "\<not> alert_active_for a u" by (auto simp: alert_active_for_def list_ex_iff)
    with False Some only show ?thesis by (auto simp: apply_ack_alert_event_def)
  qed
qed

lemma cancel_refines:
  assumes "alerts_ok st"
  shows "case apply_cancel_alert_event env u i st of
     (st', r) \<Rightarrow>
       (if r = Ack
        then pending_acks (st_alerts st') = pending_acks (st_alerts st) - {i} \<times> UNIV \<and>
          (u = server_user_id \<or> map_option ra_sender (find (\<lambda>a. ra_id a = i) (st_alerts st)) = Some u)
        else st' = st)"
proof (cases "find (\<lambda>a. ra_id a = i) (st_alerts st)")
  case (Some a)
  have dist: "distinct (map ra_id (st_alerts st))" using assms by (simp add: alerts_ok_def)
  have "pending_acks (update_first (\<lambda>a. ra_id a = i) (cancel_alert (env_unix_ms env)) (st_alerts st)) =
      pending_acks (st_alerts st) - {i} \<times> UNIV"
    unfolding pending_update [OF dist Some cancel_alert_fields(1)] by auto
  with Some show ?thesis by (auto simp: apply_cancel_alert_event_def)
qed (simp add: apply_cancel_alert_event_def)

section \<open>What an announcement does\<close>

lemma resolve_targets_Inr:
  "resolve_targets env st sender ts = Inr rs \<Longrightarrow>
     rs = map (\<lambda>t. (t, resolve_alert_recipients env st sender t)) ts"
  by (induction ts arbitrary: rs) (auto simp: Let_def split: if_splits sum.splits)

lemma create_alerts_Cons:
  "fst (create_alerts env s m ((t, rs) # ts) st) =
     fst (create_alerts env s m ts (fst (create_runtime_alert env s t (Some m) rs st)))"
  by (simp split: prod.splits)

lemma create_alerts_frame [simp]:
  "st_virtual_sources (fst (create_alerts env s m rs st)) = st_virtual_sources st"
  "st_delivered (fst (create_alerts env s m rs st)) = st_delivered st"
  by (induction rs arbitrary: st)
    (auto simp: create_alerts_Cons create_runtime_alert_def Let_def simp del: create_alerts.simps(2))

lemma start_tts_sources_vs:
  "st_virtual_sources (start_tts_sources i k frames p d ts st) =
     st_virtual_sources st @ (if frames = [] then [] else
       map (\<lambda>(k, t). virtual_source_new (tts_source_user_id i k) (announcement_audio_target t) frames p d)
         (List.enumerate k ts))"
  by (induction i k frames p d ts st rule: start_tts_sources.induct) (simp_all add: start_tts_source_def)

lemma tts_source_user_id_range: "unat (tts_source_user_id i k) \<in> {64000..<65000}"
proof -
  have "tts_source_user_base + (i * 31 + k) mod tts_source_user_count \<in> {64000..<65000}"
    by (simp add: tts_source_user_base_def tts_source_user_count_def)
  then show ?thesis unfolding tts_source_user_id_def by (subst unat_u16) auto
qed

text \<open>The virtual sources an announcement adds.\<close>

definition spoken_by ::
    "announcement_request \<Rightarrow> alert_target list \<Rightarrow> virtual_audio_source list \<Rightarrow> bool" where
  "spoken_by rq ts vs =
     ((vs = [] \<or> map vs_target vs = map announcement_audio_target ts) \<and>
      unat ` vs_user_id ` set vs \<subseteq> {64000..<65000} \<and>
      vs_priority ` set vs \<subseteq> {an_priority rq} \<and> vs_duck ` set vs \<subseteq> {an_duck rq})"

lemma start_tts_sources_spoken:
  "\<exists>vs. st_virtual_sources (start_tts_sources i 0 frames (an_priority rq) (an_duck rq) ts st) =
     st_virtual_sources st @ vs \<and> spoken_by rq ts vs"
proof (cases "frames = []")
  case False
  let ?vs = "map (\<lambda>(k, t). virtual_source_new (tts_source_user_id i k) (announcement_audio_target t)
      frames (an_priority rq) (an_duck rq)) (List.enumerate 0 ts)"
  have "map vs_target ?vs = map (announcement_audio_target \<circ> snd) (List.enumerate 0 ts)"
    by (simp add: case_prod_unfold virtual_source_new_def comp_def)
  then have "map vs_target ?vs = map announcement_audio_target ts"
    by (simp only: map_map [symmetric] map_snd_enumerate)
  moreover have "\<exists>k t. v = virtual_source_new (tts_source_user_id i k) t frames (an_priority rq) (an_duck rq)"
    if "v \<in> set ?vs" for v using that by auto
  then have "unat ` vs_user_id ` set ?vs \<subseteq> {64000..<65000} \<and>
      vs_priority ` set ?vs \<subseteq> {an_priority rq} \<and> vs_duck ` set ?vs \<subseteq> {an_duck rq}"
    using tts_source_user_id_range by (fastforce simp: virtual_source_new_def)
  ultimately have "spoken_by rq ts ?vs" unfolding spoken_by_def by blast
  with False show ?thesis by (auto simp: start_tts_sources_vs)
qed (simp add: start_tts_sources_vs spoken_by_def)

lemma announce_facts:
  "case announce synth env rq m rs st of
     (st', Inl e) \<Rightarrow> st_virtual_sources st' = st_virtual_sources st \<and> st_delivered st' = st_delivered st
   | (st', Inr resp) \<Rightarrow>
       set (ap_recipients resp) = \<Union> (set ` snd ` set rs) \<and>
       (\<exists>vs. st_virtual_sources st' = st_virtual_sources st @ vs \<and> spoken_by rq (map fst rs) vs)"
proof -
  obtain st1 ids where c: "announce_text env rq m rs (st\<lparr>st_next_tts_id := st_next_tts_id st + 1\<rparr>) = (st1, ids)"
    by (rule prod.exhaust)
  then have "st1 = fst (announce_text env rq m rs (st\<lparr>st_next_tts_id := st_next_tts_id st + 1\<rparr>))" by simp
  then have st1: "st_virtual_sources st1 = st_virtual_sources st" "st_delivered st1 = st_delivered st"
    by (simp_all add: announce_text_def)
  have quiet: "\<exists>vs. st_virtual_sources st = st_virtual_sources st @ vs \<and> spoken_by rq ts vs" for ts
    by (simp add: spoken_by_def)
  have loud: "\<exists>vs. st_virtual_sources (start_tts_sources i 0 frames (an_priority rq) (an_duck rq) ts st1) =
      st_virtual_sources st @ vs \<and> spoken_by rq ts vs" for i frames ts
    using start_tts_sources_spoken [of i frames rq ts st1] by (simp only: st1)
  show ?thesis
  proof (cases "an_tts rq")
    case False
    then show ?thesis using quiet by (simp add: announce_def Let_def c [simplified] st1 c)
  next
    case True
    show ?thesis
    proof (cases "synth (st_next_tts_id st) m (f_clamp (an_gain rq) (rnd binary32 (2 / 100)) (Fin 1))")
      case (Inl e)
      with True show ?thesis by (simp add: announce_def Let_def c [simplified] st1 c)
    next
      case (Inr frames)
      with True show ?thesis using loud by (simp add: announce_def Let_def c [simplified] st1 c)
    qed
  qed
qed

text \<open>When synthesis fails, the alerts the announcement already raised stay, and their
  recipients are not told.\<close>

lemma failed_speech_keeps_alerts:
  "an_text_alert rq \<Longrightarrow> an_tts rq \<Longrightarrow> (\<And>i m g. synth i m g = Inl e) \<Longrightarrow>
     announce synth env rq m rs st =
       (fst (create_alerts env (an_sender rq) m rs (st\<lparr>st_next_tts_id := st_next_tts_id st + 1\<rparr>)), Inl e)"
  by (simp add: announce_def announce_text_def Let_def split: prod.splits)

section \<open>Properties\<close>

text \<open>Trimming the alert history never loses an alert somebody still has to acknowledge:
  all active alerts stay, in order, of the others the newest fifty stay, and the order of
  the list is kept.\<close>

lemma trim_keeps_active_alerts:
  "filter alert_active (trim_alert_history as) = filter alert_active as \<and>
   filter (\<lambda>a. \<not> alert_active a) (trim_alert_history as) =
     last_n 50 (filter (\<lambda>a. \<not> alert_active a) as) \<and>
   subseq (trim_alert_history as) as"
  using trim_facts [of as] by (simp add: max_inactive_alerts_def)

text \<open>C14. Alerts do what the set of open acknowledgements says. Sending adds the new alert
  for exactly its recipients: live users other than the sender (the user addressed, or those
  who listen to the channel); it fails when there are none. An acknowledgement removes that
  alert for that user; a cancellation, by the sender or the server only, removes it for
  everyone. A request that is refused changes nothing.\<close>

theorem alerts_refine_pending_acks:
  assumes ok: "alerts_ok st"
  shows "(case apply_send_alert_event env u t m st of (st', r) \<Rightarrow>
            (if resolve_alert_recipients env st u t = [] then st' = st \<and> r \<noteq> Ack
             else r = Ack \<and> u \<notin> set (resolve_alert_recipients env st u t) \<and>
               pending_acks (st_alerts st') = pending_acks (st_alerts st) \<union>
                 {st_next_alert_id st} \<times> set (resolve_alert_recipients env st u t))) \<and>
         (case apply_ack_alert_event env u i st of (st', r) \<Rightarrow>
            (if r = Ack then pending_acks (st_alerts st') = pending_acks (st_alerts st) - {(i, u)}
             else st' = st \<and> (i, u) \<notin> pending_acks (st_alerts st))) \<and>
         (case apply_cancel_alert_event env u i st of (st', r) \<Rightarrow>
            (if r = Ack
             then pending_acks (st_alerts st') = pending_acks (st_alerts st) - {i} \<times> UNIV \<and>
               (u = server_user_id \<or>
                map_option ra_sender (find (\<lambda>a. ra_id a = i) (st_alerts st)) = Some u)
             else st' = st))"
  by (rule conjI [OF send_refines conjI [OF ack_refines [OF ok] cancel_refines [OF ok]]])

theorem alerts_refine_pending_acks_witness:
  "\<exists>st. alerts_ok st \<and> st_alerts st \<noteq> [] \<and>
     (case apply_ack_alert_event \<lparr>env_now = 0, env_unix_ms = 7, env_save = \<lambda>_. None\<rparr> 2 1 st of (st', r) \<Rightarrow>
        (if r = Ack then pending_acks (st_alerts st') = pending_acks (st_alerts st) - {(1, 2)}
         else st' = st \<and> (1, 2) \<notin> pending_acks (st_alerts st)))"
proof -
  let ?a = "\<lparr>ra_id = 1, ra_sender = 3, ra_target = AlertUser 2, ra_message = None,
      ra_created_at_ms = 5, ra_recipients = [\<lparr>ar_user_id = 2, ar_acked_at_ms = None\<rparr>],
      ra_cancelled = False, ra_cancelled_at_ms = None\<rparr>"
  let ?st = "(server_state_new default_admin_state PolicyAuto)\<lparr>st_alerts := [?a], st_next_alert_id := 2\<rparr>"
  have ok: "alerts_ok ?st" by (simp add: alerts_ok_def)
  note r = alerts_refine_pending_acks [OF ok, where u = 2 and i = 1 and t = "AlertUser 3" and m = None
      and env = "\<lparr>env_now = 0, env_unix_ms = 7, env_save = \<lambda>_. None\<rparr>"]
  show ?thesis
  proof (intro exI [of _ ?st] conjI)
    show "alerts_ok ?st" by (rule ok)
    show "st_alerts ?st \<noteq> []" by simp
  qed (rule conjunct1 [OF conjunct2 [OF r]])
qed

text \<open>An announcement that succeeds reaches every live recipient of each of its targets,
  never its sender, and is spoken, if at all, by one new virtual source per target, in target
  order, under the reserved ids 64000 to 64999, with the priority and ducking asked for. One
  that fails plays nothing and notifies nobody.\<close>

lemma announcement_reaches_targets:
  "case apply_announcement_event synth env rq st of
     (st', Inl e) \<Rightarrow> st_virtual_sources st' = st_virtual_sources st \<and> st_delivered st' = st_delivered st
   | (st', Inr resp) \<Rightarrow>
       set (ap_recipients resp) =
         \<Union> (set ` resolve_alert_recipients env st (an_sender rq) ` set (announcement_targets rq)) \<and>
       an_sender rq \<notin> set (ap_recipients resp) \<and>
       (\<exists>vs. st_virtual_sources st' = st_virtual_sources st @ vs \<and>
          (vs = [] \<or> map vs_target vs = map announcement_audio_target (announcement_targets rq)) \<and>
          unat ` vs_user_id ` set vs \<subseteq> {64000..<65000} \<and>
          vs_priority ` set vs \<subseteq> {an_priority rq} \<and> vs_duck ` set vs \<subseteq> {an_duck rq})"
proof -
  let ?ts = "announcement_targets rq"
  let ?rs = "map (\<lambda>t. (t, resolve_alert_recipients env st (an_sender rq) t)) ?ts"
  have sender: "an_sender rq \<notin> \<Union> (set ` resolve_alert_recipients env st (an_sender rq) ` set ?ts)"
    by (auto simp: set_resolve_alert_recipients split: alert_target.splits)
  have rs: "snd ` set ?rs = resolve_alert_recipients env st (an_sender rq) ` set ?ts" "map fst ?rs = ?ts"
    by (simp_all add: image_image comp_def)
  note facts = announce_facts [where synth = synth and env = env and rq = rq and rs = ?rs and st = st,
      unfolded rs spoken_by_def]
  show ?thesis
  proof (cases "resolve_targets env st (an_sender rq) ?ts")
    case (Inr r)
    then have r: "resolve_targets env st (an_sender rq) ?ts = Inr ?rs"
      using resolve_targets_Inr by blast
    have "\<exists>m. apply_announcement_event synth env rq st = announce synth env rq m ?rs st" if
      "normalize_tts_message (an_message rq) = Inr m" "an_text_alert rq \<or> an_tts rq" "?ts \<noteq> []" for m
      using that by (auto simp: apply_announcement_event_def r)
    moreover have "\<exists>e. apply_announcement_event synth env rq st = (st, Inl e)" if
      "\<And>m. normalize_tts_message (an_message rq) \<noteq> Inr m \<or> \<not> (an_text_alert rq \<or> an_tts rq) \<or> ?ts = []"
      using that by (cases "normalize_tts_message (an_message rq)") (auto simp: apply_announcement_event_def)
    ultimately consider m where "apply_announcement_event synth env rq st = announce synth env rq m ?rs st"
      | e where "apply_announcement_event synth env rq st = (st, Inl e)" by blast
    then show ?thesis
    proof cases
      case (1 m)
      show ?thesis unfolding 1 using facts [of m] sender
        by (simp split: prod.splits sum.splits) 
    qed simp
  next
    case (Inl e)
    then have "\<exists>e. apply_announcement_event synth env rq st = (st, Inl e)"
      by (cases "normalize_tts_message (an_message rq)") (auto simp: apply_announcement_event_def)
    then show ?thesis by auto
  qed
qed

end
