(* ===== verification/Calls.thy ===== *)
theory Calls
  imports Alerts
begin

text \<open>
  Direct calls, replies, the talk routes of buttons, what a disconnect clears and the
  emergency state, in \<open>server/src/lib.rs\<close> (\<open>apply_direct_call_event\<close>,
  \<open>apply_reply_call_event\<close>, \<open>start_button_transmit_routes\<close>, \<open>stop_button_transmit_routes\<close>,
  \<open>clear_active_buttons\<close>, \<open>apply_emergency_event\<close>, \<open>clear_emergency_for_source\<close>).
\<close>

section \<open>Call history\<close>

text \<open>\<open>iter_mut().rev().find(p)\<close> and a change of the entry found: the newest match.\<close>

definition update_last :: "('a \<Rightarrow> bool) \<Rightarrow> ('a \<Rightarrow> 'a) \<Rightarrow> 'a list \<Rightarrow> 'a list" where
  "update_last p f xs = rev (update_first p f (rev xs))"

definition max_direct_call_history :: nat where
  "max_direct_call_history = 20"

definition history_entry ::
    "instant \<Rightarrow> user_id \<Rightarrow> user_id \<Rightarrow> bool \<Rightarrow> button_id option \<Rightarrow> direct_call_history" where
  "history_entry now caller target duck button =
     \<lparr>dh_caller = caller, dh_target = target, dh_started = now, dh_ended = None, dh_duck = duck,
      dh_source_button = button\<rparr>"

definition add_history :: "direct_call_history \<Rightarrow> session \<Rightarrow> session" where
  "add_history h s = s\<lparr>se_direct_call_history := se_direct_call_history s @ [h]\<rparr>"

definition close_history :: "instant \<Rightarrow> (direct_call_history \<Rightarrow> bool) \<Rightarrow> session \<Rightarrow> session" where
  "close_history now p s =
     s\<lparr>se_direct_call_history :=
        update_last (\<lambda>h. p h \<and> dh_ended h = None) (\<lambda>h. h\<lparr>dh_ended := Some now\<rparr>)
          (se_direct_call_history s)\<rparr>"

definition trim_direct_history :: "user_id \<Rightarrow> sessions \<Rightarrow> sessions" where
  "trim_direct_history u ss =
     hm_modify u (\<lambda>s. s\<lparr>se_direct_call_history :=
       drop (length (se_direct_call_history s) - max_direct_call_history)
         (se_direct_call_history s)\<rparr>) ss"

definition between :: "user_id \<Rightarrow> user_id \<Rightarrow> direct_call_history \<Rightarrow> bool" where
  "between caller target h = (dh_caller h = caller \<and> dh_target h = target)"

definition close_button_direct_history ::
    "user_id \<Rightarrow> user_id \<Rightarrow> button_id \<Rightarrow> instant \<Rightarrow> sessions \<Rightarrow> sessions" where
  "close_button_direct_history u target b now ss =
     fold (\<lambda>i. hm_modify i (close_history now
            (\<lambda>h. between u target h \<and> dh_source_button h = Some b))) [u, target] ss"

definition close_direct_call_history ::
    "user_id \<Rightarrow> user_id \<Rightarrow> instant \<Rightarrow> sessions \<Rightarrow> sessions" where
  "close_direct_call_history u target now ss =
     fold (\<lambda>i. hm_modify i (close_history now
            (\<lambda>h. between u target h \<and> dh_source_button h = None))) [u, target] ss"

section \<open>Direct calls and replies\<close>

definition call_caller ::
    "env \<Rightarrow> user_id \<Rightarrow> user_id \<Rightarrow> bool \<Rightarrow> bool \<Rightarrow> session \<Rightarrow> session" where
  "call_caller env u target active duck s =
     (let s = (if active
               then add_history (history_entry (env_now env) u target duck None)
                      (s\<lparr>se_active_direct_calls :=
                         hm_insert target \<lparr>adc_duck = duck\<rparr> (se_active_direct_calls s)\<rparr>)
               else close_history (env_now env) (between u target)
                      (s\<lparr>se_active_direct_calls := hm_remove target (se_active_direct_calls s)\<rparr>))
      in s\<lparr>se_last_seen := env_now env\<rparr>)"

definition call_target ::
    "env \<Rightarrow> user_id \<Rightarrow> user_id \<Rightarrow> bool \<Rightarrow> bool \<Rightarrow> session \<Rightarrow> session" where
  "call_target env u target active duck s =
     (if active
      then add_history (history_entry (env_now env) u target duck None)
             (s\<lparr>se_last_direct_caller := Some u\<rparr>)
      else close_history (env_now env) (between u target) s)"

definition apply_direct_call_event ::
    "env \<Rightarrow> user_id \<Rightarrow> user_id \<Rightarrow> bool \<Rightarrow> bool \<Rightarrow> server_state \<Rightarrow>
     server_state \<times> control_response" where
  "apply_direct_call_event env u target active duck st =
     (if u = target then (st, Error ''cannot direct-call yourself'')
      else if \<not> hm_contains (st_sessions st) target
      then (st, Error (''unknown target client '' @ show_word target))
      else
        let ss = hm_entry u (session_new (env_now env)) (call_caller env u target active duck)
                   (st_sessions st);
            ss = hm_modify target (call_target env u target active duck) ss;
            ss = trim_direct_history target (trim_direct_history u ss)
        in (push_config_updates [u, target] (st\<lparr>st_sessions := ss\<rparr>), Ack))"

definition apply_reply_call_event ::
    "env \<Rightarrow> user_id \<Rightarrow> bool \<Rightarrow> bool \<Rightarrow> server_state \<Rightarrow> server_state \<times> control_response" where
  "apply_reply_call_event env u active duck st =
     (case hm_get (st_sessions st) u of
        None \<Rightarrow> (st, Error (''unknown client '' @ show_word u))
      | Some s \<Rightarrow>
          (case se_last_direct_caller s of
             None \<Rightarrow> (st, Error ''no last direct caller to reply to'')
           | Some target \<Rightarrow> apply_direct_call_event env u target active duck st))"

section \<open>Talk routes of buttons\<close>

definition start_route ::
    "env \<Rightarrow> user_id \<Rightarrow> button_id \<Rightarrow> user_id \<times> bool \<Rightarrow> sessions \<times> user_id list \<Rightarrow>
     sessions \<times> user_id list" where
  "start_route env u b = (\<lambda>(target, duck) (ss, targets).
     (if u = target \<or> \<not> hm_contains ss target then (ss, targets)
      else
        let h = history_entry (env_now env) u target duck (Some b);
            ss = hm_modify u (add_history h) ss;
            ss = hm_modify target (\<lambda>s. add_history h (s\<lparr>se_last_direct_caller := Some u\<rparr>)) ss
        in (ss, targets @ [target])))"

definition start_button_transmit_routes ::
    "env \<Rightarrow> user_id \<Rightarrow> talk_button_config \<Rightarrow> server_state \<Rightarrow> server_state" where
  "start_button_transmit_routes env u button st =
     (let (ss, targets) = fold (start_route env u (btn_id button))
            (concat (map transmit_calls (btn_actions button))) (st_sessions st, []);
          ss = fold trim_direct_history (u # targets) ss
      in push_config_updates targets (st\<lparr>st_sessions := ss\<rparr>))"

definition button_users :: "talk_button_config \<Rightarrow> user_id list" where
  "button_users button = concat (map transmit_users (btn_actions button))"

definition stop_button_transmit_routes ::
    "env \<Rightarrow> user_id \<Rightarrow> talk_button_config \<Rightarrow> server_state \<Rightarrow> server_state" where
  "stop_button_transmit_routes env u button st =
     push_config_updates (button_users button)
       (st\<lparr>st_sessions := fold (\<lambda>t. close_button_direct_history u t (btn_id button) (env_now env))
              (button_users button) (st_sessions st)\<rparr>)"

section \<open>What a disconnect clears\<close>

definition silence :: "session \<Rightarrow> session" where
  "silence s = s\<lparr>se_active_buttons := {}, se_regular_talk_active := False,
                 se_active_direct_calls := []\<rparr>"

definition clear_active_buttons :: "env \<Rightarrow> user_id \<Rightarrow> server_state \<Rightarrow> server_state" where
  "clear_active_buttons env u st =
     (let ss = st_sessions st;
          direct = (case hm_get ss u of None \<Rightarrow> [] | Some s \<Rightarrow> hm_keys (se_active_direct_calls s));
          held = (case hm_get ss u of None \<Rightarrow> []
                  | Some s \<Rightarrow> filter (\<lambda>b. btn_id b \<in> se_active_buttons s) (se_buttons s));
          ss = fold (\<lambda>b. fold (\<lambda>t. close_button_direct_history u t (btn_id b) (env_now env))
                           (button_users b)) held ss;
          ss = fold (\<lambda>t. close_direct_call_history u t (env_now env)) direct ss;
          ss = hm_modify u silence ss
      in push_config_updates
           (remdups_adj (sort (direct @ concat (map button_users held))) @ [u])
           (st\<lparr>st_sessions := ss\<rparr>))"

section \<open>Emergencies\<close>

definition apply_emergency_event ::
    "env \<Rightarrow> user_id \<Rightarrow> bool \<Rightarrow> emergency_target \<Rightarrow> f32 \<Rightarrow> bool \<Rightarrow> server_state \<Rightarrow>
     server_state \<times> control_response" where
  "apply_emergency_event env u active target duck_gain mute_others st =
     (if active \<and> \<not> hm_contains (st_sessions st) u
      then (st, Error (''unknown client '' @ show_word u))
      else
        let affected = remdups_adj (sort (hm_keys (st_sessions st) @ [u]));
            done = (\<lambda>e. (push_config_updates affected (st\<lparr>st_emergency := e\<rparr>), Ack))
        in if active
           then done (Some \<lparr>re_source = u, re_target = normalize_emergency_target target,
                            re_duck_gain = normalize_duck_gain duck_gain,
                            re_mute_others = mute_others\<rparr>)
           else case st_emergency st of
                  None \<Rightarrow> done None
                | Some e \<Rightarrow>
                    if re_source e = u \<or> u = server_user_id then done None
                    else (st, Error (''client '' @ show_word u @
                                     '' cannot clear the active emergency'')))"

definition clear_emergency_for_source :: "env \<Rightarrow> user_id \<Rightarrow> server_state \<Rightarrow> server_state" where
  "clear_emergency_for_source env u st =
     (case st_emergency st of None \<Rightarrow> st
      | Some e \<Rightarrow>
          if re_source e \<noteq> u then st
          else push_config_updates (hm_keys (st_sessions st)) (st\<lparr>st_emergency := None\<rparr>))"

section \<open>Properties\<close>

lemma length_update_last [simp]: "length (update_last p f xs) = length xs"
proof -
  have "length (update_first p f ys) = length ys" for ys :: "'a list"
    by (induction ys) simp_all
  then show ?thesis by (simp add: update_last_def)
qed

lemma close_history_frame [simp]:
  "se_active_direct_calls (close_history now p s) = se_active_direct_calls s"
  "se_active_buttons (close_history now p s) = se_active_buttons s"
  "se_buttons (close_history now p s) = se_buttons s"
  "se_talk_mode (close_history now p s) = se_talk_mode s"
  "se_tx_channels (close_history now p s) = se_tx_channels s"
  "se_regular_talk_active (close_history now p s) = se_regular_talk_active s"
  "se_last_direct_caller (close_history now p s) = se_last_direct_caller s"
  "length (se_direct_call_history (close_history now p s)) = length (se_direct_call_history s)"
  by (simp_all add: close_history_def)

text \<open>What a session sends depends on its talk state only.\<close>

definition button_targets :: "session \<Rightarrow> audio_target set" where
  "button_targets s =
     Channel ` effective_tx_channels s \<union>
     \<Union> (set (map (\<lambda>a. Direct ` set (transmit_users a)) (active_actions s)))"

lemma active_tx_targets_split:
  "active_tx_targets s = button_targets s \<union> Direct ` fst ` set (se_active_direct_calls s)"
  by (auto simp: active_tx_targets_def button_targets_def)

definition same_talk :: "session \<Rightarrow> session \<Rightarrow> bool" where
  "same_talk s' s =
     (se_talk_mode s' = se_talk_mode s \<and> se_tx_channels s' = se_tx_channels s \<and>
      se_regular_talk_active s' = se_regular_talk_active s \<and>
      se_active_buttons s' = se_active_buttons s \<and> se_buttons s' = se_buttons s)"

lemma same_talk_targets: "same_talk s' s \<Longrightarrow> button_targets s' = button_targets s"
  by (simp add: same_talk_def button_targets_def effective_tx_channels_def active_actions_def)

lemma set_hm_remove: "fst ` set (AList.delete k m) = fst ` set m - {k}"
  using delete_keys [of k m] by (metis set_map set_removeAll)

lemma call_caller_facts:
  "same_talk (call_caller env u t active duck s) s"
  "fst ` set (se_active_direct_calls (call_caller env u t active duck s)) =
     (if active then insert t else (\<lambda>ts. ts - {t})) (fst ` set (se_active_direct_calls s))"
  "se_last_direct_caller (call_caller env u t active duck s) = se_last_direct_caller s"
  by (simp_all add: call_caller_def same_talk_def add_history_def close_history_def Let_def
      set_hm_remove dom_update)

lemma call_target_facts:
  "same_talk (call_target env u t active duck s) s"
  "se_active_direct_calls (call_target env u t active duck s) = se_active_direct_calls s"
  "se_last_direct_caller (call_target env u t active duck s) =
     (if active then Some u else se_last_direct_caller s)"
  by (simp_all add: call_target_def same_talk_def add_history_def close_history_def)

lemma trim_direct_history_get:
  "hm_get (trim_direct_history u ss) v =
     (if v = u then map_option (\<lambda>s. s\<lparr>se_direct_call_history :=
        last_n max_direct_call_history (se_direct_call_history s)\<rparr>) (hm_get ss u)
      else hm_get ss v)"
  by (simp add: trim_direct_history_def hm_get_modify last_n_def)

lemma direct_call_facts:
  "case apply_direct_call_event env u t active duck st of (st', r) \<Rightarrow>
     if u = t \<or> t \<notin> set (hm_keys (st_sessions st)) then st' = st \<and> (\<exists>m. r = Error m)
     else \<exists>s s' c c'.
       r = Ack \<and>
       (case hm_get (st_sessions st) u of None \<Rightarrow> s = session_new (env_now env) | Some s0 \<Rightarrow> s = s0) \<and>
       hm_get (st_sessions st') u = Some s' \<and>
       active_tx_targets s' - {Direct t} = active_tx_targets s - {Direct t} \<and>
       (Direct t \<in> active_tx_targets s' \<longleftrightarrow> active \<or> Direct t \<in> button_targets s) \<and>
       hm_get (st_sessions st) t = Some c \<and> hm_get (st_sessions st') t = Some c' \<and>
       active_tx_targets c' = active_tx_targets c \<and>
       se_last_direct_caller c' = (if active then Some u else se_last_direct_caller c) \<and>
       length (se_direct_call_history s') \<le> 20 \<and> length (se_direct_call_history c') \<le> 20 \<and>
       hm_get (st_sessions st') |` (- {u, t}) = hm_get (st_sessions st) |` (- {u, t})"
proof (cases "u = t \<or> t \<notin> set (hm_keys (st_sessions st))")
  case False
  then obtain c where c: "hm_get (st_sessions st) t = Some c" and ut: "u \<noteq> t"
    by (metis set_hm_keys map_of_eq_None_iff not_None_eq)
  let ?s = "case hm_get (st_sessions st) u of None \<Rightarrow> session_new (env_now env) | Some s0 \<Rightarrow> s0"
  let ?trim = "\<lambda>s. s\<lparr>se_direct_call_history := last_n max_direct_call_history (se_direct_call_history s)\<rparr>"
  let ?s' = "?trim (call_caller env u t active duck ?s)"
  let ?c' = "?trim (call_target env u t active duck c)"
  obtain st' r where st': "apply_direct_call_event env u t active duck st = (st', r)"
    by fastforce
  with False have ss: "r = Ack" "hm_get (st_sessions st') u = Some ?s'"
    "hm_get (st_sessions st') t = Some ?c'"
    "hm_get (st_sessions st') |` (- {u, t}) = hm_get (st_sessions st) |` (- {u, t})"
    using c ut
    by (auto simp: apply_direct_call_event_def Let_def trim_direct_history_get hm_get_modify
        hm_get_entry restrict_map_def fun_eq_iff split: option.splits)
  have talk: "same_talk ?s' ?s" "same_talk ?c' c"
    using call_caller_facts(1) call_target_facts(1) by (simp_all add: same_talk_def)
  have "active_tx_targets ?s' - {Direct t} = active_tx_targets ?s - {Direct t}"
    "Direct t \<in> active_tx_targets ?s' \<longleftrightarrow> active \<or> Direct t \<in> button_targets ?s"
    by (auto simp: active_tx_targets_split same_talk_targets [OF talk(1)] call_caller_facts image_iff)
  moreover have "active_tx_targets ?c' = active_tx_targets c"
    by (simp add: active_tx_targets_split same_talk_targets [OF talk(2)] call_target_facts)
  moreover have "length (se_direct_call_history ?s') \<le> 20" "length (se_direct_call_history ?c') \<le> 20"
    by (simp_all add: max_direct_call_history_def)
  ultimately show ?thesis
    unfolding st' using False c ss
    by (auto simp: call_target_facts intro!: exI [of _ ?s] exI [of _ ?s'] exI [of _ ?c'] split: option.splits)
qed (auto simp: apply_direct_call_event_def)

text \<open>A direct call between two clients: calling oneself or somebody unknown changes
  nothing and is an error. Otherwise the caller sends to the callee exactly while the call is
  active, or one of the caller's buttons addresses the callee; the caller's other audio
  targets stay as they were; the callee remembers the caller when the call starts, keeps its
  own audio targets, nobody else's session changes, and both histories keep at most
  20 entries.\<close>

lemma direct_call_effect:
  "case apply_direct_call_event env u t active duck st of (st', r) \<Rightarrow>
     if t \<in> insert u (- set (hm_keys (st_sessions st))) then st' = st \<and> (\<exists>m. r = Error m)
     else \<exists>s s' c c'.
       r = Ack \<and>
       (case hm_get (st_sessions st) u of None \<Rightarrow> s = session_new (env_now env) | Some s0 \<Rightarrow> s = s0) \<and>
       hm_get (st_sessions st') u = Some s' \<and>
       active_tx_targets s' - {Direct t} = active_tx_targets s - {Direct t} \<and>
       (Direct t \<in> active_tx_targets s' \<longleftrightarrow> active \<or> Direct t \<in> button_targets s) \<and>
       hm_get (st_sessions st) t = Some c \<and> hm_get (st_sessions st') t = Some c' \<and>
       active_tx_targets c' = active_tx_targets c \<and>
       se_last_direct_caller c' = (if active then Some u else se_last_direct_caller c) \<and>
       length (se_direct_call_history s') \<le> 20 \<and> length (se_direct_call_history c') \<le> 20 \<and>
       hm_get (st_sessions st') |` (- {u, t}) = hm_get (st_sessions st) |` (- {u, t})"
  using direct_call_facts [where env = env and u = u and t = t and active = active and duck = duck and st = st]
  by (simp only: insert_iff Compl_iff eq_commute [of t u])

text \<open>After a client was called it can reply: the reply is the direct call back to that
  caller, and it is accepted.\<close>

lemma reply_calls_back:
  assumes "u \<noteq> t" "t \<in> set (hm_keys (st_sessions st))"
  shows "case apply_direct_call_event env u t True duck st of (st', r) \<Rightarrow>
     apply_reply_call_event env' t active duck' st' = apply_direct_call_event env' t u active duck' st' \<and>
     snd (apply_reply_call_event env' t active duck' st') = Ack"
proof -
  obtain st' r where st': "apply_direct_call_event env u t True duck st = (st', r)"
    by fastforce
  then obtain c' s' where c': "hm_get (st_sessions st') t = Some c'" "se_last_direct_caller c' = Some u"
    and s': "hm_get (st_sessions st') u = Some s'"
    using direct_call_facts [where env = env and u = u and t = t and active = True and duck = duck and st = st] assms by auto
  from c' have "apply_reply_call_event env' t active duck' st' =
      apply_direct_call_event env' t u active duck' st'"
    by (simp add: apply_reply_call_event_def)
  moreover have "snd (apply_direct_call_event env' t u active duck' st') = Ack"
    using assms(1) map_of_SomeD [OF s'] by (force simp: apply_direct_call_event_def Let_def)
  ultimately show ?thesis by (simp add: st')
qed

definition sample_env :: env where
  "sample_env = \<lparr>env_now = millis 9000, env_unix_ms = 1, env_save = (\<lambda>_. None)\<rparr>"

definition two_clients :: server_state where
  "two_clients = (server_state_new default_admin_state PolicyAuto)
     \<lparr>st_sessions := [(1, session_new 0), (2, session_new 0)]\<rparr>"

text \<open>Who an emergency reaches: every session but the source's, the named users with a
  session, or the listeners of a named channel; the list is sorted without repetition, and
  a client is shown the emergency exactly when it is the source or reached.\<close>

lemma emergency_reaches:
  "set (emergency_recipients_for_sessions e ss) =
     {v. (\<exists>s. (v, s) \<in> set ss \<and> v \<noteq> re_source e \<and>
        (case re_target e of EmergencyAll \<Rightarrow> True | EmergencyUsers us \<Rightarrow> v \<in> set us
         | EmergencyChannels cs \<Rightarrow> set cs \<inter> se_listen_channels s \<noteq> {}))} \<and>
   sorted (emergency_recipients_for_sessions e ss) \<and>
   distinct (emergency_recipients_for_sessions e ss) \<and>
   {v. emergency_status_for_user (Some e) ss v \<noteq> None} =
     insert (re_source e) (set (emergency_recipients_for_sessions e ss))"
proof -
  have "set (emergency_recipients_for_sessions e ss) =
     {v. (\<exists>s. (v, s) \<in> set ss \<and> v \<noteq> re_source e \<and>
        (case re_target e of EmergencyAll \<Rightarrow> True | EmergencyUsers us \<Rightarrow> v \<in> set us
         | EmergencyChannels cs \<Rightarrow> set cs \<inter> se_listen_channels s \<noteq> {}))}"
    by (cases "re_target e")
      (force simp: emergency_recipients_for_sessions_def list_ex_iff)+
  moreover have "sorted (emergency_recipients_for_sessions e ss)"
    "distinct (emergency_recipients_for_sessions e ss)"
    by (simp_all add: emergency_recipients_for_sessions_def distinct_remdups_sort)
  ultimately show ?thesis
    by (auto simp: emergency_status_for_user_def Let_def)
qed

text \<open>An emergency starts only from a client with a session and replaces the current
  one; it ends only by its source or by the server (user 0). A refused request changes
  nothing and an accepted one changes no session.\<close>

lemma emergency_control:
  "case apply_emergency_event env u active target gain mute st of (st', r) \<Rightarrow>
     (r = Ack \<longleftrightarrow>
        (if active then u \<in> set (hm_keys (st_sessions st))
         else case st_emergency st of None \<Rightarrow> True | Some e \<Rightarrow> re_source e = u \<or> u = server_user_id)) \<and>
     (if r = Ack
      then st_sessions st' = st_sessions st \<and>
           st_emergency st' =
             (if active then Some \<lparr>re_source = u, re_target = normalize_emergency_target target,
                                   re_duck_gain = normalize_duck_gain gain, re_mute_others = mute\<rparr>
              else None)
      else st' = st)"
  by (auto simp: apply_emergency_event_def Let_def split: option.splits)

text \<open>Closing history entries leaves every session's talk state as it is.\<close>

definition talk_state where
  "talk_state s = (se_talk_mode s, se_tx_channels s, se_regular_talk_active s,
     se_active_buttons s, se_buttons s, se_active_direct_calls s)"

definition keeps_talk :: "sessions \<Rightarrow> sessions \<Rightarrow> bool" where
  "keeps_talk ss' ss =
     (hm_wf ss' = hm_wf ss \<and>
      (\<forall>v. map_option talk_state (hm_get ss' v) = map_option talk_state (hm_get ss v)))"

lemma talk_state_targets: "talk_state s' = talk_state s \<Longrightarrow> active_tx_targets s' = active_tx_targets s"
  by (simp add: talk_state_def active_tx_targets_def effective_tx_channels_def active_actions_def)

lemma talk_state_options:
  assumes "map_option talk_state a = map_option talk_state b"
  shows "map_option active_tx_targets a = map_option active_tx_targets b"
proof (cases a)
  case (Some s)
  with assms obtain s' where "b = Some s'" "talk_state s' = talk_state s" by (cases b) auto
  then show ?thesis by (simp add: Some talk_state_targets [of s'])
qed (use assms in simp)

lemma keeps_talk_refl [simp]: "keeps_talk ss ss"
  by (simp add: keeps_talk_def)

lemma keeps_talk_trans: "keeps_talk a b \<Longrightarrow> keeps_talk b c \<Longrightarrow> keeps_talk a c"
  by (simp add: keeps_talk_def)

lemma hm_wf_modify_iff [simp]: "hm_wf (hm_modify k f m) = hm_wf m"
proof (cases "map_of m k")
  case (Some v)
  then have "k \<in> set (map fst m)" using map_of_SomeD by force
  then show ?thesis using Some by (simp add: hm_modify_def hm_wf_def update_keys del: set_map list.set_map)
qed (simp add: hm_modify_def)

lemma talk_state_close_history [simp]: "talk_state (close_history now p s) = talk_state s"
  by (simp add: talk_state_def close_history_def)

lemma keeps_talk_close: "keeps_talk (hm_modify i (close_history now p) ss) ss"
  by (simp add: keeps_talk_def hm_get_modify option.map_comp comp_def)

lemma keeps_talk_fold: "(\<And>x ss. keeps_talk (f x ss) ss) \<Longrightarrow> keeps_talk (fold f xs ss) ss"
  by (induction xs arbitrary: ss) (auto intro: keeps_talk_trans)

lemma keeps_talk_closes:
  "keeps_talk (close_button_direct_history u t b now ss) ss"
  "keeps_talk (close_direct_call_history u t now ss) ss"
  unfolding close_button_direct_history_def close_direct_call_history_def
  by (rule keeps_talk_fold, rule keeps_talk_close)+

lemma clear_active_buttons_sessions:
  "\<exists>ss. keeps_talk ss (st_sessions st) \<and>
     st_sessions (clear_active_buttons env u st) = hm_modify u silence ss"
  unfolding clear_active_buttons_def Let_def push_config_updates_frame
  by (intro exI conjI [rotated], simp)
    (auto intro!: keeps_talk_trans [OF keeps_talk_fold keeps_talk_fold] keeps_talk_fold keeps_talk_closes)

lemma silence_targets:
  "active_tx_targets (silence s) = (if se_talk_mode s = Open then Channel ` se_tx_channels s else {})"
  "session_calls (silence s) = []"
  by (simp_all add: silence_def active_tx_targets_def effective_tx_channels_def active_actions_def
      session_calls_def hm_keys_def)

lemma set_active_direct_calls_caller:
  assumes "hm_wf ss" "u \<in> dcs_caller ` set (active_direct_call_statuses_for_user v ss)"
  shows "\<exists>s. hm_get ss u = Some s \<and> session_calls s \<noteq> []"
proof -
  from assms(2) obtain s t d where "(u, s) \<in> set ss" "(t, d) \<in> set (session_calls s)"
    using set_dedup_by unfolding active_direct_call_statuses_for_user_def
    by (fastforce simp: call_status_def)
  with assms(1) show ?thesis by (auto simp: hm_wf_mem)
qed

lemma clear_active_buttons_facts:
  assumes "hm_wf (st_sessions st)"
  shows "case st_sessions (clear_active_buttons env u st) of ss' \<Rightarrow>
     map_option active_tx_targets (hm_get ss' u) =
       map_option (\<lambda>s. if se_talk_mode s = Open then Channel ` se_tx_channels s else {})
         (hm_get (st_sessions st) u) \<and>
     u \<notin> dcs_caller ` set (active_direct_call_statuses_for_user v ss') \<and>
     (w = u \<or> map_option active_tx_targets (hm_get ss' w) =
                map_option active_tx_targets (hm_get (st_sessions st) w))"
proof -
  obtain ss where ss: "keeps_talk ss (st_sessions st)"
    and new: "st_sessions (clear_active_buttons env u st) = hm_modify u silence ss"
    using clear_active_buttons_sessions by blast
  have r: "map_option talk_state (hm_get ss v) = map_option talk_state (hm_get (st_sessions st) v)" for v
    using ss by (simp add: keeps_talk_def)
  have "map_option active_tx_targets (hm_get (hm_modify u silence ss) w) =
      map_option active_tx_targets (hm_get (st_sessions st) w)" if "w \<noteq> u"
    using talk_state_options [OF r [of w]] that by (simp add: hm_get_modify)
  moreover have "map_option active_tx_targets (hm_get (hm_modify u silence ss) u) =
      map_option (\<lambda>s. if se_talk_mode s = Open then Channel ` se_tx_channels s else {})
         (hm_get (st_sessions st) u)"
    using r [of u] by (cases "hm_get ss u"; cases "hm_get (st_sessions st) u")
      (auto simp: silence_targets talk_state_def)
  moreover have "u \<notin> dcs_caller ` set (active_direct_call_statuses_for_user v (hm_modify u silence ss))"
    using set_active_direct_calls_caller [of "hm_modify u silence ss" u v] assms ss
    by (auto simp: keeps_talk_def silence_targets hm_get_modify)
  ultimately show ?thesis by (auto simp: new)
qed

text \<open>What a disconnect leaves: the client transmits only what its open microphone mode
  sends, nobody is shown a call made by it, and every other client sends where it sent
  before.\<close>

lemma disconnect_silences:
  assumes "hm_wf (st_sessions st)"
  shows "case st_sessions (clear_active_buttons env u st) of ss' \<Rightarrow>
     map_option active_tx_targets (hm_get ss' u) =
       map_option (\<lambda>s. if se_talk_mode s = Open then Channel ` se_tx_channels s else {})
         (hm_get (st_sessions st) u) \<and>
     u \<notin> dcs_caller ` set (active_direct_call_statuses_for_user v ss') \<and>
     (w = u \<or> map_option active_tx_targets (hm_get ss' w) =
                map_option active_tx_targets (hm_get (st_sessions st) w))"
  using assms by (rule clear_active_buttons_facts)

end
