(* ===== verification/Desired_Config.thy ===== *)
theory Desired_Config
  imports Server_State
begin

text \<open>
  Desired client configurations in \<open>server/src/lib.rs\<close>: the lockout policy that a client's
  own requests are checked against, codec availability, route edits, and the operations
  that store a configuration, save the administrator's state and bring the live session and
  the client up to date (\<open>apply_desired_client\<close>, \<open>apply_preset\<close>).
\<close>

section \<open>Lockout\<close>

text \<open>Equality of two volume maps as Rust compares them: equal keys, equal \<open>f32\<close> values; a
  NaN differs from itself.\<close>

definition volumes_eq :: "('k, f32) hash_map \<Rightarrow> ('k, f32) hash_map \<Rightarrow> bool" where
  "volumes_eq a b =
     (set (hm_keys a) = set (hm_keys b) \<and>
      list_all (\<lambda>k. case (hm_get a k, hm_get b k) of
                      (Some x, Some y) \<Rightarrow> f_eq x y | _ \<Rightarrow> False) (hm_keys a))"

definition ifb_eq :: "ifb_config \<Rightarrow> ifb_config \<Rightarrow> bool" where
  "ifb_eq a b =
     (ifb_enabled a = ifb_enabled b \<and> ifb_program a = ifb_program b \<and>
      ifb_interrupt a = ifb_interrupt b \<and> f_eq (ifb_duck_gain a) (ifb_duck_gain b))"

definition ensure_control_allowed ::
    "server_state \<Rightarrow> user_id \<Rightarrow> (client_lockout_policy \<Rightarrow> bool) \<Rightarrow> string \<Rightarrow> string option" where
  "ensure_control_allowed st u allowed label =
     (if allowed (dc_lockout (desired_baseline_for_user st u)) then None
      else Some (label @ '' is locked by admin''))"

text \<open>An optional value that, when given, differs from the stored one.\<close>

definition differs :: "('a \<Rightarrow> bool) \<Rightarrow> 'a option \<Rightarrow> bool" where
  "differs same v = (case v of None \<Rightarrow> False | Some x \<Rightarrow> \<not> same x)"

definition validate_config_lockout ::
    "desired_client_config \<Rightarrow> config_request \<Rightarrow> string option" where
  "validate_config_lockout base cr =
     (let lo = dc_lockout base in
      if \<not> lo_allow_channels lo \<and>
         (\<not> same_channels (cr_listen cr) (dc_listen base) \<or> \<not> same_channels (cr_tx cr) (dc_tx base))
      then Some ''channels are locked by admin''
      else if \<not> lo_allow_volumes lo \<and>
         (\<not> volumes_eq (cr_vol cr) (dc_vol base) \<or>
          differs (\<lambda>v. volumes_eq v (dc_talker_vol base)) (cr_talker_vol cr))
      then Some ''volumes are locked by admin''
      else if \<not> lo_allow_codec lo \<and>
         (differs (\<lambda>v. v = dc_codec base) (cr_codec cr) \<or>
          differs (\<lambda>v. v = dc_opus_profile base) (cr_opus_profile cr))
      then Some ''codec is locked by admin''
      else if \<not> lo_allow_talk_mode lo \<and> differs (\<lambda>v. v = dc_talk_mode base) (cr_talk_mode cr)
      then Some ''talk mode is locked by admin''
      else if \<not> lo_allow_priority lo \<and> differs (\<lambda>v. v = dc_priority base) (cr_priority cr)
      then Some ''priority is locked by admin''
      else if \<not> lo_allow_priority lo \<and>
         differs (\<lambda>v. same_channels v (dc_priority_channels base)) (cr_priority_channels cr)
      then Some ''priority is locked by admin''
      else if \<not> lo_allow_buttons lo \<and>
         differs (\<lambda>v. normalize_button_configs v = dc_buttons base) (cr_buttons cr)
      then Some ''buttons are locked by admin''
      else if \<not> lo_allow_ifb lo \<and>
         differs (\<lambda>v. ifb_eq (normalize_ifb_config v) (dc_ifb base)) (cr_ifb cr)
      then Some ''IFB is locked by admin''
      else None)"

section \<open>Codec availability\<close>

fun codec_name :: "codec \<Rightarrow> string" where
  "codec_name Pcm16 = ''Pcm16''"
| "codec_name Adpcm = ''Adpcm''"
| "codec_name Opus = ''Opus''"
| "codec_name Pcm24 = ''Pcm24''"
| "codec_name Pcm48 = ''Pcm48''"

definition codec_available_for_user ::
    "env \<Rightarrow> server_state \<Rightarrow> user_id \<Rightarrow> codec \<Rightarrow> string option" where
  "codec_available_for_user env st u codec =
     (if \<not> codec_supported codec
      then Some (''server was built without support for '' @ codec_name codec)
      else case hm_get (st_sessions st) u of
             None \<Rightarrow> None
           | Some s \<Rightarrow>
               if session_audio_addr s (env_now env) = None \<and> \<not> hm_contains (st_control_clients st) u
               then None
               else if codec \<in> se_supported_codecs s then None
               else Some (''client '' @ show_word u @ '' does not advertise support for '' @
                          codec_name codec))"

section \<open>Route edits\<close>

text \<open>A toggle removes the channel when it is there and adds it otherwise, one after the other.\<close>

definition toggle_channel :: "channel_id \<Rightarrow> channel_id set \<Rightarrow> channel_id set" where
  "toggle_channel c s = (if c \<in> s then s - {c} else insert c s)"

definition apply_route_edits ::
    "channel_id list \<Rightarrow> channel_id list \<Rightarrow> channel_id list \<Rightarrow> channel_id list \<Rightarrow> channel_id list" where
  "apply_route_edits routes add remove toggle =
     sorted_list_of_set (fold toggle_channel toggle ((set routes \<union> set add) - set remove))"

definition action_users_or_self :: "user_id list \<Rightarrow> user_id \<Rightarrow> user_id list" where
  "action_users_or_self users u = (if users = [] then [u] else users)"

section \<open>Storing and applying a configuration\<close>

definition default_supported_codecs :: "codec list" where
  "default_supported_codecs = [Pcm16]"

definition new_device ::
    "nat \<Rightarrow> client_uid \<Rightarrow> user_id \<Rightarrow> enrollment_status \<Rightarrow> string \<Rightarrow> client_role \<Rightarrow> string list \<Rightarrow>
     device_enrollment" where
  "new_device now_ms uid u status name role warnings =
     \<lparr>de_client_uid = uid, de_user_id = u, de_status = status, de_name = name, de_role = role,
      de_first_seen_ms = now_ms, de_last_seen_ms = now_ms, de_hardware_fingerprint = None,
      de_warnings = warnings, de_supported_codecs = default_supported_codecs,
      de_advertised_buttons = [], de_capabilities = default_client_capabilities\<rparr>"

definition enroll_desired_device ::
    "nat \<Rightarrow> desired_client_config \<Rightarrow> device_enrollment list \<Rightarrow> device_enrollment list" where
  "enroll_desired_device now_ms d devices =
     (case dc_client_uid d of None \<Rightarrow> devices
      | Some uid \<Rightarrow>
          let uid = normalize_client_uid uid (Some (dc_user_id d))
          in normalize_device_enrollments
               (if list_ex (\<lambda>v. de_client_uid v = uid) devices
                then update_first (\<lambda>v. de_client_uid v = uid)
                       (\<lambda>v. v\<lparr>de_user_id := dc_user_id d, de_status := Enrolled,
                              de_role := dc_role d,
                              de_name := (if dc_name d = [] then de_name v else dc_name d),
                              de_last_seen_ms := now_ms\<rparr>) devices
                else devices @ [new_device now_ms uid (dc_user_id d) Enrolled (dc_name d)
                                  (dc_role d) []]))"

definition clean_desired :: "desired_client_config \<Rightarrow> desired_client_config" where
  "clean_desired d = d
     \<lparr>dc_client_uid := map_option (\<lambda>uid. normalize_client_uid uid (Some (dc_user_id d)))
                          (dc_client_uid d),
      dc_priority_channels := sorted_unique_channels (dc_priority_channels d)\<rparr>"

definition store_desired_client ::
    "env \<Rightarrow> desired_client_config \<Rightarrow> persisted_admin_state \<Rightarrow> persisted_admin_state" where
  "store_desired_client env d a =
     a\<lparr>ad_devices := enroll_desired_device (env_unix_ms env) d (ad_devices a),
       ad_clients := upsert_desired_client (ad_clients a) d\<rparr>"

definition apply_desired_client ::
    "env \<Rightarrow> desired_client_config \<Rightarrow> server_state \<Rightarrow> server_state \<times> control_response" where
  "apply_desired_client env desired st =
     (let d = clean_desired desired;
          st = st\<lparr>st_admin_state := store_desired_client env d (st_admin_state st)\<rparr>
      in case save_admin_state env st of
           Some err \<Rightarrow> (st, Error (''save admin state: '' @ err))
         | None \<Rightarrow> (push_config_update (dc_user_id d) (apply_desired_to_live_session env d st), Ack))"

text \<open>The error of an administrator's operation is a message either way.\<close>

definition apply_preset ::
    "env \<Rightarrow> preset_config \<Rightarrow> server_state \<Rightarrow> server_state \<times> string option" where
  "apply_preset env preset st =
     (let clients = normalize_preset_clients (pr_clients preset);
          st = st\<lparr>st_admin_state := (st_admin_state st)
                 \<lparr>ad_clients := fold (\<lambda>d cs. upsert_desired_client cs d) clients
                                 (ad_clients (st_admin_state st))\<rparr>\<rparr>
      in case save_admin_state env st of
           Some err \<Rightarrow> (st, Some err)
         | None \<Rightarrow> (fold (\<lambda>d st. push_config_update (dc_user_id d)
                                 (apply_desired_to_live_session env d st)) clients st, None))"

definition template_desired_for_user ::
    "server_state \<Rightarrow> string \<Rightarrow> user_id \<Rightarrow> admin_api_error + desired_client_config" where
  "template_desired_for_user st template_id u =
     (case normalize_config_id template_id ''template'' of
        Inl e \<Rightarrow> Inl e
      | Inr i \<Rightarrow>
          (case find (\<lambda>t. ct_id t = i) (ad_templates (st_admin_state st)) of
             None \<Rightarrow> Inl (BadRequest (''unknown template `'' @ i @ ''`''))
           | Some t \<Rightarrow> Inr (to_desired (ct_client t) u)))"

end
