(* ===== verification/Buttons.thy ===== *)
theory Buttons
  imports Calls Desired_Config
begin

text \<open>
  Button events in \<open>server/src/lib.rs\<close>: \<open>apply_button_event\<close> with momentary and latching
  buttons, and \<open>execute_button_activation_actions\<close>, which raises alerts, applies presets,
  and changes talk modes and routes when a button becomes active.
\<close>

section \<open>Actions\<close>

text \<open>Requests run one after the other; the first error stops them.\<close>

fun run_until_error ::
    "(server_state \<Rightarrow> server_state \<times> control_response) list \<Rightarrow> server_state \<Rightarrow>
     server_state \<times> control_response" where
  "run_until_error [] st = (st, Ack)"
| "run_until_error (f # fs) st =
     (case f st of (st', Error m) \<Rightarrow> (st', Error m) | (st', _) \<Rightarrow> run_until_error fs st')"

definition apply_named_preset ::
    "env \<Rightarrow> string \<Rightarrow> server_state \<Rightarrow> server_state \<times> control_response" where
  "apply_named_preset env preset_id st =
     (case find (\<lambda>p. pr_id p = preset_id) (ad_presets (st_admin_state st)) of
        None \<Rightarrow> (st, Error (''unknown preset `'' @ preset_id @ ''`''))
      | Some preset \<Rightarrow>
          (case apply_preset env preset st of
             (st', Some m) \<Rightarrow> (st', Error m) | (st', None) \<Rightarrow> (st', Ack)))"

text \<open>A change of a user's desired configuration, taken from its current baseline.\<close>

definition edit_desired ::
    "env \<Rightarrow> user_id \<Rightarrow> (desired_client_config \<Rightarrow> desired_client_config) \<Rightarrow> server_state \<Rightarrow>
     server_state \<times> control_response" where
  "edit_desired env u f st = apply_desired_client env (f (desired_baseline_for_user st u)) st"

fun action_requests ::
    "env \<Rightarrow> user_id \<Rightarrow> talk_button_action \<Rightarrow>
     (server_state \<Rightarrow> server_state \<times> control_response) list" where
  "action_requests env u (Transmit channels users duck) = []"
| "action_requests env u (Alert targets message) =
     map (\<lambda>t. apply_send_alert_event env u t message) targets"
| "action_requests env u (ApplyPreset preset_id) = [apply_named_preset env preset_id]"
| "action_requests env u (SetTalkMode users mode) =
     map (\<lambda>t. edit_desired env t (\<lambda>d. d\<lparr>dc_talk_mode := mode\<rparr>)) (action_users_or_self users u)"
| "action_requests env u (RouteEdit users la lr lt ta tr tt) =
     map (\<lambda>t. edit_desired env t (\<lambda>d. d\<lparr>dc_listen := apply_route_edits (dc_listen d) la lr lt,
                                          dc_tx := apply_route_edits (dc_tx d) ta tr tt\<rparr>))
       (action_users_or_self users u)"

definition execute_button_activation_actions ::
    "env \<Rightarrow> user_id \<Rightarrow> talk_button_config \<Rightarrow> server_state \<Rightarrow> server_state \<times> control_response" where
  "execute_button_activation_actions env u button st =
     run_until_error (concat (map (action_requests env u) (btn_actions button))) st"

section \<open>Button events\<close>

fun button_now_active :: "talk_button_mode \<Rightarrow> bool \<Rightarrow> bool \<Rightarrow> bool" where
  "button_now_active Momentary was pressed = pressed"
| "button_now_active Latching was pressed = (if pressed then \<not> was else was)"

definition set_button :: "env \<Rightarrow> button_id \<Rightarrow> bool \<Rightarrow> session \<Rightarrow> session" where
  "set_button env b now_active s =
     s\<lparr>se_active_buttons := (if now_active then insert b (se_active_buttons s)
                              else se_active_buttons s - {b}),
       se_last_seen := env_now env\<rparr>"

definition activate_button ::
    "env \<Rightarrow> user_id \<Rightarrow> talk_button_config \<Rightarrow> server_state \<Rightarrow> server_state \<times> control_response" where
  "activate_button env u button st =
     (case execute_button_activation_actions env u button
             (start_button_transmit_routes env u button st) of
        (st', Error m) \<Rightarrow> (st', Error m)
      | (st', _) \<Rightarrow> (push_config_update u st', Ack))"

definition apply_button_event ::
    "env \<Rightarrow> user_id \<Rightarrow> button_id \<Rightarrow> bool \<Rightarrow> server_state \<Rightarrow> server_state \<times> control_response" where
  "apply_button_event env u b pressed st =
     (case hm_get (st_sessions st) u of
        None \<Rightarrow> (st, Error (''unknown client '' @ show_word u))
      | Some s \<Rightarrow>
          (case find (\<lambda>x. btn_id x = b) (se_buttons s) of
             None \<Rightarrow> (st, Error (''unknown button `'' @ b @ ''` for client '' @ show_word u))
           | Some button \<Rightarrow>
               let was = b \<in> se_active_buttons s;
                   now_active = button_now_active (btn_mode button) was pressed;
                   st = modify_session u (set_button env b now_active) st
               in if \<not> was \<and> now_active then activate_button env u button st
                  else if was \<and> \<not> now_active
                  then (push_config_update u (stop_button_transmit_routes env u button st), Ack)
                  else (push_config_update u st, Ack)))"

section \<open>Facts\<close>

lemma set_toggle: "c \<in> fold toggle_channel ts s \<longleftrightarrow> (c \<in> s) \<noteq> odd (count_list ts c)"
  by (induction ts arbitrary: s) (auto simp: toggle_channel_def)

lemma finite_toggle [simp]: "finite s \<Longrightarrow> finite (fold toggle_channel ts s)"
  by (induction ts arbitrary: s) (simp_all add: toggle_channel_def)

text \<open>Route edits: additions, then removals, then toggles. A channel is in the result
  exactly when being routed or added, and not removed, differs from being toggled an odd
  number of times; the result is strictly ascending.\<close>

lemma route_edits_membership:
  "(c \<in> set (apply_route_edits routes add remove toggle)) =
     ((c \<in> set routes \<union> set add - set remove) \<noteq> odd (count_list toggle c)) \<and>
   sorted_wrt (<) (apply_route_edits routes add remove toggle)"
  by (simp add: apply_route_edits_def set_toggle strict_sorted_iff)

text \<open>Routes of buttons change call histories only.\<close>

lemma talk_state_add_history [simp]:
  "talk_state (add_history h s) = talk_state s"
  "talk_state (s\<lparr>se_last_direct_caller := c\<rparr>) = talk_state s"
  "talk_state (s\<lparr>se_direct_call_history := hs\<rparr>) = talk_state s"
  by (simp_all add: talk_state_def add_history_def)

lemma keeps_talk_modify: "(\<And>s. talk_state (f s) = talk_state s) \<Longrightarrow> keeps_talk (hm_modify k f ss) ss"
  by (simp add: keeps_talk_def hm_get_modify option.map_comp comp_def)

lemma keeps_talk_start_route: "keeps_talk (fst (start_route env u b c acc)) (fst acc)"
  by (cases c; cases acc)
    (auto simp: start_route_def Let_def intro!: keeps_talk_trans [OF keeps_talk_modify keeps_talk_modify])

lemma keeps_talk_start_routes: "keeps_talk (fst (fold (start_route env u b) cs acc)) (fst acc)"
proof (induction cs arbitrary: acc)
  case (Cons c cs)
  show ?case
    using keeps_talk_trans [OF Cons.IH keeps_talk_start_route] by simp
qed simp

lemma keeps_talk_start:
  "keeps_talk (st_sessions (start_button_transmit_routes env u button st)) (st_sessions st)"
proof -
  let ?cs = "concat (map transmit_calls (btn_actions button))"
  obtain ss ts where f: "fold (start_route env u (btn_id button)) ?cs (st_sessions st, []) = (ss, ts)"
    by fastforce
  have "keeps_talk (fold trim_direct_history (u # ts) ss) ss"
    by (rule keeps_talk_fold) (simp add: trim_direct_history_def keeps_talk_modify)
  moreover have "keeps_talk ss (st_sessions st)"
    using keeps_talk_start_routes [where env = env and u = u and b = "btn_id button" and cs = ?cs
        and acc = "(st_sessions st, [])"] f by simp
  ultimately show ?thesis
    by (simp add: start_button_transmit_routes_def f) (rule keeps_talk_trans)
qed

lemma keeps_talk_stop:
  "keeps_talk (st_sessions (stop_button_transmit_routes env u button st)) (st_sessions st)"
  by (simp add: stop_button_transmit_routes_def keeps_talk_fold keeps_talk_closes)

fun transmits :: "talk_button_action \<Rightarrow> bool" where
  "transmits (Transmit channels users duck) = True"
| "transmits a = False"

definition transmit_only :: "talk_button_config \<Rightarrow> bool" where
  "transmit_only button = list_all transmits (btn_actions button)"

lemma transmit_only_requests [simp]:
  "transmit_only button \<Longrightarrow> concat (map (action_requests env u) (btn_actions button)) = []"
proof -
  have "transmits a \<Longrightarrow> action_requests env u a = []" for a by (cases a) simp_all
  then show "transmit_only button \<Longrightarrow> ?thesis" by (auto simp: transmit_only_def list_all_iff)
qed

lemma keeps_talk_get:
  assumes "keeps_talk ss' ss" "hm_get ss u = Some s"
  shows "\<exists>s'. hm_get ss' u = Some s' \<and> talk_state s' = talk_state s"
proof -
  have "map_option talk_state (hm_get ss' u) = Some (talk_state s)"
    using assms by (simp add: keeps_talk_def)
  then show ?thesis by (cases "hm_get ss' u") simp_all
qed

text \<open>An event on a button that only transmits: accepted, sets the button, leaves the rest of
  the session's talk state.\<close>

lemma transmit_button_event:
  assumes "hm_get (st_sessions st) u = Some s" "find (\<lambda>x. btn_id x = b) (se_buttons s) = Some button"
    "transmit_only button"
  shows "snd (apply_button_event env u b pressed st) = Ack"
    "\<exists>s'. hm_get (st_sessions (fst (apply_button_event env u b pressed st))) u = Some s' \<and>
       talk_state s' = talk_state (set_button env b
         (button_now_active (btn_mode button) (b \<in> se_active_buttons s) pressed) s)"
proof -
  let ?now = "button_now_active (btn_mode button) (b \<in> se_active_buttons s) pressed"
  let ?st = "modify_session u (set_button env b ?now) st"
  let ?st' = "fst (apply_button_event env u b pressed st)"
  have "st_sessions ?st' \<in> {st_sessions ?st,
      st_sessions (start_button_transmit_routes env u button ?st),
      st_sessions (stop_button_transmit_routes env u button ?st)} \<and>
    snd (apply_button_event env u b pressed st) = Ack"
    using assms by (simp add: apply_button_event_def Let_def activate_button_def
        execute_button_activation_actions_def)
  then have keeps: "keeps_talk (st_sessions ?st') (st_sessions ?st)"
    and ack: "snd (apply_button_event env u b pressed st) = Ack"
    using keeps_talk_start keeps_talk_stop by auto
  show "\<exists>s'. hm_get (st_sessions ?st') u = Some s' \<and> talk_state s' = talk_state (set_button env b ?now s)"
    using keeps by (rule keeps_talk_get) (simp add: assms(1))
  show "snd (apply_button_event env u b pressed st) = Ack" by (rule ack)
qed

definition button_audio :: "button_id \<Rightarrow> session \<Rightarrow> audio_target set" where
  "button_audio b s =
     (\<Union>x \<in> {x \<in> set (se_buttons s). btn_id x = b}. \<Union>a \<in> set (btn_actions x).
        Channel ` set (transmit_channels a) \<union> Direct ` set (transmit_users a))"

lemma active_tx_targets_buttons:
  "active_tx_targets s =
     (if se_talk_mode s = Open \<or> se_talk_mode s = Ptt \<and> se_regular_talk_active s
      then Channel ` se_tx_channels s else {}) \<union>
     Direct ` fst ` set (se_active_direct_calls s) \<union> (\<Union>b \<in> se_active_buttons s. button_audio b s)"
proof -
  have "(\<Union> (set (map f (active_actions s)))) =
      (\<Union>b \<in> se_active_buttons s. \<Union>x \<in> {x \<in> set (se_buttons s). btn_id x = b}. \<Union> (f ` set (btn_actions x)))"
    for f :: "talk_button_action \<Rightarrow> 'a set"
    unfolding active_actions_def by fastforce
  note un = this
  show ?thesis
    unfolding active_tx_targets_def effective_tx_channels_def un button_audio_def image_Un image_UN
      set_hm_keys
    by (simp add: UN_Un_distrib image_UN Un_ac) 
qed

lemma button_audio_set_button [simp]: "button_audio c (set_button env b v s) = button_audio c s"
  by (simp add: button_audio_def set_button_def)

lemma set_button_on: "active_tx_targets (set_button env b True s) = active_tx_targets s \<union> button_audio b s"
proof -
  have "active_tx_targets (set_button env b True s) =
     (if se_talk_mode s = Open \<or> se_talk_mode s = Ptt \<and> se_regular_talk_active s
      then Channel ` se_tx_channels s else {}) \<union>
     Direct ` fst ` set (se_active_direct_calls s) \<union> (\<Union>c \<in> insert b (se_active_buttons s). button_audio c s)"
    unfolding active_tx_targets_buttons [of "set_button env b True s"] button_audio_set_button
    by (simp add: set_button_def)
  then show ?thesis unfolding active_tx_targets_buttons [of s] by blast
qed

text \<open>The rest of a press: the release, and for a latching button a second press.\<close>

fun press_ends :: "talk_button_mode \<Rightarrow> bool list" where
  "press_ends Momentary = [False]"
| "press_ends Latching = [False, True]"

definition button_events :: "env \<Rightarrow> user_id \<Rightarrow> button_id \<Rightarrow> bool list \<Rightarrow> server_state \<Rightarrow> server_state" where
  "button_events env u b ps st = fold (\<lambda>p st. fst (apply_button_event env u b p st)) ps st"

lemma set_button_twice:
  "b \<notin> se_active_buttons s \<Longrightarrow>
     talk_state s' = talk_state (set_button env b True s) \<Longrightarrow>
     talk_state (set_button env' b False s') = talk_state s"
  by (auto simp: talk_state_def set_button_def)

lemma button_events_press:
  assumes "hm_get (st_sessions st) u = Some s" "find (\<lambda>x. btn_id x = b) (se_buttons s) = Some button"
    "transmit_only button" "b \<notin> se_active_buttons s"
  shows "\<exists>s1. hm_get (st_sessions (button_events env u b [True] st)) u = Some s1 \<and>
      talk_state s1 = talk_state (set_button env b True s)"
    "\<exists>s2. hm_get (st_sessions (button_events env u b (True # press_ends (btn_mode button)) st)) u = Some s2 \<and>
      talk_state s2 = talk_state s"
proof -
  let ?st1 = "fst (apply_button_event env u b True st)"
  let ?st2 = "fst (apply_button_event env u b False ?st1)"
  have on: "button_now_active (btn_mode button) False True" by (cases "btn_mode button") simp_all
  with transmit_button_event(2) [OF assms(1-3), of env True] assms(4)
  obtain s1 where s1: "hm_get (st_sessions ?st1) u = Some s1" "talk_state s1 = talk_state (set_button env b True s)"
    by auto
  then show "\<exists>s1. hm_get (st_sessions (button_events env u b [True] st)) u = Some s1 \<and>
      talk_state s1 = talk_state (set_button env b True s)"
    by (simp add: button_events_def)
  from s1(2) have b1: "b \<in> se_active_buttons s1" "se_buttons s1 = se_buttons s"
    by (simp_all add: talk_state_def set_button_def)
  then have f1: "find (\<lambda>x. btn_id x = b) (se_buttons s1) = Some button" using assms(2) by simp
  obtain s2 where s2: "hm_get (st_sessions ?st2) u = Some s2"
      "talk_state s2 = talk_state (set_button env b (button_now_active (btn_mode button) True False) s1)"
    using transmit_button_event(2) [OF s1(1) f1 assms(3), of env False] b1 by auto
  show "\<exists>s2. hm_get (st_sessions (button_events env u b (True # press_ends (btn_mode button)) st)) u = Some s2 \<and>
      talk_state s2 = talk_state s"
  proof (cases "btn_mode button")
    case Momentary
    then show ?thesis
      using s2 set_button_twice [OF assms(4) s1(2)] by (simp add: button_events_def)
  next
    case Latching
    from s2(2) Latching b1 have t2: "talk_state s2 = talk_state s1" "b \<in> se_active_buttons s2"
      "se_buttons s2 = se_buttons s"
      by (auto simp: talk_state_def set_button_def)
    then have f2: "find (\<lambda>x. btn_id x = b) (se_buttons s2) = Some button" using assms(2) by simp
    obtain s3 where "hm_get (st_sessions (fst (apply_button_event env u b True ?st2))) u = Some s3"
        "talk_state s3 = talk_state (set_button env b False s2)"
      using transmit_button_event(2) [OF s2(1) f2 assms(3), of env True] t2 Latching by auto
    then show ?thesis
      using Latching set_button_twice [OF assms(4), of s2] t2 s1(2) by (simp add: button_events_def)
  qed
qed

text \<open>C13. Pressing an inactive button that transmits adds exactly its channels and users to
  what the client sends; releasing it (a latching button is released and pressed again) puts
  the audio targets back.\<close>

theorem button_press_round_trip:
  assumes "hm_get (st_sessions st) u = Some s" "find (\<lambda>x. btn_id x = b) (se_buttons s) = Some button"
    "transmit_only button" "b \<notin> se_active_buttons s"
  shows "map_option active_tx_targets (hm_get (st_sessions (button_events env u b [True] st)) u) =
       Some (active_tx_targets s \<union> button_audio b s) \<and>
     map_option active_tx_targets
       (hm_get (st_sessions (button_events env u b (True # press_ends (btn_mode button)) st)) u) =
       Some (active_tx_targets s)"
proof -
  obtain s1 s2 where
    "hm_get (st_sessions (button_events env u b [True] st)) u = Some s1"
    "talk_state s1 = talk_state (set_button env b True s)"
    "hm_get (st_sessions (button_events env u b (True # press_ends (btn_mode button)) st)) u = Some s2"
    "talk_state s2 = talk_state s"
    using button_events_press [OF assms, of env] by blast
  then show ?thesis
    using talk_state_targets [of s1] talk_state_targets [of s2] set_button_on by simp
qed

definition cue_button :: talk_button_config where
  "cue_button = \<lparr>btn_id = ''cue'', btn_label = ''Cue'', btn_color = None, btn_mode = Latching,
     btn_actions = [Transmit [3] [2] True]\<rparr>"

definition cue_session :: session where
  "cue_session = (session_new 0)\<lparr>se_buttons := [cue_button]\<rparr>"

definition cue_state :: server_state where
  "cue_state = two_clients\<lparr>st_sessions := [(1, cue_session), (2, session_new 0)]\<rparr>"

theorem button_press_round_trip_witness:
  "map_option active_tx_targets
       (hm_get (st_sessions (button_events sample_env 1 ''cue'' [True] cue_state)) 1) =
       Some (active_tx_targets cue_session \<union> button_audio ''cue'' cue_session) \<and>
     map_option active_tx_targets
       (hm_get (st_sessions (button_events sample_env 1 ''cue''
          (True # press_ends (btn_mode cue_button)) cue_state)) 1) =
       Some (active_tx_targets cue_session)"
  by (rule button_press_round_trip)
    (simp_all add: cue_state_def cue_session_def cue_button_def session_new_def transmit_only_def)

end
