(* ===== verification/Enrollment.thy ===== *)
theory Enrollment
  imports Desired_Config
begin

text \<open>
  Client enrollment in \<open>server/src/lib.rs\<close>: which user id a device gets when it says hello
  (\<open>resolve_client_enrollment\<close>: a known device keeps its id; a stored configuration for the
  device, or an unclaimed one for the requested id, enrolls it; otherwise the enrollment
  policy decides), and what the server stores of the client's advertisement.
\<close>

record enrollment_decision =
  ed_user_id :: user_id
  ed_client_uid :: client_uid
  ed_status :: enrollment_status
  ed_preconfigured :: bool

section \<open>Resolution\<close>

text \<open>Every branch stores the changed administrator's state, saves it and then decides.\<close>

definition enroll_with ::
    "env \<Rightarrow> server_state \<Rightarrow> persisted_admin_state \<Rightarrow> enrollment_decision \<Rightarrow>
     server_state \<times> (string + enrollment_decision)" where
  "enroll_with env st admin decision =
     (let st = st\<lparr>st_admin_state := admin\<rparr>
      in case save_admin_state env st of
           Some err \<Rightarrow> (st, Inl (''save admin state: '' @ err))
         | None \<Rightarrow> (st, Inr decision))"

definition enroll_known_device ::
    "env \<Rightarrow> client_uid \<Rightarrow> client_role \<Rightarrow> device_enrollment \<Rightarrow> server_state \<Rightarrow>
     server_state \<times> (string + enrollment_decision)" where
  "enroll_known_device env uid role d st =
     (let a = st_admin_state st in
      enroll_with env st
        (a\<lparr>ad_devices := update_first (\<lambda>v. de_client_uid v = uid)
              (\<lambda>v. v\<lparr>de_last_seen_ms := env_unix_ms env, de_role := role\<rparr>) (ad_devices a)\<rparr>)
        \<lparr>ed_user_id = de_user_id d, ed_client_uid = uid, ed_status = de_status d,
         ed_preconfigured = list_ex (\<lambda>c. dc_user_id c = de_user_id d \<or> dc_client_uid c = Some uid)
                              (ad_clients a)\<rparr>)"

definition add_device ::
    "device_enrollment \<Rightarrow> persisted_admin_state \<Rightarrow> persisted_admin_state" where
  "add_device v a = a\<lparr>ad_devices := normalize_device_enrollments (ad_devices a @ [v])\<rparr>"

definition enroll_preconfigured ::
    "env \<Rightarrow> client_uid \<Rightarrow> client_role \<Rightarrow> user_id \<Rightarrow> string \<Rightarrow> persisted_admin_state \<Rightarrow> server_state \<Rightarrow>
     server_state \<times> (string + enrollment_decision)" where
  "enroll_preconfigured env uid role u name a st =
     enroll_with env st
       (add_device (new_device (env_unix_ms env) uid u Enrolled name role []) a)
       \<lparr>ed_user_id = u, ed_client_uid = uid, ed_status = Enrolled, ed_preconfigured = True\<rparr>"

definition conflict_warnings ::
    "persisted_admin_state \<Rightarrow> user_id option \<Rightarrow> user_id \<Rightarrow> string list" where
  "conflict_warnings a requested u =
     (case requested of
        None \<Rightarrow> []
      | Some r \<Rightarrow>
          if r > 0 \<and> list_ex (\<lambda>v. de_user_id v = r) (ad_devices a)
          then [''requested user_id '' @ show_word r @
                '' is already assigned; server assigned '' @ show_word u]
          else [])"

definition enroll_new_device ::
    "env \<Rightarrow> client_uid \<Rightarrow> user_id option \<Rightarrow> client_role \<Rightarrow> server_state \<Rightarrow>
     server_state \<times> (string + enrollment_decision)" where
  "enroll_new_device env uid requested role st =
     (if st_enrollment_policy st = PolicyPreconfiguredOnly
      then (st, Inl (''client `'' @ uid @
             ''` is not preconfigured and enrollment policy is preconfigured-only''))
      else
        let a = st_admin_state st;
            u = next_available_user_id a requested;
            status = (case st_enrollment_policy st of
                        PolicyAuto \<Rightarrow> Enrolled | PolicyApproval \<Rightarrow> Pending
                      | PolicyPreconfiguredOnly \<Rightarrow> Rejected);
            warnings = conflict_warnings a requested u
        in enroll_with env st
             (add_device (new_device (env_unix_ms env) uid u status [] role warnings) a)
             \<lparr>ed_user_id = u, ed_client_uid = uid, ed_status = status,
              ed_preconfigured = False\<rparr>)"

definition resolve_client_enrollment ::
    "env \<Rightarrow> client_uid \<Rightarrow> user_id option \<Rightarrow> client_role \<Rightarrow> server_state \<Rightarrow>
     server_state \<times> (string + enrollment_decision)" where
  "resolve_client_enrollment env client_uid requested role st =
     (let a = st_admin_state st;
          uid = normalize_client_uid client_uid requested
      in case find (\<lambda>v. de_client_uid v = uid) (ad_devices a) of
           Some d \<Rightarrow> enroll_known_device env uid role d st
         | None \<Rightarrow>
             (case find (\<lambda>c. dc_client_uid c = Some uid) (ad_clients a) of
                Some c \<Rightarrow> enroll_preconfigured env uid role (dc_user_id c) (dc_name c) a st
              | None \<Rightarrow>
                  (case requested of
                     None \<Rightarrow> enroll_new_device env uid requested role st
                   | Some r \<Rightarrow>
                       (case find (\<lambda>c. dc_user_id c = r \<and> dc_client_uid c = None) (ad_clients a) of
                          Some c \<Rightarrow>
                            if r > 0
                            then enroll_preconfigured env uid role r (dc_name c)
                                   (a\<lparr>ad_clients := update_first
                                        (\<lambda>c. dc_user_id c = r \<and> dc_client_uid c = None)
                                        (\<lambda>c. c\<lparr>dc_client_uid := Some uid\<rparr>) (ad_clients a)\<rparr>) st
                            else enroll_new_device env uid requested role st
                        | None \<Rightarrow> enroll_new_device env uid requested role st))))"

section \<open>Advertisements\<close>

definition persist_client_advertisement ::
    "env \<Rightarrow> client_uid \<Rightarrow> codec list \<Rightarrow> button_capability list \<Rightarrow> client_capabilities \<Rightarrow>
     server_state \<Rightarrow> server_state \<times> string option" where
  "persist_client_advertisement env uid codecs buttons caps st =
     (let a = st_admin_state st in
      if \<not> list_ex (\<lambda>v. de_client_uid v = uid) (ad_devices a) then (st, None)
      else
        let st = st\<lparr>st_admin_state := a
              \<lparr>ad_devices := normalize_device_enrollments
                 (update_first (\<lambda>v. de_client_uid v = uid)
                    (\<lambda>v. v\<lparr>de_supported_codecs := codecs, de_advertised_buttons := buttons,
                           de_capabilities :=
                             (if cap_advertised caps \<or> \<not> cap_advertised (de_capabilities v)
                              then caps else de_capabilities v)\<rparr>)
                    (ad_devices a))\<rparr>\<rparr>
        in (st, map_option (\<lambda>err. ''save admin state: '' @ err) (save_admin_state env st)))"

section \<open>Facts\<close>

lemma enroll_with_admin [simp]: "st_admin_state (fst (enroll_with env st a d)) = a"
  by (simp add: enroll_with_def Let_def split: option.splits)

lemma enroll_with_result:
  "snd (enroll_with env st a d) = Inr d' \<longleftrightarrow> d' = d \<and> env_save env a = None"
  by (cases "env_save env a") (auto simp: enroll_with_def save_admin_state_def Let_def)

lemma devices_ok_uid:
  "devices_ok ds \<Longrightarrow> v \<in> set ds \<Longrightarrow> uid_ok (de_client_uid v) \<and> de_user_id v > 0"
  by (auto simp: devices_ok_def list_all_iff device_ok_def)

lemma find_Some_unique:
  "x \<in> set xs \<Longrightarrow> p x \<Longrightarrow> (\<And>y. y \<in> set xs \<Longrightarrow> p y \<Longrightarrow> y = x) \<Longrightarrow> find p xs = Some x"
proof (induction xs)
  case (Cons z zs)
  show ?case
  proof (cases "p z")
    case True
    then show ?thesis using Cons.prems(3) [of z] by simp
  next
    case False
    with Cons.prems(1,2) have "x \<in> set zs" by auto
    then have "find p zs = Some x" by (rule Cons.IH) (use Cons.prems(2,3) in auto)
    with False show ?thesis by simp
  qed
qed simp

text \<open>A device added under a uid that none has is the one later found under that uid.\<close>

lemma find_added_device:
  assumes ds: "devices_ok ds" "find (\<lambda>v. de_client_uid v = uid) ds = None"
    and n: "uid_ok uid" "de_client_uid n = uid" "de_user_id n > 0"
  shows "find (\<lambda>v. de_client_uid v = uid) (normalize_device_enrollments (ds @ [n])) =
           Some (clean_device n)"
proof (rule find_Some_unique)
  let ?r = "normalize_device_enrollments (ds @ [n])"
  have kept: "device_kept n" using n by (auto simp: device_kept_def uid_ok_def)
  have old: "clean_device v = v" if "v \<in> set ds" for v
    using that ds(1) device_norm.clean_fixes by (auto simp: devices_ok_def list_all_iff)
  have sub: "set ?r \<subseteq> insert (clean_device n) (set ds)"
    unfolding normalize_device_enrollments_def
    by (rule order_trans [OF set_dedup_by]) (auto simp: old)
  have uid_n: "de_client_uid (clean_device n) = uid"
    using n by (simp add: clean_device_def)
  show only: "y = clean_device n" if "y \<in> set ?r" "de_client_uid y = uid" for y
    using that sub ds(2) by (auto simp: find_None_iff)
  have "uid \<in> de_client_uid ` set ?r"
    unfolding normalize_device_enrollments_def image_key_dedup_by
    using kept uid_n by (auto simp: image_iff intro!: bexI [of _ "clean_device n"])
  then show "clean_device n \<in> set ?r" using only by auto
  show "de_client_uid (clean_device n) = uid" by (rule uid_n)
qed

lemma clean_device_ids [simp]:
  "de_user_id (clean_device v) = de_user_id v" "de_status (clean_device v) = de_status v"
  by (simp_all add: clean_device_def)

lemma find_touched_device:
  "find (\<lambda>v. de_client_uid v = uid) ds = Some d \<Longrightarrow> (\<And>v. de_client_uid (f v) = de_client_uid v) \<Longrightarrow>
     find (\<lambda>v. de_client_uid v = uid) (update_first (\<lambda>v. de_client_uid v = uid) f ds) = Some (f d)"
  by (simp add: find_update_first_same)

lemma enroll_with_Inr:
  "enroll_with env st a d' = (st', Inr d) \<Longrightarrow> st' = st\<lparr>st_admin_state := a\<rparr> \<and> d' = d"
  by (auto simp: enroll_with_def Let_def split: option.splits)

definition policy_status :: "enrollment_policy \<Rightarrow> enrollment_status" where
  "policy_status p = (case p of PolicyAuto \<Rightarrow> Enrolled | PolicyApproval \<Rightarrow> Pending
     | PolicyPreconfiguredOnly \<Rightarrow> Rejected)"

lemma enroll_new_device_Inr:
  assumes "enroll_new_device env uid r role st = (st', Inr d)"
  shows "st' = st\<lparr>st_admin_state := add_device (new_device (env_unix_ms env) uid (ed_user_id d)
           (ed_status d) [] role (conflict_warnings (st_admin_state st) r (ed_user_id d)))
           (st_admin_state st)\<rparr> \<and>
         d = \<lparr>ed_user_id = next_available_user_id (st_admin_state st) r, ed_client_uid = uid,
              ed_status = policy_status (st_enrollment_policy st), ed_preconfigured = False\<rparr> \<and>
         st_enrollment_policy st \<noteq> PolicyPreconfiguredOnly"
proof -
  have pol: "st_enrollment_policy st \<noteq> PolicyPreconfiguredOnly"
    using assms by (auto simp: enroll_new_device_def)
  show ?thesis
    using enroll_with_Inr [OF assms [unfolded enroll_new_device_def Let_def if_not_P [OF pol]]] pol
    by (auto simp: policy_status_def)
qed

lemma enroll_preconfigured_Inr:
  "enroll_preconfigured env uid role u name a st = (st', Inr d) \<Longrightarrow>
     st' = st\<lparr>st_admin_state := add_device (new_device (env_unix_ms env) uid u Enrolled name role []) a\<rparr> \<and>
     d = \<lparr>ed_user_id = u, ed_client_uid = uid, ed_status = Enrolled, ed_preconfigured = True\<rparr>"
  unfolding enroll_preconfigured_def by (drule enroll_with_Inr) simp

text \<open>What a successful resolution leaves under the device's uid.\<close>

lemma resolve_finds_device:
  assumes ok: "devices_ok (ad_devices (st_admin_state st))"
    and res: "resolve_client_enrollment env client_uid r role st = (st', Inr d)"
    and pos: "ed_user_id d > 0"
  shows "\<exists>v. find (\<lambda>v. de_client_uid v = ed_client_uid d) (ad_devices (st_admin_state st')) = Some v \<and>
           de_user_id v = ed_user_id d \<and> de_status v = ed_status d"
    and "ed_client_uid d = normalize_client_uid client_uid r"
proof -
  let ?uid = "normalize_client_uid client_uid r"
  let ?ds = "ad_devices (st_admin_state st)"
  have added: "\<exists>v. find (\<lambda>v. de_client_uid v = ?uid)
        (normalize_device_enrollments (?ds @ [new_device now ?uid u s n ro w])) = Some v \<and>
        de_user_id v = u \<and> de_status v = s"
    if "find (\<lambda>v. de_client_uid v = ?uid) ?ds = None" "u > 0" for now u s n ro w
    using find_added_device [OF ok that(1), of "new_device now ?uid u s n ro w"] that(2)
    by (auto simp: new_device_def)
  have "ed_client_uid d = ?uid \<and>
    (\<exists>v. find (\<lambda>v. de_client_uid v = ?uid) (ad_devices (st_admin_state st')) = Some v \<and>
       de_user_id v = ed_user_id d \<and> de_status v = ed_status d)"
  proof (cases "find (\<lambda>v. de_client_uid v = ?uid) ?ds")
    case (Some v)
    with res have "enroll_known_device env ?uid role v st = (st', Inr d)"
      by (simp add: resolve_client_enrollment_def Let_def)
    from enroll_with_Inr [OF this [unfolded enroll_known_device_def Let_def]] Some show ?thesis
      by (auto simp: find_touched_device)
  next
    case None
    consider (new) "enroll_new_device env ?uid r role st = (st', Inr d)"
      | (pre) u name a where "enroll_preconfigured env ?uid role u name a st = (st', Inr d)"
          "ad_devices a = ?ds"
      using res None
      by (auto simp: resolve_client_enrollment_def Let_def split: option.splits if_splits)
    then show ?thesis
    proof cases
      case new
      note r = enroll_new_device_Inr [OF this]
      have "ad_devices (st_admin_state st') = normalize_device_enrollments (?ds @
          [new_device (env_unix_ms env) ?uid (ed_user_id d) (ed_status d) [] role
             (conflict_warnings (st_admin_state st) r (ed_user_id d))])"
        using r by (simp add: add_device_def)
      with added [OF None pos] r show ?thesis by simp
    next
      case pre
      from enroll_preconfigured_Inr [OF pre(1)] pos pre(2) show ?thesis
        using added [OF None] by (auto simp: add_device_def)
    qed
  qed
  then show "\<exists>v. find (\<lambda>v. de_client_uid v = ed_client_uid d) (ad_devices (st_admin_state st')) = Some v \<and>
           de_user_id v = ed_user_id d \<and> de_status v = ed_status d"
    and "ed_client_uid d = ?uid" by simp_all
qed

lemma next_available_fresh:
  "UNIV - {0} \<subseteq> used_user_ids a \<or> next_available_user_id a r \<notin> insert 0 (used_user_ids a)"
proof (cases "UNIV - {0} \<subseteq> used_user_ids a")
  case False
  then obtain n where n: "find (\<lambda>n. (of_nat n :: user_id) \<notin> used_user_ids a) [1..<65536] = Some n"
    "0 < n" "n < 65536" "of_nat n \<notin> used_user_ids a" by (rule find_first_free)
  then have "(of_nat n :: user_id) \<noteq> 0" by (simp add: unat_eq_0 [symmetric])
  with n show ?thesis
    by (auto simp: next_available_user_id_def Let_def word_neq_0_conv split: option.splits)
qed simp

lemma enroll_with_eq:
  "enroll_with env st a d = (st\<lparr>st_admin_state := a\<rparr>,
     case env_save env a of None \<Rightarrow> Inr d | Some err \<Rightarrow> Inl (''save admin state: '' @ err))"
  by (simp add: enroll_with_def save_admin_state_def Let_def split: option.split)

text \<open>The decision a resolution that got as far as storing the device returns.\<close>

definition decided :: "env \<Rightarrow> enrollment_decision \<Rightarrow> server_state \<times> (string + enrollment_decision) \<Rightarrow> bool" where
  "decided env d = (\<lambda>(st', res). res =
     (case env_save env (st_admin_state st') of
        None \<Rightarrow> Inr d | Some err \<Rightarrow> Inl (''save admin state: '' @ err)))"

lemma decided_enroll_with [simp]: "decided env d (enroll_with env st a d)"
  by (simp add: decided_def enroll_with_eq)

lemma decided_known:
  "decided env \<lparr>ed_user_id = de_user_id v, ed_client_uid = uid, ed_status = de_status v,
       ed_preconfigured = (de_user_id v \<in> dc_user_id ` set (ad_clients (st_admin_state st)) \<or>
         Some uid \<in> dc_client_uid ` set (ad_clients (st_admin_state st)))\<rparr>
     (enroll_known_device env uid role v st)"
proof -
  have known: "(de_user_id v \<in> dc_user_id ` set cs \<or> Some uid \<in> dc_client_uid ` set cs) =
      list_ex (\<lambda>c. dc_user_id c = de_user_id v \<or> dc_client_uid c = Some uid) cs" for cs
    unfolding list_ex_iff image_iff by metis
  show ?thesis unfolding enroll_known_device_def Let_def known by (rule decided_enroll_with)
qed

lemma decided_new:
  "st_enrollment_policy st \<noteq> PolicyPreconfiguredOnly \<Longrightarrow>
     decided env \<lparr>ed_user_id = next_available_user_id (st_admin_state st) r, ed_client_uid = uid,
         ed_status = policy_status (st_enrollment_policy st), ed_preconfigured = False\<rparr>
       (enroll_new_device env uid r role st)"
  by (simp add: enroll_new_device_def Let_def policy_status_def)

lemma find_unclaimed:
  "((u, None) \<in> (\<lambda>c. (dc_user_id c, dc_client_uid c)) ` set cs) =
     (find (\<lambda>c. dc_user_id c = u \<and> dc_client_uid c = None) cs \<noteq> None)"
  by (auto simp: find_None_iff image_iff)

lemma next_available_requested:
  "(let u = next_available_user_id a r; used = used_user_ids a in
      if UNIV - {0} \<subseteq> used then u = 65535
      else u \<notin> insert 0 used \<and> (if r \<in> Some ` (- insert 0 used) then r = Some u else {1..<u} \<subseteq> used))"
proof -
  let ?u = "next_available_user_id a r" and ?used = "used_user_ids a"
  have "if r \<in> Some ` (- insert 0 ?used) then r = Some ?u else {1..<?u} \<subseteq> ?used"
    if "\<not> UNIV - {0} \<subseteq> ?used"
    using next_available_user_id_free [of a r] that unfolding Let_def if_not_P [OF that]
    by (cases r) auto
  then show ?thesis
    using next_available_user_id_free [of a r] unfolding Let_def by (cases "UNIV - {0} \<subseteq> ?used") simp_all
qed

section \<open>Properties\<close>

text \<open>C8. Which user id and status a device that says hello gets. A known device keeps its id and
  its status. Otherwise a stored configuration for the device's uid gives it that
  configuration's id, enrolled; an unclaimed configuration for the id it asks for gives it
  that id, enrolled. Otherwise a policy of preconfigured devices only refuses it and changes
  nothing, and the other policies give it the status they prescribe and an id that is not 0
  and that no device and no stored configuration has: the one it asks for when that is free, else
  the smallest (and 65535 only when all are taken). In every case but the refusal the
  decision is returned exactly when the changed state is saved, and a failed save is reported.\<close>

theorem enrollment_decision_cases:
  "let out = resolve_client_enrollment env client_uid r role st;
       uid = normalize_client_uid client_uid r;
       a = st_admin_state st;
       decision = (\<lambda>u s pre. \<lparr>ed_user_id = u, ed_client_uid = uid, ed_status = s, ed_preconfigured = pre\<rparr>)
   in case find (\<lambda>v. de_client_uid v = uid) (ad_devices a) of
        Some v \<Rightarrow> decided env (decision (de_user_id v) (de_status v)
            (de_user_id v \<in> dc_user_id ` set (ad_clients a) \<or> Some uid \<in> dc_client_uid ` set (ad_clients a))) out
      | None \<Rightarrow>
        (case find (\<lambda>c. dc_client_uid c = Some uid) (ad_clients a) of
           Some c \<Rightarrow> decided env (decision (dc_user_id c) Enrolled True) out
         | None \<Rightarrow>
           if r \<in> Some ` {u. u > 0 \<and> (u, None) \<in> (\<lambda>c. (dc_user_id c, dc_client_uid c)) ` set (ad_clients a)}
           then decided env (decision (the r) Enrolled True) out
           else if st_enrollment_policy st = PolicyPreconfiguredOnly
           then out = (st, Inl (''client `'' @ uid @
                  ''` is not preconfigured and enrollment policy is preconfigured-only''))
           else (\<exists>u. decided env (decision u (policy_status (st_enrollment_policy st)) False) out \<and>
              (let used = used_user_ids a in
                 if UNIV - {0} \<subseteq> used then u = 65535
                 else u \<notin> insert 0 used \<and>
                   (if r \<in> Some ` (- insert 0 used) then r = Some u else {1..<u} \<subseteq> used))))"
proof -
  let ?uid = "normalize_client_uid client_uid r"
  let ?a = "st_admin_state st"
  have new: ?thesis
    if "find (\<lambda>v. de_client_uid v = ?uid) (ad_devices ?a) = None"
      "find (\<lambda>c. dc_client_uid c = Some ?uid) (ad_clients ?a) = None"
      "r \<notin> Some ` {u. u > 0 \<and> (u, None) \<in> (\<lambda>c. (dc_user_id c, dc_client_uid c)) ` set (ad_clients ?a)}"
      "resolve_client_enrollment env client_uid r role st = enroll_new_device env ?uid r role st"
  proof (cases "st_enrollment_policy st = PolicyPreconfiguredOnly")
    case False
    then show ?thesis
      unfolding Let_def that(1,2) option.case if_not_P [OF that(3)] if_not_P [OF False] that(4)
      using decided_new [OF False] next_available_requested [of ?a r] unfolding Let_def by blast
  qed (use that in \<open>simp add: enroll_new_device_def\<close>)
  consider (known) v where "find (\<lambda>v. de_client_uid v = ?uid) (ad_devices ?a) = Some v"
    | (stored) c where "find (\<lambda>v. de_client_uid v = ?uid) (ad_devices ?a) = None"
        "find (\<lambda>c. dc_client_uid c = Some ?uid) (ad_clients ?a) = Some c"
    | (neither) "find (\<lambda>v. de_client_uid v = ?uid) (ad_devices ?a) = None"
        "find (\<lambda>c. dc_client_uid c = Some ?uid) (ad_clients ?a) = None"
    by (metis option.exhaust)
  then show ?thesis
  proof cases
    case known
    then show ?thesis using decided_known by (simp add: resolve_client_enrollment_def Let_def)
  next
    case stored
    then show ?thesis by (simp add: resolve_client_enrollment_def Let_def enroll_preconfigured_def)
  next
    case neither
    show ?thesis
    proof (cases "r \<in> Some ` {u. u > 0 \<and>
        (u, None) \<in> (\<lambda>c. (dc_user_id c, dc_client_uid c)) ` set (ad_clients ?a)}")
      case True
      then obtain u c where "r = Some u" "u > 0"
        "find (\<lambda>c. dc_user_id c = u \<and> dc_client_uid c = None) (ad_clients ?a) = Some c"
        unfolding find_unclaimed by blast
      with True neither show ?thesis
        by (simp add: resolve_client_enrollment_def Let_def enroll_preconfigured_def)
    next
      case False
      then have "resolve_client_enrollment env client_uid r role st = enroll_new_device env ?uid r role st"
        unfolding find_unclaimed using neither
        by (auto simp: resolve_client_enrollment_def Let_def split: option.split)
      with new neither False show ?thesis by blast
    qed
  qed
qed

text \<open>C9. Enrollment is sticky: once a device got a (non-zero) user id, every later hello of
  the same device, whatever id it asks for, is given the same id and the same status, as
  long as the state can be saved.\<close>

theorem enrollment_is_sticky:
  assumes "devices_ok (ad_devices (st_admin_state st))" and "trim client_uid \<noteq> []"
    and "resolve_client_enrollment env client_uid r role st = (st', Inr d)"
    and "ed_user_id d > 0" and "\<And>a. env_save env' a = None"
  shows "\<exists>d'. snd (resolve_client_enrollment env' client_uid r' role' st') = Inr d' \<and>
           ed_user_id d' = ed_user_id d \<and> ed_status d' = ed_status d \<and>
           ed_client_uid d' = ed_client_uid d"
proof -
  have uid: "normalize_client_uid client_uid q = trim client_uid" for q
    using assms(2) by (simp add: normalize_client_uid_def Let_def)
  obtain v where v: "find (\<lambda>v. de_client_uid v = trim client_uid) (ad_devices (st_admin_state st')) = Some v"
      "de_user_id v = ed_user_id d" "de_status v = ed_status d"
    using resolve_finds_device [OF assms(1,3,4)] uid by auto
  then have "resolve_client_enrollment env' client_uid r' role' st' =
      enroll_known_device env' (trim client_uid) role' v st'"
    by (simp add: resolve_client_enrollment_def Let_def uid)
  then show ?thesis
    using v resolve_finds_device(2) [OF assms(1,3,4)]
    by (auto simp: enroll_known_device_def Let_def enroll_with_def save_admin_state_def assms(5) uid)
qed

theorem enrollment_is_sticky_witness:
  "\<exists>d'. snd (resolve_client_enrollment \<lparr>env_now = 0, env_unix_ms = 9, env_save = \<lambda>_. None\<rparr>
            ''pi-1'' (Some 3) RoleBridge
            (fst (resolve_client_enrollment \<lparr>env_now = 0, env_unix_ms = 5, env_save = \<lambda>_. None\<rparr>
              ''pi-1'' None RoleClient
              (server_state_new \<lparr>ad_channels = [], ad_devices = [new_device 1 ''pi-1'' 7 Pending [] RoleClient []],
                ad_clients = [], ad_presets = [], ad_templates = []\<rparr> PolicyApproval)))) = Inr d' \<and>
     ed_user_id d' = 7 \<and> ed_status d' = Pending"
proof -
  let ?e = "\<lparr>env_now = 0, env_unix_ms = 5, env_save = \<lambda>_. None\<rparr>"
  let ?dev = "new_device 1 ''pi-1'' 7 Pending [] RoleClient []"
  let ?st = "server_state_new \<lparr>ad_channels = [], ad_devices = [?dev], ad_clients = [], ad_presets = [],
      ad_templates = []\<rparr> PolicyApproval"
  let ?d = "\<lparr>ed_user_id = 7, ed_client_uid = ''pi-1'', ed_status = Pending, ed_preconfigured = False\<rparr>"
  have t: "trim ''pi-1'' = ''pi-1''" "trimmed ''pi-1''"
    by (simp_all add: trimmed_def is_whitespace_def)
  have uid: "normalize_client_uid ''pi-1'' q = ''pi-1''" for q
    by (simp add: normalize_client_uid_def t Let_def)
  have caps: "normalize_client_capabilities default_client_capabilities = default_client_capabilities"
    by (simp add: normalize_client_capabilities_def default_client_capabilities_def)
  have "device_ok ?dev"
    by (simp add: device_ok_def new_device_def uid_ok_def t caps default_supported_codecs_def
        normalize_supported_codecs_def sorted_codecs_def normalize_button_capabilities_def sort_by_def)
  then have ok: "devices_ok (ad_devices (st_admin_state ?st))"
    by (simp add: devices_ok_def server_state_new_def)
  have "resolve_client_enrollment ?e ''pi-1'' None RoleClient ?st =
      (fst (resolve_client_enrollment ?e ''pi-1'' None RoleClient ?st), Inr ?d)"
    by (simp add: resolve_client_enrollment_def uid Let_def server_state_new_def
        enroll_known_device_def enroll_with_def save_admin_state_def new_device_def)
  from enrollment_is_sticky [OF ok _ this, of "\<lparr>env_now = 0, env_unix_ms = 9, env_save = \<lambda>_. None\<rparr>"
      "Some 3" RoleBridge]
  show ?thesis by (simp only: t) (auto simp: t)
qed

end
