(* ===== verification/Control.thy ===== *)
theory Control
  imports Buttons Enrollment
begin

text \<open>
  The control protocol in \<open>server/src/lib.rs\<close>: \<open>apply_control\<close>, one definition per message
  with logic of its own, and \<open>handle_control_connection\<close>, the life of a WebSocket
  connection: a hello registers it under the enrolled user, a close unregisters it and
  clears what the client was holding.
\<close>

section \<open>Hello\<close>

definition hello_session ::
    "env \<Rightarrow> enrollment_decision \<Rightarrow> hello_request \<Rightarrow> desired_client_config option \<Rightarrow> session \<Rightarrow> session" where
  "hello_session env e hr desired s =
     (let s = s\<lparr>se_client_uid := ed_client_uid e, se_enrollment := ed_status e,
                se_role := hr_role hr,
                se_supported_codecs := normalize_supported_codecs (hr_codecs hr),
                se_advertised_buttons := normalize_button_capabilities (hr_buttons hr),
                se_capabilities := normalize_client_capabilities (hr_capabilities hr)\<rparr>;
          s = (case desired of
                 Some d \<Rightarrow> apply_desired_to_session_fields d s
               | None \<Rightarrow>
                   let s = apply_default_operator_channels_to_session s
                   in if se_output_codec s \<notin> se_supported_codecs s
                      then s\<lparr>se_output_codec := Pcm16\<rparr> else s)
      in s\<lparr>se_last_seen := env_now env\<rparr>)"

definition apply_hello ::
    "env \<Rightarrow> user_id \<Rightarrow> hello_request \<Rightarrow> server_state \<Rightarrow> server_state \<times> control_response" where
  "apply_hello env user_id hr st =
     (let requested = (case hr_requested_user_id hr of Some r \<Rightarrow> Some r
                       | None \<Rightarrow> if user_id > 0 then Some user_id else None)
      in case resolve_client_enrollment env (hr_client_uid hr) requested (hr_role hr) st of
           (st, Inl message) \<Rightarrow> (st, Error message)
         | (st, Inr e) \<Rightarrow>
             if ed_status e \<noteq> Enrolled
             then (st, RespHello (ed_preconfigured e) (ed_user_id e) (ed_client_uid e) (ed_status e))
             else
               let u = ed_user_id e;
                   desired = desired_client st u;
                   preconfigured = (ed_preconfigured e \<or> desired \<noteq> None);
                   st = with_session env u (hello_session env e hr desired) st;
                   st = fst (persist_client_advertisement env (ed_client_uid e)
                          (sorted_codecs (normalize_supported_codecs (hr_codecs hr)))
                          (normalize_button_capabilities (hr_buttons hr))
                          (normalize_client_capabilities (hr_capabilities hr)) st)
               in (st, RespHello preconfigured u (ed_client_uid e) (ed_status e)))"

section \<open>Configuration\<close>

definition given :: "'a option \<Rightarrow> 'a \<Rightarrow> 'a" where
  "given v old = (case v of Some x \<Rightarrow> x | None \<Rightarrow> old)"

definition merge_config :: "config_request \<Rightarrow> desired_client_config \<Rightarrow> desired_client_config" where
  "merge_config cr d = d
     \<lparr>dc_role := given (cr_role cr) (dc_role d),
      dc_name := given (cr_name cr) (dc_name d),
      dc_listen := cr_listen cr, dc_tx := cr_tx cr, dc_vol := cr_vol cr,
      dc_talker_vol := given (cr_talker_vol cr) (dc_talker_vol d),
      dc_codec := given (cr_codec cr) (dc_codec d),
      dc_opus_profile := given (cr_opus_profile cr) (dc_opus_profile d),
      dc_talk_mode := given (cr_talk_mode cr) (dc_talk_mode d),
      dc_priority := given (cr_priority cr) (dc_priority d),
      dc_priority_channels := given (map_option sorted_unique_channels (cr_priority_channels cr))
                                (dc_priority_channels d),
      dc_processing := given (cr_processing cr) (dc_processing d),
      dc_buttons := given (map_option normalize_button_configs (cr_buttons cr)) (dc_buttons d),
      dc_ifb := given (map_option normalize_ifb_config (cr_ifb cr)) (dc_ifb d),
      dc_stereo := given (map_option normalize_stereo_config (cr_stereo cr)) (dc_stereo d),
      dc_esp32_audio := given (map_option normalize_esp32_audio_config (cr_esp32_audio cr))
                          (dc_esp32_audio d)\<rparr>"

definition apply_config ::
    "env \<Rightarrow> user_id \<Rightarrow> config_request \<Rightarrow> server_state \<Rightarrow> server_state \<times> control_response" where
  "apply_config env u cr st =
     (let base = desired_baseline_for_user st u
      in case validate_config_lockout base cr of
           Some m \<Rightarrow> (st, Error m)
         | None \<Rightarrow>
             (case (case cr_codec cr of None \<Rightarrow> None | Some c \<Rightarrow> codec_available_for_user env st u c) of
                Some m \<Rightarrow> (st, Error m)
              | None \<Rightarrow> apply_desired_client env (merge_config cr base) st))"

text \<open>A request that a lockout flag of the user's baseline must allow.\<close>

definition guarded ::
    "(client_lockout_policy \<Rightarrow> bool) \<Rightarrow> string \<Rightarrow> user_id \<Rightarrow>
     (server_state \<Rightarrow> server_state \<times> control_response) \<Rightarrow> server_state \<Rightarrow>
     server_state \<times> control_response" where
  "guarded allowed label u f st =
     (case ensure_control_allowed st u allowed label of Some m \<Rightarrow> (st, Error m) | None \<Rightarrow> f st)"

definition apply_audio_codec ::
    "env \<Rightarrow> user_id \<Rightarrow> codec \<Rightarrow> server_state \<Rightarrow> server_state \<times> control_response" where
  "apply_audio_codec env u codec = guarded lo_allow_codec ''codec'' u (\<lambda>st.
     case codec_available_for_user env st u codec of
       Some m \<Rightarrow> (st, Error m)
     | None \<Rightarrow> edit_desired env u (\<lambda>d. d\<lparr>dc_codec := codec\<rparr>) st)"

definition apply_talk_mode ::
    "env \<Rightarrow> user_id \<Rightarrow> talk_mode \<Rightarrow> server_state \<Rightarrow> server_state \<times> control_response" where
  "apply_talk_mode env u mode = guarded lo_allow_talk_mode ''talk mode'' u
     (edit_desired env u (\<lambda>d. d\<lparr>dc_talk_mode := mode\<rparr>))"

definition set_priority :: "bool \<Rightarrow> desired_client_config \<Rightarrow> desired_client_config" where
  "set_priority active d = d
     \<lparr>dc_priority := active,
      dc_priority_channels := (if active \<and> dc_priority_channels d = []
                               then sorted_unique_channels (dc_tx d) else dc_priority_channels d)\<rparr>"

definition apply_priority ::
    "env \<Rightarrow> user_id \<Rightarrow> bool \<Rightarrow> server_state \<Rightarrow> server_state \<times> control_response" where
  "apply_priority env u active = guarded lo_allow_priority ''priority'' u
     (edit_desired env u (set_priority active))"

definition apply_button ::
    "env \<Rightarrow> user_id \<Rightarrow> button_id \<Rightarrow> bool \<Rightarrow> server_state \<Rightarrow> server_state \<times> control_response" where
  "apply_button env u b pressed = guarded lo_allow_buttons ''buttons'' u
     (apply_button_event env u b pressed)"

section \<open>Reports\<close>

definition touch_session :: "env \<Rightarrow> session \<Rightarrow> session" where
  "touch_session env s = s\<lparr>se_last_seen := env_now env\<rparr>"

definition record_capture_health ::
    "env \<Rightarrow> user_id \<Rightarrow> capture_health_status \<Rightarrow> server_state \<Rightarrow> server_state" where
  "record_capture_health env u capture st =
     with_health env u (\<lambda>h. h\<lparr>uh_capture := Some capture\<rparr>)
       (with_session env u (touch_session env) st)"

definition record_bridge_status ::
    "env \<Rightarrow> user_id \<Rightarrow> bridge_status \<Rightarrow> server_state \<Rightarrow> server_state" where
  "record_bridge_status env u status st =
     with_session env u
       (\<lambda>s. s\<lparr>se_role := RoleBridge, se_bridge := Some (normalize_bridge_status status),
              se_last_seen := env_now env\<rparr>) st"

section \<open>The dispatcher\<close>

fun apply_control ::
    "env \<Rightarrow> control_message \<Rightarrow> server_state \<Rightarrow> server_state \<times> control_response" where
  "apply_control env (Hello u hr) st = apply_hello env u hr st"
| "apply_control env (Config u cr) st = apply_config env u cr st"
| "apply_control env (AudioCodec u codec) st = apply_audio_codec env u codec st"
| "apply_control env (TalkMode u mode) st = apply_talk_mode env u mode st"
| "apply_control env (Ping u) st = (with_session env u (touch_session env) st, Ack)"
| "apply_control env (CaptureHealth u health) st = (record_capture_health env u health st, Ack)"
| "apply_control env (BridgeStatus u status) st = (record_bridge_status env u status st, Ack)"
| "apply_control env (Talk u active) st = apply_regular_talk_event env u active st"
| "apply_control env (Priority u active) st = apply_priority env u active st"
| "apply_control env (Emergency u active target gain mute) st =
     apply_emergency_event env u active target gain mute st"
| "apply_control env (Button u b pressed) st = apply_button env u b pressed st"
| "apply_control env (SendAlert u target message) st = apply_send_alert_event env u target message st"
| "apply_control env (AckAlert u i) st = apply_ack_alert_event env u i st"
| "apply_control env (CancelAlert u i) st = apply_cancel_alert_event env u i st"
| "apply_control env (DirectCall u target active duck) st =
     apply_direct_call_event env u target active duck st"
| "apply_control env (ReplyCall u active duck) st = apply_reply_call_event env u active duck st"
| "apply_control env Status st = (st, (let (ss, m) = status_snapshot env st in RespStatus ss m))"

section \<open>Connections\<close>

text \<open>A connection remembers the user its last successful hello registered.\<close>

type_synonym conn_state = "user_id option"

fun is_hello :: "control_message \<Rightarrow> bool" where
  "is_hello (Hello u hr) = True"
| "is_hello m = False"

definition register_hello ::
    "connection \<Rightarrow> control_response \<Rightarrow> conn_state \<times> server_state \<Rightarrow> conn_state \<times> server_state" where
  "register_hello c resp = (\<lambda>(reg, st).
     (case resp of
        RespHello preconfigured u uid Enrolled \<Rightarrow>
          let st = register_control_client u c st
          in (Some u,
              if preconfigured
              then (case config_event_snapshot st u of None \<Rightarrow> st
                    | Some ev \<Rightarrow> st\<lparr>st_delivered := st_delivered st @ [(c, ev)]\<rparr>)
              else st)
      | _ \<Rightarrow> (reg, st)))"

text \<open>A text frame: a control message, or text that does not parse as one.\<close>

definition count_control_message :: "server_state \<Rightarrow> server_state" where
  "count_control_message =
     count_metric (\<lambda>m. m\<lparr>mt_control_messages_received := mt_control_messages_received m + 1\<rparr>)"

definition handle_control_text ::
    "env \<Rightarrow> connection \<Rightarrow> string + control_message \<Rightarrow> conn_state \<times> server_state \<Rightarrow>
     (conn_state \<times> server_state) \<times> control_response" where
  "handle_control_text env c text = (\<lambda>(reg, st).
     (let st = count_control_message st
      in case text of
           Inl err \<Rightarrow> ((reg, st), Error (''parse control message: '' @ err))
         | Inr control \<Rightarrow>
             let (st, resp) = apply_control env control st
             in ((if is_hello control then register_hello c resp (reg, st) else (reg, st)), resp)))"

definition close_control_connection ::
    "env \<Rightarrow> connection \<Rightarrow> conn_state \<times> server_state \<Rightarrow> server_state" where
  "close_control_connection env c = (\<lambda>(reg, st).
     (let st = (case reg of
                  None \<Rightarrow> st
                | Some u \<Rightarrow> clear_emergency_for_source env u
                              (clear_active_buttons env u (unregister_control_client u c st)))
      in st\<lparr>st_open_connections := st_open_connections st - {c}\<rparr>))"

section \<open>The session invariant\<close>

definition all_sessions :: "(session \<Rightarrow> bool) \<Rightarrow> sessions \<Rightarrow> bool" where
  "all_sessions P ss = (hm_wf ss \<and> list_all (\<lambda>(u, s). P s) ss)"

lemma all_sessions_iff:
  "all_sessions P ss \<longleftrightarrow> hm_wf ss \<and> (\<forall>u s. hm_get ss u = Some s \<longrightarrow> P s)"
  by (auto simp: all_sessions_def list_all_iff hm_wf_mem)

lemma all_sessions_entry:
  "all_sessions P ss \<Longrightarrow> P d \<Longrightarrow> (\<And>s. P s \<Longrightarrow> P (f s)) \<Longrightarrow> all_sessions P (hm_entry u d f ss)"
  by (auto simp: all_sessions_iff hm_get_entry split: option.splits if_splits)

lemma all_sessions_modify:
  "all_sessions P ss \<Longrightarrow> (\<And>s. P s \<Longrightarrow> P (f s)) \<Longrightarrow> all_sessions P (hm_modify u f ss)"
  by (auto simp: all_sessions_iff hm_get_modify split: if_splits)

lemma all_sessions_fold:
  "all_sessions P ss \<Longrightarrow> (\<And>x ss. all_sessions P ss \<Longrightarrow> all_sessions P (f x ss)) \<Longrightarrow>
     all_sessions P (fold f xs ss)"
  by (induction xs arbitrary: ss) simp_all

text \<open>What a session has to satisfy. The set of tolerated output codecs is empty for the
  control connections; audio datagrams can bring in codecs the server does not decode.\<close>

definition talk_ok :: "codec set \<Rightarrow> session \<Rightarrow> bool" where
  "talk_ok lax s =
     (Pcm16 \<in> se_supported_codecs s \<and> se_output_codec s \<in> se_supported_codecs s \<union> lax \<and>
      buttons_ok (se_buttons s) \<and> se_active_buttons s \<subseteq> btn_id ` set (se_buttons s))"

definition history_ok :: "session \<Rightarrow> bool" where
  "history_ok s = (length (se_direct_call_history s) \<le> max_direct_call_history)"

definition sessions_ok_but :: "codec set \<Rightarrow> server_state \<Rightarrow> bool" where
  "sessions_ok_but lax st = all_sessions (\<lambda>s. talk_ok lax s \<and> history_ok s) (st_sessions st)"

abbreviation sessions_ok :: "server_state \<Rightarrow> bool" where
  "sessions_ok \<equiv> sessions_ok_but {}"

lemma buttons_ok_Nil [simp]: "buttons_ok []"
  by (simp add: buttons_ok_def)

lemma ok_session_new [simp]: "talk_ok lax (session_new now)" "history_ok (session_new now)"
  by (simp_all add: talk_ok_def history_ok_def session_new_def)

lemma sessions_ok_frame: "st_sessions st' = st_sessions st \<Longrightarrow> sessions_ok_but lax st' = sessions_ok_but lax st"
  by (simp add: sessions_ok_but_def)

lemma sessions_ok_with_session:
  "sessions_ok_but lax st \<Longrightarrow> (\<And>s. talk_ok lax s \<Longrightarrow> history_ok s \<Longrightarrow> talk_ok lax (f s) \<and> history_ok (f s)) \<Longrightarrow>
     sessions_ok_but lax (with_session env u f st)"
  unfolding sessions_ok_but_def with_session_def by (simp, rule all_sessions_entry) simp_all

lemma sessions_ok_modify:
  "sessions_ok_but lax st \<Longrightarrow> (\<And>s. talk_ok lax s \<Longrightarrow> history_ok s \<Longrightarrow> talk_ok lax (f s) \<and> history_ok (f s)) \<Longrightarrow>
     sessions_ok_but lax (modify_session u f st)"
  unfolding sessions_ok_but_def modify_session_def by (simp, rule all_sessions_modify) simp_all

subsection \<open>Configurations\<close>

lemma ok_apply_desired:
  "talk_ok lax s \<Longrightarrow> talk_ok lax (apply_desired_to_session_fields d s)"
  "history_ok s \<Longrightarrow> history_ok (apply_desired_to_session_fields d s)"
  by (auto simp: talk_ok_def history_ok_def apply_desired_to_session_fields_def Let_def)

lemma ok_last_seen [simp]:
  "talk_ok lax (s\<lparr>se_last_seen := t\<rparr>) = talk_ok lax s" "history_ok (s\<lparr>se_last_seen := t\<rparr>) = history_ok s"
  by (simp_all add: talk_ok_def history_ok_def)

lemma sessions_ok_live: "sessions_ok_but lax st \<Longrightarrow> sessions_ok_but lax (apply_desired_to_live_session env d st)"
  by (simp add: apply_desired_to_live_session_def sessions_ok_with_session ok_apply_desired)

lemma sessions_ok_push [simp]:
  "sessions_ok_but lax (push_config_update u st) = sessions_ok_but lax st"
  "sessions_ok_but lax (push_config_updates us st) = sessions_ok_but lax st"
  "sessions_ok_but lax (st\<lparr>st_admin_state := a\<rparr>) = sessions_ok_but lax st"
  by (simp_all add: sessions_ok_but_def)

lemma sessions_ok_apply_desired: "sessions_ok_but lax st \<Longrightarrow> sessions_ok_but lax (fst (apply_desired_client env d st))"
  by (simp add: apply_desired_client_def Let_def sessions_ok_live split: option.splits)

lemma sessions_ok_edit: "sessions_ok_but lax st \<Longrightarrow> sessions_ok_but lax (fst (edit_desired env u f st))"
  by (simp add: edit_desired_def sessions_ok_apply_desired)

lemma sessions_ok_preset: "sessions_ok_but lax st \<Longrightarrow> sessions_ok_but lax (fst (apply_preset env p st))"
proof -
  have "sessions_ok_but lax st \<Longrightarrow> sessions_ok_but lax (fold (\<lambda>d st. push_config_update (dc_user_id d)
      (apply_desired_to_live_session env d st)) ds st)" for ds st
    by (induction ds arbitrary: st) (simp_all add: sessions_ok_live)
  then show "sessions_ok_but lax st \<Longrightarrow> ?thesis"
    by (simp add: apply_preset_def Let_def split: option.splits)
qed

lemma sessions_ok_named_preset: "sessions_ok_but lax st \<Longrightarrow> sessions_ok_but lax (fst (apply_named_preset env i st))"
  using sessions_ok_preset [of lax st env]
  by (auto simp: apply_named_preset_def split: option.splits prod.splits) (metis fst_conv)+

subsection \<open>Calls and buttons\<close>

lemma ok_history_updates [simp]:
  "talk_ok lax (add_history h s) = talk_ok lax s"
  "talk_ok lax (close_history now p s) = talk_ok lax s"
  "history_ok (close_history now p s) = history_ok s"
  "talk_ok lax (s\<lparr>se_last_direct_caller := c\<rparr>) = talk_ok lax s"
  "history_ok (s\<lparr>se_last_direct_caller := c\<rparr>) = history_ok s"
  "talk_ok lax (s\<lparr>se_direct_call_history := hs\<rparr>) = talk_ok lax s"
  by (simp_all add: talk_ok_def add_history_def close_history_def history_ok_def)

lemma ok_call:
  "talk_ok lax s \<Longrightarrow> talk_ok lax (call_caller env u t active duck s)"
  "talk_ok lax s \<Longrightarrow> talk_ok lax (call_target env u t active duck s)"
  by (simp_all add: call_caller_def call_target_def Let_def) (simp_all add: talk_ok_def)

text \<open>Histories that may be too long, at some users, until they are trimmed.\<close>

definition long_at :: "codec set \<Rightarrow> user_id set \<Rightarrow> sessions \<Rightarrow> bool" where
  "long_at lax us ss =
     (all_sessions (talk_ok lax) ss \<and> (\<forall>v s. hm_get ss v = Some s \<longrightarrow> v \<in> us \<or> history_ok s))"

lemma long_at_iff:
  "long_at lax us ss \<longleftrightarrow>
     hm_wf ss \<and> (\<forall>v s. hm_get ss v = Some s \<longrightarrow> talk_ok lax s \<and> (v \<in> us \<or> history_ok s))"
  by (auto simp: long_at_def all_sessions_iff)

lemma long_at_mono: "long_at lax us ss \<Longrightarrow> us \<subseteq> vs \<Longrightarrow> long_at lax vs ss"
  by (auto simp: long_at_iff)

lemma long_at_modify:
  "long_at lax us ss \<Longrightarrow> u \<in> us \<Longrightarrow> (\<And>s. talk_ok lax s \<Longrightarrow> talk_ok lax (f s)) \<Longrightarrow> long_at lax us (hm_modify u f ss)"
  by (auto simp: long_at_iff hm_get_modify split: if_splits)

lemma long_at_trim: "long_at lax (insert u us) ss \<Longrightarrow> long_at lax us (trim_direct_history u ss)"
  by (auto simp: long_at_iff trim_direct_history_get history_ok_def split: if_splits)
     (simp add: trim_direct_history_def)

lemma long_at_trims: "long_at lax (set us) ss \<Longrightarrow> long_at lax {} (fold trim_direct_history us ss)"
  by (induction us arbitrary: ss) (simp_all add: long_at_trim)

lemma sessions_ok_long: "sessions_ok_but lax st \<longleftrightarrow> long_at lax {} (st_sessions st)"
  by (auto simp: sessions_ok_but_def long_at_iff all_sessions_iff)

lemma sessions_ok_call: "sessions_ok_but lax st \<Longrightarrow> sessions_ok_but lax (fst (apply_direct_call_event env u t active duck st))"
proof -
  assume ok: "sessions_ok_but lax st"
  then have l: "long_at lax {u, t} (st_sessions st)" by (auto simp: sessions_ok_long elim: long_at_mono)
  let ?ss = "hm_entry u (session_new (env_now env)) (call_caller env u t active duck) (st_sessions st)"
  have "long_at lax {u, t} ?ss"
    using l by (auto simp: long_at_iff hm_get_entry ok_call split: if_splits option.splits)
  then have "long_at lax {u, t} (hm_modify t (call_target env u t active duck) ?ss)"
    by (rule long_at_modify) (simp_all add: ok_call)
  then have "long_at lax {} (trim_direct_history t (trim_direct_history u
      (hm_modify t (call_target env u t active duck) ?ss)))"
    by (intro long_at_trim)
  with ok show ?thesis
    by (simp add: apply_direct_call_event_def Let_def sessions_ok_long)
qed

lemma sessions_ok_reply: "sessions_ok_but lax st \<Longrightarrow> sessions_ok_but lax (fst (apply_reply_call_event env u active duck st))"
  by (simp add: apply_reply_call_event_def sessions_ok_call split: option.splits)

lemma long_at_start_route:
  "long_at lax (insert u (set (snd acc))) (fst acc) \<Longrightarrow>
     long_at lax (insert u (set (snd (start_route env u b c acc)))) (fst (start_route env u b c acc))"
  by (cases c; cases acc)
    (auto simp: start_route_def Let_def intro!: long_at_modify elim: long_at_mono)

lemma long_at_start_routes:
  "long_at lax (insert u (set (snd acc))) (fst acc) \<Longrightarrow>
     long_at lax (insert u (set (snd (fold (start_route env u b) cs acc)))) (fst (fold (start_route env u b) cs acc))"
  by (induction cs arbitrary: acc) (simp_all add: long_at_start_route)

lemma sessions_ok_start:
  assumes "sessions_ok_but lax st" shows "sessions_ok_but lax (start_button_transmit_routes env u button st)"
proof -
  let ?cs = "concat (map transmit_calls (btn_actions button))"
  obtain ss ts where f: "fold (start_route env u (btn_id button)) ?cs (st_sessions st, []) = (ss, ts)"
    by fastforce
  have "long_at lax {u} (st_sessions st)"
    using assms by (auto simp: sessions_ok_long elim: long_at_mono)
  then have "long_at lax (set (u # ts)) ss"
    using long_at_start_routes [where acc = "(st_sessions st, [])" and u = u and env = env
        and b = "btn_id button" and cs = ?cs] f by simp
  then show ?thesis
    using long_at_trims [of lax "u # ts" ss] by (simp add: start_button_transmit_routes_def f sessions_ok_long)
qed

definition both_ok :: "codec set \<Rightarrow> session \<Rightarrow> bool" where
  "both_ok lax s = (talk_ok lax s \<and> history_ok s)"

lemma sessions_ok_both: "sessions_ok_but lax st \<longleftrightarrow> all_sessions (both_ok lax) (st_sessions st)"
  by (simp add: sessions_ok_but_def both_ok_def [abs_def])

lemma all_both_closes:
  "all_sessions (both_ok lax) ss \<Longrightarrow> all_sessions (both_ok lax) (close_button_direct_history u t b now ss)"
  "all_sessions (both_ok lax) ss \<Longrightarrow> all_sessions (both_ok lax) (close_direct_call_history u t now ss)"
  unfolding close_button_direct_history_def close_direct_call_history_def
  by (erule all_sessions_fold, erule all_sessions_modify, simp add: both_ok_def)+

lemma sessions_ok_stop:
  "sessions_ok_but lax st \<Longrightarrow> sessions_ok_but lax (stop_button_transmit_routes env u button st)"
  unfolding stop_button_transmit_routes_def sessions_ok_push(2)
  by (simp add: sessions_ok_both all_sessions_fold all_both_closes)

lemma both_ok_silence: "both_ok lax s \<Longrightarrow> both_ok lax (silence s)"
  by (simp add: both_ok_def talk_ok_def history_ok_def silence_def)

lemma sessions_ok_clear: "sessions_ok_but lax st \<Longrightarrow> sessions_ok_but lax (clear_active_buttons env u st)"
  unfolding clear_active_buttons_def Let_def sessions_ok_push(2)
  by (simp add: sessions_ok_both)
     (intro all_sessions_modify all_sessions_fold all_both_closes both_ok_silence)

lemma sessions_ok_emergency:
  "sessions_ok_but lax (fst (apply_emergency_event env u active t g m st)) = sessions_ok_but lax st"
  "sessions_ok_but lax (clear_emergency_for_source env u st) = sessions_ok_but lax st"
  by (simp_all add: apply_emergency_event_def clear_emergency_for_source_def Let_def sessions_ok_but_def
      split: option.splits)

lemma sessions_ok_alerts:
  "sessions_ok_but lax (fst (apply_send_alert_event env u t msg st)) = sessions_ok_but lax st"
  "sessions_ok_but lax (fst (apply_ack_alert_event env u i st)) = sessions_ok_but lax st"
  "sessions_ok_but lax (fst (apply_cancel_alert_event env u i st)) = sessions_ok_but lax st"
  by (simp_all add: apply_send_alert_event_def create_runtime_alert_def apply_ack_alert_event_def
      apply_cancel_alert_event_def Let_def sessions_ok_but_def split: option.splits)

lemma sessions_ok_requests:
  "f \<in> set (action_requests env u a) \<Longrightarrow> sessions_ok_but lax st \<Longrightarrow> sessions_ok_but lax (fst (f st))"
  by (cases a) (auto simp: sessions_ok_alerts sessions_ok_named_preset sessions_ok_edit)

lemma sessions_ok_run:
  "(\<And>f st. f \<in> set fs \<Longrightarrow> sessions_ok_but lax st \<Longrightarrow> sessions_ok_but lax (fst (f st))) \<Longrightarrow> sessions_ok_but lax st \<Longrightarrow>
     sessions_ok_but lax (fst (run_until_error fs st))"
proof (induction fs arbitrary: st)
  case (Cons f fs)
  then have ok: "sessions_ok_but lax (fst (f st))" by simp
  obtain st' r where f: "f st = (st', r)" by fastforce
  from Cons.IH [of st'] Cons.prems(1) ok f have "sessions_ok_but lax (fst (run_until_error fs st'))" by simp
  with ok f show ?case by (cases r) simp_all
qed simp

lemma sessions_ok_activate:
  assumes "sessions_ok_but lax st" shows "sessions_ok_but lax (fst (activate_button env u button st))"
proof -
  have "sessions_ok_but lax (fst (execute_button_activation_actions env u button
      (start_button_transmit_routes env u button st)))"
    unfolding execute_button_activation_actions_def
    by (rule sessions_ok_run) (auto simp: sessions_ok_requests sessions_ok_start assms)
  then show ?thesis by (auto simp: activate_button_def split: prod.splits control_response.splits)
qed

lemma ok_set_button:
  "both_ok lax s \<Longrightarrow> v \<longrightarrow> b \<in> btn_id ` set (se_buttons s) \<Longrightarrow> both_ok lax (set_button env b v s)"
  by (auto simp: both_ok_def talk_ok_def history_ok_def set_button_def)

lemma sessions_ok_button:
  assumes "sessions_ok_but lax st" shows "sessions_ok_but lax (fst (apply_button_event env u b pressed st))"
proof -
  have "sessions_ok_but lax (modify_session u (set_button env b v) st)"
    if "hm_get (st_sessions st) u = Some s" "find (\<lambda>x. btn_id x = b) (se_buttons s) = Some button"
    for s button v
  proof -
    have "b \<in> btn_id ` set (se_buttons s)" using that(2) by (auto simp: find_Some_iff)
    then show ?thesis
      using assms that(1)
      by (auto simp: sessions_ok_both all_sessions_iff modify_session_def hm_get_modify ok_set_button
          split: if_splits)
  qed
  with assms show ?thesis
    by (auto simp: apply_button_event_def Let_def sessions_ok_activate sessions_ok_stop split: option.splits)
qed

subsection \<open>Hello and the dispatcher\<close>

lemma enroll_sessions [simp]:
  "st_sessions (fst (resolve_client_enrollment env uid r role st)) = st_sessions st"
  "st_sessions (fst (persist_client_advertisement env i codecs bs caps st)) = st_sessions st"
  by (simp_all add: resolve_client_enrollment_def enroll_known_device_def enroll_preconfigured_def
      enroll_new_device_def enroll_with_def persist_client_advertisement_def Let_def
      split: option.splits)

lemma both_ok_hello: "both_ok lax s \<Longrightarrow> both_ok lax (hello_session env e hr desired s)"
proof -
  assume ok: "both_ok lax s"
  let ?s = "s\<lparr>se_client_uid := ed_client_uid e, se_enrollment := ed_status e, se_role := hr_role hr,
                se_supported_codecs := normalize_supported_codecs (hr_codecs hr),
                se_advertised_buttons := normalize_button_capabilities (hr_buttons hr),
                se_capabilities := normalize_client_capabilities (hr_capabilities hr)\<rparr>"
  have pcm: "Pcm16 \<in> normalize_supported_codecs (hr_codecs hr)"
    by (simp add: normalize_supported_codecs_def)
  show ?thesis
  proof (cases desired)
    case None
    have "se_supported_codecs (apply_default_operator_channels_to_session ?s) =
        normalize_supported_codecs (hr_codecs hr)"
      "se_active_buttons (apply_default_operator_channels_to_session ?s) = se_active_buttons s"
      "se_buttons (apply_default_operator_channels_to_session ?s) = se_buttons s"
      "se_direct_call_history (apply_default_operator_channels_to_session ?s) = se_direct_call_history s"
      by (simp_all add: apply_default_operator_channels_to_session_def)
    with ok pcm show ?thesis
      by (simp add: hello_session_def None Let_def both_ok_def talk_ok_def history_ok_def)
  next
    case (Some d)
    with ok pcm show ?thesis
      by (simp add: hello_session_def Let_def both_ok_def history_ok_def talk_ok_def
          apply_desired_to_session_fields_def)
  qed
qed

lemma sessions_ok_hello: "sessions_ok_but lax st \<Longrightarrow> sessions_ok_but lax (fst (apply_hello env u hr st))"
proof -
  assume ok: "sessions_ok_but lax st"
  let ?req = "case hr_requested_user_id hr of Some r \<Rightarrow> Some r | None \<Rightarrow> if u > 0 then Some u else None"
  obtain st' r where r: "resolve_client_enrollment env (hr_client_uid hr) ?req (hr_role hr) st = (st', r)"
    by fastforce
  with ok have ok': "sessions_ok_but lax st'"
    by (metis enroll_sessions(1) fst_conv sessions_ok_frame)
  have "sessions_ok_but lax (with_session env v (hello_session env e hr d) st')" for v e d
    using ok' both_ok_hello by (intro sessions_ok_with_session) (auto simp: both_ok_def)
  then show ?thesis
    using ok' by (cases r) (simp_all add: apply_hello_def Let_def r sessions_ok_but_def)
qed

lemma sessions_ok_guarded:
  "(\<And>st. sessions_ok_but lax st \<Longrightarrow> sessions_ok_but lax (fst (f st))) \<Longrightarrow> sessions_ok_but lax st \<Longrightarrow>
     sessions_ok_but lax (fst (guarded allowed label u f st))"
  by (simp add: guarded_def split: option.splits)

lemma sessions_ok_config: "sessions_ok_but lax st \<Longrightarrow> sessions_ok_but lax (fst (apply_config env u cr st))"
  by (simp add: apply_config_def Let_def sessions_ok_apply_desired split: option.splits)

lemma both_ok_simps [simp]:
  "both_ok lax (touch_session env s) = both_ok lax s"
  "both_ok lax (s\<lparr>se_role := r, se_bridge := b, se_last_seen := t\<rparr>) = both_ok lax s"
  "both_ok lax (s\<lparr>se_regular_talk_active := a, se_last_seen := t\<rparr>) = both_ok lax s"
  by (simp_all add: both_ok_def talk_ok_def history_ok_def touch_session_def)

lemma sessions_ok_both_session:
  "sessions_ok_but lax st \<Longrightarrow> (\<And>s. both_ok lax s \<Longrightarrow> both_ok lax (f s)) \<Longrightarrow> sessions_ok_but lax (with_session env u f st)"
  "sessions_ok_but lax st \<Longrightarrow> (\<And>s. both_ok lax s \<Longrightarrow> both_ok lax (f s)) \<Longrightarrow> sessions_ok_but lax (modify_session u f st)"
  using sessions_ok_with_session sessions_ok_modify by (auto simp: both_ok_def)

lemma sessions_ok_reports:
  "sessions_ok_but lax st \<Longrightarrow> sessions_ok_but lax (with_session env u (touch_session env) st)"
  "sessions_ok_but lax st \<Longrightarrow> sessions_ok_but lax (record_capture_health env u h st)"
  "sessions_ok_but lax st \<Longrightarrow> sessions_ok_but lax (record_bridge_status env u b st)"
  "sessions_ok_but lax st \<Longrightarrow> sessions_ok_but lax (fst (apply_regular_talk_event env u a st))"
proof -
  show touch: "sessions_ok_but lax st \<Longrightarrow> sessions_ok_but lax (with_session env u (touch_session env) st)" for st
    by (rule sessions_ok_both_session(1)) simp_all
  then show "sessions_ok_but lax st \<Longrightarrow> sessions_ok_but lax (record_capture_health env u h st)"
    by (simp add: record_capture_health_def sessions_ok_but_def)
  show "sessions_ok_but lax st \<Longrightarrow> sessions_ok_but lax (record_bridge_status env u b st)"
    unfolding record_bridge_status_def by (rule sessions_ok_both_session(1)) simp_all
  have "sessions_ok_but lax st \<Longrightarrow>
      sessions_ok_but lax (modify_session u (\<lambda>s. s\<lparr>se_regular_talk_active := a, se_last_seen := env_now env\<rparr>) st)"
    by (rule sessions_ok_both_session(2)) simp_all
  then show "sessions_ok_but lax st \<Longrightarrow> sessions_ok_but lax (fst (apply_regular_talk_event env u a st))"
    by (simp add: apply_regular_talk_event_def)
qed

lemma sessions_ok_control: "sessions_ok_but lax st \<Longrightarrow> sessions_ok_but lax (fst (apply_control env m st))"
  by (cases m)
    (simp_all add: sessions_ok_hello sessions_ok_config sessions_ok_reports sessions_ok_emergency
      sessions_ok_alerts sessions_ok_call sessions_ok_reply sessions_ok_guarded sessions_ok_edit
      sessions_ok_button apply_audio_codec_def apply_talk_mode_def apply_priority_def
      apply_button_def split: option.splits)

section \<open>Runs of connections\<close>

datatype connection_event =
    Connect connection
  | Text connection "string + control_message"
  | Close connection

text \<open>The server's state and the open connections with the user each registered.\<close>

type_synonym server = "server_state \<times> (connection, conn_state) hash_map"

fun connection_step :: "env \<times> connection_event \<Rightarrow> server \<Rightarrow> server" where
  "connection_step (env, Connect c) (st, conns) =
     (st\<lparr>st_open_connections := insert c (st_open_connections st)\<rparr>, hm_insert c None conns)"
| "connection_step (env, Text c text) (st, conns) =
     (case hm_get conns c of
        None \<Rightarrow> (st, conns)
      | Some reg \<Rightarrow>
          let ((reg, st), resp) = handle_control_text env c text (reg, st)
          in (st, hm_insert c reg conns))"
| "connection_step (env, Close c) (st, conns) =
     (case hm_get conns c of
        None \<Rightarrow> (st, conns)
      | Some reg \<Rightarrow> (close_control_connection env c (reg, st), hm_remove c conns))"

lemma sessions_ok_text:
  "sessions_ok_but lax st \<Longrightarrow> sessions_ok_but lax (snd (fst (handle_control_text env c frame (reg, st))))"
proof -
  assume ok: "sessions_ok_but lax st"
  have reg: "st_sessions (snd (register_hello c resp (r, s))) = st_sessions s" for resp r s
    by (simp add: register_hello_def register_control_client_def Let_def split: control_response.splits
        enrollment_status.splits option.splits)
  show ?thesis
  proof (cases frame)
    case (Inr m)
    obtain st' resp where m: "apply_control env m (count_control_message st) = (st', resp)" by fastforce
    from ok have "sessions_ok_but lax (count_control_message st)"
      by (simp add: count_control_message_def sessions_ok_but_def)
    then have "sessions_ok_but lax st'" using sessions_ok_control [of lax _ env m] m by (metis fst_conv)
    then show ?thesis
      by (simp add: handle_control_text_def Inr m sessions_ok_but_def reg)
  next
    case (Inl err)
    with ok show ?thesis
      by (simp add: handle_control_text_def count_control_message_def sessions_ok_but_def)
  qed
qed

lemma sessions_ok_close:
  assumes "sessions_ok_but lax st" shows "sessions_ok_but lax (close_control_connection env c (reg, st))"
proof -
  have "sessions_ok_but lax (clear_emergency_for_source env u
      (clear_active_buttons env u (unregister_control_client u c st)))" for u
  proof -
    have "sessions_ok_but lax (unregister_control_client u c st)"
      using assms by (simp add: unregister_control_client_def sessions_ok_but_def)
    then show ?thesis by (simp add: sessions_ok_emergency sessions_ok_clear)
  qed
  then show ?thesis
    using assms by (cases reg) (simp_all add: close_control_connection_def Let_def sessions_ok_but_def)
qed

interpretation control: step_machine connection_step "\<lambda>_. True"
  "\<lambda>(st, conns :: (connection, conn_state) hash_map). sessions_ok_but lax st" for lax
proof
  fix e :: "env \<times> connection_event" and s :: server
  assume inv: "case s of (st, conns) \<Rightarrow> sessions_ok_but lax st"
  obtain st conns env ev where s: "s = (st, conns)" and e: "e = (env, ev)" by (cases s; cases e)
  with inv have ok: "sessions_ok_but lax st" by simp
  show "case connection_step e s of (st, conns) \<Rightarrow> sessions_ok_but lax st"
  proof (cases ev)
    case (Connect c)
    with ok show ?thesis by (simp add: s e sessions_ok_but_def)
  next
    case (Text c frame)
    show ?thesis
    proof (cases "hm_get conns c")
      case None
      with ok show ?thesis by (simp add: s e Text)
    next
      case (Some reg)
      obtain reg' st' r where h: "handle_control_text env c frame (reg, st) = ((reg', st'), r)"
        by (metis prod.exhaust)
      with sessions_ok_text [OF ok, of env c frame reg] Some show ?thesis
        by (simp add: s e Text)
    qed
  next
    case (Close c)
    with ok show ?thesis by (simp add: s e sessions_ok_close split: option.splits)
  qed
qed

section \<open>Properties\<close>

text \<open>C4. Every run of connections, whatever the clients send and whenever they connect or
  leave, keeps each session consistent: the codec the server sends is one the client
  supports, PCM16 is always among these, buttons are in normal form and only configured ones
  are active, and the call
  history holds at most 20 entries. User ids stay unique.\<close>

theorem control_runs_keep_sessions:
  assumes "sessions_ok (fst server)"
  shows "case fold connection_step events server of (st, conns) \<Rightarrow>
     hm_wf (st_sessions st) \<and>
     list_all (\<lambda>(u, s). se_output_codec s \<in> se_supported_codecs s \<and> Pcm16 \<in> se_supported_codecs s \<and>
        buttons_ok (se_buttons s) \<and> se_active_buttons s \<subseteq> btn_id ` set (se_buttons s) \<and>
        length (se_direct_call_history s) \<le> 20)
       (st_sessions st)"
proof -
  have "case fold connection_step events server of (st, conns) \<Rightarrow> sessions_ok st"
    using control.run_inv [where lax = "{}" and es = events and s = server] assms by (simp add: case_prod_unfold list_all_iff)
  then show ?thesis
    by (simp add: sessions_ok_but_def all_sessions_def talk_ok_def history_ok_def
        max_direct_call_history_def list_all_iff case_prod_unfold)
qed

theorem control_runs_keep_sessions_witness:
  "case fold connection_step [(sample_env, Connect 7), (sample_env, Text 7 (Inr (Ping 1))),
       (sample_env, Close 7)] (cue_state, []) of (st, conns) \<Rightarrow>
     hm_wf (st_sessions st) \<and>
     list_all (\<lambda>(u, s). se_output_codec s \<in> se_supported_codecs s \<and> Pcm16 \<in> se_supported_codecs s \<and>
        buttons_ok (se_buttons s) \<and> se_active_buttons s \<subseteq> btn_id ` set (se_buttons s) \<and>
        length (se_direct_call_history s) \<le> 20)
       (st_sessions st)"
  by (rule control_runs_keep_sessions)
    (simp add: cue_state_def cue_session_def sessions_ok_but_def all_sessions_def hm_wf_def talk_ok_def
      history_ok_def session_new_def buttons_ok_def button_ok_def cue_button_def trimmed_def,
     code_simp)

text \<open>Events never register a control client.\<close>

lemma send_event_clients:
  "hm_get (st_control_clients (send_event v ev st)) u \<in> {hm_get (st_control_clients st) u, None}"
  by (simp add: send_event_def delete_conv' split: option.splits)

lemma push_clients:
  "hm_get (st_control_clients (push_config_update v st)) u \<in> {hm_get (st_control_clients st) u, None}"
  using send_event_clients by (simp add: push_config_update_def split: option.splits)

lemma pushes_clients:
  "hm_get (st_control_clients (push_config_updates vs st)) u \<in> {hm_get (st_control_clients st) u, None}"
proof (induction vs arbitrary: st)
  case (Cons v vs)
  show ?case
    using Cons.IH [of "push_config_update v st"] push_clients [of v st u]
    by (auto simp: push_config_updates_def)
qed (simp add: push_config_updates_def)

text \<open>C15. What closing a connection leaves: the connection is closed, the user it registered
  has no emergency running and transmits only what its microphone mode sends, and is
  registered, if at all, under another connection.\<close>

theorem close_cleans_up:
  assumes "hm_wf (st_sessions st)"
  shows "case close_control_connection env c (Some u, st) of st' \<Rightarrow>
     c \<notin> st_open_connections st' \<and>
     (case st_emergency st' of None \<Rightarrow> True | Some e \<Rightarrow> re_source e \<noteq> u) \<and>
     map_option active_tx_targets (hm_get (st_sessions st') u) =
       map_option (\<lambda>s. if se_talk_mode s = Open then Channel ` se_tx_channels s else {})
         (hm_get (st_sessions st) u) \<and>
     hm_get (st_control_clients st') u \<noteq> Some c"
proof -
  let ?st1 = "unregister_control_client u c st"
  let ?st2 = "clear_active_buttons env u ?st1"
  let ?st3 = "clear_emergency_for_source env u ?st2"
  have ss1: "st_sessions ?st1 = st_sessions st"
    by (simp add: unregister_control_client_def)
  have "hm_get (st_control_clients ?st1) u \<noteq> Some c"
    by (simp add: unregister_control_client_def delete_conv')
  moreover have "hm_get (st_control_clients ?st2) u \<in> {hm_get (st_control_clients ?st1) u, None}"
    unfolding clear_active_buttons_def Let_def
    by (rule subst [where P = "\<lambda>x. _ \<in> {hm_get x u, None}", OF _ pushes_clients]) simp
  moreover have "hm_get (st_control_clients ?st3) u \<in> {hm_get (st_control_clients ?st2) u, None}"
    using pushes_clients [of "hm_keys (st_sessions ?st2)" "?st2\<lparr>st_emergency := None\<rparr>" u]
    by (simp add: clear_emergency_for_source_def split: option.splits)
  ultimately have "hm_get (st_control_clients ?st3) u \<noteq> Some c" by auto
  moreover have "case st_emergency ?st3 of None \<Rightarrow> True | Some e \<Rightarrow> re_source e \<noteq> u"
    by (simp add: clear_emergency_for_source_def split: option.splits)
  moreover have "st_sessions ?st3 = st_sessions ?st2"
    by (simp add: clear_emergency_for_source_def split: option.splits)
  moreover have "map_option active_tx_targets (hm_get (st_sessions ?st2) u) =
       map_option (\<lambda>s. if se_talk_mode s = Open then Channel ` se_tx_channels s else {})
         (hm_get (st_sessions st) u)"
    using clear_active_buttons_facts [of ?st1 env u] assms by (simp add: ss1)
  ultimately show ?thesis by (simp add: close_control_connection_def Let_def)
qed

theorem close_cleans_up_witness:
  "case close_control_connection sample_env 7 (Some 1, cue_state) of st' \<Rightarrow>
     7 \<notin> st_open_connections st' \<and>
     (case st_emergency st' of None \<Rightarrow> True | Some e \<Rightarrow> re_source e \<noteq> 1) \<and>
     map_option active_tx_targets (hm_get (st_sessions st') 1) =
       map_option (\<lambda>s. if se_talk_mode s = Open then Channel ` se_tx_channels s else {})
         (hm_get (st_sessions cue_state) 1) \<and>
     hm_get (st_control_clients st') 1 \<noteq> Some 7"
  by (rule close_cleans_up) (simp add: cue_state_def hm_wf_def)

subsection \<open>Stored configurations and the lockout\<close>

lemma dc_user_id_clean_desired [simp]: "dc_user_id (clean_desired d) = dc_user_id d"
  by (simp add: clean_desired_def)

lemma desired_client_push [simp]:
  "desired_client (push_config_update v st) = desired_client st"
  "desired_client (apply_desired_to_live_session env d st) = desired_client st"
  by (simp_all add: desired_client_def fun_eq_iff apply_desired_to_live_session_def)

lemma desired_client_store:
  "desired_client (st\<lparr>st_admin_state := store_desired_client env d (st_admin_state st)\<rparr>) v =
     (if v = dc_user_id d then Some d else desired_client st v)"
  by (simp add: desired_client_def store_desired_client_def upsert_desired_client_def find_upsert_by)

lemma desired_client_apply:
  "desired_client (fst (apply_desired_client env d st)) v =
     (if v = dc_user_id d then Some (clean_desired d) else desired_client st v)"
  by (simp add: apply_desired_client_def Let_def desired_client_store split: option.splits)

lemma dc_user_id_baseline [simp]: "dc_user_id (desired_baseline_for_user st u) = u"
  by (auto simp: desired_baseline_for_user_def desired_client_def desired_of_session_def
      desired_client_new_def find_Some_iff split: option.splits)

lemma baseline_apply:
  "dc_user_id d = u \<Longrightarrow>
     desired_baseline_for_user (fst (apply_desired_client env d st)) u = clean_desired d"
  by (simp add: desired_baseline_for_user_def desired_client_apply)

text \<open>What a lockout policy protects of a configuration.\<close>

definition keeps_locked :: "desired_client_config \<Rightarrow> desired_client_config \<Rightarrow> bool" where
  "keeps_locked d d' =
     (let lo = dc_lockout d in
      dc_lockout d' = lo \<and>
      (lo_allow_channels lo \<or>
         set (dc_listen d') = set (dc_listen d) \<and> set (dc_tx d') = set (dc_tx d)) \<and>
      (lo_allow_volumes lo \<or>
         (dc_vol d' = dc_vol d \<or> volumes_eq (dc_vol d') (dc_vol d)) \<and>
         (dc_talker_vol d' = dc_talker_vol d \<or> volumes_eq (dc_talker_vol d') (dc_talker_vol d))) \<and>
      (lo_allow_codec lo \<or> dc_codec d' = dc_codec d \<and> dc_opus_profile d' = dc_opus_profile d) \<and>
      (lo_allow_talk_mode lo \<or> dc_talk_mode d' = dc_talk_mode d) \<and>
      (lo_allow_priority lo \<or> dc_priority d' = dc_priority d \<and>
         set (dc_priority_channels d') = set (dc_priority_channels d)) \<and>
      (lo_allow_buttons lo \<or> dc_buttons d' = dc_buttons d) \<and>
      (lo_allow_ifb lo \<or> dc_ifb d' = dc_ifb d \<or> ifb_eq (dc_ifb d') (dc_ifb d)))"

lemma keeps_locked_refl [simp]: "keeps_locked d d"
  by (simp add: keeps_locked_def Let_def)

lemma keeps_locked_clean [simp]: "keeps_locked d (clean_desired d') = keeps_locked d d'"
  by (simp add: keeps_locked_def Let_def clean_desired_def)

lemma same_channels_set: "same_channels xs ys \<Longrightarrow> set xs = set ys"
  by (metis same_channels_def set_sort)

text \<open>Validation accepts a request only when what the lockout protects stays the same.\<close>

lemma validated_facts:
  assumes "validate_config_lockout d cr = None"
  shows "lo_allow_channels (dc_lockout d) \<or>
      same_channels (cr_listen cr) (dc_listen d) \<and> same_channels (cr_tx cr) (dc_tx d)"
    "lo_allow_volumes (dc_lockout d) \<or>
      volumes_eq (cr_vol cr) (dc_vol d) \<and> \<not> differs (\<lambda>v. volumes_eq v (dc_talker_vol d)) (cr_talker_vol cr)"
    "lo_allow_codec (dc_lockout d) \<or>
      \<not> differs (\<lambda>v. v = dc_codec d) (cr_codec cr) \<and>
      \<not> differs (\<lambda>v. v = dc_opus_profile d) (cr_opus_profile cr)"
    "lo_allow_talk_mode (dc_lockout d) \<or> \<not> differs (\<lambda>v. v = dc_talk_mode d) (cr_talk_mode cr)"
    "lo_allow_priority (dc_lockout d) \<or> \<not> differs (\<lambda>v. v = dc_priority d) (cr_priority cr) \<and>
      \<not> differs (\<lambda>v. same_channels v (dc_priority_channels d)) (cr_priority_channels cr)"
    "lo_allow_buttons (dc_lockout d) \<or>
      \<not> differs (\<lambda>v. normalize_button_configs v = dc_buttons d) (cr_buttons cr)"
    "lo_allow_ifb (dc_lockout d) \<or> \<not> differs (\<lambda>v. ifb_eq (normalize_ifb_config v) (dc_ifb d)) (cr_ifb cr)"
  using assms unfolding validate_config_lockout_def Let_def by (simp_all split: if_splits) blast+

lemma validated_merge_keeps_locked:
  assumes "validate_config_lockout d cr = None"
  shows "keeps_locked d (merge_config cr d)"
proof -
  let ?lo = "dc_lockout d"
  note v = validated_facts [OF assms]
  have "lo_allow_channels ?lo \<or> set (cr_listen cr) = set (dc_listen d) \<and> set (cr_tx cr) = set (dc_tx d)"
    using v(1) by (blast dest: same_channels_set)
  moreover have "lo_allow_volumes ?lo \<or> volumes_eq (cr_vol cr) (dc_vol d) \<and>
      (given (cr_talker_vol cr) (dc_talker_vol d) = dc_talker_vol d \<or>
       volumes_eq (given (cr_talker_vol cr) (dc_talker_vol d)) (dc_talker_vol d))"
    using v(2) by (cases "cr_talker_vol cr") (auto simp: differs_def given_def)
  moreover have "lo_allow_codec ?lo \<or> given (cr_codec cr) (dc_codec d) = dc_codec d \<and>
      given (cr_opus_profile cr) (dc_opus_profile d) = dc_opus_profile d"
    using v(3) by (cases "cr_codec cr"; cases "cr_opus_profile cr") (simp_all add: differs_def given_def)
  moreover have "lo_allow_talk_mode ?lo \<or> given (cr_talk_mode cr) (dc_talk_mode d) = dc_talk_mode d"
    using v(4) by (cases "cr_talk_mode cr") (simp_all add: differs_def given_def)
  moreover have "lo_allow_priority ?lo \<or> given (cr_priority cr) (dc_priority d) = dc_priority d \<and>
      set (given (map_option sorted_unique_channels (cr_priority_channels cr)) (dc_priority_channels d)) =
      set (dc_priority_channels d)"
    using v(5)
    by (cases "cr_priority cr"; cases "cr_priority_channels cr")
      (auto simp: differs_def given_def dest: same_channels_set)
  moreover have "lo_allow_buttons ?lo \<or>
      given (map_option normalize_button_configs (cr_buttons cr)) (dc_buttons d) = dc_buttons d"
    using v(6) by (cases "cr_buttons cr") (simp_all add: differs_def given_def)
  moreover have "lo_allow_ifb ?lo \<or>
      given (map_option normalize_ifb_config (cr_ifb cr)) (dc_ifb d) = dc_ifb d \<or>
      ifb_eq (given (map_option normalize_ifb_config (cr_ifb cr)) (dc_ifb d)) (dc_ifb d)"
    using v(7) by (cases "cr_ifb cr") (auto simp: differs_def given_def)
  ultimately show ?thesis by (simp add: keeps_locked_def Let_def merge_config_def) blast
qed

lemma baseline_edit:
  "(\<And>d. dc_user_id (f d) = dc_user_id d) \<Longrightarrow>
     desired_baseline_for_user (fst (edit_desired env u f st)) u =
     clean_desired (f (desired_baseline_for_user st u))"
  by (simp add: edit_desired_def baseline_apply)

text \<open>C5. What the administrator locked a client cannot change for itself: after any of its
  configuration messages, the stored baseline agrees with the one before on every group of
  settings whose lockout flag is off, and on the lockout itself.\<close>

theorem lockout_enforced:
  "list_all (\<lambda>m. keeps_locked (desired_baseline_for_user st u)
       (desired_baseline_for_user (fst (apply_control env m st)) u))
     [Config u cr, AudioCodec u codec, TalkMode u mode, Priority u active]"
proof -
  let ?d = "desired_baseline_for_user st u"
  have "keeps_locked ?d (desired_baseline_for_user (fst (apply_config env u cr st)) u)"
    using validated_merge_keeps_locked [of ?d cr]
    by (auto simp: apply_config_def Let_def baseline_apply merge_config_def [of _ "_"] split: option.splits)
  moreover have "keeps_locked ?d (desired_baseline_for_user (fst (apply_audio_codec env u codec st)) u)"
    by (simp add: apply_audio_codec_def guarded_def ensure_control_allowed_def baseline_edit
        split: option.splits) (simp add: keeps_locked_def Let_def)
  moreover have "keeps_locked ?d (desired_baseline_for_user (fst (apply_talk_mode env u mode st)) u)"
    by (simp add: apply_talk_mode_def guarded_def ensure_control_allowed_def baseline_edit
        split: option.splits) (simp add: keeps_locked_def Let_def)
  moreover have "keeps_locked ?d (desired_baseline_for_user (fst (apply_priority env u active st)) u)"
    by (simp add: apply_priority_def guarded_def ensure_control_allowed_def baseline_edit
        set_priority_def split: option.splits) (simp add: keeps_locked_def Let_def)
  ultimately show ?thesis by simp
qed

text \<open>C6. Applying a desired configuration: it becomes the user's stored configuration and
  nobody else's changes. When it is saved, the live session takes it over, on a codec the
  session supports, and a connected client is sent exactly these values; when the save
  fails no session changes and nothing is sent.\<close>

theorem desired_client_applied:
  "case apply_desired_client env d st of (st', r) \<Rightarrow>
     desired_client st' = (desired_client st)(dc_user_id d \<mapsto> clean_desired d) \<and>
     (case env_save env (st_admin_state st') of
        Some err \<Rightarrow> r = Error (''save admin state: '' @ err) \<and> st_sessions st' = st_sessions st \<and>
          st_delivered st' = st_delivered st
      | None \<Rightarrow> r = Ack \<and>
          (\<exists>s. hm_get (st_sessions st') (dc_user_id d) = Some s \<and>
             se_listen_channels s = set (dc_listen d) \<and> se_tx_channels s = set (dc_tx d) \<and>
             se_talk_mode s = dc_talk_mode d \<and> se_priority s = dc_priority d \<and>
             se_buttons s = normalize_button_configs (dc_buttons d) \<and>
             se_output_codec s \<in> {dc_codec d, Pcm16} \<and>
             (case hm_get (st_control_clients st) (dc_user_id d) of
                None \<Rightarrow> st_delivered st' = st_delivered st
              | Some c \<Rightarrow> (if c \<in> st_open_connections st
                  then \<exists>cu. st_delivered st' = st_delivered st @ [(c, ConfigUpdate (dc_user_id d) cu)] \<and>
                      set (cu_listen cu) = set (dc_listen d) \<and> set (cu_tx cu) = set (dc_tx d) \<and>
                      cu_codec cu = se_output_codec s \<and> cu_talk_mode cu = dc_talk_mode d
                  else st_delivered st' = st_delivered st))))"
proof -
  let ?d = "clean_desired d"
  let ?st1 = "st\<lparr>st_admin_state := store_desired_client env ?d (st_admin_state st)\<rparr>"
  let ?st2 = "apply_desired_to_live_session env ?d ?st1"
  obtain st' r where a: "apply_desired_client env d st = (st', r)" by fastforce
  then have stored: "desired_client st' = (desired_client st)(dc_user_id d \<mapsto> ?d)"
    using desired_client_apply [of env d st] by (auto simp: fun_eq_iff)
  have admin: "st_admin_state st' = st_admin_state ?st1"
    using a by (auto simp: apply_desired_client_def Let_def apply_desired_to_live_session_def
        split: option.splits)
  show ?thesis
  proof (cases "env_save env (st_admin_state ?st1)")
    case (Some err)
    with a have "st' = ?st1" "r = Error (''save admin state: '' @ err)"
      by (simp_all add: apply_desired_client_def Let_def save_admin_state_def)
    with Some stored show ?thesis by (simp add: a admin)
  next
    case None
    with a have st': "st' = push_config_update (dc_user_id d) ?st2" and r: "r = Ack"
      by (simp_all add: apply_desired_client_def Let_def save_admin_state_def)
    let ?s = "(apply_desired_to_session_fields ?d (case hm_get (st_sessions st) (dc_user_id d) of
        Some s \<Rightarrow> s | None \<Rightarrow> session_new (env_now env)))\<lparr>se_last_seen := env_now env\<rparr>"
    have s: "hm_get (st_sessions ?st2) (dc_user_id d) = Some ?s"
      by (simp add: apply_desired_to_live_session_def split: option.splits)
    have fields: "se_listen_channels ?s = set (dc_listen d)" "se_tx_channels ?s = set (dc_tx d)"
      "se_talk_mode ?s = dc_talk_mode d" "se_priority ?s = dc_priority d"
      "se_buttons ?s = normalize_button_configs (dc_buttons d)" "se_output_codec ?s \<in> {dc_codec d, Pcm16}"
      by (simp_all add: apply_desired_to_session_fields_def Let_def clean_desired_def)
    obtain cu where ev: "config_event_snapshot ?st2 (dc_user_id d) = Some (ConfigUpdate (dc_user_id d) cu)"
      and cu: "cu_listen cu = sorted_list_of_set (se_listen_channels ?s)"
        "cu_tx cu = sorted_list_of_set (se_tx_channels ?s)" "cu_codec cu = se_output_codec ?s"
        "cu_talk_mode cu = se_talk_mode ?s"
      unfolding config_event_snapshot_def s
      by (simp add: session_control_event_def alert_statuses_for_user_with_sessions_def del: map_eq_conv)
    define s where "s = ?s"
    have live: "hm_get (st_sessions st') (dc_user_id d) = Some s" using s by (simp add: st' s_def)
    have del: "st_delivered st' = (case hm_get (st_control_clients st) (dc_user_id d) of
        None \<Rightarrow> st_delivered st
      | Some c \<Rightarrow> if c \<in> st_open_connections st
          then st_delivered st @ [(c, ConfigUpdate (dc_user_id d) cu)] else st_delivered st)"
    proof -
      have "st_delivered (send_event v e ?st2) = (case hm_get (st_control_clients st) v of
          None \<Rightarrow> st_delivered st
        | Some c \<Rightarrow> if c \<in> st_open_connections st then st_delivered st @ [(c, e)]
            else st_delivered st)" for v e
        by (simp add: send_event_def apply_desired_to_live_session_def split: option.split)
      then show ?thesis by (simp only: st' push_config_update_def ev option.case)
    qed
    note fields = fields [folded s_def] and cu = cu [folded s_def]
    have "set (cu_listen cu) = set (dc_listen d)" "set (cu_tx cu) = set (dc_tx d)"
      "cu_codec cu = se_output_codec s" "cu_talk_mode cu = dc_talk_mode d"
      using cu fields by simp_all
    then have "case hm_get (st_control_clients st) (dc_user_id d) of
        None \<Rightarrow> st_delivered st' = st_delivered st
      | Some c \<Rightarrow> (if c \<in> st_open_connections st
          then \<exists>cu. st_delivered st' = st_delivered st @ [(c, ConfigUpdate (dc_user_id d) cu)] \<and>
              set (cu_listen cu) = set (dc_listen d) \<and> set (cu_tx cu) = set (dc_tx d) \<and>
              cu_codec cu = se_output_codec s \<and> cu_talk_mode cu = dc_talk_mode d
          else st_delivered st' = st_delivered st)"
      unfolding del by (cases "hm_get (st_control_clients st) (dc_user_id d)") simp_all
    with live fields stored r show ?thesis
      unfolding a prod.case admin None option.case by blast
  qed
qed

end
