(* ===== verification/Codecs.thy ===== *)
theory Codecs
  imports Audio_Levels
begin

text \<open>
  Audio conversion: resampling in \<open>common/src/lib.rs\<close> (\<open>PcmFrameResampler\<close>,
  \<open>resample_audio\<close>, \<open>resample_linear\<close>, \<open>resample_linear_to_len\<close>) and the decoder and
  encoder banks of \<open>server/src/lib.rs\<close>. The polynomial resampler of the \<open>rubato\<close> crate and
  the Opus codec are parameters: a bank's third-party state at a call is what the
  parameters do at that call.
\<close>

record codec_libs =
  lib_resample :: "nat \<Rightarrow> nat \<Rightarrow> f32 list \<Rightarrow> string + f32 list"
  lib_opus_decode :: "opus_profile \<Rightarrow> u8 list \<Rightarrow> string + i16 list"
  lib_opus_encode :: "opus_profile \<Rightarrow> nat \<Rightarrow> i16 list \<Rightarrow> string + u8 list"

section \<open>Resampling\<close>

definition to_unit :: "i16 \<Rightarrow> f32" where
  "to_unit s = f_div binary32 (i16_to_f32 s) i16_max_f32"

definition quantise :: "f32 \<Rightarrow> i16" where
  "quantise s = to_i16 (f_clamp (f_round (f_mul binary32 s i16_max_f32)) (Fin (- 32768)) (Fin 32767))"

text \<open>Cut to a length, or repeat the last sample up to it.\<close>

definition fit_to :: "nat \<Rightarrow> i16 list \<Rightarrow> i16 list" where
  "fit_to n xs = take n xs @ replicate (n - length xs) (if xs = [] then 0 else last xs)"

definition frame_resample ::
    "codec_libs \<Rightarrow> nat \<Rightarrow> nat \<Rightarrow> i16 list \<Rightarrow> pcm_error + i16 list" where
  "frame_resample libs from_rate to_rate samples =
     (if from_rate = to_rate then Inr samples
      else if length samples \<noteq> frame_len_for_rate from_rate
      then Inl (Resample (''unexpected resampler input length: got '' @ show_nat (length samples) @
             '', expected '' @ show_nat (frame_len_for_rate from_rate)))
      else case lib_resample libs from_rate to_rate (map to_unit samples) of
             Inl e \<Rightarrow> Inl (Resample e)
           | Inr out \<Rightarrow> Inr (fit_to (frame_len_for_rate to_rate)
                         (map quantise (take (frame_len_for_rate to_rate) out))))"

definition resample_audio ::
    "codec_libs \<Rightarrow> i16 list \<Rightarrow> nat \<Rightarrow> nat \<Rightarrow> pcm_error + i16 list" where
  "resample_audio libs samples from_rate to_rate =
     (if from_rate = to_rate then Inr samples
      else if samples = [] then Inr []
      else case lib_resample libs from_rate to_rate (map to_unit samples) of
             Inl e \<Rightarrow> Inl (Resample e)
           | Inr out \<Rightarrow> Inr (fit_to (length samples * to_rate div from_rate) (map quantise out)))"

fun f_floor :: "float \<Rightarrow> float" where
  "f_floor (Fin x) = Fin (of_int \<lfloor>x\<rfloor>)"
| "f_floor v = v"

text \<open>The linear interpolation the resampling falls back to, in single precision.\<close>

definition interpolate :: "i16 list \<Rightarrow> nat \<Rightarrow> nat \<Rightarrow> i16" where
  "interpolate samples target_len index =
     (let span = (\<lambda>n. f_of_int binary32 (int n));
          pos = f_div binary32 (f_mul binary32 (span index) (span (length samples - 1)))
                  (span (target_len - 1));
          left = nat (f_as_int 0 (2 ^ 64 - 1) (f_floor pos));
          right = min (left + 1) (length samples - 1);
          frac = f_sub binary32 pos (span left);
          l = i16_to_f32 (samples ! left);
          r = i16_to_f32 (samples ! right)
      in to_i16 (f_clamp (f_round (f_add binary32 l (f_mul binary32 (f_sub binary32 r l) frac)))
           (Fin (- 32768)) (Fin 32767)))"

definition resample_linear_to_len :: "i16 list \<Rightarrow> nat \<Rightarrow> i16 list" where
  "resample_linear_to_len samples target_len =
     (if samples = [] \<or> target_len = 0 then []
      else if length samples = target_len then samples
      else if target_len = 1 then [hd samples]
      else if length samples = 1 then replicate target_len (hd samples)
      else map (interpolate samples target_len) [0..<target_len])"

definition resample_linear :: "codec_libs \<Rightarrow> i16 list \<Rightarrow> nat \<Rightarrow> nat \<Rightarrow> i16 list" where
  "resample_linear libs samples from_rate to_rate =
     (case resample_audio libs samples from_rate to_rate of
        Inr out \<Rightarrow> out
      | Inl _ \<Rightarrow>
          if from_rate = to_rate then samples
          else resample_linear_to_len samples (max 1 (length samples * to_rate div from_rate)))"

section \<open>Decoding\<close>

definition pcm_message :: "pcm_error \<Rightarrow> string" where
  "pcm_message e = (case e of
     OddByteLength n \<Rightarrow> ''PCM16 payload has odd byte length: '' @ show_nat n
   | Resample m \<Rightarrow> ''resample failed: '' @ m)"

definition mix_sample_rate :: nat where
  "mix_sample_rate = pcm48_sample_rate"

definition decode_opus :: "codec_libs \<Rightarrow> opus_profile \<Rightarrow> u8 list \<Rightarrow> string + i16 list" where
  "decode_opus libs profile payload =
     (case lib_opus_decode libs profile payload of
        Inl e \<Rightarrow> Inl e
      | Inr written \<Rightarrow>
          let samples = take (opus_samples_per_frame profile) written
          in if length samples \<noteq> opus_samples_per_frame profile
             then Inl (''unexpected Opus frame sample count: got '' @ show_nat (length samples) @
                    '', expected '' @ show_nat (opus_samples_per_frame profile))
             else Inr (resample_linear libs samples (opus_sample_rate_hz profile) mix_sample_rate))"

definition decode_pcm :: "codec_libs \<Rightarrow> codec \<Rightarrow> u8 list \<Rightarrow> string + i16 list" where
  "decode_pcm libs codec payload =
     (if length payload \<noteq> codec_pcm16_payload_bytes codec
      then Inl (''unexpected PCM16 payload length: got '' @ show_nat (length payload) @
             '', expected '' @ show_nat (codec_pcm16_payload_bytes codec))
      else case pcm16_le_bytes_to_samples payload of
             Inl e \<Rightarrow> Inl (pcm_message e)
           | Inr samples \<Rightarrow>
               (case frame_resample libs (codec_sample_rate codec) mix_sample_rate samples of
                  Inl e \<Rightarrow> Inl (pcm_message e) | Inr out \<Rightarrow> Inr out))"

fun audio_decode ::
    "codec_libs \<Rightarrow> codec \<Rightarrow> opus_profile \<Rightarrow> u8 list \<Rightarrow> string + i16 list" where
  "audio_decode libs Opus profile payload = decode_opus libs profile payload"
| "audio_decode libs Adpcm profile payload = Inl ''ADPCM is not implemented''"
| "audio_decode libs codec profile payload = decode_pcm libs codec payload"

section \<open>Encoding\<close>

text \<open>Every second sample from the given one on: one channel of an interleaved frame.\<close>

fun channel_samples :: "nat \<Rightarrow> nat \<Rightarrow> i16 list \<Rightarrow> i16 list" where
  "channel_samples channels channel samples =
     map (\<lambda>i. samples ! (i * channels + channel)) [0..<length samples div channels]"

definition resample_interleaved ::
    "codec_libs \<Rightarrow> i16 list \<Rightarrow> nat \<Rightarrow> nat \<Rightarrow> nat \<Rightarrow> string + i16 list" where
  "resample_interleaved libs samples from_rate to_rate channels =
     (if from_rate = to_rate then Inr samples
      else
        let channels = max channels 1
        in if length samples mod channels \<noteq> 0
           then Inl (''interleaved sample count '' @ show_nat (length samples) @
                  '' is not divisible by '' @ show_nat channels @ '' channels'')
           else
             let outs = map (\<lambda>c. resample_linear libs (channel_samples channels c samples)
                                   from_rate to_rate) [0..<channels]
             in Inr (concat (map (\<lambda>frame. map (\<lambda>out. out ! frame) outs) [0..<length (hd outs)])))"

definition encode_opus ::
    "codec_libs \<Rightarrow> opus_profile \<Rightarrow> i16 list \<Rightarrow> nat \<Rightarrow> string + u8 list" where
  "encode_opus libs profile samples channels =
     (case (if channels = 1
            then Inr (resample_linear libs samples mix_sample_rate (opus_sample_rate_hz profile))
            else resample_interleaved libs samples mix_sample_rate (opus_sample_rate_hz profile)
                   channels) of
        Inl e \<Rightarrow> Inl e
      | Inr samples \<Rightarrow> lib_opus_encode libs profile channels samples)"

definition encode_pcm :: "codec_libs \<Rightarrow> codec \<Rightarrow> i16 list \<Rightarrow> string + u8 list" where
  "encode_pcm libs codec samples =
     (case frame_resample libs mix_sample_rate (codec_sample_rate codec) samples of
        Inl e \<Rightarrow> Inl (pcm_message e) | Inr out \<Rightarrow> Inr (pcm16_samples_to_le_bytes out))"

definition audio_encode ::
    "codec_libs \<Rightarrow> codec \<Rightarrow> opus_profile \<Rightarrow> i16 list \<Rightarrow> nat \<Rightarrow> string + u8 list" where
  "audio_encode libs codec profile samples channels =
     (let channels = max channels 1
      in if channels = 2 \<and> codec \<noteq> Pcm48 \<and> codec \<noteq> Opus
         then Inl ''stereo output is only supported for pcm48 and opus''
         else if length samples \<noteq> mix_samples_per_frame * channels
         then Inl (''unexpected sample count: got '' @ show_nat (length samples) @
                '', expected '' @ show_nat (mix_samples_per_frame * channels))
         else case codec of
                Opus \<Rightarrow> encode_opus libs profile samples channels
              | Adpcm \<Rightarrow> Inl ''ADPCM is not implemented''
              | _ \<Rightarrow> if codec = Pcm48 \<and> channels = 2 then Inr (pcm16_samples_to_le_bytes samples)
                      else encode_pcm libs codec samples)"

section \<open>Lengths\<close>

lemma length_fit_to [simp]: "length (fit_to n xs) = n"
  by (simp add: fit_to_def)

lemma fit_to_id [simp]: "length xs = n \<Longrightarrow> fit_to n xs = xs"
  by (simp add: fit_to_def)

lemma length_pairs_le: "length (pairs_le bs) = length bs div 2"
  by (induction bs rule: pairs_le.induct) simp_all

lemma length_to_len: "samples \<noteq> [] \<Longrightarrow> length (resample_linear_to_len samples n) = n"
  by (simp add: resample_linear_to_len_def)

lemma length_resample_linear:
  assumes "from_rate > 0" "length samples * to_rate div from_rate > 0"
  shows "length (resample_linear libs samples from_rate to_rate) = length samples * to_rate div from_rate"
proof -
  have "samples \<noteq> []" using assms(2) by auto
  with assms show ?thesis
    by (auto simp: resample_linear_def resample_audio_def length_to_len split: sum.splits)
qed

lemma frame_lengths:
  "frame_len_for_rate mix_sample_rate = 480" "frame_len_for_rate 48000 = 480"
  "mix_samples_per_frame = 480" "mix_sample_rate = 48000"
  "frame_len_for_rate sample_rate = 160" "frame_len_for_rate pcm24_sample_rate = 240"
  by (simp_all add: frame_len_for_rate_def mix_sample_rate_def pcm48_sample_rate_def frame_ms_def
      mix_samples_per_frame_def sample_rate_def pcm24_sample_rate_def)

lemma frame_resample_length:
  "frame_resample libs a b samples = Inr out \<Longrightarrow> length samples = frame_len_for_rate a \<Longrightarrow>
     length out = frame_len_for_rate b"
  by (auto simp: frame_resample_def split: if_splits sum.splits)

lemma opus_frame_lengths:
  "opus_samples_per_frame p * 48000 div opus_sample_rate_hz p = 480" "opus_sample_rate_hz p > 0"
  by (cases p; simp add: opus_samples_per_frame_def sample_rate_def pcm24_sample_rate_def
      pcm48_sample_rate_def frame_ms_def)+

lemma decode_opus_length: "decode_opus libs p payload = Inr s \<Longrightarrow> length s = 480"
  using length_resample_linear [of "opus_sample_rate_hz p" _ 48000 libs] opus_frame_lengths [of p]
  by (auto simp: decode_opus_def Let_def frame_lengths split: sum.splits if_splits)

lemma decode_pcm_length:
  "decode_pcm libs codec payload = Inr s \<Longrightarrow> length s = 480"
  using frame_resample_length [of libs "codec_sample_rate codec" mix_sample_rate]
  by (auto simp: decode_pcm_def pcm16_le_bytes_to_samples_def length_pairs_le frame_lengths
      codec_pcm16_payload_bytes_def codec_samples_per_frame_def pcm16_bytes_per_sample_def
      split: sum.splits if_splits)

text \<open>Decoding a received payload: what is accepted is one 10 ms frame of 480 samples at
  48 kHz, whatever the codec; a PCM payload is accepted only at its exact length, a PCM48
  payload of that length always, and ADPCM never.\<close>

lemma decoded_frames_have_mix_length:
  "case audio_decode libs codec profile payload of
     Inr samples \<Rightarrow> length samples = mix_samples_per_frame \<and> codec \<noteq> Adpcm \<and>
       (codec = Opus \<or> length payload = codec_pcm16_payload_bytes codec)
   | Inl _ \<Rightarrow> \<not> (codec = Pcm48 \<and> length payload = 960)"
proof -
  have "audio_decode libs codec profile payload = Inr s \<Longrightarrow> length s = 480 \<and> codec \<noteq> Adpcm \<and>
      (codec = Opus \<or> length payload = codec_pcm16_payload_bytes codec)" for s
    using decode_opus_length decode_pcm_length
    by (cases codec) (auto simp: decode_pcm_def split: if_splits)
  moreover have "length payload = 960 \<Longrightarrow> \<exists>s. audio_decode libs Pcm48 profile payload = Inr s"
    by (simp add: decode_pcm_def pcm16_le_bytes_to_samples_def codec_pcm16_payload_bytes_def
        codec_samples_per_frame_def frame_lengths pcm16_bytes_per_sample_def frame_resample_def
        mix_sample_rate_def frame_len_for_rate_def pcm48_sample_rate_def frame_ms_def)
  ultimately show ?thesis
    by (auto simp: frame_lengths split: sum.splits)
qed

lemma encode_pcm_length:
  "encode_pcm libs codec samples = Inr payload \<Longrightarrow> length samples = 480 \<Longrightarrow>
     length payload = codec_pcm16_payload_bytes codec"
  using frame_resample_length [of libs mix_sample_rate "codec_sample_rate codec" samples]
  by (auto simp: encode_pcm_def frame_lengths codec_pcm16_payload_bytes_def
      codec_samples_per_frame_def pcm16_bytes_per_sample_def split: sum.splits)

lemma frame_resample_same [simp]: "frame_resample libs r r samples = Inr samples"
  by (simp add: frame_resample_def)

lemma encode_pcm48: "encode_pcm libs Pcm48 samples = Inr (pcm16_samples_to_le_bytes samples)"
  by (simp add: encode_pcm_def mix_sample_rate_def)

lemma pcm_bytes: "codec_pcm16_payload_bytes Pcm48 = 960"
  by (simp add: codec_pcm16_payload_bytes_def codec_samples_per_frame_def frame_len_for_rate_def
      pcm48_sample_rate_def frame_ms_def pcm16_bytes_per_sample_def)

lemma decode_encoded_pcm48:
  "length samples = 480 \<Longrightarrow> decode_pcm libs Pcm48 (pcm16_samples_to_le_bytes samples) = Inr samples"
  by (simp add: decode_pcm_def pcm_bytes pcm_wire.dec_enc mix_sample_rate_def)

lemma encode_pcm_needs_frame:
  "encode_pcm libs codec samples = Inr payload \<Longrightarrow> codec \<in> {Pcm16, Pcm24} \<Longrightarrow> length samples = 480"
  by (auto simp: encode_pcm_def frame_resample_def frame_lengths mix_sample_rate_def sample_rate_def
      pcm24_sample_rate_def pcm48_sample_rate_def split: sum.splits if_splits)

lemma encoded_frame_facts:
  "case audio_encode libs codec profile samples channels of
     Inr payload \<Rightarrow> codec \<noteq> Adpcm \<and> (channels \<le> 1 \<or> codec \<in> {Pcm48, Opus}) \<and>
       (codec = Opus \<or> length payload = codec_pcm16_payload_bytes codec * max channels 1) \<and>
       (if codec = Pcm48 \<and> channels = 1 then audio_decode libs Pcm48 profile payload = Inr samples
        else True)
   | Inl _ \<Rightarrow> \<not> (codec = Pcm48 \<and> length samples = mix_samples_per_frame * max channels 1)"
proof -
  have pcm: "channels \<le> 1 \<and> max channels 1 = 1 \<and> length payload = codec_pcm16_payload_bytes codec"
    if "encode_pcm libs codec samples = Inr payload" "codec \<in> {Pcm16, Pcm24}"
      "length samples = mix_samples_per_frame * max channels 1" for payload
    using encode_pcm_needs_frame [OF that(1,2)] encode_pcm_length [OF that(1)] that(3)
    by (simp add: frame_lengths)
  show ?thesis
  proof (cases "audio_encode libs codec profile samples channels")
    case (Inl e)
    then show ?thesis
      by (auto simp: audio_encode_def Let_def encode_pcm48 split: if_splits)
  next
    case (Inr payload)
    then have len: "length samples = mix_samples_per_frame * max channels 1"
      and stereo: "\<not> (max channels 1 = 2 \<and> codec \<noteq> Pcm48 \<and> codec \<noteq> Opus)"
      by (simp_all add: audio_encode_def Let_def split: if_splits)
    show ?thesis
    proof (cases codec)
      case Pcm48
      with Inr len have "payload = pcm16_samples_to_le_bytes samples"
        by (simp add: audio_encode_def Let_def encode_pcm48 split: if_splits)
      with len show ?thesis
        unfolding Inr sum.case by (simp add: Pcm48 pcm_bytes frame_lengths decode_encoded_pcm48)
    next
      case Pcm16
      with Inr len stereo have "encode_pcm libs codec samples = Inr payload"
        by (simp add: audio_encode_def Let_def split: if_splits)
      with pcm len show ?thesis unfolding Inr sum.case by (simp add: Pcm16)
    next
      case Pcm24
      with Inr len stereo have "encode_pcm libs codec samples = Inr payload"
        by (simp add: audio_encode_def Let_def split: if_splits)
      with pcm len show ?thesis unfolding Inr sum.case by (simp add: Pcm24)
    next
      case Adpcm
      with Inr show ?thesis by (simp add: audio_encode_def Let_def split: if_splits)
    next
      case Opus
      then show ?thesis unfolding Inr sum.case by simp
    qed
  qed
qed

lemma audio_encode_length:
  "audio_encode libs codec profile samples channels = Inr payload \<Longrightarrow>
     codec = Opus \<or> length payload = codec_pcm16_payload_bytes codec * max channels 1"
  using encoded_frame_facts [where libs = libs and codec = codec and profile = profile
      and samples = samples and channels = channels]
  by simp

text \<open>Encoding a mixed frame: a PCM payload has the length the receiver expects, once per
  channel; stereo is refused except for PCM48 and Opus; a PCM48 frame of the right length is
  always encoded, and in mono decoding it gives the samples back.\<close>

lemma encoded_frames_fit_the_receiver:
  "case audio_encode libs codec profile samples channels of
     Inr payload \<Rightarrow> codec \<noteq> Adpcm \<and> (channels \<le> 1 \<or> codec \<in> {Pcm48, Opus}) \<and>
       (codec = Opus \<or> length payload = codec_pcm16_payload_bytes codec * max channels 1) \<and>
       (if codec = Pcm48 \<and> channels = 1 then audio_decode libs Pcm48 profile payload = Inr samples
        else True)
   | Inl _ \<Rightarrow> \<not> (codec = Pcm48 \<and> length samples = mix_samples_per_frame * max channels 1)"
  by (rule encoded_frame_facts)

end
