(* ===== verification/Audio_Ingest.thy ===== *)
theory Audio_Ingest
  imports Control Codecs
begin

text \<open>
  The UDP audio path into \<open>server/src/lib.rs\<close>: which packets are accepted
  (\<open>audio_user_is_enrolled\<close>), how a packet registers the sender's endpoint
  (\<open>register_audio_endpoint\<close>, \<open>register_audio_source\<close>), the meters
  (\<open>record_input_health\<close> and its neighbours), the source queues
  (\<open>store_source_frame\<close>) and one round of \<open>run_audio_receiver\<close>. The voice processing of the
  samples (\<open>AudioProcessorBank\<close>) is a parameter, as are the libraries of the codecs; what
  \<open>record_ingest_frame\<close> writes to files is outside the state.
\<close>

section \<open>Endpoints\<close>

definition audio_user_is_enrolled :: "server_state \<Rightarrow> user_id \<Rightarrow> bool" where
  "audio_user_is_enrolled st u =
     (u \<noteq> 0 \<and>
      (case hm_get (st_sessions st) u of
         Some s \<Rightarrow> se_enrollment s = Enrolled
       | None \<Rightarrow>
           \<not> list_ex (\<lambda>d. de_user_id d = u \<and> de_status d \<noteq> Enrolled) (ad_devices (st_admin_state st)) \<and>
           st_enrollment_policy st = PolicyAuto))"

definition endpoint_session ::
    "env \<Rightarrow> codec \<Rightarrow> socket_addr \<Rightarrow> desired_client_config option \<Rightarrow> session \<Rightarrow> session" where
  "endpoint_session env codec addr desired s =
     (let s = s\<lparr>se_addr := Some addr, se_audio_last_seen := Some (env_now env),
                se_supported_codecs := (if codec_supported codec
                                        then insert codec (se_supported_codecs s)
                                        else se_supported_codecs s)\<rparr>;
          s = (case desired of Some d \<Rightarrow> apply_desired_to_session_fields d s
               | None \<Rightarrow> s\<lparr>se_output_codec := codec\<rparr>)
      in s\<lparr>se_last_seen := env_now env\<rparr>)"

definition register_audio_endpoint ::
    "env \<Rightarrow> user_id \<Rightarrow> codec \<Rightarrow> socket_addr \<Rightarrow> server_state \<Rightarrow> server_state" where
  "register_audio_endpoint env u codec addr st =
     with_session env u (endpoint_session env codec addr (desired_client st u)) st"

definition default_channels :: "audio_target \<Rightarrow> bool \<Rightarrow> session \<Rightarrow> session" where
  "default_channels target has_desired s =
     (case target of
        Channel c \<Rightarrow>
          s\<lparr>se_listen_channels := (if se_listen_channels s = {} then {c} else se_listen_channels s),
            se_tx_channels := (if se_tx_channels s = {} \<and> \<not> has_desired then {c}
                               else se_tx_channels s)\<rparr>
      | _ \<Rightarrow> s)"

definition register_audio_source ::
    "env \<Rightarrow> user_id \<Rightarrow> audio_target \<Rightarrow> codec \<Rightarrow> socket_addr \<Rightarrow> server_state \<Rightarrow> server_state" where
  "register_audio_source env u target codec addr st =
     with_session env u (default_channels target (desired_client st u \<noteq> None))
       (register_audio_endpoint env u codec addr st)"

definition clear_audio_endpoint_if_matches ::
    "user_id \<Rightarrow> socket_addr \<Rightarrow> server_state \<Rightarrow> server_state \<times> bool" where
  "clear_audio_endpoint_if_matches u addr st =
     (case hm_get (st_sessions st) u of
        None \<Rightarrow> (st, False)
      | Some s \<Rightarrow>
          if se_addr s \<noteq> Some addr then (st, False)
          else (modify_session u (\<lambda>s. s\<lparr>se_addr := None, se_audio_last_seen := None\<rparr>) st, True))"

section \<open>Configuration looked up per packet\<close>

definition processing_config_for_user :: "server_state \<Rightarrow> user_id \<Rightarrow> processing_config" where
  "processing_config_for_user st u =
     (case hm_get (st_sessions st) u of None \<Rightarrow> default_processing_config | Some s \<Rightarrow> se_processing s)"

definition opus_profile_for_user :: "server_state \<Rightarrow> user_id \<Rightarrow> opus_profile" where
  "opus_profile_for_user st u =
     (case hm_get (st_sessions st) u of
        Some s \<Rightarrow> se_opus_profile s
      | None \<Rightarrow> (case desired_client st u of None \<Rightarrow> default_opus_profile
                 | Some d \<Rightarrow> dc_opus_profile d))"

section \<open>Health\<close>

definition active_talker_rms_threshold :: f32 where
  "active_talker_rms_threshold = rnd binary32 (2 / 100)"

definition record_processing_status ::
    "env \<Rightarrow> user_id \<Rightarrow> processing_status \<Rightarrow> server_state \<Rightarrow> server_state" where
  "record_processing_status env u status = with_health env u (\<lambda>h. h\<lparr>uh_processing := status\<rparr>)"

definition record_decode_error :: "env \<Rightarrow> user_id \<Rightarrow> server_state \<Rightarrow> server_state" where
  "record_decode_error env u = with_health env u (\<lambda>h. h\<lparr>uh_transport :=
     (uh_transport h)\<lparr>th_decode_errors := th_decode_errors (uh_transport h) + 1\<rparr>\<rparr>)"

definition record_source_drop :: "env \<Rightarrow> user_id \<Rightarrow> server_state \<Rightarrow> server_state" where
  "record_source_drop env u = with_health env u (\<lambda>h. h\<lparr>uh_transport :=
     (uh_transport h)\<lparr>th_source_frames_dropped := th_source_frames_dropped (uh_transport h) + 1\<rparr>\<rparr>)"

fun target_channel_id :: "audio_target \<Rightarrow> channel_id option" where
  "target_channel_id (Channel c) = Some c"
| "target_channel_id t = None"

definition record_input_health ::
    "env \<Rightarrow> user_id \<Rightarrow> audio_target \<Rightarrow> i16 list \<Rightarrow> server_state \<Rightarrow> server_state" where
  "record_input_health env u target samples =
     (let meter = measure_i16 samples;
          talking = f_ge (fm_rms meter) active_talker_rms_threshold
      in with_health env u (\<lambda>h. h
           \<lparr>uh_input := \<lparr>im_active = talking, im_peak = fm_peak meter, im_rms = fm_rms meter,
                          im_last_channel = target_channel_id target,
                          im_last_packet_age_ms = Some 0\<rparr>,
            uh_last_packet_seen := Some (env_now env),
            uh_active_until := (if talking then env_now env + active_talker_hold
                                else uh_active_until h)\<rparr>))"

section \<open>Source queues\<close>

definition store_source_frame_with_options ::
    "env \<Rightarrow> user_id \<Rightarrow> audio_target \<Rightarrow> i16 list \<Rightarrow> bool \<Rightarrow> bool \<Rightarrow> server_state \<Rightarrow> server_state" where
  "store_source_frame_with_options env u target samples priority duck st =
     (let q = (case hm_get (st_sources st) u of Some q \<Rightarrow> q
               | None \<Rightarrow> source_queue_new (env_now env));
          (q, dropped) = (if priority \<or> duck
                          then push_with_options (env_now env) target samples priority duck q
                          else source_push (env_now env) target samples q);
          st = st\<lparr>st_sources := hm_insert u q (st_sources st)\<rparr>;
          st = count_metric (\<lambda>m. m\<lparr>mt_source_frames_enqueued := mt_source_frames_enqueued m + 1\<rparr>) st
      in if dropped
         then record_source_drop env u
                (count_metric (\<lambda>m. m\<lparr>mt_source_frames_dropped := mt_source_frames_dropped m + 1\<rparr>) st)
         else st)"

definition store_source_frame ::
    "env \<Rightarrow> user_id \<Rightarrow> audio_target \<Rightarrow> i16 list \<Rightarrow> server_state \<Rightarrow> server_state" where
  "store_source_frame env u target samples st =
     store_source_frame_with_options env u target samples False False st"

section \<open>One received datagram\<close>

type_synonym processor =
  "user_id \<Rightarrow> codec \<Rightarrow> processing_config \<Rightarrow> i16 list \<Rightarrow> processing_status \<times> i16 list"

definition ingest_samples ::
    "codec_libs \<Rightarrow> processor \<Rightarrow> env \<Rightarrow> socket_addr \<Rightarrow> audio_packet \<Rightarrow> i16 list \<Rightarrow> server_state \<Rightarrow>
     server_state" where
  "ingest_samples libs process env from p samples st =
     (let u = pkt_user_id p;
          st = register_audio_source env u (pkt_target p) (pkt_codec p) from st;
          (status, samples) = process u (pkt_codec p) (processing_config_for_user st u) samples;
          st = record_processing_status env u status st;
          st = record_input_health env u (pkt_target p) samples st;
          st = st\<lparr>st_transcription := fst (transcribe_ingest_frame (env_unix_ms env) u (pkt_target p)
                  (resample_linear libs samples mix_sample_rate sample_rate) (st_transcription st))\<rparr>
      in store_source_frame env u (pkt_target p) samples st)"

definition receive_audio ::
    "codec_libs \<Rightarrow> processor \<Rightarrow> env \<Rightarrow> socket_addr \<Rightarrow> u8 list \<Rightarrow> server_state \<Rightarrow> server_state" where
  "receive_audio libs process env from bytes st =
     (case packet_decode (take max_packet_bytes bytes) of
        Inl _ \<Rightarrow>
          count_metric (\<lambda>m. m\<lparr>mt_malformed_packets_dropped := mt_malformed_packets_dropped m + 1\<rparr>) st
      | Inr p \<Rightarrow>
          let u = pkt_user_id p;
              st = count_metric (\<lambda>m. m\<lparr>mt_audio_packets_received := mt_audio_packets_received m + 1\<rparr>) st
          in if \<not> audio_user_is_enrolled st u then st
             else if is_registration p then register_audio_endpoint env u (pkt_codec p) from st
             else case audio_decode libs (pkt_codec p) (opus_profile_for_user st u) (pkt_payload p) of
                    Inl _ \<Rightarrow> record_decode_error env u
                      (count_metric (\<lambda>m. m\<lparr>mt_audio_decode_errors := mt_audio_decode_errors m + 1\<rparr>) st)
                  | Inr samples \<Rightarrow> ingest_samples libs process env from p samples
                      (count_metric (\<lambda>m. m\<lparr>mt_audio_frames_decoded := mt_audio_frames_decoded m + 1\<rparr>) st))"

section \<open>Properties\<close>

definition queues_ok :: "server_state \<Rightarrow> bool" where
  "queues_ok st = list_all (\<lambda>(u, q). source_wf q) (st_sources st)"

definition plain_frame :: "audio_target \<Rightarrow> i16 list \<Rightarrow> queued_frame" where
  "plain_frame target samples =
     \<lparr>qf_target = target, qf_samples = samples, qf_priority = False, qf_duck = False\<rparr>"

definition queued :: "server_state \<Rightarrow> user_id \<Rightarrow> queued_frame list" where
  "queued st u = (case hm_get (st_sources st) u of None \<Rightarrow> [] | Some q \<Rightarrow> sq_frames q)"

lemma store_source_frame_queued:
  assumes "queues_ok st"
  shows "queued (store_source_frame env u target samples st) v =
     (if v = u then last_n 6 (queued st u @ [plain_frame target samples]) else queued st v)"
    and "st_sessions (store_source_frame env u target samples st) = st_sessions st"
proof -
  let ?q = "case hm_get (st_sources st) u of Some q \<Rightarrow> q | None \<Rightarrow> source_queue_new (env_now env)"
  have "source_wf ?q"
    using assms by (auto simp: queues_ok_def list_all_iff source_wf_def source_queue_new_def
        split: option.splits dest: map_of_SomeD)
  from push_one(1) [OF this, of "env_now env" "plain_frame target samples"]
  have "sq_frames (fst (source_push (env_now env) target samples ?q)) =
      last_n 6 (sq_frames ?q @ [plain_frame target samples])"
    by (simp add: source_push_def plain_frame_def max_source_queue_frames_def)
  then show "queued (store_source_frame env u target samples st) v =
     (if v = u then last_n 6 (queued st u @ [plain_frame target samples]) else queued st v)"
    by (auto simp: store_source_frame_def store_source_frame_with_options_def Let_def queued_def
        record_source_drop_def source_queue_new_def split: prod.splits option.splits)
  show "st_sessions (store_source_frame env u target samples st) = st_sessions st"
    by (simp add: store_source_frame_def store_source_frame_with_options_def Let_def
        record_source_drop_def split: prod.splits)
qed

lemma sources_ingest_prefix [simp]:
  "st_sources (register_audio_source env u t c a st) = st_sources st"
  "st_sources (register_audio_endpoint env u c a st) = st_sources st"
  "st_sources (record_processing_status env u ps st) = st_sources st"
  "st_sources (record_input_health env u t samples st) = st_sources st"
  "st_sessions (record_processing_status env u ps st) = st_sessions st"
  "st_sessions (record_input_health env u t samples st) = st_sessions st"
  "st_sessions (record_decode_error env u st) = st_sessions st"
  "st_sources (record_decode_error env u st) = st_sources st"
  by (simp_all add: register_audio_source_def register_audio_endpoint_def
      record_processing_status_def record_input_health_def record_decode_error_def Let_def)

lemma ingest_samples_effect:
  fixes process :: processor
  assumes "queues_ok st"
    and reg: "reg = register_audio_source env (pkt_user_id p) (pkt_target p) (pkt_codec p) a st"
  shows "st_sessions (ingest_samples libs process env a p samples st) = st_sessions reg"
    "queued (ingest_samples libs process env a p samples st) v = (if v = pkt_user_id p
       then last_n 6 (queued st v @ [plain_frame (pkt_target p)
              (snd (process v (pkt_codec p) (processing_config_for_user reg v) samples))])
       else queued st v)"
proof -
  obtain ps out where pr: "process (pkt_user_id p) (pkt_codec p)
      (processing_config_for_user reg (pkt_user_id p)) samples = (ps, out)" by fastforce
  let ?st = "record_input_health env (pkt_user_id p) (pkt_target p) out
      (record_processing_status env (pkt_user_id p) ps reg)"
  let ?tr = "?st\<lparr>st_transcription := fst (transcribe_ingest_frame (env_unix_ms env) (pkt_user_id p)
      (pkt_target p) (resample_linear libs out mix_sample_rate sample_rate) (st_transcription ?st))\<rparr>"
  have st': "ingest_samples libs process env a p samples st =
      store_source_frame env (pkt_user_id p) (pkt_target p) out ?tr"
    by (simp add: ingest_samples_def Let_def reg [symmetric] pr)
  have q: "queues_ok ?tr" using assms(1) by (simp add: queues_ok_def reg)
  have "queued ?tr w = queued st w" for w by (simp add: queued_def reg)
  with store_source_frame_queued(1) [OF q]
  show "queued (ingest_samples libs process env a p samples st) v = (if v = pkt_user_id p
       then last_n 6 (queued st v @ [plain_frame (pkt_target p)
              (snd (process v (pkt_codec p) (processing_config_for_user reg v) samples))])
       else queued st v)"
    by (simp add: st' pr)
  show "st_sessions (ingest_samples libs process env a p samples st) = st_sessions reg"
    using store_source_frame_queued(2) [OF q] by (simp add: st')
qed

text \<open>Who may send audio: a session that is enrolled, or without a session a user no device
  entry keeps pending or rejected, under the automatic policy; never user 0.\<close>

definition may_send_audio :: "server_state \<Rightarrow> user_id \<Rightarrow> bool" where
  "may_send_audio st u =
     (u \<noteq> 0 \<and>
      (case hm_get (st_sessions st) u of
         Some s \<Rightarrow> se_enrollment s = Enrolled
       | None \<Rightarrow> st_enrollment_policy st = PolicyAuto \<and>
           {de_status d | d. d \<in> set (ad_devices (st_admin_state st)) \<and> de_user_id d = u} \<subseteq> {Enrolled}))"

lemma enrolled_iff_may_send: "audio_user_is_enrolled st u = may_send_audio st u"
  by (auto simp: audio_user_is_enrolled_def may_send_audio_def list_ex_iff split: option.splits)

lemma registered_session:
  "\<exists>s. hm_get (st_sessions (register_audio_endpoint env u c a st)) u = Some s \<and> se_addr s = Some a \<and>
     se_audio_last_seen s = Some (env_now env)"
  "\<exists>s. hm_get (st_sessions (register_audio_source env u t c a st)) u = Some s \<and> se_addr s = Some a \<and>
     se_audio_last_seen s = Some (env_now env)"
proof -
  have e: "se_addr (endpoint_session env c a d s) = Some a"
    "se_audio_last_seen (endpoint_session env c a d s) = Some (env_now env)" for d s
    by (simp_all add: endpoint_session_def Let_def apply_desired_to_session_fields_def split: option.split)
  moreover have "se_addr (default_channels t b s) = se_addr s"
    "se_audio_last_seen (default_channels t b s) = se_audio_last_seen s" for b s
    by (simp_all add: default_channels_def split: audio_target.split)
  ultimately show "\<exists>s. hm_get (st_sessions (register_audio_endpoint env u c a st)) u = Some s \<and>
      se_addr s = Some a \<and> se_audio_last_seen s = Some (env_now env)"
    "\<exists>s. hm_get (st_sessions (register_audio_source env u t c a st)) u = Some s \<and> se_addr s = Some a \<and>
     se_audio_last_seen s = Some (env_now env)"
    by (simp_all add: register_audio_source_def register_audio_endpoint_def)
qed

lemma registered_others:
  "(hm_get (st_sessions (register_audio_endpoint env u c a st)))(u := None) =
     (hm_get (st_sessions st))(u := None)"
  "(hm_get (st_sessions (register_audio_source env u t c a st)))(u := None) =
     (hm_get (st_sessions st))(u := None)"
  by (simp_all add: register_audio_source_def register_audio_endpoint_def fun_eq_iff)

lemma receive_audio_facts:
  fixes process :: processor
  assumes "queues_ok st"
  shows "case receive_audio libs process env from bytes st of st' \<Rightarrow>
    (case packet_decode (take max_packet_bytes bytes) of
       Inl _ \<Rightarrow> \<exists>m. st' = st\<lparr>st_metrics := m\<rparr>
     | Inr p \<Rightarrow>
         if \<not> may_send_audio st (pkt_user_id p) then \<exists>m. st' = st\<lparr>st_metrics := m\<rparr>
         else if is_registration p
         then st_sources st' = st_sources st \<and>
           (hm_get (st_sessions st'))(pkt_user_id p := None) = (hm_get (st_sessions st))(pkt_user_id p := None) \<and>
           (\<exists>s. hm_get (st_sessions st') (pkt_user_id p) = Some s \<and> se_addr s = Some from \<and>
              session_audio_addr s (env_now env) = Some from)
         else case audio_decode libs (pkt_codec p) (opus_profile_for_user st (pkt_user_id p)) (pkt_payload p) of
           Inl _ \<Rightarrow> st_sessions st' = st_sessions st \<and> st_sources st' = st_sources st
         | Inr samples \<Rightarrow>
           (\<exists>s out. hm_get (st_sessions st') (pkt_user_id p) = Some s \<and>
              session_audio_addr s (env_now env) = Some from \<and>
              (hm_get (st_sessions st'))(pkt_user_id p := None) = (hm_get (st_sessions st))(pkt_user_id p := None) \<and>
              out = snd (process (pkt_user_id p) (pkt_codec p)
                       (processing_config_for_user st' (pkt_user_id p)) samples) \<and>
              queued st' = (queued st)(pkt_user_id p :=
                last_n 6 (queued st (pkt_user_id p) @ [plain_frame (pkt_target p) out]))))"
proof (cases "packet_decode (take max_packet_bytes bytes)")
  case (Inl e)
  then show ?thesis by (auto simp: receive_audio_def count_metric_def)
next
  case (Inr p)
  let ?u = "pkt_user_id p"
  let ?st1 = "count_metric (\<lambda>m. m\<lparr>mt_audio_packets_received := mt_audio_packets_received m + 1\<rparr>) st"
  let ?st2 = "count_metric (\<lambda>m. m\<lparr>mt_audio_frames_decoded := mt_audio_frames_decoded m + 1\<rparr>) ?st1"
  have gate: "audio_user_is_enrolled ?st1 ?u = may_send_audio st ?u"
    by (simp add: enrolled_iff_may_send may_send_audio_def split: option.split)
  have profile: "opus_profile_for_user ?st1 ?u = opus_profile_for_user st ?u"
    by (simp add: opus_profile_for_user_def desired_client_def split: option.split)
  consider "\<not> may_send_audio st ?u" | "may_send_audio st ?u" "is_registration p"
    | "may_send_audio st ?u" "\<not> is_registration p" by blast
  then show ?thesis
  proof cases
    case 1
    then have "receive_audio libs process env from bytes st = ?st1"
      unfolding receive_audio_def Inr sum.case Let_def gate by simp
    then show ?thesis using 1 Inr by (auto simp: count_metric_def)
  next
    case 2
    then have "receive_audio libs process env from bytes st =
        register_audio_endpoint env ?u (pkt_codec p) from ?st1"
      unfolding receive_audio_def Inr sum.case Let_def gate by simp
    then show ?thesis
      using 2 Inr registered_session(1) [of env ?u "pkt_codec p" "from" ?st1]
        registered_others(1) [of env ?u "pkt_codec p" "from" ?st1]
      by (auto simp: session_audio_addr_def)
  next
    case 3
    show ?thesis
    proof (cases "audio_decode libs (pkt_codec p) (opus_profile_for_user st ?u) (pkt_payload p)")
      case err: (Inl e)
      then have "receive_audio libs process env from bytes st = record_decode_error env ?u
          (count_metric (\<lambda>m. m\<lparr>mt_audio_decode_errors := mt_audio_decode_errors m + 1\<rparr>) ?st1)"
        using 3 unfolding receive_audio_def Inr sum.case Let_def gate profile by simp
      then show ?thesis using 3 Inr err by simp
    next
      case ok: (Inr samples)
      then have st': "receive_audio libs process env from bytes st =
          ingest_samples libs process env from p samples ?st2"
        using 3 unfolding receive_audio_def Inr sum.case Let_def gate profile by simp
      let ?reg = "register_audio_source env ?u (pkt_target p) (pkt_codec p) from ?st2"
      have q: "queues_ok ?st2" using assms by (simp add: queues_ok_def)
      note eff = ingest_samples_effect [OF q refl, where libs = libs and process = process and env = env
          and p = p and a = "from" and samples = samples]
      have cfg: "processing_config_for_user (receive_audio libs process env from bytes st) ?u =
          processing_config_for_user ?reg ?u"
        using eff(1) by (simp add: st' processing_config_for_user_def)
      have "queued ?st2 = queued st" by (simp add: queued_def fun_eq_iff)
      with eff(2) have "queued (ingest_samples libs process env from p samples ?st2) =
          (queued st)(?u := last_n 6 (queued st ?u @ [plain_frame (pkt_target p)
              (snd (process ?u (pkt_codec p) (processing_config_for_user ?reg ?u) samples))]))"
        by (simp add: fun_eq_iff)
      with registered_session(2) [of env ?u "pkt_target p" "pkt_codec p" "from" ?st2] eff(1)
        registered_others(2) [of env ?u "pkt_target p" "pkt_codec p" "from" ?st2] show ?thesis
        using 3 Inr ok by (simp add: cfg st' [symmetric]) (auto simp: st' session_audio_addr_def)
    qed
  qed
qed

text \<open>C7. One received datagram, cut to the receive buffer. A malformed packet or one of a user
  who may not send audio is only counted. An accepted registration makes its source address
  the user's live endpoint and changes no other user's session. An accepted audio packet that
  does not decode queues nothing and touches no session; one that decodes refreshes the
  endpoint, changes no other user's session and appends its processed frame to the sender's
  queue, which keeps the newest six. No other queue changes.\<close>

theorem receive_audio_effect:
  fixes process :: processor
  assumes "queues_ok st"
  shows "case receive_audio libs process env from bytes st of st' \<Rightarrow>
    (case packet_decode (take max_packet_bytes bytes) of
       Inl _ \<Rightarrow> \<exists>m. st' = st\<lparr>st_metrics := m\<rparr>
     | Inr p \<Rightarrow>
         if \<not> may_send_audio st (pkt_user_id p) then \<exists>m. st' = st\<lparr>st_metrics := m\<rparr>
         else if is_registration p
         then st_sources st' = st_sources st \<and>
           (hm_get (st_sessions st'))(pkt_user_id p := None) = (hm_get (st_sessions st))(pkt_user_id p := None) \<and>
           (\<exists>s. hm_get (st_sessions st') (pkt_user_id p) = Some s \<and> se_addr s = Some from \<and>
              session_audio_addr s (env_now env) = Some from)
         else case audio_decode libs (pkt_codec p) (opus_profile_for_user st (pkt_user_id p)) (pkt_payload p) of
           Inl _ \<Rightarrow> st_sessions st' = st_sessions st \<and> st_sources st' = st_sources st
         | Inr samples \<Rightarrow>
           (\<exists>s out. hm_get (st_sessions st') (pkt_user_id p) = Some s \<and>
              session_audio_addr s (env_now env) = Some from \<and>
              (hm_get (st_sessions st'))(pkt_user_id p := None) = (hm_get (st_sessions st))(pkt_user_id p := None) \<and>
              out = snd (process (pkt_user_id p) (pkt_codec p)
                       (processing_config_for_user st' (pkt_user_id p)) samples) \<and>
              queued st' = (queued st)(pkt_user_id p :=
                last_n 6 (queued st (pkt_user_id p) @ [plain_frame (pkt_target p) out]))))"
  using assms by (rule receive_audio_facts)

definition no_libs :: codec_libs where
  "no_libs = \<lparr>lib_resample = (\<lambda>a b xs. Inl ''no resampler''),
     lib_opus_decode = (\<lambda>p bs. Inl ''no opus''), lib_opus_encode = (\<lambda>p n xs. Inl ''no opus'')\<rparr>"

definition no_processing :: processor where
  "no_processing = (\<lambda>u c cfg samples. (default_processing_status, samples))"

definition spoken_packet :: audio_packet where
  "spoken_packet = \<lparr>pkt_user_id = 1, pkt_target = Channel 3, pkt_codec = Pcm48, pkt_seq = 9, pkt_timestamp = 0,
     pkt_payload = pcm16_samples_to_le_bytes (replicate mix_samples_per_frame 1000)\<rparr>"

lemma spoken_packet_decodes:
  "packet_decode (take max_packet_bytes (packet_bytes spoken_packet)) = Inr spoken_packet"
  "audio_decode libs Pcm48 profile (pkt_payload spoken_packet) = Inr (replicate mix_samples_per_frame 1000)"
proof -
  have "length (packet_bytes spoken_packet) \<le> max_packet_bytes"
    by (simp add: packet_bytes_def spoken_packet_def wire_parts.simps magic_def max_packet_bytes_def
        header_len_def pcm_bytes frame_lengths Let_def)
  then show "packet_decode (take max_packet_bytes (packet_bytes spoken_packet)) = Inr spoken_packet"
    by (simp, intro packet_wire.dec_enc)
      (simp add: spoken_packet_def frame_lengths)
  show "audio_decode libs Pcm48 profile (pkt_payload spoken_packet) = Inr (replicate mix_samples_per_frame 1000)"
    by (simp add: spoken_packet_def frame_lengths decode_encoded_pcm48)
qed

theorem receive_audio_effect_witness:
  "case receive_audio no_libs no_processing sample_env 40001 (packet_bytes spoken_packet) two_clients of st' \<Rightarrow>
     (\<exists>s. hm_get (st_sessions st') 1 = Some s \<and> session_audio_addr s (env_now sample_env) = Some 40001) \<and>
     (hm_get (st_sessions st'))(1 := None) = (hm_get (st_sessions two_clients))(1 := None) \<and>
     queued st' 1 = [plain_frame (Channel 3) (replicate mix_samples_per_frame 1000)] \<and> queued st' 2 = []"
proof -
  have "queues_ok two_clients"
    by (simp add: two_clients_def server_state_new_def queues_ok_def)
  note effect = receive_audio_effect [OF this, where libs = no_libs and process = no_processing
      and env = sample_env and ?from = 40001 and bytes = "packet_bytes spoken_packet"]
  have ids: "pkt_user_id spoken_packet = 1" "pkt_codec spoken_packet = Pcm48" "pkt_target spoken_packet = Channel 3"
    and accepted: "may_send_audio two_clients 1 = True" "is_registration spoken_packet = False"
    and empty: "queued two_clients u = []" for u
    by (simp_all add: spoken_packet_def is_registration_def may_send_audio_def two_clients_def
        server_state_new_def session_new_def queued_def)
  show ?thesis
    using effect unfolding spoken_packet_decodes sum.case ids accepted
    by (auto simp: no_processing_def last_n_def empty)
qed

end
