(* ===== verification/Mixer.thy ===== *)
theory Mixer
  imports Audio_Ingest
begin

text \<open>
  The audio mixer of \<open>server/src/lib.rs\<close>: one tick of \<open>run_audio_mixer\<close>. \<open>build_mixes\<close> takes
  a frame from every live source queue and virtual source, decides which of them each
  listener hears and how loud (routes, priority, IFB, direct-call and emergency ducking),
  sums them and limits the sum; the tick then encodes each mix, numbers it and sends it.
  The codec libraries (per listener, as each has its own encoder), \<open>log10\<close> and the outcome
  of sending a datagram are parameters.
\<close>

section \<open>Sources\<close>

definition active_source_window :: instant where
  "active_source_window = millis 80"

definition expire_sources ::
    "env \<Rightarrow> (user_id, source_queue) hash_map \<Rightarrow> (user_id, source_queue) hash_map" where
  "expire_sources env = filter (\<lambda>(u, q). env_now env - sq_last_seen q \<le> active_source_window)"

definition source_frame :: "user_id \<Rightarrow> queued_frame \<Rightarrow> active_source_frame" where
  "source_frame u f =
     \<lparr>af_user_id = u, af_target = qf_target f, af_samples = qf_samples f,
      af_priority = qf_priority f, af_duck = qf_duck f\<rparr>"

fun pop_sources ::
    "(user_id, source_queue) hash_map \<Rightarrow>
     active_source_frame list \<times> (user_id, source_queue) hash_map" where
  "pop_sources [] = ([], [])"
| "pop_sources ((u, q) # qs) =
     (let (frame, q') = source_pop q; (frames, qs') = pop_sources qs
      in (case frame of None \<Rightarrow> frames | Some f \<Rightarrow> source_frame u f # frames, (u, q') # qs'))"

fun play_virtual_sources ::
    "virtual_audio_source list \<Rightarrow> active_source_frame list \<times> virtual_audio_source list" where
  "play_virtual_sources [] = ([], [])"
| "play_virtual_sources (v # vs) =
     (let (frame, v') = next_frame v; (frames, vs') = play_virtual_sources vs
      in (case frame of None \<Rightarrow> frames | Some f \<Rightarrow> f # frames, v' # vs'))"

definition take_source_frames :: "env \<Rightarrow> server_state \<Rightarrow> active_source_frame list \<times> server_state" where
  "take_source_frames env st =
     (let live = expire_sources env (st_sources st);
          expired = length (st_sources st) - length live;
          st = (if expired > 0
                then count_metric (\<lambda>m. m\<lparr>mt_expired_source_queues :=
                       mt_expired_source_queues m + expired\<rparr>) st
                else st);
          (frames, sources) = pop_sources live;
          (virtual_frames, virtual_sources) = play_virtual_sources (st_virtual_sources st)
      in (frames @ virtual_frames,
          st\<lparr>st_sources := sources,
             st_virtual_sources := filter (\<lambda>v. \<not> is_finished v) virtual_sources\<rparr>))"

section \<open>Routes of the senders\<close>

definition is_server_virtual_source :: "user_id \<Rightarrow> bool" where
  "is_server_virtual_source u = (u = server_user_id \<or> unat u \<ge> tts_source_user_base)"

text \<open>Priority, priority channels and current transmit targets.\<close>

type_synonym sender_route = "bool \<times> channel_id set \<times> audio_target set"

definition session_route :: "session \<Rightarrow> sender_route" where
  "session_route s = (se_priority s, se_priority_channels s, active_tx_targets s)"

definition virtual_route ::
    "active_source_frame \<Rightarrow> (user_id, sender_route) hash_map \<Rightarrow> (user_id, sender_route) hash_map" where
  "virtual_route f routes =
     (if \<not> is_server_virtual_source (af_user_id f) then routes
      else hm_entry (af_user_id f) (False, {}, {})
             (\<lambda>(priority, channels, targets).
                (priority \<or> af_priority f,
                 (case af_target f of
                    Channel c \<Rightarrow> if af_priority f then insert c channels else channels
                  | _ \<Rightarrow> channels),
                 insert (af_target f) targets)) routes)"

definition sender_routes ::
    "sessions \<Rightarrow> active_source_frame list \<Rightarrow> (user_id, sender_route) hash_map" where
  "sender_routes ss frames = fold virtual_route frames (map (\<lambda>(u, s). (u, session_route s)) ss)"

section \<open>Ducking by direct calls\<close>

definition speaks_to :: "active_source_frame list \<Rightarrow> user_id \<Rightarrow> user_id \<Rightarrow> bool" where
  "speaks_to frames u target =
     list_ex (\<lambda>f. af_user_id f = u \<and> af_target f = Direct target) frames"

definition virtual_ducks :: "active_source_frame \<Rightarrow> user_id list" where
  "virtual_ducks f =
     (case af_target f of
        Direct target \<Rightarrow>
          if is_server_virtual_source (af_user_id f) \<and> af_duck f then [target] else []
      | _ \<Rightarrow> [])"

definition session_ducks :: "active_source_frame list \<Rightarrow> user_id \<times> session \<Rightarrow> user_id list" where
  "session_ducks frames = (\<lambda>(u, s).
     map fst (filter (\<lambda>(target, duck). duck \<and> speaks_to frames u target) (session_calls s)))"

definition direct_duck_by_listener :: "sessions \<Rightarrow> active_source_frame list \<Rightarrow> user_id set" where
  "direct_duck_by_listener ss frames =
     set (concat (map virtual_ducks frames) @ concat (map (session_ducks frames) ss))"

section \<open>What one listener hears\<close>

record mix_context =
  mc_frames :: "active_source_frame list"
  mc_routes :: "(user_id, sender_route) hash_map"
  mc_emergency :: "runtime_emergency option"
  mc_recipients :: "user_id set"
  mc_ducked :: "user_id set"

definition mix_context_of :: "server_state \<Rightarrow> active_source_frame list \<Rightarrow> mix_context" where
  "mix_context_of st frames =
     \<lparr>mc_frames = frames, mc_routes = sender_routes (st_sessions st) frames,
      mc_emergency = st_emergency st,
      mc_recipients = (case st_emergency st of None \<Rightarrow> {}
        | Some e \<Rightarrow> set (emergency_recipients_for_sessions e (st_sessions st))),
      mc_ducked = direct_duck_by_listener (st_sessions st) frames\<rparr>"

definition sends :: "mix_context \<Rightarrow> active_source_frame \<Rightarrow> bool" where
  "sends ctx f =
     (case hm_get (mc_routes ctx) (af_user_id f) of
        None \<Rightarrow> False | Some (p, cs, targets) \<Rightarrow> af_target f \<in> targets)"

definition speaks_with_priority :: "mix_context \<Rightarrow> active_source_frame \<Rightarrow> channel_id \<Rightarrow> bool" where
  "speaks_with_priority ctx f c =
     (case hm_get (mc_routes ctx) (af_user_id f) of
        None \<Rightarrow> False | Some (priority, channels, ts) \<Rightarrow> priority \<and> c \<in> channels)"

text \<open>A frame of somebody else on a channel the listener listens to.\<close>

definition listened :: "user_id \<Rightarrow> session \<Rightarrow> active_source_frame \<Rightarrow> channel_id option" where
  "listened u s f =
     (case af_target f of
        Channel c \<Rightarrow> if af_user_id f \<noteq> u \<and> c \<in> se_listen_channels s then Some c else None
      | _ \<Rightarrow> None)"

definition active_priority_channels :: "mix_context \<Rightarrow> user_id \<Rightarrow> session \<Rightarrow> channel_id set" where
  "active_priority_channels ctx u s =
     set (concat (map (\<lambda>f. case listened u s f of
         None \<Rightarrow> [] | Some c \<Rightarrow> if speaks_with_priority ctx f c \<and> sends ctx f then [c] else [])
       (mc_frames ctx)))"

definition ifb_active :: "mix_context \<Rightarrow> user_id \<Rightarrow> session \<Rightarrow> bool" where
  "ifb_active ctx u s =
     (ifb_enabled (se_ifb s) \<and>
      list_ex (\<lambda>f. case listened u s f of
          None \<Rightarrow> False | Some c \<Rightarrow> c \<in> set (ifb_interrupt (se_ifb s)) \<and> sends ctx f)
        (mc_frames ctx))"

definition emergency_active_for :: "mix_context \<Rightarrow> user_id \<Rightarrow> bool" where
  "emergency_active_for ctx u =
     (case mc_emergency ctx of None \<Rightarrow> False
      | Some e \<Rightarrow> u \<in> mc_recipients ctx \<and> re_source e \<noteq> u)"

definition admits :: "mix_context \<Rightarrow> user_id \<Rightarrow> session \<Rightarrow> active_source_frame \<Rightarrow> bool" where
  "admits ctx u s f =
     (af_user_id f \<noteq> u \<and> length (af_samples f) = mix_samples_per_frame \<and>
      hm_contains (mc_routes ctx) (af_user_id f) \<and>
      (case af_target f of
         Channel c \<Rightarrow> c \<in> se_listen_channels s \<and> sends ctx f
       | Direct t \<Rightarrow> t = u \<and> sends ctx f
       | Mixed \<Rightarrow>
           (case mc_emergency ctx of None \<Rightarrow> False
            | Some e \<Rightarrow> re_source e = af_user_id f \<and> u \<in> mc_recipients ctx)))"

section \<open>How loud\<close>

definition priority_duck_gain :: f32 where
  "priority_duck_gain = Fin (1 / 4)"

definition priority_gain :: "mix_context \<Rightarrow> user_id \<Rightarrow> session \<Rightarrow> active_source_frame \<Rightarrow> f32" where
  "priority_gain ctx u s f =
     (case target_channel_id (af_target f) of
        Some c \<Rightarrow> if c \<in> active_priority_channels ctx u s \<and> \<not> speaks_with_priority ctx f c
                  then priority_duck_gain else Fin 1
      | None \<Rightarrow> Fin 1)"

definition ifb_gain :: "mix_context \<Rightarrow> user_id \<Rightarrow> session \<Rightarrow> active_source_frame \<Rightarrow> f32" where
  "ifb_gain ctx u s f =
     (case target_channel_id (af_target f) of
        Some c \<Rightarrow> if ifb_active ctx u s \<and> c \<in> set (ifb_program (se_ifb s))
                  then ifb_duck_gain (se_ifb s) else Fin 1
      | None \<Rightarrow> Fin 1)"

definition direct_gain :: "mix_context \<Rightarrow> user_id \<Rightarrow> active_source_frame \<Rightarrow> f32" where
  "direct_gain ctx u f =
     (if u \<in> mc_ducked ctx \<and> af_target f \<noteq> Direct u then default_ifb_duck_gain else Fin 1)"

definition emergency_gain :: "mix_context \<Rightarrow> user_id \<Rightarrow> active_source_frame \<Rightarrow> f32" where
  "emergency_gain ctx u f =
     (if emergency_active_for ctx u \<and> af_target f \<noteq> Mixed
      then (case mc_emergency ctx of None \<Rightarrow> Fin 1
            | Some e \<Rightarrow> if re_mute_others e then Fin 0 else re_duck_gain e)
      else Fin 1)"

text \<open>Audio without a channel takes the volume of channel 0, \<open>unwrap_or_default\<close>.\<close>

definition volume_gain :: "session \<Rightarrow> active_source_frame \<Rightarrow> f32" where
  "volume_gain s f =
     (let c = (case target_channel_id (af_target f) of None \<Rightarrow> 0 | Some c \<Rightarrow> c);
          volume = (\<lambda>v. f_max (case v of None \<Rightarrow> Fin 1 | Some x \<Rightarrow> x) (Fin 0))
      in f_mul binary32 (volume (hm_get (se_channel_volumes s) c))
           (volume (hm_get (se_talker_volumes s) (af_user_id f))))"

definition source_gain :: "mix_context \<Rightarrow> user_id \<Rightarrow> session \<Rightarrow> active_source_frame \<Rightarrow> f32" where
  "source_gain ctx u s f =
     f_mul binary32 (f_mul binary32 (f_mul binary32 (f_mul binary32
       (volume_gain s f) (priority_gain ctx u s f)) (ifb_gain ctx u s f))
       (direct_gain ctx u f)) (emergency_gain ctx u f)"

definition contributions :: "mix_context \<Rightarrow> user_id \<Rightarrow> session \<Rightarrow> active_source_frame list" where
  "contributions ctx u s =
     filter (\<lambda>f. admits ctx u s f \<and> \<not> f_eq (emergency_gain ctx u f) (Fin 0)) (mc_frames ctx)"

section \<open>The mix of one listener\<close>

definition pan_gains :: "f32 \<Rightarrow> f32 \<times> f32" where
  "pan_gains pan =
     (let pan = f_clamp pan (Fin (- 1)) (Fin 1)
      in if f_lt pan (Fin 0) then (Fin 1, f_add binary32 (Fin 1) pan)
         else (f_sub binary32 (Fin 1) pan, Fin 1))"

definition pan_of :: "session \<Rightarrow> active_source_frame \<Rightarrow> f32" where
  "pan_of s f =
     (case target_channel_id (af_target f) of None \<Rightarrow> Fin 0
      | Some c \<Rightarrow> (case hm_get (sc_channel_pan (se_stereo s)) c of None \<Rightarrow> Fin 0 | Some p \<Rightarrow> p))"

definition scaled_sample :: "f32 \<Rightarrow> i16 \<Rightarrow> f32" where
  "scaled_sample gain sample =
     f_mul binary32 (f_div binary32 (i16_to_f32 sample) i16_max_f32) gain"

definition add_mono :: "(active_source_frame \<times> f32) \<Rightarrow> f32 list \<Rightarrow> f32 list" where
  "add_mono = (\<lambda>(f, gain) mix.
     map2 (\<lambda>m x. f_add binary32 m (scaled_sample gain x)) mix (af_samples f))"

definition add_panned :: "f32 \<Rightarrow> (active_source_frame \<times> f32) \<Rightarrow> f32 list \<Rightarrow> f32 list" where
  "add_panned side = (\<lambda>(f, gain) mix.
     map2 (\<lambda>m x. f_add binary32 m (f_mul binary32 (scaled_sample gain x) side)) mix (af_samples f))"

definition silent_frame :: "f32 list" where
  "silent_frame = replicate mix_samples_per_frame (Fin 0)"

record mix_output =
  mo_user_id :: user_id
  mo_addr :: socket_addr
  mo_codec :: codec
  mo_opus_profile :: opus_profile
  mo_samples :: "i16 list"
  mo_channels :: nat
  mo_active_sources :: nat
  mo_meter :: output_meter_status
  mo_limiter_event :: bool

definition limited_mix ::
    "(f32 \<Rightarrow> f32) \<Rightarrow> session \<Rightarrow> (active_source_frame \<times> f32) list \<Rightarrow>
     (i16 list \<times> output_meter_status \<times> bool) \<times> nat" where
  "limited_mix log10 s heard =
     (if stereo_active_for_codec (se_stereo s) (se_output_codec s)
      then let left = fold (\<lambda>(f, g). add_panned (fst (pan_gains (pan_of s f))) (f, g)) heard silent_frame;
               right = fold (\<lambda>(f, g). add_panned (snd (pan_gains (pan_of s f))) (f, g)) heard silent_frame
           in (limit_stereo_frame log10 left right, 2)
      else (limit_frame log10 (fold add_mono heard silent_frame), 1))"

definition mix_for ::
    "(f32 \<Rightarrow> f32) \<Rightarrow> mix_context \<Rightarrow> user_id \<Rightarrow> socket_addr \<Rightarrow> session \<Rightarrow> mix_output option" where
  "mix_for log10 ctx u addr s =
     (let heard = map (\<lambda>f. (f, source_gain ctx u s f)) (contributions ctx u s)
      in if heard = [] then None
         else let ((samples, meter, event), channels) = limited_mix log10 s heard
              in Some \<lparr>mo_user_id = u, mo_addr = addr, mo_codec = se_output_codec s,
                       mo_opus_profile = se_opus_profile s, mo_samples = samples,
                       mo_channels = channels, mo_active_sources = length heard,
                       mo_meter = meter, mo_limiter_event = event\<rparr>)"

definition show_ifb_status :: "mix_context \<Rightarrow> user_id \<Rightarrow> session \<Rightarrow> session" where
  "show_ifb_status ctx u s =
     s\<lparr>se_ifb_status := \<lparr>is_active = ifb_active ctx u s,
        is_duck_gain = (if ifb_active ctx u s then ifb_duck_gain (se_ifb s) else Fin 1)\<rparr>\<rparr>"

definition mix_listener ::
    "(f32 \<Rightarrow> f32) \<Rightarrow> env \<Rightarrow> mix_context \<Rightarrow> user_id \<times> session \<Rightarrow>
     mix_output option \<times> (user_id \<times> session)" where
  "mix_listener log10 env ctx = (\<lambda>(u, s).
     case session_audio_addr s (env_now env) of
       None \<Rightarrow> (None, (u, s))
     | Some addr \<Rightarrow> (mix_for log10 ctx u addr s, (u, show_ifb_status ctx u s)))"

definition build_mixes ::
    "(f32 \<Rightarrow> f32) \<Rightarrow> env \<Rightarrow> server_state \<Rightarrow> mix_output list \<times> server_state" where
  "build_mixes log10 env st =
     (let (frames, st) = take_source_frames env st;
          mixed = map (mix_listener log10 env (mix_context_of st frames)) (st_sessions st)
      in (concat (map (\<lambda>(out, _). case out of None \<Rightarrow> [] | Some m \<Rightarrow> [m]) mixed),
          st\<lparr>st_sessions := map snd mixed\<rparr>))"

section \<open>Sending\<close>

definition next_output_seq :: "user_id \<Rightarrow> server_state \<Rightarrow> u16 \<times> server_state" where
  "next_output_seq u st =
     (let seq = (case hm_get (st_output_seq st) u of None \<Rightarrow> 0 | Some n \<Rightarrow> n)
      in (seq, st\<lparr>st_output_seq := hm_insert u (seq + 1) (st_output_seq st)\<rparr>))"

definition mixed_packet :: "mix_output \<Rightarrow> u16 \<Rightarrow> u8 list \<Rightarrow> audio_packet" where
  "mixed_packet out seq payload =
     \<lparr>pkt_user_id = server_user_id, pkt_target = Mixed, pkt_codec = mo_codec out, pkt_seq = seq,
      pkt_timestamp = ucast seq *
        of_nat (if mo_codec out = Opus then opus_samples_per_frame (mo_opus_profile out)
                else codec_samples_per_frame (mo_codec out)),
      pkt_payload = payload\<rparr>"

definition record_output_health ::
    "env \<Rightarrow> user_id \<Rightarrow> output_meter_status \<Rightarrow> bool \<Rightarrow> server_state \<Rightarrow> server_state" where
  "record_output_health env u meter event =
     with_health env u (\<lambda>h. h\<lparr>uh_output :=
       meter\<lparr>om_limiter_events := om_limiter_events (uh_output h) + of_bool event\<rparr>\<rparr>)"

definition record_audio_send_error :: "user_id \<Rightarrow> socket_addr \<Rightarrow> server_state \<Rightarrow> server_state" where
  "record_audio_send_error u addr st =
     fst (clear_audio_endpoint_if_matches u addr
       (count_metric (\<lambda>m. m\<lparr>mt_audio_send_errors := mt_audio_send_errors m + 1\<rparr>) st))"

definition count_encode_error :: "server_state \<Rightarrow> server_state" where
  "count_encode_error = count_metric (\<lambda>m. m\<lparr>mt_audio_encode_errors := mt_audio_encode_errors m + 1\<rparr>)"

text \<open>\<open>sent addr bytes\<close> says whether the socket takes the datagram.\<close>

definition send_mix ::
    "(user_id \<Rightarrow> codec_libs) \<Rightarrow> (socket_addr \<Rightarrow> u8 list \<Rightarrow> bool) \<Rightarrow> env \<Rightarrow> mix_output \<Rightarrow>
     server_state \<Rightarrow> (socket_addr \<times> u8 list) list \<times> server_state" where
  "send_mix libs sent env out st =
     (let u = mo_user_id out; addr = mo_addr out; (seq, st) = next_output_seq u st
      in case audio_encode (libs u) (mo_codec out) (mo_opus_profile out) (mo_samples out)
                (mo_channels out) of
           Inl _ \<Rightarrow> ([], count_encode_error st)
         | Inr payload \<Rightarrow>
             (case packet_encode (mixed_packet out seq payload) of
                Inl _ \<Rightarrow> ([], count_encode_error st)
              | Inr bytes \<Rightarrow>
                  if \<not> sent addr bytes then ([], record_audio_send_error u addr st)
                  else ([(addr, bytes)],
                        count_metric (\<lambda>m. m\<lparr>mt_mixed_packets_sent := mt_mixed_packets_sent m + 1\<rparr>)
                          (record_output_health env u (mo_meter out) (mo_limiter_event out) st))))"

fun send_mixes ::
    "(user_id \<Rightarrow> codec_libs) \<Rightarrow> (socket_addr \<Rightarrow> u8 list \<Rightarrow> bool) \<Rightarrow> env \<Rightarrow> mix_output list \<Rightarrow>
     server_state \<Rightarrow> (socket_addr \<times> u8 list) list \<times> server_state" where
  "send_mixes libs sent env [] st = ([], st)"
| "send_mixes libs sent env (out # outs) st =
     (let (first, st) = send_mix libs sent env out st;
          (rest, st) = send_mixes libs sent env outs st
      in (first @ rest, st))"

definition mixer_tick ::
    "(user_id \<Rightarrow> codec_libs) \<Rightarrow> (f32 \<Rightarrow> f32) \<Rightarrow> (socket_addr \<Rightarrow> u8 list \<Rightarrow> bool) \<Rightarrow> env \<Rightarrow>
     server_state \<Rightarrow> (socket_addr \<times> u8 list) list \<times> server_state" where
  "mixer_tick libs log10 sent env st =
     (let (outs, st) = build_mixes log10 env st in send_mixes libs sent env outs st)"

section \<open>Who is heard\<close>

text \<open>The targets a user's audio is accepted for in this tick: what the session authorises,
  and for a virtual source what its own frames say.\<close>

definition sending :: "server_state \<Rightarrow> active_source_frame list \<Rightarrow> user_id \<Rightarrow> audio_target set" where
  "sending st frames v =
     (case hm_get (st_sessions st) v of None \<Rightarrow> {} | Some s \<Rightarrow> active_tx_targets s) \<union>
     (if is_server_virtual_source v then af_target ` set (filter (\<lambda>g. af_user_id g = v) frames)
      else {})"

definition known_sender :: "server_state \<Rightarrow> active_source_frame list \<Rightarrow> user_id \<Rightarrow> bool" where
  "known_sender st frames v =
     (hm_contains (st_sessions st) v \<or>
      is_server_virtual_source v \<and> list_ex (\<lambda>g. af_user_id g = v) frames)"

definition route_targets :: "sender_route option \<Rightarrow> audio_target set" where
  "route_targets r = (case r of None \<Rightarrow> {} | Some (p, cs, ts) \<Rightarrow> ts)"

lemma virtual_route_targets:
  "route_targets (hm_get (virtual_route f routes) v) = route_targets (hm_get routes v) \<union>
     (if is_server_virtual_source v \<and> af_user_id f = v then {af_target f} else {})"
  "hm_contains (virtual_route f routes) v \<longleftrightarrow>
     hm_contains routes v \<or> is_server_virtual_source v \<and> af_user_id f = v"
  by (auto simp: virtual_route_def route_targets_def hm_get_entry split: option.splits prod.splits)

lemma fold_virtual_routes:
  "route_targets (hm_get (fold virtual_route frames routes) v) = route_targets (hm_get routes v) \<union>
     (if is_server_virtual_source v then af_target ` set (filter (\<lambda>g. af_user_id g = v) frames)
      else {})"
  "hm_contains (fold virtual_route frames routes) v \<longleftrightarrow>
     hm_contains routes v \<or> is_server_virtual_source v \<and> list_ex (\<lambda>g. af_user_id g = v) frames"
proof (induction frames arbitrary: routes)
  case (Cons f frames)
  case 1
  show ?case by (simp add: Cons.IH(1) virtual_route_targets(1))
  case 2
  show ?case unfolding fold_simps comp_def Cons.IH(2) virtual_route_targets(2) by auto
qed simp_all

lemma sender_routes_targets:
  "route_targets (hm_get (sender_routes (st_sessions st) frames) v) = sending st frames v"
  "hm_contains (sender_routes (st_sessions st) frames) v = known_sender st frames v"
proof -
  have m: "hm_get (map (\<lambda>(u, s). (u, session_route s)) ss) v = map_option session_route (hm_get ss v)"
    for ss :: sessions
    by (induction ss) auto
  show "route_targets (hm_get (sender_routes (st_sessions st) frames) v) = sending st frames v"
    unfolding sender_routes_def fold_virtual_routes m sending_def
    by (simp add: route_targets_def session_route_def split: option.split)
  have "hm_contains (map (\<lambda>(u, s). (u, session_route s)) (st_sessions st)) v =
      hm_contains (st_sessions st) v"
    by (simp add: hm_contains_def m del: hm_contains_iff)
  then show "hm_contains (sender_routes (st_sessions st) frames) v = known_sender st frames v"
    unfolding sender_routes_def fold_virtual_routes known_sender_def by simp
qed

lemma sends_iff: "sends (mix_context_of st frames) f \<longleftrightarrow> af_target f \<in> sending st frames (af_user_id f)"
  unfolding sender_routes_targets(1) [symmetric]
  by (simp add: sends_def mix_context_of_def route_targets_def split: option.split prod.split)

text \<open>The emergency that reaches a listener, and the frames a listener hears.\<close>

definition emergency_for :: "server_state \<Rightarrow> user_id \<Rightarrow> runtime_emergency option" where
  "emergency_for st u =
     (case st_emergency st of None \<Rightarrow> None
      | Some e \<Rightarrow> if u \<in> set (emergency_recipients_for_sessions e (st_sessions st)) then Some e else None)"

definition silences_others :: "runtime_emergency \<Rightarrow> bool" where
  "silences_others e = (re_mute_others e \<or> f_eq (re_duck_gain e) (Fin 0))"

definition hears ::
    "server_state \<Rightarrow> active_source_frame list \<Rightarrow> user_id \<Rightarrow> session \<Rightarrow> active_source_frame \<Rightarrow> bool" where
  "hears st frames u s f =
     (let v = af_user_id f; silenced = (case emergency_for st u of None \<Rightarrow> False | Some e \<Rightarrow> silences_others e)
      in v \<noteq> u \<and> length (af_samples f) = mix_samples_per_frame \<and>
         (case af_target f of
            Channel c \<Rightarrow> \<not> silenced \<and> c \<in> se_listen_channels s \<and> Channel c \<in> sending st frames v
          | Direct t \<Rightarrow> \<not> silenced \<and> t = u \<and> Direct t \<in> sending st frames v
          | Mixed \<Rightarrow> (case emergency_for st u of None \<Rightarrow> False
                      | Some e \<Rightarrow> re_source e = v \<and> known_sender st frames v)))"

lemma emergency_recipient_not_source:
  "u \<in> set (emergency_recipients_for_sessions e ss) \<Longrightarrow> re_source e \<noteq> u"
  by (auto simp: emergency_recipients_for_sessions_def split: emergency_target.splits)

lemma emergency_gain_zero:
  "f_eq (emergency_gain (mix_context_of st frames) u f) (Fin 0) \<longleftrightarrow>
     af_target f \<noteq> Mixed \<and> (case emergency_for st u of None \<Rightarrow> False | Some e \<Rightarrow> silences_others e)"
  using emergency_recipient_not_source [of u _ "st_sessions st"]
  by (auto simp: emergency_gain_def emergency_active_for_def mix_context_of_def emergency_for_def
      silences_others_def f_eq_def split: option.splits if_splits)

lemma known_if_sending: "t \<in> sending st frames v \<Longrightarrow> known_sender st frames v"
  by (auto simp: sending_def known_sender_def list_ex_iff hm_contains_def simp del: hm_contains_iff
      split: option.splits if_splits)

lemma admits_eq:
  "admits (mix_context_of st frames) u s f \<longleftrightarrow>
     af_user_id f \<noteq> u \<and> length (af_samples f) = mix_samples_per_frame \<and>
     (case af_target f of
        Channel c \<Rightarrow> c \<in> se_listen_channels s \<and> Channel c \<in> sending st frames (af_user_id f)
      | Direct t \<Rightarrow> t = u \<and> Direct t \<in> sending st frames (af_user_id f)
      | Mixed \<Rightarrow> (case emergency_for st u of None \<Rightarrow> False
                  | Some e \<Rightarrow> re_source e = af_user_id f \<and> known_sender st frames (af_user_id f)))"
proof -
  have k: "hm_contains (mc_routes (mix_context_of st frames)) v = known_sender st frames v" for v
    unfolding sender_routes_targets(2) [symmetric] by (simp add: mix_context_of_def)
  have e: "mc_emergency (mix_context_of st frames) = st_emergency st"
    "mc_recipients (mix_context_of st frames) = (case st_emergency st of None \<Rightarrow> {}
        | Some e \<Rightarrow> set (emergency_recipients_for_sessions e (st_sessions st)))"
    by (simp_all add: mix_context_of_def)
  show ?thesis
    unfolding admits_def k e sends_iff emergency_for_def
    by (cases "af_target f"; cases "st_emergency st") (auto dest: known_if_sending)
qed

lemma contributions_hears:
  "contributions (mix_context_of st frames) u s = filter (hears st frames u s) frames"
proof -
  have frames: "mc_frames (mix_context_of st frames) = frames" by (simp add: mix_context_of_def)
  have "admits (mix_context_of st frames) u s f \<and>
      \<not> f_eq (emergency_gain (mix_context_of st frames) u f) (Fin 0) \<longleftrightarrow> hears st frames u s f" for f
    unfolding admits_eq emergency_gain_zero hears_def Let_def
    by (cases "af_target f"; cases "emergency_for st u") auto
  then show ?thesis by (simp add: contributions_def frames)
qed

section \<open>Frame lengths and levels of the mixes\<close>

lemma take_source_frames_frame [simp]:
  "st_sessions (snd (take_source_frames env st)) = st_sessions st"
  "st_emergency (snd (take_source_frames env st)) = st_emergency st"
  "st_output_seq (snd (take_source_frames env st)) = st_output_seq st"
  by (simp_all add: take_source_frames_def Let_def count_metric_def split: prod.splits)

lemma hears_frame:
  "st_sessions st' = st_sessions st \<Longrightarrow> st_emergency st' = st_emergency st \<Longrightarrow> hears st' = hears st"
proof -
  assume eq: "st_sessions st' = st_sessions st" "st_emergency st' = st_emergency st"
  have same: "sending st' = sending st" "known_sender st' = known_sender st"
      "emergency_for st' = emergency_for st"
    unfolding fun_eq_iff sending_def known_sender_def emergency_for_def eq by (rule allI refl)+
  show ?thesis by (intro ext) (simp only: hears_def same)
qed

definition full_frame :: "active_source_frame \<times> f32 \<Rightarrow> bool" where
  "full_frame fg = (length (af_samples (fst fg)) = mix_samples_per_frame)"

definition mix_value :: "f32 list \<Rightarrow> bool" where
  "mix_value mix = (length mix = mix_samples_per_frame \<and> list_all f32_value mix)"

lemma mix_value_silent: "mix_value silent_frame"
  by (simp add: mix_value_def silent_frame_def list_all_iff f32_value_def)

lemma mix_value_map2:
  "mix_value mix \<Longrightarrow> length xs = mix_samples_per_frame \<Longrightarrow>
     mix_value (map2 (\<lambda>m x. f_add binary32 m (g x)) mix xs)"
  by (auto simp: mix_value_def list_all_iff)

lemma mix_value_add:
  "mix_value mix \<Longrightarrow> full_frame fg \<Longrightarrow> mix_value (add_mono fg mix)"
  "mix_value mix \<Longrightarrow> full_frame fg \<Longrightarrow> mix_value (add_panned side fg mix)"
  by (cases fg; simp add: add_mono_def add_panned_def full_frame_def mix_value_map2)+

lemma mix_value_fold:
  "list_all full_frame heard \<Longrightarrow> (\<And>fg mix. mix_value mix \<Longrightarrow> full_frame fg \<Longrightarrow> mix_value (add fg mix)) \<Longrightarrow>
     mix_value mix \<Longrightarrow> mix_value (fold add heard mix)"
  by (induction heard arbitrary: mix) simp_all

lemma length_interleave: "length ls = length rs \<Longrightarrow> length (interleave ls rs) = 2 * length ls"
  by (induction ls rs rule: list_induct2) simp_all

definition mix_output_ok :: "mix_output \<Rightarrow> bool" where
  "mix_output_ok out =
     (length (mo_samples out) = mix_samples_per_frame * mo_channels out \<and>
      mo_channels out \<in> {1..if mo_codec out \<in> {Pcm48, Opus} then 2 else 1} \<and>
      sint ` set (mo_samples out) \<subseteq> {- 31129..31129})"

lemma limited_mix_ok:
  assumes "list_all full_frame heard" "limited_mix log10 s heard = ((samples, meter, event), channels)"
  shows "length samples = mix_samples_per_frame * channels"
    and "channels \<in> {1..if se_output_codec s \<in> {Pcm48, Opus} then 2 else 1}"
    and "sint ` set samples \<subseteq> {- 31129..31129}"
proof -
  let ?side = "\<lambda>p. fold (\<lambda>(f, g). add_panned (p (pan_gains (pan_of s f))) (f, g)) heard silent_frame"
  let ?mono = "fold add_mono heard silent_frame"
  have mono: "mix_value ?mono"
    by (rule mix_value_fold [OF assms(1)]) (simp_all add: mix_value_add mix_value_silent)
  have side: "mix_value (?side p)" for p :: "f32 \<times> f32 \<Rightarrow> f32"
    by (rule mix_value_fold [OF assms(1)]) (auto simp: mix_value_add mix_value_silent split: prod.splits)
  consider (stereo) "stereo_active_for_codec (se_stereo s) (se_output_codec s)"
      "samples = fst (limit_stereo_frame log10 (?side fst) (?side snd))" "channels = 2"
    | (mono) "samples = fst (limit_frame log10 ?mono)" "channels = 1"
    using assms(2) by (auto simp: limited_mix_def Let_def split: if_splits)
  then have "length samples = mix_samples_per_frame * channels \<and>
      channels \<in> {1..if se_output_codec s \<in> {Pcm48, Opus} then 2 else 1} \<and>
      sint ` set samples \<subseteq> {- 31129..31129}"
  proof cases
    case stereo
    then have "length samples = mix_samples_per_frame * channels"
      using side [of fst] side [of snd]
      by (simp add: limit_stereo_frame_def Let_def length_interleave mix_value_def)
    moreover have "sint ` set samples \<subseteq> {- 31129..31129}"
      unfolding stereo(2) using limiter_bounded [of "?side fst" "?side snd" log10] side
      by (simp add: mix_value_def)
    ultimately show ?thesis using stereo(1,3) by (auto simp: stereo_active_for_codec_def)
  next
    case mono
    have "sint ` set samples \<subseteq> {- 31129..31129}"
      unfolding mono(1) using limiter_bounded [of ?mono ?mono log10] \<open>mix_value ?mono\<close>
      by (simp add: mix_value_def)
    with mono \<open>mix_value ?mono\<close> show ?thesis
      by (simp add: limit_frame_def Let_def mix_value_def)
  qed
  then show "length samples = mix_samples_per_frame * channels"
    "channels \<in> {1..if se_output_codec s \<in> {Pcm48, Opus} then 2 else 1}"
    "sint ` set samples \<subseteq> {- 31129..31129}" by blast+
qed

lemma contributions_full:
  "list_all full_frame (map (\<lambda>f. (f, source_gain ctx u s f)) (contributions ctx u s))"
  by (auto simp: list_all_iff full_frame_def contributions_def admits_def)

lemma mix_for_ok: "mix_for log10 ctx u addr s = Some out \<Longrightarrow> mix_output_ok out"
  using limited_mix_ok [OF contributions_full [where ctx = ctx and u = u and s = s], where ?log10.0 = log10 and s = s]
  by (auto simp: mix_for_def Let_def mix_output_ok_def split: if_splits prod.splits)

lemma build_mixes_outputs:
  "out \<in> set (fst (build_mixes log10 env st)) \<Longrightarrow>
     \<exists>u s addr ctx. (u, s) \<in> set (st_sessions st) \<and>
       session_audio_addr s (env_now env) = Some addr \<and> mix_for log10 ctx u addr s = Some out"
proof -
  assume out: "out \<in> set (fst (build_mixes log10 env st))"
  obtain frames st1 where t: "take_source_frames env st = (frames, st1)" by fastforce
  then have "st_sessions st1 = st_sessions st" by (metis snd_conv take_source_frames_frame(1))
  with out t show ?thesis
    by (force simp: build_mixes_def mix_listener_def split: option.splits)
qed

section \<open>Sequence numbers\<close>

definition seq_of :: "server_state \<Rightarrow> user_id \<Rightarrow> u16" where
  "seq_of st u = (case hm_get (st_output_seq st) u of None \<Rightarrow> 0 | Some n \<Rightarrow> n)"

lemma next_output_seq_facts:
  "next_output_seq u st = (seq, st') \<Longrightarrow> seq = seq_of st u \<and>
     seq_of st' v = seq_of st v + (if v = u then 1 else 0) \<and>
     st_sessions st' = st_sessions st \<and> st_sources st' = st_sources st"
  by (auto simp: next_output_seq_def Let_def seq_of_def)

lemma clear_endpoint_frame [simp]:
  "st_output_seq (fst (clear_audio_endpoint_if_matches u a st)) = st_output_seq st"
  "st_sources (fst (clear_audio_endpoint_if_matches u a st)) = st_sources st"
  by (simp_all add: clear_audio_endpoint_if_matches_def modify_session_def split: option.split)

lemma send_results_frame [simp]:
  "st_output_seq (count_encode_error st) = st_output_seq st"
  "st_output_seq (record_audio_send_error u a st) = st_output_seq st"
  "st_output_seq (record_output_health env u m e st) = st_output_seq st"
  "st_output_seq (count_metric f st) = st_output_seq st"
  "st_sources (count_encode_error st) = st_sources st"
  "st_sources (record_audio_send_error u a st) = st_sources st"
  "st_sources (record_output_health env u m e st) = st_sources st"
  "st_sources (count_metric f st) = st_sources st"
  by (simp_all add: count_encode_error_def record_audio_send_error_def record_output_health_def
      with_health_def count_metric_def)

text \<open>The packet a datagram of the mixer carries.\<close>

definition carries :: "server_state \<Rightarrow> mix_output \<Rightarrow> socket_addr \<times> u8 list \<Rightarrow> bool" where
  "carries st out = (\<lambda>(addr, bytes).
     addr = mo_addr out \<and>
     (case packet_decode bytes of Inl _ \<Rightarrow> False
      | Inr p \<Rightarrow> p = mixed_packet out (seq_of st (mo_user_id out)) (pkt_payload p) \<and>
          (mo_codec out = Opus \<or>
           length (pkt_payload p) = codec_pcm16_payload_bytes (mo_codec out) * mo_channels out)))"

lemma seq_of_frame: "st_output_seq st' = st_output_seq st \<Longrightarrow> seq_of st' v = seq_of st v"
  by (simp add: seq_of_def)

lemma send_mix_facts:
  assumes "send_mix libs sent env out st = (ds, st')" "mix_output_ok out"
  shows "seq_of st' v = seq_of st v + (if v = mo_user_id out then 1 else 0)"
    and "st_sources st' = st_sources st"
    and "list_all (carries st out) ds" and "length ds \<le> 1"
proof -
  obtain seq st1 where n: "next_output_seq (mo_user_id out) st = (seq, st1)" by fastforce
  note next_facts = next_output_seq_facts [OF n]
  have frame: "st_output_seq st' = st_output_seq st1" "st_sources st' = st_sources st1"
    using assms(1) by (auto simp: send_mix_def n Let_def split: sum.splits if_splits)
  show "seq_of st' v = seq_of st v + (if v = mo_user_id out then 1 else 0)"
    using next_facts [of v] by (simp add: seq_of_frame [OF frame(1)])
  show "st_sources st' = st_sources st" using next_facts frame by simp
  show "length ds \<le> 1"
    using assms(1) by (auto simp: send_mix_def n Let_def split: sum.splits if_splits)
  show "list_all (carries st out) ds"
  proof (cases ds)
    case (Cons d ds')
    obtain payload bytes where
        enc: "audio_encode (libs (mo_user_id out)) (mo_codec out) (mo_opus_profile out)
                (mo_samples out) (mo_channels out) = Inr payload"
      and pkt: "packet_encode (mixed_packet out seq payload) = Inr bytes"
      and ds: "ds = [(mo_addr out, bytes)]"
      using assms(1) Cons by (auto simp: send_mix_def n Let_def split: sum.splits if_splits)
    have dec: "packet_decode bytes = Inr (mixed_packet out seq payload)"
      using pkt unfolding packet_encode_def packet_wire.dec_iff by (auto split: if_splits)
    have "mo_codec out = Opus \<or>
        length payload = codec_pcm16_payload_bytes (mo_codec out) * mo_channels out"
      using audio_encode_length [OF enc] assms(2) by (auto simp: mix_output_ok_def)
    then show ?thesis
      using next_facts by (simp add: ds carries_def dec, simp add: mixed_packet_def)
  qed simp
qed

lemma send_mixes_facts:
  "send_mixes libs sent env outs st = (ds, st') \<Longrightarrow> list_all mix_output_ok outs \<Longrightarrow>
     distinct (map mo_user_id outs) \<Longrightarrow>
     seq_of st' v = seq_of st v + (if v \<in> mo_user_id ` set outs then 1 else 0) \<and>
     st_sources st' = st_sources st \<and> list_all (\<lambda>d. list_ex (\<lambda>out. carries st out d) outs) ds"
proof (induction outs arbitrary: st ds v)
  case (Cons out outs)
  obtain first st1 rest where s: "send_mix libs sent env out st = (first, st1)"
      "send_mixes libs sent env outs st1 = (rest, st')" "ds = first @ rest"
    using Cons.prems(1) by (auto simp: Let_def split: prod.splits)
  have ok: "mix_output_ok out" "list_all mix_output_ok outs" "distinct (map mo_user_id outs)"
    and new: "mo_user_id out \<notin> mo_user_id ` set outs"
    using Cons.prems by auto
  note head = send_mix_facts [OF s(1) ok(1)]
  have tail: "seq_of st' v = seq_of st1 v + (if v \<in> mo_user_id ` set outs then 1 else 0)"
      "st_sources st' = st_sources st1"
      "list_all (\<lambda>d. list_ex (\<lambda>out. carries st1 out d) outs) rest" for v
    using Cons.IH [OF s(2) ok(2,3)] by auto
  have "carries st1 o' d = carries st o' d" if "o' \<in> set outs" for o' d
  proof -
    have "mo_user_id o' \<noteq> mo_user_id out" using new that by (metis imageI)
    then have "seq_of st1 (mo_user_id o') = seq_of st (mo_user_id o')" using head(1) by simp
    then show ?thesis by (simp only: carries_def)
  qed
  with tail(3) have "list_all (\<lambda>d. list_ex (\<lambda>out. carries st out d) outs) rest"
    by (auto simp: list_all_iff list_ex_iff)
  with head(3) show ?case
    using tail(1,2) head(1,2) new by (auto simp: s(3) list_all_iff)
qed simp

text \<open>The datagram a mix becomes: nothing when it cannot be encoded or the socket refuses it.\<close>

definition mixed_datagram ::
    "(user_id \<Rightarrow> codec_libs) \<Rightarrow> (socket_addr \<Rightarrow> u8 list \<Rightarrow> bool) \<Rightarrow> server_state \<Rightarrow> mix_output \<Rightarrow>
     (socket_addr \<times> u8 list) list" where
  "mixed_datagram libs sent st out =
     (case audio_encode (libs (mo_user_id out)) (mo_codec out) (mo_opus_profile out) (mo_samples out)
             (mo_channels out) of
        Inl _ \<Rightarrow> []
      | Inr payload \<Rightarrow>
          (case packet_encode \<lparr>pkt_user_id = server_user_id, pkt_target = Mixed, pkt_codec = mo_codec out,
                  pkt_seq = seq_of st (mo_user_id out),
                  pkt_timestamp = ucast (seq_of st (mo_user_id out)) *
                    of_nat (if mo_codec out = Opus then opus_samples_per_frame (mo_opus_profile out)
                            else codec_samples_per_frame (mo_codec out)),
                  pkt_payload = payload\<rparr> of
             Inl _ \<Rightarrow> []
           | Inr bytes \<Rightarrow> if sent (mo_addr out) bytes then [(mo_addr out, bytes)] else []))"

lemma send_mix_datagram: "fst (send_mix libs sent env out st) = mixed_datagram libs sent st out"
proof -
  obtain seq st1 where n: "next_output_seq (mo_user_id out) st = (seq, st1)" by fastforce
  with next_output_seq_facts [OF n] show ?thesis
    by (simp add: send_mix_def mixed_datagram_def Let_def mixed_packet_def split: sum.split)
qed

lemma send_mixes_datagrams:
  "list_all mix_output_ok outs \<Longrightarrow> distinct (map mo_user_id outs) \<Longrightarrow>
     fst (send_mixes libs sent env outs st) = concat (map (mixed_datagram libs sent st) outs)"
proof (induction outs arbitrary: st)
  case (Cons out outs)
  obtain first st1 where s: "send_mix libs sent env out st = (first, st1)" by fastforce
  have ok: "mix_output_ok out" "list_all mix_output_ok outs" "distinct (map mo_user_id outs)"
    and new: "mo_user_id out \<notin> mo_user_id ` set outs"
    using Cons.prems by auto
  have "mixed_datagram libs sent st1 o' = mixed_datagram libs sent st o'" if "o' \<in> set outs" for o'
  proof -
    have "mo_user_id o' \<noteq> mo_user_id out" using new that by (metis imageI)
    then have "seq_of st1 (mo_user_id o') = seq_of st (mo_user_id o')"
      using send_mix_facts(1) [OF s ok(1)] by simp
    then show ?thesis by (simp only: mixed_datagram_def)
  qed
  then have same: "map (mixed_datagram libs sent st1) outs = map (mixed_datagram libs sent st) outs" by simp
  have first: "first = mixed_datagram libs sent st out"
    using send_mix_datagram [of libs sent env out st] by (simp add: s)
  show ?case
    using Cons.IH [OF ok(2,3), of st1] unfolding same by (simp add: Let_def s first case_prod_unfold)
qed simp

lemma distinct_concat_key:
  assumes "\<And>x. map key (g x) = [] \<or> map key (g x) = [fst x]"
  shows "distinct (map fst xs) \<Longrightarrow> distinct (map key (concat (map g xs)))"
    and "key ` set (concat (map g xs)) \<subseteq> fst ` set xs"
proof (induction xs)
  case (Cons x xs)
  {
    case 1
    with Cons have d: "distinct (map key (concat (map g xs)))"
      and f: "fst x \<notin> key ` set (concat (map g xs))" by auto
    then show ?case using assms [of x] by (auto simp: map_concat)
  next
    case 2
    have "key ` set (g x) = set (map key (g x))" by simp
    also have "\<dots> \<subseteq> {fst x}" using assms [of x] by auto
    finally show ?case
      using Cons.IH(2) unfolding list.map concat.simps set_append image_Un list.set image_insert
      by blast
  }
qed simp_all

definition outputs_of :: "mix_output option \<times> (user_id \<times> session) \<Rightarrow> mix_output list" where
  "outputs_of = (\<lambda>(out, _). case out of None \<Rightarrow> [] | Some m \<Rightarrow> [m])"

lemma mix_for_user: "mix_for log10 ctx u addr s = Some out \<Longrightarrow> mo_user_id out = u"
  by (auto simp: mix_for_def Let_def split: if_splits prod.splits)

lemma build_mixes_ok:
  assumes "hm_wf (st_sessions st)"
  shows "list_all mix_output_ok (fst (build_mixes log10 env st))"
    and "distinct (map mo_user_id (fst (build_mixes log10 env st)))"
proof -
  show "list_all mix_output_ok (fst (build_mixes log10 env st))"
    using build_mixes_outputs mix_for_ok by (fastforce simp: list_all_iff)
  obtain frames st1 where t: "take_source_frames env st = (frames, st1)" by fastforce
  then have ss: "st_sessions st1 = st_sessions st" by (metis snd_conv take_source_frames_frame(1))
  let ?g = "\<lambda>us. outputs_of (mix_listener log10 env (mix_context_of st1 frames) us)"
  have g: "map mo_user_id (?g us) = [] \<or> map mo_user_id (?g us) = [fst us]" for us
    using mix_for_user by (cases us) (auto simp: outputs_of_def mix_listener_def split: option.splits)
  have "fst (build_mixes log10 env st) = concat (map ?g (st_sessions st))"
    by (simp add: build_mixes_def t ss outputs_of_def comp_def)
  then show "distinct (map mo_user_id (fst (build_mixes log10 env st)))"
    using distinct_concat_key(1) [OF g, of "st_sessions st"] assms by (simp add: hm_wf_def)
qed

lemma build_mixes_seq: "seq_of (snd (build_mixes log10 env st)) v = seq_of st v"
proof -
  obtain frames st1 where t: "take_source_frames env st = (frames, st1)" by fastforce
  then have "st_output_seq st1 = st_output_seq st" by (metis snd_conv take_source_frames_frame(3))
  then show ?thesis by (simp add: build_mixes_def t seq_of_def)
qed

section \<open>Queues\<close>

definition live_queue :: "env \<Rightarrow> server_state \<Rightarrow> user_id \<Rightarrow> bool" where
  "live_queue env st u =
     (case hm_get (st_sources st) u of None \<Rightarrow> False
      | Some q \<Rightarrow> env_now env - sq_last_seen q \<le> active_source_window)"

lemma pop_sources_get:
  "hm_get (snd (pop_sources qs)) u = map_option (\<lambda>q. snd (source_pop q)) (hm_get qs u)"
  by (induction qs rule: pop_sources.induct) (auto split: prod.splits)

lemma pop_sources_frames:
  "fst (pop_sources qs) = concat (map (\<lambda>(u, q). map (source_frame u) (take 1 (sq_frames q))) qs)"
  by (induction qs rule: pop_sources.induct)
    (auto simp: source_pop_def split: prod.splits list.splits)

lemma play_virtual_frames:
  "fst (play_virtual_sources vs) =
     concat (map (\<lambda>v. case fst (next_frame v) of None \<Rightarrow> [] | Some f \<Rightarrow> [f]) vs)"
  by (induction vs) (auto split: prod.splits option.splits)

lemma expire_sources_get:
  "hm_wf qs \<Longrightarrow> hm_get (expire_sources env qs) u =
     (case hm_get qs u of None \<Rightarrow> None
      | Some q \<Rightarrow> if env_now env - sq_last_seen q \<le> active_source_window then Some q else None)"
proof (induction qs)
  case (Cons x qs)
  obtain v q where x: "x = (v, q)" by fastforce
  with Cons have IH: "hm_get (expire_sources env qs) u = (case hm_get qs u of None \<Rightarrow> None
      | Some q \<Rightarrow> if env_now env - sq_last_seen q \<le> active_source_window then Some q else None)"
    and new: "hm_get qs v = None"
    by (simp_all add: hm_wf_def map_of_eq_None_iff)
  have e: "expire_sources env (x # qs) =
      (if env_now env - sq_last_seen q \<le> active_source_window then [x] else []) @ expire_sources env qs"
    by (simp add: expire_sources_def x)
  show ?case
    using IH new unfolding e by (auto simp: x split: option.splits)
qed (simp add: expire_sources_def)

lemma sq_frames_pop: "sq_frames (snd (source_pop q)) = tl (sq_frames q)"
  by (simp add: source_pop_def split: list.split)

lemma take_source_frames_sources:
  "st_sources (snd (take_source_frames env st)) = snd (pop_sources (expire_sources env (st_sources st)))"
  by (simp add: take_source_frames_def Let_def split: prod.splits)

lemma take_source_frames_queued:
  assumes "hm_wf (st_sources st)"
  shows "queued (snd (take_source_frames env st)) u =
           (if live_queue env st u then tl (queued st u) else [])"
  unfolding queued_def take_source_frames_sources
    by (simp add: live_queue_def pop_sources_get expire_sources_get [OF assms] sq_frames_pop
        split: option.split)

lemma build_mixes_sources:
  "st_sources (snd (build_mixes log10 env st)) = st_sources (snd (take_source_frames env st))"
  by (simp add: build_mixes_def split: prod.split)

lemma listener_output:
  "map (\<lambda>out. (mo_user_id out, mo_addr out, mo_active_sources out, mo_samples out))
     (outputs_of (mix_listener log10 env (mix_context_of st frames) (u, s))) =
   (let heard = filter (hears st frames u s) frames in
    case session_audio_addr s (env_now env) of
      None \<Rightarrow> []
    | Some addr \<Rightarrow>
        if heard = [] then []
        else [(u, addr, length heard, fst (fst (limited_mix log10 s
                 (map (\<lambda>f. (f, source_gain (mix_context_of st frames) u s f)) heard))))])"
proof (cases "session_audio_addr s (env_now env)")
  case (Some addr)
  let ?heard = "map (\<lambda>f. (f, source_gain (mix_context_of st frames) u s f))
      (filter (hears st frames u s) frames)"
  obtain p channels where "limited_mix log10 s ?heard = (p, channels)" by fastforce
  moreover obtain samples meter event where "p = (samples, meter, event)" by (rule prod_cases3)
  ultimately have l: "limited_mix log10 s ?heard = ((samples, meter, event), channels)" by simp
  show ?thesis
    unfolding Let_def by (simp add: Some outputs_of_def mix_listener_def mix_for_def contributions_hears l)
qed (simp add: outputs_of_def mix_listener_def)

section \<open>Properties\<close>

text \<open>C2. Who hears whom: a mix is built for exactly the sessions with a live audio address that
  hear some frame of the tick, from exactly the frames they hear (\<open>hears\<close>): frames of
  others, of full length, on a channel they listen to or addressed to them, from a sender
  that is authorised for that target now; during an emergency that reaches them, the frames
  of its source, and nothing else when it mutes others.\<close>

theorem mix_reaches_listeners:
  "case take_source_frames env st of (frames, st1) \<Rightarrow>
     map (\<lambda>out. (mo_user_id out, mo_addr out, mo_active_sources out, mo_samples out))
         (fst (build_mixes log10 env st)) =
     concat (map (\<lambda>(u, s). let heard = filter (hears st frames u s) frames in
        case session_audio_addr s (env_now env) of
          None \<Rightarrow> []
        | Some addr \<Rightarrow>
            if heard = [] then []
            else [(u, addr, length heard, fst (fst (limited_mix log10 s
                     (map (\<lambda>f. (f, source_gain (mix_context_of st1 frames) u s f)) heard))))])
       (st_sessions st))"
proof -
  obtain frames st1 where t: "take_source_frames env st = (frames, st1)" by fastforce
  then have ss: "st_sessions st1 = st_sessions st" "st_emergency st1 = st_emergency st"
    by (metis snd_conv take_source_frames_frame(1), metis snd_conv take_source_frames_frame(2))
  have outs: "fst (build_mixes log10 env st) =
      concat (map (\<lambda>us. outputs_of (mix_listener log10 env (mix_context_of st1 frames) us)) (st_sessions st))"
    by (simp add: build_mixes_def t ss outputs_of_def comp_def)
  show ?thesis
    unfolding t outs prod.case map_concat map_map
  proof (intro arg_cong [where f = concat] map_cong refl)
    fix us :: "user_id \<times> session"
    show "(map (\<lambda>out. (mo_user_id out, mo_addr out, mo_active_sources out, mo_samples out)) \<circ>
        (\<lambda>us. outputs_of (mix_listener log10 env (mix_context_of st1 frames) us))) us = (case us of
      (u, s) \<Rightarrow> let heard = filter (hears st frames u s) frames in
        case session_audio_addr s (env_now env) of
          None \<Rightarrow> []
        | Some addr \<Rightarrow>
            if heard = [] then []
            else [(u, addr, length heard, fst (fst (limited_mix log10 s
                     (map (\<lambda>f. (f, source_gain (mix_context_of st1 frames) u s f)) heard))))])"
      by (cases us) (simp only: o_apply prod.case listener_output hears_frame [OF ss])
  qed
qed

text \<open>C17. Every mix is one full frame per channel, in stereo only for the codecs that can carry
  it, and stays within 0.95 of full scale, whatever gains and volumes are configured.\<close>

theorem mixes_are_full_limited_frames:
  "list_all (\<lambda>out. length (mo_samples out) = mix_samples_per_frame * mo_channels out \<and>
      mo_channels out \<in> {1..if mo_codec out \<in> {Pcm48, Opus} then 2 else 1} \<and>
      sint ` set (mo_samples out) \<subseteq> {- 31129..31129}) (fst (build_mixes log10 env st))"
  using build_mixes_outputs mix_for_ok
  by (auto simp: list_all_iff mix_output_ok_def simp del: atLeastAtMost_iff) fastforce+

text \<open>C3. One tick of the mixer sends, for every mix of the tick and in their order, exactly one
  datagram to that listener: a mixed packet of the server with the listener's codec and next
  sequence number and the encoded mix as its payload. A mix is left out only when its samples
  cannot be encoded or the socket refuses the datagram. Each datagram decodes to that packet,
  with a PCM payload of exactly the codec's length. The sequence number advances (and
  wraps) once for every mix, sent or not; and every live source queue gives up exactly one
  frame, while a queue that was silent for 80 ms is dropped.\<close>

theorem tick_numbers_and_consumes:
  assumes "hm_wf (st_sessions st)" and "hm_wf (st_sources st)"
  shows "case mixer_tick libs log10 sent env st of (ds, st') \<Rightarrow>
     (let outs = fst (build_mixes log10 env st)
      in ds = concat (map (mixed_datagram libs sent st) outs) \<and>
         list_all (\<lambda>d. list_ex (\<lambda>out. carries st out d) outs) ds \<and>
         seq_of st' u = seq_of st u + (if u \<in> mo_user_id ` set outs then 1 else 0) \<and>
         queued st' u = (if live_queue env st u then tl (queued st u) else []))"
proof -
  obtain outs st1 where b: "build_mixes log10 env st = (outs, st1)" by fastforce
  obtain ds st' where s: "send_mixes libs sent env outs st1 = (ds, st')" by fastforce
  have ok: "list_all mix_output_ok outs" "distinct (map mo_user_id outs)"
    using build_mixes_ok [OF assms(1), of log10 env] by (simp_all add: b)
  have seq: "seq_of st1 v = seq_of st v" for v
    using build_mixes_seq [of log10 env st v] by (simp add: b)
  then have same: "carries st1 = carries st" "mixed_datagram libs sent st1 = mixed_datagram libs sent st"
    by (intro ext, simp only: carries_def, intro ext, simp only: mixed_datagram_def)
  have "ds = concat (map (mixed_datagram libs sent st) outs)"
    using send_mixes_datagrams [OF ok, of libs sent env st1] by (simp add: s same)
  moreover have "queued st' u = queued (snd (take_source_frames env st)) u"
    using send_mixes_facts [OF s ok] build_mixes_sources [of log10 env st] by (simp add: queued_def b)
  ultimately show ?thesis
    using send_mixes_facts [OF s ok, of u] take_source_frames_queued [OF assms(2)]
    by (simp add: mixer_tick_def b s seq same)
qed

section \<open>Examples\<close>

text \<open>A call from 1 to 2 is heard by 2 and not by 1.\<close>

definition calling_pair :: server_state where
  "calling_pair = two_clients\<lparr>st_sessions :=
     [(1, (session_new 0)\<lparr>se_active_direct_calls := [(2, \<lparr>adc_duck = True\<rparr>)]\<rparr>), (2, session_new 0)]\<rparr>"

definition calling_frame :: active_source_frame where
  "calling_frame = \<lparr>af_user_id = 1, af_target = Direct 2,
     af_samples = replicate mix_samples_per_frame 1000, af_priority = False, af_duck = False\<rparr>"

lemma call_is_heard:
  "hears calling_pair [calling_frame] 2 (session_new 0) calling_frame"
  "\<not> hears calling_pair [calling_frame] 1 s calling_frame"
  by (simp_all add: hears_def calling_frame_def calling_pair_def sending_def emergency_for_def
      two_clients_def server_state_new_def active_tx_targets_def)

text \<open>The volume of the open channel, whose id is 0, also applies to direct calls and to the
  audio of an emergency: a listener who turned it down to 0 hears neither.\<close>

lemma open_channel_volume_mutes_calls:
  "target_channel_id (af_target f) = None \<Longrightarrow>
     hm_get (se_channel_volumes s) channel_open = Some (Fin 0) \<Longrightarrow>
     hm_get (se_talker_volumes s) (af_user_id f) = None \<Longrightarrow> volume_gain s f = Fin 0"
  by (simp add: volume_gain_def channel_open_def Let_def f_max_def rnd_def)

text \<open>User 1 calls user 2, who receives PCM48.\<close>

definition heard_call :: server_state where
  "heard_call = two_clients\<lparr>
     st_sessions :=
       [(1, (session_new 0)\<lparr>se_active_direct_calls := [(2, \<lparr>adc_duck = True\<rparr>)]\<rparr>),
        (2, (session_new 0)\<lparr>se_addr := Some 7, se_output_codec := Pcm48, se_supported_codecs := {Pcm16, Pcm48}\<rparr>)],
     st_sources := [(1, \<lparr>sq_frames = [\<lparr>qf_target = Direct 2, qf_samples = replicate mix_samples_per_frame 1000,
        qf_priority = False, qf_duck = True\<rparr>], sq_last_seen = env_now sample_env\<rparr>)]\<rparr>"

lemma mix_for_heard:
  "contributions ctx u s \<noteq> [] \<Longrightarrow> \<exists>out. mix_for log10 ctx u addr s = Some out \<and> mo_user_id out = u \<and>
     mo_addr out = addr \<and> mo_codec out = se_output_codec s"
  by (auto simp: mix_for_def Let_def split: prod.split)

lemma heard_call_mix: "\<exists>out. fst (build_mixes log10 sample_env heard_call) = [out] \<and> mo_user_id out = 2 \<and>
     mo_addr out = 7 \<and> mo_codec out = Pcm48"
proof -
  obtain frames st1 where t: "take_source_frames sample_env heard_call = (frames, st1)" by (rule prod.exhaust)
  have fr: "frames = [calling_frame\<lparr>af_duck := True\<rparr>]" "st_sessions st1 = st_sessions heard_call"
    "st_emergency st1 = None"
    using t by (auto simp: take_source_frames_def heard_call_def two_clients_def server_state_new_def
        expire_sources_def source_pop_def source_frame_def calling_frame_def Let_def)
  have c: "contributions (mix_context_of st1 frames) 2 s = frames" for s
    unfolding contributions_def fr(1)
    by (simp add: fr mix_context_of_def admits_def calling_frame_def sender_routes_def virtual_route_def
        is_server_virtual_source_def server_user_id_def tts_source_user_base_def session_route_def sends_def
        heard_call_def active_tx_targets_def emergency_gain_def emergency_active_for_def f_eq_def)
  have ss: "st_sessions st1 = [(1, (session_new 0)\<lparr>se_active_direct_calls := [(2, \<lparr>adc_duck = True\<rparr>)]\<rparr>),
        (2, (session_new 0)\<lparr>se_addr := Some 7, se_output_codec := Pcm48, se_supported_codecs := {Pcm16, Pcm48}\<rparr>)]"
    by (simp add: fr(2) heard_call_def)
  obtain out where "mix_for log10 (mix_context_of st1 frames) 2 7 ((session_new 0)\<lparr>se_addr := Some 7,
      se_output_codec := Pcm48, se_supported_codecs := {Pcm16, Pcm48}\<rparr>) = Some out" "mo_user_id out = 2"
      "mo_addr out = 7" "mo_codec out = Pcm48"
    using mix_for_heard [where ?log10.0 = log10 and ctx = "mix_context_of st1 frames" and u = 2 and addr = 7
        and s = "(session_new 0)\<lparr>se_addr := Some 7, se_output_codec := Pcm48,
                   se_supported_codecs := {Pcm16, Pcm48}\<rparr>"] c fr(1) by auto
  then show ?thesis
    unfolding build_mixes_def t prod.case Let_def ss
    by (simp add: mix_listener_def session_audio_addr_def session_new_def)
qed

text \<open>In that state one tick sends user 2 the frame of user 1.\<close>

theorem tick_numbers_and_consumes_witness:
  "case mixer_tick (\<lambda>u. no_libs) (\<lambda>x. x) (\<lambda>a d. True) sample_env heard_call of (ds, st') \<Rightarrow>
     (\<exists>bytes p. ds = [(7, bytes)] \<and> packet_decode bytes = Inr p \<and> pkt_seq p = 0 \<and>
        pkt_payload p = pcm16_samples_to_le_bytes
          (mo_samples (hd (fst (build_mixes (\<lambda>x. x) sample_env heard_call))))) \<and>
     seq_of st' 2 = 1"
proof -
  let ?seq = "seq_of heard_call 2"
  obtain out where out: "fst (build_mixes (\<lambda>x. x) sample_env heard_call) = [out]" "mo_user_id out = 2"
      "mo_addr out = 7" "mo_codec out = Pcm48"
    using heard_call_mix [where ?log10.0 = "\<lambda>x. x"] by auto
  have wf: "hm_wf (st_sessions heard_call)" "hm_wf (st_sources heard_call)" "?seq = 0"
    by (simp_all add: heard_call_def two_clients_def server_state_new_def hm_wf_def seq_of_def)
  have "mix_output_ok out" using build_mixes_ok(1) [OF wf(1), of "\<lambda>x. x" sample_env] by (simp add: out)
  then have size: "mo_channels out \<in> {1, 2}" "length (mo_samples out) = 480 * mo_channels out"
    using out(4) by (auto simp: mix_output_ok_def frame_lengths)
  then have enc: "audio_encode no_libs Pcm48 (mo_opus_profile out) (mo_samples out) (mo_channels out) =
      Inr (pcm16_samples_to_le_bytes (mo_samples out))"
    by (auto simp: audio_encode_def Let_def frame_lengths encode_pcm48)
  obtain p bytes where p: "mixed_datagram (\<lambda>u. no_libs) (\<lambda>a d. True) heard_call out = [(7, bytes)]"
      "packet_encode p = Inr bytes" "pkt_seq p = 0"
      "pkt_payload p = pcm16_samples_to_le_bytes (mo_samples out)"
    using size by (auto simp: mixed_datagram_def out enc wf(3) packet_encode_def)
  then have "packet_decode bytes = Inr p"
    unfolding packet_encode_def packet_wire.dec_iff by (auto split: if_splits)
  with p show ?thesis
    using tick_numbers_and_consumes [OF wf(1,2), where libs = "\<lambda>u. no_libs" and ?log10.0 = "\<lambda>x. x"
        and sent = "\<lambda>a d. True" and env = sample_env and u = 2]
    unfolding out by (simp add: p wf(3) out(2) case_prod_unfold)
qed

end
