(* ===== verification/Admin_Api.thy ===== *)
theory Admin_Api
  imports Control
begin

text \<open>
  The administrator's HTTP interface in \<open>server/src/lib.rs\<close>: the handlers that change the
  stored state (client configurations, devices, channels, presets, templates) and the ones
  that raise calls, emergencies and alerts, from the parsed request to the reply, and the
  check of the \<open>Authorization\<close> header. The routes and the JSON bodies are \<open>axum\<close> and \<open>serde\<close>.
\<close>

section \<open>Replies\<close>

type_synonym 'a admin_reply = "server_state \<times> (admin_api_error + 'a)"

text \<open>The change is made in memory, then written to the file.\<close>

definition save_change ::
    "env \<Rightarrow> (persisted_admin_state \<Rightarrow> persisted_admin_state) \<Rightarrow> 'a \<Rightarrow> server_state \<Rightarrow> 'a admin_reply" where
  "save_change env change reply st =
     (let st = st\<lparr>st_admin_state := change (st_admin_state st)\<rparr>
      in case save_admin_state env st of
           Some err \<Rightarrow> (st, Inl (Internal err)) | None \<Rightarrow> (st, Inr reply))"

definition reply_of_response :: "server_state \<times> control_response \<Rightarrow> unit admin_reply" where
  "reply_of_response = (\<lambda>(st, resp).
     (st, (case resp of
             Ack \<Rightarrow> Inr ()
           | Error m \<Rightarrow> Inl (BadRequest m)
           | _ \<Rightarrow> Inl (BadRequest ''unexpected control response''))))"

section \<open>Clients\<close>

definition upsert_admin_client :: "env \<Rightarrow> desired_client_config \<Rightarrow> server_state \<Rightarrow> unit admin_reply" where
  "upsert_admin_client env d st = reply_of_response (apply_desired_client env d st)"

text \<open>The stored configuration is the reply.\<close>

definition reply_desired ::
    "user_id \<Rightarrow> desired_client_config \<Rightarrow> unit admin_reply \<Rightarrow> desired_client_config admin_reply" where
  "reply_desired u d = (\<lambda>(st, r). (st, map_sum id (\<lambda>_.
     case desired_client st u of None \<Rightarrow> d | Some stored \<Rightarrow> stored) r))"

definition clean_put :: "user_id \<Rightarrow> desired_client_config \<Rightarrow> desired_client_config" where
  "clean_put u body = body
     \<lparr>dc_user_id := u,
      dc_client_uid := map_option (\<lambda>uid. normalize_client_uid uid (Some u)) (dc_client_uid body),
      dc_priority_channels := sorted_unique_channels (dc_priority_channels body),
      dc_buttons := normalize_button_configs (dc_buttons body),
      dc_ifb := normalize_ifb_config (dc_ifb body),
      dc_stereo := normalize_stereo_config (dc_stereo body),
      dc_esp32_audio := normalize_esp32_audio_config (dc_esp32_audio body)\<rparr>"

definition put_client ::
    "env \<Rightarrow> user_id \<Rightarrow> desired_client_config \<Rightarrow> server_state \<Rightarrow> desired_client_config admin_reply" where
  "put_client env u body st =
     (let d = clean_put u body in reply_desired u d (upsert_admin_client env d st))"

record client_config_patch =
  cp_client_uid :: "string option"
  cp_role :: "client_role option"
  cp_name :: "string option"
  cp_listen :: "channel_id list option"
  cp_tx :: "channel_id list option"
  cp_vol :: "(channel_id, f32) hash_map option"
  cp_talker_vol :: "(user_id, f32) hash_map option"
  cp_codec :: "codec option"
  cp_opus_profile :: "opus_profile option"
  cp_talk_mode :: "talk_mode option"
  cp_priority :: "bool option"
  cp_priority_channels :: "channel_id list option"
  cp_buttons :: "talk_button_config list option"
  cp_ifb :: "ifb_config option"
  cp_lockout :: "client_lockout_policy option"
  cp_stereo :: "stereo_config option"
  cp_esp32_audio :: "esp32_audio_config option"
  cp_processing :: "processing_config option"

definition merge_patch ::
    "user_id \<Rightarrow> client_config_patch \<Rightarrow> desired_client_config \<Rightarrow> desired_client_config" where
  "merge_patch u p d = d
     \<lparr>dc_client_uid := (case cp_client_uid p of None \<Rightarrow> dc_client_uid d
                        | Some uid \<Rightarrow> Some (normalize_client_uid uid (Some u))),
      dc_role := given (cp_role p) (dc_role d),
      dc_name := given (cp_name p) (dc_name d),
      dc_listen := given (cp_listen p) (dc_listen d),
      dc_tx := given (cp_tx p) (dc_tx d),
      dc_vol := given (cp_vol p) (dc_vol d),
      dc_talker_vol := given (cp_talker_vol p) (dc_talker_vol d),
      dc_codec := given (cp_codec p) (dc_codec d),
      dc_opus_profile := given (cp_opus_profile p) (dc_opus_profile d),
      dc_talk_mode := given (cp_talk_mode p) (dc_talk_mode d),
      dc_priority := given (cp_priority p) (dc_priority d),
      dc_priority_channels := given (map_option sorted_unique_channels (cp_priority_channels p))
                                (dc_priority_channels d),
      dc_buttons := given (map_option normalize_button_configs (cp_buttons p)) (dc_buttons d),
      dc_ifb := given (map_option normalize_ifb_config (cp_ifb p)) (dc_ifb d),
      dc_lockout := given (cp_lockout p) (dc_lockout d),
      dc_stereo := given (map_option normalize_stereo_config (cp_stereo p)) (dc_stereo d),
      dc_esp32_audio := given (map_option normalize_esp32_audio_config (cp_esp32_audio p))
                          (dc_esp32_audio d),
      dc_processing := given (cp_processing p) (dc_processing d)\<rparr>"

definition patch_client ::
    "env \<Rightarrow> user_id \<Rightarrow> client_config_patch \<Rightarrow> server_state \<Rightarrow> desired_client_config admin_reply" where
  "patch_client env u p st =
     (let d = merge_patch u p (desired_baseline_for_user st u)
      in reply_desired u d (upsert_admin_client env d st))"

definition delete_client :: "env \<Rightarrow> user_id \<Rightarrow> server_state \<Rightarrow> unit admin_reply" where
  "delete_client env u = save_change env
     (\<lambda>a. a\<lparr>ad_clients := filter (\<lambda>c. dc_user_id c \<noteq> u) (ad_clients a)\<rparr>) ()"

section \<open>Devices\<close>

definition delete_device :: "env \<Rightarrow> string \<Rightarrow> server_state \<Rightarrow> unit admin_reply" where
  "delete_device env uid st =
     (let uid = trim uid in
      if uid = [] then (st, Inl (BadRequest ''device UID cannot be empty''))
      else save_change env (\<lambda>a. a
             \<lparr>ad_devices := filter (\<lambda>v. de_client_uid v \<noteq> uid) (ad_devices a),
              ad_clients := map (\<lambda>c. if dc_client_uid c = Some uid then c\<lparr>dc_client_uid := None\<rparr> else c)
                              (ad_clients a)\<rparr>) () st)"

record device_patch =
  dp_user_id :: "user_id option"
  dp_name :: "string option"
  dp_status :: "enrollment_status option"

definition patched_user_id :: "client_uid \<Rightarrow> device_patch \<Rightarrow> persisted_admin_state \<Rightarrow> user_id" where
  "patched_user_id uid p a =
     (case (case dp_user_id p of None \<Rightarrow> None | Some u \<Rightarrow> if u > 0 then Some u else None) of
        Some u \<Rightarrow> u
      | None \<Rightarrow>
          (case find (\<lambda>v. de_client_uid v = uid) (ad_devices a) of
             Some v \<Rightarrow> de_user_id v | None \<Rightarrow> next_available_user_id a None))"

text \<open>A status forced by the route (approve, reject) goes before the one of the body.\<close>

definition patched_status ::
    "enrollment_status option \<Rightarrow> device_patch \<Rightarrow> enrollment_status \<Rightarrow> enrollment_status" where
  "patched_status forced p old =
     (case forced of Some s \<Rightarrow> s | None \<Rightarrow> (case dp_status p of Some s \<Rightarrow> s | None \<Rightarrow> old))"

definition patch_device ::
    "env \<Rightarrow> enrollment_status option \<Rightarrow> user_id \<Rightarrow> device_patch \<Rightarrow> device_enrollment \<Rightarrow> device_enrollment" where
  "patch_device env forced u p v = v
     \<lparr>de_user_id := u,
      de_name := (case dp_name p of None \<Rightarrow> de_name v | Some n \<Rightarrow> trim n),
      de_status := patched_status forced p (de_status v),
      de_last_seen_ms := env_unix_ms env\<rparr>"

definition patched_device ::
    "env \<Rightarrow> enrollment_status option \<Rightarrow> client_uid \<Rightarrow> device_patch \<Rightarrow> persisted_admin_state \<Rightarrow>
     device_enrollment" where
  "patched_device env forced uid p a =
     (let u = patched_user_id uid p a
      in case find (\<lambda>v. de_client_uid v = uid) (ad_devices a) of
           Some v \<Rightarrow> patch_device env forced u p v
         | None \<Rightarrow> new_device (env_unix_ms env) uid u (patched_status forced p Enrolled)
                     (case dp_name p of None \<Rightarrow> [] | Some n \<Rightarrow> trim n) RoleClient [])"

definition store_device :: "device_enrollment \<Rightarrow> device_enrollment list \<Rightarrow> device_enrollment list" where
  "store_device v ds = normalize_device_enrollments
     (if list_ex (\<lambda>w. de_client_uid w = de_client_uid v) ds
      then update_first (\<lambda>w. de_client_uid w = de_client_uid v) (\<lambda>_. v) ds else ds @ [v])"

text \<open>An enrolled device claims the configuration of its user.\<close>

definition claim_client :: "device_enrollment \<Rightarrow> desired_client_config list \<Rightarrow> desired_client_config list" where
  "claim_client v cs =
     (if de_status v = Enrolled
      then update_first (\<lambda>c. dc_user_id c = de_user_id v)
             (\<lambda>c. c\<lparr>dc_client_uid := Some (de_client_uid v),
                    dc_name := (if dc_name c = [] \<and> de_name v \<noteq> [] then de_name v else dc_name c)\<rparr>) cs
      else cs)"

definition update_device_enrollment ::
    "env \<Rightarrow> string \<Rightarrow> device_patch \<Rightarrow> enrollment_status option \<Rightarrow> server_state \<Rightarrow>
     device_enrollment admin_reply" where
  "update_device_enrollment env client_uid p forced st =
     (let uid = normalize_client_uid client_uid (dp_user_id p);
          a = st_admin_state st;
          u = patched_user_id uid p a;
          v = patched_device env forced uid p a
      in if list_ex (\<lambda>w. de_client_uid w \<noteq> uid \<and> de_user_id w = u) (ad_devices a)
         then (st, Inl (BadRequest (''user_id '' @ show_word u @ '' is already assigned to another device'')))
         else case save_change env (\<lambda>a. a\<lparr>ad_devices := store_device v (ad_devices a),
                     ad_clients := claim_client v (ad_clients a)\<rparr>) v st of
                (st, Inl e) \<Rightarrow> (st, Inl e)
              | (st, Inr v) \<Rightarrow>
                  (if de_status v = Enrolled
                   then push_config_update u (apply_desired_to_live_session_if_any env u st)
                   else st, Inr v))"

definition approve_device :: "env \<Rightarrow> string \<Rightarrow> device_patch \<Rightarrow> server_state \<Rightarrow> device_enrollment admin_reply" where
  "approve_device env uid p = update_device_enrollment env uid p (Some Enrolled)"

definition reject_device :: "env \<Rightarrow> string \<Rightarrow> device_patch \<Rightarrow> server_state \<Rightarrow> device_enrollment admin_reply" where
  "reject_device env uid p = update_device_enrollment env uid p (Some Rejected)"

section \<open>Channels, presets and templates\<close>

definition put_channel :: "env \<Rightarrow> channel_id \<Rightarrow> string \<Rightarrow> server_state \<Rightarrow> channel_config admin_reply" where
  "put_channel env i name =
     (let c = \<lparr>ch_id = i, ch_name = name\<rparr>
      in save_change env (\<lambda>a. a\<lparr>ad_channels := upsert_by ch_id c (ad_channels a)\<rparr>) c)"

definition delete_channel :: "env \<Rightarrow> channel_id \<Rightarrow> server_state \<Rightarrow> unit admin_reply" where
  "delete_channel env i = save_change env
     (\<lambda>a. a\<lparr>ad_channels := filter (\<lambda>c. ch_id c \<noteq> i) (ad_channels a)\<rparr>) ()"

text \<open>The identifier is checked first, then the name.\<close>

definition with_config_id ::
    "string \<Rightarrow> string \<Rightarrow> (string \<Rightarrow> server_state \<Rightarrow> 'a admin_reply) \<Rightarrow> server_state \<Rightarrow> 'a admin_reply" where
  "with_config_id kind i f st =
     (case normalize_config_id i kind of Inl e \<Rightarrow> (st, Inl e) | Inr i \<Rightarrow> f i st)"

definition put_preset ::
    "env \<Rightarrow> string \<Rightarrow> string \<Rightarrow> desired_client_config list \<Rightarrow> server_state \<Rightarrow> preset_config admin_reply" where
  "put_preset env i name clients = with_config_id ''preset'' i (\<lambda>i st.
     (let p = \<lparr>pr_id = i, pr_name = trim name, pr_clients = normalize_preset_clients clients\<rparr>
      in if pr_name p = [] then (st, Inl (BadRequest ''preset name cannot be empty''))
         else save_change env (\<lambda>a. a\<lparr>ad_presets := upsert_preset (ad_presets a) p\<rparr>) p st))"

definition delete_preset :: "env \<Rightarrow> string \<Rightarrow> server_state \<Rightarrow> unit admin_reply" where
  "delete_preset env i = with_config_id ''preset'' i (\<lambda>i.
     save_change env (\<lambda>a. a\<lparr>ad_presets := filter (\<lambda>p. pr_id p \<noteq> i) (ad_presets a)\<rparr>) ())"

definition admin_apply_preset :: "env \<Rightarrow> string \<Rightarrow> server_state \<Rightarrow> unit admin_reply" where
  "admin_apply_preset env i = with_config_id ''preset'' i (\<lambda>i st.
     case find (\<lambda>p. pr_id p = i) (ad_presets (st_admin_state st)) of
       None \<Rightarrow> (st, Inl (BadRequest (''unknown preset `'' @ i @ ''`'')))
     | Some p \<Rightarrow>
         (case apply_preset env p st of
            (st, Some err) \<Rightarrow> (st, Inl (Internal err)) | (st, None) \<Rightarrow> (st, Inr ())))"

definition put_template ::
    "env \<Rightarrow> string \<Rightarrow> string \<Rightarrow> client_template_client_config \<Rightarrow> server_state \<Rightarrow>
     client_template_config admin_reply" where
  "put_template env i name client = with_config_id ''template'' i (\<lambda>i st.
     (let t = \<lparr>ct_id = i, ct_name = trim name, ct_client = normalize_template_client client\<rparr>
      in if ct_name t = [] then (st, Inl (BadRequest ''template name cannot be empty''))
         else save_change env (\<lambda>a. a\<lparr>ad_templates := upsert_template (ad_templates a) t\<rparr>) t st))"

definition delete_template :: "env \<Rightarrow> string \<Rightarrow> server_state \<Rightarrow> unit admin_reply" where
  "delete_template env i = with_config_id ''template'' i (\<lambda>i.
     save_change env (\<lambda>a. a\<lparr>ad_templates := filter (\<lambda>t. ct_id t \<noteq> i) (ad_templates a)\<rparr>) ())"

definition apply_template ::
    "env \<Rightarrow> string \<Rightarrow> user_id \<Rightarrow> server_state \<Rightarrow> desired_client_config admin_reply" where
  "apply_template env i u st =
     (case template_desired_for_user st i u of
        Inl e \<Rightarrow> (st, Inl e)
      | Inr d \<Rightarrow> reply_desired u d (upsert_admin_client env d st))"

section \<open>Calls, emergencies and alerts\<close>

definition admin_direct_call :: "env \<Rightarrow> user_id \<Rightarrow> user_id \<Rightarrow> bool \<Rightarrow> bool \<Rightarrow> server_state \<Rightarrow> unit admin_reply" where
  "admin_direct_call env caller target active duck st =
     reply_of_response (apply_direct_call_event env caller target active duck st)"

definition admin_emergency ::
    "env \<Rightarrow> user_id \<Rightarrow> bool \<Rightarrow> emergency_target \<Rightarrow> f32 \<Rightarrow> bool \<Rightarrow> server_state \<Rightarrow> unit admin_reply" where
  "admin_emergency env source active target duck_gain mute_others st =
     reply_of_response (apply_emergency_event env source active target duck_gain mute_others st)"

definition admin_send_alert ::
    "env \<Rightarrow> user_id \<Rightarrow> alert_target \<Rightarrow> string option \<Rightarrow> server_state \<Rightarrow> alert_status admin_reply" where
  "admin_send_alert env sender target message st =
     (case reply_of_response (apply_send_alert_event env sender target message st) of
        (st, Inl e) \<Rightarrow> (st, Inl e)
      | (st, Inr _) \<Rightarrow>
          (st, if st_alerts st = [] then Inl (Internal ''alert was not created'')
               else Inr (alert_status_with_sessions (last (st_alerts st)) (st_sessions st))))"

definition admin_cancel_alert :: "env \<Rightarrow> alert_id \<Rightarrow> user_id option \<Rightarrow> server_state \<Rightarrow> unit admin_reply" where
  "admin_cancel_alert env i u st =
     reply_of_response (apply_cancel_alert_event env
       (case u of None \<Rightarrow> server_user_id | Some u \<Rightarrow> u) i st)"

definition apply_tts_announcement_event ::
    "(nat \<Rightarrow> string \<Rightarrow> f32 \<Rightarrow> admin_api_error + i16 list list) \<Rightarrow> env \<Rightarrow> announcement_request \<Rightarrow>
     server_state \<Rightarrow> announcement_response admin_reply" where
  "apply_tts_announcement_event synth env rq =
     apply_announcement_event synth env (rq\<lparr>an_text_alert := True, an_tts := True\<rparr>)"

section \<open>Authorization\<close>

text \<open>\<open>String::from_utf8\<close>, to code points: overlong forms, surrogates and values above
  U+10FFFF are refused.\<close>

definition continuation :: "nat \<Rightarrow> bool" where
  "continuation b = (b div 64 = 2)"

fun utf8_decode :: "nat list \<Rightarrow> nat list option" where
  "utf8_decode [] = Some []"
| "utf8_decode (b # bs) =
     (if b < 128 then map_option ((#) b) (utf8_decode bs)
      else if 194 \<le> b \<and> b < 224
      then (case bs of
              c # rest \<Rightarrow>
                if continuation c
                then map_option ((#) ((b - 192) * 64 + (c - 128))) (utf8_decode rest) else None
            | _ \<Rightarrow> None)
      else if 224 \<le> b \<and> b < 240
      then (case bs of
              c # d # rest \<Rightarrow>
                (let code = (b - 224) * 4096 + (c - 128) * 64 + (d - 128)
                 in if continuation c \<and> continuation d \<and> 2048 \<le> code \<and> \<not> (55296 \<le> code \<and> code < 57344)
                    then map_option ((#) code) (utf8_decode rest) else None)
            | _ \<Rightarrow> None)
      else if 240 \<le> b \<and> b < 245
      then (case bs of
              c # d # e # rest \<Rightarrow>
                (let code = (b - 240) * 262144 + (c - 128) * 4096 + (d - 128) * 64 + (e - 128)
                 in if continuation c \<and> continuation d \<and> continuation e \<and> 65536 \<le> code \<and> code < 1114112
                    then map_option ((#) code) (utf8_decode rest) else None)
            | _ \<Rightarrow> None)
      else None)"

definition codes :: "string \<Rightarrow> nat list" where
  "codes = map of_char"

definition strip_prefix :: "string \<Rightarrow> string \<Rightarrow> string option" where
  "strip_prefix p s = (if take (length p) s = p then Some (drop (length p) s) else None)"

text \<open>The part after the first colon, if there is one.\<close>

definition after_colon :: "nat list \<Rightarrow> nat list option" where
  "after_colon cs =
     (case dropWhile (\<lambda>c. c \<noteq> of_char CHR '':'') cs of [] \<Rightarrow> None | _ # rest \<Rightarrow> Some rest)"

text \<open>\<open>base64\<close> decoding is a parameter; \<open>value\<close> is the header, if there is one and it is text.\<close>

definition authorization_matches ::
    "(string \<Rightarrow> nat list option) \<Rightarrow> string option \<Rightarrow> string \<Rightarrow> bool" where
  "authorization_matches base64 header_value token =
     (case header_value of
        None \<Rightarrow> False
      | Some v \<Rightarrow>
          strip_prefix ''Bearer '' v = Some token \<or>
          (case strip_prefix ''Basic '' v of
             None \<Rightarrow> False
           | Some encoded \<Rightarrow>
               (case base64 encoded of
                  None \<Rightarrow> False
                | Some bytes \<Rightarrow>
                    (case utf8_decode bytes of
                       None \<Rightarrow> False
                     | Some decoded \<Rightarrow> after_colon decoded = Some (codes token)))))"

record http_auth_config =
  ha_token :: "string option"
  ha_realm :: string

definition http_auth_token :: "string \<Rightarrow> string \<Rightarrow> http_auth_config" where
  "http_auth_token token realm =
     \<lparr>ha_token = (if token = [] then None else Some token), ha_realm = realm\<rparr>"

definition authorizes :: "(string \<Rightarrow> nat list option) \<Rightarrow> http_auth_config \<Rightarrow> string option \<Rightarrow> bool" where
  "authorizes base64 auth header_value =
     (case ha_token auth of None \<Rightarrow> True | Some token \<Rightarrow> authorization_matches base64 header_value token)"

lemma strip_prefix_iff: "strip_prefix p s = Some r \<longleftrightarrow> s = p @ r"
  by (auto simp: strip_prefix_def) (metis append_take_drop_id)

lemma after_colon_iff:
  "after_colon cs = Some rest \<longleftrightarrow>
     (\<exists>user. cs = user @ of_char CHR '':'' # rest \<and> of_char CHR '':'' \<notin> set user)"
proof
  let ?p = "\<lambda>c :: nat. c \<noteq> of_char CHR '':''"
  assume "after_colon cs = Some rest"
  then obtain c where d: "dropWhile ?p cs = c # rest"
    by (auto simp: after_colon_def split: list.splits)
  then have "c = of_char CHR '':''" using hd_dropWhile [of ?p cs] by auto
  with d have "cs = takeWhile ?p cs @ of_char CHR '':'' # rest"
    by (metis takeWhile_dropWhile_id)
  moreover have "of_char CHR '':'' \<notin> set (takeWhile ?p cs)" by (auto dest: set_takeWhileD)
  ultimately show "\<exists>user. cs = user @ of_char CHR '':'' # rest \<and> of_char CHR '':'' \<notin> set user" by blast
next
  assume "\<exists>user. cs = user @ of_char CHR '':'' # rest \<and> of_char CHR '':'' \<notin> set user"
  then obtain user where u: "cs = user @ of_char CHR '':'' # rest" "of_char CHR '':'' \<notin> set user" by blast
  from u(2) have "dropWhile (\<lambda>c. c \<noteq> of_char CHR '':'') user = []" by auto
  with u(1) show "after_colon cs = Some rest"
    by (simp add: after_colon_def dropWhile_append3)
qed

section \<open>What the handlers leave in order\<close>

definition stored_ok :: "persisted_admin_state \<Rightarrow> bool" where
  "stored_ok a =
     (sorted_wrt (<) (map ch_id (ad_channels a)) \<and> devices_ok (ad_devices a) \<and>
      sorted (map dc_user_id (ad_clients a)) \<and> presets_ok (ad_presets a) \<and>
      templates_ok (ad_templates a))"

lemma st_admin_save_change:
  "st_admin_state (fst (save_change env f r st)) = f (st_admin_state st)"
  by (simp add: save_change_def Let_def split: option.split)

lemma fst_reply_of_response [simp]: "fst (reply_of_response x) = fst x"
  by (simp add: reply_of_response_def split: prod.split)

lemma fst_reply_desired [simp]: "fst (reply_desired u d x) = fst x"
  by (simp add: reply_desired_def split: prod.split)

lemma devices_ok_enroll: "devices_ok ds \<Longrightarrow> devices_ok (enroll_desired_device now d ds)"
  by (simp add: enroll_desired_device_def Let_def device_list_norm.norm_ok split: option.split)

lemma stored_ok_store: "stored_ok a \<Longrightarrow> stored_ok (store_desired_client env d a)"
  by (simp add: stored_ok_def store_desired_client_def devices_ok_enroll upsert_desired_client_def)

lemma st_admin_apply_desired:
  "st_admin_state (fst (apply_desired_client env d st)) =
     store_desired_client env (clean_desired d) (st_admin_state st)"
  by (simp add: apply_desired_client_def Let_def apply_desired_to_live_session_def split: option.split)

lemma st_admin_apply_preset:
  "st_admin_state (fst (apply_preset env p st)) = (st_admin_state st)
     \<lparr>ad_clients := fold (\<lambda>d cs. upsert_desired_client cs d) (normalize_preset_clients (pr_clients p))
        (ad_clients (st_admin_state st))\<rparr>"
proof -
  have "st_admin_state (fold (\<lambda>d st. push_config_update (dc_user_id d)
      (apply_desired_to_live_session env d st)) ds x) = st_admin_state x" for ds x
    by (induction ds arbitrary: x) (simp_all add: apply_desired_to_live_session_def)
  then show ?thesis by (simp add: apply_preset_def Let_def split: option.split)
qed

lemma sorted_fold_upsert:
  "sorted (map dc_user_id cs) \<Longrightarrow> sorted (map dc_user_id (fold (\<lambda>d cs. upsert_desired_client cs d) ds cs))"
  by (induction ds arbitrary: cs) (simp_all add: upsert_desired_client_def)

lemma map_key_update: "(\<And>x. k (f x) = k x) \<Longrightarrow> map k (update_first p f xs) = map k xs"
  by (induction xs) simp_all

lemma sorted_claim: "map dc_user_id (claim_client v cs) = map dc_user_id cs"
  by (simp add: claim_client_def map_key_update)

lemma sorted_wrt_filter_map: "sorted_wrt (<) (map k xs) \<Longrightarrow> sorted_wrt (<) (map k (filter p xs))"
  by (induction xs) auto

lemma strict_upsert:
  "sorted_wrt (<) (map k xs) \<Longrightarrow> sorted_wrt (<) (map k (upsert_by k x xs))" for k :: "'a \<Rightarrow> 'k :: linorder"
  by (metis distinct_upsert_by sorted_upsert_by strict_sorted_iff)
lemma strict_iff_adjacent:
  "sorted (map k xs) \<and> successively (\<lambda>x y. k y \<noteq> k x) xs \<longleftrightarrow> sorted_wrt (<) (map k xs)"
  for k :: "'a \<Rightarrow> 'k :: linorder"
proof (induction xs rule: induct_list012)
  case (3 x y zs)
  then show ?case by auto
qed simp_all

lemma presets_ok_strict: "presets_ok ps \<longleftrightarrow> list_all preset_ok ps \<and> sorted_wrt (<) (map pr_id ps)"
  using strict_iff_adjacent [of pr_id ps] by (auto simp: presets_ok_def)

lemma templates_ok_strict: "templates_ok ts \<longleftrightarrow> list_all template_ok ts \<and> sorted_wrt (<) (map ct_id ts)"
  using strict_iff_adjacent [of ct_id ts] by (auto simp: templates_ok_def)

lemma normalize_config_id_ok: "normalize_config_id i kind = Inr j \<Longrightarrow> uid_ok j"
  by (auto simp: normalize_config_id_def Let_def uid_ok_def split: if_splits)

lemma presets_ok_upsert:
  "presets_ok ps \<Longrightarrow> preset_ok p \<Longrightarrow> presets_ok (upsert_preset ps p)"
  using set_upsert_by [of pr_id p ps]
  by (auto simp: presets_ok_strict upsert_preset_def strict_upsert list_all_iff)

lemma templates_ok_upsert:
  "templates_ok ts \<Longrightarrow> template_ok t \<Longrightarrow> templates_ok (upsert_template ts t)"
  using set_upsert_by [of ct_id t ts]
  by (auto simp: templates_ok_strict upsert_template_def strict_upsert list_all_iff)

lemma presets_ok_filter: "presets_ok ps \<Longrightarrow> presets_ok (filter p ps)"
  by (auto simp: presets_ok_strict list_all_iff sorted_wrt_filter_map)

lemma templates_ok_filter: "templates_ok ts \<Longrightarrow> templates_ok (filter p ts)"
  by (auto simp: templates_ok_strict list_all_iff sorted_wrt_filter_map)

text \<open>One entry per device. A file that was edited by hand may break this, and loading it does not
  restore it (the entries of one device under two user ids are not neighbours).\<close>

definition devices_unique :: "device_enrollment list \<Rightarrow> bool" where
  "devices_unique ds = (devices_ok ds \<and> distinct (map de_client_uid ds))"

lemma distinct_map_dedup: "distinct (map k xs) \<Longrightarrow> distinct (map k (dedup_by q xs))"
proof (induction q xs rule: dedup_by.induct)
  case (3 e x y xs)
  have "k ` set (dedup_by e (y # xs)) \<subseteq> k ` set (y # xs)" by (intro image_mono set_dedup_by)
  with 3 show ?case by auto
qed simp_all

lemma distinct_map_sort: "distinct (map k (sort_key g xs)) \<longleftrightarrow> distinct (map k xs)"
  by (simp add: distinct_map)

lemma devices_unique_normalize:
  assumes "distinct (map de_client_uid ds)" "list_all (\<lambda>v. uid_ok (de_client_uid v)) ds"
  shows "devices_unique (normalize_device_enrollments ds)"
proof -
  let ?kept = "filter device_kept ds"
  have uid: "de_client_uid (clean_device v) = de_client_uid v" if "v \<in> set ds" for v
    using assms(2) that by (simp add: list_all_iff clean_device_def uid_ok_fixed)
  have "map de_client_uid (map clean_device ?kept) = map de_client_uid ?kept"
    using uid by simp
  moreover have "distinct (map de_client_uid ?kept)" using assms(1) by (rule distinct_map_filter)
  ultimately have "distinct (map de_client_uid (map clean_device ?kept))" by (simp only:)
  then have "distinct (map de_client_uid (normalize_device_enrollments ds))"
    unfolding normalize_device_enrollments_def
    by (intro distinct_map_dedup) (simp only: distinct_map_sort)
  then show ?thesis by (simp add: devices_unique_def device_list_norm.norm_ok)
qed

lemma distinct_successively: "distinct (map k xs) \<Longrightarrow> successively (\<lambda>x y. k y \<noteq> k x) xs"
  by (induction xs rule: induct_list012) auto

lemma devices_unique_filter: "devices_unique ds \<Longrightarrow> devices_unique (filter p ds)"
proof -
  assume u: "devices_unique ds"
  then have d: "distinct (map de_client_uid (filter p ds))"
    by (simp add: devices_unique_def distinct_map_filter)
  then have "successively (\<lambda>x y. de_client_uid y \<noteq> de_client_uid x) (filter p ds)"
    by (rule distinct_successively)
  with u d show ?thesis
    by (auto simp: devices_unique_def devices_ok_def list_all_iff sorted_filter)
qed

lemma devices_unique_uids: "devices_unique ds \<Longrightarrow> list_all (\<lambda>v. uid_ok (de_client_uid v)) ds"
  by (auto simp: devices_unique_def devices_ok_def device_ok_def list_all_iff)

lemma devices_unique_update:
  "devices_unique ds \<Longrightarrow> (\<And>v. de_client_uid (f v) = de_client_uid v) \<Longrightarrow>
     devices_unique (normalize_device_enrollments (update_first p f ds))"
proof -
  assume u: "devices_unique ds" and f: "\<And>v. de_client_uid (f v) = de_client_uid v"
  have m: "map de_client_uid (update_first p f ds) = map de_client_uid ds"
    using f by (rule map_key_update)
  have all: "list_all (\<lambda>v. uid_ok (de_client_uid v)) ds \<longleftrightarrow> list_all uid_ok (map de_client_uid ds)" for ds
    by (induction ds) simp_all
  have "list_all (\<lambda>v. uid_ok (de_client_uid v)) (update_first p f ds)"
    using devices_unique_uids [OF u] unfolding all m .
  with u m show ?thesis
    by (intro devices_unique_normalize) (simp_all add: devices_unique_def)
qed

lemma devices_unique_add:
  "devices_unique ds \<Longrightarrow> uid_ok (de_client_uid v) \<Longrightarrow> de_client_uid v \<notin> de_client_uid ` set ds \<Longrightarrow>
     devices_unique (normalize_device_enrollments (ds @ [v]))"
  using devices_unique_uids [of ds] by (intro devices_unique_normalize) (auto simp: devices_unique_def)

text \<open>One request of the administrator that changes the stored state.\<close>

datatype admin_request =
    PutClient user_id desired_client_config
  | PatchClient user_id client_config_patch
  | DeleteClient user_id
  | PatchDevice string device_patch "enrollment_status option"
  | DeleteDevice string
  | PutChannel channel_id string
  | DeleteChannel channel_id
  | PutPreset string string "desired_client_config list"
  | DeletePreset string
  | UsePreset string
  | PutTemplate string string client_template_client_config
  | DeleteTemplate string
  | UseTemplate string user_id

fun admin_step :: "env \<times> admin_request \<Rightarrow> server_state \<Rightarrow> server_state" where
  "admin_step (env, PutClient u d) st = fst (put_client env u d st)"
| "admin_step (env, PatchClient u p) st = fst (patch_client env u p st)"
| "admin_step (env, DeleteClient u) st = fst (delete_client env u st)"
| "admin_step (env, PatchDevice uid p forced) st = fst (update_device_enrollment env uid p forced st)"
| "admin_step (env, DeleteDevice uid) st = fst (delete_device env uid st)"
| "admin_step (env, PutChannel i name) st = fst (put_channel env i name st)"
| "admin_step (env, DeleteChannel i) st = fst (delete_channel env i st)"
| "admin_step (env, PutPreset i name cs) st = fst (put_preset env i name cs st)"
| "admin_step (env, DeletePreset i) st = fst (delete_preset env i st)"
| "admin_step (env, UsePreset i) st = fst (admin_apply_preset env i st)"
| "admin_step (env, PutTemplate i name c) st = fst (put_template env i name c st)"
| "admin_step (env, DeleteTemplate i) st = fst (delete_template env i st)"
| "admin_step (env, UseTemplate i u) st = fst (apply_template env i u st)"
lemma stored_unique_store:
  assumes "devices_unique (ad_devices a)"
  shows "devices_unique (ad_devices (store_desired_client env d a))"
proof (cases "dc_client_uid d")
  case (Some i)
  let ?uid = "normalize_client_uid i (Some (dc_user_id d))"
  show ?thesis
  proof (cases "list_ex (\<lambda>v. de_client_uid v = ?uid) (ad_devices a)")
    case True
    then show ?thesis
      by (simp add: store_desired_client_def enroll_desired_device_def Some Let_def
          devices_unique_update [OF assms])
  next
    case False
    then have "?uid \<notin> de_client_uid ` set (ad_devices a)" by (auto simp: list_ex_iff)
    with False show ?thesis
      by (simp add: store_desired_client_def enroll_desired_device_def Some Let_def
          devices_unique_add [OF assms] new_device_def)
  qed
qed (simp add: store_desired_client_def enroll_desired_device_def assms)

lemma devices_unique_store_device:
  assumes "devices_unique ds" "uid_ok (de_client_uid v)"
  shows "devices_unique (store_device v ds)"
proof (cases "list_ex (\<lambda>w. de_client_uid w = de_client_uid v) ds")
  case True
  let ?u = "update_first (\<lambda>w. de_client_uid w = de_client_uid v) (\<lambda>_. v) ds"
  have m: "map de_client_uid ?u = map de_client_uid ds"
    by (induction ds) auto
  have "set ?u \<subseteq> insert v (set ds)"
    using set_update_first [of "\<lambda>w. de_client_uid w = de_client_uid v" "\<lambda>_. v" ds] by auto
  then have "list_all (\<lambda>v. uid_ok (de_client_uid v)) ?u"
    using devices_unique_uids [OF assms(1)] assms(2) by (auto simp: list_all_iff)
  then have "devices_unique (normalize_device_enrollments ?u)"
    using assms(1) by (intro devices_unique_normalize) (simp_all add: m devices_unique_def)
  with True show ?thesis by (simp add: store_device_def)
next
  case False
  then have "de_client_uid v \<notin> de_client_uid ` set ds" by (auto simp: list_ex_iff)
  with False show ?thesis by (simp add: store_device_def devices_unique_add [OF assms])
qed

definition stored_unique :: "persisted_admin_state \<Rightarrow> bool" where
  "stored_unique a =
     (sorted_wrt (<) (map ch_id (ad_channels a)) \<and> devices_unique (ad_devices a) \<and>
      sorted (map dc_user_id (ad_clients a)) \<and> presets_ok (ad_presets a) \<and>
      templates_ok (ad_templates a))"

lemma stored_unique_desired:
  "stored_unique (st_admin_state st) \<Longrightarrow> stored_unique (st_admin_state (fst (apply_desired_client env d st)))"
  using stored_unique_store [of "st_admin_state st" env "clean_desired d"]
  unfolding st_admin_apply_desired
  by (simp add: stored_unique_def store_desired_client_def upsert_desired_client_def)

lemma stored_unique_preset:
  "stored_unique (st_admin_state st) \<Longrightarrow> stored_unique (st_admin_state (fst (apply_preset env p st)))"
  unfolding st_admin_apply_preset by (simp add: stored_unique_def sorted_fold_upsert)

lemma preset_ok_new:
  "normalize_config_id i k = Inr j \<Longrightarrow>
     preset_ok \<lparr>pr_id = j, pr_name = trim n, pr_clients = normalize_preset_clients cs\<rparr>"
  by (simp add: preset_ok_def normalize_config_id_ok preset_clients_norm.norm_ok)

lemma template_ok_new:
  "normalize_config_id i k = Inr j \<Longrightarrow>
     template_ok \<lparr>ct_id = j, ct_name = trim n, ct_client = normalize_template_client c\<rparr>"
  by (simp add: template_ok_def normalize_config_id_ok template_norm.norm_ok)

lemma uid_patched: "uid_ok uid \<Longrightarrow> uid_ok (de_client_uid (patched_device env forced uid p a))"
  by (auto simp: patched_device_def Let_def patch_device_def new_device_def dest: find_eq_Some
      split: option.split)

lemma stored_unique_device:
  assumes "stored_unique (st_admin_state st)"
  shows "stored_unique (st_admin_state (fst (update_device_enrollment env i p forced st)))"
proof -
  let ?uid = "normalize_client_uid i (dp_user_id p)" and ?a = "st_admin_state st"
  let ?u = "patched_user_id ?uid p ?a" and ?v = "patched_device env forced ?uid p ?a"
  let ?save = "save_change env (\<lambda>a. a\<lparr>ad_devices := store_device ?v (ad_devices a),
      ad_clients := claim_client ?v (ad_clients a)\<rparr>) ?v st"
  have saved: "stored_unique (st_admin_state (fst ?save))"
    using assms devices_unique_store_device [of "ad_devices ?a" ?v] uid_patched [of ?uid]
    by (simp add: st_admin_save_change stored_unique_def sorted_claim)
  have live: "st_admin_state (apply_desired_to_live_session_if_any env u x) = st_admin_state x" for u x
    by (simp add: apply_desired_to_live_session_if_any_def apply_desired_to_live_session_def split: option.split)
  show ?thesis
  proof (cases "list_ex (\<lambda>w. de_client_uid w \<noteq> ?uid \<and> de_user_id w = ?u) (ad_devices ?a)")
    case True
    with assms show ?thesis by (simp add: update_device_enrollment_def Let_def)
  next
    case False
    obtain st' r where s: "?save = (st', r)" by fastforce
    with saved have "stored_unique (st_admin_state st')" by simp
    with False show ?thesis
      by (cases r) (simp_all add: update_device_enrollment_def Let_def s live)
  qed
qed

lemma admin_step_stored_unique:
  assumes "stored_unique (st_admin_state st)"
  shows "stored_unique (st_admin_state (admin_step (env, rq) st))"
proof (cases rq)
  case (UseTemplate i u)
  with assms show ?thesis
    by (simp add: apply_template_def upsert_admin_client_def stored_unique_desired split: sum.split)
next
  case (UsePreset i)
  have "stored_unique (st_admin_state (fst (admin_apply_preset env i st)))"
    using assms stored_unique_preset [OF assms, of env]
    by (auto simp: admin_apply_preset_def with_config_id_def split: sum.split option.split prod.split)
      (metis fst_conv)+
  with UsePreset show ?thesis by simp
next
  case (PutPreset i n cs)
  with assms show ?thesis
    by (auto simp: put_preset_def with_config_id_def Let_def st_admin_save_change stored_unique_def
        presets_ok_upsert preset_ok_new split: sum.split)
next
  case (PutTemplate i n c)
  with assms show ?thesis
    by (auto simp: put_template_def with_config_id_def Let_def st_admin_save_change stored_unique_def
        templates_ok_upsert template_ok_new split: sum.split)
next
  case (PutChannel i n)
  with assms show ?thesis
    by (simp add: put_channel_def Let_def st_admin_save_change stored_unique_def strict_upsert)
next
  case (DeleteDevice i)
  have "dc_user_id \<circ> (\<lambda>c :: desired_client_config. if dc_client_uid c = Some (trim i) then c\<lparr>dc_client_uid := None\<rparr> else c) = dc_user_id"
    by auto
  with DeleteDevice assms show ?thesis
    by (simp add: delete_device_def Let_def st_admin_save_change stored_unique_def devices_unique_filter)
qed (use assms in \<open>simp_all add: put_client_def patch_client_def upsert_admin_client_def Let_def
    stored_unique_desired stored_unique_device\<close>,
  use assms in \<open>auto simp: delete_client_def delete_channel_def delete_preset_def delete_template_def
    with_config_id_def st_admin_save_change stored_unique_def sorted_filter sorted_wrt_filter_map
    presets_ok_filter templates_ok_filter split: sum.split\<close>)

interpretation admin: step_machine admin_step "\<lambda>_. True" "\<lambda>st. stored_unique (st_admin_state st)"
proof
  fix e :: "env \<times> admin_request" and st :: server_state
  assume "stored_unique (st_admin_state st)"
  then show "stored_unique (st_admin_state (admin_step e st))"
    by (cases e) (simp only: admin_step_stored_unique)
qed

section \<open>Properties\<close>

text \<open>C16. Whatever requests the administrator makes, the stored state stays in order: channels,
  presets and templates have unique ids and are sorted, presets and templates are in normal
  form, every device has one entry, in normal form, and the client configurations are sorted
  by user.\<close>

theorem admin_requests_keep_order:
  assumes "stored_unique (st_admin_state st)"
  shows "let a = st_admin_state (fold admin_step rqs st) in
     sorted_wrt (<) (map ch_id (ad_channels a)) \<and>
     sorted_wrt (<) (map pr_id (ad_presets a)) \<and> presets_ok (ad_presets a) \<and>
     sorted_wrt (<) (map ct_id (ad_templates a)) \<and> templates_ok (ad_templates a) \<and>
     distinct (map de_client_uid (ad_devices a)) \<and> devices_ok (ad_devices a) \<and>
     sorted (map dc_user_id (ad_clients a))"
proof -
  have "stored_unique (st_admin_state (fold admin_step rqs st))"
    by (rule admin.run_inv [OF _ assms]) (simp add: list_all_iff)
  then show ?thesis
    by (simp add: stored_unique_def presets_ok_strict templates_ok_strict devices_unique_def Let_def)
qed

definition empty_admin_state :: persisted_admin_state where
  "empty_admin_state =
     \<lparr>ad_channels = [], ad_devices = [], ad_clients = [], ad_presets = [], ad_templates = []\<rparr>"

theorem admin_requests_keep_order_witness:
  "let a = st_admin_state (fold admin_step
       [(sample_env, PutChannel 7 ''stage''), (sample_env, PutChannel 3 ''crew''),
        (sample_env, PatchDevice ''pi-1'' \<lparr>dp_user_id = Some 5, dp_name = None, dp_status = None\<rparr> None),
        (sample_env, PutPreset ''show'' ''Show'' []), (sample_env, DeleteChannel 7)]
       (server_state_new empty_admin_state PolicyApproval)) in
     sorted_wrt (<) (map ch_id (ad_channels a)) \<and>
     sorted_wrt (<) (map pr_id (ad_presets a)) \<and> presets_ok (ad_presets a) \<and>
     sorted_wrt (<) (map ct_id (ad_templates a)) \<and> templates_ok (ad_templates a) \<and>
     distinct (map de_client_uid (ad_devices a)) \<and> devices_ok (ad_devices a) \<and>
     sorted (map dc_user_id (ad_clients a))"
  by (rule admin_requests_keep_order)
    (simp add: stored_unique_def empty_admin_state_def server_state_new_def devices_unique_def
      devices_ok_def presets_ok_def templates_ok_def)

text \<open>The administrator's interface lets a request in exactly when authentication is off or
  its \<open>Authorization\<close> header is \<open>Bearer\<close> with the token, or \<open>Basic\<close> with a base64 text that
  decodes to UTF-8 of some user name without a colon, a colon and the token; whatever the
  base64 library answers for other texts.\<close>

lemma http_auth_accepts:
  "authorizes base64 (http_auth_token token realm) header_value =
     (token = [] \<or>
      header_value = Some (''Bearer '' @ token) \<or>
      (\<exists>encoded bytes user.
         header_value = Some (''Basic '' @ encoded) \<and> base64 encoded = Some bytes \<and>
         utf8_decode bytes = Some (user @ of_char CHR '':'' # codes token) \<and>
         of_char CHR '':'' \<in> - set user))"
proof (cases "token = [] \<or> header_value = None")
  case True
  then show ?thesis by (auto simp: authorizes_def http_auth_token_def authorization_matches_def)
next
  case False
  then obtain v where v: "header_value = Some v" and t: "token \<noteq> []" by auto
  have "authorizes base64 (http_auth_token token realm) header_value \<longleftrightarrow>
      strip_prefix ''Bearer '' v = Some token \<or>
      (\<exists>encoded bytes decoded. strip_prefix ''Basic '' v = Some encoded \<and> base64 encoded = Some bytes \<and>
         utf8_decode bytes = Some decoded \<and> after_colon decoded = Some (codes token))"
    by (simp add: authorizes_def http_auth_token_def t v authorization_matches_def split: option.split)
  also have "\<dots> \<longleftrightarrow> v = ''Bearer '' @ token \<or>
      (\<exists>encoded bytes user. v = ''Basic '' @ encoded \<and> base64 encoded = Some bytes \<and>
         utf8_decode bytes = Some (user @ of_char CHR '':'' # codes token) \<and>
         of_char CHR '':'' \<in> - set user)"
    unfolding strip_prefix_iff after_colon_iff by (auto simp del: append.simps)
  finally show ?thesis by (simp add: v t)
qed

section \<open>A rejected device that is connected\<close>

text \<open>Rejecting a device changes its entry, not the session of a client that is connected: its
  audio is still accepted.\<close>

lemma rejected_device_keeps_its_session:
  "st_sessions (fst (reject_device env uid p st)) = st_sessions st"
proof -
  let ?uid = "normalize_client_uid uid (dp_user_id p)"
  let ?v = "patched_device env (Some Rejected) ?uid p (st_admin_state st)"
  let ?f = "\<lambda>a. a\<lparr>ad_devices := store_device ?v (ad_devices a), ad_clients := claim_client ?v (ad_clients a)\<rparr>"
  obtain st' r where s: "save_change env ?f ?v st = (st', r)" by fastforce
  then have same: "st_sessions st' = st_sessions st" and r: "r = Inr w \<Longrightarrow> w = ?v" for w
    by (auto simp: save_change_def Let_def split: option.splits)
  have "de_status ?v = Rejected"
    by (simp add: patched_device_def Let_def patch_device_def new_device_def patched_status_def
        split: option.split)
  with r have "de_status w \<noteq> Enrolled" if "r = Inr w" for w using that by simp
  then show ?thesis
    by (cases r) (simp_all add: reject_device_def update_device_enrollment_def Let_def s same)
qed

end
