(* ===== verification/Server_Run.thy ===== *)
theory Server_Run
  imports Mixer Admin_Api
begin

text \<open>
  The running server: control connections, received datagrams, mixer ticks, announcements and
  the administrator's requests interleaved in any order on one state. The invariants of the components hold
  together in every reachable state. Each event brings its own environment and its own
  behaviour of the external libraries, so these may keep state between events.
\<close>

record server_libs =
  sl_receive :: codec_libs
  sl_process :: processor
  sl_send :: "user_id \<Rightarrow> codec_libs"
  sl_log10 :: "f32 \<Rightarrow> f32"
  sl_socket :: "socket_addr \<Rightarrow> u8 list \<Rightarrow> bool"
  sl_speech :: "nat \<Rightarrow> string \<Rightarrow> f32 \<Rightarrow> admin_api_error + i16 list list"

datatype server_event =
    ControlEvent connection_event
  | Datagram socket_addr "u8 list"
  | MixerTick
  | Announce announcement_request
  | AdminEvent admin_request

fun server_step :: "server_libs \<times> env \<times> server_event \<Rightarrow> server \<Rightarrow> server" where
  "server_step (libs, env, ControlEvent ev) s = connection_step (env, ev) s"
| "server_step (libs, env, Datagram from bytes) (st, conns) =
     (receive_audio (sl_receive libs) (sl_process libs) env from bytes st, conns)"
| "server_step (libs, env, MixerTick) (st, conns) =
     (snd (mixer_tick (sl_send libs) (sl_log10 libs) (sl_socket libs) env st), conns)"
| "server_step (libs, env, Announce rq) (st, conns) =
     (fst (apply_announcement_event (sl_speech libs) env rq st), conns)"
| "server_step (libs, env, AdminEvent rq) (st, conns) = (admin_step (env, rq) st, conns)"

definition supported_datagram :: "u8 list \<Rightarrow> bool" where
  "supported_datagram bytes =
     (case packet_decode (take max_packet_bytes bytes) of Inl _ \<Rightarrow> True | Inr p \<Rightarrow> codec_supported (pkt_codec p))"

fun supported_event :: "server_libs \<times> env \<times> server_event \<Rightarrow> bool" where
  "supported_event (libs, env, Datagram from bytes) = supported_datagram bytes"
| "supported_event _ = True"

definition server_ok :: "codec set \<Rightarrow> server \<Rightarrow> bool" where
  "server_ok lax = (\<lambda>(st, conns). sessions_ok_but lax st \<and> hm_wf (st_sources st) \<and> queues_ok st \<and>
     stored_unique (st_admin_state st))"

section \<open>Control messages leave the audio queues alone\<close>

definition audio_state where
  "audio_state st = (st_sources st, st_virtual_sources st, st_output_seq st)"

lemma audio_state_updates [simp]:
  "audio_state (st\<lparr>st_sessions := a\<rparr>) = audio_state st"
  "audio_state (st\<lparr>st_control_clients := b\<rparr>) = audio_state st"
  "audio_state (st\<lparr>st_health := c\<rparr>) = audio_state st"
  "audio_state (st\<lparr>st_alerts := d\<rparr>) = audio_state st"
  "audio_state (st\<lparr>st_emergency := e\<rparr>) = audio_state st"
  "audio_state (st\<lparr>st_transcription := f\<rparr>) = audio_state st"
  "audio_state (st\<lparr>st_next_alert_id := g\<rparr>) = audio_state st"
  "audio_state (st\<lparr>st_admin_state := h\<rparr>) = audio_state st"
  "audio_state (st\<lparr>st_open_connections := i\<rparr>) = audio_state st"
  "audio_state (st\<lparr>st_delivered := j\<rparr>) = audio_state st"
  by (simp_all add: audio_state_def)

lemma audio_state_primitives [simp]:
  "audio_state (push_config_update u st) = audio_state st"
  "audio_state (push_config_updates us st) = audio_state st"
  "audio_state (with_session env u k st) = audio_state st"
  "audio_state (modify_session u k st) = audio_state st"
  "audio_state (with_health env u h st) = audio_state st"
  "audio_state (count_metric m st) = audio_state st"
  "audio_state (register_control_client u c st) = audio_state st"
  "audio_state (unregister_control_client u c st) = audio_state st"
  by (simp_all add: audio_state_def register_control_client_def unregister_control_client_def)

lemma audio_state_folds [simp]:
  "audio_state (apply_desired_to_live_session env d st) = audio_state st"
  "audio_state (fold (\<lambda>d st. push_config_update (p d) (apply_desired_to_live_session env d st)) ds st) =
     audio_state st"
proof -
  show live: "audio_state (apply_desired_to_live_session env d st) = audio_state st" for d st
    by (simp add: apply_desired_to_live_session_def)
  show "audio_state (fold (\<lambda>d st. push_config_update (p d) (apply_desired_to_live_session env d st)) ds st) =
     audio_state st"
    by (induction ds arbitrary: st) (simp_all add: live)
qed

lemma audio_state_desired [simp]:
  "audio_state (fst (apply_desired_client env d st)) = audio_state st"
  "audio_state (fst (edit_desired env u f st)) = audio_state st"
  "audio_state (fst (apply_preset env p st)) = audio_state st"
  by (simp_all add: apply_desired_client_def edit_desired_def apply_preset_def Let_def
      split: option.split)

lemma audio_state_named_preset [simp]: "audio_state (fst (apply_named_preset env i st)) = audio_state st"
proof (cases "find (\<lambda>p. pr_id p = i) (ad_presets (st_admin_state st))")
  case (Some p)
  obtain st' m where p: "apply_preset env p st = (st', m)" by fastforce
  then have "audio_state st' = audio_state st" by (metis audio_state_desired(3) fst_conv)
  then show ?thesis by (cases m) (simp_all add: apply_named_preset_def Some p)
qed (simp add: apply_named_preset_def)

lemma audio_state_calls [simp]:
  "audio_state (fst (apply_direct_call_event env u t active duck st)) = audio_state st"
  "audio_state (fst (apply_reply_call_event env u active duck st)) = audio_state st"
  "audio_state (start_button_transmit_routes env u button st) = audio_state st"
  "audio_state (stop_button_transmit_routes env u button st) = audio_state st"
  "audio_state (clear_active_buttons env u st) = audio_state st"
  "audio_state (fst (apply_emergency_event env u active g mute k st)) = audio_state st"
  "audio_state (clear_emergency_for_source env u st) = audio_state st"
  by (simp_all add: apply_direct_call_event_def apply_reply_call_event_def Let_def
      start_button_transmit_routes_def stop_button_transmit_routes_def clear_active_buttons_def
      apply_emergency_event_def clear_emergency_for_source_def split: option.split prod.split)

lemma audio_state_alerts [simp]:
  "audio_state (fst (create_runtime_alert env u t m rs st)) = audio_state st"
  "audio_state (fst (apply_send_alert_event env u t m st)) = audio_state st"
  "audio_state (fst (apply_ack_alert_event env u i st)) = audio_state st"
  "audio_state (fst (apply_cancel_alert_event env u i st)) = audio_state st"
  by (simp_all add: apply_send_alert_event_def create_runtime_alert_def apply_ack_alert_event_def
      apply_cancel_alert_event_def Let_def split: option.split)

lemma audio_state_requests:
  "f \<in> set (action_requests env u a) \<Longrightarrow> audio_state (fst (f st)) = audio_state st"
  by (cases a) auto

lemma audio_state_run:
  "(\<And>f st. f \<in> set fs \<Longrightarrow> audio_state (fst (f st)) = audio_state st) \<Longrightarrow>
     audio_state (fst (run_until_error fs st)) = audio_state st"
proof (induction fs arbitrary: st)
  case (Cons f fs)
  obtain st' r where f: "f st = (st', r)" by fastforce
  with Cons.prems [of f st] have s: "audio_state st' = audio_state st" by simp
  from Cons.IH [of st'] Cons.prems have "audio_state (fst (run_until_error fs st')) = audio_state st'" by simp
  with s f show ?case by (cases r) simp_all
qed simp

lemma audio_state_activate [simp]: "audio_state (fst (activate_button env u button st)) = audio_state st"
proof -
  have "audio_state (fst (execute_button_activation_actions env u button
      (start_button_transmit_routes env u button st))) = audio_state st"
    unfolding execute_button_activation_actions_def
    by (subst audio_state_run) (auto simp: audio_state_requests)
  then show ?thesis by (auto simp: activate_button_def split: prod.splits control_response.splits)
qed

lemma audio_state_button [simp]: "audio_state (fst (apply_button_event env u b pressed st)) = audio_state st"
  by (simp add: apply_button_event_def Let_def split: option.split)

lemma audio_state_enroll [simp]:
  "audio_state (fst (resolve_client_enrollment env uid r role st)) = audio_state st"
  "audio_state (fst (persist_client_advertisement env i codecs bs caps st)) = audio_state st"
  by (simp_all add: resolve_client_enrollment_def enroll_known_device_def enroll_preconfigured_def
      enroll_new_device_def enroll_with_def persist_client_advertisement_def Let_def
      split: option.splits)

lemma audio_state_hello [simp]: "audio_state (fst (apply_hello env u hr st)) = audio_state st"
proof -
  let ?req = "case hr_requested_user_id hr of Some r \<Rightarrow> Some r | None \<Rightarrow> if u > 0 then Some u else None"
  obtain st' r where r: "resolve_client_enrollment env (hr_client_uid hr) ?req (hr_role hr) st = (st', r)"
    by fastforce
  then have "audio_state st' = audio_state st" by (metis audio_state_enroll(1) fst_conv)
  then show ?thesis by (cases r) (simp_all add: apply_hello_def Let_def r)
qed

lemma audio_state_guarded:
  "(\<And>st. audio_state (fst (f st)) = audio_state st) \<Longrightarrow>
     audio_state (fst (guarded allowed label u f st)) = audio_state st"
  by (simp add: guarded_def split: option.split)

lemma audio_state_control: "audio_state (fst (apply_control env m st)) = audio_state st"
  by (cases m)
    (simp_all add: audio_state_guarded apply_config_def apply_audio_codec_def apply_talk_mode_def
      apply_priority_def apply_button_def record_capture_health_def record_bridge_status_def
      apply_regular_talk_event_def Let_def split: option.split)

lemma audio_state_connection:
  "audio_state (fst (connection_step (env, ev) (st, conns))) = audio_state st"
proof -
  have frame: "audio_state (snd (fst (handle_control_text env c f (reg, st)))) = audio_state st"
    for c f reg
  proof (cases f)
    case (Inr m)
    have reg: "audio_state (snd (register_hello c resp (r, x))) = audio_state x" for resp r x
      by (simp add: register_hello_def Let_def split: control_response.split enrollment_status.split
          option.split)
    obtain st' resp where m: "apply_control env m (count_control_message st) = (st', resp)" by fastforce
    moreover have "audio_state (count_control_message st) = audio_state st"
      by (simp add: count_control_message_def)
    ultimately have "audio_state st' = audio_state st" by (metis audio_state_control fst_conv)
    then show ?thesis unfolding handle_control_text_def Inr Let_def prod.case sum.case m by (simp add: reg)
  qed (simp add: handle_control_text_def count_control_message_def)
  have close: "audio_state (close_control_connection env c (reg, st)) = audio_state st" for c reg
    by (cases reg) (simp_all add: close_control_connection_def Let_def)
  show ?thesis
  proof (cases ev)
    case (Text c f)
    show ?thesis
    proof (cases "hm_get conns c")
      case (Some reg)
      obtain reg' st' r where h: "handle_control_text env c f (reg, st) = ((reg', st'), r)"
        by (metis prod.exhaust)
      with frame [of c f reg] show ?thesis by (simp add: Text Some)
    qed (simp add: Text)
  qed (simp_all add: close split: option.split)
qed

section \<open>The sources\<close>

definition sources_ok :: "server_state \<Rightarrow> bool" where
  "sources_ok st = (hm_wf (st_sources st) \<and> queues_ok st)"

lemma sources_ok_same: "st_sources st' = st_sources st \<Longrightarrow> sources_ok st' = sources_ok st"
  by (simp add: sources_ok_def queues_ok_def)

lemma sources_ok_audio_state: "audio_state st' = audio_state st \<Longrightarrow> sources_ok st' = sources_ok st"
  by (rule sources_ok_same) (simp add: audio_state_def)

lemma source_wf_queue:
  "queues_ok st \<Longrightarrow>
     source_wf (case hm_get (st_sources st) u of Some q \<Rightarrow> q | None \<Rightarrow> source_queue_new now)"
  by (auto simp: queues_ok_def list_all_iff source_wf_def source_queue_new_def
      split: option.splits dest: map_of_SomeD)

lemma set_hm_insert: "x \<in> set (hm_insert k v xs) \<Longrightarrow> x = (k, v) \<or> x \<in> set xs"
  by (induction xs) (auto split: if_splits)

lemma queues_ok_insert:
  assumes "list_all (\<lambda>(u, q). source_wf q) qs" and "source_wf q"
  shows "list_all (\<lambda>(u, q). source_wf q) (hm_insert u q qs)"
proof -
  have "case x of (u, q) \<Rightarrow> source_wf q" if "x \<in> set (hm_insert u q qs)" for x
    using set_hm_insert [OF that] assms by (auto simp: list_all_iff)
  then show ?thesis by (simp add: list_all_iff)
qed

lemma sources_ok_store:
  assumes "sources_ok st"
  shows "sources_ok (store_source_frame env u target samples st)"
proof -
  let ?q = "case hm_get (st_sources st) u of Some q \<Rightarrow> q | None \<Rightarrow> source_queue_new (env_now env)"
  let ?q' = "fst (source_push (env_now env) target samples ?q)"
  have "source_wf ?q'"
    unfolding source_push_def by (rule push_one(2), rule source_wf_queue)
      (use assms in \<open>simp add: sources_ok_def\<close>)
  then have ins: "sources_ok (st\<lparr>st_sources := hm_insert u ?q' (st_sources st)\<rparr>)"
    using assms by (simp add: sources_ok_def queues_ok_def queues_ok_insert hm_wf_insert)
  have "st_sources (store_source_frame env u target samples st) =
      st_sources (st\<lparr>st_sources := hm_insert u ?q' (st_sources st)\<rparr>)"
    by (simp add: store_source_frame_def store_source_frame_with_options_def Let_def
        record_source_drop_def split: prod.split)
  with ins show ?thesis using sources_ok_same by blast
qed

lemma sources_ok_receive:
  assumes "sources_ok st"
  shows "sources_ok (receive_audio libs process env a bytes st)"
proof -
  have ingest: "sources_ok (ingest_samples libs process env a p samples st')"
    if "st_sources st' = st_sources st" for p samples st'
  proof -
    let ?reg = "register_audio_source env (pkt_user_id p) (pkt_target p) (pkt_codec p) a st'"
    obtain ps out where pr: "process (pkt_user_id p) (pkt_codec p)
        (processing_config_for_user ?reg (pkt_user_id p)) samples = (ps, out)" by fastforce
    show ?thesis
      unfolding ingest_samples_def Let_def pr prod.case
      by (intro sources_ok_store) (use assms that in \<open>simp add: sources_ok_def queues_ok_def\<close>)
  qed
  have same: "st_sources x = st_sources st \<Longrightarrow> sources_ok x" for x
    using assms by (simp add: sources_ok_def queues_ok_def)
  show ?thesis
  proof (cases "packet_decode (take max_packet_bytes bytes)")
    case (Inl e)
    then show ?thesis by (simp add: receive_audio_def, intro same) simp
  next
    case (Inr p)
    show ?thesis
      unfolding receive_audio_def Inr sum.case Let_def
      by (auto intro!: same ingest split: sum.split)
  qed
qed

lemma sources_ok_pop:
  "hm_wf qs \<Longrightarrow> list_all (\<lambda>(u, q). source_wf q) qs \<Longrightarrow>
     hm_wf (snd (pop_sources (expire_sources env qs))) \<and>
     list_all (\<lambda>(u, q). source_wf q) (snd (pop_sources (expire_sources env qs)))"
proof -
  assume ok: "hm_wf qs" "list_all (\<lambda>(u, q). source_wf q) qs"
  have keys: "map fst (snd (pop_sources xs)) = map fst xs" for xs
    by (induction xs rule: pop_sources.induct) (auto split: prod.split)
  have "source_pop q = (f, q') \<Longrightarrow> source_wf q \<Longrightarrow> source_wf q'" for q f q'
    by (auto simp: source_pop_def source_wf_def split: list.splits)
  then have wf: "list_all (\<lambda>(u, q). source_wf q) xs \<Longrightarrow>
      list_all (\<lambda>(u, q). source_wf q) (snd (pop_sources xs))" for xs
    by (induction xs rule: pop_sources.induct) (auto split: prod.split)
  have "hm_wf (expire_sources env qs)"
    using ok(1) by (auto simp: hm_wf_def expire_sources_def distinct_map_filter)
  moreover have "list_all (\<lambda>(u, q). source_wf q) (expire_sources env qs)"
    using ok(2) by (simp add: expire_sources_def list_all_iff)
  ultimately show ?thesis by (simp add: hm_wf_def keys wf)
qed

lemma sources_send_mixes:
  "st_sources (snd (send_mixes libs sent env outs st)) = st_sources st"
proof (induction outs arbitrary: st)
  case (Cons out outs)
  obtain first st1 where s: "send_mix libs sent env out st = (first, st1)" by fastforce
  obtain rest st2 where r: "send_mixes libs sent env outs st1 = (rest, st2)" by fastforce
  obtain seq st0 where n: "next_output_seq (mo_user_id out) st = (seq, st0)" by fastforce
  from s have "st_sources st1 = st_sources st"
    using next_output_seq_facts [OF n]
    by (auto simp: send_mix_def n Let_def split: sum.splits if_splits)
  with Cons.IH [of st1] r show ?case by (simp add: s)
qed simp

lemma sources_ok_tick:
  assumes "sources_ok st" shows "sources_ok (snd (mixer_tick libs log10 sent env st))"
proof -
  have "st_sources (snd (mixer_tick libs log10 sent env st)) =
      snd (pop_sources (expire_sources env (st_sources st)))"
    by (simp add: mixer_tick_def sources_send_mixes split: prod.split)
      (metis build_mixes_sources snd_conv take_source_frames_sources)
  with assms show ?thesis
    using sources_ok_pop [of "st_sources st" env] by (simp add: sources_ok_def queues_ok_def)
qed

section \<open>The stored state under control messages\<close>

abbreviation stored_ok_in :: "server_state \<Rightarrow> bool" where
  "stored_ok_in st \<equiv> stored_unique (st_admin_state st)"

lemma stored_calls [simp]:
  "st_admin_state (fst (apply_direct_call_event env u t active duck st)) = st_admin_state st"
  "st_admin_state (fst (apply_reply_call_event env u active duck st)) = st_admin_state st"
  "st_admin_state (start_button_transmit_routes env u button st) = st_admin_state st"
  "st_admin_state (stop_button_transmit_routes env u button st) = st_admin_state st"
  "st_admin_state (clear_active_buttons env u st) = st_admin_state st"
  "st_admin_state (fst (apply_emergency_event env u active g mute k st)) = st_admin_state st"
  "st_admin_state (clear_emergency_for_source env u st) = st_admin_state st"
  by (simp_all add: apply_direct_call_event_def apply_reply_call_event_def Let_def
      start_button_transmit_routes_def stop_button_transmit_routes_def clear_active_buttons_def
      apply_emergency_event_def clear_emergency_for_source_def split: option.split prod.split)

lemma stored_alerts [simp]:
  "st_admin_state (fst (create_runtime_alert env u t m rs st)) = st_admin_state st"
  "st_admin_state (fst (apply_send_alert_event env u t m st)) = st_admin_state st"
  "st_admin_state (fst (apply_ack_alert_event env u i st)) = st_admin_state st"
  "st_admin_state (fst (apply_cancel_alert_event env u i st)) = st_admin_state st"
  by (simp_all add: apply_send_alert_event_def create_runtime_alert_def apply_ack_alert_event_def
      apply_cancel_alert_event_def Let_def split: option.split)

lemma stored_edit: "stored_ok_in st \<Longrightarrow> stored_ok_in (fst (edit_desired env u f st))"
  by (simp add: edit_desired_def stored_unique_desired)

lemma stored_named_preset: "stored_ok_in st \<Longrightarrow> stored_ok_in (fst (apply_named_preset env i st))"
proof (cases "find (\<lambda>p. pr_id p = i) (ad_presets (st_admin_state st))")
  case (Some p)
  assume ok: "stored_ok_in st"
  obtain st' m where p: "apply_preset env p st = (st', m)" by fastforce
  then have "stored_ok_in st'" using stored_unique_preset [OF ok] by (metis fst_conv)
  then show ?thesis by (cases m) (simp_all add: apply_named_preset_def Some p)
qed (simp add: apply_named_preset_def)

lemma stored_requests:
  "f \<in> set (action_requests env u a) \<Longrightarrow> stored_ok_in st \<Longrightarrow> stored_ok_in (fst (f st))"
  by (cases a) (auto simp: stored_edit stored_named_preset)

lemma stored_run:
  "(\<And>f st. f \<in> set fs \<Longrightarrow> stored_ok_in st \<Longrightarrow> stored_ok_in (fst (f st))) \<Longrightarrow> stored_ok_in st \<Longrightarrow>
     stored_ok_in (fst (run_until_error fs st))"
proof (induction fs arbitrary: st)
  case (Cons f fs)
  then have ok: "stored_ok_in (fst (f st))" by simp
  obtain st' r where f: "f st = (st', r)" by fastforce
  from Cons.IH [of st'] Cons.prems(1) ok f have "stored_ok_in (fst (run_until_error fs st'))" by simp
  with ok f show ?case by (cases r) simp_all
qed simp

lemma stored_activate:
  assumes "stored_ok_in st" shows "stored_ok_in (fst (activate_button env u button st))"
proof -
  have "stored_ok_in (fst (execute_button_activation_actions env u button
      (start_button_transmit_routes env u button st)))"
    unfolding execute_button_activation_actions_def
    by (rule stored_run) (auto simp: stored_requests assms)
  then show ?thesis by (auto simp: activate_button_def split: prod.splits control_response.splits)
qed

lemma stored_button: "stored_ok_in st \<Longrightarrow> stored_ok_in (fst (apply_button_event env u b pressed st))"
  by (simp add: apply_button_event_def Let_def stored_activate split: option.split)

text \<open>Enrollment adds an entry only for a device that has none.\<close>

lemma stored_unique_add:
  assumes "stored_unique a" "find (\<lambda>v. de_client_uid v = de_client_uid w) (ad_devices a) = None"
    and "uid_ok (de_client_uid w)"
  shows "stored_unique (add_device w a)"
proof -
  have "de_client_uid w \<notin> de_client_uid ` set (ad_devices a)"
    using assms(2) by (auto simp: find_None_iff)
  with assms(1,3) show ?thesis
    by (simp add: stored_unique_def add_device_def devices_unique_add)
qed

lemma stored_unique_known:
  assumes "stored_unique a" "\<And>v. de_client_uid (f v) = de_client_uid v"
    and "\<And>v. device_ok v \<Longrightarrow> device_ok (f v)" "\<And>v. de_user_id (f v) = de_user_id v"
  shows "stored_unique (a\<lparr>ad_devices := update_first p f (ad_devices a)\<rparr>)"
proof -
  let ?ds = "ad_devices a" and ?us = "update_first p f (ad_devices a)"
  have m: "map de_client_uid ?us = map de_client_uid ?ds"
    "map (\<lambda>d. (de_user_id d, de_client_uid d)) ?us = map (\<lambda>d. (de_user_id d, de_client_uid d)) ?ds"
    using assms(2,4) by (simp_all add: map_key_update)
  have "list_all device_ok ?us"
    using assms(1,3) set_update_first [of p f ?ds]
    by (induction ?ds rule: list.induct) (auto simp: stored_unique_def devices_unique_def devices_ok_def list_all_iff)
  moreover have "successively (\<lambda>x y. de_client_uid y \<noteq> de_client_uid x) ?us"
    by (rule distinct_successively) (use assms(1) m in \<open>simp add: stored_unique_def devices_unique_def\<close>)
  ultimately show ?thesis
    using assms(1) m by (simp add: stored_unique_def devices_unique_def devices_ok_def)
qed

lemma stored_resolve:
  assumes "stored_ok_in st"
  shows "stored_ok_in (fst (resolve_client_enrollment env i requested role st))"
proof -
  let ?uid = "normalize_client_uid i requested" and ?a = "st_admin_state st"
  have add: "stored_unique (add_device (new_device now ?uid u s n r w) (?a\<lparr>ad_clients := cs\<rparr>))"
    if "find (\<lambda>v. de_client_uid v = ?uid) (ad_devices ?a) = None" "map dc_user_id cs = map dc_user_id (ad_clients ?a)"
    for now u s n r w cs
    using assms that by (intro stored_unique_add) (simp_all add: new_device_def stored_unique_def)
  have same: "?a\<lparr>ad_clients := ad_clients ?a\<rparr> = ?a" by simp
  have m: "map dc_user_id (update_first p (\<lambda>c. c\<lparr>dc_client_uid := x\<rparr>) cs) = map dc_user_id cs" for p x cs
    by (rule map_key_update) simp
  have pre: "stored_ok_in (fst (enroll_preconfigured env ?uid role u n (?a\<lparr>ad_clients := cs\<rparr>) st))"
    if "find (\<lambda>v. de_client_uid v = ?uid) (ad_devices ?a) = None" "map dc_user_id cs = map dc_user_id (ad_clients ?a)"
    for u n cs
    using add [OF that] by (simp add: enroll_preconfigured_def)
  have new: "stored_ok_in (fst (enroll_new_device env ?uid requested role st))"
    if "find (\<lambda>v. de_client_uid v = ?uid) (ad_devices ?a) = None"
    using add [OF that refl] assms by (simp add: enroll_new_device_def Let_def same)
  show ?thesis
  proof (cases "find (\<lambda>v. de_client_uid v = ?uid) (ad_devices ?a)")
    case (Some d)
    have "stored_unique (?a\<lparr>ad_devices := update_first (\<lambda>v. de_client_uid v = ?uid)
        (\<lambda>v. v\<lparr>de_last_seen_ms := env_unix_ms env, de_role := role\<rparr>) (ad_devices ?a)\<rparr>)"
      using assms by (intro stored_unique_known) (simp_all add: device_ok_def)
    then show ?thesis
      by (simp add: resolve_client_enrollment_def Let_def Some enroll_known_device_def)
  next
    case None
    note facts = pre [OF None, of "ad_clients ?a"] pre [OF None m] new [OF None] None
    show ?thesis
      using facts
      by (cases requested) (auto simp: resolve_client_enrollment_def Let_def same split: option.split)
  qed
qed

lemma stored_advertise:
  assumes "stored_ok_in st"
  shows "stored_ok_in (fst (persist_client_advertisement env i codecs bs caps st))"
proof -
  have "devices_unique (ad_devices (st_admin_state st))" using assms by (simp add: stored_unique_def)
  from devices_unique_update [OF this] assms show ?thesis
    by (simp add: persist_client_advertisement_def Let_def stored_unique_def)
qed

lemma stored_hello: "stored_ok_in st \<Longrightarrow> stored_ok_in (fst (apply_hello env u hr st))"
proof -
  assume ok: "stored_ok_in st"
  let ?req = "case hr_requested_user_id hr of Some r \<Rightarrow> Some r | None \<Rightarrow> if u > 0 then Some u else None"
  obtain st' r where r: "resolve_client_enrollment env (hr_client_uid hr) ?req (hr_role hr) st = (st', r)"
    by fastforce
  with ok have ok': "stored_ok_in st'" by (metis stored_resolve fst_conv)
  then have "stored_ok_in (with_session env v f st')" for v f by simp
  with ok' show ?thesis by (cases r) (simp_all add: apply_hello_def Let_def r stored_advertise)
qed

lemma stored_guarded:
  "(\<And>st. stored_ok_in st \<Longrightarrow> stored_ok_in (fst (f st))) \<Longrightarrow> stored_ok_in st \<Longrightarrow>
     stored_ok_in (fst (guarded allowed label u f st))"
  by (simp add: guarded_def split: option.split)

lemma stored_control: "stored_ok_in st \<Longrightarrow> stored_ok_in (fst (apply_control env m st))"
  by (cases m)
    (simp_all add: stored_guarded stored_edit stored_hello stored_button stored_unique_desired apply_config_def
      apply_audio_codec_def apply_talk_mode_def apply_priority_def apply_button_def
      record_capture_health_def record_bridge_status_def apply_regular_talk_event_def Let_def
      split: option.split)

lemma stored_connection:
  assumes "stored_ok_in st"
  shows "stored_ok_in (fst (connection_step (env, ev) (st, conns)))"
proof -
  have frame: "stored_ok_in (snd (fst (handle_control_text env c f (reg, st))))" for c f reg
  proof (cases f)
    case (Inr m)
    have reg: "st_admin_state (snd (register_hello c resp (r, x))) = st_admin_state x" for resp r x
      by (simp add: register_hello_def register_control_client_def Let_def
          split: control_response.split enrollment_status.split option.split)
    obtain st' resp where m: "apply_control env m (count_control_message st) = (st', resp)" by fastforce
    have "stored_ok_in (count_control_message st)" using assms by (simp add: count_control_message_def)
    then have "stored_ok_in st'" using stored_control m by (metis fst_conv)
    then show ?thesis unfolding handle_control_text_def Inr Let_def prod.case sum.case m by (simp add: reg)
  qed (use assms in \<open>simp add: handle_control_text_def count_control_message_def\<close>)
  have close: "stored_ok_in (close_control_connection env c (reg, st))" for c reg
    using assms
    by (cases reg) (simp_all add: close_control_connection_def unregister_control_client_def Let_def)
  show ?thesis
  proof (cases ev)
    case (Text c f)
    show ?thesis
    proof (cases "hm_get conns c")
      case (Some reg)
      obtain reg' st' r where h: "handle_control_text env c f (reg, st) = ((reg', st'), r)"
        by (metis prod.exhaust)
      with frame [of c f reg] show ?thesis by (simp add: Text Some)
    qed (simp add: Text assms)
  qed (simp_all add: close assms split: option.split)
qed

section \<open>The sessions\<close>

lemma both_ok_endpoint:
  "codec_supported codec \<or> codec \<in> lax \<Longrightarrow> both_ok lax s \<Longrightarrow> both_ok lax (endpoint_session env codec addr desired s)"
  by (cases desired)
    (auto simp: endpoint_session_def Let_def both_ok_def talk_ok_def history_ok_def
      apply_desired_to_session_fields_def)

lemma both_ok_default_channels: "both_ok lax s \<Longrightarrow> both_ok lax (default_channels target d s)"
  by (simp add: default_channels_def both_ok_def talk_ok_def history_ok_def split: audio_target.split)

lemma sessions_ok_register:
  assumes "codec_supported codec \<or> codec \<in> lax" "sessions_ok_but lax st"
  shows "sessions_ok_but lax (register_audio_endpoint env u codec addr st)"
    and "sessions_ok_but lax (register_audio_source env u target codec addr st)"
proof -
  show ep: "sessions_ok_but lax (register_audio_endpoint env u codec addr st)"
    unfolding register_audio_endpoint_def using assms
    by (intro sessions_ok_both_session both_ok_endpoint)
  show "sessions_ok_but lax (register_audio_source env u target codec addr st)"
    unfolding register_audio_source_def
    by (intro sessions_ok_both_session both_ok_default_channels ep)
qed

lemma sessions_ok_receive:
  assumes "sources_ok st" "sessions_ok_but lax st" "supported_datagram bytes \<or> Adpcm \<in> lax"
  shows "sessions_ok_but lax (receive_audio libs process env a bytes st)"
proof (cases "packet_decode (take max_packet_bytes bytes)")
  case (Inl e)
  with assms(2) show ?thesis by (simp add: receive_audio_def sessions_ok_but_def)
next
  case (Inr p)
  then have codec: "codec_supported (pkt_codec p) \<or> pkt_codec p \<in> lax"
    using assms(3) by (cases "pkt_codec p") (auto simp: supported_datagram_def)
  have same: "st_sessions x = st_sessions st \<Longrightarrow> sessions_ok_but lax x" for x
    using assms(2) by (simp add: sessions_ok_but_def)
  have quiet: "sessions_ok_but lax (count_metric f x) = sessions_ok_but lax x"
      "sessions_ok_but lax (record_decode_error env u x) = sessions_ok_but lax x" for f u x
    by (simp_all add: sessions_ok_but_def)
  have reg: "sessions_ok_but lax (register_audio_endpoint env u (pkt_codec p) a x)"
    if "st_sessions x = st_sessions st" for x u
    by (intro sessions_ok_register codec same that)
  have ingest: "sessions_ok_but lax (ingest_samples libs process env a p samples x)"
    if "st_sessions x = st_sessions st" "st_sources x = st_sources st" for x samples
  proof -
    have "queues_ok x" using assms(1) that(2) by (simp add: sources_ok_def queues_ok_def)
    then have "st_sessions (ingest_samples libs process env a p samples x) =
        st_sessions (register_audio_source env (pkt_user_id p) (pkt_target p) (pkt_codec p) a x)"
      by (rule ingest_samples_effect(1)) (rule refl)
    moreover have "sessions_ok_but lax (register_audio_source env (pkt_user_id p) (pkt_target p) (pkt_codec p) a x)"
      by (intro sessions_ok_register codec same that)
    ultimately show ?thesis by (simp add: sessions_ok_but_def)
  qed
  show ?thesis
    unfolding receive_audio_def Inr sum.case Let_def
    by (auto simp: quiet assms(2) intro!: reg ingest split: sum.split)
qed

lemma all_sessions_map:
  assumes "all_sessions P ss" "\<And>us. fst (f us) = fst us"
    and "\<And>u s. P s \<Longrightarrow> P (snd (f (u, s)))"
  shows "all_sessions P (map f ss)"
proof -
  have "map fst (map f ss) = map fst ss" using assms(2) by (simp add: comp_def)
  then have "hm_wf (map f ss)" using assms(1) unfolding all_sessions_def hm_wf_def by (simp only:)
  moreover have "P (snd (f us))" if "us \<in> set ss" for us
    using that assms(1) assms(3) [of "snd us" "fst us"]
    by (cases us) (auto simp: all_sessions_def list_all_iff)
  then have "list_all (\<lambda>(u, s). P s) (map f ss)"
    by (auto simp: list_all_iff split_beta)
  ultimately show ?thesis by (simp add: all_sessions_def)
qed

lemma mix_listener_session:
  "fst (snd (mix_listener log10 env ctx us)) = fst us"
  "both_ok lax s \<Longrightarrow> both_ok lax (snd (snd (mix_listener log10 env ctx (u, s))))"
  by (cases us)
    (auto simp: mix_listener_def show_ifb_status_def both_ok_def talk_ok_def history_ok_def
      split: option.split)

lemma sessions_ok_mixes:
  assumes "sessions_ok_but lax st" shows "sessions_ok_but lax (snd (build_mixes log10 env st))"
proof -
  obtain frames st1 where t: "take_source_frames env st = (frames, st1)" by fastforce
  then have ss: "st_sessions st1 = st_sessions st" by (metis snd_conv take_source_frames_frame(1))
  have "st_sessions (snd (build_mixes log10 env st)) =
      map (\<lambda>us. snd (mix_listener log10 env (mix_context_of st1 frames) us)) (st_sessions st)"
    by (simp add: build_mixes_def t ss comp_def)
  moreover have "all_sessions (both_ok lax) \<dots>"
    using assms unfolding sessions_ok_both
    by (rule all_sessions_map) (simp_all add: mix_listener_session)
  ultimately show ?thesis by (simp add: sessions_ok_both)
qed

lemma sessions_ok_send_error:
  "sessions_ok_but lax st \<Longrightarrow> sessions_ok_but lax (record_audio_send_error u a st)"
proof -
  assume "sessions_ok_but lax st"
  then have "sessions_ok_but lax (modify_session u (\<lambda>s. s\<lparr>se_addr := None, se_audio_last_seen := None\<rparr>)
      (count_metric f st))" for f
    by (intro sessions_ok_both_session) (simp_all add: sessions_ok_but_def both_ok_def talk_ok_def history_ok_def)
  with \<open>sessions_ok_but lax st\<close> show ?thesis
    by (simp add: record_audio_send_error_def clear_audio_endpoint_if_matches_def sessions_ok_but_def
        split: option.split)
qed

lemma sessions_ok_send_mixes:
  "sessions_ok_but lax st \<Longrightarrow> sessions_ok_but lax (snd (send_mixes libs sent env outs st))"
proof (induction outs arbitrary: st)
  case (Cons out outs)
  obtain first st1 where s: "send_mix libs sent env out st = (first, st1)" by fastforce
  obtain rest st2 where r: "send_mixes libs sent env outs st1 = (rest, st2)" by fastforce
  obtain seq st0 where n: "next_output_seq (mo_user_id out) st = (seq, st0)" by fastforce
  then have "sessions_ok_but lax st0" using Cons.prems next_output_seq_facts [OF n] by (simp add: sessions_ok_but_def)
  with s have "sessions_ok_but lax st1"
    using sessions_ok_send_error [of lax st0 "mo_user_id out" "mo_addr out"]
    by (auto simp: send_mix_def n Let_def count_encode_error_def record_output_health_def
        sessions_ok_but_def split: sum.splits if_splits)
  with Cons.IH [of st1] r show ?case by (simp add: s)
qed simp

lemma sessions_ok_tick: "sessions_ok_but lax st \<Longrightarrow> sessions_ok_but lax (snd (mixer_tick libs log10 sent env st))"
  using sessions_ok_mixes [of lax st log10 env]
  by (auto simp: mixer_tick_def split: prod.split) (metis sessions_ok_send_mixes snd_conv)

lemma stored_send_mixes: "st_admin_state (snd (send_mixes libs sent env outs st)) = st_admin_state st"
proof (induction outs arbitrary: st)
  case (Cons out outs)
  obtain first st1 where s: "send_mix libs sent env out st = (first, st1)" by fastforce
  obtain rest st2 where r: "send_mixes libs sent env outs st1 = (rest, st2)" by fastforce
  have "st_admin_state (snd (next_output_seq u x)) = st_admin_state x" for u x
    by (simp add: next_output_seq_def Let_def)
  moreover have "st_admin_state (record_audio_send_error u a x) = st_admin_state x"
      "st_admin_state (count_encode_error x) = st_admin_state x"
      "st_admin_state (record_output_health env u m e x) = st_admin_state x" for u a x m e
    by (simp_all add: record_audio_send_error_def clear_audio_endpoint_if_matches_def count_encode_error_def
        record_output_health_def split: option.split)
  ultimately have "st_admin_state st1 = st_admin_state st"
    using s by (auto simp: send_mix_def Let_def split: prod.splits sum.splits if_splits) (metis snd_conv)+
  with Cons.IH [of st1] r show ?case by (simp add: s)
qed simp

lemma stored_audio:
  "st_admin_state (receive_audio libs process env a bytes st) = st_admin_state st"
  "st_admin_state (snd (mixer_tick lib log10 sent env st)) = st_admin_state st"
proof -
  have store: "st_admin_state (store_source_frame env u t x st) = st_admin_state st" for u t x st
    by (simp add: store_source_frame_def store_source_frame_with_options_def record_source_drop_def Let_def
        split: prod.split)
  have reg: "st_admin_state (register_audio_endpoint env u c a st) = st_admin_state st"
    "st_admin_state (register_audio_source env u t c a st) = st_admin_state st"
    "st_admin_state (record_decode_error env u st) = st_admin_state st"
    "st_admin_state (record_processing_status env u ps st) = st_admin_state st"
    "st_admin_state (record_input_health env u t xs st) = st_admin_state st" for u t c st ps xs
    by (simp_all add: register_audio_endpoint_def register_audio_source_def record_decode_error_def
        record_processing_status_def record_input_health_def Let_def)
  show "st_admin_state (receive_audio libs process env a bytes st) = st_admin_state st"
    by (simp add: receive_audio_def ingest_samples_def Let_def reg store split: sum.split prod.split)
  have take: "st_admin_state (snd (take_source_frames env st)) = st_admin_state st"
    by (simp add: take_source_frames_def Let_def split: prod.split)
  have "st_admin_state (snd (build_mixes log10 env st)) = st_admin_state (snd (take_source_frames env st))"
    by (simp add: build_mixes_def split: prod.split)
  then show "st_admin_state (snd (mixer_tick lib log10 sent env st)) = st_admin_state st"
    by (simp add: mixer_tick_def stored_send_mixes take split: prod.split) (metis snd_conv)
qed

section \<open>The administrator\<close>

lemma save_change_same [simp]:
  "st_sessions (fst (save_change env f r st)) = st_sessions st"
  "audio_state (fst (save_change env f r st)) = audio_state st"
  by (simp_all add: save_change_def Let_def split: option.split)

lemma admin_named_preset:
  "sessions_ok_but lax st \<Longrightarrow> sessions_ok_but lax (fst (admin_apply_preset env i st))"
  "audio_state (fst (admin_apply_preset env i st)) = audio_state st"
proof -
  have same: "sessions_ok_but lax st \<Longrightarrow> sessions_ok_but lax st'" "audio_state st' = audio_state st"
    if "apply_preset env p st = (st', r)" for p st' r
    using sessions_ok_preset [of lax st env p] audio_state_desired(3) [of env p st] that by simp_all
  consider (same) e where "admin_apply_preset env i st = (st, Inl e)"
    | (preset) p st' r r' where "apply_preset env p st = (st', r)" "admin_apply_preset env i st = (st', r')"
  proof (cases "normalize_config_id i ''preset''")
    case (Inl e)
    then show ?thesis using that(1) by (simp add: admin_apply_preset_def with_config_id_def)
  next
    case (Inr j)
    show ?thesis
    proof (cases "find (\<lambda>p. pr_id p = j) (ad_presets (st_admin_state st))")
      case None
      with Inr show ?thesis using that(1) by (simp add: admin_apply_preset_def with_config_id_def)
    next
      case (Some p)
      obtain st' r where p: "apply_preset env p st = (st', r)" by fastforce
      with Inr Some show ?thesis
        using that(2) [OF p] by (cases r) (simp_all add: admin_apply_preset_def with_config_id_def)
    qed
  qed
  then show "sessions_ok_but lax st \<Longrightarrow> sessions_ok_but lax (fst (admin_apply_preset env i st))"
    "audio_state (fst (admin_apply_preset env i st)) = audio_state st"
    by (cases; simp add: same)+
qed

lemma admin_update_device:
  "sessions_ok_but lax st \<Longrightarrow> sessions_ok_but lax (fst (update_device_enrollment env i p forced st))"
  "audio_state (fst (update_device_enrollment env i p forced st)) = audio_state st"
proof -
  let ?uid = "normalize_client_uid i (dp_user_id p)" and ?a = "st_admin_state st"
  let ?u = "patched_user_id ?uid p ?a" and ?v = "patched_device env forced ?uid p ?a"
  let ?save = "save_change env (\<lambda>a. a\<lparr>ad_devices := store_device ?v (ad_devices a),
      ad_clients := claim_client ?v (ad_clients a)\<rparr>) ?v st"
  obtain st' r where s: "?save = (st', r)" by fastforce
  then have st': "st' = fst ?save" by (simp only: fst_conv)
  have same: "st_sessions st' = st_sessions st" "audio_state st' = audio_state st"
    unfolding st' by (rule save_change_same)+
  have live: "sessions_ok_but lax st \<Longrightarrow> sessions_ok_but lax (apply_desired_to_live_session_if_any env ?u st')"
    "audio_state (apply_desired_to_live_session_if_any env ?u st') = audio_state st"
  proof -
    assume "sessions_ok_but lax st"
    then have "sessions_ok_but lax st'" using same(1) by (simp only: sessions_ok_but_def)
    then show "sessions_ok_but lax (apply_desired_to_live_session_if_any env ?u st')"
      unfolding apply_desired_to_live_session_if_any_def
      by (cases "desired_client st' ?u") (simp_all add: sessions_ok_live)
  next
    show "audio_state (apply_desired_to_live_session_if_any env ?u st') = audio_state st"
      unfolding apply_desired_to_live_session_if_any_def same(2) [symmetric]
      by (cases "desired_client st' ?u") simp_all
  qed
  show "sessions_ok_but lax st \<Longrightarrow> sessions_ok_but lax (fst (update_device_enrollment env i p forced st))"
    "audio_state (fst (update_device_enrollment env i p forced st)) = audio_state st"
    unfolding update_device_enrollment_def Let_def s prod.case
    using live same by (cases r; simp add: sessions_ok_but_def)+
qed

lemma audio_state_admin: "audio_state (admin_step (env, rq) st) = audio_state st"
  by (cases rq)
    (simp_all add: put_client_def patch_client_def upsert_admin_client_def Let_def delete_client_def
      delete_device_def put_channel_def delete_channel_def put_preset_def delete_preset_def
      put_template_def delete_template_def apply_template_def with_config_id_def admin_update_device
      admin_named_preset split: sum.split)

lemma sessions_ok_save: "sessions_ok_but lax (fst (save_change env f r st)) = sessions_ok_but lax st"
  by (simp add: sessions_ok_but_def)

lemma sessions_ok_admin: "sessions_ok_but lax st \<Longrightarrow> sessions_ok_but lax (admin_step (env, rq) st)"
  by (cases rq)
    (simp_all add: put_client_def patch_client_def upsert_admin_client_def Let_def delete_client_def
      delete_device_def put_channel_def delete_channel_def put_preset_def delete_preset_def
      put_template_def delete_template_def apply_template_def with_config_id_def admin_update_device
      admin_named_preset sessions_ok_apply_desired sessions_ok_save split: sum.split)

section \<open>Announcements\<close>

definition talk_and_sources where
  "talk_and_sources st = (st_sessions st, st_sources st, st_admin_state st)"

lemma create_runtime_alert_quiet:
  "talk_and_sources (fst (create_runtime_alert env u t m rs st)) = talk_and_sources st"
  by (simp add: create_runtime_alert_def Let_def talk_and_sources_def)

lemma create_alerts_quiet:
  "talk_and_sources (fst (create_alerts env u m ts st)) = talk_and_sources st"
proof (induction ts arbitrary: st)
  case (Cons x ts)
  obtain t rs where x: "x = (t, rs)" by fastforce
  obtain st1 a where c: "create_runtime_alert env u t (Some m) rs st = (st1, a)" by fastforce
  obtain st2 ids where d: "create_alerts env u m ts st1 = (st2, ids)" by fastforce
  show ?case
    using Cons.IH [of st1] create_runtime_alert_quiet [of env u t "Some m" rs st]
    by (simp add: x c d)
qed simp

lemma start_tts_quiet: "talk_and_sources (start_tts_sources i k fs p d ts st) = talk_and_sources st"
  by (induction ts arbitrary: k st) (simp_all add: start_tts_source_def talk_and_sources_def)

lemma announcement_quiet:
  "talk_and_sources (fst (apply_announcement_event synth env rq st)) = talk_and_sources st"
proof -
  have push: "talk_and_sources (push_config_updates us x) = talk_and_sources x" for us x
    by (simp add: talk_and_sources_def)
  have "talk_and_sources (fst (announce synth env rq m rs st)) = talk_and_sources st" for m rs
  proof -
    obtain st1 ids where a: "announce_text env rq m rs (st\<lparr>st_next_tts_id := st_next_tts_id st + 1\<rparr>) = (st1, ids)"
      by fastforce
    have next_id: "talk_and_sources (st\<lparr>st_next_tts_id := n\<rparr>) = talk_and_sources st" for n
      by (simp add: talk_and_sources_def)
    have "talk_and_sources (fst (announce_text env rq m rs (st\<lparr>st_next_tts_id := n\<rparr>))) =
        talk_and_sources st" for n
      by (simp add: announce_text_def create_alerts_quiet next_id)
    then have "talk_and_sources st1 = talk_and_sources st" using a by (metis fst_conv)
    then show ?thesis
      unfolding announce_def Let_def a prod.case by (simp add: push start_tts_quiet split: sum.split)
  qed
  then show ?thesis by (simp add: apply_announcement_event_def split: sum.split)
qed

section \<open>Runs of the server\<close>

interpretation server: step_machine server_step "\<lambda>e. supported_event e \<or> Adpcm \<in> lax" "server_ok lax"
  for lax
proof
  fix e :: "server_libs \<times> env \<times> server_event" and s :: server
  assume adm: "supported_event e \<or> Adpcm \<in> lax" and inv: "server_ok lax s"
  obtain st conns libs env ev where s: "s = (st, conns)" and e: "e = (libs, env, ev)"
    by (cases s; cases e)
  have ok: "sessions_ok_but lax st" "sources_ok st" "stored_ok_in st"
    using inv by (auto simp: s server_ok_def sources_ok_def)
  have goal: "sessions_ok_but lax st' \<Longrightarrow> sources_ok st' \<Longrightarrow> stored_ok_in st' \<Longrightarrow> server_ok lax (st', cs)" for st' cs
    by (simp add: server_ok_def sources_ok_def)
  show "server_ok lax (server_step e s)"
  proof (cases ev)
    case (ControlEvent c)
    obtain st' cs where c: "connection_step (env, c) (st, conns) = (st', cs)" by fastforce
    have "sessions_ok_but lax st'" using control.step_inv [where e = "(env, c)" and s = "(st, conns)"] ok(1) c by simp
    moreover have "sources_ok st'"
      using audio_state_connection [of env c st conns] ok(2) c sources_ok_audio_state [of st' st] by simp
    moreover have "stored_ok_in st'" using stored_connection [OF ok(3), of env c conns] c by simp
    ultimately show ?thesis by (simp add: s e ControlEvent c goal)
  next
    case (Datagram a bytes)
    with adm have "supported_datagram bytes \<or> Adpcm \<in> lax" by (simp add: e)
    with ok show ?thesis
      by (simp add: s e Datagram goal sessions_ok_receive sources_ok_receive stored_audio)
  next
    case MixerTick
    with ok show ?thesis by (simp add: s e goal sessions_ok_tick sources_ok_tick stored_audio)
  next
    case (Announce rq)
    have "talk_and_sources (fst (apply_announcement_event (sl_speech libs) env rq st)) =
        talk_and_sources st" by (rule announcement_quiet)
    with ok show ?thesis
      by (simp add: s e Announce server_ok_def talk_and_sources_def sessions_ok_but_def sources_ok_def
          queues_ok_def)
  next
    case (AdminEvent rq)
    have "stored_ok_in (admin_step (env, rq) st)"
      using admin.step_inv [where e = "(env, rq)" and s = st] ok(3) by simp
    moreover have "sources_ok (admin_step (env, rq) st)"
      using audio_state_admin [of env rq st] ok(2) sources_ok_audio_state by blast
    ultimately show ?thesis
      using ok(1) by (simp add: s e AdminEvent goal sessions_ok_admin)
  qed
qed

section \<open>Properties\<close>

text \<open>C1. The running server stays consistent, whatever control messages, connections, datagrams,
  mixer ticks, announcements and administrator's requests arrive, in any order, and whatever
  the codec, speech and network libraries answer: sessions and source queues have unique user
  ids, every session can send PCM16 and its output codec is one the client supports, buttons
  are in normal form and the active ones are configured, call histories are bounded by 20 and source queues by 6
  frames, and the stored state has one entry per device, channel, preset and template. Only
  ADPCM can be an output codec that is not supported, and only when some datagram carried it
  (\<open>adpcm_registration_breaks_sessions\<close> shows that this happens).\<close>

theorem server_runs_stay_consistent:
  assumes "stored_unique admin"
  shows "case fold server_step es (server_state_new admin policy, []) of (st, conns) \<Rightarrow>
     hm_wf (st_sessions st) \<and> hm_wf (st_sources st) \<and>
     list_all (\<lambda>(u, s). {Pcm16, se_output_codec s} \<subseteq>
           se_supported_codecs s \<union> (if list_all supported_event es then {} else {Adpcm}) \<and>
         buttons_ok (se_buttons s) \<and> se_active_buttons s \<subseteq> btn_id ` set (se_buttons s) \<and>
         length (se_direct_call_history s) \<le> 20) (st_sessions st) \<and>
     list_all (\<lambda>(u, q). length (sq_frames q) \<le> 6) (st_sources st) \<and>
     stored_unique (st_admin_state st)"
proof -
  define lax where "lax = (if list_all supported_event es then {} else {Adpcm})"
  have start: "server_ok lax (server_state_new admin policy, [])"
    using assms
    by (simp add: server_ok_def sessions_ok_but_def all_sessions_def queues_ok_def server_state_new_def)
  have "list_all (\<lambda>e. supported_event e \<or> Adpcm \<in> lax) es"
    by (simp add: lax_def list_all_iff)
  then have "server_ok lax (fold server_step es (server_state_new admin policy, []))"
    by (rule server.run_inv [OF _ start])
  then show ?thesis
    unfolding lax_def [symmetric]
    by (auto simp: server_ok_def sessions_ok_but_def all_sessions_def queues_ok_def source_wf_def
        talk_ok_def history_ok_def max_direct_call_history_def max_source_queue_frames_def
        list_all_iff split: prod.splits)
qed

definition sample_libs :: server_libs where
  "sample_libs = \<lparr>sl_receive = no_libs, sl_process = no_processing, sl_send = (\<lambda>u. no_libs),
     sl_log10 = (\<lambda>x. x), sl_socket = (\<lambda>a d. True), sl_speech = (\<lambda>i m g. Inr [])\<rparr>"

lemma decode_sample:
  "packet_decode (take max_packet_bytes (packet_bytes (registration u c k))) = Inr (registration u c k)"
proof -
  have "length (packet_bytes (registration u c k)) \<le> max_packet_bytes"
    by (simp add: packet_bytes_def registration_def wire_parts.simps magic_def max_packet_bytes_def
        header_len_def Let_def)
  then show ?thesis by (simp, intro packet_wire.dec_enc) (simp add: registration_def)
qed

theorem server_runs_stay_consistent_witness:
  "case fold server_step
      [(sample_libs, sample_env, ControlEvent (Connect 1)),
       (sample_libs, sample_env, ControlEvent (Text 1 (Inr (Ping 1)))),
       (sample_libs, sample_env, Datagram 40001 (packet_bytes (registration 1 Pcm48 0))),
       (sample_libs, sample_env, MixerTick),
       (sample_libs, sample_env, AdminEvent (PutChannel 7 ''stage'')),
       (sample_libs, sample_env, ControlEvent (Close 1))]
      (server_state_new empty_admin_state PolicyAuto, []) of (st, conns) \<Rightarrow>
     hm_wf (st_sessions st) \<and> hm_wf (st_sources st) \<and>
     list_all (\<lambda>(u, s). {Pcm16, se_output_codec s} \<subseteq> se_supported_codecs s \<union> {} \<and>
         buttons_ok (se_buttons s) \<and> se_active_buttons s \<subseteq> btn_id ` set (se_buttons s) \<and>
         length (se_direct_call_history s) \<le> 20) (st_sessions st) \<and>
     list_all (\<lambda>(u, q). length (sq_frames q) \<le> 6) (st_sources st) \<and>
     stored_unique (st_admin_state st)"
  (is "case_prod _ (fold server_step ?es _)")
proof -
  have ok: "list_all supported_event ?es"
    by (simp add: supported_datagram_def decode_sample) (simp add: registration_def)
  have "stored_unique empty_admin_state"
    by (simp add: stored_unique_def empty_admin_state_def devices_unique_def devices_ok_def
      presets_ok_def templates_ok_def)
  from server_runs_stay_consistent [OF this, of ?es PolicyAuto] show ?thesis
    unfolding if_P [OF ok] .
qed

section \<open>ADPCM\<close>

text \<open>A datagram whose codec the server cannot decode still registers the endpoint with that
  codec as its output codec.\<close>

lemma adpcm_registration_breaks_sessions:
  assumes "hm_get (st_sessions st) u = Some s" "Adpcm \<notin> se_supported_codecs s" "desired_client st u = None"
  shows "\<not> sessions_ok (register_audio_endpoint env u Adpcm addr st)"
proof -
  have "\<not> talk_ok {} (endpoint_session env Adpcm addr None s)"
    using assms(2) by (simp add: endpoint_session_def Let_def talk_ok_def)
  moreover have "hm_get (st_sessions (register_audio_endpoint env u Adpcm addr st)) u =
      Some (endpoint_session env Adpcm addr None s)"
    using assms(1,3) by (simp add: register_audio_endpoint_def)
  ultimately show ?thesis by (auto simp: sessions_ok_but_def all_sessions_iff)
qed

end
