(* ===== verification/Float_Bounds.thy ===== *)
theory Float_Bounds
  imports Audio_Levels
begin

text \<open>
  Bounds on rounding shared by the components that compute in floating point: rounding is odd,
  stays below the integers a format represents, and is exact on small dyadic fractions.
\<close>

lemma round_half_even_range: "0 \<le> y \<Longrightarrow> y \<le> of_int n \<Longrightarrow> 0 \<le> round_half_even y \<and> round_half_even y \<le> n"
proof -
  assume y: "0 \<le> y" "y \<le> of_int n"
  then have f: "0 \<le> \<lfloor>y\<rfloor>" "\<lfloor>y\<rfloor> \<le> n" by (simp_all add: floor_le_iff le_floor_iff)
  have "\<lfloor>y\<rfloor> = n \<Longrightarrow> y - of_int \<lfloor>y\<rfloor> \<le> 0" using y(2) by simp
  with f show ?thesis
    by (cases "\<lfloor>y\<rfloor> = n") (auto simp: round_half_even_def Let_def)
qed

text \<open>Rounding does not carry a value over an integer the format has exactly.\<close>

definition plain_format :: "format \<Rightarrow> bool" where
  "plain_format fmt =
     (0 < precision fmt \<and> emin fmt \<le> 0 \<and> int (precision fmt) \<le> emax fmt + 1)"

lemma plain_formats [simp]: "plain_format binary32" "plain_format binary64"
  by (simp_all add: plain_format_def binary32_def binary64_def)

lemma ilog2_less:
  assumes "0 < x" "x < pow2 e"
  shows "ilog2 x < e"
proof (rule ccontr)
  assume "\<not> ilog2 x < e"
  then have "pow2 e \<le> x" using pow2_mono [of e "ilog2 x"] pow2_ilog2 [OF assms(1)] by simp
  with assms(2) show False by simp
qed

lemma pow2_nat: "pow2 (int k) = 2 ^ k"
  by (simp add: pow2_def)

lemma rnd_le_fmt:
  assumes fmt: "plain_format fmt" and x: "0 \<le> x" "x \<le> of_nat n" and n: "n < 2 ^ precision fmt"
  obtains y where "rnd fmt x = Fin y" "0 \<le> y" "y \<le> of_nat n"
proof (cases "x = 0")
  case True
  then show ?thesis using that [of 0] by (simp add: rnd_def)
next
  case False
  then have pos: "0 < x" using x(1) by simp
  let ?e = "max (ilog2 x) (emin fmt) - (int (precision fmt) - 1)" and ?q = "quantum fmt x"
  have n': "(of_nat n :: rat) < 2 ^ precision fmt"
    using n by (metis of_nat_less_iff of_nat_numeral of_nat_power)
  with x(2) have "x < pow2 (int (precision fmt))" unfolding pow2_nat by linarith
  from ilog2_less [OF pos this] have "?e \<le> 0" using fmt by (simp add: plain_format_def)
  define m where "m = nat (- ?e)"
  have q: "?q = 1 / 2 ^ m"
    using \<open>?e \<le> 0\<close> pos by (cases "?e = 0") (simp_all add: quantum_def pow2_def m_def)
  have "x / ?q \<le> of_int (int n * 2 ^ m)" "0 \<le> x / ?q"
    using x by (simp_all add: q)
  from round_half_even_range [OF this(2,1)]
  have r: "0 \<le> round_half_even (x / ?q)" "round_half_even (x / ?q) \<le> int n * 2 ^ m" by simp_all
  let ?y = "of_int (round_half_even (x / ?q)) * ?q"
  have y0: "0 \<le> ?y" using r(1) by (simp add: q)
  have "of_int (round_half_even (x / ?q)) \<le> (of_int (int n * 2 ^ m) :: rat)"
    using r(2) by (simp only: of_int_le_iff)
  then have yn: "?y \<le> of_nat n" by (simp add: q divide_le_eq)
  have "2 ^ precision fmt = pow2 (int (precision fmt))" by (simp add: pow2_def)
  also have "\<dots> \<le> pow2 (emax fmt + 1)" using fmt by (intro pow2_mono) (simp add: plain_format_def)
  finally have "\<not> pow2 (emax fmt + 1) \<le> \<bar>?y\<bar>" using yn y0 n' by linarith
  then have "rnd fmt x = Fin ?y" using False by (simp add: rnd_def Let_def)
  with y0 yn that show ?thesis by blast
qed

lemma rnd_le_int:
  assumes "0 \<le> x" "x \<le> of_nat n" "n < 2 ^ 24"
  obtains y where "rnd binary32 x = Fin y" "0 \<le> y" "y \<le> of_nat n"
proof (rule rnd_le_fmt [of binary32 x n])
  have "precision binary32 = 24" by (simp add: binary32_def)
  with assms(3) show "n < 2 ^ precision binary32" by simp
qed (use assms that in simp_all)

lemma round_half_even_minus: "round_half_even (- y) = - round_half_even y"
proof (cases "y \<in> \<int>")
  case True
  then obtain n where "y = of_int n" by (rule Ints_cases)
  moreover have "- (of_int n :: rat) = of_int (- n)" by simp
  ultimately show ?thesis unfolding round_half_even_def Let_def by (simp only: floor_of_int) simp
next
  case False
  then have f: "\<lfloor>- y\<rfloor> = - \<lfloor>y\<rfloor> - 1"
    by (metis ceiling_altdef ceiling_def frac_eq_0_iff frac_def eq_iff_diff_eq_0 minus_diff_eq floor_of_int Ints_of_int minus_minus add.inverse_inverse diff_minus_eq_add minus_add_distrib uminus_add_conv_diff)
  show ?thesis by (auto simp: round_half_even_def Let_def f)
qed

lemma rnd_minus: "rnd fmt (- x) = f_neg (rnd fmt x)"
proof -
  have q: "quantum fmt (- x) = quantum fmt x" by (simp add: quantum_def)
  have "- x / quantum fmt x = - (x / quantum fmt x)" by simp
  then show ?thesis
    by (auto simp: rnd_def Let_def q round_half_even_minus simp del: minus_divide_left)
qed

text \<open>A dyadic fraction \<open>k / 2^j\<close> whose numerator fits the precision is exact.\<close>

lemma rnd_dyadic:
  assumes fmt: "plain_format fmt" and k: "k < 2 ^ precision fmt"
    and j: "emin fmt - (int (precision fmt) - 1) \<le> - int j"
  shows "rnd fmt (of_nat k / 2 ^ j) = Fin (of_nat k / 2 ^ j)"
proof (cases "k = 0")
  case True
  then show ?thesis by (simp add: rnd_def)
next
  case False
  let ?x = "of_nat k / 2 ^ j :: rat"
  let ?e = "max (ilog2 ?x) (emin fmt) - (int (precision fmt) - 1)" and ?q = "quantum fmt ?x"
  have pos: "0 < ?x" using False by simp
  have kp: "(of_nat k :: rat) < 2 ^ precision fmt"
    using k by (metis of_nat_less_iff of_nat_numeral of_nat_power)
  have "pow2 (int (precision fmt) - int j) = 2 ^ precision fmt / 2 ^ j"
    using pow2_add [of "int (precision fmt) - int j" "int j"] by (simp add: pow2_nat)
  with kp have "?x < pow2 (int (precision fmt) - int j)" by (simp add: divide_strict_right_mono)
  from ilog2_less [OF pos this] j have e: "?e \<le> - int j" by simp
  define m where "m = nat (- ?e)"
  have "int j \<le> - ?e" using e by linarith
  then have m: "j \<le> m" unfolding m_def by (metis nat_int nat_mono)
  have q: "?q = 1 / 2 ^ m"
    using e pos by (cases "?e = 0") (simp_all add: quantum_def pow2_def m_def)
  have "?x / ?q = of_int (int k * 2 ^ (m - j))"
    using m by (simp add: q) (simp add: power_add [symmetric] divide_eq_eq mult.assoc)
  then have "of_int (round_half_even (?x / ?q)) = ?x / ?q"
    by (simp only: round_half_even_def Let_def floor_of_int) simp
  then have y: "of_int (round_half_even (?x / ?q)) * ?q = ?x" by (simp add: q)
  have "?x \<le> of_nat k" by (simp add: divide_le_eq mult_le_cancel_left1)
  moreover have "2 ^ precision fmt \<le> pow2 (emax fmt + 1)"
    unfolding pow2_nat [symmetric] using fmt by (intro pow2_mono) (simp add: plain_format_def)
  ultimately have "\<not> pow2 (emax fmt + 1) \<le> \<bar>?x\<bar>"
    using kp unfolding abs_of_pos [OF pos] by linarith
  with pos show ?thesis unfolding rnd_def Let_def y by simp
qed

end
