(* ===== verification/Voice_Processing.thy ===== *)
theory Voice_Processing
  imports Audio_Ingest Float_Bounds
begin

text \<open>
  The voice processing of incoming frames (\<open>AudioProcessorBank\<close> of \<open>server/src/lib.rs\<close>):
  high pass, transient suppression, noise gate, compressor, presence, level normaliser, the
  pipeline of stages that composes them, and the fallback of stages whose engine is not
  built in. The server's default features build none of the three external engines: their
  stages take the fallback, as modelled here. \<open>f32::log10\<close> is an argument. The bank is the
  local state of the receive loop; the last section composes the two.
\<close>

section \<open>The bank\<close>

record high_pass_state =
  hp_previous_input :: f32
  hp_previous_output :: f32

record server_vad_state =
  vad_open :: bool
  vad_speech_frames :: nat
  vad_hold_frames :: nat
  vad_gain :: f32

record level_normalizer_state =
  nz_gain :: f32
  nz_initialized :: bool

record audio_processor_bank =
  pb_high_pass :: "(user_id, high_pass_state) hash_map"
  pb_vad :: "(user_id, server_vad_state) hash_map"
  pb_normalizers :: "(user_id, level_normalizer_state) hash_map"

definition default_high_pass_state :: high_pass_state where
  "default_high_pass_state = \<lparr>hp_previous_input = Fin 0, hp_previous_output = Fin 0\<rparr>"

definition default_server_vad_state :: server_vad_state where
  "default_server_vad_state =
     \<lparr>vad_open = False, vad_speech_frames = 0, vad_hold_frames = 0, vad_gain = Fin 0\<rparr>"

definition default_level_normalizer_state :: level_normalizer_state where
  "default_level_normalizer_state = \<lparr>nz_gain = Fin 1, nz_initialized = False\<rparr>"

definition default_audio_processor_bank :: audio_processor_bank where
  "default_audio_processor_bank = \<lparr>pb_high_pass = [], pb_vad = [], pb_normalizers = []\<rparr>"

section \<open>Parameters of a profile\<close>

record vad_parameters =
  vp_open_rms :: f32
  vp_close_rms :: f32
  vp_open_frames :: nat
  vp_hold_frames :: nat
  vp_closed_gain :: f32
  vp_attack :: f32
  vp_release :: f32
  vp_max_zero_crossing_rate :: f32
  vp_max_crest_factor :: f32
  vp_transient_crest_factor :: f32

definition f32_max :: f32 where
  "f32_max = Fin (2 ^ 128 - 2 ^ 104)"

abbreviation dec32 :: "rat \<Rightarrow> f32" where
  "dec32 \<equiv> rnd binary32"

fun vad_params :: "processing_profile \<Rightarrow> vad_parameters" where
  "vad_params Raw =
     \<lparr>vp_open_rms = Fin 0, vp_close_rms = Fin 0, vp_open_frames = 1, vp_hold_frames = 0,
      vp_closed_gain = Fin 1, vp_attack = Fin 1, vp_release = Fin 1,
      vp_max_zero_crossing_rate = Fin 1, vp_max_crest_factor = f32_max,
      vp_transient_crest_factor = f32_max\<rparr>"
| "vad_params Broadcast =
     \<lparr>vp_open_rms = dec32 (6 / 1000), vp_close_rms = dec32 (25 / 10000), vp_open_frames = 1,
      vp_hold_frames = 18, vp_closed_gain = dec32 (25 / 100), vp_attack = dec32 (35 / 100),
      vp_release = dec32 (8 / 100), vp_max_zero_crossing_rate = dec32 (45 / 100),
      vp_max_crest_factor = dec32 16, vp_transient_crest_factor = dec32 18\<rparr>"
| "vad_params Voice =
     \<lparr>vp_open_rms = dec32 (10 / 1000), vp_close_rms = dec32 (4 / 1000), vp_open_frames = 2,
      vp_hold_frames = 14, vp_closed_gain = dec32 (12 / 100), vp_attack = dec32 (45 / 100),
      vp_release = dec32 (10 / 100), vp_max_zero_crossing_rate = dec32 (36 / 100),
      vp_max_crest_factor = dec32 12, vp_transient_crest_factor = dec32 11\<rparr>"
| "vad_params VoiceIsolation =
     \<lparr>vp_open_rms = dec32 (14 / 1000), vp_close_rms = dec32 (6 / 1000), vp_open_frames = 3,
      vp_hold_frames = 10, vp_closed_gain = dec32 (15 / 1000), vp_attack = dec32 (55 / 100),
      vp_release = dec32 (16 / 100), vp_max_zero_crossing_rate = dec32 (30 / 100),
      vp_max_crest_factor = dec32 (85 / 10), vp_transient_crest_factor = dec32 (75 / 10)\<rparr>"

section \<open>Features of a frame\<close>

record voice_feature_values =
  vf_zero_crossing_rate :: f32
  vf_crest_factor :: f32

definition f32_epsilon :: f32 where
  "f32_epsilon = Fin (pow2 (- 23))"

fun crossings :: "i16 list \<Rightarrow> nat" where
  "crossings (a # b # xs) =
     (if (0 \<le> sint a \<and> sint b < 0) \<or> (sint a < 0 \<and> 0 \<le> sint b) then 1 else 0) + crossings (b # xs)"
| "crossings _ = 0"

definition voice_features :: "i16 list \<Rightarrow> frame_meter \<Rightarrow> voice_feature_values" where
  "voice_features samples meter =
     (if length samples < 2 \<or> f_le (fm_rms meter) f32_epsilon
      then \<lparr>vf_zero_crossing_rate = Fin 0, vf_crest_factor = Fin 0\<rparr>
      else \<lparr>vf_zero_crossing_rate =
              f_div binary32 (f_of_int binary32 (int (crossings samples)))
                (f_of_int binary32 (int (length samples - 1))),
            vf_crest_factor =
              f_div binary32 (fm_peak meter) (f_max (fm_rms meter) (dec32 (1 / 1000000)))\<rparr>)"

section \<open>Stages\<close>

text \<open>Scale, clamp to the sample range, round: the gate, the compressor and the transient
  suppressor write samples this way.\<close>

definition clamp_i16 :: "f32 \<Rightarrow> i16" where
  "clamp_i16 v = to_i16 (f_round (f_clamp v (Fin (- 32768)) (Fin 32767)))"

definition scale_sample :: "f32 \<Rightarrow> i16 \<Rightarrow> i16" where
  "scale_sample gain s = clamp_i16 (f_mul binary32 (i16_to_f32 s) gain)"

fun high_pass_frame :: "high_pass_state \<Rightarrow> i16 list \<Rightarrow> high_pass_state \<times> i16 list" where
  "high_pass_frame hp [] = (hp, [])"
| "high_pass_frame hp (s # ss) =
     (let input = i16_to_f32 s;
          output = f_mul binary32 (dec32 (98 / 100))
            (f_sub binary32 (f_add binary32 (hp_previous_output hp) input) (hp_previous_input hp));
          (hp', rest) = high_pass_frame \<lparr>hp_previous_input = input, hp_previous_output = output\<rparr> ss
      in (hp', clamp_i16 output # rest))"

definition speech_like :: "processing_profile \<Rightarrow> bool \<Rightarrow> i16 list \<Rightarrow> bool" where
  "speech_like profile speech_vad samples =
     (let meter = measure_i16 samples; features = voice_features samples meter;
          params = vad_params profile
      in if speech_vad
         then f_ge (fm_rms meter) (vp_open_rms params) \<and>
              f_le (vf_zero_crossing_rate features) (vp_max_zero_crossing_rate params) \<and>
              f_le (vf_crest_factor features) (vp_max_crest_factor params)
         else f_ge (fm_rms meter) (vp_open_rms params))"

definition vad_step :: "vad_parameters \<Rightarrow> f32 \<Rightarrow> bool \<Rightarrow> server_vad_state \<Rightarrow> server_vad_state" where
  "vad_step params rms speech s =
     (if speech
      then let s = s\<lparr>vad_speech_frames := min u64_max (vad_speech_frames s + 1)\<rparr>
           in if vad_speech_frames s \<ge> vp_open_frames params
              then s\<lparr>vad_open := True, vad_hold_frames := vp_hold_frames params\<rparr> else s
      else let s = s\<lparr>vad_speech_frames := 0\<rparr>
           in if vad_hold_frames s > 0 \<and> f_ge rms (vp_close_rms params)
              then s\<lparr>vad_hold_frames := vad_hold_frames s - 1\<rparr>
              else if f_lt rms (vp_close_rms params) then s\<lparr>vad_open := False\<rparr>
              else s)"

definition vad_gain_step :: "vad_parameters \<Rightarrow> server_vad_state \<Rightarrow> server_vad_state" where
  "vad_gain_step params s =
     (let target = (if vad_open s then Fin 1 else vp_closed_gain params);
          step = (if f_gt target (vad_gain s) then vp_attack params else vp_release params)
      in s\<lparr>vad_gain := f_add binary32 (vad_gain s)
             (f_mul binary32 (f_sub binary32 target (vad_gain s)) step)\<rparr>)"

definition gate_voice_frame ::
    "server_vad_state \<Rightarrow> processing_profile \<Rightarrow> bool \<Rightarrow> i16 list \<Rightarrow> server_vad_state \<times> i16 list \<times> bool" where
  "gate_voice_frame s profile speech_vad samples =
     (let params = vad_params profile;
          s = vad_gain_step params
                (vad_step params (fm_rms (measure_i16 samples)) (speech_like profile speech_vad samples) s)
      in (s, map (scale_sample (vad_gain s)) samples, vad_open s))"

fun transient_reduction :: "processing_profile \<Rightarrow> f32" where
  "transient_reduction VoiceIsolation = dec32 (18 / 100)"
| "transient_reduction Voice = dec32 (35 / 100)"
| "transient_reduction Broadcast = dec32 (7 / 10)"
| "transient_reduction Raw = Fin 1"

definition suppress_transient_frame ::
    "(f32 \<Rightarrow> f32) \<Rightarrow> processing_profile \<Rightarrow> i16 list \<Rightarrow> i16 list \<times> f32" where
  "suppress_transient_frame log10 profile samples =
     (let meter = measure_i16 samples; features = voice_features samples meter;
          params = vad_params profile; reduction = transient_reduction profile
      in if f_lt (fm_rms meter) (vp_open_rms params) \<or>
            f_le (vf_crest_factor features) (vp_transient_crest_factor params)
         then (samples, Fin 0)
         else if f_ge reduction (Fin 1) then (samples, Fin 0)
         else (map (scale_sample reduction) samples, f_mul binary32 (Fin (- 20)) (log10 reduction)))"

fun compressor_target :: "processing_profile \<Rightarrow> f32 option" where
  "compressor_target VoiceIsolation = Some (dec32 (14 / 100))"
| "compressor_target Voice = Some (dec32 (18 / 100))"
| "compressor_target Broadcast = Some (dec32 (24 / 100))"
| "compressor_target Raw = None"

fun compressor_ratio :: "processing_profile \<Rightarrow> f32" where
  "compressor_ratio VoiceIsolation = Fin 4"
| "compressor_ratio Voice = Fin 3"
| "compressor_ratio Broadcast = Fin 2"
| "compressor_ratio Raw = Fin 1"

definition compress_frame ::
    "(f32 \<Rightarrow> f32) \<Rightarrow> processing_profile \<Rightarrow> i16 list \<Rightarrow> i16 list \<times> f32" where
  "compress_frame log10 profile samples =
     (let rms = fm_rms (measure_i16 samples)
      in case compressor_target profile of
           None \<Rightarrow> (samples, Fin 0)
         | Some target \<Rightarrow>
             if f_le rms target then (samples, Fin 0)
             else let compressed = f_add binary32 target
                        (f_div binary32 (f_sub binary32 rms target) (compressor_ratio profile));
                      gain = f_clamp (f_div binary32 compressed rms) (dec32 (1 / 10)) (Fin 1)
                  in (map (scale_sample gain) samples, f_mul binary32 (Fin (- 20)) (log10 gain)))"

fun presence_samples :: "f32 \<Rightarrow> i16 list \<Rightarrow> i16 list" where
  "presence_samples previous [] = []"
| "presence_samples previous (s # ss) =
     (let input = i16_to_f32 s; presence = f_sub binary32 input previous
      in clamp_i16 (f_add binary32 input (f_mul binary32 presence (dec32 (1 / 10)))) #
         presence_samples input ss)"

fun sample_deltas :: "i16 list \<Rightarrow> f32 list" where
  "sample_deltas (a # b # xs) = f_of_int binary32 \<bar>sint b - sint a\<bar> # sample_deltas (b # xs)"
| "sample_deltas _ = []"

definition enhance_low_rate_voice :: "i16 list \<Rightarrow> i16 list" where
  "enhance_low_rate_voice samples =
     (if length samples < 2 then samples
      else let average_delta =
             f_div binary32 (fold (\<lambda>d s. f_add binary32 s d) (sample_deltas samples) (Fin 0))
               (f_of_int binary32 (int (length samples - 1)))
           in if f_lt average_delta (Fin 1) then samples
              else hd samples # presence_samples (i16_to_f32 (hd samples)) (tl samples))"

section \<open>Which stages run\<close>

definition effective_processing_pipeline :: "processing_config \<Rightarrow> processing_stage_config list" where
  "effective_processing_pipeline cfg =
     filter psc_enabled
       (if pc_pipeline cfg = [] then [\<lparr>psc_engine = pc_engine cfg, psc_enabled = True\<rparr>]
        else pc_pipeline cfg)"

definition processing_pipeline_has_non_builtin :: "processing_config \<Rightarrow> bool" where
  "processing_pipeline_has_non_builtin cfg =
     list_ex (\<lambda>stage. psc_engine stage \<noteq> BuiltIn) (effective_processing_pipeline cfg)"

definition processing_active :: "processing_config \<Rightarrow> codec \<Rightarrow> bool" where
  "processing_active cfg codec =
     (case pc_mode cfg of
        ModeEnabled \<Rightarrow> True
      | ModeDisabled \<Rightarrow> False
      | ModeAuto \<Rightarrow> pc_profile cfg \<noteq> Raw \<and>
          (processing_pipeline_has_non_builtin cfg \<or> pc_profile cfg = VoiceIsolation \<or> codec \<noteq> Pcm48))"

definition processing_cleanup_enabled :: "processing_config \<Rightarrow> bool" where
  "processing_cleanup_enabled cfg =
     (case pc_mode cfg of
        ModeEnabled \<Rightarrow> pc_profile cfg \<noteq> Raw
      | ModeDisabled \<Rightarrow> False
      | ModeAuto \<Rightarrow> pc_profile cfg \<noteq> Raw \<and>
          (processing_pipeline_has_non_builtin cfg \<or> pc_profile cfg = VoiceIsolation))"

definition level_normalization_enabled :: "processing_config \<Rightarrow> bool" where
  "level_normalization_enabled cfg = (pc_mode cfg \<noteq> ModeDisabled \<and> ln_enabled (pc_normalization cfg))"

fun processing_engine_available :: "processing_engine \<Rightarrow> bool" where
  "processing_engine_available BuiltIn = True"
| "processing_engine_available WebRtc = False"
| "processing_engine_available RnNoise = False"
| "processing_engine_available DeepFilterNet = False"

fun unavailable_processing_engine_detail :: "processing_engine \<Rightarrow> string" where
  "unavailable_processing_engine_detail BuiltIn = ''''"
| "unavailable_processing_engine_detail WebRtc = ''server was built without processing-webrtc''"
| "unavailable_processing_engine_detail RnNoise = ''server was built without processing-rnnoise''"
| "unavailable_processing_engine_detail DeepFilterNet =
     ''server was built without processing-deepfilternet''"

definition inactive_processing_engine_detail :: "processing_engine \<Rightarrow> string option" where
  "inactive_processing_engine_detail e =
     (if \<not> processing_engine_available e then Some (unavailable_processing_engine_detail e) else None)"

fun deep_filter_backend_name :: "deep_filter_backend \<Rightarrow> string" where
  "deep_filter_backend_name BackendAuto = ''auto''"
| "deep_filter_backend_name BackendTract = ''tract''"
| "deep_filter_backend_name BackendCoreMl = ''coreml''"

fun apple_compute_units_name :: "apple_compute_units \<Rightarrow> string" where
  "apple_compute_units_name CpuOnly = ''cpu_only''"
| "apple_compute_units_name CpuAndGpu = ''cpu_and_gpu''"
| "apple_compute_units_name CpuAndNeuralEngine = ''cpu_and_neural_engine''"
| "apple_compute_units_name AllUnits = ''all''"

section \<open>The built-in stage and its use as a fallback\<close>

record built_in_processing_context =
  bc_user_id :: user_id
  bc_codec :: codec
  bc_input :: frame_meter
  bc_engine :: processing_engine
  bc_engine_available :: bool
  bc_engine_detail :: "string option"

text \<open>What a stage does to a frame: the bank, the samples and a value it reports.\<close>

definition high_pass_stage ::
    "processing_config \<Rightarrow> user_id \<Rightarrow> audio_processor_bank \<times> i16 list \<Rightarrow> audio_processor_bank \<times> i16 list" where
  "high_pass_stage cfg u = (\<lambda>(bank, samples).
     if processing_cleanup_enabled cfg \<and> pc_high_pass cfg
     then let (hp, out) = high_pass_frame (case hm_get (pb_high_pass bank) u of
                 Some hp \<Rightarrow> hp | None \<Rightarrow> default_high_pass_state) samples
          in (bank\<lparr>pb_high_pass := hm_insert u hp (pb_high_pass bank)\<rparr>, out)
     else (bank, samples))"

definition gate_stage ::
    "processing_config \<Rightarrow> user_id \<Rightarrow> audio_processor_bank \<times> i16 list \<Rightarrow>
     audio_processor_bank \<times> i16 list \<times> bool" where
  "gate_stage cfg u = (\<lambda>(bank, samples).
     if processing_cleanup_enabled cfg \<and> (pc_noise_gate cfg \<or> pc_vad cfg)
     then let (vad, out, gate_open) = gate_voice_frame (case hm_get (pb_vad bank) u of
                 Some vad \<Rightarrow> vad | None \<Rightarrow> default_server_vad_state) (pc_profile cfg) (pc_vad cfg) samples
          in (bank\<lparr>pb_vad := hm_insert u vad (pb_vad bank)\<rparr>, out, gate_open)
     else (bank, samples, True))"

definition process_builtin ::
    "(f32 \<Rightarrow> f32) \<Rightarrow> built_in_processing_context \<Rightarrow> processing_config \<Rightarrow> audio_processor_bank \<Rightarrow>
     i16 list \<Rightarrow> audio_processor_bank \<times> i16 list \<times> processing_status" where
  "process_builtin log10 ctx cfg bank samples =
     (let cleanup = processing_cleanup_enabled cfg;
          (bank, samples) = high_pass_stage cfg (bc_user_id ctx) (bank, samples);
          samples = (if cleanup \<and> pc_transient_suppression cfg
                     then fst (suppress_transient_frame log10 (pc_profile cfg) samples) else samples);
          (bank, samples, gate_open) = gate_stage cfg (bc_user_id ctx) (bank, samples);
          (samples, reduction) = (if cleanup \<and> pc_compressor cfg
                                  then compress_frame log10 (pc_profile cfg) samples
                                  else (samples, Fin 0));
          samples = (if pc_presence cfg \<and> bc_codec ctx \<in> {Pcm16, Pcm24, Opus}
                     then enhance_low_rate_voice samples else samples)
      in (bank, samples,
          \<lparr>ps_active = True, ps_bypassed = False, ps_gate_open = gate_open,
           ps_engine = bc_engine ctx, ps_engine_available = bc_engine_available ctx,
           ps_engine_detail = bc_engine_detail ctx, ps_backend = None, ps_compute_units = None,
           ps_inference_ms = None, ps_input_rms = fm_rms (bc_input ctx),
           ps_output_rms = fm_rms (measure_i16 samples), ps_gain_reduction_db = reduction,
           ps_stages = [], ps_normalization = default_level_normalization_status\<rparr>))"

definition bypassed_status ::
    "bool \<Rightarrow> processing_engine \<Rightarrow> bool \<Rightarrow> string option \<Rightarrow> frame_meter \<Rightarrow> processing_status" where
  "bypassed_status gate_open engine available detail input =
     \<lparr>ps_active = False, ps_bypassed = True, ps_gate_open = gate_open, ps_engine = engine,
      ps_engine_available = available, ps_engine_detail = detail, ps_backend = None,
      ps_compute_units = None, ps_inference_ms = None, ps_input_rms = fm_rms input,
      ps_output_rms = fm_rms input, ps_gain_reduction_db = Fin 0, ps_stages = [],
      ps_normalization = default_level_normalization_status\<rparr>"

definition is_talking :: "frame_meter \<Rightarrow> bool" where
  "is_talking meter = f_ge (fm_rms meter) active_talker_rms_threshold"

definition processing_engine_unavailable_or_fallback ::
    "(f32 \<Rightarrow> f32) \<Rightarrow> user_id \<Rightarrow> codec \<Rightarrow> processing_config \<Rightarrow> frame_meter \<Rightarrow> processing_engine \<Rightarrow> string \<Rightarrow>
     audio_processor_bank \<Rightarrow> i16 list \<Rightarrow> audio_processor_bank \<times> i16 list \<times> processing_status" where
  "processing_engine_unavailable_or_fallback log10 u codec cfg input engine detail bank samples =
     (if pc_fallback_to_builtin cfg
      then process_builtin log10
             \<lparr>bc_user_id = u, bc_codec = codec, bc_input = input, bc_engine = engine,
              bc_engine_available = False,
              bc_engine_detail = Some (detail @ ''; used built-in fallback'')\<rparr> cfg bank samples
      else (bank, samples, bypassed_status (is_talking input) engine False (Some detail) input))"

definition deepfilternet_unavailable_or_fallback ::
    "(f32 \<Rightarrow> f32) \<Rightarrow> user_id \<Rightarrow> codec \<Rightarrow> processing_config \<Rightarrow> frame_meter \<Rightarrow> string \<Rightarrow>
     audio_processor_bank \<Rightarrow> i16 list \<Rightarrow> audio_processor_bank \<times> i16 list \<times> processing_status" where
  "deepfilternet_unavailable_or_fallback log10 u codec cfg input detail bank samples =
     (if pc_fallback_to_builtin cfg
      then process_builtin log10
             \<lparr>bc_user_id = u, bc_codec = codec, bc_input = input, bc_engine = DeepFilterNet,
              bc_engine_available = False,
              bc_engine_detail = Some (detail @ ''; used built-in fallback'')\<rparr> cfg bank samples
      else (bank, samples,
            (bypassed_status (is_talking input) DeepFilterNet False (Some detail) input)
              \<lparr>ps_backend := Some (deep_filter_backend_name (pc_deep_filter_backend cfg)),
               ps_compute_units := Some (apple_compute_units_name (pc_apple_compute_units cfg))\<rparr>))"

definition process_stage ::
    "(f32 \<Rightarrow> f32) \<Rightarrow> processing_engine \<Rightarrow> user_id \<Rightarrow> codec \<Rightarrow> processing_config \<Rightarrow> frame_meter \<Rightarrow>
     audio_processor_bank \<Rightarrow> i16 list \<Rightarrow> audio_processor_bank \<times> i16 list \<times> processing_status" where
  "process_stage log10 engine u codec cfg input bank samples =
     (case engine of
        BuiltIn \<Rightarrow> process_builtin log10
          \<lparr>bc_user_id = u, bc_codec = codec, bc_input = input, bc_engine = BuiltIn,
           bc_engine_available = True, bc_engine_detail = None\<rparr> cfg bank samples
      | WebRtc \<Rightarrow> processing_engine_unavailable_or_fallback log10 u codec cfg input WebRtc
          ''server was built without processing-webrtc'' bank samples
      | RnNoise \<Rightarrow> processing_engine_unavailable_or_fallback log10 u codec cfg input RnNoise
          ''server was built without processing-rnnoise'' bank samples
      | DeepFilterNet \<Rightarrow> deepfilternet_unavailable_or_fallback log10 u codec cfg input
          ''server was built without processing-deepfilternet'' bank samples)"

section \<open>The level normaliser\<close>

definition sanitize_level_normalization_config ::
    "level_normalization_config \<Rightarrow> level_normalization_config" where
  "sanitize_level_normalization_config c =
     \<lparr>ln_enabled = ln_enabled c,
      ln_target_rms = f_clamp (ln_target_rms c) (dec32 (2 / 100)) (dec32 (40 / 100)),
      ln_max_boost = f_clamp (ln_max_boost c) (Fin 1) (Fin 16),
      ln_max_attenuation = f_clamp (ln_max_attenuation c) (Fin 1) (Fin 32),
      ln_adaptation_ms = max 20 (min 5000 (ln_adaptation_ms c)),
      ln_noise_floor_rms = f_clamp (ln_noise_floor_rms c) (Fin 0) (dec32 (20 / 100))\<rparr>"

definition normalizer_min_gain :: "level_normalization_config \<Rightarrow> f32" where
  "normalizer_min_gain c = f_div binary32 (Fin 1) (f_max (ln_max_attenuation c) (Fin 1))"

definition normalizer_max_gain :: "level_normalization_config \<Rightarrow> f32" where
  "normalizer_max_gain c = f_max (ln_max_boost c) (Fin 1)"

definition desired_gain :: "level_normalization_config \<Rightarrow> f32 \<Rightarrow> f32" where
  "desired_gain c rms =
     f_clamp (f_div binary32 (ln_target_rms c) (f_max rms (dec32 (1 / 1000000))))
       (normalizer_min_gain c) (normalizer_max_gain c)"

definition adapt_gain ::
    "level_normalization_config \<Rightarrow> f32 \<Rightarrow> level_normalizer_state \<Rightarrow> level_normalizer_state" where
  "adapt_gain c desired s =
     (let s = (if \<not> nz_initialized s then s\<lparr>nz_gain := desired, nz_initialized := True\<rparr>
               else let base_step = f_clamp (f_div binary32 (f_of_int binary32 (int frame_ms))
                          (f_of_int binary32 (uint (max 10 (ln_adaptation_ms c)))))
                          (dec32 (1 / 100)) (Fin 1);
                        step = (if f_lt desired (nz_gain s)
                                then f_min (f_mul binary32 base_step (Fin 2)) (Fin 1)
                                else base_step)
                    in s\<lparr>nz_gain := f_add binary32 (nz_gain s)
                           (f_mul binary32 (f_sub binary32 desired (nz_gain s)) step)\<rparr>)
      in s\<lparr>nz_gain := f_clamp (nz_gain s) (normalizer_min_gain c) (normalizer_max_gain c)\<rparr>)"

definition applied_gain :: "level_normalization_config \<Rightarrow> f32 \<Rightarrow> f32 \<Rightarrow> f32" where
  "applied_gain c peak gain =
     (let peak_safety_gain =
            (if f_gt peak (Fin 0)
             then f_min (f_div binary32 (dec32 (98 / 100)) peak) (normalizer_max_gain c)
             else Fin 1)
      in f_max (f_min gain peak_safety_gain) (normalizer_min_gain c))"

definition scaled_round :: "f32 \<Rightarrow> i16" where
  "scaled_round v = to_i16 (f_clamp (f_round v) (Fin (- 32768)) (Fin 32767))"

definition clips :: "f32 \<Rightarrow> bool" where
  "clips scaled = (f_gt scaled (Fin 32767) \<or> f_lt scaled (Fin (- 32768)))"

definition normalize_input_level ::
    "user_id \<Rightarrow> level_normalization_config \<Rightarrow> bool \<Rightarrow> audio_processor_bank \<Rightarrow> i16 list \<Rightarrow>
     audio_processor_bank \<times> i16 list \<times> level_normalization_status" where
  "normalize_input_level u c gate_open bank samples =
     (let c = sanitize_level_normalization_config c;
          input = measure_i16 samples;
          status = default_level_normalization_status
            \<lparr>lns_input_rms := fm_rms input, lns_output_rms := fm_rms input,
             lns_target_rms := ln_target_rms c, lns_applied_gain := Fin 1, lns_desired_gain := Fin 1,
             lns_max_boost := ln_max_boost c, lns_max_attenuation := ln_max_attenuation c\<rparr>
      in if \<not> ln_enabled c then (bank, samples, status\<lparr>lns_reason := ''disabled''\<rparr>)
         else if \<not> gate_open then (bank, samples, status\<lparr>lns_reason := ''gate_closed''\<rparr>)
         else if f_lt (fm_rms input) (ln_noise_floor_rms c)
         then (bank, samples, status\<lparr>lns_reason := ''below_noise_floor''\<rparr>)
         else let desired = desired_gain c (fm_rms input);
                  s = adapt_gain c desired (case hm_get (pb_normalizers bank) u of
                        Some s \<Rightarrow> s | None \<Rightarrow> default_level_normalizer_state);
                  gain = applied_gain c (fm_peak input) (nz_gain s);
                  scaled = map (\<lambda>x. f_mul binary32 (i16_to_f32 x) gain) samples;
                  out = map scaled_round scaled
              in (bank\<lparr>pb_normalizers := hm_insert u s (pb_normalizers bank)\<rparr>, out,
                  status\<lparr>lns_active := True, lns_bypassed := False,
                         lns_output_rms := fm_rms (measure_i16 out), lns_applied_gain := gain,
                         lns_desired_gain := desired,
                         lns_clipping_events := of_nat (min (2 ^ 32 - 1) (length (filter clips scaled))),
                         lns_reason := (if f_lt gain desired then ''peak_limited'' else ''active'')\<rparr>))"

section \<open>A frame through the pipeline\<close>

definition processing_stage_status :: "processing_status \<Rightarrow> processing_stage_status" where
  "processing_stage_status s =
     \<lparr>pss_engine = ps_engine s, pss_active = ps_active s, pss_bypassed = ps_bypassed s,
      pss_available = ps_engine_available s, pss_detail = ps_engine_detail s,
      pss_backend = ps_backend s, pss_compute_units = ps_compute_units s,
      pss_inference_ms = ps_inference_ms s, pss_input_rms = ps_input_rms s,
      pss_output_rms = ps_output_rms s, pss_gain_reduction_db = ps_gain_reduction_db s\<rparr>"

definition gain_reduction_from_linear :: "(f32 \<Rightarrow> f32) \<Rightarrow> f32 \<Rightarrow> f32" where
  "gain_reduction_from_linear log10 gain =
     (if f_ge gain (Fin 1) then Fin 0
      else f_mul binary32 (Fin (- 20)) (log10 (f_max gain (dec32 (1 / 1000000)))))"

text \<open>The local variables of \<open>process\<close> while its loop runs.\<close>

record pipeline_state =
  pl_bank :: audio_processor_bank
  pl_samples :: "i16 list"
  pl_stages :: "processing_stage_status list"
  pl_gate_open :: bool
  pl_reduction :: f32
  pl_available :: bool
  pl_details :: "string list"
  pl_ran_stage :: bool

definition record_stage ::
    "pipeline_state \<Rightarrow> audio_processor_bank \<times> i16 list \<times> processing_status \<Rightarrow> pipeline_state" where
  "record_stage p = (\<lambda>(bank, samples, status).
     \<lparr>pl_bank = bank, pl_samples = samples,
      pl_stages = pl_stages p @ [processing_stage_status status],
      pl_gate_open = ps_gate_open status,
      pl_reduction = f_max (pl_reduction p) (ps_gain_reduction_db status),
      pl_available = (pl_available p \<and> ps_engine_available status),
      pl_details = pl_details p @ (case ps_engine_detail status of
                     Some d \<Rightarrow> if d = '''' then [] else [d] | None \<Rightarrow> []),
      pl_ran_stage = (pl_ran_stage p \<or> (ps_active status \<and> \<not> ps_bypassed status))\<rparr>)"

definition pipeline_step ::
    "(f32 \<Rightarrow> f32) \<Rightarrow> user_id \<Rightarrow> codec \<Rightarrow> processing_config \<Rightarrow> processing_stage_config \<Rightarrow>
     pipeline_state \<Rightarrow> pipeline_state" where
  "pipeline_step log10 u codec cfg stage p =
     record_stage p (process_stage log10 (psc_engine stage) u codec cfg
       (measure_i16 (pl_samples p)) (pl_bank p) (pl_samples p))"

definition start_pipeline :: "audio_processor_bank \<Rightarrow> i16 list \<Rightarrow> pipeline_state" where
  "start_pipeline bank samples =
     \<lparr>pl_bank = bank, pl_samples = samples, pl_stages = [],
      pl_gate_open = is_talking (measure_i16 samples), pl_reduction = Fin 0, pl_available = True,
      pl_details = [], pl_ran_stage = False\<rparr>"

definition joined_details :: "string list \<Rightarrow> string option" where
  "joined_details ds = (if ds = [] then None else Some (join ''; '' ds))"

text \<open>What is done after the stages: the frame is normalised, unless no stage ran and the normaliser
  is off.\<close>

definition pipeline_result ::
    "(f32 \<Rightarrow> f32) \<Rightarrow> user_id \<Rightarrow> processing_config \<Rightarrow> audio_processor_bank \<Rightarrow> i16 list \<Rightarrow> pipeline_state \<Rightarrow>
     audio_processor_bank \<times> i16 list \<times> processing_status" where
  "pipeline_result log10 u cfg bank samples p =
     (let input = measure_i16 samples; pipeline = effective_processing_pipeline cfg
      in if \<not> pl_ran_stage p \<and> \<not> level_normalization_enabled cfg
         then (pl_bank p, pl_samples p,
               (bypassed_status (is_talking input) (pc_engine cfg) (pl_available p)
                 (joined_details (pl_details p)) input)\<lparr>ps_stages := pl_stages p\<rparr>)
         else let (bank, samples, normalization) = normalize_input_level u (pc_normalization cfg)
                    (pl_gate_open p) (pl_bank p) (pl_samples p)
              in (bank, samples,
                  \<lparr>ps_active = (pl_ran_stage p \<or> lns_active normalization),
                   ps_bypassed = (\<not> pl_ran_stage p \<and> lns_bypassed normalization),
                   ps_gate_open = pl_gate_open p,
                   ps_engine = (case pipeline of [] \<Rightarrow> pc_engine cfg | stage # _ \<Rightarrow> psc_engine stage),
                   ps_engine_available = pl_available p,
                   ps_engine_detail = joined_details (pl_details p), ps_backend = None,
                   ps_compute_units = None, ps_inference_ms = None, ps_input_rms = fm_rms input,
                   ps_output_rms = fm_rms (measure_i16 samples),
                   ps_gain_reduction_db = f_max (pl_reduction p)
                     (gain_reduction_from_linear log10 (lns_applied_gain normalization)),
                   ps_stages = pl_stages p, ps_normalization = normalization\<rparr>))"

definition process ::
    "(f32 \<Rightarrow> f32) \<Rightarrow> user_id \<Rightarrow> codec \<Rightarrow> processing_config \<Rightarrow> audio_processor_bank \<Rightarrow> i16 list \<Rightarrow>
     audio_processor_bank \<times> i16 list \<times> processing_status" where
  "process log10 u codec cfg bank samples =
     (if \<not> processing_active cfg codec \<and> \<not> level_normalization_enabled cfg
      then (bank, samples,
            bypassed_status (is_talking (measure_i16 samples)) (pc_engine cfg)
              (processing_engine_available (pc_engine cfg))
              (inactive_processing_engine_detail (pc_engine cfg)) (measure_i16 samples))
      else pipeline_result log10 u cfg bank samples
             (fold (pipeline_step log10 u codec cfg)
               (filter psc_enabled (effective_processing_pipeline cfg)) (start_pipeline bank samples)))"

section \<open>The receive loop with its bank\<close>

definition bank_processor :: "(f32 \<Rightarrow> f32) \<Rightarrow> audio_processor_bank \<Rightarrow> processor" where
  "bank_processor log10 bank = (\<lambda>u codec cfg samples.
     case process log10 u codec cfg bank samples of (_, out, status) \<Rightarrow> (status, out))"

definition bank_after ::
    "(f32 \<Rightarrow> f32) \<Rightarrow> codec_libs \<Rightarrow> env \<Rightarrow> socket_addr \<Rightarrow> u8 list \<Rightarrow> server_state \<Rightarrow>
     audio_processor_bank \<Rightarrow> audio_processor_bank" where
  "bank_after log10 libs env from bytes st bank =
     (case packet_decode (take max_packet_bytes bytes) of
        Inl _ \<Rightarrow> bank
      | Inr p \<Rightarrow>
          let u = pkt_user_id p
          in if \<not> audio_user_is_enrolled st u \<or> is_registration p then bank
             else case audio_decode libs (pkt_codec p) (opus_profile_for_user st u) (pkt_payload p) of
                    Inl _ \<Rightarrow> bank
                  | Inr samples \<Rightarrow>
                      fst (process log10 u (pkt_codec p)
                        (processing_config_for_user
                          (register_audio_source env u (pkt_target p) (pkt_codec p) from st) u)
                        bank samples))"

definition run_audio_receiver_step ::
    "(f32 \<Rightarrow> f32) \<Rightarrow> codec_libs \<Rightarrow> env \<times> socket_addr \<times> u8 list \<Rightarrow>
     audio_processor_bank \<times> server_state \<Rightarrow> audio_processor_bank \<times> server_state" where
  "run_audio_receiver_step log10 libs = (\<lambda>(env, from, bytes) (bank, st).
     (bank_after log10 libs env from bytes st bank,
      receive_audio libs (bank_processor log10 bank) env from bytes st))"

section \<open>Frames keep their length\<close>

lemma length_high_pass [simp]: "length (snd (high_pass_frame hp ss)) = length ss"
  by (induction hp ss rule: high_pass_frame.induct) (auto simp: Let_def split: prod.splits)

lemma length_presence [simp]: "length (presence_samples p ss) = length ss"
  by (induction p ss rule: presence_samples.induct) (simp_all add: Let_def)

lemma length_enhance [simp]: "length (enhance_low_rate_voice ss) = length ss"
  by (cases ss) (simp_all add: enhance_low_rate_voice_def Let_def)

lemma length_transient [simp]: "length (fst (suppress_transient_frame l p ss)) = length ss"
  by (simp add: suppress_transient_frame_def Let_def)

lemma length_compress [simp]: "length (fst (compress_frame l p ss)) = length ss"
  by (simp add: compress_frame_def Let_def split: option.split)

lemma length_high_pass_stage [simp]: "length (snd (high_pass_stage cfg u (bank, ss))) = length ss"
  by (simp add: high_pass_stage_def split: prod.split) (metis length_high_pass snd_conv)

lemma length_gate_stage [simp]: "length (fst (snd (gate_stage cfg u (bank, ss)))) = length ss"
  by (simp add: gate_stage_def gate_voice_frame_def Let_def)

lemma length_builtin [simp]: "length (fst (snd (process_builtin l ctx cfg bank ss))) = length ss"
proof -
  obtain b1 s1 where hp: "high_pass_stage cfg (bc_user_id ctx) (bank, ss) = (b1, s1)" by fastforce
  define s2 where "s2 = (if processing_cleanup_enabled cfg \<and> pc_transient_suppression cfg
      then fst (suppress_transient_frame l (pc_profile cfg) s1) else s1)"
  obtain b3 s3 g where gate: "gate_stage cfg (bc_user_id ctx) (b1, s2) = (b3, s3, g)"
    by (metis prod_cases3)
  obtain s4 r where comp: "(if processing_cleanup_enabled cfg \<and> pc_compressor cfg
      then compress_frame l (pc_profile cfg) s3 else (s3, Fin 0)) = (s4, r)" by fastforce
  have "length s1 = length ss" using length_high_pass_stage [of cfg "bc_user_id ctx" bank ss] hp by simp
  moreover have "length s2 = length s1" by (simp add: s2_def)
  moreover have "length s3 = length s2" using length_gate_stage [of cfg "bc_user_id ctx" b1 s2] gate by simp
  moreover have "length s4 = length s3"
    using comp length_compress [of l "pc_profile cfg" s3]
    by (cases "processing_cleanup_enabled cfg \<and> pc_compressor cfg") auto
  ultimately show ?thesis
    by (simp add: process_builtin_def Let_def hp gate comp flip: s2_def)
qed

lemma length_stage [simp]:
  "length (fst (snd (process_stage l e u codec cfg input bank ss))) = length ss"
  by (simp add: process_stage_def processing_engine_unavailable_or_fallback_def
      deepfilternet_unavailable_or_fallback_def split: processing_engine.split)

lemma length_normalize [simp]:
  "length (fst (snd (normalize_input_level u c gate_open bank ss))) = length ss"
  by (simp add: normalize_input_level_def Let_def)

text \<open>A stage either ran, or is one whose engine is missing and that may not fall back: then
  it leaves the bank and the samples alone.\<close>

lemma stage_ran_or_idle:
  obtains bank' out st where "process_stage l e u codec cfg input bank ss = (bank', out, st)"
    "ps_active st \<and> \<not> ps_bypassed st \<or> bank' = bank \<and> out = ss \<and> \<not> ps_active st"
proof -
  have "ps_active (snd (snd (process_builtin l ctx cfg bank ss))) \<and>
      \<not> ps_bypassed (snd (snd (process_builtin l ctx cfg bank ss)))" for ctx
    by (simp add: process_builtin_def Let_def split: prod.split)
  then have "case process_stage l e u codec cfg input bank ss of (bank', out, st) \<Rightarrow>
      ps_active st \<and> \<not> ps_bypassed st \<or> bank' = bank \<and> out = ss \<and> \<not> ps_active st"
    by (cases e; cases "pc_fallback_to_builtin cfg")
      (simp_all add: process_stage_def processing_engine_unavailable_or_fallback_def
        bypassed_status_def deepfilternet_unavailable_or_fallback_def case_prod_unfold)
  then show ?thesis using that by (cases "process_stage l e u codec cfg input bank ss") auto
qed

definition pipeline_ok :: "audio_processor_bank \<Rightarrow> i16 list \<Rightarrow> pipeline_state \<Rightarrow> bool" where
  "pipeline_ok bank ss p =
     (length (pl_samples p) = length ss \<and>
      (if pl_ran_stage p then True else pl_bank p = bank \<and> pl_samples p = ss))"

lemma pipeline_step_ok: "pipeline_ok bank ss p \<Longrightarrow> pipeline_ok bank ss (pipeline_step l u codec cfg stage p)"
proof -
  assume ok: "pipeline_ok bank ss p"
  obtain bank' out st where st: "process_stage l (psc_engine stage) u codec cfg
      (measure_i16 (pl_samples p)) (pl_bank p) (pl_samples p) = (bank', out, st)"
    "ps_active st \<and> \<not> ps_bypassed st \<or> bank' = pl_bank p \<and> out = pl_samples p \<and> \<not> ps_active st"
    by (rule stage_ran_or_idle)
  have "length out = length (pl_samples p)"
    using length_stage [of l "psc_engine stage" u codec cfg "measure_i16 (pl_samples p)" "pl_bank p"
        "pl_samples p"] by (simp add: st)
  with ok st show ?thesis
    by (auto simp: pipeline_step_def record_stage_def pipeline_ok_def split: if_splits)
qed

lemma pipeline_fold_ok:
  "pipeline_ok bank ss p \<Longrightarrow> pipeline_ok bank ss (fold (pipeline_step l u codec cfg) stages p)"
  by (induction stages arbitrary: p) (simp_all add: pipeline_step_ok)

lemma normalize_bypassed:
  "case normalize_input_level u c gate_open bank ss of (bank', out, n) \<Rightarrow>
     (if lns_bypassed n then bank' = bank \<and> out = ss else True) \<and> lns_active n = (\<not> lns_bypassed n)"
  by (simp add: normalize_input_level_def Let_def default_level_normalization_status_def)

lemma bypassed_frames_facts:
  "case process l u codec cfg bank ss of (bank', out, status) \<Rightarrow>
     length out = length ss \<and> ps_active status = (\<not> ps_bypassed status) \<and>
     (if ps_bypassed status then bank' = bank \<and> out = ss else True)"
proof -
  let ?p = "fold (pipeline_step l u codec cfg)
      (filter psc_enabled (effective_processing_pipeline cfg)) (start_pipeline bank ss)"
  have "pipeline_ok bank ss ?p"
    by (rule pipeline_fold_ok) (simp add: pipeline_ok_def start_pipeline_def)
  then have p: "length (pl_samples ?p) = length ss"
      "\<not> pl_ran_stage ?p \<Longrightarrow> pl_bank ?p = bank \<and> pl_samples ?p = ss"
    by (auto simp: pipeline_ok_def split: if_splits)
  obtain b out n where n: "normalize_input_level u (pc_normalization cfg) (pl_gate_open ?p)
      (pl_bank ?p) (pl_samples ?p) = (b, out, n)" by (rule prod_cases3)
  have len: "length out = length ss"
    using length_normalize [of u "pc_normalization cfg" "pl_gate_open ?p" "pl_bank ?p" "pl_samples ?p"]
      n p(1) by simp
  have byp: "(if lns_bypassed n then b = pl_bank ?p \<and> out = pl_samples ?p else True) \<and>
      lns_active n = (\<not> lns_bypassed n)"
    using normalize_bypassed [where u = u and c = "pc_normalization cfg" and gate_open = "pl_gate_open ?p"
        and bank = "pl_bank ?p" and ss = "pl_samples ?p"]
    unfolding n prod.case .
  show ?thesis
    using p byp len unfolding process_def pipeline_result_def Let_def n prod.case
    by (auto simp: bypassed_status_def split: if_splits)
qed

section \<open>The gate over a history of frames\<close>

text \<open>Some \<open>k\<close> consecutive frames satisfied \<open>p\<close>, and every frame since then \<open>q\<close>.\<close>

definition run_then :: "nat \<Rightarrow> ('a \<Rightarrow> bool) \<Rightarrow> ('a \<Rightarrow> bool) \<Rightarrow> 'a list \<Rightarrow> bool" where
  "run_then k p q xs =
     (\<exists>pre run post. xs = pre @ run @ post \<and> length run = k \<and> list_all p run \<and> list_all q post)"

lemma trailing_run:
  "(\<exists>pre run. xs = pre @ run \<and> length run = k \<and> list_all p run) = (k \<le> length (takeWhile p (rev xs)))"
proof
  assume "\<exists>pre run. xs = pre @ run \<and> length run = k \<and> list_all p run"
  then obtain pre run where "xs = pre @ run" "length run = k" "\<forall>x \<in> set run. p x"
    by (auto simp: list_all_iff)
  moreover from this have "takeWhile p (rev run @ rev pre) = rev run @ takeWhile p (rev pre)"
    by (intro takeWhile_append2) simp
  ultimately show "k \<le> length (takeWhile p (rev xs))" by simp
next
  assume k: "k \<le> length (takeWhile p (rev xs))"
  let ?n = "length xs - k"
  have "rev (drop ?n xs) = take k (rev xs)" by (simp add: take_rev)
  also have "\<dots> = take k (takeWhile p (rev xs))"
    using k by (metis append_take_drop_id takeWhile_dropWhile_id take_append diff_is_0_eq take0 append_Nil2)
  finally have "set (drop ?n xs) = set (take k (takeWhile p (rev xs)))" by (metis set_rev)
  then have "list_all p (drop ?n xs)"
    by (auto simp: list_all_iff dest!: in_set_takeD set_takeWhileD)
  moreover have "k \<le> length xs" using k length_takeWhile_le [of p "rev xs"] by simp
  ultimately show "\<exists>pre run. xs = pre @ run \<and> length run = k \<and> list_all p run"
    by (intro exI [of _ "take ?n xs"] exI [of _ "drop ?n xs"]) simp
qed

lemma run_then_snoc:
  assumes "p x \<Longrightarrow> q x" "0 < k"
  shows "run_then k p q (xs @ [x]) =
     (if p x then k \<le> Suc (length (takeWhile p (rev xs))) \<or> run_then k p q xs
      else q x \<and> run_then k p q xs)"
proof -
  have "run_then k p q (xs @ [x]) =
      ((\<exists>pre run. xs @ [x] = pre @ run \<and> length run = k \<and> list_all p run) \<or> q x \<and> run_then k p q xs)"
    (is "?l = (?run \<or> ?r)")
  proof
    assume ?l
    then obtain pre run post where "xs @ [x] = pre @ run @ post" "length run = k"
        "list_all p run" "list_all q post" by (auto simp: run_then_def)
    then show "?run \<or> ?r"
      by (cases post rule: rev_cases) (force simp: run_then_def)+
  next
    assume "?run \<or> ?r"
    then show ?l
    proof
      assume ?run
      then obtain pre run where "xs @ [x] = pre @ run @ []" "length run = k" "list_all p run" by auto
      then show ?l unfolding run_then_def by (intro exI [of _ pre] exI [of _ run] exI [of _ "[]"]) simp
    next
      assume ?r
      then obtain pre run post where "xs @ [x] = pre @ run @ (post @ [x])" "length run = k"
          "list_all p run" "list_all q (post @ [x])" by (auto simp: run_then_def)
      then show ?l unfolding run_then_def by blast
    qed
  qed
  then show ?thesis using assms unfolding trailing_run by auto
qed

definition run_gate ::
    "processing_profile \<Rightarrow> bool \<Rightarrow> server_vad_state \<Rightarrow> i16 list list \<Rightarrow> server_vad_state" where
  "run_gate profile speech_vad s frames =
     fold (\<lambda>f s. fst (gate_voice_frame s profile speech_vad f)) frames s"

definition too_quiet :: "processing_profile \<Rightarrow> i16 list \<Rightarrow> bool" where
  "too_quiet profile f = f_lt (fm_rms (measure_i16 f)) (vp_close_rms (vad_params profile))"

lemma open_frames_range: "0 < vp_open_frames (vad_params p) \<and> vp_open_frames (vad_params p) \<le> 3"
  by (cases p) auto

lemma open_above_close:
  "\<not> f_lt (vp_open_rms (vad_params p)) (vp_close_rms (vad_params p)) \<and>
   vp_open_rms (vad_params p) \<noteq> NaN"
  by (cases p; simp) code_simp+

lemma speech_is_loud: "speech_like p v f \<Longrightarrow> \<not> too_quiet p f"
proof -
  assume "speech_like p v f"
  then have "f_le (vp_open_rms (vad_params p)) (fm_rms (measure_i16 f))"
    by (auto simp: speech_like_def Let_def f_ge_def split: if_splits)
  with open_above_close [of p] show ?thesis unfolding too_quiet_def
    by (cases "fm_rms (measure_i16 f)"; cases "vp_open_rms (vad_params p)";
        cases "vp_close_rms (vad_params p)") (auto simp: f_le_def f_eq_def)
qed

lemma gate_step_open:
  fixes s :: server_vad_state
  shows "vad_open (fst (gate_voice_frame s p v f)) =
     (if speech_like p v f
      then vad_open s \<or> vp_open_frames (vad_params p) \<le> min u64_max (vad_speech_frames s + 1)
      else \<not> too_quiet p f \<and> vad_open s)"
    "vad_speech_frames (fst (gate_voice_frame s p v f)) =
     (if speech_like p v f then min u64_max (vad_speech_frames s + 1) else 0)"
proof -
  have "f_ge r c \<Longrightarrow> \<not> f_lt r c" for r c
    by (cases r; cases c) (auto simp: f_ge_def f_le_def f_eq_def)
  then show "vad_open (fst (gate_voice_frame s p v f)) =
     (if speech_like p v f
      then vad_open s \<or> vp_open_frames (vad_params p) \<le> min u64_max (vad_speech_frames s + 1)
      else \<not> too_quiet p f \<and> vad_open s)"
    "vad_speech_frames (fst (gate_voice_frame s p v f)) =
     (if speech_like p v f then min u64_max (vad_speech_frames s + 1) else 0)"
    by (auto simp: gate_voice_frame_def vad_gain_step_def vad_step_def Let_def too_quiet_def)
qed

lemma run_gate_facts:
  "vad_open (run_gate p v default_server_vad_state frames) =
     run_then (vp_open_frames (vad_params p)) (speech_like p v) (\<lambda>f. \<not> too_quiet p f) frames"
  "vad_speech_frames (run_gate p v default_server_vad_state frames) =
     min u64_max (length (takeWhile (speech_like p v) (rev frames)))"
proof (induction frames rule: rev_induct)
  case Nil
  have "run_then k P Q [] = (k = 0)" for k and P Q :: "i16 list \<Rightarrow> bool"
    by (auto simp: run_then_def)
  with open_frames_range [of p]
  show "vad_open (run_gate p v default_server_vad_state []) =
     run_then (vp_open_frames (vad_params p)) (speech_like p v) (\<lambda>f. \<not> too_quiet p f) []"
    "vad_speech_frames (run_gate p v default_server_vad_state []) =
     min u64_max (length (takeWhile (speech_like p v) (rev [])))"
    by (simp_all add: run_gate_def default_server_vad_state_def)
next
  case (snoc f fs)
  let ?s = "run_gate p v default_server_vad_state fs" and ?k = "vp_open_frames (vad_params p)"
  have run: "run_gate p v default_server_vad_state (fs @ [f]) = fst (gate_voice_frame ?s p v f)"
    by (simp add: run_gate_def)
  have "?k \<le> min u64_max (min u64_max n + 1) \<longleftrightarrow> ?k \<le> Suc n" for n
    using open_frames_range [of p] by (auto simp: u64_max_def min_def)
  then show "vad_open (run_gate p v default_server_vad_state (fs @ [f])) =
     run_then ?k (speech_like p v) (\<lambda>f. \<not> too_quiet p f) (fs @ [f])"
    using open_frames_range [of p]
    by (subst run_then_snoc) (auto simp: run gate_step_open snoc.IH speech_is_loud)
  show "vad_speech_frames (run_gate p v default_server_vad_state (fs @ [f])) =
     min u64_max (length (takeWhile (speech_like p v) (rev (fs @ [f]))))"
    by (simp add: run gate_step_open snoc.IH min_def)
qed

text \<open>The hold counter is never read by what decides \<open>open\<close>: two gates that differ in it
  alone open and close together.\<close>

lemma hold_frames_without_effect:
  fixes s :: server_vad_state
  shows "vad_open (fst (gate_voice_frame (s\<lparr>vad_hold_frames := n\<rparr>) p v f)) =
    vad_open (fst (gate_voice_frame s p v f))"
  by (simp add: gate_step_open)

section \<open>The normaliser's gain\<close>

lemma sint_i16: "- 32768 \<le> sint (s :: i16)" "sint (s :: i16) \<le> 32767"
  using sint_ge [of s] sint_lt [of s] by simp_all

lemma rnd_within:
  assumes "- 32768 \<le> x" "x \<le> 32767"
  obtains y where "rnd binary32 x = Fin y" "- 32768 \<le> y" "y \<le> 32767"
proof (cases "0 \<le> x")
  case True
  then obtain y where "rnd binary32 x = Fin y" "0 \<le> y" "y \<le> of_nat 32767"
    by (rule rnd_le_int [of x 32767]) (use assms in simp_all)
  with that show ?thesis by simp
next
  case False
  then obtain y where "rnd binary32 (- x) = Fin y" "0 \<le> y" "y \<le> of_nat 32768"
    by (rule_tac rnd_le_int [of "- x" 32768]) (use assms in simp_all)
  with rnd_minus [of binary32 x] that [of "- y"] show ?thesis
    by (cases "rnd binary32 x") auto
qed

lemma i16_value:
  obtains v where "i16_to_f32 s = Fin v" "- 32768 \<le> v" "v \<le> 32767"
proof (rule rnd_within)
  show "- 32768 \<le> (of_int (sint s) :: rat)" "of_int (sint s) \<le> (32767 :: rat)"
    using sint_i16 [of s] of_int_le_iff [of "- 32768" "sint s", where ?'a = rat]
      of_int_le_iff [of "sint s" 32767, where ?'a = rat]
    by simp_all
qed (use that in \<open>simp add: i16_to_f32_def f_of_int_def\<close>)

lemma normalizer_gains:
  fixes c :: level_normalization_config
  defines "c' \<equiv> sanitize_level_normalization_config c"
  obtains lo hi where "normalizer_min_gain c' = Fin lo" "normalizer_max_gain c' = Fin hi"
    "0 \<le> lo" "lo \<le> 1" "1 \<le> hi" "hi \<le> 16"
proof -
  have r: "\<exists>a. f_max (f_clamp x (Fin 1) (Fin b)) (Fin 1) = Fin a \<and> 1 \<le> a \<and> a \<le> b" if "1 \<le> b" for x b
    using that by (cases x) (auto simp: f_clamp_def f_gt_def f_max_def)
  obtain a where a: "f_max (ln_max_attenuation c') (Fin 1) = Fin a" "1 \<le> a"
    using r [of 32 "ln_max_attenuation c"] by (auto simp: c'_def sanitize_level_normalization_config_def)
  obtain hi where hi: "normalizer_max_gain c' = Fin hi" "1 \<le> hi" "hi \<le> 16"
    using r [of 16 "ln_max_boost c"]
    by (auto simp: c'_def normalizer_max_gain_def sanitize_level_normalization_config_def)
  obtain lo where "rnd binary32 (1 / a) = Fin lo" "0 \<le> lo" "lo \<le> of_nat 1"
    using a(2) by (rule_tac rnd_le_int [of "1 / a" 1]) simp_all
  with a hi that show ?thesis by (auto simp: normalizer_min_gain_def)
qed

lemma stored_gain_range:
  assumes "normalizer_min_gain c = Fin lo" "normalizer_max_gain c = Fin hi" "lo \<le> hi"
  shows "nz_gain (adapt_gain c d s) = NaN \<or> in_range lo hi (nz_gain (adapt_gain c d s))"
proof -
  have "f_clamp x (Fin lo) (Fin hi) = NaN \<or> in_range lo hi (f_clamp x (Fin lo) (Fin hi))" for x
    using f_clamp_range [OF _ assms(3), of x] by (cases "x = NaN") (auto simp: f_clamp_def f_gt_def)
  then show ?thesis using assms(1,2) by (auto simp: adapt_gain_def Let_def)
qed

lemma applied_gain_range:
  assumes "normalizer_min_gain c = Fin lo" "normalizer_max_gain c = Fin hi"
    and lo: "0 \<le> lo" "lo \<le> 1" and hi: "1 \<le> hi" "hi \<le> 16" and p: "p \<le> 1"
    and g: "g = NaN \<or> in_range lo hi g"
  obtains a where "applied_gain c (Fin p) g = Fin a" "lo \<le> a" "a \<le> hi"
    "g \<noteq> NaN \<Longrightarrow> f_le (Fin a) g"
    "a = lo \<or> p \<le> 0 \<or> a * p \<le> 981 / 1000"
proof -
  define psg where "psg = (if f_gt (Fin p) (Fin 0)
      then f_min (f_div binary32 (dec32 (98 / 100)) (Fin p)) (Fin hi) else Fin 1)"
  have ap: "applied_gain c (Fin p) g = f_max (f_min g psg) (Fin lo)"
    using assms(1,2) by (simp add: applied_gain_def psg_def Let_def)
  have psg: "\<exists>b. psg = Fin b \<and> b \<le> hi \<and> (p \<le> 0 \<or> b * p \<le> 981 / 1000)"
  proof (cases "0 < p")
    case False
    then show ?thesis using hi by (simp add: psg_def f_gt_def)
  next
    case True
    have "dec32 (98 / 100) = Fin (2055209 / 2097152)" by code_simp
    then obtain t where t: "dec32 (98 / 100) = Fin t" "0 < t" "t \<le> 9801 / 10000"
      by (rule that) simp_all
    have small: "x * p \<le> 981 / 1000" if "p \<le> 1 / 2 ^ 90" "x \<le> hi" for x
    proof -
      have "x * p \<le> 16 * p" using that hi True by (intro mult_right_mono) simp_all
      also have "\<dots> \<le> 16 * (1 / 2 ^ 90)" using that by (intro mult_left_mono) simp_all
      finally show ?thesis by simp
    qed
    show ?thesis
    proof (cases "p \<le> 1 / 2 ^ 90")
      case p: True
      have "\<exists>b. psg = Fin b \<and> b \<le> hi"
        using True hi t by (cases "rnd binary32 (t / p)")
          (auto simp: psg_def f_gt_def f_min_def rnd_def Let_def divide_simps split: if_splits)
      with small [OF p] show ?thesis by blast
    next
      case False
      have "1 / p < 2 ^ 90" using False True by (simp add: divide_simps mult.commute)
      then have "t / p \<le> 2 ^ 90" using t True mult_left_le_one_le [of "1 / p" t] by (simp add: field_simps)
      then have "\<bar>t / p\<bar> \<le> 2 ^ 100" using t True by (simp add: abs_of_pos)
      then obtain b where b: "rnd binary32 (t / p) = Fin b"
          "\<bar>b - t / p\<bar> \<le> (\<bar>t / p\<bar> + pow2 (- 126)) / 2 ^ 24" by (rule rnd_near)
      have "b \<le> t / p + (t / p + pow2 (- 126)) / 2 ^ 24"
        using order_trans [OF abs_ge_self b(2)] t True by (simp only: abs_of_pos divide_pos_pos)
      then have "b * p \<le> (t / p + (t / p + pow2 (- 126)) / 2 ^ 24) * p"
        using True by (intro mult_right_mono) simp_all
      also have "\<dots> = t + (t + pow2 (- 126) * p) / 2 ^ 24" using True by (simp add: field_simps)
      also have "\<dots> \<le> 9801 / 10000 + (9801 / 10000 + pow2 (- 126) * 1) / 2 ^ 24"
        using t assms(7) by (intro add_mono divide_right_mono mult_left_mono) (simp_all add: less_imp_le)
      also have "\<dots> \<le> 981 / 1000" by (simp add: pow2_def)
      finally have bp: "b * p \<le> 981 / 1000" .
      then have "min b hi * p \<le> 981 / 1000"
        using True mult_right_mono [of "min b hi" b p] by linarith
      moreover have "psg = Fin (min b hi)"
        using True t b by (simp add: psg_def f_gt_def f_min_def min_def)
      ultimately show ?thesis by simp
    qed
  qed
  then obtain b where b: "psg = Fin b" "b \<le> hi" "p \<le> 0 \<or> b * p \<le> 981 / 1000" by blast
  define a where "a = (case g of Fin y \<Rightarrow> max (min y b) lo | _ \<Rightarrow> max b lo)"
  have a: "applied_gain c (Fin p) g = Fin a" "lo \<le> a" "a \<le> hi" "a = lo \<or> a \<le> b"
      "g \<noteq> NaN \<Longrightarrow> f_le (Fin a) g"
    using g b lo hi by (auto simp: ap f_max_def f_min_def a_def in_range_def f_le_def f_eq_def split: float.splits)
  have "a = lo \<or> p \<le> 0 \<or> a * p \<le> 981 / 1000"
    using a(4) b(3) mult_right_mono [of a b p] linear [of p 0] by (meson order_trans)
  with a that show ?thesis by blast
qed


lemma unit_sample:
  assumes "i16_to_f32 s = Fin v"
  obtains n where "normalize_sample s = Fin n" "0 \<le> n" "n \<le> 1"
    "n = 1 \<or> \<bar>v\<bar> / 32767 \<le> n + (\<bar>v\<bar> / 32767 + pow2 (- 126)) / 2 ^ 24"
proof -
  obtain v' where v': "i16_to_f32 s = Fin v'" "- 32768 \<le> v'" "v' \<le> 32767" by (rule i16_value)
  with assms have v: "- 32768 \<le> v" "v \<le> 32767" by simp_all
  then have "\<bar>v / 32767\<bar> \<le> 2 ^ 100" by (simp add: abs_le_iff)
  then obtain y where y: "rnd binary32 (v / 32767) = Fin y"
      "\<bar>y - v / 32767\<bar> \<le> (\<bar>v / 32767\<bar> + pow2 (- 126)) / 2 ^ 24" by (rule rnd_near)
  have "normalize_sample s = Fin (min \<bar>y\<bar> 1)"
    using y(1) by (simp add: normalize_sample_def assms i16_max_f32_def f_min_def min_def)
  moreover have "\<bar>v\<bar> / 32767 \<le> \<bar>y\<bar> + (\<bar>v\<bar> / 32767 + pow2 (- 126)) / 2 ^ 24"
  proof -
    have e: "\<bar>v / 32767\<bar> = \<bar>v\<bar> / 32767" by simp
    have "\<bar>v / 32767\<bar> \<le> \<bar>y\<bar> + \<bar>y - v / 32767\<bar>" by linarith
    with y(2) show ?thesis unfolding e by linarith
  qed
  ultimately show ?thesis using that [of "min \<bar>y\<bar> 1"] by (auto simp: min_def)
qed

lemma peak_measure_i16:
  obtains p where "fm_peak (measure_i16 ss) = Fin p" "0 \<le> p" "p \<le> 1"
    "\<And>s n. s \<in> set ss \<Longrightarrow> normalize_sample s = Fin n \<Longrightarrow> n \<le> p"
proof -
  have "\<exists>p. fold (\<lambda>s m. f_max m s) (map normalize_sample ss) (Fin q) = Fin p \<and> q \<le> p \<and> p \<le> 1 \<and>
      (\<forall>s \<in> set ss. \<forall>n. normalize_sample s = Fin n \<longrightarrow> n \<le> p)" if "0 \<le> q" "q \<le> 1" for q
    using that
  proof (induction ss arbitrary: q)
    case (Cons s ss)
    obtain v where "i16_to_f32 s = Fin v" by (rule i16_value)
    then obtain n where n: "normalize_sample s = Fin n" "0 \<le> n" "n \<le> 1" by (rule unit_sample)
    then have "0 \<le> max q n" "max q n \<le> 1" using Cons.prems by simp_all
    from Cons.IH [OF this] n show ?case by (auto simp: f_max_def max_def split: if_splits)
  qed simp
  from this [of 0] obtain p where p: "fold (\<lambda>s m. f_max m s) (map normalize_sample ss) (Fin 0) = Fin p"
    "0 \<le> p" "p \<le> 1" "\<forall>s \<in> set ss. \<forall>n. normalize_sample s = Fin n \<longrightarrow> n \<le> p" by auto
  moreover have "fm_peak (measure_i16 ss) = fold (\<lambda>s m. f_max m s) (map normalize_sample ss) (Fin 0)"
    using fst_fold_meter [of "map normalize_sample ss" "Fin 0" "Fin 0"]
    by (cases "fold meter_step (map normalize_sample ss) (Fin 0, Fin 0)")
      (simp add: measure_i16_def meter_of_def)
  ultimately show ?thesis using that by auto
qed

lemma absorb_error:
  "x \<le> m + (x + k) / 2 ^ 24 \<Longrightarrow> m \<le> 981 / 1000 \<Longrightarrow> k \<le> 1 \<Longrightarrow> x \<le> (99 / 100 :: rat)"
  by (simp add: field_simps)

lemma scaled_in_range:
  assumes "s \<in> set ss" "fm_peak (measure_i16 ss) = Fin p" "0 \<le> a" "a \<le> 16"
    and a: "a \<le> 1 \<or> p \<le> 0 \<or> a * p \<le> 981 / 1000"
  shows "\<not> clips (f_mul binary32 (i16_to_f32 s) (Fin a))"
proof -
  obtain v where v: "i16_to_f32 s = Fin v" "- 32768 \<le> v" "v \<le> 32767" by (rule i16_value)
  from v(1) obtain n where n: "normalize_sample s = Fin n" "0 \<le> n" "n \<le> 1"
      "n = 1 \<or> \<bar>v\<bar> / 32767 \<le> n + (\<bar>v\<bar> / 32767 + pow2 (- 126)) / 2 ^ 24" by (rule unit_sample)
  obtain p' where "fm_peak (measure_i16 ss) = Fin p'" "\<And>n. normalize_sample s = Fin n \<Longrightarrow> n \<le> p'" "p' \<le> 1"
    by (rule peak_measure_i16 [of ss]) (use assms(1) in blast)
  with assms(2) n(1) have np: "n \<le> p" "p \<le> 1" by auto
  have "- 32768 \<le> v * a \<and> v * a \<le> 32767"
  proof (cases "a \<le> 1")
    case True
    show ?thesis
    proof (cases "0 \<le> v")
      case pos: True
      then have "0 \<le> v * a" "v * a \<le> v * 1" using True assms(3) by (simp, intro mult_left_mono)
      with v pos show ?thesis by linarith
    next
      case neg: False
      then have "v * a \<le> 0" "v * 1 \<le> v * a"
        using True assms(3) by (simp add: mult_nonpos_nonneg, intro mult_left_mono_neg) simp_all
      with v show ?thesis by linarith
    qed
  next
    case False
    with a have ap: "a * p \<le> 981 / 1000 \<or> p \<le> 0" by blast
    have an: "a * n \<le> 981 / 1000"
    proof (cases "p \<le> 0")
      case True
      then have "n = 0" using np n(2) by linarith
      then show ?thesis by simp
    next
      case False
      with ap have "a * p \<le> 981 / 1000" by blast
      with mult_left_mono [OF np(1) assms(3)] show ?thesis by linarith
    qed
    have "a * (\<bar>v\<bar> / 32767) \<le> 99 / 100"
    proof (cases "n = 1")
      case True
      have "\<bar>v\<bar> / 32767 \<le> 32768 / 32767" using v by (simp add: abs_le_iff)
      then have "a * (\<bar>v\<bar> / 32767) \<le> a * (32768 / 32767)" using assms(3) by (rule mult_left_mono)
      also have "\<dots> \<le> 99 / 100" using an True by simp
      finally show ?thesis .
    next
      case False
      let ?w = "\<bar>v\<bar> / 32767"
      have "a * ?w \<le> a * (n + (?w + pow2 (- 126)) / 2 ^ 24)"
        using n(4) False assms(3) by (intro mult_left_mono) simp_all
      also have "\<dots> = a * n + (a * ?w + a * pow2 (- 126)) / 2 ^ 24" by (simp add: field_simps)
      also have "a * pow2 (- 126) \<le> 16 * pow2 (- 126)" using assms(4) by simp
      finally have w: "a * ?w \<le> a * n + (a * ?w + 16 * pow2 (- 126)) / 2 ^ 24"
        by (simp add: divide_right_mono)
      have "16 * pow2 (- 126) \<le> 1" by (simp add: pow2_def)
      with w an show ?thesis by (rule absorb_error)
    qed
    then have "\<bar>v * a\<bar> \<le> 32767" using assms(3) by (simp add: abs_mult mult.commute)
    then show ?thesis by (simp add: abs_le_iff)
  qed
  then obtain y where "rnd binary32 (v * a) = Fin y" "- 32768 \<le> y" "y \<le> 32767"
    by (rule_tac rnd_within [of "v * a"]) simp_all
  then show ?thesis by (simp add: v(1) clips_def f_gt_def)
qed


lemma normalizer_bounds_facts:
  fixes c :: level_normalization_config
  defines "c' \<equiv> sanitize_level_normalization_config c"
  shows "case normalize_input_level u c gate_open bank ss of (bank', out, n) \<Rightarrow>
    lns_clipping_events n = 0 \<and>
    lns_active n = (ln_enabled c \<and> gate_open \<and> \<not> f_lt (fm_rms (measure_i16 ss)) (ln_noise_floor_rms c')) \<and>
    (\<exists>lo hi. normalizer_min_gain c' = Fin lo \<and> normalizer_max_gain c' = Fin hi \<and>
       0 \<le> lo \<and> lo \<le> 1 \<and> 1 \<le> hi \<and> hi \<le> 16 \<and>
       (if lns_active n
        then in_range lo hi (lns_applied_gain n) \<and>
          (\<exists>s. pb_normalizers bank' = hm_insert u s (pb_normalizers bank) \<and>
             (nz_gain s = NaN \<or> in_range lo hi (nz_gain s) \<and> f_le (lns_applied_gain n) (nz_gain s)))
        else bank' = bank \<and> out = ss \<and> lns_applied_gain n = Fin 1))"
proof -
  obtain lo hi where g: "normalizer_min_gain c' = Fin lo" "normalizer_max_gain c' = Fin hi"
    "0 \<le> lo" "lo \<le> 1" "1 \<le> hi" "hi \<le> 16"
    unfolding c'_def by (rule normalizer_gains)
  let ?input = "measure_i16 ss"
  let ?d = "desired_gain c' (fm_rms ?input)"
  let ?s = "adapt_gain c' ?d (case hm_get (pb_normalizers bank) u of
      Some s \<Rightarrow> s | None \<Rightarrow> default_level_normalizer_state)"
  obtain p where p: "fm_peak ?input = Fin p" "p \<le> 1" by (rule peak_measure_i16)
  have st: "nz_gain ?s = NaN \<or> in_range lo hi (nz_gain ?s)"
    using g by (intro stored_gain_range) simp_all
  from applied_gain_range [OF g p(2) st]
  obtain a where a: "applied_gain c' (Fin p) (nz_gain ?s) = Fin a" "lo \<le> a" "a \<le> hi"
    "nz_gain ?s \<noteq> NaN \<Longrightarrow> f_le (Fin a) (nz_gain ?s)" "a = lo \<or> p \<le> 0 \<or> a * p \<le> 981 / 1000"
    by metis
  have "\<not> clips (f_mul binary32 (i16_to_f32 s) (Fin a))" if "s \<in> set ss" for s
    using a(2,3,5) g(3-6) by (intro scaled_in_range [OF that p(1)]) auto
  then have none: "filter (clips \<circ> (\<lambda>x. f_mul binary32 (i16_to_f32 x) (Fin a))) ss = []"
    by (auto simp: filter_empty_conv)
  have en: "ln_enabled c' = ln_enabled c"
    by (simp add: c'_def sanitize_level_normalization_config_def)
  consider "\<not> (ln_enabled c \<and> gate_open \<and> \<not> f_lt (fm_rms ?input) (ln_noise_floor_rms c'))"
    | "ln_enabled c" "gate_open" "\<not> f_lt (fm_rms ?input) (ln_noise_floor_rms c')" by blast
  then show ?thesis
  proof cases
    case 1
    then show ?thesis using g
      by (auto simp: normalize_input_level_def Let_def en default_level_normalization_status_def
          simp flip: c'_def)
  next
    case 2
    let ?r = "normalize_input_level u c gate_open bank ss"
    have r: "pb_normalizers (fst ?r) = hm_insert u ?s (pb_normalizers bank)"
      "lns_active (snd (snd ?r))" "lns_applied_gain (snd (snd ?r)) = Fin a"
      "lns_clipping_events (snd (snd ?r)) = 0"
      using 2 by (simp_all add: normalize_input_level_def Let_def en p(1) a(1) none flip: c'_def)
    have "nz_gain ?s = NaN \<or> in_range lo hi (nz_gain ?s) \<and> f_le (Fin a) (nz_gain ?s)"
      using st a(4) by blast
    with r(1) have "\<exists>s. pb_normalizers (fst ?r) = hm_insert u s (pb_normalizers bank) \<and>
        (nz_gain s = NaN \<or> in_range lo hi (nz_gain s) \<and> f_le (Fin a) (nz_gain s))" by blast
    with r 2 g a(2,3) show ?thesis by (simp add: case_prod_unfold)
  qed
qed


section \<open>Properties\<close>

text \<open>A profile of Raw in automatic mode asks for no processing; when only the normaliser is
  enabled, the pipeline runs all the same, and its built-in stage applies the presence
  filter, which ignores the profile.\<close>

definition raw_with_normalizer :: processing_config where
  "raw_with_normalizer = default_processing_config
     \<lparr>pc_profile := Raw, pc_normalization := default_level_normalization_config\<lparr>ln_enabled := True\<rparr>\<rparr>"

lemma normalizer_starts_presence:
  "\<not> processing_active raw_with_normalizer Pcm16" "\<not> processing_cleanup_enabled raw_with_normalizer"
  "ps_active (snd (snd (process l u Pcm16 raw_with_normalizer bank ss)))"
proof -
  show n: "\<not> processing_active raw_with_normalizer Pcm16"
      "\<not> processing_cleanup_enabled raw_with_normalizer"
    by (simp_all add: raw_with_normalizer_def default_processing_config_def processing_active_def
        processing_cleanup_enabled_def)
  have e: "level_normalization_enabled raw_with_normalizer"
    "effective_processing_pipeline raw_with_normalizer = [\<lparr>psc_engine = BuiltIn, psc_enabled = True\<rparr>]"
    by (simp_all add: raw_with_normalizer_def default_processing_config_def level_normalization_enabled_def
        effective_processing_pipeline_def)
  have "pl_ran_stage (pipeline_step l u Pcm16 raw_with_normalizer \<lparr>psc_engine = BuiltIn, psc_enabled = True\<rparr> p)" for p
    by (simp add: pipeline_step_def record_stage_def process_stage_def process_builtin_def Let_def split: prod.split)
  then show "ps_active (snd (snd (process l u Pcm16 raw_with_normalizer bank ss)))"
    by (simp add: process_def pipeline_result_def e Let_def split: prod.split)
qed

text \<open>Voice processing returns a frame of the length it was given, and a frame it reports
  as bypassed is delivered exactly as it came, without a trace in any user's filter, gate or
  normaliser state; whatever the configuration, the pipeline and the engines missing.\<close>

lemma bypassed_frames_are_untouched:
  "case process log10 u codec cfg bank samples of (bank', out, status) \<Rightarrow>
     length out = length samples \<and> ps_active status = (\<not> ps_bypassed status) \<and>
     (if ps_bypassed status then bank' = bank \<and> out = samples else True)"
  by (rule bypassed_frames_facts)

text \<open>C12. The voice gate, run over any number of frames from its start, is open exactly when
  some \<open>open_frames\<close> consecutive frames sounded like speech and no frame after them was
  quieter than the closing threshold. The hold time plays no part in it.\<close>

theorem gate_open_iff:
  "vad_open (run_gate profile speech_vad default_server_vad_state frames) =
     run_then (vp_open_frames (vad_params profile)) (speech_like profile speech_vad)
       (\<lambda>f. \<not> too_quiet profile f) frames"
  by (rule run_gate_facts)

text \<open>The level normaliser acts exactly on the frames of an enabled configuration, an open
  gate and a level above the noise floor, and then for this user only. The gain it applies
  lies between one over the largest attenuation and the largest boost of the sanitised
  configuration, never above its adapted gain, and no sample ever clips, whatever the
  configuration and the frame.\<close>

lemma normalizer_bounds:
  "case normalize_input_level u c gate_open bank samples of (bank', out, n) \<Rightarrow>
    lns_clipping_events n = 0 \<and>
    lns_active n = (ln_enabled c \<and> gate_open \<and>
      \<not> f_lt (fm_rms (measure_i16 samples)) (ln_noise_floor_rms (sanitize_level_normalization_config c))) \<and>
    (\<exists>lo hi. normalizer_min_gain (sanitize_level_normalization_config c) = Fin lo \<and>
       normalizer_max_gain (sanitize_level_normalization_config c) = Fin hi \<and>
       0 \<le> lo \<and> lo \<le> 1 \<and> 1 \<le> hi \<and> hi \<le> 16 \<and>
       (if lns_active n
        then in_range lo hi (lns_applied_gain n) \<and>
          (\<exists>s. pb_normalizers bank' = hm_insert u s (pb_normalizers bank) \<and>
             (nz_gain s = NaN \<or> in_range lo hi (nz_gain s) \<and> f_le (lns_applied_gain n) (nz_gain s)))
        else bank' = bank \<and> out = samples \<and> lns_applied_gain n = Fin 1))"
  by (rule normalizer_bounds_facts)

end
