(* ===== verification/Receiver_Run.thy ===== *)
theory Receiver_Run
  imports Server_Run Voice_Processing
begin

text \<open>
  The receive loop \<open>run_audio_receiver\<close> over any sequence of datagrams, with the processor
  bank it owns: decoding, voice processing and queueing together hand the mixer whole frames
  only.
\<close>

definition full_queues :: "server_state \<Rightarrow> bool" where
  "full_queues st =
     (\<forall>u. length (queued st u) \<le> 6 \<and>
        list_all (\<lambda>f. length (qf_samples f) = mix_samples_per_frame) (queued st u))"

lemma process_length: "length (snd (bank_processor log10 bank u codec cfg samples)) = length samples"
  using bypassed_frames_facts [where l = log10 and u = u and codec = codec and cfg = cfg and bank = bank
      and ss = samples]
  by (simp add: bank_processor_def case_prod_unfold)

lemma last_n_le: "length (last_n n xs) \<le> n"
  by (simp add: last_n_def)

lemma set_last_n: "set (last_n n xs) \<subseteq> set xs"
  by (simp add: last_n_def set_drop_subset)

lemma decoded_length: "audio_decode libs c p bs = Inr samples \<Longrightarrow> length samples = mix_samples_per_frame"
  using decode_opus_length decode_pcm_length
  by (cases c) (auto simp: frame_lengths)

lemma receive_keeps_full:
  assumes "sources_ok st" "full_queues st"
  shows "full_queues (receive_audio libs (bank_processor log10 bank) env a bytes st)"
proof -
  let ?st' = "receive_audio libs (bank_processor log10 bank) env a bytes st"
  have ok: "queues_ok st" using assms(1) by (simp add: sources_ok_def)
  note eff = receive_audio_facts [OF ok, where libs = libs and process = "bank_processor log10 bank"
      and env = env and ?from = a and bytes = bytes]
  have same: "st_sources ?st' = st_sources st \<Longrightarrow> ?thesis"
    using assms(2) by (simp add: full_queues_def queued_def)
  show ?thesis
  proof (cases "packet_decode (take max_packet_bytes bytes)")
    case (Inl e)
    with eff show ?thesis by (auto intro: same)
  next
    case (Inr p)
    consider "st_sources ?st' = st_sources st"
      | samples out where "audio_decode libs (pkt_codec p) (opus_profile_for_user st (pkt_user_id p))
            (pkt_payload p) = Inr samples"
        "length out = length samples"
        "queued ?st' = (queued st)(pkt_user_id p :=
            last_n 6 (queued st (pkt_user_id p) @ [plain_frame (pkt_target p) out]))"
      using eff unfolding Inr sum.case
      by (auto split: if_splits sum.splits intro: that(1) that(2) [OF _ process_length])
    then show ?thesis
    proof cases
      case 2
      have "qf_samples (plain_frame (pkt_target p) out) = out" by (simp add: plain_frame_def)
      then show ?thesis
        using assms(2) 2(2) decoded_length [OF 2(1)] set_last_n
        by (fastforce simp: full_queues_def 2(3) last_n_le list_all_iff)
    qed (rule same)
  qed
qed

lemma receiver_runs_full:
  assumes "sources_ok st" "full_queues st"
  shows "case fold (run_audio_receiver_step log10 libs) datagrams (bank, st) of (bank', st') \<Rightarrow>
    sources_ok st' \<and> full_queues st'"
  using assms
proof (induction datagrams arbitrary: bank st)
  case (Cons d ds)
  obtain env a bytes where d: "d = (env, a, bytes)" by (rule prod_cases3)
  show ?case
    unfolding fold.simps comp_apply d run_audio_receiver_step_def prod.case
    by (rule Cons.IH [unfolded run_audio_receiver_step_def])
      (use Cons.prems sources_ok_receive receive_keeps_full in blast)+
qed simp

text \<open>C11. Whatever datagrams arrive from whomever, in whatever order, and whatever processing
  their senders are configured for, no queue ever holds more than six frames and every queued
  frame is one whole mixer frame of 480 samples, which the mixer therefore never has to skip.\<close>

theorem received_frames_are_full:
  assumes "sources_ok st" "full_queues st"
  shows "case fold (run_audio_receiver_step log10 libs) datagrams (bank, st) of (bank', st') \<Rightarrow>
    sources_ok st' \<and> full_queues st'"
  using assms by (rule receiver_runs_full)

theorem received_frames_are_full_witness:
  "case fold (run_audio_receiver_step (\<lambda>x. x) no_libs)
      [(sample_env, 40001, packet_bytes (registration 1 Pcm48 0)),
       (sample_env, 40001, packet_bytes ((registration 1 Pcm48 0)\<lparr>pkt_payload := replicate 960 7\<rparr>))]
      (default_audio_processor_bank, two_clients) of (bank', st') \<Rightarrow>
    sources_ok st' \<and> full_queues st'"
  by (rule received_frames_are_full)
    (simp_all add: two_clients_def server_state_new_def sources_ok_def queues_ok_def full_queues_def
      queued_def)

end
