(* ===== verification/Client_Playback.thy ===== *)
theory Client_Playback
  imports Interfaces Audio_Levels Telemetry
begin

text \<open>
  The playback side of a client (\<open>clients/core/src/lib.rs\<close>): \<open>PlaybackBuffer\<close>, the ring of
  decoded samples the sound card is fed from, with its prebuffering and its counters; the
  cue sounds of connection changes (the sine is an argument); the gain settings; and the
  telemetry built from the counters. The buffer is a bounded first-in first-out queue in
  the sense of the shared contract.
\<close>

section \<open>The playback buffer\<close>

record playback_buffer =
  pbf_samples :: "i16 list"
  pbf_read :: nat
  pbf_capacity :: nat
  pbf_prebuffer_samples :: nat
  pbf_channels :: nat
  pbf_started :: bool
  pbf_underflows :: nat
  pbf_overflows :: nat
  pbf_dropped_samples :: nat

definition playback_buffer_new :: "nat \<Rightarrow> nat \<Rightarrow> playback_buffer" where
  "playback_buffer_new capacity prebuffer =
     \<lparr>pbf_samples = [], pbf_read = 0, pbf_capacity = capacity, pbf_prebuffer_samples = prebuffer,
      pbf_channels = 1, pbf_started = (prebuffer = 0), pbf_underflows = 0, pbf_overflows = 0,
      pbf_dropped_samples = 0\<rparr>"

definition clear :: "playback_buffer \<Rightarrow> playback_buffer" where
  "clear b = b\<lparr>pbf_samples := [], pbf_read := 0, pbf_started := (pbf_prebuffer_samples b = 0)\<rparr>"

definition compact_consumed :: "playback_buffer \<Rightarrow> playback_buffer" where
  "compact_consumed b =
     (if pbf_read b > 0 then b\<lparr>pbf_samples := drop (pbf_read b) (pbf_samples b), pbf_read := 0\<rparr>
      else b)"

definition set_channels :: "nat \<Rightarrow> playback_buffer \<Rightarrow> playback_buffer" where
  "set_channels channels b =
     (let channels = max channels 1
      in if pbf_channels b \<noteq> channels then (clear b)\<lparr>pbf_channels := channels\<rparr> else b)"

definition push_frame :: "i16 list \<Rightarrow> nat \<Rightarrow> playback_buffer \<Rightarrow> playback_buffer" where
  "push_frame samples channels b =
     (let channels = max channels 1;
          b = (if pbf_channels b \<noteq> channels then (clear b)\<lparr>pbf_channels := channels\<rparr> else b);
          b = compact_consumed b;
          b = b\<lparr>pbf_samples := pbf_samples b @ samples\<rparr>
      in if length (pbf_samples b) > pbf_capacity b
         then let excess = length (pbf_samples b) - pbf_capacity b
              in b\<lparr>pbf_samples := drop excess (pbf_samples b),
                   pbf_overflows := pbf_overflows b + 1,
                   pbf_dropped_samples := pbf_dropped_samples b + excess\<rparr>
         else b)"

definition push :: "i16 list \<Rightarrow> playback_buffer \<Rightarrow> playback_buffer" where
  "push samples b = push_frame samples 1 b"

definition available_samples :: "playback_buffer \<Rightarrow> nat" where
  "available_samples b = length (pbf_samples b) - pbf_read b"

definition pop_sample :: "playback_buffer \<Rightarrow> i16 option \<times> playback_buffer" where
  "pop_sample b =
     (if \<not> pbf_started b \<and> available_samples b < pbf_prebuffer_samples b then (None, b)
      else let b = b\<lparr>pbf_started := True\<rparr>
           in if pbf_read b < length (pbf_samples b)
              then (Some (pbf_samples b ! pbf_read b), b\<lparr>pbf_read := pbf_read b + 1\<rparr>)
              else (None, b\<lparr>pbf_underflows := pbf_underflows b + 1,
                            pbf_started := (pbf_prebuffer_samples b = 0)\<rparr>))"

definition pop_stereo :: "playback_buffer \<Rightarrow> (i16 \<times> i16) option \<times> playback_buffer" where
  "pop_stereo b =
     (if pbf_channels b = 2
      then (case pop_sample b of
              (None, b) \<Rightarrow> (None, b)
            | (Some left, b) \<Rightarrow>
                (case pop_sample b of
                   (right, b) \<Rightarrow>
                     (Some (left, case right of None \<Rightarrow> left | Some right \<Rightarrow> right), b)))
      else (case pop_sample b of
              (None, b) \<Rightarrow> (None, b)
            | (Some sample, b) \<Rightarrow> (Some (sample, sample), b)))"

record playback_stats =
  pst_available_samples :: nat
  pst_capacity_samples :: nat
  pst_prebuffer_samples :: nat
  pst_channels :: nat
  pst_started :: bool
  pst_underflows :: nat
  pst_overflows :: nat
  pst_dropped_samples :: nat

definition playback_stats_of :: "playback_buffer \<Rightarrow> playback_stats" where
  "playback_stats_of b =
     \<lparr>pst_available_samples = available_samples b, pst_capacity_samples = pbf_capacity b,
      pst_prebuffer_samples = pbf_prebuffer_samples b, pst_channels = pbf_channels b,
      pst_started = pbf_started b, pst_underflows = pbf_underflows b,
      pst_overflows = pbf_overflows b, pst_dropped_samples = pbf_dropped_samples b\<rparr>"

definition samples_for_ms :: "nat \<Rightarrow> nat" where
  "samples_for_ms ms =
     (if ms = 0 then 0 else max ((ms + frame_ms - 1) div frame_ms) 1 * mix_samples_per_frame)"

section \<open>Connection cues\<close>

datatype client_connection_event = Connected | Disconnected | Reconnecting

definition cue_envelope :: "nat \<Rightarrow> nat \<Rightarrow> f32" where
  "cue_envelope sample count =
     (let fade = max (count div 10) 16; ratio = (\<lambda>a. f_div binary32 (f_of_int binary32 (int a))
            (f_of_int binary32 (int fade)))
      in if count = 0 then Fin 0
         else if sample < fade then ratio sample
         else if sample + fade \<ge> count then ratio (count - sample)
         else Fin 1)"

fun cue_segments :: "client_connection_event \<Rightarrow> (nat \<times> nat) list" where
  "cue_segments Connected = [(660, 70), (0, 30), (880, 90)]"
| "cue_segments Disconnected = [(440, 90), (0, 30), (220, 130)]"
| "cue_segments Reconnecting = [(523, 60), (0, 20), (659, 70)]"

definition cue_amplitude :: "client_connection_event \<Rightarrow> f32" where
  "cue_amplitude ev = (if ev = Reconnecting then Fin 700 else Fin 1800)"

definition f32_pi :: f32 where
  "f32_pi = Fin (13176795 / 4194304)"

definition cue_sample :: "(f32 \<Rightarrow> f32) \<Rightarrow> f32 \<Rightarrow> nat \<Rightarrow> nat \<Rightarrow> nat \<Rightarrow> i16" where
  "cue_sample sine amplitude freq frames i =
     (if freq = 0 then 0
      else let m = f_mul binary32; n = (\<lambda>k. f_of_int binary32 (int k));
               phase = f_div binary32 (m (m (m (Fin 2) f32_pi) (n freq)) (n i)) (n pcm48_sample_rate)
           in to_i16 (f_round (m (m (sine phase) amplitude) (cue_envelope i frames))))"

definition connection_cue_samples :: "(f32 \<Rightarrow> f32) \<Rightarrow> client_connection_event \<Rightarrow> nat \<Rightarrow> i16 list" where
  "connection_cue_samples sine ev channels =
     (let channels = max 1 (min 2 channels)
      in concat (map (\<lambda>(freq, ms).
           concat (map (\<lambda>i. replicate channels
                            (cue_sample sine (cue_amplitude ev) freq (samples_for_ms ms) i))
                    [0..<samples_for_ms ms])) (cue_segments ev)))"

definition enqueue_connection_cue :: "(f32 \<Rightarrow> f32) \<Rightarrow> client_connection_event \<Rightarrow> playback_buffer \<Rightarrow> playback_buffer" where
  "enqueue_connection_cue sine ev b =
     (let channels = max 1 (min 2 (pbf_channels b))
      in push_frame (connection_cue_samples sine ev channels) channels b)"

text \<open>The cue task: its state is the flag \<open>reconnecting\<close>; without an event for four seconds
  while it is set, the cue is repeated.\<close>

definition handle_connection_cue_event ::
    "(f32 \<Rightarrow> f32) \<Rightarrow> client_connection_event \<Rightarrow> bool \<times> playback_buffer \<Rightarrow> bool \<times> playback_buffer" where
  "handle_connection_cue_event sine ev = (\<lambda>(reconnecting, b).
     case ev of
       Reconnecting \<Rightarrow>
         (True, if reconnecting then b else enqueue_connection_cue sine ev b)
     | _ \<Rightarrow> (False, enqueue_connection_cue sine ev b))"

definition run_connection_cue_step ::
    "(f32 \<Rightarrow> f32) \<Rightarrow> client_connection_event option \<Rightarrow> bool \<times> playback_buffer \<Rightarrow> bool \<times> playback_buffer" where
  "run_connection_cue_step sine ev s =
     (case ev of
        Some ev \<Rightarrow> handle_connection_cue_event sine ev s
      | None \<Rightarrow> (case s of (reconnecting, b) \<Rightarrow>
          if reconnecting then (True, enqueue_connection_cue sine Reconnecting b) else s))"

section \<open>Gains\<close>

definition clamp_runtime_gain :: "f32 \<Rightarrow> f32" where
  "clamp_runtime_gain gain = (if is_finite gain then f_clamp gain (Fin 0) (Fin 2) else Fin 1)"

record audio_settings =
  as_mic_gain :: f32
  as_speaker_gain :: f32

definition audio_settings_new :: "f32 \<Rightarrow> f32 \<Rightarrow> audio_settings" where
  "audio_settings_new mic speaker =
     \<lparr>as_mic_gain = clamp_runtime_gain mic, as_speaker_gain = clamp_runtime_gain speaker\<rparr>"

definition set_mic_gain :: "f32 \<Rightarrow> audio_settings \<Rightarrow> audio_settings" where
  "set_mic_gain gain s = s\<lparr>as_mic_gain := clamp_runtime_gain gain\<rparr>"

definition set_speaker_gain :: "f32 \<Rightarrow> audio_settings \<Rightarrow> audio_settings" where
  "set_speaker_gain gain s = s\<lparr>as_speaker_gain := clamp_runtime_gain gain\<rparr>"

section \<open>Telemetry\<close>

text \<open>\<open>try_into().unwrap_or(MAX)\<close> saturates.\<close>

definition saturate :: "nat \<Rightarrow> 'a :: len word" where
  "saturate n = (if n < 2 ^ LENGTH('a) then of_nat n else - 1)"

definition playback_telemetry_from_stats :: "playback_stats \<Rightarrow> client_telemetry_playback_status" where
  "playback_telemetry_from_stats s =
     \<lparr>tp_available_samples = of_nat (pst_available_samples s),
      tp_capacity_samples = of_nat (pst_capacity_samples s),
      tp_prebuffer_samples = of_nat (pst_prebuffer_samples s),
      tp_queue_depth = of_nat (pst_available_samples s), tp_channels = saturate (pst_channels s),
      tp_started = pst_started s, tp_underflows = of_nat (pst_underflows s),
      tp_overflows = of_nat (pst_overflows s),
      tp_dropped_samples = of_nat (pst_dropped_samples s)\<rparr>"

definition desktop_capture_audio_telemetry ::
    "desktop_capture_health_status \<Rightarrow> client_telemetry_audio_status" where
  "desktop_capture_audio_telemetry d =
     \<lparr>ta_backend = dc_backend d,
      ta_input_device = (if dc_device d = [] then None else Some (dc_device d)),
      ta_output_device = None, ta_sample_format = dc_sample_format d,
      ta_sample_rate_hz = dc_sample_rate_hz d, ta_channels = dc_channels d,
      ta_channel_mode = dc_channel_mode d, ta_mic_gain = Some (dc_mic_gain d),
      ta_speaker_gain = None, ta_input = dc_post_gain d, ta_pre_gain = dc_pre_gain d,
      ta_post_gain = dc_post_gain d,
      ta_pre_gain_clipped_samples = dc_pre_gain_clipped_samples d,
      ta_post_gain_clipped_samples = dc_post_gain_clipped_samples d,
      ta_dropped_frames = dc_dropped_frames d\<rparr>"

definition codec_audio_telemetry :: "capture_health_status \<Rightarrow> client_telemetry_audio_status" where
  "codec_audio_telemetry h =
     \<lparr>ta_backend = (case ch_codec_config h of
          Some c \<Rightarrow> if ec_audio_backend c \<noteq> [] then ec_audio_backend c else ch_adc_input h
        | None \<Rightarrow> ch_adc_input h),
      ta_input_device = None, ta_output_device = None, ta_sample_format = [],
      ta_sample_rate_hz = (case ch_codec_config h of None \<Rightarrow> 0 | Some c \<Rightarrow> ec_hardware_sample_rate_hz c),
      ta_channels = (case ch_codec_config h of None \<Rightarrow> 0 | Some c \<Rightarrow> ucast (ec_hardware_channels c)),
      ta_channel_mode = ch_capture_channel h,
      ta_mic_gain = Some (f_div binary32 (f_of_int binary32 (uint (ch_software_gain_percent h))) (Fin 100)),
      ta_speaker_gain = None, ta_input = ch_selected h, ta_pre_gain = ch_selected h,
      ta_post_gain = ch_selected h, ta_pre_gain_clipped_samples = ch_raw_clipped_samples h,
      ta_post_gain_clipped_samples = ch_software_clipped_samples h, ta_dropped_frames = 0\<rparr>"

definition capture_health_with_client_telemetry ::
    "capture_health_status \<Rightarrow> string \<Rightarrow> playback_stats \<Rightarrow> client_telemetry_transport_status \<Rightarrow> string \<Rightarrow>
     string option \<Rightarrow> capture_health_status" where
  "capture_health_with_client_telemetry h kind playback transport phase last_error =
     (let p = playback_telemetry_from_stats playback;
          h = h\<lparr>ch_runtime := Some \<lparr>tr_client_kind = kind, tr_phase = phase, tr_last_error = last_error\<rparr>,
                ch_playback_queue_depth := saturate (unat (tp_queue_depth p)),
                ch_playback_underflows := saturate (unat (tp_underflows p)),
                ch_playback_overflows := saturate (unat (tp_overflows p)),
                ch_playback := Some p, ch_client_transport := Some transport\<rparr>
      in if ch_audio h = None
         then h\<lparr>ch_audio := Some (case ch_desktop h of
                    Some d \<Rightarrow> desktop_capture_audio_telemetry d
                  | None \<Rightarrow> codec_audio_telemetry h)\<rparr>
         else h)"

section \<open>A bounded queue\<close>

definition playing :: "playback_buffer \<Rightarrow> i16 list" where
  "playing b = drop (pbf_read b) (pbf_samples b)"

definition playback_wf :: "playback_buffer \<Rightarrow> bool" where
  "playback_wf b =
     (pbf_read b \<le> length (pbf_samples b) \<and> length (pbf_samples b) \<le> pbf_capacity b \<and>
      1 \<le> pbf_channels b \<and> (if pbf_prebuffer_samples b = 0 then pbf_started b else True))"

definition playback_ready :: "playback_buffer \<Rightarrow> bool" where
  "playback_ready b = (pbf_started b \<or> pbf_prebuffer_samples b \<le> length (playing b))"

lemma available_playing: "available_samples b = length (playing b)"
  by (simp add: available_samples_def playing_def)

text \<open>Pushing a frame of the layout the buffer has.\<close>

definition push_same :: "i16 list \<Rightarrow> playback_buffer \<Rightarrow> playback_buffer" where
  "push_same samples b = push_frame samples (pbf_channels b) b"

lemma compact_eq: "compact_consumed b = b\<lparr>pbf_samples := playing b, pbf_read := 0\<rparr>"
  by (cases b) (simp add: compact_consumed_def playing_def)

lemma capacity_constant:
  "pbf_capacity (push_frame xs n b) = pbf_capacity b" "pbf_capacity (snd (pop_sample b)) = pbf_capacity b"
proof -
  let ?b = "compact_consumed (if pbf_channels b \<noteq> max n 1 then (clear b)\<lparr>pbf_channels := max n 1\<rparr> else b)"
  have "pbf_capacity ?b = pbf_capacity b" by (simp add: compact_eq clear_def)
  then show "pbf_capacity (push_frame xs n b) = pbf_capacity b"
    unfolding push_frame_def Let_def by (cases "length (pbf_samples ?b @ xs) > pbf_capacity b") simp_all
  show "pbf_capacity (snd (pop_sample b)) = pbf_capacity b"
    unfolding pop_sample_def Let_def
    by (cases "\<not> pbf_started b \<and> available_samples b < pbf_prebuffer_samples b";
        cases "pbf_read b < length (pbf_samples b)") simp_all
qed

lemma push_same_effect:
  assumes "playback_wf b"
  shows "playing (push_same xs b) = last_n (pbf_capacity b) (playing b @ xs)"
    "playback_wf (push_same xs b)"
    "pbf_channels (push_same xs b) = pbf_channels b"
proof -
  define ys where "ys = playing b @ xs"
  have "max (pbf_channels b) 1 = pbf_channels b" using assms by (simp add: playback_wf_def max_def)
  then have eq: "push_same xs b =
      (let b' = b\<lparr>pbf_samples := ys, pbf_read := 0\<rparr>
       in if length ys > pbf_capacity b
          then b'\<lparr>pbf_samples := drop (length ys - pbf_capacity b) ys,
                   pbf_overflows := pbf_overflows b + 1,
                   pbf_dropped_samples := pbf_dropped_samples b + (length ys - pbf_capacity b)\<rparr>
          else b')"
    by (simp add: push_same_def push_frame_def compact_eq Let_def ys_def)
  show "playing (push_same xs b) = last_n (pbf_capacity b) (playing b @ xs)"
    unfolding eq ys_def [symmetric] by (simp add: playing_def Let_def last_n_def)
  show "playback_wf (push_same xs b)" "pbf_channels (push_same xs b) = pbf_channels b"
    using assms unfolding eq by (simp_all add: playback_wf_def Let_def)
qed

lemma pop_effect:
  assumes "playback_wf b"
  shows "case pop_sample b of (x, b') \<Rightarrow> playback_wf b' \<and> pbf_capacity b' = pbf_capacity b \<and>
     pbf_channels b' = pbf_channels b \<and>
     (if playback_ready b \<and> playing b \<noteq> []
      then x = Some (hd (playing b)) \<and> playing b' = tl (playing b) \<and> pbf_started b'
      else x = None \<and> playing b' = playing b)"
proof -
  let ?r = "pbf_read b" and ?xs = "pbf_samples b"
  have le: "?r \<le> length ?xs" "length ?xs \<le> pbf_capacity b" "1 \<le> pbf_channels b"
      "pbf_prebuffer_samples b = 0 \<Longrightarrow> pbf_started b"
    using assms by (auto simp: playback_wf_def split: if_splits)
  show ?thesis
  proof (cases "playback_ready b")
    case False
    then have "pop_sample b = (None, b)"
      by (simp add: pop_sample_def playback_ready_def available_playing)
    with False assms show ?thesis by simp
  next
    case ready: True
    show ?thesis
    proof (cases "?r < length ?xs")
      case True
      have "pop_sample b = (Some (?xs ! ?r), b\<lparr>pbf_started := True, pbf_read := ?r + 1\<rparr>)"
        using ready True by (auto simp: pop_sample_def playback_ready_def available_playing)
      moreover have "playing b = ?xs ! ?r # drop (?r + 1) ?xs"
        using True by (simp add: playing_def Cons_nth_drop_Suc)
      ultimately show ?thesis
        using ready le True by (simp add: playback_wf_def playing_def)
    next
      case False
      then have "playing b = []" using le by (simp add: playing_def)
      moreover have "pop_sample b = (None, b\<lparr>pbf_underflows := pbf_underflows b + 1,
          pbf_started := (pbf_prebuffer_samples b = 0)\<rparr>)"
        using ready False by (cases b) (auto simp: pop_sample_def playback_ready_def available_playing)
      ultimately show ?thesis using le by (simp add: playback_wf_def playing_def)
    qed
  qed
qed

interpretation playback: bounded_fifo push_same pop_sample playing pbf_capacity playback_wf
  playback_ready "\<lambda>_. True"
proof
  fix q xs x ys
  show "playback_wf q \<Longrightarrow> playing (push_same xs q) = last_n (pbf_capacity q) (playing q @ xs)"
    "playback_wf q \<Longrightarrow> playback_wf (push_same xs q)"
    by (simp_all add: push_same_effect)
  show "pbf_capacity (push_same xs q) = pbf_capacity q" "pbf_capacity (snd (pop_sample q)) = pbf_capacity q"
    by (simp_all add: push_same_def capacity_constant)
  obtain y b where p: "pop_sample q = (y, b)" by fastforce
  show "playback_wf q \<Longrightarrow> playback_wf (snd (pop_sample q))"
    using pop_effect [of q] by (simp add: p)
  show "playback_wf q \<Longrightarrow> playing q = [] \<Longrightarrow> fst (pop_sample q) = None \<and> playing (snd (pop_sample q)) = []"
    using pop_effect [of q] by (simp add: p)
  show "playback_wf q \<Longrightarrow> playback_ready q \<Longrightarrow> playing q = x # ys \<Longrightarrow>
       fst (pop_sample q) = Some x \<and> playing (snd (pop_sample q)) = ys"
    using pop_effect [of q] by (simp add: p)
  show "playback_wf q \<Longrightarrow> playback_ready q \<Longrightarrow> playing q \<noteq> [] \<Longrightarrow> playback_ready (snd (pop_sample q))"
    using pop_effect [of q] by (simp add: p playback_ready_def)
qed

section \<open>Properties\<close>

lemma playback_new_wf: "playback_wf (playback_buffer_new capacity prebuffer)"
  by (simp add: playback_wf_def playback_buffer_new_def)

lemma playback_plays_facts:
  assumes "playback_wf b" and "playback_ready (fold push_same frames b)"
    and "n \<le> length (last_n (pbf_capacity b) (playing b @ concat frames))"
  shows "case bounded_fifo.drain pop_sample n (fold push_same frames b) of (out, b') \<Rightarrow>
    out = take n (last_n (pbf_capacity b) (playing b @ concat frames)) \<and>
    playing b' = drop n (last_n (pbf_capacity b) (playing b @ concat frames))"
proof -
  let ?b = "fold push_same frames b"
  have "length (playing b) \<le> pbf_capacity b"
    using assms(1) unfolding playback_wf_def playing_def length_drop by linarith
  then have c: "playing ?b = last_n (pbf_capacity b) (playing b @ concat frames)"
    using assms(1) by (intro playback.pushes_contents) (simp_all add: list_all_iff)
  have "playback_wf ?b" using assms(1) by (intro playback.pushes_wf) (simp_all add: list_all_iff)
  from playback.drain_takes [OF this assms(2)] assms(3) show ?thesis
    by (simp add: c case_prod_unfold)
qed

text \<open>Two samples per frame stay together: a stereo buffer of even capacity that holds whole
  pairs.\<close>

definition stereo_pairs :: "playback_buffer \<Rightarrow> bool" where
  "stereo_pairs b =
     (playback_wf b \<and> pbf_channels b = 2 \<and> even (pbf_capacity b) \<and> even (length (playing b)))"

lemma stereo_facts:
  assumes "stereo_pairs b" and "even (length frame)"
  shows "stereo_pairs (push_frame frame 2 b)"
    "playing (push_frame frame 2 b) = last_n (pbf_capacity b) (playing b @ frame)"
    "case pop_stereo b of (pair, b') \<Rightarrow>
       if playback_ready b \<and> playing b \<noteq> []
       then pair = Some (playing b ! 0, playing b ! 1) \<and> playing b' = drop 2 (playing b) \<and> stereo_pairs b'
       else pair = None \<and> playing b' = playing b \<and> stereo_pairs b'"
proof -
  have b: "playback_wf b" "pbf_channels b = 2" "even (pbf_capacity b)" "even (length (playing b))"
    using assms(1) by (simp_all add: stereo_pairs_def)
  have same: "push_frame frame 2 b = push_same frame b" by (simp add: push_same_def b)
  show c: "playing (push_frame frame 2 b) = last_n (pbf_capacity b) (playing b @ frame)"
    unfolding same by (rule push_same_effect(1) [OF b(1)])
  have "even (min m n)" if "even m" "even n" for m n :: nat using that by (simp add: min_def)
  then show "stereo_pairs (push_frame frame 2 b)"
    using b assms(2) push_same_effect(2,3) [OF b(1)]
    by (simp add: stereo_pairs_def c capacity_constant) (simp add: same)
  obtain x b1 where p1: "pop_sample b = (x, b1)" by fastforce
  note e1 = pop_effect [OF b(1), unfolded p1 prod.case]
  show "case pop_stereo b of (pair, b') \<Rightarrow>
       if playback_ready b \<and> playing b \<noteq> []
       then pair = Some (playing b ! 0, playing b ! 1) \<and> playing b' = drop 2 (playing b) \<and> stereo_pairs b'
       else pair = None \<and> playing b' = playing b \<and> stereo_pairs b'"
  proof (cases "playback_ready b \<and> playing b \<noteq> []")
    case False
    then have "x = None" "playing b1 = playing b" "playback_wf b1" "pbf_capacity b1 = pbf_capacity b"
      "pbf_channels b1 = 2" using e1 b(2) by (auto split: if_splits)
    then show ?thesis using False b by (simp add: pop_stereo_def p1 stereo_pairs_def)
  next
    case True
    then obtain l r rest where lr: "playing b = l # r # rest"
      using b(4) by (cases "playing b"; cases "tl (playing b)") auto
    with True e1 b(2) have x: "x = Some l" "playing b1 = r # rest" "playback_wf b1" "pbf_started b1"
      "pbf_capacity b1 = pbf_capacity b" "pbf_channels b1 = 2" by auto
    obtain y b2 where p2: "pop_sample b1 = (y, b2)" by fastforce
    have "playback_ready b1" using x(4) by (simp add: playback_ready_def)
    with pop_effect [OF x(3), unfolded p2 prod.case] x
    have "y = Some r" "playing b2 = rest" "playback_wf b2" "pbf_capacity b2 = pbf_capacity b"
      "pbf_channels b2 = 2" by auto
    then show ?thesis
      using True b lr x by (simp add: pop_stereo_def p1 p2 stereo_pairs_def)
  qed
qed

text \<open>What the sound card plays: after any frames were pushed, the next samples taken are the
  oldest of the newest samples that fit the buffer, in order and without a gap, once the
  prebuffer has filled; nothing is played twice.\<close>

lemma playback_plays_newest_in_order:
  assumes "playback_wf b" and "playback_ready (fold push_same frames b)"
    and "n \<le> length (last_n (pbf_capacity b) (playing b @ concat frames))"
  shows "case bounded_fifo.drain pop_sample n (fold push_same frames b) of (out, b') \<Rightarrow>
    out = take n (last_n (pbf_capacity b) (playing b @ concat frames)) \<and>
    playing b' = drop n (last_n (pbf_capacity b) (playing b @ concat frames))"
  using assms by (rule playback_plays_facts)

text \<open>Left and right never swap: in a stereo buffer of even capacity that is fed whole pairs,
  an overflow drops whole pairs, and a stereo pop takes the two samples that were pushed
  next to each other, or nothing.\<close>

lemma stereo_stays_aligned:
  assumes "stereo_pairs b" and "even (length frame)"
  shows "stereo_pairs (push_frame frame 2 b) \<and>
    playing (push_frame frame 2 b) = last_n (pbf_capacity b) (playing b @ frame) \<and>
    (case pop_stereo b of (pair, b') \<Rightarrow>
       if playback_ready b \<and> playing b \<noteq> []
       then pair = Some (playing b ! 0, playing b ! 1) \<and> playing b' = drop 2 (playing b) \<and> stereo_pairs b'
       else pair = None \<and> playing b' = playing b \<and> stereo_pairs b')"
  using stereo_facts [OF assms] by blast

end
