(* ===== verification/Client_Core.thy ===== *)
theory Client_Core
  imports Control Client_Playback "HOL-Library.Multiset"
begin

text \<open>
  The client side of the control protocol, shared by every client program
  (\<open>clients/core/src/lib.rs\<close>): the configuration a client keeps (\<open>ClientConfig\<close>), what it
  transmits with it, how it applies the server's events, and its control connection with
  the queue of requests that wait for a response, reconnects included.
\<close>

section \<open>The client's configuration\<close>

record client_config =
  cc_user_id :: user_id
  cc_client_uid :: client_uid
  cc_role :: client_role
  cc_name :: string
  cc_listen :: "channel_id list"
  cc_tx :: "channel_id list"
  cc_codec :: codec
  cc_opus_profile :: opus_profile
  cc_talk_mode :: talk_mode
  cc_last_non_muted_talk_mode :: talk_mode
  cc_regular_talk_active :: bool
  cc_priority :: bool
  cc_priority_channels :: "channel_id list"
  cc_processing :: processing_config
  cc_channel_rosters :: "channel_presence_roster list"
  cc_emergency :: "emergency_status option"
  cc_vol :: "(channel_id, f32) hash_map"
  cc_talker_vol :: "(user_id, f32) hash_map"
  cc_buttons :: "talk_button_config list"
  cc_active_buttons :: "button_id list"
  cc_active_direct_calls :: "direct_call_status list"
  cc_last_direct_caller :: "user_id option"
  cc_direct_call_history :: "direct_call_history_entry list"
  cc_active_alerts :: "alert_status list"
  cc_recent_alerts :: "alert_status list"
  cc_advertised_buttons :: "button_capability list"
  cc_capabilities :: client_capabilities
  cc_ifb :: ifb_config
  cc_lockout :: client_lockout_policy
  cc_stereo :: stereo_config
  cc_esp32_audio :: esp32_audio_config

record client_transmit_snapshot =
  cts_user_id :: user_id
  cts_targets :: "audio_target list"
  cts_codec :: codec
  cts_opus_profile :: opus_profile

definition set_talk_mode :: "talk_mode \<Rightarrow> client_config \<Rightarrow> client_config" where
  "set_talk_mode m cfg =
     (let cfg = cfg\<lparr>cc_talk_mode := m\<rparr>
      in if m \<noteq> Muted then cfg\<lparr>cc_last_non_muted_talk_mode := m\<rparr> else cfg)"

definition restored_unmute_talk_mode :: "client_config \<Rightarrow> talk_mode" where
  "restored_unmute_talk_mode cfg =
     (if cc_last_non_muted_talk_mode cfg = Muted then Ptt else cc_last_non_muted_talk_mode cfg)"

definition client_active_actions :: "client_config \<Rightarrow> talk_button_action list" where
  "client_active_actions cfg =
     concat (map btn_actions (filter (\<lambda>b. btn_id b \<in> set (cc_active_buttons cfg)) (cc_buttons cfg)))"

text \<open>The hash sets are collected into sorted vectors; the sort keys are injective, so the
  result does not depend on the iteration order of the sets.\<close>

definition active_tx_channels :: "client_config \<Rightarrow> channel_id list" where
  "active_tx_channels cfg =
     sort (remdups
       ((if cc_talk_mode cfg = Open \<or> cc_talk_mode cfg = Ptt \<and> cc_regular_talk_active cfg
         then cc_tx cfg else []) @
        concat (map transmit_channels (client_active_actions cfg))))"

fun target_key :: "audio_target \<Rightarrow> nat \<times> u16" where
  "target_key (Channel c) = (0, c)"
| "target_key (Direct u) = (1, u)"
| "target_key Mixed = (2, 0)"

definition raises_emergency :: "client_config \<Rightarrow> bool" where
  "raises_emergency cfg =
     (case cc_emergency cfg of None \<Rightarrow> False
      | Some e \<Rightarrow> emg_active e \<and> emg_source e = cc_user_id cfg)"

definition client_tx_targets :: "client_config \<Rightarrow> audio_target list" where
  "client_tx_targets cfg =
     sort_key target_key (remdups
       (map Channel (active_tx_channels cfg) @
        map (\<lambda>c. Direct (dcs_target c))
          (filter (\<lambda>c. dcs_caller c = cc_user_id cfg \<and> dcs_active c) (cc_active_direct_calls cfg)) @
        concat (map (\<lambda>a. map Direct (transmit_users a)) (client_active_actions cfg)) @
        (if raises_emergency cfg then [Mixed] else [])))"

definition active_transmit_snapshot :: "client_config \<Rightarrow> client_transmit_snapshot option" where
  "active_transmit_snapshot cfg =
     (if cc_user_id cfg = 0 then None
      else let targets = client_tx_targets cfg
           in if targets = [] then None
              else Some \<lparr>cts_user_id = cc_user_id cfg, cts_targets = targets,
                         cts_codec = cc_codec cfg, cts_opus_profile = cc_opus_profile cfg\<rparr>)"

definition button_known :: "client_config \<Rightarrow> button_id \<Rightarrow> bool" where
  "button_known cfg i =
     (list_ex (\<lambda>b. btn_id b = i) (cc_buttons cfg) \<or>
      list_ex (\<lambda>b. bc_id b = i) (cc_advertised_buttons cfg))"

definition client_control_message :: "client_config \<Rightarrow> control_message" where
  "client_control_message cfg =
     Config (cc_user_id cfg)
       \<lparr>cr_role = Some (cc_role cfg),
        cr_name = (if trim (cc_name cfg) \<noteq> [] then Some (cc_name cfg) else None),
        cr_listen = cc_listen cfg, cr_tx = cc_tx cfg, cr_vol = cc_vol cfg, cr_talker_vol = None,
        cr_codec = Some (cc_codec cfg), cr_opus_profile = Some (cc_opus_profile cfg),
        cr_talk_mode = Some (cc_talk_mode cfg), cr_priority = None, cr_priority_channels = None,
        cr_processing = None, cr_buttons = None, cr_ifb = None, cr_stereo = None,
        cr_esp32_audio = None\<rparr>"

section \<open>Events of the server\<close>

fun client_codec_supported :: "codec \<Rightarrow> bool" where
  "client_codec_supported Pcm16 = True"
| "client_codec_supported Pcm24 = True"
| "client_codec_supported Pcm48 = True"
| "client_codec_supported Adpcm = False"
| "client_codec_supported Opus = True"

definition client_supported_codecs :: "codec list" where
  "client_supported_codecs = [Pcm16, Pcm24, Pcm48, Opus]"

definition apply_config_update :: "config_update \<Rightarrow> client_config \<Rightarrow> client_config" where
  "apply_config_update u cfg =
     (let cfg = (if cu_client_uid u \<noteq> [] then cfg\<lparr>cc_client_uid := cu_client_uid u\<rparr> else cfg);
          cfg = cfg\<lparr>cc_listen := cu_listen u, cc_name := cu_name u, cc_tx := cu_tx u,
                    cc_vol := cu_vol u, cc_talker_vol := cu_talker_vol u\<rparr>;
          cfg = (if client_codec_supported (cu_codec u)
                 then cfg\<lparr>cc_codec := cu_codec u, cc_opus_profile := cu_opus_profile u\<rparr> else cfg);
          cfg = set_talk_mode (cu_talk_mode u) cfg
      in cfg\<lparr>cc_regular_talk_active := cu_regular_talk_active u,
             cc_priority := cu_priority u, cc_priority_channels := cu_priority_channels u,
             cc_processing := cu_processing u, cc_buttons := cu_buttons u,
             cc_active_buttons := cu_active_buttons u,
             cc_active_direct_calls := cu_active_direct_calls u,
             cc_last_direct_caller := cu_last_direct_caller u,
             cc_direct_call_history := cu_direct_call_history u,
             cc_active_alerts := cu_active_alerts u, cc_recent_alerts := cu_recent_alerts u,
             cc_emergency := cu_emergency u, cc_ifb := cu_ifb u, cc_lockout := cu_lockout u,
             cc_stereo := cu_stereo u, cc_esp32_audio := cu_esp32_audio u\<rparr>)"

fun apply_control_event :: "control_event \<Rightarrow> client_config \<Rightarrow> client_config" where
  "apply_control_event (PresenceUpdate u uid channels) cfg =
     (if cc_user_id cfg \<noteq> u then cfg else cfg\<lparr>cc_channel_rosters := channels\<rparr>)"
| "apply_control_event (ConfigUpdate u update) cfg =
     (if cc_user_id cfg \<noteq> u then cfg else apply_config_update update cfg)"

section \<open>The control connection\<close>

definition control_reconnect_initial :: nat where
  "control_reconnect_initial = millis 500"

definition control_reconnect_max :: nat where
  "control_reconnect_max = millis 5000"

definition next_reconnect_delay :: "nat \<Rightarrow> nat" where
  "next_reconnect_delay current = min (current * 2) control_reconnect_max"

definition control_unavailable_response :: control_response where
  "control_unavailable_response = Error ''control connection unavailable; reconnecting''"

text \<open>
  The task \<open>run_control_connection\<close>. Requests are named by numbers, one per oneshot channel;
  \<open>ct_answers\<close> lists what was sent into those channels and \<open>ct_wire\<close> the messages written to
  the current WebSocket. The inputs are the outcomes of the task's awaits: a connection
  attempt (and, if it succeeds, whether the hello of a reconnect can be written), a request
  taken from the queue (and whether it can be written), a received text, the end of the
  session. While there was never a connection, the task sleeps between attempts without
  looking at the queue.
\<close>

record control_task =
  ct_config :: client_config
  ct_online :: bool
  ct_connected_once :: bool
  ct_delay :: nat
  ct_pending :: "nat list"
  ct_answers :: "(nat \<times> control_response) list"
  ct_taken :: "nat list"
  ct_wire :: "control_message list"
  ct_notices :: "client_connection_event list"

datatype control_input =
    ConnectAttempt bool bool
  | TakeRequest nat control_message bool
  | ReceiveEvent control_event
  | ReceiveResponse control_response
  | SessionLost

definition control_task_start :: "client_config \<Rightarrow> control_task" where
  "control_task_start cfg =
     \<lparr>ct_config = cfg, ct_online = False, ct_connected_once = False,
      ct_delay = control_reconnect_initial, ct_pending = [], ct_answers = [], ct_taken = [],
      ct_wire = [], ct_notices = []\<rparr>"

definition reconnect_hello :: "client_config \<Rightarrow> control_message" where
  "reconnect_hello cfg =
     Hello (cc_user_id cfg)
       \<lparr>hr_requested_user_id = (if cc_user_id cfg > 0 then Some (cc_user_id cfg) else None),
        hr_client_uid = cc_client_uid cfg, hr_codecs = client_supported_codecs,
        hr_buttons = cc_advertised_buttons cfg, hr_capabilities = cc_capabilities cfg,
        hr_role = cc_role cfg\<rparr>"

definition fail_pending_control_responses :: "control_task \<Rightarrow> control_task" where
  "fail_pending_control_responses t =
     t\<lparr>ct_answers := ct_answers t @ map (\<lambda>r. (r, control_unavailable_response)) (ct_pending t),
       ct_pending := []\<rparr>"

text \<open>A failed attempt waits; the delay doubles.\<close>

definition wait_after :: "client_connection_event list \<Rightarrow> control_task \<Rightarrow> control_task" where
  "wait_after notices t =
     t\<lparr>ct_notices := ct_notices t @ notices, ct_online := False,
       ct_delay := next_reconnect_delay (ct_delay t)\<rparr>"

definition end_session :: "control_task \<Rightarrow> control_task" where
  "end_session t =
     (let t = fail_pending_control_responses t;
          t = t\<lparr>ct_config := (ct_config t)\<lparr>cc_active_buttons := []\<rparr>\<rparr>
      in wait_after [Disconnected, Reconnecting] t)"

fun control_task_step :: "control_input \<Rightarrow> control_task \<Rightarrow> control_task" where
  "control_task_step (ConnectAttempt ok hello_ok) t =
     (if ct_online t then t
      else if \<not> ok then wait_after [Reconnecting] t
      else let t = t\<lparr>ct_pending := [], ct_wire := [], ct_notices := ct_notices t @ [Connected]\<rparr>
           in if ct_connected_once t \<and> \<not> hello_ok then wait_after [Reconnecting] t
              else t\<lparr>ct_wire := (if ct_connected_once t then [reconnect_hello (ct_config t)] else []),
                     ct_connected_once := True, ct_delay := control_reconnect_initial,
                     ct_online := True\<rparr>)"
| "control_task_step (TakeRequest r m ok) t =
     (if ct_online t
      then if ok
           then t\<lparr>ct_taken := ct_taken t @ [r], ct_wire := ct_wire t @ [m],
                  ct_pending := ct_pending t @ [r]\<rparr>
           else end_session (t\<lparr>ct_taken := ct_taken t @ [r],
                  ct_answers := ct_answers t @ [(r, control_unavailable_response)]\<rparr>)
      else if ct_connected_once t
           then t\<lparr>ct_taken := ct_taken t @ [r],
                  ct_answers := ct_answers t @ [(r, control_unavailable_response)]\<rparr>
           else t)"
| "control_task_step (ReceiveEvent ev) t =
     (if ct_online t then t\<lparr>ct_config := apply_control_event ev (ct_config t)\<rparr> else t)"
| "control_task_step (ReceiveResponse response) t =
     (if ct_online t
      then case ct_pending t of
             [] \<Rightarrow> t
           | r # rs \<Rightarrow> t\<lparr>ct_pending := rs, ct_answers := ct_answers t @ [(r, response)]\<rparr>
      else t)"
| "control_task_step SessionLost t = (if ct_online t then end_session t else t)"

section \<open>What a synchronised client transmits\<close>

lemma key_dedup: "k ` set (dedup_by (\<lambda>l r. k l = k r) xs) = k ` set xs"
proof -
  have "\<forall>l r. e l r = (k l = k r) \<Longrightarrow> k ` set (dedup_by e xs) = k ` set xs" for e
    by (induction e xs rule: dedup_by.induct) auto
  then show ?thesis by simp
qed

lemma set_sort_remdups [simp]: "set (sort_key f (remdups xs)) = set xs"
  by simp

lemma call_targets:
  assumes wf: "hm_wf ss" and s: "hm_get ss u = Some s"
  shows "(\<lambda>c. Direct (dcs_target c)) `
      {c \<in> set (active_direct_call_statuses_for_user u ss). dcs_caller c = u \<and> dcs_active c} =
    Direct ` fst ` set (session_calls s)"
proof -
  let ?all = "concat (map (\<lambda>(caller, s).
      map (\<lambda>(t, d). call_status ss caller t d)
        (filter (\<lambda>(t, d). caller = u \<or> t = u) (session_calls s))) ss)"
  let ?D = "active_direct_call_statuses_for_user u ss"
  have keys: "call_key ` set ?D = call_key ` set ?all"
    unfolding active_direct_call_statuses_for_user_def key_dedup by simp
  have "set ?D \<subseteq> set ?all"
    unfolding active_direct_call_statuses_for_user_def using set_dedup_by by fastforce
  then have act: "dcs_active c" if "c \<in> set ?D" for c
    using that by (auto simp: call_status_def)
  have "call_key ` set ?all = {(caller, t, d) | caller t d s.
      (caller, s) \<in> set ss \<and> (t, d) \<in> set (session_calls s) \<and> (caller = u \<or> t = u)}"
    by (force simp: call_key_def call_status_def image_iff)
  then have "(u, t, d) \<in> call_key ` set ?D \<longleftrightarrow> (t, d) \<in> set (session_calls s)" for t d
    unfolding keys using hm_wf_mem [OF wf, of u] s by auto
  moreover have "(u, t, d) \<in> call_key ` set ?D \<longleftrightarrow>
      (\<exists>c \<in> set ?D. dcs_caller c = u \<and> dcs_target c = t \<and> dcs_duck c = d)" for t d
    by (auto simp: call_key_def image_iff)
  ultimately have td: "(t, d) \<in> set (session_calls s) \<longleftrightarrow>
      (\<exists>c \<in> set ?D. dcs_caller c = u \<and> dcs_target c = t \<and> dcs_duck c = d)" for t d
    by blast
  have "t \<in> fst ` set (session_calls s) \<longleftrightarrow> (\<exists>d. (t, d) \<in> set (session_calls s))" for t
    by force
  then have "t \<in> fst ` set (session_calls s) \<longleftrightarrow>
      (\<exists>c \<in> set ?D. dcs_caller c = u \<and> dcs_active c \<and> dcs_target c = t)" for t
    unfolding td using act by blast
  then have "fst ` set (session_calls s) = dcs_target ` {c \<in> set ?D. dcs_caller c = u \<and> dcs_active c}"
    by (intro set_eqI) (simp add: image_iff, metis)
  then show ?thesis by (simp only: image_image)
qed

lemma session_calls_targets:
  "fst ` set (session_calls s) =
     set (hm_keys (se_active_direct_calls s)) \<union> \<Union> (set ` transmit_users ` set (active_actions s))"
proof -
  have "fst ` set (transmit_calls a) = set (transmit_users a)" for a
    by (cases a) (auto simp: image_iff)
  then have "fst ` set (concat (map transmit_calls (active_actions s))) =
      \<Union> (set ` transmit_users ` set (active_actions s))"
    by (auto simp: image_UN image_iff)
  then show ?thesis
    by (simp add: session_calls_def image_Un image_image case_prod_unfold)
qed

lemma client_targets_facts:
  assumes ok: "sessions_ok st" and s: "hm_get (st_sessions st) u = Some s"
    and ev: "config_event_snapshot st u = Some ev" and cfg: "cc_user_id cfg = u"
  shows "set (client_tx_targets (apply_control_event ev cfg)) =
    active_tx_targets s \<union>
    (case st_emergency st of None \<Rightarrow> {} | Some e \<Rightarrow> if re_source e = u then {Mixed} else {})"
proof -
  let ?cfg = "apply_control_event ev cfg"
  obtain active recent where ar:
    "alert_statuses_for_user_with_sessions (st_alerts st) u (st_sessions st) = (active, recent)"
    by fastforce
  let ?calls = "active_direct_call_statuses_for_user u (st_sessions st)"
  have wf: "hm_wf (st_sessions st)" and "talk_ok {} s"
    using ok s by (auto simp: sessions_ok_but_def all_sessions_iff)
  then have b: "buttons_ok (se_buttons s)" and fin: "finite (se_active_buttons s)"
    by (auto simp: talk_ok_def intro: finite_subset [OF _ finite_imageI [OF finite_set]])
  have ev': "ev = session_control_event s u ?calls active recent
      (emergency_status_for_user (st_emergency st) (st_sessions st) u)"
    using ev s ar by (simp add: config_event_snapshot_def)
  have f: "cc_user_id ?cfg = u" "cc_talk_mode ?cfg = se_talk_mode s"
    "cc_regular_talk_active ?cfg = se_regular_talk_active s"
    "cc_tx ?cfg = sorted_list_of_set (se_tx_channels s)" "cc_buttons ?cfg = se_buttons s"
    "set (cc_active_buttons ?cfg) = se_active_buttons s" "cc_active_direct_calls ?cfg = ?calls"
    "cc_emergency ?cfg = emergency_status_for_user (st_emergency st) (st_sessions st) u"
    using b fin cfg
    by (simp_all add: ev' session_control_event_def apply_config_update_def Let_def set_talk_mode_def
        sorted_buttons_def)
  have acts: "client_active_actions ?cfg = active_actions s"
    by (simp add: client_active_actions_def active_actions_def f(5,6))
  have chans: "set (active_tx_channels ?cfg) = effective_tx_channels s"
    by (auto simp: active_tx_channels_def effective_tx_channels_def f(2-4) acts)
  have em: "raises_emergency ?cfg \<longleftrightarrow> (case st_emergency st of None \<Rightarrow> False | Some e \<Rightarrow> re_source e = u)"
    by (auto simp: raises_emergency_def f(1,8) emergency_status_for_user_def emergency_status_of_def
        Let_def split: option.split)
  have "set (client_tx_targets ?cfg) = Channel ` effective_tx_channels s \<union>
      (\<lambda>c. Direct (dcs_target c)) ` {c \<in> set ?calls. dcs_caller c = u \<and> dcs_active c} \<union>
      \<Union> (set (map (\<lambda>a. Direct ` set (transmit_users a)) (active_actions s))) \<union>
      (if raises_emergency ?cfg then {Mixed} else {})"
    unfolding client_tx_targets_def set_sort_remdups f(1,7) acts
    by (simp add: chans Un_assoc)
  also have "\<dots> = active_tx_targets s \<union> (if raises_emergency ?cfg then {Mixed} else {})"
    unfolding call_targets [OF wf s] session_calls_targets active_tx_targets_def
    by (auto simp: image_iff)
  finally show ?thesis by (auto simp: em split: option.split)
qed

lemma target_key_inj: "inj target_key"
proof (rule injI)
  fix x y assume "target_key x = target_key y"
  then show "x = y" by (cases x; cases y) auto
qed

lemma client_targets_sorted:
  "distinct (client_tx_targets cfg) \<and> sorted (map target_key (client_tx_targets cfg))"
  by (simp add: client_tx_targets_def)

section \<open>Every request is answered\<close>

definition task_ok :: "control_task \<Rightarrow> bool" where
  "task_ok t =
     (mset (ct_taken t) = mset (map fst (ct_answers t)) + mset (ct_pending t) \<and>
      (if ct_online t then ct_connected_once t else ct_pending t = []) \<and>
      control_reconnect_initial \<le> ct_delay t \<and> ct_delay t \<le> control_reconnect_max)"

lemma delay_range:
  "control_reconnect_initial \<le> d \<Longrightarrow> d \<le> control_reconnect_max \<Longrightarrow>
     control_reconnect_initial \<le> next_reconnect_delay d \<and> next_reconnect_delay d \<le> control_reconnect_max"
  by (simp add: next_reconnect_delay_def control_reconnect_initial_def control_reconnect_max_def millis_def)

lemma task_ok_wait: "task_ok t \<Longrightarrow> ct_pending t = [] \<Longrightarrow> task_ok (wait_after ns t)"
  using delay_range [of "ct_delay t"] by (simp add: task_ok_def wait_after_def)

lemma task_ok_end: "task_ok t \<Longrightarrow> task_ok (end_session t)"
  using delay_range [of "ct_delay t"]
  by (simp add: task_ok_def end_session_def wait_after_def fail_pending_control_responses_def Let_def comp_def)

interpretation control_task: step_machine control_task_step "\<lambda>_. True" task_ok
proof
  fix e t
  assume ok: "task_ok t"
  show "task_ok (control_task_step e t)"
  proof (cases e)
    case (ConnectAttempt a b)
    have "task_ok (t\<lparr>ct_pending := [], ct_wire := [], ct_notices := n\<rparr>)" if "\<not> ct_online t" for n
      using ok that by (simp add: task_ok_def)
    then show ?thesis
      using ok by (auto simp: ConnectAttempt Let_def intro!: task_ok_wait)
        (auto simp: task_ok_def control_reconnect_initial_def control_reconnect_max_def millis_def)
  next
    case (TakeRequest r m ok')
    have "task_ok (t\<lparr>ct_taken := ct_taken t @ [r], ct_answers := ct_answers t @ [(r, a)]\<rparr>)" for a
      using ok by (simp add: task_ok_def)
    then show ?thesis
      using ok by (auto simp: TakeRequest intro!: task_ok_end) (auto simp: task_ok_def)
  next
    case (ReceiveResponse a)
    then show ?thesis using ok by (auto simp: task_ok_def split: list.split)
  next
    case SessionLost
    then show ?thesis using ok by (simp add: task_ok_end)
  qed (use ok in \<open>simp add: task_ok_def\<close>)
qed

section \<open>Responses find their requests\<close>

text \<open>One session as the client sees it: requests it writes, events, and responses. The server
  answers the messages of a connection one by one, so a response can only arrive while a
  message is unanswered; \<open>causal n\<close> checks this with \<open>n\<close> messages outstanding at the start.\<close>

fun causal :: "nat \<Rightarrow> control_input list \<Rightarrow> bool" where
  "causal n [] = True"
| "causal n (TakeRequest r m ok # es) = (ok \<and> causal (n + 1) es)"
| "causal n (ReceiveEvent ev # es) = causal n es"
| "causal n (ReceiveResponse a # es) = (0 < n \<and> causal (n - 1) es)"
| "causal n (e # es) = False"

fun session_requests :: "control_input list \<Rightarrow> nat list" where
  "session_requests [] = []"
| "session_requests (TakeRequest r m ok # es) = r # session_requests es"
| "session_requests (e # es) = session_requests es"

fun session_responses :: "control_input list \<Rightarrow> control_response list" where
  "session_responses [] = []"
| "session_responses (ReceiveResponse a # es) = a # session_responses es"
| "session_responses (e # es) = session_responses es"

lemma session_answers:
  "ct_online t \<Longrightarrow> causal (length (ct_pending t)) es \<Longrightarrow>
     (let t' = fold control_task_step es t
      in ct_answers t' = ct_answers t @ zip (ct_pending t @ session_requests es) (session_responses es) \<and>
         length (session_responses es) \<le> length (ct_pending t @ session_requests es) \<and>
         ct_pending t' = drop (length (session_responses es)) (ct_pending t @ session_requests es) \<and>
         ct_wire t' = ct_wire t @ concat (map (\<lambda>e. case e of TakeRequest r m ok \<Rightarrow> [m] | _ \<Rightarrow> []) es))"
proof (induction es arbitrary: t)
  case (Cons e es)
  show ?case
  proof (cases e)
    case (TakeRequest r m ok)
    with Cons.prems Cons.IH [of "control_task_step e t"] show ?thesis by (simp add: Let_def)
  next
    case (ReceiveEvent ev)
    with Cons.prems Cons.IH [of "control_task_step e t"] show ?thesis by (simp add: Let_def)
  next
    case (ReceiveResponse a)
    with Cons.prems obtain r rs where p: "ct_pending t = r # rs" by (cases "ct_pending t") auto
    with ReceiveResponse Cons.prems Cons.IH [of "control_task_step e t"] show ?thesis
      by (simp add: Let_def)
  qed (use Cons.prems in simp_all)
qed simp


text \<open>The hello a client sends by itself after a reconnect has no entry in the queue of pending
  requests, but the server answers it: when a request is written before that answer arrives,
  the request receives the answer to the hello, and its own answer reaches nobody.\<close>

lemma reconnect_hello_answers_next_request:
  "case fold control_task_step
      [ConnectAttempt True True, SessionLost, ConnectAttempt True True, TakeRequest 1 m True,
       ReceiveResponse (RespHello a u uid e), ReceiveResponse Ack] (control_task_start cfg) of t \<Rightarrow>
     length (ct_wire t) = 2 \<and> ct_answers t = [(1, RespHello a u uid e)] \<and> ct_pending t = []"
  by (simp add: control_task_start_def end_session_def wait_after_def
      fail_pending_control_responses_def Let_def)

section \<open>Properties\<close>

definition sample_client_config :: "user_id \<Rightarrow> client_config" where
  "sample_client_config u =
     \<lparr>cc_user_id = u, cc_client_uid = ''uid'', cc_role = RoleClient, cc_name = ''Booth'',
      cc_listen = [], cc_tx = [], cc_codec = Pcm16, cc_opus_profile = default_opus_profile,
      cc_talk_mode = Ptt, cc_last_non_muted_talk_mode = Ptt, cc_regular_talk_active = False,
      cc_priority = False, cc_priority_channels = [], cc_processing = default_processing_config,
      cc_channel_rosters = [], cc_emergency = None, cc_vol = [], cc_talker_vol = [],
      cc_buttons = [], cc_active_buttons = [], cc_active_direct_calls = [],
      cc_last_direct_caller = None, cc_direct_call_history = [], cc_active_alerts = [],
      cc_recent_alerts = [], cc_advertised_buttons = [],
      cc_capabilities = default_client_capabilities, cc_ifb = default_ifb_config,
      cc_lockout = default_client_lockout_policy, cc_stereo = default_stereo_config,
      cc_esp32_audio = default_esp32_audio_config\<rparr>"

lemma sample_client_user: "cc_user_id (sample_client_config u) = u"
  by (simp add: sample_client_config_def)

lemma cue_state_ok: "sessions_ok cue_state"
  by (simp add: cue_state_def cue_session_def sessions_ok_but_def all_sessions_def hm_wf_def talk_ok_def
      history_ok_def session_new_def buttons_ok_def button_ok_def cue_button_def trimmed_def,
    code_simp)

lemma cue_state_event:
  "hm_get (st_sessions cue_state) 1 = Some cue_session \<and>
   config_event_snapshot cue_state 1 = Some (the (config_event_snapshot cue_state 1))"
proof -
  have "hm_get (st_sessions cue_state) 1 = Some cue_session" by (simp add: cue_state_def)
  then show ?thesis by (simp add: config_event_snapshot_def case_prod_unfold Let_def)
qed

text \<open>Once a client has applied the server's configuration event, it transmits to exactly the
  targets the server's session allows (its open or keyed channels, the calls it makes and
  what its active buttons address), plus the emergency mix while it is the source of the
  emergency; in a fixed order and without repetition. The mixer admits just these frames.\<close>

lemma client_transmits_what_server_allows:
  assumes "sessions_ok st" and "cc_user_id cfg = u"
  shows "case hm_get (st_sessions st) u of
      None \<Rightarrow> config_event_snapshot st u = None
    | Some s \<Rightarrow> \<exists>ev. config_event_snapshot st u = Some ev \<and>
        (case client_tx_targets (apply_control_event ev cfg) of targets \<Rightarrow>
           set targets = active_tx_targets s \<union>
             (case st_emergency st of None \<Rightarrow> {} | Some e \<Rightarrow> if re_source e = u then {Mixed} else {}) \<and>
           distinct targets \<and> sorted (map target_key targets))"
proof (cases "hm_get (st_sessions st) u")
  case None
  then show ?thesis by (simp add: config_event_snapshot_def)
next
  case (Some s)
  then obtain ev where ev: "config_event_snapshot st u = Some ev"
    by (simp add: config_event_snapshot_def case_prod_unfold Let_def)
  with client_targets_facts [OF assms(1) Some ev assms(2)] client_targets_sorted show ?thesis
    by (simp add: Some)
qed

text \<open>C10. However the connection attempts, sessions, requests and responses of a client
  interleave, every request the task takes from its queue is answered exactly once or still
  waits for its answer, nothing waits while the client is offline, and the delay before the
  next attempt stays between half a second and five seconds.\<close>

theorem every_request_is_answered_once:
  "case fold control_task_step inputs (control_task_start cfg) of t \<Rightarrow>
     mset (ct_taken t) = mset (map fst (ct_answers t)) + mset (ct_pending t) \<and>
     (if ct_online t then True else ct_pending t = []) \<and>
     control_reconnect_initial \<le> ct_delay t \<and> ct_delay t \<le> control_reconnect_max"
proof -
  have "task_ok (control_task_start cfg)"
    by (simp add: task_ok_def control_task_start_def control_reconnect_initial_def
        control_reconnect_max_def millis_def)
  from control_task.run_inv [OF _ this, of inputs] show ?thesis
    by (simp add: task_ok_def list_all_iff split: if_splits)
qed

text \<open>In a session the client starts with no message unanswered, its first connection, the
  n-th response that arrives goes to the n-th request, whatever else happens in between, and
  the later requests wait in order. (After a reconnect the hello breaks this: see above.)\<close>

lemma responses_find_their_requests:
  assumes "ct_online t" and "ct_pending t = []" and "causal 0 es"
  shows "case fold control_task_step es t of t' \<Rightarrow>
     ct_answers t' = ct_answers t @ zip (session_requests es) (session_responses es) \<and>
     ct_pending t' = drop (length (session_responses es)) (session_requests es)"
  using session_answers [of t es] assms by (simp add: Let_def)

end
