(* ===== verification/Client_Audio.thy ===== *)
theory Client_Audio
  imports Codecs
begin

text \<open>
  The codecs of a client (\<open>clients/core/src/lib.rs\<close>): \<open>FrameResampler\<close>, the encoder of the
  microphone (\<open>AudioEncoder\<close>) and the mono and stereo decoder of the received mix
  (\<open>AudioDecoder\<close>), and how they meet the server's: what one side encodes, the other
  decodes. The Opus library and the resampler of the \<open>rubato\<close> crate are parameters.
\<close>

record client_codec_libs =
  cl_resample :: "nat \<Rightarrow> nat \<Rightarrow> f32 list \<Rightarrow> string + f32 list"
  cl_opus_decode :: "opus_profile \<Rightarrow> nat \<Rightarrow> u8 list \<Rightarrow> string + i16 list"
  cl_opus_encode :: "opus_profile \<Rightarrow> i16 list \<Rightarrow> string + u8 list"

definition client_frame_resample ::
    "client_codec_libs \<Rightarrow> nat \<Rightarrow> nat \<Rightarrow> i16 list \<Rightarrow> string + i16 list" where
  "client_frame_resample libs from_rate to_rate samples =
     (if from_rate = to_rate then Inr samples
      else if length samples \<noteq> frame_len_for_rate from_rate
      then Inl (''unexpected resampler input length: got '' @ show_nat (length samples) @
             '', expected '' @ show_nat (frame_len_for_rate from_rate))
      else case cl_resample libs from_rate to_rate (map to_unit samples) of
             Inl e \<Rightarrow> Inl (''resample client audio frame: '' @ e)
           | Inr out \<Rightarrow> Inr (fit_to (frame_len_for_rate to_rate)
                         (map quantise (take (frame_len_for_rate to_rate) out))))"

section \<open>Encoding\<close>

definition edge_rate :: "codec \<Rightarrow> opus_profile \<Rightarrow> nat" where
  "edge_rate codec profile =
     (if codec = Opus then opus_sample_rate_hz profile else codec_sample_rate codec)"

definition client_encode ::
    "client_codec_libs \<Rightarrow> codec \<Rightarrow> opus_profile \<Rightarrow> i16 list \<Rightarrow> string + u8 list" where
  "client_encode libs codec profile samples =
     (if length samples \<noteq> mix_samples_per_frame
      then Inl (''unexpected sample count: got '' @ show_nat (length samples) @
             '', expected '' @ show_nat mix_samples_per_frame)
      else let resampled = client_frame_resample libs mix_sample_rate (edge_rate codec profile) samples
           in case codec of
                Opus \<Rightarrow> (case resampled of Inl e \<Rightarrow> Inl e | Inr out \<Rightarrow> cl_opus_encode libs profile out)
              | Adpcm \<Rightarrow> Inl ''ADPCM is not implemented''
              | _ \<Rightarrow> (case resampled of Inl e \<Rightarrow> Inl e
                      | Inr out \<Rightarrow> Inr (pcm16_samples_to_le_bytes out)))"

section \<open>Decoding\<close>

text \<open>One channel after the other, up to the first error.\<close>

fun resample_channels :: "(nat \<Rightarrow> string + i16 list) \<Rightarrow> nat list \<Rightarrow> string + i16 list list" where
  "resample_channels f [] = Inr []"
| "resample_channels f (c # cs) =
     (case f c of
        Inl e \<Rightarrow> Inl e
      | Inr out \<Rightarrow> (case resample_channels f cs of Inl e \<Rightarrow> Inl e | Inr outs \<Rightarrow> Inr (out # outs)))"

definition client_resample_interleaved ::
    "client_codec_libs \<Rightarrow> nat \<Rightarrow> i16 list \<Rightarrow> nat \<Rightarrow> string + i16 list" where
  "client_resample_interleaved libs from_rate samples channels =
     (if from_rate = mix_sample_rate then Inr samples
      else if length samples \<noteq> frame_len_for_rate from_rate * channels
      then Inl (''unexpected interleaved sample count: got '' @ show_nat (length samples) @
             '', expected '' @ show_nat (frame_len_for_rate from_rate * channels))
      else case resample_channels (\<lambda>c. client_frame_resample libs from_rate mix_sample_rate
                  (channel_samples channels c samples)) [0..<channels] of
             Inl e \<Rightarrow> Inl e
           | Inr outs \<Rightarrow>
               Inr (concat (map (\<lambda>frame. map (\<lambda>out. out ! frame) outs)
                 [0..<frame_len_for_rate mix_sample_rate])))"

definition client_decode_opus ::
    "client_codec_libs \<Rightarrow> opus_profile \<Rightarrow> u8 list \<Rightarrow> nat \<Rightarrow> string + i16 list" where
  "client_decode_opus libs profile payload channels =
     (let channels = max channels 1; expected = opus_samples_per_frame profile * channels
      in case cl_opus_decode libs profile channels payload of
           Inl e \<Rightarrow> Inl e
         | Inr decoded \<Rightarrow>
             let samples = take expected decoded
             in if length samples \<noteq> expected
                then Inl (''unexpected Opus frame sample count: got '' @ show_nat (length samples) @
                       '', expected '' @ show_nat expected)
                else if channels > 1
                then client_resample_interleaved libs (opus_sample_rate_hz profile) samples channels
                else client_frame_resample libs (opus_sample_rate_hz profile) mix_sample_rate samples)"

definition client_decode_pcm :: "client_codec_libs \<Rightarrow> codec \<Rightarrow> u8 list \<Rightarrow> nat \<Rightarrow> string + i16 list" where
  "client_decode_pcm libs codec payload channels =
     (let channels = max channels 1; expected = codec_pcm16_payload_bytes codec * channels
      in if channels > 1 \<and> codec \<noteq> Pcm48
         then Inl ''stereo receive is only supported for pcm48 and opus''
         else if length payload \<noteq> expected
         then Inl (''unexpected PCM16 payload length: got '' @ show_nat (length payload) @
                '', expected '' @ show_nat expected)
         else case pcm16_le_bytes_to_samples payload of
                Inl e \<Rightarrow> Inl (pcm_message e)
              | Inr samples \<Rightarrow>
                  if channels = 2 \<and> codec = Pcm48 then Inr samples
                  else client_frame_resample libs (codec_sample_rate codec) mix_sample_rate samples)"

fun decode_with_channels ::
    "client_codec_libs \<Rightarrow> codec \<Rightarrow> opus_profile \<Rightarrow> u8 list \<Rightarrow> nat \<Rightarrow> string + i16 list" where
  "decode_with_channels libs Opus profile payload channels =
     client_decode_opus libs profile payload channels"
| "decode_with_channels libs Adpcm profile payload channels = Inl ''ADPCM is not implemented''"
| "decode_with_channels libs codec profile payload channels =
     client_decode_pcm libs codec payload channels"

section \<open>Frames\<close>

lemma client_resample_length:
  "client_frame_resample libs a b samples = Inr out \<Longrightarrow> length samples = frame_len_for_rate a \<Longrightarrow>
     length out = frame_len_for_rate b"
  by (auto simp: client_frame_resample_def split: if_splits sum.splits)

lemma resample_channels_length:
  "resample_channels f cs = Inr outs \<Longrightarrow> length outs = length cs"
  by (induction cs arbitrary: outs) (auto split: sum.splits)

lemma concat_frames: "length (concat (map (\<lambda>i. map (g i) xs) is)) = length is * length xs"
  by (induction "is") simp_all

lemma pcm_samples_length:
  "pcm16_le_bytes_to_samples bs = Inr s \<Longrightarrow> length s = length bs div 2"
  by (auto simp: pcm16_le_bytes_to_samples_def length_pairs_le split: if_splits)

lemma decode_pcm_frame:
  assumes "client_decode_pcm libs codec payload channels = Inr samples" "channels \<in> {1, 2}"
    "codec \<in> {Pcm16, Pcm24, Pcm48}"
  shows "length samples = 480 * channels"
proof -
  obtain s where s: "pcm16_le_bytes_to_samples payload = Inr s"
    "length payload = codec_pcm16_payload_bytes codec * channels"
    "(if channels = 2 \<and> codec = Pcm48 then Inr s
      else client_frame_resample libs (codec_sample_rate codec) mix_sample_rate s) = Inr samples"
    "channels = 1 \<or> codec = Pcm48"
    using assms by (auto simp: client_decode_pcm_def Let_def split: if_splits sum.splits)
  from pcm_samples_length [OF s(1)] s(2) assms(2,3)
  have "length s = frame_len_for_rate (codec_sample_rate codec) * channels"
    by (auto simp: codec_pcm16_payload_bytes_def codec_samples_per_frame_def pcm16_bytes_per_sample_def)
  moreover have "frame_len_for_rate mix_sample_rate = 480" "frame_len_for_rate (codec_sample_rate Pcm48) = 480"
    by (simp_all add: frame_lengths frame_len_for_rate_def pcm48_sample_rate_def frame_ms_def mix_sample_rate_def)
  ultimately show ?thesis
    using client_resample_length [of libs "codec_sample_rate codec" mix_sample_rate s samples] s(3,4) assms(2)
    by (auto split: if_splits)
qed


lemma opus_rate_frame: "frame_len_for_rate (opus_sample_rate_hz p) = opus_samples_per_frame p"
  by (simp add: frame_len_for_rate_def opus_samples_per_frame_def)

lemma opus_full_rate: "opus_sample_rate_hz p = mix_sample_rate \<Longrightarrow> opus_samples_per_frame p = 480"
  by (simp add: opus_samples_per_frame_def frame_lengths frame_ms_def)

lemma decode_opus_frame:
  assumes "client_decode_opus libs profile payload channels = Inr samples" "channels \<in> {1, 2}"
  shows "length samples = 480 * channels"
proof -
  let ?n = "opus_samples_per_frame profile" and ?r = "opus_sample_rate_hz profile"
  have m: "max channels 1 = channels" using assms(2) by auto
  obtain d where d: "cl_opus_decode libs profile channels payload = Inr d"
    using assms(1) unfolding client_decode_opus_def m Let_def by (auto split: sum.splits)
  define s where "s = take (?n * channels) d"
  have s: "length s = ?n * channels"
    "(if channels > 1 then client_resample_interleaved libs ?r s channels
      else client_frame_resample libs ?r mix_sample_rate s) = Inr samples"
    using assms(1) unfolding client_decode_opus_def m Let_def d sum.case s_def [symmetric]
    by (simp_all split: if_splits)
  show ?thesis
  proof (cases "channels = 1")
    case True
    with s client_resample_length [of libs ?r mix_sample_rate s samples] show ?thesis
      by (simp add: opus_rate_frame frame_lengths)
  next
    case False
    then have r: "client_resample_interleaved libs ?r s channels = Inr samples" "channels = 2"
      using s(2) assms(2) by auto
    show ?thesis
    proof (cases "?r = mix_sample_rate")
      case True
      with r s(1) opus_full_rate [of profile] show ?thesis by (simp add: client_resample_interleaved_def)
    next
      case False
      then obtain outs where outs: "samples = concat (map (\<lambda>frame. map (\<lambda>out. out ! frame) outs)
          [0..<frame_len_for_rate mix_sample_rate])"
        "resample_channels (\<lambda>c. client_frame_resample libs ?r mix_sample_rate
           (channel_samples channels c s)) [0..<channels] = Inr outs"
        using r(1) by (auto simp: client_resample_interleaved_def split: if_splits sum.splits)
      have "length samples = frame_len_for_rate mix_sample_rate * length outs"
        unfolding outs(1) using concat_frames [of "\<lambda>frame out. out ! frame" outs
            "[0..<frame_len_for_rate mix_sample_rate]"] by simp
      then show ?thesis using resample_channels_length [OF outs(2)] by (simp add: frame_lengths)
    qed
  qed
qed

lemma decode_pcm_error:
  assumes "client_decode_pcm libs codec payload 1 = Inl e"
    "length payload = codec_pcm16_payload_bytes codec" "codec \<in> {Pcm16, Pcm24, Pcm48}"
  shows "\<exists>rate xs m. cl_resample libs rate mix_sample_rate xs = Inl m"
proof -
  have even: "length payload mod 2 = 0"
    using assms(2) by (simp add: codec_pcm16_payload_bytes_def pcm16_bytes_per_sample_def)
  then obtain s where s: "pcm16_le_bytes_to_samples payload = Inr s"
    by (auto simp: pcm16_le_bytes_to_samples_def pcm16_bytes_per_sample_def)
  have l: "length s = frame_len_for_rate (codec_sample_rate codec)"
    using pcm_samples_length [OF s] assms(2)
    by (simp add: codec_pcm16_payload_bytes_def codec_samples_per_frame_def pcm16_bytes_per_sample_def)
  have "client_frame_resample libs (codec_sample_rate codec) mix_sample_rate s = Inl e"
    using assms(1,2) s by (auto simp: client_decode_pcm_def Let_def split: if_splits)
  with l show ?thesis
    by (auto simp: client_frame_resample_def split: if_splits sum.splits)
qed

lemma pcm48_both_ways:
  "length samples = 480 * channels \<Longrightarrow> channels \<in> {1, 2} \<Longrightarrow>
     client_decode_pcm libs Pcm48 (pcm16_samples_to_le_bytes samples) channels = Inr samples"
proof -
  assume l: "length samples = 480 * channels" and c: "channels \<in> {1, 2}"
  have "pcm16_le_bytes_to_samples (pcm16_samples_to_le_bytes samples) = Inr samples"
    by (rule pcm_wire.dec_enc) simp
  moreover have "length (pcm16_samples_to_le_bytes samples) = 960 * channels"
    using l length_pcm_bytes [of samples] by simp
  ultimately show ?thesis
    using c by (auto simp: client_decode_pcm_def Let_def pcm_bytes client_frame_resample_def
        mix_sample_rate_def)
qed


text \<open>The channels of a client's output: one or two.\<close>

definition output_channels :: "bool \<Rightarrow> nat" where
  "output_channels stereo = (if stereo then 2 else 1)"

text \<open>Whatever arrives, in mono or stereo and in any codec, a client decodes it to one whole
  frame per channel (480 samples at 48 kHz) or refuses it; ADPCM and stereo in a low-rate PCM
  codec it always refuses.\<close>

lemma client_decodes_whole_frames:
  "case decode_with_channels libs codec profile payload (output_channels stereo) of
     Inl e \<Rightarrow> True
   | Inr samples \<Rightarrow> length samples = mix_samples_per_frame * output_channels stereo \<and>
       codec \<noteq> Adpcm \<and> (if stereo then codec \<in> {Pcm48, Opus} else True)"
proof -
  have c: "output_channels stereo \<in> {1, 2}" by (simp add: output_channels_def)
  show ?thesis
  proof (cases "decode_with_channels libs codec profile payload (output_channels stereo)")
    case (Inr samples)
    have "length samples = 480 * output_channels stereo"
      using Inr decode_pcm_frame [OF _ c] decode_opus_frame [OF _ c] by (cases codec) auto
    moreover have "if stereo then codec \<in> {Pcm48, Opus} else True"
      using Inr by (cases codec) (auto simp: client_decode_pcm_def output_channels_def Let_def)
    ultimately show ?thesis using Inr by (cases codec) (auto simp: frame_lengths)
  qed simp
qed

text \<open>Client and server understand each other's audio. A PCM48 frame the server encodes, in
  mono or in stereo, the client decodes to the same samples; one the client encodes, the
  server decodes to the same samples. A frame the server encodes in a low-rate PCM codec has
  the length the client expects, so only a failing resampler can make the client refuse it.\<close>

lemma client_and_server_interoperate:
  "(case audio_encode server Pcm48 profile samples (output_channels stereo) of
      Inr payload \<Rightarrow>
        decode_with_channels client Pcm48 profile' payload (output_channels stereo) = Inr samples
    | Inl e \<Rightarrow> \<not> length samples = mix_samples_per_frame * output_channels stereo) \<and>
   (case client_encode client Pcm48 profile samples of
      Inr payload \<Rightarrow> audio_decode server Pcm48 profile' payload = Inr samples
    | Inl e \<Rightarrow> \<not> length samples = mix_samples_per_frame) \<and>
   (case audio_encode server codec profile samples 1 of
      Inl e \<Rightarrow> True
    | Inr payload \<Rightarrow>
        (case decode_with_channels client codec profile payload 1 of
           Inr out \<Rightarrow> length out = mix_samples_per_frame
         | Inl e \<Rightarrow> codec = Opus \<or> (\<exists>rate xs m. cl_resample client rate mix_sample_rate xs = Inl m)))"
  (is "?down \<and> ?up \<and> ?low")
proof (intro conjI)
  have c: "output_channels stereo \<in> {1, 2}" by (simp add: output_channels_def)
  have m: "max (output_channels stereo) 1 = output_channels stereo" by (simp add: output_channels_def)
  show ?down
    using pcm48_both_ways [OF _ c, of samples client] c
    by (auto simp: audio_encode_def m Let_def frame_lengths encode_pcm48)
  show ?up
    by (simp add: client_encode_def edge_rate_def frame_lengths client_frame_resample_def
        decode_encoded_pcm48 pcm48_sample_rate_def Let_def)
  show ?low
  proof (cases "audio_encode server codec profile samples 1")
    case (Inr payload)
    have a: "codec \<noteq> Adpcm" "codec = Opus \<or> length payload = codec_pcm16_payload_bytes codec"
      using encoded_frame_facts [where libs = server and codec = codec and profile = profile
          and samples = samples and channels = 1]
      unfolding Inr sum.case by simp_all
    show ?thesis
    proof (cases "decode_with_channels client codec profile payload 1")
      case err: (Inl e)
      have "codec = Opus \<or> (\<exists>rate xs m. cl_resample client rate mix_sample_rate xs = Inl m)"
        using a err decode_pcm_error [of client codec payload e] by (cases codec) auto
      then show ?thesis unfolding Inr sum.case err .
    next
      case ok: (Inr out)
      have "length out = mix_samples_per_frame"
        using a ok decode_pcm_frame [of client codec payload 1 out]
          decode_opus_frame [of client profile payload 1 out]
        by (cases codec) (auto simp: frame_lengths)
      then show ?thesis unfolding Inr sum.case ok .
    qed
  qed simp
qed

end
