(* ===== verification/Netem.thy ===== *)
theory Netem
  imports Interfaces Float_Bounds
begin

text \<open>
  The network emulator \<open>tools/netem/src/main.rs\<close>, a UDP proxy that drops and delays packets:
  its pseudo-random generator (a 64-bit linear congruential generator read as a double),
  the drop and delay decisions, the counters, and the checks of its arguments.
\<close>

section \<open>The generator\<close>

definition lcg_new :: "u64 \<Rightarrow> u64" where
  "lcg_new seed = max seed 1"

definition lcg_next :: "u64 \<Rightarrow> u64" where
  "lcg_next state = state * 6364136223846793005 + 1"

definition next_f64 :: "u64 \<Rightarrow> f64 \<times> u64" where
  "next_f64 state =
     (let state = lcg_next state
      in (f_div binary64 (f_of_int binary64 (uint (drop_bit 11 state)))
            (f_of_int binary64 (2 ^ 53)), state))"

section \<open>Impairment\<close>

record impairment =
  im_drop_probability :: f64
  im_delay_ms :: u64
  im_jitter_ms :: u64
  im_rng :: u64

definition impairment_new :: "f64 \<Rightarrow> u64 \<Rightarrow> u64 \<Rightarrow> u64 \<Rightarrow> impairment" where
  "impairment_new p delay jitter seed =
     \<lparr>im_drop_probability = f_clamp p (Fin 0) (Fin 1), im_delay_ms = delay, im_jitter_ms = jitter,
      im_rng = lcg_new seed\<rparr>"

text \<open>No number is drawn when nothing is to be dropped.\<close>

definition should_drop :: "impairment \<Rightarrow> bool \<times> impairment" where
  "should_drop i =
     (if f_gt (im_drop_probability i) (Fin 0)
      then let (x, rng) = next_f64 (im_rng i)
           in (f_lt x (im_drop_probability i), i\<lparr>im_rng := rng\<rparr>)
      else (False, i))"

definition i64_saturating_add :: "int \<Rightarrow> int \<Rightarrow> int" where
  "i64_saturating_add a b = max (- (2 ^ 63)) (min (2 ^ 63 - 1) (a + b))"

text \<open>\<open>delay_ms as i64\<close> and \<open>jitter_ms as i64\<close> reinterpret the 64 bits as signed.\<close>

definition jitter_delay :: "impairment \<Rightarrow> instant \<times> impairment" where
  "jitter_delay i =
     (let delay = sint (im_delay_ms i); jitter = sint (im_jitter_ms i)
      in if jitter = 0 then (millis (unat (im_delay_ms i)), i)
         else let (x, rng) = next_f64 (im_rng i);
                  spread = f_mul binary64
                    (f_sub binary64 (f_mul binary64 x (Fin 2)) (Fin 1)) (f_of_int binary64 jitter);
                  delta = f_as_int (- (2 ^ 63)) (2 ^ 63 - 1) (f_round spread)
              in (millis (nat (max 0 (i64_saturating_add delay delta))), i\<lparr>im_rng := rng\<rparr>))"

section \<open>Forwarding\<close>

text \<open>The counters and the packets under way of one direction; each packet waits for its delay in
  a task of its own, which ends in a send that succeeds or fails.\<close>

record proxy_direction =
  pd_received :: nat
  pd_forwarded :: nat
  pd_dropped :: nat
  pd_in_flight :: "(instant \<times> string \<times> u8 list) list"
  pd_failed :: nat

definition proxy_direction_new :: proxy_direction where
  "proxy_direction_new =
     \<lparr>pd_received = 0, pd_forwarded = 0, pd_dropped = 0, pd_in_flight = [], pd_failed = 0\<rparr>"

text \<open>The proxy: one impairment for both directions, and a route per client, a socket connected
  to the server whose answers a task of its own forwards (the set of clients with that task
  alive). \<open>px_running\<close> is false once \<open>run_proxy\<close> has returned an error.\<close>

record proxy =
  px_impairment :: impairment
  px_routes :: "string set"
  px_answering :: "string set"
  px_c2s :: proxy_direction
  px_s2c :: proxy_direction
  px_running :: bool

definition proxy_new :: "impairment \<Rightarrow> proxy" where
  "proxy_new i =
     \<lparr>px_impairment = i, px_routes = {}, px_answering = {}, px_c2s = proxy_direction_new,
      px_s2c = proxy_direction_new, px_running = True\<rparr>"

definition forward_packet ::
  "string \<Rightarrow> u8 list \<Rightarrow> impairment \<Rightarrow> proxy_direction \<Rightarrow> impairment \<times> proxy_direction" where
  "forward_packet client packet i d =
     (let (dropped, i) = should_drop i
      in if dropped then (i, d\<lparr>pd_dropped := pd_dropped d + 1\<rparr>)
         else let (delay, i) = jitter_delay i
              in (i, d\<lparr>pd_in_flight := pd_in_flight d @ [(delay, client, packet)]\<rparr>))"

definition count_received :: "proxy_direction \<Rightarrow> proxy_direction" where
  "count_received d = d\<lparr>pd_received := pd_received d + 1\<rparr>"

definition finish_packet :: "nat \<Rightarrow> bool \<Rightarrow> proxy_direction \<Rightarrow> proxy_direction" where
  "finish_packet k sent d =
     (if k < length (pd_in_flight d)
      then let d = d\<lparr>pd_in_flight := take k (pd_in_flight d) @ drop (k + 1) (pd_in_flight d)\<rparr>
           in if sent then d\<lparr>pd_forwarded := pd_forwarded d + 1\<rparr>
              else d\<lparr>pd_failed := pd_failed d + 1\<rparr>
      else d)"

text \<open>A packet of a client. A route is made for a new client, whose socket may fail to bind or
  connect: then the error ends the proxy. The buffer holds 2048 bytes.\<close>

definition receive_from_client :: "string \<Rightarrow> u8 list \<Rightarrow> bool \<Rightarrow> proxy \<Rightarrow> proxy" where
  "receive_from_client client packet bound p =
     (let p = p\<lparr>px_c2s := count_received (px_c2s p)\<rparr>
      in if client \<notin> px_routes p \<and> \<not> bound then p\<lparr>px_running := False\<rparr>
         else let p = (if client \<in> px_routes p then p
                       else p\<lparr>px_routes := insert client (px_routes p),
                              px_answering := insert client (px_answering p)\<rparr>);
                  (i, d) = forward_packet client (take 2048 packet) (px_impairment p) (px_c2s p)
              in p\<lparr>px_impairment := i, px_c2s := d\<rparr>)"

text \<open>An answer of the server on a client's route, or the error that ends the route's task; the
  route itself stays in the table.\<close>

definition receive_from_server :: "string \<Rightarrow> u8 list option \<Rightarrow> proxy \<Rightarrow> proxy" where
  "receive_from_server client answer p =
     (if client \<notin> px_answering p then p
      else case answer of
        None \<Rightarrow> p\<lparr>px_answering := px_answering p - {client}\<rparr>
      | Some packet \<Rightarrow>
          let (i, d) = forward_packet client (take 2048 packet) (px_impairment p)
                         (count_received (px_s2c p))
          in p\<lparr>px_impairment := i, px_s2c := d\<rparr>)"

datatype proxy_event =
    FromClient string "u8 list" bool
  | FromServer string "u8 list option"
  | SentToServer nat bool
  | SentToClient nat bool

definition proxy_step :: "proxy_event \<Rightarrow> proxy \<Rightarrow> proxy" where
  "proxy_step e p =
     (if \<not> px_running p then p
      else case e of
        FromClient client packet bound \<Rightarrow> receive_from_client client packet bound p
      | FromServer client answer \<Rightarrow> receive_from_server client answer p
      | SentToServer k sent \<Rightarrow> p\<lparr>px_c2s := finish_packet k sent (px_c2s p)\<rparr>
      | SentToClient k sent \<Rightarrow> p\<lparr>px_s2c := finish_packet k sent (px_s2c p)\<rparr>)"

section \<open>Arguments\<close>

text \<open>\<open>str::parse::<u64>\<close> with the text of its error: digits from the left, the first invalid
  one or the first overflow ends it.\<close>

fun parse_digits :: "nat \<Rightarrow> nat \<Rightarrow> string \<Rightarrow> string + nat" where
  "parse_digits bound acc [] = Inr acc"
| "parse_digits bound acc (c # cs) =
     (if \<not> is_ascii_digit c then Inl ''invalid digit found in string''
      else let n = acc * 10 + (of_char c - 48)
           in if n \<ge> bound then Inl ''number too large to fit in target type''
              else parse_digits bound n cs)"

definition parse_int :: "nat \<Rightarrow> string \<Rightarrow> string + nat" where
  "parse_int bound s =
     (case s of
        [] \<Rightarrow> Inl ''cannot parse integer from empty string''
      | c # cs \<Rightarrow> if c = CHR ''+'' \<and> cs \<noteq> [] then parse_digits bound 0 cs
                  else parse_digits bound 0 s)"

definition parse_bounded_ms :: "nat \<Rightarrow> string \<Rightarrow> string \<Rightarrow> string \<Rightarrow> string + nat" where
  "parse_bounded_ms limit invalid message s =
     (case parse_int (2 ^ 64) s of
        Inl err \<Rightarrow> Inl (invalid @ '' `'' @ s @ ''`: '' @ err)
      | Inr ms \<Rightarrow> if ms > limit then Inl message else Inr ms)"

definition parse_delay_ms :: "string \<Rightarrow> string + nat" where
  "parse_delay_ms = parse_bounded_ms 1000 ''invalid delay milliseconds''
     ''delay milliseconds must be between 0 and 1000''"

definition parse_jitter_ms :: "string \<Rightarrow> string + nat" where
  "parse_jitter_ms = parse_bounded_ms 1000 ''invalid jitter milliseconds''
     ''jitter milliseconds must be between 0 and 1000''"

definition parse_stats_interval_ms :: "string \<Rightarrow> string + nat" where
  "parse_stats_interval_ms = parse_bounded_ms 60000 ''invalid stats interval milliseconds''
     ''stats interval milliseconds must be between 0 and 60000''"


lemma parse_bounded_ms_bound:
  "case parse_bounded_ms limit invalid message s of Inl _ \<Rightarrow> True | Inr ms \<Rightarrow> ms \<le> limit"
  by (simp add: parse_bounded_ms_def split: sum.splits)

section \<open>The generator stays in [0, 1)\<close>

lemma rnd_pow2:
  assumes fmt: "plain_format fmt" and k: "k \<le> precision fmt" "int k \<le> emax fmt"
  shows "rnd fmt (2 ^ k) = Fin (2 ^ k)"
proof -
  let ?x = "2 ^ k :: rat"
  define e where "e = max (ilog2 ?x) (emin fmt) - (int (precision fmt) - 1)"
  have q: "quantum fmt ?x = pow2 e" by (simp add: quantum_def e_def)
  have "?x < pow2 (int (Suc k))" unfolding pow2_nat by simp
  from ilog2_less [OF _ this] k fmt have "e \<le> int k" by (auto simp: e_def plain_format_def)
  then have "?x = pow2 (int (nat (int k - e)) + e)" by (simp add: pow2_nat)
  then have x: "?x = of_int (2 ^ nat (int k - e)) * pow2 e"
    unfolding pow2_add pow2_nat by simp
  have "?x / pow2 e = of_int (2 ^ nat (int k - e))"
    using pow2_pos [of e] by (subst x) (metis nonzero_mult_div_cancel_right less_irrefl)
  then have "of_int (round_half_even (?x / pow2 e)) = ?x / pow2 e"
    by (simp only: round_half_even_def Let_def floor_of_int) simp
  then have y: "of_int (round_half_even (?x / pow2 e)) * pow2 e = ?x"
    using pow2_pos [of e] by (metis nonzero_eq_divide_eq less_irrefl)
  have "pow2 (int k) < pow2 (int k + 1)" unfolding pow2_add by (simp add: pow2_def)
  also have "\<dots> \<le> pow2 (emax fmt + 1)" using k by (intro pow2_mono) simp
  finally have "\<not> pow2 (emax fmt + 1) \<le> \<bar>?x\<bar>" unfolding pow2_nat by simp
  then show ?thesis unfolding rnd_def q Let_def y by simp
qed

lemma next_f64_value:
  obtains x where "next_f64 s = (Fin x, lcg_next s)" "0 \<le> x" "x < 1"
proof -
  let ?k = "unat (drop_bit 11 (lcg_next s))"
  have k: "?k < 2 ^ 53"
  proof -
    have "unat (lcg_next s) < 2 ^ 64" using unsigned_less [of "lcg_next s"] by simp
    then have "unat (lcg_next s) div 2 ^ 11 < 2 ^ 53" by (simp add: less_mult_imp_div_less)
    then show ?thesis unfolding unat_drop_bit_eq by (simp only: drop_bit_eq_div)
  qed
  have p: "precision binary64 = 53" "emin binary64 = - 1022" by (simp_all add: binary64_def)
  have "rnd binary64 (of_nat ?k / 2 ^ 0) = Fin (of_nat ?k / 2 ^ 0)"
    by (rule rnd_dyadic) (use k in \<open>simp_all add: p\<close>)
  then have n: "f_of_int binary64 (uint (drop_bit 11 (lcg_next s))) = Fin (of_nat ?k)"
    by (simp add: f_of_int_def)
  have "rnd binary64 (2 ^ 53) = Fin (2 ^ 53)" by (rule rnd_pow2 [OF plain_formats(2)]) (simp_all add: binary64_def)
  then have d: "f_of_int binary64 (2 ^ 53) = Fin (2 ^ 53)" by (simp add: f_of_int_def)
  have "rnd binary64 (of_nat ?k / 2 ^ 53) = Fin (of_nat ?k / 2 ^ 53)"
    by (rule rnd_dyadic) (use k in \<open>simp_all add: p\<close>)
  then have "next_f64 s = (Fin (of_nat ?k / 2 ^ 53), lcg_next s)"
    unfolding next_f64_def Let_def n d by simp
  moreover have "(of_nat ?k :: rat) < of_nat (2 ^ 53)" using k by (rule of_nat_less_iff [THEN iffD2])
  then have "(of_nat ?k / 2 ^ 53 :: rat) < 1" by simp
  moreover have "(0 :: rat) \<le> of_nat ?k / 2 ^ 53"
    by (intro divide_nonneg_nonneg of_nat_0_le_iff zero_le_power) simp
  ultimately show ?thesis using that [of "of_nat ?k / 2 ^ 53"] by blast
qed

lemma rnd_le_both:
  assumes "plain_format fmt" "\<bar>x\<bar> \<le> of_nat n" "n < 2 ^ precision fmt"
  obtains y where "rnd fmt x = Fin y" "\<bar>y\<bar> \<le> of_nat n"
proof (cases "0 \<le> x")
  case True
  then obtain y where "rnd fmt x = Fin y" "0 \<le> y" "y \<le> of_nat n"
    using rnd_le_fmt [OF assms(1), of x n] assms by auto
  with that show ?thesis by simp
next
  case False
  then obtain y where "rnd fmt (- x) = Fin y" "0 \<le> y" "y \<le> of_nat n"
    using rnd_le_fmt [OF assms(1), of "- x" n] assms by auto
  with rnd_minus [of fmt x] that [of "- y"] show ?thesis by (cases "rnd fmt x") auto
qed

lemma round_away_bound: "\<bar>y\<bar> \<le> of_nat n \<Longrightarrow> \<bar>round_half_away y\<bar> \<le> int n"
proof -
  have pos: "0 \<le> \<lfloor>z + 1 / 2\<rfloor> \<and> \<lfloor>z + 1 / 2\<rfloor> \<le> int n" if "0 \<le> z" "z \<le> of_nat n" for z :: rat
  proof
    show "0 \<le> \<lfloor>z + 1 / 2\<rfloor>" using that by simp
    have "z + 1 / 2 < of_int (int n + 1)" using that by simp
    then show "\<lfloor>z + 1 / 2\<rfloor> \<le> int n" by (simp add: floor_less_iff floor_le_iff)
  qed
  assume "\<bar>y\<bar> \<le> of_nat n"
  then show ?thesis
  proof (cases "0 \<le> y")
    case True
    with pos [of y] \<open>\<bar>y\<bar> \<le> of_nat n\<close> show ?thesis by (simp add: round_half_away_def)
  next
    case False
    then have "0 \<le> \<lfloor>- y + 1 / 2\<rfloor> \<and> \<lfloor>- y + 1 / 2\<rfloor> \<le> int n"
      using pos [of "- y"] \<open>\<bar>y\<bar> \<le> of_nat n\<close> by simp
    moreover have "round_half_away y = - \<lfloor>- y + 1 / 2\<rfloor>"
      using False by (simp only: round_half_away_def if_False)
    ultimately show ?thesis by (simp only: abs_minus_cancel abs_of_nonneg)
  qed
qed

lemma jitter_delay_bounds:
  assumes "unat (im_delay_ms i) \<le> 1000" "unat (im_jitter_ms i) \<le> 1000"
  shows "case jitter_delay i of (t, i') \<Rightarrow>
    millis (unat (im_delay_ms i) - unat (im_jitter_ms i)) \<le> t \<and>
    t \<le> millis (unat (im_delay_ms i) + unat (im_jitter_ms i)) \<and>
    (\<exists>rng. i' = i\<lparr>im_rng := rng\<rparr>)"
proof -
  obtain d j where dj: "unat (im_delay_ms i) = d" "unat (im_jitter_ms i) = j" by simp
  have dj': "d \<le> 1000" "j \<le> 1000" using assms by (simp_all add: dj)
  have s: "sint w = int (unat w)" if "unat w \<le> 1000" for w :: u64
  proof -
    obtain n where n: "w = word_of_int (int n)" "n = unat w" by simp
    have "sint w = (int n + 2 ^ 63) mod 2 ^ 64 - 2 ^ 63"
      unfolding n(1) int_word_sint by simp
    also have "\<dots> = int n" using that unfolding n(2) [symmetric] by simp
    finally show ?thesis by (simp only: n(2))
  qed
  have sd: "sint (im_delay_ms i) = int d" "sint (im_jitter_ms i) = int j"
    using s [OF assms(1)] s [OF assms(2)] unfolding dj by simp_all
  have p: "precision binary64 = 53" by (simp add: binary64_def)
  obtain x where x: "next_f64 (im_rng i) = (Fin x, lcg_next (im_rng i))" "0 \<le> x" "x < 1"
    by (rule next_f64_value)
  obtain y where y: "rnd binary64 (x * 2) = Fin y" "0 \<le> y" "y \<le> of_nat 2"
    by (rule rnd_le_fmt [of binary64 "x * 2" 2]) (use x in \<open>simp_all add: p\<close>)
  obtain z where z: "rnd binary64 (y - 1) = Fin z" "\<bar>z\<bar> \<le> of_nat 1"
    by (rule rnd_le_both [of binary64 "y - 1" 1]) (use y in \<open>simp_all add: p abs_le_iff\<close>)
  obtain b where b: "rnd binary64 (of_nat j) = Fin b" "0 \<le> b" "b \<le> of_nat j"
    by (rule rnd_le_fmt [of binary64 "of_nat j" j]) (use dj'(2) in \<open>simp_all add: p\<close>)
  have "\<bar>z * b\<bar> \<le> 1 * of_nat j"
    unfolding abs_mult using z(2) b(2,3) by (intro mult_mono) simp_all
  then obtain w where w: "rnd binary64 (z * b) = Fin w" "\<bar>w\<bar> \<le> of_nat j"
    by (rule_tac rnd_le_both [of binary64 "z * b" j]) (use dj'(2) in \<open>simp_all add: p\<close>)
  let ?r = "round_half_away w"
  have r: "\<bar>?r\<bar> \<le> int j" using w(2) by (rule round_away_bound)
  show ?thesis
  proof (cases "j = 0")
    case True
    then have "jitter_delay i = (millis d, i\<lparr>im_rng := im_rng i\<rparr>)"
      by (simp add: jitter_delay_def sd dj)
    with True show ?thesis
      unfolding dj by (auto intro: exI [of _ "im_rng i"])
  next
    case False
    have "f_as_int (- (2 ^ 63)) (2 ^ 63 - 1) (Fin (of_int ?r)) = ?r"
      using r dj'(2) by (simp add: trunc_def)
    then have "jitter_delay i = (millis (nat (max 0 (i64_saturating_add (int d) ?r))),
        i\<lparr>im_rng := lcg_next (im_rng i)\<rparr>)"
      using False by (simp add: jitter_delay_def sd Let_def x(1) y(1) f_sub_def z(1) f_of_int_def b(1) w(1))
    moreover have "i64_saturating_add (int d) ?r = int d + ?r"
      using r dj' by (simp add: i64_saturating_add_def)
    ultimately show ?thesis
      unfolding dj using r by (auto simp: millis_def)
  qed
qed

section \<open>What becomes of the packets\<close>

lemma should_drop_facts:
  obtains b rng where "should_drop i = (b, i\<lparr>im_rng := rng\<rparr>)"
    "im_drop_probability i = Fin 0 \<Longrightarrow> \<not> b" "im_drop_probability i = Fin 1 \<Longrightarrow> b"
proof -
  obtain x where x: "next_f64 (im_rng i) = (Fin x, lcg_next (im_rng i))" "0 \<le> x" "x < 1"
    by (rule next_f64_value)
  show ?thesis
  proof (cases "f_gt (im_drop_probability i) (Fin 0)")
    case True
    with x that [of "f_lt (Fin x) (im_drop_probability i)" "lcg_next (im_rng i)"]
    show ?thesis by (auto simp: should_drop_def f_gt_def)
  next
    case False
    then have "im_drop_probability i \<noteq> Fin 1" by (auto simp: f_gt_def)
    with False that [of False "im_rng i"] show ?thesis by (simp add: should_drop_def)
  qed
qed

definition same_setting :: "impairment \<Rightarrow> impairment \<Rightarrow> bool" where
  "same_setting i j \<longleftrightarrow> i\<lparr>im_rng := 0\<rparr> = j\<lparr>im_rng := 0\<rparr>"

lemma same_setting_iff:
  "same_setting i j \<longleftrightarrow> im_drop_probability i = im_drop_probability j \<and>
     im_delay_ms i = im_delay_ms j \<and> im_jitter_ms i = im_jitter_ms j"
  by (cases i; cases j) (simp add: same_setting_def)

text \<open>The account of one direction: every packet received was sent, dropped, lost in a failed send,
  lost with the proxy itself, or is still delayed, by a time the setting allows.\<close>

definition direction_ok :: "impairment \<Rightarrow> nat \<Rightarrow> proxy_direction \<Rightarrow> bool" where
  "direction_ok i lost d \<longleftrightarrow>
     pd_received d =
       pd_forwarded d + pd_dropped d + pd_failed d + length (pd_in_flight d) + lost \<and>
     list_all (\<lambda>(t, client, packet).
         millis (unat (im_delay_ms i) - unat (im_jitter_ms i)) \<le> t \<and>
         t \<le> millis (unat (im_delay_ms i) + unat (im_jitter_ms i)) \<and> length packet \<le> 2048)
       (pd_in_flight d) \<and>
     (if im_drop_probability i = Fin 0 then pd_dropped d = 0 else True) \<and>
     (if im_drop_probability i = Fin 1
      then pd_forwarded d + pd_failed d + length (pd_in_flight d) = 0 else True)"

lemma direction_ok_received: "direction_ok i l d \<Longrightarrow> direction_ok i (l + 1) (count_received d)"
  by (simp add: direction_ok_def count_received_def)

lemma direction_ok_forward:
  assumes i: "same_setting i j" "unat (im_delay_ms i) \<le> 1000" "unat (im_jitter_ms i) \<le> 1000"
    and d: "direction_ok i (Suc 0) d" "length packet \<le> 2048"
  shows "case forward_packet client packet j d of (j', d') \<Rightarrow>
    same_setting i j' \<and> direction_ok i 0 d'"
proof -
  obtain b rng where b: "should_drop j = (b, j\<lparr>im_rng := rng\<rparr>)"
      "im_drop_probability j = Fin 0 \<Longrightarrow> \<not> b" "im_drop_probability j = Fin 1 \<Longrightarrow> b"
    by (rule should_drop_facts [of j]) blast
  obtain t j' where t: "jitter_delay (j\<lparr>im_rng := rng\<rparr>) = (t, j')" by (cases "jitter_delay (j\<lparr>im_rng := rng\<rparr>)")
  have "case (t, j') of (t, j') \<Rightarrow>
    millis (unat (im_delay_ms j) - unat (im_jitter_ms j)) \<le> t \<and>
    t \<le> millis (unat (im_delay_ms j) + unat (im_jitter_ms j)) \<and>
    (\<exists>rng'. j' = j\<lparr>im_rng := rng'\<rparr>)"
    using jitter_delay_bounds [of "j\<lparr>im_rng := rng\<rparr>"] i t by (auto simp: same_setting_iff)
  with i d b show ?thesis
    by (cases b) (auto simp: forward_packet_def t same_setting_iff direction_ok_def)
qed

lemma direction_ok_finish: "direction_ok i l d \<Longrightarrow> direction_ok i l (finish_packet k sent d)"
  by (auto simp: direction_ok_def finish_packet_def Let_def list_all_iff min_def
      dest!: in_set_takeD in_set_dropD)

definition proxy_ok :: "impairment \<Rightarrow> proxy \<Rightarrow> bool" where
  "proxy_ok i p \<longleftrightarrow> same_setting i (px_impairment p) \<and>
     direction_ok i (if px_running p then 0 else 1) (px_c2s p) \<and> direction_ok i 0 (px_s2c p) \<and>
     px_answering p \<subseteq> px_routes p"

lemma proxy_ok_step:
  assumes i: "unat (im_delay_ms i) \<le> 1000" "unat (im_jitter_ms i) \<le> 1000" and ok: "proxy_ok i p"
  shows "proxy_ok i (proxy_step e p)"
proof (cases "px_running p")
  case False
  with ok show ?thesis by (simp add: proxy_step_def)
next
  case True
  have fwd: "case forward_packet client (take 2048 packet) (px_impairment p) (count_received d) of
      (j', d') \<Rightarrow> same_setting i j' \<and> direction_ok i 0 d'"
    if "direction_ok i 0 d" for client packet d
    using direction_ok_forward [of i "px_impairment p" "count_received d" "take 2048 packet" client]
      direction_ok_received [OF that] i ok by (simp add: proxy_ok_def)
  show ?thesis
  proof (cases e)
    case (FromClient client packet bound)
    with True ok fwd [of "px_c2s p" client packet] direction_ok_received [of i 0 "px_c2s p"]
    show ?thesis
      by (auto simp: proxy_step_def proxy_ok_def receive_from_client_def Let_def split: prod.splits)
  next
    case (FromServer client answer)
    with True ok fwd [of "px_s2c p" client "the answer"] show ?thesis
      by (auto simp: proxy_step_def proxy_ok_def receive_from_server_def split: prod.splits option.splits)
  next
    case (SentToServer k sent)
    with True ok show ?thesis by (simp add: proxy_step_def proxy_ok_def direction_ok_finish)
  next
    case (SentToClient k sent)
    with True ok show ?thesis by (simp add: proxy_step_def proxy_ok_def direction_ok_finish)
  qed
qed

lemma proxy_ok_new: "proxy_ok i (proxy_new i)"
  by (simp add: proxy_ok_def proxy_new_def proxy_direction_new_def direction_ok_def same_setting_def)

interpretation netem: step_machine proxy_step
  "\<lambda>_. unat (im_delay_ms i) \<le> 1000 \<and> unat (im_jitter_ms i) \<le> 1000" "proxy_ok i" for i
  by unfold_locales (simp add: proxy_ok_step)

text \<open>A route whose task has ended is never answered again: the table still has it, so later
  packets of the client reuse the dead route.\<close>

lemma dead_route_step:
  assumes "client \<in> px_routes p" "client \<notin> px_answering p"
  shows "client \<in> px_routes (proxy_step e p) \<and> client \<notin> px_answering (proxy_step e p)"
  using assms
  by (auto simp: proxy_step_def receive_from_client_def receive_from_server_def Let_def
      split: proxy_event.splits prod.splits option.splits)

text \<open>Network emulator: for a delay and a jitter of at most a second (what the arguments allow),
  whatever packets, answers, sends and failures happen in whatever order, every packet received in
  either direction has been forwarded, dropped, lost in a failed send, or is still waiting for a
  delay between \<open>delay - jitter\<close> and \<open>delay + jitter\<close>; but for the one packet whose new route could
  not be opened, which ends the proxy. A drop probability of zero (or below) drops nothing, one of
  1 (or above) lets nothing through.\<close>

lemma impaired_packets_are_accounted:
  assumes "unat delay \<le> 1000" "unat jitter \<le> 1000"
  shows "let i = impairment_new probability delay jitter seed;
             p = fold proxy_step events (proxy_new i)
         in direction_ok i (if px_running p then 0 else 1) (px_c2s p) \<and> direction_ok i 0 (px_s2c p)"
proof -
  let ?i = "impairment_new probability delay jitter seed"
  have "list_all (\<lambda>_. unat (im_delay_ms ?i) \<le> 1000 \<and> unat (im_jitter_ms ?i) \<le> 1000) events"
    using assms by (simp add: impairment_new_def list_all_iff)
  from netem.run_inv [OF this proxy_ok_new] show ?thesis
    unfolding proxy_ok_def Let_def by blast
qed

end
