(* ===== verification/Pi_Gpio.thy ===== *)
theory Pi_Gpio
  imports Admin_Api
begin

text \<open>
  The GPIO button daemon \<open>clients/pi-gpio/src/main.rs\<close>: its configuration and the checks of it,
  the debouncing of the polled inputs, the local API request each stable change makes, and the
  text of that request. The level read from a GPIO file and the answer of the local API are
  inputs of the model.
\<close>

section \<open>Configuration\<close>

datatype gpio_button_mode = GpioMomentary | GpioLatching

datatype gpio_button_action = RegularTalk | TalkButton string

record gpio_button =
  gb_name :: string
  gb_gpio :: u32
  gb_active_low :: bool
  gb_mode :: gpio_button_mode
  gb_action :: gpio_button_action

record gpio_config =
  gc_debounce_ms :: u64
  gc_poll_ms :: u64
  gc_buttons :: "gpio_button list"

definition gpio_config_default :: gpio_config where
  "gpio_config_default =
     \<lparr>gc_debounce_ms = 30, gc_poll_ms = 20,
      gc_buttons =
        [\<lparr>gb_name = ''regular-talk'', gb_gpio = 17, gb_active_low = True, gb_mode = GpioMomentary,
          gb_action = RegularTalk\<rparr>,
         \<lparr>gb_name = ''director'', gb_gpio = 27, gb_active_low = True, gb_mode = GpioMomentary,
          gb_action = TalkButton ''director''\<rparr>]\<rparr>"

datatype gpio_error =
    NoButtons
  | EmptyButtonName
  | MissingButtonId
  | NotHttp
  | MissingPort
  | BadPort
  | ReadFailed string
  | RequestFailed
  | RequestRejected string string

fun validate_gpio_buttons :: "gpio_button list \<Rightarrow> gpio_error + unit" where
  "validate_gpio_buttons [] = Inr ()"
| "validate_gpio_buttons (b # bs) =
     (if trim (gb_name b) = [] then Inl EmptyButtonName
      else case gb_action b of
        TalkButton button_id \<Rightarrow>
          if trim button_id = [] then Inl MissingButtonId else validate_gpio_buttons bs
      | RegularTalk \<Rightarrow> validate_gpio_buttons bs)"

definition validate_gpio_config :: "gpio_config \<Rightarrow> gpio_error + unit" where
  "validate_gpio_config config =
     (if gc_buttons config = [] then Inl NoButtons else validate_gpio_buttons (gc_buttons config))"

section \<open>Inputs\<close>

text \<open>The level of a button from the content of its value file, \<open>None\<close> when it cannot be read.\<close>

definition read_gpio_pressed :: "string option \<Rightarrow> gpio_button \<Rightarrow> bool option" where
  "read_gpio_pressed content b =
     map_option (\<lambda>value. let high = trim value = ''1'' in if gb_active_low b then \<not> high else high)
       content"

section \<open>Requests\<close>

text \<open>The UTF-8 bytes of a string of code points below 256.\<close>

definition utf8_bytes :: "string \<Rightarrow> nat list" where
  "utf8_bytes s = concat (map (\<lambda>c. let n = of_char c in
     if n < 128 then [n] else [192 + n div 64, 128 + n mod 64]) s)"

definition hex_digit :: "nat \<Rightarrow> char" where
  "hex_digit n = (if n < 10 then char_of (48 + n) else char_of (55 + n))"

definition unreserved :: "nat \<Rightarrow> bool" where
  "unreserved n \<longleftrightarrow> (65 \<le> n \<and> n \<le> 90) \<or> (97 \<le> n \<and> n \<le> 122) \<or> (48 \<le> n \<and> n \<le> 57) \<or>
     n = 45 \<or> n = 95 \<or> n = 46 \<or> n = 126"

definition encode_path_byte :: "nat \<Rightarrow> string" where
  "encode_path_byte n =
     (if unreserved n then [char_of n] else [CHR ''%'', hex_digit (n div 16), hex_digit (n mod 16)])"

definition encode_path_segment :: "string \<Rightarrow> string" where
  "encode_path_segment s = concat (map encode_path_byte (utf8_bytes s))"

definition endpoints_for_event :: "gpio_button \<Rightarrow> bool \<Rightarrow> string list" where
  "endpoints_for_event b pressed =
     (case (gb_action b, gb_mode b, pressed) of
        (RegularTalk, GpioMomentary, True) \<Rightarrow> [''/talk/down'']
      | (RegularTalk, GpioMomentary, False) \<Rightarrow> [''/talk/up'']
      | (RegularTalk, GpioLatching, True) \<Rightarrow> [''/talk/toggle'']
      | (RegularTalk, GpioLatching, False) \<Rightarrow> []
      | (TalkButton button_id, GpioMomentary, True) \<Rightarrow>
          [''/buttons/'' @ encode_path_segment button_id @ ''/down'']
      | (TalkButton button_id, GpioMomentary, False) \<Rightarrow>
          [''/buttons/'' @ encode_path_segment button_id @ ''/up'']
      | (TalkButton button_id, GpioLatching, True) \<Rightarrow>
          [''/buttons/'' @ encode_path_segment button_id @ ''/toggle'']
      | (TalkButton _, GpioLatching, False) \<Rightarrow> [])"

record http_target =
  ht_host :: string
  ht_port :: u16

text \<open>\<open>rsplit_once(':')\<close>: the parts before and after the last colon.\<close>

definition rsplit_once :: "char \<Rightarrow> string \<Rightarrow> (string \<times> string) option" where
  "rsplit_once d s =
     (if d \<in> set s
      then Some (rev (tl (dropWhile (\<lambda>c. c \<noteq> d) (rev s))), rev (takeWhile (\<lambda>c. c \<noteq> d) (rev s)))
      else None)"

definition trim_end_matches :: "char \<Rightarrow> string \<Rightarrow> string" where
  "trim_end_matches d s = rev (dropWhile (\<lambda>c. c = d) (rev s))"

definition parse_http_target :: "string \<Rightarrow> gpio_error + http_target" where
  "parse_http_target value =
     (case strip_prefix ''http://'' value of
        None \<Rightarrow> Inl NotHttp
      | Some rest \<Rightarrow>
          (case rsplit_once CHR '':'' (trim_end_matches CHR ''/'' rest) of
             None \<Rightarrow> Inl MissingPort
           | Some (host, port) \<Rightarrow>
               (case parse_u16 port of
                  None \<Rightarrow> Inl BadPort
                | Some p \<Rightarrow> Inr \<lparr>ht_host = host, ht_port = p\<rparr>)))"

definition crlf :: string where
  "crlf = [char_of (13 :: nat), char_of (10 :: nat)]"

definition request_text :: "http_target \<Rightarrow> string \<Rightarrow> string option \<Rightarrow> string" where
  "request_text target endpoint token =
     ''POST '' @ endpoint @ '' HTTP/1.1'' @ crlf @
     ''Host: '' @ ht_host target @ '':'' @ show_word (ht_port target) @ crlf @
     (case token of
        Some t \<Rightarrow> if t \<noteq> [] then ''Authorization: Bearer '' @ t @ crlf else []
      | None \<Rightarrow> []) @
     ''Content-Length: 0'' @ crlf @ ''Connection: close'' @ crlf @ crlf"

text \<open>\<open>str::lines().next()\<close>: up to the first line feed, without a carriage return before it.\<close>

definition first_line :: "string \<Rightarrow> string" where
  "first_line s =
     (let line = takeWhile (\<lambda>c. c \<noteq> char_of (10 :: nat)) s
      in if char_of (10 :: nat) \<in> set s \<and> line \<noteq> [] \<and> last line = char_of (13 :: nat)
         then butlast line else line)"

text \<open>The outcome of a request, from the response (\<open>None\<close> for a connection, write or read error).\<close>

definition post_empty :: "string \<Rightarrow> string option \<Rightarrow> gpio_error + unit" where
  "post_empty endpoint response =
     (case response of
        None \<Rightarrow> Inl RequestFailed
      | Some r \<Rightarrow>
          if strip_prefix ''HTTP/1.1 2'' r \<noteq> None \<or> strip_prefix ''HTTP/1.0 2'' r \<noteq> None
          then Inr () else Inl (RequestRejected endpoint (first_line r)))"

section \<open>Polling\<close>

record button_runtime =
  br_config :: gpio_button
  br_stable_pressed :: bool
  br_candidate_pressed :: bool
  br_candidate_since :: instant

definition button_runtime_new :: "string option \<Rightarrow> instant \<Rightarrow> gpio_button \<Rightarrow> button_runtime" where
  "button_runtime_new content now b =
     (let pressed = (case read_gpio_pressed content b of Some p \<Rightarrow> p | None \<Rightarrow> False)
      in \<lparr>br_config = b, br_stable_pressed = pressed, br_candidate_pressed = pressed,
          br_candidate_since = now\<rparr>)"

text \<open>What one look at a button meets: the time, the content of the value file, and the response
  to the request if one is made (no event makes more than one).\<close>

record gpio_sample =
  gs_now :: instant
  gs_content :: "string option"
  gs_response :: "string option"

fun post_all :: "string option \<Rightarrow> string list \<Rightarrow> gpio_error + unit" where
  "post_all response [] = Inr ()"
| "post_all response (endpoint # rest) =
     (case post_empty endpoint response of
        Inl err \<Rightarrow> Inl err
      | Inr _ \<Rightarrow> post_all response rest)"

text \<open>One button in one round of the loop: the new runtime and the requests made, or the error that
  ends the daemon.\<close>

definition poll_button ::
  "instant \<Rightarrow> bool \<Rightarrow> gpio_sample \<Rightarrow> button_runtime \<Rightarrow> gpio_error + button_runtime \<times> string list" where
  "poll_button debounce dry_run s b =
     (case read_gpio_pressed (gs_content s) (br_config b) of
        None \<Rightarrow> Inl (ReadFailed (gb_name (br_config b)))
      | Some pressed \<Rightarrow>
          if pressed \<noteq> br_candidate_pressed b
          then Inr (b\<lparr>br_candidate_pressed := pressed, br_candidate_since := gs_now s\<rparr>, [])
          else if pressed \<noteq> br_stable_pressed b \<and> gs_now s - br_candidate_since b \<ge> debounce
          then let endpoints = endpoints_for_event (br_config b) pressed
               in (case (if dry_run then Inr () else post_all (gs_response s) endpoints) of
                     Inl err \<Rightarrow> Inl err
                   | Inr _ \<Rightarrow> Inr (b\<lparr>br_stable_pressed := pressed\<rparr>, endpoints))
          else Inr (b, []))"

fun poll_round ::
  "instant \<Rightarrow> bool \<Rightarrow> gpio_sample list \<Rightarrow> button_runtime list \<Rightarrow>
     gpio_error + button_runtime list \<times> string list" where
  "poll_round debounce dry_run (s # ss) (b # bs) =
     (case poll_button debounce dry_run s b of
        Inl err \<Rightarrow> Inl err
      | Inr (b', es) \<Rightarrow>
          (case poll_round debounce dry_run ss bs of
             Inl err \<Rightarrow> Inl err
           | Inr (bs', fs) \<Rightarrow> Inr (b' # bs', es @ fs)))"
| "poll_round debounce dry_run _ bs = Inr (bs, [])"

text \<open>\<open>run_loop\<close> for as many rounds as there are samples: the loop ends only with an error.\<close>

fun run_rounds ::
  "instant \<Rightarrow> bool \<Rightarrow> gpio_sample list list \<Rightarrow> button_runtime list \<Rightarrow>
     gpio_error + button_runtime list \<times> string list" where
  "run_rounds debounce dry_run [] bs = Inr (bs, [])"
| "run_rounds debounce dry_run (r # rs) bs =
     (case poll_round debounce dry_run r bs of
        Inl err \<Rightarrow> Inl err
      | Inr (bs', es) \<Rightarrow>
          (case run_rounds debounce dry_run rs bs' of
             Inl err \<Rightarrow> Inl err
           | Inr (bs'', fs) \<Rightarrow> Inr (bs'', es @ fs)))"

section \<open>Facts of the inputs and requests\<close>

lemma validate_gpio_config_iff:
  "validate_gpio_config config = Inr () \<longleftrightarrow>
     gc_buttons config \<noteq> [] \<and>
     list_all (\<lambda>b. trim (gb_name b) \<noteq> [] \<and>
       (case gb_action b of TalkButton i \<Rightarrow> trim i \<noteq> [] | RegularTalk \<Rightarrow> True)) (gc_buttons config)"
proof -
  have "validate_gpio_buttons bs = Inr () \<longleftrightarrow>
      list_all (\<lambda>b. trim (gb_name b) \<noteq> [] \<and>
        (case gb_action b of TalkButton i \<Rightarrow> trim i \<noteq> [] | RegularTalk \<Rightarrow> True)) bs" for bs
    by (induction bs) (auto split: gpio_button_action.splits)
  then show ?thesis by (simp add: validate_gpio_config_def)
qed

text \<open>Percent decoding, as a web server undoes the encoding.\<close>

definition hex_value :: "char \<Rightarrow> nat" where
  "hex_value c = (let n = of_char c in if n < 58 then n - 48 else n - 55)"

fun percent_decode :: "string \<Rightarrow> nat list" where
  "percent_decode [] = []"
| "percent_decode (c # cs) =
     (if c = CHR ''%'' then (case cs of
        h # l # rest \<Rightarrow> (hex_value h * 16 + hex_value l) # percent_decode rest
      | _ \<Rightarrow> []) else of_char c # percent_decode cs)"

lemma hex_value_digit: "n < 16 \<Longrightarrow> hex_value (hex_digit n) = n"
  by (simp add: hex_value_def hex_digit_def)

lemma utf8_bytes_bound: "n \<in> set (utf8_bytes s) \<Longrightarrow> n < 256"
proof -
  have c: "of_char c < (256 :: nat)" for c by (rule nat_of_char_less_256)
  have d: "of_char c div 64 < (4 :: nat)" for c
    using c [of c] by (simp add: div_less_iff_less_mult)
  have "192 + of_char c div 64 < (256 :: nat)" for c
    using d [of c] by simp
  then show ?thesis if "n \<in> set (utf8_bytes s)"
    using that by (auto simp: utf8_bytes_def Let_def split: if_splits)
qed

lemma percent_decode_byte:
  assumes "n < 256"
  shows "percent_decode (encode_path_byte n @ cs) = n # percent_decode cs"
proof (cases "unreserved n")
  case True
  then have "n < 128" "n \<noteq> 37" by (auto simp: unreserved_def)
  then have "char_of n \<noteq> CHR ''%''" by (auto simp: char_of_eq_iff take_bit_nat_eq_self)
  with True \<open>n < 128\<close> show ?thesis by (simp add: encode_path_byte_def)
next
  case False
  have "n div 16 < 16" using assms by simp
  with False show ?thesis
    by (simp add: encode_path_byte_def hex_value_digit)
qed

lemma encode_path_segment_decodes: "percent_decode (encode_path_segment s) = utf8_bytes s"
proof -
  have "percent_decode (concat (map encode_path_byte ns)) = ns" if "\<forall>n \<in> set ns. n < 256" for ns
    using that by (induction ns) (simp_all add: percent_decode_byte)
  then show ?thesis unfolding encode_path_segment_def using utf8_bytes_bound by blast
qed

lemma post_empty_ok:
  "post_empty endpoint response = Inr () \<longleftrightarrow>
     (\<exists>r. response = Some (''HTTP/1.1 2'' @ r) \<or> response = Some (''HTTP/1.0 2'' @ r))"
  by (auto simp: post_empty_def strip_prefix_iff split: option.splits)

lemma one_request: "length (endpoints_for_event b pressed) \<le> 1"
  by (auto simp: endpoints_for_event_def split: gpio_button_action.splits gpio_button_mode.splits bool.splits)

text \<open>A failure at one button ends the daemon in that round: the buttons after it are not looked at,
  and whatever an earlier button holds down is never released.\<close>

lemma failure_ends_daemon:
  assumes "poll_round debounce dry_run before held = Inr r" "length before = length held"
    and "poll_button debounce dry_run s b = Inl err"
  shows "run_rounds debounce dry_run ((before @ s # ss) # rounds) (held @ b # bs) = Inl err"
proof -
  have "poll_round debounce dry_run (before @ s # ss) (held @ b # bs) = Inl err"
    using assms by (induction before arbitrary: held r) (auto simp: Suc_length_conv split: sum.splits)
  then show ?thesis by simp
qed

section \<open>Debouncing\<close>

text \<open>The debounced level by its history, latest look first, the level at the start last: the
  latest level counts once it has been seen without interruption since a look at least
  \<open>debounce\<close> ago.\<close>

fun settled :: "instant \<Rightarrow> bool \<Rightarrow> instant \<Rightarrow> (instant \<times> bool) list \<Rightarrow> bool" where
  "settled debounce v now [] = False"
| "settled debounce v now ((t, w) # older) =
     (w = v \<and> (now - t \<ge> debounce \<or> settled debounce v now older))"

fun debounced :: "instant \<Rightarrow> (instant \<times> bool) list \<Rightarrow> bool" where
  "debounced debounce [] = False"
| "debounced debounce [(t, v)] = v"
| "debounced debounce ((t, v) # older) =
     (if settled debounce v t older then v else debounced debounce older)"

fun debounced_requests :: "instant \<Rightarrow> gpio_button \<Rightarrow> (instant \<times> bool) list \<Rightarrow> string list" where
  "debounced_requests debounce b ((t, v) # older) =
     debounced_requests debounce b older @
     (if older \<noteq> [] \<and> debounced debounce ((t, v) # older) \<noteq> debounced debounce older
      then endpoints_for_event b (debounced debounce ((t, v) # older)) else [])"
| "debounced_requests debounce b [] = []"

text \<open>The runtime of a button agrees with its history.\<close>

fun last_run :: "bool \<Rightarrow> (instant \<times> bool) list \<Rightarrow> instant" where
  "last_run v ((t, w) # (t', w') # older) = (if w' = v then last_run v ((t', w') # older) else t)"
| "last_run v [(t, w)] = t"
| "last_run v [] = 0"

definition runtime_of :: "instant \<Rightarrow> gpio_button \<Rightarrow> (instant \<times> bool) list \<Rightarrow> button_runtime" where
  "runtime_of debounce b h =
     \<lparr>br_config = b, br_stable_pressed = debounced debounce h, br_candidate_pressed = snd (hd h),
      br_candidate_since = last_run (snd (hd h)) h\<rparr>"

definition falling :: "(instant \<times> bool) list \<Rightarrow> bool" where
  "falling h \<longleftrightarrow> sorted_wrt (\<lambda>x y. fst y \<le> fst x) h"

lemma last_run_le: "falling ((t, v) # h) \<Longrightarrow> last_run v ((t, v) # h) \<le> t"
  by (induction h arbitrary: t) (force simp: falling_def)+

lemma settled_iff_last_run:
  assumes "falling ((t, v) # older)" "t \<le> now"
  shows "settled debounce v now ((t, v) # older) \<longleftrightarrow>
    now - last_run v ((t, v) # older) \<ge> debounce"
  using assms
proof (induction older arbitrary: t)
  case (Cons x older)
  obtain t' w where x: "x = (t', w)" by (cases x)
  show ?case
  proof (cases "w = v")
    case True
    have f: "falling ((t', v) # older)" "t' \<le> t" using Cons.prems by (auto simp: falling_def x True)
    with Cons.prems have "t' \<le> now" by simp
    from Cons.IH [OF f(1) this] last_run_le [OF f(1)] f(2) show ?thesis by (auto simp: x True)
  qed (simp add: x)
qed simp

lemma settled_other: "w \<noteq> v \<Longrightarrow> \<not> settled debounce v now ((t, w) # older)"
  by simp

text \<open>A look at the button that can be read and whose request, if any, is accepted.\<close>

definition smooth :: "gpio_button \<Rightarrow> bool \<Rightarrow> gpio_sample \<Rightarrow> bool" where
  "smooth b dry_run s \<longleftrightarrow> gs_content s \<noteq> None \<and>
     (dry_run \<or> post_empty [] (gs_response s) = Inr ())"

definition look :: "gpio_button \<Rightarrow> gpio_sample \<Rightarrow> instant \<times> bool" where
  "look b s = (gs_now s, the (read_gpio_pressed (gs_content s) b))"

lemma post_all_smooth: "smooth b False s \<Longrightarrow> post_all (gs_response s) es = Inr ()"
  by (induction es) (auto simp: smooth_def post_empty_def split: option.splits if_splits)

lemma poll_button_history:
  assumes s: "smooth b dry_run s" and h: "falling (look b s # h)" "h \<noteq> []"
  shows "poll_button debounce dry_run s (runtime_of debounce b h) =
    Inr (runtime_of debounce b (look b s # h),
      if debounced debounce (look b s # h) \<noteq> debounced debounce h
      then endpoints_for_event b (debounced debounce (look b s # h)) else [])"
proof -
  obtain v where v: "read_gpio_pressed (gs_content s) b = Some v"
    using s by (auto simp: smooth_def read_gpio_pressed_def)
  then have l: "look b s = (gs_now s, v)" by (simp add: look_def)
  obtain t w older where hd: "h = (t, w) # older" using h(2) by (cases h) auto
  have posts: "(if dry_run then Inr () else post_all (gs_response s) es) = Inr ()" for es
    using s post_all_smooth by (cases dry_run) auto
  have fall: "falling ((t, w) # older)" "t \<le> gs_now s" using h(1) by (auto simp: falling_def l hd)
  show ?thesis
  proof (cases "v = w")
    case False
    then show ?thesis
      by (simp add: poll_button_def runtime_of_def v l hd)
  next
    case True
    show ?thesis
      using settled_iff_last_run [OF fall [folded True], of debounce]
      by (auto simp: poll_button_def runtime_of_def v l hd posts True simp del: settled.simps)
  qed
qed


text \<open>The rounds of a daemon with one button, from the first reading on.\<close>

lemma run_rounds_history:
  assumes "list_all (smooth b dry_run) samples" "h \<noteq> []" "falling (rev (map (look b) samples) @ h)"
  shows "\<exists>new. run_rounds debounce dry_run (map (\<lambda>s. [s]) samples) [runtime_of debounce b h] =
      Inr ([runtime_of debounce b (rev (map (look b) samples) @ h)], new) \<and>
    debounced_requests debounce b (rev (map (look b) samples) @ h) =
      debounced_requests debounce b h @ new"
  using assms
proof (induction samples arbitrary: h)
  case (Cons s samples)
  obtain t v where l: "look b s = (t, v)" by (cases "look b s")
  have "falling (look b s # h)" using Cons.prems(3) by (simp add: falling_def sorted_wrt_append)
  with Cons.prems poll_button_history [of b dry_run s h debounce]
  have p: "poll_button debounce dry_run s (runtime_of debounce b h) =
    Inr (runtime_of debounce b (look b s # h),
      if debounced debounce (look b s # h) \<noteq> debounced debounce h
      then endpoints_for_event b (debounced debounce (look b s # h)) else [])" by simp
  from Cons.IH [of "look b s # h"] Cons.prems obtain new where
    "run_rounds debounce dry_run (map (\<lambda>s. [s]) samples) [runtime_of debounce b (look b s # h)] =
      Inr ([runtime_of debounce b (rev (map (look b) samples) @ look b s # h)], new)"
    "debounced_requests debounce b (rev (map (look b) samples) @ look b s # h) =
      debounced_requests debounce b (look b s # h) @ new" by auto
  with Cons.prems(2) show ?case by (simp add: p l)
qed simp

text \<open>C19. GPIO buttons: polled at times that never go back, with readings that succeed and requests
  the local API accepts (or a dry run), a button's stable level is always the debounced level of
  its history: the latest level, once it has been seen without interruption since a look at least
  \<open>debounce\<close> ago, else what it was before. The daemon makes the request of an event exactly when
  that level changes, in order.\<close>

theorem gpio_debounce_is_exact:
  assumes "list_all (smooth b dry_run) samples"
    and "sorted (t # map gs_now samples)"
  shows "let start = button_runtime_new content t b;
             h = rev (map (look b) samples) @ [(t, br_stable_pressed start)]
         in run_rounds debounce dry_run (map (\<lambda>s. [s]) samples) [start] =
              Inr ([runtime_of debounce b h], debounced_requests debounce b h)"
proof -
  let ?h = "[(t, br_stable_pressed (button_runtime_new content t b))]"
  have start: "button_runtime_new content t b = runtime_of debounce b ?h"
    by (simp add: button_runtime_new_def runtime_of_def Let_def split: option.splits)
  have "sorted_wrt (\<lambda>x y. fst y \<le> fst x) (rev (map (look b) samples))"
    using assms(2) by (simp add: sorted_wrt_rev sorted_wrt_map look_def)
  then have "falling (rev (map (look b) samples) @ ?h)"
    using assms(2) by (auto simp: falling_def sorted_wrt_append look_def)
  from run_rounds_history [OF assms(1) _ this, of debounce] show ?thesis
    unfolding Let_def start [symmetric] by auto
qed

theorem gpio_debounce_is_exact_witness:
  "let b = hd (gc_buttons gpio_config_default);
       start = button_runtime_new (Some ''1'') 0 b;
       samples = map (\<lambda>t. \<lparr>gs_now = t, gs_content = Some ''0'',
         gs_response = Some ''HTTP/1.1 200 OK''\<rparr>) [2, 4, 6];
       h = rev (map (look b) samples) @ [(0, br_stable_pressed start)]
   in run_rounds 3 False (map (\<lambda>s. [s]) samples) [start] =
        Inr ([runtime_of 3 b h], [''/talk/down''])"
proof -
  let ?b = "hd (gc_buttons gpio_config_default)"
  let ?samples = "map (\<lambda>t. \<lparr>gs_now = t, gs_content = Some ''0'',
         gs_response = Some ''HTTP/1.1 200 OK''\<rparr>) [2, 4, 6]"
  let ?h = "rev (map (look ?b) ?samples) @
    [(0, br_stable_pressed (button_runtime_new (Some ''1'') 0 ?b))]"
  have "list_all (smooth ?b False) ?samples" "sorted (0 # map gs_now ?samples)"
    by (simp_all add: smooth_def post_empty_ok)
  note gpio_debounce_is_exact [OF this, of "Some ''1''" 3]
  moreover have "debounced_requests 3 ?b ?h = [''/talk/down'']" by code_simp
  ultimately show ?thesis unfolding Let_def by metis
qed

end
