(* ===== verification/Recording.thy ===== *)
theory Recording
  imports Audio_Ingest
begin

text \<open>
  Recording sessions and transcripts of \<open>server/src/lib.rs\<close>: starting and stopping a session,
  what every received frame adds to it (a WAV file per talker and a line of metadata), the list
  of transcript segments with its queries, and the transcription of a stopped session. A file is
  the list of what was written to it; whether an operation on a file succeeds, and with which
  error, is an input. The Whisper engine is a parameter. Counters and segment numbers are natural
  numbers.
\<close>

section \<open>Data\<close>

datatype transcript_source = SourceLive | SourceRecording | SourceManual

record transcript_segment =
  sg_id :: nat
  sg_user_id :: user_id
  sg_user_name :: string
  sg_started_at_ms :: nat
  sg_ended_at_ms :: nat
  sg_contexts :: "audio_target list"
  sg_text :: string
  sg_confidence :: "f32 option"
  sg_engine :: string
  sg_source :: transcript_source
  sg_final_segment :: bool

record recording_metadata_event =
  me_timestamp_ms :: nat
  me_session_id :: string
  me_frame_index :: nat
  me_user_id :: user_id
  me_user_name :: string
  me_target :: audio_target
  me_codec :: codec
  me_talk_mode :: talk_mode
  me_peak :: f32
  me_rms :: f32

text \<open>The files of a session: \<open>user-<id>.wav\<close>, \<open>metadata.jsonl\<close> and \<open>transcripts.jsonl\<close>.\<close>

record active_recording_session =
  rg_id :: string
  rg_dir :: string
  rg_started_at_ms :: nat
  rg_transcribe :: bool
  rg_users :: "user_id set option"
  rg_writers :: "(user_id, i16 list) hash_map"
  rg_contexts :: "(user_id, audio_target list) hash_map"
  rg_metadata :: "recording_metadata_event list"
  rg_transcript_lines :: "transcript_segment list"
  rg_frames_recorded :: nat

record recording_session_summary =
  sm_id :: string
  sm_dir :: string
  sm_started_at_ms :: nat
  sm_stopped_at_ms :: "nat option"
  sm_transcribe :: bool
  sm_recorded_users :: "user_id list"
  sm_frames_recorded :: nat

record recording_state =
  rs_base_dir :: string
  rs_whisper_command :: "string option"
  rs_active :: "active_recording_session option"
  rs_recent :: "recording_session_summary list"
  rs_transcripts :: "transcript_segment list"
  rs_next_transcript_id :: nat
  rs_last_engine_error :: "string option"

definition default_recording_state :: recording_state where
  "default_recording_state =
     \<lparr>rs_base_dir = ''intercom-recordings'', rs_whisper_command = None, rs_active = None,
      rs_recent = [], rs_transcripts = [], rs_next_transcript_id = 1, rs_last_engine_error = None\<rparr>"

definition path_join :: "string \<Rightarrow> string \<Rightarrow> string" where
  "path_join a b =
     (if b \<noteq> [] \<and> hd b = CHR ''/'' then b
      else if a = [] \<or> last a = CHR ''/'' then a @ b else a @ ''/'' @ b)"

section \<open>Starting and stopping\<close>

record start_recording_request =
  sq_transcribe :: bool
  sq_users :: "user_id list option"

text \<open>The directory and the metadata file are made before the check for a running session; an
  error of either is the reply.\<close>

definition start_recording_session ::
  "nat \<Rightarrow> nat \<Rightarrow> bool \<Rightarrow> bool \<Rightarrow> start_recording_request \<Rightarrow> recording_state \<Rightarrow>
     recording_state \<times> (admin_api_error + unit)" where
  "start_recording_session id_ms now_ms dir_made metadata_made request rs =
     (let session_id = ''session-'' @ show_nat id_ms;
          base_dir = (if rs_base_dir rs = [] then ''intercom-recordings'' else rs_base_dir rs);
          session_dir = path_join base_dir session_id
      in if \<not> dir_made
         then (rs, Inl (Internal (''create recording directory '' @ session_dir)))
         else if \<not> metadata_made
         then (rs, Inl (Internal (''create recording metadata '' @
                path_join session_dir ''metadata.jsonl'')))
         else if rs_active rs \<noteq> None
         then (rs, Inl (BadRequest ''a recording session is already active''))
         else (rs\<lparr>rs_base_dir := base_dir,
                  rs_active := Some
                    \<lparr>rg_id = session_id, rg_dir = session_dir, rg_started_at_ms = now_ms,
                     rg_transcribe = sq_transcribe request,
                     rg_users = map_option (\<lambda>us. {u \<in> set us. u > 0}) (sq_users request),
                     rg_writers = [], rg_contexts = [], rg_metadata = [],
                     rg_transcript_lines = [], rg_frames_recorded = 0\<rparr>\<rparr>, Inr ()))"

record stopped_recording =
  sp_dir :: string
  sp_users :: "user_id list"

text \<open>Finalising the files: the errors by talker, and the one of flushing the metadata. The order of
  the writers is the one of the map.\<close>

definition writer_errors ::
  "(user_id \<Rightarrow> string option) \<Rightarrow> string option \<Rightarrow> active_recording_session \<Rightarrow> string list" where
  "writer_errors finalize flush a =
     List.map_filter (\<lambda>u. map_option (\<lambda>err. ''user '' @ show_word u @ '': '' @ err) (finalize u))
       (hm_keys (rg_writers a)) @
     (case flush of None \<Rightarrow> [] | Some err \<Rightarrow> [''metadata: '' @ err])"

definition stop_recording_session ::
  "nat \<Rightarrow> (user_id \<Rightarrow> string option) \<Rightarrow> string option \<Rightarrow> recording_state \<Rightarrow>
     recording_state \<times> (admin_api_error + stopped_recording option)" where
  "stop_recording_session now_ms finalize flush rs =
     (case rs_active rs of
        None \<Rightarrow> (rs, Inl (BadRequest ''no recording session is active''))
      | Some a \<Rightarrow>
          let errors = writer_errors finalize flush a;
              recorded_users = sort (hm_keys (rg_contexts a));
              recent = rs_recent rs @
                [\<lparr>sm_id = rg_id a, sm_dir = rg_dir a, sm_started_at_ms = rg_started_at_ms a,
                  sm_stopped_at_ms = Some now_ms, sm_transcribe = rg_transcribe a,
                  sm_recorded_users = recorded_users,
                  sm_frames_recorded = rg_frames_recorded a\<rparr>]
          in (rs\<lparr>rs_active := None,
                 rs_last_engine_error :=
                   (if errors \<noteq> [] then Some (join ''; '' errors) else rs_last_engine_error rs),
                 rs_recent := last_n 20 recent\<rparr>,
              Inr (if rg_transcribe a then Some \<lparr>sp_dir = rg_dir a, sp_users = recorded_users\<rparr>
                   else None)))"

section \<open>Frames\<close>

text \<open>The outcomes of the file operations for one frame: the error of creating the talker's WAV
  file, the number of samples before a write fails and its error, the error of the metadata.\<close>

record recording_io =
  io_create :: "string option"
  io_write :: "(nat \<times> string) option"
  io_metadata :: "string option"

definition io_ok :: recording_io where
  "io_ok = \<lparr>io_create = None, io_write = None, io_metadata = None\<rparr>"

text \<open>\<open>ensure_recording_writer\<close>.\<close>

definition ensure_recording_writer ::
  "string option \<Rightarrow> user_id \<Rightarrow> active_recording_session \<Rightarrow>
     active_recording_session \<times> string option" where
  "ensure_recording_writer create u a =
     (if hm_contains (rg_writers a) u then (a, None)
      else case create of
        Some _ \<Rightarrow> (a, Some (''create WAV writer '' @
                     path_join (rg_dir a) (''user-'' @ show_word u @ ''.wav'')))
      | None \<Rightarrow> (a\<lparr>rg_writers := hm_insert u [] (rg_writers a)\<rparr>, None))"

definition write_samples ::
  "recording_io \<Rightarrow> user_id \<Rightarrow> i16 list \<Rightarrow> active_recording_session \<Rightarrow>
     active_recording_session \<times> string option" where
  "write_samples io u samples a =
     (case ensure_recording_writer (io_create io) u a of
        (a, Some err) \<Rightarrow> (a, Some err)
      | (a, None) \<Rightarrow>
          (case io_write io of
             None \<Rightarrow> (a\<lparr>rg_writers := hm_modify u (\<lambda>w. w @ samples) (rg_writers a)\<rparr>, None)
           | Some (n, err) \<Rightarrow>
               (a\<lparr>rg_writers := hm_modify u (\<lambda>w. w @ take n samples) (rg_writers a)\<rparr>, Some err)))"

definition push_context :: "user_id \<Rightarrow> audio_target \<Rightarrow> active_recording_session \<Rightarrow> active_recording_session" where
  "push_context u target a =
     a\<lparr>rg_contexts := hm_entry u []
         (\<lambda>cs. let cs = cs @ [target] in if length cs > 64 then drop 32 cs else cs) (rg_contexts a)\<rparr>"

definition record_ingest_frame ::
  "sessions \<Rightarrow> nat \<Rightarrow> recording_io \<Rightarrow> user_id \<Rightarrow> audio_target \<Rightarrow> codec option \<Rightarrow> i16 list \<Rightarrow>
     recording_state \<Rightarrow> recording_state" where
  "record_ingest_frame ss now_ms io u target codec samples rs =
     (let (user_name, talk_mode, session_codec) =
            (case hm_get ss u of
               None \<Rightarrow> ([], Ptt, Pcm16)
             | Some s \<Rightarrow> (se_name s, se_talk_mode s, se_output_codec s));
          codec = (case codec of Some c \<Rightarrow> c | None \<Rightarrow> session_codec);
          meter = measure_i16 samples
      in case rs_active rs of
           None \<Rightarrow> rs
         | Some a \<Rightarrow>
             if (case rg_users a of None \<Rightarrow> False | Some us \<Rightarrow> u \<notin> us) then rs
             else (case write_samples io u samples (push_context u target a) of
               (a, Some err) \<Rightarrow>
                 rs\<lparr>rs_active := Some a,
                    rs_last_engine_error := Some (''record user '' @ show_word u @ '': '' @ err)\<rparr>
             | (a, None) \<Rightarrow>
                 let event = \<lparr>me_timestamp_ms = now_ms, me_session_id = rg_id a,
                       me_frame_index = rg_frames_recorded a, me_user_id = u,
                       me_user_name = user_name, me_target = target, me_codec = codec,
                       me_talk_mode = talk_mode, me_peak = fm_peak meter, me_rms = fm_rms meter\<rparr>
                 in rs\<lparr>rs_active := Some (a
                         \<lparr>rg_metadata := (if io_metadata io = None then rg_metadata a @ [event]
                                          else rg_metadata a),
                          rg_frames_recorded := rg_frames_recorded a + 1\<rparr>),
                       rs_last_engine_error :=
                         (case io_metadata io of
                            None \<Rightarrow> rs_last_engine_error rs
                          | Some err \<Rightarrow> Some (''record metadata user '' @ show_word u @ '': '' @ err))\<rparr>))"

section \<open>Transcripts\<close>

record transcript_append =
  ap_user_id :: user_id
  ap_contexts :: "audio_target list"
  ap_started_at_ms :: "nat option"
  ap_ended_at_ms :: "nat option"
  ap_text :: string
  ap_confidence :: "f32 option"
  ap_engine :: string
  ap_source :: transcript_source
  ap_final_segment :: bool

definition segment_of ::
  "sessions \<Rightarrow> nat \<Rightarrow> transcript_append \<Rightarrow> nat \<Rightarrow> transcript_segment" where
  "segment_of ss now_ms ap i =
     \<lparr>sg_id = i, sg_user_id = ap_user_id ap,
      sg_user_name = (case hm_get ss (ap_user_id ap) of Some s \<Rightarrow> se_name s | None \<Rightarrow> []),
      sg_started_at_ms = (case ap_started_at_ms ap of Some t \<Rightarrow> t | None \<Rightarrow> now_ms),
      sg_ended_at_ms = (case ap_ended_at_ms ap of Some t \<Rightarrow> t | None \<Rightarrow> now_ms),
      sg_contexts = ap_contexts ap, sg_text = trim (ap_text ap),
      sg_confidence = ap_confidence ap, sg_engine = ap_engine ap, sg_source = ap_source ap,
      sg_final_segment = ap_final_segment ap\<rparr>"

text \<open>The number is used up even when the line cannot be written to the session's file.\<close>

definition append_transcript_segment ::
  "sessions \<Rightarrow> nat \<Rightarrow> bool \<Rightarrow> transcript_append \<Rightarrow> recording_state \<Rightarrow>
     recording_state \<times> (admin_api_error + transcript_segment)" where
  "append_transcript_segment ss now_ms written ap rs =
     (let segment = segment_of ss now_ms ap (rs_next_transcript_id rs);
          rs = rs\<lparr>rs_next_transcript_id := rs_next_transcript_id rs + 1\<rparr>
      in case rs_active rs of
           Some a \<Rightarrow>
             if \<not> written
             then (rs, Inl (Internal (''append transcript '' @ path_join (rg_dir a) ''transcripts.jsonl'')))
             else (rs\<lparr>rs_active := Some (a\<lparr>rg_transcript_lines := rg_transcript_lines a @ [segment]\<rparr>),
                      rs_transcripts := last_n 2000 (rs_transcripts rs @ [segment])\<rparr>, Inr segment)
         | None \<Rightarrow>
             (rs\<lparr>rs_transcripts := last_n 2000 (rs_transcripts rs @ [segment])\<rparr>, Inr segment))"

record add_transcript_request =
  at_user_id :: user_id
  at_text :: string
  at_confidence :: "f32 option"
  at_contexts :: "audio_target list"

definition admin_add_transcript ::
  "sessions \<Rightarrow> nat \<Rightarrow> bool \<Rightarrow> add_transcript_request \<Rightarrow> recording_state \<Rightarrow>
     recording_state \<times> (admin_api_error + transcript_segment)" where
  "admin_add_transcript ss now_ms written body rs =
     (if trim (at_text body) = [] then (rs, Inl (BadRequest ''transcript text cannot be empty''))
      else append_transcript_segment ss now_ms written
        \<lparr>ap_user_id = at_user_id body, ap_contexts = at_contexts body, ap_started_at_ms = None,
         ap_ended_at_ms = None, ap_text = at_text body, ap_confidence = at_confidence body,
         ap_engine = ''manual'', ap_source = SourceManual, ap_final_segment = True\<rparr> rs)"

record transcript_query =
  tq_user_id :: "user_id option"
  tq_channel_id :: "channel_id option"
  tq_user_ids :: "string option"
  tq_channel_ids :: "string option"
  tq_direct_user_id :: "user_id option"
  tq_source :: "transcript_source option"
  tq_since_ms :: "nat option"
  tq_until_ms :: "nat option"
  tq_q :: "string option"

definition transcript_query_ids :: "user_id option \<Rightarrow> string option \<Rightarrow> user_id set" where
  "transcript_query_ids single csv =
     {u \<in> set_option single. u > 0} \<union>
     (case csv of
        None \<Rightarrow> {}
      | Some s \<Rightarrow> set (filter (\<lambda>u. u > 0)
          (List.map_filter (\<lambda>item. parse_u16 (trim item)) (split_on CHR '','' s))))"

fun target_channel_id :: "audio_target \<Rightarrow> channel_id option" where
  "target_channel_id (Channel c) = Some c"
| "target_channel_id (Direct _) = None"
| "target_channel_id Mixed = None"

fun str_contains :: "string \<Rightarrow> string \<Rightarrow> bool" where
  "str_contains needle s =
     (take (length needle) s = needle \<or> (case s of [] \<Rightarrow> False | _ # cs \<Rightarrow> str_contains needle cs))"

declare str_contains.simps [simp del]

definition matches_query :: "transcript_query \<Rightarrow> transcript_segment \<Rightarrow> bool" where
  "matches_query query g =
     (let users = transcript_query_ids (tq_user_id query) (tq_user_ids query);
          channels = transcript_query_ids (tq_channel_id query) (tq_channel_ids query)
      in (users = {} \<or> sg_user_id g \<in> users) \<and>
         (channels = {} \<or>
          list_ex (\<lambda>t. case target_channel_id t of Some c \<Rightarrow> c \<in> channels | None \<Rightarrow> False)
            (sg_contexts g)) \<and>
         (case tq_direct_user_id query of None \<Rightarrow> True | Some u \<Rightarrow> Direct u \<in> set (sg_contexts g)) \<and>
         (case tq_source query of None \<Rightarrow> True | Some s \<Rightarrow> sg_source g = s) \<and>
         (case tq_since_ms query of None \<Rightarrow> True | Some t \<Rightarrow> t \<le> sg_ended_at_ms g) \<and>
         (case tq_until_ms query of None \<Rightarrow> True | Some t \<Rightarrow> sg_started_at_ms g \<le> t) \<and>
         (case tq_q query of
            None \<Rightarrow> True
          | Some q \<Rightarrow>
              let q = to_ascii_lowercase (trim q)
              in q = [] \<or> str_contains q (to_ascii_lowercase (sg_text g))))"

definition query_transcripts :: "transcript_query \<Rightarrow> recording_state \<Rightarrow> transcript_segment list" where
  "query_transcripts query rs = filter (matches_query query) (rs_transcripts rs)"


section \<open>Transcribing a stopped session\<close>

text \<open>\<open>WhisperContext\<close> and the external command are parameters: an engine turns samples at 16 kHz
  into a text or an error.\<close>

type_synonym whisper_engine = "i16 list \<Rightarrow> string + string"

record whisper_params =
  wp_no_context :: bool
  wp_single_segment :: bool
  wp_initial_prompt :: "string option"
  wp_n_threads :: nat

text \<open>A loaded \<open>WhisperContext\<close> turns parameters and audio into the texts of the segments it heard.\<close>

type_synonym whisper_context = "whisper_params \<Rightarrow> f32 list \<Rightarrow> string + string list"

definition builtin_whisper_engine ::
  "whisper_context \<Rightarrow> live_transcription_mode \<Rightarrow> string option \<Rightarrow> whisper_engine" where
  "builtin_whisper_engine context mode initial_prompt samples_16khz =
     (let reliable = (mode = Reliable);
          prompt = (if reliable
                    then Option.bind (map_option trim initial_prompt)
                           (\<lambda>p. if p = [] then None else Some p)
                    else None);
          params = \<lparr>wp_no_context = \<not> reliable, wp_single_segment = \<not> reliable,
                    wp_initial_prompt = prompt, wp_n_threads = (if reliable then 4 else 2)\<rparr>
      in case context params
                (map (\<lambda>s. f_div binary32 (i16_to_f32 s) i16_max_f32) samples_16khz) of
           Inl err \<Rightarrow> Inl err
         | Inr segments \<Rightarrow> Inr (trim (join '' '' segments)))"

record whisper_settings =
  wh_command :: "string option"
  wh_model :: "string option"
  wh_model_dir :: string
  wh_context :: "whisper_context option"

record completed_live_transcript =
  cp_user_id :: user_id
  cp_started_at_ms :: nat
  cp_ended_at_ms :: nat
  cp_contexts :: "audio_target list"
  cp_text :: string

definition transcribe_live_job_with_engine ::
  "whisper_engine \<Rightarrow> live_transcript_job \<Rightarrow> string + completed_live_transcript option" where
  "transcribe_live_job_with_engine engine job =
     (case engine (lj_samples_16khz job) of
        Inl err \<Rightarrow> Inl err
      | Inr text \<Rightarrow>
          let text = trim text
          in if text = [] then Inr None
             else Inr (Some \<lparr>cp_user_id = lj_user_id job, cp_started_at_ms = lj_started_at_ms job,
                             cp_ended_at_ms = lj_ended_at_ms job, cp_contexts = lj_contexts job,
                             cp_text = text\<rparr>))"

definition append_of_completed ::
  "transcript_source \<Rightarrow> completed_live_transcript \<Rightarrow> transcript_append" where
  "append_of_completed source c =
     \<lparr>ap_user_id = cp_user_id c, ap_contexts = cp_contexts c,
      ap_started_at_ms = Some (cp_started_at_ms c), ap_ended_at_ms = Some (cp_ended_at_ms c),
      ap_text = cp_text c, ap_confidence = None, ap_engine = ''builtin_whisper'',
      ap_source = source, ap_final_segment = True\<rparr>"

text \<open>What the external command makes of a talker's file: no such file, a command that cannot be
  run, a failure status, an unreadable text file, or the text.\<close>

datatype external_outcome =
    NoWavFile
  | CommandFailed
  | FailureStatus string
  | TextUnreadable
  | TextFile string

definition external_wav :: "stopped_recording \<Rightarrow> user_id \<Rightarrow> string" where
  "external_wav sp u = path_join (sp_dir sp) (''user-'' @ show_word u @ ''.wav'')"

definition external_text_file :: "stopped_recording \<Rightarrow> user_id \<Rightarrow> string" where
  "external_text_file sp u = path_join (sp_dir sp) (''user-'' @ show_word u @ ''-transcript.txt'')"

text \<open>\<open>written\<close> says whether the transcript lines can be appended to a session's file, \<open>show_error\<close>
  is the debug text of an error.\<close>

fun external_transcription ::
  "sessions \<Rightarrow> nat \<Rightarrow> bool \<Rightarrow> (admin_api_error \<Rightarrow> string) \<Rightarrow> (string \<Rightarrow> external_outcome) \<Rightarrow> string \<Rightarrow>
     stopped_recording \<Rightarrow> user_id list \<Rightarrow> recording_state \<Rightarrow> recording_state \<times> (string + unit)" where
  "external_transcription ss now_ms written show_error run command sp [] rs = (rs, Inr ())"
| "external_transcription ss now_ms written show_error run command sp (u # us) rs =
     (let continue = external_transcription ss now_ms written show_error run command sp us
      in case run (external_wav sp u) of
           NoWavFile \<Rightarrow> continue rs
         | CommandFailed \<Rightarrow> (rs, Inl (''run Whisper command '' @ command))
         | FailureStatus status \<Rightarrow>
             let message = ''Whisper exited with status '' @ status
             in (rs\<lparr>rs_last_engine_error := Some message\<rparr>, Inl message)
         | TextUnreadable \<Rightarrow> (rs, Inl (''read Whisper transcript '' @ external_text_file sp u))
         | TextFile text \<Rightarrow>
             if trim text = [] then continue rs
             else (case append_transcript_segment ss now_ms written
                     \<lparr>ap_user_id = u, ap_contexts = [], ap_started_at_ms = None,
                      ap_ended_at_ms = None, ap_text = trim text, ap_confidence = None,
                      ap_engine = ''local_whisper'', ap_source = SourceRecording,
                      ap_final_segment = True\<rparr> rs of
                   (rs, Inl err) \<Rightarrow> (rs, Inl (show_error err))
                 | (rs, Inr _) \<Rightarrow> continue rs))"

definition run_external_whisper_recording_transcription ::
  "sessions \<Rightarrow> nat \<Rightarrow> bool \<Rightarrow> (admin_api_error \<Rightarrow> string) \<Rightarrow> (string \<Rightarrow> external_outcome) \<Rightarrow>
     whisper_settings \<Rightarrow> stopped_recording \<Rightarrow> recording_state \<Rightarrow> recording_state \<times> (string + unit)" where
  "run_external_whisper_recording_transcription ss now_ms written show_error run wh sp rs =
     (case wh_command wh of
        None \<Rightarrow> (rs, Inl ''Whisper command is not configured'')
      | Some command \<Rightarrow>
          (case wh_model wh of
             None \<Rightarrow> (rs, Inl ''Whisper model is not configured'')
           | Some _ \<Rightarrow>
               external_transcription ss now_ms written show_error run command sp (sp_users sp) rs))"

text \<open>A WAV file as \<open>hound\<close> reads it.\<close>

datatype wav_read = WavMissing | WavBroken string | WavSamples nat nat "i16 list"

definition read_wav_as_16khz_mono :: "codec_libs \<Rightarrow> wav_read \<Rightarrow> string + i16 list" where
  "read_wav_as_16khz_mono libs w =
     (case w of
        WavMissing \<Rightarrow> Inl ''open WAV''
      | WavBroken err \<Rightarrow> Inl err
      | WavSamples channels rate samples \<Rightarrow>
          if channels \<noteq> 1
          then Inl (''expected mono WAV for transcription, got '' @ show_nat channels @ '' channels'')
          else Inr (resample_linear libs samples rate sample_rate))"

fun builtin_transcription ::
  "codec_libs \<Rightarrow> sessions \<Rightarrow> nat \<Rightarrow> bool \<Rightarrow> (admin_api_error \<Rightarrow> string) \<Rightarrow> (string \<Rightarrow> wav_read) \<Rightarrow>
     whisper_engine \<Rightarrow> stopped_recording \<Rightarrow> user_id list \<Rightarrow> recording_state \<Rightarrow>
     recording_state \<times> (string + unit)" where
  "builtin_transcription libs ss now_ms written show_error wavs engine sp [] rs = (rs, Inr ())"
| "builtin_transcription libs ss now_ms written show_error wavs engine sp (u # us) rs =
     (let continue = builtin_transcription libs ss now_ms written show_error wavs engine sp us;
          wav = wavs (external_wav sp u)
      in if wav = WavMissing then continue rs
         else case read_wav_as_16khz_mono libs wav of
           Inl err \<Rightarrow> (rs, Inl err)
         | Inr samples \<Rightarrow>
             (case transcribe_live_job_with_engine engine
                     \<lparr>lj_user_id = u, lj_started_at_ms = now_ms, lj_ended_at_ms = now_ms,
                      lj_contexts = [], lj_samples_16khz = samples\<rparr> of
                Inl err \<Rightarrow> (rs, Inl err)
              | Inr None \<Rightarrow> continue rs
              | Inr (Some c) \<Rightarrow>
                  (case append_transcript_segment ss now_ms written
                          (append_of_completed SourceRecording c) rs of
                     (rs, Inl err) \<Rightarrow> (rs, Inl (show_error err))
                   | (rs, Inr _) \<Rightarrow> continue rs)))"

section \<open>The live worker after it took a job\<close>

definition limited_transcript_prompt :: "string \<Rightarrow> string" where
  "limited_transcript_prompt text = join '' '' (last_n 80 (split_whitespace text))"

definition modify_runtime ::
  "user_id \<Rightarrow> (live_transcription_user_runtime \<Rightarrow> live_transcription_user_runtime) \<Rightarrow>
     live_transcription_state \<Rightarrow> live_transcription_state" where
  "modify_runtime u f lt = lt\<lparr>lt_per_user := hm_modify u f (lt_per_user lt)\<rparr>"

text \<open>Once the worker has its permit: a job that has become stale is counted, else transcribed; an
  empty text is dropped, a text appended to the transcripts.\<close>

definition worker_finish ::
  "sessions \<Rightarrow> nat \<Rightarrow> bool \<Rightarrow> (admin_api_error \<Rightarrow> string) \<Rightarrow> whisper_engine \<Rightarrow> user_id \<Rightarrow>
     live_transcript_job \<Rightarrow> live_transcription_state \<times> recording_state \<Rightarrow>
     live_transcription_state \<times> recording_state" where
  "worker_finish ss now_ms written show_error engine u job = (\<lambda>(lt, rs).
     case transcribe_live_job_with_engine engine job of
       Inl err \<Rightarrow>
         (lt\<lparr>lt_last_error := Some (''live transcription user '' @ show_word u @ '': '' @ err)\<rparr>, rs)
     | Inr None \<Rightarrow> (lt, rs)
     | Inr (Some c) \<Rightarrow>
         (case append_transcript_segment ss now_ms written (append_of_completed SourceLive c) rs of
            (rs, Inl err) \<Rightarrow> (lt\<lparr>lt_last_error := Some (show_error err)\<rparr>, rs)
          | (rs, Inr _) \<Rightarrow>
              (modify_runtime u
                 (\<lambda>rt. rt\<lparr>rt_completed_segments := rt_completed_segments rt + 1,
                         rt_last_transcript_text := Some (limited_transcript_prompt (cp_text c))\<rparr>)
                 lt, rs)))"

definition worker_transcribe ::
  "sessions \<Rightarrow> nat \<Rightarrow> nat \<Rightarrow> bool \<Rightarrow> (admin_api_error \<Rightarrow> string) \<Rightarrow> whisper_engine \<Rightarrow> nat \<Rightarrow> user_id \<Rightarrow>
     live_transcript_job \<Rightarrow> live_transcription_state \<times> recording_state \<Rightarrow>
     live_transcription_state \<times> recording_state" where
  "worker_transcribe ss permit_ms now_ms written show_error engine stale_job_ms u job = (\<lambda>(lt, rs).
     if live_transcription_job_is_stale job stale_job_ms permit_ms
     then (modify_runtime u (count_stale job) lt, rs)
     else worker_finish ss now_ms written show_error engine u job (lt, rs))"


section \<open>A recording holds exactly the frames of its talkers\<close>

text \<open>A frame as it reaches the recorder, with the clock.\<close>

type_synonym ingest_frame = "nat \<times> user_id \<times> audio_target \<times> codec option \<times> i16 list"

definition record_all :: "sessions \<Rightarrow> ingest_frame list \<Rightarrow> recording_state \<Rightarrow> recording_state" where
  "record_all ss frames rs =
     fold (\<lambda>(now, u, t, c, samples). record_ingest_frame ss now io_ok u t c samples) frames rs"

definition wanted :: "user_id set option \<Rightarrow> ingest_frame \<Rightarrow> bool" where
  "wanted users f = (case users of None \<Rightarrow> True | Some us \<Rightarrow> fst (snd f) \<in> us)"

definition frames_of :: "user_id \<Rightarrow> ingest_frame list \<Rightarrow> ingest_frame list" where
  "frames_of u frames = filter (\<lambda>(now, v, t, c, samples). v = u) frames"

definition samples_of :: "ingest_frame list \<Rightarrow> i16 list" where
  "samples_of frames = concat (map (\<lambda>(now, u, t, c, samples). samples) frames)"

lemma write_samples_ok:
  "write_samples io_ok u samples a =
     (a\<lparr>rg_writers := hm_entry u [] (\<lambda>w. w @ samples) (rg_writers a)\<rparr>, None)"
  by (auto simp: write_samples_def ensure_recording_writer_def io_ok_def hm_entry_def hm_modify_def
      hm_contains_def simp del: hm_contains_iff split: option.splits)

lemma record_frame_ok:
  assumes "rs_active rs = Some a"
  shows "record_ingest_frame ss now io_ok u t c samples rs =
    (if wanted (rg_users a) (now, u, t, c, samples)
     then rs\<lparr>rs_active := Some (push_context u t a
            \<lparr>rg_writers := hm_entry u [] (\<lambda>w. w @ samples) (rg_writers a),
             rg_metadata := rg_metadata a @
               [\<lparr>me_timestamp_ms = now, me_session_id = rg_id a,
                 me_frame_index = rg_frames_recorded a, me_user_id = u,
                 me_user_name = (case hm_get ss u of None \<Rightarrow> [] | Some s \<Rightarrow> se_name s),
                 me_target = t,
                 me_codec = (case c of Some c \<Rightarrow> c | None \<Rightarrow>
                   (case hm_get ss u of None \<Rightarrow> Pcm16 | Some s \<Rightarrow> se_output_codec s)),
                 me_talk_mode = (case hm_get ss u of None \<Rightarrow> Ptt | Some s \<Rightarrow> se_talk_mode s),
                 me_peak = fm_peak (measure_i16 samples), me_rms = fm_rms (measure_i16 samples)\<rparr>],
             rg_frames_recorded := rg_frames_recorded a + 1\<rparr>)\<rparr>
     else rs)"
  using assms
  by (auto simp: record_ingest_frame_def write_samples_ok wanted_def push_context_def Let_def
      io_ok_def [THEN arg_cong [of _ _ io_metadata]] split: option.splits)

definition recorded_so_far :: "ingest_frame list \<Rightarrow> active_recording_session \<Rightarrow> bool" where
  "recorded_so_far frames a \<longleftrightarrow>
     (\<forall>u. hm_get (rg_writers a) u =
        (if frames_of u frames = [] then None else Some (samples_of (frames_of u frames)))) \<and>
     hm_wf (rg_contexts a) \<and> fst ` set (rg_contexts a) = (\<lambda>f. fst (snd f)) ` set frames \<and>
     map me_user_id (rg_metadata a) = map (\<lambda>f. fst (snd f)) frames \<and>
     map me_frame_index (rg_metadata a) = [0..<length frames] \<and>
     rg_frames_recorded a = length frames"

lemma recorded_step:
  assumes "rs_active rs = Some a" "recorded_so_far frames a"
  obtains a' where
    "rs_active (record_ingest_frame ss now io_ok u t c samples rs) = Some a'"
    "rg_users a' = rg_users a" "rg_transcribe a' = rg_transcribe a"
    "recorded_so_far (frames @ filter (wanted (rg_users a)) [(now, u, t, c, samples)]) a'"
proof (cases "wanted (rg_users a) (now, u, t, c, samples)")
  case True
  have "fst (snd f) = v" if "f \<in> set (frames_of v frames)" for f v
    using that by (auto simp: frames_of_def)
  then show ?thesis
    using that [of "the (rs_active (record_ingest_frame ss now io_ok u t c samples rs))"] assms(2) True
    unfolding record_frame_ok [OF assms(1)]
    by (auto simp: recorded_so_far_def frames_of_def samples_of_def push_context_def hm_entry_def
        dom_update hm_wf_def distinct_update split: option.splits if_splits)
next
  case False
  then show ?thesis using that [of a] assms unfolding record_frame_ok [OF assms(1)] by simp
qed

lemma recorded_all:
  assumes "rs_active rs = Some a" "recorded_so_far before a"
  obtains a' where "rs_active (record_all ss frames rs) = Some a'" "rg_users a' = rg_users a"
    "rg_transcribe a' = rg_transcribe a" "recorded_so_far (before @ filter (wanted (rg_users a)) frames) a'"
  using assms
proof (induction frames arbitrary: rs a before thesis)
  case Nil
  then show ?case by (simp add: record_all_def)
next
  case (Cons f frames)
  obtain now u t c samples where f: "f = (now, u, t, c, samples)" by (cases f)
  obtain a1 where a1: "rs_active (record_ingest_frame ss now io_ok u t c samples rs) = Some a1"
    "rg_users a1 = rg_users a" "rg_transcribe a1 = rg_transcribe a"
    "recorded_so_far (before @ filter (wanted (rg_users a)) [f]) a1"
    by (rule recorded_step [OF Cons.prems(2,3)]) (auto simp: f)
  obtain a' where "rs_active (record_all ss frames (record_ingest_frame ss now io_ok u t c samples rs)) = Some a'"
    "rg_users a' = rg_users a1" "rg_transcribe a' = rg_transcribe a1"
    "recorded_so_far ((before @ filter (wanted (rg_users a)) [f]) @ filter (wanted (rg_users a1)) frames) a'"
    by (rule Cons.IH [OF _ a1(1,4)])
  then show ?case
    using Cons.prems(1) [of a'] a1(2,3) unfolding record_all_def f by (simp split: if_splits)
qed

text \<open>C20. Recording: a session that was started while none ran records every frame of the talkers it
  was started for, and nothing else: each talker's file holds the samples of that talker's frames
  in order, the metadata has one line per recorded frame, numbered from zero in the order of
  arrival, and the frame count is their number. Stopping it lists the recorded talkers, each once
  and in order, and hands them on for transcription when that was asked for. A start while a
  session runs is refused and changes nothing.\<close>

theorem recording_is_complete:
  "let (started, reply) = start_recording_session id_ms now_ms True True request rs;
       users = map_option (\<lambda>us. {u \<in> set us. u > 0}) (sq_users request);
       kept = filter (wanted users) frames;
       recorded = record_all ss frames started;
       (stopped, result) = stop_recording_session end_ms (\<lambda>_. None) None recorded
   in if rs_active rs \<noteq> None then started = rs \<and> (\<exists>err. reply = Inl err)
      else case rs_active recorded of
        None \<Rightarrow> False
      | Some a \<Rightarrow>
          hm_get (rg_writers a) u =
            (if frames_of u kept = [] then None else Some (samples_of (frames_of u kept))) \<and>
          map me_user_id (rg_metadata a) = map (\<lambda>f. fst (snd f)) kept \<and>
          map me_frame_index (rg_metadata a) = [0..<length kept] \<and>
          sm_frames_recorded (last (rs_recent stopped)) = length kept \<and>
          set (sm_recorded_users (last (rs_recent stopped))) = (\<lambda>f. fst (snd f)) ` set kept \<and>
          sorted (sm_recorded_users (last (rs_recent stopped))) \<and>
          distinct (sm_recorded_users (last (rs_recent stopped))) \<and>
          rs_active stopped = None \<and>
          result = Inr (if sq_transcribe request
            then Some \<lparr>sp_dir = rg_dir a, sp_users = sm_recorded_users (last (rs_recent stopped))\<rparr>
            else None)"
proof (cases "rs_active rs")
  case (Some a)
  then show ?thesis
    by (simp add: start_recording_session_def Let_def split: prod.splits)
next
  case None
  obtain started where st: "start_recording_session id_ms now_ms True True request rs = (started, Inr ())"
    using None by (simp add: start_recording_session_def Let_def)
  obtain a where a: "rs_active started = Some a" "recorded_so_far [] a"
    "rg_users a = map_option (\<lambda>us. {u \<in> set us. u > 0}) (sq_users request)"
    "rg_transcribe a = sq_transcribe request"
    using None st
    by (auto simp: start_recording_session_def Let_def recorded_so_far_def frames_of_def hm_wf_def)
  obtain a' where a': "rs_active (record_all ss frames started) = Some a'"
    "rg_users a' = rg_users a" "rg_transcribe a' = rg_transcribe a"
    "recorded_so_far ([] @ filter (wanted (rg_users a)) frames) a'"
    by (rule recorded_all [OF a(1,2), of ss frames]) blast
  then have wf: "hm_wf (rg_contexts a')" by (simp add: recorded_so_far_def)
  then have "distinct (hm_keys (rg_contexts a'))" by (simp add: hm_wf_def hm_keys_def)
  with a' show ?thesis
    unfolding st Let_def a(3) [symmetric]
    by (auto simp: None stop_recording_session_def writer_errors_def recorded_so_far_def a(4)
        last_n_def Let_def)
qed


section \<open>Appending and finding\<close>

lemma last_n_snoc: "0 < n \<Longrightarrow> last_n n (xs @ [x]) = last_n (n - 1) xs @ [x]"
  by (cases "n \<le> length xs") (auto simp: last_n_def Suc_diff_le)

text \<open>Transcripts: an appended segment is found by exactly the queries it matches, after whatever
  they found before among the newest 1999 segments; a segment that could not be written to the
  file of the running session changes no result, though its number is used up.\<close>

lemma appended_transcript_is_found:
  "case append_transcript_segment ss now_ms written ap rs of
     (rs', Inr g) \<Rightarrow>
       query_transcripts query rs' =
         filter (matches_query query) (last_n 1999 (rs_transcripts rs)) @
         (if matches_query query g then [g] else []) \<and>
       sg_id g = rs_next_transcript_id rs \<and> sg_user_id g = ap_user_id ap \<and>
       sg_text g = trim (ap_text ap)
   | (rs', Inl err) \<Rightarrow>
       query_transcripts query rs' = query_transcripts query rs \<and>
       rs_next_transcript_id rs' = rs_next_transcript_id rs + 1"
  by (auto simp: append_transcript_segment_def query_transcripts_def segment_of_def Let_def
      last_n_snoc split: option.splits)

section \<open>Runs of the recorder\<close>

datatype recording_event =
    StartRecording nat nat bool bool start_recording_request
  | StopRecording nat "user_id \<Rightarrow> string option" "string option"
  | RecordFrame sessions nat recording_io user_id audio_target "codec option" "i16 list"
  | AppendTranscript sessions nat bool transcript_append

fun recording_step :: "recording_event \<Rightarrow> recording_state \<Rightarrow> recording_state" where
  "recording_step (StartRecording id_ms now_ms dir_made metadata_made request) rs =
     fst (start_recording_session id_ms now_ms dir_made metadata_made request rs)"
| "recording_step (StopRecording now_ms finalize flush) rs =
     fst (stop_recording_session now_ms finalize flush rs)"
| "recording_step (RecordFrame ss now_ms io u target codec samples) rs =
     record_ingest_frame ss now_ms io u target codec samples rs"
| "recording_step (AppendTranscript ss now_ms written ap) rs =
     fst (append_transcript_segment ss now_ms written ap rs)"

definition increasing_below :: "nat \<Rightarrow> nat list \<Rightarrow> bool" where
  "increasing_below n xs = sorted_wrt (<) (xs @ [n])"

lemma increasing_below_snoc: "increasing_below n xs \<Longrightarrow> increasing_below (Suc n) (xs @ [n])"
  by (auto simp: increasing_below_def sorted_wrt_append)

lemma increasing_below_mono: "increasing_below n xs \<Longrightarrow> n \<le> m \<Longrightarrow> increasing_below m xs"
  by (fastforce simp: increasing_below_def sorted_wrt_append)

lemma increasing_below_drop: "increasing_below n xs \<Longrightarrow> increasing_below n (drop k xs)"
  by (auto simp: increasing_below_def sorted_wrt_append sorted_wrt_drop dest: in_set_dropD)

definition session_ok :: "nat \<Rightarrow> active_recording_session \<Rightarrow> bool" where
  "session_ok next_id a \<longleftrightarrow>
     list_all (\<lambda>(u, cs). length cs \<le> 64) (rg_contexts a) \<and>
     fst ` set (rg_writers a) \<subseteq> fst ` set (rg_contexts a) \<and>
     increasing_below (rg_frames_recorded a) (map me_frame_index (rg_metadata a)) \<and>
     list_all (\<lambda>e. me_session_id e = rg_id a) (rg_metadata a) \<and>
     increasing_below next_id (map sg_id (rg_transcript_lines a)) \<and>
     (rg_users a = None \<or> fst ` set (rg_contexts a) \<subseteq> the (rg_users a))"

definition recording_ok :: "recording_state \<Rightarrow> bool" where
  "recording_ok rs \<longleftrightarrow>
     length (rs_recent rs) \<le> 20 \<and> length (rs_transcripts rs) \<le> 2000 \<and>
     increasing_below (rs_next_transcript_id rs) (map sg_id (rs_transcripts rs)) \<and>
     (case rs_active rs of None \<Rightarrow> True | Some a \<Rightarrow> session_ok (rs_next_transcript_id rs) a)"

lemma write_samples_effect:
  assumes "write_samples io u samples a = (a', err)"
  obtains ws where "a' = a\<lparr>rg_writers := ws\<rparr>" "fst ` set ws \<subseteq> insert u (fst ` set (rg_writers a))"
proof -
  have m: "fst ` set (hm_modify u f m) = fst ` set m" for f :: "i16 list \<Rightarrow> i16 list" and m
    by (auto simp: hm_modify_def dom_update map_of_eq_None_iff split: option.splits
        dest: map_of_SomeD intro: rev_image_eqI)
  have "a' = a\<lparr>rg_writers := rg_writers a'\<rparr> \<and>
      fst ` set (rg_writers a') \<subseteq> insert u (fst ` set (rg_writers a))"
    using assms
    by (cases "io_create io"; cases "io_write io"; cases "u \<in> fst ` set (rg_writers a)")
      (clarsimp simp: write_samples_def ensure_recording_writer_def m dom_update subset_insertI
        simp del: image_eqI; blast?)+
  then show ?thesis using that by blast
qed

lemma session_ok_context:
  assumes "session_ok n a" "case rg_users a of None \<Rightarrow> True | Some us \<Rightarrow> u \<in> us"
  shows "session_ok n (push_context u t a) \<and> u \<in> fst ` set (rg_contexts (push_context u t a)) \<and>
    rg_id (push_context u t a) = rg_id a"
proof -
  have "length cs \<le> 64" if "hm_get (rg_contexts a) u = Some cs" for cs
    using that assms(1) list_all_get [of "\<lambda>cs. length cs \<le> 64"] by (auto simp: session_ok_def)
  then have "list_all (\<lambda>(u, cs). length cs \<le> 64) (rg_contexts (push_context u t a))"
    using assms(1)
    by (auto simp: push_context_def hm_entry_def Let_def session_ok_def intro!: list_all_update
        split: option.splits)
  with assms show ?thesis
    by (auto simp: session_ok_def push_context_def hm_entry_def dom_update split: option.splits)
qed

lemma session_ok_write:
  assumes "session_ok n a" "case rg_users a of None \<Rightarrow> True | Some us \<Rightarrow> u \<in> us"
    and "write_samples io u samples (push_context u t a) = (a', err)"
  shows "session_ok n a' \<and> rg_id a' = rg_id a"
proof -
  obtain ws where "a' = push_context u t a\<lparr>rg_writers := ws\<rparr>"
    "fst ` set ws \<subseteq> insert u (fst ` set (rg_writers (push_context u t a)))"
    by (rule write_samples_effect [OF assms(3)])
  with session_ok_context [OF assms(1,2), of t] show ?thesis
    by (auto simp: session_ok_def)
qed

lemma recording_ok_frame:
  assumes "recording_ok rs"
  shows "recording_ok (record_ingest_frame ss now io u t c samples rs)"
proof (cases "rs_active rs")
  case None
  with assms show ?thesis by (simp add: record_ingest_frame_def split: prod.splits)
next
  case (Some a)
  show ?thesis
  proof (cases "case rg_users a of None \<Rightarrow> False | Some us \<Rightarrow> u \<notin> us")
    case True
    with Some assms show ?thesis by (simp add: record_ingest_frame_def split: prod.splits)
  next
    case False
    obtain a' err where w: "write_samples io u samples (push_context u t a) = (a', err)"
      by (cases "write_samples io u samples (push_context u t a)")
    have "session_ok (rs_next_transcript_id rs) a" using assms Some by (simp add: recording_ok_def)
    from session_ok_write [OF this _ w] False
    have ok: "session_ok (rs_next_transcript_id rs) a'" by (auto split: option.splits)
    then have "session_ok (rs_next_transcript_id rs) (a'\<lparr>
        rg_metadata := rg_metadata a' @ [e], rg_frames_recorded := Suc (rg_frames_recorded a')\<rparr>)"
      if "me_session_id e = rg_id a'" "me_frame_index e = rg_frames_recorded a'" for e
      using that by (simp add: session_ok_def increasing_below_snoc)
    moreover have "session_ok (rs_next_transcript_id rs) (a'\<lparr>
        rg_frames_recorded := Suc (rg_frames_recorded a')\<rparr>)"
      using ok increasing_below_mono [of "rg_frames_recorded a'"] by (simp add: session_ok_def)
    moreover obtain a'' x where r:
      "record_ingest_frame ss now io u t c samples rs =
         rs\<lparr>rs_active := Some a'', rs_last_engine_error := x\<rparr>"
      "a'' = a' \<or> a'' = a'\<lparr>rg_frames_recorded := Suc (rg_frames_recorded a')\<rparr> \<or>
       (\<exists>e. me_session_id e = rg_id a' \<and> me_frame_index e = rg_frames_recorded a' \<and>
          a'' = a'\<lparr>rg_metadata := rg_metadata a' @ [e],
                  rg_frames_recorded := Suc (rg_frames_recorded a')\<rparr>)"
    proof -
      obtain nm tm sc where n: "(case hm_get ss u of None \<Rightarrow> ([], Ptt, Pcm16)
          | Some s \<Rightarrow> (se_name s, se_talk_mode s, se_output_codec s)) = (nm, tm, sc)"
        by (rule prod_cases3)
      note def = record_ingest_frame_def [of ss now io u t c samples rs, unfolded n prod.case Some
          option.case]
      let ?r = "record_ingest_frame ss now io u t c samples rs"
      show thesis
      proof (rule that)
        show "?r = rs\<lparr>rs_active := Some (the (rs_active ?r)),
            rs_last_engine_error := rs_last_engine_error ?r\<rparr>"
          using False by (cases err; cases "io_metadata io") (simp_all add: def w Let_def)
        show "the (rs_active ?r) = a' \<or>
            the (rs_active ?r) = a'\<lparr>rg_frames_recorded := Suc (rg_frames_recorded a')\<rparr> \<or>
            (\<exists>e. me_session_id e = rg_id a' \<and> me_frame_index e = rg_frames_recorded a' \<and>
               the (rs_active ?r) = a'\<lparr>rg_metadata := rg_metadata a' @ [e],
                  rg_frames_recorded := Suc (rg_frames_recorded a')\<rparr>)"
          using False by (cases err; cases "io_metadata io") (force simp: def w Let_def)+
      qed
    qed
    ultimately have "session_ok (rs_next_transcript_id rs) a''" using ok by blast
    with assms show ?thesis by (simp add: r(1) recording_ok_def)
  qed
qed

lemma recording_ok_start:
  "recording_ok rs \<Longrightarrow> recording_ok (fst (start_recording_session i now d m request rs))"
  by (auto simp: start_recording_session_def Let_def recording_ok_def session_ok_def
      increasing_below_def split: option.splits)

lemma recording_ok_stop: "recording_ok rs \<Longrightarrow> recording_ok (fst (stop_recording_session now f flush rs))"
  by (auto simp: stop_recording_session_def Let_def recording_ok_def split: option.splits)

lemma recording_ok_append:
  assumes "recording_ok rs"
  shows "recording_ok (fst (append_transcript_segment ss now w ap rs))"
proof -
  let ?g = "segment_of ss now ap (rs_next_transcript_id rs)" and ?n = "rs_next_transcript_id rs"
  have i: "sg_id ?g = ?n" by (simp add: segment_of_def)
  have "increasing_below (Suc ?n) (map sg_id (rs_transcripts rs @ [?g]))"
    using assms by (simp add: i recording_ok_def increasing_below_snoc)
  then have t: "increasing_below (Suc ?n) (map sg_id (last_n 2000 (rs_transcripts rs @ [?g])))"
    unfolding last_n_def drop_map [symmetric] by (rule increasing_below_drop)
  have a: "session_ok (Suc ?n) a" "session_ok (Suc ?n) (a\<lparr>rg_transcript_lines := rg_transcript_lines a @ [?g]\<rparr>)"
    if "session_ok ?n a" for a
    using that increasing_below_mono [of ?n _ "Suc ?n"] increasing_below_snoc [of ?n]
    by (auto simp: session_ok_def i)
  have m: "increasing_below (Suc ?n) (map sg_id (rs_transcripts rs))"
    using assms increasing_below_mono [of ?n _ "Suc ?n"] by (simp add: recording_ok_def)
  show ?thesis
    using assms t a m
    by (auto simp: append_transcript_segment_def Let_def recording_ok_def split: option.splits)
qed

interpretation recorder: step_machine recording_step "\<lambda>_. True" recording_ok
proof
  show "recording_ok (recording_step e rs)" if "recording_ok rs" for e rs
    using that
    by (cases e) (simp_all add: recording_ok_start recording_ok_stop recording_ok_frame recording_ok_append)
qed

lemma recording_ok_default: "recording_ok default_recording_state"
  by (simp add: recording_ok_def default_recording_state_def increasing_below_def)

text \<open>C21. Recorder: whatever sessions are started and stopped, frames recorded with whatever file
  errors, and transcripts appended, in whatever order, at most 20 past sessions and 2000
  transcripts are kept, the transcripts' numbers increase and lie below the next one, every
  talker with a file is among the recorded talkers, who were all asked for, keeps at most 64
  targets, and the metadata lines of the running session carry its name and increasing numbers
  below the frame count.\<close>

theorem recorder_runs_ok: "recording_ok (fold recording_step events default_recording_state)"
  by (rule recorder.run_inv [OF _ recording_ok_default]) (simp add: list_all_iff)

end
