(* ===== verification/Admin_Warnings.thy ===== *)
theory Admin_Warnings
  imports Recording
begin

text \<open>
  The warnings the administrator's page shows (\<open>admin_warnings\<close> of \<open>server/src/lib.rs\<close>): desired
  configurations the connected client cannot follow, workflows that are inconsistent in
  themselves, bridges that feed back, devices with several sessions, and what the health reports
  of the clients point at.
\<close>

section \<open>Texts\<close>

record admin_warning =
  aw_user_id :: user_id
  aw_message :: string

definition warn :: "user_id \<Rightarrow> string \<Rightarrow> admin_warning" where
  "warn u m = \<lparr>aw_user_id = u, aw_message = m\<rparr>"

fun show_codec :: "codec \<Rightarrow> string" where
  "show_codec Pcm16 = ''Pcm16''"
| "show_codec Adpcm = ''Adpcm''"
| "show_codec Opus = ''Opus''"
| "show_codec Pcm48 = ''Pcm48''"
| "show_codec Pcm24 = ''Pcm24''"

text \<open>\<open>{:.1}\<close> of a float: the exact value rounded to tenths, ties to even.\<close>

definition show_tenths :: "float \<Rightarrow> string" where
  "show_tenths v =
     (case v of
        NaN \<Rightarrow> ''NaN'' | PInf \<Rightarrow> ''inf'' | NInf \<Rightarrow> ''-inf''
      | Fin x \<Rightarrow>
          let n = round_half_even (\<bar>x\<bar> * 10)
          in (if x < 0 then ''-'' else []) @ show_nat (nat (n div 10)) @ ''.'' @
             show_nat (nat (n mod 10)))"

text \<open>The common elements of two lists of channels, sorted, each once.\<close>

definition sorted_overlap :: "channel_id list \<Rightarrow> channel_id list \<Rightarrow> channel_id list" where
  "sorted_overlap tx listen = sort (remdups (filter (\<lambda>c. c \<in> set listen) tx))"

definition show_channels :: "channel_id list \<Rightarrow> string" where
  "show_channels cs = join '','' (map show_word cs)"

text \<open>\<open>if condition { warnings.push(...) }\<close>.\<close>

definition warn_if :: "bool \<Rightarrow> user_id \<Rightarrow> string \<Rightarrow> admin_warning list" where
  "warn_if b u m = (if b then [warn u m] else [])"

section \<open>Workflows\<close>

definition is_program_bridge :: "desired_client_config \<Rightarrow> bool" where
  "is_program_bridge c \<longleftrightarrow> dc_role c = RoleBridge \<and>
     (str_contains ''program'' (to_ascii_lowercase (dc_name c)) \<or> channel_program \<in> set (dc_tx c))"

definition is_pa_bridge :: "desired_client_config \<Rightarrow> bool" where
  "is_pa_bridge c \<longleftrightarrow> dc_role c = RoleBridge \<and>
     (str_contains ''pa'' (to_ascii_lowercase (dc_name c)) \<or> channel_pa \<in> set (dc_listen c))"

definition is_listen_only_ifb :: "desired_client_config \<Rightarrow> bool" where
  "is_listen_only_ifb c \<longleftrightarrow> ifb_enabled (dc_ifb c) \<and> dc_tx c = [] \<and> dc_talk_mode c = Muted"

definition ifb_warnings :: "desired_client_config \<Rightarrow> admin_warning list" where
  "ifb_warnings c =
     (let u = dc_user_id c; ifb = dc_ifb c
      in if ifb_enabled ifb
         then warn_if (ifb_program ifb = []) u ''IFB is enabled but has no program channels'' @
              warn_if (ifb_interrupt ifb = []) u ''IFB is enabled but has no interrupt channels'' @
              map (\<lambda>channel. warn u (''IFB interrupt channel '' @ show_word channel @
                     '' is not in this client's listen channels''))
                (filter (\<lambda>channel. channel \<notin> set (dc_listen c)) (ifb_interrupt ifb))
         else [])"

definition bridge_workflow_warnings :: "desired_client_config \<Rightarrow> admin_warning list" where
  "bridge_workflow_warnings c =
     (let u = dc_user_id c
      in (if is_program_bridge c
          then warn_if (channel_program \<notin> set (dc_tx c)) u
                 ''program bridge should transmit into the Program channel'' @
               warn_if (dc_talk_mode c \<noteq> Open) u
                 ''program bridge should use open talk mode so program audio is continuously available''
          else []) @
         (if is_pa_bridge c
          then warn_if (dc_tx c \<noteq> []) u ''PA bridge should not have TX channels'' @
               warn_if (dc_talk_mode c \<noteq> Muted) u
                 ''PA bridge should stay muted; it should only receive PA channel audio''
          else []))"

definition client_workflow_warnings :: "desired_client_config \<Rightarrow> admin_warning list" where
  "client_workflow_warnings c =
     (let u = dc_user_id c; lo = dc_lockout c; overlap = sorted_overlap (dc_tx c) (dc_listen c)
      in warn_if (channel_pa \<in> set (dc_tx c) \<and> \<not> is_pa_bridge c) u
           ''PA is configured as a regular TX channel; use a dedicated PA button route instead'' @
         warn_if (dc_role c = RoleBridge \<and> overlap \<noteq> []) u
           (''bridge desired config both listens and transmits on channel(s) '' @
            show_channels overlap @
            ''; split bridge input/output aliases or use different channels to prevent feedback'') @
         ifb_warnings c @ bridge_workflow_warnings c @
         warn_if (is_listen_only_ifb c \<and>
             (lo_allow_channels lo \<or> lo_allow_talk_mode lo \<or> lo_allow_buttons lo \<or> lo_allow_ifb lo))
           u ''listen-only IFB client still allows local route, talk-mode, button, or IFB edits'')"

definition workflow_validation_warnings :: "persisted_admin_state \<Rightarrow> admin_warning list" where
  "workflow_validation_warnings a = concat (map client_workflow_warnings (ad_clients a))"

section \<open>Bridges and health reports\<close>

definition bridge_status_warnings :: "session_status \<Rightarrow> admin_warning list" where
  "bridge_status_warnings s =
     (if sst_role s \<noteq> RoleBridge then []
      else case sst_bridge s of
        None \<Rightarrow> []
      | Some bridge \<Rightarrow>
          let u = sst_user_id s; overlap = sorted_overlap (br_tx bridge) (br_listen bridge)
          in warn_if (overlap \<noteq> []) u
               (''bridge transmits and listens on channel(s) '' @ show_channels overlap @
                ''; separate bridge input and output routes to avoid feedback'') @
             warn_if (br_mode bridge = BridgeInput \<and> br_listen bridge \<noteq> []) u
               ''input bridge reports listen channels; input-only bridges should only transmit production audio into intercom'' @
             warn_if (br_mode bridge = BridgeOutput \<and> br_tx bridge \<noteq> []) u
               ''output bridge reports TX channels; output-only bridges should only receive an intercom mix'')"

definition dec_f32 :: "rat \<Rightarrow> f32" where
  "dec_f32 x = rnd binary32 x"

definition nearly_silent :: "capture_channel_health \<Rightarrow> bool" where
  "nearly_silent h \<longleftrightarrow> f_lt (cch_rms h) (dec_f32 (3 / 1000)) \<and> f_lt (cch_peak h) (dec_f32 (2 / 100))"

definition desktop_capture_warnings ::
  "user_id \<Rightarrow> desktop_capture_health_status \<Rightarrow> admin_warning list" where
  "desktop_capture_warnings u d =
     warn_if (dc_post_gain_clipped_samples d > 0) u
       (''Desktop capture is clipping after mic gain ('' @ show_word (dc_post_gain_clipped_samples d) @
        '' samples in last report); lower mic gain or OS input level'') @
     warn_if (dc_pre_gain_clipped_samples d > 0) u
       (''Desktop capture reached full scale before local gain ('' @
        show_word (dc_pre_gain_clipped_samples d) @
        '' samples in last report); lower the operating system input level or move the mic farther away'') @
     warn_if (f_gt (cch_peak (dc_post_gain d)) (dec_f32 (92 / 100)) \<and>
         dc_post_gain_clipped_samples d = 0) u
       ''Desktop capture is close to clipping after mic gain'' @
     warn_if (nearly_silent (dc_post_gain d)) u
       ''Desktop capture is nearly silent; check selected input device, input channel, and mic permissions'' @
     warn_if (dc_dropped_frames d > 0) u
       (''Desktop capture dropped '' @ show_word (dc_dropped_frames d) @
        '' local mic frames before network send'')"

definition is_esp32 :: "capture_health_status \<Rightarrow> bool" where
  "is_esp32 h \<longleftrightarrow>
     ch_codec_config h \<noteq> None \<or> ch_wifi h \<noteq> None \<or> ch_memory h \<noteq> None \<or>
     ch_task_stack_high_water_bytes h \<noteq> None \<or> ch_display h \<noteq> None \<or> ch_battery h \<noteq> None \<or>
     (ch_runtime h = None \<and> ch_desktop h = None)"

definition esp32_transport_warnings :: "user_id \<Rightarrow> capture_health_status \<Rightarrow> admin_warning list" where
  "esp32_transport_warnings u h =
     warn_if (ch_raw_clipped_samples h > 0 \<or> ch_software_clipped_samples h > 0) u
       (''ESP32 capture is clipping (raw '' @ show_word (ch_raw_clipped_samples h) @ '', software '' @
        show_word (ch_software_clipped_samples h) @ '' samples in last report)'') @
     warn_if (ch_playback_underflows h > 0) u
       (''ESP32 playback jitter buffer underflowed '' @ show_word (ch_playback_underflows h) @
        '' times; increase playback jitter/prefill or check Wi-Fi jitter'') @
     warn_if (ch_playback_overflows h > 0) u
       (''ESP32 playback jitter buffer overflowed '' @ show_word (ch_playback_overflows h) @
        '' times; reduce jitter buffer delay or check bursty server delivery'') @
     warn_if (ch_playback_i2s_gap_warnings h > 0 \<or> ch_playback_i2s_slow_warnings h > 0 \<or>
         ch_playback_i2s_short_warnings h > 0) u
       (''ESP32 playback I2S timing warnings: gaps '' @ show_word (ch_playback_i2s_gap_warnings h) @
        '', slow writes '' @ show_word (ch_playback_i2s_slow_warnings h) @ '', short writes '' @
        show_word (ch_playback_i2s_short_warnings h) @
        ''; audio task or codec writes are missing deadlines'') @
     warn_if (ch_min_free_heap_bytes h > 0 \<and> ch_min_free_heap_bytes h < 16 * 1024) u
       (''ESP32 heap low-water mark is '' @ show_word (ch_min_free_heap_bytes h) @
        '' bytes; reduce buffers/features if this keeps dropping'')"

definition esp32_capture_warnings :: "user_id \<Rightarrow> capture_health_status \<Rightarrow> admin_warning list" where
  "esp32_capture_warnings u h =
     (let sel = ch_selected h; dc = cch_dc_offset sel
      in warn_if (f_gt (cch_peak sel) (dec_f32 (92 / 100)) \<and> ch_raw_clipped_samples h = 0) u
           ''ESP32 capture is close to clipping; lower ES8388 PGA gain before using software gain'' @
         warn_if (nearly_silent sel) u
           ''ESP32 capture is nearly silent; check ADC input, mic wiring, or selected channel'' @
         warn_if (ch_adc_input h = ''difference'' \<and> ch_capture_channel h = ''average'') u
           ''ESP32 differential mic is using average capture; this can cancel voice. Use left or right, then compare capture health.'' @
         warn_if (\<not> ch_alc_enabled h \<and> f_lt (cch_rms sel) (dec_f32 (2 / 100)) \<and>
             f_lt (cch_peak sel) (dec_f32 (12 / 100))) u
           ''ESP32 mic is low and ES8388 ALC is off; enable ALC before raising software gain'' @
         warn_if (f_gt (f_abs dc) (dec_f32 (8 / 100))) u
           (''ESP32 capture has high DC offset ('' @ show_tenths (f_mul binary32 dc (Fin 100)) @
            ''%); keep the capture high-pass enabled and check analog input bias'') @
         warn_if (ch_capture_channel h = ''left'' \<and> f_gt (cch_rms (ch_right h)) (dec_f32 (2 / 100)) \<and>
             f_lt (cch_rms (ch_left h))
               (f_mul binary32 (cch_rms (ch_right h)) (dec_f32 (35 / 100)))) u
           ''ESP32 right input is much stronger than selected left channel; try capture channel `right` or `average`'' @
         warn_if (ch_capture_channel h = ''right'' \<and> f_gt (cch_rms (ch_left h)) (dec_f32 (2 / 100)) \<and>
             f_lt (cch_rms (ch_right h))
               (f_mul binary32 (cch_rms (ch_left h)) (dec_f32 (35 / 100)))) u
           ''ESP32 left input is much stronger than selected right channel; try capture channel `left` or `average`'')"

definition client_playback_warnings ::
  "user_id \<Rightarrow> client_telemetry_playback_status \<Rightarrow> admin_warning list" where
  "client_playback_warnings u p =
     warn_if (tp_underflows p > 0) u
       (''Client playback underflowed '' @ show_word (tp_underflows p) @
        '' times; increase jitter/prefill or check network jitter'') @
     warn_if (tp_overflows p > 0) u
       (''Client playback overflowed '' @ show_word (tp_overflows p) @
        '' times; reduce jitter buffer delay or check bursty delivery'')"

definition client_transport_warnings ::
  "user_id \<Rightarrow> client_telemetry_transport_status \<Rightarrow> admin_warning list" where
  "client_transport_warnings u t =
     warn_if (tt_malformed_packets t > 0 \<or> tt_decode_errors t > 0) u
       (''Client dropped audio packets: malformed '' @ show_word (tt_malformed_packets t) @
        '', decode errors '' @ show_word (tt_decode_errors t)) @
     warn_if (tt_tx_queue_drops t > 0 \<or> tt_tx_send_failures t > 0) u
       (''Client transmit path dropped audio: queue drops '' @ show_word (tt_tx_queue_drops t) @
        '', send failures '' @ show_word (tt_tx_send_failures t))"

definition of_some :: "('a \<Rightarrow> 'b list) \<Rightarrow> 'a option \<Rightarrow> 'b list" where
  "of_some f x = (case x of None \<Rightarrow> [] | Some y \<Rightarrow> f y)"

definition capture_health_warnings :: "user_id \<Rightarrow> capture_health_status \<Rightarrow> admin_warning list" where
  "capture_health_warnings u h =
     of_some (desktop_capture_warnings u) (ch_desktop h) @
     (if is_esp32 h then esp32_transport_warnings u h @ esp32_capture_warnings u h else []) @
     of_some (client_playback_warnings u) (ch_playback h) @
     of_some (client_transport_warnings u) (ch_client_transport h)"

section \<open>All warnings\<close>

definition live_session :: "session_status list \<Rightarrow> user_id \<Rightarrow> session_status option" where
  "live_session sessions u = find (\<lambda>s. sst_user_id s = u) sessions"

definition codec_warnings :: "session_status list \<Rightarrow> desired_client_config \<Rightarrow> admin_warning list" where
  "codec_warnings sessions c =
     of_some (\<lambda>s. warn_if (sst_codec s \<noteq> dc_codec c \<and> dc_codec c \<notin> set (sst_supported_codecs s))
         (dc_user_id c)
         (''desired codec '' @ show_codec (dc_codec c) @
          '' is not supported by this connected client; using '' @ show_codec (sst_codec s)))
       (live_session sessions (dc_user_id c))"

definition stereo_warnings :: "session_status list \<Rightarrow> desired_client_config \<Rightarrow> admin_warning list" where
  "stereo_warnings sessions c =
     of_some (\<lambda>s. warn_if (sc_enabled (dc_stereo c) \<and> \<not> ss_active (sst_stereo_status s)) (dc_user_id c)
         (case ss_warning (sst_stereo_status s) of
            Some m \<Rightarrow> m | None \<Rightarrow> ''stereo receive is configured but inactive''))
       (live_session sessions (dc_user_id c))"

definition device_warnings :: "session_status list \<Rightarrow> device_enrollment \<Rightarrow> admin_warning list" where
  "device_warnings sessions v =
     map (\<lambda>m. warn (de_user_id v) (''device '' @ de_client_uid v @ '': '' @ m)) (de_warnings v) @
     warn_if (length (filter (\<lambda>s. sst_client_uid s = de_client_uid v) sessions) > 1) (de_user_id v)
       (''device '' @ de_client_uid v @ '' has multiple live sessions'')"

definition reported_hardware_rate :: "esp32_codec_config \<Rightarrow> u32" where
  "reported_hardware_rate cc =
     (if ec_hardware_sample_rate_hz cc > 0 then ec_hardware_sample_rate_hz cc
      else ec_i2s_sample_rate_hz cc)"

definition esp32_override_warnings ::
  "session_status list \<Rightarrow> desired_client_config \<Rightarrow> admin_warning list" where
  "esp32_override_warnings sessions c =
     of_some (\<lambda>s.
         let u = dc_user_id c;
             cc = (case sst_capture s of None \<Rightarrow> None | Some h \<Rightarrow> ch_codec_config h)
         in if ea_enabled (dc_esp32_audio c)
            then (case cc of
                    Some x \<Rightarrow> warn_if (\<not> ec_server_control_enabled x) u
                      ''ESP32 audio override is configured, but the client reports local menuconfig audio settings''
                  | None \<Rightarrow> [warn u ''ESP32 audio override is configured, but this client has not reported ESP32 capture health'']) @
                 of_some (\<lambda>x.
                     warn_if (reported_hardware_rate x \<noteq> 0 \<and> reported_hardware_rate x \<noteq> 48000) u
                       (''ESP32 audio hardware reports '' @ show_word (reported_hardware_rate x) @
                        '' Hz; the Ai-Thinker ES8388 firmware baseline expects a fixed 48000 Hz hardware path with software conversion for pcm16/pcm24/pcm48'') @
                     of_some (\<lambda>active. warn_if (active \<noteq> sst_codec s) u
                         (''ESP32 reports active codec '' @ show_codec active @
                          '' but the server is sending '' @ show_codec (sst_codec s)))
                       (ec_active_codec x)) cc
            else [])
       (live_session sessions (dc_user_id c))"

definition button_warnings :: "session_status list \<Rightarrow> desired_client_config \<Rightarrow> admin_warning list" where
  "button_warnings sessions c =
     of_some (\<lambda>s.
         map (\<lambda>b. warn (dc_user_id c) (''configured button `'' @ btn_id b @
                ''` is not advertised by this connected client''))
           (filter (\<lambda>b. btn_id b \<notin> bc_id ` set (sst_advertised_buttons s)) (dc_buttons c)))
       (live_session sessions (dc_user_id c))"

definition session_warnings :: "session_status \<Rightarrow> admin_warning list" where
  "session_warnings s =
     of_some (capture_health_warnings (sst_user_id s)) (sst_capture s) @ bridge_status_warnings s"

definition admin_warnings ::
  "persisted_admin_state \<Rightarrow> session_status list \<Rightarrow> admin_warning list" where
  "admin_warnings a sessions =
     concat (map (codec_warnings sessions) (ad_clients a)) @
     workflow_validation_warnings a @
     concat (map (stereo_warnings sessions) (ad_clients a)) @
     concat (map (device_warnings sessions) (ad_devices a)) @
     concat (map (esp32_override_warnings sessions) (ad_clients a)) @
     concat (map (button_warnings sessions) (ad_clients a)) @
     concat (map session_warnings sessions)"

section \<open>The defaults have no warnings\<close>

lemma warn_if_empty [simp]: "warn_if b u m = [] \<longleftrightarrow> \<not> b"
  by (simp add: warn_if_def)

definition consistent_workflow :: "desired_client_config \<Rightarrow> bool" where
  "consistent_workflow c \<longleftrightarrow>
     (channel_pa \<in> set (dc_tx c) \<longrightarrow> is_pa_bridge c) \<and>
     (dc_role c = RoleBridge \<longrightarrow> set (dc_tx c) \<inter> set (dc_listen c) = {}) \<and>
     (ifb_enabled (dc_ifb c) \<longrightarrow> ifb_program (dc_ifb c) \<noteq> [] \<and> ifb_interrupt (dc_ifb c) \<noteq> [] \<and>
        set (ifb_interrupt (dc_ifb c)) \<subseteq> set (dc_listen c)) \<and>
     (is_program_bridge c \<longrightarrow> channel_program \<in> set (dc_tx c) \<and> dc_talk_mode c = Open) \<and>
     (is_pa_bridge c \<longrightarrow> dc_tx c = [] \<and> dc_talk_mode c = Muted) \<and>
     (is_listen_only_ifb c \<longrightarrow> \<not> lo_allow_channels (dc_lockout c) \<and>
        \<not> lo_allow_talk_mode (dc_lockout c) \<and> \<not> lo_allow_buttons (dc_lockout c) \<and>
        \<not> lo_allow_ifb (dc_lockout c))"

lemma sorted_overlap_empty: "sorted_overlap tx listen = [] \<longleftrightarrow> set tx \<inter> set listen = {}"
proof -
  have "set (sorted_overlap tx listen) = set tx \<inter> set listen"
    by (auto simp: sorted_overlap_def)
  then show ?thesis by (metis set_empty)
qed

lemma client_workflow_warnings_iff: "client_workflow_warnings c = [] \<longleftrightarrow> consistent_workflow c"
  by (auto simp: client_workflow_warnings_def consistent_workflow_def ifb_warnings_def Let_def
      bridge_workflow_warnings_def sorted_overlap_empty filter_empty_conv split: if_splits)

lemma workflow_warnings_iff:
  "workflow_validation_warnings a = [] \<longleftrightarrow> list_all consistent_workflow (ad_clients a)"
  by (auto simp: workflow_validation_warnings_def client_workflow_warnings_iff list_all_iff)

text \<open>Neither a program bridge nor a PA bridge can be both.\<close>

lemma no_bridge_is_both:
  "is_program_bridge c \<Longrightarrow> is_pa_bridge c \<Longrightarrow> \<not> consistent_workflow c"
  by (auto simp: consistent_workflow_def)

lemmas default_workflow_evaluation =
  is_program_bridge_def is_pa_bridge_def
  is_listen_only_ifb_def workflow_ids to_desired_def desired_from_template_def
  default_template_client_def default_ifb_config_def default_client_lockout_policy_def
  director_template_client_def producer_template_client_def
  talent_template_client_def referee_template_client_def program_bridge_template_client_def
  pa_bridge_template_client_def show_control_lockout_def route_locked_lockout_def
  listen_only_lockout_def fully_locked_lockout_def normalize_ifb_config_def
  sorted_unique_channels_def Let_def str_contains.simps to_ascii_lowercase_def

lemma default_presets_consistent:
  "list_all (\<lambda>p. list_all (\<lambda>c. client_workflow_warnings c = []) (pr_clients p)) default_workflow_presets"
  by (simp add: default_workflow_presets_def client_workflow_warnings_iff
      consistent_workflow_def default_workflow_evaluation)

lemma default_templates_consistent:
  "list_all (\<lambda>t. client_workflow_warnings (to_desired (ct_client t) u) = []) default_workflow_templates"
  by (simp add: default_workflow_templates_def client_workflow_warnings_iff
      consistent_workflow_def default_workflow_evaluation)

text \<open>The name decides too: a program bridge called \<open>Spare Program\<close> counts as a PA bridge.\<close>

lemma spare_program_bridge_is_warned:
  "client_workflow_warnings
     (to_desired (program_bridge_template_client\<lparr>tc_name := ''Spare Program''\<rparr>) 95) =
   [warn 95 ''PA bridge should not have TX channels'',
    warn 95 ''PA bridge should stay muted; it should only receive PA channel audio'']"
  by (simp add: client_workflow_warnings_def ifb_warnings_def bridge_workflow_warnings_def
      sorted_overlap_def warn_if_def default_workflow_evaluation)

section \<open>Warnings and what was applied\<close>

lemma find_sort_keyed: "find (\<lambda>x. f x = k) (sort_key f xs) = find (\<lambda>x. f x = k) xs"
proof -
  have "find P ys = (case filter P ys of [] \<Rightarrow> None | y # _ \<Rightarrow> Some y)" for P and ys :: "'a list"
    by (induction ys) auto
  then show ?thesis by (simp only: sort_key_stable)
qed

lemma find_map_keyed: "find (\<lambda>x. g x = k) (map (\<lambda>(u, s). h u s) m) =
    map_option (\<lambda>s. h k s) (hm_get m k)" if "\<And>u s. g (h u s) = u" for m :: "('k, 'v) hash_map"
  using that by (induction m) auto

lemma session_status_selects [simp]:
  "sst_user_id (session_status_of now st u s) = u"
  "sst_codec (session_status_of now st u s) = se_output_codec s"
  "set (sst_supported_codecs (session_status_of now st u s)) = se_supported_codecs s"
  "sst_advertised_buttons (session_status_of now st u s) = se_advertised_buttons s"
  by (simp_all add: session_status_of_def Let_def split: prod.splits)

lemma live_session_snapshot:
  "live_session (fst (status_snapshot env st)) u =
     map_option (session_status_of (env_now env) st u) (hm_get (st_sessions st) u)"
  unfolding live_session_def status_snapshot_def fst_conv find_sort_keyed
  by (rule find_map_keyed) simp

text \<open>Administrator's warnings: once a desired configuration has been applied to the live session of
  its client, the page shows a codec warning exactly when the client lacks the desired codec (and
  the fallback is not the desired codec itself), and it names the codec the server then really
  sends; the button warnings are exactly those of configured buttons the client does not
  advertise.\<close>

lemma warnings_tell_what_was_applied:
  "let sessions = fst (status_snapshot env' (apply_desired_to_live_session env d st));
       u = dc_user_id d;
       s = (case hm_get (st_sessions st) u of Some s \<Rightarrow> s | None \<Rightarrow> session_new (env_now env))
   in codec_warnings sessions d =
        (if dc_codec d \<in> se_supported_codecs s \<or> dc_codec d = Pcm16 then []
         else [warn u (''desired codec '' @ show_codec (dc_codec d) @
                 '' is not supported by this connected client; using Pcm16'')]) \<and>
      map aw_message (button_warnings sessions d) =
        map (\<lambda>b. ''configured button `'' @ btn_id b @
               ''` is not advertised by this connected client'')
          (filter (\<lambda>b. btn_id b \<notin> bc_id ` set (se_advertised_buttons s)) (dc_buttons d))"
proof -
  let ?u = "dc_user_id d"
  let ?s = "case hm_get (st_sessions st) ?u of Some s \<Rightarrow> s | None \<Rightarrow> session_new (env_now env)"
  let ?st = "apply_desired_to_live_session env d st"
  have "hm_get (st_sessions ?st) ?u =
      Some ((apply_desired_to_session_fields d ?s)\<lparr>se_last_seen := env_now env\<rparr>)"
    by (simp add: apply_desired_to_live_session_def split: option.splits)
  then have l: "live_session (fst (status_snapshot env' ?st)) ?u =
      Some (session_status_of (env_now env') ?st ?u
        ((apply_desired_to_session_fields d ?s)\<lparr>se_last_seen := env_now env\<rparr>))"
    by (simp add: live_session_snapshot)
  show ?thesis
    unfolding Let_def codec_warnings_def button_warnings_def l of_some_def option.case
    by (simp add: apply_desired_to_session_fields_def Let_def warn_if_def warn_def)
qed

end
