(* ===== verification/Model_Catalog.thy ===== *)
theory Model_Catalog
  imports Recording Voice_Processing
begin

text \<open>
  The models the server can use (\<open>server/src/lib.rs\<close>): the validation of the built-in catalog, the
  state of downloads and the download task itself, and the lists of installed Whisper and
  DeepFilterNet models. The file system is a map from paths to files and directories; the HTTP
  transfer, the URL parser, the SHA-256 digest and the JSON parser are parameters. The server is
  built with its default features: neither DeepFilterNet nor Core ML are compiled in.
\<close>

section \<open>Paths\<close>

datatype path_component = RootDir | CurDir | ParentDir | Normal string

definition component_of :: "string \<Rightarrow> path_component" where
  "component_of s = (if s = ''..'' then ParentDir else Normal s)"

text \<open>\<open>Path::components\<close> on Unix: repeated slashes and all \<open>.\<close> but a leading one are skipped.\<close>

definition path_components :: "string \<Rightarrow> path_component list" where
  "path_components p =
     (let parts = split_on CHR ''/'' p;
          body = map component_of (filter (\<lambda>s. s \<noteq> [] \<and> s \<noteq> ''.'') parts)
      in if p \<noteq> [] \<and> hd p = CHR ''/'' then RootDir # body
         else if parts \<noteq> [] \<and> hd parts = ''.'' then CurDir # body else body)"

definition file_name :: "string \<Rightarrow> string option" where
  "file_name p =
     (case rev (path_components p) of Normal n # _ \<Rightarrow> Some n | _ \<Rightarrow> None)"

definition path_extension :: "string \<Rightarrow> string option" where
  "path_extension p =
     (case file_name p of
        None \<Rightarrow> None
      | Some n \<Rightarrow>
          let after = rev (takeWhile (\<lambda>c. c \<noteq> CHR ''.'') (rev n));
              before = take (length n - length after - 1) n
          in if CHR ''.'' \<notin> set n \<or> before = [] then None else Some after)"

text \<open>A path written with single slashes, \<open>Path::parent\<close> and \<open>Path::with_file_name\<close>.\<close>

fun component_text :: "path_component \<Rightarrow> string" where
  "component_text RootDir = []"
| "component_text CurDir = ''.''"
| "component_text ParentDir = ''..''"
| "component_text (Normal n) = n"

definition path_text :: "path_component list \<Rightarrow> string" where
  "path_text cs = (if cs = [RootDir] then ''/'' else join ''/'' (map component_text cs))"

definition path_parent :: "string \<Rightarrow> string option" where
  "path_parent p =
     (let cs = path_components p
      in if cs = [] \<or> last cs = RootDir then None else Some (path_text (butlast cs)))"

definition with_file_name :: "string \<Rightarrow> string \<Rightarrow> string" where
  "with_file_name p n =
     (if file_name p = None then path_join p n
      else path_join (case path_parent p of Some d \<Rightarrow> d | None \<Rightarrow> []) n)"

definition ends_with :: "string \<Rightarrow> string \<Rightarrow> bool" where
  "ends_with ending s = (length ending \<le> length s \<and> drop (length s - length ending) s = ending)"

definition strip_suffix :: "string \<Rightarrow> string \<Rightarrow> string option" where
  "strip_suffix ending s =
     (if ends_with ending s then Some (take (length s - length ending) s) else None)"

section \<open>Files\<close>

datatype file_entry = Directory "string list" | File "u8 list"

type_synonym file_system = "string \<Rightarrow> file_entry option"

definition path_exists :: "file_system \<Rightarrow> string \<Rightarrow> bool" where
  "path_exists fs p = (fs p \<noteq> None)"

definition is_dir :: "file_system \<Rightarrow> string \<Rightarrow> bool" where
  "is_dir fs p = (case fs p of Some (Directory _) \<Rightarrow> True | _ \<Rightarrow> False)"

definition is_file :: "file_system \<Rightarrow> string \<Rightarrow> bool" where
  "is_file fs p = (case fs p of Some (File _) \<Rightarrow> True | _ \<Rightarrow> False)"

text \<open>The paths \<open>read_dir\<close> yields; none when the directory cannot be read.\<close>

definition dir_entries :: "file_system \<Rightarrow> string \<Rightarrow> string list" where
  "dir_entries fs dir =
     (case fs dir of Some (Directory names) \<Rightarrow> map (path_join dir) names | _ \<Rightarrow> [])"

section \<open>The catalog\<close>

record model_source_policy =
  po_allowed_host :: string
  po_custom_urls :: bool

definition default_model_source_policy :: model_source_policy where
  "default_model_source_policy = \<lparr>po_allowed_host = ''huggingface.co'', po_custom_urls = False\<rparr>"

record model_catalog_entry =
  mo_id :: string
  mo_name :: string
  mo_category :: string
  mo_runtime :: string
  mo_filename :: string
  mo_url :: "string option"
  mo_size :: string
  mo_size_bytes :: "nat option"
  mo_sha256 :: "string option"
  mo_sha1 :: "string option"
  mo_license :: string
  mo_destination_dir :: string
  mo_is_default :: bool
  mo_recommended :: bool
  mo_available :: bool
  mo_notes :: "string option"

record model_catalog_manifest =
  mm_version :: nat
  mm_source_policy :: model_source_policy
  mm_categories :: "string list"
  mm_models :: "model_catalog_entry list"

text \<open>A parsed URL: scheme, host and path.\<close>

record parsed_url =
  ur_scheme :: string
  ur_host :: "string option"
  ur_path :: string

type_synonym url_parser = "string \<Rightarrow> string + parsed_url"

definition quoted :: "string \<Rightarrow> string" where
  "quoted s = ''`'' @ s @ ''`''"

definition validate_model_filename :: "string \<Rightarrow> string + unit" where
  "validate_model_filename filename =
     (if filename = [] \<or> hd filename = CHR ''.'' \<or> CHR ''/'' \<in> set filename \<or>
         char_of (92 :: nat) \<in> set filename \<or> length (path_components filename) \<noteq> 1
      then Inl (''unsafe filename '' @ quoted filename) else Inr ())"

definition is_normal :: "path_component \<Rightarrow> bool" where
  "is_normal c = (case c of Normal _ \<Rightarrow> True | _ \<Rightarrow> False)"

definition validate_model_destination_dir :: "string \<Rightarrow> string + unit" where
  "validate_model_destination_dir dir =
     (if dir = [] \<or> hd dir = CHR ''/'' then Inl (''unsafe destination_dir '' @ quoted dir)
      else if \<not> list_all is_normal (path_components dir)
      then Inl (''unsafe destination_dir '' @ quoted dir) else Inr ())"

definition validate_model_url :: "url_parser \<Rightarrow> string \<Rightarrow> string \<Rightarrow> string \<Rightarrow> string + unit" where
  "validate_model_url parse url allowed_host filename =
     (case parse url of
        Inl err \<Rightarrow> Inl (''invalid URL: '' @ err)
      | Inr u \<Rightarrow>
          if ur_scheme u \<noteq> ''https'' \<or> ur_host u \<noteq> Some allowed_host
          then Inl (''URL must use https://'' @ allowed_host)
          else if \<not> ends_with filename (ur_path u)
          then Inl ''URL path must end with the model filename'' else Inr ())"

definition is_lower_hex :: "string \<Rightarrow> nat \<Rightarrow> bool" where
  "is_lower_hex value len =
     (length value = len \<and>
      list_all (\<lambda>c. is_ascii_digit c \<or> (97 \<le> (of_char c :: nat) \<and> (of_char c :: nat) \<le> 102)) value)"

definition with_model :: "model_catalog_entry \<Rightarrow> string + unit \<Rightarrow> string + unit" where
  "with_model e r =
     (case r of Inl err \<Rightarrow> Inl (''model '' @ quoted (mo_id e) @ '': '' @ err) | Inr _ \<Rightarrow> Inr ())"

definition and_then :: "string + unit \<Rightarrow> string + 'a \<Rightarrow> string + 'a" where
  "and_then a b = (case a of Inl err \<Rightarrow> Inl err | Inr _ \<Rightarrow> b)"

definition check :: "bool \<Rightarrow> string \<Rightarrow> string + unit" where
  "check ok err = (if ok then Inr () else Inl err)"

definition validate_model_source ::
  "url_parser \<Rightarrow> string \<Rightarrow> model_catalog_entry \<Rightarrow> string + unit" where
  "validate_model_source parse allowed_host e =
     (let url_ok = (\<lambda>url. with_model e (validate_model_url parse url allowed_host (mo_filename e)));
          sha_ok = (\<lambda>sha. check (is_lower_hex sha 64)
                     (''model '' @ quoted (mo_id e) @ '' sha256 must be 64 lowercase hex characters''))
      in case (mo_url e, mo_sha256 e, mo_available e) of
           (Some url, Some sha, _) \<Rightarrow> and_then (url_ok url) (sha_ok sha)
         | (None, None, False) \<Rightarrow> Inr ()
         | (None, _, True) \<Rightarrow> Inl (''model '' @ quoted (mo_id e) @ '' is available but has no URL'')
         | (Some _, None, True) \<Rightarrow>
             Inl (''model '' @ quoted (mo_id e) @ '' is available but has no sha256'')
         | (Some url, None, False) \<Rightarrow> url_ok url
         | (None, Some _, False) \<Rightarrow> Inl (''model '' @ quoted (mo_id e) @ '' has a checksum but no URL''))"

text \<open>The loop over the entries, with the ids and destinations seen so far.\<close>

fun validate_models ::
  "url_parser \<Rightarrow> string \<Rightarrow> string set \<Rightarrow> string set \<Rightarrow> (string \<times> string) set \<Rightarrow>
     model_catalog_entry list \<Rightarrow> string + unit" where
  "validate_models parse host categories ids destinations [] = Inr ()"
| "validate_models parse host categories ids destinations (e # es) =
     (let destination = (mo_destination_dir e, mo_filename e)
      in and_then (check (trim (mo_id e) \<noteq> []) ''model id must not be empty'')
        (and_then (check (mo_id e \<notin> ids) (''duplicate model id '' @ quoted (mo_id e)))
        (and_then (check (mo_category e \<in> categories)
            (''model '' @ quoted (mo_id e) @ '' uses unknown category '' @ quoted (mo_category e)))
        (and_then (with_model e (validate_model_filename (mo_filename e)))
        (and_then (with_model e (validate_model_destination_dir (mo_destination_dir e)))
        (and_then (check (destination \<notin> destinations)
            (''duplicate model destination '' @
             quoted (mo_destination_dir e @ ''/'' @ mo_filename e)))
        (and_then (validate_model_source parse host e)
          (validate_models parse host categories (insert (mo_id e) ids)
             (insert destination destinations) es))))))))"

definition validate_model_catalog :: "url_parser \<Rightarrow> model_catalog_manifest \<Rightarrow> string + unit" where
  "validate_model_catalog parse m =
     and_then (check (mm_version m \<noteq> 0) ''model catalog version must be greater than zero'')
    (and_then (check (\<not> po_custom_urls (mm_source_policy m)) ''model catalog must not allow custom URLs'')
    (and_then (check (po_allowed_host (mm_source_policy m) = ''huggingface.co'')
        ''model catalog host allowlist must be huggingface.co'')
    (and_then (check (mm_categories m \<noteq> []) ''model catalog categories must not be empty'')
      (validate_models parse (po_allowed_host (mm_source_policy m)) (set (mm_categories m)) {} {}
         (mm_models m)))))"

definition load_model_catalog ::
  "url_parser \<Rightarrow> model_catalog_manifest option \<Rightarrow> string + model_catalog_manifest" where
  "load_model_catalog parse parsed =
     (case parsed of
        None \<Rightarrow> Inl ''parse model catalog manifest''
      | Some m \<Rightarrow> (case validate_model_catalog parse m of Inl err \<Rightarrow> Inl err | Inr _ \<Rightarrow> Inr m))"

section \<open>Downloads\<close>

datatype model_download_state = Queued | Downloading | Installed | Failed

record model_download_status =
  dn_id :: string
  dn_filename :: string
  dn_status :: model_download_state
  dn_bytes_received :: nat
  dn_bytes_total :: "nat option"
  dn_error :: "string option"
  dn_started_at_ms :: nat
  dn_finished_at_ms :: "nat option"
  dn_destination_path :: string

text \<open>The directories of the three categories and the downloads by model.\<close>

record model_store =
  mt_whisper_model_dir :: string
  mt_deepfilternet_model_dir :: string
  mt_deepfilternet_coreml_model_dir :: string
  mt_downloads :: "(string, model_download_status) hash_map"

definition model_destination_dir :: "model_store \<Rightarrow> model_catalog_entry \<Rightarrow> string" where
  "model_destination_dir ms e =
     (if mo_category e = ''transcription'' then mt_whisper_model_dir ms
      else if mo_category e = ''deepfilternet_onnx'' then mt_deepfilternet_model_dir ms
      else if mo_category e = ''deepfilternet_coreml'' then mt_deepfilternet_coreml_model_dir ms
      else mo_destination_dir e)"

definition model_destination_path :: "model_store \<Rightarrow> model_catalog_entry \<Rightarrow> string" where
  "model_destination_path ms e = path_join (model_destination_dir ms e) (mo_filename e)"

definition in_progress :: "model_download_state \<Rightarrow> bool" where
  "in_progress s = (s = Queued \<or> s = Downloading)"

text \<open>The queued download, or why there is none.\<close>

definition start_model_download ::
  "url_parser \<Rightarrow> model_catalog_manifest option \<Rightarrow> nat \<Rightarrow> string \<Rightarrow> model_store \<Rightarrow>
     model_store \<times> (admin_api_error + model_download_status)" where
  "start_model_download parse parsed now_ms request ms =
     (let model_id = trim request
      in if model_id = [] then (ms, Inl (BadRequest ''model id is required''))
         else case load_model_catalog parse parsed of
           Inl err \<Rightarrow> (ms, Inl (Internal err))
         | Inr m \<Rightarrow>
             (case find (\<lambda>e. mo_id e = model_id) (mm_models m) of
                None \<Rightarrow> (ms, Inl (BadRequest (''unknown model id '' @ quoted model_id)))
              | Some e \<Rightarrow>
                  if \<not> mo_available e
                  then (ms, Inl (BadRequest (''model '' @ quoted (mo_id e) @ '' is not available for download yet'')))
                  else case (mo_url e, mo_sha256 e) of
                    (None, _) \<Rightarrow>
                      (ms, Inl (BadRequest (''model '' @ quoted (mo_id e) @ '' does not have a curated URL'')))
                  | (Some _, None) \<Rightarrow>
                      (ms, Inl (BadRequest (''model '' @ quoted (mo_id e) @ '' does not have a checksum'')))
                  | (Some url, Some _) \<Rightarrow>
                      (case validate_model_url parse url (po_allowed_host (mm_source_policy m)) (mo_filename e) of
                         Inl err \<Rightarrow> (ms, Inl (BadRequest err))
                       | Inr _ \<Rightarrow>
                           let status =
                                 \<lparr>dn_id = mo_id e, dn_filename = mo_filename e, dn_status = Queued,
                                  dn_bytes_received = 0, dn_bytes_total = mo_size_bytes e,
                                  dn_error = None, dn_started_at_ms = now_ms,
                                  dn_finished_at_ms = None,
                                  dn_destination_path = model_destination_path ms e\<rparr>
                           in if (case hm_get (mt_downloads ms) (mo_id e) of
                                    None \<Rightarrow> False | Some d \<Rightarrow> in_progress (dn_status d))
                              then (ms, Inl (BadRequest
                                     (''model '' @ quoted (mo_id e) @ '' is already downloading'')))
                              else (ms\<lparr>mt_downloads := hm_insert (mo_id e) status (mt_downloads ms)\<rparr>,
                                    Inr status))))"

definition update_model_download_status ::
  "string \<Rightarrow> (model_download_status \<Rightarrow> model_download_status) \<Rightarrow> model_store \<Rightarrow> model_store" where
  "update_model_download_status i f ms = ms\<lparr>mt_downloads := hm_modify i f (mt_downloads ms)\<rparr>"

text \<open>What the network and the disk do during one download: whether the directory and the temporary
  file can be made; the response, with its content length, or an error; the chunks, each with
  whether it could be written, until the stream ends or breaks; whether flushing, renaming and
  removing the temporary file succeed.\<close>

datatype chunk_event = Chunk "u8 list" bool | StreamError

record download_io =
  do_dir_made :: bool
  do_temp_made :: bool
  do_response :: "nat option option"
  do_chunks :: "chunk_event list"
  do_flushed :: bool
  do_renamed :: bool
  do_removed :: bool

definition temp_path :: "model_catalog_entry \<Rightarrow> string \<Rightarrow> string" where
  "temp_path e destination = with_file_name destination (''.'' @ mo_filename e @ ''.download'')"

definition remove_file :: "bool \<Rightarrow> string \<Rightarrow> file_system \<Rightarrow> file_system" where
  "remove_file removed p fs = (if removed then fs(p := None) else fs)"

text \<open>The loop over the chunks, with what has been received; the bytes hashed are the bytes written.\<close>

fun download_chunks ::
  "model_catalog_entry \<Rightarrow> string \<Rightarrow> chunk_event list \<Rightarrow> u8 list \<Rightarrow> model_store \<times> file_system \<Rightarrow>
     (model_store \<times> file_system) \<times> (string + u8 list)" where
  "download_chunks e temp [] received s = (s, Inr received)"
| "download_chunks e temp (StreamError # cs) received s = (s, Inl (''stream model '' @ mo_id e))"
| "download_chunks e temp (Chunk bytes written # cs) received (ms, fs) =
     (let received = received @ bytes
      in if \<not> written then ((ms, fs), Inl (''write temp model file '' @ temp))
         else download_chunks e temp cs received
           (update_model_download_status (mo_id e)
              (\<lambda>d. d\<lparr>dn_bytes_received := min u64_max (length received)\<rparr>) ms,
            fs(temp \<mapsto> File received)))"

definition download_model_file ::
  "(u8 list \<Rightarrow> string) \<Rightarrow> download_io \<Rightarrow> model_catalog_entry \<Rightarrow> string \<Rightarrow> model_store \<times> file_system \<Rightarrow>
     (model_store \<times> file_system) \<times> (string + unit)" where
  "download_model_file sha256 io e destination s =
     (case (mo_url e, mo_sha256 e, path_parent destination) of
        (None, _, _) \<Rightarrow> (s, Inl ''model catalog entry has no URL'')
      | (Some _, None, _) \<Rightarrow> (s, Inl ''model catalog entry has no sha256'')
      | (Some _, Some expected, parent) \<Rightarrow>
          if (case parent of None \<Rightarrow> True | Some d \<Rightarrow> d = [])
          then (s, Inl ''model destination has no parent directory'')
          else if \<not> do_dir_made io then (s, Inl (''create model directory '' @ the parent))
          else let temp = temp_path e destination; (ms, fs) = s
            in if \<not> do_temp_made io then (s, Inl (''create temp model file '' @ temp))
               else let fs = fs(temp \<mapsto> File [])
                 in case do_response io of
                      None \<Rightarrow> ((ms, fs), Inl (''download model '' @ mo_id e))
                    | Some content_length \<Rightarrow>
                        let total = (case content_length of None \<Rightarrow> mo_size_bytes e | n \<Rightarrow> n);
                            ms = update_model_download_status (mo_id e)
                                   (\<lambda>d. d\<lparr>dn_bytes_total := total\<rparr>) ms
                        in (case download_chunks e temp (do_chunks io) [] (ms, fs) of
                              (s, Inl err) \<Rightarrow> (s, Inl err)
                            | ((ms, fs), Inr received) \<Rightarrow>
                                if \<not> do_flushed io
                                then ((ms, fs), Inl (''flush temp model file '' @ temp))
                                else if sha256 received \<noteq> expected
                                then ((ms, remove_file (do_removed io) temp fs),
                                      Inl (''checksum mismatch for '' @ mo_filename e @ '': expected '' @
                                           expected @ '', got '' @ sha256 received))
                                else if \<not> do_renamed io
                                then ((ms, fs), Inl (''install model '' @ mo_filename e @ '' to '' @ destination))
                                else ((ms, fs(destination := fs temp, temp := None)), Inr ())))"

definition download_model_task ::
  "(u8 list \<Rightarrow> string) \<Rightarrow> download_io \<Rightarrow> nat \<Rightarrow> model_catalog_entry \<Rightarrow> string \<Rightarrow> model_store \<times> file_system \<Rightarrow>
     model_store \<times> file_system" where
  "download_model_task sha256 io end_ms e destination s =
     (let (ms, fs) = s;
          ms = update_model_download_status (mo_id e) (\<lambda>d. d\<lparr>dn_status := Downloading\<rparr>) ms
      in case download_model_file sha256 io e destination (ms, fs) of
           ((ms, fs), Inr _) \<Rightarrow>
             (update_model_download_status (mo_id e)
                (\<lambda>d. d\<lparr>dn_status := Installed,
                       dn_bytes_received :=
                         (case dn_bytes_total d of Some n \<Rightarrow> n | None \<Rightarrow> dn_bytes_received d),
                       dn_error := None, dn_finished_at_ms := Some end_ms\<rparr>) ms, fs)
         | ((ms, fs), Inl err) \<Rightarrow>
             (update_model_download_status (mo_id e)
                (\<lambda>d. d\<lparr>dn_status := Failed, dn_error := Some err, dn_finished_at_ms := Some end_ms\<rparr>) ms,
              remove_file (do_removed io) (temp_path e destination) fs))"

text \<open>The list of downloads: newest first, by id among equals.\<close>

definition model_downloads_snapshot :: "model_store \<Rightarrow> model_download_status list" where
  "model_downloads_snapshot ms =
     sort_key (\<lambda>d. - int (dn_started_at_ms d)) (sort_key dn_id (map snd (mt_downloads ms)))"

section \<open>Core ML packages\<close>

definition coreml_package_install_candidates :: "string \<Rightarrow> string list" where
  "coreml_package_install_candidates archive =
     (case file_name archive of
        None \<Rightarrow> []
      | Some n \<Rightarrow> List.map_filter (\<lambda>ending. map_option (with_file_name archive) (strip_suffix ending n))
          [''.tar.gz'', ''.tgz'', ''.zip''])"

definition is_valid_deepfilternet_coreml_package :: "file_system \<Rightarrow> string \<Rightarrow> bool" where
  "is_valid_deepfilternet_coreml_package fs p =
     list_all (\<lambda>item. path_exists fs (path_join p item))
       [''config.ini'', ''enc.mlmodelc'', ''erb_dec.mlmodelc'', ''df_dec.mlmodelc'', ''metadata.json'']"

definition installed_model_path ::
  "file_system \<Rightarrow> model_store \<Rightarrow> model_catalog_entry \<Rightarrow> string option" where
  "installed_model_path fs ms e =
     (let path = model_destination_path ms e
      in if path_exists fs path then Some path
         else if mo_category e = ''deepfilternet_coreml''
         then find (\<lambda>c. path_exists fs c \<and> is_valid_deepfilternet_coreml_package fs c)
                (coreml_package_install_candidates path)
         else None)"

text \<open>\<open>str::lines\<close>, \<open>split(['#', ';']).next()\<close> and \<open>split_once('=')\<close>.\<close>

definition strip_cr :: "string \<Rightarrow> string" where
  "strip_cr s = (if s \<noteq> [] \<and> last s = char_of (13 :: nat) then butlast s else s)"

definition str_lines :: "string \<Rightarrow> string list" where
  "str_lines s =
     (let parts = split_on (char_of (10 :: nat)) s;
          ended = butlast parts
      in map strip_cr ended @ (if last parts = [] then [] else [last parts]))"

definition config_line :: "string \<Rightarrow> string" where
  "config_line raw = trim (takeWhile (\<lambda>c. c \<noteq> CHR ''#'' \<and> c \<noteq> CHR '';'') raw)"

text \<open>The section and key pairs of an INI file.\<close>

fun config_keys :: "string \<Rightarrow> string list \<Rightarrow> (string \<times> string) list" where
  "config_keys sec [] = []"
| "config_keys sec (raw # raws) =
     (let line = config_line raw
      in if line = [] then config_keys sec raws
         else if hd line = CHR ''['' \<and> last line = CHR '']''
         then config_keys (trim (butlast (tl line))) raws
         else if CHR ''='' \<in> set line
         then (sec, trim (takeWhile (\<lambda>c. c \<noteq> CHR ''='') line)) # config_keys sec raws
         else config_keys sec raws)"

definition required_config_keys :: "(string \<times> string) list" where
  "required_config_keys =
     [(''df'', ''sr''), (''df'', ''hop_size''), (''df'', ''fft_size''), (''df'', ''min_nb_erb_freqs''),
      (''df'', ''nb_erb''), (''df'', ''nb_df''), (''deepfilternet'', ''conv_lookahead'')]"

definition missing_config_keys :: "string \<Rightarrow> string list" where
  "missing_config_keys contents =
     (let keys = set (config_keys [] (str_lines contents))
      in map (\<lambda>(s, k). s @ ''.'' @ k) (filter (\<lambda>k. k \<notin> keys) required_config_keys) @
         map (\<lambda>k. ''df.'' @ k @ '' or deepfilternet.'' @ k)
           (filter (\<lambda>k. (''df'', k) \<notin> keys \<and> (''deepfilternet'', k) \<notin> keys)
              [''df_order'', ''df_lookahead'']))"

text \<open>\<open>read_text\<close> decodes a file as UTF-8, if it can be read and decoded.\<close>

definition deepfilternet_coreml_missing_config_keys ::
  "(string \<Rightarrow> string option) \<Rightarrow> string \<Rightarrow> string list" where
  "deepfilternet_coreml_missing_config_keys read_text p =
     (case read_text (path_join p ''config.ini'') of
        None \<Rightarrow> [''config.ini readable'']
      | Some contents \<Rightarrow> missing_config_keys contents)"

definition deepfilternet_coreml_package_status ::
  "file_system \<Rightarrow> (string \<Rightarrow> string option) \<Rightarrow> string \<Rightarrow> bool \<times> string option" where
  "deepfilternet_coreml_package_status fs read_text p =
     (let missing = filter (\<lambda>n. \<not> is_dir fs (path_join p n))
                      [''enc.mlmodelc'', ''erb_dec.mlmodelc'', ''df_dec.mlmodelc''] @
                    filter (\<lambda>n. \<not> is_file fs (path_join p n)) [''config.ini'', ''metadata.json''];
          missing = (if missing = [] then deepfilternet_coreml_missing_config_keys read_text p
                     else missing)
      in if missing = [] then (True, None)
         else (False, Some (''Incomplete Core ML package; missing required entries: '' @
                            join '', '' missing)))"

section \<open>Lists of models\<close>

definition is_supported_whisper_model_path :: "string \<Rightarrow> bool" where
  "is_supported_whisper_model_path p =
     (case path_extension p of
        None \<Rightarrow> False
      | Some ext \<Rightarrow> to_ascii_lowercase ext = ''bin'' \<or> to_ascii_lowercase ext = ''gguf'')"

definition is_supported_deepfilternet_onnx_archive_path :: "string \<Rightarrow> bool" where
  "is_supported_deepfilternet_onnx_archive_path p =
     (case file_name p of
        None \<Rightarrow> False
      | Some n \<Rightarrow> let n = to_ascii_lowercase n in ends_with ''.tar.gz'' n \<or> ends_with ''.tgz'' n)"

definition is_supported_deepfilternet_coreml_package_path :: "file_system \<Rightarrow> string \<Rightarrow> bool" where
  "is_supported_deepfilternet_coreml_package_path fs p =
     (case file_name p of
        None \<Rightarrow> False
      | Some n \<Rightarrow> is_dir fs p \<and> str_contains ''coreml'' (to_ascii_lowercase n))"

definition is_supported_deepfilternet_model_path ::
  "file_system \<Rightarrow> (string \<Rightarrow> string option) \<Rightarrow> string \<Rightarrow> bool" where
  "is_supported_deepfilternet_model_path fs read_text p =
     (is_supported_deepfilternet_onnx_archive_path p \<or>
      (is_supported_deepfilternet_coreml_package_path fs p \<and>
       fst (deepfilternet_coreml_package_status fs read_text p)))"

record whisper_model_info =
  wm_name :: string
  wm_path :: string
  wm_selected :: bool

definition name_of :: "string \<Rightarrow> string" where
  "name_of p = (case file_name p of Some n \<Rightarrow> n | None \<Rightarrow> [])"

definition list_whisper_models ::
  "file_system \<Rightarrow> string \<Rightarrow> string option \<Rightarrow> whisper_model_info list" where
  "list_whisper_models fs dir selected =
     sort_key wm_name
       (map (\<lambda>p. \<lparr>wm_name = name_of p, wm_path = p,
                 wm_selected = (case selected of None \<Rightarrow> False
                   | Some s \<Rightarrow> path_components s = path_components p)\<rparr>)
          (filter is_supported_whisper_model_path (dir_entries fs dir)))"

record deepfilternet_model_info =
  dm_name :: string
  dm_path :: string
  dm_runtime :: string

definition list_deepfilternet_models ::
  "file_system \<Rightarrow> (string \<Rightarrow> string option) \<Rightarrow> string \<Rightarrow> deepfilternet_model_info list" where
  "list_deepfilternet_models fs read_text dir =
     sort_key dm_name
       (map (\<lambda>p. \<lparr>dm_name = name_of p, dm_path = p,
                 dm_runtime = (if is_supported_deepfilternet_coreml_package_path fs p then ''coreml''
                               else ''tract'')\<rparr>)
          (filter (is_supported_deepfilternet_model_path fs read_text) (dir_entries fs dir)))"

record coreml_package_info =
  cm_name :: string
  cm_path :: string
  cm_complete :: bool
  cm_detail :: "string option"

definition list_deepfilternet_coreml_packages ::
  "file_system \<Rightarrow> (string \<Rightarrow> string option) \<Rightarrow> string \<Rightarrow> coreml_package_info list" where
  "list_deepfilternet_coreml_packages fs read_text dir =
     sort_key cm_name
       (map (\<lambda>p. let (complete, detail) = deepfilternet_coreml_package_status fs read_text p
                 in \<lparr>cm_name = name_of p, cm_path = p, cm_complete = complete, cm_detail = detail\<rparr>)
          (filter (is_supported_deepfilternet_coreml_package_path fs) (dir_entries fs dir)))"

record deepfilternet_status_response =
  dr_backend_available :: bool
  dr_supported_backends :: "string list"
  dr_preferred_backend :: string
  dr_coreml_runtime_available :: bool
  dr_apple_compute_units :: "string list"
  dr_model_dir :: string
  dr_models :: "deepfilternet_model_info list"
  dr_coreml_packages :: "coreml_package_info list"
  dr_coreml_compiled :: bool
  dr_detail :: "string option"

definition deepfilternet_supported_backend_names :: "string list" where
  "deepfilternet_supported_backend_names = [''auto'', ''tract'', ''coreml'']"

definition apple_compute_unit_names :: "string list" where
  "apple_compute_unit_names = [''all'', ''cpu_and_gpu'', ''cpu_and_neural_engine'', ''cpu_only'']"

definition deepfilternet_coreml_runtime_available :: bool where
  "deepfilternet_coreml_runtime_available = False"

definition deepfilternet_auto_backend :: string where
  "deepfilternet_auto_backend =
     (if deepfilternet_coreml_runtime_available then ''coreml'' else ''tract'')"

definition deepfilternet_status_snapshot ::
  "file_system \<Rightarrow> (string \<Rightarrow> string option) \<Rightarrow> model_store \<Rightarrow> deepfilternet_status_response" where
  "deepfilternet_status_snapshot fs read_text ms =
     (let dir = mt_deepfilternet_model_dir ms;
          models = list_deepfilternet_models fs read_text dir;
          packages = list_deepfilternet_coreml_packages fs read_text dir;
          available = processing_engine_available DeepFilterNet
      in \<lparr>dr_backend_available = available,
          dr_supported_backends = deepfilternet_supported_backend_names,
          dr_preferred_backend = deepfilternet_auto_backend,
          dr_coreml_runtime_available = deepfilternet_coreml_runtime_available,
          dr_apple_compute_units = apple_compute_unit_names, dr_model_dir = dir,
          dr_models = models, dr_coreml_packages = packages, dr_coreml_compiled = False,
          dr_detail =
            (if \<not> available then Some (unavailable_processing_engine_detail DeepFilterNet)
             else if models = []
             then Some (if packages \<noteq> []
               then ''Core ML packages are present, but no complete runtime model is selectable. Use a complete Core ML package on macOS with the Core ML backend, or add a compatible ONNX .tar.gz model for Tract.''
               else ''No compatible DeepFilterNet ONNX .tar.gz models or complete Core ML package directories found'')
             else if \<not> deepfilternet_coreml_runtime_available
             then Some ''DeepFilterNet Core ML acceleration is not available in this build; Core ML package directories require macOS with processing-deepfilternet-coreml, or use ONNX .tar.gz models with Tract''
             else None)\<rparr>)"

section \<open>The catalog as the administrator sees it\<close>

datatype model_asset_status =
  AssetInstalled | AssetMissing | AssetDownloading | AssetFailed | AssetUnavailable

record model_catalog_item =
  mi_entry :: model_catalog_entry
  mi_destination_path :: string
  mi_installed :: bool
  mi_downloading :: bool
  mi_status :: model_asset_status
  mi_error :: "string option"

record model_catalog_response =
  mr_version :: nat
  mr_categories :: "string list"
  mr_source_policy :: model_source_policy
  mr_models :: "model_catalog_item list"
  mr_error :: "string option"

definition catalog_item ::
  "file_system \<Rightarrow> model_store \<Rightarrow> model_catalog_entry \<Rightarrow> model_catalog_item" where
  "catalog_item fs ms e =
     (let installed_path = installed_model_path fs ms e;
          download = hm_get (mt_downloads ms) (mo_id e);
          downloading = (case download of None \<Rightarrow> False | Some d \<Rightarrow> in_progress (dn_status d));
          failed = (case download of None \<Rightarrow> False | Some d \<Rightarrow> dn_status d = Failed);
          installed = (installed_path \<noteq> None)
      in \<lparr>mi_entry = e,
          mi_destination_path =
            (case installed_path of Some p \<Rightarrow> p | None \<Rightarrow> model_destination_path ms e),
          mi_installed = installed, mi_downloading = downloading,
          mi_status =
            (if downloading then AssetDownloading
             else if installed then AssetInstalled
             else if failed then AssetFailed
             else if \<not> mo_available e \<or> mo_url e = None \<or> mo_sha256 e = None then AssetUnavailable
             else AssetMissing),
          mi_error = (case download of None \<Rightarrow> None | Some d \<Rightarrow> dn_error d)\<rparr>)"

definition model_catalog_snapshot ::
  "url_parser \<Rightarrow> model_catalog_manifest option \<Rightarrow> file_system \<Rightarrow> model_store \<Rightarrow> model_catalog_response" where
  "model_catalog_snapshot parse parsed fs ms =
     (case load_model_catalog parse parsed of
        Inl err \<Rightarrow>
          \<lparr>mr_version = 0, mr_categories = [], mr_source_policy = default_model_source_policy,
           mr_models = [], mr_error = Some err\<rparr>
      | Inr m \<Rightarrow>
          \<lparr>mr_version = mm_version m, mr_categories = mm_categories m,
           mr_source_policy = mm_source_policy m, mr_models = map (catalog_item fs ms) (mm_models m),
           mr_error = None\<rparr>)"


section \<open>Paths of validated entries\<close>

lemma split_on_ne [simp]: "split_on d a \<noteq> []"
  by (induction a) (auto split: list.splits)

lemma split_on_append: "split_on d (a @ d # b) = split_on d a @ split_on d b"
proof (induction a)
  case (Cons c a)
  then show ?case by (cases "split_on d a") auto
qed simp

lemma split_on_single: "d \<notin> set a \<Longrightarrow> split_on d a = [a]"
  by (induction a) auto

definition path_parts :: "string \<Rightarrow> string list" where
  "path_parts p = filter (\<lambda>s. s \<noteq> [] \<and> s \<noteq> ''.'') (split_on CHR ''/'' p)"

lemma path_parts_append: "path_parts (a @ CHR ''/'' # b) = path_parts a @ path_parts b"
  by (simp add: path_parts_def split_on_append)

lemma path_components_parts:
  "path_components p =
     (if p \<noteq> [] \<and> hd p = CHR ''/'' then RootDir # map component_of (path_parts p)
      else if hd (split_on CHR ''/'' p) = ''.'' then CurDir # map component_of (path_parts p)
      else map component_of (path_parts p))"
  by (simp add: path_components_def path_parts_def Let_def)

lemma path_join_relative:
  assumes "n \<noteq> []" "hd n \<noteq> CHR ''/''" "d \<noteq> []"
  obtains a where "path_join d n = a @ CHR ''/'' # n" "path_parts a = path_parts d"
    "hd (split_on CHR ''/'' a) = hd (split_on CHR ''/'' d)" "hd (a @ ''/'') = hd d"
proof (cases "last d = CHR ''/''")
  case True
  have d: "d = butlast d @ ''/''" using assms(3) append_butlast_last_id [of d] True by simp
  have "path_join d n = butlast d @ CHR ''/'' # n"
    using assms(1,2) True d by (auto simp: path_join_def)
  moreover have "path_parts d = path_parts (butlast d)"
    using path_parts_append [of "butlast d" "[]"] d by (simp add: path_parts_def)
  moreover have "hd (split_on CHR ''/'' (butlast d)) = hd (split_on CHR ''/'' d)"
    using split_on_append [of "CHR ''/''" "butlast d" "[]"] d by simp
  moreover have "hd (butlast d @ ''/'') = hd d" using d by metis
  ultimately show ?thesis using that [of "butlast d"] by simp
next
  case False
  with assms that [of d] show ?thesis by (simp add: path_join_def)
qed

lemma path_join_append:
  assumes "n \<noteq> []" "CHR ''/'' \<notin> set n" "d \<noteq> []"
  obtains a where "path_join d n = a @ CHR ''/'' # n" "path_parts a = path_parts d"
    "hd (split_on CHR ''/'' a) = hd (split_on CHR ''/'' d)" "hd (a @ ''/'') = hd d"
proof -
  have "hd n \<noteq> CHR ''/''" using assms(1,2) by (cases n) auto
  from path_join_relative [OF assms(1) this assms(3)] that show ?thesis by blast
qed

definition safe_filename :: "string \<Rightarrow> bool" where
  "safe_filename n \<longleftrightarrow> n \<noteq> [] \<and> hd n \<noteq> CHR ''.'' \<and> CHR ''/'' \<notin> set n"

lemma validate_model_filename_safe: "validate_model_filename n = Inr () \<Longrightarrow> safe_filename n"
  by (auto simp: validate_model_filename_def safe_filename_def split: if_splits)

lemma safe_filename_parts: "safe_filename n \<Longrightarrow> path_parts n = [n] \<and> component_of n = Normal n"
  by (auto simp: safe_filename_def path_parts_def split_on_single component_of_def)

lemma join_components:
  assumes "safe_filename n" "validate_model_destination_dir d = Inr ()"
  shows "path_components (path_join d n) = path_components d @ [Normal n] \<and>
    list_all is_normal (path_components (path_join d n))"
proof -
  have d: "d \<noteq> []" "hd d \<noteq> CHR ''/''" "list_all is_normal (path_components d)"
    using assms(2) by (auto simp: validate_model_destination_dir_def split: if_splits)
  have n: "n \<noteq> []" "CHR ''/'' \<notin> set n" using assms(1) by (auto simp: safe_filename_def)
  obtain a where a: "path_join d n = a @ CHR ''/'' # n" "path_parts a = path_parts d"
    "hd (split_on CHR ''/'' a) = hd (split_on CHR ''/'' d)" "hd (a @ ''/'') = hd d"
    by (rule path_join_append [OF n d(1)])
  have "hd (path_join d n) = hd d" using a(1,4) by (cases a) simp_all
  moreover have "hd (split_on CHR ''/'' (path_join d n)) = hd (split_on CHR ''/'' d)"
    using a(1,3) by (simp add: split_on_append)
  moreover have "path_parts (path_join d n) = path_parts d @ [n]"
    using a(1,2) safe_filename_parts [OF assms(1)] by (simp add: path_parts_append)
  ultimately show ?thesis
    using d safe_filename_parts [OF assms(1)] a(1)
    by (auto simp: path_components_parts is_normal_def)
qed

text \<open>The last component of a joined path, as text.\<close>

definition base_text :: "string \<Rightarrow> string" where
  "base_text p = rev (takeWhile (\<lambda>c. c \<noteq> CHR ''/'') (rev p))"

lemma base_text_join:
  assumes "n \<noteq> []" "CHR ''/'' \<notin> set n"
  shows "base_text (path_join d n) = n"
proof -
  have n: "takeWhile (\<lambda>c. c \<noteq> CHR ''/'') (rev n) = rev n"
    using assms(2) unfolding takeWhile_eq_all_conv by auto
  show ?thesis
  proof (cases "d = []")
    case True
    have "path_join d n = n" using assms True by (cases n) (auto simp: path_join_def)
    then show ?thesis by (simp add: base_text_def n)
  next
    case False
    obtain a where "path_join d n = a @ CHR ''/'' # n"
      by (rule path_join_append [OF assms False])
    moreover have "takeWhile (\<lambda>c. c \<noteq> CHR ''/'') (rev n @ CHR ''/'' # rev a) = rev n"
      using assms(2) by (subst takeWhile_append2) auto
    ultimately show ?thesis by (simp add: base_text_def)
  qed
qed

lemma temp_path_differs:
  assumes "safe_filename (mo_filename e)"
  shows "temp_path e (model_destination_path ms e) \<noteq> model_destination_path ms e"
proof
  let ?n = "mo_filename e" and ?t = "''.'' @ mo_filename e @ ''.download''"
  assume eq: "temp_path e (model_destination_path ms e) = model_destination_path ms e"
  have n: "?n \<noteq> []" "CHR ''/'' \<notin> set ?n" using assms by (auto simp: safe_filename_def)
  obtain d where "temp_path e (model_destination_path ms e) = path_join d ?t"
    unfolding temp_path_def with_file_name_def by metis
  with n have "base_text (temp_path e (model_destination_path ms e)) = ?t"
    by (simp only:) (rule base_text_join, auto)
  moreover have "base_text (model_destination_path ms e) = ?n"
    unfolding model_destination_path_def using n by (rule base_text_join)
  ultimately have "?t = ?n" using eq by simp
  then have "length ?t = length ?n" by simp
  then show False by simp
qed

section \<open>What validation and downloading promise\<close>

definition well_formed_entry :: "url_parser \<Rightarrow> model_catalog_entry \<Rightarrow> bool" where
  "well_formed_entry parse e \<longleftrightarrow>
     trim (mo_id e) \<noteq> [] \<and>
     path_components (path_join (mo_destination_dir e) (mo_filename e)) =
       path_components (mo_destination_dir e) @ [Normal (mo_filename e)] \<and>
     list_all is_normal (path_components (path_join (mo_destination_dir e) (mo_filename e))) \<and>
     (case mo_url e of
        None \<Rightarrow> True
      | Some url \<Rightarrow> (case parse url of
          Inl _ \<Rightarrow> False
        | Inr u \<Rightarrow> ur_scheme u = ''https'' \<and> ur_host u = Some ''huggingface.co'' \<and>
            ends_with (mo_filename e) (ur_path u))) \<and>
     (case mo_sha256 e of None \<Rightarrow> True | Some sha \<Rightarrow> is_lower_hex sha 64) \<and>
     (if mo_available e then mo_url e \<noteq> None \<and> mo_sha256 e \<noteq> None else True)"

lemma and_then_ok [simp]: "and_then a b = Inr x \<longleftrightarrow> a = Inr () \<and> b = Inr x"
  by (auto simp: and_then_def split: sum.splits)

lemma check_ok [simp]: "check b err = Inr () \<longleftrightarrow> b"
  by (simp add: check_def)

lemma with_model_ok [simp]: "with_model e r = Inr () \<longleftrightarrow> r = Inr ()"
  by (auto simp: with_model_def split: sum.splits)

lemma validate_model_source_ok:
  assumes "validate_model_source parse ''huggingface.co'' e = Inr ()"
  shows "(case mo_url e of
        None \<Rightarrow> True
      | Some url \<Rightarrow> (case parse url of
          Inl _ \<Rightarrow> False
        | Inr u \<Rightarrow> ur_scheme u = ''https'' \<and> ur_host u = Some ''huggingface.co'' \<and>
            ends_with (mo_filename e) (ur_path u))) \<and>
     (case mo_sha256 e of None \<Rightarrow> True | Some sha \<Rightarrow> is_lower_hex sha 64) \<and>
     (if mo_available e then mo_url e \<noteq> None \<and> mo_sha256 e \<noteq> None else True)"
  using assms
  by (cases "mo_url e"; cases "mo_sha256 e"; cases "mo_available e")
    (auto simp: validate_model_source_def Let_def validate_model_url_def split: sum.splits if_splits)

lemma validate_models_ok:
  assumes "validate_models parse ''huggingface.co'' cats ids dests es = Inr ()"
  shows "distinct (map mo_id es) \<and> set (map mo_id es) \<inter> ids = {} \<and>
    distinct (map (\<lambda>e. (mo_destination_dir e, mo_filename e)) es) \<and>
    set (map (\<lambda>e. (mo_destination_dir e, mo_filename e)) es) \<inter> dests = {} \<and>
    mo_category ` set es \<subseteq> cats \<and> list_all (well_formed_entry parse) es"
  using assms
proof (induction es arbitrary: ids dests)
  case (Cons e es)
  from Cons.prems have e: "trim (mo_id e) \<noteq> []" "mo_id e \<notin> ids" "mo_category e \<in> cats"
      "validate_model_filename (mo_filename e) = Inr ()"
      "validate_model_destination_dir (mo_destination_dir e) = Inr ()"
      "(mo_destination_dir e, mo_filename e) \<notin> dests"
      "validate_model_source parse ''huggingface.co'' e = Inr ()"
    and rest: "validate_models parse ''huggingface.co'' cats (insert (mo_id e) ids)
        (insert (mo_destination_dir e, mo_filename e) dests) es = Inr ()"
    by (simp_all add: Let_def)
  have "well_formed_entry parse e"
    unfolding well_formed_entry_def
    using e(1) join_components [OF validate_model_filename_safe [OF e(4)] e(5)]
      validate_model_source_ok [OF e(7)] by blast
  with Cons.IH [OF rest] e show ?case by auto
qed simp

text \<open>C22. Model catalog: a catalog that passes validation has distinct ids and distinct pairs of
  declared directory and file name, only known categories, and only entries whose declared
  directory joined with the file name is that directory plus one plain component (no absolute path, no
  parent directory), whose URL, if any, is an https URL of the allowed host that ends with the file
  name, whose checksum, if any, is 64 hexadecimal digits, and which have both if they are available.
  Where a model is installed is another matter: \<open>model_destination_dir\<close> ignores the declared
  directory for three categories, so two entries of such a category may share their destination.\<close>

theorem validated_catalog_is_well_formed:
  "case load_model_catalog parse parsed of
     Inl _ \<Rightarrow> True
   | Inr m \<Rightarrow>
       parsed = Some m \<and> 0 < mm_version m \<and> \<not> po_custom_urls (mm_source_policy m) \<and>
       distinct (map mo_id (mm_models m)) \<and>
       distinct (map (\<lambda>e. (mo_destination_dir e, mo_filename e)) (mm_models m)) \<and>
       mo_category ` set (mm_models m) \<subseteq> set (mm_categories m) \<and>
       list_all (well_formed_entry parse) (mm_models m)"
proof (cases parsed)
  case (Some m)
  show ?thesis
  proof (cases "validate_model_catalog parse m")
    case (Inr u)
    then have v: "mm_version m \<noteq> 0" "\<not> po_custom_urls (mm_source_policy m)"
        "validate_models parse ''huggingface.co'' (set (mm_categories m)) {} {} (mm_models m) = Inr ()"
      by (auto simp: validate_model_catalog_def)
    with validate_models_ok [OF v(3)] Inr Some show ?thesis by (simp add: load_model_catalog_def)
  qed (simp add: load_model_catalog_def Some)
qed (simp add: load_model_catalog_def)

text \<open>The chunks only write the temporary file, and what is received is what it then holds.\<close>

lemma download_chunks_effect:
  assumes "download_chunks e temp cs received (ms, fs) = ((ms', fs'), r)"
    "fs temp = Some (File received)"
  shows "(p \<noteq> temp \<longrightarrow> fs' p = fs p) \<and> (case r of Inl _ \<Rightarrow> True | Inr all \<Rightarrow> fs' temp = Some (File all))
    \<and> fst ` set (mt_downloads ms') = fst ` set (mt_downloads ms)"
  using assms
proof (induction cs arbitrary: received ms fs)
  case (Cons c cs)
  have keys: "fst ` set (hm_modify i f m) = fst ` set m"
    for i and f :: "model_download_status \<Rightarrow> model_download_status" and m
    by (auto simp: hm_modify_def dom_update map_of_eq_None_iff split: option.splits
        dest: map_of_SomeD intro: rev_image_eqI)
  show ?case
  proof (cases c)
    case (Chunk bytes written)
    show ?thesis
    proof (cases written)
      case True
      let ?ms = "update_model_download_status (mo_id e)
        (\<lambda>d. d\<lparr>dn_bytes_received := min u64_max (length (received @ bytes))\<rparr>) ms"
      have "download_chunks e temp cs (received @ bytes) (?ms, fs(temp \<mapsto> File (received @ bytes))) =
          ((ms', fs'), r)"
        using Cons.prems(1) True by (simp add: Chunk Let_def)
      from Cons.IH [OF this] show ?thesis by (auto simp: update_model_download_status_def keys)
    next
      case False
      with Cons.prems show ?thesis by (auto simp: Chunk Let_def)
    qed
  qed (use Cons.prems in auto)
qed auto


lemma download_model_file_effect:
  assumes d: "download_model_file sha256 io e destination (ms, fs) = ((ms', fs'), r)"
    and ne: "temp_path e destination \<noteq> destination"
  shows "(case r of
      Inl _ \<Rightarrow> fs' destination = fs destination
    | Inr _ \<Rightarrow> (\<exists>content. fs' destination = Some (File content) \<and> mo_sha256 e = Some (sha256 content)) \<and>
        fs' (temp_path e destination) = None) \<and>
    (p \<noteq> destination \<longrightarrow> p \<noteq> temp_path e destination \<longrightarrow> fs' p = fs p) \<and>
    fst ` set (mt_downloads ms') = fst ` set (mt_downloads ms)"
proof -
  let ?temp = "temp_path e destination"
  have keys: "fst ` set (hm_modify i f m) = fst ` set m"
    for i and f :: "model_download_status \<Rightarrow> model_download_status" and m
    by (auto simp: hm_modify_def dom_update map_of_eq_None_iff split: option.splits
        dest: map_of_SomeD intro: rev_image_eqI)
  consider (early) "(\<exists>err. r = Inl err)" "ms' = ms" "fs' = fs \<or> fs' = fs(?temp \<mapsto> File [])"
    | (transfer) total s r' where "download_chunks e ?temp (do_chunks io) []
          (update_model_download_status (mo_id e) (\<lambda>d. d\<lparr>dn_bytes_total := total\<rparr>) ms,
           fs(?temp \<mapsto> File [])) = (s, r')"
      "case r' of Inl err \<Rightarrow> ((ms', fs'), r) = (s, Inl err)
       | Inr received \<Rightarrow> ms' = fst s \<and>
           ((\<exists>err. r = Inl err) \<and> (fs' = snd s \<or> fs' = remove_file (do_removed io) ?temp (snd s)) \<or>
            r = Inr () \<and> mo_sha256 e = Some (sha256 received) \<and>
            fs' = (snd s)(destination := snd s ?temp, ?temp := None))"
  proof -
    show thesis
    proof (cases "mo_url e = None \<or> mo_sha256 e = None \<or>
        (case path_parent destination of None \<Rightarrow> True | Some q \<Rightarrow> q = []) \<or> \<not> do_dir_made io \<or>
        \<not> do_temp_made io \<or> do_response io = None")
      case True
      show thesis
        by (rule early) (use d True in \<open>auto simp: download_model_file_def Let_def split: option.splits if_splits\<close>)
    next
      case False
      then obtain url sha length where f: "mo_url e = Some url" "mo_sha256 e = Some sha"
        "do_response io = Some length" by auto
      let ?total = "case length of None \<Rightarrow> mo_size_bytes e | n \<Rightarrow> n"
      obtain s r' where c: "download_chunks e ?temp (do_chunks io) []
          (update_model_download_status (mo_id e) (\<lambda>d. d\<lparr>dn_bytes_total := ?total\<rparr>) ms,
           fs(?temp \<mapsto> File [])) = (s, r')" by fastforce
      show thesis
        by (rule transfer [OF c])
          (use d False f in \<open>auto simp: download_model_file_def Let_def c split: option.splits
             if_splits sum.splits prod.splits\<close>)
    qed
  qed
  then show ?thesis
  proof cases
    case early
    then show ?thesis using ne by auto
  next
    case transfer
    obtain ms1 fs1 where s: "s = (ms1, fs1)" by (cases s)
    note E = download_chunks_effect [OF transfer(1) [unfolded s]]
    have e1: "(q \<noteq> ?temp \<longrightarrow> fs1 q = fs q)" "fst ` set (mt_downloads ms1) = fst ` set (mt_downloads ms)" for q
      using E [of q] by (auto simp: update_model_download_status_def keys)
    show ?thesis
    proof (cases r')
      case (Inl err)
      with transfer(2) e1 ne show ?thesis by (auto simp: s)
    next
      case (Inr received)
      then have "fs1 ?temp = Some (File received)" using E by simp
      with transfer(2) Inr e1 ne show ?thesis by (auto simp: s remove_file_def)
    qed
  qed
qed


text \<open>C23. Model downloads: whatever the network and the disk do, a download task of an entry with a
  plain file name changes no file but its destination and its temporary file; the destination is
  replaced only by content whose SHA-256 digest is the one of the catalog, and is untouched
  otherwise; the download's status says \<open>Installed\<close> exactly in the first case and \<open>Failed\<close> in the
  second, never leaving it in progress.\<close>

theorem only_verified_models_are_installed:
  assumes "safe_filename (mo_filename e)"
  shows "let destination = model_destination_path ms e; temp = temp_path e destination;
             (ms', fs') = download_model_task sha256 io end_ms e destination (ms, fs);
             verified = (case fs' destination of
               Some (File content) \<Rightarrow> mo_sha256 e = Some (sha256 content) | _ \<Rightarrow> False)
         in (p = destination \<or> p = temp \<or> fs' p = fs p) \<and>
            (verified \<or> fs' destination = fs destination) \<and>
            (case hm_get (mt_downloads ms') (mo_id e) of
               None \<Rightarrow> mo_id e \<notin> fst ` set (mt_downloads ms)
             | Some d \<Rightarrow> dn_status d = Installed \<and> verified \<or>
                 dn_status d = Failed \<and> fs' destination = fs destination)"
proof -
  let ?d = "model_destination_path ms e"
  let ?ms = "update_model_download_status (mo_id e) (\<lambda>d. d\<lparr>dn_status := Downloading\<rparr>) ms"
  have keys: "fst ` set (hm_modify i f m) = fst ` set m"
    for i and f :: "model_download_status \<Rightarrow> model_download_status" and m
    by (auto simp: hm_modify_def dom_update map_of_eq_None_iff split: option.splits
        dest: map_of_SomeD intro: rev_image_eqI)
  obtain ms1 fs1 r where f: "download_model_file sha256 io e ?d (?ms, fs) = ((ms1, fs1), r)"
    by (metis surj_pair)
  note E = download_model_file_effect [OF f temp_path_differs [OF assms]]
  have ne: "temp_path e ?d \<noteq> ?d" using assms by (rule temp_path_differs)
  have dom: "mo_id e \<in> fst ` set (mt_downloads ms1) \<longleftrightarrow> mo_id e \<in> fst ` set (mt_downloads ms)"
    using E [of p] by (simp add: update_model_download_status_def keys)
  show ?thesis
  proof (cases r)
    case (Inl err)
    then have t: "download_model_task sha256 io end_ms e ?d (ms, fs) =
      (update_model_download_status (mo_id e)
         (\<lambda>d. d\<lparr>dn_status := Failed, dn_error := Some err, dn_finished_at_ms := Some end_ms\<rparr>) ms1,
       remove_file (do_removed io) (temp_path e ?d) fs1)"
      unfolding download_model_task_def Let_def prod.case f by simp
    have "remove_file (do_removed io) (temp_path e ?d) fs1 ?d = fs ?d"
      using E Inl ne by (simp add: remove_file_def)
    moreover have "p = ?d \<or> p = temp_path e ?d \<or> remove_file (do_removed io) (temp_path e ?d) fs1 p = fs p"
      using E [of p] by (auto simp: remove_file_def)
    ultimately show ?thesis
      using dom unfolding Let_def t prod.case
      by (auto simp: update_model_download_status_def hm_get_modify map_of_eq_None_iff split: option.splits)
  next
    case (Inr u)
    then have t: "download_model_task sha256 io end_ms e ?d (ms, fs) =
      (update_model_download_status (mo_id e)
         (\<lambda>d. d\<lparr>dn_status := Installed,
                dn_bytes_received :=
                  (case dn_bytes_total d of Some n \<Rightarrow> n | None \<Rightarrow> dn_bytes_received d),
                dn_error := None, dn_finished_at_ms := Some end_ms\<rparr>) ms1, fs1)"
      unfolding download_model_task_def Let_def prod.case f by simp
    obtain content where "fs1 ?d = Some (File content)" "mo_sha256 e = Some (sha256 content)"
      using E [of p] Inr by auto
    moreover have "p = ?d \<or> p = temp_path e ?d \<or> fs1 p = fs p" using E [of p] by auto
    ultimately show ?thesis
      using dom unfolding Let_def t prod.case
      by (auto simp: update_model_download_status_def hm_get_modify map_of_eq_None_iff split: option.splits)
  qed
qed

theorem only_verified_models_are_installed_witness:
  "let e = \<lparr>mo_id = ''m'', mo_name = ''M'', mo_category = ''transcription'', mo_runtime = ''whisper'',
             mo_filename = ''m.bin'', mo_url = Some ''u'', mo_size = ''2 B'', mo_size_bytes = Some 2,
             mo_sha256 = Some ''x'', mo_sha1 = None, mo_license = ''MIT'',
             mo_destination_dir = ''models'', mo_is_default = False, mo_recommended = False,
             mo_available = True, mo_notes = None\<rparr>;
       ms = \<lparr>mt_whisper_model_dir = ''models'', mt_deepfilternet_model_dir = ''d'',
             mt_deepfilternet_coreml_model_dir = ''c'', mt_downloads = []\<rparr>;
       io = \<lparr>do_dir_made = True, do_temp_made = True, do_response = Some (Some 2),
             do_chunks = [Chunk [1] True, Chunk [2] True], do_flushed = True, do_renamed = True,
             do_removed = True\<rparr>;
       destination = model_destination_path ms e; temp = temp_path e destination;
       (ms', fs') = download_model_task (\<lambda>_. ''x'') io 5 e destination (ms, \<lambda>_. None);
       verified = (case fs' destination of
         Some (File content) \<Rightarrow> mo_sha256 e = Some ''x'' | _ \<Rightarrow> False)
   in (''other'' = destination \<or> ''other'' = temp \<or> fs' ''other'' = None) \<and>
      (verified \<or> fs' destination = None) \<and>
      (case hm_get (mt_downloads ms') (mo_id e) of
         None \<Rightarrow> mo_id e \<notin> fst ` set (mt_downloads ms)
       | Some d \<Rightarrow> dn_status d = Installed \<and> verified \<or>
           dn_status d = Failed \<and> fs' destination = None)"
  unfolding Let_def by (rule only_verified_models_are_installed [unfolded Let_def])
    (simp add: safe_filename_def)

end
