(* ===== verification/Transcription_Control.thy ===== *)
theory Transcription_Control
  imports Model_Catalog
begin

text \<open>
  Controlling transcription, in \<open>server/src/lib.rs\<close>: starting and stopping live transcription,
  selecting a model, transcribing a stopped recording, the status pages, the settings the server
  starts with, and the pool of workers: \<open>run_live_transcription_worker\<close> is split where it waits,
  for the state's lock, for a permit of the scheduler (a semaphore) and for the engine, so that any
  interleaving of workers, frames and administrator requests is a sequence of steps. The build has
  the feature \<open>transcription-whisper\<close>; loading a model and running it are parameters.
\<close>

section \<open>State\<close>

text \<open>The semaphores made so far, each with its capacity and its free permits; the last one is the
  scheduler in use, workers may still wait for or hold permits of earlier ones.\<close>

record transcription_control =
  tc_live :: live_transcription_state
  tc_whisper :: whisper_settings
  tc_schedulers :: "(nat \<times> nat) list"

definition default_transcription_control :: transcription_control where
  "default_transcription_control =
     \<lparr>tc_live = default_live_transcription_state,
      tc_whisper = \<lparr>wh_command = None, wh_model = None, wh_model_dir = ''intercom-models'',
                    wh_context = None\<rparr>,
      tc_schedulers = [(2, 2)]\<rparr>"

record run_options =
  ro_recordings_dir :: string
  ro_whisper_command :: "string option"
  ro_whisper_model :: "string option"
  ro_whisper_model_dir :: string
  ro_deepfilternet_model_dir :: string
  ro_deepfilternet_coreml_model_dir :: string
  ro_transcription_engine :: transcription_engine_mode

definition or_default :: "string \<Rightarrow> string \<Rightarrow> string" where
  "or_default dir s = (if s = [] then dir else s)"

definition start_state ::
  "run_options \<Rightarrow> recording_state \<times> transcription_control \<times> model_store" where
  "start_state options =
     (let model_dir = or_default ''intercom-models'' (ro_whisper_model_dir options);
          tc = default_transcription_control
      in (default_recording_state
            \<lparr>rs_base_dir := ro_recordings_dir options,
             rs_whisper_command := ro_whisper_command options\<rparr>,
          tc\<lparr>tc_live := (tc_live tc)\<lparr>lt_engine_mode := ro_transcription_engine options\<rparr>,
             tc_whisper := \<lparr>wh_command = ro_whisper_command options,
                            wh_model = ro_whisper_model options, wh_model_dir = model_dir,
                            wh_context = None\<rparr>\<rparr>,
          \<lparr>mt_whisper_model_dir = model_dir,
           mt_deepfilternet_model_dir =
             or_default ''deepfilternet-models'' (ro_deepfilternet_model_dir options),
           mt_deepfilternet_coreml_model_dir =
             or_default ''deepfilternet-coreml-models'' (ro_deepfilternet_coreml_model_dir options),
           mt_downloads = []\<rparr>))"

section \<open>Starting, stopping, selecting\<close>

datatype load_outcome = Loaded whisper_context | LoadFailed | LoadPanicked string

definition ensure_live_transcription_engine ::
  "(string \<Rightarrow> load_outcome) \<Rightarrow> transcription_control \<Rightarrow>
     transcription_control \<times> (admin_api_error + unit)" where
  "ensure_live_transcription_engine load tc =
     (let wh = tc_whisper tc
      in case lt_engine_mode (tc_live tc) of
           EngineDisabled \<Rightarrow> (tc, Inl (BadRequest ''live transcription engine is disabled''))
         | ExternalWhisper \<Rightarrow> (tc, Inl (BadRequest (''live transcription requires builtin-whisper; '' @
             ''external-whisper is only used for recording stop transcription'')))
         | BuiltinWhisper \<Rightarrow>
             (case wh_model wh of
                None \<Rightarrow> (tc, Inl (BadRequest ''live transcription requires --whisper-model''))
              | Some model \<Rightarrow>
                  if wh_context wh \<noteq> None then (tc, Inr ())
                  else (case load model of
                     Loaded context \<Rightarrow> (tc\<lparr>tc_whisper := wh\<lparr>wh_context := Some context\<rparr>\<rparr>, Inr ())
                   | LoadFailed \<Rightarrow> (tc, Inl (BadRequest (''load Whisper model '' @ model)))
                   | LoadPanicked err \<Rightarrow> (tc, Inl (Internal err)))))"

record start_live_request =
  sl_users :: "user_id list option"
  sl_mode :: "live_transcription_mode option"
  sl_max_concurrent_jobs :: "nat option"
  sl_stale_job_ms :: "nat option"

definition clamp_nat :: "nat \<Rightarrow> nat \<Rightarrow> nat \<Rightarrow> nat" where
  "clamp_nat lo hi n = min hi (max lo n)"

definition live_transcription_max_concurrency :: nat where
  "live_transcription_max_concurrency = 16"

definition set_concurrency :: "nat option \<Rightarrow> transcription_control \<Rightarrow> transcription_control" where
  "set_concurrency requested tc =
     (case requested of
        None \<Rightarrow> tc
      | Some n \<Rightarrow>
          let n = clamp_nat 1 live_transcription_max_concurrency n
          in if lt_max_concurrent_jobs (tc_live tc) = n then tc
             else tc\<lparr>tc_live := (tc_live tc)\<lparr>lt_max_concurrent_jobs := n\<rparr>,
                     tc_schedulers := tc_schedulers tc @ [(n, n)]\<rparr>)"

definition start_live_transcription ::
  "(string \<Rightarrow> load_outcome) \<Rightarrow> nat \<Rightarrow> start_live_request \<Rightarrow> transcription_control \<Rightarrow>
     transcription_control \<times> (admin_api_error + unit)" where
  "start_live_transcription load now_ms request tc =
     (case ensure_live_transcription_engine load tc of
        (tc, Inl err) \<Rightarrow> (tc, Inl err)
      | (tc, Inr _) \<Rightarrow>
          let lt = tc_live tc;
              lt = (case sl_mode request of
                      None \<Rightarrow> lt
                    | Some m \<Rightarrow> lt\<lparr>lt_mode := m, lt_stale_job_ms := mc_stale_job_ms (mode_config m)\<rparr>);
              lt = (case sl_stale_job_ms request of
                      None \<Rightarrow> lt
                    | Some n \<Rightarrow> lt\<lparr>lt_stale_job_ms := clamp_nat 5000 300000 n\<rparr>);
              tc = set_concurrency (sl_max_concurrent_jobs request) (tc\<lparr>tc_live := lt\<rparr>)
          in (tc\<lparr>tc_live := (tc_live tc)
                   \<lparr>lt_active := True, lt_started_at_ms := Some now_ms,
                    lt_users := map_option (\<lambda>us. {u \<in> set us. u > 0}) (sl_users request),
                    lt_last_error := None\<rparr>\<rparr>, Inr ()))"

text \<open>The users for whom a worker has to be spawned are the second result.\<close>

definition flush_runtime ::
  "nat \<Rightarrow> live_transcription_mode_config \<Rightarrow> user_id \<Rightarrow> live_transcription_user_runtime \<Rightarrow>
     live_transcription_user_runtime \<times> bool" where
  "flush_runtime now_ms mode u rt =
     (let (job, c) = chunker_flush now_ms u mode (rt_chunker rt); rt = rt\<lparr>rt_chunker := c\<rparr>
      in case job of None \<Rightarrow> (rt, False)
         | Some j \<Rightarrow> let (rt, _, spawn) = queue_job u j rt in (rt, spawn))"

definition stop_live_transcription ::
  "nat \<Rightarrow> live_transcription_state \<Rightarrow> live_transcription_state \<times> user_id list" where
  "stop_live_transcription now_ms lt =
     (let flush = flush_runtime now_ms (mode_config (lt_mode lt))
      in (lt\<lparr>lt_active := False, lt_started_at_ms := None, lt_users := None,
             lt_per_user := map (\<lambda>(u, rt). (u, fst (flush u rt))) (lt_per_user lt)\<rparr>,
          map fst (filter (\<lambda>(u, rt). snd (flush u rt)) (lt_per_user lt))))"

definition select_whisper_model ::
  "file_system \<Rightarrow> string \<Rightarrow> transcription_control \<Rightarrow>
     transcription_control \<times> (admin_api_error + unit)" where
  "select_whisper_model fs requested tc =
     (let model_name = trim requested; model_path = path_join (wh_model_dir (tc_whisper tc)) model_name
      in if model_name = [] \<or> length (path_components model_name) \<noteq> 1
         then (tc, Inl (BadRequest
                ''model must be the filename of a model in the configured model folder''))
         else if \<not> is_supported_whisper_model_path model_path
         then (tc, Inl (BadRequest ''model must end with .bin or .gguf''))
         else if \<not> path_exists fs model_path
         then (tc, Inl (BadRequest (''model `'' @ model_name @
                ''` was not found in the configured model folder'')))
         else
           let lt = tc_live tc
           in (tc\<lparr>tc_whisper := (tc_whisper tc)\<lparr>wh_model := Some model_path, wh_context := None\<rparr>,
                  tc_live := lt\<lparr>lt_last_error := None,
                    lt_engine_mode := (if lt_engine_mode lt = EngineDisabled then BuiltinWhisper
                                       else lt_engine_mode lt)\<rparr>\<rparr>, Inr ()))"

section \<open>Transcribing a stopped recording\<close>

definition run_recording_transcription ::
  "codec_libs \<Rightarrow> sessions \<Rightarrow> nat \<Rightarrow> bool \<Rightarrow> (admin_api_error \<Rightarrow> string) \<Rightarrow> (string \<Rightarrow> load_outcome) \<Rightarrow>
     (string \<Rightarrow> external_outcome) \<Rightarrow> (string \<Rightarrow> wav_read) \<Rightarrow> stopped_recording \<Rightarrow>
     transcription_control \<times> recording_state \<Rightarrow>
     (transcription_control \<times> recording_state) \<times> (string + unit)" where
  "run_recording_transcription libs ss now_ms written show_error load run wavs sp = (\<lambda>(tc, rs).
     case lt_engine_mode (tc_live tc) of
       BuiltinWhisper \<Rightarrow>
         (case ensure_live_transcription_engine load tc of
            (tc, Inl err) \<Rightarrow> ((tc, rs), Inl (show_error err))
          | (tc, Inr _) \<Rightarrow>
              (case wh_context (tc_whisper tc) of
                 None \<Rightarrow> ((tc, rs), Inl ''builtin Whisper context is not loaded'')
               | Some context \<Rightarrow>
                   let (rs, r) = builtin_transcription libs ss now_ms written show_error wavs
                         (builtin_whisper_engine context Reliable None) sp (sp_users sp) rs
                   in ((tc, rs), r)))
     | ExternalWhisper \<Rightarrow>
         let (rs, r) = run_external_whisper_recording_transcription ss now_ms written show_error run
               (tc_whisper tc) sp rs
         in ((tc, rs), r)
     | EngineDisabled \<Rightarrow>
         let message = ''transcription engine is disabled''
         in ((tc, rs\<lparr>rs_last_engine_error := Some message\<rparr>), Inl message))"

section \<open>Status pages\<close>

fun transcription_engine_available_parts ::
  "transcription_engine_mode \<Rightarrow> string option \<Rightarrow> string option \<Rightarrow> bool" where
  "transcription_engine_available_parts EngineDisabled command model = False"
| "transcription_engine_available_parts BuiltinWhisper command model = (model \<noteq> None)"
| "transcription_engine_available_parts ExternalWhisper command model =
     (command \<noteq> None \<and> model \<noteq> None)"

definition transcription_engine_available :: "transcription_control \<Rightarrow> bool" where
  "transcription_engine_available tc =
     transcription_engine_available_parts (lt_engine_mode (tc_live tc))
       (wh_command (tc_whisper tc)) (wh_model (tc_whisper tc))"

record whisper_acceleration =
  wa_active_backend :: string
  wa_metal_compiled :: bool
  wa_coreml_compiled :: bool

definition whisper_acceleration_backend :: "bool \<Rightarrow> bool \<Rightarrow> string" where
  "whisper_acceleration_backend metal coreml =
     (if metal then ''metal'' else if coreml then ''coreml'' else ''cpu'')"

definition whisper_acceleration_status :: "bool \<Rightarrow> bool \<Rightarrow> whisper_acceleration" where
  "whisper_acceleration_status metal coreml =
     \<lparr>wa_active_backend = whisper_acceleration_backend metal coreml,
      wa_metal_compiled = metal, wa_coreml_compiled = coreml\<rparr>"

definition whisper_model_quality :: "string option \<Rightarrow> string \<times> string option" where
  "whisper_model_quality model =
     (case model of
        None \<Rightarrow> (''missing'', Some (''Install the recommended Distil-Whisper large-v3 GGML '' @
                  ''model for reliable transcription''))
      | Some m \<Rightarrow>
          let name = to_ascii_lowercase (name_of m)
          in if str_contains ''distil'' name \<and> str_contains ''large-v3'' name
             then (''accuracy_first'', None)
             else if str_contains ''large-v3-turbo'' name then (''accuracy_first'', None)
             else if str_contains ''tiny'' name \<or> str_contains ''base'' name \<or> str_contains ''small'' name
             then (''low_accuracy'', Some (''Tiny/base/small Whisper models are fast but often '' @
                    ''inaccurate for intercom audio; use Distil-Whisper large-v3 GGML for reliable mode''))
             else (''unknown'', Some (''Reliable mode is tuned for Distil-Whisper large-v3 GGML and '' @
                    ''large-v3-turbo Q5/Q8 fallback models'')))"

record transcription_engine_status =
  ts_available :: bool
  ts_mode :: transcription_engine_mode
  ts_acceleration :: whisper_acceleration
  ts_command :: "string option"
  ts_model :: "string option"
  ts_model_dir :: "string option"
  ts_model_quality :: string
  ts_model_recommendation :: "string option"
  ts_models :: "whisper_model_info list"
  ts_last_error :: "string option"

record recording_status_response =
  rr_active :: bool
  rr_session_id :: "string option"
  rr_session_dir :: "string option"
  rr_started_at_ms :: "nat option"
  rr_transcribe :: bool
  rr_recorded_users :: "user_id list"
  rr_frames_recorded :: nat
  rr_transcript_segments :: nat
  rr_engine :: transcription_engine_status
  rr_recent_sessions :: "recording_session_summary list"

definition recording_status_snapshot ::
  "file_system \<Rightarrow> bool \<Rightarrow> bool \<Rightarrow> transcription_control \<Rightarrow> recording_state \<Rightarrow>
     recording_status_response" where
  "recording_status_snapshot fs metal coreml tc rs =
     (let wh = tc_whisper tc; lt = tc_live tc; (quality, advice) = whisper_model_quality (wh_model wh)
      in \<lparr>rr_active = (rs_active rs \<noteq> None),
          rr_session_id = map_option rg_id (rs_active rs),
          rr_session_dir = map_option rg_dir (rs_active rs),
          rr_started_at_ms = map_option rg_started_at_ms (rs_active rs),
          rr_transcribe = (case rs_active rs of None \<Rightarrow> False | Some a \<Rightarrow> rg_transcribe a),
          rr_recorded_users =
            (case rs_active rs of None \<Rightarrow> [] | Some a \<Rightarrow> sort (hm_keys (rg_writers a))),
          rr_frames_recorded = (case rs_active rs of None \<Rightarrow> 0 | Some a \<Rightarrow> rg_frames_recorded a),
          rr_transcript_segments = length (rs_transcripts rs),
          rr_engine =
            \<lparr>ts_available = transcription_engine_available tc, ts_mode = lt_engine_mode lt,
             ts_acceleration = whisper_acceleration_status metal coreml,
             ts_command = rs_whisper_command rs, ts_model = wh_model wh,
             ts_model_dir = Some (wh_model_dir wh), ts_model_quality = quality,
             ts_model_recommendation = advice,
             ts_models = list_whisper_models fs (wh_model_dir wh) (wh_model wh),
             ts_last_error = (case lt_last_error lt of Some e \<Rightarrow> Some e
                              | None \<Rightarrow> rs_last_engine_error rs)\<rparr>,
          rr_recent_sessions = rs_recent rs\<rparr>)"

record live_transcription_user_status =
  us_user_id :: user_id
  us_queued_jobs :: nat
  us_dropped_jobs :: nat
  us_dropped_frames :: nat
  us_stale_jobs :: nat
  us_stale_frames :: nat
  us_completed_segments :: nat
  us_active_chunk :: bool
  us_worker_running :: bool
  us_contexts :: "audio_target list"

definition user_status :: "user_id \<times> live_transcription_user_runtime \<Rightarrow> live_transcription_user_status" where
  "user_status = (\<lambda>(u, rt).
     \<lparr>us_user_id = u, us_queued_jobs = length (rt_pending rt),
      us_dropped_jobs = rt_dropped_jobs rt, us_dropped_frames = rt_dropped_frames rt,
      us_stale_jobs = rt_stale_jobs rt, us_stale_frames = rt_stale_frames rt,
      us_completed_segments = rt_completed_segments rt,
      us_active_chunk = (ck_buffer (rt_chunker rt) \<noteq> []),
      us_worker_running = rt_worker_running rt, us_contexts = rt_last_contexts rt\<rparr>)"

record live_transcription_status_response =
  lr_active :: bool
  lr_available :: bool
  lr_engine :: transcription_engine_mode
  lr_acceleration :: whisper_acceleration
  lr_mode :: live_transcription_mode
  lr_max_concurrent_jobs :: nat
  lr_active_jobs :: nat
  lr_stale_job_ms :: nat
  lr_model :: "string option"
  lr_model_dir :: string
  lr_language :: string
  lr_model_quality :: string
  lr_model_recommendation :: "string option"
  lr_models :: "whisper_model_info list"
  lr_command :: "string option"
  lr_started_at_ms :: "nat option"
  lr_users :: "live_transcription_user_status list"
  lr_queued_jobs :: nat
  lr_dropped_jobs :: nat
  lr_dropped_frames :: nat
  lr_stale_jobs :: nat
  lr_stale_frames :: nat
  lr_completed_segments :: nat
  lr_last_error :: "string option"

definition live_transcription_status_snapshot ::
  "file_system \<Rightarrow> bool \<Rightarrow> bool \<Rightarrow> transcription_control \<Rightarrow> live_transcription_status_response" where
  "live_transcription_status_snapshot fs metal coreml tc =
     (let lt = tc_live tc; wh = tc_whisper tc;
          users = sort_key us_user_id (map user_status (lt_per_user lt));
          (quality, advice) = whisper_model_quality (wh_model wh)
      in \<lparr>lr_active = lt_active lt, lr_available = transcription_engine_available tc,
          lr_engine = lt_engine_mode lt,
          lr_acceleration = whisper_acceleration_status metal coreml, lr_mode = lt_mode lt,
          lr_max_concurrent_jobs = lt_max_concurrent_jobs lt,
          lr_active_jobs = lt_max_concurrent_jobs lt - snd (last (tc_schedulers tc)),
          lr_stale_job_ms = lt_stale_job_ms lt, lr_model = wh_model wh,
          lr_model_dir = wh_model_dir wh, lr_language = ''en'', lr_model_quality = quality,
          lr_model_recommendation = advice,
          lr_models = list_whisper_models fs (wh_model_dir wh) (wh_model wh),
          lr_command = wh_command wh, lr_started_at_ms = lt_started_at_ms lt, lr_users = users,
          lr_queued_jobs = sum_list (map us_queued_jobs users),
          lr_dropped_jobs = sum_list (map us_dropped_jobs users),
          lr_dropped_frames = sum_list (map us_dropped_frames users),
          lr_stale_jobs = sum_list (map us_stale_jobs users),
          lr_stale_frames = sum_list (map us_stale_frames users),
          lr_completed_segments = sum_list (map us_completed_segments users),
          lr_last_error = lt_last_error lt\<rparr>)"

section \<open>The pool of workers\<close>

text \<open>What a worker took along when it released the state's lock.\<close>

record worker_task =
  wt_job :: live_transcript_job
  wt_context :: whisper_context
  wt_scheduler :: nat
  wt_stale_job_ms :: nat
  wt_mode :: live_transcription_mode
  wt_prompt :: "string option"

datatype worker = AtTop | Waiting worker_task | Holding worker_task

record worker_pool =
  wo_control :: transcription_control
  wo_recording :: recording_state
  wo_workers :: "(user_id, worker) hash_map"

definition spawn_workers :: "user_id list \<Rightarrow> worker_pool \<Rightarrow> worker_pool" where
  "spawn_workers us p = p\<lparr>wo_workers := wo_workers p @ map (\<lambda>u. (u, AtTop)) us\<rparr>"

definition set_live :: "live_transcription_state \<Rightarrow> worker_pool \<Rightarrow> worker_pool" where
  "set_live lt p = p\<lparr>wo_control := (wo_control p)\<lparr>tc_live := lt\<rparr>\<rparr>"

text \<open>Under the lock: the worker ends, or goes on to wait for a permit.\<close>

definition pool_take :: "nat \<Rightarrow> user_id \<Rightarrow> worker_pool \<Rightarrow> worker_pool" where
  "pool_take now_ms u p =
     (let tc = wo_control p; lt = tc_live tc; context = wh_context (tc_whisper tc);
          prompt = Option.bind (hm_get (lt_per_user lt) u) rt_last_transcript_text;
          (job, lt') = worker_take now_ms (context \<noteq> None) u lt;
          p = set_live lt' p
      in case job of
           None \<Rightarrow> p\<lparr>wo_workers := hm_remove u (wo_workers p)\<rparr>
         | Some j \<Rightarrow>
             p\<lparr>wo_workers := hm_insert u (Waiting
                 \<lparr>wt_job = j, wt_context = the context,
                  wt_scheduler = length (tc_schedulers tc) - 1,
                  wt_stale_job_ms = lt_stale_job_ms lt, wt_mode = lt_mode lt,
                  wt_prompt = prompt\<rparr>) (wo_workers p)\<rparr>)"

definition add_permits :: "nat \<Rightarrow> (nat \<Rightarrow> nat) \<Rightarrow> worker_pool \<Rightarrow> worker_pool" where
  "add_permits g f p =
     p\<lparr>wo_control := (wo_control p)\<lparr>tc_schedulers :=
         (tc_schedulers (wo_control p))[g := map_prod id f (tc_schedulers (wo_control p) ! g)]\<rparr>\<rparr>"

text \<open>A permit is taken; a job that has become stale is counted and gives it back at once.\<close>

definition pool_acquire :: "nat \<Rightarrow> user_id \<Rightarrow> worker_task \<Rightarrow> worker_pool \<Rightarrow> worker_pool" where
  "pool_acquire now_ms u t p =
     (if snd (tc_schedulers (wo_control p) ! wt_scheduler t) = 0 then p
      else if live_transcription_job_is_stale (wt_job t) (wt_stale_job_ms t) now_ms
      then (set_live (modify_runtime u (count_stale (wt_job t)) (tc_live (wo_control p))) p)
             \<lparr>wo_workers := hm_insert u AtTop (wo_workers p)\<rparr>
      else (add_permits (wt_scheduler t) (\<lambda>n. n - 1) p)
             \<lparr>wo_workers := hm_insert u (Holding t) (wo_workers p)\<rparr>)"

definition pool_finish ::
  "(admin_api_error \<Rightarrow> string) \<Rightarrow> sessions \<Rightarrow> nat \<Rightarrow> bool \<Rightarrow> user_id \<Rightarrow> worker_task \<Rightarrow> worker_pool \<Rightarrow>
     worker_pool" where
  "pool_finish show_error ss now_ms written u t p =
     (let (lt, rs) = worker_finish ss now_ms written show_error
            (builtin_whisper_engine (wt_context t) (wt_mode t) (wt_prompt t)) u (wt_job t)
            (tc_live (wo_control p), wo_recording p)
      in (add_permits (wt_scheduler t) Suc (set_live lt p))
           \<lparr>wo_recording := rs, wo_workers := hm_insert u AtTop (wo_workers p)\<rparr>)"

datatype pool_event =
    StartLive nat start_live_request
  | StopLive nat
  | SelectModel file_system string
  | IngestFrame nat user_id audio_target "i16 list"
  | WorkerTop nat user_id
  | WorkerPermit nat user_id
  | WorkerDone sessions nat bool user_id

fun pool_step ::
  "(admin_api_error \<Rightarrow> string) \<Rightarrow> (string \<Rightarrow> load_outcome) \<Rightarrow> pool_event \<Rightarrow> worker_pool \<Rightarrow> worker_pool" where
  "pool_step show_error load (StartLive now_ms request) p =
     p\<lparr>wo_control := fst (start_live_transcription load now_ms request (wo_control p))\<rparr>"
| "pool_step show_error load (StopLive now_ms) p =
     (let (lt, us) = stop_live_transcription now_ms (tc_live (wo_control p))
      in spawn_workers us (set_live lt p))"
| "pool_step show_error load (SelectModel fs name) p =
     p\<lparr>wo_control := fst (select_whisper_model fs name (wo_control p))\<rparr>"
| "pool_step show_error load (IngestFrame now_ms u target samples) p =
     (let (lt, spawn) = transcribe_ingest_frame now_ms u target samples (tc_live (wo_control p))
      in spawn_workers (if spawn then [u] else []) (set_live lt p))"
| "pool_step show_error load (WorkerTop now_ms u) p =
     (if hm_get (wo_workers p) u = Some AtTop then pool_take now_ms u p else p)"
| "pool_step show_error load (WorkerPermit now_ms u) p =
     (case hm_get (wo_workers p) u of Some (Waiting t) \<Rightarrow> pool_acquire now_ms u t p | _ \<Rightarrow> p)"
| "pool_step show_error load (WorkerDone ss now_ms written u) p =
     (case hm_get (wo_workers p) u of
        Some (Holding t) \<Rightarrow> pool_finish show_error ss now_ms written u t p
      | _ \<Rightarrow> p)"

definition initial_pool :: "run_options \<Rightarrow> worker_pool" where
  "initial_pool options =
     (let (rs, tc, ms) = start_state options
      in \<lparr>wo_control = tc, wo_recording = rs, wo_workers = []\<rparr>)"

section \<open>The pool's invariant\<close>

text \<open>The permits of a scheduler that workers hold.\<close>

definition holds :: "nat \<Rightarrow> worker \<Rightarrow> bool" where
  "holds g w = (case w of Holding t \<Rightarrow> wt_scheduler t = g | _ \<Rightarrow> False)"

definition held :: "nat \<Rightarrow> (user_id, worker) hash_map \<Rightarrow> nat" where
  "held g ws = length (filter (\<lambda>(u, w). holds g w) ws)"

fun task_of :: "worker \<Rightarrow> worker_task option" where
  "task_of AtTop = None"
| "task_of (Waiting t) = Some t"
| "task_of (Holding t) = Some t"

definition queue_ok :: "live_transcription_user_runtime \<Rightarrow> bool" where
  "queue_ok rt \<longleftrightarrow> rt_queued_jobs rt = length (rt_pending rt) \<and> length (rt_pending rt) \<le> 4"

fun in_step :: "live_transcription_user_runtime option \<Rightarrow> worker option \<Rightarrow> bool" where
  "in_step None w = (w = None)"
| "in_step (Some rt) w = (queue_ok rt \<and> rt_worker_running rt = (w \<noteq> None))"

definition running_ok ::
  "(user_id, live_transcription_user_runtime) hash_map \<Rightarrow> (user_id, worker) hash_map \<Rightarrow> bool" where
  "running_ok per_user ws \<longleftrightarrow>
     hm_wf per_user \<and> hm_wf ws \<and> (\<forall>u. in_step (hm_get per_user u) (hm_get ws u))"

definition schedulers_ok :: "nat \<Rightarrow> (nat \<times> nat) list \<Rightarrow> (user_id, worker) hash_map \<Rightarrow> bool" where
  "schedulers_ok n sems ws \<longleftrightarrow>
     sems \<noteq> [] \<and> fst (last sems) = n \<and>
     (\<forall>g < length sems. 1 \<le> fst (sems ! g) \<and> fst (sems ! g) \<le> 16 \<and>
        snd (sems ! g) + held g ws = fst (sems ! g)) \<and>
     (\<forall>u t. Option.bind (hm_get ws u) task_of = Some t \<longrightarrow> wt_scheduler t < length sems)"

definition pool_ok :: "worker_pool \<Rightarrow> bool" where
  "pool_ok p \<longleftrightarrow>
     running_ok (lt_per_user (tc_live (wo_control p))) (wo_workers p) \<and>
     schedulers_ok (lt_max_concurrent_jobs (tc_live (wo_control p)))
       (tc_schedulers (wo_control p)) (wo_workers p) \<and>
     5000 \<le> lt_stale_job_ms (tc_live (wo_control p)) \<and>
     lt_stale_job_ms (tc_live (wo_control p)) \<le> 300000"

lemma held_Cons: "held g ((u, w) # ws) = of_bool (holds g w) + held g ws"
  by (simp add: held_def)

lemma hm_wf_Cons: "hm_wf ((u, w) # ws) \<longleftrightarrow> u \<notin> fst ` set ws \<and> hm_wf ws"
  by (simp add: hm_wf_def)

lemma held_update:
  assumes "hm_wf ws" "hm_get ws u = Some w"
  shows "held g (hm_insert u w' ws) + of_bool (holds g w) = held g ws + of_bool (holds g w')"
  using assms
proof (induction ws)
  case (Cons a ws)
  obtain k x where a: "a = (k, x)" by (cases a)
  show ?case
  proof (cases "k = u")
    case True
    with Cons.prems show ?thesis unfolding a by (simp add: held_Cons)
  next
    case False
    with Cons.prems have "hm_wf ws" "hm_get ws u = Some w" unfolding a by (simp_all add: hm_wf_Cons)
    from Cons.IH [OF this] False show ?thesis unfolding a by (simp add: held_Cons)
  qed
qed simp

lemma held_remove:
  assumes "hm_wf ws" "hm_get ws u = Some w"
  shows "held g (hm_remove u ws) + of_bool (holds g w) = held g ws"
  using assms
proof (induction ws)
  case (Cons a ws)
  obtain k x where a: "a = (k, x)" by (cases a)
  show ?case
  proof (cases "k = u")
    case True
    with Cons.prems show ?thesis unfolding a by (simp add: held_Cons hm_wf_Cons delete_id)
  next
    case False
    with Cons.prems have "hm_wf ws" "hm_get ws u = Some w" unfolding a by (simp_all add: hm_wf_Cons)
    from Cons.IH [OF this] False show ?thesis unfolding a by (simp add: held_Cons)
  qed
qed simp

lemma held_top [simp]: "held g (ws @ map (\<lambda>u. (u, AtTop)) us) = held g ws"
  by (induction us) (simp_all add: held_def holds_def)

lemma map_of_keyed: "map_of (map (\<lambda>(u, rt). (u, f u rt)) m) u = map_option (f u) (map_of m u)"
  by (induction m) auto

lemma keys_keyed: "map fst (map (\<lambda>(u, rt). (u, f u rt)) m) = map fst m"
  by (induction m) auto

lemma map_of_top: "map_of (map (\<lambda>u. (u, AtTop)) us) u = (if u \<in> set us then Some AtTop else None)"
  by (induction us) auto

lemma map_of_spawned:
  "map_of (ws @ map (\<lambda>u. (u, AtTop)) us) u =
     (case map_of ws u of Some w \<Rightarrow> Some w | None \<Rightarrow> if u \<in> set us then Some AtTop else None)"
  by (auto simp: map_add_def map_of_top split: option.splits)

text \<open>Operations of one user's queue keep its bound; only a job that is queued starts a worker.\<close>

lemma queue_job_queue:
  "queue_ok rt \<Longrightarrow> queue_job u j rt = (rt', err, spawn) \<Longrightarrow>
     queue_ok rt' \<and> rt_worker_running rt' = (rt_worker_running rt \<or> spawn) \<and>
     (spawn \<longrightarrow> \<not> rt_worker_running rt)"
  by (auto simp: queue_job_def queue_ok_def live_transcription_queue_limit_def split: if_splits)

lemma queue_ok_chunker [simp]:
  "queue_ok (rt\<lparr>rt_chunker := c\<rparr>) = queue_ok rt"
  "queue_ok (rt\<lparr>rt_last_contexts := x\<rparr>) = queue_ok rt"
  "queue_ok (rt\<lparr>rt_worker_running := b\<rparr>) = queue_ok rt"
  "queue_ok (count_stale j rt) = queue_ok rt"
  "queue_ok (rt\<lparr>rt_completed_segments := n, rt_last_transcript_text := t\<rparr>) = queue_ok rt"
  by (simp_all add: queue_ok_def count_stale_def)

lemma queue_ok_drop [simp]: "queue_ok rt \<Longrightarrow> queue_ok (drop_stale_live_transcription_jobs s now rt)"
  by (auto simp: queue_ok_def intro: order_trans [OF length_filter_le])

lemma queue_ok_default [simp]: "queue_ok default_user_runtime" "\<not> rt_worker_running default_user_runtime"
  by (simp_all add: queue_ok_def default_user_runtime_def)

lemma ingest_runtime_queue:
  assumes "queue_ok rt" "ingest_runtime now u t samples mode s rt = (rt', err, spawn)"
  shows "queue_ok rt' \<and> rt_worker_running rt' = (rt_worker_running rt \<or> spawn) \<and>
     (spawn \<longrightarrow> \<not> rt_worker_running rt)"
proof -
  let ?rt = "drop_stale_live_transcription_jobs s now rt"
  obtain job c where j: "chunker_push_frame now u t samples mode (rt_chunker rt) = (job, c)"
    by (cases "chunker_push_frame now u t samples mode (rt_chunker rt)")
  show ?thesis
  proof (cases job)
    case None
    with assms j show ?thesis by (auto simp: ingest_runtime_def)
  next
    case (Some jb)
    let ?q = "drop_stale_live_transcription_jobs s now
        (?rt\<lparr>rt_chunker := c, rt_last_contexts := lj_contexts jb\<rparr>)"
    have "queue_job u jb ?q = (rt', err, spawn)"
      using assms(2) j Some by (simp add: ingest_runtime_def)
    moreover have "queue_ok ?q" "rt_worker_running ?q = rt_worker_running rt" using assms(1) by simp_all
    ultimately show ?thesis using queue_job_queue by metis
  qed
qed

lemma flush_runtime_queue:
  assumes "queue_ok rt"
  shows "queue_ok (fst (flush_runtime now mode u rt)) \<and>
     rt_worker_running (fst (flush_runtime now mode u rt)) =
       (rt_worker_running rt \<or> snd (flush_runtime now mode u rt)) \<and>
     (snd (flush_runtime now mode u rt) \<longrightarrow> \<not> rt_worker_running rt)"
proof -
  obtain job c where j: "chunker_flush now u mode (rt_chunker rt) = (job, c)"
    by (cases "chunker_flush now u mode (rt_chunker rt)")
  show ?thesis
  proof (cases job)
    case (Some jb)
    obtain rt' err spawn where q: "queue_job u jb (rt\<lparr>rt_chunker := c\<rparr>) = (rt', err, spawn)"
      by (rule prod_cases3)
    with queue_job_queue [OF _ q] assms j Some show ?thesis by (simp add: flush_runtime_def)
  qed (use assms j in \<open>simp add: flush_runtime_def\<close>)
qed

lemma pop_queue:
  assumes "queue_ok rt" "pop_next_live_transcription_job s now rt = (job, rt')"
  shows "queue_ok rt' \<and> rt_worker_running rt' = rt_worker_running rt"
  using assms take_fresh_pending [of s now "rt_pending rt" rt]
  by (auto simp: pop_next_live_transcription_job_def queue_ok_def)

text \<open>Runtimes and workers stay in step.\<close>

lemma running_at: "running_ok m ws \<Longrightarrow> in_step (map_of m u) (map_of ws u)"
  by (simp add: running_ok_def)

lemma running_insert:
  assumes "running_ok m ws" "hm_wf ws'" "\<And>v. v \<noteq> u \<Longrightarrow> map_of ws' v = map_of ws v"
    "queue_ok rt" "rt_worker_running rt = (map_of ws' u \<noteq> None)"
  shows "running_ok (hm_insert u rt m) ws'"
proof -
  have "in_step (map_of (hm_insert u rt m) v) (map_of ws' v)" for v
    using assms(3) [of v] running_at [OF assms(1), of v] assms(4,5) by (cases "v = u") auto
  moreover have "hm_wf m" using assms(1) by (simp add: running_ok_def)
  ultimately show ?thesis using assms(2) by (auto simp: running_ok_def)
qed

lemma running_modify:
  assumes "running_ok m ws" "\<And>rt. queue_ok rt \<Longrightarrow> queue_ok (f rt) \<and> rt_worker_running (f rt) = rt_worker_running rt"
  shows "running_ok (hm_modify u f m) ws"
proof -
  have "in_step (map_of (hm_modify u f m) v) (map_of ws v)" for v
    using running_at [OF assms(1), of v] assms(2) by (cases "map_of m v"; cases "v = u") auto
  moreover have "hm_wf m" "hm_wf ws" using assms(1) by (simp_all add: running_ok_def)
  ultimately show ?thesis by (auto simp: running_ok_def)
qed

lemma running_worker:
  assumes "running_ok m ws" "map_of ws u \<noteq> None"
  shows "running_ok m (hm_insert u w ws)"
proof -
  have "in_step (map_of m v) (map_of (hm_insert u w ws) v)" for v
    using running_at [OF assms(1), of v] assms(2) by (cases "map_of m v"; cases "v = u") auto
  moreover have "hm_wf m" "hm_wf ws" using assms(1) by (simp_all add: running_ok_def)
  ultimately show ?thesis by (auto simp: running_ok_def)
qed

lemma running_flush:
  assumes "running_ok m ws" and fl: "fl = flush_runtime now mode"
  shows "running_ok (map (\<lambda>(u, rt). (u, fst (fl u rt))) m)
    (ws @ map (\<lambda>u. (u, AtTop)) (map fst (filter (\<lambda>(u, rt). snd (fl u rt)) m)))"
proof -
  define us where "us = map fst (filter (\<lambda>(u, rt). snd (fl u rt)) m)"
  have m: "distinct (map fst m)" and w: "distinct (map fst ws)"
    using assms by (auto simp: running_ok_def hm_wf_def)
  have us: "u \<in> set us \<longleftrightarrow> (\<exists>rt. map_of m u = Some rt \<and> snd (fl u rt))" for u
    unfolding us_def using m by (force simp: map_of_eq_Some_iff)
  have fl_ok: "queue_ok rt \<Longrightarrow> queue_ok (fst (fl u rt)) \<and>
      rt_worker_running (fst (fl u rt)) = (rt_worker_running rt \<or> snd (fl u rt)) \<and>
      (snd (fl u rt) \<longrightarrow> \<not> rt_worker_running rt)" for u rt
    using flush_runtime_queue [of rt now mode u] unfolding fl by blast
  have spawned: "u \<in> set us \<Longrightarrow> map_of ws u = None" for u
    using running_at [OF assms(1), of u] fl_ok [of _ u] us [of u] by auto
  have dist: "distinct us" unfolding us_def using m by (induction m) auto
  have wf: "hm_wf (ws @ map (\<lambda>u. (u, AtTop)) us)"
    unfolding hm_wf_def using w dist spawned by (auto simp: map_of_eq_None_iff comp_def)
  have "in_step (map_option (\<lambda>rt. fst (fl u rt)) (map_of m u))
      (map_of (ws @ map (\<lambda>u. (u, AtTop)) us) u)" for u
  proof (cases "map_of m u")
    case None
    then show ?thesis
      using running_at [OF assms(1), of u] us [of u] unfolding map_of_spawned by simp
  next
    case (Some rt)
    then show ?thesis
      using running_at [OF assms(1), of u] fl_ok [of rt u] us [of u] unfolding map_of_spawned
      by (cases "map_of ws u") auto
  qed
  then show ?thesis
    unfolding us_def [symmetric] running_ok_def map_of_keyed using wf m
    by (simp add: hm_wf_def keys_keyed del: map_map)
qed

lemma scheduler_task:
  assumes "schedulers_ok n sems ws" "map_of ws u = Some w" "task_of w = Some t"
  shows "wt_scheduler t < length sems"
proof -
  have "Option.bind (map_of ws u) task_of = Some t" using assms(2,3) by simp
  with assms(1) show ?thesis unfolding schedulers_ok_def by blast
qed

lemma schedulers_move:
  assumes "schedulers_ok n sems ws" "hm_wf ws" "map_of ws u = Some w"
    "\<And>t. task_of w' = Some t \<Longrightarrow> wt_scheduler t < length sems"
    "length sems' = length sems"
    "\<And>g. g < length sems \<Longrightarrow> fst (sems' ! g) = fst (sems ! g) \<and>
        snd (sems' ! g) + of_bool (holds g w') = snd (sems ! g) + of_bool (holds g w)"
  shows "schedulers_ok n sems' (hm_insert u w' ws)"
proof -
  have ne: "sems \<noteq> []" "sems' \<noteq> []" using assms(1,5) by (auto simp: schedulers_ok_def)
  then have "fst (last sems') = fst (last sems)" using assms(5,6) by (simp add: last_conv_nth)
  moreover have "1 \<le> fst (sems' ! g) \<and> fst (sems' ! g) \<le> 16 \<and>
      snd (sems' ! g) + held g (hm_insert u w' ws) = fst (sems' ! g)" if "g < length sems'" for g
  proof -
    have g: "g < length sems" using that assms(5) by simp
    with assms(1) have "1 \<le> fst (sems ! g)" "fst (sems ! g) \<le> 16"
      "snd (sems ! g) + held g ws = fst (sems ! g)" by (auto simp: schedulers_ok_def)
    with held_update [OF assms(2,3), of g w'] assms(6) [OF g] show ?thesis by linarith
  qed
  moreover have "wt_scheduler t < length sems'"
    if "Option.bind (map_of (hm_insert u w' ws) v) task_of = Some t" for v t
    using that assms(1,4,5) by (cases "v = u") (auto simp: schedulers_ok_def)
  ultimately show ?thesis using assms(1) ne(2) unfolding schedulers_ok_def by auto
qed

lemma schedulers_remove:
  assumes "schedulers_ok n sems ws" "hm_wf ws" "map_of ws u = Some AtTop"
  shows "schedulers_ok n sems (hm_remove u ws)"
proof -
  have "held g (hm_remove u ws) = held g ws" for g
    using held_remove [OF assms(2,3), of g] by (simp add: holds_def)
  with assms(1) show ?thesis by (auto simp: schedulers_ok_def delete_conv' split: if_splits)
qed

lemma schedulers_spawn:
  assumes "schedulers_ok n sems ws"
  shows "schedulers_ok n sems (ws @ map (\<lambda>u. (u, AtTop)) us)"
proof -
  have "wt_scheduler t < length sems"
    if "Option.bind (map_of (ws @ map (\<lambda>u. (u, AtTop)) us) v) task_of = Some t" for v t
    using that scheduler_task [OF assms, of v] unfolding map_of_spawned
    by (cases "map_of ws v") (auto split: if_splits)
  with assms show ?thesis unfolding schedulers_ok_def by auto
qed

lemma held_none:
  assumes "\<And>u t. Option.bind (map_of ws u) task_of = Some t \<Longrightarrow> wt_scheduler t < n" "hm_wf ws"
  shows "held n ws = 0"
proof -
  have "\<not> holds n w" if "(u, w) \<in> set ws" for u w
    using assms(1) [of u] that assms(2) by (cases w) (force simp: holds_def hm_wf_mem)+
  then show ?thesis by (auto simp: held_def filter_empty_conv)
qed

lemma schedulers_new:
  assumes "schedulers_ok m sems ws" "hm_wf ws" "1 \<le> n" "n \<le> 16"
  shows "schedulers_ok n (sems @ [(n, n)]) ws"
proof -
  have tasks: "wt_scheduler t < length sems" if "Option.bind (map_of ws u) task_of = Some t" for u t
    using assms(1) that by (auto simp: schedulers_ok_def)
  have "held (length sems) ws = 0" using tasks assms(2) by (rule held_none)
  with assms show ?thesis
    by (auto simp: schedulers_ok_def nth_append less_Suc_eq dest: tasks)
qed

text \<open>Every step keeps the invariant.\<close>

lemma pool_ok_parts:
  assumes "pool_ok p"
  shows "running_ok (lt_per_user (tc_live (wo_control p))) (wo_workers p)"
    "hm_wf (wo_workers p)"
    "schedulers_ok (lt_max_concurrent_jobs (tc_live (wo_control p)))
       (tc_schedulers (wo_control p)) (wo_workers p)"
    "5000 \<le> lt_stale_job_ms (tc_live (wo_control p))"
    "lt_stale_job_ms (tc_live (wo_control p)) \<le> 300000"
  using assms by (auto simp: pool_ok_def running_ok_def)

lemma worker_finish_live:
  assumes "worker_finish ss now written show_error engine u job (lt, rs) = (lt', rs')"
  shows "(lt_per_user lt' = lt_per_user lt \<or>
      (\<exists>n t. lt_per_user lt' = hm_modify u (\<lambda>rt. rt\<lparr>rt_completed_segments := rt_completed_segments rt + 1,
                rt_last_transcript_text := t\<rparr>) (lt_per_user lt))) \<and>
     lt_max_concurrent_jobs lt' = lt_max_concurrent_jobs lt \<and> lt_stale_job_ms lt' = lt_stale_job_ms lt"
  using assms
  by (auto simp: worker_finish_def modify_runtime_def split: sum.splits option.splits prod.splits)

lemma pool_finish_ok:
  assumes "pool_ok p" "map_of (wo_workers p) u = Some (Holding t)"
  shows "pool_ok (pool_finish show_error ss now written u t p)"
proof -
  note p = pool_ok_parts [OF assms(1)]
  let ?sems = "tc_schedulers (wo_control p)" and ?g = "wt_scheduler t"
  obtain lt rs where f: "worker_finish ss now written show_error
      (builtin_whisper_engine (wt_context t) (wt_mode t) (wt_prompt t)) u (wt_job t)
      (tc_live (wo_control p), wo_recording p) = (lt, rs)" by (rule prod.exhaust)
  have same: "lt_max_concurrent_jobs lt = lt_max_concurrent_jobs (tc_live (wo_control p))"
    "lt_stale_job_ms lt = lt_stale_job_ms (tc_live (wo_control p))"
    using worker_finish_live [OF f] by simp_all
  have "running_ok (lt_per_user lt) (wo_workers p)"
    using worker_finish_live [OF f] p(1) by (auto intro!: running_modify simp: queue_ok_def)
  then have run: "running_ok (lt_per_user lt) (hm_insert u AtTop (wo_workers p))"
    by (rule running_worker) (simp add: assms(2))
  have g: "?g < length ?sems" using scheduler_task [OF p(3) assms(2)] by simp
  have "schedulers_ok (lt_max_concurrent_jobs (tc_live (wo_control p)))
      (?sems[?g := map_prod id Suc (?sems ! ?g)]) (hm_insert u AtTop (wo_workers p))"
    by (rule schedulers_move [OF p(3,2) assms(2)])
      (auto simp: holds_def g nth_list_update)
  with run p same show ?thesis
    unfolding pool_finish_def f prod.case by (simp add: pool_ok_def set_live_def add_permits_def)
qed

lemma pool_acquire_ok:
  assumes "pool_ok p" "map_of (wo_workers p) u = Some (Waiting t)"
  shows "pool_ok (pool_acquire now u t p)"
proof -
  note p = pool_ok_parts [OF assms(1)]
  let ?sems = "tc_schedulers (wo_control p)" and ?g = "wt_scheduler t"
  let ?m = "lt_per_user (tc_live (wo_control p))"
  have g: "?g < length ?sems" using scheduler_task [OF p(3) assms(2)] by simp
  have "running_ok (hm_modify u (count_stale (wt_job t)) ?m) (wo_workers p)"
    by (rule running_modify [OF p(1)]) (simp add: count_stale_def queue_ok_def)
  then have stale: "running_ok (hm_modify u (count_stale (wt_job t)) ?m) (hm_insert u AtTop (wo_workers p))"
    by (rule running_worker) (simp add: assms(2))
  have top: "schedulers_ok (lt_max_concurrent_jobs (tc_live (wo_control p))) ?sems
      (hm_insert u AtTop (wo_workers p))"
    by (rule schedulers_move [OF p(3,2) assms(2)]) (auto simp: holds_def)
  have hold: "schedulers_ok (lt_max_concurrent_jobs (tc_live (wo_control p)))
      (?sems[?g := map_prod id (\<lambda>n. n - 1) (?sems ! ?g)]) (hm_insert u (Holding t) (wo_workers p))"
    if "snd (?sems ! ?g) \<noteq> 0"
    by (rule schedulers_move [OF p(3,2) assms(2)]) (use that g in \<open>auto simp: holds_def nth_list_update\<close>)
  have run: "running_ok ?m (hm_insert u (Holding t) (wo_workers p))"
    using p(1) by (rule running_worker) (simp add: assms(2))
  show ?thesis
    using assms(1) stale top hold run p
    by (simp add: pool_acquire_def pool_ok_def set_live_def add_permits_def modify_runtime_def)
qed

lemma worker_take_live:
  assumes "worker_take now ctx u lt = (job, lt')"
  shows "lt_max_concurrent_jobs lt' = lt_max_concurrent_jobs lt \<and> lt_stale_job_ms lt' = lt_stale_job_ms lt"
  using assms by (auto simp: worker_take_def Let_def split: option.splits prod.splits)

lemma pool_take_ok:
  assumes "pool_ok p" "map_of (wo_workers p) u = Some AtTop"
  shows "pool_ok (pool_take now u p)"
proof -
  note p = pool_ok_parts [OF assms(1)]
  let ?lt = "tc_live (wo_control p)" and ?ws = "wo_workers p" and ?sems = "tc_schedulers (wo_control p)"
  let ?ctx = "wh_context (tc_whisper (wo_control p))"
  obtain job lt where t: "worker_take now (?ctx \<noteq> None) u ?lt = (job, lt)" by (rule prod.exhaust)
  obtain rt where rt: "map_of (lt_per_user ?lt) u = Some rt" "queue_ok rt" "rt_worker_running rt"
    using running_at [OF p(1), of u] assms(2) by (cases "map_of (lt_per_user ?lt) u") auto
  obtain j rt' where pop: "pop_next_live_transcription_job (lt_stale_job_ms ?lt) now rt = (j, rt')"
    by (rule prod.exhaust)
  note rt' = pop_queue [OF rt(2) pop]
  have lt: "lt_per_user lt = hm_insert u (if job = None then rt'\<lparr>rt_worker_running := False\<rparr> else rt')
      (lt_per_user ?lt)" and jc: "job \<noteq> None \<longrightarrow> ?ctx \<noteq> None"
    using t by (auto simp: worker_take_def rt(1) pop Let_def split: if_splits)
  note live = worker_take_live [OF t]
  show ?thesis
  proof (cases job)
    case None
    have "running_ok (lt_per_user lt) (hm_remove u ?ws)"
      unfolding lt by (rule running_insert [OF p(1)])
        (use p(2) rt' None in \<open>auto simp: delete_conv'\<close>)
    moreover have "schedulers_ok (lt_max_concurrent_jobs ?lt) ?sems (hm_remove u ?ws)"
      by (rule schedulers_remove [OF p(3,2) assms(2)])
    ultimately show ?thesis
      unfolding pool_take_def Let_def t prod.case None option.case
      using live p by (simp add: pool_ok_def set_live_def)
  next
    case (Some jb)
    let ?w = "Waiting \<lparr>wt_job = jb, wt_context = the ?ctx, wt_scheduler = length ?sems - 1,
                  wt_stale_job_ms = lt_stale_job_ms ?lt, wt_mode = lt_mode ?lt,
                  wt_prompt = Option.bind (hm_get (lt_per_user ?lt) u) rt_last_transcript_text\<rparr>"
    have "running_ok (lt_per_user lt) (hm_insert u ?w ?ws)"
      unfolding lt by (rule running_insert [OF p(1)]) (use p(2) rt' rt Some in auto)
    moreover have "?sems \<noteq> []" using p(3) by (auto simp: schedulers_ok_def)
    then have "schedulers_ok (lt_max_concurrent_jobs ?lt) ?sems (hm_insert u ?w ?ws)"
      by (intro schedulers_move [OF p(3,2) assms(2)]) (auto simp: holds_def)
    ultimately show ?thesis
      unfolding pool_take_def Let_def t prod.case Some option.case
      using live p by (simp add: pool_ok_def set_live_def)
  qed
qed

lemma pool_ingest_ok:
  assumes "pool_ok p"
  shows "pool_ok (pool_step show_error load (IngestFrame now u target samples) p)"
proof (cases "transcribe_ingest_frame now u target samples (tc_live (wo_control p)) = (tc_live (wo_control p), False)")
  case True
  then show ?thesis using assms by (simp add: spawn_workers_def set_live_def)
next
  case False
  note p = pool_ok_parts [OF assms]
  let ?lt = "tc_live (wo_control p)" and ?ws = "wo_workers p"
  define rt where "rt = (case map_of (lt_per_user ?lt) u of Some rt \<Rightarrow> rt | None \<Rightarrow> default_user_runtime)"
  have rt: "queue_ok rt" "rt_worker_running rt = (map_of ?ws u \<noteq> None)"
    using running_at [OF p(1), of u] by (cases "map_of (lt_per_user ?lt) u"; simp add: rt_def)+
  obtain rt' err spawn where i: "ingest_runtime now u target samples (mode_config (lt_mode ?lt))
      (lt_stale_job_ms ?lt) rt = (rt', err, spawn)" by (rule prod_cases3)
  note rt' = ingest_runtime_queue [OF rt(1) i]
  obtain lt where t: "transcribe_ingest_frame now u target samples ?lt = (lt, spawn)"
    and lt: "lt_per_user lt = hm_insert u rt' (lt_per_user ?lt)"
      "lt_max_concurrent_jobs lt = lt_max_concurrent_jobs ?lt" "lt_stale_job_ms lt = lt_stale_job_ms ?lt"
    using False by (auto simp: transcribe_ingest_frame_def Let_def rt_def [symmetric] i split: if_splits)
  let ?us = "if spawn then [u] else []"
  let ?ws' = "?ws @ map (\<lambda>u. (u, AtTop)) ?us"
  have new: "spawn \<Longrightarrow> map_of ?ws u = None" using rt' rt(2) by auto
  have "running_ok (lt_per_user lt) ?ws'"
    unfolding lt(1)
  proof (rule running_insert [OF p(1)])
    show "hm_wf ?ws'" using p(2) new by (auto simp: hm_wf_def map_of_eq_None_iff)
    show "map_of ?ws' v = map_of ?ws v" if "v \<noteq> u" for v
      using that unfolding map_of_spawned by (auto split: option.splits)
    show "queue_ok rt'" using rt' by blast
    show "rt_worker_running rt' = (map_of ?ws' u \<noteq> None)"
      using rt' rt(2) unfolding map_of_spawned by (cases "map_of ?ws u") auto
  qed
  moreover have "schedulers_ok (lt_max_concurrent_jobs ?lt) (tc_schedulers (wo_control p)) ?ws'"
    by (rule schedulers_spawn [OF p(3)])
  ultimately show ?thesis
    using p lt unfolding pool_step.simps t Let_def prod.case
    by (simp add: pool_ok_def spawn_workers_def set_live_def)
qed

lemma pool_stop_ok:
  assumes "pool_ok p"
  shows "pool_ok (pool_step show_error load (StopLive now) p)"
proof -
  note p = pool_ok_parts [OF assms]
  show ?thesis
    using p running_flush [OF p(1) refl, of now "mode_config (lt_mode (tc_live (wo_control p)))"]
      schedulers_spawn [OF p(3)]
    by (simp add: pool_ok_def spawn_workers_def set_live_def stop_live_transcription_def Let_def
        del: map_map)
qed

lemma clamp_nat_bounds: "lo \<le> hi \<Longrightarrow> lo \<le> clamp_nat lo hi n \<and> clamp_nat lo hi n \<le> hi"
  by (simp add: clamp_nat_def)

lemma mode_stale: "5000 \<le> mc_stale_job_ms (mode_config m) \<and> mc_stale_job_ms (mode_config m) \<le> 300000"
  by (cases m) simp_all

lemma set_concurrency_ok:
  assumes "schedulers_ok (lt_max_concurrent_jobs (tc_live tc)) (tc_schedulers tc) ws" "hm_wf ws"
  shows "schedulers_ok (lt_max_concurrent_jobs (tc_live (set_concurrency r tc)))
     (tc_schedulers (set_concurrency r tc)) ws"
  using assms schedulers_new [OF assms, of "clamp_nat 1 16 _"] clamp_nat_bounds [of 1 16]
  by (auto simp: set_concurrency_def Let_def live_transcription_max_concurrency_def split: option.splits)

lemma set_concurrency_live [simp]:
  "lt_per_user (tc_live (set_concurrency r tc)) = lt_per_user (tc_live tc)"
  "lt_stale_job_ms (tc_live (set_concurrency r tc)) = lt_stale_job_ms (tc_live tc)"
  by (auto simp: set_concurrency_def Let_def split: option.splits)

lemma ensure_engine_live:
  assumes "ensure_live_transcription_engine load tc = (tc', r)"
  shows "tc_live tc' = tc_live tc \<and> tc_schedulers tc' = tc_schedulers tc"
  using assms
  by (auto simp: ensure_live_transcription_engine_def Let_def
      split: transcription_engine_mode.splits option.splits if_splits load_outcome.splits)

lemma pool_start_ok:
  assumes "pool_ok p"
  shows "pool_ok (pool_step show_error load (StartLive now request) p)"
proof -
  note p = pool_ok_parts [OF assms]
  obtain tc r where e: "ensure_live_transcription_engine load (wo_control p) = (tc, r)" by (rule prod.exhaust)
  note live = ensure_engine_live [OF e]
  define lt where "lt =
     (let lt = tc_live tc;
          lt = (case sl_mode request of
                  None \<Rightarrow> lt
                | Some m \<Rightarrow> lt\<lparr>lt_mode := m, lt_stale_job_ms := mc_stale_job_ms (mode_config m)\<rparr>)
      in case sl_stale_job_ms request of
           None \<Rightarrow> lt
         | Some n \<Rightarrow> lt\<lparr>lt_stale_job_ms := clamp_nat 5000 300000 n\<rparr>)"
  have lt: "lt_per_user lt = lt_per_user (tc_live (wo_control p))"
    "lt_max_concurrent_jobs lt = lt_max_concurrent_jobs (tc_live (wo_control p))"
    "5000 \<le> lt_stale_job_ms lt" "lt_stale_job_ms lt \<le> 300000"
    using p(4,5) live mode_stale clamp_nat_bounds [of 5000 300000]
    by (auto simp: lt_def Let_def split: option.splits)
  show ?thesis
  proof (cases r)
    case (Inl err)
    then show ?thesis using p live by (simp add: start_live_transcription_def e pool_ok_def)
  next
    case (Inr _)
    have "schedulers_ok (lt_max_concurrent_jobs (tc_live (tc\<lparr>tc_live := lt\<rparr>)))
        (tc_schedulers (tc\<lparr>tc_live := lt\<rparr>)) (wo_workers p)"
      using p(3) live lt(2) by simp
    from set_concurrency_ok [OF this p(2), of "sl_max_concurrent_jobs request"] show ?thesis
      using p(1) lt Inr unfolding pool_step.simps start_live_transcription_def e prod.case Let_def
      by (simp add: pool_ok_def lt_def [unfolded Let_def, symmetric])
  qed
qed

lemma pool_select_ok:
  assumes "pool_ok p"
  shows "pool_ok (pool_step show_error load (SelectModel fs name) p)"
  using assms by (simp add: pool_ok_def select_whisper_model_def Let_def)

lemma pool_step_ok: "pool_ok p \<Longrightarrow> pool_ok (pool_step show_error load e p)"
proof (cases e)
  case (WorkerTop now u)
  then show "pool_ok p \<Longrightarrow> ?thesis" by (simp add: pool_take_ok)
next
  case (WorkerPermit now u)
  then show "pool_ok p \<Longrightarrow> ?thesis" by (auto simp: pool_acquire_ok split: option.split worker.split)
next
  case (WorkerDone ss now written u)
  then show "pool_ok p \<Longrightarrow> ?thesis" by (auto simp: pool_finish_ok split: option.split worker.split)
qed (simp_all only: pool_start_ok pool_stop_ok pool_select_ok pool_ingest_ok)

interpretation pool: step_machine "pool_step show_error load" "\<lambda>_. True" pool_ok
  by unfold_locales (rule pool_step_ok)

lemma pool_ok_initial: "pool_ok (initial_pool options)"
  by (simp add: initial_pool_def start_state_def Let_def default_transcription_control_def
      default_live_transcription_state_def pool_ok_def running_ok_def schedulers_ok_def held_def
      hm_wf_def)

text \<open>C24. Transcription workers: whatever frames arrive and however workers, administrator requests and
  the engine interleave, every user has at most one worker, exactly when the user's runtime says
  so; a user's queue holds at most four jobs; every scheduler made so far has a capacity between 1
  and 16 and hands out each permit to one worker at a time; jobs become stale between 5 and 300
  seconds.\<close>

theorem transcription_pool_runs_ok:
  "pool_ok (fold (pool_step show_error load) events (initial_pool options))"
  by (rule pool.run_inv [OF _ pool_ok_initial]) (simp add: list_all_iff)

section \<open>Selecting a model\<close>

lemma relative_components:
  assumes "n \<noteq> []" "hd n \<noteq> CHR ''/''" "d \<noteq> []"
  shows "path_components (path_join d n) = path_components d @ map component_of (path_parts n)"
proof -
  obtain a where a: "path_join d n = a @ CHR ''/'' # n" "path_parts a = path_parts d"
    "hd (split_on CHR ''/'' a) = hd (split_on CHR ''/'' d)" "hd (a @ ''/'') = hd d"
    by (rule path_join_relative [OF assms])
  have "hd (path_join d n) = hd d" using a(1,4) by (cases a) simp_all
  moreover have "hd (split_on CHR ''/'' (path_join d n)) = hd (split_on CHR ''/'' d)"
    using a(1,3) by (simp add: split_on_append)
  moreover have "path_parts (path_join d n) = path_parts d @ path_parts n"
    using a(1,2) by (simp add: path_parts_append)
  ultimately show ?thesis using assms(3) a(1) by (auto simp: path_components_parts)
qed

lemma selected_components:
  assumes n: "n \<noteq> []" "length (path_components n) = 1"
    and sup: "is_supported_whisper_model_path (path_join d n)"
  shows "path_components (path_join d n) = path_components d \<or>
    (\<exists>m. path_components (path_join d n) = path_components d @ [Normal m])"
proof -
  have named: "file_name (path_join d n) \<noteq> None"
    using sup by (auto simp: is_supported_whisper_model_path_def path_extension_def split: option.splits)
  have rel: "hd n \<noteq> CHR ''/''"
  proof
    assume slash: "hd n = CHR ''/''"
    with n have "path_parts n = []" by (auto simp: path_components_parts)
    with slash n have "path_components n = [RootDir]" by (simp add: path_components_parts)
    with slash n named show False by (simp add: path_join_def file_name_def)
  qed
  have comps: "path_components (path_join d n) = path_components d @ map component_of (path_parts n)"
    if "d \<noteq> []" by (rule relative_components [OF n(1) rel that])
  consider (cur) "path_parts n = []" "path_components n = [CurDir]"
    | (one) m where "path_parts n = [m]" "path_components n = [component_of m]"
    using n rel by (auto simp: path_components_parts length_Suc_conv split: if_splits)
  then show ?thesis
  proof cases
    case cur
    show ?thesis
    proof (cases "d = []")
      case True
      with rel cur named show ?thesis by (simp add: path_join_def file_name_def)
    qed (simp add: comps cur)
  next
    case one
    have d: "path_components (path_join d n) = path_components d @ [component_of m]"
    proof (cases "d = []")
      case True
      have "path_components [] = []" by (simp add: path_components_def)
      with True rel one show ?thesis by (simp add: path_join_def)
    qed (simp add: comps one)
    with named have "component_of m \<noteq> ParentDir" by (auto simp: file_name_def)
    with d show ?thesis by (auto simp: component_of_def split: if_splits)
  qed
qed

text \<open>Model selection: a refused selection changes nothing; an accepted one names an existing file
  of a supported kind that is a direct entry of the model directory (or the directory itself, when
  that has such an ending), whatever the request contains, and leaves an engine mode that is
  enabled, without the context of the model before.\<close>

lemma selected_model_is_in_the_folder:
  "case select_whisper_model fs requested tc of
     (tc', Inl err) \<Rightarrow> tc' = tc
   | (tc', Inr _) \<Rightarrow>
       (case wh_model (tc_whisper tc') of
          None \<Rightarrow> False
        | Some p \<Rightarrow>
            path_exists fs p \<and> is_supported_whisper_model_path p \<and>
            (path_components p = path_components (wh_model_dir (tc_whisper tc)) \<or>
             (\<exists>m. path_components p = path_components (wh_model_dir (tc_whisper tc)) @ [Normal m]))) \<and>
       wh_context (tc_whisper tc') = None \<and> lt_engine_mode (tc_live tc') \<noteq> EngineDisabled"
  using selected_components [of "trim requested" "wh_model_dir (tc_whisper tc)"]
  by (auto simp: select_whisper_model_def Let_def)

section \<open>The worker's loop ends\<close>

text \<open>The loop of one worker while no frame arrives. Round \<open>n\<close> takes a job at one time and is
  granted the permit at another; the context may have been unloaded by a selection in between two
  rounds, and the scheduler may be closed.\<close>

record worker_round =
  wr_take_ms :: nat
  wr_context :: "whisper_context option"
  wr_permit :: bool
  wr_permit_ms :: nat
  wr_finish_ms :: nat
  wr_sessions :: sessions
  wr_written :: bool

definition pending_of :: "user_id \<Rightarrow> live_transcription_state \<Rightarrow> live_transcript_job list" where
  "pending_of u lt = (case hm_get (lt_per_user lt) u of None \<Rightarrow> [] | Some rt \<Rightarrow> rt_pending rt)"

lemma take_fresh_drops:
  "\<exists>k. rt_pending (snd (take_fresh s now js rt)) = drop k js \<and>
     (if fst (take_fresh s now js rt) = None then k = length js else 0 < k)"
proof (induction js arbitrary: rt)
  case (Cons j js)
  show ?case
  proof (cases "live_transcription_job_is_stale j s now")
    case True
    obtain k where "rt_pending (snd (take_fresh s now js (count_stale j rt))) = drop k js"
        "if fst (take_fresh s now js (count_stale j rt)) = None then k = length js else 0 < k"
      using Cons.IH by blast
    with True show ?thesis by (intro exI [of _ "Suc k"]) auto
  next
    case False
    then show ?thesis by (intro exI [of _ 1]) simp
  qed
qed simp

text \<open>What a step of the worker leaves alone: other users, and the count of dropped jobs.\<close>

definition keeps_others ::
  "user_id \<Rightarrow> live_transcription_state \<Rightarrow> live_transcription_state \<Rightarrow> bool" where
  "keeps_others u lt lt' \<longleftrightarrow>
     (\<forall>v. v = u \<or> hm_get (lt_per_user lt') v = hm_get (lt_per_user lt) v) \<and>
     map_option rt_dropped_jobs (hm_get (lt_per_user lt') u) =
       map_option rt_dropped_jobs (hm_get (lt_per_user lt) u)"

lemma keeps_trans: "keeps_others u a b \<Longrightarrow> keeps_others u b c \<Longrightarrow> keeps_others u a c"
  unfolding keeps_others_def by metis

lemma worker_take_cases:
  assumes "worker_take now ctx u lt = (r, lt')"
  shows "keeps_others u lt lt' \<and>
    (\<exists>k. pending_of u lt' = drop k (pending_of u lt) \<and>
      (case r of
         None \<Rightarrow> (if ctx then k = length (pending_of u lt) else True) \<and>
           (case hm_get (lt_per_user lt') u of None \<Rightarrow> True | Some rt \<Rightarrow> \<not> rt_worker_running rt)
       | Some j \<Rightarrow> ctx \<and> 0 < k \<and> 0 < length (pending_of u lt)))"
proof (cases "hm_get (lt_per_user lt) u")
  case None
  with assms show ?thesis by (auto simp: worker_take_def keeps_others_def pending_of_def)
next
  case (Some rt)
  obtain job rt' where t: "take_fresh (lt_stale_job_ms lt) now (rt_pending rt) rt = (job, rt')"
    by fastforce
  obtain k where k: "rt_pending rt' = drop k (rt_pending rt)"
      "if job = None then k = length (rt_pending rt) else 0 < k"
    using take_fresh_drops [of "lt_stale_job_ms lt" now "rt_pending rt" rt] by (auto simp: t)
  have kept: "rt_dropped_jobs rt' = rt_dropped_jobs rt"
    using take_fresh_pending(5) [of "lt_stale_job_ms lt" now "rt_pending rt" rt] by (simp add: t)
  have some: "0 < length (rt_pending rt)" if "job \<noteq> None" using that t by (cases "rt_pending rt") auto
  from assms Some t have r: "r = (if job = None \<or> \<not> ctx then None else job)"
    and lt': "lt' = lt\<lparr>lt_per_user := hm_insert u (if job = None \<or> \<not> ctx
        then rt'\<lparr>rt_worker_running := False\<rparr> else rt') (lt_per_user lt)\<rparr>"
    by (auto simp: worker_take_def pop_next_live_transcription_job_def Let_def)
  show ?thesis
    using k kept some Some
    by (auto simp: r lt' keeps_others_def pending_of_def intro!: exI [of _ k] split: option.split)
qed

lemma keeps_modify:
  "(\<And>rt. rt_dropped_jobs (f rt) = rt_dropped_jobs rt) \<Longrightarrow> keeps_others u lt (modify_runtime u f lt)"
  by (simp add: keeps_others_def modify_runtime_def option.map_comp comp_def hm_get_modify)

lemma pending_modify:
  "(\<And>rt. rt_pending (f rt) = rt_pending rt) \<Longrightarrow> pending_of u (modify_runtime v f lt) = pending_of u lt"
  by (cases "u = v") (auto simp: pending_of_def modify_runtime_def split: option.splits)

lemma worker_transcribe_keeps:
  assumes "worker_transcribe ss permit now written show_error engine stale u job (lt, rs) = (lt', rs')"
  shows "pending_of u lt' = pending_of u lt \<and> keeps_others u lt lt'"
proof -
  have "pending_of u (lt\<lparr>lt_last_error := e\<rparr>) = pending_of u lt"
    "keeps_others u lt (lt\<lparr>lt_last_error := e\<rparr>)" "keeps_others u lt lt" for e
    by (simp_all add: pending_of_def keeps_others_def)
  with assms show ?thesis
    by (auto simp: worker_transcribe_def worker_finish_def pending_modify keeps_modify count_stale_def
        split: if_splits sum.splits option.splits prod.splits)
qed

lemma worker_round_shorter:
  assumes "worker_take now ctx u lt = (Some job, lt')"
  shows "length (pending_of u (fst (worker_transcribe ss permit now' written show_error engine stale u job (lt', rs))))
     < length (pending_of u lt)"
proof -
  obtain lt2 rs2 where w: "worker_transcribe ss permit now' written show_error engine stale u job (lt', rs) = (lt2, rs2)"
    by fastforce
  have "length (pending_of u lt') < length (pending_of u lt)"
    using worker_take_cases [OF assms] by auto
  then show ?thesis using worker_transcribe_keeps [OF w] by (simp add: w)
qed

text \<open>The result is the round in which the loop returned, and what it left.\<close>

function worker_loop ::
  "(admin_api_error \<Rightarrow> string) \<Rightarrow> (nat \<Rightarrow> worker_round) \<Rightarrow> user_id \<Rightarrow> nat \<Rightarrow>
     live_transcription_state \<times> recording_state \<Rightarrow> nat \<times> live_transcription_state \<times> recording_state" where
  "worker_loop show_error rounds u n (lt, rs) =
     (let r = rounds n in
      case worker_take (wr_take_ms r) (wr_context r \<noteq> None) u lt of
        (None, lt') \<Rightarrow> (n, lt', rs)
      | (Some job, lt') \<Rightarrow>
          if \<not> wr_permit r then (n, lt', rs)
          else worker_loop show_error rounds u (Suc n)
            (worker_transcribe (wr_sessions r) (wr_permit_ms r) (wr_finish_ms r) (wr_written r) show_error
               (builtin_whisper_engine (the (wr_context r)) (lt_mode lt)
                  (Option.bind (hm_get (lt_per_user lt) u) rt_last_transcript_text))
               (lt_stale_job_ms lt) u job (lt', rs)))"
  by pat_completeness auto
termination
  by (relation "measure (\<lambda>(e, w, u, n, s). length (pending_of u (fst s)))")
    (auto intro: worker_round_shorter [OF sym])

declare worker_loop.simps [simp del]

lemma worker_loop_facts:
  "case worker_loop show_error rounds u n (lt, rs) of
     (n', lt', rs') \<Rightarrow>
       n \<le> n' \<and>
       (\<exists>k. n' - n \<le> k \<and> n' - n \<le> length (pending_of u lt) \<and> pending_of u lt' = drop k (pending_of u lt)) \<and>
       (if wr_permit (rounds n')
        then (case hm_get (lt_per_user lt') u of None \<Rightarrow> True | Some rt \<Rightarrow> \<not> rt_worker_running rt) \<and>
             (if wr_context (rounds n') = None then True else pending_of u lt' = [])
        else True) \<and>
       keeps_others u lt lt'"
proof (induction show_error rounds u n "(lt, rs)" arbitrary: lt rs rule: worker_loop.induct)
  case (1 show_error rounds u n lt rs)
  let ?r = "rounds n"
  obtain r lt1 where t: "worker_take (wr_take_ms ?r) (wr_context ?r \<noteq> None) u lt = (r, lt1)"
    by (rule prod.exhaust)
  from worker_take_cases [OF t] obtain k where c: "keeps_others u lt lt1"
      "pending_of u lt1 = drop k (pending_of u lt)"
      "case r of
         None \<Rightarrow> (if wr_context ?r \<noteq> None then k = length (pending_of u lt) else True) \<and>
           (case hm_get (lt_per_user lt1) u of None \<Rightarrow> True | Some rt \<Rightarrow> \<not> rt_worker_running rt)
       | Some j \<Rightarrow> wr_context ?r \<noteq> None \<and> 0 < k \<and> 0 < length (pending_of u lt)"
    by blast
  show ?case
  proof (cases r)
    case None
    then have step: "worker_loop show_error rounds u n (lt, rs) = (n, lt1, rs)"
      by (subst worker_loop.simps) (simp add: t Let_def del: not_None_eq)
    from None c have "if wr_context ?r = None then True else pending_of u lt1 = []"
      and "case hm_get (lt_per_user lt1) u of None \<Rightarrow> True | Some rt \<Rightarrow> \<not> rt_worker_running rt"
      by simp_all
    with c show ?thesis unfolding step prod.case by (auto intro!: exI [of _ k])
  next
    case (Some job)
    show ?thesis
    proof (cases "wr_permit ?r")
      case False
      then have step: "worker_loop show_error rounds u n (lt, rs) = (n, lt1, rs)"
        by (subst worker_loop.simps) (simp add: t Some Let_def del: not_None_eq)
      from c False show ?thesis unfolding step prod.case by (auto intro!: exI [of _ k])
    next
      case True
      let ?done = "worker_transcribe (wr_sessions ?r) (wr_permit_ms ?r) (wr_finish_ms ?r) (wr_written ?r)
          show_error (builtin_whisper_engine (the (wr_context ?r)) (lt_mode lt)
             (Option.bind (hm_get (lt_per_user lt) u) rt_last_transcript_text))
          (lt_stale_job_ms lt) u job (lt1, rs)"
      obtain lt2 rs2 where w: "?done = (lt2, rs2)" by (rule prod.exhaust)
      note keep = worker_transcribe_keeps [OF w]
      obtain n' lt' rs' where l: "worker_loop show_error rounds u (Suc n) (lt2, rs2) = (n', lt', rs')"
        by (rule prod_cases3)
      have step: "worker_loop show_error rounds u n (lt, rs) = (n', lt', rs')"
        using True by (subst worker_loop.simps) (simp add: t Some Let_def w l del: not_None_eq)
      from 1 [OF refl t [symmetric] Some _ w] True l obtain m where
        ih: "Suc n \<le> n'" "n' - Suc n \<le> m" "n' - Suc n \<le> length (pending_of u lt2)"
          "pending_of u lt' = drop m (pending_of u lt2)"
          "if wr_permit (rounds n')
           then (case hm_get (lt_per_user lt') u of None \<Rightarrow> True | Some rt \<Rightarrow> \<not> rt_worker_running rt) \<and>
                (if wr_context (rounds n') = None then True else pending_of u lt' = [])
           else True"
          "keeps_others u lt2 lt'"
        by auto
      have "keeps_others u lt lt'" using c(1) keep ih(6) keeps_trans by blast
      moreover have "pending_of u lt' = drop (m + k) (pending_of u lt)" using ih(4) keep c(2) by simp
      moreover have "0 < k" "0 < length (pending_of u lt)" using c(3) Some by auto
      then have "n' - n \<le> m + k" "n' - n \<le> length (pending_of u lt)"
        using ih(1-3) c(2) keep by (simp_all, arith)
      ultimately show ?thesis
        using ih(1,5) unfolding step prod.case by - (intro conjI exI [of _ "m + k"], simp_all)
    qed
  qed
qed

text \<open>C25. A worker ends: if no frame arrives, the loop of a user's worker returns after at most as
  many rounds as jobs were waiting, whatever the two clocks, the engine and the files do, and whenever
  the context is unloaded or the scheduler closed. It leaves a tail of the jobs that waited, one job
  fewer for every round at least; none was dropped for a full queue, and no other user's queue was
  touched. If the round it returns in had a context and a permit to give, no job is left; if it had a
  permit to give, the user's worker is off, so that the next job starts one.\<close>

theorem worker_loop_ends:
  "case worker_loop show_error rounds u n (lt, rs) of
     (n', lt', rs') \<Rightarrow>
       n \<le> n' \<and>
       (\<exists>k. n' - n \<le> k \<and> n' - n \<le> length (pending_of u lt) \<and> pending_of u lt' = drop k (pending_of u lt)) \<and>
       (if wr_permit (rounds n')
        then (case hm_get (lt_per_user lt') u of None \<Rightarrow> True | Some rt \<Rightarrow> \<not> rt_worker_running rt) \<and>
             (if wr_context (rounds n') = None then True else pending_of u lt' = [])
        else True) \<and>
       map_option rt_dropped_jobs (hm_get (lt_per_user lt') u) =
         map_option rt_dropped_jobs (hm_get (lt_per_user lt) u) \<and>
       (v = u \<or> hm_get (lt_per_user lt') v = hm_get (lt_per_user lt) v)"
  using worker_loop_facts [where show_error = show_error and rounds = rounds and u = u and n = n
      and lt = lt and rs = rs]
  by (auto simp: keeps_others_def split: prod.splits)

section \<open>A selection while a worker runs\<close>

text \<open>Selecting a model unloads the context. A worker that comes back to the top of its loop then
  takes one more job, drops it without counting it, and ends; what waits behind it has no worker
  until another frame completes a job.\<close>

lemma selection_strands_jobs:
  assumes "hm_get (lt_per_user (tc_live tc)) u = Some rt" "rt_pending rt = j # js"
    "\<not> live_transcription_job_is_stale j (lt_stale_job_ms (tc_live tc)) now"
    "select_whisper_model fs name tc = (tc', Inr ())"
  shows "wh_context (tc_whisper tc') = None \<and>
    (case worker_take now False u (tc_live tc') of
       (Some _, lt') \<Rightarrow> False
     | (None, lt') \<Rightarrow>
         hm_get (lt_per_user lt') u =
           Some (rt\<lparr>rt_pending := js, rt_queued_jobs := length js, rt_worker_running := False\<rparr>))"
  using assms
  by (auto simp: select_whisper_model_def Let_def worker_take_def pop_next_live_transcription_job_def
      split: if_splits)

end
