(* ===== verification/Client_Endpoints.thy ===== *)
theory Client_Endpoints
  imports Admin_Api Model_Catalog
begin

text \<open>
  How a client finds its server (\<open>clients/core/src/lib.rs\<close>): the check of a server's host name,
  the addresses derived from it, and the normalisation of a saved endpoint configuration with its
  optional separate endpoints; then the parsing and printing of channel lists. A socket address is
  its IP address in \<open>to_string\<close> form and a port; name resolution is a parameter.
\<close>

section \<open>IPv6 addresses\<close>

text \<open>\<open>Ipv6Addr::from_str\<close>: eight groups of one to four hexadecimal digits, the last two of which may
  be an IPv4 address; one run of groups may be left out as \<open>::\<close>.\<close>

definition is_hex_group :: "string \<Rightarrow> bool" where
  "is_hex_group g \<longleftrightarrow> 1 \<le> length g \<and> length g \<le> 4 \<and> list_all is_ascii_hexdigit g"

definition is_ipv4_part :: "string \<Rightarrow> bool" where
  "is_ipv4_part s \<longleftrightarrow>
     1 \<le> length s \<and> length s \<le> 3 \<and> list_all is_ascii_digit s \<and>
     (length s = 1 \<or> hd s \<noteq> CHR ''0'') \<and>
     (case digits_value 0 s of Some n \<Rightarrow> n \<le> 255 | None \<Rightarrow> False)"

definition is_ipv4 :: "string \<Rightarrow> bool" where
  "is_ipv4 s \<longleftrightarrow> (let parts = split_on CHR ''.'' s in length parts = 4 \<and> list_all is_ipv4_part parts)"

text \<open>The number of 16 bit groups, if all are well formed.\<close>

fun count_groups :: "bool \<Rightarrow> string list \<Rightarrow> nat option" where
  "count_groups v4 [] = Some 0"
| "count_groups v4 [g] =
     (if is_hex_group g then Some 1 else if v4 \<and> is_ipv4 g then Some 2 else None)"
| "count_groups v4 (g # gs) =
     (if is_hex_group g then map_option Suc (count_groups v4 gs) else None)"

definition groups_of :: "string \<Rightarrow> string list" where
  "groups_of s = (if s = [] then [] else split_on CHR '':'' s)"

fun split_double_colon :: "string \<Rightarrow> (string \<times> string) option" where
  "split_double_colon (a # b # cs) =
     (if a = CHR '':'' \<and> b = CHR '':'' then Some ([], cs)
      else map_option (\<lambda>(l, r). (a # l, r)) (split_double_colon (b # cs)))"
| "split_double_colon _ = None"

definition is_ipv6 :: "string \<Rightarrow> bool" where
  "is_ipv6 s =
     (case split_double_colon s of
        None \<Rightarrow> count_groups True (groups_of s) = Some 8
      | Some (l, r) \<Rightarrow>
          (case (count_groups False (groups_of l), count_groups True (groups_of r)) of
             (Some m, Some n) \<Rightarrow> m + n \<le> 7
           | _ \<Rightarrow> False))"

section \<open>Hosts\<close>

definition rsplit_once :: "char \<Rightarrow> string \<Rightarrow> (string \<times> string) option" where
  "rsplit_once d s =
     (if d \<in> set s
      then let after = rev (takeWhile (\<lambda>c. c \<noteq> d) (rev s))
           in Some (take (length s - length after - 1) s, after)
      else None)"

definition validate_server_host :: "string \<Rightarrow> string + string" where
  "validate_server_host text =
     (let host = trim text
      in if host = [] then Inl ''server host cannot be empty''
         else if str_contains ''://'' host then Inl ''server host must not include a scheme''
         else if set host \<inter> set ''/?#@'' \<noteq> {}
         then Inl ''server host must not include a path, query, fragment, or userinfo''
         else if list_ex is_whitespace host then Inl ''server host must not contain whitespace''
         else if hd host = CHR ''['' \<or> last host = CHR '']''
         then (if \<not> (hd host = CHR ''['' \<and> last host = CHR '']'')
               then Inl ''IPv6 server host brackets are not balanced''
               else if is_ipv6 (butlast (tl host)) then Inr (butlast (tl host))
               else Inl ''bracketed server host must be an IPv6 address'')
         else if (case rsplit_once CHR '':'' host of
                    None \<Rightarrow> False
                  | Some (name, port) \<Rightarrow>
                      CHR '':'' \<notin> set name \<and> name \<noteq> [] \<and> parse_u16 port \<noteq> None)
         then Inl ''server host must not include a port; use Advanced endpoints''
         else if CHR '':'' \<in> set host \<and> \<not> is_ipv6 host
         then Inl (''server host contains '' @ [char_of (39 :: nat)] @ '':'' @ [char_of (39 :: nat)] @
                '' but is not a valid IPv6 address'')
         else Inr host)"

definition default_audio_port :: nat where "default_audio_port = 40000"

definition default_control_port :: nat where "default_control_port = 40001"

definition default_admin_port :: nat where "default_admin_port = 40002"

definition default_server_host :: string where "default_server_host = ''127.0.0.1''"

record socket_address =
  sa_ip :: string
  sa_port :: nat

definition default_audio_addr :: socket_address where
  "default_audio_addr = \<lparr>sa_ip = ''127.0.0.1'', sa_port = default_audio_port\<rparr>"

definition host_for_url :: "string \<Rightarrow> string" where
  "host_for_url host =
     (let host = rev (dropWhile (\<lambda>c. c = CHR '']'')
                   (rev (dropWhile (\<lambda>c. c = CHR ''['') (trim host))))
      in if CHR '':'' \<in> set host then ''['' @ host @ '']'' else host)"

definition audio_addr_string :: "string \<Rightarrow> string" where
  "audio_addr_string host = host_for_url host @ '':'' @ show_nat default_audio_port"

definition control_url :: "string \<Rightarrow> string" where
  "control_url host = ''ws://'' @ host_for_url host @ '':'' @ show_nat default_control_port"

definition admin_url :: "string \<Rightarrow> string" where
  "admin_url host = ''http://'' @ host_for_url host @ '':'' @ show_nat default_admin_port"

text \<open>What looking up a name at a port gives: an error, or the addresses found.\<close>

type_synonym resolver = "string \<Rightarrow> string + socket_address list"

definition resolve_server_audio_addr :: "resolver \<Rightarrow> string \<Rightarrow> string + socket_address" where
  "resolve_server_audio_addr resolve host =
     (case validate_server_host host of
        Inl err \<Rightarrow> Inl err
      | Inr host \<Rightarrow>
          (case resolve host of
             Inl _ \<Rightarrow> Inl (''resolve server host `'' @ host @ ''`'')
           | Inr [] \<Rightarrow> Inl (''server host `'' @ host @ ''` did not resolve'')
           | Inr (a # _) \<Rightarrow> Inr a))"

section \<open>URLs\<close>

definition scheme_default_port :: "string \<Rightarrow> nat" where
  "scheme_default_port scheme = (if scheme = ''ws'' then default_control_port else default_admin_port)"

definition parse_authority :: "string \<Rightarrow> string \<Rightarrow> (string \<times> nat) option" where
  "parse_authority scheme authority =
     (if authority = [] then None
      else if hd authority = CHR ''[''
      then (if CHR '']'' \<notin> set authority then None
            else
              let host = takeWhile (\<lambda>c. c \<noteq> CHR '']'') (tl authority);
                  rest = drop (length host + 2) authority;
                  port = (case rest of
                            c # cs \<Rightarrow> if c = CHR '':'' then parse_u16 cs else None
                          | [] \<Rightarrow> None)
              in Some (host, case port of Some p \<Rightarrow> unat p | None \<Rightarrow> scheme_default_port scheme))
      else
        let (host, port) = (case rsplit_once CHR '':'' authority of
               None \<Rightarrow> (authority, scheme_default_port scheme)
             | Some (host, port) \<Rightarrow>
                 (host, case parse_u16 port of Some p \<Rightarrow> unat p | None \<Rightarrow> 0))
        in if host = [] \<or> port = 0 then None else Some (host, port))"

definition parse_url_host_port :: "string \<Rightarrow> string \<Rightarrow> (string \<times> nat) option" where
  "parse_url_host_port url scheme =
     (let url = trim url;
          rest = (case strip_prefix (scheme @ ''://'') url of
                    Some rest \<Rightarrow> Some rest
                  | None \<Rightarrow> strip_prefix (scheme @ ''s://'') url)
      in case rest of
           None \<Rightarrow> None
         | Some rest \<Rightarrow>
             parse_authority scheme
               (takeWhile (\<lambda>c. c \<noteq> CHR ''/'' \<and> c \<noteq> CHR ''?'' \<and> c \<noteq> CHR ''#'') rest))"

definition starts_with :: "string \<Rightarrow> string \<Rightarrow> bool" where
  "starts_with p s = (strip_prefix p s \<noteq> None)"

definition validate_control_url :: "string \<Rightarrow> string + unit" where
  "validate_control_url control =
     (let control = trim control
      in if control = [] then Inl ''control URL cannot be empty''
         else if \<not> (starts_with ''ws://'' control \<or> starts_with ''wss://'' control)
         then Inl ''control URL must start with ws:// or wss://''
         else Inr ())"

definition validate_http_url :: "string \<Rightarrow> string + unit" where
  "validate_http_url url =
     (let url = trim url
      in if url = [] then Inl ''URL cannot be empty''
         else if \<not> (starts_with ''http://'' url \<or> starts_with ''https://'' url)
         then Inl ''URL must start with http:// or https://''
         else Inr ())"

definition derive_admin_url_from_control :: "string \<Rightarrow> string option" where
  "derive_admin_url_from_control control =
     map_option (\<lambda>(host, port). admin_url host) (parse_url_host_port control ''ws'')"

section \<open>Endpoint configurations\<close>

record client_endpoint_overrides =
  eo_server_host :: string
  eo_server :: socket_address
  eo_control :: string
  eo_admin :: "string option"
  eo_advanced_endpoints :: bool

definition default_endpoint_overrides :: client_endpoint_overrides where
  "default_endpoint_overrides =
     \<lparr>eo_server_host = default_server_host, eo_server = default_audio_addr,
      eo_control = control_url default_server_host, eo_admin = None,
      eo_advanced_endpoints = False\<rparr>"

definition url_is_default :: "string option \<Rightarrow> string \<Rightarrow> nat \<Rightarrow> string \<Rightarrow> bool" where
  "url_is_default url scheme port server_host =
     (case Option.bind url (\<lambda>u. parse_url_host_port u scheme) of
        None \<Rightarrow> True
      | Some (host, p) \<Rightarrow> p = port \<and> host = server_host)"

definition derive_server_host :: "socket_address \<Rightarrow> string option \<Rightarrow> string option \<Rightarrow> string option" where
  "derive_server_host server control admin =
     (if sa_port server = default_audio_port \<and>
         url_is_default control ''ws'' default_control_port (sa_ip server) \<and>
         url_is_default admin ''http'' default_admin_port (sa_ip server)
      then Some (sa_ip server) else None)"

definition endpoint_fields_are_default :: "string \<Rightarrow> socket_address \<Rightarrow> string \<Rightarrow> bool" where
  "endpoint_fields_are_default server_host server control =
     (case validate_server_host server_host of
        Inl _ \<Rightarrow> False
      | Inr host \<Rightarrow> sa_port server = default_audio_port \<and> sa_ip server = host \<and>
          trim control = control_url host)"

definition trimmed_option :: "string option \<Rightarrow> string option" where
  "trimmed_option s = Option.bind (map_option trim s) (\<lambda>s. if s = [] then None else Some s)"

text \<open>The three parts of \<open>normalize_endpoint_overrides\<close>: cleaning the fields, deciding whether the
  endpoints differ from the defaults of the host, and deriving them when they do not.\<close>

definition clean_overrides :: "client_endpoint_overrides \<Rightarrow> client_endpoint_overrides" where
  "clean_overrides c =
     (let control = trim (eo_control c); admin = trimmed_option (eo_admin c);
          host = (if trim (eo_server_host c) = []
                  then (case derive_server_host (eo_server c) (Some control) admin of
                          Some h \<Rightarrow> h | None \<Rightarrow> default_server_host)
                  else eo_server_host c)
      in c\<lparr>eo_control := control, eo_admin := admin,
           eo_server_host := (case validate_server_host host of Inr h \<Rightarrow> h | Inl _ \<Rightarrow> host)\<rparr>)"

definition decide_advanced :: "bool \<Rightarrow> client_endpoint_overrides \<Rightarrow> client_endpoint_overrides" where
  "decide_advanced server_host_was_empty c =
     (let matches_default_ports =
            endpoint_fields_are_default (eo_server_host c) (eo_server c) (eo_control c);
          global_default = (eo_server c = default_audio_addr \<and>
            eo_control c = ''ws://'' @ default_server_host @ '':'' @ show_nat default_control_port)
      in if eo_advanced_endpoints c then c
         else if server_host_was_empty \<or> (eo_server_host c = default_server_host \<and> \<not> global_default)
         then (case derive_server_host (eo_server c) (Some (eo_control c)) (eo_admin c) of
                 Some h \<Rightarrow> c\<lparr>eo_server_host := h\<rparr>
               | None \<Rightarrow>
                   if \<not> matches_default_ports \<and> \<not> global_default
                   then c\<lparr>eo_advanced_endpoints := True\<rparr> else c)
         else if \<not> matches_default_ports \<and> \<not> global_default
         then c\<lparr>eo_advanced_endpoints := True\<rparr> else c)"

definition derive_endpoints :: "resolver \<Rightarrow> client_endpoint_overrides \<Rightarrow> client_endpoint_overrides" where
  "derive_endpoints resolve c =
     (if eo_advanced_endpoints c then c
      else case validate_server_host (eo_server_host c) of
        Inl _ \<Rightarrow> c
      | Inr host \<Rightarrow>
          c\<lparr>eo_server := (case resolve_server_audio_addr resolve host of Inr a \<Rightarrow> a | Inl _ \<Rightarrow> eo_server c),
            eo_control := control_url host, eo_admin := None\<rparr>)"

definition normalize_endpoint_overrides ::
  "resolver \<Rightarrow> client_endpoint_overrides \<Rightarrow> client_endpoint_overrides" where
  "normalize_endpoint_overrides resolve c =
     derive_endpoints resolve (decide_advanced (trim (eo_server_host c) = []) (clean_overrides c))"

definition normalized ::
  "resolver \<Rightarrow> string \<Rightarrow> socket_address \<Rightarrow> string \<Rightarrow> string option \<Rightarrow> bool \<Rightarrow> client_endpoint_overrides" where
  "normalized resolve server_host server control admin advanced =
     normalize_endpoint_overrides resolve
       \<lparr>eo_server_host = trim server_host, eo_server = server, eo_control = trim control,
        eo_admin = trimmed_option admin, eo_advanced_endpoints = advanced\<rparr>"

definition effective_server :: "resolver \<Rightarrow> client_endpoint_overrides \<Rightarrow> string + socket_address" where
  "effective_server resolve c =
     (if eo_advanced_endpoints c then Inr (eo_server c)
      else case validate_server_host (eo_server_host c) of
        Inl err \<Rightarrow> Inl err
      | Inr host \<Rightarrow> resolve_server_audio_addr resolve host)"

definition effective_control :: "client_endpoint_overrides \<Rightarrow> string + string" where
  "effective_control c =
     (if eo_advanced_endpoints c
      then (case validate_control_url (eo_control c) of Inl err \<Rightarrow> Inl err | Inr _ \<Rightarrow> Inr (eo_control c))
      else case validate_server_host (eo_server_host c) of
        Inl err \<Rightarrow> Inl err
      | Inr host \<Rightarrow> Inr (control_url host))"

definition effective_admin :: "client_endpoint_overrides \<Rightarrow> string + string" where
  "effective_admin c =
     (if eo_advanced_endpoints c
      then (case trimmed_option (eo_admin c) of
              Some admin \<Rightarrow> Inr admin
            | None \<Rightarrow>
                (case derive_admin_url_from_control (eo_control c) of
                   Some url \<Rightarrow> Inr url
                 | None \<Rightarrow> Inl ''admin URL is empty and control URL is not derivable''))
      else case validate_server_host (eo_server_host c) of
        Inl err \<Rightarrow> Inl err
      | Inr host \<Rightarrow> Inr (admin_url host))"

definition validate_overrides :: "client_endpoint_overrides \<Rightarrow> string + unit" where
  "validate_overrides c =
     (case validate_server_host (eo_server_host c) of
        Inl err \<Rightarrow> Inl err
      | Inr _ \<Rightarrow>
          if eo_advanced_endpoints c
          then (case validate_control_url (eo_control c) of
                  Inl err \<Rightarrow> Inl err
                | Inr _ \<Rightarrow>
                    (case eo_admin c of
                       None \<Rightarrow> Inr ()
                     | Some admin \<Rightarrow> if trim admin = [] then Inr () else validate_http_url admin))
          else Inr ())"

definition sync_default_endpoints ::
  "resolver \<Rightarrow> client_endpoint_overrides \<Rightarrow> client_endpoint_overrides \<times> (string + unit)" where
  "sync_default_endpoints resolve c =
     (case validate_server_host (eo_server_host c) of
        Inl err \<Rightarrow> (c, Inl err)
      | Inr host \<Rightarrow>
          (case resolve_server_audio_addr resolve host of
             Inl err \<Rightarrow> (c, Inl err)
           | Inr a \<Rightarrow>
               (c\<lparr>eo_server := a, eo_control := control_url host,
                  eo_admin := (if eo_advanced_endpoints c then eo_admin c else None)\<rparr>, Inr ())))"

section \<open>Channel lists and buttons as text\<close>

fun parse_parts :: "string list \<Rightarrow> string + channel_id list" where
  "parse_parts [] = Inr []"
| "parse_parts (part # parts) =
     (case parse_u16 (trim part) of
        None \<Rightarrow> Inl (''invalid channel `'' @ part @ ''`'')
      | Some c \<Rightarrow> (case parse_parts parts of Inl err \<Rightarrow> Inl err | Inr cs \<Rightarrow> Inr (c # cs)))"

definition parse_channels :: "string \<Rightarrow> string + channel_id list" where
  "parse_channels text = (if trim text = [] then Inr [] else parse_parts (split_on CHR '','' text))"

definition format_channels :: "channel_id list \<Rightarrow> string" where
  "format_channels cs = (if cs = [] then ''-'' else join '','' (map show_word cs))"

fun show_talk_mode :: "talk_mode \<Rightarrow> string" where
  "show_talk_mode Ptt = ''Ptt''"
| "show_talk_mode Open = ''Open''"
| "show_talk_mode Muted = ''Muted''"

fun format_button_action :: "talk_button_action \<Rightarrow> string" where
  "format_button_action (Transmit cs us duck) =
     ''tx ch='' @ format_channels cs @ '' users='' @ format_channels us @
     (if duck then '' duck'' else [])"
| "format_button_action (Alert targets _) = ''alert '' @ show_nat (length targets)"
| "format_button_action (ApplyPreset preset) = ''preset '' @ preset"
| "format_button_action (SetTalkMode us mode) =
     ''talk-mode '' @ show_talk_mode mode @ '' users='' @ format_channels us"
| "format_button_action (RouteEdit us _ _ _ _ _ _) = ''route-edit users='' @ format_channels us"

definition format_button_actions :: "talk_button_action list \<Rightarrow> string" where
  "format_button_actions actions =
     (if actions = [] then ''none'' else join ''+'' (map format_button_action actions))"

definition format_buttons :: "talk_button_config list \<Rightarrow> string" where
  "format_buttons bs =
     (if bs = [] then ''-''
      else join '','' (map (\<lambda>b. btn_id b @ '':'' @ format_button_actions (btn_actions b)) bs))"

definition format_button_ids :: "button_id list \<Rightarrow> string" where
  "format_button_ids bs = (if bs = [] then ''-'' else join '','' bs)"

fun format_codec :: "codec \<Rightarrow> string" where
  "format_codec Pcm16 = ''pcm16''"
| "format_codec Pcm24 = ''pcm24''"
| "format_codec Pcm48 = ''pcm48''"
| "format_codec Adpcm = ''adpcm''"
| "format_codec Opus = ''opus''"

section \<open>The buttons a client advertises\<close>

definition max_client_button_count :: nat where "max_client_button_count = 24"

definition default_button_capabilities :: "nat \<Rightarrow> button_capability list" where
  "default_button_capabilities count =
     map (\<lambda>i. \<lparr>bc_id = show_nat i, bc_label = ''Button '' @ show_nat i\<rparr>)
       [1..<min count max_client_button_count + 1]"

fun override_button :: "button_capability \<Rightarrow> button_capability list \<Rightarrow> button_capability list" where
  "override_button b [] = [b]"
| "override_button b (d # ds) =
     (if trim (bc_id d) = trim (bc_id b) then b # ds else d # override_button b ds)"

text \<open>The client's \<open>normalize_button_capabilities\<close> has the server's text.\<close>

definition merge_button_capabilities ::
  "button_capability list \<Rightarrow> button_capability list \<Rightarrow> button_capability list" where
  "merge_button_capabilities defaults overrides =
     normalize_button_capabilities (fold override_button overrides defaults)"

section \<open>Text lemmas\<close>

lemma rsplit_once_app: "d \<notin> set b \<Longrightarrow> rsplit_once d (a @ d # b) = Some (a, b)"
proof -
  assume d: "d \<notin> set b"
  then have "takeWhile (\<lambda>c. c \<noteq> d) (rev b @ d # rev a) = rev b"
    by (subst takeWhile_append2) auto
  then show ?thesis by (simp add: rsplit_once_def Let_def)
qed

lemma rsplit_once_cases:
  "rsplit_once d s = (if d \<in> set s then Some (the (rsplit_once d s)) else None)"
  by (simp add: rsplit_once_def Let_def)

lemma last_occurrence: "d \<in> set s \<Longrightarrow> \<exists>a b. s = a @ d # b \<and> d \<notin> set b"
  by (meson split_list_last)

lemma takeWhile_all: "list_all P xs \<Longrightarrow> takeWhile P xs = xs"
  by (auto simp: list_all_iff takeWhile_eq_all_conv)

lemma split_on_chars: "c \<in> set s \<Longrightarrow> c = d \<or> (\<exists>g\<in>set (split_on d s). c \<in> set g)"
  by (induction s) (auto split: list.splits)

lemma length_split_on: "length (split_on d s) = Suc (count_list s d)"
  by (induction s) (auto split: list.splits)

lemma show_ports:
  "show_nat default_audio_port = ''40000''" "show_nat default_control_port = ''40001''"
  "show_nat default_admin_port = ''40002''"
  by (simp_all add: default_audio_port_def default_control_port_def default_admin_port_def
      show_nat.simps char_of_def bit_iff_odd)

lemma parse_ports:
  "parse_u16 ''40001'' = Some 40001" "parse_u16 ''40002'' = Some 40002"
  by (simp_all add: parse_u16_def parse_unsigned_def is_ascii_digit_def)

section \<open>What an IPv6 address looks like\<close>

definition ipv6_char :: "char \<Rightarrow> bool" where
  "ipv6_char c \<longleftrightarrow> is_ascii_hexdigit c \<or> c = CHR ''.'' \<or> c = CHR '':''"

lemma ipv4_chars: "is_ipv4 s \<Longrightarrow> c \<in> set s \<Longrightarrow> ipv6_char c"
  using split_on_chars [of c s "CHR ''.''"]
  by (fastforce simp: is_ipv4_def Let_def list_all_iff is_ipv4_part_def ipv6_char_def
      is_ascii_hexdigit_def is_ascii_digit_def)

lemma groups_chars:
  "count_groups v4 gs = Some n \<Longrightarrow> g \<in> set gs \<Longrightarrow> c \<in> set g \<Longrightarrow> ipv6_char c"
proof (induction v4 gs arbitrary: n rule: count_groups.induct)
  case (2 v4 g)
  then show ?case
    by (auto simp: is_hex_group_def list_all_iff ipv6_char_def split: if_splits dest: ipv4_chars)
next
  case (3 v4 g h gs)
  then show ?case
    by (auto simp: is_hex_group_def list_all_iff ipv6_char_def split: if_splits)
qed simp

lemma groups_of_chars: "count_groups v4 (groups_of s) = Some n \<Longrightarrow> c \<in> set s \<Longrightarrow> ipv6_char c"
proof -
  assume n: "count_groups v4 (groups_of s) = Some n" and c: "c \<in> set s"
  then have g: "groups_of s = split_on CHR '':'' s" by (auto simp: groups_of_def)
  from split_on_chars [OF c, of "CHR '':''"] consider "c = CHR '':''" | g where "g \<in> set (groups_of s)" "c \<in> set g"
    unfolding g by blast
  then show "ipv6_char c" using groups_chars [OF n] by cases (simp add: ipv6_char_def, blast)
qed

lemma split_double_colon_eq: "split_double_colon s = Some (l, r) \<Longrightarrow> s = l @ CHR '':'' # CHR '':'' # r"
  by (induction s arbitrary: l r rule: split_double_colon.induct) (auto split: if_splits)

lemma count_groups_bound: "count_groups v4 gs = Some n \<Longrightarrow> n \<le> Suc (length gs)"
  by (induction v4 gs arbitrary: n rule: count_groups.induct) (auto split: if_splits)

lemma ipv6_chars: "is_ipv6 s \<Longrightarrow> c \<in> set s \<Longrightarrow> ipv6_char c"
proof (cases "split_double_colon s")
  case (Some lr)
  assume s: "is_ipv6 s" and c: "c \<in> set s"
  obtain l r where lr: "lr = (l, r)" by (cases lr)
  from s Some lr obtain m n where "count_groups False (groups_of l) = Some m"
    "count_groups True (groups_of r) = Some n" by (auto simp: is_ipv6_def split: option.splits)
  moreover have "c \<in> set l \<or> c \<in> set r \<or> c = CHR '':''"
    using c split_double_colon_eq [of s l r] Some lr by auto
  ultimately show ?thesis using groups_of_chars by (auto simp: ipv6_char_def [of "CHR '':''"])
qed (auto simp: is_ipv6_def dest: groups_of_chars)

lemma ipv6_colons: "is_ipv6 s \<Longrightarrow> 2 \<le> count_list s CHR '':''"
proof (cases "split_double_colon s")
  case None
  assume "is_ipv6 s"
  with None have "count_groups True (groups_of s) = Some 8" by (simp add: is_ipv6_def)
  from count_groups_bound [OF this] show ?thesis
    by (auto simp: groups_of_def length_split_on split: if_splits)
next
  case (Some lr)
  then have s: "s = fst lr @ CHR '':'' # CHR '':'' # snd lr"
    by (cases lr) (simp add: split_double_colon_eq)
  show ?thesis unfolding s by simp
qed

lemma ipv6_no_port:
  assumes "is_ipv6 s" "rsplit_once CHR '':'' s = Some (name, port)"
  shows "CHR '':'' \<in> set name"
proof -
  have "CHR '':'' \<in> set s" using assms(2) by (auto simp: rsplit_once_def split: if_splits)
  then obtain a b where s: "s = a @ CHR '':'' # b" "CHR '':'' \<notin> set b" using last_occurrence by metis
  with assms(2) have "a = name" using rsplit_once_app by fastforce
  moreover have "CHR '':'' \<in> set a"
  proof (rule ccontr)
    assume "CHR '':'' \<notin> set a"
    with s have "count_list s CHR '':'' = 1" by (simp add: count_notin)
    with ipv6_colons [OF assms(1)] show False by simp
  qed
  ultimately show ?thesis by simp
qed

section \<open>Hosts: normal form\<close>

definition host_ok :: "string \<Rightarrow> bool" where
  "host_ok h \<longleftrightarrow>
     h \<noteq> [] \<and> hd h \<noteq> CHR ''['' \<and> last h \<noteq> CHR '']'' \<and>
     (\<forall>c\<in>set h. \<not> is_whitespace c \<and> c \<notin> set ''/?#@'') \<and>
     (CHR '':'' \<in> set h \<longrightarrow> is_ipv6 h)"

lemma ipv6_char_plain: "ipv6_char c \<Longrightarrow> \<not> is_whitespace c \<and> c \<notin> set ''/?#@[]''"
  by (auto simp: ipv6_char_def is_ascii_hexdigit_def is_whitespace_def Let_def)

lemma ipv6_host_ok: "is_ipv6 h \<Longrightarrow> host_ok h"
proof -
  assume h: "is_ipv6 h"
  then have ne: "h \<noteq> []" using ipv6_colons [OF h] by auto
  then show ?thesis
    using h ipv6_chars [OF h] ipv6_char_plain hd_in_set [OF ne] last_in_set [OF ne]
    by (fastforce simp: host_ok_def)
qed

lemma validate_host_ok: "validate_server_host t = Inr h \<Longrightarrow> host_ok h"
  by (auto simp: validate_server_host_def Let_def list_ex_iff host_ok_def [of "trim t"]
      intro: ipv6_host_ok split: if_splits)

lemma contains_chars: "str_contains needle h \<Longrightarrow> set needle \<subseteq> set h"
proof (induction h)
  case Nil
  then show ?case by (subst (asm) str_contains.simps) simp
next
  case (Cons c h)
  from Cons.prems have "take (length needle) (c # h) = needle \<or> str_contains needle h"
    by (subst (asm) str_contains.simps) simp
  then show ?case
  proof
    assume "take (length needle) (c # h) = needle"
    then show ?thesis by (metis set_take_subset)
  qed (use Cons.IH in auto)
qed

lemma host_ok_valid: "host_ok h \<Longrightarrow> validate_server_host h = Inr h"
proof -
  assume h: "host_ok h"
  then have t: "trim h = h" by (auto simp: host_ok_def trimmed_def hd_in_set last_in_set intro!: trim_id)
  have "\<not> str_contains ''://'' h" using h contains_chars [of "''://''" h] by (auto simp: host_ok_def)
  moreover have "\<not> (case rsplit_once CHR '':'' h of
                    None \<Rightarrow> False
                  | Some (name, port) \<Rightarrow>
                      CHR '':'' \<notin> set name \<and> name \<noteq> [] \<and> parse_u16 port \<noteq> None)"
  proof (cases "rsplit_once CHR '':'' h")
    case (Some x)
    obtain name port where x: "x = (name, port)" by (cases x)
    with Some have "CHR '':'' \<in> set h" by (auto simp: rsplit_once_def split: if_splits)
    with h Some x ipv6_no_port [of h name port] show ?thesis by (simp add: host_ok_def)
  qed simp
  moreover have "set h \<inter> set ''/?#@'' = {}" "\<not> list_ex is_whitespace h"
    using h by (auto simp: host_ok_def list_ex_iff)
  ultimately show ?thesis
    using h t unfolding validate_server_host_def Let_def by (simp add: host_ok_def)
qed

section \<open>A client's addresses\<close>

lemma host_for_url_ok:
  "host_ok h \<Longrightarrow> host_for_url h = (if CHR '':'' \<in> set h then ''['' @ h @ '']'' else h)"
proof -
  assume h: "host_ok h"
  then have "trim h = h" by (auto simp: host_ok_def trimmed_def hd_in_set last_in_set intro!: trim_id)
  moreover have "dropWhile (\<lambda>c. c = CHR ''['') h = h" using h by (intro dropWhile_id) (simp add: host_ok_def)
  moreover have "dropWhile (\<lambda>c. c = CHR '']'') (rev h) = rev h"
    using h by (intro dropWhile_id) (simp add: host_ok_def hd_rev)
  ultimately show ?thesis by (simp add: host_for_url_def)
qed

lemma parse_authority_host:
  assumes "host_ok h" "parse_u16 port = Some p" "unat p \<noteq> 0" "CHR '':'' \<notin> set port"
  shows "parse_authority scheme (host_for_url h @ '':'' @ port) = Some (h, unat p)"
proof (cases "CHR '':'' \<in> set h")
  case True
  then have "is_ipv6 h" using assms(1) by (simp add: host_ok_def)
  then have "list_all (\<lambda>c. c \<noteq> CHR '']'') h"
    using ipv6_chars ipv6_char_plain by (fastforce simp: list_all_iff)
  then have "takeWhile (\<lambda>c. c \<noteq> CHR '']'') (h @ '']:'' @ port) = h"
    by (simp add: list_all_iff)
  with True assms show ?thesis
    by (simp add: host_for_url_ok parse_authority_def Let_def)
next
  case False
  then have "rsplit_once CHR '':'' (h @ CHR '':'' # port) = Some (h, port)"
    by (intro rsplit_once_app assms(4))
  with False assms show ?thesis
    by (simp add: host_for_url_ok parse_authority_def Let_def host_ok_def)
qed

lemma parse_url_of_host:
  assumes "host_ok h" "parse_u16 port = Some p" "unat p \<noteq> 0" "CHR '':'' \<notin> set port"
    and scheme: "scheme = ''ws'' \<or> scheme = ''http''"
    and port: "port \<noteq> []" "\<forall>c\<in>set port. \<not> is_whitespace c \<and> c \<notin> set ''/?#''"
  shows "parse_url_host_port (scheme @ ''://'' @ host_for_url h @ '':'' @ port) scheme = Some (h, unat p)"
proof -
  let ?a = "host_for_url h @ '':'' @ port"
  have chars: "\<forall>c\<in>set ?a. \<not> is_whitespace c \<and> c \<notin> set ''/?#''"
    using assms(1) port(2) unfolding host_for_url_ok [OF assms(1)]
    by (cases "CHR '':'' \<in> set h") (simp_all add: host_ok_def ball_Un is_whitespace_def)
  have "last (scheme @ ''://'' @ ?a) = last port" using port(1) by (simp add: last_append)
  moreover have "\<not> is_whitespace (last port)" using port last_in_set by blast
  moreover have "hd (scheme @ ''://'' @ ?a) \<in> {CHR ''w'', CHR ''h''}" using scheme by (elim disjE) simp_all
  then have "\<not> is_whitespace (hd (scheme @ ''://'' @ ?a))" by (elim insertE) (simp_all add: is_whitespace_def)
  ultimately have "trimmed (scheme @ ''://'' @ ?a)" unfolding trimmed_def by metis
  then have t: "trim (scheme @ ''://'' @ ?a) = scheme @ ''://'' @ ?a" by (rule trim_id)
  have w: "takeWhile (\<lambda>c. c \<noteq> CHR ''/'' \<and> c \<noteq> CHR ''?'' \<and> c \<noteq> CHR ''#'') ?a = ?a"
    by (rule takeWhile_all) (use chars in \<open>auto simp: list_all_iff\<close>)
  have sp: "strip_prefix (scheme @ ''://'') (scheme @ ''://'' @ ?a) = Some ?a"
    unfolding strip_prefix_iff append_assoc by (rule refl)
  show ?thesis
    unfolding parse_url_host_port_def t Let_def sp option.case w
    by (rule parse_authority_host [OF assms(1-4)])
qed

lemma control_url_parses: "host_ok h \<Longrightarrow> parse_url_host_port (control_url h) ''ws'' = Some (h, default_control_port)"
  using parse_url_of_host [of h "''40001''" 40001 "''ws''"]
  unfolding control_url_def show_ports
  by (simp add: parse_ports is_whitespace_def default_control_port_def)

lemma admin_url_parses: "host_ok h \<Longrightarrow> parse_url_host_port (admin_url h) ''http'' = Some (h, default_admin_port)"
  using parse_url_of_host [of h "''40002''" 40002 "''http''"]
  unfolding admin_url_def show_ports
  by (simp add: parse_ports is_whitespace_def default_admin_port_def)

lemma validate_control_url_ok: "host_ok h \<Longrightarrow> validate_control_url (control_url h) = Inr ()"
proof -
  assume h: "host_ok h"
  have "trimmed (control_url h)" by (simp add: control_url_def show_ports trimmed_def is_whitespace_def)
  then have "trim (control_url h) = control_url h" by simp
  then show ?thesis by (simp add: validate_control_url_def control_url_def starts_with_def strip_prefix_def)
qed

text \<open>C26. Server addresses: a server's name that the client accepts is in a normal form, with IPv6
  brackets and surrounding blanks removed; from the control URL built from it, and from the
  administration URL, exactly this name and the default port are read back, so the administration
  URL derived from the control URL is the one built from the name.\<close>

theorem accepted_hosts_round_trip:
  "case validate_server_host text of
     Inl err \<Rightarrow> True
   | Inr host \<Rightarrow>
       validate_server_host host = Inr host \<and>
       parse_url_host_port (control_url host) ''ws'' = Some (host, default_control_port) \<and>
       parse_url_host_port (admin_url host) ''http'' = Some (host, default_admin_port) \<and>
       validate_control_url (control_url host) = Inr () \<and>
       derive_admin_url_from_control (control_url host) = Some (admin_url host)"
proof (cases "validate_server_host text")
  case (Inr host)
  note ok = validate_host_ok [OF Inr]
  show ?thesis
    by (simp add: Inr host_ok_valid [OF ok] control_url_parses [OF ok] admin_url_parses [OF ok]
        validate_control_url_ok [OF ok] derive_admin_url_from_control_def)
qed simp

section \<open>Normalised endpoints\<close>

lemma clean_fields:
  "eo_server (clean_overrides c) = eo_server c"
  "eo_advanced_endpoints (clean_overrides c) = eo_advanced_endpoints c"
  "eo_control (clean_overrides c) = trim (eo_control c)"
  "eo_admin (clean_overrides c) = trimmed_option (eo_admin c)"
  by (simp_all add: clean_overrides_def Let_def)

lemma decide_fields:
  "eo_server (decide_advanced e c) = eo_server c"
  "eo_control (decide_advanced e c) = eo_control c"
  "eo_admin (decide_advanced e c) = eo_admin c"
  by (simp_all add: decide_advanced_def Let_def split: option.split)

text \<open>Saved endpoints: after normalisation either the separate endpoints are in force, and then they
  are the given ones, trimmed; or they are not, and then, if the server's name is accepted and can
  be resolved, all three addresses kept and all three addresses used are the ones of that name and
  no administration URL is kept. Nobody who switched separate endpoints on finds them off.\<close>

lemma normalized_endpoints_are_consistent:
  "let c' = normalize_endpoint_overrides resolve c
   in (if eo_advanced_endpoints c'
       then eo_server c' = eo_server c \<and> eo_control c' = trim (eo_control c) \<and>
            eo_admin c' = trimmed_option (eo_admin c) \<and>
            effective_server resolve c' = Inr (eo_server c)
       else \<not> eo_advanced_endpoints c \<and>
         (case validate_server_host (eo_server_host c') of
            Inl err \<Rightarrow> True
          | Inr host \<Rightarrow>
              eo_control c' = control_url host \<and> eo_admin c' = None \<and>
              effective_control c' = Inr (control_url host) \<and>
              effective_admin c' = Inr (admin_url host) \<and>
              (case resolve_server_audio_addr resolve host of
                 Inl err \<Rightarrow> eo_server c' = eo_server c
               | Inr a \<Rightarrow> eo_server c' = a \<and> effective_server resolve c' = Inr a)))"
proof -
  let ?d = "decide_advanced (trim (eo_server_host c) = []) (clean_overrides c)"
  have on: "eo_advanced_endpoints c \<Longrightarrow> eo_advanced_endpoints ?d"
    by (simp add: decide_advanced_def Let_def clean_fields)
  show ?thesis
  proof (cases "eo_advanced_endpoints ?d")
    case True
    then show ?thesis
      by (simp add: normalize_endpoint_overrides_def derive_endpoints_def decide_fields clean_fields
          effective_server_def)
  next
    case False
    with on show ?thesis
      by (auto simp: normalize_endpoint_overrides_def derive_endpoints_def decide_fields clean_fields
          effective_server_def effective_control_def effective_admin_def split: sum.splits)
  qed
qed

text \<open>A server's name other than the default one is overruled by a saved address that is not written
  the same way: one that was resolved from a name, or the address of the server used before, whose
  name was then replaced. The separate endpoints are switched on and the saved address is used.\<close>

lemma saved_address_overrules_the_name:
  assumes "host_ok (eo_server_host c)" "eo_server_host c \<noteq> default_server_host"
    "sa_ip (eo_server c) \<noteq> eo_server_host c" "eo_server c \<noteq> default_audio_addr"
  shows "effective_server resolve (normalize_endpoint_overrides resolve c) = Inr (eo_server c)"
proof -
  let ?h = "eo_server_host c"
  have v: "validate_server_host ?h = Inr ?h" by (rule host_ok_valid [OF assms(1)])
  have ne: "trim ?h \<noteq> []" using v by (auto simp: validate_server_host_def split: if_splits)
  have "eo_server_host (clean_overrides c) = ?h" using ne v by (simp add: clean_overrides_def Let_def)
  then have "eo_advanced_endpoints (decide_advanced (trim ?h = []) (clean_overrides c))"
    using assms(2,3,4) ne v
    by (simp add: decide_advanced_def Let_def clean_fields endpoint_fields_are_default_def)
  then show ?thesis
    by (simp add: normalize_endpoint_overrides_def derive_endpoints_def effective_server_def
        decide_fields clean_fields)
qed

section \<open>Channel lists are read back\<close>

lemma digits_value_append:
  "digits_value acc (a @ b) = Option.bind (digits_value acc a) (\<lambda>v. digits_value v b)"
  by (induction a arbitrary: acc) auto

lemma digit_value: "n < 10 \<Longrightarrow> digits_value acc [char_of (48 + n)] = Some (acc * 10 + n)"
  by (simp add: is_ascii_digit_def)

lemma digits_value_show: "\<exists>k. \<forall>acc. digits_value acc (show_nat n) = Some (acc * k + n)"
proof (induction n rule: show_nat.induct)
  case (1 n)
  show ?case
  proof (cases "n < 10")
    case True
    then show ?thesis using digit_value [OF True] by (subst show_nat.simps) auto
  next
    case False
    with 1 obtain k where k: "digits_value acc (show_nat (n div 10)) = Some (acc * k + n div 10)" for acc
      by blast
    have "digits_value acc (show_nat n) = Some (acc * (k * 10) + n)" for acc
      using False digit_value [of "n mod 10"]
      by (subst show_nat.simps) (simp add: digits_value_append k algebra_simps)
    then show ?thesis by blast
  qed
qed

lemma show_nat_ne: "show_nat n \<noteq> []"
  by (subst show_nat.simps) simp

lemma digits_only: "digits_value acc s = Some v \<Longrightarrow> c \<in> set s \<Longrightarrow> is_ascii_digit c"
  by (induction s arbitrary: acc) (auto split: if_splits)

lemma show_nat_digits: "c \<in> set (show_nat n) \<Longrightarrow> is_ascii_digit c"
  using digits_value_show [of n] digits_only by blast

lemma parse_show: "parse_u16 (show_word (c :: u16)) = Some c"
proof -
  let ?s = "show_word c"
  have ne: "?s \<noteq> []" by (rule show_nat_ne)
  have plus: "hd ?s \<noteq> CHR ''+''"
    using show_nat_digits [of "hd ?s" "unat c"] hd_in_set [OF ne] by (auto simp: is_ascii_digit_def)
  obtain k where "digits_value 0 ?s = Some (0 * k + unat c)" using digits_value_show [of "unat c"] by blast
  moreover have "unat c < 65536" using unsigned_less [of c] by simp
  ultimately show ?thesis
    using ne plus by (cases ?s) (simp_all add: parse_u16_def parse_unsigned_def)
qed

lemma split_on_join:
  "xs \<noteq> [] \<Longrightarrow> (\<And>x. x \<in> set xs \<Longrightarrow> d \<notin> set x) \<Longrightarrow> split_on d (join [d] xs) = xs"
  by (induction xs rule: induct_list012) (simp_all add: split_on_single split_on_append)

lemma in_dropWhile: "c \<in> set s \<Longrightarrow> \<not> P c \<Longrightarrow> c \<in> set (dropWhile P s)"
  by (metis Un_iff set_append set_takeWhileD takeWhile_dropWhile_id)

lemma trim_nonempty: "c \<in> set s \<Longrightarrow> \<not> is_whitespace c \<Longrightarrow> trim s \<noteq> []"
  using in_dropWhile [of c s is_whitespace] in_dropWhile [of c "rev (dropWhile is_whitespace s)" is_whitespace]
  by (auto simp: trim_def trim_end_def trim_start_def)

lemma parse_parts_show: "parse_parts (map show_word cs) = Inr cs"
proof (induction cs)
  case (Cons c cs)
  have "trimmed (show_word c)"
    using show_nat_ne [of "unat c"] show_nat_digits [of "hd (show_word c)" "unat c"]
      show_nat_digits [of "last (show_word c)" "unat c"]
    by (auto simp: trimmed_def is_ascii_digit_def is_whitespace_def Let_def)
  then have "trim (show_word c) = show_word c" by simp
  with Cons show ?case by (simp add: parse_show)
qed simp

text \<open>A printed channel list is read back, unless it is empty: that is printed as a dash.\<close>

lemma parse_format_channels: "cs \<noteq> [] \<Longrightarrow> parse_channels (format_channels cs) = Inr cs"
proof -
  assume cs: "cs \<noteq> []"
  let ?t = "join '','' (map show_word cs)"
  have "split_on CHR '','' ?t = map show_word cs"
    using cs show_nat_digits by (intro split_on_join) (fastforce simp: is_ascii_digit_def)+
  moreover have "trim ?t \<noteq> []"
  proof -
    have "hd (show_word (hd cs)) \<in> set ?t"
      using cs show_nat_ne [of "unat (hd cs)"]
      by (cases cs rule: remdups_adj.cases) auto
    moreover have "is_ascii_digit (hd (show_word (hd cs)))"
      using show_nat_digits hd_in_set [OF show_nat_ne] by blast
    then have "\<not> is_whitespace (hd (show_word (hd cs)))"
      by (auto simp: is_ascii_digit_def is_whitespace_def Let_def)
    ultimately show ?thesis using trim_nonempty by blast
  qed
  ultimately show ?thesis using cs by (simp add: parse_channels_def format_channels_def parse_parts_show)
qed

lemma empty_channel_list_is_not_read_back: "parse_channels (format_channels []) \<noteq> Inr []"
  by (simp add: parse_channels_def format_channels_def parse_u16_def parse_unsigned_def
      is_ascii_digit_def trim_def trim_end_def trim_start_def is_whitespace_def)

end
