(* ===== verification/Client_Api.thy ===== *)
theory Client_Api
  imports Client_Core Client_Endpoints
begin

text \<open>
  The operations a client offers to its local user (\<open>clients/desktop/src/lib.rs\<close>, with
  \<open>clients/core/src/ui.rs\<close>): the local API, whose requests are checked against the lockout and
  forwarded to the server (\<open>LocalClientApi\<close>), its queued variants, which change the local
  configuration at once and do not wait for the server, and the commands read from standard input.
  The HTTP routes, the terminal and the tasks around them are not modelled.
\<close>

section \<open>Errors and lockout\<close>

datatype api_error = ApiBadRequest string | ApiUnavailable string

fun api_error_text :: "api_error \<Rightarrow> string" where
  "api_error_text (ApiBadRequest e) = e"
| "api_error_text (ApiUnavailable e) = e"

fun api_error_status :: "api_error \<Rightarrow> nat" where
  "api_error_status (ApiBadRequest _) = 400"
| "api_error_status (ApiUnavailable _) = 503"

definition ensure_policy_allowed ::
  "client_lockout_policy \<Rightarrow> (client_lockout_policy \<Rightarrow> bool) \<Rightarrow> string \<Rightarrow> api_error + unit" where
  "ensure_policy_allowed lockout allowed label =
     (if allowed lockout then Inr () else Inl (ApiBadRequest (label @ '' locked by admin'')))"

definition ensure_local_api_allowed :: "client_config \<Rightarrow> api_error + unit" where
  "ensure_local_api_allowed cfg =
     ensure_policy_allowed (cc_lockout cfg) lo_allow_local_api ''local API controls''"

definition client_ensure_control_allowed ::
  "client_config \<Rightarrow> (client_lockout_policy \<Rightarrow> bool) \<Rightarrow> string \<Rightarrow> api_error + unit" where
  "client_ensure_control_allowed cfg allowed label =
     (case ensure_local_api_allowed cfg of
        Inl e \<Rightarrow> Inl e
      | Inr _ \<Rightarrow> ensure_policy_allowed (cc_lockout cfg) allowed label)"

record full_config_request =
  fr_listen :: "channel_id list"
  fr_tx :: "channel_id list"
  fr_vol :: "(channel_id, f32) hash_map"
  fr_talker_vol :: "(user_id, f32) hash_map"
  fr_codec :: codec
  fr_opus_profile :: opus_profile
  fr_talk_mode :: talk_mode
  fr_priority :: bool
  fr_priority_channels :: "channel_id list"
  fr_ifb :: ifb_config

definition validate_full_config_allowed ::
  "client_config \<Rightarrow> full_config_request \<Rightarrow> api_error + unit" where
  "validate_full_config_allowed cfg fr =
     (let lo = cc_lockout cfg
      in if \<not> lo_allow_channels lo \<and>
            (\<not> same_channels (fr_listen fr) (cc_listen cfg) \<or> \<not> same_channels (fr_tx fr) (cc_tx cfg))
         then Inl (ApiBadRequest ''channels locked by admin'')
         else if \<not> lo_allow_volumes lo \<and>
            (\<not> volumes_eq (fr_vol fr) (cc_vol cfg) \<or> \<not> volumes_eq (fr_talker_vol fr) (cc_talker_vol cfg))
         then Inl (ApiBadRequest ''volumes locked by admin'')
         else if \<not> lo_allow_codec lo \<and> fr_codec fr \<noteq> cc_codec cfg
         then Inl (ApiBadRequest ''codec locked by admin'')
         else if \<not> lo_allow_talk_mode lo \<and> fr_talk_mode fr \<noteq> cc_talk_mode cfg
         then Inl (ApiBadRequest ''talk mode locked by admin'')
         else if \<not> lo_allow_priority lo \<and>
            (fr_priority fr \<noteq> cc_priority cfg \<or>
             \<not> same_channels (fr_priority_channels fr) (cc_priority_channels cfg))
         then Inl (ApiBadRequest ''priority locked by admin'')
         else if \<not> lo_allow_ifb lo \<and> \<not> ifb_eq (fr_ifb fr) (cc_ifb cfg)
         then Inl (ApiBadRequest ''IFB locked by admin'')
         else Inr ())"

definition full_config :: "full_config_request \<Rightarrow> config_request" where
  "full_config fr =
     \<lparr>cr_role = None, cr_name = None, cr_listen = fr_listen fr, cr_tx = fr_tx fr, cr_vol = fr_vol fr,
      cr_talker_vol = Some (fr_talker_vol fr), cr_codec = Some (fr_codec fr),
      cr_opus_profile = Some (fr_opus_profile fr), cr_talk_mode = Some (fr_talk_mode fr),
      cr_priority = Some (fr_priority fr), cr_priority_channels = Some (fr_priority_channels fr),
      cr_processing = None, cr_buttons = None, cr_ifb = Some (fr_ifb fr), cr_stereo = None,
      cr_esp32_audio = None\<rparr>"

definition control_messages :: "full_config_request \<Rightarrow> user_id \<Rightarrow> control_message list" where
  "control_messages fr u = [Config u (full_config fr), Priority u (fr_priority fr)]"

section \<open>Requests that wait for the server\<close>

text \<open>What comes of a message handed to the control task.\<close>

datatype forward_outcome = NoConnection | NoResponse | Answered control_response

definition forward_control_message ::
  "(control_response \<Rightarrow> string) \<Rightarrow> forward_outcome \<Rightarrow> api_error + unit" where
  "forward_control_message show_response outcome =
     (case outcome of
        NoConnection \<Rightarrow> Inl (ApiUnavailable ''control connection is not available'')
      | NoResponse \<Rightarrow> Inl (ApiUnavailable ''control response channel closed'')
      | Answered Ack \<Rightarrow> Inr ()
      | Answered (Error message) \<Rightarrow> Inl (ApiBadRequest message)
      | Answered other \<Rightarrow>
          Inl (ApiBadRequest (''unexpected control response: '' @ show_response other)))"

text \<open>Messages are forwarded one after the other, up to the first that fails; the result has those
  that were handed over.\<close>

fun forward_all ::
  "(control_response \<Rightarrow> string) \<Rightarrow> (control_message \<Rightarrow> forward_outcome) \<Rightarrow> control_message list \<Rightarrow>
     control_message list \<times> (api_error + unit)" where
  "forward_all show_response answer [] = ([], Inr ())"
| "forward_all show_response answer (m # ms) =
     (case forward_control_message show_response (answer m) of
        Inl e \<Rightarrow> ([m], Inl e)
      | Inr _ \<Rightarrow>
          (case forward_all show_response answer ms of (sent, r) \<Rightarrow> (m # sent, r)))"

text \<open>The messages of each request, or the error of the check before them.\<close>

definition if_local_api :: "client_config \<Rightarrow> api_error + 'a \<Rightarrow> api_error + 'a" where
  "if_local_api cfg r = (case ensure_local_api_allowed cfg of Inl e \<Rightarrow> Inl e | Inr _ \<Rightarrow> r)"

definition if_allowed ::
  "client_config \<Rightarrow> (client_lockout_policy \<Rightarrow> bool) \<Rightarrow> string \<Rightarrow> api_error + 'a \<Rightarrow> api_error + 'a" where
  "if_allowed cfg allowed label r =
     (case client_ensure_control_allowed cfg allowed label of Inl e \<Rightarrow> Inl e | Inr _ \<Rightarrow> r)"

definition api_apply_config ::
  "full_config_request \<Rightarrow> client_config \<Rightarrow> api_error + control_message list" where
  "api_apply_config fr cfg = if_local_api cfg
     (case validate_full_config_allowed cfg fr of
        Inl e \<Rightarrow> Inl e
      | Inr _ \<Rightarrow> Inr (control_messages fr (cc_user_id cfg)))"

definition send_talk_mode :: "talk_mode \<Rightarrow> client_config \<Rightarrow> api_error + control_message list" where
  "send_talk_mode mode cfg = if_local_api cfg (Inr [TalkMode (cc_user_id cfg) mode])"

definition send_regular_talk :: "bool \<Rightarrow> client_config \<Rightarrow> api_error + control_message list" where
  "send_regular_talk active cfg = if_local_api cfg (Inr [Talk (cc_user_id cfg) active])"

definition api_set_talk_mode :: "talk_mode \<Rightarrow> client_config \<Rightarrow> api_error + control_message list" where
  "api_set_talk_mode mode cfg = if_allowed cfg lo_allow_talk_mode ''talk mode'' (send_talk_mode mode cfg)"

definition api_mute :: "client_config \<Rightarrow> api_error + control_message list" where
  "api_mute cfg = if_allowed cfg lo_allow_talk_mode ''talk mode'' (send_talk_mode Muted cfg)"

definition api_unmute :: "client_config \<Rightarrow> api_error + control_message list" where
  "api_unmute cfg = if_allowed cfg lo_allow_talk_mode ''talk mode''
     (send_talk_mode (restored_unmute_talk_mode cfg) cfg)"

definition api_talk :: "bool \<Rightarrow> client_config \<Rightarrow> api_error + control_message list" where
  "api_talk active cfg = if_allowed cfg (\<lambda>_. True) ''talk'' (send_regular_talk active cfg)"

definition api_talk_toggle :: "client_config \<Rightarrow> api_error + control_message list" where
  "api_talk_toggle cfg = if_local_api cfg (send_regular_talk (\<not> cc_regular_talk_active cfg) cfg)"

definition api_set_codec :: "codec \<Rightarrow> client_config \<Rightarrow> api_error + control_message list" where
  "api_set_codec codec cfg = if_allowed cfg lo_allow_codec ''codec''
     (Inr [AudioCodec (cc_user_id cfg) codec])"

definition api_set_gain ::
  "f32 option \<Rightarrow> f32 option \<Rightarrow> client_config \<Rightarrow> audio_settings \<Rightarrow> audio_settings \<times> (api_error + unit)" where
  "api_set_gain mic speaker cfg settings =
     (case ensure_local_api_allowed cfg of
        Inl e \<Rightarrow> (settings, Inl e)
      | Inr _ \<Rightarrow>
          let settings = (case mic of None \<Rightarrow> settings
                          | Some g \<Rightarrow> settings\<lparr>as_mic_gain := clamp_runtime_gain g\<rparr>)
          in (case speaker of None \<Rightarrow> settings
              | Some g \<Rightarrow> settings\<lparr>as_speaker_gain := clamp_runtime_gain g\<rparr>, Inr ()))"

definition send_button :: "button_id \<Rightarrow> bool \<Rightarrow> client_config \<Rightarrow> api_error + control_message list" where
  "send_button b pressed cfg = if_allowed cfg lo_allow_buttons ''buttons''
     (Inr [Button (cc_user_id cfg) b pressed])"

definition send_direct_call ::
  "user_id \<Rightarrow> bool \<Rightarrow> bool \<Rightarrow> client_config \<Rightarrow> api_error + control_message list" where
  "send_direct_call target active duck cfg = if_local_api cfg
     (Inr [DirectCall (cc_user_id cfg) target active duck])"

definition calls :: "client_config \<Rightarrow> user_id \<Rightarrow> bool" where
  "calls cfg target =
     list_ex (\<lambda>c. dcs_caller c = cc_user_id cfg \<and> dcs_target c = target \<and> dcs_active c)
       (cc_active_direct_calls cfg)"

definition api_call_toggle :: "user_id \<Rightarrow> client_config \<Rightarrow> api_error + control_message list" where
  "api_call_toggle target cfg = if_local_api cfg
     (send_direct_call target (\<not> calls cfg target) False cfg)"

definition send_reply_call :: "bool \<Rightarrow> bool \<Rightarrow> client_config \<Rightarrow> api_error + control_message list" where
  "send_reply_call active duck cfg = if_local_api cfg (Inr [ReplyCall (cc_user_id cfg) active duck])"

definition api_reply_toggle :: "client_config \<Rightarrow> api_error + control_message list" where
  "api_reply_toggle cfg = if_local_api cfg
     (case cc_last_direct_caller cfg of
        None \<Rightarrow> Inl (ApiBadRequest ''no last direct caller to reply to'')
      | Some target \<Rightarrow> send_reply_call (\<not> calls cfg target) False cfg)"

definition api_send_alert ::
  "alert_target \<Rightarrow> string option \<Rightarrow> client_config \<Rightarrow> api_error + control_message list" where
  "api_send_alert target message cfg = if_local_api cfg
     (Inr [SendAlert (cc_user_id cfg) target message])"

definition api_ack_alert :: "alert_id \<Rightarrow> client_config \<Rightarrow> api_error + control_message list" where
  "api_ack_alert i cfg = if_local_api cfg (Inr [AckAlert (cc_user_id cfg) i])"

definition api_cancel_alert :: "alert_id \<Rightarrow> client_config \<Rightarrow> api_error + control_message list" where
  "api_cancel_alert i cfg = if_local_api cfg (Inr [CancelAlert (cc_user_id cfg) i])"

datatype local_request =
    ApplyConfig full_config_request
  | ChangeTalkMode talk_mode
  | Mute
  | Unmute
  | TalkDown
  | TalkUp
  | TalkToggle
  | ChangeCodec codec
  | ButtonDown button_id
  | ButtonUp button_id
  | ButtonToggle button_id
  | CallDown user_id
  | CallUp user_id
  | CallToggle user_id
  | ReplyDown
  | ReplyUp
  | ReplyToggle
  | RaiseAlert alert_target "string option"
  | AcknowledgeAlert alert_id
  | WithdrawAlert alert_id

text \<open>The handlers of the trait \<open>ClientControlApi\<close> and of the routes; a toggle of a button is a press.\<close>

fun requested_messages :: "local_request \<Rightarrow> client_config \<Rightarrow> api_error + control_message list" where
  "requested_messages (ApplyConfig fr) = api_apply_config fr"
| "requested_messages (ChangeTalkMode mode) = api_set_talk_mode mode"
| "requested_messages Mute = api_mute"
| "requested_messages Unmute = api_unmute"
| "requested_messages TalkDown = api_talk True"
| "requested_messages TalkUp = api_talk False"
| "requested_messages TalkToggle = api_talk_toggle"
| "requested_messages (ChangeCodec codec) = api_set_codec codec"
| "requested_messages (ButtonDown b) = send_button b True"
| "requested_messages (ButtonUp b) = send_button b False"
| "requested_messages (ButtonToggle b) = send_button b True"
| "requested_messages (CallDown u) = send_direct_call u True False"
| "requested_messages (CallUp u) = send_direct_call u False False"
| "requested_messages (CallToggle u) = api_call_toggle u"
| "requested_messages ReplyDown = send_reply_call True False"
| "requested_messages ReplyUp = send_reply_call False False"
| "requested_messages ReplyToggle = api_reply_toggle"
| "requested_messages (RaiseAlert t m) = api_send_alert t m"
| "requested_messages (AcknowledgeAlert i) = api_ack_alert i"
| "requested_messages (WithdrawAlert i) = api_cancel_alert i"

definition local_call ::
  "(control_response \<Rightarrow> string) \<Rightarrow> (control_message \<Rightarrow> forward_outcome) \<Rightarrow> local_request \<Rightarrow>
     client_config \<Rightarrow> control_message list \<times> (api_error + unit)" where
  "local_call show_response answer r cfg =
     (case requested_messages r cfg of
        Inl e \<Rightarrow> ([], Inl e)
      | Inr ms \<Rightarrow> forward_all show_response answer ms)"

section \<open>Requests that are queued\<close>

text \<open>The configuration is changed first, whatever becomes of the message.\<close>

datatype queue_outcome = Queued | QueueFull | QueueClosed

fun try_queue_control_message :: "queue_outcome \<Rightarrow> api_error + unit" where
  "try_queue_control_message Queued = Inr ()"
| "try_queue_control_message QueueFull = Inl (ApiUnavailable ''control command queue is full'')"
| "try_queue_control_message QueueClosed =
     Inl (ApiUnavailable ''control connection is not available'')"

type_synonym queued_request = "client_config \<Rightarrow> api_error + client_config \<times> control_message"

definition queue_set_talk_mode :: "talk_mode \<Rightarrow> queued_request" where
  "queue_set_talk_mode mode cfg = if_allowed cfg lo_allow_talk_mode ''talk mode''
     (let cfg = set_talk_mode mode cfg;
          cfg = (if mode = Muted then cfg\<lparr>cc_regular_talk_active := False\<rparr> else cfg)
      in Inr (cfg, TalkMode (cc_user_id cfg) mode))"

definition queue_unmute :: queued_request where
  "queue_unmute cfg = if_allowed cfg lo_allow_talk_mode ''talk mode''
     (let mode = restored_unmute_talk_mode cfg
      in Inr (set_talk_mode mode cfg, TalkMode (cc_user_id cfg) mode))"

definition queue_talk :: "bool \<Rightarrow> queued_request" where
  "queue_talk active cfg = if_local_api cfg
     (Inr (cfg\<lparr>cc_regular_talk_active := active\<rparr>, Talk (cc_user_id cfg) active))"

definition queue_talk_toggle :: queued_request where
  "queue_talk_toggle cfg = if_local_api cfg (queue_talk (\<not> cc_regular_talk_active cfg) cfg)"

definition queue_set_codec :: "codec \<Rightarrow> queued_request" where
  "queue_set_codec codec cfg = if_allowed cfg lo_allow_codec ''codec''
     (Inr (cfg\<lparr>cc_codec := codec\<rparr>, AudioCodec (cc_user_id cfg) codec))"

definition set_active_button :: "button_id \<Rightarrow> bool \<Rightarrow> button_id list \<Rightarrow> button_id list" where
  "set_active_button b active bs =
     (if active then (if b \<in> set bs then bs else bs @ [b]) else filter (\<lambda>x. x \<noteq> b) bs)"

definition queue_button :: "button_id \<Rightarrow> bool \<Rightarrow> queued_request" where
  "queue_button b pressed cfg = if_allowed cfg lo_allow_buttons ''buttons''
     (case find (\<lambda>x. btn_id x = b) (cc_buttons cfg) of
        None \<Rightarrow> Inl (ApiBadRequest (''unknown button `'' @ b @ ''`''))
      | Some button \<Rightarrow>
          let was_active = b \<in> set (cc_active_buttons cfg);
              now_active = (case btn_mode button of
                 Momentary \<Rightarrow> pressed
               | Latching \<Rightarrow> if pressed then \<not> was_active else was_active)
          in Inr (cfg\<lparr>cc_active_buttons := set_active_button b now_active (cc_active_buttons cfg)\<rparr>,
                  Button (cc_user_id cfg) b pressed))"

fun activate_call :: "user_id \<Rightarrow> user_id \<Rightarrow> bool \<Rightarrow> direct_call_status list \<Rightarrow> direct_call_status list" where
  "activate_call u target duck [] =
     [\<lparr>dcs_caller = u, dcs_caller_name = None, dcs_target = target, dcs_target_name = None,
       dcs_active = True, dcs_duck = duck\<rparr>]"
| "activate_call u target duck (c # cs) =
     (if dcs_caller c = u \<and> dcs_target c = target
      then c\<lparr>dcs_active := True, dcs_duck := duck\<rparr> # cs
      else c # activate_call u target duck cs)"

definition set_active_direct_call :: "user_id \<Rightarrow> bool \<Rightarrow> bool \<Rightarrow> client_config \<Rightarrow> client_config" where
  "set_active_direct_call target active duck cfg =
     cfg\<lparr>cc_active_direct_calls :=
       (if active then activate_call (cc_user_id cfg) target duck (cc_active_direct_calls cfg)
        else filter (\<lambda>c. \<not> (dcs_caller c = cc_user_id cfg \<and> dcs_target c = target))
               (cc_active_direct_calls cfg))\<rparr>"

definition queue_direct_call :: "user_id \<Rightarrow> bool \<Rightarrow> bool \<Rightarrow> queued_request" where
  "queue_direct_call target active duck cfg = if_local_api cfg
     (Inr (set_active_direct_call target active duck cfg,
           DirectCall (cc_user_id cfg) target active duck))"

definition queue_direct_call_toggle :: "user_id \<Rightarrow> queued_request" where
  "queue_direct_call_toggle target cfg = if_local_api cfg
     (queue_direct_call target (\<not> calls cfg target) False cfg)"

definition queue_reply_call :: "bool \<Rightarrow> bool \<Rightarrow> queued_request" where
  "queue_reply_call active duck cfg = if_local_api cfg
     (case cc_last_direct_caller cfg of
        None \<Rightarrow> Inl (ApiBadRequest ''no last direct caller to reply to'')
      | Some target \<Rightarrow>
          Inr (set_active_direct_call target active duck cfg, ReplyCall (cc_user_id cfg) active duck))"

definition queue_reply_toggle :: queued_request where
  "queue_reply_toggle cfg = if_local_api cfg
     (case cc_last_direct_caller cfg of
        None \<Rightarrow> Inl (ApiBadRequest ''no last direct caller to reply to'')
      | Some target \<Rightarrow> queue_reply_call (\<not> calls cfg target) False cfg)"

definition queue_send_alert :: "alert_target \<Rightarrow> string option \<Rightarrow> queued_request" where
  "queue_send_alert target message cfg = if_local_api cfg
     (Inr (cfg, SendAlert (cc_user_id cfg) target message))"

definition queue_ack_alert :: "alert_id \<Rightarrow> queued_request" where
  "queue_ack_alert i cfg = if_local_api cfg
     (Inr (cfg\<lparr>cc_active_alerts := filter (\<lambda>a. as_id a \<noteq> i) (cc_active_alerts cfg)\<rparr>,
           AckAlert (cc_user_id cfg) i))"

definition queue_cancel_alert :: "alert_id \<Rightarrow> queued_request" where
  "queue_cancel_alert i cfg = if_local_api cfg
     (Inr (cfg\<lparr>cc_active_alerts := filter (\<lambda>a. as_id a \<noteq> i) (cc_active_alerts cfg)\<rparr>,
           CancelAlert (cc_user_id cfg) i))"

definition queue_request ::
  "queue_outcome \<Rightarrow> queued_request \<Rightarrow> client_config \<Rightarrow>
     client_config \<times> (api_error + unit) \<times> control_message list" where
  "queue_request outcome request cfg =
     (case request cfg of
        Inl e \<Rightarrow> (cfg, Inl e, [])
      | Inr (cfg', m) \<Rightarrow>
          (cfg', try_queue_control_message outcome, if outcome = Queued then [m] else []))"

section \<open>Commands\<close>

text \<open>\<open>str::parse::<f32>\<close>: an optional sign; \<open>inf\<close>, \<open>infinity\<close> or \<open>nan\<close> in any case; or decimal
  digits with an optional fraction and exponent, rounded once.\<close>

definition decimal_parts :: "string \<Rightarrow> string \<times> string option" where
  "decimal_parts s =
     (let mantissa = takeWhile (\<lambda>c. c \<noteq> CHR ''e'') s
      in (mantissa, if CHR ''e'' \<in> set s then Some (drop (length mantissa + 1) s) else None))"

definition parse_exponent :: "string \<Rightarrow> int option" where
  "parse_exponent s =
     (let (negative, ds) = (case s of
            c # cs \<Rightarrow> if c = CHR ''-'' then (True, cs) else if c = CHR ''+'' then (False, cs) else (False, s)
          | [] \<Rightarrow> (False, s))
      in if ds = [] then None
         else map_option (\<lambda>n. if negative then - int n else int n) (digits_value 0 ds))"

definition parse_mantissa :: "string \<Rightarrow> rat option" where
  "parse_mantissa s =
     (let whole = takeWhile (\<lambda>c. c \<noteq> CHR ''.'') s;
          frac = drop (length whole + 1) s
      in if whole = [] \<and> frac = [] then None
         else map_option (\<lambda>n. of_nat n / 10 ^ length frac) (digits_value 0 (whole @ frac)))"

definition parse_decimal :: "string \<Rightarrow> rat option" where
  "parse_decimal s =
     (case decimal_parts s of
        (mantissa, None) \<Rightarrow> parse_mantissa mantissa
      | (mantissa, Some ex) \<Rightarrow>
          (case (parse_mantissa mantissa, parse_exponent ex) of
             (Some m, Some e) \<Rightarrow> Some (if e \<ge> 0 then m * 10 ^ nat e else m / 10 ^ nat (- e))
           | _ \<Rightarrow> None))"

definition parse_f32 :: "string \<Rightarrow> f32 option" where
  "parse_f32 text =
     (let (negative, s) = (case text of
            c # cs \<Rightarrow> if c = CHR ''-'' then (True, cs) else if c = CHR ''+'' then (False, cs) else (False, text)
          | [] \<Rightarrow> (False, text));
          s = to_ascii_lowercase s
      in if s = ''nan'' then Some NaN
         else if s = ''inf'' \<or> s = ''infinity'' then Some (if negative then NInf else PInf)
         else map_option (\<lambda>x. rnd binary32 (if negative then - x else x)) (parse_decimal s))"

definition split_once :: "char \<Rightarrow> string \<Rightarrow> (string \<times> string) option" where
  "split_once d s =
     (if d \<in> set s then let a = takeWhile (\<lambda>c. c \<noteq> d) s in Some (a, drop (length a + 1) s) else None)"

fun parse_volume_entries ::
  "string list \<Rightarrow> (channel_id, f32) hash_map \<Rightarrow> string + (channel_id, f32) hash_map" where
  "parse_volume_entries [] vol = Inr vol"
| "parse_volume_entries (entry # es) vol =
     (case split_once CHR ''='' entry of
        None \<Rightarrow> Inl (''invalid volume `'' @ entry @ ''`, expected channel=gain'')
      | Some (channel, gain) \<Rightarrow>
          (case (parse_u16 (trim channel), parse_f32 (trim gain)) of
             (None, _) \<Rightarrow> Inl (''invalid channel `'' @ channel @ ''`'')
           | (Some c, None) \<Rightarrow> Inl (''invalid gain `'' @ gain @ ''`'')
           | (Some c, Some g) \<Rightarrow> parse_volume_entries es (hm_insert c g vol)))"

definition parse_volumes :: "string \<Rightarrow> string + (channel_id, f32) hash_map" where
  "parse_volumes text =
     (if trim text = [] then Inr [] else parse_volume_entries (split_on CHR '','' text) [])"

datatype command_update =
    SendConfig
  | SendTalkMode
  | SendTalk bool
  | SendButton button_id bool
  | SendDirectCall user_id bool bool
  | SendReplyCall bool bool
  | Show

definition parse_bool :: "string \<Rightarrow> string + bool" where
  "parse_bool text =
     (let v = trim text
      in if v \<in> {''on'', ''true'', ''1''} then Inr True
         else if v \<in> {''off'', ''false'', ''0''} then Inr False
         else Inl (''invalid boolean `'' @ v @ ''`, expected on/off''))"

definition parse_talk_mode :: "string \<Rightarrow> string + talk_mode" where
  "parse_talk_mode text =
     (let v = to_ascii_lowercase (trim text)
      in if v = ''muted'' \<or> v = ''mute'' then Inr Muted
         else if v = ''ptt'' then Inr Ptt
         else if v = ''open'' then Inr Open
         else Inl (''invalid talk mode `'' @ v @ ''`, expected muted, ptt, or open''))"

definition parse_action_active :: "string \<Rightarrow> string + bool" where
  "parse_action_active action =
     (if action \<in> {''down'', ''press'', ''on'', ''toggle''} then Inr True
      else if action \<in> {''up'', ''release'', ''off''} then Inr False
      else Inl (''invalid action `'' @ action @ ''`, expected down/up/toggle''))"

definition parse_duck_flag :: "string option \<Rightarrow> string + bool" where
  "parse_duck_flag flag =
     (let v = (case flag of Some v \<Rightarrow> v | None \<Rightarrow> ''no-duck'')
      in if v = ''duck'' then Inr True
         else if v = ''no-duck'' then Inr False
         else Inl (''invalid duck flag `'' @ v @ ''`, expected duck or no-duck''))"

definition parse_button_command :: "client_config \<Rightarrow> string \<Rightarrow> string + command_update" where
  "parse_button_command cfg rest =
     (case split_whitespace rest of
        [] \<Rightarrow> Inl ''button command requires a button id''
      | [b] \<Rightarrow> Inl ''button command requires down, up, or toggle''
      | b # action # extra \<Rightarrow>
          if extra \<noteq> [] then Inl ''button command accepts exactly: button <id> down|up|toggle''
          else if \<not> button_known cfg b then Inl (''unknown button `'' @ b @ ''`'')
          else if action \<in> {''down'', ''press'', ''on'', ''toggle''} then Inr (SendButton b True)
          else if action \<in> {''up'', ''release'', ''off''} then Inr (SendButton b False)
          else Inl (''invalid button action `'' @ action @ ''`, expected down/up/toggle''))"

text \<open>The action and the optional flag that end a call command; \<open>usage\<close> is its error for more.\<close>

definition parse_call_rest :: "string \<Rightarrow> string \<Rightarrow> string list \<Rightarrow> string + bool \<times> bool" where
  "parse_call_rest missing usage parts =
     (case parts of
        [] \<Rightarrow> Inl missing
      | action # extra \<Rightarrow>
          (case parse_duck_flag (case extra of [] \<Rightarrow> None | flag # _ \<Rightarrow> Some flag) of
             Inl e \<Rightarrow> Inl e
           | Inr duck \<Rightarrow>
               if length extra > 1 then Inl usage
               else (case parse_action_active action of
                       Inl e \<Rightarrow> Inl e | Inr active \<Rightarrow> Inr (active, duck))))"

definition parse_direct_call_command :: "string \<Rightarrow> string + command_update" where
  "parse_direct_call_command rest =
     (case split_whitespace rest of
        [] \<Rightarrow> Inl ''call command requires a target user id''
      | target # parts \<Rightarrow>
          (case parse_u16 target of
             None \<Rightarrow> Inl ''call target must be a user id''
           | Some u \<Rightarrow>
               (case parse_call_rest ''call command requires down, up, or toggle''
                       ''call command accepts exactly: call <user> down|up|toggle [duck|no-duck]'' parts of
                  Inl e \<Rightarrow> Inl e
                | Inr (active, duck) \<Rightarrow> Inr (SendDirectCall u active duck))))"

definition parse_reply_call_command :: "string \<Rightarrow> string + command_update" where
  "parse_reply_call_command rest =
     (case parse_call_rest ''reply command requires down, up, or toggle''
             ''reply command accepts exactly: reply down|up|toggle [duck|no-duck]''
             (split_whitespace rest) of
        Inl e \<Rightarrow> Inl e
      | Inr (active, duck) \<Rightarrow> Inr (SendReplyCall active duck))"

definition with_parsed ::
  "string + 'a \<Rightarrow> ('a \<Rightarrow> client_config \<times> command_update) \<Rightarrow> client_config \<Rightarrow>
     client_config \<times> (string + command_update)" where
  "with_parsed r f cfg =
     (case r of Inl e \<Rightarrow> (cfg, Inl e) | Inr v \<Rightarrow> (case f v of (cfg', u) \<Rightarrow> (cfg', Inr u)))"

definition apply_runtime_command ::
  "client_config \<Rightarrow> string \<Rightarrow> client_config \<times> (string + command_update)" where
  "apply_runtime_command cfg command =
     (case split_whitespace command of
        [] \<Rightarrow> (cfg, Inr Show)
      | name # parts \<Rightarrow>
          let rest = join '' '' parts
          in if name = ''tx''
             then with_parsed (parse_channels rest) (\<lambda>cs. (cfg\<lparr>cc_tx := cs\<rparr>, SendConfig)) cfg
             else if name = ''listen''
             then with_parsed (parse_channels rest) (\<lambda>cs. (cfg\<lparr>cc_listen := cs\<rparr>, SendConfig)) cfg
             else if name = ''vol''
             then with_parsed (parse_volumes rest) (\<lambda>v. (cfg\<lparr>cc_vol := v\<rparr>, SendConfig)) cfg
             else if name = ''mute''
             then ((set_talk_mode Muted cfg)\<lparr>cc_regular_talk_active := False\<rparr>, Inr SendTalkMode)
             else if name = ''unmute''
             then (set_talk_mode (restored_unmute_talk_mode cfg) cfg, Inr SendTalkMode)
             else if name = ''talk-mode'' \<or> name = ''mode''
             then with_parsed (parse_talk_mode rest) (\<lambda>m. (set_talk_mode m cfg, SendTalkMode)) cfg
             else if name = ''talk''
             then with_parsed (parse_bool rest)
                    (\<lambda>active. (cfg\<lparr>cc_regular_talk_active := active\<rparr>, SendTalk active)) cfg
             else if name = ''button'' then (cfg, parse_button_command cfg rest)
             else if name = ''call'' then (cfg, parse_direct_call_command rest)
             else if name = ''reply'' then (cfg, parse_reply_call_command rest)
             else if name \<in> {''buttons'', ''calls'', ''show'', ''help''} then (cfg, Inr Show)
             else (cfg, Inl (''unknown command `'' @ name @ ''`'')))"

text \<open>The message the command loop sends for an update; after an answer other than \<open>Ack\<close> it ends.\<close>

fun command_message :: "command_update \<Rightarrow> client_config \<Rightarrow> control_message option" where
  "command_message SendConfig cfg = Some (client_control_message cfg)"
| "command_message SendTalkMode cfg = Some (TalkMode (cc_user_id cfg) (cc_talk_mode cfg))"
| "command_message (SendTalk active) cfg = Some (Talk (cc_user_id cfg) active)"
| "command_message (SendButton b pressed) cfg = Some (Button (cc_user_id cfg) b pressed)"
| "command_message (SendDirectCall target active duck) cfg =
     Some (DirectCall (cc_user_id cfg) target active duck)"
| "command_message (SendReplyCall active duck) cfg = Some (ReplyCall (cc_user_id cfg) active duck)"
| "command_message Show cfg = None"

fun command_loop ::
  "(control_message \<Rightarrow> control_response option) \<Rightarrow> string list \<Rightarrow> client_config \<Rightarrow>
     client_config \<times> control_message list \<times> bool" where
  "command_loop answer [] cfg = (cfg, [], True)"
| "command_loop answer (line # lines) cfg =
     (let command = trim line
      in if command = [] then command_loop answer lines cfg
         else case apply_runtime_command cfg command of
           (cfg, Inl e) \<Rightarrow> command_loop answer lines cfg
         | (cfg, Inr u) \<Rightarrow>
             (case command_message u cfg of
                None \<Rightarrow> command_loop answer lines cfg
              | Some m \<Rightarrow>
                  if answer m = Some Ack
                  then (case command_loop answer lines cfg of (cfg, ms, r) \<Rightarrow> (cfg, m # ms, r))
                  else (cfg, [m], False)))"

definition format_direct_calls :: "direct_call_status list \<Rightarrow> string" where
  "format_direct_calls cs =
     join '','' (map (\<lambda>c. show_word (dcs_caller c) @ ''->'' @ show_word (dcs_target c) @
         (if dcs_duck c then '':duck'' else []))
       (filter dcs_active cs))"

section \<open>Lockout on both sides\<close>

text \<open>The fields of the client's configuration that its checks compare are the server's.\<close>

definition knows_baseline :: "client_config \<Rightarrow> desired_client_config \<Rightarrow> bool" where
  "knows_baseline cfg d \<longleftrightarrow>
     cc_lockout cfg = dc_lockout d \<and> cc_listen cfg = dc_listen d \<and> cc_tx cfg = dc_tx d \<and>
     cc_vol cfg = dc_vol d \<and> cc_talker_vol cfg = dc_talker_vol d \<and> cc_codec cfg = dc_codec d \<and>
     cc_opus_profile cfg = dc_opus_profile d \<and> cc_talk_mode cfg = dc_talk_mode d \<and>
     cc_priority cfg = dc_priority d \<and> cc_priority_channels cfg = dc_priority_channels d \<and>
     cc_ifb cfg = dc_ifb d"

text \<open>C27. Lockout on both sides: for a client that knows the user's stored settings, the check of a full
  configuration before it is sent and the server's check of the message agree, for requests that
  leave the Opus profile alone and carry a normalised IFB setting. (The client does not look at
  the profile, and compares the IFB setting as it is given.)\<close>

theorem client_and_server_lockout_agree:
  assumes "knows_baseline cfg d" "fr_opus_profile fr = cc_opus_profile cfg"
    "normalize_ifb_config (fr_ifb fr) = fr_ifb fr"
  shows "(validate_full_config_allowed cfg fr = Inr ()) \<longleftrightarrow>
     validate_config_lockout d (full_config fr) = None"
  using assms
  unfolding validate_full_config_allowed_def validate_config_lockout_def Let_def full_config_def
    differs_def knows_baseline_def
  by simp

theorem client_and_server_lockout_agree_witness:
  "let d = (desired_client_new 4)\<lparr>dc_ifb := default_ifb_config,
         dc_lockout := default_client_lockout_policy\<lparr>lo_allow_codec := False\<rparr>\<rparr>;
       cfg = (sample_client_config 4)\<lparr>cc_lockout := dc_lockout d, cc_listen := dc_listen d,
         cc_tx := dc_tx d, cc_vol := dc_vol d, cc_talker_vol := dc_talker_vol d,
         cc_codec := dc_codec d, cc_opus_profile := dc_opus_profile d,
         cc_talk_mode := dc_talk_mode d, cc_priority := dc_priority d,
         cc_priority_channels := dc_priority_channels d, cc_ifb := dc_ifb d\<rparr>;
       fr = \<lparr>fr_listen = [1], fr_tx = [2], fr_vol = [], fr_talker_vol = [],
             fr_codec = Opus, fr_opus_profile = cc_opus_profile cfg, fr_talk_mode = Open,
             fr_priority = False, fr_priority_channels = [], fr_ifb = default_ifb_config\<rparr>
   in (validate_full_config_allowed cfg fr = Inr ()) \<longleftrightarrow>
        validate_config_lockout d (full_config fr) = None"
  unfolding Let_def
  by (rule client_and_server_lockout_agree) (simp add: knows_baseline_def, simp, code_simp)

text \<open>With the priority locked the second message of a full configuration is refused even if it
  changes nothing: the request ends with an error after its first message was applied.\<close>

lemma locked_priority_fails_full_config:
  assumes "\<not> lo_allow_priority (dc_lockout (desired_baseline_for_user st u))"
  shows "apply_control env (Priority u active) st = (st, Error ''priority is locked by admin'')"
  using assms by (simp add: apply_priority_def guarded_def ensure_control_allowed_def)

section \<open>Local changes made before the server answers\<close>

datatype optimistic = OptTalk bool | OptButton button_id bool | OptCall user_id bool bool

fun optimistic_request :: "optimistic \<Rightarrow> queued_request" where
  "optimistic_request (OptTalk active) = queue_talk active"
| "optimistic_request (OptButton b pressed) = queue_button b pressed"
| "optimistic_request (OptCall target active duck) = queue_direct_call target active duck"

text \<open>A run of queued requests: each changes the client at once, and its message the server.\<close>

fun optimistic_run ::
  "(env \<times> optimistic) list \<Rightarrow> client_config \<times> server_state \<Rightarrow> client_config \<times> server_state" where
  "optimistic_run [] s = s"
| "optimistic_run ((env, op) # es) (cfg, st) =
     (case optimistic_request op cfg of
        Inl e \<Rightarrow> optimistic_run es (cfg, st)
      | Inr (cfg', m) \<Rightarrow> optimistic_run es (cfg', fst (apply_control env m st)))"

fun all_accepted :: "(env \<times> optimistic) list \<Rightarrow> client_config \<times> server_state \<Rightarrow> bool" where
  "all_accepted [] s = True"
| "all_accepted ((env, op) # es) (cfg, st) =
     (case optimistic_request op cfg of
        Inl e \<Rightarrow> all_accepted es (cfg, st)
      | Inr (cfg', m) \<Rightarrow>
          snd (apply_control env m st) = Ack \<and> all_accepted es (cfg', fst (apply_control env m st)))"

definition outgoing :: "client_config \<Rightarrow> user_id set" where
  "outgoing cfg =
     dcs_target ` {c \<in> set (cc_active_direct_calls cfg). dcs_caller c = cc_user_id cfg \<and> dcs_active c}"

text \<open>The client's talk state is the session's; its list of calls may still show calls of a button
  that was just released.\<close>

definition follows :: "client_config \<Rightarrow> session \<Rightarrow> bool" where
  "follows cfg s \<longleftrightarrow>
     cc_talk_mode cfg = se_talk_mode s \<and> cc_regular_talk_active cfg = se_regular_talk_active s \<and>
     set (cc_tx cfg) = se_tx_channels s \<and> cc_buttons cfg = se_buttons s \<and>
     set (cc_active_buttons cfg) = se_active_buttons s \<and>
     fst ` set (se_active_direct_calls s) \<subseteq> outgoing cfg"

lemma follows_targets:
  assumes "follows cfg s"
  shows "active_tx_targets s \<subseteq> set (client_tx_targets cfg) \<and>
    (\<forall>c. Channel c \<in> set (client_tx_targets cfg) \<longleftrightarrow> Channel c \<in> active_tx_targets s)"
proof -
  have acts: "client_active_actions cfg = active_actions s"
    using assms by (simp add: client_active_actions_def active_actions_def follows_def)
  have chans: "set (active_tx_channels cfg) = effective_tx_channels s"
    using assms by (auto simp: active_tx_channels_def effective_tx_channels_def acts follows_def)
  have targets: "set (client_tx_targets cfg) = Channel ` effective_tx_channels s \<union>
      Direct ` outgoing cfg \<union>
      \<Union> (set (map (\<lambda>a. Direct ` set (transmit_users a)) (active_actions s))) \<union>
      (if raises_emergency cfg then {Mixed} else {})"
    unfolding client_tx_targets_def set_sort_remdups acts outgoing_def
    by (auto simp: chans image_iff)
  have calls: "fst ` set (se_active_direct_calls s) \<subseteq> outgoing cfg" using assms by (simp add: follows_def)
  show ?thesis
    unfolding targets active_tx_targets_split button_targets_def using calls by auto
qed

lemma outgoing_Cons:
  "outgoing (cfg\<lparr>cc_active_direct_calls := c # cs\<rparr>) =
     (if dcs_caller c = cc_user_id cfg \<and> dcs_active c
      then insert (dcs_target c) (outgoing (cfg\<lparr>cc_active_direct_calls := cs\<rparr>))
      else outgoing (cfg\<lparr>cc_active_direct_calls := cs\<rparr>))"
  by (auto simp: outgoing_def)

lemma outgoing_activate:
  "outgoing (cfg\<lparr>cc_active_direct_calls := activate_call (cc_user_id cfg) t duck cs\<rparr>) =
     insert t (outgoing (cfg\<lparr>cc_active_direct_calls := cs\<rparr>))"
proof (induction cs)
  case Nil
  then show ?case by (simp add: outgoing_Cons)
next
  case (Cons c cs)
  then show ?case
    by (cases "dcs_caller c = cc_user_id cfg \<and> dcs_target c = t") (auto simp: outgoing_Cons)
qed

lemma outgoing_set_call:
  "outgoing (set_active_direct_call t active duck cfg) =
     (if active then insert t (outgoing cfg) else outgoing cfg - {t})"
proof (cases active)
  case True
  have "cfg\<lparr>cc_active_direct_calls := cc_active_direct_calls cfg\<rparr> = cfg" by simp
  with True outgoing_activate [of cfg t duck "cc_active_direct_calls cfg"] show ?thesis
    by (simp add: set_active_direct_call_def)
next
  case False
  then show ?thesis by (auto simp: set_active_direct_call_def outgoing_def)
qed

lemma direct_call_caller:
  assumes s: "hm_get (st_sessions st) u = Some s"
    and ack: "snd (apply_direct_call_event env u t active duck st) = Ack"
  shows "\<exists>s'. hm_get (st_sessions (fst (apply_direct_call_event env u t active duck st))) u = Some s' \<and>
    same_talk s' s \<and>
    fst ` set (se_active_direct_calls s') =
      (if active then insert t (fst ` set (se_active_direct_calls s))
       else fst ` set (se_active_direct_calls s) - {t})"
proof -
  let ?s' = "(call_caller env u t active duck s)
     \<lparr>se_direct_call_history := last_n max_direct_call_history
        (se_direct_call_history (call_caller env u t active duck s))\<rparr>"
  have "u \<noteq> t" "t \<in> fst ` set (st_sessions st)"
    using ack by (auto simp: apply_direct_call_event_def split: if_splits)
  then have "hm_get (st_sessions (fst (apply_direct_call_event env u t active duck st))) u = Some ?s'"
    using s by (simp add: apply_direct_call_event_def Let_def trim_direct_history_get hm_get_modify
        hm_get_entry)
  moreover have "same_talk ?s' s" using call_caller_facts(1) [of env u t active duck s] by (simp add: same_talk_def)
  ultimately show ?thesis using call_caller_facts(2) [of env u t active duck s] by auto
qed

lemma set_active_button_set: "set (set_active_button b a bs) = (if a then insert b (set bs) else set bs - {b})"
  by (auto simp: set_active_button_def)

text \<open>One request: the client still follows the session.\<close>

lemma optimistic_step:
  assumes s: "hm_get (st_sessions st) u = Some s" and u: "cc_user_id cfg = u"
    and f: "follows cfg s" and tr: "list_all transmit_only (cc_buttons cfg)"
    and q: "optimistic_request op cfg = Inr (cfg', m)" and ack: "snd (apply_control env m st) = Ack"
  shows "cc_user_id cfg' = u \<and> cc_buttons cfg' = cc_buttons cfg \<and>
    (\<exists>s'. hm_get (st_sessions (fst (apply_control env m st))) u = Some s' \<and> follows cfg' s')"
proof (cases op)
  case (OptTalk active)
  then have q': "cfg' = cfg\<lparr>cc_regular_talk_active := active\<rparr>" "m = Talk u active"
    using q u by (auto simp: queue_talk_def if_local_api_def split: sum.splits)
  have "outgoing cfg' = outgoing cfg" by (simp add: q'(1) outgoing_def)
  with f s u show ?thesis
    by (auto simp: q' apply_regular_talk_event_def follows_def dest: map_of_SomeD intro: rev_image_eqI)
next
  case (OptButton b pressed)
  then obtain button where b: "find (\<lambda>x. btn_id x = b) (cc_buttons cfg) = Some button"
    and q': "cfg' = cfg\<lparr>cc_active_buttons := set_active_button b
        (button_now_active (btn_mode button) (b \<in> set (cc_active_buttons cfg)) pressed)
        (cc_active_buttons cfg)\<rparr>" "m = Button u b pressed"
    using q u by (auto simp: queue_button_def if_allowed_def Let_def
        split: sum.splits option.splits talk_button_mode.splits if_splits)
  have b': "find (\<lambda>x. btn_id x = b) (se_buttons s) = Some button" using b f by (simp add: follows_def)
  have t: "transmit_only button" using b tr by (auto simp: list_all_iff find_Some_iff)
  have ev: "apply_control env m st = apply_button_event env u b pressed st"
    using ack by (auto simp: q'(2) apply_button_def guarded_def split: option.splits)
  let ?now = "button_now_active (btn_mode button) (b \<in> se_active_buttons s) pressed"
  obtain s' where s': "hm_get (st_sessions (fst (apply_control env m st))) u = Some s'"
    "talk_state s' = talk_state (set_button env b ?now s)"
    unfolding ev using transmit_button_event(2) [OF s b' t] by blast
  have "outgoing cfg' = outgoing cfg" by (simp add: q'(1) outgoing_def)
  then have "follows cfg' s'"
    using f s'(2) by (auto simp: q'(1) follows_def talk_state_def set_button_def set_active_button_set)
  with s' u show ?thesis by (auto simp: q'(1))
next
  case (OptCall t active duck)
  then have q': "cfg' = set_active_direct_call t active duck cfg" "m = DirectCall u t active duck"
    using q u by (auto simp: queue_direct_call_def if_local_api_def split: sum.splits)
  have "snd (apply_direct_call_event env u t active duck st) = Ack" using ack by (simp add: q'(2))
  from direct_call_caller [OF s this] obtain s' where
    s': "hm_get (st_sessions (fst (apply_control env m st))) u = Some s'" "same_talk s' s"
      "fst ` set (se_active_direct_calls s') =
         (if active then insert t (fst ` set (se_active_direct_calls s))
          else fst ` set (se_active_direct_calls s) - {t})"
    by (auto simp: q'(2))
  have "cc_talk_mode cfg' = cc_talk_mode cfg" "cc_regular_talk_active cfg' = cc_regular_talk_active cfg"
    "cc_tx cfg' = cc_tx cfg" "cc_buttons cfg' = cc_buttons cfg"
    "cc_active_buttons cfg' = cc_active_buttons cfg" "cc_user_id cfg' = cc_user_id cfg"
    by (simp_all add: q'(1) set_active_direct_call_def)
  moreover have "outgoing cfg' = (if active then insert t (outgoing cfg) else outgoing cfg - {t})"
    by (simp add: q'(1) outgoing_set_call)
  ultimately have "follows cfg' s'" using f s'(2,3) by (auto simp: follows_def same_talk_def)
  with s' u show ?thesis by (auto simp: q'(1) set_active_direct_call_def)
qed

lemma optimistic_run_follows:
  assumes "hm_get (st_sessions st) u = Some s" "cc_user_id cfg = u" "follows cfg s"
    "list_all transmit_only (cc_buttons cfg)" "all_accepted es (cfg, st)"
  shows "case optimistic_run es (cfg, st) of (cfg', st') \<Rightarrow>
    \<exists>s'. hm_get (st_sessions st') u = Some s' \<and> follows cfg' s'"
  using assms
proof (induction es arbitrary: cfg st s)
  case (Cons e es)
  obtain env op where e: "e = (env, op)" by (cases e)
  show ?case
  proof (cases "optimistic_request op cfg")
    case (Inl err)
    with Cons e show ?thesis by simp
  next
    case (Inr r)
    obtain cfg' m where r: "r = (cfg', m)" by (cases r)
    with Cons.prems(5) e Inr have ack: "snd (apply_control env m st) = Ack"
      and rest: "all_accepted es (cfg', fst (apply_control env m st))" by simp_all
    from optimistic_step [OF Cons.prems(1-4) _ ack] Inr r obtain s' where
      s': "cc_user_id cfg' = u" "cc_buttons cfg' = cc_buttons cfg"
        "hm_get (st_sessions (fst (apply_control env m st))) u = Some s'" "follows cfg' s'" by blast
    from Cons.IH [OF s'(3,1,4) _ rest] Cons.prems(4) s'(2) e Inr r show ?thesis by simp
  qed
qed auto

lemma follows_after_event:
  assumes ok: "sessions_ok st" and s: "hm_get (st_sessions st) u = Some s"
    and ev: "config_event_snapshot st u = Some ev" and cfg: "cc_user_id cfg = u"
  shows "follows (apply_control_event ev cfg) s \<and> cc_user_id (apply_control_event ev cfg) = u \<and>
    cc_buttons (apply_control_event ev cfg) = se_buttons s \<and>
    cc_lockout (apply_control_event ev cfg) = se_lockout s"
proof -
  obtain active recent where ar:
    "alert_statuses_for_user_with_sessions (st_alerts st) u (st_sessions st) = (active, recent)"
    by (rule prod.exhaust)
  let ?calls = "active_direct_call_statuses_for_user u (st_sessions st)"
  have wf: "hm_wf (st_sessions st)" and "talk_ok {} s"
    using ok s by (auto simp: sessions_ok_but_def all_sessions_iff)
  then have b: "buttons_ok (se_buttons s)" and fin: "finite (se_active_buttons s)"
    by (auto simp: talk_ok_def intro: finite_subset [OF _ finite_imageI [OF finite_set]])
  have ev': "ev = session_control_event s u ?calls active recent
      (emergency_status_for_user (st_emergency st) (st_sessions st) u)"
    using ev s ar by (simp add: config_event_snapshot_def)
  have "(\<lambda>c. Direct (dcs_target c)) ` {c \<in> set ?calls. dcs_caller c = u \<and> dcs_active c} =
      Direct ` dcs_target ` {c \<in> set ?calls. dcs_caller c = u \<and> dcs_active c}"
    by (simp only: image_image)
  with call_targets [OF wf s] have
    "Direct ` dcs_target ` {c \<in> set ?calls. dcs_caller c = u \<and> dcs_active c} = Direct ` fst ` set (session_calls s)"
    by metis
  then have "dcs_target ` {c \<in> set ?calls. dcs_caller c = u \<and> dcs_active c} = fst ` set (session_calls s)"
    by (subst (asm) inj_image_eq_iff) (simp_all add: inj_def)
  then have "fst ` set (se_active_direct_calls s) \<subseteq>
      dcs_target ` {c \<in> set ?calls. dcs_caller c = u \<and> dcs_active c}"
    using session_calls_targets [of s] by simp
  moreover have "finite (se_tx_channels s)" by simp
  ultimately show ?thesis
    using b fin cfg
    by (simp add: ev' session_control_event_def apply_config_update_def Let_def set_talk_mode_def
        sorted_buttons_def follows_def outgoing_def)
qed

text \<open>C28. Local changes ahead of the server: a client that has applied the server's event and then
  queues talk, button and call requests, which the server accepts, transmits on exactly the
  channels the server's session allows, and to at least the users it allows, after every run of
  requests and before any further event; its buttons only transmit. (After a button is released the
  client may still send to the button's users, until the next event; the mixer drops that audio.)\<close>

theorem queued_requests_run_ahead_correctly:
  assumes "sessions_ok st" "config_event_snapshot st u = Some ev" "cc_user_id cfg = u"
    "list_all transmit_only (cc_buttons (apply_control_event ev cfg))"
    "all_accepted es (apply_control_event ev cfg, st)"
  shows "case optimistic_run es (apply_control_event ev cfg, st) of (cfg', st') \<Rightarrow>
    (case hm_get (st_sessions st') u of
       None \<Rightarrow> False
     | Some s' \<Rightarrow>
         active_tx_targets s' \<subseteq> set (client_tx_targets cfg') \<and>
         {c. Channel c \<in> set (client_tx_targets cfg')} = effective_tx_channels s')"
proof -
  obtain s where s: "hm_get (st_sessions st) u = Some s"
    using assms(2) by (cases "hm_get (st_sessions st) u") (simp_all add: config_event_snapshot_def)
  note f = follows_after_event [OF assms(1) s assms(2,3)]
  obtain cfg' st' where r: "optimistic_run es (apply_control_event ev cfg, st) = (cfg', st')"
    by (rule prod.exhaust)
  from f have f': "cc_user_id (apply_control_event ev cfg) = u" "follows (apply_control_event ev cfg) s"
    by simp_all
  from optimistic_run_follows [OF s f' assms(4,5)] r
  obtain s' where s': "hm_get (st_sessions st') u = Some s'" "follows cfg' s'" by auto
  have "{c. Channel c \<in> set (client_tx_targets cfg')} = {c. Channel c \<in> active_tx_targets s'}"
    using follows_targets [OF s'(2)] by simp
  also have "\<dots> = effective_tx_channels s'" by (auto simp: active_tx_targets_def)
  finally show ?thesis using follows_targets [OF s'(2)] s'(1) by (simp add: r)
qed

theorem queued_requests_run_ahead_correctly_witness:
  "case optimistic_run [(sample_env, OptTalk True), (sample_env, OptTalk False)]
          (apply_control_event (the (config_event_snapshot cue_state 1)) (sample_client_config 1),
           cue_state) of (cfg', st') \<Rightarrow>
     (case hm_get (st_sessions st') 1 of
        None \<Rightarrow> False
      | Some s' \<Rightarrow>
          active_tx_targets s' \<subseteq> set (client_tx_targets cfg') \<and>
          {c. Channel c \<in> set (client_tx_targets cfg')} = effective_tx_channels s')"
proof -
  note ok = cue_state_ok and s = cue_state_event [THEN conjunct1]
    and ev = cue_state_event [THEN conjunct2] and u = sample_client_user [of 1]
  note f = follows_after_event [OF ok s ev u]
  show ?thesis
  proof (rule queued_requests_run_ahead_correctly [OF ok ev u])
    show "list_all transmit_only
        (cc_buttons (apply_control_event (the (config_event_snapshot cue_state 1)) (sample_client_config 1)))"
      using f by (simp add: cue_session_def cue_button_def transmit_only_def)
    define c where "c = apply_control_event (the (config_event_snapshot cue_state 1)) (sample_client_config 1)"
    from f have "cc_user_id c = 1" "cc_lockout c = default_client_lockout_policy"
      by (simp_all add: c_def cue_session_def session_new_def)
    moreover have "hm_contains (st_sessions cue_state) 1"
      using s by (simp_all add: cue_state_def)
    ultimately show "all_accepted [(sample_env, OptTalk True), (sample_env, OptTalk False)]
        (apply_control_event (the (config_event_snapshot cue_state 1)) (sample_client_config 1), cue_state)"
      using s
      by (fold c_def) (simp add: queue_talk_def if_local_api_def ensure_local_api_allowed_def
          ensure_policy_allowed_def default_client_lockout_policy_def apply_regular_talk_event_def
          modify_session_def)
  qed
qed

end
