(* ===== verification/Desktop_Client.thy ===== *)
theory Desktop_Client
  imports Client_Api Client_Audio Mixer
begin

text \<open>
  The desktop client (\<open>clients/desktop/src/lib.rs\<close>) around its core: reading its arguments, the
  HTTP routes of the local user interface and their authorization, what a client is started with,
  and the tasks that register, send the microphone's frames and play what arrives. Devices, the
  terminal and the sockets are not modelled: a task's step has the outcome of each send as an
  argument. What axum answers to a path it does not know, or to a body or path parameter that does
  not parse, is its own (\<open>Refused\<close>).
\<close>

section \<open>Arguments\<close>

record button_key_arg =
  bk_button_id :: button_id
  bk_key :: char

definition button_arg_from_str :: "string \<Rightarrow> string + button_capability" where
  "button_arg_from_str value =
     (let (i, label) = (case split_once CHR ''='' value of None \<Rightarrow> (value, value) | Some p \<Rightarrow> p);
          i = trim i
      in if i = [] then Inl ''button id cannot be empty''
         else Inr \<lparr>bc_id = i, bc_label = (if trim label = [] then i else trim label)\<rparr>)"

definition button_key_arg_from_str :: "string \<Rightarrow> string + button_key_arg" where
  "button_key_arg_from_str value =
     (case split_once CHR ''='' value of
        None \<Rightarrow> Inl ''button key must be ID=KEY''
      | Some (i, key) \<Rightarrow>
          if trim i = [] then Inl ''button id cannot be empty''
          else (case trim key of
                  [] \<Rightarrow> Inl ''hotkey cannot be empty''
                | [c] \<Rightarrow> Inr \<lparr>bk_button_id = trim i, bk_key = c\<rparr>
                | _ \<Rightarrow> Inl ''hotkey must be a single character''))"

record endpoint_args =
  ea_server_host :: "string option"
  ea_server :: socket_address
  ea_control :: string

definition resolve_endpoint_args :: "resolver \<Rightarrow> endpoint_args \<Rightarrow> string + endpoint_args" where
  "resolve_endpoint_args resolve args =
     (case ea_server_host args of
        None \<Rightarrow> Inr args
      | Some name \<Rightarrow>
          (case validate_server_host name of
             Inl e \<Rightarrow> Inl e
           | Inr host \<Rightarrow>
               let default_control = ''ws://'' @ default_server_host @ '':'' @ show_nat default_control_port;
                   server = (if ea_server args = default_audio_addr
                             then resolve_server_audio_addr resolve host else Inr (ea_server args))
               in case server of
                    Inl e \<Rightarrow> Inl e
                  | Inr addr \<Rightarrow>
                      Inr (args\<lparr>ea_server := addr,
                                ea_control := (if ea_control args = default_control
                                               then control_url host else ea_control args)\<rparr>)))"

section \<open>What a client can do\<close>

definition default_button_action_types :: "string list" where
  "default_button_action_types =
     [''transmit'', ''alert'', ''apply_preset'', ''set_talk_mode'', ''route_edit'']"

definition desktop_capabilities :: client_capabilities where
  "desktop_capabilities =
     \<lparr>cap_advertised = True, cap_client_kind = KindDesktop, cap_supports_processing = True,
      cap_supports_native_voice_processing = True, cap_supports_esp32_audio = False,
      cap_supports_stereo = True, cap_supports_ifb = True, cap_supports_local_api = True,
      cap_supports_device_selection = True, cap_button_action_types = default_button_action_types\<rparr>"

definition mobile_capabilities :: client_capabilities where
  "mobile_capabilities =
     \<lparr>cap_advertised = True, cap_client_kind = KindMobile, cap_supports_processing = False,
      cap_supports_native_voice_processing = True, cap_supports_esp32_audio = False,
      cap_supports_stereo = True, cap_supports_ifb = True, cap_supports_local_api = False,
      cap_supports_device_selection = False, cap_button_action_types = default_button_action_types\<rparr>"

section \<open>The local user interface\<close>

definition local_authorization_matches ::
    "(string \<Rightarrow> nat list option) \<Rightarrow> string option \<Rightarrow> string \<Rightarrow> bool" where
  "local_authorization_matches base64 header_value token =
     (case header_value of
        None \<Rightarrow> False
      | Some v \<Rightarrow>
          if strip_prefix ''Bearer '' v = Some token then True
          else (case strip_prefix ''Basic '' v of
             None \<Rightarrow> False
           | Some encoded \<Rightarrow>
               (case base64 encoded of
                  None \<Rightarrow> False
                | Some bytes \<Rightarrow>
                    (case utf8_decode bytes of
                       None \<Rightarrow> False
                     | Some decoded \<Rightarrow> after_colon decoded = Some (codes token)))))"

record local_http_auth =
  la_token :: "string option"
  la_realm :: string

definition local_http_auth_disabled :: local_http_auth where
  "local_http_auth_disabled = \<lparr>la_token = None, la_realm = []\<rparr>"

definition local_http_auth_token :: "string \<Rightarrow> string \<Rightarrow> local_http_auth" where
  "local_http_auth_token token realm =
     \<lparr>la_token = (if token = [] then None else Some token), la_realm = realm\<rparr>"

definition local_authorizes :: "(string \<Rightarrow> nat list option) \<Rightarrow> local_http_auth \<Rightarrow> string option \<Rightarrow> bool" where
  "local_authorizes base64 auth header_value =
     (case la_token auth of None \<Rightarrow> True | Some token \<Rightarrow> local_authorization_matches base64 header_value token)"

text \<open>A call of the trait \<open>ClientControlApi\<close>, which an application makes without HTTP: errors are texts.\<close>

definition control_api_call ::
  "(control_response \<Rightarrow> string) \<Rightarrow> (control_message \<Rightarrow> forward_outcome) \<Rightarrow> local_request \<Rightarrow>
     client_config \<Rightarrow> control_message list \<times> (string + unit)" where
  "control_api_call show_response answer r cfg =
     (case local_call show_response answer r cfg of
        (sent, Inl e) \<Rightarrow> (sent, Inl (api_error_text e))
      | (sent, Inr _) \<Rightarrow> (sent, Inr ()))"

text \<open>A request's body, once read as what its handler expects.\<close>

datatype local_body =
    NoBody
  | ConfigBody full_config_request
  | TalkModeBody talk_mode
  | CodecBody codec
  | GainBody "f32 option" "f32 option"
  | AlertBody alert_target "string option"

datatype local_endpoint =
    Page string
  | Health
  | ShowState
  | Request local_request
  | ChangeGain "f32 option" "f32 option"
  | MicrophoneModes
  | Refused

definition parse_u64 :: "string \<Rightarrow> u64 option" where
  "parse_u64 s = map_option of_nat (parse_unsigned (2 ^ 64) s)"

definition for_user :: "(user_id \<Rightarrow> local_request) \<Rightarrow> string \<Rightarrow> local_endpoint" where
  "for_user f seg = (case parse_u16 seg of None \<Rightarrow> Refused | Some u \<Rightarrow> Request (f u))"

definition for_alert :: "(alert_id \<Rightarrow> local_request) \<Rightarrow> string \<Rightarrow> local_endpoint" where
  "for_alert f seg = (case parse_u64 seg of None \<Rightarrow> Refused | Some i \<Rightarrow> Request (f i))"

definition post_one :: "string \<Rightarrow> local_body \<Rightarrow> local_endpoint option" where
  "post_one a body =
     (if a = ''talk-mode''
      then Some (case body of TalkModeBody m \<Rightarrow> Request (ChangeTalkMode m) | _ \<Rightarrow> Refused)
      else if a = ''mute'' then Some (Request Mute)
      else if a = ''unmute'' then Some (Request Unmute)
      else if a = ''codec'' then Some (case body of CodecBody c \<Rightarrow> Request (ChangeCodec c) | _ \<Rightarrow> Refused)
      else if a = ''gain'' then Some (case body of GainBody m s \<Rightarrow> ChangeGain m s | _ \<Rightarrow> Refused)
      else if a = ''alerts'' then Some (case body of AlertBody t m \<Rightarrow> Request (RaiseAlert t m) | _ \<Rightarrow> Refused)
      else None)"

definition post_two :: "string \<Rightarrow> string \<Rightarrow> local_endpoint option" where
  "post_two a b =
     (if a = ''talk'' \<and> b = ''down'' then Some (Request TalkDown)
      else if a = ''talk'' \<and> b = ''up'' then Some (Request TalkUp)
      else if a = ''talk'' \<and> b = ''toggle'' then Some (Request TalkToggle)
      else if a = ''reply'' \<and> b = ''down'' then Some (Request ReplyDown)
      else if a = ''reply'' \<and> b = ''up'' then Some (Request ReplyUp)
      else if a = ''reply'' \<and> b = ''toggle'' then Some (Request ReplyToggle)
      else if a = ''macos'' \<and> b = ''microphone-modes'' then Some MicrophoneModes
      else None)"

definition post_three :: "string \<Rightarrow> string \<Rightarrow> string \<Rightarrow> local_endpoint option" where
  "post_three a i b =
     (if a = ''buttons'' \<and> b = ''down'' then Some (Request (ButtonDown i))
      else if a = ''buttons'' \<and> b = ''up'' then Some (Request (ButtonUp i))
      else if a = ''buttons'' \<and> b = ''toggle'' then Some (Request (ButtonToggle i))
      else if a = ''calls'' \<and> b = ''down'' then Some (for_user CallDown i)
      else if a = ''calls'' \<and> b = ''up'' then Some (for_user CallUp i)
      else if a = ''calls'' \<and> b = ''toggle'' then Some (for_user CallToggle i)
      else if a = ''alerts'' \<and> b = ''ack'' then Some (for_alert AcknowledgeAlert i)
      else if a = ''alerts'' \<and> b = ''cancel'' then Some (for_alert WithdrawAlert i)
      else None)"

definition get_page :: "string list \<Rightarrow> local_endpoint option" where
  "get_page path =
     (if path = [] then Some (Page ''text/html'')
      else if path \<in> {[''client-controls.js''], [''client-api.js''], [''client-api-http.js''], [''app.js'']}
      then Some (Page ''application/javascript'')
      else if path \<in> {[''client-controls.css''], [''style.css'']} then Some (Page ''text/css'')
      else if path = [''health''] then Some Health
      else if path = [''state''] then Some ShowState
      else None)"

text \<open>The routes; \<open>None\<close> is a path or method the router does not have (or \<open>HEAD\<close>, which axum
  answers with the head of the page).\<close>

definition local_route :: "string \<Rightarrow> string list \<Rightarrow> local_body \<Rightarrow> local_endpoint option" where
  "local_route verb path body =
     (if verb = ''GET'' then get_page path
      else if verb = ''PUT''
      then (if path = [''config'']
            then Some (case body of ConfigBody fr \<Rightarrow> Request (ApplyConfig fr) | _ \<Rightarrow> Refused) else None)
      else if verb = ''POST''
      then (case path of
              [a] \<Rightarrow> post_one a body
            | [a, b] \<Rightarrow> post_two a b
            | [a, i, b] \<Rightarrow> post_three a i b
            | _ \<Rightarrow> None)
      else None)"

datatype local_reply =
    Ok
  | PageReply string
  | StateReply
  | Fail nat string
  | Unauthorized string
  | ByFramework

definition reply_of :: "api_error + unit \<Rightarrow> local_reply" where
  "reply_of r = (case r of Inr _ \<Rightarrow> Ok | Inl e \<Rightarrow> Fail (api_error_status e) (api_error_text e))"

text \<open>The client is not built for macOS.\<close>

definition microphone_modes :: "api_error + unit" where
  "microphone_modes = Inl (ApiBadRequest ''macOS microphone modes are only available on macOS'')"

fun serve_endpoint ::
  "(control_response \<Rightarrow> string) \<Rightarrow> (control_message \<Rightarrow> forward_outcome) \<Rightarrow> client_config \<Rightarrow>
     local_endpoint \<Rightarrow> audio_settings \<Rightarrow> audio_settings \<times> control_message list \<times> local_reply" where
  "serve_endpoint show_response answer cfg (Page kind) settings = (settings, [], PageReply kind)"
| "serve_endpoint show_response answer cfg Health settings = (settings, [], Ok)"
| "serve_endpoint show_response answer cfg ShowState settings = (settings, [], StateReply)"
| "serve_endpoint show_response answer cfg (Request r) settings =
     (case local_call show_response answer r cfg of (sent, result) \<Rightarrow> (settings, sent, reply_of result))"
| "serve_endpoint show_response answer cfg (ChangeGain mic speaker) settings =
     (case api_set_gain mic speaker cfg settings of
        (settings', result) \<Rightarrow> (settings', [], reply_of result))"
| "serve_endpoint show_response answer cfg MicrophoneModes settings =
     (settings, [], reply_of microphone_modes)"
| "serve_endpoint show_response answer cfg Refused settings = (settings, [], ByFramework)"

definition unauthorized :: "local_http_auth \<Rightarrow> local_reply" where
  "unauthorized auth =
     Unauthorized (''Basic realm='' @ [char_of (34 :: nat)] @ la_realm auth @ [char_of (34 :: nat)] @
       '', charset='' @ [char_of (34 :: nat)] @ ''UTF-8'' @ [char_of (34 :: nat)])"

text \<open>A request to the local server, with its \<open>Authorization\<close> header.\<close>

definition local_http ::
  "(string \<Rightarrow> nat list option) \<Rightarrow> local_http_auth \<Rightarrow> (control_response \<Rightarrow> string) \<Rightarrow>
     (control_message \<Rightarrow> forward_outcome) \<Rightarrow> client_config \<Rightarrow> string option \<Rightarrow> string \<Rightarrow> string list \<Rightarrow>
     local_body \<Rightarrow> audio_settings \<Rightarrow> audio_settings \<times> control_message list \<times> local_reply" where
  "local_http base64 auth show_response answer cfg header_value verb path body settings =
     (case local_route verb path body of
        None \<Rightarrow> (settings, [], ByFramework)
      | Some ep \<Rightarrow>
          if local_authorizes base64 auth header_value
          then serve_endpoint show_response answer cfg ep settings
          else (settings, [], unauthorized auth))"

section \<open>Start\<close>

definition initial_client_config ::
  "user_id option \<Rightarrow> client_uid \<Rightarrow> channel_id \<Rightarrow> channel_id \<Rightarrow> codec \<Rightarrow> opus_profile \<Rightarrow>
     button_capability list \<Rightarrow> client_capabilities \<Rightarrow> client_config" where
  "initial_client_config u uid listen tx codec profile buttons capabilities =
     \<lparr>cc_user_id = (case u of None \<Rightarrow> 0 | Some u \<Rightarrow> u), cc_client_uid = uid, cc_role = RoleClient,
      cc_name = [], cc_listen = [listen], cc_tx = [tx], cc_codec = codec, cc_opus_profile = profile,
      cc_talk_mode = Ptt, cc_last_non_muted_talk_mode = Ptt, cc_regular_talk_active = False,
      cc_priority = False, cc_priority_channels = [], cc_processing = default_processing_config,
      cc_channel_rosters = [], cc_emergency = None, cc_vol = [], cc_talker_vol = [],
      cc_buttons = [], cc_active_buttons = [], cc_active_direct_calls = [],
      cc_last_direct_caller = None, cc_direct_call_history = [], cc_active_alerts = [],
      cc_recent_alerts = [], cc_advertised_buttons = buttons, cc_capabilities = capabilities,
      cc_ifb = default_ifb_config, cc_lockout = default_client_lockout_policy,
      cc_stereo = default_stereo_config, cc_esp32_audio = default_esp32_audio_config\<rparr>"

definition client_kind_capabilities :: "bool \<Rightarrow> bool \<Rightarrow> client_capabilities" where
  "client_kind_capabilities is_mobile disable_local_ui =
     (if is_mobile then mobile_capabilities else desktop_capabilities)
       \<lparr>cap_supports_local_api := \<not> disable_local_ui\<rparr>"

definition hello_message :: "client_config \<Rightarrow> control_message" where
  "hello_message cfg =
     Hello (cc_user_id cfg)
       \<lparr>hr_requested_user_id = (if cc_user_id cfg > 0 then Some (cc_user_id cfg) else None),
        hr_client_uid = cc_client_uid cfg, hr_codecs = client_supported_codecs,
        hr_buttons = cc_advertised_buttons cfg, hr_capabilities = cc_capabilities cfg,
        hr_role = RoleClient\<rparr>"

fun show_enrollment :: "enrollment_status \<Rightarrow> string" where
  "show_enrollment Enrolled = ''Enrolled''"
| "show_enrollment Pending = ''Pending''"
| "show_enrollment Rejected = ''Rejected''"

text \<open>What the answer to the first hello does: the configuration with the server's identifiers, and
  whether the server has settings for the client; \<open>show_response\<close> is the debug form.\<close>

fun after_hello ::
  "(control_response \<Rightarrow> string) \<Rightarrow> control_response \<Rightarrow> client_config \<Rightarrow> string + client_config \<times> bool" where
  "after_hello show_response (RespHello preconfigured u uid enrollment) cfg =
     (if enrollment \<noteq> Enrolled
      then Inl (''client enrollment is '' @ show_enrollment enrollment @ ''; waiting for admin approval'')
      else Inr (let cfg = cfg\<lparr>cc_user_id := u\<rparr>
                in if uid \<noteq> [] then cfg\<lparr>cc_client_uid := uid\<rparr> else cfg, preconfigured))"
| "after_hello show_response Ack cfg = Inr (cfg, False)"
| "after_hello show_response (Error e) cfg = Inl e"
| "after_hello show_response other cfg = Inl (''unexpected hello response: '' @ show_response other)"

definition queue_control_message ::
  "(control_response \<Rightarrow> string) \<Rightarrow> string + control_response \<Rightarrow> string + unit" where
  "queue_control_message show_response answer =
     (case answer of
        Inl e \<Rightarrow> Inl e
      | Inr Ack \<Rightarrow> Inr ()
      | Inr (Error e) \<Rightarrow> Inl e
      | Inr other \<Rightarrow> Inl (''unexpected control response: '' @ show_response other))"

text \<open>The messages of the start, up to the audio socket; \<open>answer\<close> is the control task's.\<close>

definition start_client ::
  "(control_response \<Rightarrow> string) \<Rightarrow> (control_message \<Rightarrow> string + control_response) \<Rightarrow> client_config \<Rightarrow>
     control_message list \<times> (string + client_config)" where
  "start_client show_response answer cfg =
     (let hello = hello_message cfg
      in case answer hello of
           Inl e \<Rightarrow> ([hello], Inl e)
         | Inr r \<Rightarrow>
             (case after_hello show_response r cfg of
                Inl e \<Rightarrow> ([hello], Inl e)
              | Inr (cfg, True) \<Rightarrow> ([hello], Inr cfg)
              | Inr (cfg, False) \<Rightarrow>
                  let m = client_control_message cfg
                  in ([hello, m],
                      case queue_control_message show_response (answer m) of
                        Inl e \<Rightarrow> Inl e | Inr _ \<Rightarrow> Inr cfg)))"

section \<open>Counters\<close>

type_synonym client_counters = client_telemetry_transport_status

definition counters_new :: client_counters where
  "counters_new =
     \<lparr>tt_udp_rx_packets = 0, tt_malformed_packets = 0, tt_decode_errors = 0, tt_codec_drops = 0,
      tt_payload_decode_errors = 0, tt_packet_encode_errors = 0, tt_tx_packets = 0,
      tt_tx_send_failures = 0, tt_tx_queue_drops = 0\<rparr>"

definition record_udp_rx_packet :: "client_counters \<Rightarrow> client_counters" where
  "record_udp_rx_packet c = c\<lparr>tt_udp_rx_packets := tt_udp_rx_packets c + 1\<rparr>"

definition record_malformed_packet :: "client_counters \<Rightarrow> client_counters" where
  "record_malformed_packet c = c\<lparr>tt_malformed_packets := tt_malformed_packets c + 1\<rparr>"

definition record_decode_error :: "client_counters \<Rightarrow> client_counters" where
  "record_decode_error c = c\<lparr>tt_decode_errors := tt_decode_errors c + 1\<rparr>"

definition record_codec_drop :: "client_counters \<Rightarrow> client_counters" where
  "record_codec_drop c = c\<lparr>tt_codec_drops := tt_codec_drops c + 1\<rparr>"

definition record_packet_encode_error :: "client_counters \<Rightarrow> client_counters" where
  "record_packet_encode_error c = c\<lparr>tt_packet_encode_errors := tt_packet_encode_errors c + 1\<rparr>"

definition record_tx_packet :: "client_counters \<Rightarrow> client_counters" where
  "record_tx_packet c = c\<lparr>tt_tx_packets := tt_tx_packets c + 1\<rparr>"

definition record_tx_send_failure :: "client_counters \<Rightarrow> client_counters" where
  "record_tx_send_failure c = c\<lparr>tt_tx_send_failures := tt_tx_send_failures c + 1\<rparr>"

definition record_tx_queue_drop :: "client_counters \<Rightarrow> client_counters" where
  "record_tx_queue_drop c = c\<lparr>tt_tx_queue_drops := tt_tx_queue_drops c + 1\<rparr>"

section \<open>The audio tasks\<close>

text \<open>A registration datagram, sent every two seconds; the counter wraps around.\<close>

definition register_step :: "client_config \<Rightarrow> u16 \<Rightarrow> u16 \<times> (packet_error + u8 list)" where
  "register_step cfg seq = (seq + 1, packet_encode (registration (cc_user_id cfg) (cc_codec cfg) seq))"

record send_task =
  sn_seq :: u16
  sn_timestamp :: u32
  sn_codec :: codec
  sn_opus_profile :: opus_profile
  sn_counters :: client_counters

definition send_task_start :: "client_config \<Rightarrow> client_counters \<Rightarrow> send_task" where
  "send_task_start cfg counters =
     \<lparr>sn_seq = 0, sn_timestamp = 0, sn_codec = cc_codec cfg, sn_opus_profile = cc_opus_profile cfg,
      sn_counters = counters\<rparr>"

text \<open>One datagram per target, up to the first send that fails (\<open>oks\<close> are the outcomes, and a send
  beyond them succeeds). The sequence number is used up before the packet is encoded.\<close>

fun send_targets ::
  "user_id \<Rightarrow> u32 \<Rightarrow> u8 list \<Rightarrow> audio_target list \<Rightarrow> bool list \<Rightarrow> send_task \<Rightarrow> send_task \<times> u8 list list" where
  "send_targets u timestamp payload [] oks t = (t, [])"
| "send_targets u timestamp payload (target # targets) oks t =
     (let packet = \<lparr>pkt_user_id = u, pkt_target = target, pkt_codec = sn_codec t, pkt_seq = sn_seq t,
                    pkt_timestamp = timestamp, pkt_payload = payload\<rparr>;
          t = t\<lparr>sn_seq := sn_seq t + 1\<rparr>
      in case packet_encode packet of
           Inl _ \<Rightarrow> send_targets u timestamp payload targets oks
                      (t\<lparr>sn_counters := record_packet_encode_error (sn_counters t)\<rparr>)
         | Inr bytes \<Rightarrow>
             if oks \<noteq> [] \<and> \<not> hd oks
             then (t\<lparr>sn_counters := record_tx_send_failure (sn_counters t)\<rparr>, [])
             else (case send_targets u timestamp payload targets (tl oks)
                       (t\<lparr>sn_counters := record_tx_packet (sn_counters t)\<rparr>) of
                     (t, sent) \<Rightarrow> (t, bytes # sent)))"

text \<open>A frame of the microphone. \<open>refuses\<close> tells whether an encoder cannot be made for a codec.\<close>

definition send_frame ::
  "(codec \<Rightarrow> opus_profile \<Rightarrow> bool) \<Rightarrow> client_codec_libs \<Rightarrow> client_config \<Rightarrow> i16 list \<Rightarrow> bool list \<Rightarrow>
     send_task \<Rightarrow> send_task \<times> u8 list list" where
  "send_frame refuses libs cfg frame oks t =
     (case active_transmit_snapshot cfg of
        None \<Rightarrow> (t, [])
      | Some snap \<Rightarrow>
          let codec = cts_codec snap; profile = cts_opus_profile snap;
              switch = (codec \<noteq> sn_codec t \<or> profile \<noteq> sn_opus_profile t)
          in if switch \<and> refuses codec profile then (t, [])
             else let t = (if switch then t\<lparr>sn_codec := codec, sn_opus_profile := profile\<rparr> else t)
                  in case client_encode libs (sn_codec t) (sn_opus_profile t) frame of
                       Inl _ \<Rightarrow> (t\<lparr>sn_counters := record_codec_drop (sn_counters t)\<rparr>, [])
                     | Inr payload \<Rightarrow>
                         send_targets (cts_user_id snap) (sn_timestamp t) payload (cts_targets snap) oks
                           (t\<lparr>sn_timestamp := sn_timestamp t + of_nat (codec_samples_per_frame (sn_codec t))\<rparr>))"

text \<open>A datagram of the server; the receive buffer holds \<open>MAX_PACKET_BYTES\<close>.\<close>

definition receive_channels :: "client_config \<Rightarrow> codec \<Rightarrow> nat" where
  "receive_channels cfg codec =
     (if stereo_active_for_codec (cc_stereo cfg) (cc_codec cfg) \<and> (codec = Pcm48 \<or> codec = Opus)
      then 2 else 1)"

definition receive_datagram ::
  "client_codec_libs \<Rightarrow> client_config \<Rightarrow> u8 list \<Rightarrow> client_counters \<times> playback_buffer \<Rightarrow>
     client_counters \<times> playback_buffer" where
  "receive_datagram libs cfg datagram s =
     (case s of (counters, playback) \<Rightarrow>
        (case packet_decode (take max_packet_bytes datagram) of
           Inl _ \<Rightarrow> (record_malformed_packet counters, playback)
         | Inr packet \<Rightarrow>
             let counters = record_udp_rx_packet counters;
                 channels = receive_channels cfg (pkt_codec packet)
             in case decode_with_channels libs (pkt_codec packet) (cc_opus_profile cfg)
                       (pkt_payload packet) channels of
                  Inl _ \<Rightarrow> (record_decode_error counters, playback)
                | Inr samples \<Rightarrow> (counters, push_frame samples channels playback)))"

text \<open>A key of the keyboard, while hotkeys are on: presses and releases of a bound key are sent.\<close>

datatype key_kind = KeyPress | KeyRelease | KeyRepeat

definition hotkey_message ::
  "button_key_arg list \<Rightarrow> client_config \<Rightarrow> char \<Rightarrow> key_kind \<Rightarrow> control_message option" where
  "hotkey_message bindings cfg key kind =
     (case find (\<lambda>b. bk_key b = key) (rev bindings) of
        None \<Rightarrow> None
      | Some b \<Rightarrow>
          (case kind of
             KeyPress \<Rightarrow> Some (Button (cc_user_id cfg) (bk_button_id b) True)
           | KeyRelease \<Rightarrow> Some (Button (cc_user_id cfg) (bk_button_id b) False)
           | KeyRepeat \<Rightarrow> None))"

section \<open>A start at the server\<close>

text \<open>The answers of a server that handles the hello first.\<close>

definition server_answers ::
  "env \<Rightarrow> server_state \<Rightarrow> client_config \<Rightarrow> control_message \<Rightarrow> string + control_response" where
  "server_answers env st cfg m =
     Inr (if is_hello m then snd (apply_control env m st)
          else snd (apply_control env m (fst (apply_control env (hello_message cfg) st))))"

lemma hello_answer:
  "case apply_hello env u hr st of (st', r) \<Rightarrow>
     (case r of
        RespHello p v uid status \<Rightarrow>
          status = Enrolled \<longrightarrow> (\<exists>s. hm_get (st_sessions st') v = Some s \<and> se_enrollment s = Enrolled)
      | Error e \<Rightarrow> True
      | _ \<Rightarrow> False)"
proof -
  let ?req = "case hr_requested_user_id hr of Some r \<Rightarrow> Some r | None \<Rightarrow> if u > 0 then Some u else None"
  obtain st1 r where r: "resolve_client_enrollment env (hr_client_uid hr) ?req (hr_role hr) st = (st1, r)"
    by (rule prod.exhaust)
  show ?thesis
    by (cases r) (auto simp: apply_hello_def Let_def r hello_session_def apply_desired_to_session_fields_def
        apply_default_operator_channels_to_session_def split: option.split)
qed

text \<open>C31. How a client starts: against a server that handles its messages in order, it starts exactly
  when its device is enrolled and, where the server has no settings for it, the server accepts its
  own; then the server has an enrolled session under the id the client goes on with. Otherwise it
  ends with the server's refusal and has sent nothing after the message that was refused.\<close>

theorem client_start_outcome:
  "case start_client show_response (server_answers env st cfg) cfg of (sent, r) \<Rightarrow>
     let st' = fst (apply_control env (hello_message cfg) st); hello = snd (apply_control env (hello_message cfg) st)
     in case r of
          Inr cfg' \<Rightarrow>
            (\<exists>s. hm_get (st_sessions st') (cc_user_id cfg') = Some s \<and> se_enrollment s = Enrolled) \<and>
            (\<exists>preconfigured uid. hello = RespHello preconfigured (cc_user_id cfg') uid Enrolled \<and>
               (if preconfigured then sent = [hello_message cfg]
                else sent = [hello_message cfg, client_control_message cfg'] \<and>
                     snd (apply_control env (client_control_message cfg') st') = Ack))
        | Inl e \<Rightarrow>
            (case hello of
               Error m \<Rightarrow> e = m \<and> sent = [hello_message cfg]
             | RespHello preconfigured u uid status \<Rightarrow>
                 if status \<noteq> Enrolled then sent = [hello_message cfg]
                 else \<not> preconfigured \<and>
                   (\<exists>m. sent = [hello_message cfg, m] \<and> snd (apply_control env m st') \<noteq> Ack)
             | _ \<Rightarrow> False)"
proof -
  obtain st' h where h: "apply_control env (hello_message cfg) st = (st', h)" by (rule prod.exhaust)
  have *: "case h of
        RespHello p v uid status \<Rightarrow>
          status = Enrolled \<longrightarrow> (\<exists>s. hm_get (st_sessions st') v = Some s \<and> se_enrollment s = Enrolled)
      | Error e \<Rightarrow> True | _ \<Rightarrow> False"
  proof -
    obtain hr where "hello_message cfg = Hello (cc_user_id cfg) hr" by (simp add: hello_message_def)
    with h hello_answer [of env "cc_user_id cfg" hr st] show ?thesis by simp
  qed
  have hello: "server_answers env st cfg (hello_message cfg) = Inr h"
    by (simp add: server_answers_def h) (simp add: hello_message_def)
  have config: "server_answers env st cfg (client_control_message c) =
      Inr (snd (apply_control env (client_control_message c) st'))" for c
    by (simp add: server_answers_def h) (simp add: client_control_message_def)
  show ?thesis
  proof (cases h)
    case (RespHello p u uid status)
    show ?thesis
    proof (cases "status = Enrolled \<and> \<not> p")
      case True
      define cfg1 where "cfg1 = (let c = cfg\<lparr>cc_user_id := u\<rparr> in if uid \<noteq> [] then c\<lparr>cc_client_uid := uid\<rparr> else c)"
      have u: "cc_user_id cfg1 = u" by (simp add: cfg1_def Let_def)
      have start: "start_client show_response (server_answers env st cfg) cfg =
          ([hello_message cfg, client_control_message cfg1],
           case queue_control_message show_response
               (Inr (snd (apply_control env (client_control_message cfg1) st'))) of
             Inl e \<Rightarrow> Inl e | Inr _ \<Rightarrow> Inr cfg1)"
        using True by (simp add: start_client_def hello RespHello cfg1_def [symmetric] config) (simp add: Let_def config)
      show ?thesis
        using True * u unfolding start prod.case h fst_conv snd_conv Let_def RespHello
        by (auto simp: queue_control_message_def RespHello split: control_response.split)
    qed (use * in \<open>auto simp: start_client_def hello h RespHello Let_def\<close>)
  qed (use * in \<open>auto simp: start_client_def hello h Let_def\<close>)
qed

section \<open>Local requests\<close>

fun sender_of :: "control_message \<Rightarrow> user_id option" where
  "sender_of (Hello u _) = Some u"
| "sender_of (Config u _) = Some u"
| "sender_of (AudioCodec u _) = Some u"
| "sender_of (TalkMode u _) = Some u"
| "sender_of (Ping u) = Some u"
| "sender_of (CaptureHealth u _) = Some u"
| "sender_of (BridgeStatus u _) = Some u"
| "sender_of (Talk u _) = Some u"
| "sender_of (Priority u _) = Some u"
| "sender_of (Emergency u _ _ _ _) = Some u"
| "sender_of (Button u _ _) = Some u"
| "sender_of (SendAlert u _ _) = Some u"
| "sender_of (AckAlert u _) = Some u"
| "sender_of (CancelAlert u _) = Some u"
| "sender_of (DirectCall u _ _ _) = Some u"
| "sender_of (ReplyCall u _ _) = Some u"
| "sender_of Status = None"

text \<open>The desktop's check of the header is the server's.\<close>

lemma local_authorization_is_the_servers:
  "local_authorizes base64 (local_http_auth_token token realm) h =
     authorizes base64 (http_auth_token token realm) h"
  by (auto simp: local_authorizes_def authorizes_def local_http_auth_token_def http_auth_token_def
      local_authorization_matches_def authorization_matches_def split: option.splits)

lemma requested_by_user:
  "requested_messages r cfg = Inr ms \<Longrightarrow>
     lo_allow_local_api (cc_lockout cfg) \<and> (\<forall>m\<in>set ms. sender_of m = Some (cc_user_id cfg))"
  by (cases r)
    (auto simp: api_apply_config_def control_messages_def api_set_talk_mode_def send_talk_mode_def
      api_mute_def api_unmute_def api_talk_def send_regular_talk_def api_talk_toggle_def
      api_set_codec_def send_button_def send_direct_call_def api_call_toggle_def send_reply_call_def
      api_reply_toggle_def api_send_alert_def api_ack_alert_def api_cancel_alert_def if_local_api_def
      if_allowed_def client_ensure_control_allowed_def ensure_local_api_allowed_def
      ensure_policy_allowed_def split: sum.splits if_splits option.splits)

lemma forwarded_subset: "set (fst (forward_all show_response answer ms)) \<subseteq> set ms"
  by (induction ms) (auto split: sum.splits prod.splits)

lemma local_call_by_user:
  "local_call show_response answer r cfg = (sent, result) \<Longrightarrow> sent \<noteq> [] \<Longrightarrow>
     lo_allow_local_api (cc_lockout cfg) \<and> (\<forall>m\<in>set sent. sender_of m = Some (cc_user_id cfg))"
proof (cases "requested_messages r cfg")
  case (Inr ms)
  assume "local_call show_response answer r cfg = (sent, result)" "sent \<noteq> []"
  with forwarded_subset [of show_response answer ms] requested_by_user [OF Inr] Inr
  show ?thesis by (auto simp: local_call_def)
qed (simp add: local_call_def)

text \<open>C32. The local user interface. A request changes the gains or sends messages only when its
  header carries the token, if one is set, and when the administrator leaves the local API
  unlocked; and every message it sends names the client's own user.\<close>

theorem local_requests_are_authorized:
  "case local_http base64 auth show_response answer cfg header_value verb path body settings of
     (settings', sent, reply) \<Rightarrow>
       if local_authorizes base64 auth header_value \<and> lo_allow_local_api (cc_lockout cfg)
       then list_all (\<lambda>m. sender_of m = Some (cc_user_id cfg)) sent
       else settings' = settings \<and> sent = []"
proof (cases "local_route verb path body")
  case (Some ep)
  show ?thesis
  proof (cases "local_authorizes base64 auth header_value")
    case True
    have "case serve_endpoint show_response answer cfg ep settings of (settings', sent, reply) \<Rightarrow>
       if lo_allow_local_api (cc_lockout cfg) then list_all (\<lambda>m. sender_of m = Some (cc_user_id cfg)) sent
       else settings' = settings \<and> sent = []"
    proof (cases ep)
      case (Request r)
      obtain sent result where "local_call show_response answer r cfg = (sent, result)" by (rule prod.exhaust)
      with local_call_by_user [OF this] Request show ?thesis by (cases sent) (auto simp: list_all_iff)
    qed (auto simp: api_set_gain_def ensure_local_api_allowed_def ensure_policy_allowed_def Let_def
        split: sum.splits)
    with True Some show ?thesis by (simp add: local_http_def)
  qed (simp add: local_http_def Some)
qed (simp add: local_http_def)

section \<open>Frames of the microphone\<close>

lemma large_payload_not_sent:
  "65535 < length payload \<Longrightarrow> snd (send_targets u timestamp payload targets oks t) = []"
proof (induction targets arbitrary: t)
  case (Cons target targets)
  then have "packet_encode p = Inl (PayloadTooLarge (length payload))"
    if "pkt_payload p = payload" for p
    using that by (simp add: packet_encode_def)
  with Cons.IH [OF Cons.prems] show ?case by (simp add: Let_def)
qed simp

lemma send_targets_packets:
  assumes "send_targets u timestamp payload targets oks t = (t', sent)"
  shows "map packet_decode sent =
      map (\<lambda>i. Inr \<lparr>pkt_user_id = u, pkt_target = targets ! i, pkt_codec = sn_codec t,
                   pkt_seq = sn_seq t + of_nat i, pkt_timestamp = timestamp, pkt_payload = payload\<rparr>)
        [0..<length sent] \<and>
    length sent \<le> length targets \<and>
    (False \<notin> set oks \<and> length payload \<le> 65535 \<longrightarrow> length sent = length targets)"
  using assms
proof (induction targets arbitrary: oks t t' sent)
  case (Cons target targets)
  let ?p = "\<lambda>t target. \<lparr>pkt_user_id = u, pkt_target = target, pkt_codec = sn_codec t, pkt_seq = sn_seq t,
                    pkt_timestamp = timestamp, pkt_payload = payload\<rparr>"
  let ?t = "t\<lparr>sn_seq := sn_seq t + 1\<rparr>"
  show ?case
  proof (cases "length payload \<le> 65535")
    case False
    with Cons.prems large_payload_not_sent [of payload u timestamp "target # targets" oks t]
    have "sent = []" by (metis not_le_imp_less snd_conv)
    with False show ?thesis by simp
  next
    case True
    then have enc: "packet_encode (?p t target) = Inr (packet_bytes (?p t target))"
      by (simp add: packet_encode_def)
    show ?thesis
    proof (cases "oks \<noteq> [] \<and> \<not> hd oks")
      case True
      with Cons.prems enc show ?thesis by (cases oks) (auto simp: Let_def)
    next
      case False
      let ?r = "?t\<lparr>sn_counters := record_tx_packet (sn_counters t)\<rparr>"
      obtain t1 rest where rest: "send_targets u timestamp payload targets (tl oks) ?r = (t1, rest)"
        by (rule prod.exhaust)
      with Cons.prems enc False have sent: "sent = packet_bytes (?p t target) # rest"
        by (simp add: Let_def)
      have dec: "packet_decode (packet_bytes (?p t target)) = Inr (?p t target)"
        using enc packet_wire.dec_iff by (auto simp: packet_encode_def split: if_splits)
      let ?q = "\<lambda>targets s i. Inr \<lparr>pkt_user_id = u, pkt_target = targets ! i, pkt_codec = sn_codec t,
                   pkt_seq = s + of_nat i, pkt_timestamp = timestamp, pkt_payload = payload\<rparr>"
      have oks: "False \<notin> set oks \<Longrightarrow> False \<notin> set (tl oks)" by (cases oks) simp_all
      have IH: "map packet_decode rest = map (?q targets (sn_seq t + 1)) [0..<length rest]"
        "length rest \<le> length targets" "False \<notin> set oks \<Longrightarrow> length rest = length targets"
        using Cons.IH [OF rest] True oks by simp_all
      have "map packet_decode sent = map (?q (target # targets) (sn_seq t)) [0..<length sent]"
        unfolding sent by (simp add: dec IH(1) map_upt_Suc comp_def ac_simps del: upt_Suc)
      with IH(2,3) show ?thesis unfolding sent by simp
    qed
  qed
qed simp

lemma send_frame_packets:
  assumes "send_frame refuses libs cfg frame oks t = (t', sent)"
  shows "(\<exists>payload. map packet_decode sent =
      map (\<lambda>i. Inr \<lparr>pkt_user_id = cc_user_id cfg, pkt_target = client_tx_targets cfg ! i,
                   pkt_codec = cc_codec cfg, pkt_seq = sn_seq t + of_nat i,
                   pkt_timestamp = sn_timestamp t, pkt_payload = payload\<rparr>) [0..<length sent]) \<and>
    length sent \<le> length (client_tx_targets cfg) \<and>
    (cc_user_id cfg \<noteq> 0 \<and> \<not> refuses (cc_codec cfg) (cc_opus_profile cfg) \<and> False \<notin> set oks \<and>
       (case client_encode libs (cc_codec cfg) (cc_opus_profile cfg) frame of
          Inl _ \<Rightarrow> False | Inr payload \<Rightarrow> length payload \<le> 65535) \<longrightarrow>
     length sent = length (client_tx_targets cfg))"
proof (cases "active_transmit_snapshot cfg")
  case None
  with assms show ?thesis
    by (auto simp: send_frame_def active_transmit_snapshot_def Let_def split: if_splits)
next
  case (Some snap)
  then have snap: "cts_user_id snap = cc_user_id cfg" "cts_targets snap = client_tx_targets cfg"
    "cts_codec snap = cc_codec cfg" "cts_opus_profile snap = cc_opus_profile cfg"
    by (auto simp: active_transmit_snapshot_def Let_def split: if_splits)
  let ?switch = "cc_codec cfg \<noteq> sn_codec t \<or> cc_opus_profile cfg \<noteq> sn_opus_profile t"
  define s where "s = (if ?switch then t\<lparr>sn_codec := cc_codec cfg, sn_opus_profile := cc_opus_profile cfg\<rparr> else t)"
  have s: "sn_codec s = cc_codec cfg" "sn_opus_profile s = cc_opus_profile cfg" "sn_seq s = sn_seq t"
    "sn_timestamp s = sn_timestamp t" by (auto simp: s_def)
  have step: "(if ?switch \<and> refuses (cc_codec cfg) (cc_opus_profile cfg) then (t, [])
      else case client_encode libs (cc_codec cfg) (cc_opus_profile cfg) frame of
             Inl _ \<Rightarrow> (s\<lparr>sn_counters := record_codec_drop (sn_counters s)\<rparr>, [])
           | Inr payload \<Rightarrow>
               send_targets (cc_user_id cfg) (sn_timestamp s) payload (client_tx_targets cfg) oks
                 (s\<lparr>sn_timestamp := sn_timestamp s + of_nat (codec_samples_per_frame (sn_codec s))\<rparr>)) =
      (t', sent)"
    using assms unfolding send_frame_def Some option.case snap Let_def s_def [symmetric] s .
  show ?thesis
  proof (cases "?switch \<and> refuses (cc_codec cfg) (cc_opus_profile cfg)")
    case False
    show ?thesis
    proof (cases "client_encode libs (cc_codec cfg) (cc_opus_profile cfg) frame")
      case (Inr payload)
      with step False have "send_targets (cc_user_id cfg) (sn_timestamp s) payload (client_tx_targets cfg) oks
          (s\<lparr>sn_timestamp := sn_timestamp s + of_nat (codec_samples_per_frame (sn_codec s))\<rparr>) = (t', sent)"
        by (simp only: if_False sum.case)
      from send_targets_packets [OF this] s Inr show ?thesis by auto
    qed (use step False in auto)
  qed (use step in auto)
qed

text \<open>C29. From the microphone to the wire: the datagrams a client that has applied the server's event
  sends for a frame are, in order, packets of its own user that decode at the server to the targets
  the server's session allows, one per target, with consecutive sequence numbers and one timestamp;
  when the codec works and every send succeeds none of the allowed targets is left out.\<close>

theorem microphone_reaches_allowed_targets:
  assumes "sessions_ok st" "hm_get (st_sessions st) u = Some s" "config_event_snapshot st u = Some ev"
    "cc_user_id cfg = u"
  shows "case send_frame refuses libs (apply_control_event ev cfg) frame oks t of (t', sent) \<Rightarrow>
    let cfg' = apply_control_event ev cfg; targets = client_tx_targets cfg'
    in set targets = active_tx_targets s \<union>
         (case st_emergency st of None \<Rightarrow> {} | Some e \<Rightarrow> if re_source e = u then {Mixed} else {}) \<and>
       (\<exists>payload. map packet_decode sent =
          map (\<lambda>i. Inr \<lparr>pkt_user_id = u, pkt_target = targets ! i, pkt_codec = cc_codec cfg',
                       pkt_seq = sn_seq t + of_nat i, pkt_timestamp = sn_timestamp t,
                       pkt_payload = payload\<rparr>) [0..<length sent]) \<and>
       length sent \<le> length targets \<and>
       (if u \<noteq> 0 \<and> \<not> refuses (cc_codec cfg') (cc_opus_profile cfg') \<and> False \<notin> set oks \<and>
           (case client_encode libs (cc_codec cfg') (cc_opus_profile cfg') frame of
              Inl _ \<Rightarrow> False | Inr payload \<Rightarrow> length payload \<le> 65535)
        then length sent = length targets else True)"
proof -
  obtain t' sent where r: "send_frame refuses libs (apply_control_event ev cfg) frame oks t = (t', sent)"
    by (rule prod.exhaust)
  have "cc_user_id (apply_control_event ev cfg) = u"
    using follows_after_event [OF assms] by blast
  with send_frame_packets [OF r] client_targets_facts [OF assms] show ?thesis
    unfolding r prod.case Let_def by simp
qed

theorem microphone_reaches_allowed_targets_witness:
  "case send_frame (\<lambda>_ _. False) \<lparr>cl_resample = \<lambda>_ _ xs. Inr xs, cl_opus_decode = \<lambda>_ _ _. Inl [],
        cl_opus_encode = \<lambda>_ _. Inl []\<rparr>
      (apply_control_event (the (config_event_snapshot cue_state 1)) (sample_client_config 1))
      (replicate 480 0) [True, False] (send_task_start (sample_client_config 1) counters_new) of (t', sent) \<Rightarrow>
    let cfg' = apply_control_event (the (config_event_snapshot cue_state 1)) (sample_client_config 1);
        targets = client_tx_targets cfg'
    in set targets = active_tx_targets cue_session \<union>
         (case st_emergency cue_state of None \<Rightarrow> {} | Some e \<Rightarrow> if re_source e = 1 then {Mixed} else {}) \<and>
       (\<exists>payload. map packet_decode sent =
          map (\<lambda>i. Inr \<lparr>pkt_user_id = 1, pkt_target = targets ! i, pkt_codec = cc_codec cfg',
                       pkt_seq = sn_seq (send_task_start (sample_client_config 1) counters_new) + of_nat i,
                       pkt_timestamp = sn_timestamp (send_task_start (sample_client_config 1) counters_new),
                       pkt_payload = payload\<rparr>) [0..<length sent]) \<and>
       length sent \<le> length targets \<and>
       (if (1 :: user_id) \<noteq> 0 \<and> \<not> False \<and> False \<notin> set [True, False] \<and>
           (case client_encode \<lparr>cl_resample = \<lambda>_ _ xs. Inr xs, cl_opus_decode = \<lambda>_ _ _. Inl [],
               cl_opus_encode = \<lambda>_ _. Inl []\<rparr> (cc_codec cfg') (cc_opus_profile cfg') (replicate 480 0) of
              Inl _ \<Rightarrow> False | Inr payload \<Rightarrow> length payload \<le> 65535)
        then length sent = length targets else True)"
  by (rule microphone_reaches_allowed_targets
      [OF cue_state_ok cue_state_event [THEN conjunct1] cue_state_event [THEN conjunct2] sample_client_user])

section \<open>The server's mix\<close>

lemma event_receive_channels:
  assumes "hm_get (st_sessions st) u = Some s" "config_event_snapshot st u = Some ev"
    "cc_user_id cfg = u" "client_codec_supported (se_output_codec s)"
  shows "receive_channels (apply_control_event ev cfg) c =
    (if stereo_active_for_codec (se_stereo s) (se_output_codec s) \<and> (c = Pcm48 \<or> c = Opus) then 2 else 1)"
proof -
  obtain active recent where ar:
    "alert_statuses_for_user_with_sessions (st_alerts st) u (st_sessions st) = (active, recent)"
    by (rule prod.exhaust)
  with assms(1,2) have "ev = session_control_event s u (active_direct_call_statuses_for_user u (st_sessions st))
      active recent (emergency_status_for_user (st_emergency st) (st_sessions st) u)"
    by (simp add: config_event_snapshot_def)
  then show ?thesis
    using assms(3,4)
    by (simp add: session_control_event_def apply_config_update_def Let_def set_talk_mode_def receive_channels_def)
qed

lemma built_mix:
  assumes "hm_wf (st_sessions st)" "hm_get (st_sessions st) u = Some s"
    "out \<in> set (fst (build_mixes log10 env st))" "mo_user_id out = u"
  shows "mix_output_ok out \<and> mo_codec out = se_output_codec s \<and> mo_opus_profile out = se_opus_profile s \<and>
    mo_channels out = (if stereo_active_for_codec (se_stereo s) (se_output_codec s) then 2 else 1)"
proof -
  obtain v s' addr ctx where m: "(v, s') \<in> set (st_sessions st)" "mix_for log10 ctx v addr s' = Some out"
    using build_mixes_outputs [OF assms(3)] by blast
  then have "v = u" using mix_for_user assms(4) by metis
  with m(1) assms(1,2) have "s' = s" by (metis hm_wf_mem option.inject)
  with m(2) mix_for_ok [OF m(2)] show ?thesis
    by (auto simp: mix_for_def limited_mix_def Let_def split: if_splits prod.splits)
qed

text \<open>C30. From the mixer to the loudspeaker: a client that has applied the server's event receives a
  PCM48 mix, in mono or in stereo, as exactly the samples the mixer made for it: each datagram the
  mixer sends it is counted once and its frame is queued for playback with the right channels.\<close>

theorem mixed_audio_is_played:
  assumes "sessions_ok st" "hm_get (st_sessions st) u = Some s" "config_event_snapshot st u = Some ev"
    "cc_user_id cfg = u" "se_output_codec s = Pcm48"
    "out \<in> set (fst (build_mixes log10 env st))" "mo_user_id out = u"
  shows "case send_mix server sent env out st' of (wire, _) \<Rightarrow>
    list_all (\<lambda>(addr, bytes).
      receive_datagram client (apply_control_event ev cfg) bytes (counters, playback) =
        (record_udp_rx_packet counters, push_frame (mo_samples out) (mo_channels out) playback)) wire \<and>
    (if sent (mo_addr out) = (\<lambda>_. True) then length wire = 1 else True)"
proof -
  have wf: "hm_wf (st_sessions st)" using assms(1) by (simp add: sessions_ok_but_def all_sessions_iff)
  note m = built_mix [OF wf assms(2,6,7)]
  have ch: "mo_channels out \<in> {1, 2}" and len: "length (mo_samples out) = 480 * mo_channels out"
    using m by (auto simp: mix_output_ok_def frame_lengths)
  let ?payload = "pcm16_samples_to_le_bytes (mo_samples out)"
  obtain seq st1 where seq: "next_output_seq (mo_user_id out) st' = (seq, st1)" by (rule prod.exhaust)
  let ?p = "mixed_packet out seq ?payload"
  have enc: "audio_encode (server (mo_user_id out)) (mo_codec out) (mo_opus_profile out) (mo_samples out)
      (mo_channels out) = Inr ?payload"
    using m ch len assms(5) by (auto simp: audio_encode_def Let_def frame_lengths encode_pcm48)
  have small: "length ?payload \<le> 1920" using ch len by auto
  then have bytes: "packet_encode ?p = Inr (packet_bytes ?p)"
    by (simp add: packet_encode_def mixed_packet_def)
  then have dec: "packet_decode (packet_bytes ?p) = Inr ?p"
    using packet_wire.dec_iff by (auto simp: packet_encode_def split: if_splits)
  have "length (packet_bytes ?p) \<le> max_packet_bytes"
    using small by (simp add: packet_bytes_def mixed_packet_def wire_parts.simps magic_def max_packet_bytes_def
        header_len_def pcm_bytes Let_def)
  then have whole: "take max_packet_bytes (packet_bytes ?p) = packet_bytes ?p" by simp
  have chans: "receive_channels (apply_control_event ev cfg) Pcm48 = mo_channels out"
    using event_receive_channels [OF assms(2,3,4)] assms(5) m by simp
  have "receive_datagram client (apply_control_event ev cfg) (packet_bytes ?p) (counters, playback) =
      (record_udp_rx_packet counters, push_frame (mo_samples out) (mo_channels out) playback)"
    unfolding receive_datagram_def whole dec sum.case Let_def prod.case
    using pcm48_both_ways [OF len ch, of client] m assms(5) chans
    by (simp add: mixed_packet_def)
  then show ?thesis
    by (simp add: send_mix_def seq enc bytes Let_def)
qed

theorem mixed_audio_is_played_witness:
  "case send_mix (\<lambda>u. no_libs) (\<lambda>a d. True) sample_env
       (hd (fst (build_mixes (\<lambda>x. x) sample_env heard_call))) heard_call of (wire, _) \<Rightarrow>
     list_all (\<lambda>(addr, bytes).
       receive_datagram \<lparr>cl_resample = \<lambda>_ _ xs. Inr xs, cl_opus_decode = \<lambda>_ _ _. Inl [],
           cl_opus_encode = \<lambda>_ _. Inl []\<rparr>
         (apply_control_event (the (config_event_snapshot heard_call 2)) (sample_client_config 2)) bytes
         (counters_new, playback_buffer_new 6000 0) =
       (record_udp_rx_packet counters_new,
        push_frame (mo_samples (hd (fst (build_mixes (\<lambda>x. x) sample_env heard_call))))
          (mo_channels (hd (fst (build_mixes (\<lambda>x. x) sample_env heard_call))))
          (playback_buffer_new 6000 0))) wire \<and>
     (if (\<lambda>d. True) = (\<lambda>_. True) then length wire = 1 else True)"
proof -
  obtain out where out: "fst (build_mixes (\<lambda>x. x) sample_env heard_call) = [out]" "mo_user_id out = 2"
    using heard_call_mix [where ?log10.0 = "\<lambda>x. x"] by auto
  have s: "hm_get (st_sessions heard_call) 2 = Some ((session_new 0)\<lparr>se_addr := Some 7,
      se_output_codec := Pcm48, se_supported_codecs := {Pcm16, Pcm48}\<rparr>)" by (simp add: heard_call_def)
  have ev: "config_event_snapshot heard_call 2 = Some (the (config_event_snapshot heard_call 2))"
    using s by (simp add: config_event_snapshot_def case_prod_unfold Let_def)
  have ok: "sessions_ok heard_call"
    by (simp add: heard_call_def sessions_ok_but_def all_sessions_def hm_wf_def talk_ok_def history_ok_def
        session_new_def buttons_ok_def button_ok_def)
  show ?thesis
    using mixed_audio_is_played [OF ok s ev sample_client_user, where ?log10.0 = "\<lambda>x. x"
        and env = sample_env and sent = "\<lambda>a d. True" and out = out]
    by (simp add: out)
qed

end
