(* ===== verification/Mdns.thy ===== *)
theory Mdns
  imports Client_Endpoints
begin

unbundle bit_operations_syntax

text \<open>
  How the mobile app finds servers on the network (\<open>clients/app/src/lib.rs\<close>): the multicast DNS
  query it sends and the parser of the datagrams that come back, which anybody on the network can
  send. Reading a byte or a slice outside the datagram is a panic in Rust and an error of its own
  here (\<open>IndexPanic\<close>), so that its absence can be proved. Names and texts are lists of code points.
\<close>

section \<open>Bytes and text\<close>

datatype dns_error = DnsError string | IndexPanic

definition byte_at :: "u8 list \<Rightarrow> nat \<Rightarrow> dns_error + u8" where
  "byte_at p i = (if i < length p then Inr (p ! i) else Inl IndexPanic)"

definition slice :: "u8 list \<Rightarrow> nat \<Rightarrow> nat \<Rightarrow> dns_error + u8 list" where
  "slice p a b = (if a \<le> b \<and> b \<le> length p then Inr (take (b - a) (drop a p)) else Inl IndexPanic)"

text \<open>\<open>String::from_utf8_lossy\<close>: every maximal prefix of a sequence that cannot be completed becomes
  one U+FFFD.\<close>

definition second_ok :: "nat \<Rightarrow> nat \<Rightarrow> bool" where
  "second_ok b c =
     (if b = 224 then 160 \<le> c \<and> c < 192
      else if b = 237 then 128 \<le> c \<and> c < 160
      else if b = 240 then 144 \<le> c \<and> c < 192
      else if b = 244 then 128 \<le> c \<and> c < 144
      else continuation c)"

definition replacement :: nat where "replacement = 65533"

fun utf8_lossy :: "nat list \<Rightarrow> nat list" where
  "utf8_lossy [] = []"
| "utf8_lossy (b # bs) =
     (if b < 128 then b # utf8_lossy bs
      else if 194 \<le> b \<and> b < 224
      then (case bs of
              c # rest \<Rightarrow> if continuation c then ((b - 192) * 64 + (c - 128)) # utf8_lossy rest
                         else replacement # utf8_lossy bs
            | [] \<Rightarrow> [replacement])
      else if 224 \<le> b \<and> b < 240
      then (case bs of
              c # d # rest \<Rightarrow>
                if \<not> second_ok b c then replacement # utf8_lossy bs
                else if \<not> continuation d then replacement # utf8_lossy (d # rest)
                else ((b - 224) * 4096 + (c - 128) * 64 + (d - 128)) # utf8_lossy rest
            | [c] \<Rightarrow> if second_ok b c then [replacement] else replacement # utf8_lossy [c]
            | [] \<Rightarrow> [replacement])
      else if 240 \<le> b \<and> b < 245
      then (case bs of
              c # d # e # rest \<Rightarrow>
                if \<not> second_ok b c then replacement # utf8_lossy bs
                else if \<not> continuation d then replacement # utf8_lossy (d # e # rest)
                else if \<not> continuation e then replacement # utf8_lossy (e # rest)
                else ((b - 240) * 262144 + (c - 128) * 4096 + (d - 128) * 64 + (e - 128)) # utf8_lossy rest
            | [c, d] \<Rightarrow>
                if \<not> second_ok b c then replacement # utf8_lossy bs
                else if \<not> continuation d then replacement # utf8_lossy [d] else [replacement]
            | [c] \<Rightarrow> if second_ok b c then [replacement] else replacement # utf8_lossy [c]
            | [] \<Rightarrow> [replacement])
      else replacement # utf8_lossy bs)"

definition text_of_bytes :: "u8 list \<Rightarrow> nat list" where
  "text_of_bytes bs = utf8_lossy (map unat bs)"

definition utf8_char :: "char \<Rightarrow> u8 list" where
  "utf8_char c =
     (let n = of_char c :: nat
      in if n < 128 then [of_nat n] else [of_nat (192 + n div 64), of_nat (128 + n mod 64)])"

definition utf8_bytes :: "string \<Rightarrow> u8 list" where
  "utf8_bytes s = concat (map utf8_char s)"

section \<open>The query\<close>

definition discovery_service :: string where
  "discovery_service = ''_intercom-suite._tcp.local''"

definition trim_end_dots :: "'a \<Rightarrow> 'a list \<Rightarrow> 'a list" where
  "trim_end_dots dot s = rev (dropWhile (\<lambda>c. c = dot) (rev s))"

text \<open>The labels after one another, each with its length in front, then a zero.\<close>

fun write_labels :: "string \<Rightarrow> string list \<Rightarrow> dns_error + u8 list" where
  "write_labels name [] = Inr [0]"
| "write_labels name (label # labels) =
     (if label = [] \<or> length (utf8_bytes label) > 63
      then Inl (DnsError (''invalid DNS label in '' @ name))
      else (case write_labels name labels of
              Inl e \<Rightarrow> Inl e
            | Inr rest \<Rightarrow> Inr (of_nat (length (utf8_bytes label)) # utf8_bytes label @ rest)))"

definition write_dns_name :: "u8 list \<Rightarrow> string \<Rightarrow> dns_error + u8 list" where
  "write_dns_name out name =
     (case write_labels name (split_on CHR ''.'' (trim_end_dots CHR ''.'' name)) of
        Inl e \<Rightarrow> Inl e | Inr bs \<Rightarrow> Inr (out @ bs))"

definition build_mdns_ptr_query :: "string \<Rightarrow> dns_error + u8 list" where
  "build_mdns_ptr_query service =
     (case write_dns_name (u16_to_be 0 @ u16_to_be 0 @ u16_to_be 1 @ u16_to_be 0 @ u16_to_be 0 @ u16_to_be 0)
             service of
        Inl e \<Rightarrow> Inl e
      | Inr out \<Rightarrow> Inr (out @ u16_to_be 12 @ u16_to_be 0x8001))"

section \<open>Reading\<close>

definition dns_u16 :: "u8 list \<Rightarrow> nat \<Rightarrow> dns_error + u16" where
  "dns_u16 p offset =
     (if offset + 2 > length p then Inl (DnsError ''DNS u16 out of bounds'')
      else case (byte_at p offset, byte_at p (offset + 1)) of
             (Inr a, Inr b) \<Rightarrow> Inr (u16_from_be a b)
           | _ \<Rightarrow> Inl IndexPanic)"

definition dns_u32 :: "u8 list \<Rightarrow> nat \<Rightarrow> dns_error + u32" where
  "dns_u32 p offset =
     (if offset + 4 > length p then Inl (DnsError ''DNS u32 out of bounds'')
      else case (byte_at p offset, byte_at p (offset + 1), byte_at p (offset + 2), byte_at p (offset + 3)) of
             (Inr a, Inr b, Inr c, Inr d) \<Rightarrow> Inr (u32_from_be a b c d)
           | _ \<Rightarrow> Inl IndexPanic)"

fun join_codes :: "nat list list \<Rightarrow> nat list" where
  "join_codes [] = []"
| "join_codes [l] = l"
| "join_codes (l # ls) = l @ of_char CHR ''.'' # join_codes ls"

definition max_dns_jumps :: nat where "max_dns_jumps = 16"

text \<open>The loop of \<open>read_dns_name\<close>. A compression pointer may point anywhere, also at itself; the count
  of jumps bounds the loop.\<close>

function read_name_loop ::
  "u8 list \<Rightarrow> nat \<Rightarrow> nat list list \<Rightarrow> nat option \<Rightarrow> nat \<Rightarrow> dns_error + nat list \<times> nat" where
  "read_name_loop p pos labels consumed jumps =
     (if pos \<ge> length p then Inl (DnsError ''DNS name offset out of bounds'')
      else case byte_at p pos of
        Inl e \<Rightarrow> Inl e
      | Inr len \<Rightarrow>
          if len AND 0xC0 = 0xC0
          then (if pos + 1 \<ge> length p then Inl (DnsError ''DNS compression pointer out of bounds'')
                else case byte_at p (pos + 1) of
                  Inl e \<Rightarrow> Inl e
                | Inr low \<Rightarrow>
                    if jumps + 1 > max_dns_jumps then Inl (DnsError ''too many DNS compression jumps'')
                    else read_name_loop p (unat (len AND 0x3F) * 256 + unat low) labels
                           (case consumed of None \<Rightarrow> Some (pos + 2) | Some c \<Rightarrow> Some c) (jumps + 1))
          else if len = 0
          then Inr (join_codes labels, case consumed of None \<Rightarrow> pos + 1 | Some c \<Rightarrow> c)
          else if len AND 0xC0 \<noteq> 0 then Inl (DnsError ''unsupported DNS label encoding'')
          else if pos + 1 + unat len > length p then Inl (DnsError ''DNS label out of bounds'')
          else case slice p (pos + 1) (pos + 1 + unat len) of
            Inl e \<Rightarrow> Inl e
          | Inr label \<Rightarrow>
              read_name_loop p (pos + 1 + unat len) (labels @ [text_of_bytes label]) consumed jumps)"
  by pat_completeness auto

termination
  by (relation "measures [\<lambda>(p, pos, labels, consumed, jumps). max_dns_jumps - jumps,
      \<lambda>(p, pos, labels, consumed, jumps). length p - pos]")
    (auto simp: max_dns_jumps_def split: if_splits)

declare read_name_loop.simps [simp del]

definition read_dns_name :: "u8 list \<Rightarrow> nat \<Rightarrow> dns_error + nat list \<times> nat" where
  "read_dns_name p offset = read_name_loop p offset [] None 0"

definition lower_code :: "nat \<Rightarrow> nat" where
  "lower_code c = (if 65 \<le> c \<and> c \<le> 90 then c + 32 else c)"

definition normalize_dns_name :: "nat list \<Rightarrow> nat list" where
  "normalize_dns_name name = map lower_code (trim_end_dots (of_char CHR ''.'') name)"

text \<open>The text records: each a length and its bytes; the key is everything up to the first \<open>=\<close>.\<close>

definition split_codes :: "nat list \<Rightarrow> (nat list \<times> nat list) option" where
  "split_codes t =
     (let key = takeWhile (\<lambda>c. c \<noteq> of_char CHR ''='') t
      in if of_char CHR ''='' \<in> set t then Some (key, drop (length key + 1) t) else None)"

fun read_txt_records :: "u8 list \<Rightarrow> (nat list \<times> nat list) list" where
  "read_txt_records [] = []"
| "read_txt_records (len # data) =
     (if unat len > length data then []
      else (case split_codes (text_of_bytes (take (unat len) data)) of
              None \<Rightarrow> []
            | Some (key, value) \<Rightarrow> [(map lower_code key, value)]) @
           read_txt_records (drop (unat len) data))"

section \<open>Addresses\<close>

datatype ip_addr = Ipv4 u8 u8 u8 u8 | Ipv6 "u16 list"

definition is_ipv4_addr :: "ip_addr \<Rightarrow> bool" where
  "is_ipv4_addr ip = (case ip of Ipv4 _ _ _ _ \<Rightarrow> True | Ipv6 _ \<Rightarrow> False)"

definition hex_digit :: "nat \<Rightarrow> char" where
  "hex_digit n = char_of (if n < 10 then 48 + n else 87 + n)"

definition show_hex :: "u16 \<Rightarrow> string" where
  "show_hex w =
     (let n = unat w;
          ds = [n div 4096, n div 256 mod 16, n div 16 mod 16, n mod 16]
      in case dropWhile (\<lambda>d. d = 0) ds of [] \<Rightarrow> ''0'' | ds \<Rightarrow> map hex_digit ds)"

text \<open>The longest run of zero groups, the first of several, is left out when it has two or more.\<close>

fun zero_runs :: "nat \<Rightarrow> u16 list \<Rightarrow> (nat \<times> nat) list" where
  "zero_runs i [] = []"
| "zero_runs i (g # gs) = (i, length (takeWhile (\<lambda>w. w = 0) (g # gs))) # zero_runs (i + 1) gs"

definition longest_zero_run :: "u16 list \<Rightarrow> nat \<times> nat" where
  "longest_zero_run gs = fold (\<lambda>r best. if snd r > snd best then r else best) (zero_runs 0 gs) (0, 0)"

fun show_ip :: "ip_addr \<Rightarrow> string" where
  "show_ip (Ipv4 a b c d) = join ''.'' (map show_word [a, b, c, d])"
| "show_ip (Ipv6 gs) =
     (if take 6 gs = [0, 0, 0, 0, 0, 0xFFFF] \<and> length gs = 8
      then ''::ffff:'' @ join ''.'' (map show_nat
             [unat (gs ! 6) div 256, unat (gs ! 6) mod 256, unat (gs ! 7) div 256, unat (gs ! 7) mod 256])
      else case longest_zero_run gs of (start, n) \<Rightarrow>
        if n > 1
        then join '':'' (map show_hex (take start gs)) @ ''::'' @ join '':'' (map show_hex (drop (start + n) gs))
        else join '':'' (map show_hex gs))"

definition url_host :: "ip_addr \<Rightarrow> string" where
  "url_host ip = (if is_ipv4_addr ip then show_ip ip else ''['' @ show_ip ip @ '']'')"

section \<open>Services\<close>

record mdns_service =
  ms_instance :: "nat list"
  ms_name :: "nat list option"
  ms_target :: "nat list option"
  ms_control_port :: "u16 option"
  ms_audio_port :: "u16 option"
  ms_admin_port :: "u16 option"
  ms_auth :: "nat list option"
  ms_version :: "nat list option"

definition default_mdns_service :: mdns_service where
  "default_mdns_service =
     \<lparr>ms_instance = [], ms_name = None, ms_target = None, ms_control_port = None, ms_audio_port = None,
      ms_admin_port = None, ms_auth = None, ms_version = None\<rparr>"

text \<open>What is known of a discovered server, before it becomes a profile of the settings.\<close>

record discovered_server =
  di_id :: "nat list"
  di_name :: "nat list"
  di_server_host :: string
  di_server :: string
  di_control :: string
  di_admin :: "string option"
  di_auth :: "nat list option"
  di_version :: "nat list option"

definition code_space :: "nat \<Rightarrow> bool" where
  "code_space c \<longleftrightarrow> c \<in> {9..13} \<union> {32, 133, 160, 5760} \<union> {8192..8202} \<union> {8232, 8233, 8239, 8287, 12288}"

definition trim_codes :: "nat list \<Rightarrow> nat list" where
  "trim_codes s = rev (dropWhile code_space (rev (dropWhile code_space s)))"

definition service_suffix :: "nat list" where
  "service_suffix = codes (''.'' @ discovery_service)"

definition has_suffix :: "'a list \<Rightarrow> 'a list \<Rightarrow> bool" where
  "has_suffix ending s \<longleftrightarrow> length ending \<le> length s \<and> drop (length s - length ending) s = ending"

definition mdns_instance_label :: "nat list \<Rightarrow> nat list" where
  "mdns_instance_label i =
     (if has_suffix service_suffix i then take (length i - length service_suffix) i else i)"

definition mdns_profile_id :: "nat list \<Rightarrow> string \<Rightarrow> nat list" where
  "mdns_profile_id name control =
     (if trim_codes name = [] then codes (trim control)
      else trim_codes name @ codes ''|'' @ codes (trim control))"

definition profile_from_mdns_service ::
  "mdns_service \<Rightarrow> (nat list, ip_addr list) hash_map \<Rightarrow> discovered_server option" where
  "profile_from_mdns_service service addresses =
     (case ms_target service of
        None \<Rightarrow> None
      | Some target \<Rightarrow>
          (case hm_get addresses target of
             None \<Rightarrow> None
           | Some ips \<Rightarrow>
               (case (case find is_ipv4_addr ips of
                        Some ip \<Rightarrow> Some ip
                      | None \<Rightarrow> (case ips of [] \<Rightarrow> None | ip # _ \<Rightarrow> Some ip)) of
                  None \<Rightarrow> None
                | Some ip \<Rightarrow>
                    let name = (case ms_name service of
                                  Some n \<Rightarrow> n | None \<Rightarrow> mdns_instance_label (ms_instance service));
                        control_port = (case ms_control_port service of
                                          Some p \<Rightarrow> unat p | None \<Rightarrow> default_control_port);
                        audio_port = (case ms_audio_port service of
                                        Some p \<Rightarrow> unat p | None \<Rightarrow> default_audio_port);
                        control = ''ws://'' @ url_host ip @ '':'' @ show_nat control_port
                    in Some
                      \<lparr>di_id = (if trim_codes (ms_instance service) = [] then mdns_profile_id name control
                                else ms_instance service),
                       di_name = name, di_server_host = show_ip ip,
                       di_server = url_host ip @ '':'' @ show_nat audio_port, di_control = control,
                       di_admin = map_option (\<lambda>p. ''http://'' @ url_host ip @ '':'' @ show_word p)
                                    (ms_admin_port service),
                       di_auth = ms_auth service, di_version = ms_version service\<rparr>)))"

section \<open>Datagrams\<close>

record mdns_state =
  md_instances :: "nat list set"
  md_services :: "(nat list, mdns_service) hash_map"
  md_addresses :: "(nat list, ip_addr list) hash_map"

definition parse_code_u16 :: "nat list \<Rightarrow> u16 option" where
  "parse_code_u16 v = (if list_all (\<lambda>c. c < 128) v then parse_u16 (map char_of v) else None)"

definition apply_txt :: "nat list \<times> nat list \<Rightarrow> mdns_service \<Rightarrow> mdns_service" where
  "apply_txt = (\<lambda>(key, value) s.
     if key = codes ''audio_port'' then s\<lparr>ms_audio_port := parse_code_u16 value\<rparr>
     else if key = codes ''admin_port'' then s\<lparr>ms_admin_port := parse_code_u16 value\<rparr>
     else if key = codes ''auth'' then s\<lparr>ms_auth := Some value\<rparr>
     else if key = codes ''name'' then s\<lparr>ms_name := Some value\<rparr>
     else if key = codes ''version'' then s\<lparr>ms_version := Some value\<rparr>
     else s)"

definition add_address :: "nat list \<Rightarrow> ip_addr \<Rightarrow> mdns_state \<Rightarrow> mdns_state" where
  "add_address name ip m =
     m\<lparr>md_addresses := hm_entry (normalize_dns_name name) [] (\<lambda>ips. ips @ [ip]) (md_addresses m)\<rparr>"

definition bytes_u16s :: "u8 list \<Rightarrow> u16 list" where
  "bytes_u16s bs = map (\<lambda>i. u16_from_be (bs ! (2 * i)) (bs ! (2 * i + 1))) [0..<length bs div 2]"

text \<open>One record, whose data of \<open>rdlen\<close> bytes begin at \<open>start\<close> and lie inside the datagram.\<close>

definition apply_record ::
  "u8 list \<Rightarrow> nat list \<Rightarrow> u16 \<Rightarrow> nat \<Rightarrow> nat \<Rightarrow> mdns_state \<Rightarrow> dns_error + mdns_state" where
  "apply_record p name kind start rdlen m =
     (if kind = 1 \<and> rdlen = 4
      then (case (byte_at p start, byte_at p (start + 1), byte_at p (start + 2), byte_at p (start + 3)) of
              (Inr a, Inr b, Inr c, Inr d) \<Rightarrow> Inr (add_address name (Ipv4 a b c d) m)
            | _ \<Rightarrow> Inl IndexPanic)
      else if kind = 12 \<and> normalize_dns_name name = codes discovery_service
      then (case read_dns_name p start of
              Inl e \<Rightarrow> Inl e
            | Inr (i, _) \<Rightarrow>
                let i = normalize_dns_name i
                in Inr (m\<lparr>md_instances := insert i (md_instances m),
                          md_services := hm_entry i (default_mdns_service\<lparr>ms_instance := i\<rparr>) id
                                           (md_services m)\<rparr>))
      else if kind = 16
      then (case slice p start (start + rdlen) of
              Inl e \<Rightarrow> Inl e
            | Inr data \<Rightarrow>
                let i = normalize_dns_name name
                in Inr (m\<lparr>md_services := hm_entry i default_mdns_service
                      (\<lambda>s. fold apply_txt (read_txt_records data) (s\<lparr>ms_instance := i\<rparr>)) (md_services m)\<rparr>))
      else if kind = 28 \<and> rdlen = 16
      then (case slice p start (start + 16) of
              Inl e \<Rightarrow> Inl e
            | Inr data \<Rightarrow> Inr (add_address name (Ipv6 (bytes_u16s data)) m))
      else if kind = 33 \<and> rdlen \<ge> 6
      then (case dns_u16 p (start + 4) of
              Inl e \<Rightarrow> Inl e
            | Inr port \<Rightarrow>
                (case read_dns_name p (start + 6) of
                   Inl e \<Rightarrow> Inl e
                 | Inr (target, _) \<Rightarrow>
                     let i = normalize_dns_name name
                     in Inr (m\<lparr>md_services := hm_entry i default_mdns_service
                           (\<lambda>s. s\<lparr>ms_instance := i, ms_control_port := Some port,
                                ms_target := Some (normalize_dns_name target)\<rparr>) (md_services m)\<rparr>)))
      else Inr m)"

fun skip_questions :: "u8 list \<Rightarrow> nat \<Rightarrow> nat \<Rightarrow> dns_error + nat option" where
  "skip_questions p 0 offset = Inr (Some offset)"
| "skip_questions p (Suc n) offset =
     (case read_dns_name p offset of
        Inl e \<Rightarrow> Inl e
      | Inr (_, after) \<Rightarrow>
          if after + 4 > length p then Inr None else skip_questions p n (after + 4))"

fun read_records :: "u8 list \<Rightarrow> nat \<Rightarrow> nat \<Rightarrow> mdns_state \<Rightarrow> dns_error + mdns_state" where
  "read_records p 0 offset m = Inr m"
| "read_records p (Suc n) offset m =
     (case read_dns_name p offset of
        Inl e \<Rightarrow> Inl e
      | Inr (name, offset) \<Rightarrow>
          if offset + 10 > length p then Inr m
          else (case (dns_u16 p offset, dns_u16 p (offset + 2), dns_u32 p (offset + 4), dns_u16 p (offset + 8)) of
            (Inr kind, Inr _, Inr _, Inr rdlen) \<Rightarrow>
              if offset + 10 + unat rdlen > length p then Inr m
              else (case apply_record p name kind (offset + 10) (unat rdlen) m of
                      Inl e \<Rightarrow> Inl e
                    | Inr m \<Rightarrow> read_records p n (offset + 10 + unat rdlen) m)
          | _ \<Rightarrow> Inl (DnsError ''DNS u16 out of bounds'')))"

definition service_wanted :: "mdns_state \<Rightarrow> nat list \<times> mdns_service \<Rightarrow> bool" where
  "service_wanted m = (\<lambda>(i, s).
     i \<in> md_instances m \<or> has_suffix (codes discovery_service) i \<or> ms_target s \<noteq> None)"

definition servers_of :: "mdns_state \<Rightarrow> discovered_server list" where
  "servers_of m =
     List.map_filter (\<lambda>(i, s). profile_from_mdns_service s (md_addresses m))
       (filter (service_wanted m) (md_services m))"

definition profiles_from_mdns_packet :: "u8 list \<Rightarrow> dns_error + discovered_server list" where
  "profiles_from_mdns_packet p =
     (if length p < 12 then Inr []
      else case (dns_u16 p 4, dns_u16 p 6, dns_u16 p 8, dns_u16 p 10) of
        (Inr qd, Inr an, Inr ns, Inr ar) \<Rightarrow>
          (case skip_questions p (unat qd) 12 of
             Inl e \<Rightarrow> Inl e
           | Inr None \<Rightarrow> Inr []
           | Inr (Some offset) \<Rightarrow>
               (case read_records p (unat an + unat ns + unat ar) offset
                       \<lparr>md_instances = {}, md_services = [], md_addresses = []\<rparr> of
                  Inl e \<Rightarrow> Inl e
                | Inr m \<Rightarrow> Inr (servers_of m)))
      | _ \<Rightarrow> Inl (DnsError ''DNS u16 out of bounds''))"

text \<open>The datagrams that arrive within the two seconds, in order: the first that does not parse ends
  the discovery.\<close>

fun collect_responses :: "u8 list list \<Rightarrow> dns_error + discovered_server list" where
  "collect_responses [] = Inr []"
| "collect_responses (p # ps) =
     (case profiles_from_mdns_packet (take 4096 p) of
        Inl e \<Rightarrow> Inl e
      | Inr found \<Rightarrow> (case collect_responses ps of Inl e \<Rightarrow> Inl e | Inr others \<Rightarrow> Inr (found @ others)))"

section \<open>Reading stays inside the datagram\<close>

lemma byte_at_inside [simp]: "i < length p \<Longrightarrow> byte_at p i = Inr (p ! i)"
  by (simp add: byte_at_def)

lemma slice_inside [simp]: "a \<le> b \<Longrightarrow> b \<le> length p \<Longrightarrow> slice p a b = Inr (take (b - a) (drop a p))"
  by (simp add: slice_def)

lemma dns_u16_inside: "offset + 2 \<le> length p \<Longrightarrow> \<exists>w. dns_u16 p offset = Inr w"
  by (simp add: dns_u16_def)

lemma dns_u32_inside: "offset + 4 \<le> length p \<Longrightarrow> \<exists>w. dns_u32 p offset = Inr w"
  by (simp add: dns_u32_def)

lemma dns_u16_safe: "dns_u16 p offset \<noteq> Inl IndexPanic"
  by (simp add: dns_u16_def)

text \<open>A reader that does not panic, and where the name ends that it read.\<close>

definition name_safe :: "u8 list \<Rightarrow> nat \<Rightarrow> nat option \<Rightarrow> dns_error + nat list \<times> nat \<Rightarrow> bool" where
  "name_safe p pos consumed r \<longleftrightarrow>
     (case r of
        Inl e \<Rightarrow> e \<noteq> IndexPanic
      | Inr (name, after) \<Rightarrow>
          (case consumed of None \<Rightarrow> pos < after \<and> after \<le> length p | Some c \<Rightarrow> after = c))"

lemma name_safe_simps [simp]:
  "name_safe p pos consumed (Inl e) \<longleftrightarrow> e \<noteq> IndexPanic"
  "name_safe p pos None (Inr (name, after)) \<longleftrightarrow> pos < after \<and> after \<le> length p"
  "name_safe p pos (Some c) (Inr (name, after)) \<longleftrightarrow> after = c"
  by (simp_all add: name_safe_def)

lemma name_safe_forward: "name_safe p pos' consumed r \<Longrightarrow> pos \<le> pos' \<Longrightarrow> name_safe p pos consumed r"
  by (auto simp: name_safe_def split: sum.splits option.splits)

lemma name_safe_jump:
  "name_safe p pos' (case consumed of None \<Rightarrow> Some (pos + 2) | Some c \<Rightarrow> Some c) r \<Longrightarrow>
     pos + 1 < length p \<Longrightarrow> name_safe p pos consumed r"
  by (auto simp: name_safe_def split: sum.splits option.splits)

lemma read_name_loop_safe: "name_safe p pos consumed (read_name_loop p pos labels consumed jumps)"
proof (induction p pos labels consumed jumps rule: read_name_loop.induct)
  case (1 p pos labels consumed jumps)
  let ?len = "p ! pos"
  show ?case
  proof (cases "pos < length p")
    case inside: True
    then have nth: "byte_at p pos = Inr ?len" and low: "\<not> length p \<le> pos" by simp_all
    consider (jump) "?len AND 0xC0 = 0xC0" | (other) "?len AND 0xC0 \<noteq> 0xC0" by blast
    then show ?thesis
    proof cases
      case jump
      show ?thesis
      proof (cases "pos + 1 < length p \<and> jumps + 1 \<le> max_dns_jumps")
        case True
        have "name_safe p pos consumed (read_name_loop p (unat (?len AND 0x3F) * 256 + unat (p ! (pos + 1))) labels
            (case consumed of None \<Rightarrow> Some (pos + 2) | Some c \<Rightarrow> Some c) (jumps + 1))"
          by (rule name_safe_jump [OF 1(1) [OF _ nth jump]]) (use True inside in auto)
        with True jump inside show ?thesis by (subst read_name_loop.simps) simp
      qed (use jump inside in \<open>subst read_name_loop.simps, auto\<close>)
    next
      case other
      show ?thesis
      proof (cases "?len \<noteq> 0 \<and> ?len AND 0xC0 = 0 \<and> pos + 1 + unat ?len \<le> length p")
        case True
        have "name_safe p pos consumed (read_name_loop p (pos + 1 + unat ?len)
            (labels @ [text_of_bytes (take (unat ?len) (drop (pos + 1) p))]) consumed jumps)"
          by (rule name_safe_forward [OF 1(2) [OF _ nth other]]) (use True inside in auto)
        with True inside show ?thesis by (subst read_name_loop.simps) simp
      qed (use other inside in \<open>subst read_name_loop.simps, auto split: option.splits\<close>)
    qed
  qed (subst read_name_loop.simps, simp)
qed

lemma read_dns_name_safe: "name_safe p offset None (read_dns_name p offset)"
  by (simp add: read_dns_name_def read_name_loop_safe)

lemma read_dns_name_no_panic: "read_dns_name p offset \<noteq> Inl IndexPanic"
  using read_dns_name_safe [of p offset] by (metis name_safe_simps(1))

lemma read_dns_name_after: "read_dns_name p offset = Inr (name, after) \<Longrightarrow> offset < after \<and> after \<le> length p"
  using read_dns_name_safe [of p offset] by (metis name_safe_simps(2))

lemma apply_record_safe:
  assumes "start + rdlen \<le> length p"
  shows "apply_record p name kind start rdlen m \<noteq> Inl IndexPanic"
proof (cases "kind = 33 \<and> 6 \<le> rdlen")
  case True
  obtain port where "dns_u16 p (start + 4) = Inr port" using dns_u16_inside [of "start + 4" p] assms True by auto
  with True read_dns_name_no_panic [of p "start + 6"] show ?thesis
    by (auto simp: apply_record_def Let_def split: sum.splits)
next
  case False
  with assms read_dns_name_no_panic [of p start] show ?thesis
    by (auto simp: apply_record_def Let_def split: sum.splits)
qed

lemma read_records_safe: "read_records p n offset m \<noteq> Inl IndexPanic"
proof (induction n arbitrary: offset m)
  case (Suc n)
  show ?case
  proof (cases "read_dns_name p offset")
    case (Inl e)
    with read_dns_name_no_panic [of p offset] show ?thesis by auto
  next
    case (Inr r)
    obtain name after where r: "r = (name, after)" by (rule prod.exhaust)
    show ?thesis
    proof (cases "after + 10 \<le> length p")
      case True
      then obtain kind cls ttl len where "dns_u16 p after = Inr kind" "dns_u16 p (after + 2) = Inr cls"
        "dns_u32 p (after + 4) = Inr ttl" "dns_u16 p (after + 8) = Inr len"
        using dns_u16_inside [of after p] dns_u16_inside [of "after + 2" p]
          dns_u32_inside [of "after + 4" p] dns_u16_inside [of "after + 8" p] by auto
      with True Inr r Suc.IH apply_record_safe [of "after + 10" "unat len" p name kind m] show ?thesis
        by (auto split: sum.splits)
    qed (simp add: Inr r)
  qed
qed simp

lemma skip_questions_safe: "skip_questions p n offset \<noteq> Inl IndexPanic"
proof (induction n arbitrary: offset)
  case (Suc n)
  with read_dns_name_no_panic [of p offset] show ?case by (auto split: sum.splits)
qed simp

lemma profiles_safe: "profiles_from_mdns_packet p \<noteq> Inl IndexPanic"
proof (cases "length p < 12")
  case False
  then obtain qd an ns ar where "dns_u16 p 4 = Inr qd" "dns_u16 p 6 = Inr an" "dns_u16 p 8 = Inr ns"
    "dns_u16 p 10 = Inr ar"
    using dns_u16_inside [of 4 p] dns_u16_inside [of 6 p] dns_u16_inside [of 8 p] dns_u16_inside [of 10 p]
    by auto
  with False skip_questions_safe [of p "unat qd" 12] read_records_safe show ?thesis
    by (auto simp: profiles_from_mdns_packet_def split: sum.splits option.splits)
qed (simp add: profiles_from_mdns_packet_def)

section \<open>Names that were written are read back\<close>

lemma utf8_bytes_Cons: "utf8_bytes (c # s) = utf8_char c @ utf8_bytes s"
  by (simp add: utf8_bytes_def)

lemma utf8_lossy_char: "utf8_lossy (map unat (utf8_char c) @ rest) = of_char c # utf8_lossy rest"
proof -
  have c: "of_char c < (256 :: nat)" by (rule nat_of_char_less_256)
  show ?thesis
  proof (cases "of_char c < (128 :: nat)")
    case True
    then show ?thesis by (simp add: utf8_char_def Let_def unat_of_nat)
  next
    case False
    define n :: nat where "n = of_char c"
    have n: "128 \<le> n" "n < 256" using c False by (simp_all add: n_def)
    have "n div 64 < 4" "n mod 64 < 64" using n by auto
    then have u: "unat (of_nat (192 + n div 64) :: u8) = 192 + n div 64"
      "unat (of_nat (128 + n mod 64) :: u8) = 128 + n mod 64"
      by (simp_all only: unsigned_of_nat) (simp_all add: take_bit_nat_eq_self)
    have "(n div 64) * 64 + n mod 64 = n" by simp
    with u n False show ?thesis
      by (auto simp: utf8_char_def Let_def n_def [symmetric] continuation_def)
  qed
qed

lemma text_of_utf8: "text_of_bytes (utf8_bytes s) = codes s"
proof -
  have "utf8_lossy (map unat (utf8_bytes s) @ []) = codes s"
  proof (induction s)
    case (Cons c s)
    with utf8_lossy_char [of c "map unat (utf8_bytes s)"] show ?case
      by (simp add: utf8_bytes_Cons codes_def)
  qed (simp add: utf8_bytes_def codes_def)
  then show ?thesis by (simp add: text_of_bytes_def)
qed

lemma label_length_byte:
  assumes "n < 64" shows "(of_nat n :: u8) AND 0xC0 = 0"
proof (rule bit_eqI)
  fix k
  have "(0xC0 :: u8) = push_bit 6 3" by (simp add: push_bit_eq_mult)
  moreover have "(of_nat n :: u8) = take_bit 6 (of_nat n)"
    using assms by (simp add: of_nat_take_bit [symmetric] take_bit_nat_eq_self)
  ultimately show "bit ((of_nat n :: u8) AND 0xC0) k = bit (0 :: u8) k"
    by (metis bit_0_eq bit_and_iff bit_push_bit_iff bit_take_bit_iff bot_apply bot_bool_def not_less)
qed

text \<open>What the labels, once written, are read as; \<open>pos\<close> is where they begin.\<close>

lemma read_written_labels:
  assumes "write_labels name ls = Inr bs"
  shows "read_name_loop (out @ bs @ rest) (length out) ls0 None jumps =
    Inr (join_codes (ls0 @ map codes ls), length out + length bs)"
  using assms
proof (induction ls arbitrary: out bs ls0)
  case Nil
  then have "bs = [0]" by simp
  then show ?case by (subst read_name_loop.simps) simp
next
  case (Cons l ls)
  then obtain tail where tail: "write_labels name ls = Inr tail" "l \<noteq> []" "length (utf8_bytes l) \<le> 63"
    "bs = of_nat (length (utf8_bytes l)) # utf8_bytes l @ tail"
    by (auto split: if_splits sum.splits)
  let ?n = "length (utf8_bytes l)" and ?p = "out @ bs @ rest"
  have n: "unat (of_nat ?n :: u8) = ?n" using tail(3) by (simp add: unat_of_nat)
  have "utf8_char (hd l) \<noteq> []" by (simp add: utf8_char_def Let_def)
  then have pos: "?n \<noteq> 0" using tail(2) by (cases l) (auto simp: utf8_bytes_Cons)
  have b: "(of_nat ?n :: u8) AND 0xC0 = 0" "(of_nat ?n :: u8) \<noteq> 0"
    using label_length_byte [of ?n] tail(3) pos n by auto
  have l: "take ?n (drop (length out + 1) ?p) = utf8_bytes l" by (simp add: tail(4))
  have "read_name_loop ((out @ of_nat ?n # utf8_bytes l) @ tail @ rest) (length (out @ of_nat ?n # utf8_bytes l))
      (ls0 @ [codes l]) None jumps =
      Inr (join_codes ((ls0 @ [codes l]) @ map codes ls), length (out @ of_nat ?n # utf8_bytes l) + length tail)"
    by (rule Cons.IH [OF tail(1)])
  then have "read_name_loop ?p (length out + 1 + ?n) (ls0 @ [codes l]) None jumps =
      Inr (join_codes (ls0 @ map codes (l # ls)), length out + length bs)"
    by (simp add: tail(4))
  moreover have "?p ! length out = of_nat ?n" by (simp add: tail(4))
  moreover have "length out + 1 + ?n \<le> length ?p" by (simp add: tail(4))
  ultimately show ?case
    using b n l tail(4) [symmetric] by (subst read_name_loop.simps) (auto simp: text_of_utf8)
qed

lemma join_codes_split: "join_codes (map codes (split_on CHR ''.'' s)) = codes s"
proof (induction s)
  case (Cons c s)
  obtain l ls where ls: "split_on CHR ''.'' s = l # ls" using length_split_on [of "CHR ''.''" s]
    by (cases "split_on CHR ''.'' s") simp_all
  have "join_codes ((c' # codes l) # map codes ls) = c' # join_codes (codes l # map codes ls)" for c'
    by (cases ls) simp_all
  with Cons ls show ?case by (simp add: codes_def)
qed (simp add: codes_def)

lemma write_labels_fails:
  "(\<exists>e. write_labels name ls = Inl e) \<longleftrightarrow> (\<exists>l\<in>set ls. l = [] \<or> 63 < length (utf8_bytes l))"
  by (induction ls) (auto split: sum.splits)

text \<open>Names on the wire: a name is written exactly when its labels, after the dots at its end are
  taken off, are not empty and fit into 63 bytes; and a name that was written is read back, wherever
  it stands in the datagram and whatever follows it.\<close>

lemma dns_names_round_trip:
  "case write_dns_name out name of
     Inr datagram \<Rightarrow>
       read_dns_name (datagram @ rest) (length out) =
         Inr (codes (trim_end_dots CHR ''.'' name), length datagram)
   | Inl e \<Rightarrow>
       \<not> list_all (\<lambda>l. l \<noteq> [] \<and> length (utf8_bytes l) \<le> 63) (split_on CHR ''.'' (trim_end_dots CHR ''.'' name))"
proof -
  let ?ls = "split_on CHR ''.'' (trim_end_dots CHR ''.'' name)"
  show ?thesis
  proof (cases "write_labels name ?ls")
    case (Inl e)
    then obtain l where "l \<in> set ?ls" "l = [] \<or> 63 < length (utf8_bytes l)"
      using write_labels_fails [of name ?ls] by blast
    then have "\<not> list_all (\<lambda>l. l \<noteq> [] \<and> length (utf8_bytes l) \<le> 63) ?ls" by (force simp: list_all_iff not_le)
    with Inl show ?thesis by (simp add: write_dns_name_def)
  next
    case (Inr bs)
    with read_written_labels [OF Inr, of out rest "[]" 0] show ?thesis
      by (simp add: write_dns_name_def read_dns_name_def join_codes_split)
  qed
qed

text \<open>C40. Datagrams from strangers: whatever the network sends, the parser comes to an end (its loop over
  compression pointers too) without reading outside the datagram; a name it reads ends behind its
  beginning and inside the datagram, so that every record moves forward.\<close>

theorem mdns_parser_stays_inside:
  "profiles_from_mdns_packet p \<noteq> Inl IndexPanic \<and> collect_responses ps \<noteq> Inl IndexPanic \<and>
   (case read_dns_name p offset of
      Inl e \<Rightarrow> e \<noteq> IndexPanic
    | Inr (name, after) \<Rightarrow> offset < after \<and> after \<le> length p)"
proof (intro conjI)
  show "collect_responses ps \<noteq> Inl IndexPanic"
  proof (induction ps)
    case (Cons p ps)
    with profiles_safe [of "take 4096 p"] show ?case by (auto split: sum.splits)
  qed simp
  show "case read_dns_name p offset of Inl e \<Rightarrow> e \<noteq> IndexPanic
    | Inr (name, after) \<Rightarrow> offset < after \<and> after \<le> length p"
    using read_dns_name_safe [of p offset] by (auto simp: name_safe_def split: sum.splits)
qed (rule profiles_safe)

text \<open>One datagram that does not parse ends the discovery, and the servers found before are lost.\<close>

lemma bad_datagram_ends_discovery:
  "profiles_from_mdns_packet (take 4096 p) = Inl e \<Longrightarrow> \<exists>e'. collect_responses (ps @ p # qs) = Inl e'"
  by (induction ps) (auto split: sum.splits)

end
