(* ===== verification/App_Settings.thy ===== *)
theory App_Settings
  imports Desktop_Client Mdns
begin

text \<open>
  The settings of the application (\<open>clients/app/src/lib.rs\<close>): what is read from its file and the
  command line, their check, the arguments the desktop client is started with, and the list of
  servers a mobile application remembers and finds. Files, windows and the clock are outcomes of the
  environment; name resolution is a parameter.
\<close>

section \<open>Addresses as text\<close>

definition parse_port :: "string \<Rightarrow> nat option" where
  "parse_port s =
     (if s = [] then None
      else case digits_value 0 s of
        None \<Rightarrow> None | Some n \<Rightarrow> if n < 65536 then Some n else None)"

definition hex_value :: "char \<Rightarrow> nat" where
  "hex_value c =
     (let n = of_char c in if n < 58 then n - 48 else if n < 71 then n - 55 else n - 87)"

definition group_value :: "string \<Rightarrow> u16 list" where
  "group_value g =
     (if is_hex_group g then [of_nat (fold (\<lambda>c n. n * 16 + hex_value c) g 0)]
      else let octets = map (\<lambda>d. case digits_value 0 d of Some n \<Rightarrow> n | None \<Rightarrow> 0) (split_on CHR ''.'' g)
           in [of_nat (octets ! 0 * 256 + octets ! 1), of_nat (octets ! 2 * 256 + octets ! 3)])"

definition ipv6_groups :: "string \<Rightarrow> u16 list" where
  "ipv6_groups s =
     (case split_double_colon s of
        None \<Rightarrow> concat (map group_value (groups_of s))
      | Some (l, r) \<Rightarrow>
          let left = concat (map group_value (groups_of l)); right = concat (map group_value (groups_of r))
          in left @ replicate (8 - length left - length right) 0 @ right)"

text \<open>\<open>SocketAddr::from_str\<close> and its \<open>to_string\<close>; a scope id of an IPv6 address is not modelled.\<close>

definition parse_socket_addr :: "string \<Rightarrow> socket_address option" where
  "parse_socket_addr s =
     (case rsplit_once CHR '':'' s of
        None \<Rightarrow> None
      | Some (host, port) \<Rightarrow>
          (case parse_port port of
             None \<Rightarrow> None
           | Some n \<Rightarrow>
               if is_ipv4 host then Some \<lparr>sa_ip = host, sa_port = n\<rparr>
               else if host \<noteq> [] \<and> hd host = CHR ''['' \<and> last host = CHR '']'' \<and> is_ipv6 (butlast (tl host))
               then Some \<lparr>sa_ip = show_ip (Ipv6 (ipv6_groups (butlast (tl host)))), sa_port = n\<rparr>
               else None))"

definition show_socket_addr :: "socket_address \<Rightarrow> string" where
  "show_socket_addr a = host_for_url (sa_ip a) @ '':'' @ show_nat (sa_port a)"

section \<open>Settings\<close>

datatype audio_input_backend = AutoBackend | RawBackend | VoiceBackend

datatype client_audio_backend_kind =
    KindAuto | KindRaw | KindVoiceProcessing | KindIosAvAudioSession | KindIosVoiceProcessingIo | KindIosRemoteIo

datatype input_channel_mode = Average | Left | Right

datatype app_window_mode = SystemBrowser | NativeWindow | Disabled

record mobile_server_profile =
  mp_id :: string
  mp_name :: string
  mp_server_host :: string
  mp_server :: string
  mp_control :: string
  mp_admin :: "string option"
  mp_auth :: "string option"
  mp_version :: "string option"
  mp_last_connected_ms :: "nat option"
  mp_discovered :: bool

definition default_mobile_profile :: mobile_server_profile where
  "default_mobile_profile =
     \<lparr>mp_id = [], mp_name = [], mp_server_host = [], mp_server = [], mp_control = [], mp_admin = None,
      mp_auth = None, mp_version = None, mp_last_connected_ms = None, mp_discovered = False\<rparr>"

record app_settings =
  ap_app_title :: string
  ap_server_profiles :: "mobile_server_profile list"
  ap_server_host :: string
  ap_server :: socket_address
  ap_control :: string
  ap_admin :: "string option"
  ap_advanced_endpoints :: bool
  ap_user_id :: "user_id option"
  ap_client_uid :: "string option"
  ap_identity_file :: "string option"
  ap_tx_channel :: channel_id
  ap_listen_channel :: channel_id
  ap_codec :: codec
  ap_opus_profile :: opus_profile
  ap_mic_gain :: f32
  ap_input_limiter :: bool
  ap_input_transient_suppression :: bool
  ap_speaker_gain :: f32
  ap_jitter_ms :: u32
  ap_input_device :: "string option"
  ap_input_backend :: audio_input_backend
  ap_input_channel :: input_channel_mode
  ap_output_device :: "string option"
  ap_debug_audio_dir :: "string option"
  ap_button_count :: u16
  ap_buttons :: "string list"
  ap_button_keys :: "string list"
  ap_local_ui_bind :: socket_address
  ap_local_ui_token :: "string option"
  ap_disable_local_ui :: bool
  ap_window_mode :: app_window_mode
  ap_ui_open_delay_ms :: u64

definition default_app_settings :: app_settings where
  "default_app_settings =
     \<lparr>ap_app_title = ''RedLine'', ap_server_profiles = [], ap_server_host = default_server_host,
      ap_server = default_audio_addr, ap_control = control_url default_server_host, ap_admin = None,
      ap_advanced_endpoints = False, ap_user_id = None, ap_client_uid = None, ap_identity_file = None,
      ap_tx_channel = 0, ap_listen_channel = 0, ap_codec = Pcm16, ap_opus_profile = default_opus_profile,
      ap_mic_gain = Fin 1, ap_input_limiter = False, ap_input_transient_suppression = True,
      ap_speaker_gain = Fin 1, ap_jitter_ms = 40, ap_input_device = None, ap_input_backend = AutoBackend,
      ap_input_channel = Average, ap_output_device = None, ap_debug_audio_dir = None,
      ap_button_count = 6, ap_buttons = [], ap_button_keys = [],
      ap_local_ui_bind = \<lparr>sa_ip = ''127.0.0.1'', sa_port = 41002\<rparr>, ap_local_ui_token = None,
      ap_disable_local_ui = False, ap_window_mode = SystemBrowser, ap_ui_open_delay_ms = 750\<rparr>"

definition endpoint_overrides :: "resolver \<Rightarrow> app_settings \<Rightarrow> client_endpoint_overrides" where
  "endpoint_overrides resolve s =
     normalized resolve (ap_server_host s) (ap_server s) (ap_control s) (ap_admin s) (ap_advanced_endpoints s)"

section \<open>Remembered servers\<close>

definition mobile_profile_id :: "string \<Rightarrow> string \<Rightarrow> string" where
  "mobile_profile_id name control =
     (if trim name = [] then trim control else trim name @ ''|'' @ trim control)"

definition trim_profile :: "mobile_server_profile \<Rightarrow> mobile_server_profile" where
  "trim_profile p =
     p\<lparr>mp_name := trim (mp_name p), mp_server_host := trim (mp_server_host p),
       mp_server := trim (mp_server p), mp_control := trim (mp_control p),
       mp_admin := trimmed_option (mp_admin p), mp_auth := trimmed_option (mp_auth p),
       mp_version := trimmed_option (mp_version p)\<rparr>"

text \<open>A profile without a name of the server takes it from its addresses, and one with a name gets
  the addresses it lacks.\<close>

definition complete_profile :: "resolver \<Rightarrow> mobile_server_profile \<Rightarrow> mobile_server_profile" where
  "complete_profile resolve p =
     (if mp_server_host p = []
      then (case parse_socket_addr (mp_server p) of
              None \<Rightarrow> p
            | Some server \<Rightarrow>
                let e = normalized resolve [] server (mp_control p) (mp_admin p) False
                in if \<not> eo_advanced_endpoints e
                   then let admin = (case effective_admin e of
                              Inr a \<Rightarrow> a
                            | Inl _ \<Rightarrow> (case derive_admin_url_from_control (eo_control e) of
                                         Some a \<Rightarrow> a | None \<Rightarrow> []))
                        in p\<lparr>mp_server_host := eo_server_host e,
                             mp_server := show_socket_addr (eo_server e), mp_control := eo_control e,
                             mp_admin := (if admin = [] then None else Some admin)\<rparr>
                   else p\<lparr>mp_server_host := eo_server_host e\<rparr>)
      else (case validate_server_host (mp_server_host p) of
              Inl _ \<Rightarrow> p
            | Inr host \<Rightarrow>
                let p = (if mp_server p = []
                         then (case resolve_server_audio_addr resolve host of
                                 Inr a \<Rightarrow> p\<lparr>mp_server := show_socket_addr a\<rparr> | Inl _ \<Rightarrow> p)
                         else p);
                    p = (if mp_control p = [] then p\<lparr>mp_control := control_url host\<rparr> else p)
                in if mp_admin p = None then p\<lparr>mp_admin := Some (admin_url host)\<rparr> else p))"

definition normalize_mobile_profile :: "resolver \<Rightarrow> mobile_server_profile \<Rightarrow> mobile_server_profile" where
  "normalize_mobile_profile resolve p =
     (let p = complete_profile resolve (trim_profile p)
      in if trim (mp_id p) = [] then p\<lparr>mp_id := mobile_profile_id (mp_name p) (mp_control p)\<rparr> else p)"

definition normalize_endpoints :: "resolver \<Rightarrow> app_settings \<Rightarrow> app_settings" where
  "normalize_endpoints resolve s =
     (let e = endpoint_overrides resolve s
      in s\<lparr>ap_server_host := eo_server_host e, ap_server := eo_server e, ap_control := eo_control e,
           ap_admin := eo_admin e, ap_advanced_endpoints := eo_advanced_endpoints e,
           ap_server_profiles := map (normalize_mobile_profile resolve) (ap_server_profiles s)\<rparr>)"

definition max_mobile_profiles :: nat where "max_mobile_profiles = 20"

definition remember_mobile_profile ::
  "resolver \<Rightarrow> mobile_server_profile \<Rightarrow> app_settings \<Rightarrow> app_settings" where
  "remember_mobile_profile resolve profile s =
     (let p = normalize_mobile_profile resolve profile
      in if mp_server p = [] \<or> mp_control p = [] then s
         else s\<lparr>ap_server_profiles := take max_mobile_profiles
                (p # filter (\<lambda>q. mp_id q \<noteq> mp_id p \<and> mp_control q \<noteq> mp_control p) (ap_server_profiles s))\<rparr>)"

definition mobile_profile_uses_ipv4 :: "mobile_server_profile \<Rightarrow> bool" where
  "mobile_profile_uses_ipv4 p = is_ipv4 (mp_server_host p)"

definition mobile_profiles_match_discovered_service ::
  "mobile_server_profile \<Rightarrow> mobile_server_profile \<Rightarrow> bool" where
  "mobile_profiles_match_discovered_service l r \<longleftrightarrow>
     (trim (mp_id l) \<noteq> [] \<and> mp_id l = mp_id r) \<or>
     (mp_discovered l \<and> mp_discovered r \<and> trim (mp_name l) \<noteq> [] \<and> mp_name l = mp_name r \<and>
      mp_auth l = mp_auth r \<and> mp_version l = mp_version r)"

definition should_replace_mobile_profile :: "mobile_server_profile \<Rightarrow> mobile_server_profile \<Rightarrow> bool" where
  "should_replace_mobile_profile existing candidate \<longleftrightarrow>
     mobile_profile_uses_ipv4 candidate \<or> \<not> mobile_profile_uses_ipv4 existing"

definition same_mobile_server :: "mobile_server_profile \<Rightarrow> mobile_server_profile \<Rightarrow> bool" where
  "same_mobile_server p existing \<longleftrightarrow>
     mp_control existing = mp_control p \<or> mobile_profiles_match_discovered_service existing p"

text \<open>The first entry for the same server is changed, or a new one is added.\<close>

fun merge_into ::
  "(mobile_server_profile \<Rightarrow> mobile_server_profile \<Rightarrow> mobile_server_profile) \<Rightarrow> mobile_server_profile \<Rightarrow>
     mobile_server_profile list \<Rightarrow> mobile_server_profile list" where
  "merge_into f p [] = [p]"
| "merge_into f p (q # qs) = (if same_mobile_server p q then f p q # qs else q # merge_into f p qs)"

definition merge_discovered :: "mobile_server_profile \<Rightarrow> mobile_server_profile \<Rightarrow> mobile_server_profile" where
  "merge_discovered p existing =
     (if should_replace_mobile_profile existing p then p
      else existing\<lparr>mp_name := mp_name p, mp_auth := mp_auth p, mp_version := mp_version p,
                    mp_discovered := True\<rparr>)
       \<lparr>mp_last_connected_ms := mp_last_connected_ms existing\<rparr>"

fun connected_key :: "nat option \<Rightarrow> nat" where
  "connected_key None = 0"
| "connected_key (Some n) = n + 1"

fun then_with :: "ordering \<Rightarrow> ordering \<Rightarrow> ordering" where
  "then_with Equal o2 = o2"
| "then_with o1 o2 = o1"

text \<open>Latest connection first, then what was discovered, then by name.\<close>

definition compare_profiles :: "mobile_server_profile \<Rightarrow> mobile_server_profile \<Rightarrow> ordering" where
  "compare_profiles a b =
     then_with (cmp_of (connected_key (mp_last_connected_ms b)) (connected_key (mp_last_connected_ms a)))
       (then_with (cmp_of (mp_discovered b) (mp_discovered a)) (cmp_of (mp_name a) (mp_name b)))"

definition merge_mobile_profiles ::
  "resolver \<Rightarrow> mobile_server_profile list \<Rightarrow> mobile_server_profile list \<Rightarrow> mobile_server_profile list" where
  "merge_mobile_profiles resolve saved discovered =
     sort_by compare_profiles (fold (\<lambda>p ps.
         merge_into merge_discovered ((normalize_mobile_profile resolve p)\<lparr>mp_discovered := True\<rparr>) ps)
       discovered saved)"

text \<open>Answers of several datagrams for the same server become one.\<close>

definition dedupe_discovered_profiles :: "mobile_server_profile list \<Rightarrow> mobile_server_profile list" where
  "dedupe_discovered_profiles ps =
     fold (merge_into (\<lambda>p q. if should_replace_mobile_profile q p then p else q)) ps []"

section \<open>The check\<close>

definition validate_gain :: "string \<Rightarrow> f32 \<Rightarrow> string + unit" where
  "validate_gain name gain =
     (if (case gain of Fin x \<Rightarrow> 0 \<le> x \<and> x \<le> 2 | _ \<Rightarrow> False) then Inr ()
      else Inl (name @ '' must be a finite value between 0 and 2''))"

fun codec_to_wire :: "codec \<Rightarrow> string + codec" where
  "codec_to_wire Adpcm = Inl ''ADPCM is not supported by the app client''"
| "codec_to_wire c = Inr c"

text \<open>The first entry that does not parse, if there is one.\<close>

fun check_all :: "string \<Rightarrow> (string \<Rightarrow> string + 'a) \<Rightarrow> string list \<Rightarrow> string + unit" where
  "check_all what parse [] = Inr ()"
| "check_all what parse (x # xs) =
     (case parse x of
        Inl _ \<Rightarrow> Inl (''invalid '' @ what @ '' `'' @ x @ ''`'')
      | Inr _ \<Rightarrow> check_all what parse xs)"

definition ensure :: "bool \<Rightarrow> string \<Rightarrow> string + unit" where
  "ensure b e = (if b then Inr () else Inl e)"

definition validate_settings :: "resolver \<Rightarrow> app_settings \<Rightarrow> string + unit" where
  "validate_settings resolve s =
     and_then (validate_overrides (endpoint_overrides resolve s))
    (and_then (ensure (trim (ap_app_title s) \<noteq> []) ''app_title cannot be empty'')
    (and_then (ensure (ap_jitter_ms s \<le> 250) ''jitter_ms must be between 0 and 250'')
    (and_then (ensure (ap_ui_open_delay_ms s \<le> 30000) ''ui_open_delay_ms must be between 0 and 30000'')
    (and_then (ensure (unat (ap_button_count s) \<le> max_client_button_count)
                (''button_count must be between 0 and '' @ show_nat max_client_button_count))
    (and_then (validate_gain ''mic_gain'' (ap_mic_gain s))
    (and_then (validate_gain ''speaker_gain'' (ap_speaker_gain s))
    (and_then (case codec_to_wire (ap_codec s) of Inl e \<Rightarrow> Inl e | Inr _ \<Rightarrow> Inr ())
    (and_then (check_all ''button'' button_arg_from_str (ap_buttons s))
       (check_all ''button key'' button_key_arg_from_str (ap_button_keys s))))))))))"

section \<open>Starting the client\<close>

fun app_input_backend_to_core :: "audio_input_backend \<Rightarrow> client_audio_backend_kind" where
  "app_input_backend_to_core AutoBackend = KindAuto"
| "app_input_backend_to_core RawBackend = KindRaw"
| "app_input_backend_to_core VoiceBackend = KindVoiceProcessing"

fun core_input_backend_to_desktop :: "client_audio_backend_kind \<Rightarrow> audio_input_backend" where
  "core_input_backend_to_desktop KindRaw = RawBackend"
| "core_input_backend_to_desktop KindVoiceProcessing = VoiceBackend"
| "core_input_backend_to_desktop KindAuto = AutoBackend"
| "core_input_backend_to_desktop KindIosAvAudioSession = AutoBackend"
| "core_input_backend_to_desktop KindIosVoiceProcessingIo = AutoBackend"
| "core_input_backend_to_desktop KindIosRemoteIo = AutoBackend"

record client_runtime_config =
  rc_server_host :: string
  rc_server :: socket_address
  rc_control :: string
  rc_user_id :: "user_id option"
  rc_client_uid :: "string option"
  rc_identity_file :: "string option"
  rc_tx_channel :: channel_id
  rc_listen_channel :: channel_id
  rc_codec :: codec
  rc_opus_profile :: opus_profile
  rc_mic_gain :: f32
  rc_input_limiter :: bool
  rc_input_transient_suppression :: bool
  rc_speaker_gain :: f32
  rc_jitter_ms :: u32
  rc_input_device :: "string option"
  rc_input_backend :: client_audio_backend_kind
  rc_input_channel :: input_channel_mode
  rc_output_device :: "string option"
  rc_debug_audio_dir :: "string option"
  rc_button_count :: u16
  rc_buttons :: "string list"
  rc_button_keys :: "string list"
  rc_local_ui_bind :: socket_address
  rc_local_ui_token :: "string option"
  rc_disable_local_ui :: bool
  rc_list_devices :: bool

definition client_runtime_config ::
  "resolver \<Rightarrow> bool \<Rightarrow> app_settings \<Rightarrow> string + client_runtime_config" where
  "client_runtime_config resolve list_devices s =
     and_then (validate_settings resolve s)
       (let e = endpoint_overrides resolve s
        in case effective_server resolve e of
             Inl err \<Rightarrow> Inl err
           | Inr server \<Rightarrow>
               (case effective_control e of
                  Inl err \<Rightarrow> Inl err
                | Inr control \<Rightarrow> Inr
                    \<lparr>rc_server_host = eo_server_host e, rc_server = server, rc_control = control,
                     rc_user_id = ap_user_id s, rc_client_uid = ap_client_uid s,
                     rc_identity_file = ap_identity_file s, rc_tx_channel = ap_tx_channel s,
                     rc_listen_channel = ap_listen_channel s, rc_codec = ap_codec s,
                     rc_opus_profile = ap_opus_profile s, rc_mic_gain = ap_mic_gain s,
                     rc_input_limiter = ap_input_limiter s,
                     rc_input_transient_suppression = ap_input_transient_suppression s,
                     rc_speaker_gain = ap_speaker_gain s, rc_jitter_ms = ap_jitter_ms s,
                     rc_input_device = ap_input_device s,
                     rc_input_backend = app_input_backend_to_core (ap_input_backend s),
                     rc_input_channel = ap_input_channel s, rc_output_device = ap_output_device s,
                     rc_debug_audio_dir = ap_debug_audio_dir s, rc_button_count = ap_button_count s,
                     rc_buttons = ap_buttons s, rc_button_keys = ap_button_keys s,
                     rc_local_ui_bind = ap_local_ui_bind s, rc_local_ui_token = ap_local_ui_token s,
                     rc_disable_local_ui = ap_disable_local_ui s, rc_list_devices = list_devices\<rparr>))"

record desktop_args =
  da_endpoints :: endpoint_args
  da_user_id :: "user_id option"
  da_client_uid :: "string option"
  da_identity_file :: "string option"
  da_tx_channel :: channel_id
  da_listen_channel :: channel_id
  da_codec :: codec
  da_opus_profile :: opus_profile
  da_mic_gain :: f32
  da_input_limiter :: bool
  da_disable_input_transient_suppression :: bool
  da_speaker_gain :: f32
  da_jitter_ms :: u32
  da_input_device :: "string option"
  da_input_backend :: audio_input_backend
  da_input_channel :: input_channel_mode
  da_output_device :: "string option"
  da_debug_audio_dir :: "string option"
  da_button_count :: u16
  da_buttons :: "button_capability list"
  da_button_keys :: "button_key_arg list"
  da_local_ui_bind :: socket_address
  da_local_ui_token :: "string option"
  da_disable_local_ui :: bool
  da_disable_command_loop :: bool
  da_list_devices :: bool

fun collect_all :: "('a \<Rightarrow> string + 'b) \<Rightarrow> 'a list \<Rightarrow> string + 'b list" where
  "collect_all f [] = Inr []"
| "collect_all f (x # xs) =
     (case f x of
        Inl e \<Rightarrow> Inl e
      | Inr y \<Rightarrow> (case collect_all f xs of Inl e \<Rightarrow> Inl e | Inr ys \<Rightarrow> Inr (y # ys)))"

definition desktop_args :: "resolver \<Rightarrow> bool \<Rightarrow> app_settings \<Rightarrow> string + desktop_args" where
  "desktop_args resolve list_devices s =
     (case client_runtime_config resolve list_devices s of
        Inl e \<Rightarrow> Inl e
      | Inr r \<Rightarrow>
          (case codec_to_wire (rc_codec r) of
             Inl e \<Rightarrow> Inl e
           | Inr codec \<Rightarrow>
               (case collect_all button_arg_from_str (rc_buttons r) of
                  Inl e \<Rightarrow> Inl e
                | Inr buttons \<Rightarrow>
                    (case collect_all button_key_arg_from_str (rc_button_keys r) of
                       Inl e \<Rightarrow> Inl e
                     | Inr keys \<Rightarrow> Inr
                         \<lparr>da_endpoints = \<lparr>ea_server_host = Some (rc_server_host r),
                            ea_server = rc_server r, ea_control = rc_control r\<rparr>,
                          da_user_id = rc_user_id r, da_client_uid = rc_client_uid r,
                          da_identity_file = rc_identity_file r, da_tx_channel = rc_tx_channel r,
                          da_listen_channel = rc_listen_channel r, da_codec = codec,
                          da_opus_profile = rc_opus_profile r, da_mic_gain = rc_mic_gain r,
                          da_input_limiter = rc_input_limiter r,
                          da_disable_input_transient_suppression = (\<not> rc_input_transient_suppression r),
                          da_speaker_gain = rc_speaker_gain r, da_jitter_ms = rc_jitter_ms r,
                          da_input_device = rc_input_device r,
                          da_input_backend = core_input_backend_to_desktop (rc_input_backend r),
                          da_input_channel = rc_input_channel r, da_output_device = rc_output_device r,
                          da_debug_audio_dir = rc_debug_audio_dir r, da_button_count = rc_button_count r,
                          da_buttons = buttons, da_button_keys = keys,
                          da_local_ui_bind = rc_local_ui_bind r, da_local_ui_token = rc_local_ui_token r,
                          da_disable_local_ui = rc_disable_local_ui r,
                          da_disable_command_loop = (ap_window_mode s = NativeWindow),
                          da_list_devices = list_devices\<rparr>))))"

section \<open>Properties\<close>

subsection \<open>Remembered servers\<close>

lemma distinct_map_filter_cons:
  "distinct (map f xs) \<Longrightarrow> (\<And>y. P y \<Longrightarrow> f y \<noteq> f x) \<Longrightarrow> distinct (map f (x # filter P xs))"
  using distinct_map_filter [of f xs P] by force

lemma distinct_map_take: "distinct (map f xs) \<Longrightarrow> distinct (map f (take n xs))"
  by (metis distinct_take take_map)

text \<open>Remembered servers have distinct ids and control URLs and are at most twenty.\<close>

definition profiles_ok :: "mobile_server_profile list \<Rightarrow> bool" where
  "profiles_ok ps \<longleftrightarrow>
     distinct (map mp_id ps) \<and> distinct (map mp_control ps) \<and> length ps \<le> max_mobile_profiles"

lemma remember_keeps_profiles:
  assumes "profiles_ok (ap_server_profiles s)"
  shows "profiles_ok (ap_server_profiles (remember_mobile_profile resolve p s))"
  using assms
  by (auto simp: remember_mobile_profile_def Let_def profiles_ok_def
      intro!: distinct_map_take distinct_map_filter_cons)

lemma merge_into_history:
  assumes "\<And>q. mp_last_connected_ms (f p q) = mp_last_connected_ms q"
  shows "image_mset mp_last_connected_ms (mset ps)
           \<subseteq># image_mset mp_last_connected_ms (mset (merge_into f p ps))"
  using assms by (induction ps) auto

lemma merge_discovered_history [simp]:
  "mp_last_connected_ms (merge_discovered p q) = mp_last_connected_ms q"
  by (simp add: merge_discovered_def)

lemma fold_merge_history:
  "image_mset mp_last_connected_ms (mset ps)
     \<subseteq># image_mset mp_last_connected_ms (mset (fold (\<lambda>p. merge_into merge_discovered (g p)) ds ps))"
proof (induction ds arbitrary: ps)
  case (Cons d ds)
  show ?case
    using subset_mset.order_trans [OF merge_into_history Cons.IH, of merge_discovered] by simp
qed simp

lemma insort_by_mset: "mset (insort_by c x xs) = add_mset x (mset xs)"
  by (induction xs) auto

lemma sort_by_mset [simp]: "mset (sort_by c xs) = mset xs"
  unfolding sort_by_def by (induction xs) (auto simp: insort_by_mset)

lemma insort_by_sorted_wrt:
  assumes "\<And>x y. c x y \<noteq> Greater \<Longrightarrow> R x y" "\<And>x y. c x y = Greater \<Longrightarrow> R y x" "transp R"
    and "sorted_wrt R xs"
  shows "sorted_wrt R (insort_by c x xs)"
  using assms(4)
proof (induction xs)
  case (Cons y ys)
  have members: "set (insort_by c x ys) = insert x (set ys)"
    using arg_cong [OF insort_by_mset [of c x ys], of set_mset] by simp
  show ?case
  proof (cases "c x y = Greater")
    case True
    with Cons assms(2) show ?thesis by (simp add: members)
  next
    case False
    with assms(1) have "R x y" by blast
    with Cons.prems False assms(3) show ?thesis by (auto dest: transpD)
  qed
qed simp

lemma sort_by_sorted_wrt:
  assumes "\<And>x y. c x y \<noteq> Greater \<Longrightarrow> R x y" "\<And>x y. c x y = Greater \<Longrightarrow> R y x" "transp R"
  shows "sorted_wrt R (sort_by c xs)"
  unfolding sort_by_def by (induction xs) (auto intro: insort_by_sorted_wrt [OF assms])

definition connected_no_later :: "mobile_server_profile \<Rightarrow> mobile_server_profile \<Rightarrow> bool" where
  "connected_no_later a b \<longleftrightarrow> connected_key (mp_last_connected_ms b) \<le> connected_key (mp_last_connected_ms a)"

lemma then_with_greater: "then_with o1 o2 = Greater \<Longrightarrow> o1 \<noteq> Less"
  by (cases o1) auto

lemma compare_profiles_connected:
  "compare_profiles a b \<noteq> Greater \<Longrightarrow> connected_no_later a b"
  "compare_profiles a b = Greater \<Longrightarrow> connected_no_later b a"
  by (auto simp: compare_profiles_def connected_no_later_def cmp_of_def split: if_splits)

lemma transp_connected: "transp connected_no_later"
  by (auto simp: transp_def connected_no_later_def)

text \<open>Merging discovered servers into saved ones loses no saved connection time: the times of the
  result contain those of the saved list, counted with multiplicity. The result is ordered with the
  latest connection first, servers never connected to last.\<close>

lemma merged_servers_keep_history:
  "image_mset mp_last_connected_ms (mset saved)
     \<subseteq># image_mset mp_last_connected_ms (mset (merge_mobile_profiles resolve saved discovered))
   \<and> sorted_wrt (\<lambda>a b. connected_key (mp_last_connected_ms b) \<le> connected_key (mp_last_connected_ms a))
       (merge_mobile_profiles resolve saved discovered)"
proof (rule conjI)
  show "image_mset mp_last_connected_ms (mset saved)
     \<subseteq># image_mset mp_last_connected_ms (mset (merge_mobile_profiles resolve saved discovered))"
    by (simp add: merge_mobile_profiles_def fold_merge_history)
  show "sorted_wrt (\<lambda>a b. connected_key (mp_last_connected_ms b) \<le> connected_key (mp_last_connected_ms a))
       (merge_mobile_profiles resolve saved discovered)"
    unfolding merge_mobile_profiles_def connected_no_later_def [symmetric]
    by (rule sort_by_sorted_wrt [OF compare_profiles_connected transp_connected])
qed

subsection \<open>Checked settings\<close>

lemma ensure_ok: "ensure b e = Inr u \<longleftrightarrow> b"
  by (auto simp: ensure_def)

lemma check_all_ok: "check_all what parse xs = Inr u \<longleftrightarrow> list_all (\<lambda>x. \<exists>y. parse x = Inr y) xs"
  by (induction xs) (auto split: sum.splits)

lemma collect_all_ok: "list_all (\<lambda>x. \<exists>y. f x = Inr y) xs \<Longrightarrow> \<exists>ys. collect_all f xs = Inr ys"
  by (induction xs) auto

text \<open>What the check guarantees.\<close>

definition settings_in_range :: "app_settings \<Rightarrow> bool" where
  "settings_in_range s \<longleftrightarrow>
     validate_gain ''mic_gain'' (ap_mic_gain s) = Inr () \<and>
     validate_gain ''speaker_gain'' (ap_speaker_gain s) = Inr () \<and>
     ap_jitter_ms s \<le> 250 \<and> unat (ap_button_count s) \<le> max_client_button_count \<and>
     codec_to_wire (ap_codec s) = Inr (ap_codec s) \<and>
     list_all (\<lambda>x. \<exists>y. button_arg_from_str x = Inr y) (ap_buttons s) \<and>
     list_all (\<lambda>x. \<exists>y. button_key_arg_from_str x = Inr y) (ap_button_keys s)"

lemma codec_to_wire_ok: "codec_to_wire c = Inr d \<longleftrightarrow> c \<noteq> Adpcm \<and> d = c"
  by (cases c) auto

lemma validate_settings_ok:
  "validate_settings resolve s = Inr () \<longleftrightarrow>
     validate_overrides (endpoint_overrides resolve s) = Inr () \<and> trim (ap_app_title s) \<noteq> [] \<and>
     ap_ui_open_delay_ms s \<le> 30000 \<and> settings_in_range s"
  by (cases "ap_codec s")
    (auto simp: validate_settings_def and_then_ok ensure_ok check_all_ok settings_in_range_def)

lemma validate_settings_cases:
  obtains e where "validate_settings resolve s = Inl e" | "validate_settings resolve s = Inr ()"
  by (cases "validate_settings resolve s") auto

text \<open>Endpoints that pass their check only lack the resolution of the server's name.\<close>

lemma validated_endpoints_effective:
  assumes "validate_overrides c = Inr ()"
  shows "\<exists>control. effective_control c = Inr control"
  using assms by (auto simp: validate_overrides_def effective_control_def split: sum.splits if_splits)

lemma client_runtime_config_ok:
  assumes "validate_settings resolve s = Inr ()"
  shows "case effective_server resolve (endpoint_overrides resolve s) of
      Inl e \<Rightarrow> client_runtime_config resolve ld s = Inl e
    | Inr server \<Rightarrow> \<exists>r. client_runtime_config resolve ld s = Inr r \<and> rc_codec r = ap_codec s
        \<and> rc_buttons r = ap_buttons s \<and> rc_button_keys r = ap_button_keys s
        \<and> rc_mic_gain r = ap_mic_gain s \<and> rc_speaker_gain r = ap_speaker_gain s
        \<and> rc_jitter_ms r = ap_jitter_ms s \<and> rc_button_count r = ap_button_count s \<and> rc_server r = server"
proof -
  obtain control where "effective_control (endpoint_overrides resolve s) = Inr control"
    using validated_endpoints_effective assms validate_settings_ok by blast
  then show ?thesis
    by (auto simp: client_runtime_config_def assms and_then_def Let_def split: sum.splits)
qed

text \<open>Checked settings start the client unless the server's name does not resolve.\<close>

lemma desktop_args_outcome:
  assumes "validate_settings resolve s = Inr ()"
  shows "case effective_server resolve (endpoint_overrides resolve s) of
      Inl e \<Rightarrow> desktop_args resolve ld s = Inl e
    | Inr server \<Rightarrow> \<exists>a. desktop_args resolve ld s = Inr a \<and> ea_server (da_endpoints a) = server"
proof (cases "effective_server resolve (endpoint_overrides resolve s)")
  case (Inl e)
  then show ?thesis
    using client_runtime_config_ok [OF assms, of ld] by (simp add: desktop_args_def)
next
  case (Inr server)
  then obtain r where r: "client_runtime_config resolve ld s = Inr r" "rc_codec r = ap_codec s"
      "rc_buttons r = ap_buttons s" "rc_button_keys r = ap_button_keys s" "rc_server r = server"
    using client_runtime_config_ok [OF assms, of ld] by auto
  have range: "settings_in_range s" using assms by (simp add: validate_settings_ok)
  then obtain bs where bs: "collect_all button_arg_from_str (ap_buttons s) = Inr bs"
    using collect_all_ok [of button_arg_from_str] by (auto simp: settings_in_range_def)
  from range obtain ks where "collect_all button_key_arg_from_str (ap_button_keys s) = Inr ks"
    using collect_all_ok [of button_key_arg_from_str] by (auto simp: settings_in_range_def)
  with r range Inr bs show ?thesis by (simp add: desktop_args_def settings_in_range_def)
qed

definition args_in_range :: "desktop_args \<Rightarrow> bool" where
  "args_in_range a \<longleftrightarrow>
     validate_gain ''mic_gain'' (da_mic_gain a) = Inr () \<and>
     validate_gain ''speaker_gain'' (da_speaker_gain a) = Inr () \<and>
     da_jitter_ms a \<le> 250 \<and> unat (da_button_count a) \<le> max_client_button_count \<and> da_codec a \<noteq> Adpcm"

lemma desktop_args_in_range:
  assumes "desktop_args resolve ld s = Inr a"
  shows "args_in_range a \<and> da_list_devices a = ld \<and>
    da_disable_command_loop a = (ap_window_mode s = NativeWindow) \<and>
    da_disable_local_ui a = ap_disable_local_ui s \<and> da_local_ui_bind a = ap_local_ui_bind s"
proof -
  have valid: "validate_settings resolve s = Inr ()"
    using assms by (cases "validate_settings resolve s")
      (auto simp: desktop_args_def client_runtime_config_def and_then_def)
  then have "settings_in_range s" by (simp add: validate_settings_ok)
  with assms show ?thesis
    by (auto simp: desktop_args_def client_runtime_config_def and_then_def valid Let_def
        settings_in_range_def args_in_range_def codec_to_wire_ok split: sum.splits)
qed

end
