(* ===== verification/App_Runtime.thy ===== *)
theory App_Runtime
  imports App_Settings
begin

text \<open>
  Running the application (\<open>clients/app/src/lib.rs\<close>): the command line, the settings file, the
  launch plan of the desktop application, and the commands and the runtime of the mobile one.
  The file system, the sockets and the started client are outcomes of the environment.
\<close>

section \<open>The command line\<close>

record app_args =
  aa_server_host :: "string option"
  aa_server :: "socket_address option"
  aa_control :: "string option"
  aa_user_id :: "user_id option"
  aa_client_uid :: "string option"
  aa_identity_file :: "string option"
  aa_tx_channel :: "channel_id option"
  aa_listen_channel :: "channel_id option"
  aa_codec :: "codec option"
  aa_opus_profile :: "opus_profile option"
  aa_mic_gain :: "f32 option"
  aa_input_limiter :: bool
  aa_disable_input_transient_suppression :: bool
  aa_speaker_gain :: "f32 option"
  aa_jitter_ms :: "u32 option"
  aa_input_device :: "string option"
  aa_input_backend :: "audio_input_backend option"
  aa_input_channel :: "input_channel_mode option"
  aa_output_device :: "string option"
  aa_debug_audio_dir :: "string option"
  aa_button_count :: "u16 option"
  aa_buttons :: "string list"
  aa_button_keys :: "string list"
  aa_local_ui_bind :: "socket_address option"
  aa_local_ui_token :: "string option"
  aa_disable_local_ui :: bool
  aa_enable_local_ui :: bool
  aa_window_mode :: "app_window_mode option"
  aa_app_title :: "string option"
  aa_ui_open_delay_ms :: "u64 option"

fun given :: "'a option \<Rightarrow> 'a \<Rightarrow> 'a" where
  "given None old = old"
| "given (Some new) old = new"

fun given_some :: "'a option \<Rightarrow> 'a option \<Rightarrow> 'a option" where
  "given_some None old = old"
| "given_some (Some new) old = Some new"

text \<open>A host on the command line asks for derived endpoints, an address or a URL for given ones; the
  later argument of the code decides.\<close>

definition merge_cli :: "resolver \<Rightarrow> app_args \<Rightarrow> app_settings \<Rightarrow> app_settings" where
  "merge_cli resolve args s = normalize_endpoints resolve
     (s\<lparr>ap_server_host := given (aa_server_host args) (ap_server_host s),
        ap_server := given (aa_server args) (ap_server s),
        ap_control := given (aa_control args) (ap_control s),
        ap_advanced_endpoints :=
          (if aa_server args \<noteq> None \<or> aa_control args \<noteq> None then True
           else if aa_server_host args \<noteq> None then False else ap_advanced_endpoints s),
        ap_user_id := given_some (aa_user_id args) (ap_user_id s),
        ap_client_uid := given_some (aa_client_uid args) (ap_client_uid s),
        ap_identity_file := given_some (aa_identity_file args) (ap_identity_file s),
        ap_tx_channel := given (aa_tx_channel args) (ap_tx_channel s),
        ap_listen_channel := given (aa_listen_channel args) (ap_listen_channel s),
        ap_codec := given (aa_codec args) (ap_codec s),
        ap_opus_profile := given (aa_opus_profile args) (ap_opus_profile s),
        ap_mic_gain := given (aa_mic_gain args) (ap_mic_gain s),
        ap_input_limiter := (aa_input_limiter args \<or> ap_input_limiter s),
        ap_input_transient_suppression :=
          (\<not> aa_disable_input_transient_suppression args \<and> ap_input_transient_suppression s),
        ap_speaker_gain := given (aa_speaker_gain args) (ap_speaker_gain s),
        ap_jitter_ms := given (aa_jitter_ms args) (ap_jitter_ms s),
        ap_input_device := given_some (aa_input_device args) (ap_input_device s),
        ap_input_backend := given (aa_input_backend args) (ap_input_backend s),
        ap_input_channel := given (aa_input_channel args) (ap_input_channel s),
        ap_output_device := given_some (aa_output_device args) (ap_output_device s),
        ap_debug_audio_dir := given_some (aa_debug_audio_dir args) (ap_debug_audio_dir s),
        ap_button_count := given (aa_button_count args) (ap_button_count s),
        ap_buttons := (if aa_buttons args \<noteq> [] then aa_buttons args else ap_buttons s),
        ap_button_keys := (if aa_button_keys args \<noteq> [] then aa_button_keys args else ap_button_keys s),
        ap_local_ui_bind := given (aa_local_ui_bind args) (ap_local_ui_bind s),
        ap_local_ui_token := given_some (aa_local_ui_token args) (ap_local_ui_token s),
        ap_disable_local_ui :=
          (if aa_enable_local_ui args then False else aa_disable_local_ui args \<or> ap_disable_local_ui s),
        ap_window_mode := given (aa_window_mode args) (ap_window_mode s),
        ap_app_title := given (aa_app_title args) (ap_app_title s),
        ap_ui_open_delay_ms := given (aa_ui_open_delay_ms args) (ap_ui_open_delay_ms s)\<rparr>)"

section \<open>The settings file\<close>

text \<open>A path is its directory, empty for none, and its file name. The store of files holds the
  settings a file's text stands for, or None where the text is no settings.\<close>

record settings_path =
  sp_directory :: string
  sp_file :: string

type_synonym settings_files = "settings_path \<Rightarrow> app_settings option option"

definition show_path :: "settings_path \<Rightarrow> string" where
  "show_path p = (if sp_directory p = [] then sp_file p else sp_directory p @ ''/'' @ sp_file p)"

definition load_settings ::
  "resolver \<Rightarrow> bool \<Rightarrow> settings_files \<Rightarrow> settings_path \<Rightarrow> string + app_settings" where
  "load_settings resolve readable files path =
     (if \<not> readable then Inl (''read app settings from '' @ show_path path)
      else case files path of
             None \<Rightarrow> Inr (normalize_endpoints resolve default_app_settings)
           | Some None \<Rightarrow> Inl (''parse app settings from '' @ show_path path)
           | Some (Some s) \<Rightarrow> Inr (normalize_endpoints resolve s))"

datatype save_step = CreateDirectory | WriteTemporary | ReplaceFile

definition temp_settings_path :: "nat \<Rightarrow> settings_path \<Rightarrow> settings_path" where
  "temp_settings_path pid path = path\<lparr>sp_file := sp_file path @ ''.'' @ show_nat pid @ ''.tmp''\<rparr>"

text \<open>The settings are written beside the file and moved over it; what a failed write leaves in the
  temporary file, \<open>torn\<close>, is the file system's.\<close>

definition save_settings ::
  "resolver \<Rightarrow> nat \<Rightarrow> save_step option \<Rightarrow> app_settings option option \<Rightarrow> settings_files \<Rightarrow> settings_path \<Rightarrow>
     app_settings \<Rightarrow> (string + unit) \<times> settings_files" where
  "save_settings resolve pid fails torn files path settings =
     (let s = normalize_endpoints resolve settings; tmp = temp_settings_path pid path
      in case validate_settings resolve s of
           Inl e \<Rightarrow> (Inl e, files)
         | Inr _ \<Rightarrow>
             if fails = Some CreateDirectory \<and> sp_directory path \<noteq> []
             then (Inl (''create app settings directory '' @ sp_directory path), files)
             else if fails = Some WriteTemporary
             then (Inl (''write app settings to '' @ show_path tmp), files(tmp := torn))
             else if fails = Some ReplaceFile
             then (Inl (''replace app settings at '' @ show_path path), files(tmp := Some (Some s)))
             else (Inr (), files(tmp := None, path := Some (Some s))))"

section \<open>The launch plan\<close>

datatype bind_outcome = Bound socket_address | AddressInUse | BindFails

definition local_bind_port_fallback_attempts :: nat where
  "local_bind_port_fallback_attempts = 100"

text \<open>The next ports are tried while the address is in use, unless the port was left to the system or
  there is no next one. The attempts are one more than the constant.\<close>

fun bind_loop :: "(socket_address \<Rightarrow> bind_outcome) \<Rightarrow> socket_address \<Rightarrow> nat \<Rightarrow> socket_address \<Rightarrow>
    string + socket_address" where
  "bind_loop bind requested 0 addr =
     Inl (''find available local UI bind near '' @ show_socket_addr requested)"
| "bind_loop bind requested (Suc n) addr =
     (case bind addr of
        Bound actual \<Rightarrow> Inr actual
      | AddressInUse \<Rightarrow>
          if sa_port requested \<noteq> 0 \<and> sa_port addr < 65535
          then bind_loop bind requested n (addr\<lparr>sa_port := sa_port addr + 1\<rparr>)
          else Inl (''check local UI bind at '' @ show_socket_addr addr)
      | BindFails \<Rightarrow> Inl (''check local UI bind at '' @ show_socket_addr addr))"

definition choose_available_bind ::
  "(socket_address \<Rightarrow> bind_outcome) \<Rightarrow> socket_address \<Rightarrow> string + socket_address" where
  "choose_available_bind bind requested =
     bind_loop bind requested (Suc local_bind_port_fallback_attempts) requested"

record app_launch_plan =
  lp_app_title :: string
  lp_window_mode :: app_window_mode
  lp_local_ui_url :: "string option"
  lp_opens_window :: bool

definition build_launch_plan ::
  "(socket_address \<Rightarrow> bind_outcome) \<Rightarrow> bool \<Rightarrow> app_settings \<Rightarrow> string + (app_launch_plan \<times> app_settings)" where
  "build_launch_plan bind list_devices s =
     (let opens = (\<not> list_devices \<and> \<not> ap_disable_local_ui s \<and> ap_window_mode s \<noteq> Disabled);
          plan = (\<lambda>url. \<lparr>lp_app_title = ap_app_title s, lp_window_mode = ap_window_mode s,
                          lp_local_ui_url = url, lp_opens_window = opens\<rparr>)
      in if opens
         then (case choose_available_bind bind (ap_local_ui_bind s) of
                 Inl e \<Rightarrow> Inl e
               | Inr a \<Rightarrow> Inr (plan (Some (''http://'' @ show_socket_addr a @ ''/'')),
                               s\<lparr>ap_local_ui_bind := a\<rparr>))
         else Inr (plan None, s))"

datatype host_platform = Macos | Windows | Linux

definition open_command_for_platform :: "string \<Rightarrow> host_platform \<Rightarrow> string \<times> string list" where
  "open_command_for_platform url platform =
     (case platform of
        Macos \<Rightarrow> (''open'', [url])
      | Windows \<Rightarrow> (''cmd'', [''/C'', ''start'', [], url])
      | Linux \<Rightarrow> (''xdg-open'', [url]))"

text \<open>The window is opened for the system's browser only.\<close>

definition window_opener :: "app_launch_plan \<Rightarrow> host_platform \<Rightarrow> (string \<times> string list) option" where
  "window_opener plan platform =
     (if lp_window_mode plan = SystemBrowser
      then map_option (\<lambda>url. open_command_for_platform url platform) (lp_local_ui_url plan) else None)"

text \<open>\<open>run_app\<close> up to the client: what it prints, writes or starts.\<close>

record app_run_flags =
  rf_print_config :: bool
  rf_init_config :: bool
  rf_write_config :: bool
  rf_print_launch_plan :: bool
  rf_list_devices :: bool

datatype app_run =
    RunFails string
  | PrintsConfig app_settings
  | Initialized
  | PrintsPlan app_launch_plan
  | StartsClient "(string \<times> string list) option" desktop_args
  | StartFails "(string \<times> string list) option" string

record app_environment =
  ae_resolver :: resolver
  ae_readable :: bool
  ae_pid :: nat
  ae_save_fails :: "save_step option"
  ae_torn :: "app_settings option option"
  ae_bind :: "socket_address \<Rightarrow> bind_outcome"
  ae_platform :: host_platform

definition save_in ::
  "app_environment \<Rightarrow> settings_files \<Rightarrow> settings_path \<Rightarrow> app_settings \<Rightarrow>
     (string + unit) \<times> settings_files" where
  "save_in env files path s =
     save_settings (ae_resolver env) (ae_pid env) (ae_save_fails env) (ae_torn env) files path s"

definition launch :: "app_environment \<Rightarrow> app_run_flags \<Rightarrow> app_settings \<Rightarrow> app_run" where
  "launch env flags s =
     (case build_launch_plan (ae_bind env) (rf_list_devices flags) s of
        Inl e \<Rightarrow> RunFails e
      | Inr (plan, s) \<Rightarrow>
          if rf_print_launch_plan flags then PrintsPlan plan
          else let opener = window_opener plan (ae_platform env)
               in case desktop_args (ae_resolver env) (rf_list_devices flags) s of
                    Inl e \<Rightarrow> StartFails opener e
                  | Inr args \<Rightarrow> StartsClient opener args)"

definition run_app ::
  "app_environment \<Rightarrow> settings_files \<Rightarrow> settings_path \<Rightarrow> app_run_flags \<Rightarrow> app_args \<Rightarrow> app_run \<times> settings_files" where
  "run_app env files path flags args =
     (case load_settings (ae_resolver env) (ae_readable env) files path of
        Inl e \<Rightarrow> (RunFails e, files)
      | Inr loaded \<Rightarrow>
          let s = merge_cli (ae_resolver env) args loaded
          in case validate_settings (ae_resolver env) s of
               Inl e \<Rightarrow> (RunFails e, files)
             | Inr _ \<Rightarrow>
                 if rf_print_config flags then (PrintsConfig s, files)
                 else if rf_init_config flags \<or> rf_write_config flags
                 then (case save_in env files path s of
                         (Inl e, files) \<Rightarrow> (RunFails e, files)
                       | (Inr _, files) \<Rightarrow>
                           if rf_init_config flags then (Initialized, files)
                           else (launch env flags s, files))
                 else (launch env flags s, files))"

section \<open>The mobile commands\<close>

definition mobile_default_settings :: "resolver \<Rightarrow> app_settings" where
  "mobile_default_settings resolve = normalize_endpoints resolve
     (default_app_settings\<lparr>ap_codec := Opus, ap_window_mode := NativeWindow, ap_disable_local_ui := True\<rparr>)"

definition prepare_mobile_settings :: "resolver \<Rightarrow> app_settings \<Rightarrow> app_settings" where
  "prepare_mobile_settings resolve s = normalize_endpoints resolve
     (s\<lparr>ap_user_id := None, ap_codec := Opus, ap_buttons := [], ap_button_keys := [],
        ap_window_mode := NativeWindow, ap_disable_local_ui := True\<rparr>)"

definition prepare_mobile_identity_path :: "settings_path \<Rightarrow> app_settings \<Rightarrow> app_settings" where
  "prepare_mobile_identity_path path s =
     (if (case ap_client_uid s of None \<Rightarrow> False | Some uid \<Rightarrow> trim uid \<noteq> []) then s
      else s\<lparr>ap_identity_file := Some (show_path (path\<lparr>sp_file := ''client-identity.json''\<rparr>))\<rparr>)"

definition not_blank :: "string option \<Rightarrow> string option" where
  "not_blank s = (case s of None \<Rightarrow> None | Some t \<Rightarrow> if trim t = [] then None else Some t)"

definition mobile_profile_for_settings ::
  "resolver \<Rightarrow> app_settings \<Rightarrow> nat option \<Rightarrow> mobile_server_profile" where
  "mobile_profile_for_settings resolve s last_ms =
     (let e = endpoint_overrides resolve s;
          control = (case effective_control e of Inr c \<Rightarrow> c | Inl _ \<Rightarrow> ap_control s);
          server = show_socket_addr (case effective_server resolve e of Inr a \<Rightarrow> a | Inl _ \<Rightarrow> ap_server s);
          admin = (case effective_admin e of Inr a \<Rightarrow> Some a | Inl _ \<Rightarrow> None);
          existing = find (\<lambda>p. mp_control p = control) (ap_server_profiles s);
          name = (case not_blank (map_option mp_name existing) of Some n \<Rightarrow> n | None \<Rightarrow> ''Manual server'')
      in \<lparr>mp_id = (case not_blank (map_option mp_id existing) of
                     Some i \<Rightarrow> i | None \<Rightarrow> mobile_profile_id name control),
          mp_name = name, mp_server_host = eo_server_host e, mp_server = server, mp_control = control,
          mp_admin = (case Option.bind existing mp_admin of Some a \<Rightarrow> Some a | None \<Rightarrow> admin),
          mp_auth = Option.bind existing mp_auth, mp_version = Option.bind existing mp_version,
          mp_last_connected_ms = last_ms, mp_discovered = False\<rparr>)"

definition mobile_save_settings ::
  "app_environment \<Rightarrow> settings_files \<Rightarrow> settings_path \<Rightarrow> app_settings \<Rightarrow> (string + unit) \<times> settings_files" where
  "mobile_save_settings env files path s =
     (let s = prepare_mobile_settings (ae_resolver env) s;
          p = mobile_profile_for_settings (ae_resolver env) s None
      in save_in env files path (remember_mobile_profile (ae_resolver env) p s))"

text \<open>The servers found replace the remembered ones.\<close>

definition mobile_discover_servers ::
  "app_environment \<Rightarrow> settings_files \<Rightarrow> settings_path \<Rightarrow> string + mobile_server_profile list \<Rightarrow>
     (string + mobile_server_profile list) \<times> settings_files" where
  "mobile_discover_servers env files path found =
     (case load_settings (ae_resolver env) (ae_readable env) files path of
        Inl e \<Rightarrow> (Inl e, files)
      | Inr s \<Rightarrow>
          (case found of
             Inl e \<Rightarrow> (Inl e, files)
           | Inr discovered \<Rightarrow>
               let ps = merge_mobile_profiles (ae_resolver env) [] discovered
               in case save_in env files path (s\<lparr>ap_server_profiles := ps\<rparr>) of
                    (Inl e, files) \<Rightarrow> (Inl e, files)
                  | (Inr _, files) \<Rightarrow> (Inr ps, files)))"

definition selected_profile :: "resolver \<Rightarrow> mobile_server_profile \<Rightarrow> mobile_server_profile" where
  "selected_profile resolve p =
     (let p = normalize_mobile_profile resolve p;
          p = (if mp_name p = [] then p\<lparr>mp_name := mp_control p\<rparr> else p)
      in if mp_id p = [] then p\<lparr>mp_id := mobile_profile_id (mp_name p) (mp_control p)\<rparr> else p)"

definition use_profile :: "resolver \<Rightarrow> mobile_server_profile \<Rightarrow> socket_address \<Rightarrow> app_settings \<Rightarrow> app_settings" where
  "use_profile resolve p server s =
     (let e = normalized resolve (mp_server_host p) server (mp_control p) (mp_admin p) False
      in prepare_mobile_settings resolve (remember_mobile_profile resolve p
           (s\<lparr>ap_server_host := eo_server_host e, ap_server := server, ap_control := mp_control p,
              ap_admin := mp_admin p, ap_advanced_endpoints := eo_advanced_endpoints e\<rparr>)))"

definition mobile_select_server ::
  "app_environment \<Rightarrow> settings_files \<Rightarrow> settings_path \<Rightarrow> mobile_server_profile \<Rightarrow>
     (string + app_settings) \<times> settings_files" where
  "mobile_select_server env files path profile =
     (let p = selected_profile (ae_resolver env) profile
      in case parse_socket_addr (mp_server p) of
           None \<Rightarrow> (Inl (''parse server audio address '' @ mp_server p @ '': invalid socket address syntax''), files)
         | Some server \<Rightarrow>
             if mp_control p = [] then (Inl ''control WebSocket URL cannot be empty'', files)
             else (case load_settings (ae_resolver env) (ae_readable env) files path of
                     Inl e \<Rightarrow> (Inl e, files)
                   | Inr s \<Rightarrow>
                       let s = use_profile (ae_resolver env) p server s
                       in case save_in env files path s of
                            (Inl e, files) \<Rightarrow> (Inl e, files)
                          | (Inr _, files) \<Rightarrow> (Inr s, files)))"

definition mobile_forget_server ::
  "app_environment \<Rightarrow> settings_files \<Rightarrow> settings_path \<Rightarrow> string \<Rightarrow> (string + app_settings) \<times> settings_files" where
  "mobile_forget_server env files path i =
     (case load_settings (ae_resolver env) (ae_readable env) files path of
        Inl e \<Rightarrow> (Inl e, files)
      | Inr s \<Rightarrow>
          let s = s\<lparr>ap_server_profiles := filter (\<lambda>p. mp_id p \<noteq> i) (ap_server_profiles s)\<rparr>
          in case save_in env files path s of
               (Inl e, files) \<Rightarrow> (Inl e, files)
             | (Inr _, files) \<Rightarrow> (Inr s, files))"

section \<open>The mobile client's runtime\<close>

datatype client_runtime_phase = PhaseStopped | PhaseStarting | PhaseRunning | PhaseFailed

text \<open>A handle holds the result of the client's thread once it has ended, a panic as its error.\<close>

record mobile_runtime_handle =
  mh_controls_url :: string
  mh_result :: "(string + unit) option"

record mobile_runtime_state =
  ms_runtime :: "mobile_runtime_handle option"
  ms_phase :: client_runtime_phase
  ms_last_error :: "string option"

definition default_mobile_runtime_state :: mobile_runtime_state where
  "default_mobile_runtime_state = \<lparr>ms_runtime = None, ms_phase = PhaseStopped, ms_last_error = None\<rparr>"

definition refresh_mobile_runtime_state :: "mobile_runtime_state \<Rightarrow> mobile_runtime_state" where
  "refresh_mobile_runtime_state st =
     (case ms_runtime st of
        None \<Rightarrow> if ms_phase st \<noteq> PhaseFailed then st\<lparr>ms_phase := PhaseStopped\<rparr> else st
      | Some h \<Rightarrow>
          (case mh_result h of
             None \<Rightarrow> st\<lparr>ms_phase := PhaseRunning\<rparr>
           | Some (Inr _) \<Rightarrow> \<lparr>ms_runtime = None, ms_phase = PhaseStopped,
                              ms_last_error = Some ''mobile client runtime exited''\<rparr>
           | Some (Inl e) \<Rightarrow> \<lparr>ms_runtime = None, ms_phase = PhaseFailed, ms_last_error = Some e\<rparr>))"

definition set_mobile_runtime_failure :: "string \<Rightarrow> mobile_runtime_state" where
  "set_mobile_runtime_failure e = \<lparr>ms_runtime = None, ms_phase = PhaseFailed, ms_last_error = Some e\<rparr>"

text \<open>While the client starts, its local interface is awaited. Each wait ends with the interface, after
  100 ms with the client's result if it has one by then, and whether 15 seconds have passed, or with
  the loss of the thread.\<close>

datatype ready_wait =
    ApiReady
  | WaitTimeout "(string + unit) option" bool
  | WaitDisconnected "(string + unit) option" "string + unit"

definition ended_before_ready :: "string + unit \<Rightarrow> string" where
  "ended_before_ready r =
     (case r of
        Inr _ \<Rightarrow> ''mobile client runtime exited before becoming ready''
      | Inl e \<Rightarrow> ''mobile client runtime failed before ready: '' @ e)"

fun wait_ready :: "ready_wait list \<Rightarrow> (string + unit) option" where
  "wait_ready [] = None"
| "wait_ready (ApiReady # ws) = Some (Inr ())"
| "wait_ready (WaitTimeout (Some r) expired # ws) = Some (Inl (ended_before_ready r))"
| "wait_ready (WaitTimeout None expired # ws) =
     (if expired then Some (Inl ''mobile client runtime did not become ready within 15 seconds'')
      else wait_ready ws)"
| "wait_ready (WaitDisconnected reported joined # ws) =
     Some (Inl (ended_before_ready (case reported of Some r \<Rightarrow> r | None \<Rightarrow> joined)))"

definition mobile_controls_url :: string where
  "mobile_controls_url = ''client-controls.html?mobile=1''"

definition spawn_mobile_runtime ::
  "resolver \<Rightarrow> bool \<Rightarrow> ready_wait list \<Rightarrow> app_settings \<Rightarrow> (string + mobile_runtime_handle) option" where
  "spawn_mobile_runtime resolve thread_starts waits s =
     (case desktop_args resolve False s of
        Inl e \<Rightarrow> Some (Inl e)
      | Inr args \<Rightarrow>
          if \<not> thread_starts then Some (Inl ''spawn mobile client runtime'')
          else (case wait_ready waits of
                  None \<Rightarrow> None
                | Some (Inl e) \<Rightarrow> Some (Inl e)
                | Some (Inr _) \<Rightarrow> Some (Inr \<lparr>mh_controls_url = mobile_controls_url, mh_result = None\<rparr>)))"

record mobile_status_response =
  mr_running :: bool
  mr_phase :: client_runtime_phase
  mr_local_ui_url :: "string option"
  mr_last_error :: "string option"

definition status_response :: "mobile_runtime_state \<Rightarrow> mobile_status_response" where
  "status_response st =
     \<lparr>mr_running = (ms_runtime st \<noteq> None), mr_phase = ms_phase st,
      mr_local_ui_url = map_option mh_controls_url (ms_runtime st), mr_last_error = ms_last_error st\<rparr>"

definition mobile_status :: "mobile_runtime_state \<Rightarrow> mobile_status_response \<times> mobile_runtime_state" where
  "mobile_status st =
     (let st = refresh_mobile_runtime_state st in (status_response st, st))"

definition mobile_runtime_api :: "mobile_runtime_state \<Rightarrow> (string + unit) \<times> mobile_runtime_state" where
  "mobile_runtime_api st =
     (let st = refresh_mobile_runtime_state st
      in (case ms_runtime st of
            Some h \<Rightarrow> Inr ()
          | None \<Rightarrow> Inl (case ms_last_error st of Some e \<Rightarrow> e | None \<Rightarrow> ''mobile client is not running''), st))"

text \<open>A start gives up the lock between its check and the running client: first it looks for a running
  client, later it installs its own or the failure. A second command may come in between.\<close>

definition begin_start ::
  "mobile_runtime_state \<Rightarrow> mobile_status_response option \<times> mobile_runtime_state" where
  "begin_start st =
     (let st = refresh_mobile_runtime_state st
      in if ms_runtime st \<noteq> None then (Some (status_response st), st)
         else (None, st\<lparr>ms_phase := PhaseStarting, ms_last_error := None\<rparr>))"

text \<open>The rest of a start: the audio platform, the thread, and the server remembered as connected now,
  where a failed save is only logged. Nothing is returned while the client is still awaited.\<close>

definition finish_start ::
  "app_environment \<Rightarrow> string + unit \<Rightarrow> bool \<Rightarrow> ready_wait list \<Rightarrow> nat \<Rightarrow> settings_path \<Rightarrow> app_settings \<Rightarrow>
     mobile_runtime_state \<Rightarrow> settings_files \<Rightarrow>
     ((string + mobile_status_response) \<times> mobile_runtime_state \<times> settings_files) option" where
  "finish_start env audio thread_starts waits now path s st files =
     (case audio of
        Inl e \<Rightarrow> Some (Inl e, set_mobile_runtime_failure e, files)
      | Inr _ \<Rightarrow>
          (case spawn_mobile_runtime (ae_resolver env) thread_starts waits s of
             None \<Rightarrow> None
           | Some (Inl e) \<Rightarrow> Some (Inl e, set_mobile_runtime_failure e, files)
           | Some (Inr h) \<Rightarrow>
               let p = mobile_profile_for_settings (ae_resolver env) s (Some now);
                   files = snd (save_in env files path (remember_mobile_profile (ae_resolver env) p s));
                   st = \<lparr>ms_runtime = Some h, ms_phase = PhaseRunning, ms_last_error = None\<rparr>
               in Some (Inr (status_response st), st, files)))"

definition mobile_start_settings ::
  "app_environment \<Rightarrow> settings_path \<Rightarrow> app_settings \<Rightarrow> app_settings" where
  "mobile_start_settings env path s =
     prepare_mobile_identity_path path (prepare_mobile_settings (ae_resolver env) s)"

text \<open>A start that nothing interrupts.\<close>

definition mobile_start_client ::
  "app_environment \<Rightarrow> string + unit \<Rightarrow> bool \<Rightarrow> ready_wait list \<Rightarrow> nat \<Rightarrow> settings_path \<Rightarrow> app_settings \<Rightarrow>
     mobile_runtime_state \<Rightarrow> settings_files \<Rightarrow>
     ((string + mobile_status_response) \<times> mobile_runtime_state \<times> settings_files) option" where
  "mobile_start_client env audio thread_starts waits now path s st files =
     (let s = mobile_start_settings env path s
      in case save_in env files path s of
           (Inl e, files) \<Rightarrow> Some (Inl e, st, files)
         | (Inr _, files) \<Rightarrow>
             (case begin_start st of
                (Some response, st) \<Rightarrow> Some (Inr response, st, files)
              | (None, st) \<Rightarrow> finish_start env audio thread_starts waits now path s st files))"

text \<open>The runtime is taken out before its shutdown is awaited.\<close>

definition mobile_stop_client ::
  "(string + unit) \<Rightarrow> mobile_runtime_state \<Rightarrow> (string + unit) \<times> mobile_runtime_state" where
  "mobile_stop_client shutdown st =
     (case ms_runtime st of
        None \<Rightarrow> Inr ()
      | Some h \<Rightarrow> (case mh_result h of Some r \<Rightarrow> r | None \<Rightarrow> shutdown),
      \<lparr>ms_runtime = None, ms_phase = PhaseStopped, ms_last_error = None\<rparr>)"

text \<open>What can happen to the runtime's state: commands, the parts of starts, and the end of the thread.\<close>

inductive mobile_step :: "mobile_runtime_state \<Rightarrow> mobile_runtime_state \<Rightarrow> bool" where
  status: "mobile_step st (snd (mobile_status st))"
| api: "mobile_step st (snd (mobile_runtime_api st))"
| begins: "mobile_step st (snd (begin_start st))"
| finishes: "finish_start env audio starts waits now path s st files = Some (r, st', files') \<Longrightarrow>
    mobile_step st st'"
| stops: "mobile_step st (snd (mobile_stop_client shutdown st))"
| ends: "ms_runtime st = Some h \<Longrightarrow> mh_result h = None \<Longrightarrow>
    mobile_step st (st\<lparr>ms_runtime := Some (h\<lparr>mh_result := Some r\<rparr>)\<rparr>)"

inductive_cases mobile_step_cases: "mobile_step st st'"

section \<open>Properties\<close>

subsection \<open>The settings file\<close>

lemma temp_settings_path_differs [simp]: "temp_settings_path pid path \<noteq> path" "path \<noteq> temp_settings_path pid path"
proof -
  have "sp_file (temp_settings_path pid path) \<noteq> sp_file path" by (simp add: temp_settings_path_def)
  then show "temp_settings_path pid path \<noteq> path" by auto
  then show "path \<noteq> temp_settings_path pid path" by simp
qed

text \<open>C35. Saving settings is all or nothing. It succeeds exactly when the settings with normalised
  endpoints pass the check and no step of writing the file fails. When it fails the settings file is
  what it was; when it succeeds the file holds the settings with normalised endpoints and the
  temporary file is gone. No other file is touched. Loading normalises the endpoints once more, which
  is not always without effect (\<open>normalize_endpoints\<close> is not idempotent).\<close>

theorem saving_is_all_or_nothing:
  "let (result, files') = save_settings resolve pid fails torn files path s;
       stored = normalize_endpoints resolve s; tmp = temp_settings_path pid path
   in (result = Inr ()) = (validate_settings resolve stored = Inr ()
          \<and> fails \<in> - {Some WriteTemporary, Some ReplaceFile}
          \<and> (sp_directory path = [] \<or> fails \<in> - {Some CreateDirectory}))
      \<and> (case result of
           Inl _ \<Rightarrow> files'(tmp := None) = files(tmp := None)
         | Inr _ \<Rightarrow> files' = files(tmp := None, path := Some (Some stored))
             \<and> load_settings resolve True files' path = Inr (normalize_endpoints resolve stored))"
  by (cases "validate_settings resolve (normalize_endpoints resolve s)")
    (auto simp: save_settings_def load_settings_def Let_def)

subsection \<open>Launching\<close>

text \<open>Among the ports after the requested one the first that is free is taken.\<close>

lemma bind_loop_finds:
  assumes "\<And>i. i < k \<Longrightarrow> bind (a\<lparr>sa_port := sa_port a + i\<rparr>) = AddressInUse"
    and "bind (a\<lparr>sa_port := sa_port a + k\<rparr>) = Bound actual"
    and "k < n" "sa_port requested \<noteq> 0" "sa_port a + k \<le> 65535"
  shows "bind_loop bind requested n a = Inr actual"
  using assms
proof (induction k arbitrary: a n)
  case 0
  then show ?case by (cases n) auto
next
  case (Suc k)
  obtain m where n: "n = Suc m" using Suc.prems(3) by (cases n) auto
  have "bind_loop bind requested m (a\<lparr>sa_port := sa_port a + 1\<rparr>) = Inr actual"
  proof (rule Suc.IH)
    show "bind ((a\<lparr>sa_port := sa_port a + 1\<rparr>)
        \<lparr>sa_port := sa_port (a\<lparr>sa_port := sa_port a + 1\<rparr>) + i\<rparr>) = AddressInUse" if "i < k" for i
      using Suc.prems(1) [of "Suc i"] that by simp
  qed (use Suc.prems n in auto)
  moreover have "bind a = AddressInUse" using Suc.prems(1) [of 0] by simp
  ultimately show ?case using Suc.prems n by simp
qed

lemma local_ui_port_found:
  assumes "\<And>i. i < k \<Longrightarrow> bind (a\<lparr>sa_port := sa_port a + i\<rparr>) = AddressInUse"
    and "bind (a\<lparr>sa_port := sa_port a + k\<rparr>) = Bound actual"
    and "k \<le> local_bind_port_fallback_attempts" "sa_port a \<noteq> 0" "sa_port a + k \<le> 65535"
  shows "choose_available_bind bind a = Inr actual"
  unfolding choose_available_bind_def using assms by (intro bind_loop_finds) auto

lemma build_launch_plan_settings:
  assumes "build_launch_plan bind ld s = Inr (plan, s')"
  shows "\<exists>a. s' = s\<lparr>ap_local_ui_bind := a\<rparr> \<and> lp_window_mode plan = ap_window_mode s
    \<and> lp_local_ui_url plan = (if lp_opens_window plan
         then Some (''http://'' @ show_socket_addr (ap_local_ui_bind s') @ ''/'') else None)
    \<and> lp_opens_window plan = (\<not> ld \<and> \<not> ap_disable_local_ui s \<and> ap_window_mode s \<noteq> Disabled)
    \<and> (if lp_opens_window plan then choose_available_bind bind (ap_local_ui_bind s) = Inr a
       else a = ap_local_ui_bind s) \<and> lp_app_title plan = ap_app_title s"
proof (cases "\<not> ld \<and> \<not> ap_disable_local_ui s \<and> ap_window_mode s \<noteq> Disabled")
  case True
  then obtain a where "choose_available_bind bind (ap_local_ui_bind s) = Inr a"
    using assms by (cases "choose_available_bind bind (ap_local_ui_bind s)")
      (simp_all add: build_launch_plan_def Let_def)
  with True assms have "s' = s\<lparr>ap_local_ui_bind := a\<rparr>"
      "plan = \<lparr>lp_app_title = ap_app_title s, lp_window_mode = ap_window_mode s,
         lp_local_ui_url = Some (''http://'' @ show_socket_addr a @ ''/''), lp_opens_window = True\<rparr>"
    by (simp_all add: build_launch_plan_def Let_def)
  with True \<open>choose_available_bind bind (ap_local_ui_bind s) = Inr a\<close> show ?thesis
    by (intro exI [of _ a]) simp
next
  case False
  with assms have "s' = s"
      "plan = \<lparr>lp_app_title = ap_app_title s, lp_window_mode = ap_window_mode s,
         lp_local_ui_url = None, lp_opens_window = False\<rparr>"
    by (auto simp: build_launch_plan_def Let_def)
  with False show ?thesis by (intro exI [of _ "ap_local_ui_bind s"]) simp
qed

lemma endpoint_overrides_bind [simp]:
  "endpoint_overrides resolve (s\<lparr>ap_local_ui_bind := a\<rparr>) = endpoint_overrides resolve s"
  by (simp add: endpoint_overrides_def)

lemma validate_settings_bind [simp]:
  "validate_settings resolve (s\<lparr>ap_local_ui_bind := a\<rparr>) = validate_settings resolve s"
  by (simp add: validate_settings_def)

text \<open>What a launch with checked settings can come to: the local interface is served on the first free
  port when a window opens, and on the configured one otherwise.\<close>

definition opens_window :: "app_run_flags \<Rightarrow> app_settings \<Rightarrow> bool" where
  "opens_window flags s =
     (\<not> rf_list_devices flags \<and> \<not> ap_disable_local_ui s \<and> ap_window_mode s \<noteq> Disabled)"

definition serves_on :: "app_environment \<Rightarrow> app_run_flags \<Rightarrow> app_settings \<Rightarrow> socket_address \<Rightarrow> bool" where
  "serves_on env flags s b =
     (if opens_window flags s then choose_available_bind (ae_bind env) (ap_local_ui_bind s) = Inr b
      else b = ap_local_ui_bind s)"

definition launch_outcome_ok ::
  "app_environment \<Rightarrow> app_run_flags \<Rightarrow> app_settings \<Rightarrow> app_run \<Rightarrow> bool" where
  "launch_outcome_ok env flags s r \<longleftrightarrow>
     (case r of
        StartsClient opener a \<Rightarrow>
          \<not> rf_print_launch_plan flags
          \<and> args_in_range a \<and> da_list_devices a = rf_list_devices flags
          \<and> (\<exists>b. serves_on env flags s b
                \<and> desktop_args (ae_resolver env) (rf_list_devices flags) (s\<lparr>ap_local_ui_bind := b\<rparr>) = Inr a)
          \<and> opener = (if ap_window_mode s = SystemBrowser \<and> \<not> da_list_devices a \<and> \<not> da_disable_local_ui a
              then Some (open_command_for_platform
                     (''http://'' @ show_socket_addr (da_local_ui_bind a) @ ''/'') (ae_platform env))
              else None)
      | StartFails opener e \<Rightarrow>
          \<not> rf_print_launch_plan flags
          \<and> effective_server (ae_resolver env) (endpoint_overrides (ae_resolver env) s) = Inl e
      | PrintsPlan plan \<Rightarrow>
          rf_print_launch_plan flags
          \<and> (\<exists>b. serves_on env flags s b
                \<and> plan = \<lparr>lp_app_title = ap_app_title s, lp_window_mode = ap_window_mode s,
                    lp_local_ui_url = (if opens_window flags s
                       then Some (''http://'' @ show_socket_addr b @ ''/'') else None),
                    lp_opens_window = opens_window flags s\<rparr>)
      | RunFails e \<Rightarrow>
          opens_window flags s \<and> choose_available_bind (ae_bind env) (ap_local_ui_bind s) = Inl e
      | _ \<Rightarrow> False)"

lemma launch_outcome:
  assumes "validate_settings (ae_resolver env) s = Inr ()"
  shows "launch_outcome_ok env flags s (launch env flags s)"
proof (cases "build_launch_plan (ae_bind env) (rf_list_devices flags) s")
  case (Inl e)
  then have "opens_window flags s" "choose_available_bind (ae_bind env) (ap_local_ui_bind s) = Inl e"
    by (auto simp: build_launch_plan_def opens_window_def Let_def split: if_splits sum.splits)
  with Inl show ?thesis by (simp add: launch_def launch_outcome_ok_def)
next
  case (Inr r)
  obtain plan s' where r: "r = (plan, s')" by fastforce
  obtain a where a: "s' = s\<lparr>ap_local_ui_bind := a\<rparr>" "lp_window_mode plan = ap_window_mode s"
      "lp_local_ui_url plan = (if lp_opens_window plan
         then Some (''http://'' @ show_socket_addr (ap_local_ui_bind s') @ ''/'') else None)"
      "lp_opens_window plan = opens_window flags s" "lp_app_title plan = ap_app_title s"
    and port: "if lp_opens_window plan then choose_available_bind (ae_bind env) (ap_local_ui_bind s) = Inr a
       else a = ap_local_ui_bind s"
    using build_launch_plan_settings [OF Inr [unfolded r], folded opens_window_def] by blast
  then have serves: "serves_on env flags s a" by (simp add: serves_on_def)
  have valid: "validate_settings (ae_resolver env) s' = Inr ()" by (simp add: a(1) assms)
  show ?thesis
  proof (cases "rf_print_launch_plan flags")
    case True
    with a serves show ?thesis
      by (auto simp: launch_def Inr r launch_outcome_ok_def intro!: exI [of _ a])
  next
    case False
    show ?thesis
    proof (cases "desktop_args (ae_resolver env) (rf_list_devices flags) s'")
      case (Inl e)
      then have "effective_server (ae_resolver env) (endpoint_overrides (ae_resolver env) s) = Inl e"
        using desktop_args_outcome [OF valid, of "rf_list_devices flags"] a(1)
        by (auto split: sum.splits)
      with Inl False show ?thesis by (simp add: launch_def Inr r launch_outcome_ok_def Let_def)
    next
      case args: (Inr d)
      have "\<exists>b. serves_on env flags s b
          \<and> desktop_args (ae_resolver env) (rf_list_devices flags) (s\<lparr>ap_local_ui_bind := b\<rparr>) = Inr d"
        using serves args a(1) by blast
      with False show ?thesis
        using desktop_args_in_range [OF args] a
        by (auto simp: launch_def Inr r launch_outcome_ok_def args [unfolded a(1)] Let_def window_opener_def
            opens_window_def)
    qed
  qed
qed

text \<open>C36. What the application does is decided by its settings' check. A file that cannot be read and
  settings that do not pass change no file. Printing the configuration changes no file. An
  initialisation or a write of the configuration fails without changing the settings file, or leaves
  exactly the checked settings, with normalised endpoints, in it and no temporary file; without either no file is
  changed. Printing the launch plan starts nothing, and nothing else prints it. A client is started
  with the arguments of the checked settings on the port found free: gains between 0 and 2, a jitter
  of at most 250 ms, at most the permitted buttons and a codec the client has; the browser is opened
  exactly for that mode, on the address the client then serves. With checked settings a start fails
  only because the server's name does not resolve or no local port is free.\<close>

theorem app_run_outcome:
  "case load_settings (ae_resolver env) (ae_readable env) files path of
     Inl e \<Rightarrow> run_app env files path flags args = (RunFails e, files)
   | Inr loaded \<Rightarrow>
       let s = merge_cli (ae_resolver env) args loaded; (r, files') = run_app env files path flags args;
           writes = (rf_init_config flags \<or> rf_write_config flags); tmp = temp_settings_path (ae_pid env) path
       in case validate_settings (ae_resolver env) s of
            Inl e \<Rightarrow> (r, files') = (RunFails e, files)
          | Inr _ \<Rightarrow>
              if rf_print_config flags then (r, files') = (PrintsConfig s, files)
              else if writes \<and> (\<exists>e. fst (save_in env files path s) = Inl e)
              then files'(tmp := None) = files(tmp := None) \<and> (\<exists>e. r = RunFails e)
              else files' = (if writes
                     then files(tmp := None, path := Some (Some (normalize_endpoints (ae_resolver env) s)))
                     else files) \<and>
                   (if rf_init_config flags then r = Initialized else launch_outcome_ok env flags s r)"
proof (cases "load_settings (ae_resolver env) (ae_readable env) files path")
  case (Inr loaded)
  define s where "s = merge_cli (ae_resolver env) args loaded"
  have saved: "case save_in env files path s of
      (Inl e, files') \<Rightarrow>
        files'(temp_settings_path (ae_pid env) path := None) = files(temp_settings_path (ae_pid env) path := None)
    | (Inr _, files') \<Rightarrow> files' = files(temp_settings_path (ae_pid env) path := None,
        path := Some (Some (normalize_endpoints (ae_resolver env) s)))"
    by (cases "validate_settings (ae_resolver env) (normalize_endpoints (ae_resolver env) s)")
      (auto simp: save_in_def save_settings_def Let_def)
  show ?thesis
  proof (cases "validate_settings (ae_resolver env) s")
    case valid: (Inr u)
    then have "launch_outcome_ok env flags s (launch env flags s)" by (simp add: launch_outcome)
    with saved valid show ?thesis
      by (auto simp: run_app_def Inr Let_def s_def [symmetric] split: prod.splits sum.splits)
  qed (simp add: run_app_def Inr s_def [symmetric])
qed (simp add: run_app_def)

subsection \<open>Mobile commands\<close>

text \<open>Discovery forgets the remembered servers: what is stored afterwards depends on the servers found
  only.\<close>

lemma discovery_forgets_saved_servers:
  assumes "mobile_discover_servers env files path (Inr found) = (Inr ps, files')"
  shows "ps = merge_mobile_profiles (ae_resolver env) [] found"
  using assms by (auto simp: mobile_discover_servers_def Let_def split: sum.splits prod.splits)

lemma normalize_endpoints_others [simp]:
  "ap_codec (normalize_endpoints resolve s) = ap_codec s"
  "ap_user_id (normalize_endpoints resolve s) = ap_user_id s"
  "ap_disable_local_ui (normalize_endpoints resolve s) = ap_disable_local_ui s"
  "ap_window_mode (normalize_endpoints resolve s) = ap_window_mode s"
  "ap_buttons (normalize_endpoints resolve s) = ap_buttons s"
  by (simp_all add: normalize_endpoints_def Let_def)

subsection \<open>The mobile client's runtime\<close>

definition mobile_ok :: "mobile_runtime_state \<Rightarrow> bool" where
  "mobile_ok st \<longleftrightarrow> (ms_runtime st = None) = (ms_phase st \<noteq> PhaseRunning) \<and>
     (ms_phase st = PhaseFailed \<longrightarrow> ms_last_error st \<noteq> None)"

lemma mobile_ok_refresh: "mobile_ok st \<Longrightarrow> mobile_ok (refresh_mobile_runtime_state st)"
  by (auto simp: mobile_ok_def refresh_mobile_runtime_state_def split: option.splits sum.splits)

lemma refresh_not_starting: "mobile_ok st \<Longrightarrow> ms_phase (refresh_mobile_runtime_state st) \<noteq> PhaseStarting"
  by (auto simp: mobile_ok_def refresh_mobile_runtime_state_def split: option.splits sum.splits)

lemma finish_start_ok:
  assumes "finish_start env audio starts waits now path s st files = Some (r, st', files')"
  shows "mobile_ok st'"
  using assms
  by (auto simp: finish_start_def mobile_ok_def set_mobile_runtime_failure_def Let_def
      split: sum.splits option.splits)

lemma mobile_step_ok: "mobile_step st st' \<Longrightarrow> mobile_ok st \<Longrightarrow> mobile_ok st'"
proof (induction rule: mobile_step.induct)
  case (begins st)
  then have "mobile_ok (refresh_mobile_runtime_state st)" by (rule mobile_ok_refresh)
  then show ?case by (auto simp: begin_start_def Let_def mobile_ok_def)
qed (auto simp: mobile_status_def mobile_runtime_api_def Let_def mobile_ok_refresh finish_start_ok
    mobile_stop_client_def, auto simp: mobile_ok_def)

lemma mobile_runs_ok: "mobile_step\<^sup>*\<^sup>* default_mobile_runtime_state st \<Longrightarrow> mobile_ok st"
  by (induction rule: rtranclp_induct)
    (auto simp: mobile_step_ok, simp add: default_mobile_runtime_state_def mobile_ok_def)

text \<open>C37. In every interleaving of commands, starts in progress and ends of the client's thread, what
  the application reports is consistent: it runs exactly in phase running, exactly then it has a page
  to open and gives access to the client's interface, and a failure comes with its error. A start in
  progress is never reported as such.\<close>

theorem mobile_status_is_consistent:
  assumes "mobile_step\<^sup>*\<^sup>* default_mobile_runtime_state st"
  shows "let r = fst (mobile_status st)
         in mr_running r = (mr_phase r = PhaseRunning)
            \<and> mr_running r = (mr_local_ui_url r \<noteq> None)
            \<and> mr_running r = (fst (mobile_runtime_api st) = Inr ())
            \<and> mr_phase r \<noteq> PhaseStarting
            \<and> (if mr_phase r = PhaseFailed then mr_last_error r \<noteq> None else True)"
proof -
  let ?st = "refresh_mobile_runtime_state st"
  have ok: "mobile_ok ?st" "ms_phase ?st \<noteq> PhaseStarting"
    using mobile_runs_ok [OF assms] mobile_ok_refresh refresh_not_starting by blast+
  then show ?thesis
    by (cases "ms_runtime ?st")
      (auto simp: mobile_status_def mobile_runtime_api_def status_response_def Let_def mobile_ok_def)
qed

text \<open>A stop that comes while a start is in progress is lost: the client runs afterwards.\<close>

lemma stop_during_start_is_lost:
  assumes "finish_start env audio starts waits now path s st files = Some (Inr r, st', files')"
  shows "mr_running r \<and> ms_phase st' = PhaseRunning"
  using assms
  by (auto simp: finish_start_def status_response_def Let_def split: sum.splits option.splits)

theorem mobile_status_is_consistent_witness:
  "let st = snd (begin_start default_mobile_runtime_state)
   in mr_phase (fst (mobile_status st)) = PhaseStopped \<and> ms_phase st = PhaseStarting
      \<and> mr_running (fst (mobile_status st)) = (fst (mobile_runtime_api st) = Inr ())"
proof -
  let ?st = "snd (begin_start default_mobile_runtime_state)"
  have "mobile_step\<^sup>*\<^sup>* default_mobile_runtime_state ?st"
    by (rule r_into_rtranclp [where r = mobile_step, OF mobile_step.begins])
  from mobile_status_is_consistent [OF this] show ?thesis
    by (simp add: begin_start_def mobile_status_def refresh_mobile_runtime_state_def status_response_def
        default_mobile_runtime_state_def Let_def)
qed

end
