(* ===== verification/Bridge_App.thy ===== *)
theory Bridge_App
  imports App_Runtime
begin

text \<open>
  The bridge launcher (\<open>clients/bridge-app/src/lib.rs\<close>): its configuration and routes, their check,
  the bridge processes it starts and stops, and the channels it offers. Processes, files, devices and
  the administrator's server are outcomes of the environment; JSON and the text of a float are
  parameters. Pages, tracing and opening the browser are not modelled.
\<close>

section \<open>Configuration\<close>

record bridge_route_config =
  bro_id :: string
  bro_name :: string
  bro_user_id :: user_id
  bro_client_uid :: "string option"
  bro_identity_file :: "string option"
  bro_mode :: bridge_mode
  bro_tx_channels :: "channel_id list"
  bro_listen_channels :: "channel_id list"
  bro_codec :: codec
  bro_opus_profile :: opus_profile
  bro_stereo :: bool
  bro_input_device :: "string option"
  bro_output_device :: "string option"
  bro_input_gain :: f32
  bro_output_gain :: f32
  bro_note :: string
  bro_enabled :: bool

definition default_bridge_route :: bridge_route_config where
  "default_bridge_route =
     \<lparr>bro_id = [], bro_name = ''Bridge Route'', bro_user_id = 90, bro_client_uid = None,
      bro_identity_file = None, bro_mode = BridgeInput, bro_tx_channels = [1], bro_listen_channels = [],
      bro_codec = Pcm48, bro_opus_profile = Speech48High, bro_stereo = False, bro_input_device = None,
      bro_output_device = None, bro_input_gain = Fin 1, bro_output_gain = Fin 1, bro_note = [],
      bro_enabled = True\<rparr>"

record bridge_app_config =
  bac_app_title :: string
  bac_server_host :: string
  bac_server :: socket_address
  bac_control :: string
  bac_admin :: "string option"
  bac_advanced_endpoints :: bool
  bac_bridge_bin :: "string option"
  bac_routes :: "bridge_route_config list"

definition default_bridge_app_config :: bridge_app_config where
  "default_bridge_app_config =
     \<lparr>bac_app_title = ''RedLine Bridge'', bac_server_host = default_server_host,
      bac_server = default_audio_addr, bac_control = control_url default_server_host, bac_admin = None,
      bac_advanced_endpoints = False, bac_bridge_bin = None,
      bac_routes = [default_bridge_route\<lparr>bro_id := ''program-in'', bro_name := ''Program Input'',
        bro_note := ''vMix or virtual audio program feed into RedLine''\<rparr>]\<rparr>"

definition config_overrides :: "resolver \<Rightarrow> bridge_app_config \<Rightarrow> client_endpoint_overrides" where
  "config_overrides resolve c =
     normalized resolve (bac_server_host c) (bac_server c) (bac_control c) (bac_admin c)
       (bac_advanced_endpoints c)"

definition normalize_config :: "resolver \<Rightarrow> bridge_app_config \<Rightarrow> bridge_app_config" where
  "normalize_config resolve c =
     (let e = config_overrides resolve c
      in c\<lparr>bac_server_host := eo_server_host e, bac_server := eo_server e, bac_control := eo_control e,
           bac_admin := eo_admin e, bac_advanced_endpoints := eo_advanced_endpoints e\<rparr>)"

record bridge_app_args =
  bga_server_host :: "string option"
  bga_server :: "socket_address option"
  bga_control :: "string option"
  bga_admin :: "string option"
  bga_bridge_bin :: "string option"

definition merge_bridge_cli :: "resolver \<Rightarrow> bridge_app_args \<Rightarrow> bridge_app_config \<Rightarrow> bridge_app_config" where
  "merge_bridge_cli resolve args c = normalize_config resolve
     (c\<lparr>bac_server_host := given (bga_server_host args) (bac_server_host c),
        bac_server := given (bga_server args) (bac_server c),
        bac_control := given (bga_control args) (bac_control c),
        bac_admin := given_some (bga_admin args) (bac_admin c),
        bac_advanced_endpoints :=
          (if bga_server args \<noteq> None \<or> bga_control args \<noteq> None \<or> bga_admin args \<noteq> None then True
           else if bga_server_host args \<noteq> None then False else bac_advanced_endpoints c),
        bac_bridge_bin := given_some (bga_bridge_bin args) (bac_bridge_bin c)\<rparr>)"

definition captures :: "bridge_mode \<Rightarrow> bool" where
  "captures m = (m \<in> {BridgeInput, BridgeDuplex})"

definition plays :: "bridge_mode \<Rightarrow> bool" where
  "plays m = (m \<in> {BridgeOutput, BridgeDuplex})"

definition route_error :: "bridge_route_config \<Rightarrow> string \<Rightarrow> string" where
  "route_error r what = ''route `'' @ bro_id r @ ''` '' @ what"

definition validate_route :: "bridge_route_config \<Rightarrow> string + unit" where
  "validate_route r =
     and_then (ensure (trim (bro_id r) \<noteq> []) ''route id cannot be empty'')
    (and_then (ensure (bro_user_id r \<noteq> 0) (route_error r ''user_id must be 1..65535''))
    (and_then (validate_gain ''input_gain'' (bro_input_gain r))
    (and_then (validate_gain ''output_gain'' (bro_output_gain r))
    (and_then (ensure (\<not> (captures (bro_mode r) \<and> bro_tx_channels r = []))
                (route_error r ''captures audio but has no TX channels''))
    (and_then (ensure (\<not> (plays (bro_mode r) \<and> bro_listen_channels r = []))
                (route_error r ''plays audio but has no listen channels''))
    (and_then (ensure (\<not> list_ex (\<lambda>c. c \<in> set (bro_listen_channels r)) (bro_tx_channels r))
                (route_error r ''listens and transmits on the same channel; split routes to avoid feedback''))
       (ensure (bro_codec r \<noteq> Adpcm) (route_error r ''uses unsupported ADPCM codec''))))))))"

fun validate_routes :: "string list \<Rightarrow> user_id list \<Rightarrow> bridge_route_config list \<Rightarrow> string + unit" where
  "validate_routes ids users [] = Inr ()"
| "validate_routes ids users (r # rs) =
     and_then (validate_route r)
    (and_then (ensure (bro_id r \<notin> set ids) (''duplicate bridge route id `'' @ bro_id r @ ''`''))
    (and_then (ensure (bro_user_id r \<notin> set users)
                (''duplicate bridge route user_id `'' @ show_word (bro_user_id r) @ ''`''))
       (validate_routes (bro_id r # ids) (bro_user_id r # users) rs)))"

definition validate_config :: "resolver \<Rightarrow> bridge_app_config \<Rightarrow> string + unit" where
  "validate_config resolve c =
     and_then (ensure (trim (bac_app_title c) \<noteq> []) ''app_title cannot be empty'')
    (and_then (validate_overrides (config_overrides resolve c))
       (validate_routes [] [] (bac_routes c)))"

section \<open>The configuration file\<close>

type_synonym bridge_files = "settings_path \<Rightarrow> bridge_app_config option option"

definition load_config :: "resolver \<Rightarrow> bool \<Rightarrow> bridge_files \<Rightarrow> settings_path \<Rightarrow> string + bridge_app_config" where
  "load_config resolve readable files path =
     (if \<not> readable then Inl (''read bridge app config from '' @ show_path path)
      else case files path of
             None \<Rightarrow> Inr (normalize_config resolve default_bridge_app_config)
           | Some None \<Rightarrow> Inl (''parse bridge app config from '' @ show_path path)
           | Some (Some c) \<Rightarrow> Inr (normalize_config resolve c))"

definition save_config ::
  "resolver \<Rightarrow> nat \<Rightarrow> save_step option \<Rightarrow> bridge_app_config option option \<Rightarrow> settings_path \<Rightarrow>
     bridge_app_config \<Rightarrow> bridge_files \<Rightarrow> (string + unit) \<times> bridge_files" where
  "save_config resolve pid fails torn path config files =
     (let c = normalize_config resolve config; tmp = temp_settings_path pid path
      in case validate_config resolve c of
           Inl e \<Rightarrow> (Inl e, files)
         | Inr _ \<Rightarrow>
             if fails = Some CreateDirectory \<and> sp_directory path \<noteq> []
             then (Inl (''create bridge app config directory '' @ sp_directory path), files)
             else if fails = Some WriteTemporary
             then (Inl (''write bridge app config to '' @ show_path tmp), files(tmp := torn))
             else if fails = Some ReplaceFile
             then (Inl (''replace bridge app config at '' @ show_path path), files(tmp := Some (Some c)))
             else (Inr (), files(tmp := None, path := Some (Some c))))"

section \<open>The command line of a bridge\<close>

definition csv_channels :: "channel_id list \<Rightarrow> string" where
  "csv_channels cs = join '','' (map show_word cs)"

definition csv_channels_or_default :: "channel_id list \<Rightarrow> string" where
  "csv_channels_or_default cs = (if cs = [] then ''1'' else csv_channels cs)"

fun bridge_mode_arg :: "bridge_mode \<Rightarrow> string" where
  "bridge_mode_arg BridgeInput = ''input''"
| "bridge_mode_arg BridgeOutput = ''output''"
| "bridge_mode_arg BridgeDuplex = ''duplex''"

fun codec_arg :: "codec \<Rightarrow> string" where
  "codec_arg Pcm16 = ''pcm16''"
| "codec_arg Pcm24 = ''pcm24''"
| "codec_arg Pcm48 = ''pcm48''"
| "codec_arg Opus = ''opus''"
| "codec_arg Adpcm = ''adpcm''"

fun opus_profile_arg :: "opus_profile \<Rightarrow> string" where
  "opus_profile_arg Speech16Low = ''speech-16-low''"
| "opus_profile_arg Speech24Standard = ''speech-24-standard''"
| "opus_profile_arg Speech48High = ''speech-48-high''"
| "opus_profile_arg Music48 = ''music-48''"

definition option_arg :: "string \<Rightarrow> string option \<Rightarrow> string list" where
  "option_arg name v = (case v of None \<Rightarrow> [] | Some v \<Rightarrow> [name, v])"

definition bridge_args ::
  "resolver \<Rightarrow> (f32 \<Rightarrow> string) \<Rightarrow> bridge_app_config \<Rightarrow> bridge_route_config \<Rightarrow> string list" where
  "bridge_args resolve show_f32 config r =
     (let e = config_overrides resolve config;
          server = (case effective_server resolve e of Inr a \<Rightarrow> a | Inl _ \<Rightarrow> bac_server config);
          control = (case effective_control e of Inr c \<Rightarrow> c | Inl _ \<Rightarrow> bac_control config)
      in [''--server-host'', eo_server_host e, ''--server'', show_socket_addr server,
          ''--control'', control, ''--user-id'', show_word (bro_user_id r), ''--name'', bro_name r,
          ''--mode'', bridge_mode_arg (bro_mode r),
          ''--tx-channels'', csv_channels_or_default (bro_tx_channels r),
          ''--listen-channels'', csv_channels_or_default (bro_listen_channels r),
          ''--codec'', codec_arg (bro_codec r), ''--opus-profile'', opus_profile_arg (bro_opus_profile r),
          ''--input-gain'', show_f32 (bro_input_gain r), ''--output-gain'', show_f32 (bro_output_gain r)] @
         option_arg ''--client-uid'' (not_blank (bro_client_uid r)) @
         option_arg ''--identity-file'' (bro_identity_file r) @
         (if bro_stereo r then [''--stereo''] else []) @
         option_arg ''--input-device'' (not_blank (bro_input_device r)) @
         option_arg ''--output-device'' (not_blank (bro_output_device r)) @
         option_arg ''--note'' (not_blank (Some (bro_note r))))"

section \<open>Running bridges\<close>

text \<open>A child is known by its process id, with the program and the arguments it was started with. Beside
  the launcher's table of children, \<open>ba_processes\<close> holds the bridge processes the operating
  system runs for it, by process id and route: a process joins when it is spawned, whether or not the table
  keeps it, and leaves when it is killed or exits.\<close>

record running_route =
  rr_pid :: nat
  rr_program :: string
  rr_args :: "string list"
  rr_started_at_ms :: nat

record bridge_app =
  ba_config_file :: settings_path
  ba_bridge_bin_override :: "string option"
  ba_config :: bridge_app_config
  ba_children :: "(string, running_route) hash_map"
  ba_processes :: "(nat \<times> string) list"

datatype wait_outcome = Exited string | StillRunning | WaitFails string

record bridge_app_error =
  bae_status :: nat
  bae_message :: string

definition bad_request :: "string \<Rightarrow> bridge_app_error" where
  "bad_request m = \<lparr>bae_status = 400, bae_message = m\<rparr>"

definition internal :: "string \<Rightarrow> bridge_app_error" where
  "internal m = \<lparr>bae_status = 500, bae_message = m\<rparr>"

record bridge_environment =
  be_resolver :: resolver
  be_show_f32 :: "f32 \<Rightarrow> string"
  be_default_bin :: string
  be_wait :: "running_route \<Rightarrow> wait_outcome"
  be_spawn :: "string \<Rightarrow> string list \<Rightarrow> string + nat"
  be_kill :: "running_route \<Rightarrow> string + unit"
  be_now_ms :: nat
  be_pid :: nat
  be_save_fails :: "save_step option"
  be_torn :: "bridge_app_config option option"

definition bridge_bin_path :: "bridge_environment \<Rightarrow> bridge_app \<Rightarrow> string" where
  "bridge_bin_path env st =
     (case ba_bridge_bin_override st of
        Some b \<Rightarrow> b
      | None \<Rightarrow> (case bac_bridge_bin (ba_config st) of Some b \<Rightarrow> b | None \<Rightarrow> be_default_bin env))"

text \<open>The children are started with \<open>kill_on_drop\<close>: a child that the table gives up is killed, if it
  still runs.\<close>

definition drop_child :: "running_route option \<Rightarrow> bridge_app \<Rightarrow> bridge_app" where
  "drop_child child st =
     (case child of
        None \<Rightarrow> st
      | Some c \<Rightarrow> st\<lparr>ba_processes := filter (\<lambda>p. fst p \<noteq> rr_pid c) (ba_processes st)\<rparr>)"

definition insert_child :: "string \<Rightarrow> running_route \<Rightarrow> bridge_app \<Rightarrow> bridge_app" where
  "insert_child i c st = drop_child (hm_get (ba_children st) i) st\<lparr>ba_children := hm_insert i c (ba_children st)\<rparr>"

definition remove_child :: "string \<Rightarrow> bridge_app \<Rightarrow> bridge_app" where
  "remove_child i st = drop_child (hm_get (ba_children st) i) st\<lparr>ba_children := hm_remove i (ba_children st)\<rparr>"

definition spawn_route ::
  "bridge_environment \<Rightarrow> bridge_route_config \<Rightarrow> bridge_app \<Rightarrow> (bridge_app_error + unit) \<times> bridge_app" where
  "spawn_route env r st =
     (let program = bridge_bin_path env st;
          args = bridge_args (be_resolver env) (be_show_f32 env) (ba_config st) r
      in case be_spawn env program args of
           Inl e \<Rightarrow> (Inl (internal (''start route `'' @ bro_id r @ ''` using '' @ program @ '': '' @ e)), st)
         | Inr pid \<Rightarrow>
             (Inr (), insert_child (bro_id r)
                \<lparr>rr_pid = pid, rr_program = program, rr_args = args, rr_started_at_ms = be_now_ms env\<rparr>
                (st\<lparr>ba_processes := ba_processes st @ [(pid, bro_id r)]\<rparr>)))"

definition start_route ::
  "bridge_environment \<Rightarrow> string \<Rightarrow> bridge_app \<Rightarrow> (bridge_app_error + unit) \<times> bridge_app" where
  "start_route env i st =
     (case find (\<lambda>r. bro_id r = i) (bac_routes (ba_config st)) of
        None \<Rightarrow> (Inl (bad_request (''unknown bridge route `'' @ i @ ''`'')), st)
      | Some r \<Rightarrow>
          (case validate_route r of
             Inl e \<Rightarrow> (Inl (bad_request e), st)
           | Inr _ \<Rightarrow>
               (case hm_get (ba_children st) i of
                  None \<Rightarrow> spawn_route env r st
                | Some running \<Rightarrow>
                    (case be_wait env running of
                       StillRunning \<Rightarrow> (Inr (), st)
                     | _ \<Rightarrow> spawn_route env r (remove_child i st)))))"

definition stop_route ::
  "bridge_environment \<Rightarrow> string \<Rightarrow> bridge_app \<Rightarrow> (bridge_app_error + unit) \<times> bridge_app" where
  "stop_route env i st =
     (case hm_get (ba_children st) i of
        None \<Rightarrow> (Inr (), st)
      | Some running \<Rightarrow>
          (case be_wait env running of
             WaitFails e \<Rightarrow> Inl (internal e)
           | Exited _ \<Rightarrow> Inr ()
           | StillRunning \<Rightarrow> (case be_kill env running of Inl e \<Rightarrow> Inl (internal e) | Inr _ \<Rightarrow> Inr ()),
           remove_child i st))"

text \<open>The first error ends a request for all routes.\<close>

fun for_each ::
  "(string \<Rightarrow> bridge_app \<Rightarrow> (bridge_app_error + unit) \<times> bridge_app) \<Rightarrow> string list \<Rightarrow> bridge_app \<Rightarrow>
     (bridge_app_error + unit) \<times> bridge_app" where
  "for_each f [] st = (Inr (), st)"
| "for_each f (i # is) st =
     (case f i st of (Inl e, st) \<Rightarrow> (Inl e, st) | (Inr _, st) \<Rightarrow> for_each f is st)"

definition start_all :: "bridge_environment \<Rightarrow> bridge_app \<Rightarrow> (bridge_app_error + unit) \<times> bridge_app" where
  "start_all env st =
     for_each (start_route env) (map bro_id (filter bro_enabled (bac_routes (ba_config st)))) st"

definition stop_all :: "bridge_environment \<Rightarrow> bridge_app \<Rightarrow> (bridge_app_error + unit) \<times> bridge_app" where
  "stop_all env st = for_each (stop_route env) (hm_keys (ba_children st)) st"

definition put_config ::
  "bridge_environment \<Rightarrow> bridge_app_config \<Rightarrow> bridge_app \<Rightarrow> bridge_files \<Rightarrow>
     (bridge_app_error + unit) \<times> bridge_app \<times> bridge_files" where
  "put_config env config st files =
     (let c = normalize_config (be_resolver env) config
      in case validate_config (be_resolver env) c of
           Inl e \<Rightarrow> (Inl (bad_request e), st, files)
         | Inr _ \<Rightarrow>
             (case save_config (be_resolver env) (be_pid env) (be_save_fails env) (be_torn env)
                     (ba_config_file st) c files of
                (Inl e, files) \<Rightarrow> (Inl (internal e), st, files)
              | (Inr _, files) \<Rightarrow> (Inr (), st\<lparr>ba_config := c\<rparr>, files)))"

section \<open>What the page shows\<close>

record route_runtime_status =
  rs_id :: string
  rs_running :: bool
  rs_pid :: "nat option"
  rs_started_at_ms :: "nat option"
  rs_exit :: "string option"

definition route_status :: "bridge_environment \<Rightarrow> bridge_app \<Rightarrow> string \<Rightarrow> route_runtime_status" where
  "route_status env st i =
     (let idle = \<lparr>rs_id = i, rs_running = False, rs_pid = None, rs_started_at_ms = None, rs_exit = None\<rparr>
      in case hm_get (ba_children st) i of
           None \<Rightarrow> idle
         | Some c \<Rightarrow>
             (case be_wait env c of
                Exited e \<Rightarrow> idle\<lparr>rs_exit := Some e\<rparr>
              | StillRunning \<Rightarrow> idle\<lparr>rs_running := True, rs_pid := Some (rr_pid c),
                                      rs_started_at_ms := Some (rr_started_at_ms c)\<rparr>
              | WaitFails e \<Rightarrow> idle\<lparr>rs_exit := Some (''status error: '' @ e)\<rparr>))"

text \<open>The routes are looked at in order; a child that no longer runs is forgotten.\<close>

fun route_statuses ::
  "bridge_environment \<Rightarrow> string list \<Rightarrow> bridge_app \<Rightarrow> route_runtime_status list \<times> bridge_app" where
  "route_statuses env [] st = ([], st)"
| "route_statuses env (i # is) st =
     (let s = route_status env st i;
          st = (if rs_running s then st else remove_child i st);
          (ss, st) = route_statuses env is st
      in (s # ss, st))"

record channel_option =
  co_id :: channel_id
  co_name :: string

definition default_channel_options :: "channel_option list" where
  "default_channel_options =
     [\<lparr>co_id = 0, co_name = ''open''\<rparr>, \<lparr>co_id = 1, co_name = ''Program''\<rparr>,
      \<lparr>co_id = 2, co_name = ''Production PL''\<rparr>, \<lparr>co_id = 3, co_name = ''Referee PL''\<rparr>,
      \<lparr>co_id = 4, co_name = ''Director IFB''\<rparr>, \<lparr>co_id = 5, co_name = ''Producer Cue''\<rparr>,
      \<lparr>co_id = 6, co_name = ''PA''\<rparr>, \<lparr>co_id = 7, co_name = ''Utility''\<rparr>]"

definition merge_channel_options ::
  "channel_option list \<Rightarrow> bridge_app_config \<Rightarrow> channel_option list" where
  "merge_channel_options channels c =
     dedup_by (\<lambda>a b. co_id a = co_id b) (sort_by (\<lambda>a b. cmp_of (co_id a) (co_id b))
       (fold (\<lambda>i cs. if list_ex (\<lambda>o1. co_id o1 = i) cs then cs
                     else cs @ [\<lparr>co_id = i, co_name = ''Channel '' @ show_word i\<rparr>])
         (concat (map (\<lambda>r. bro_tx_channels r @ bro_listen_channels r) (bac_routes c))) channels))"

definition fallback_channel_options :: "bridge_app_config \<Rightarrow> channel_option list" where
  "fallback_channel_options c = merge_channel_options default_channel_options c"

record parsed_http_url =
  pu_host :: string
  pu_host_header :: string
  pu_port :: nat
  pu_path :: string

definition port_or :: "string \<Rightarrow> nat \<Rightarrow> nat" where
  "port_or s default_port = (case parse_u16 s of Some p \<Rightarrow> unat p | None \<Rightarrow> default_port)"

definition split_host_port :: "string \<Rightarrow> nat \<Rightarrow> (string \<times> nat) option" where
  "split_host_port authority default_port =
     (if authority = [] then None
      else case strip_prefix ''['' authority of
        Some rest \<Rightarrow>
          map_option (\<lambda>(host, after). (host,
              case strip_prefix '':'' after of None \<Rightarrow> default_port | Some p \<Rightarrow> port_or p default_port))
            (split_once CHR '']'' rest)
      | None \<Rightarrow>
          Some (case rsplit_once CHR '':'' authority of
                  Some (host, port) \<Rightarrow>
                    (case parse_u16 port of Some p \<Rightarrow> (host, unat p) | None \<Rightarrow> (authority, default_port))
                | None \<Rightarrow> (authority, default_port)))"

definition parse_http_url :: "string \<Rightarrow> parsed_http_url option" where
  "parse_http_url url =
     (case strip_prefix ''http://'' url of
        None \<Rightarrow> None
      | Some rest \<Rightarrow>
          let (authority, path) = (case split_once CHR ''/'' rest of
                 Some (a, p) \<Rightarrow> (a, CHR ''/'' # p) | None \<Rightarrow> (rest, ''/''))
          in map_option (\<lambda>(host, port).
               \<lparr>pu_host = host, pu_host_header = authority, pu_port = port, pu_path = path\<rparr>)
             (split_host_port authority 80))"

definition ends_with :: "string \<Rightarrow> string \<Rightarrow> bool" where
  "ends_with p s \<longleftrightarrow> length p \<le> length s \<and> drop (length s - length p) s = p"

definition admin_state_url :: "string \<Rightarrow> string" where
  "admin_state_url admin_base =
     (let base = trim_end_dots CHR ''/'' (trim admin_base)
      in if ends_with ''/admin/api/state'' base then base
         else if ends_with ''/admin'' base then base @ ''/api/state''
         else base @ ''/admin/api/state'')"

definition crlf :: string where
  "crlf = [char_of (13 :: nat), char_of (10 :: nat)]"

definition admin_request :: "parsed_http_url \<Rightarrow> string" where
  "admin_request u =
     ''GET '' @ pu_path u @ '' HTTP/1.1'' @ crlf @ ''Host: '' @ pu_host_header u @ crlf @
     ''Accept: application/json'' @ crlf @ ''Connection: close'' @ crlf @ crlf"

text \<open>The first occurrence of a text: what stands before and after it.\<close>

fun split_at :: "string \<Rightarrow> string \<Rightarrow> (string \<times> string) option" where
  "split_at p [] = (if p = [] then Some ([], []) else None)"
| "split_at p (c # cs) =
     (case strip_prefix p (c # cs) of
        Some rest \<Rightarrow> Some ([], rest)
      | None \<Rightarrow> map_option (\<lambda>(a, b). (c # a, b)) (split_at p cs))"

definition first_line :: "string \<Rightarrow> string" where
  "first_line s =
     (let l = takeWhile (\<lambda>c. c \<noteq> char_of (10 :: nat)) s
      in if l \<noteq> [] \<and> length l < length s \<and> last l = char_of (13 :: nat) then butlast l else l)"

text \<open>\<open>json\<close> reads a body: no JSON, no channel array, or each channel's id, if it is an unsigned
  integer, and name, if it is a text.\<close>

type_synonym channel_json = "string \<Rightarrow> string + (nat option \<times> string option) list option"

definition channel_of_json :: "nat option \<times> string option \<Rightarrow> channel_option list" where
  "channel_of_json j =
     (case fst j of
        Some n \<Rightarrow>
          if n < 65536
          then [\<lparr>co_id = of_nat n, co_name = trim (case snd j of Some s \<Rightarrow> s | None \<Rightarrow> [])\<rparr>] else []
      | None \<Rightarrow> [])"

definition read_admin_channels :: "channel_json \<Rightarrow> string \<Rightarrow> string + channel_option list" where
  "read_admin_channels json response =
     (case split_at (crlf @ crlf) response of
        None \<Rightarrow> Inl ''admin state response has no header/body split''
      | Some (headers, body) \<Rightarrow>
          if \<not> starts_with ''HTTP/1.1 200'' headers \<and> \<not> starts_with ''HTTP/1.0 200'' headers
          then Inl (''admin state returned '' @ (if headers = [] then ''unknown status'' else first_line headers))
          else (case json body of
                  Inl e \<Rightarrow> Inl ''parse admin state JSON''
                | Inr None \<Rightarrow> Inl ''admin state JSON has no channels array''
                | Inr (Some channels) \<Rightarrow>
                    let options = concat (map channel_of_json channels)
                    in if options = [] then Inl ''admin state returned no channel options'' else Inr options))"

definition fetch_admin_channels ::
  "(parsed_http_url \<Rightarrow> string \<Rightarrow> string + string) \<Rightarrow> channel_json \<Rightarrow> string \<Rightarrow> string + channel_option list" where
  "fetch_admin_channels exchange json url =
     (case parse_http_url url of
        None \<Rightarrow> Inl (''parse admin URL `'' @ url @ ''`'')
      | Some u \<Rightarrow>
          (case exchange u (admin_request u) of
             Inl e \<Rightarrow> Inl e
           | Inr response \<Rightarrow> read_admin_channels json response))"

text \<open>The whole exchange has 750 ms.\<close>

definition channel_options_for_config ::
  "resolver \<Rightarrow> bool \<Rightarrow> (parsed_http_url \<Rightarrow> string \<Rightarrow> string + string) \<Rightarrow> channel_json \<Rightarrow>
     bridge_app_config \<Rightarrow> string + channel_option list" where
  "channel_options_for_config resolve timed_out exchange json c =
     (let admin = (case effective_admin (config_overrides resolve c) of
            Inr a \<Rightarrow> Some a
          | Inl _ \<Rightarrow> (case bac_admin c of
                         Some a \<Rightarrow> Some a | None \<Rightarrow> derive_admin_url_from_control (bac_control c)))
      in case admin of
           None \<Rightarrow> Inl ''no admin URL configured or derivable from control URL''
         | Some base \<Rightarrow>
             if timed_out then Inl ''admin channel request timed out''
             else (case fetch_admin_channels exchange json (admin_state_url base) of
                     Inl e \<Rightarrow> Inl e
                   | Inr channels \<Rightarrow> Inr (merge_channel_options channels c)))"

definition audio_device_names :: "string + string option list \<Rightarrow> string + string list" where
  "audio_device_names devices =
     (case devices of
        Inl e \<Rightarrow> Inl e
      | Inr names \<Rightarrow> Inr (dedup_by (=) (sort_by cmp_of
          (filter (\<lambda>n. trim n \<noteq> []) (concat (map (\<lambda>n. case n of Some s \<Rightarrow> [s] | None \<Rightarrow> []) names))))))"

record bridge_app_state_response =
  bs_config :: bridge_app_config
  bs_bridge_bin :: string
  bs_routes :: "route_runtime_status list"
  bs_input_devices :: "string list"
  bs_output_devices :: "string list"
  bs_channels :: "channel_option list"
  bs_discovery_warnings :: "string list"

text \<open>What a discovery found, or the replacement and a warning.\<close>

definition discovered :: "string \<Rightarrow> 'a \<Rightarrow> string + 'a \<Rightarrow> 'a \<times> string list" where
  "discovered what otherwise r =
     (case r of Inr x \<Rightarrow> (x, []) | Inl e \<Rightarrow> (otherwise, [what @ '' discovery failed: '' @ e]))"

definition bridge_state_snapshot ::
  "bridge_environment \<Rightarrow> string + string option list \<Rightarrow> string + string option list \<Rightarrow>
     string + channel_option list \<Rightarrow> bridge_app \<Rightarrow> bridge_app_state_response \<times> bridge_app" where
  "bridge_state_snapshot env inputs outputs channels st =
     (let c = ba_config st;
          (input_devices, w1) = discovered ''input device'' [] (audio_device_names inputs);
          (output_devices, w2) = discovered ''output device'' [] (audio_device_names outputs);
          (options, w3) = discovered ''server channel'' (fallback_channel_options c) channels;
          (statuses, st') = route_statuses env (map bro_id (bac_routes c)) st
      in (\<lparr>bs_config = c, bs_bridge_bin = bridge_bin_path env st, bs_routes = statuses,
           bs_input_devices = input_devices, bs_output_devices = output_devices, bs_channels = options,
           bs_discovery_warnings = w1 @ w2 @ w3\<rparr>, st'))"

section \<open>Properties\<close>

subsection \<open>Configurations\<close>

lemma validate_routes_ok:
  "validate_routes ids users rs = Inr () \<longleftrightarrow>
     list_all (\<lambda>r. validate_route r = Inr ()) rs \<and>
     distinct (map bro_id rs) \<and> distinct (map bro_user_id rs) \<and>
     set (map bro_id rs) \<inter> set ids = {} \<and> set (map bro_user_id rs) \<inter> set users = {}"
proof (induction rs arbitrary: ids users)
  case (Cons r rs)
  show ?case unfolding validate_routes.simps and_then_ok ensure_ok Cons.IH by auto
qed simp

text \<open>A route that passes the check never listens to a channel it transmits on, transmits if it
  captures and listens if it plays.\<close>

lemma validate_route_ok:
  "validate_route r = Inr () \<longleftrightarrow>
     trim (bro_id r) \<noteq> [] \<and> bro_user_id r \<noteq> 0 \<and>
     validate_gain ''input_gain'' (bro_input_gain r) = Inr () \<and>
     validate_gain ''output_gain'' (bro_output_gain r) = Inr () \<and>
     (captures (bro_mode r) \<longrightarrow> bro_tx_channels r \<noteq> []) \<and>
     (plays (bro_mode r) \<longrightarrow> bro_listen_channels r \<noteq> []) \<and>
     set (bro_tx_channels r) \<inter> set (bro_listen_channels r) = {} \<and> bro_codec r \<noteq> Adpcm"
  unfolding validate_route_def and_then_ok ensure_ok by (auto simp: list_ex_iff)

definition routes_ok :: "bridge_route_config list \<Rightarrow> bool" where
  "routes_ok rs \<longleftrightarrow>
     list_all (\<lambda>r. validate_route r = Inr ()) rs \<and> distinct (map bro_id rs) \<and> distinct (map bro_user_id rs)"

lemma validate_config_routes: "validate_config resolve c = Inr () \<Longrightarrow> routes_ok (bac_routes c)"
  by (simp add: validate_config_def and_then_ok validate_routes_ok routes_ok_def)

subsection \<open>Children\<close>

lemma drop_child_simps [simp]:
  "ba_config (drop_child c st) = ba_config st" "ba_children (drop_child c st) = ba_children st"
  by (simp_all add: drop_child_def split: option.split)

lemma child_simps [simp]:
  "ba_config (insert_child i c st) = ba_config st" "ba_config (remove_child i st) = ba_config st"
  "ba_children (insert_child i c st) = hm_insert i c (ba_children st)"
  "ba_children (remove_child i st) = hm_remove i (ba_children st)"
  by (simp_all add: insert_child_def remove_child_def)

text \<open>A child was started for a checked route of its key.\<close>

definition started_for :: "string \<Rightarrow> running_route \<Rightarrow> bool" where
  "started_for i c \<longleftrightarrow>
     (\<exists>resolve show_f32 cfg r. bro_id r = i \<and> validate_route r = Inr () \<and>
        rr_args c = bridge_args resolve show_f32 cfg r)"

definition children_ok :: "(string, running_route) hash_map \<Rightarrow> bool" where
  "children_ok cs \<longleftrightarrow> hm_wf cs \<and> (\<forall>i c. hm_get cs i = Some c \<longrightarrow> started_for i c)"

lemma children_ok_empty [simp]: "children_ok []"
  by (simp add: children_ok_def hm_wf_def)

lemma children_ok_insert: "children_ok cs \<Longrightarrow> started_for i c \<Longrightarrow> children_ok (hm_insert i c cs)"
  by (auto simp: children_ok_def hm_wf_def distinct_update)

lemma hm_get_remove: "map_of (AList.delete k m) j = (if j = k then None else map_of m j)"
  by (simp add: delete_conv')

lemma children_ok_remove: "children_ok cs \<Longrightarrow> children_ok (hm_remove i cs)"
  by (auto simp: children_ok_def hm_wf_def distinct_delete hm_get_remove split: if_splits)

lemma spawn_route_ok:
  assumes "children_ok (ba_children st)" "validate_route r = Inr ()"
  shows "children_ok (ba_children (snd (spawn_route env r st)))"
proof -
  have "started_for (bro_id r)
      \<lparr>rr_pid = pid, rr_program = p, rr_args = bridge_args (be_resolver env) (be_show_f32 env) (ba_config st) r,
       rr_started_at_ms = ms\<rparr>" for pid p ms
    unfolding started_for_def using assms(2) by auto
  with assms(1) show ?thesis
    by (auto simp: spawn_route_def Let_def split: sum.splits intro!: children_ok_insert)
qed

lemma spawn_route_config: "ba_config (snd (spawn_route env r st)) = ba_config st"
  by (simp add: spawn_route_def Let_def split: sum.splits)

lemma start_route_config [simp]: "ba_config (snd (start_route env i st)) = ba_config st"
  by (auto simp: start_route_def spawn_route_config
      split: option.splits sum.splits wait_outcome.splits)

lemma start_route_ok:
  assumes "children_ok (ba_children st)"
  shows "children_ok (ba_children (snd (start_route env i st)))"
  using assms
  by (auto simp: start_route_def children_ok_remove
      split: option.splits sum.splits wait_outcome.splits intro!: spawn_route_ok)

lemma stop_route_config [simp]: "ba_config (snd (stop_route env i st)) = ba_config st"
  by (simp add: stop_route_def split: option.splits)

lemma stop_route_ok:
  "children_ok (ba_children st) \<Longrightarrow> children_ok (ba_children (snd (stop_route env i st)))"
  by (simp add: stop_route_def children_ok_remove split: option.splits)

lemma for_each_invariant:
  assumes "\<And>i st. P st \<Longrightarrow> P (snd (f i st))" "P st"
  shows "P (snd (for_each f is st))"
  using assms(2)
proof (induction "is" arbitrary: st)
  case (Cons i "is")
  then have "P (snd (f i st))" by (simp add: assms(1))
  with Cons.IH show ?case by (auto split: prod.splits sum.splits)
qed simp

lemma route_statuses_config [simp]: "ba_config (snd (route_statuses env is st)) = ba_config st"
  by (induction "is" arbitrary: st) (simp_all add: Let_def case_prod_unfold)

lemma route_statuses_ok:
  "children_ok (ba_children st) \<Longrightarrow> children_ok (ba_children (snd (route_statuses env is st)))"
  by (induction "is" arbitrary: st) (simp_all add: Let_def case_prod_unfold children_ok_remove)

definition bridge_app_ok :: "bridge_app \<Rightarrow> bool" where
  "bridge_app_ok st \<longleftrightarrow> routes_ok (bac_routes (ba_config st)) \<and> children_ok (ba_children st)"

text \<open>What the operating system answers fits the processes it runs: a wait that sees a child running
  or exited is right, and a process id is new, neither that of a process that runs nor that of a child
  nobody has waited for.\<close>

definition env_fits :: "bridge_environment \<Rightarrow> bridge_app \<Rightarrow> bool" where
  "env_fits env st \<longleftrightarrow>
     (\<forall>i c. hm_get (ba_children st) i = Some c \<longrightarrow>
        (case be_wait env c of
           StillRunning \<Rightarrow> (rr_pid c, i) \<in> set (ba_processes st)
         | Exited _ \<Rightarrow> (rr_pid c, i) \<notin> set (ba_processes st)
         | WaitFails _ \<Rightarrow> True)) \<and>
     (\<forall>program args pid. be_spawn env program args = Inr pid \<longrightarrow>
        pid \<notin> fst ` set (ba_processes st) \<and> (\<forall>i c. hm_get (ba_children st) i = Some c \<longrightarrow> rr_pid c \<noteq> pid))"

fun fits_each ::
  "bridge_environment \<Rightarrow> (string \<Rightarrow> bridge_app \<Rightarrow> (bridge_app_error + unit) \<times> bridge_app) \<Rightarrow> string list \<Rightarrow>
     bridge_app \<Rightarrow> bool" where
  "fits_each env f [] st = True"
| "fits_each env f (i # is) st = (env_fits env st \<and> fits_each env f is (snd (f i st)))"

text \<open>The requests of the page, in any order, and the end of a process.\<close>

inductive bridge_step :: "bridge_app \<Rightarrow> bridge_app \<Rightarrow> bool" where
  start: "env_fits env st \<Longrightarrow> bridge_step st (snd (start_route env i st))"
| start_all: "fits_each env (start_route env) (map bro_id (filter bro_enabled (bac_routes (ba_config st)))) st \<Longrightarrow>
    bridge_step st (snd (start_all env st))"
| stop: "bridge_step st (snd (stop_route env i st))"
| stop_all: "bridge_step st (snd (stop_all env st))"
| configure: "bridge_step st (fst (snd (put_config env config st files)))"
| show_state: "bridge_step st (snd (bridge_state_snapshot env inputs outputs channels st))"
| exits: "bridge_step st (st\<lparr>ba_processes := filter (\<lambda>p. fst p \<noteq> pid) (ba_processes st)\<rparr>)"

text \<open>Every process that runs is a child of the table, and the only one of its route.\<close>

definition processes_ok :: "bridge_app \<Rightarrow> bool" where
  "processes_ok st \<longleftrightarrow>
     distinct (map snd (ba_processes st)) \<and>
     (\<forall>p i. (p, i) \<in> set (ba_processes st) \<longrightarrow> map_option rr_pid (hm_get (ba_children st) i) = Some p) \<and>
     (\<forall>i j c d. hm_get (ba_children st) i = Some c \<longrightarrow> hm_get (ba_children st) j = Some d \<longrightarrow>
        rr_pid c = rr_pid d \<longrightarrow> i = j)"

lemma processes_subset:
  assumes "processes_ok st" "ba_children st' = ba_children st"
    "ba_processes st' = filter P (ba_processes st)"
  shows "processes_ok st'"
  using assms by (auto simp: processes_ok_def distinct_map_filter)

text \<open>Dropping a child ends exactly its own process.\<close>

lemma remove_child_processes:
  assumes "processes_ok st"
  shows "ba_processes (remove_child i st) = filter (\<lambda>p. snd p \<noteq> i) (ba_processes st)"
proof (cases "hm_get (ba_children st) i")
  case None
  with assms have "\<forall>p \<in> set (ba_processes st). snd p \<noteq> i" by (fastforce simp: processes_ok_def)
  with None show ?thesis by (simp add: remove_child_def drop_child_def)
next
  case (Some c)
  have "(fst p \<noteq> rr_pid c) = (snd p \<noteq> i)" if "p \<in> set (ba_processes st)" for p
  proof -
    obtain q j where p: "p = (q, j)" by fastforce
    with that assms obtain d where d: "hm_get (ba_children st) j = Some d" "rr_pid d = q"
      by (auto simp: processes_ok_def)
    have "rr_pid d = rr_pid c \<Longrightarrow> j = i"
      using assms d(1) Some unfolding processes_ok_def by blast
    with d Some show ?thesis by (auto simp: p)
  qed
  with Some show ?thesis by (simp add: remove_child_def drop_child_def cong: filter_cong)
qed

lemma processes_ok_remove:
  assumes "processes_ok st" shows "processes_ok (remove_child i st)"
  using assms remove_child_processes [OF assms, of i]
  by (auto simp: processes_ok_def hm_get_remove distinct_map_filter split: if_splits)

lemma spawn_route_processes:
  assumes "processes_ok st" "hm_get (ba_children st) (bro_id r) = None"
    "\<And>program args pid. be_spawn env program args = Inr pid \<Longrightarrow>
       \<forall>i c. hm_get (ba_children st) i = Some c \<longrightarrow> rr_pid c \<noteq> pid"
  shows "processes_ok (snd (spawn_route env r st))"
    and "filter (\<lambda>p. snd p \<noteq> bro_id r) (ba_processes (snd (spawn_route env r st))) =
      filter (\<lambda>p. snd p \<noteq> bro_id r) (ba_processes st)"
proof -
  have new: "bro_id r \<notin> snd ` set (ba_processes st)"
    using assms(1,2) by (force simp: processes_ok_def)
  have "processes_ok (snd (spawn_route env r st)) \<and>
      filter (\<lambda>p. snd p \<noteq> bro_id r) (ba_processes (snd (spawn_route env r st))) =
      filter (\<lambda>p. snd p \<noteq> bro_id r) (ba_processes st)"
  proof (cases "be_spawn env (bridge_bin_path env st) (bridge_args (be_resolver env) (be_show_f32 env) (ba_config st) r)")
    case (Inl e)
    with assms(1) show ?thesis by (simp add: spawn_route_def)
  next
    case (Inr pid)
    have fresh: "\<forall>i c. hm_get (ba_children st) i = Some c \<longrightarrow> rr_pid c \<noteq> pid" by (rule assms(3) [OF Inr])
    let ?st = "snd (spawn_route env r st)"
    have p: "ba_processes ?st = ba_processes st @ [(pid, bro_id r)]"
      using assms(2) by (simp add: spawn_route_def Inr Let_def insert_child_def drop_child_def)
    have c: "map_option rr_pid (hm_get (ba_children ?st) i) =
        (if i = bro_id r then Some pid else map_option rr_pid (hm_get (ba_children st) i))" for i
      by (simp add: spawn_route_def Inr Let_def)
    have own: "hm_get (ba_children ?st) i = Some c \<Longrightarrow>
        (if i = bro_id r then rr_pid c = pid else hm_get (ba_children st) i = Some c)" for i c
      by (auto simp: spawn_route_def Inr Let_def split: if_splits)
    have "i = j" if "hm_get (ba_children ?st) i = Some a" "hm_get (ba_children ?st) j = Some b" "rr_pid a = rr_pid b"
      for i j a b
      using own [OF that(1)] own [OF that(2)] that(3) fresh assms(1)
      unfolding processes_ok_def by (metis (full_types))
    then have "processes_ok ?st"
      using assms(1) new unfolding processes_ok_def c p by (auto simp: image_iff)
    then show ?thesis by (simp add: p)
  qed
  then show "processes_ok (snd (spawn_route env r st))"
    and "filter (\<lambda>p. snd p \<noteq> bro_id r) (ba_processes (snd (spawn_route env r st))) =
      filter (\<lambda>p. snd p \<noteq> bro_id r) (ba_processes st)" by simp_all
qed

lemma env_fits_fresh:
  "env_fits env st \<Longrightarrow> be_spawn env program args = Inr pid \<Longrightarrow>
     \<forall>i c. hm_get (ba_children st) i = Some c \<longrightarrow> rr_pid c \<noteq> pid"
  unfolding env_fits_def by blast

text \<open>A start leaves the processes of other routes alone, and its own route's if that runs.\<close>

lemma start_route_processes:
  assumes "processes_ok st" "env_fits env st"
  shows "processes_ok (snd (start_route env i st))"
    and "filter (\<lambda>p. snd p \<noteq> i) (ba_processes (snd (start_route env i st))) =
      filter (\<lambda>p. snd p \<noteq> i) (ba_processes st)"
    and "case hm_get (ba_children st) i of None \<Rightarrow> True
      | Some c \<Rightarrow> if be_wait env c = StillRunning
          then ba_processes (snd (start_route env i st)) = ba_processes st else True"
proof -
  have id: "bro_id r = i" if "find (\<lambda>r. bro_id r = i) rs = Some r" for r rs
    using that by (auto simp: find_Some_iff)
  have again: "processes_ok (snd (spawn_route env r (remove_child i st))) \<and>
      filter (\<lambda>p. snd p \<noteq> i) (ba_processes (snd (spawn_route env r (remove_child i st)))) =
      filter (\<lambda>p. snd p \<noteq> i) (ba_processes st)" if "bro_id r = i" for r
  proof -
    have "\<forall>j c. hm_get (ba_children (remove_child i st)) j = Some c \<longrightarrow> rr_pid c \<noteq> pid"
      if "be_spawn env program args = Inr pid" for program args pid
      using env_fits_fresh [OF assms(2) that] by (simp add: hm_get_remove)
    note spawned = spawn_route_processes [OF processes_ok_remove [OF assms(1), of i] _ this, of r]
    show ?thesis
      using spawned that by (simp add: hm_get_remove remove_child_processes [OF assms(1)])
  qed
  have first: "processes_ok (snd (spawn_route env r st)) \<and>
      filter (\<lambda>p. snd p \<noteq> i) (ba_processes (snd (spawn_route env r st))) =
      filter (\<lambda>p. snd p \<noteq> i) (ba_processes st)" if "bro_id r = i" "hm_get (ba_children st) i = None" for r
    using spawn_route_processes [OF assms(1) _ env_fits_fresh [OF assms(2)], of r] that by simp
  show "processes_ok (snd (start_route env i st))"
    "filter (\<lambda>p. snd p \<noteq> i) (ba_processes (snd (start_route env i st))) =
      filter (\<lambda>p. snd p \<noteq> i) (ba_processes st)"
    using assms(1) again first id
    by (auto simp: start_route_def split: option.splits sum.splits wait_outcome.splits)
  show "case hm_get (ba_children st) i of None \<Rightarrow> True
      | Some c \<Rightarrow> if be_wait env c = StillRunning
          then ba_processes (snd (start_route env i st)) = ba_processes st else True"
    by (simp add: start_route_def split: option.split sum.split)
qed

lemma stop_route_processes: "processes_ok st \<Longrightarrow> processes_ok (snd (stop_route env i st))"
  by (simp add: stop_route_def processes_ok_remove split: option.split)

lemma route_statuses_processes: "processes_ok st \<Longrightarrow> processes_ok (snd (route_statuses env is st))"
  by (induction "is" arbitrary: st) (simp_all add: Let_def case_prod_unfold processes_ok_remove)

lemma for_each_start_processes:
  "processes_ok st \<Longrightarrow> fits_each env (start_route env) is st \<Longrightarrow>
     processes_ok (snd (for_each (start_route env) is st))"
proof (induction "is" arbitrary: st)
  case (Cons i "is")
  obtain r st1 where s: "start_route env i st = (r, st1)" by fastforce
  have "processes_ok st1" using start_route_processes(1) [of st env i] Cons.prems by (simp add: s)
  with Cons.IH [of st1] Cons.prems(2) show ?case by (simp add: s split: sum.split)
qed simp

lemma start_route_app_ok: "bridge_app_ok st \<Longrightarrow> bridge_app_ok (snd (start_route env i st))"
  by (simp add: bridge_app_ok_def start_route_ok)

lemma stop_route_app_ok: "bridge_app_ok st \<Longrightarrow> bridge_app_ok (snd (stop_route env i st))"
  by (simp add: bridge_app_ok_def stop_route_ok)

lemma put_config_app_ok:
  assumes "bridge_app_ok st"
  shows "bridge_app_ok (fst (snd (put_config env config st files)))"
  using assms validate_config_routes
  by (auto simp: put_config_def Let_def bridge_app_ok_def split: sum.splits prod.splits)

lemma snapshot_app_ok:
  assumes "bridge_app_ok st"
  shows "bridge_app_ok (snd (bridge_state_snapshot env inputs outputs channels st))"
proof -
  have "snd (bridge_state_snapshot env inputs outputs channels st)
      = snd (route_statuses env (map bro_id (bac_routes (ba_config st))) st)"
    by (simp add: bridge_state_snapshot_def Let_def split: prod.splits)
  with assms show ?thesis by (simp add: bridge_app_ok_def route_statuses_ok)
qed

lemma bridge_step_ok:
  "bridge_step st st' \<Longrightarrow> bridge_app_ok st \<and> processes_ok st \<Longrightarrow> bridge_app_ok st' \<and> processes_ok st'"
proof (induction rule: bridge_step.induct)
  case (start env st i)
  then show ?case by (simp add: start_route_app_ok start_route_processes)
next
  case (start_all env st)
  then show ?case
    by (simp add: start_all_def for_each_start_processes
        for_each_invariant [where P = bridge_app_ok] start_route_app_ok)
next
  case (stop st env i)
  then show ?case by (simp add: stop_route_app_ok stop_route_processes)
next
  case (stop_all st env)
  then show ?case
    by (simp add: stop_all_def for_each_invariant [where P = bridge_app_ok] stop_route_app_ok
        for_each_invariant [where P = processes_ok] stop_route_processes)
next
  case (configure st env config files)
  moreover have "ba_children (fst (snd (put_config env config st files))) = ba_children st"
    "ba_processes (fst (snd (put_config env config st files))) = ba_processes st"
    by (auto simp: put_config_def Let_def split: sum.splits prod.splits)
  ultimately show ?case
    using processes_subset [of st "fst (snd (put_config env config st files))" "\<lambda>_. True"]
    by (simp add: put_config_app_ok)
next
  case (show_state st env inputs outputs channels)
  have "snd (bridge_state_snapshot env inputs outputs channels st)
      = snd (route_statuses env (map bro_id (bac_routes (ba_config st))) st)"
    by (simp add: bridge_state_snapshot_def Let_def split: prod.splits)
  with show_state snapshot_app_ok [of st env inputs outputs channels] show ?case
    by (simp add: route_statuses_processes)
next
  case (exits st pid)
  then show ?case using processes_subset by (auto simp: bridge_app_ok_def)
qed

text \<open>C38. In every order of requests to the launcher and of ends of its processes, routes keep passing
  their check and their ids and their users stay distinct. At most one bridge process runs per route, and each
  process that runs is the launcher's child of that route, started with the arguments of a checked route of
  that id: none is lost from the table. Whatever the operating system answers next, a start leaves
  the processes of all other routes alone, and while its own route's process is seen running it spawns and
  kills nothing.\<close>

theorem bridge_launcher_runs_ok:
  assumes "bridge_step\<^sup>*\<^sup>* st0 st" "validate_routes [] [] (bac_routes (ba_config st0)) = Inr ()"
    "ba_children st0 = []" "ba_processes st0 = []"
  shows "list_all (\<lambda>r. validate_route r = Inr ()) (bac_routes (ba_config st))
    \<and> distinct (map bro_id (bac_routes (ba_config st)))
    \<and> distinct (map bro_user_id (bac_routes (ba_config st)))
    \<and> distinct (map snd (ba_processes st))
    \<and> (\<forall>p i. (p, i) \<in> set (ba_processes st) \<longrightarrow>
         (\<exists>c. hm_get (ba_children st) i = Some c \<and> rr_pid c = p \<and> started_for i c))
    \<and> (\<forall>env i. env_fits env st \<longrightarrow>
         (let after = ba_processes (snd (start_route env i st))
          in filter (\<lambda>p. snd p \<noteq> i) after = filter (\<lambda>p. snd p \<noteq> i) (ba_processes st) \<and>
             (case hm_get (ba_children st) i of
                None \<Rightarrow> True
              | Some c \<Rightarrow> if be_wait env c = StillRunning then after = ba_processes st else True)))"
proof -
  have ok: "bridge_app_ok st \<and> processes_ok st"
    using assms(1)
  proof (induction rule: rtranclp_induct)
    case base
    show ?case using assms(2-4) by (simp add: bridge_app_ok_def routes_ok_def validate_routes_ok processes_ok_def)
  qed (rule bridge_step_ok)
  have "\<exists>c. hm_get (ba_children st) i = Some c \<and> rr_pid c = p \<and> started_for i c"
    if "(p, i) \<in> set (ba_processes st)" for p i
    using ok that unfolding processes_ok_def bridge_app_ok_def children_ok_def map_option_eq_Some by blast
  moreover have "routes_ok (bac_routes (ba_config st))" "distinct (map snd (ba_processes st))"
    using ok by (simp_all add: bridge_app_ok_def processes_ok_def)
  ultimately show ?thesis
    using start_route_processes(2,3) ok unfolding Let_def routes_ok_def by blast
qed

text \<open>A new configuration does not touch the processes of the old one.\<close>

lemma configuration_keeps_children:
  "ba_children (fst (snd (put_config env config st files))) = ba_children st"
  by (auto simp: put_config_def Let_def split: sum.splits prod.splits)

subsection \<open>Starting and stopping all routes\<close>

definition keeps_running :: "bridge_environment \<Rightarrow> bridge_app \<Rightarrow> bridge_app \<Rightarrow> bool" where
  "keeps_running env st st' \<longleftrightarrow>
     (\<forall>i. case hm_get (ba_children st) i of
            None \<Rightarrow> True
          | Some c \<Rightarrow> if be_wait env c = StillRunning then hm_get (ba_children st') i = Some c else True)"

lemma keeps_running_refl [simp]: "keeps_running env st st"
  by (simp add: keeps_running_def split: option.splits)

lemma keeps_running_trans:
  assumes "keeps_running env a b" "keeps_running env b c"
  shows "keeps_running env a c"
  unfolding keeps_running_def
proof (intro allI)
  fix i
  show "case hm_get (ba_children a) i of None \<Rightarrow> True
      | Some x \<Rightarrow> if be_wait env x = StillRunning then hm_get (ba_children c) i = Some x else True"
    using assms [unfolded keeps_running_def, THEN spec, of i] by (auto split: option.splits if_splits)
qed

lemma find_id: "find (\<lambda>r. bro_id r = i) rs = Some r \<Longrightarrow> bro_id r = i"
  by (auto simp: find_Some_iff)

lemma spawn_route_others:
  "j \<noteq> bro_id r \<Longrightarrow> hm_get (ba_children (snd (spawn_route env r st))) j = hm_get (ba_children st) j"
  by (simp add: spawn_route_def Let_def split: sum.splits)

lemma start_route_others:
  "j \<noteq> i \<Longrightarrow> hm_get (ba_children (snd (start_route env i st))) j = hm_get (ba_children st) j"
  by (auto simp: start_route_def spawn_route_others hm_get_remove dest!: find_id
      split: option.splits sum.splits wait_outcome.splits)

lemma start_route_running:
  assumes "hm_get (ba_children st) i = Some c" "be_wait env c = StillRunning"
  shows "ba_children (snd (start_route env i st)) = ba_children st"
  using assms by (simp add: start_route_def split: option.splits sum.splits)

lemma start_route_keeps_running: "keeps_running env st (snd (start_route env i st))"
  unfolding keeps_running_def
proof (intro allI)
  fix j
  show "case hm_get (ba_children st) j of None \<Rightarrow> True
      | Some c \<Rightarrow> if be_wait env c = StillRunning
          then hm_get (ba_children (snd (start_route env i st))) j = Some c else True"
    using start_route_others [of j i env st] start_route_running [of st i _ env]
    by (cases "j = i") (auto split: option.splits)
qed

lemma start_route_result:
  assumes "start_route env i st = (Inr u, st')"
  shows "hm_contains (ba_children st') i"
    "hm_contains (ba_children st) j \<Longrightarrow> hm_contains (ba_children st') j"
proof -
  obtain r where r: "find (\<lambda>r. bro_id r = i) (bac_routes (ba_config st)) = Some r"
    using assms by (auto simp: start_route_def split: option.splits)
  have spawned: "hm_contains (ba_children b) i"
      "j \<noteq> i \<Longrightarrow> hm_contains (ba_children a) j \<Longrightarrow> hm_contains (ba_children b) j"
    if "spawn_route env r a = (Inr u, b)" for a b
    using that find_id [OF r]
    by (auto simp: spawn_route_def Let_def hm_contains_def split: sum.splits simp del: hm_contains_iff)
  have "hm_contains (ba_children st') i \<and>
      (hm_contains (ba_children st) j \<longrightarrow> hm_contains (ba_children st') j)"
  proof (cases "hm_get (ba_children st) i")
    case None
    then have "spawn_route env r st = (Inr u, st')"
      using assms r by (simp add: start_route_def split: sum.splits)
    then show ?thesis using spawned by blast
  next
    case (Some c)
    show ?thesis
    proof (cases "be_wait env c = StillRunning")
      case True
      then show ?thesis
        using assms r Some
        by (auto simp: start_route_def hm_contains_def split: sum.splits simp del: hm_contains_iff)
    next
      case False
      then have spawn: "spawn_route env r (remove_child i st) = (Inr u, st')"
        using assms r Some by (auto simp: start_route_def split: sum.splits wait_outcome.splits)
      then show ?thesis
        using spawned(1) [OF spawn] spawned(2) [OF spawn] by (cases "j = i") (auto simp: hm_contains_def hm_get_remove
            simp del: hm_contains_iff)
    qed
  qed
  then show "hm_contains (ba_children st') i"
    "hm_contains (ba_children st) j \<Longrightarrow> hm_contains (ba_children st') j" by auto
qed

lemma for_each_start:
  assumes "for_each (start_route env) is st = (Inr u, st')"
  shows "(\<forall>j. hm_contains (ba_children st) j \<longrightarrow> hm_contains (ba_children st') j)
    \<and> (\<forall>i \<in> set is. hm_contains (ba_children st') i)"
  using assms
proof (induction "is" arbitrary: st)
  case (Cons i "is")
  obtain u1 st1 where first: "start_route env i st = (Inr u1, st1)"
    using Cons.prems by (auto split: prod.splits sum.splits)
  with Cons have "(\<forall>j. hm_contains (ba_children st1) j \<longrightarrow> hm_contains (ba_children st') j)
      \<and> (\<forall>i \<in> set is. hm_contains (ba_children st') i)" by simp
  with start_route_result [OF first] show ?case by (auto simp del: hm_contains_iff)
qed simp

lemma for_each_keeps_running: "keeps_running env st (snd (for_each (start_route env) is st))"
  by (rule for_each_invariant) (auto intro: keeps_running_trans start_route_keeps_running)

lemma stop_route_children: "ba_children (snd (stop_route env i st)) = hm_remove i (ba_children st)"
  by (auto simp: stop_route_def map_of_eq_None_iff delete_idem split: option.splits)

lemma for_each_stop:
  assumes "for_each (stop_route env) is st = (Inr u, st')"
  shows "hm_get (ba_children st') j = (if j \<in> set is then None else hm_get (ba_children st) j)"
  using assms
proof (induction "is" arbitrary: st)
  case (Cons i "is")
  obtain u1 st1 where first: "stop_route env i st = (Inr u1, st1)"
    using Cons.prems by (auto split: prod.splits sum.splits)
  then have "ba_children st1 = hm_remove i (ba_children st)"
    using stop_route_children [of env i st] by simp
  with Cons first show ?case by (auto simp: hm_get_remove)
qed simp

text \<open>Starting and stopping all routes. Whatever its result, a start of all enabled routes leaves
  the configuration and every running process alone; when it succeeds every enabled route has a
  process. A stop of all that succeeds leaves no process.\<close>

lemma all_routes_start_and_stop:
  "let (started, st1) = start_all env st; (stopped, st2) = stop_all env st
   in ba_config st1 = ba_config st \<and> ba_config st2 = ba_config st
      \<and> keeps_running env st st1
      \<and> (case started of
           Inl _ \<Rightarrow> True
         | Inr _ \<Rightarrow> list_all (\<lambda>i. hm_contains (ba_children st1) i)
             (map bro_id (filter bro_enabled (bac_routes (ba_config st)))))
      \<and> (case stopped of Inl _ \<Rightarrow> True | Inr _ \<Rightarrow> ba_children st2 = [])"
proof -
  let ?ids = "map bro_id (filter bro_enabled (bac_routes (ba_config st)))"
  obtain started st1 where s1: "start_all env st = (started, st1)" by fastforce
  obtain stopped st2 where s2: "stop_all env st = (stopped, st2)" by fastforce
  have cfg1: "ba_config st1 = ba_config st"
    using for_each_invariant [of "\<lambda>s. ba_config s = ba_config st" "start_route env" st ?ids] s1
    by (simp add: start_all_def)
  have cfg2: "ba_config st2 = ba_config st"
    using for_each_invariant
      [of "\<lambda>s. ba_config s = ba_config st" "stop_route env" st "hm_keys (ba_children st)"] s2
    by (simp add: stop_all_def)
  have keeps: "keeps_running env st st1"
    using for_each_keeps_running [of env st ?ids] s1 by (simp add: start_all_def)
  have all_started: "list_all (\<lambda>i. hm_contains (ba_children st1) i) ?ids" if "started = Inr u" for u
    using for_each_start [of env ?ids st u st1] s1 that
    by (simp add: start_all_def list_all_iff del: hm_contains_iff)
  have none_left: "ba_children st2 = []" if "stopped = Inr u" for u
  proof -
    have "map_of (ba_children st2) j = None" for j
      using for_each_stop [of env "hm_keys (ba_children st)" st u st2 j] s2 that
      by (auto simp: stop_all_def map_of_eq_None_iff)
    then have "map_of (ba_children st2) = Map.empty" by blast
    then show ?thesis by (simp only: map_of_eq_empty_iff)
  qed
  show ?thesis
    using cfg1 cfg2 keeps all_started none_left
    by (auto simp: s1 s2 simp del: hm_contains_iff split: sum.splits)
qed

subsection \<open>A first bridge\<close>

definition sample_environment :: bridge_environment where
  "sample_environment =
     \<lparr>be_resolver = (\<lambda>_. Inl ''unknown''), be_show_f32 = (\<lambda>_. ''1''), be_default_bin = ''bridge'',
      be_wait = (\<lambda>_. StillRunning), be_spawn = (\<lambda>_ _. Inr 7), be_kill = (\<lambda>_. Inr ()),
      be_now_ms = 0, be_pid = 1, be_save_fails = None, be_torn = None\<rparr>"

definition sample_bridge_app :: bridge_app where
  "sample_bridge_app =
     \<lparr>ba_config_file = \<lparr>sp_directory = [], sp_file = ''bridge.json''\<rparr>, ba_bridge_bin_override = None,
      ba_config = default_bridge_app_config, ba_children = [], ba_processes = []\<rparr>"

lemma sample_routes_ok: "validate_routes [] [] (bac_routes default_bridge_app_config) = Inr ()"
  unfolding validate_routes_ok
  by (simp add: validate_route_ok default_bridge_app_config_def default_bridge_route_def validate_gain_def
      captures_def plays_def trim_def trim_start_def trim_end_def is_whitespace_def)

lemma sample_start:
  "ba_processes (snd (start_route sample_environment ''program-in'' sample_bridge_app)) = [(7, ''program-in'')]"
  "map_option rr_pid (hm_get (ba_children (snd (start_route sample_environment ''program-in'' sample_bridge_app))) i) =
     (if i = ''program-in'' then Some 7 else None)"
proof -
  have "validate_route (hd (bac_routes default_bridge_app_config)) = Inr ()"
    using sample_routes_ok unfolding validate_routes_ok by (simp add: default_bridge_app_config_def)
  then show "ba_processes (snd (start_route sample_environment ''program-in'' sample_bridge_app)) = [(7, ''program-in'')]"
    "map_option rr_pid (hm_get (ba_children (snd (start_route sample_environment ''program-in'' sample_bridge_app))) i) =
     (if i = ''program-in'' then Some 7 else None)"
    by (simp_all add: start_route_def spawn_route_def sample_bridge_app_def sample_environment_def Let_def
        default_bridge_app_config_def insert_child_def drop_child_def)
qed

theorem bridge_launcher_runs_ok_witness:
  "let st = snd (start_route sample_environment ''program-in'' sample_bridge_app)
   in ba_processes st = [(7, ''program-in'')] \<and> distinct (map bro_id (bac_routes (ba_config st))) \<and>
      ba_processes (snd (start_route (sample_environment\<lparr>be_spawn := \<lambda>_ _. Inr 8\<rparr>) ''program-in'' st)) =
        [(7, ''program-in'')]"
proof -
  let ?st = "snd (start_route sample_environment ''program-in'' sample_bridge_app)"
  let ?env = "sample_environment\<lparr>be_spawn := \<lambda>_ _. Inr 8\<rparr>"
  have "env_fits sample_environment sample_bridge_app"
    by (simp add: env_fits_def sample_bridge_app_def)
  then have run: "bridge_step\<^sup>*\<^sup>* sample_bridge_app ?st"
    by (intro r_into_rtranclp [where r = bridge_step] bridge_step.start)
  define st where "st = ?st"
  have pids: "map_option rr_pid (hm_get (ba_children st) i) = (if i = ''program-in'' then Some 7 else None)" for i
    unfolding st_def by (rule sample_start(2))
  have procs: "ba_processes st = [(7, ''program-in'')]" unfolding st_def by (rule sample_start(1))
  have waits: "be_wait ?env = (\<lambda>_. StillRunning)" "be_spawn ?env = (\<lambda>_ _. Inr 8)"
    by (simp_all add: sample_environment_def)
  have child: "i = ''program-in'' \<and> rr_pid c = 7" if "hm_get (ba_children st) i = Some c" for i c
    using pids [of i] that by (simp split: if_splits)
  then have fits: "env_fits ?env st"
    unfolding env_fits_def waits procs by fastforce
  obtain c where c: "hm_get (ba_children st) ''program-in'' = Some c"
    using pids [of "''program-in''"] by auto
  have "validate_routes [] [] (bac_routes (ba_config sample_bridge_app)) = Inr ()"
    "ba_children sample_bridge_app = []" "ba_processes sample_bridge_app = []"
    using sample_routes_ok by (simp_all add: sample_bridge_app_def)
  from bridge_launcher_runs_ok [OF run [folded st_def] this]
  have "distinct (map bro_id (bac_routes (ba_config st)))"
    and "env_fits ?env st \<longrightarrow> (let after = ba_processes (snd (start_route ?env ''program-in'' st))
        in filter (\<lambda>p. snd p \<noteq> ''program-in'') after = filter (\<lambda>p. snd p \<noteq> ''program-in'') (ba_processes st) \<and>
           (case hm_get (ba_children st) ''program-in'' of
              None \<Rightarrow> True
            | Some c \<Rightarrow> if be_wait ?env c = StillRunning then after = ba_processes st else True))"
    by blast+
  then show ?thesis
    using fits unfolding st_def [symmetric] Let_def procs c waits option.case by simp
qed

end
