(* ===== verification/Capture_Pipeline.thy ===== *)
theory Capture_Pipeline
  imports App_Settings Voice_Processing "HOL-Library.Signed_Division"
begin

text \<open>
  From the microphone to a frame and from the playback buffer to the loudspeaker: the capture adapter
  of the desktop client with its resampling, limiter, gates and diagnostics, and its output adapter
  (\<open>clients/desktop/src/lib.rs\<close>). The sound system calls the adapters; queues to other tasks are
  outcomes. Adapters work in single precision, with every rounding.
\<close>

section \<open>Samples\<close>

definition i16_to_unit_f32 :: "i16 \<Rightarrow> f32" where
  "i16_to_unit_f32 s = f_clamp (f_div binary32 (i16_to_f32 s) i16_max_f32) (Fin (- 1)) (Fin 1)"

definition u16_to_unit_f32 :: "u16 \<Rightarrow> f32" where
  "u16_to_unit_f32 s =
     f_clamp (f_div binary32 (f_sub binary32 (f_of_int binary32 (uint s)) (Fin 32768)) (Fin 32768))
       (Fin (- 1)) (Fin 1)"

definition unit_f32_to_i16 :: "f32 \<Rightarrow> i16" where
  "unit_f32_to_i16 s =
     to_i16 (f_clamp (f_round (f_mul binary32 s i16_max_f32)) (Fin (- 32768)) (Fin 32767))"

definition apply_gain :: "f32 \<Rightarrow> f32 \<Rightarrow> i16" where
  "apply_gain s gain = to_i16 (f_clamp (f_round (f_mul binary32 s gain)) (Fin (- 32768)) (Fin 32767))"

fun f_signum :: "f32 \<Rightarrow> f32" where
  "f_signum (Fin x) = (if x < 0 then Fin (- 1) else Fin 1)"
| "f_signum PInf = Fin 1"
| "f_signum NInf = Fin (- 1)"
| "f_signum NaN = NaN"

definition soft_limit_unit :: "f32 \<Rightarrow> f32" where
  "soft_limit_unit s =
     (let knee = dec32 (85 / 100); magnitude = f_abs s; room = f_sub binary32 (Fin 1) knee
      in if f_le magnitude knee then s
         else let over = f_div binary32 (f_sub binary32 magnitude knee) room;
                  limited = f_add binary32 knee
                    (f_mul binary32 room (f_div binary32 over (f_add binary32 (Fin 1) over)))
              in f_mul binary32 (f_signum s) (f_min limited (Fin 1)))"

fun channel_mode_name :: "input_channel_mode \<Rightarrow> string" where
  "channel_mode_name Average = ''average''"
| "channel_mode_name Left = ''left''"
| "channel_mode_name Right = ''right''"

definition select_channel :: "input_channel_mode \<Rightarrow> f32 list \<Rightarrow> f32" where
  "select_channel mode samples =
     (if samples = [] then Fin 0
      else case mode of
             Average \<Rightarrow> f_div binary32 (fold (\<lambda>s acc. f_add binary32 acc s) samples (Fin 0))
                           (f_of_int binary32 (int (length samples)))
           | Left \<Rightarrow> samples ! 0
           | Right \<Rightarrow> if 1 < length samples then samples ! 1 else samples ! 0)"

section \<open>Diagnostics\<close>

record capture_stats =
  cst_samples :: nat
  cst_sum :: f64
  cst_sum_squares :: f64
  cst_peak :: f32
  cst_clipped_samples :: nat

definition default_capture_stats :: capture_stats where
  "default_capture_stats =
     \<lparr>cst_samples = 0, cst_sum = Fin 0, cst_sum_squares = Fin 0, cst_peak = Fin 0, cst_clipped_samples = 0\<rparr>"

definition u32_saturating_add :: "nat \<Rightarrow> nat \<Rightarrow> nat" where
  "u32_saturating_add a b = min (2 ^ 32 - 1) (a + b)"

definition observe_sample :: "f32 \<Rightarrow> capture_stats \<Rightarrow> capture_stats" where
  "observe_sample s c =
     c\<lparr>cst_samples := cst_samples c + 1, cst_sum := f_add binary64 (cst_sum c) s,
       cst_sum_squares := f_add binary64 (cst_sum_squares c) (f_mul binary32 s s),
       cst_peak := f_max (cst_peak c) (f_abs s),
       cst_clipped_samples :=
         (if f_gt (f_abs s) (Fin 1) then u32_saturating_add (cst_clipped_samples c) 1
          else cst_clipped_samples c)\<rparr>"

definition merge_stats :: "capture_stats \<Rightarrow> capture_stats \<Rightarrow> capture_stats" where
  "merge_stats a b =
     \<lparr>cst_samples = cst_samples a + cst_samples b, cst_sum = f_add binary64 (cst_sum a) (cst_sum b),
      cst_sum_squares = f_add binary64 (cst_sum_squares a) (cst_sum_squares b),
      cst_peak = f_max (cst_peak a) (cst_peak b),
      cst_clipped_samples = u32_saturating_add (cst_clipped_samples a) (cst_clipped_samples b)\<rparr>"

definition default_channel_health :: capture_channel_health where
  "default_channel_health = \<lparr>cch_rms = Fin 0, cch_peak = Fin 0, cch_dc_offset = Fin 0\<rparr>"

definition channel_health :: "capture_stats \<Rightarrow> capture_channel_health" where
  "channel_health c =
     (if cst_samples c = 0 then default_channel_health
      else let n = f_of_int binary64 (int (cst_samples c))
           in \<lparr>cch_rms = f_cast binary32 (f_sqrt binary64 (f_div binary64 (cst_sum_squares c) n)),
               cch_peak = cst_peak c,
               cch_dc_offset = f_cast binary32 (f_div binary64 (cst_sum c) n)\<rparr>)"

record capture_source_info =
  csi_backend :: audio_input_backend
  csi_device :: string
  csi_sample_format :: string
  csi_sample_rate_hz :: u32
  csi_channels :: u16
  csi_channel_mode :: input_channel_mode

definition default_capture_source_info :: capture_source_info where
  "default_capture_source_info =
     \<lparr>csi_backend = RawBackend, csi_device = ''unknown'', csi_sample_format = ''unknown'',
      csi_sample_rate_hz = 48000, csi_channels = 1, csi_channel_mode = Average\<rparr>"

record capture_diagnostics =
  cdi_source :: capture_source_info
  cdi_mic_gain :: f32
  cdi_pre_gain :: capture_stats
  cdi_post_gain :: capture_stats
  cdi_dropped_frames :: nat

definition capture_diagnostics_new :: "input_channel_mode \<Rightarrow> capture_diagnostics" where
  "capture_diagnostics_new mode =
     \<lparr>cdi_source = default_capture_source_info\<lparr>csi_channel_mode := mode\<rparr>, cdi_mic_gain = Fin 1,
      cdi_pre_gain = default_capture_stats, cdi_post_gain = default_capture_stats, cdi_dropped_frames = 0\<rparr>"

definition record_capture_frame ::
  "capture_stats \<Rightarrow> capture_stats \<Rightarrow> bool \<Rightarrow> f32 \<Rightarrow> capture_diagnostics \<Rightarrow> capture_diagnostics" where
  "record_capture_frame pre post dropped mic_gain d =
     d\<lparr>cdi_mic_gain := mic_gain, cdi_pre_gain := merge_stats (cdi_pre_gain d) pre,
       cdi_post_gain := merge_stats (cdi_post_gain d) post,
       cdi_dropped_frames := (if dropped then u32_saturating_add (cdi_dropped_frames d) 1
                              else cdi_dropped_frames d)\<rparr>"

fun backend_debug :: "audio_input_backend \<Rightarrow> string" where
  "backend_debug AutoBackend = ''Auto''"
| "backend_debug RawBackend = ''Raw''"
| "backend_debug VoiceBackend = ''VoiceProcessing''"

definition default_capture_health :: capture_health_status where
  "default_capture_health =
     \<lparr>ch_runtime = None, ch_audio = None, ch_playback = None, ch_client_transport = None,
      ch_codec_config = None, ch_desktop = None, ch_uptime_ms = 0, ch_wifi = None, ch_transport = None,
      ch_memory = None, ch_task_stack_high_water_bytes = None, ch_display = None, ch_battery = None,
      ch_playback_queue_depth = 0, ch_playback_underflows = 0, ch_playback_overflows = 0,
      ch_playback_i2s_gap_warnings = 0, ch_playback_i2s_slow_warnings = 0,
      ch_playback_i2s_short_warnings = 0, ch_free_heap_bytes = 0, ch_min_free_heap_bytes = 0,
      ch_tx_target_count = 0, ch_tx_packets_sent = 0, ch_tx_send_failures = 0, ch_adc_input = [],
      ch_mic_pga_gain_db = 0, ch_capture_channel = [], ch_software_gain_percent = 0,
      ch_high_pass_enabled = False, ch_alc_enabled = False, ch_noise_gate_enabled = False,
      ch_left = default_channel_health, ch_right = default_channel_health,
      ch_selected = default_channel_health, ch_raw_clipped_samples = 0, ch_software_clipped_samples = 0\<rparr>"

text \<open>A snapshot reports what was gathered since the last one, and starts anew.\<close>

definition diagnostics_snapshot :: "capture_diagnostics \<Rightarrow> capture_health_status \<times> capture_diagnostics" where
  "diagnostics_snapshot d =
     (let source = cdi_source d; pre = cdi_pre_gain d; post = cdi_post_gain d;
          selected = channel_health post;
          percent = f_clamp (f_round (f_mul binary32 (cdi_mic_gain d) (Fin 100))) (Fin 0) (Fin 65535)
      in (default_capture_health
            \<lparr>ch_desktop := Some
               \<lparr>dc_backend = backend_debug (csi_backend source), dc_device = csi_device source,
                dc_sample_format = csi_sample_format source,
                dc_sample_rate_hz = csi_sample_rate_hz source, dc_channels = csi_channels source,
                dc_channel_mode = channel_mode_name (csi_channel_mode source),
                dc_mic_gain = cdi_mic_gain d, dc_pre_gain = channel_health pre, dc_post_gain = selected,
                dc_pre_gain_clipped_samples = of_nat (cst_clipped_samples pre),
                dc_post_gain_clipped_samples = of_nat (cst_clipped_samples post),
                dc_dropped_frames = of_nat (cdi_dropped_frames d)\<rparr>,
             ch_adc_input := ''desktop'',
             ch_capture_channel := channel_mode_name (csi_channel_mode source),
             ch_software_gain_percent := word_of_int (f_as_int 0 65535 percent),
             ch_selected := selected, ch_raw_clipped_samples := of_nat (cst_clipped_samples pre),
             ch_software_clipped_samples := of_nat (cst_clipped_samples post)\<rparr>,
          d\<lparr>cdi_pre_gain := default_capture_stats, cdi_post_gain := default_capture_stats,
            cdi_dropped_frames := 0\<rparr>))"

section \<open>What the server asks of the capture\<close>

text \<open>The settings are kept in atomic bytes.\<close>

record capture_processing_settings =
  cps_profile :: u8
  cps_mode :: u8
  cps_vad :: u8
  cps_transient_suppression :: u8
  cps_native_voice_processing :: u8

record capture_processing_snapshot =
  cpn_profile :: processing_profile
  cpn_mode :: processing_mode
  cpn_vad :: bool
  cpn_transient_suppression :: bool
  cpn_native_voice_processing :: bool

fun processing_profile_to_u8 :: "processing_profile \<Rightarrow> u8" where
  "processing_profile_to_u8 Raw = 0"
| "processing_profile_to_u8 Voice = 1"
| "processing_profile_to_u8 VoiceIsolation = 2"
| "processing_profile_to_u8 Broadcast = 3"

definition u8_to_processing_profile :: "u8 \<Rightarrow> processing_profile" where
  "u8_to_processing_profile v =
     (if v = 0 then Raw else if v = 2 then VoiceIsolation else if v = 3 then Broadcast else Voice)"

fun processing_mode_to_u8 :: "processing_mode \<Rightarrow> u8" where
  "processing_mode_to_u8 ModeAuto = 0"
| "processing_mode_to_u8 ModeEnabled = 1"
| "processing_mode_to_u8 ModeDisabled = 2"

definition u8_to_processing_mode :: "u8 \<Rightarrow> processing_mode" where
  "u8_to_processing_mode v = (if v = 1 then ModeEnabled else if v = 2 then ModeDisabled else ModeAuto)"

definition store_processing :: "processing_config \<Rightarrow> capture_processing_settings" where
  "store_processing cfg =
     \<lparr>cps_profile = processing_profile_to_u8 (pc_profile cfg), cps_mode = processing_mode_to_u8 (pc_mode cfg),
      cps_vad = (if pc_vad cfg then 1 else 0),
      cps_transient_suppression = (if pc_transient_suppression cfg then 1 else 0),
      cps_native_voice_processing = (if pc_native_voice_processing cfg then 1 else 0)\<rparr>"

definition snapshot_processing :: "capture_processing_settings \<Rightarrow> capture_processing_snapshot" where
  "snapshot_processing s =
     \<lparr>cpn_profile = u8_to_processing_profile (cps_profile s), cpn_mode = u8_to_processing_mode (cps_mode s),
      cpn_vad = (cps_vad s \<noteq> 0), cpn_transient_suppression = (cps_transient_suppression s \<noteq> 0),
      cpn_native_voice_processing = (cps_native_voice_processing s \<noteq> 0)\<rparr>"

definition capture_processing_active :: "capture_processing_snapshot \<Rightarrow> bool" where
  "capture_processing_active p =
     (case cpn_mode p of
        ModeEnabled \<Rightarrow> cpn_profile p \<noteq> Raw
      | ModeDisabled \<Rightarrow> False
      | ModeAuto \<Rightarrow> cpn_profile p \<noteq> Raw)"

section \<open>The speech gate\<close>

fun capture_gate_params :: "processing_profile \<Rightarrow> vad_parameters" where
  "capture_gate_params Raw =
     \<lparr>vp_open_rms = Fin 0, vp_close_rms = Fin 0, vp_open_frames = 1, vp_hold_frames = 0,
      vp_closed_gain = Fin 1, vp_attack = Fin 1, vp_release = Fin 1,
      vp_max_zero_crossing_rate = Fin 1, vp_max_crest_factor = f32_max,
      vp_transient_crest_factor = f32_max\<rparr>"
| "capture_gate_params Broadcast =
     \<lparr>vp_open_rms = dec32 (5 / 1000), vp_close_rms = dec32 (2 / 1000), vp_open_frames = 1,
      vp_hold_frames = 20, vp_closed_gain = dec32 (22 / 100), vp_attack = dec32 (45 / 100),
      vp_release = dec32 (7 / 100), vp_max_zero_crossing_rate = dec32 (45 / 100),
      vp_max_crest_factor = dec32 16, vp_transient_crest_factor = dec32 18\<rparr>"
| "capture_gate_params Voice =
     \<lparr>vp_open_rms = dec32 (9 / 1000), vp_close_rms = dec32 (35 / 10000), vp_open_frames = 2,
      vp_hold_frames = 14, vp_closed_gain = dec32 (8 / 100), vp_attack = dec32 (55 / 100),
      vp_release = dec32 (11 / 100), vp_max_zero_crossing_rate = dec32 (36 / 100),
      vp_max_crest_factor = dec32 11, vp_transient_crest_factor = dec32 10\<rparr>"
| "capture_gate_params VoiceIsolation =
     \<lparr>vp_open_rms = dec32 (13 / 1000), vp_close_rms = dec32 (55 / 10000), vp_open_frames = 3,
      vp_hold_frames = 10, vp_closed_gain = dec32 (8 / 1000), vp_attack = dec32 (65 / 100),
      vp_release = dec32 (18 / 100), vp_max_zero_crossing_rate = dec32 (30 / 100),
      vp_max_crest_factor = dec32 8, vp_transient_crest_factor = dec32 7\<rparr>"

definition capture_frame_meter :: "i16 list \<Rightarrow> frame_meter" where
  "capture_frame_meter samples =
     (if samples = [] then \<lparr>fm_peak = Fin 0, fm_rms = Fin 0\<rparr> else meter_of (map normalize_sample samples))"

definition capture_voice_features :: "i16 list \<Rightarrow> frame_meter \<Rightarrow> voice_feature_values" where
  "capture_voice_features samples meter =
     (if length samples < 2 \<or> f_le (fm_rms meter) f32_epsilon
      then \<lparr>vf_zero_crossing_rate = Fin 0, vf_crest_factor = Fin 0\<rparr>
      else \<lparr>vf_zero_crossing_rate =
              f_div binary32 (f_of_int binary32 (int (crossings samples)))
                (f_of_int binary32 (int (length samples - 1))),
            vf_crest_factor =
              f_div binary32 (fm_peak meter) (f_max (fm_rms meter) (dec32 (1 / 1000000)))\<rparr>)"

definition capture_speech_like :: "processing_profile \<Rightarrow> i16 list \<Rightarrow> bool" where
  "capture_speech_like profile samples =
     (let meter = capture_frame_meter samples; features = capture_voice_features samples meter;
          params = capture_gate_params profile
      in f_ge (fm_rms meter) (vp_open_rms params) \<and>
         f_le (vf_zero_crossing_rate features) (vp_max_zero_crossing_rate params) \<and>
         f_le (vf_crest_factor features) (vp_max_crest_factor params))"

text \<open>The gate's state has the form of the server's, and opens, holds and closes like it.\<close>

definition speech_gate_process ::
  "processing_profile \<Rightarrow> i16 list \<Rightarrow> server_vad_state \<Rightarrow> server_vad_state \<times> i16 list" where
  "speech_gate_process profile samples s =
     (let params = capture_gate_params profile; rms = fm_rms (capture_frame_meter samples);
          s = (if capture_speech_like profile samples
               then let s = s\<lparr>vad_speech_frames := min u64_max (vad_speech_frames s + 1)\<rparr>
                    in if vp_open_frames params \<le> vad_speech_frames s
                       then s\<lparr>vad_open := True, vad_hold_frames := vp_hold_frames params\<rparr> else s
               else let s = s\<lparr>vad_speech_frames := 0\<rparr>
                    in if 0 < vad_hold_frames s \<and> f_ge rms (vp_close_rms params)
                       then s\<lparr>vad_hold_frames := vad_hold_frames s - 1\<rparr>
                       else if f_lt rms (vp_close_rms params) then s\<lparr>vad_open := False\<rparr> else s);
          target = (if vad_open s then Fin 1 else vp_closed_gain params);
          step = (if f_gt target (vad_gain s) then vp_attack params else vp_release params);
          s = s\<lparr>vad_gain := f_add binary32 (vad_gain s)
                  (f_mul binary32 (f_sub binary32 target (vad_gain s)) step)\<rparr>
      in (s, map (scale_sample (vad_gain s)) samples))"

fun capture_transient_reduction :: "processing_profile \<Rightarrow> f32" where
  "capture_transient_reduction VoiceIsolation = dec32 (12 / 100)"
| "capture_transient_reduction Voice = dec32 (28 / 100)"
| "capture_transient_reduction Broadcast = dec32 (65 / 100)"
| "capture_transient_reduction Raw = Fin 1"

definition suppress_capture_transient_frame :: "processing_profile \<Rightarrow> i16 list \<Rightarrow> i16 list" where
  "suppress_capture_transient_frame profile samples =
     (let meter = capture_frame_meter samples; features = capture_voice_features samples meter;
          params = capture_gate_params profile; reduction = capture_transient_reduction profile
      in if f_lt (fm_rms meter) (vp_open_rms params) \<or>
            f_le (vf_crest_factor features) (vp_transient_crest_factor params)
         then samples
         else if f_ge reduction (Fin 1) then samples
         else map (scale_sample reduction) samples)"

section \<open>The capture adapter\<close>

record capture_adapter =
  cad_frame :: "i16 list"
  cad_pre_gain_frame :: "i16 list"
  cad_channels :: nat
  cad_channel_index :: nat
  cad_channel_samples :: "f32 list"
  cad_ratio :: f32
  cad_phase :: f32
  cad_previous_mono :: f32
  cad_previous_raw_mono :: f32
  cad_smoothed_mono :: f32
  cad_transient_floor :: f32
  cad_transient_gain :: f32
  cad_transient_hold_samples :: nat
  cad_silence_gate_envelope :: f32
  cad_silence_gate_gain :: f32
  cad_silence_gate_open :: bool
  cad_silence_gate_hold_samples :: nat
  cad_has_previous :: bool
  cad_channel_mode :: input_channel_mode
  cad_input_limiter :: bool
  cad_input_transient_suppression :: bool
  cad_input_silence_gate :: bool
  cad_speech_gate :: server_vad_state
  cad_pre_gain_stats :: capture_stats
  cad_post_gain_stats :: capture_stats
  cad_diagnostics :: "capture_diagnostics option"
  cad_counters :: "client_counters option"
  cad_has_tap :: bool

record capture_options =
  cop_channel_mode :: input_channel_mode
  cop_input_limiter :: bool
  cop_input_transient_suppression :: bool
  cop_input_silence_gate :: bool
  cop_diagnostics :: "capture_diagnostics option"
  cop_counters :: "client_counters option"
  cop_has_tap :: bool

definition rate_ratio :: "nat \<Rightarrow> f32" where
  "rate_ratio rate = f_div binary32 (f_of_int binary32 (int mix_sample_rate)) (f_of_int binary32 (int rate))"

definition capture_adapter_new :: "nat \<Rightarrow> nat \<Rightarrow> capture_options \<Rightarrow> capture_adapter" where
  "capture_adapter_new rate channels options =
     \<lparr>cad_frame = [], cad_pre_gain_frame = [], cad_channels = max channels 1, cad_channel_index = 0,
      cad_channel_samples = replicate (max channels 1) (Fin 0), cad_ratio = rate_ratio rate,
      cad_phase = Fin 0, cad_previous_mono = Fin 0, cad_previous_raw_mono = Fin 0,
      cad_smoothed_mono = Fin 0, cad_transient_floor = dec32 (1 / 100), cad_transient_gain = Fin 1,
      cad_transient_hold_samples = 0, cad_silence_gate_envelope = Fin 0, cad_silence_gate_gain = Fin 0,
      cad_silence_gate_open = False, cad_silence_gate_hold_samples = 0, cad_has_previous = False,
      cad_channel_mode = cop_channel_mode options, cad_input_limiter = cop_input_limiter options,
      cad_input_transient_suppression = cop_input_transient_suppression options,
      cad_input_silence_gate = cop_input_silence_gate options,
      cad_speech_gate = default_server_vad_state, cad_pre_gain_stats = default_capture_stats,
      cad_post_gain_stats = default_capture_stats, cad_diagnostics = cop_diagnostics options,
      cad_counters = cop_counters options, cad_has_tap = cop_has_tap options\<rparr>"

text \<open>What a callback of the sound system finds: the gain, the processing asked for, and whether the
  sender's queue has room for a frame.\<close>

record capture_environment =
  cen_mic_gain :: f32
  cen_processing :: capture_processing_snapshot
  cen_room :: bool

text \<open>What a callback gives: frames for the sender, and pairs of frames for the debug writer.\<close>

record capture_output =
  cou_frames :: "i16 list list"
  cou_debug :: "(i16 list \<times> i16 list) list"

definition suppress_keyboard_transient ::
  "capture_environment \<Rightarrow> f32 \<Rightarrow> capture_adapter \<Rightarrow> capture_adapter \<times> f32" where
  "suppress_keyboard_transient env level c =
     (if \<not> cad_input_transient_suppression c \<or> \<not> cpn_transient_suppression (cen_processing env)
         \<or> \<not> capture_processing_active (cen_processing env)
      then (c, level)
      else
        let magnitude = f_abs level;
            delta = f_abs (f_sub binary32 level (cad_previous_raw_mono c));
            floor = f_max (cad_transient_floor c) (dec32 (1 / 100));
            threshold = f_clamp (f_mul binary32 floor (Fin 12)) (dec32 (18 / 100)) (dec32 (65 / 100));
            sudden = (cad_has_previous c \<and> f_gt magnitude threshold \<and>
                      f_gt delta (f_mul binary32 threshold (dec32 (75 / 100))));
            c = (if sudden
                 then c\<lparr>cad_transient_gain :=
                          f_min (cad_transient_gain c)
                            (f_clamp (f_div binary32 threshold magnitude) (dec32 (8 / 100)) (Fin 1)),
                        cad_transient_hold_samples := mix_sample_rate div 20\<rparr>
                 else if 0 < cad_transient_hold_samples c
                 then c\<lparr>cad_transient_hold_samples := cad_transient_hold_samples c - 1\<rparr>
                 else c\<lparr>cad_transient_gain := f_add binary32 (cad_transient_gain c)
                          (f_mul binary32 (f_sub binary32 (Fin 1) (cad_transient_gain c))
                            (dec32 (2 / 1000)))\<rparr>);
            out = f_mul binary32 level (cad_transient_gain c);
            learned = f_min (f_abs out) (dec32 (25 / 100));
            (keep, learn) = (if f_gt learned (cad_transient_floor c)
                             then (dec32 (999 / 1000), dec32 (1 / 1000))
                             else (dec32 (9995 / 10000), dec32 (5 / 10000)))
        in (c\<lparr>cad_transient_floor := f_add binary32 (f_mul binary32 (cad_transient_floor c) keep)
                (f_mul binary32 learned learn)\<rparr>, out))"

definition apply_silence_gate ::
  "capture_environment \<Rightarrow> f32 \<Rightarrow> capture_adapter \<Rightarrow> capture_adapter \<times> f32" where
  "apply_silence_gate env s c =
     (if \<not> cad_input_silence_gate c \<or> \<not> capture_processing_active (cen_processing env) then (c, s)
      else
        let magnitude = f_abs s; old = cad_silence_gate_envelope c;
            coeff = (if f_gt magnitude old then dec32 (25 / 100) else dec32 (2 / 1000));
            envelope = f_add binary32 old (f_mul binary32 (f_sub binary32 magnitude old) coeff);
            c = c\<lparr>cad_silence_gate_envelope := envelope\<rparr>;
            c = (if f_ge envelope (dec32 (12 / 1000))
                 then c\<lparr>cad_silence_gate_open := True,
                        cad_silence_gate_hold_samples := mix_sample_rate div 12\<rparr>
                 else if 0 < cad_silence_gate_hold_samples c
                 then c\<lparr>cad_silence_gate_hold_samples := cad_silence_gate_hold_samples c - 1\<rparr>
                 else if f_le envelope (dec32 (4 / 1000)) then c\<lparr>cad_silence_gate_open := False\<rparr>
                 else c);
            target = (if cad_silence_gate_open c then Fin 1 else Fin 0);
            step = (if f_gt target (cad_silence_gate_gain c) then dec32 (8 / 100) else dec32 (15 / 1000));
            gain = f_add binary32 (cad_silence_gate_gain c)
                     (f_mul binary32 (f_sub binary32 target (cad_silence_gate_gain c)) step)
        in (c\<lparr>cad_silence_gate_gain := gain\<rparr>, f_mul binary32 s gain))"

definition process_capture_frame ::
  "capture_environment \<Rightarrow> i16 list \<Rightarrow> capture_adapter \<Rightarrow> capture_adapter \<times> i16 list" where
  "process_capture_frame env frame c =
     (let p = cen_processing env
      in if \<not> capture_processing_active p then (c, frame)
         else let frame = (if cpn_transient_suppression p
                           then suppress_capture_transient_frame (cpn_profile p) frame else frame)
              in if cpn_vad p
                 then (case speech_gate_process (cpn_profile p) frame (cad_speech_gate c) of
                         (gate, frame) \<Rightarrow> (c\<lparr>cad_speech_gate := gate\<rparr>, frame))
                 else (c, frame))"

text \<open>A full frame leaves for the sender; a full queue drops it.\<close>

definition finish_frame ::
  "capture_environment \<Rightarrow> capture_adapter \<times> capture_output \<Rightarrow> capture_adapter \<times> capture_output" where
  "finish_frame env s =
     (case s of (c, out) \<Rightarrow>
        let pre_gain = cad_pre_gain_frame c;
            (c, full) = process_capture_frame env (cad_frame c) c;
            c = c\<lparr>cad_frame := [], cad_pre_gain_frame := [],
                  cad_counters := (if cen_room env then cad_counters c
                                   else map_option record_tx_queue_drop (cad_counters c))\<rparr>;
            out = (if cen_room env then out\<lparr>cou_frames := cou_frames out @ [full]\<rparr> else out);
            out = (if cad_has_tap c then out\<lparr>cou_debug := cou_debug out @ [(pre_gain, full)]\<rparr> else out)
        in case cad_diagnostics c of
             None \<Rightarrow> (c, out)
           | Some d \<Rightarrow>
               (c\<lparr>cad_diagnostics := Some (record_capture_frame (cad_pre_gain_stats c)
                     (cad_post_gain_stats c) (\<not> cen_room env) (cen_mic_gain env) d),
                  cad_pre_gain_stats := default_capture_stats,
                  cad_post_gain_stats := default_capture_stats\<rparr>, out))"

definition push_wire_sample ::
  "capture_environment \<Rightarrow> f32 \<Rightarrow> f32 \<Rightarrow> f32 \<Rightarrow> capture_adapter \<times> capture_output \<Rightarrow>
     capture_adapter \<times> capture_output" where
  "push_wire_sample env pre_gain post_gain output_sample s =
     (case s of (c, out) \<Rightarrow>
        let c = c\<lparr>cad_pre_gain_stats := observe_sample pre_gain (cad_pre_gain_stats c),
                  cad_post_gain_stats := observe_sample post_gain (cad_post_gain_stats c),
                  cad_pre_gain_frame := cad_pre_gain_frame c @ [unit_f32_to_i16 pre_gain],
                  cad_frame := cad_frame c @ [unit_f32_to_i16 output_sample]\<rparr>
        in if length (cad_frame c) = mix_samples_per_frame then finish_frame env (c, out) else (c, out))"

text \<open>One sample of the mixer's rate, interpolated between the last two of the device.\<close>

definition emit_sample ::
  "capture_environment \<Rightarrow> capture_adapter \<times> capture_output \<Rightarrow> capture_adapter \<times> capture_output" where
  "emit_sample env s =
     (case s of (c, out) \<Rightarrow>
        let fraction = f_sub binary32 (Fin 1)
              (f_clamp (f_div binary32 (f_sub binary32 (cad_phase c) (Fin 1)) (cad_ratio c)) (Fin 0) (Fin 1));
            interpolated = f_add binary32 (cad_previous_mono c)
              (f_mul binary32 (f_sub binary32 (cad_smoothed_mono c) (cad_previous_mono c)) fraction);
            post_gain = f_mul binary32 interpolated (cen_mic_gain env);
            limited = (if cad_input_limiter c then soft_limit_unit post_gain else post_gain);
            (c, gated) = apply_silence_gate env limited c;
            (c, out) = push_wire_sample env interpolated post_gain gated (c, out)
        in (c\<lparr>cad_phase := f_sub binary32 (cad_phase c) (Fin 1)\<rparr>, out))"

partial_function (option) emit_samples ::
  "capture_environment \<Rightarrow> capture_adapter \<times> capture_output \<Rightarrow> (capture_adapter \<times> capture_output) option" where
  "emit_samples env s =
     (if f_ge (cad_phase (fst s)) (Fin 1) then emit_samples env (emit_sample env s) else Some s)"

definition push_mono ::
  "capture_environment \<Rightarrow> f32 \<Rightarrow> capture_adapter \<times> capture_output \<Rightarrow> (capture_adapter \<times> capture_output) option" where
  "push_mono env level s =
     (case s of (c, out) \<Rightarrow>
        let (c, level) = suppress_keyboard_transient env level c;
            c = (if \<not> cad_has_previous c
                 then c\<lparr>cad_previous_mono := level, cad_smoothed_mono := level,
                        cad_previous_raw_mono := level, cad_has_previous := True\<rparr> else c);
            c = c\<lparr>cad_smoothed_mono :=
                    f_add binary32 (f_mul binary32 (cad_smoothed_mono c) (dec32 (1 / 2)))
                      (f_mul binary32 level (dec32 (1 / 2))),
                  cad_phase := f_add binary32 (cad_phase c) (cad_ratio c)\<rparr>
        in case emit_samples env (c, out) of
             None \<Rightarrow> None
           | Some (c, out) \<Rightarrow>
               Some (c\<lparr>cad_previous_mono := cad_smoothed_mono c, cad_previous_raw_mono := level\<rparr>, out))"

definition push_sample ::
  "capture_environment \<Rightarrow> f32 \<Rightarrow> capture_adapter \<times> capture_output \<Rightarrow> (capture_adapter \<times> capture_output) option" where
  "push_sample env x s =
     (case s of (c, out) \<Rightarrow>
        let i = cad_channel_index c;
            c = c\<lparr>cad_channel_samples := (cad_channel_samples c)[i := x], cad_channel_index := i + 1\<rparr>
        in if cad_channel_index c = cad_channels c
           then map_option (\<lambda>(c, out). (c\<lparr>cad_channel_index := 0\<rparr>, out))
                  (push_mono env (select_channel (cad_channel_mode c) (cad_channel_samples c)) (c, out))
           else Some (c, out))"

fun push_interleaved_f32 ::
  "capture_environment \<Rightarrow> f32 list \<Rightarrow> capture_adapter \<times> capture_output \<Rightarrow>
     (capture_adapter \<times> capture_output) option" where
  "push_interleaved_f32 env [] s = Some s"
| "push_interleaved_f32 env (x # xs) s =
     (case push_sample env x s of None \<Rightarrow> None | Some s \<Rightarrow> push_interleaved_f32 env xs s)"

definition push_interleaved_i16 ::
  "capture_environment \<Rightarrow> i16 list \<Rightarrow> capture_adapter \<times> capture_output \<Rightarrow>
     (capture_adapter \<times> capture_output) option" where
  "push_interleaved_i16 env xs s = push_interleaved_f32 env (map i16_to_unit_f32 xs) s"

definition push_interleaved_u16 ::
  "capture_environment \<Rightarrow> u16 list \<Rightarrow> capture_adapter \<times> capture_output \<Rightarrow>
     (capture_adapter \<times> capture_output) option" where
  "push_interleaved_u16 env xs s = push_interleaved_f32 env (map u16_to_unit_f32 xs) s"

section \<open>The output adapter\<close>

record output_adapter =
  oad_channels :: nat
  oad_ratio :: f32
  oad_phase :: f32
  oad_previous_left :: f32
  oad_previous_right :: f32
  oad_current :: "i16 \<times> i16"
  oad_next :: "i16 \<times> i16"
  oad_initialized :: bool

definition output_adapter_new :: "nat \<Rightarrow> nat \<Rightarrow> output_adapter" where
  "output_adapter_new rate channels =
     \<lparr>oad_channels = max channels 1, oad_ratio = rate_ratio rate, oad_phase = Fin 0,
      oad_previous_left = Fin 0, oad_previous_right = Fin 0, oad_current = (0, 0), oad_next = (0, 0),
      oad_initialized = False\<rparr>"

definition pop_or :: "i16 \<times> i16 \<Rightarrow> playback_buffer \<Rightarrow> (i16 \<times> i16) \<times> playback_buffer" where
  "pop_or otherwise b = (case pop_stereo b of (s, b) \<Rightarrow> (case s of None \<Rightarrow> otherwise | Some p \<Rightarrow> p, b))"

definition initialize_output ::
  "output_adapter \<times> playback_buffer \<Rightarrow> output_adapter \<times> playback_buffer" where
  "initialize_output s =
     (case s of (a, b) \<Rightarrow>
        if oad_initialized a then (a, b)
        else let (first, b) = pop_or (0, 0) b; (second, b) = pop_or first b
             in (a\<lparr>oad_current := first, oad_next := second,
                   oad_previous_left := i16_to_f32 (fst first),
                   oad_previous_right := i16_to_f32 (snd first), oad_initialized := True\<rparr>, b))"

definition advance_output ::
  "output_adapter \<times> playback_buffer \<Rightarrow> output_adapter \<times> playback_buffer" where
  "advance_output s =
     (case s of (a, b) \<Rightarrow>
        let (following, b) = pop_or (oad_next a) b
        in (a\<lparr>oad_current := oad_next a, oad_next := following,
              oad_phase := f_sub binary32 (oad_phase a) (Fin 1)\<rparr>, b))"

partial_function (option) advance_all ::
  "output_adapter \<times> playback_buffer \<Rightarrow> (output_adapter \<times> playback_buffer) option" where
  "advance_all s =
     (if f_ge (oad_phase (fst s)) (Fin 1) then advance_all (advance_output s) else Some s)"

definition between :: "f32 \<Rightarrow> i16 \<Rightarrow> i16 \<Rightarrow> f32" where
  "between phase current following =
     f_add binary32 (i16_to_f32 current)
       (f_mul binary32 (f_sub binary32 (i16_to_f32 following) (i16_to_f32 current)) phase)"

definition next_stereo ::
  "f32 \<Rightarrow> output_adapter \<times> playback_buffer \<Rightarrow>
     ((i16 \<times> i16) \<times> output_adapter \<times> playback_buffer) option" where
  "next_stereo gain s =
     map_option (\<lambda>(a, b).
         let left = apply_gain (between (oad_phase a) (fst (oad_current a)) (fst (oad_next a))) gain;
             right = apply_gain (between (oad_phase a) (snd (oad_current a)) (snd (oad_next a))) gain
         in ((left, right),
             a\<lparr>oad_phase := f_add binary32 (oad_phase a) (oad_ratio a),
               oad_previous_left := i16_to_f32 left, oad_previous_right := i16_to_f32 right\<rparr>, b))
       (advance_all (initialize_output s))"

text \<open>A frame of the device: both sides averaged on one channel, else the two sides and silence.\<close>

definition device_frame :: "nat \<Rightarrow> i16 \<times> i16 \<Rightarrow> i16 list" where
  "device_frame channels p =
     (case p of (l, r) \<Rightarrow>
        if channels = 1 then [word_of_int ((sint l + sint r) sdiv (2 :: int))]
        else l # r # replicate (channels - 2) 0)"

fun fill ::
  "f32 \<Rightarrow> nat \<Rightarrow> output_adapter \<times> playback_buffer \<Rightarrow>
     (i16 list \<times> output_adapter \<times> playback_buffer) option" where
  "fill gain 0 s = Some ([], s)"
| "fill gain (Suc frames) s =
     (case next_stereo gain s of
        None \<Rightarrow> None
      | Some (p, s) \<Rightarrow>
          map_option (\<lambda>(rest, s'). (device_frame (oad_channels (fst s)) p @ rest, s')) (fill gain frames s))"

section \<open>Exact arithmetic\<close>

lemma binary32_fields: "precision binary32 = 24" "emin binary32 = - 126"
  by (simp_all add: binary32_def)

lemma rnd_int: "n < 2 ^ 24 \<Longrightarrow> rnd binary32 (of_nat n) = Fin (of_nat n)"
  using rnd_dyadic [of binary32 n 0] binary32_fields by simp

lemma rnd_of_int:
  assumes "\<bar>n\<bar> < 2 ^ 24"
  shows "rnd binary32 (of_int n) = Fin (of_int n)"
proof (cases "0 \<le> n")
  case True
  then show ?thesis using rnd_int [of "nat n"] assms by (simp add: nat_less_iff)
next
  case False
  then show ?thesis
    using rnd_int [of "nat (- n)"] rnd_minus [of binary32 "of_int (- n)"] assms
    by (simp add: nat_less_iff)
qed

lemma sample_range: "- 32768 \<le> sint (s :: i16)" "sint (s :: i16) \<le> 32767"
  using sint_greater_eq [of s] sint_less [of s] by simp_all

lemma i16_to_f32_fin: "i16_to_f32 s = Fin (of_int (sint s))"
  using rnd_of_int [of "sint s"] sample_range [of s] by (simp add: i16_to_f32_def f_of_int_def)

lemma rate_ratio_range:
  assumes "0 < rate" "rate < 2 ^ 24"
  obtains r where "rate_ratio rate = Fin r" "0 \<le> r" "r \<le> of_nat 48000"
proof -
  have rate: "f_of_int binary32 (int rate) = Fin (of_nat rate)"
    "f_of_int binary32 (int mix_sample_rate) = Fin (of_nat 48000)"
    using rnd_int [of rate] rnd_int [of 48000] assms(2)
    by (simp_all add: f_of_int_def mix_sample_rate_def pcm48_sample_rate_def)
  have "(of_nat 48000 :: rat) / of_nat rate \<le> of_nat 48000"
    using assms(1) by (simp add: divide_le_eq)
  then obtain y where "rnd binary32 (of_nat 48000 / of_nat rate) = Fin y" "0 \<le> y" "y \<le> of_nat 48000"
    using rnd_le_int [of "of_nat 48000 / of_nat rate" 48000] by auto
  then show ?thesis using that assms(1) by (simp add: rate_ratio_def rate)
qed

lemma rate_ratio_one: "rate_ratio 48000 = Fin 1"
  using rnd_int [of 48000] rnd_int [of 1]
  by (simp add: rate_ratio_def f_of_int_def mix_sample_rate_def pcm48_sample_rate_def)

text \<open>One step of a resampler's phase.\<close>

lemma phase_sum:
  assumes "0 \<le> p" "p \<le> 1" "0 \<le> r" "r \<le> of_nat 48000"
  obtains y where "f_add binary32 (Fin p) (Fin r) = Fin y" "0 \<le> y" "y \<le> of_nat 48001"
  using rnd_le_int [of "p + r" 48001] assms by auto

lemma phase_less:
  assumes "1 \<le> y" "y \<le> of_nat (Suc n)" "n < 2 ^ 24"
  obtains z where "f_sub binary32 (Fin y) (Fin 1) = Fin z" "0 \<le> z" "z \<le> of_nat n"
  using rnd_le_int [of "y - 1" n] assms by (auto simp: f_sub_def)

lemma f_ge_one: "f_ge (Fin y) (Fin 1) \<longleftrightarrow> 1 \<le> y"
  by (auto simp: f_ge_def f_le_def f_eq_def)

section \<open>Frames of the microphone\<close>

lemma length_speech_gate [simp]: "length (snd (speech_gate_process profile frame gate)) = length frame"
  by (simp add: speech_gate_process_def Let_def)

lemma length_capture_transient [simp]:
  "length (suppress_capture_transient_frame profile frame) = length frame"
  by (simp add: suppress_capture_transient_frame_def Let_def)

lemma process_capture_frame_facts:
  assumes "process_capture_frame env frame c = (c', full)"
  shows "length full = length frame \<and> cad_phase c' = cad_phase c \<and> cad_ratio c' = cad_ratio c \<and>
    cad_channels c' = cad_channels c \<and> cad_channel_index c' = cad_channel_index c \<and>
    cad_has_tap c' = cad_has_tap c"
proof -
  have "full = snd (process_capture_frame env frame c)" "c' = fst (process_capture_frame env frame c)"
    using assms by simp_all
  then show ?thesis
    by (simp add: process_capture_frame_def Let_def case_prod_unfold)
qed

text \<open>Frames of the right size, and the rest of the state a frame does not touch.\<close>

definition frames_ok :: "capture_adapter \<times> capture_output \<Rightarrow> bool" where
  "frames_ok s \<longleftrightarrow>
     list_all (\<lambda>f. length f = mix_samples_per_frame) (cou_frames (snd s)) \<and>
     list_all (\<lambda>(a, b). length a = mix_samples_per_frame \<and> length b = mix_samples_per_frame)
       (cou_debug (snd s)) \<and>
     length (cad_pre_gain_frame (fst s)) = length (cad_frame (fst s)) \<and>
     length (cad_frame (fst s)) < mix_samples_per_frame"

definition emitted :: "capture_adapter \<times> capture_output \<Rightarrow> nat" where
  "emitted s = mix_samples_per_frame * length (cou_frames (snd s)) + length (cad_frame (fst s))"

definition same_clock :: "capture_adapter \<Rightarrow> capture_adapter \<Rightarrow> bool" where
  "same_clock a b \<longleftrightarrow> cad_phase a = cad_phase b \<and> cad_ratio a = cad_ratio b \<and>
     cad_channels a = cad_channels b \<and> cad_channel_index a = cad_channel_index b"

lemma finish_frame_facts:
  assumes "length (cad_frame c) = mix_samples_per_frame"
    "length (cad_pre_gain_frame c) = mix_samples_per_frame"
    "list_all (\<lambda>f. length f = mix_samples_per_frame) (cou_frames out)"
    "list_all (\<lambda>(a, b). length a = mix_samples_per_frame \<and> length b = mix_samples_per_frame) (cou_debug out)"
  shows "frames_ok (finish_frame env (c, out))"
    "same_clock (fst (finish_frame env (c, out))) c"
    "cen_room env \<Longrightarrow> emitted (finish_frame env (c, out)) = emitted (c, out)"
proof -
  obtain c1 full where p: "process_capture_frame env (cad_frame c) c = (c1, full)" by fastforce
  note facts = process_capture_frame_facts [OF p]
  have pos: "0 < mix_samples_per_frame"
    by (simp add: mix_samples_per_frame_def pcm48_sample_rate_def frame_ms_def)
  show "frames_ok (finish_frame env (c, out))"
    using assms facts pos
    by (cases "cad_diagnostics c1") (simp_all add: finish_frame_def p Let_def frames_ok_def)
  show "same_clock (fst (finish_frame env (c, out))) c"
    using facts by (cases "cad_diagnostics c1") (simp_all add: finish_frame_def p Let_def same_clock_def)
  show "emitted (finish_frame env (c, out)) = emitted (c, out)" if "cen_room env"
    using that assms(1) by (cases "cad_diagnostics c1") (simp_all add: finish_frame_def p Let_def emitted_def)
qed

lemma push_wire_sample_facts:
  assumes "frames_ok (c, out)"
  shows "frames_ok (push_wire_sample env a b x (c, out))"
    "same_clock (fst (push_wire_sample env a b x (c, out))) c"
    "cen_room env \<Longrightarrow> emitted (push_wire_sample env a b x (c, out)) = emitted (c, out) + 1"
proof -
  define d where "d = c\<lparr>cad_pre_gain_stats := observe_sample a (cad_pre_gain_stats c),
                  cad_post_gain_stats := observe_sample b (cad_post_gain_stats c),
                  cad_pre_gain_frame := cad_pre_gain_frame c @ [unit_f32_to_i16 a],
                  cad_frame := cad_frame c @ [unit_f32_to_i16 x]\<rparr>"
  have d: "same_clock d c" "length (cad_frame d) = length (cad_frame c) + 1"
    "length (cad_pre_gain_frame d) = length (cad_pre_gain_frame c) + 1"
    by (simp_all add: d_def same_clock_def)
  have eq: "push_wire_sample env a b x (c, out) =
      (if length (cad_frame d) = mix_samples_per_frame then finish_frame env (d, out) else (d, out))"
    by (simp add: push_wire_sample_def d_def)
  note fin = finish_frame_facts [of d out env]
  show "frames_ok (push_wire_sample env a b x (c, out))"
    using assms d fin(1) unfolding eq by (auto simp: frames_ok_def)
  show "same_clock (fst (push_wire_sample env a b x (c, out))) c"
    using assms d fin(2) unfolding eq by (auto simp: frames_ok_def same_clock_def)
  show "emitted (push_wire_sample env a b x (c, out)) = emitted (c, out) + 1" if "cen_room env"
    using assms d fin(3) that unfolding eq by (auto simp: frames_ok_def emitted_def)
qed

lemma silence_gate_facts:
  assumes "apply_silence_gate env x c = (c', y)"
  shows "same_clock c' c \<and> cad_frame c' = cad_frame c \<and> cad_pre_gain_frame c' = cad_pre_gain_frame c"
proof -
  have "c' = fst (apply_silence_gate env x c)" using assms by simp
  then show ?thesis by (simp add: apply_silence_gate_def Let_def same_clock_def)
qed

lemma emit_sample_facts:
  assumes "frames_ok s"
  shows "frames_ok (emit_sample env s)"
    "cad_phase (fst (emit_sample env s)) = f_sub binary32 (cad_phase (fst s)) (Fin 1)"
    "cad_ratio (fst (emit_sample env s)) = cad_ratio (fst s)"
    "cad_channels (fst (emit_sample env s)) = cad_channels (fst s)"
    "cad_channel_index (fst (emit_sample env s)) = cad_channel_index (fst s)"
    "cen_room env \<Longrightarrow> emitted (emit_sample env s) = emitted s + 1"
proof -
  obtain c out where s: "s = (c, out)" by fastforce
  define a where "a = f_add binary32 (cad_previous_mono c)
    (f_mul binary32 (f_sub binary32 (cad_smoothed_mono c) (cad_previous_mono c))
      (f_sub binary32 (Fin 1)
        (f_clamp (f_div binary32 (f_sub binary32 (cad_phase c) (Fin 1)) (cad_ratio c)) (Fin 0) (Fin 1))))"
  define b where "b = f_mul binary32 a (cen_mic_gain env)"
  define x where "x = (if cad_input_limiter c then soft_limit_unit b else b)"
  obtain c1 y where gate: "apply_silence_gate env x c = (c1, y)" by fastforce
  have eq: "emit_sample env s = (case push_wire_sample env a b y (c1, out) of
       (c, out) \<Rightarrow> (c\<lparr>cad_phase := f_sub binary32 (cad_phase c) (Fin 1)\<rparr>, out))"
    unfolding emit_sample_def s Let_def prod.case a_def [symmetric] b_def [symmetric] x_def [symmetric]
      gate ..
  note g = silence_gate_facts [OF gate]
  have ok: "frames_ok (c1, out)" using assms g by (simp add: frames_ok_def s)
  obtain c2 out2 where p: "push_wire_sample env a b y (c1, out) = (c2, out2)" by fastforce
  note w = push_wire_sample_facts [OF ok, of env a b y, unfolded p]
  have clock: "same_clock c2 c" using w(2) g by (simp add: same_clock_def)
  have emit: "emit_sample env s = (c2\<lparr>cad_phase := f_sub binary32 (cad_phase c2) (Fin 1)\<rparr>, out2)"
    by (simp add: eq p)
  show "frames_ok (emit_sample env s)" using w(1) by (simp add: emit frames_ok_def)
  show "cad_phase (fst (emit_sample env s)) = f_sub binary32 (cad_phase (fst s)) (Fin 1)"
    "cad_ratio (fst (emit_sample env s)) = cad_ratio (fst s)"
    "cad_channels (fst (emit_sample env s)) = cad_channels (fst s)"
    "cad_channel_index (fst (emit_sample env s)) = cad_channel_index (fst s)"
    using clock by (simp_all add: s emit [unfolded s] same_clock_def)
  show "emitted (emit_sample env s) = emitted s + 1" if "cen_room env"
    using w(3) [OF that] g by (simp add: s emit [unfolded s] emitted_def)
qed


lemma emit_samples_returns:
  assumes "frames_ok s" "cad_phase (fst s) = Fin y" "0 \<le> y" "y \<le> of_nat n" "n < 2 ^ 24"
  shows "\<exists>s' p. emit_samples env s = Some s' \<and> frames_ok s' \<and> cad_phase (fst s') = Fin p \<and>
    0 \<le> p \<and> p < 1 \<and> cad_ratio (fst s') = cad_ratio (fst s) \<and>
    cad_channels (fst s') = cad_channels (fst s) \<and> cad_channel_index (fst s') = cad_channel_index (fst s)"
  using assms
proof (induction n arbitrary: s y)
  case 0
  then show ?case by (subst emit_samples.simps) (auto simp: f_ge_one)
next
  case (Suc n)
  show ?case
  proof (cases "1 \<le> y")
    case True
    obtain z where z: "f_sub binary32 (Fin y) (Fin 1) = Fin z" "0 \<le> z" "z \<le> of_nat n"
      using phase_less [of y n] True Suc.prems by auto
    note f = emit_sample_facts [OF Suc.prems(1), of env]
    have "cad_phase (fst (emit_sample env s)) = Fin z" using f(2) Suc.prems(2) z(1) by simp
    from Suc.IH [OF f(1) this z(2,3)] Suc.prems(5) f(3-5) True Suc.prems(2) show ?thesis
      by (subst emit_samples.simps) (auto simp: f_ge_one)
  next
    case False
    with Suc.prems show ?thesis by (subst emit_samples.simps) (auto simp: f_ge_one)
  qed
qed

lemma emit_samples_one:
  assumes "frames_ok s" "cad_phase (fst s) = Fin 1" "cen_room env"
  shows "\<exists>s'. emit_samples env s = Some s' \<and> emitted s' = emitted s + 1 \<and> cad_phase (fst s') = Fin 0"
proof -
  note f = emit_sample_facts [OF assms(1), of env]
  have "cad_phase (fst (emit_sample env s)) = Fin 0"
    by (simp add: f(2) assms(2) f_sub_def rnd_def)
  with f(6) [OF assms(3)] show ?thesis
    using assms(2) by (subst emit_samples.simps, subst emit_samples.simps) (simp add: f_ge_one)
qed

section \<open>Callbacks\<close>

definition adapter_ok :: "capture_adapter \<times> capture_output \<Rightarrow> bool" where
  "adapter_ok s \<longleftrightarrow> frames_ok s \<and>
     (\<exists>p. cad_phase (fst s) = Fin p \<and> 0 \<le> p \<and> p < 1) \<and>
     (\<exists>r. cad_ratio (fst s) = Fin r \<and> 0 \<le> r \<and> r \<le> of_nat 48000)"

lemma transient_facts:
  assumes "suppress_keyboard_transient env x c = (c', y)"
  shows "same_clock c' c \<and> cad_frame c' = cad_frame c \<and> cad_pre_gain_frame c' = cad_pre_gain_frame c"
proof -
  have "c' = fst (suppress_keyboard_transient env x c)" using assms by simp
  then show ?thesis
    by (simp add: suppress_keyboard_transient_def Let_def same_clock_def case_prod_unfold)
qed

text \<open>The adapter just before it emits the samples of one sample of the device.\<close>

lemma push_mono_prepared:
  assumes "adapter_ok (c, out)" "cad_phase c = Fin p" "cad_ratio c = Fin r"
  obtains c1 level where "frames_ok (c1, out)" "cad_phase c1 = f_add binary32 (Fin p) (Fin r)"
    "cad_ratio c1 = cad_ratio c" "cad_channels c1 = cad_channels c"
    "cad_channel_index c1 = cad_channel_index c" "emitted (c1, out) = emitted (c, out)"
    "push_mono env x (c, out) = (case emit_samples env (c1, out) of
       None \<Rightarrow> None
     | Some (c, out) \<Rightarrow>
         Some (c\<lparr>cad_previous_mono := cad_smoothed_mono c, cad_previous_raw_mono := level\<rparr>, out))"
proof -
  obtain c0 level where t: "suppress_keyboard_transient env x c = (c0, level)" by fastforce
  note f = transient_facts [OF t]
  define d where "d = (if \<not> cad_has_previous c0
      then c0\<lparr>cad_previous_mono := level, cad_smoothed_mono := level,
             cad_previous_raw_mono := level, cad_has_previous := True\<rparr> else c0)"
  define c1 where "c1 = d\<lparr>cad_smoothed_mono :=
        f_add binary32 (f_mul binary32 (cad_smoothed_mono d) (dec32 (1 / 2)))
          (f_mul binary32 level (dec32 (1 / 2))),
      cad_phase := f_add binary32 (cad_phase d) (cad_ratio d)\<rparr>"
  have d: "cad_phase d = cad_phase c" "cad_ratio d = cad_ratio c" "cad_channels d = cad_channels c"
    "cad_channel_index d = cad_channel_index c" "cad_frame d = cad_frame c"
    "cad_pre_gain_frame d = cad_pre_gain_frame c"
    using f by (simp_all add: d_def same_clock_def)
  have push: "push_mono env x (c, out) = (case emit_samples env (c1, out) of
       None \<Rightarrow> None
     | Some (c, out) \<Rightarrow>
         Some (c\<lparr>cad_previous_mono := cad_smoothed_mono c, cad_previous_raw_mono := level\<rparr>, out))"
    unfolding push_mono_def prod.case t Let_def d_def [symmetric] c1_def [symmetric] ..
  show ?thesis
  proof (rule that [OF _ _ _ _ _ _ push])
    show "frames_ok (c1, out)" using assms(1) d by (simp add: adapter_ok_def frames_ok_def c1_def)
    show "cad_phase c1 = f_add binary32 (Fin p) (Fin r)" using assms d by (simp add: c1_def)
    show "emitted (c1, out) = emitted (c, out)" using d by (simp add: emitted_def c1_def)
  qed (use d in \<open>simp_all add: c1_def\<close>)
qed

lemma push_mono_returns:
  assumes "adapter_ok (c, out)"
  shows "\<exists>s. push_mono env x (c, out) = Some s \<and> adapter_ok s \<and>
    cad_ratio (fst s) = cad_ratio c \<and> cad_channels (fst s) = cad_channels c \<and>
    cad_channel_index (fst s) = cad_channel_index c"
proof -
  obtain p r where pr: "cad_phase c = Fin p" "0 \<le> p" "p < 1" "cad_ratio c = Fin r" "0 \<le> r"
      "r \<le> of_nat 48000"
    using assms by (auto simp: adapter_ok_def)
  obtain c1 level where c1: "frames_ok (c1, out)" "cad_phase c1 = f_add binary32 (Fin p) (Fin r)"
    "cad_ratio c1 = cad_ratio c" "cad_channels c1 = cad_channels c"
    "cad_channel_index c1 = cad_channel_index c" "emitted (c1, out) = emitted (c, out)"
    "push_mono env x (c, out) = (case emit_samples env (c1, out) of
       None \<Rightarrow> None
     | Some (c, out) \<Rightarrow>
         Some (c\<lparr>cad_previous_mono := cad_smoothed_mono c, cad_previous_raw_mono := level\<rparr>, out))"
    by (rule push_mono_prepared [OF assms pr(1,4), of env x]) (rule that)
  obtain y where y: "cad_phase c1 = Fin y" "0 \<le> y" "y \<le> of_nat 48001"
    using phase_sum [of p r] pr c1(2) by auto
  obtain s' q where s': "emit_samples env (c1, out) = Some s'" "frames_ok s'" "cad_phase (fst s') = Fin q"
      "0 \<le> q" "q < 1" "cad_ratio (fst s') = cad_ratio c" "cad_channels (fst s') = cad_channels c"
      "cad_channel_index (fst s') = cad_channel_index c"
    using emit_samples_returns [OF c1(1), of y 48001 env] y c1(3-5) by auto
  obtain c2 out2 where "s' = (c2, out2)" by fastforce
  note s' = s' [unfolded this fst_conv]
  define c3 where "c3 = c2\<lparr>cad_previous_mono := cad_smoothed_mono c2, cad_previous_raw_mono := level\<rparr>"
  have "push_mono env x (c, out) = Some (c3, out2)"
    unfolding c1(7) s'(1) option.case prod.case c3_def ..
  moreover have "frames_ok (c3, out2)" "cad_phase c3 = Fin q" "cad_ratio c3 = cad_ratio c"
    "cad_channels c3 = cad_channels c" "cad_channel_index c3 = cad_channel_index c"
    using s'(2,3,6-8) by (simp_all add: c3_def frames_ok_def)
  ultimately show ?thesis using pr s'(4,5) by (simp add: adapter_ok_def)
qed

lemma push_mono_one:
  assumes "adapter_ok (c, out)" "cad_phase c = Fin 0" "cad_ratio c = Fin 1" "cen_room env"
    "push_mono env x (c, out) = Some s"
  shows "emitted s = emitted (c, out) + 1 \<and> cad_phase (fst s) = Fin 0"
proof -
  obtain c1 level where c1: "frames_ok (c1, out)" "cad_phase c1 = f_add binary32 (Fin 0) (Fin 1)"
    "cad_ratio c1 = cad_ratio c" "cad_channels c1 = cad_channels c"
    "cad_channel_index c1 = cad_channel_index c" "emitted (c1, out) = emitted (c, out)"
    "push_mono env x (c, out) = (case emit_samples env (c1, out) of
       None \<Rightarrow> None
     | Some (c, out) \<Rightarrow>
         Some (c\<lparr>cad_previous_mono := cad_smoothed_mono c, cad_previous_raw_mono := level\<rparr>, out))"
    by (rule push_mono_prepared [OF assms(1-3), of env x]) (rule that)
  have "cad_phase (fst (c1, out)) = Fin 1" using c1(2) rnd_int [of 1] by simp
  from emit_samples_one [OF c1(1) this assms(4)] obtain c2 out2 where
    c2: "emit_samples env (c1, out) = Some (c2, out2)" "emitted (c2, out2) = emitted (c1, out) + 1"
      "cad_phase c2 = Fin 0" by fastforce
  have "s = (c2\<lparr>cad_previous_mono := cad_smoothed_mono c2, cad_previous_raw_mono := level\<rparr>, out2)"
    using assms(5) unfolding c1(7) c2(1) option.case prod.case by simp
  with c1(6) c2(2,3) show ?thesis by (simp add: emitted_def)
qed

text \<open>The samples of one callback, and the callbacks of a run.\<close>

fun run_capture ::
  "(capture_environment \<times> f32 list) list \<Rightarrow> capture_adapter \<times> capture_output \<Rightarrow>
     (capture_adapter \<times> capture_output) option" where
  "run_capture [] s = Some s"
| "run_capture ((env, xs) # callbacks) s =
     (case push_interleaved_f32 env xs s of None \<Rightarrow> None | Some s \<Rightarrow> run_capture callbacks s)"

definition channels_ok :: "capture_adapter \<times> capture_output \<Rightarrow> bool" where
  "channels_ok s \<longleftrightarrow> adapter_ok s \<and> cad_channel_index (fst s) < cad_channels (fst s)"

lemma push_sample_returns:
  assumes "channels_ok s"
  shows "\<exists>s'. push_sample env x s = Some s' \<and> channels_ok s' \<and>
    cad_ratio (fst s') = cad_ratio (fst s) \<and> cad_channels (fst s') = cad_channels (fst s) \<and>
    cad_channel_index (fst s') = Suc (cad_channel_index (fst s)) mod cad_channels (fst s)"
proof -
  obtain c out where s: "s = (c, out)" by fastforce
  define d where "d = c\<lparr>cad_channel_samples := (cad_channel_samples c)[cad_channel_index c := x],
    cad_channel_index := cad_channel_index c + 1\<rparr>"
  have eq: "push_sample env x s =
      (if cad_channel_index d = cad_channels d
       then map_option (\<lambda>(c, out). (c\<lparr>cad_channel_index := 0\<rparr>, out))
              (push_mono env (select_channel (cad_channel_mode d) (cad_channel_samples d)) (d, out))
       else Some (d, out))"
    by (simp add: push_sample_def s d_def Let_def)
  have ok: "adapter_ok (d, out)"
    using assms by (simp add: channels_ok_def adapter_ok_def frames_ok_def s d_def)
  show ?thesis
  proof (cases "cad_channel_index d = cad_channels d")
    case False
    with ok assms show ?thesis unfolding eq by (simp add: channels_ok_def s d_def)
  next
    case True
    obtain c1 out1 where "push_mono env (select_channel (cad_channel_mode d) (cad_channel_samples d)) (d, out)
          = Some (c1, out1)" "adapter_ok (c1, out1)" "cad_ratio c1 = cad_ratio d"
        "cad_channels c1 = cad_channels d"
      using push_mono_returns [OF ok] by (metis fst_conv surj_pair)
    with True assms show ?thesis
      unfolding eq by (auto simp: channels_ok_def adapter_ok_def frames_ok_def s d_def)
  qed
qed

lemma push_sample_emits:
  assumes "channels_ok s" "cad_ratio (fst s) = Fin 1" "cad_phase (fst s) = Fin 0" "cen_room env"
    "push_sample env x s = Some s'"
  shows "cad_phase (fst s') = Fin 0 \<and>
    emitted s' = emitted s + (if Suc (cad_channel_index (fst s)) = cad_channels (fst s) then 1 else 0)"
proof -
  obtain c out where s: "s = (c, out)" by fastforce
  define d where "d = c\<lparr>cad_channel_samples := (cad_channel_samples c)[cad_channel_index c := x],
    cad_channel_index := cad_channel_index c + 1\<rparr>"
  have eq: "push_sample env x s =
      (if cad_channel_index d = cad_channels d
       then map_option (\<lambda>(c, out). (c\<lparr>cad_channel_index := 0\<rparr>, out))
              (push_mono env (select_channel (cad_channel_mode d) (cad_channel_samples d)) (d, out))
       else Some (d, out))"
    by (simp add: push_sample_def s d_def Let_def)
  have ok: "adapter_ok (d, out)" "cad_phase d = Fin 0" "cad_ratio d = Fin 1" "emitted (d, out) = emitted s"
    using assms by (simp_all add: channels_ok_def adapter_ok_def frames_ok_def s d_def emitted_def)
  show ?thesis
    using assms(5) push_mono_one [OF ok(1-3) assms(4)] ok(2,4) unfolding eq
    by (auto simp: s d_def emitted_def split: if_splits)
qed

lemma push_interleaved_returns:
  assumes "channels_ok s"
  shows "\<exists>s'. push_interleaved_f32 env xs s = Some s' \<and> channels_ok s' \<and>
    cad_ratio (fst s') = cad_ratio (fst s) \<and> cad_channels (fst s') = cad_channels (fst s)"
  using assms
proof (induction xs arbitrary: s)
  case (Cons x xs)
  from push_sample_returns [OF Cons.prems, of env x] Cons.IH show ?case by fastforce
qed simp

text \<open>At the mixer's rate each sample of the device gives one sample.\<close>

lemma push_interleaved_emits:
  assumes "channels_ok s" "cad_ratio (fst s) = Fin 1" "cad_phase (fst s) = Fin 0" "cen_room env"
    "push_interleaved_f32 env xs s = Some s'"
  shows "cad_phase (fst s') = Fin 0 \<and> cad_channel_index (fst s') < cad_channels (fst s) \<and>
    cad_channels (fst s) * emitted s' + cad_channel_index (fst s') =
      cad_channels (fst s) * emitted s + cad_channel_index (fst s) + length xs"
  using assms
proof (induction xs arbitrary: s)
  case Nil
  then show ?case by (simp add: channels_ok_def)
next
  case (Cons x xs)
  obtain s1 where s1: "push_sample env x s = Some s1" "channels_ok s1" "cad_ratio (fst s1) = Fin 1"
      "cad_channels (fst s1) = cad_channels (fst s)"
      "cad_channel_index (fst s1) = Suc (cad_channel_index (fst s)) mod cad_channels (fst s)"
    using push_sample_returns [OF Cons.prems(1), of env x] Cons.prems(2) by auto
  note e = push_sample_emits [OF Cons.prems(1-4) s1(1)]
  have IH: "cad_phase (fst s') = Fin 0 \<and> cad_channel_index (fst s') < cad_channels (fst s1) \<and>
      cad_channels (fst s1) * emitted s' + cad_channel_index (fst s') =
        cad_channels (fst s1) * emitted s1 + cad_channel_index (fst s1) + length xs"
    using Cons.IH [OF s1(2,3) _ Cons.prems(4)] e Cons.prems(5) s1(1) by simp
  have idx: "cad_channel_index (fst s) < cad_channels (fst s)"
    using Cons.prems(1) by (simp add: channels_ok_def)
  show ?case
  proof (cases "Suc (cad_channel_index (fst s)) = cad_channels (fst s)")
    case True
    with IH e s1(4,5) show ?thesis by (auto simp: algebra_simps)
  next
    case False
    with idx have "Suc (cad_channel_index (fst s)) mod cad_channels (fst s) = Suc (cad_channel_index (fst s))"
      by simp
    with IH e s1(4,5) False show ?thesis by (auto simp: algebra_simps)
  qed
qed

definition no_output :: capture_output where
  "no_output = \<lparr>cou_frames = [], cou_debug = []\<rparr>"

lemma run_capture_returns:
  assumes "channels_ok s"
  shows "\<exists>s'. run_capture callbacks s = Some s' \<and> channels_ok s' \<and>
    cad_channels (fst s') = cad_channels (fst s)"
  using assms
proof (induction callbacks arbitrary: s)
  case (Cons call callbacks)
  obtain env xs where call: "call = (env, xs)" by fastforce
  from push_interleaved_returns [OF Cons.prems, of env xs] Cons.IH show ?case
    unfolding call by fastforce
qed simp

lemma run_capture_emits:
  assumes "channels_ok s" "cad_ratio (fst s) = Fin 1" "cad_phase (fst s) = Fin 0"
    "list_all (\<lambda>(env, xs). cen_room env) callbacks" "run_capture callbacks s = Some s'"
  shows "cad_channel_index (fst s') < cad_channels (fst s) \<and>
    cad_channels (fst s) * emitted s' + cad_channel_index (fst s') =
      cad_channels (fst s) * emitted s + cad_channel_index (fst s) +
      length (concat (map snd callbacks))"
  using assms
proof (induction callbacks arbitrary: s)
  case Nil
  then show ?case by (simp add: channels_ok_def)
next
  case (Cons call callbacks)
  obtain env xs where call: "call = (env, xs)" by fastforce
  obtain s1 where s1: "push_interleaved_f32 env xs s = Some s1" "channels_ok s1"
      "cad_ratio (fst s1) = Fin 1" "cad_channels (fst s1) = cad_channels (fst s)"
    using push_interleaved_returns [OF Cons.prems(1), of env xs] Cons.prems(2) by auto
  have e: "cad_phase (fst s1) = Fin 0"
    "cad_channels (fst s) * emitted s1 + cad_channel_index (fst s1) =
      cad_channels (fst s) * emitted s + cad_channel_index (fst s) + length xs"
    using push_interleaved_emits [OF Cons.prems(1-3) _ s1(1)] Cons.prems(4) by (simp_all add: call)
  have "run_capture callbacks s1 = Some s'" using Cons.prems(5) s1(1) by (simp add: call)
  from Cons.IH [OF s1(2,3) e(1) _ this] Cons.prems(4) e(2) s1(4) show ?case by (simp add: call)
qed

lemma capture_adapter_new_ok:
  assumes "0 < rate" "rate < 2 ^ 24"
  shows "channels_ok (capture_adapter_new rate channels options, no_output)"
proof -
  obtain r where "rate_ratio rate = Fin r" "0 \<le> r" "r \<le> of_nat 48000"
    using rate_ratio_range [OF assms] by blast
  moreover have "0 < mix_samples_per_frame"
    by (simp add: mix_samples_per_frame_def pcm48_sample_rate_def frame_ms_def)
  ultimately show ?thesis
    by (simp add: channels_ok_def adapter_ok_def frames_ok_def capture_adapter_new_def no_output_def)
qed

section \<open>What the samples of the network are\<close>

text \<open>The levels of a run: one for each complete set of channel samples, with the gain of the callback
  that completed the set.\<close>

fun levels :: "nat \<Rightarrow> input_channel_mode \<Rightarrow> f32 list \<Rightarrow> (f32 \<times> f32) list \<Rightarrow> (f32 \<times> f32) list" where
  "levels n mode held [] = []"
| "levels n mode held ((gain, x) # xs) =
     (if Suc (length held) = n then (gain, select_channel mode (held @ [x])) # levels n mode [] xs
      else levels n mode (held @ [x]) xs)"

text \<open>Each level is averaged with the smoothed one before it, amplified, limited and rounded.\<close>

fun wire_samples :: "bool \<Rightarrow> f32 option \<Rightarrow> (f32 \<times> f32) list \<Rightarrow> i16 list" where
  "wire_samples limiter before [] = []"
| "wire_samples limiter before ((gain, level) # rest) =
     (let previous = (case before of None \<Rightarrow> level | Some p \<Rightarrow> p);
          smoothed = f_add binary32 (f_mul binary32 previous (dec32 (1 / 2)))
                       (f_mul binary32 level (dec32 (1 / 2)));
          mixed = f_add binary32 previous (f_mul binary32 (f_sub binary32 smoothed previous) (Fin 1));
          amplified = f_mul binary32 mixed gain
      in unit_f32_to_i16 (if limiter then soft_limit_unit amplified else amplified)
         # wire_samples limiter (Some smoothed) rest)"

text \<open>The samples a run of callbacks brings, each with the gain of its callback.\<close>

definition with_gain :: "(capture_environment \<times> f32 list) list \<Rightarrow> (f32 \<times> f32) list" where
  "with_gain callbacks = concat (map (\<lambda>(env, xs). map (Pair (cen_mic_gain env)) xs) callbacks)"

text \<open>A callback that finds room in the queue, while the server asks for no processing.\<close>

definition plain_env :: "capture_environment \<Rightarrow> bool" where
  "plain_env env \<longleftrightarrow> cen_room env \<and> \<not> capture_processing_active (cen_processing env)"

definition sent_samples :: "capture_adapter \<times> capture_output \<Rightarrow> i16 list" where
  "sent_samples s = concat (cou_frames (snd s)) @ cad_frame (fst s)"

definition smoothed_before :: "capture_adapter \<Rightarrow> f32 option" where
  "smoothed_before c = (if cad_has_previous c then Some (cad_smoothed_mono c) else None)"

text \<open>The part of the adapter the next sample depends on, besides its clock.\<close>

definition same_levels :: "capture_adapter \<Rightarrow> capture_adapter \<Rightarrow> bool" where
  "same_levels a b \<longleftrightarrow> cad_previous_mono a = cad_previous_mono b \<and>
     cad_smoothed_mono a = cad_smoothed_mono b \<and> cad_has_previous a = cad_has_previous b \<and>
     cad_input_limiter a = cad_input_limiter b \<and> cad_channel_mode a = cad_channel_mode b \<and>
     cad_channel_samples a = cad_channel_samples b"

lemma finish_frame_plain:
  assumes "plain_env env"
  shows "sent_samples (finish_frame env (c, out)) = sent_samples (c, out)"
    "same_levels (fst (finish_frame env (c, out))) c"
  using assms
  by (cases "cad_diagnostics c";
      simp add: finish_frame_def process_capture_frame_def Let_def plain_env_def sent_samples_def same_levels_def)+

lemma push_wire_sample_plain:
  assumes "plain_env env"
  shows "sent_samples (push_wire_sample env a b x (c, out)) = sent_samples (c, out) @ [unit_f32_to_i16 x]"
    "same_levels (fst (push_wire_sample env a b x (c, out))) c"
proof -
  define d where "d = c\<lparr>cad_pre_gain_stats := observe_sample a (cad_pre_gain_stats c),
                  cad_post_gain_stats := observe_sample b (cad_post_gain_stats c),
                  cad_pre_gain_frame := cad_pre_gain_frame c @ [unit_f32_to_i16 a],
                  cad_frame := cad_frame c @ [unit_f32_to_i16 x]\<rparr>"
  have eq: "push_wire_sample env a b x (c, out) =
      (if length (cad_frame d) = mix_samples_per_frame then finish_frame env (d, out) else (d, out))"
    by (simp add: push_wire_sample_def d_def)
  have d: "sent_samples (d, out) = sent_samples (c, out) @ [unit_f32_to_i16 x]" "same_levels d c"
    by (simp_all add: d_def sent_samples_def same_levels_def)
  note fin = finish_frame_plain [OF assms, of d out]
  show "sent_samples (push_wire_sample env a b x (c, out)) = sent_samples (c, out) @ [unit_f32_to_i16 x]"
    using d fin unfolding eq by simp
  show "same_levels (fst (push_wire_sample env a b x (c, out))) c"
    using d fin unfolding eq by (simp add: same_levels_def)
qed

lemma fraction_one:
  "f_sub binary32 (Fin 1)
     (f_clamp (f_div binary32 (f_sub binary32 (Fin 1) (Fin 1)) (Fin 1)) (Fin 0) (Fin 1)) = Fin 1"
proof -
  have "rnd binary32 0 = Fin 0" by (simp add: rnd_def)
  then show ?thesis using rnd_int [of 1] by (simp add: f_sub_def f_clamp_def f_gt_def)
qed

lemma emit_sample_plain:
  assumes "plain_env env" "cad_phase c = Fin 1" "cad_ratio c = Fin 1"
  shows "sent_samples (emit_sample env (c, out)) = sent_samples (c, out) @
      [unit_f32_to_i16
         (let amplified = f_mul binary32 (f_add binary32 (cad_previous_mono c)
               (f_mul binary32 (f_sub binary32 (cad_smoothed_mono c) (cad_previous_mono c)) (Fin 1)))
               (cen_mic_gain env)
          in if cad_input_limiter c then soft_limit_unit amplified else amplified)]"
    "same_levels (fst (emit_sample env (c, out))) c"
proof -
  define a where "a = f_add binary32 (cad_previous_mono c)
    (f_mul binary32 (f_sub binary32 (cad_smoothed_mono c) (cad_previous_mono c)) (Fin 1))"
  define b where "b = f_mul binary32 a (cen_mic_gain env)"
  define x where "x = (if cad_input_limiter c then soft_limit_unit b else b)"
  obtain c2 out2 where p: "push_wire_sample env a b x (c, out) = (c2, out2)" by fastforce
  have gate: "apply_silence_gate env y c = (c, y)" for y
    using assms(1) by (simp add: apply_silence_gate_def plain_env_def)
  have emit: "emit_sample env (c, out) = (c2\<lparr>cad_phase := f_sub binary32 (cad_phase c2) (Fin 1)\<rparr>, out2)"
    unfolding emit_sample_def Let_def prod.case assms(2,3) fraction_one a_def [symmetric] b_def [symmetric]
      x_def [symmetric] gate p ..
  note w = push_wire_sample_plain [OF assms(1), of a b x c out, unfolded p]
  show "sent_samples (emit_sample env (c, out)) = sent_samples (c, out) @
      [unit_f32_to_i16
         (let amplified = f_mul binary32 (f_add binary32 (cad_previous_mono c)
               (f_mul binary32 (f_sub binary32 (cad_smoothed_mono c) (cad_previous_mono c)) (Fin 1)))
               (cen_mic_gain env)
          in if cad_input_limiter c then soft_limit_unit amplified else amplified)]"
    using w(1) by (simp add: emit sent_samples_def a_def b_def x_def)
  show "same_levels (fst (emit_sample env (c, out))) c"
    using w(2) by (simp add: emit same_levels_def)
qed

text \<open>One level makes one sample.\<close>

lemma push_mono_plain:
  assumes "adapter_ok (c, out)" "cad_phase c = Fin 0" "cad_ratio c = Fin 1" "plain_env env"
    "cad_has_previous c \<Longrightarrow> cad_previous_mono c = cad_smoothed_mono c"
    "push_mono env x (c, out) = Some (c', out')"
  shows "sent_samples (c', out') = sent_samples (c, out) @
      wire_samples (cad_input_limiter c) (smoothed_before c) [(cen_mic_gain env, x)]"
    "\<And>rest. wire_samples (cad_input_limiter c) (smoothed_before c) ((cen_mic_gain env, x) # rest) =
      wire_samples (cad_input_limiter c) (smoothed_before c) [(cen_mic_gain env, x)] @
      wire_samples (cad_input_limiter c') (smoothed_before c') rest"
    "cad_has_previous c'" "cad_previous_mono c' = cad_smoothed_mono c'"
    "cad_input_limiter c' = cad_input_limiter c" "cad_channel_mode c' = cad_channel_mode c"
    "cad_channel_samples c' = cad_channel_samples c"
proof -
  define previous where "previous = (case smoothed_before c of None \<Rightarrow> x | Some p \<Rightarrow> p)"
  define smoothed where "smoothed = f_add binary32 (f_mul binary32 previous (dec32 (1 / 2)))
    (f_mul binary32 x (dec32 (1 / 2)))"
  define d where "d = (if \<not> cad_has_previous c
      then c\<lparr>cad_previous_mono := x, cad_smoothed_mono := x,
             cad_previous_raw_mono := x, cad_has_previous := True\<rparr> else c)"
  define c1 where "c1 = d\<lparr>cad_smoothed_mono :=
        f_add binary32 (f_mul binary32 (cad_smoothed_mono d) (dec32 (1 / 2)))
          (f_mul binary32 x (dec32 (1 / 2))),
      cad_phase := f_add binary32 (cad_phase d) (cad_ratio d)\<rparr>"
  have t: "suppress_keyboard_transient env x c = (c, x)"
    using assms(4) by (simp add: suppress_keyboard_transient_def plain_env_def)
  have push: "push_mono env x (c, out) = (case emit_samples env (c1, out) of
       None \<Rightarrow> None
     | Some (c, out) \<Rightarrow>
         Some (c\<lparr>cad_previous_mono := cad_smoothed_mono c, cad_previous_raw_mono := x\<rparr>, out))"
    unfolding push_mono_def prod.case t Let_def d_def [symmetric] c1_def [symmetric] ..
  have d: "cad_smoothed_mono d = previous" "cad_previous_mono d = previous" "cad_phase d = Fin 0"
    "cad_ratio d = Fin 1" "cad_has_previous d"
    using assms(2,3,5) by (auto simp: d_def previous_def smoothed_before_def)
  have c1: "cad_smoothed_mono c1 = smoothed" "cad_previous_mono c1 = previous" "cad_phase c1 = Fin 1"
    "cad_ratio c1 = Fin 1" "cad_has_previous c1" "cad_input_limiter c1 = cad_input_limiter c"
    "cad_channel_mode c1 = cad_channel_mode c" "cad_channel_samples c1 = cad_channel_samples c"
    "sent_samples (c1, out) = sent_samples (c, out)" "frames_ok (c1, out)"
    using d rnd_int [of 1] assms(1)
    by (simp_all add: c1_def smoothed_def sent_samples_def d_def adapter_ok_def frames_ok_def)
  obtain c2 out2 where e: "emit_sample env (c1, out) = (c2, out2)" by fastforce
  have phase: "cad_phase c2 = Fin 0"
    using emit_sample_facts(2) [OF c1(10), of env] by (simp add: e c1(3) f_sub_def rnd_def)
  have es: "emit_samples env (c1, out) = Some (c2, out2)"
    using phase by (subst emit_samples.simps, subst emit_samples.simps) (simp add: c1(3) e f_ge_one)
  note p = emit_sample_plain [OF assms(4) c1(3,4), of out, unfolded e c1(1,2,6) fst_conv]
  have c': "c' = c2\<lparr>cad_previous_mono := cad_smoothed_mono c2, cad_previous_raw_mono := x\<rparr>" "out' = out2"
    using assms(6) unfolding push es by simp_all
  have lv: "cad_smoothed_mono c2 = smoothed" "cad_has_previous c2" "cad_input_limiter c2 = cad_input_limiter c"
    "cad_channel_mode c2 = cad_channel_mode c" "cad_channel_samples c2 = cad_channel_samples c"
    using p(2) c1 by (simp_all add: same_levels_def)
  show "sent_samples (c', out') = sent_samples (c, out) @
      wire_samples (cad_input_limiter c) (smoothed_before c) [(cen_mic_gain env, x)]"
    using p(1) c1(9) by (simp add: c' sent_samples_def Let_def previous_def smoothed_def)
  show "wire_samples (cad_input_limiter c) (smoothed_before c) ((cen_mic_gain env, x) # rest) =
      wire_samples (cad_input_limiter c) (smoothed_before c) [(cen_mic_gain env, x)] @
      wire_samples (cad_input_limiter c') (smoothed_before c') rest" for rest
    using lv by (simp add: c' smoothed_before_def Let_def previous_def smoothed_def)
  show "cad_has_previous c'" "cad_previous_mono c' = cad_smoothed_mono c'"
    "cad_input_limiter c' = cad_input_limiter c" "cad_channel_mode c' = cad_channel_mode c"
    "cad_channel_samples c' = cad_channel_samples c"
    using lv by (simp_all add: c')
qed

text \<open>The adapter between two samples of the device, at the mixer's rate.\<close>

definition level_ok :: "capture_adapter \<times> capture_output \<Rightarrow> bool" where
  "level_ok s \<longleftrightarrow> channels_ok s \<and> cad_ratio (fst s) = Fin 1 \<and> cad_phase (fst s) = Fin 0 \<and>
     (if cad_has_previous (fst s) then cad_previous_mono (fst s) = cad_smoothed_mono (fst s) else True) \<and>
     length (cad_channel_samples (fst s)) = cad_channels (fst s)"

definition held_samples :: "capture_adapter \<Rightarrow> f32 list" where
  "held_samples c = take (cad_channel_index c) (cad_channel_samples c)"

text \<open>What the adapter still sends of the samples to come.\<close>

definition to_send :: "capture_adapter \<times> capture_output \<Rightarrow> (f32 \<times> f32) list \<Rightarrow> i16 list" where
  "to_send s xs = sent_samples s @
     wire_samples (cad_input_limiter (fst s)) (smoothed_before (fst s))
       (levels (cad_channels (fst s)) (cad_channel_mode (fst s)) (held_samples (fst s)) xs)"

lemma push_sample_plain:
  assumes "level_ok s" "plain_env env" "push_sample env x s = Some s'"
  shows "level_ok s'" "to_send s' xs = to_send s ((cen_mic_gain env, x) # xs)"
proof -
  obtain c out where s: "s = (c, out)" by fastforce
  define d where "d = c\<lparr>cad_channel_samples := (cad_channel_samples c)[cad_channel_index c := x],
    cad_channel_index := cad_channel_index c + 1\<rparr>"
  have eq: "push_sample env x s =
      (if cad_channel_index d = cad_channels d
       then map_option (\<lambda>(c, out). (c\<lparr>cad_channel_index := 0\<rparr>, out))
              (push_mono env (select_channel (cad_channel_mode d) (cad_channel_samples d)) (d, out))
       else Some (d, out))"
    by (simp add: push_sample_def s d_def Let_def)
  have ok: "channels_ok s" "cad_ratio (fst s) = Fin 1" "cad_phase (fst s) = Fin 0" "cen_room env"
    "cad_channel_index c < cad_channels c" "length (cad_channel_samples c) = cad_channels c"
    using assms(1,2) by (simp_all add: level_ok_def channels_ok_def plain_env_def s)
  have ch: "channels_ok s'" "cad_ratio (fst s') = Fin 1" "cad_channels (fst s') = cad_channels c"
    "cad_phase (fst s') = Fin 0"
    using push_sample_returns [OF ok(1), of env x] push_sample_emits [OF ok(1-4) assms(3)] assms(3) ok(2)
    by (auto simp: s)
  have held: "held_samples d = held_samples c @ [x]" "length (held_samples c) = cad_channel_index c"
    using ok(5,6) by (simp_all add: held_samples_def d_def take_Suc_conv_app_nth)
  have d: "cad_channels d = cad_channels c" "cad_channel_mode d = cad_channel_mode c"
    "cad_input_limiter d = cad_input_limiter c" "smoothed_before d = smoothed_before c"
    "sent_samples (d, out) = sent_samples s" "length (cad_channel_samples d) = cad_channels c"
    "cad_channel_index d = Suc (cad_channel_index c)" "adapter_ok (d, out)" "cad_phase d = Fin 0"
    "cad_ratio d = Fin 1"
    "cad_has_previous d \<Longrightarrow> cad_previous_mono d = cad_smoothed_mono d"
    using ok assms(1)
    by (simp_all add: d_def s smoothed_before_def sent_samples_def channels_ok_def adapter_ok_def
        frames_ok_def level_ok_def)
  show "level_ok s'" "to_send s' xs = to_send s ((cen_mic_gain env, x) # xs)"
  proof (atomize (full), cases "Suc (cad_channel_index c) = cad_channels c")
    case False
    then have s': "s' = (d, out)" using assms(3) d(1,7) unfolding eq by simp
    show "level_ok s' \<and> to_send s' xs = to_send s ((cen_mic_gain env, x) # xs)"
      using ch d held False unfolding s' by (simp add: level_ok_def to_send_def s)
  next
    case True
    define level where "level = select_channel (cad_channel_mode d) (cad_channel_samples d)"
    obtain c1 out1 where m: "push_mono env level (d, out) = Some (c1, out1)"
      and s': "s' = (c1\<lparr>cad_channel_index := 0\<rparr>, out1)"
      using assms(3) True d(1,7) unfolding eq level_def by auto
    note p = push_mono_plain [OF d(8-10) assms(2) d(11) m]
    have all: "cad_channel_samples d = held_samples c @ [x]"
      using held d(6,7) True by (simp add: held_samples_def)
    have after: "smoothed_before (c1\<lparr>cad_channel_index := 0\<rparr>) = smoothed_before c1"
      "sent_samples s' = sent_samples (c1, out1)" "held_samples (c1\<lparr>cad_channel_index := 0\<rparr>) = []"
      by (simp_all add: smoothed_before_def sent_samples_def held_samples_def s')
    have lv: "levels (cad_channels c) (cad_channel_mode c) (held_samples c) ((cen_mic_gain env, x) # xs) =
        (cen_mic_gain env, level) # levels (cad_channels c) (cad_channel_mode c) [] xs"
      using True held(2) d(2) all by (simp add: level_def)
    have "cad_channels c1 = cad_channels c" using ch(3) by (simp add: s')
    then have "to_send s' xs = sent_samples (c1, out1) @
        wire_samples (cad_input_limiter d) (smoothed_before c1)
          (levels (cad_channels c) (cad_channel_mode c) [] xs)"
      using after(2) by (simp add: to_send_def s' after(1,3) p(5,6) d(2))
    also have "\<dots> = sent_samples (d, out) @
        wire_samples (cad_input_limiter d) (smoothed_before d)
          ((cen_mic_gain env, level) # levels (cad_channels c) (cad_channel_mode c) [] xs)"
      by (simp only: p(1) p(5) append_assoc
          p(2) [of "levels (cad_channels c) (cad_channel_mode c) [] xs"])
    also have "\<dots> = to_send s ((cen_mic_gain env, x) # xs)"
      unfolding to_send_def s fst_conv lv d(3-5) [unfolded s] by simp
    finally have "to_send s' xs = to_send s ((cen_mic_gain env, x) # xs)" .
    moreover have "level_ok s'"
      using ch p(3,4,7) d(6) by (simp add: level_ok_def s')
    ultimately show "level_ok s' \<and> to_send s' xs = to_send s ((cen_mic_gain env, x) # xs)" by simp
  qed
qed

lemma push_interleaved_plain:
  assumes "level_ok s" "plain_env env" "push_interleaved_f32 env xs s = Some s'"
  shows "level_ok s' \<and> to_send s' ys = to_send s (map (Pair (cen_mic_gain env)) xs @ ys)"
  using assms
proof (induction xs arbitrary: s)
  case (Cons x xs)
  obtain s1 where s1: "push_sample env x s = Some s1" "push_interleaved_f32 env xs s1 = Some s'"
    using Cons.prems(3) by (auto split: option.splits)
  note p = push_sample_plain [OF Cons.prems(1,2) s1(1)]
  from Cons.IH [OF p(1) Cons.prems(2) s1(2)] p(2) show ?case by simp
qed simp

lemma run_capture_plain:
  assumes "level_ok s" "list_all (\<lambda>(env, xs). plain_env env) callbacks" "run_capture callbacks s = Some s'"
  shows "level_ok s' \<and> to_send s' ys = to_send s (with_gain callbacks @ ys)"
  using assms
proof (induction callbacks arbitrary: s)
  case Nil
  then show ?case by (simp add: with_gain_def)
next
  case (Cons call callbacks)
  obtain env xs where call: "call = (env, xs)" by fastforce
  obtain s1 where s1: "push_interleaved_f32 env xs s = Some s1" "run_capture callbacks s1 = Some s'"
    using Cons.prems(3) by (auto simp: call split: option.splits)
  have e: "level_ok s1 \<and> to_send s1 zs = to_send s (map (Pair (cen_mic_gain env)) xs @ zs)" for zs
    using push_interleaved_plain [OF Cons.prems(1) _ s1(1)] Cons.prems(2) by (simp add: call)
  have rest: "list_all (\<lambda>(env, xs). plain_env env) callbacks" using Cons.prems(2) by simp
  from Cons.IH [OF conjunct1 [OF e] rest s1(2)] e [of "with_gain callbacks @ ys"]
  show ?case by (simp add: call with_gain_def)
qed

lemma capture_content:
  assumes "list_all (\<lambda>(env, xs). plain_env env) callbacks"
    "run_capture callbacks (capture_adapter_new 48000 channels options, no_output) = Some s'"
  shows "sent_samples s' = wire_samples (cop_input_limiter options) None
    (levels (max channels 1) (cop_channel_mode options) [] (with_gain callbacks))"
proof -
  let ?s = "(capture_adapter_new 48000 channels options, no_output)"
  have "level_ok ?s"
    using capture_adapter_new_ok [of 48000 channels options]
    by (simp add: level_ok_def capture_adapter_new_def rate_ratio_one)
  from run_capture_plain [OF this assms, of "[]"] show ?thesis
    by (simp add: to_send_def sent_samples_def no_output_def capture_adapter_new_def held_samples_def
        smoothed_before_def)
qed

text \<open>C33. The capture of the desktop client returns from every callback, at every rate a device can
  have, and hands on whole frames only: each frame for the network and for the debug writer has the
  mixer's length, and less than a frame waits. At the mixer's own rate, when the queue takes every
  frame, one sample leaves or waits for each complete set of channel samples: none is lost or made up.
  While in addition the server asks for no processing, the samples are exactly the levels of the sets:
  the channel mode's choice of each set, averaged with the smoothed level before it, amplified by the
  gain of its callback, limited if the limiter is on, and rounded to 16 bits, in order.\<close>

theorem capture_returns_whole_frames:
  assumes "0 < rate" "rate < 2 ^ 24"
  shows "case run_capture callbacks (capture_adapter_new rate channels options, no_output) of
      None \<Rightarrow> False
    | Some (c, out) \<Rightarrow>
        list_all (\<lambda>f. length f = mix_samples_per_frame) (cou_frames out)
        \<and> list_all (\<lambda>(a, b). length a = mix_samples_per_frame \<and> length b = mix_samples_per_frame)
            (cou_debug out)
        \<and> length (cad_frame c) < mix_samples_per_frame
        \<and> (if rate = 48000 \<and> list_all (\<lambda>(env, xs). cen_room env) callbacks
           then mix_samples_per_frame * length (cou_frames out) + length (cad_frame c) =
                  length (concat (map snd callbacks)) div max channels 1
           else True)
        \<and> (if rate = 48000 \<and> list_all (\<lambda>(env, xs). plain_env env) callbacks
           then concat (cou_frames out) @ cad_frame c =
                  wire_samples (cop_input_limiter options) None
                    (levels (max channels 1) (cop_channel_mode options) [] (with_gain callbacks))
           else True)"
proof -
  let ?s = "(capture_adapter_new rate channels options, no_output)"
  note ok = capture_adapter_new_ok [OF assms, of channels options]
  obtain s' where s': "run_capture callbacks ?s = Some s'" "channels_ok s'"
    using run_capture_returns [OF ok] by blast
  have n: "emitted s' = length (concat (map snd callbacks)) div max channels 1"
    if "rate = 48000" "list_all (\<lambda>(env, xs). cen_room env) callbacks"
  proof -
    have "cad_channel_index (fst s') < max channels 1 \<and>
        max channels 1 * emitted s' + cad_channel_index (fst s') = length (concat (map snd callbacks))"
      using run_capture_emits [OF ok _ _ that(2) s'(1)] that(1)
      by (simp add: capture_adapter_new_def rate_ratio_one emitted_def no_output_def)
    then show ?thesis by (metis div_nat_eqI le_add1 mult_Suc_right add.commute nat_add_left_cancel_less)
  qed
  have content: "sent_samples s' = wire_samples (cop_input_limiter options) None
      (levels (max channels 1) (cop_channel_mode options) [] (with_gain callbacks))"
    if "rate = 48000" "list_all (\<lambda>(env, xs). plain_env env) callbacks"
    using capture_content [OF that(2)] s'(1) that(1) by simp
  show ?thesis
    using s' n content
    by (cases s')
      (auto simp: channels_ok_def adapter_ok_def frames_ok_def emitted_def sent_samples_def [of "(_, _)"])
qed

definition sample_capture_options :: capture_options where
  "sample_capture_options =
     \<lparr>cop_channel_mode = Average, cop_input_limiter = False, cop_input_transient_suppression = True,
      cop_input_silence_gate = True, cop_diagnostics = Some (capture_diagnostics_new Average),
      cop_counters = None, cop_has_tap = True\<rparr>"

text \<open>Room in the queue, unit gain, and a server that asks for no processing.\<close>

definition sample_capture_environment :: capture_environment where
  "sample_capture_environment =
     \<lparr>cen_mic_gain = Fin 1,
      cen_processing = snapshot_processing
        (store_processing (default_processing_config\<lparr>pc_mode := ModeDisabled\<rparr>)),
      cen_room = True\<rparr>"

lemma sample_levels:
  "levels 2 Average []
     (with_gain [(sample_capture_environment, [Fin 0, Fin 0, Fin 1, Fin 1, Fin 0])]) =
   [(Fin 1, Fin 0), (Fin 1, Fin 1)]"
  by code_simp

lemma sample_wire_samples: "wire_samples False None [(Fin 1, Fin 0), (Fin 1, Fin 1)] = [0, 16384]"
proof -
  have r: "rnd binary32 0 = Fin 0" "rnd binary32 1 = Fin 1" "dec32 (1 / 2) = Fin (1 / 2)"
    "rnd binary32 (1 / 2) = Fin (1 / 2)" "i16_max_f32 = Fin 32767"
    "rnd binary32 (32767 / 2) = Fin (32767 / 2)"
    using rnd_int [of 1] rnd_dyadic [of binary32 1 1] rnd_dyadic [of binary32 32767 1] binary32_fields
    by (simp_all add: rnd_def [of binary32 0] i16_max_f32_def)
  have "\<lfloor>1 / 2 :: rat\<rfloor> = 0" by (simp add: floor_eq_iff)
  then show ?thesis
    by (simp add: r Let_def f_sub_def unit_f32_to_i16_def round_half_away_def f_clamp_def f_gt_def
        to_i16_def trunc_def)
qed

lemma sample_environment_plain: "plain_env sample_capture_environment"
  by code_simp

theorem capture_returns_whole_frames_witness:
  "case run_capture [(sample_capture_environment, [Fin 0, Fin 0, Fin 1, Fin 1, Fin 0])]
      (capture_adapter_new 48000 2 sample_capture_options, no_output) of
     None \<Rightarrow> False
   | Some (c, out) \<Rightarrow> concat (cou_frames out) @ cad_frame c = [0, 16384]"
proof -
  have o: "cop_channel_mode sample_capture_options = Average"
    "cop_input_limiter sample_capture_options = False"
    by (simp_all add: sample_capture_options_def)
  have two: "max (2 :: nat) 1 = 2" by simp
  show ?thesis
    using capture_returns_whole_frames
      [of 48000 "[(sample_capture_environment, [Fin 0, Fin 0, Fin 1, Fin 1, Fin 0])]" 2
        sample_capture_options, unfolded two o sample_levels sample_wire_samples]
      sample_environment_plain
    by (simp split: option.splits prod.splits del: run_capture.simps)
qed

section \<open>Samples for the loudspeaker\<close>

text \<open>What the playback buffer hands out in order: the last sample is held where it has none.\<close>

fun drain :: "nat \<Rightarrow> i16 \<times> i16 \<Rightarrow> playback_buffer \<Rightarrow> (i16 \<times> i16) list \<times> playback_buffer" where
  "drain 0 held b = ([], b)"
| "drain (Suc n) held b =
     (case pop_or held b of (p, b) \<Rightarrow> (case drain n p b of (ps, b) \<Rightarrow> (p # ps, b)))"

lemma drain_take: "take n (fst (drain (Suc n) held b)) = fst (drain n held b)"
proof (induction n arbitrary: held b)
  case (Suc n)
  obtain p b1 where p: "pop_or held b = (p, b1)" by fastforce
  have "drain (Suc (Suc n)) held b = (p # fst (drain (Suc n) p b1), snd (drain (Suc n) p b1))"
    by (simp add: p case_prod_unfold)
  with Suc.IH [of p b1] p show ?case by (simp add: case_prod_unfold)
qed (simp add: case_prod_unfold)

lemma rnd_sample: "rnd binary32 (of_int (sint (s :: i16))) = Fin (of_int (sint s))"
  using rnd_of_int [of "sint s"] sample_range [of s] by simp

lemma rnd_zero: "rnd fmt 0 = Fin 0"
  by (simp add: rnd_def)

lemma rnd_one: "rnd binary32 1 = Fin 1"
  using rnd_int [of 1] by simp

lemma between_zero: "between (Fin 0) c n = Fin (of_int (sint c))"
proof -
  have "\<bar>sint n - sint c\<bar> < 2 ^ 24" using sample_range [of n] sample_range [of c] by (simp add: abs_if)
  then have "f_sub binary32 (i16_to_f32 n) (i16_to_f32 c) = Fin (of_int (sint n - sint c))"
    using rnd_of_int [of "sint n - sint c"] by (simp add: i16_to_f32_fin f_sub_def del: of_int_sint)
  then show ?thesis by (simp add: between_def i16_to_f32_fin rnd_zero rnd_sample del: of_int_sint)
qed

lemma round_half_away_int: "round_half_away (of_int n) = n"
proof -
  have "\<lfloor>of_int n + 1 / 2 :: rat\<rfloor> = n" "\<lfloor>of_int (- n) + 1 / 2 :: rat\<rfloor> = - n" by linarith+
  then show ?thesis by (simp add: round_half_away_def)
qed

lemma word_of_int_sint_sample: "word_of_int (sint (s :: i16)) = s"
  by simp

lemma apply_gain_one: "apply_gain (Fin (of_int (sint (s :: i16)))) (Fin 1) = s"
proof -
  have "f_clamp (Fin (of_int (sint s))) (Fin (- 32768)) (Fin 32767) = Fin (of_int (sint s))"
    using sample_range [of s] by (simp add: f_clamp_def f_gt_def del: of_int_sint)
  moreover have "trunc (of_int (sint s)) = sint s" by (simp add: trunc_def del: of_int_sint)
  ultimately show ?thesis
    using sample_range [of s]
    by (simp add: apply_gain_def rnd_sample round_half_away_int to_i16_def word_of_int_sint_sample
        del: of_int_sint)
qed

text \<open>At ratio one the phase alternates between one, before a sample, and zero, at it.\<close>

lemma next_stereo_first:
  assumes "\<not> oad_initialized a" "oad_phase a = Fin 0" "oad_ratio a = Fin 1"
    "pop_or (0, 0) b = (p, b1)" "pop_or p b1 = (q, b2)"
  shows "\<exists>a'. next_stereo (Fin 1) (a, b) = Some (p, a', b2) \<and> oad_initialized a' \<and>
    oad_phase a' = Fin 1 \<and> oad_ratio a' = Fin 1 \<and> oad_next a' = q \<and> oad_channels a' = oad_channels a"
proof -
  define a1 where "a1 = a\<lparr>oad_current := p, oad_next := q, oad_previous_left := i16_to_f32 (fst p),
    oad_previous_right := i16_to_f32 (snd p), oad_initialized := True\<rparr>"
  have init: "initialize_output (a, b) = (a1, b2)"
    by (simp add: initialize_output_def assms a1_def)
  have "advance_all (a1, b2) = Some (a1, b2)"
    by (subst advance_all.simps) (simp add: a1_def assms f_ge_one)
  then show ?thesis
    by (simp add: next_stereo_def init Let_def)
      (simp add: a1_def assms between_zero apply_gain_one rnd_one del: of_int_sint)
qed

lemma next_stereo_following:
  assumes "oad_initialized a" "oad_phase a = Fin 1" "oad_ratio a = Fin 1"
    "pop_or (oad_next a) b = (q, b1)"
  shows "\<exists>a'. next_stereo (Fin 1) (a, b) = Some (oad_next a, a', b1) \<and> oad_initialized a' \<and>
    oad_phase a' = Fin 1 \<and> oad_ratio a' = Fin 1 \<and> oad_next a' = q \<and> oad_channels a' = oad_channels a"
proof -
  define a1 where "a1 = a\<lparr>oad_current := oad_next a, oad_next := q, oad_phase := Fin 0\<rparr>"
  have step: "advance_output (a, b) = (a1, b1)"
    by (simp add: advance_output_def assms a1_def f_sub_def rnd_zero)
  have "advance_all (a, b) = Some (a1, b1)"
    by (subst advance_all.simps, subst advance_all.simps) (simp add: step, simp add: a1_def assms f_ge_one)
  then show ?thesis
    by (simp add: next_stereo_def initialize_output_def assms(1) Let_def)
      (simp add: a1_def assms between_zero apply_gain_one rnd_one del: of_int_sint)
qed

lemma fill_following:
  assumes "oad_initialized a" "oad_phase a = Fin 1" "oad_ratio a = Fin 1"
  shows "\<exists>a'. fill (Fin 1) n (a, b) = Some
      (concat (map (device_frame (oad_channels a)) (take n (oad_next a # fst (drain n (oad_next a) b)))),
       a', snd (drain n (oad_next a) b))"
  using assms
proof (induction n arbitrary: a b)
  case (Suc n)
  obtain q b1 where pop: "pop_or (oad_next a) b = (q, b1)" by fastforce
  obtain a1 where a1: "next_stereo (Fin 1) (a, b) = Some (oad_next a, a1, b1)" "oad_initialized a1"
      "oad_phase a1 = Fin 1" "oad_ratio a1 = Fin 1" "oad_next a1 = q" "oad_channels a1 = oad_channels a"
    using next_stereo_following [OF Suc.prems pop] by blast
  from Suc.IH [OF a1(2-4), of b1] show ?case
    by (auto simp: a1 pop case_prod_unfold)
qed simp

lemma output_at_mix_rate:
  "case fill (Fin 1) n (output_adapter_new 48000 channels, b) of
     None \<Rightarrow> False
   | Some (samples, a', b') \<Rightarrow>
       samples = concat (map (device_frame (max channels 1)) (fst (drain n (0, 0) b)))"
proof (cases n)
  case (Suc m)
  let ?a = "output_adapter_new 48000 channels"
  obtain p b1 where p: "pop_or (0, 0) b = (p, b1)" by fastforce
  obtain q b2 where q: "pop_or p b1 = (q, b2)" by fastforce
  have a: "\<not> oad_initialized ?a" "oad_phase ?a = Fin 0" "oad_ratio ?a = Fin 1"
    "oad_channels ?a = max channels 1"
    by (simp_all add: output_adapter_new_def rate_ratio_one)
  obtain a1 where a1: "next_stereo (Fin 1) (?a, b) = Some (p, a1, b2)" "oad_initialized a1"
      "oad_phase a1 = Fin 1" "oad_ratio a1 = Fin 1" "oad_next a1 = q" "oad_channels a1 = max channels 1"
    using next_stereo_first [OF a(1-3) p q] a(4) by auto
  obtain a2 where a2: "fill (Fin 1) m (a1, b2) = Some
      (concat (map (device_frame (max channels 1)) (take m (q # fst (drain m q b2)))), a2, snd (drain m q b2))"
    using fill_following [OF a1(2-4), of m b2] a1(5,6) by auto
  have "fst (drain m p b1) = take m (q # fst (drain m q b2))"
  proof (cases m)
    case (Suc k)
    with q have "fst (drain m p b1) = q # fst (drain k q b2)" by (simp add: case_prod_unfold)
    also have "\<dots> = take m (q # fst (drain m q b2))" unfolding Suc take_Suc_Cons drain_take ..
    finally show ?thesis .
  qed simp
  then show ?thesis by (simp add: Suc a1 a2 p case_prod_unfold)
qed simp

lemma device_frame_samples:
  "device_frame (max channels 1) = (\<lambda>(l, r).
     if channels \<le> 1 then [word_of_int ((sint l + sint r) sdiv (2 :: int))]
     else l # r # replicate (channels - 2) 0)"
  by (auto simp: device_frame_def fun_eq_iff max_def simp del: of_int_sint)

text \<open>C34. The loudspeaker at the mixer's rate and unit gain is given exactly what the playback buffer
  hands out, in order and without change, the last sample being held when the buffer runs dry: both
  sides to the first two channels, their mean to a single one.\<close>

theorem output_is_exact_at_mix_rate:
  "case fill (Fin 1) n (output_adapter_new 48000 channels, b) of
     None \<Rightarrow> False
   | Some (samples, a', b') \<Rightarrow>
       samples = concat (map (\<lambda>(l, r).
           if channels \<le> 1 then [word_of_int ((sint l + sint r) sdiv (2 :: int))]
           else l # r # replicate (channels - 2) 0)
         (fst (drain n (0, 0) b)))"
  using output_at_mix_rate [where n = n and channels = channels and b = b] by (simp only: device_frame_samples)

end
