(* ===== verification/Bridge_Client.thy ===== *)
theory Bridge_Client
  imports Bridge_App Capture_Pipeline
begin

text \<open>
  The bridge program (\<open>clients/bridge/src/main.rs\<close>): what it announces to the server, its start, its
  tasks, and its device adapters, which resample between a device's rate and the mixer's. The command
  line parser, devices and sockets are not modelled: a task's step has their outcomes as arguments.
\<close>

section \<open>Start\<close>

record bridge_cli =
  bcl_endpoints :: endpoint_args
  bcl_user_id :: "user_id option"
  bcl_name :: string
  bcl_mode :: bridge_mode
  bcl_tx_channels :: "channel_id list"
  bcl_listen_channels :: "channel_id list"
  bcl_codec :: codec
  bcl_opus_profile :: opus_profile
  bcl_stereo :: bool
  bcl_input_gain :: f32
  bcl_output_gain :: f32
  bcl_note :: string

definition bridge_endpoint_args :: "resolver \<Rightarrow> endpoint_args \<Rightarrow> string + endpoint_args" where
  "bridge_endpoint_args resolve args =
     (case ea_server_host args of
        None \<Rightarrow> Inr args
      | Some name \<Rightarrow>
          (case validate_server_host name of
             Inl e \<Rightarrow> Inl e
           | Inr host \<Rightarrow>
               let default_control = ''ws://'' @ default_server_host @ '':'' @ show_nat default_control_port
               in case (if ea_server args = default_audio_addr
                        then resolve_server_audio_addr resolve host else Inr (ea_server args)) of
                    Inl e \<Rightarrow> Inl e
                  | Inr a \<Rightarrow> Inr (args\<lparr>ea_server := a,
                      ea_control := (if ea_control args = default_control
                                     then control_url host else ea_control args)\<rparr>)))"







section \<open>Tasks\<close>

text \<open>A registration every two seconds, the status every five and the telemetry every second. The
  first encoding that fails ends the bridge.\<close>

definition bridge_register_step :: "client_config \<Rightarrow> u16 \<Rightarrow> u16 \<times> (packet_error + u8 list)" where
  "bridge_register_step cfg seq = (seq + 1, packet_encode (registration (cc_user_id cfg) (cc_codec cfg) seq))"

record bridge_status_config =
  bsc_mode :: bridge_mode
  bsc_input_device :: "string option"
  bsc_output_device :: "string option"
  bsc_input_gain :: f32
  bsc_output_gain :: f32
  bsc_note :: string

definition bridge_status_snapshot :: "client_config \<Rightarrow> bridge_status_config \<Rightarrow> bridge_status" where
  "bridge_status_snapshot cfg b =
     \<lparr>br_mode = bsc_mode b, br_input_device = bsc_input_device b, br_output_device = bsc_output_device b,
      br_input_gain = bsc_input_gain b, br_output_gain = bsc_output_gain b, br_tx = cc_tx cfg,
      br_listen = cc_listen cfg, br_note = bsc_note b\<rparr>"

definition bridge_status_message :: "client_config \<Rightarrow> bridge_status_config \<Rightarrow> control_message" where
  "bridge_status_message cfg b = BridgeStatus (cc_user_id cfg) (bridge_status_snapshot cfg b)"

definition basic_client_telemetry ::
  "string \<Rightarrow> playback_stats \<Rightarrow> client_telemetry_transport_status \<Rightarrow> capture_health_status" where
  "basic_client_telemetry kind playback transport =
     capture_health_with_client_telemetry
       (default_capture_health\<lparr>ch_adc_input := kind, ch_capture_channel := ''mono''\<rparr>)
       kind playback transport ''running'' None"

definition bridge_telemetry_message ::
  "client_config \<Rightarrow> playback_buffer \<Rightarrow> client_counters \<Rightarrow> nat \<Rightarrow> control_message" where
  "bridge_telemetry_message cfg playback counters elapsed_ms =
     CaptureHealth (cc_user_id cfg)
       ((basic_client_telemetry ''bridge'' (playback_stats_of playback) counters)
          \<lparr>ch_uptime_ms := saturate elapsed_ms\<rparr>)"

text \<open>A frame goes to each target; the first encoding or sending that fails ends the bridge.\<close>

fun bridge_send_targets ::
  "user_id \<Rightarrow> u32 \<Rightarrow> u8 list \<Rightarrow> audio_target list \<Rightarrow> bool list \<Rightarrow> send_task \<Rightarrow>
     send_task \<times> u8 list list \<times> bool" where
  "bridge_send_targets u timestamp payload [] oks t = (t, [], True)"
| "bridge_send_targets u timestamp payload (target # targets) oks t =
     (let packet = \<lparr>pkt_user_id = u, pkt_target = target, pkt_codec = sn_codec t, pkt_seq = sn_seq t,
                    pkt_timestamp = timestamp, pkt_payload = payload\<rparr>;
          t = t\<lparr>sn_seq := sn_seq t + 1\<rparr>
      in case packet_encode packet of
           Inl _ \<Rightarrow> (t\<lparr>sn_counters := record_packet_encode_error (sn_counters t)\<rparr>, [], False)
         | Inr bytes \<Rightarrow>
             if oks \<noteq> [] \<and> \<not> hd oks
             then (t\<lparr>sn_counters := record_tx_send_failure (sn_counters t)\<rparr>, [], False)
             else (case bridge_send_targets u timestamp payload targets (tl oks)
                       (t\<lparr>sn_counters := record_tx_packet (sn_counters t)\<rparr>) of
                     (t, sent, ok) \<Rightarrow> (t, bytes # sent, ok)))"

text \<open>The result tells whether the bridge goes on.\<close>

definition bridge_capture_step ::
  "(codec \<Rightarrow> opus_profile \<Rightarrow> bool) \<Rightarrow> client_codec_libs \<Rightarrow> client_config \<Rightarrow> i16 list \<Rightarrow> bool list \<Rightarrow>
     send_task \<Rightarrow> send_task \<times> u8 list list \<times> bool" where
  "bridge_capture_step refuses libs cfg frame oks t =
     (let targets = client_tx_targets cfg; codec = cc_codec cfg; profile = cc_opus_profile cfg;
          switch = (codec \<noteq> sn_codec t \<or> profile \<noteq> sn_opus_profile t)
      in if targets = [] then (t, [], True)
         else if switch \<and> refuses codec profile then (t, [], False)
         else let t = (if switch then t\<lparr>sn_codec := codec, sn_opus_profile := profile\<rparr> else t)
              in case client_encode libs (sn_codec t) (sn_opus_profile t) frame of
                   Inl _ \<Rightarrow> (t\<lparr>sn_counters := record_codec_drop (sn_counters t)\<rparr>, [], False)
                 | Inr payload \<Rightarrow>
                     bridge_send_targets (cc_user_id cfg) (sn_timestamp t) payload targets oks
                       (t\<lparr>sn_timestamp := sn_timestamp t + of_nat (codec_samples_per_frame (sn_codec t))\<rparr>))"

definition bridge_receive_datagram ::
  "client_codec_libs \<Rightarrow> client_config \<Rightarrow> u8 list \<Rightarrow> client_counters \<times> playback_buffer \<Rightarrow>
     client_counters \<times> playback_buffer" where
  "bridge_receive_datagram libs cfg datagram s =
     (case s of (counters, playback) \<Rightarrow>
        (case packet_decode (take max_packet_bytes datagram) of
           Inl _ \<Rightarrow> (record_malformed_packet counters, playback)
         | Inr packet \<Rightarrow>
             let counters = record_udp_rx_packet counters;
                 channels = (if stereo_active_for_codec (cc_stereo cfg) (cc_codec cfg)
                               \<and> (pkt_codec packet = Pcm48 \<or> pkt_codec packet = Opus) then 2 else 1)
             in case decode_with_channels libs (pkt_codec packet) (cc_opus_profile cfg)
                       (pkt_payload packet) channels of
                  Inl _ \<Rightarrow> (record_decode_error counters, playback)
                | Inr samples \<Rightarrow> (counters, push_frame samples channels playback)))"

section \<open>Device adapters\<close>

definition gained_sample :: "i16 \<Rightarrow> f32 \<Rightarrow> i16" where
  "gained_sample s gain =
     to_i16 (f_round (f_clamp (f_mul binary32 (i16_to_f32 s) gain) (Fin (- 32768)) (Fin 32767)))"

record bridge_capture =
  bcp_input_rate :: nat
  bcp_channels :: nat
  bcp_frame :: "i16 list"
  bcp_counters :: client_counters

definition bridge_capture_new :: "nat \<Rightarrow> nat \<Rightarrow> client_counters \<Rightarrow> bridge_capture" where
  "bridge_capture_new rate channels counters =
     \<lparr>bcp_input_rate = rate, bcp_channels = max channels 1, bcp_frame = [], bcp_counters = counters\<rparr>"

definition input_frame_len :: "bridge_capture \<Rightarrow> nat" where
  "input_frame_len c = bcp_input_rate c * frame_ms div 1000"

text \<open>One sample of a callback, at its position: those of the first channel are kept. A full frame goes
  to the sender, resampled; \<open>room\<close> tells whether its queue takes it.\<close>

definition bridge_capture_sample ::
  "codec_libs \<Rightarrow> f32 \<Rightarrow> bool \<Rightarrow> nat \<Rightarrow> i16 \<Rightarrow> bridge_capture \<Rightarrow> bridge_capture \<times> i16 list option" where
  "bridge_capture_sample libs gain room index s c =
     (let c = (if index mod bcp_channels c = 0
               then c\<lparr>bcp_frame := bcp_frame c @ [gained_sample s gain]\<rparr> else c);
          n = input_frame_len c
      in if n \<le> length (bcp_frame c)
         then let out = resample_linear libs (take n (bcp_frame c)) (bcp_input_rate c) mix_sample_rate;
                  c = c\<lparr>bcp_frame := drop n (bcp_frame c)\<rparr>
              in if room then (c, Some out)
                 else (c\<lparr>bcp_counters := record_tx_queue_drop (bcp_counters c)\<rparr>, None)
         else (c, None))"

fun bridge_push_interleaved ::
  "codec_libs \<Rightarrow> f32 \<Rightarrow> nat \<Rightarrow> (i16 \<times> bool) list \<Rightarrow> bridge_capture \<Rightarrow> bridge_capture \<times> i16 list list" where
  "bridge_push_interleaved libs gain index [] c = (c, [])"
| "bridge_push_interleaved libs gain index ((s, room) # rest) c =
     (case bridge_capture_sample libs gain room index s c of
        (c, out) \<Rightarrow>
          (case bridge_push_interleaved libs gain (index + 1) rest c of
             (c, outs) \<Rightarrow> (c, (case out of None \<Rightarrow> outs | Some frame \<Rightarrow> frame # outs))))"

record bridge_output =
  bop_output_rate :: nat
  bop_channels :: nat
  bop_resampled :: "i16 list"
  bop_index :: nat

definition bridge_output_new :: "nat \<Rightarrow> nat \<Rightarrow> bridge_output" where
  "bridge_output_new rate channels =
     \<lparr>bop_output_rate = rate, bop_channels = max channels 1, bop_resampled = [], bop_index = 0\<rparr>"

definition half_sum :: "i16 \<Rightarrow> i16 \<Rightarrow> i16" where
  "half_sum l r = word_of_int ((sint l + sint r) sdiv (2 :: int))"

text \<open>A frame of the mixer's rate, both sides averaged; silence where the buffer has nothing.\<close>

fun pop_mix :: "nat \<Rightarrow> playback_buffer \<Rightarrow> i16 list \<times> playback_buffer" where
  "pop_mix 0 b = ([], b)"
| "pop_mix (Suc n) b =
     (case pop_stereo b of
        (s, b) \<Rightarrow>
          (case pop_mix n b of
             (rest, b) \<Rightarrow> ((case s of None \<Rightarrow> half_sum 0 0 | Some (l, r) \<Rightarrow> half_sum l r) # rest, b)))"

text \<open>The next frame of the device: the same sample on all its channels.\<close>

definition bridge_fill_frame ::
  "codec_libs \<Rightarrow> f32 \<Rightarrow> nat \<Rightarrow> bridge_output \<times> playback_buffer \<Rightarrow>
     i16 list \<times> bridge_output \<times> playback_buffer" where
  "bridge_fill_frame libs gain width s =
     (case s of (o1, b) \<Rightarrow>
        let (o1, b) =
              (if length (bop_resampled o1) \<le> bop_index o1
               then (case pop_mix mix_samples_per_frame b of
                       (mix, b) \<Rightarrow>
                         (o1\<lparr>bop_resampled := resample_linear libs mix mix_sample_rate (bop_output_rate o1),
                             bop_index := 0\<rparr>, b))
               else (o1, b));
            raw = (if bop_index o1 < length (bop_resampled o1) then bop_resampled o1 ! bop_index o1 else 0)
        in (replicate width (gained_sample raw gain), o1\<lparr>bop_index := bop_index o1 + 1\<rparr>, b))"

section \<open>A bridge and its server\<close>




end
