(* ===== verification/Spec2Isabelle.thy ===== *)
theory Spec2Isabelle
  imports Receiver_Run Client_Core Client_Audio Netem Pi_Gpio Admin_Warnings Transcription_Control Bridge_Client
begin

text \<open>
  A verification development beside the Open Broadcast Intercom: a server that mixes the audio of
  intercom stations and routes it by channel, direct call, button, alert and emergency, and the
  programs that talk to it. The implementation is a Rust workspace; this development models the
  shared protocol crate (\<open>common\<close>), the server (\<open>server\<close>), the client core and the desktop client
  (\<open>clients/core\<close>, \<open>clients/desktop\<close>), the application around it (\<open>clients/app\<close>), the bridge and its
  launcher (\<open>clients/bridge\<close>, \<open>clients/bridge-app\<close>), the GPIO button daemon (\<open>clients/pi-gpio\<close>) and
  the network emulator (\<open>tools/netem\<close>).

  \<^bold>\<open>How the program works.\<close> A client opens a WebSocket control connection and says hello; the server
  decides which user the device is (enrollment), gives it its stored configuration, and from then on
  applies its control messages to one shared state (\<open>ServerState\<close>), pushing configuration, presence,
  call, alert and emergency events to whoever is concerned. Audio travels in UDP datagrams with a
  17-byte header: the receiver accepts the datagrams of enrolled users, decodes and processes them and
  queues the frames per sender; every 20 ms the mixer takes one frame per sender and sends every
  listener its own mix. A client captures its microphone, sends each frame to its current targets,
  and plays the mixes it receives through a jitter buffer; its local interface turns requests of
  its user into control messages. An administrator edits channels, devices, client configurations
  and presets, raises alerts and announcements, records, transcribes and downloads models.

  \<^bold>\<open>Theories, in the order of the code's layers.\<close>

  \<^item> Prelude: machine types, \<open>HashMap\<close> as an association list (its order is the iteration order),
    \<open>Vec\<close> and string functions, shared lemmas. Interfaces: the contracts (locales) several
    components provide: \<open>normaliser\<close> and \<open>keyed_normaliser\<close>, \<open>wire_codec\<close>, \<open>step_machine\<close> and
    \<open>bounded_fifo\<close>. Each is interpreted on the program's own operations where they are defined.
    Float32, Float\_Bounds: the IEEE arithmetic of gains and samples, as exact rationals with
    rounding, and the bounds on rounding.
  \<^item> \<open>common/src/lib.rs\<close>: Protocol (\<open>AudioPacket\<close>, codecs, targets, PCM payloads), Control\_Types
    (\<open>ControlMessage\<close>, \<open>ControlEvent\<close> and what they carry), Telemetry (health reports).
  \<^item> \<open>server/src/lib.rs\<close>, configuration: Normalize and Admin\_State (\<open>normalize_*\<close>, \<open>sorted_*\<close>,
    \<open>normalize_admin_state\<close>): the normal forms of configuration values and of the stored state.
  \<^item> \<open>server/src/lib.rs\<close>, control: Server\_Session and Server\_State (\<open>Session\<close>, \<open>ServerState\<close>, what a
    session's talk state authorises, snapshots and pushed events); Desired\_Config, Enrollment, Alerts,
    Calls, Buttons, Control (the handlers, \<open>apply_control\<close> on every message, the life of a
    connection); Admin\_Api and Admin\_Warnings (the administrator's handlers and warnings).
  \<^item> \<open>server/src/lib.rs\<close>, audio: Audio\_Queues, Audio\_Levels, Codecs, Audio\_Ingest (the receive loop
    \<open>run_audio_receiver\<close>), Voice\_Processing (\<open>AudioProcessorBank\<close>), Receiver\_Run (the receive loop
    with its processor over any datagrams), Mixer (a tick of \<open>run_audio_mixer\<close>), Server\_Run
    (everything above interleaved on one state).
  \<^item> \<open>server/src/lib.rs\<close>, recording: Recording (sessions, transcripts), Transcription (chunker, job
    queues), Transcription\_Control (starting, stopping, the pool of workers), Model\_Catalog (checks and
    downloads).
  \<^item> \<open>clients/core/src\<close>: Client\_Core (client state and the control connection's task),
    Client\_Playback (jitter buffer), Client\_Audio (decoding), Client\_Endpoints (server names and URLs).
  \<^item> \<open>clients/desktop/src/lib.rs\<close>: Client\_Api (local requests and their lockout), Desktop\_Client (HTTP
    routes, start, send and receive tasks), Capture\_Pipeline (from the microphone to frames and from the
    playback buffer to the loudspeaker).
  \<^item> \<open>clients/app/src/lib.rs\<close>: App\_Settings, App\_Runtime (settings file, launch, mobile runtime),
    Mdns (discovery). \<open>clients/bridge-app/src/lib.rs\<close>: Bridge\_App. \<open>clients/bridge/src/main.rs\<close>:
    Bridge\_Client. \<open>clients/pi-gpio/src/main.rs\<close>: Pi\_Gpio. \<open>tools/netem/src/main.rs\<close>: Netem.

  \<^bold>\<open>How state and effects are modelled.\<close> Structs are records with a field per field of the source, enums
  are datatypes with its constructors, \<open>Result\<close> is a sum whose left side is the error. The source
  guards each field of its shared state with a lock of its own, and a handler takes and releases several
  of them; here a handler is one function on the whole state. That a handler runs without another
  in between is thus a choice of the model: what two handlers do between each other's locks is not
  covered. Between handlers every interleaving is: connections and their messages, datagrams, ticks and
  requests are lists of steps (\<open>step_machine\<close>), and invariants are proved for all runs. Clocks and the
  outcomes of file writes are in an environment that every step receives; events sent to open control
  connections are appended to a log. Two additions are not in the source: \<open>ba_processes\<close> of Bridge\_App,
  the bridge processes that live (the launcher's children are started with \<open>kill_on_drop\<close>, so dropping
  one kills it), and the parameter \<open>lax\<close> of the session invariants, the codecs that may be an output
  codec although the client does not support them (none, or ADPCM once a datagram carried it).

  \<^bold>\<open>Parameters.\<close> Code that is not in the repository is an argument: the Opus library and the \<open>rubato\<close>
  resampler (record \<open>codec_libs\<close>), the Whisper library, speech synthesis, \<open>f32::log10\<close>, base64, URL and
  JSON parsing, name resolution, the outcomes of files, sockets, processes and devices. No law about them
  is assumed unless a property names it as a hypothesis; where one does, its witness uses a concrete function.

  \<^bold>\<open>What the lemmas show.\<close> Configuration: normal forms are reached and are fixed points, identifiers stay
  unique. Control: sessions stay consistent over every run, lockout is enforced, each handler's
  effect on every branch, an abstract alert specification the handlers refine, round trips of button
  presses, silence after a disconnect. Server audio: packet and payload round trips with the exact
  set of accepted datagrams, queues that keep the newest frames, who hears whom, the exact
  datagrams of a tick, limiter bounds, the voice gate as a condition on its history. Recording: complete
  recordings, bounded transcripts, workers that end. Clients: every request is answered once, client and
  server agree on lockout and on transmit targets, audio arrives from the microphone at the allowed
  targets and from the mixer at the loudspeaker, sample for sample where no codec or resampling is between. Applications:
  settings are saved completely or not at all, starts end as their checks decide, one process per
  bridge route, and the mDNS parser stays inside its datagram.

  \<^bold>\<open>Bounds.\<close> No definition uses fuel. Recursion is structural or has a measure, but for the two
  loops of the resamplers in Capture\_Pipeline (\<open>emit_samples\<close> and \<open>advance_all\<close>), whose end depends on
  floating-point values: they are \<open>partial_function (option)\<close>; the first is shown to return for every
  rate below 16777216 Hz, the second at the mixer's rate. Counters that the program keeps in 64 bits are natural
  numbers (they count frames and events from the start of the process), but where the code saturates
  them; identifiers, sequence numbers, timestamps and payload lengths are words of their width. Strings
  range over the code points U+0000 to U+00FF.

  \<^bold>\<open>Not modelled.\<close> The JSON text of messages and files (\<open>serde\<close>), WebSocket, UDP and HTTP transport, the
  Whisper, RNNoise, WebRTC and DeepFilterNet engines with the stages that wrap them, the text preparation
  of the built-in speech synthesis, devices, windows and pages, \<open>clap\<close>'s reading of arguments, scope ids
  of IPv6 addresses, the Pi client (it repeats the desktop client's local interface and tasks), the
  benchmark and the administration command line: they are input and output, third-party code or
  repetitions.
\<close>

end
